(* ===== verification/Prelude.thy ===== *)
theory Prelude
  imports Main "HOL-Library.Word" "HOL-Library.AList"
begin

text \<open>
  Shared vocabulary of the development: errors as values, Go maps as association lists, and
  instants of time. A Go function that returns only an \<^verbatim>\<open>error\<close> is a HOL function into
  \<open>'e option\<close> (\<open>None\<close> is \<^verbatim>\<open>nil\<close>); one that returns a value and an error is a function into
  \<open>'e + 'a\<close> (\<open>Inl\<close> is the error). A Go map is an association list with distinct keys, so that
  the loops that range over a map stay executable.
\<close>

named_theorems err_simps \<open>unfolding of the error-sequencing combinators\<close>
named_theorems frame_simps \<open>fields an operation leaves alone\<close>

type_synonym instant = int
  \<comment> \<open>nanoseconds since the zero \<^verbatim>\<open>time.Time\<close> (0001-01-01 00:00:00 UTC)\<close>
type_synonym duration = int \<comment> \<open>nanoseconds, \<^verbatim>\<open>time.Duration\<close>\<close>
type_synonym uint64 = "64 word"
type_synonym uint32 = "32 word"
type_synonym ('k, 'v) gomap = "('k \<times> 'v) list"

section \<open>Sequencing of checks\<close>

text \<open>\<^verbatim>\<open>if cond { return err }\<close>\<close>

definition fail_if :: "bool \<Rightarrow> 'e \<Rightarrow> 'e option" where
  "fail_if b e = (if b then Some e else None)"

text \<open>A run of checks, each \<^verbatim>\<open>if err := ...; err != nil { return err }\<close>: the first error wins.\<close>

fun first_err :: "'e option list \<Rightarrow> 'e option" where
  "first_err [] = None"
| "first_err (None # cs) = first_err cs"
| "first_err (Some e # cs) = Some e"

text \<open>\<^verbatim>\<open>x, err := f(); if err != nil { return err }; ...\<close>\<close>

fun bindE :: "'e + 'a \<Rightarrow> ('a \<Rightarrow> 'e + 'b) \<Rightarrow> 'e + 'b" where
  "bindE (Inl e) f = Inl e"
| "bindE (Inr x) f = f x"

text \<open>\<^verbatim>\<open>if err := check(); err != nil { return ..., err }; ...\<close>\<close>

definition orFail :: "'e option \<Rightarrow> ('e + 'b) \<Rightarrow> 'e + 'b" where
  "orFail c k = (case c of Some e \<Rightarrow> Inl e | None \<Rightarrow> k)"

lemma fail_if_None [simp, err_simps]: "fail_if b e = None \<longleftrightarrow> \<not> b"
  by (simp add: fail_if_def)

lemma fail_if_Some [simp]: "fail_if b e = Some e' \<longleftrightarrow> b \<and> e' = e"
  by (auto simp: fail_if_def)

lemma fail_if_False [simp]: "fail_if False e = None"
  by (simp add: fail_if_def)

lemma fail_if_True [simp]: "fail_if True e = Some e"
  by (simp add: fail_if_def)

lemma first_err_None [err_simps]: "first_err cs = None \<longleftrightarrow> (\<forall>c \<in> set cs. c = None)"
  by (induction cs rule: first_err.induct) auto

lemma first_err_Cons_None [simp]: "first_err (c # cs) = None \<longleftrightarrow> c = None \<and> first_err cs = None"
  by (cases c) auto

lemma first_err_append_None [simp]:
  "first_err (cs @ ds) = None \<longleftrightarrow> first_err cs = None \<and> first_err ds = None"
  by (auto simp: first_err_None)

lemma first_err_map_None [simp]: "first_err (map f xs) = None \<longleftrightarrow> (\<forall>x \<in> set xs. f x = None)"
  by (auto simp: first_err_None)

lemma first_err_Some_mem: "first_err cs = Some e \<Longrightarrow> Some e \<in> set cs"
  by (induction cs rule: first_err.induct) auto

lemma first_err_all_same:
  "\<forall>c \<in> set cs. c = None \<or> c = Some e \<Longrightarrow> first_err cs = None \<or> first_err cs = Some e"
  by (induction cs rule: first_err.induct) auto

lemma bindE_Inr [simp, err_simps]: "bindE m f = Inr y \<longleftrightarrow> (\<exists>x. m = Inr x \<and> f x = Inr y)"
  by (cases m) auto

lemma bindE_Inl: "bindE m f = Inl e \<longleftrightarrow> m = Inl e \<or> (\<exists>x. m = Inr x \<and> f x = Inl e)"
  by (cases m) auto

lemma orFail_Inr [simp, err_simps]: "orFail c k = Inr y \<longleftrightarrow> c = None \<and> k = Inr y"
  by (cases c) (auto simp: orFail_def)

lemma orFail_Inl: "orFail c k = Inl e \<longleftrightarrow> c = Some e \<or> c = None \<and> k = Inl e"
  by (cases c) (auto simp: orFail_def)

lemma orFail_None [simp]: "orFail None k = k"
  by (simp add: orFail_def)

lemma orFail_Some [simp]: "orFail (Some e) k = Inl e"
  by (simp add: orFail_def)

section \<open>Go maps\<close>

definition map_get :: "('k, 'v) gomap \<Rightarrow> 'k \<Rightarrow> 'v option" where
  "map_get m k = map_of m k"

definition map_put :: "'k \<Rightarrow> 'v \<Rightarrow> ('k, 'v) gomap \<Rightarrow> ('k, 'v) gomap" where
  "map_put k v m = AList.update k v m"

definition map_wf :: "('k, 'v) gomap \<Rightarrow> bool" where
  "map_wf m = distinct (map fst m)"

lemma map_get_put [simp]: "map_get (map_put k v m) k' = (if k' = k then Some v else map_get m k')"
  by (simp add: map_get_def map_put_def update_conv')

lemma map_wf_put [simp]: "map_wf m \<Longrightarrow> map_wf (map_put k v m)"
  by (simp add: map_wf_def map_put_def distinct_update)

lemma map_wf_Nil [simp]: "map_wf []"
  by (simp add: map_wf_def)

lemma map_get_Nil [simp]: "map_get [] k = None"
  by (simp add: map_get_def)

lemma map_get_mem: "map_get m k = Some v \<Longrightarrow> (k, v) \<in> set m"
  by (simp add: map_get_def map_of_SomeD)

lemma map_wf_get_iff: "map_wf m \<Longrightarrow> (k, v) \<in> set m \<longleftrightarrow> map_get m k = Some v"
  by (simp add: map_wf_def map_get_def)

lemma map_put_mem:
  "map_wf m \<Longrightarrow> (k', v') \<in> set (map_put k v m) \<longleftrightarrow>
     (if k' = k then v' = v else (k', v') \<in> set m)"
  by (auto simp: map_wf_get_iff)

lemma list_all_map_iff:
  "map_wf m \<Longrightarrow> list_all P m \<longleftrightarrow> (\<forall>k v. map_get m k = Some v \<longrightarrow> P (k, v))"
  by (auto simp: list_all_iff map_wf_get_iff)

lemma list_all_map_put:
  "map_wf m \<Longrightarrow> list_all P (map_put k v m) \<longleftrightarrow>
     P (k, v) \<and> (\<forall>k' v'. k' \<noteq> k \<longrightarrow> map_get m k' = Some v' \<longrightarrow> P (k', v'))"
  by (auto simp: list_all_map_iff)

section \<open>Instants and words\<close>

definition second :: duration where
  "second = 10 ^ 9"

definition seconds :: "uint32 \<Rightarrow> duration" where
  \<comment> \<open>\<^verbatim>\<open>time.Duration(n) * time.Second\<close>; it fits 63 bits for every uint32 \<open>n\<close>\<close>
  "seconds n = int (unat n) * second"

lemma seconds_nonneg [simp]: "0 \<le> seconds n"
  by (simp add: seconds_def second_def)

lemma seconds_fits: "seconds n < 2 ^ 63"
proof -
  have "unat n < 2 ^ 32" using unsigned_less [of n, where ?'a = nat] by simp
  then have "int (unat n) < 2 ^ 32"
    by (metis of_nat_less_iff of_nat_numeral of_nat_power)
  then have "int (unat n) * 10 ^ 9 \<le> 2 ^ 32 * 10 ^ 9" by (intro mult_right_mono) auto
  then show ?thesis by (simp add: seconds_def second_def)
qed

lemma unat_succ:
  fixes w :: "'a::len word"
  assumes "w + 1 \<noteq> 0"
  shows "unat (w + 1) = Suc (unat w)"
  using assms unatSuc [of w] by (simp add: add.commute)

lemma word_succ_gt:
  fixes w :: "'a::len word"
  assumes "w + 1 \<noteq> 0"
  shows "w < w + 1"
  using unat_succ [OF assms] by (simp add: word_less_nat_alt)

end
