(* ===== verification/GoText.thy ===== *)
theory GoText
  imports Prelude
begin

text \<open>
  The textual layer the services share: the identifier pattern, SHA-256 digests in their
  canonical text form, and the canonical JSON text that \<^verbatim>\<open>json.Marshal\<close> produces for the
  values the services hash. A Go string is a list of bytes, HOL's \<open>char list\<close>. The hash
  function itself is a parameter \<open>sha256\<close> of every definition that hashes; no property relies
  on more of it than that its result has 32 bytes, unless the property names collision freedom
  on the values involved as a hypothesis.
\<close>

section \<open>Bytes\<close>

definition byte :: "char \<Rightarrow> nat" where
  "byte c = of_char c"

definition is_digit :: "char \<Rightarrow> bool" where
  "is_digit c = (48 \<le> byte c \<and> byte c \<le> 57)"

definition is_upper :: "char \<Rightarrow> bool" where
  "is_upper c = (65 \<le> byte c \<and> byte c \<le> 90)"

definition is_lower :: "char \<Rightarrow> bool" where
  "is_lower c = (97 \<le> byte c \<and> byte c \<le> 122)"

definition is_alnum :: "char \<Rightarrow> bool" where
  "is_alnum c = (is_digit c \<or> is_upper c \<or> is_lower c)"

text \<open>\<^verbatim>\<open>strings.ToLower\<close> on the ASCII range; the callers only compare its result with strings that
  contain no other bytes.\<close>

definition to_lower :: "char \<Rightarrow> char" where
  "to_lower c = (if is_upper c then char_of (byte c + 32) else c)"

section \<open>Identifiers\<close>

text \<open>The pattern \<^verbatim>\<open>^[A-Za-z0-9][A-Za-z0-9._:/-]{0,127}$\<close>.\<close>

definition ident_char :: "char \<Rightarrow> bool" where
  "ident_char c = (is_alnum c \<or> c \<in> set ''._:/-'')"

definition validIdentifier :: "string \<Rightarrow> bool" where
  "validIdentifier value =
     (case value of [] \<Rightarrow> False
      | c # cs \<Rightarrow> is_alnum c \<and> length cs \<le> 127 \<and> list_all ident_char cs)"

section \<open>Digests\<close>

definition hex_digit :: "nat \<Rightarrow> char" where
  "hex_digit n = (if n < 10 then char_of (48 + n) else char_of (87 + n))"

text \<open>\<^verbatim>\<open>hex.EncodeToString\<close>\<close>

fun hex_encode :: "string \<Rightarrow> string" where
  "hex_encode [] = []"
| "hex_encode (c # cs) = hex_digit (byte c div 16) # hex_digit (byte c mod 16) # hex_encode cs"

definition from_hex_char :: "char \<Rightarrow> nat option" where
  "from_hex_char c =
     (if is_digit c then Some (byte c - 48)
      else if 97 \<le> byte c \<and> byte c \<le> 102 then Some (byte c - 87)
      else if 65 \<le> byte c \<and> byte c \<le> 70 then Some (byte c - 55)
      else None)"

text \<open>\<^verbatim>\<open>hex.DecodeString\<close>: both cases of the letters, pairs of digits only.\<close>

fun hex_decode :: "string \<Rightarrow> string option" where
  "hex_decode [] = Some []"
| "hex_decode [_] = None"
| "hex_decode (a # b # cs) =
     (case (from_hex_char a, from_hex_char b, hex_decode cs) of
        (Some x, Some y, Some r) \<Rightarrow> Some (char_of (16 * x + y) # r)
      | _ \<Rightarrow> None)"

definition digest_prefix :: string where
  "digest_prefix = ''sha256:''"

text \<open>The check both services carry: length, prefix, hexadecimal and lower case.\<close>

definition validDigest :: "string \<Rightarrow> bool" where
  "validDigest value =
     (length value = length digest_prefix + 32 * 2 \<and>
      take (length digest_prefix) value = digest_prefix \<and>
      value = map to_lower value \<and>
      (case hex_decode (drop (length digest_prefix) value) of
         None \<Rightarrow> False | Some decoded \<Rightarrow> length decoded = 32))"

type_synonym hash = "string \<Rightarrow> string"

definition digestBytes :: "hash \<Rightarrow> string \<Rightarrow> string" where
  "digestBytes sha256 data = digest_prefix @ hex_encode (sha256 data)"

section \<open>Times as they are written\<close>

text \<open>A \<^verbatim>\<open>time.Time\<close> of a request carries the zone offset it was decoded with; comparisons look at
  the instant only, the text form shows both.\<close>

record gtime =
  gt_instant :: instant
  gt_offset :: int \<comment> \<open>seconds east of UTC\<close>

definition utc :: "instant \<Rightarrow> gtime" where
  "utc t = \<lparr>gt_instant = t, gt_offset = 0\<rparr>"

text \<open>Year, month and day of the proleptic Gregorian calendar from the number of days since
  0001-01-01.\<close>

definition civil :: "int \<Rightarrow> int \<times> int \<times> int" where
  "civil days =
     (let z = days + 306;
          era = z div 146097;
          doe = z mod 146097;
          yoe = (doe - doe div 1460 + doe div 36524 - doe div 146096) div 365;
          doy = doe - (365 * yoe + yoe div 4 - yoe div 100);
          mp = (5 * doy + 2) div 153;
          d = doy - (153 * mp + 2) div 5 + 1;
          m = (if mp < 10 then mp + 3 else mp - 9);
          y = yoe + era * 400 + (if m \<le> 2 then 1 else 0)
      in (y, m, d))"

definition local_seconds :: "gtime \<Rightarrow> int" where
  "local_seconds t = gt_instant t div second + gt_offset t"

definition year_of :: "gtime \<Rightarrow> int" where
  "year_of t = fst (civil (local_seconds t div 86400))"

text \<open>\<^verbatim>\<open>Time.MarshalJSON\<close> refuses a year outside [0, 9999] and a zone hour outside [0, 23].\<close>

definition time_marshals :: "gtime \<Rightarrow> bool" where
  "time_marshals t = (0 \<le> year_of t \<and> year_of t \<le> 9999 \<and> \<bar>gt_offset t\<bar> div 3600 < 24)"

fun show_nat :: "nat \<Rightarrow> string" where
  "show_nat n = (if n < 10 then [hex_digit n] else show_nat (n div 10) @ [hex_digit (n mod 10)])"

declare show_nat.simps [simp del]

fun pad_digits :: "nat \<Rightarrow> nat \<Rightarrow> string" where
  "pad_digits 0 n = []"
| "pad_digits (Suc w) n = pad_digits w (n div 10) @ [hex_digit (n mod 10)]"

fun drop_trailing_zeros :: "string \<Rightarrow> string" where
  "drop_trailing_zeros cs = rev (dropWhile (\<lambda>c. c = CHR ''0'') (rev cs))"

text \<open>A year outside [0, 9999] is written with its sign and all its digits.\<close>

definition format_year :: "int \<Rightarrow> string" where
  "format_year y =
     (if 0 \<le> y \<and> y \<le> 9999 then pad_digits 4 (nat y)
      else if y < 0 then ''-'' @ (if - y \<le> 9999 then pad_digits 4 (nat (- y)) else show_nat (nat (- y)))
      else show_nat (nat y))"

definition format_fraction :: "int \<Rightarrow> string" where
  "format_fraction ns =
     (case drop_trailing_zeros (pad_digits 9 (nat ns)) of [] \<Rightarrow> [] | cs \<Rightarrow> CHR ''.'' # cs)"

definition format_zone :: "int \<Rightarrow> string" where
  "format_zone off =
     (if off = 0 then ''Z''
      else let minutes = \<bar>off\<bar> div 60
           in (if off < 0 \<and> minutes \<noteq> 0 then ''-'' else ''+'')
              @ pad_digits 2 (nat (minutes div 60)) @ '':'' @ pad_digits 2 (nat (minutes mod 60)))"

text \<open>\<^verbatim>\<open>time.RFC3339Nano\<close>\<close>

definition format_time :: "gtime \<Rightarrow> string" where
  "format_time t =
     (let s = local_seconds t; sod = s mod 86400; (y, m, d) = civil (s div 86400)
      in format_year y @ ''-'' @ pad_digits 2 (nat m) @ ''-'' @ pad_digits 2 (nat d)
         @ ''T'' @ pad_digits 2 (nat (sod div 3600)) @ '':'' @ pad_digits 2 (nat (sod div 60 mod 60))
         @ '':'' @ pad_digits 2 (nat (sod mod 60))
         @ format_fraction (gt_instant t mod second) @ format_zone (gt_offset t))"

section \<open>Canonical JSON\<close>

datatype json =
    JStr string
  | JUInt nat
  | JInt int
  | JTime gtime
  | JList "json list"
  | JObj "(string \<times> json) list"

text \<open>
  Length of the well-formed UTF-8 sequence a string of bytes at or above 0x80 starts with, or 0
  when it starts with none (\<^verbatim>\<open>utf8.DecodeRuneInString\<close> then reports an error of width 1).
\<close>

definition cont :: "nat \<Rightarrow> nat \<Rightarrow> char list \<Rightarrow> nat \<Rightarrow> bool" where
  "cont lo hi cs i = (i < length cs \<and> lo \<le> byte (cs ! i) \<and> byte (cs ! i) \<le> hi)"

definition rune_width :: "string \<Rightarrow> nat" where
  "rune_width cs =
     (case cs of [] \<Rightarrow> 0
      | c # _ \<Rightarrow>
         (let b = byte c; more = cont 128 191 cs
          in if 194 \<le> b \<and> b \<le> 223 then (if more 1 then 2 else 0)
             else if b = 224 then (if cont 160 191 cs 1 \<and> more 2 then 3 else 0)
             else if b = 237 then (if cont 128 159 cs 1 \<and> more 2 then 3 else 0)
             else if 225 \<le> b \<and> b \<le> 239 then (if more 1 \<and> more 2 then 3 else 0)
             else if b = 240 then (if cont 144 191 cs 1 \<and> more 2 \<and> more 3 then 4 else 0)
             else if 241 \<le> b \<and> b \<le> 243 then (if more 1 \<and> more 2 \<and> more 3 then 4 else 0)
             else if b = 244 then (if cont 128 143 cs 1 \<and> more 2 \<and> more 3 then 4 else 0)
             else 0))"

definition backslash :: char where
  "backslash = char_of (92 :: nat)"

definition escape_ascii :: "char \<Rightarrow> string" where
  "escape_ascii c =
     (let b = byte c
      in if b = 34 \<or> b = 92 then [backslash, c]
         else if b = 8 then [backslash, CHR ''b'']
         else if b = 12 then [backslash, CHR ''f'']
         else if b = 10 then [backslash, CHR ''n'']
         else if b = 13 then [backslash, CHR ''r'']
         else if b = 9 then [backslash, CHR ''t'']
         else if b < 32 \<or> b = 60 \<or> b = 62 \<or> b = 38
              then backslash # ''u00'' @ [hex_digit (b div 16), hex_digit (b mod 16)]
         else [c])"

text \<open>The string escaping of \<^verbatim>\<open>encoding/json\<close> with its default HTML escaping.\<close>

function escape_string :: "string \<Rightarrow> string" where
  "escape_string [] = []"
| "escape_string (c # cs) =
     (if byte c < 128 then escape_ascii c @ escape_string cs
      else let w = rune_width (c # cs)
           in if w = 0 then backslash # ''ufffd'' @ escape_string cs
              else if w = 3 \<and> byte c = 226 \<and> byte (cs ! 0) = 128 \<and> byte (cs ! 1) \<in> {168, 169}
              then backslash # ''u202'' @ [hex_digit (byte (cs ! 1) mod 16)] @ escape_string (drop 2 cs)
              else c # take (w - 1) cs @ escape_string (drop (w - 1) cs))"
  by pat_completeness auto
termination
  by (relation "measure length") auto

definition quote_string :: "string \<Rightarrow> string" where
  "quote_string s = char_of (34 :: nat) # escape_string s @ [char_of (34 :: nat)]"

text \<open>The text \<^verbatim>\<open>json.Marshal\<close> writes: no white space, fields in the order of the struct.\<close>

fun render :: "json \<Rightarrow> string"
  and render_elements :: "json list \<Rightarrow> string"
  and render_members :: "(string \<times> json) list \<Rightarrow> string" where
  "render (JStr s) = quote_string s"
| "render (JUInt n) = show_nat n"
| "render (JInt i) = (if i < 0 then ''-'' @ show_nat (nat (- i)) else show_nat (nat i))"
| "render (JTime t) = char_of (34 :: nat) # format_time t @ [char_of (34 :: nat)]"
| "render (JList xs) = ''['' @ render_elements xs @ '']''"
| "render (JObj ms) = ''{'' @ render_members ms @ ''}''"
| "render_elements [] = []"
| "render_elements [x] = render x"
| "render_elements (x # y # xs) = render x @ '','' @ render_elements (y # xs)"
| "render_members [] = []"
| "render_members [(k, v)] = quote_string k @ '':'' @ render v"
| "render_members ((k, v) # m # ms) = quote_string k @ '':'' @ render v @ '','' @ render_members (m # ms)"

fun marshals :: "json \<Rightarrow> bool" where
  "marshals (JTime t) = time_marshals t"
| "marshals (JList xs) = list_all marshals xs"
| "marshals (JObj ms) = list_all (\<lambda>(k, v). marshals v) ms"
| "marshals _ = True"

text \<open>\<^verbatim>\<open>json:"...,omitempty"\<close> on a string field\<close>

definition omit_empty :: "string \<Rightarrow> string \<Rightarrow> (string \<times> json) list" where
  "omit_empty k v = (if v = [] then [] else [(k, JStr v)])"

text \<open>Both services' \<^verbatim>\<open>digestJSON\<close>: \<open>None\<close> where \<^verbatim>\<open>json.Marshal\<close> fails.\<close>

definition digestJSON :: "hash \<Rightarrow> json \<Rightarrow> string option" where
  "digestJSON sha256 value =
     (if marshals value then Some (digestBytes sha256 (render value)) else None)"

text \<open>Numbers and string slices as JSON values\<close>

definition juint64 :: "uint64 \<Rightarrow> json" where
  "juint64 n = JUInt (unat n)"

definition juint32 :: "uint32 \<Rightarrow> json" where
  "juint32 n = JUInt (unat n)"

definition jstrings :: "string list \<Rightarrow> json" where
  "jstrings xs = JList (map JStr xs)"

end
