(* ===== verification/Campaign.thy ===== *)
theory Campaign
  imports GoText
begin

text \<open>
  The fixed development campaign (package \<^verbatim>\<open>campaign\<close>), canonical digests (package
  \<^verbatim>\<open>bundle\<close>, file \<^verbatim>\<open>digest.go\<close>) and the release binding an approved plan carries (package
  \<^verbatim>\<open>releasebinding\<close>), with the facts the control plane relies on: the campaign check accepts
  exactly the canonical operation list, and the two digest checks of the program agree.
\<close>

section \<open>The development campaign\<close>

type_synonym Operation = string

definition OperationProgramCustomerKeyAndEEPROM :: Operation where
  "OperationProgramCustomerKeyAndEEPROM = ''program_customer_key_and_eeprom''"
definition OperationColdPowerCycle :: Operation where
  "OperationColdPowerCycle = ''cold_power_cycle''"
definition OperationOwnedReadback :: Operation where
  "OperationOwnedReadback = ''owned_readback''"
definition OperationTestOwnedRecovery :: Operation where
  "OperationTestOwnedRecovery = ''test_owned_recovery''"
definition OperationPostRecoveryReadback :: Operation where
  "OperationPostRecoveryReadback = ''post_recovery_readback''"
definition OperationTestNegativeBoot :: Operation where
  "OperationTestNegativeBoot = ''test_negative_boot''"
definition OperationTestRootIntegrity :: Operation where
  "OperationTestRootIntegrity = ''test_root_integrity''"

definition developmentOperations :: "Operation list" where
  "developmentOperations =
     [OperationProgramCustomerKeyAndEEPROM, OperationColdPowerCycle, OperationOwnedReadback,
      OperationTestOwnedRecovery, OperationPostRecoveryReadback, OperationTestNegativeBoot,
      OperationTestRootIntegrity]"

text \<open>The index loop of \<^verbatim>\<open>ValidateDevelopmentOperations\<close>; its reads are in range because the
  lengths are compared first.\<close>

datatype campaign_error = ErrInvalidDevelopmentCampaign

definition ValidateDevelopmentOperations :: "Operation list \<Rightarrow> campaign_error option" where
  "ValidateDevelopmentOperations operations =
     first_err
       (if length operations \<noteq> length developmentOperations
        then [Some ErrInvalidDevelopmentCampaign]
        else map (\<lambda>index. fail_if (operations ! index \<noteq> developmentOperations ! index)
                            ErrInvalidDevelopmentCampaign)
               [0 ..< length developmentOperations])"

section \<open>Canonical digests and release bindings\<close>

definition lower_hex_char :: "char \<Rightarrow> bool" where
  "lower_hex_char c = (is_digit c \<or> 97 \<le> byte c \<and> byte c \<le> 102)"

text \<open>\<^verbatim>\<open>bundle.ParseDigest\<close>: \<open>None\<close> is the error.\<close>

definition ParseDigest :: "string \<Rightarrow> string option" where
  "ParseDigest value =
     (if length value \<noteq> length digest_prefix + 32 * 2 \<or>
         take (min (length value) (length digest_prefix)) value \<noteq> digest_prefix
      then None
      else if list_ex (\<lambda>c. \<not> lower_hex_char c) (drop (length digest_prefix) value) then None
      else Some value)"

definition digest_Sum :: "hash \<Rightarrow> string \<Rightarrow> string" where
  "digest_Sum sha256 data = digest_prefix @ hex_encode (sha256 data)"

record Binding =
  SignedReleaseManifestDigest :: string
  LaneGuardPackageDigest :: string
  CompiledArtifactSetDigest :: string
  rb_ExpectedCustomerKeyHash :: string
  ExpectedEEPROMDigest :: string
  ExpectedBootImageDigest :: string

definition Binding_Validate :: "Binding \<Rightarrow> bool" where
  "Binding_Validate binding =
     list_all (\<lambda>value. ParseDigest value \<noteq> None)
       [SignedReleaseManifestDigest binding, LaneGuardPackageDigest binding,
        CompiledArtifactSetDigest binding, rb_ExpectedCustomerKeyHash binding,
        ExpectedEEPROMDigest binding, ExpectedBootImageDigest binding]"

definition json_of_Binding :: "Binding \<Rightarrow> json" where
  "json_of_Binding b = JObj
     [(''signed_release_manifest_digest'', JStr (SignedReleaseManifestDigest b)),
      (''lane_guard_package_digest'', JStr (LaneGuardPackageDigest b)),
      (''compiled_artifact_set_digest'', JStr (CompiledArtifactSetDigest b)),
      (''expected_customer_key_hash'', JStr (rb_ExpectedCustomerKeyHash b)),
      (''expected_eeprom_digest'', JStr (ExpectedEEPROMDigest b)),
      (''expected_boot_image_digest'', JStr (ExpectedBootImageDigest b))]"

section \<open>The campaign check accepts exactly the campaign\<close>

lemma length_developmentOperations [simp]: "length developmentOperations = 7"
  by (simp add: developmentOperations_def)

lemma ValidateDevelopmentOperations_None:
  "ValidateDevelopmentOperations operations = None \<longleftrightarrow> operations = developmentOperations"
  unfolding ValidateDevelopmentOperations_def by (auto simp: list_eq_iff_nth_eq)

lemma distinct_developmentOperations [simp]: "distinct developmentOperations"
  by (simp add: developmentOperations_def OperationProgramCustomerKeyAndEEPROM_def
      OperationColdPowerCycle_def OperationOwnedReadback_def OperationTestOwnedRecovery_def
      OperationPostRecoveryReadback_def OperationTestNegativeBoot_def OperationTestRootIntegrity_def)

section \<open>The two digest checks agree\<close>

lemma length_hex_decode: "hex_decode cs = Some r \<Longrightarrow> length cs = 2 * length r"
  by (induction cs arbitrary: r rule: hex_decode.induct) (auto split: option.splits)

lemma hex_decode_defined:
  "hex_decode cs \<noteq> None \<longleftrightarrow> even (length cs) \<and> list_all (\<lambda>c. from_hex_char c \<noteq> None) cs"
  by (induction cs rule: hex_decode.induct) (auto split: option.splits)

lemma byte_char_of [simp]: "byte (char_of n) = n mod 256"
  by (simp add: byte_def)

lemma byte_less [simp]: "byte c < 256"
  by (simp add: byte_def)

lemma to_lower_id: "c = to_lower c \<longleftrightarrow> \<not> is_upper c"
proof -
  have "byte (to_lower c) \<noteq> byte c" if "is_upper c"
    using that by (simp add: to_lower_def is_upper_def)
  then have "is_upper c \<Longrightarrow> c \<noteq> to_lower c" by metis
  then show ?thesis by (auto simp: to_lower_def)
qed

lemma lower_hex_char_iff: "lower_hex_char c \<longleftrightarrow> from_hex_char c \<noteq> None \<and> \<not> is_upper c"
  by (auto simp: lower_hex_char_def from_hex_char_def is_upper_def is_digit_def)

lemma map_id_iff: "xs = map f xs \<longleftrightarrow> (\<forall>x \<in> set xs. x = f x)"
  by (induction xs) auto

lemma prefix_not_upper: "\<forall>c \<in> set digest_prefix. \<not> is_upper c"
  by (simp add: digest_prefix_def is_upper_def byte_def)

lemma validDigest_alt:
  "validDigest v \<longleftrightarrow>
     (\<exists>h. v = digest_prefix @ h \<and> length h = 64 \<and> list_all lower_hex_char h)"
proof
  assume v: "validDigest v"
  define h where "h = drop (length digest_prefix) v"
  have split: "v = digest_prefix @ h"
    using v by (metis append_take_drop_id h_def validDigest_def)
  have "length h = 64" and "hex_decode h \<noteq> None"
    using v by (auto simp: validDigest_def h_def split: option.splits)
  moreover have "\<forall>c \<in> set h. \<not> is_upper c"
    using v split to_lower_id map_id_iff [of v to_lower] by (auto simp: validDigest_def)
  ultimately show "\<exists>h. v = digest_prefix @ h \<and> length h = 64 \<and> list_all lower_hex_char h"
    using split hex_decode_defined [of h] by (simp add: lower_hex_char_iff list_all_iff)
next
  assume "\<exists>h. v = digest_prefix @ h \<and> length h = 64 \<and> list_all lower_hex_char h"
  then obtain h where h: "v = digest_prefix @ h" "length h = 64" "list_all lower_hex_char h"
    by blast
  then have dec: "hex_decode h \<noteq> None"
    unfolding hex_decode_defined by (simp add: lower_hex_char_iff list_all_iff)
  have low: "v = map to_lower v"
    using h prefix_not_upper to_lower_id map_id_iff [of v to_lower]
    by (auto simp: lower_hex_char_iff list_all_iff)
  show "validDigest v"
    using h dec low length_hex_decode by (auto simp: validDigest_def split: option.splits)
qed

lemma ParseDigest_alt:
  "ParseDigest v = Some v' \<longleftrightarrow>
     v' = v \<and> (\<exists>h. v = digest_prefix @ h \<and> length h = 64 \<and> list_all lower_hex_char h)"
proof -
  have "take (length digest_prefix) v = digest_prefix \<longleftrightarrow> (\<exists>h. v = digest_prefix @ h)"
    by (metis append_eq_conv_conj append_take_drop_id)
  then show ?thesis
    by (auto simp: ParseDigest_def list_ex_iff list_all_iff)
qed

lemma hex_digit_lower: "n < 16 \<Longrightarrow> lower_hex_char (hex_digit n)"
  by (simp add: hex_digit_def lower_hex_char_def is_digit_def)

lemma hex_encode_lower: "list_all lower_hex_char (hex_encode cs)"
proof (induction cs rule: hex_encode.induct)
  case (2 c cs)
  have "byte c div 16 < 16" using byte_less [of c] by (simp add: less_mult_imp_div_less)
  with 2 show ?case by (simp add: hex_digit_lower)
qed simp

lemma length_hex_encode [simp]: "length (hex_encode cs) = 2 * length cs"
  by (induction cs rule: hex_encode.induct) auto

lemma validDigest_digestBytes:
  "length (sha256 data) = 32 \<Longrightarrow> validDigest (digestBytes sha256 data)"
  by (auto simp: validDigest_alt digestBytes_def hex_encode_lower)

lemma validDigest_digestJSON:
  "\<forall>m. length (sha256 m) = 32 \<Longrightarrow> digestJSON sha256 j = Some d \<Longrightarrow> validDigest d"
  by (auto simp: digestJSON_def validDigest_digestBytes split: if_splits)

lemma ParseDigest_validDigest: "ParseDigest v \<noteq> None \<longleftrightarrow> validDigest v"
  using ParseDigest_alt [of v] validDigest_alt [of v] by auto

lemma validDigest_nonempty: "validDigest v \<Longrightarrow> v \<noteq> []"
  by (auto simp: validDigest_alt digest_prefix_def)

lemma digest_not_empty [simp]: "\<not> validDigest []"
  using validDigest_nonempty by blast

end
