(* ===== verification/Control_Types.thy ===== *)
theory Control_Types
  imports Campaign
begin

text \<open>
  The data of the control plane (package \<^verbatim>\<open>controlplane\<close>, files \<^verbatim>\<open>types.go\<close> and
  \<^verbatim>\<open>storage.go\<close>): enumerations, durable records, requests, and the JSON objects the requests
  are hashed as. A Go string type with named constants is a datatype with one constructor per
  constant and one constructor for every other text a caller or a stored file may carry.
  Pointers that may be nil are options. Durable times are UTC instants; a time in a request
  keeps the zone it was written with, because the request is hashed as written.
\<close>

section \<open>Schema versions\<close>

definition TransactionSchemaVersion :: string where
  "TransactionSchemaVersion = ''provisioning.kaiba.network/control-transaction/v1alpha4''"
definition StoreSchemaVersion :: string where
  "StoreSchemaVersion = ''provisioning.kaiba.network/control-store/v1alpha4''"
definition CommandSchemaVersion :: string where
  "CommandSchemaVersion = ''provisioning.kaiba.network/control-command/v1alpha1''"
definition CreateTransactionRequestSchemaVersion :: string where
  "CreateTransactionRequestSchemaVersion = ''provisioning.kaiba.network/create-transaction-request/v1alpha3''"
definition AcquireClaimRequestSchemaVersion :: string where
  "AcquireClaimRequestSchemaVersion = ''provisioning.kaiba.network/acquire-claim-request/v1alpha1''"
definition RenewClaimRequestSchemaVersion :: string where
  "RenewClaimRequestSchemaVersion = ''provisioning.kaiba.network/renew-claim-request/v1alpha2''"
definition CurrentClaimPreflightRequestSchemaVersion :: string where
  "CurrentClaimPreflightRequestSchemaVersion = ''provisioning.kaiba.network/current-claim-preflight-request/v1alpha2''"
definition TransferClaimRequestSchemaVersion :: string where
  "TransferClaimRequestSchemaVersion = ''provisioning.kaiba.network/transfer-claim-request/v1alpha1''"
definition ReleaseClaimRequestSchemaVersion :: string where
  "ReleaseClaimRequestSchemaVersion = ''provisioning.kaiba.network/release-claim-request/v1alpha1''"
definition BindTargetRequestSchemaVersion :: string where
  "BindTargetRequestSchemaVersion = ''provisioning.kaiba.network/bind-target-request/v1alpha1''"
definition ApprovalPreflightRequestSchemaVersion :: string where
  "ApprovalPreflightRequestSchemaVersion = ''provisioning.kaiba.network/approval-preflight-request/v1alpha1''"
definition RecordApprovalRequestSchemaVersion :: string where
  "RecordApprovalRequestSchemaVersion = ''provisioning.kaiba.network/record-approval-request/v1alpha2''"
definition RecordIntentRequestSchemaVersion :: string where
  "RecordIntentRequestSchemaVersion = ''provisioning.kaiba.network/record-intent-request/v1alpha1''"
definition RecordEvidenceRequestSchemaVersion :: string where
  "RecordEvidenceRequestSchemaVersion = ''provisioning.kaiba.network/record-evidence-request/v1alpha1''"
definition RecordReconciliationRequestSchemaVersion :: string where
  "RecordReconciliationRequestSchemaVersion = ''provisioning.kaiba.network/record-reconciliation-request/v1alpha1''"
definition QuarantineRequestSchemaVersion :: string where
  "QuarantineRequestSchemaVersion = ''provisioning.kaiba.network/quarantine-request/v1alpha1''"
definition AbortRequestSchemaVersion :: string where
  "AbortRequestSchemaVersion = ''provisioning.kaiba.network/abort-request/v1alpha1''"
definition SecurityAppliedRequestSchemaVersion :: string where
  "SecurityAppliedRequestSchemaVersion = ''provisioning.kaiba.network/security-applied-request/v1alpha1''"

definition UnownedCustomerKeyHash :: string where
  "UnownedCustomerKeyHash = ''sha256:0000000000000000000000000000000000000000000000000000000000000000''"

section \<open>Errors\<close>

text \<open>The error classes \<^verbatim>\<open>errors.Is\<close> tells apart; \<open>ErrOther\<close> stands for the errors that wrap none of
  them (a failed save, a failed encoding, a failed identifier generator).\<close>

datatype control_error =
    ErrInvalid | ErrNotFound | ErrConflict | ErrVersionConflict | ErrIdempotencyConflict
  | ErrStaleFence | ErrLeaseExpired | ErrIllegalTransition | ErrCorruptStore | ErrOther

section \<open>Enumerations\<close>

datatype TransactionStatus =
    StatusCreated | StatusClaimed | StatusTargetBound | StatusCommitApproved
  | StatusMutationInProgress | StatusReconciliationRequired | StatusReconciled
  | StatusSecurityApplied | StatusAborted | StatusQuarantined | StatusOther string

datatype ClaimMode = ClaimModeMutation | ClaimModeReconciliation | ClaimModeOther string

datatype ClaimStatus =
    ClaimActive | ClaimReleased | ClaimTransferred | ClaimExpired | ClaimStatusOther string

datatype OperationStatus =
    OperationIntentRecorded | OperationSucceeded | OperationFailed | OperationUncertain
  | OperationConfirmedApplied | OperationConfirmedNotApplied | OperationStatusOther string

datatype EvidenceResult =
  EvidenceSucceeded | EvidenceFailed | EvidenceUncertain | EvidenceOther string

datatype ReconciliationResolution =
    ResolutionConfirmedApplied | ResolutionConfirmedNotApplied | ResolutionUnknown
  | ResolutionOther string

fun ClaimMode_string :: "ClaimMode \<Rightarrow> string" where
  "ClaimMode_string ClaimModeMutation = ''mutation''"
| "ClaimMode_string ClaimModeReconciliation = ''reconciliation''"
| "ClaimMode_string (ClaimModeOther s) = s"

fun EvidenceResult_string :: "EvidenceResult \<Rightarrow> string" where
  "EvidenceResult_string EvidenceSucceeded = ''succeeded''"
| "EvidenceResult_string EvidenceFailed = ''failed''"
| "EvidenceResult_string EvidenceUncertain = ''uncertain''"
| "EvidenceResult_string (EvidenceOther s) = s"

fun ReconciliationResolution_string :: "ReconciliationResolution \<Rightarrow> string" where
  "ReconciliationResolution_string ResolutionConfirmedApplied = ''confirmed_applied''"
| "ReconciliationResolution_string ResolutionConfirmedNotApplied = ''confirmed_not_applied''"
| "ReconciliationResolution_string ResolutionUnknown = ''unknown''"
| "ReconciliationResolution_string (ResolutionOther s) = s"

section \<open>Durable records\<close>

record TargetBinding =
  tb_Fingerprint :: string
  tb_ObservationDigest :: string
  tb_CustomerKeyHash :: string
  tb_BoundAt :: instant
  tb_FenceEpoch :: uint64

record Claim =
  cl_ID :: string
  cl_Mode :: ClaimMode
  cl_Status :: ClaimStatus
  cl_StationID :: string
  cl_LaneID :: string
  cl_AssetID :: string
  cl_FenceEpoch :: uint64
  cl_AllowedStages :: "string list"
  cl_AcquiredAt :: instant
  cl_ExpiresAt :: instant
  cl_ClosedAt :: "instant option"

record Approval =
  ap_ID :: string
  ap_ApproverID :: string
  ap_TransactionDigest :: string
  ap_PlanDigest :: string
  ap_StationID :: string
  ap_LaneID :: string
  ap_FenceEpoch :: uint64
  ap_TargetFingerprint :: string
  ap_Release :: Binding
  ap_AllowedOperations :: "string list"
  ap_AuditReceiptID :: string
  ap_ApprovedAt :: instant
  ap_ExpiresAt :: instant

record OperationRecord =
  op_ID :: string
  op_Operation :: string
  op_Status :: OperationStatus
  op_PlanDigest :: string
  op_Release :: Binding
  op_ApprovalExpiresAt :: instant
  op_Approval :: Approval
  op_InputDigest :: string
  op_PrestateDigest :: string
  op_IntentAuditReceiptID :: string
  op_IntentAt :: instant
  op_IntentFenceEpoch :: uint64
  op_OutputDigest :: string
  op_ObservationDigest :: string
  op_EvidenceAuditReceiptID :: string
  op_EvidenceAt :: "instant option"
  op_ReconciliationAuditReceiptID :: string

record QuarantineRecord =
  qr_ReasonCode :: string
  qr_ObservationDigest :: string
  qr_AuditReceiptID :: string
  qr_FenceEpoch :: uint64
  qr_RecordedAt :: instant

record SecurityAppliedRecord =
  sa_EvidenceDigest :: string
  sa_AuditReceiptID :: string
  sa_RollbackStatus :: string
  sa_ReleaseClassification :: string
  sa_RecordedAt :: instant

record AbortRecord =
  ab_ReusableBaselineDigest :: string
  ab_AuditReceiptID :: string
  ab_RecordedAt :: instant

record Transaction =
  tx_SchemaVersion :: string
  tx_ID :: string
  tx_ResourceVersion :: uint64
  tx_Status :: TransactionStatus
  tx_AssetID :: string
  tx_IntendedLogicalID :: string
  tx_ProfileID :: string
  tx_BundleDigest :: string
  tx_PolicyDigest :: string
  tx_ExpectedPrestateCustomerKeyHash :: string
  tx_ExpectedCustomerKeyHash :: string
  tx_TransactionDigest :: string
  tx_FenceEpoch :: uint64
  tx_ActiveClaim :: "Claim option"
  tx_ClaimHistory :: "Claim list"
  tx_Target :: "TargetBinding option"
  tx_Approval :: "Approval option"
  tx_Operations :: "OperationRecord list"
  tx_Quarantine :: "QuarantineRecord option"
  tx_SecurityApplied :: "SecurityAppliedRecord option"
  tx_Abort :: "AbortRecord option"
  tx_CreatedAt :: instant
  tx_UpdatedAt :: instant

record idempotencyRecord =
  ir_Operation :: string
  ir_RequestDigest :: string
  ir_TransactionID :: string

record persistedState =
  ps_SchemaVersion :: string
  ps_Transactions :: "(string, Transaction) gomap"
  ps_FenceEpochs :: "(string, uint64) gomap"
  ps_Idempotency :: "(string, idempotencyRecord) gomap"

text \<open>A read of a missing key of \<^verbatim>\<open>map[string]uint64\<close> is zero.\<close>

definition fenceEpochOf :: "(string, uint64) gomap \<Rightarrow> string \<Rightarrow> uint64" where
  "fenceEpochOf m asset = (case map_get m asset of Some e \<Rightarrow> e | None \<Rightarrow> 0)"

section \<open>Requests\<close>

record CreateTransactionRequest =
  ct_SchemaVersion :: string
  ct_IdempotencyKey :: string
  ct_TransactionID :: string
  ct_AssetID :: string
  ct_IntendedLogicalID :: string
  ct_ProfileID :: string
  ct_BundleDigest :: string
  ct_PolicyDigest :: string
  ct_ExpectedPrestateCustomerKeyHash :: string
  ct_ExpectedCustomerKeyHash :: string

record AcquireClaimRequest =
  ac_SchemaVersion :: string
  ac_IdempotencyKey :: string
  ac_TransactionID :: string
  ac_ExpectedResourceVersion :: uint64
  ac_StationID :: string
  ac_LaneID :: string
  ac_Mode :: ClaimMode
  ac_AllowedStages :: "string list"
  ac_LeaseDurationSeconds :: uint32

record RenewClaimRequest =
  rn_SchemaVersion :: string
  rn_IdempotencyKey :: string
  rn_TransactionID :: string
  rn_ExpectedResourceVersion :: uint64
  rn_ClaimID :: string
  rn_FenceEpoch :: uint64
  rn_LeaseDurationSeconds :: uint32
  rn_ApprovalID :: string
  rn_PlanDigest :: string
  rn_TargetBoundAuthorizationExpiresAt :: "gtime option"

record TransferClaimRequest =
  tr_SchemaVersion :: string
  tr_IdempotencyKey :: string
  tr_TransactionID :: string
  tr_ExpectedResourceVersion :: uint64
  tr_ClaimID :: string
  tr_FenceEpoch :: uint64
  tr_NewStationID :: string
  tr_NewLaneID :: string
  tr_Mode :: ClaimMode
  tr_AllowedStages :: "string list"
  tr_LeaseDurationSeconds :: uint32

record ReleaseClaimRequest =
  rl_SchemaVersion :: string
  rl_IdempotencyKey :: string
  rl_TransactionID :: string
  rl_ExpectedResourceVersion :: uint64
  rl_ClaimID :: string
  rl_FenceEpoch :: uint64

record MutationContext =
  mc_TransactionID :: string
  mc_ExpectedResourceVersion :: uint64
  mc_ClaimID :: string
  mc_FenceEpoch :: uint64

record CurrentClaimPreflightRequest =
  cp_SchemaVersion :: string
  cp_MutationContext :: MutationContext
  cp_ApprovalID :: string
  cp_PlanDigest :: string
  cp_MinimumClaimRemainingSeconds :: uint32
  cp_MinimumApprovalRemainingSeconds :: uint32

record BindTargetRequest =
  bt_SchemaVersion :: string
  bt_IdempotencyKey :: string
  bt_MutationContext :: MutationContext
  bt_TargetFingerprint :: string
  bt_ObservationDigest :: string
  bt_CustomerKeyHash :: string

record RecordApprovalRequest =
  ra_SchemaVersion :: string
  ra_IdempotencyKey :: string
  ra_MutationContext :: MutationContext
  ra_ApprovalID :: string
  ra_ApproverID :: string
  ra_TransactionDigest :: string
  ra_PlanDigest :: string
  ra_TargetFingerprint :: string
  ra_Release :: Binding
  ra_AllowedOperations :: "string list"
  ra_AuditReceiptID :: string
  ra_ExpiresAt :: gtime

record ApprovalPreflightRequest =
  pf_SchemaVersion :: string
  pf_MutationContext :: MutationContext
  pf_ApprovalID :: string
  pf_ApproverID :: string
  pf_TransactionDigest :: string
  pf_PlanDigest :: string
  pf_StationID :: string
  pf_LaneID :: string
  pf_TargetFingerprint :: string
  pf_Release :: Binding
  pf_AllowedOperations :: "string list"
  pf_ApprovedAt :: gtime
  pf_ExpiresAt :: gtime

record RecordIntentRequest =
  ri_SchemaVersion :: string
  ri_IdempotencyKey :: string
  ri_MutationContext :: MutationContext
  ri_ApprovalID :: string
  ri_OperationID :: string
  ri_Operation :: string
  ri_PlanDigest :: string
  ri_InputDigest :: string
  ri_PrestateDigest :: string
  ri_AuditReceiptID :: string

record RecordEvidenceRequest =
  re_SchemaVersion :: string
  re_IdempotencyKey :: string
  re_MutationContext :: MutationContext
  re_OperationID :: string
  re_Result :: EvidenceResult
  re_OutputDigest :: string
  re_ObservationDigest :: string
  re_AuditReceiptID :: string

record RecordReconciliationRequest =
  rr_SchemaVersion :: string
  rr_IdempotencyKey :: string
  rr_MutationContext :: MutationContext
  rr_OperationID :: string
  rr_Resolution :: ReconciliationResolution
  rr_OutputDigest :: string
  rr_ObservationDigest :: string
  rr_AuditReceiptID :: string

record QuarantineRequest =
  qt_SchemaVersion :: string
  qt_IdempotencyKey :: string
  qt_MutationContext :: MutationContext
  qt_ReasonCode :: string
  qt_ObservationDigest :: string
  qt_AuditReceiptID :: string

record AbortRequest =
  ar_SchemaVersion :: string
  ar_IdempotencyKey :: string
  ar_MutationContext :: MutationContext
  ar_ReusableBaselineDigest :: string
  ar_AuditReceiptID :: string

record SecurityAppliedRequest =
  sr_SchemaVersion :: string
  sr_IdempotencyKey :: string
  sr_MutationContext :: MutationContext
  sr_PlanDigest :: string
  sr_EvidenceDigest :: string
  sr_AuditReceiptID :: string
  sr_RollbackStatus :: string
  sr_ReleaseClassification :: string

section \<open>The JSON objects that are hashed\<close>

text \<open>An embedded struct contributes its fields in place.\<close>

definition fields_of_MutationContext :: "MutationContext \<Rightarrow> (string \<times> json) list" where
  "fields_of_MutationContext c =
     [(''transaction_id'', JStr (mc_TransactionID c)),
      (''expected_resource_version'', juint64 (mc_ExpectedResourceVersion c)),
      (''claim_id'', JStr (mc_ClaimID c)),
      (''fence_epoch'', juint64 (mc_FenceEpoch c))]"

definition json_of_Create :: "CreateTransactionRequest \<Rightarrow> json" where
  "json_of_Create r = JObj
     [(''schema_version'', JStr (ct_SchemaVersion r)),
      (''idempotency_key'', JStr (ct_IdempotencyKey r)),
      (''transaction_id'', JStr (ct_TransactionID r)),
      (''asset_id'', JStr (ct_AssetID r)),
      (''intended_logical_id'', JStr (ct_IntendedLogicalID r)),
      (''profile_id'', JStr (ct_ProfileID r)),
      (''bundle_digest'', JStr (ct_BundleDigest r)),
      (''policy_digest'', JStr (ct_PolicyDigest r)),
      (''expected_prestate_customer_key_hash'', JStr (ct_ExpectedPrestateCustomerKeyHash r)),
      (''expected_customer_key_hash'', JStr (ct_ExpectedCustomerKeyHash r))]"

definition json_of_Acquire :: "AcquireClaimRequest \<Rightarrow> json" where
  "json_of_Acquire r = JObj
     [(''schema_version'', JStr (ac_SchemaVersion r)),
      (''idempotency_key'', JStr (ac_IdempotencyKey r)),
      (''transaction_id'', JStr (ac_TransactionID r)),
      (''expected_resource_version'', juint64 (ac_ExpectedResourceVersion r)),
      (''station_id'', JStr (ac_StationID r)),
      (''lane_id'', JStr (ac_LaneID r)),
      (''mode'', JStr (ClaimMode_string (ac_Mode r))),
      (''allowed_stages'', jstrings (ac_AllowedStages r)),
      (''lease_duration_seconds'', juint32 (ac_LeaseDurationSeconds r))]"

definition json_of_Renew :: "RenewClaimRequest \<Rightarrow> json" where
  "json_of_Renew r = JObj
     ([(''schema_version'', JStr (rn_SchemaVersion r)),
       (''idempotency_key'', JStr (rn_IdempotencyKey r)),
       (''transaction_id'', JStr (rn_TransactionID r)),
       (''expected_resource_version'', juint64 (rn_ExpectedResourceVersion r)),
       (''claim_id'', JStr (rn_ClaimID r)),
       (''fence_epoch'', juint64 (rn_FenceEpoch r)),
       (''lease_duration_seconds'', juint32 (rn_LeaseDurationSeconds r))]
      @ omit_empty ''approval_id'' (rn_ApprovalID r)
      @ omit_empty ''plan_digest'' (rn_PlanDigest r)
      @ (case rn_TargetBoundAuthorizationExpiresAt r of None \<Rightarrow> []
         | Some t \<Rightarrow> [(''target_bound_authorization_expires_at'', JTime t)]))"

definition json_of_Transfer :: "TransferClaimRequest \<Rightarrow> json" where
  "json_of_Transfer r = JObj
     [(''schema_version'', JStr (tr_SchemaVersion r)),
      (''idempotency_key'', JStr (tr_IdempotencyKey r)),
      (''transaction_id'', JStr (tr_TransactionID r)),
      (''expected_resource_version'', juint64 (tr_ExpectedResourceVersion r)),
      (''claim_id'', JStr (tr_ClaimID r)),
      (''fence_epoch'', juint64 (tr_FenceEpoch r)),
      (''new_station_id'', JStr (tr_NewStationID r)),
      (''new_lane_id'', JStr (tr_NewLaneID r)),
      (''mode'', JStr (ClaimMode_string (tr_Mode r))),
      (''allowed_stages'', jstrings (tr_AllowedStages r)),
      (''lease_duration_seconds'', juint32 (tr_LeaseDurationSeconds r))]"

definition json_of_Release :: "ReleaseClaimRequest \<Rightarrow> json" where
  "json_of_Release r = JObj
     [(''schema_version'', JStr (rl_SchemaVersion r)),
      (''idempotency_key'', JStr (rl_IdempotencyKey r)),
      (''transaction_id'', JStr (rl_TransactionID r)),
      (''expected_resource_version'', juint64 (rl_ExpectedResourceVersion r)),
      (''claim_id'', JStr (rl_ClaimID r)),
      (''fence_epoch'', juint64 (rl_FenceEpoch r))]"

definition json_of_Bind :: "BindTargetRequest \<Rightarrow> json" where
  "json_of_Bind r = JObj
     ([(''schema_version'', JStr (bt_SchemaVersion r)),
       (''idempotency_key'', JStr (bt_IdempotencyKey r))]
      @ fields_of_MutationContext (bt_MutationContext r)
      @ [(''target_fingerprint'', JStr (bt_TargetFingerprint r)),
         (''observation_digest'', JStr (bt_ObservationDigest r)),
         (''customer_key_hash'', JStr (bt_CustomerKeyHash r))])"

definition json_of_RecordApproval :: "RecordApprovalRequest \<Rightarrow> json" where
  "json_of_RecordApproval r = JObj
     ([(''schema_version'', JStr (ra_SchemaVersion r)),
       (''idempotency_key'', JStr (ra_IdempotencyKey r))]
      @ fields_of_MutationContext (ra_MutationContext r)
      @ [(''approval_id'', JStr (ra_ApprovalID r)),
         (''approver_id'', JStr (ra_ApproverID r)),
         (''transaction_digest'', JStr (ra_TransactionDigest r)),
         (''plan_digest'', JStr (ra_PlanDigest r)),
         (''target_fingerprint'', JStr (ra_TargetFingerprint r)),
         (''release'', json_of_Binding (ra_Release r)),
         (''allowed_operations'', jstrings (ra_AllowedOperations r)),
         (''audit_receipt_id'', JStr (ra_AuditReceiptID r)),
         (''expires_at'', JTime (ra_ExpiresAt r))])"

definition json_of_RecordIntent :: "RecordIntentRequest \<Rightarrow> json" where
  "json_of_RecordIntent r = JObj
     ([(''schema_version'', JStr (ri_SchemaVersion r)),
       (''idempotency_key'', JStr (ri_IdempotencyKey r))]
      @ fields_of_MutationContext (ri_MutationContext r)
      @ [(''approval_id'', JStr (ri_ApprovalID r)),
         (''operation_id'', JStr (ri_OperationID r)),
         (''operation'', JStr (ri_Operation r)),
         (''plan_digest'', JStr (ri_PlanDigest r)),
         (''input_digest'', JStr (ri_InputDigest r)),
         (''prestate_digest'', JStr (ri_PrestateDigest r)),
         (''audit_receipt_id'', JStr (ri_AuditReceiptID r))])"

definition json_of_RecordEvidence :: "RecordEvidenceRequest \<Rightarrow> json" where
  "json_of_RecordEvidence r = JObj
     ([(''schema_version'', JStr (re_SchemaVersion r)),
       (''idempotency_key'', JStr (re_IdempotencyKey r))]
      @ fields_of_MutationContext (re_MutationContext r)
      @ [(''operation_id'', JStr (re_OperationID r)),
         (''result'', JStr (EvidenceResult_string (re_Result r))),
         (''output_digest'', JStr (re_OutputDigest r)),
         (''observation_digest'', JStr (re_ObservationDigest r)),
         (''audit_receipt_id'', JStr (re_AuditReceiptID r))])"

definition json_of_RecordReconciliation :: "RecordReconciliationRequest \<Rightarrow> json" where
  "json_of_RecordReconciliation r = JObj
     ([(''schema_version'', JStr (rr_SchemaVersion r)),
       (''idempotency_key'', JStr (rr_IdempotencyKey r))]
      @ fields_of_MutationContext (rr_MutationContext r)
      @ [(''operation_id'', JStr (rr_OperationID r)),
         (''resolution'', JStr (ReconciliationResolution_string (rr_Resolution r)))]
      @ omit_empty ''output_digest'' (rr_OutputDigest r)
      @ [(''observation_digest'', JStr (rr_ObservationDigest r)),
         (''audit_receipt_id'', JStr (rr_AuditReceiptID r))])"

definition json_of_Quarantine :: "QuarantineRequest \<Rightarrow> json" where
  "json_of_Quarantine r = JObj
     ([(''schema_version'', JStr (qt_SchemaVersion r)),
       (''idempotency_key'', JStr (qt_IdempotencyKey r))]
      @ fields_of_MutationContext (qt_MutationContext r)
      @ [(''reason_code'', JStr (qt_ReasonCode r)),
         (''observation_digest'', JStr (qt_ObservationDigest r)),
         (''audit_receipt_id'', JStr (qt_AuditReceiptID r))])"

definition json_of_Abort :: "AbortRequest \<Rightarrow> json" where
  "json_of_Abort r = JObj
     ([(''schema_version'', JStr (ar_SchemaVersion r)),
       (''idempotency_key'', JStr (ar_IdempotencyKey r))]
      @ fields_of_MutationContext (ar_MutationContext r)
      @ [(''reusable_baseline_digest'', JStr (ar_ReusableBaselineDigest r)),
         (''audit_receipt_id'', JStr (ar_AuditReceiptID r))])"

definition json_of_SecurityApplied :: "SecurityAppliedRequest \<Rightarrow> json" where
  "json_of_SecurityApplied r = JObj
     ([(''schema_version'', JStr (sr_SchemaVersion r)),
       (''idempotency_key'', JStr (sr_IdempotencyKey r))]
      @ fields_of_MutationContext (sr_MutationContext r)
      @ [(''plan_digest'', JStr (sr_PlanDigest r)),
         (''evidence_digest'', JStr (sr_EvidenceDigest r)),
         (''audit_receipt_id'', JStr (sr_AuditReceiptID r)),
         (''rollback_status'', JStr (sr_RollbackStatus r)),
         (''release_classification'', JStr (sr_ReleaseClassification r))])"

text \<open>\<^verbatim>\<open>transactionDigestMaterial\<close> and \<^verbatim>\<open>transactionDigest\<close>\<close>

definition transactionDigestMaterial :: "Transaction \<Rightarrow> json" where
  "transactionDigestMaterial t = JObj
     [(''id'', JStr (tx_ID t)),
      (''asset_id'', JStr (tx_AssetID t)),
      (''intended_logical_id'', JStr (tx_IntendedLogicalID t)),
      (''profile_id'', JStr (tx_ProfileID t)),
      (''bundle_digest'', JStr (tx_BundleDigest t)),
      (''policy_digest'', JStr (tx_PolicyDigest t)),
      (''expected_prestate_customer_key_hash'', JStr (tx_ExpectedPrestateCustomerKeyHash t)),
      (''expected_customer_key_hash'', JStr (tx_ExpectedCustomerKeyHash t))]"

definition transactionDigest :: "hash \<Rightarrow> Transaction \<Rightarrow> string option" where
  "transactionDigest sha256 t = digestJSON sha256 (transactionDigestMaterial t)"

end
