(* ===== verification/Control_Validation.thy ===== *)
theory Control_Validation
  imports Control_Types
begin

text \<open>
  Request validation of the control plane (\<^verbatim>\<open>validation.go\<close>). Every failure is the class
  \<open>ErrInvalid\<close>. The checks stand in the order of the source; the two loops of
  \<^verbatim>\<open>validateCreateRequest\<close> range over Go maps, whose order is unspecified, and all their failures
  are of the one class.
\<close>

definition minimumLease :: duration where "minimumLease = 30 * second"
definition maximumLease :: duration where "maximumLease = 3600 * second"
definition maximumApprovalLifetime :: duration where "maximumApprovalLifetime = 24 * 3600 * second"
definition maximumApprovalClockSkew :: duration where "maximumApprovalClockSkew = 60 * second"

definition validateEnvelope :: "string \<Rightarrow> string \<Rightarrow> string \<Rightarrow> control_error option" where
  "validateEnvelope got want idempotencyKey =
     first_err [fail_if (got \<noteq> want) ErrInvalid,
                fail_if (\<not> validIdentifier idempotencyKey) ErrInvalid]"

definition validateMutationContext :: "MutationContext \<Rightarrow> control_error option" where
  "validateMutationContext c =
     first_err
       [fail_if (\<not> validIdentifier (mc_TransactionID c) \<or> \<not> validIdentifier (mc_ClaimID c)) ErrInvalid,
        fail_if (mc_ExpectedResourceVersion c = 0 \<or> mc_FenceEpoch c = 0) ErrInvalid]"

definition validateLease :: "uint32 \<Rightarrow> control_error option" where
  "validateLease n =
     (let d = seconds n in fail_if (d < minimumLease \<or> d > maximumLease) ErrInvalid)"

text \<open>The loop of \<^verbatim>\<open>validateStringSet\<close>, with the set of values seen so far.\<close>

fun validateStringSet_loop :: "string list \<Rightarrow> string list \<Rightarrow> control_error option" where
  "validateStringSet_loop seen [] = None"
| "validateStringSet_loop seen (v # vs) =
     (if \<not> validIdentifier v then Some ErrInvalid
      else if v \<in> set seen then Some ErrInvalid
      else validateStringSet_loop (v # seen) vs)"

definition validateStringSet :: "string list \<Rightarrow> nat \<Rightarrow> nat \<Rightarrow> control_error option" where
  "validateStringSet values minimum maximum =
     (if length values < minimum \<or> length values > maximum then Some ErrInvalid
      else validateStringSet_loop [] values)"

definition validateDevelopmentOperationNames :: "string list \<Rightarrow> campaign_error option" where
  "validateDevelopmentOperationNames values = ValidateDevelopmentOperations values"

definition invalidDevelopmentOperationNames :: "string list \<Rightarrow> control_error option" where
  \<comment> \<open>the callers rewrap its error as \<^verbatim>\<open>invalid(...)\<close>\<close>
  "invalidDevelopmentOperationNames values =
     fail_if (validateDevelopmentOperationNames values \<noteq> None) ErrInvalid"

definition validateCreateRequest :: "CreateTransactionRequest \<Rightarrow> control_error option" where
  "validateCreateRequest r =
     first_err
       ([validateEnvelope (ct_SchemaVersion r) CreateTransactionRequestSchemaVersion (ct_IdempotencyKey r)]
        @ map (\<lambda>v. fail_if (\<not> validIdentifier v) ErrInvalid)
            [ct_TransactionID r, ct_AssetID r, ct_IntendedLogicalID r, ct_ProfileID r]
        @ map (\<lambda>v. fail_if (\<not> validDigest v) ErrInvalid)
            [ct_BundleDigest r, ct_PolicyDigest r, ct_ExpectedPrestateCustomerKeyHash r,
             ct_ExpectedCustomerKeyHash r]
        @ [fail_if (ct_ExpectedPrestateCustomerKeyHash r \<noteq> UnownedCustomerKeyHash) ErrInvalid,
           fail_if (ct_ExpectedCustomerKeyHash r = UnownedCustomerKeyHash) ErrInvalid])"

definition unsupportedMode :: "ClaimMode \<Rightarrow> bool" where
  "unsupportedMode m = (m \<noteq> ClaimModeMutation \<and> m \<noteq> ClaimModeReconciliation)"

definition validateAcquireClaimRequest :: "AcquireClaimRequest \<Rightarrow> control_error option" where
  "validateAcquireClaimRequest r =
     first_err
       [validateEnvelope (ac_SchemaVersion r) AcquireClaimRequestSchemaVersion (ac_IdempotencyKey r),
        fail_if (\<not> validIdentifier (ac_TransactionID r) \<or> \<not> validIdentifier (ac_StationID r)
                 \<or> \<not> validIdentifier (ac_LaneID r)) ErrInvalid,
        fail_if (ac_ExpectedResourceVersion r = 0) ErrInvalid,
        fail_if (unsupportedMode (ac_Mode r)) ErrInvalid,
        validateStringSet (ac_AllowedStages r) 1 32,
        validateLease (ac_LeaseDurationSeconds r)]"

definition rn_context :: "RenewClaimRequest \<Rightarrow> MutationContext" where
  "rn_context r = \<lparr>mc_TransactionID = rn_TransactionID r,
     mc_ExpectedResourceVersion = rn_ExpectedResourceVersion r,
     mc_ClaimID = rn_ClaimID r, mc_FenceEpoch = rn_FenceEpoch r\<rparr>"

definition validateRenewClaimRequest :: "RenewClaimRequest \<Rightarrow> control_error option" where
  "validateRenewClaimRequest r =
     first_err
       [validateEnvelope (rn_SchemaVersion r) RenewClaimRequestSchemaVersion (rn_IdempotencyKey r),
        validateMutationContext (rn_context r),
        fail_if ((rn_ApprovalID r = []) \<noteq> (rn_PlanDigest r = [])) ErrInvalid,
        fail_if (rn_ApprovalID r \<noteq> [] \<and>
                 (\<not> validIdentifier (rn_ApprovalID r) \<or> \<not> validDigest (rn_PlanDigest r))) ErrInvalid,
        (case rn_TargetBoundAuthorizationExpiresAt r of None \<Rightarrow> None
         | Some t \<Rightarrow> first_err [fail_if (gt_instant t = 0) ErrInvalid,
                                fail_if (rn_ApprovalID r \<noteq> []) ErrInvalid]),
        validateLease (rn_LeaseDurationSeconds r)]"

definition validateCurrentClaimPreflightRequest ::
  "CurrentClaimPreflightRequest \<Rightarrow> control_error option" where
  "validateCurrentClaimPreflightRequest r =
     first_err
       [fail_if (cp_SchemaVersion r \<noteq> CurrentClaimPreflightRequestSchemaVersion) ErrInvalid,
        validateMutationContext (cp_MutationContext r),
        fail_if ((cp_ApprovalID r = []) \<noteq> (cp_PlanDigest r = [])) ErrInvalid,
        fail_if (cp_ApprovalID r \<noteq> [] \<and>
                 (\<not> validIdentifier (cp_ApprovalID r) \<or> \<not> validDigest (cp_PlanDigest r))) ErrInvalid,
        fail_if (cp_MinimumApprovalRemainingSeconds r \<noteq> 0 \<and> cp_ApprovalID r = []) ErrInvalid]"

definition tr_context :: "TransferClaimRequest \<Rightarrow> MutationContext" where
  "tr_context r = \<lparr>mc_TransactionID = tr_TransactionID r,
     mc_ExpectedResourceVersion = tr_ExpectedResourceVersion r,
     mc_ClaimID = tr_ClaimID r, mc_FenceEpoch = tr_FenceEpoch r\<rparr>"

definition validateTransferClaimRequest :: "TransferClaimRequest \<Rightarrow> control_error option" where
  "validateTransferClaimRequest r =
     first_err
       [validateEnvelope (tr_SchemaVersion r) TransferClaimRequestSchemaVersion (tr_IdempotencyKey r),
        validateMutationContext (tr_context r),
        fail_if (\<not> validIdentifier (tr_NewStationID r) \<or> \<not> validIdentifier (tr_NewLaneID r)) ErrInvalid,
        fail_if (unsupportedMode (tr_Mode r)) ErrInvalid,
        validateStringSet (tr_AllowedStages r) 1 32,
        validateLease (tr_LeaseDurationSeconds r)]"

definition rl_context :: "ReleaseClaimRequest \<Rightarrow> MutationContext" where
  "rl_context r = \<lparr>mc_TransactionID = rl_TransactionID r,
     mc_ExpectedResourceVersion = rl_ExpectedResourceVersion r,
     mc_ClaimID = rl_ClaimID r, mc_FenceEpoch = rl_FenceEpoch r\<rparr>"

definition validateReleaseClaimRequest :: "ReleaseClaimRequest \<Rightarrow> control_error option" where
  "validateReleaseClaimRequest r =
     first_err
       [validateEnvelope (rl_SchemaVersion r) ReleaseClaimRequestSchemaVersion (rl_IdempotencyKey r),
        validateMutationContext (rl_context r)]"

definition validateBindTargetRequest :: "BindTargetRequest \<Rightarrow> control_error option" where
  "validateBindTargetRequest r =
     first_err
       [validateEnvelope (bt_SchemaVersion r) BindTargetRequestSchemaVersion (bt_IdempotencyKey r),
        validateMutationContext (bt_MutationContext r),
        fail_if (\<not> validDigest (bt_TargetFingerprint r) \<or> \<not> validDigest (bt_ObservationDigest r)
                 \<or> \<not> validDigest (bt_CustomerKeyHash r)) ErrInvalid]"

definition validateRecordApprovalRequest :: "RecordApprovalRequest \<Rightarrow> control_error option" where
  "validateRecordApprovalRequest r =
     first_err
       ([validateEnvelope (ra_SchemaVersion r) RecordApprovalRequestSchemaVersion (ra_IdempotencyKey r),
         validateMutationContext (ra_MutationContext r),
         fail_if (\<not> validIdentifier (ra_ApprovalID r) \<or> \<not> validIdentifier (ra_ApproverID r)) ErrInvalid]
        @ map (\<lambda>v. fail_if (\<not> validDigest v) ErrInvalid)
            [ra_TransactionDigest r, ra_PlanDigest r, ra_TargetFingerprint r, ra_AuditReceiptID r]
        @ [fail_if (\<not> Binding_Validate (ra_Release r)) ErrInvalid,
           validateStringSet (ra_AllowedOperations r) 1 32,
           invalidDevelopmentOperationNames (ra_AllowedOperations r),
           fail_if (gt_instant (ra_ExpiresAt r) = 0) ErrInvalid])"

definition validateApprovalTimeShape :: "instant \<Rightarrow> instant \<Rightarrow> control_error option" where
  "validateApprovalTimeShape approvedAt expiresAt =
     first_err
       [fail_if (approvedAt = 0) ErrInvalid,
        fail_if (\<not> expiresAt > approvedAt \<or> expiresAt > approvedAt + maximumApprovalLifetime) ErrInvalid]"

definition validateApprovalPreflightRequest :: "ApprovalPreflightRequest \<Rightarrow> control_error option" where
  "validateApprovalPreflightRequest r =
     first_err
       ([fail_if (pf_SchemaVersion r \<noteq> ApprovalPreflightRequestSchemaVersion) ErrInvalid,
         validateMutationContext (pf_MutationContext r),
         fail_if (\<not> validIdentifier (pf_ApprovalID r) \<or> \<not> validIdentifier (pf_ApproverID r)
                  \<or> \<not> validIdentifier (pf_StationID r) \<or> \<not> validIdentifier (pf_LaneID r)) ErrInvalid]
        @ map (\<lambda>v. fail_if (\<not> validDigest v) ErrInvalid)
            [pf_TransactionDigest r, pf_PlanDigest r, pf_TargetFingerprint r]
        @ [fail_if (\<not> Binding_Validate (pf_Release r)) ErrInvalid,
           validateStringSet (pf_AllowedOperations r) 1 32,
           invalidDevelopmentOperationNames (pf_AllowedOperations r),
           validateApprovalTimeShape (gt_instant (pf_ApprovedAt r)) (gt_instant (pf_ExpiresAt r))])"

definition validateCurrentApprovalExpiry :: "instant \<Rightarrow> instant \<Rightarrow> control_error option" where
  "validateCurrentApprovalExpiry expiresAt now =
     fail_if (\<not> expiresAt > now \<or> expiresAt > now + maximumApprovalLifetime) ErrInvalid"

definition validateCurrentApprovalPreflightTimes ::
  "instant \<Rightarrow> instant \<Rightarrow> instant \<Rightarrow> control_error option" where
  "validateCurrentApprovalPreflightTimes approvedAt expiresAt now =
     first_err
       [fail_if (approvedAt > now + maximumApprovalClockSkew) ErrInvalid,
        validateCurrentApprovalExpiry expiresAt now]"

definition validateRecordIntentRequest :: "RecordIntentRequest \<Rightarrow> control_error option" where
  "validateRecordIntentRequest r =
     first_err
       ([validateEnvelope (ri_SchemaVersion r) RecordIntentRequestSchemaVersion (ri_IdempotencyKey r),
         validateMutationContext (ri_MutationContext r),
         fail_if (\<not> validIdentifier (ri_ApprovalID r) \<or> \<not> validIdentifier (ri_OperationID r)
                  \<or> \<not> validIdentifier (ri_Operation r)) ErrInvalid]
        @ map (\<lambda>v. fail_if (\<not> validDigest v) ErrInvalid)
            [ri_PlanDigest r, ri_InputDigest r, ri_PrestateDigest r, ri_AuditReceiptID r])"

definition validateRecordEvidenceRequest :: "RecordEvidenceRequest \<Rightarrow> control_error option" where
  "validateRecordEvidenceRequest r =
     first_err
       ([validateEnvelope (re_SchemaVersion r) RecordEvidenceRequestSchemaVersion (re_IdempotencyKey r),
         validateMutationContext (re_MutationContext r),
         fail_if (\<not> validIdentifier (re_OperationID r)) ErrInvalid,
         fail_if (re_Result r \<noteq> EvidenceSucceeded \<and> re_Result r \<noteq> EvidenceFailed
                  \<and> re_Result r \<noteq> EvidenceUncertain) ErrInvalid]
        @ map (\<lambda>v. fail_if (\<not> validDigest v) ErrInvalid)
            [re_OutputDigest r, re_ObservationDigest r, re_AuditReceiptID r])"

definition validateRecordReconciliationRequest ::
  "RecordReconciliationRequest \<Rightarrow> control_error option" where
  "validateRecordReconciliationRequest r =
     first_err
       [validateEnvelope (rr_SchemaVersion r) RecordReconciliationRequestSchemaVersion (rr_IdempotencyKey r),
        validateMutationContext (rr_MutationContext r),
        fail_if (\<not> validIdentifier (rr_OperationID r)) ErrInvalid,
        (case rr_Resolution r of
           ResolutionConfirmedApplied \<Rightarrow> fail_if (\<not> validDigest (rr_OutputDigest r)) ErrInvalid
         | ResolutionConfirmedNotApplied \<Rightarrow>
             fail_if (rr_OutputDigest r \<noteq> [] \<and> \<not> validDigest (rr_OutputDigest r)) ErrInvalid
         | ResolutionUnknown \<Rightarrow>
             fail_if (rr_OutputDigest r \<noteq> [] \<and> \<not> validDigest (rr_OutputDigest r)) ErrInvalid
         | ResolutionOther _ \<Rightarrow> Some ErrInvalid),
        fail_if (\<not> validDigest (rr_ObservationDigest r) \<or> \<not> validDigest (rr_AuditReceiptID r)) ErrInvalid]"

definition validateQuarantineRequest :: "QuarantineRequest \<Rightarrow> control_error option" where
  "validateQuarantineRequest r =
     first_err
       [validateEnvelope (qt_SchemaVersion r) QuarantineRequestSchemaVersion (qt_IdempotencyKey r),
        validateMutationContext (qt_MutationContext r),
        fail_if (\<not> validIdentifier (qt_ReasonCode r) \<or> \<not> validDigest (qt_ObservationDigest r)
                 \<or> \<not> validDigest (qt_AuditReceiptID r)) ErrInvalid]"

definition validateAbortRequest :: "AbortRequest \<Rightarrow> control_error option" where
  "validateAbortRequest r =
     first_err
       [validateEnvelope (ar_SchemaVersion r) AbortRequestSchemaVersion (ar_IdempotencyKey r),
        validateMutationContext (ar_MutationContext r),
        fail_if (\<not> validDigest (ar_ReusableBaselineDigest r) \<or> \<not> validDigest (ar_AuditReceiptID r)) ErrInvalid]"

definition validateSecurityAppliedRequest :: "SecurityAppliedRequest \<Rightarrow> control_error option" where
  "validateSecurityAppliedRequest r =
     first_err
       ([validateEnvelope (sr_SchemaVersion r) SecurityAppliedRequestSchemaVersion (sr_IdempotencyKey r),
         validateMutationContext (sr_MutationContext r)]
        @ map (\<lambda>v. fail_if (\<not> validDigest v) ErrInvalid)
            [sr_PlanDigest r, sr_EvidenceDigest r, sr_AuditReceiptID r]
        @ [fail_if (sr_RollbackStatus r \<noteq> ''rollback_unimplemented'') ErrInvalid,
           fail_if (sr_ReleaseClassification r \<noteq> ''development_asset'') ErrInvalid])"

definition contains :: "string list \<Rightarrow> string \<Rightarrow> bool" where
  "contains values want = list_ex (\<lambda>v. v = want) values"

section \<open>What validation guarantees\<close>

lemma contains_iff [simp]: "contains vs w \<longleftrightarrow> w \<in> set vs"
  by (auto simp: contains_def list_ex_iff)

lemma validateStringSet_loop_None:
  "validateStringSet_loop seen vs = None \<longleftrightarrow>
     list_all validIdentifier vs \<and> distinct vs \<and> set seen \<inter> set vs = {}"
  by (induction vs arbitrary: seen) auto

lemma validateStringSet_None:
  "validateStringSet vs lo hi = None \<longleftrightarrow>
     lo \<le> length vs \<and> length vs \<le> hi \<and> list_all validIdentifier vs \<and> distinct vs"
  by (auto simp: validateStringSet_def validateStringSet_loop_None)

lemma validateDevelopmentOperationNames_None:
  "validateDevelopmentOperationNames vs = None \<longleftrightarrow> vs = developmentOperations"
  by (simp add: validateDevelopmentOperationNames_def ValidateDevelopmentOperations_None)

lemma invalidDevelopmentOperationNames_None [simp]:
  "invalidDevelopmentOperationNames vs = None \<longleftrightarrow> vs = developmentOperations"
  by (simp add: invalidDevelopmentOperationNames_def validateDevelopmentOperationNames_None)

lemma validateEnvelope_None:
  "validateEnvelope got want key = None \<longleftrightarrow> got = want \<and> validIdentifier key"
  by (simp add: validateEnvelope_def)

lemma validateMutationContext_None:
  "validateMutationContext c = None \<longleftrightarrow>
     validIdentifier (mc_TransactionID c) \<and> validIdentifier (mc_ClaimID c) \<and>
     mc_ExpectedResourceVersion c \<noteq> 0 \<and> mc_FenceEpoch c \<noteq> 0"
  by (auto simp: validateMutationContext_def)

lemma validateLease_None:
  "validateLease n = None \<longleftrightarrow> 30 \<le> unat n \<and> unat n \<le> 3600"
proof -
  have u: "uint n = int (unat n)" by simp
  show ?thesis
    by (auto simp: validateLease_def Let_def seconds_def minimumLease_def maximumLease_def
        second_def u simp del: of_nat_unat)
qed

lemmas validate_None =
  validateStringSet_None validateEnvelope_None validateMutationContext_None validateLease_None

end
