(* ===== verification/Storage.thy ===== *)
theory Storage
  imports Prelude
begin

text \<open>
  The stores of the two services (\<^verbatim>\<open>controlplane/storage.go\<close> and \<^verbatim>\<open>auditlog/storage.go\<close>, which differ
  only in their messages): atomic replacement of one file, step by step, and the contract the
  services rely on, as the locale \<open>durable_store\<close>.
\<close>

section \<open>Replacing the store file\<close>

text \<open>
  \<^verbatim>\<open>FileStore.Save\<close>: the steps of the atomic replacement in order. Any of them can fail, and
  \<open>fault\<close> says which one does (\<open>None\<close>: all succeed). \<open>fs_path\<close> is what the store's path holds,
  \<open>fs_temp\<close> the temporary file, if there is one, with its content once it was written. Rename is
  taken to do what \<^verbatim>\<open>rename(2)\<close> promises: the path holds the old or the new file, never a mixture.
\<close>

datatype save_step =
  SaveMkdir | SaveCreateTemp | SaveChmod | SaveWrite | SaveSync | SaveClose | SaveRename
  | SaveOpenDir | SaveSyncDir

record 'd file_state =
  fs_path :: "'d option"
  fs_temp :: "'d option option"

fun save_effect :: "save_step \<Rightarrow> 'd \<Rightarrow> 'd file_state \<Rightarrow> 'd file_state" where
  "save_effect SaveCreateTemp data fs = fs\<lparr>fs_temp := Some None\<rparr>"
| "save_effect SaveWrite data fs = fs\<lparr>fs_temp := Some (Some data)\<rparr>"
| "save_effect SaveRename data fs =
     (case fs_temp fs of Some (Some d) \<Rightarrow> fs\<lparr>fs_path := Some d, fs_temp := None\<rparr> | _ \<Rightarrow> fs)"
| "save_effect _ data fs = fs"

text \<open>What a failing step leaves: from the permission change up to the rename, the temporary file is
  removed before the error is returned.\<close>

fun save_cleanup :: "save_step \<Rightarrow> 'd file_state \<Rightarrow> 'd file_state" where
  "save_cleanup SaveChmod fs = fs\<lparr>fs_temp := None\<rparr>"
| "save_cleanup SaveWrite fs = fs\<lparr>fs_temp := None\<rparr>"
| "save_cleanup SaveSync fs = fs\<lparr>fs_temp := None\<rparr>"
| "save_cleanup SaveClose fs = fs\<lparr>fs_temp := None\<rparr>"
| "save_cleanup SaveRename fs = fs\<lparr>fs_temp := None\<rparr>"
| "save_cleanup _ fs = fs"

fun save_run ::
  "save_step option \<Rightarrow> 'd \<Rightarrow> save_step list \<Rightarrow> 'd file_state \<Rightarrow> bool \<times> 'd file_state" where
  "save_run fault data [] fs = (True, fs)"
| "save_run fault data (s # ss) fs =
     (if fault = Some s then (False, save_cleanup s fs)
      else save_run fault data ss (save_effect s data fs))"

definition save_steps :: "save_step list" where
  "save_steps = [SaveMkdir, SaveCreateTemp, SaveChmod, SaveWrite, SaveSync, SaveClose, SaveRename,
     SaveOpenDir, SaveSyncDir]"

definition FileStore_Save ::
  "save_step option \<Rightarrow> 'd \<Rightarrow> 'd file_state \<Rightarrow> bool \<times> 'd file_state" where
  "FileStore_Save fault data fs = save_run fault data save_steps fs"

definition FileStore_Load :: "'d file_state \<Rightarrow> 'd option" where
  "FileStore_Load fs = fs_path fs"

text \<open>\<^verbatim>\<open>MemoryStore\<close>\<close>

definition MemoryStore_Save :: "unit \<Rightarrow> 'd \<Rightarrow> 'd option \<Rightarrow> bool \<times> 'd option" where
  "MemoryStore_Save u data store = (True, Some data)"

definition MemoryStore_Load :: "'d option \<Rightarrow> 'd option" where
  "MemoryStore_Load store = store"

section \<open>The store contract\<close>

text \<open>
  What the services rely on: a successful save is what the next load returns, and a failed one
  leaves the old content or the new one, nothing else.
\<close>

locale durable_store =
  fixes save :: "'f \<Rightarrow> 'd \<Rightarrow> 's \<Rightarrow> bool \<times> 's"
    and load :: "'s \<Rightarrow> 'd option"
  assumes save_ok: "save f d s = (True, s') \<Longrightarrow> load s' = Some d"
    and save_failed: "save f d s = (False, s') \<Longrightarrow> load s' = load s \<or> load s' = Some d"
begin

lemma load_after_save: "load (snd (save f d s)) = load s \<or> load (snd (save f d s)) = Some d"
  using save_ok [of f d s] save_failed [of f d s] by (cases "save f d s") (cases "fst (save f d s)"; auto)

text \<open>A property of stored values that every saved value has survives any number of saves.\<close>

lemma load_keeps:
  assumes "\<And>d. load s = Some d \<Longrightarrow> P d" and "P d" and "load (snd (save f d s)) = Some d'"
  shows "P d'"
  using load_after_save [of f d s] assms by auto

end

lemma FileStore_Save_ok:
  "FileStore_Save fault d fs = (True, fs') \<Longrightarrow> fs' = \<lparr>fs_path = Some d, fs_temp = None\<rparr>"
  by (auto simp: FileStore_Save_def save_steps_def split: if_splits)

lemma FileStore_Save_path:
  "fs_path (snd (FileStore_Save fault d fs)) = fs_path fs \<or>
   fs_path (snd (FileStore_Save fault d fs)) = Some d"
  by (auto simp: FileStore_Save_def save_steps_def)

interpretation file_store: durable_store FileStore_Save FileStore_Load
proof
  fix f :: "save_step option" and d :: 'd and s s' :: "'d file_state"
  show "FileStore_Save f d s = (True, s') \<Longrightarrow> FileStore_Load s' = Some d"
    using FileStore_Save_ok by (force simp: FileStore_Load_def)
  show "FileStore_Save f d s = (False, s') \<Longrightarrow> FileStore_Load s' = FileStore_Load s \<or> FileStore_Load s' = Some d"
    using FileStore_Save_path [of f d s] by (simp add: FileStore_Load_def)
qed

interpretation memory_store: durable_store MemoryStore_Save MemoryStore_Load
  by unfold_locales (auto simp: MemoryStore_Save_def MemoryStore_Load_def)

section \<open>Failing steps\<close>

definition before_rename :: "save_step \<Rightarrow> bool" where
  "before_rename f \<longleftrightarrow> f \<notin> {SaveOpenDir, SaveSyncDir}"

section \<open>Histories of memory and file\<close>

text \<open>
  A service keeps its state in memory and writes a proposed successor to the file before it adopts
  it. A save that fails too late leaves the successor in the file only, and a restart reads the file.
  \<open>propose\<close> is the relation between a state and the successors a call may write.
\<close>

inductive journal_step :: "'d \<Rightarrow> ('d \<Rightarrow> 'd \<Rightarrow> bool) \<Rightarrow> 'd \<times> 'd option \<Rightarrow> 'd \<times> 'd option \<Rightarrow> bool"
  for first propose where
  keep: "journal_step first propose x x"
| late: "propose m m' \<Longrightarrow> journal_step first propose (m, f) (m, Some m')"
| commit: "propose m m' \<Longrightarrow> journal_step first propose (m, f) (m', Some m')"
| restart: "journal_step first propose (m, Some d) (d, Some d)"
| fresh: "journal_step first propose (m, None) (first, None)"

inductive_cases journal_stepE: "journal_step first propose (m, f) (m', f')"

inductive journal_steps :: "'d \<Rightarrow> ('d \<Rightarrow> 'd \<Rightarrow> bool) \<Rightarrow> 'd \<times> 'd option \<Rightarrow> 'd \<times> 'd option \<Rightarrow> bool"
  for first propose where
  start: "journal_steps first propose x x"
| onward: "journal_steps first propose x y \<Longrightarrow> journal_step first propose y z \<Longrightarrow> journal_steps first propose x z"

locale journal =
  fixes first :: 'd and propose :: "'d \<Rightarrow> 'd \<Rightarrow> bool" and I :: "'d \<Rightarrow> bool" and R :: "'d \<Rightarrow> 'd \<Rightarrow> bool"
  assumes I_first: "I first"
    and I_step: "I d \<Longrightarrow> propose d d' \<Longrightarrow> I d'"
    and R_refl: "R d d"
    and R_trans: "R d d' \<Longrightarrow> R d' d'' \<Longrightarrow> R d d''"
    and R_step: "I d \<Longrightarrow> propose d d' \<Longrightarrow> R d d'"
begin

text \<open>The invariant holds of the memory and of the file, and the file is never behind the memory.\<close>

definition sound :: "'d \<times> 'd option \<Rightarrow> bool" where
  "sound x \<longleftrightarrow> I (fst x) \<and> (case snd x of None \<Rightarrow> fst x = first | Some d \<Rightarrow> I d \<and> R (fst x) d)"

lemma sound_step:
  assumes "journal_step first propose x y" and "sound x"
  shows "sound y \<and> R (fst x) (fst y)"
  using assms I_first I_step R_refl R_step
  by (cases rule: journal_step.cases) (auto simp: sound_def split: option.splits)

lemma sound_steps:
  assumes "journal_steps first propose x y" and "sound x"
  shows "sound y \<and> R (fst x) (fst y)"
  using assms by induction (use sound_step R_refl R_trans in blast)+

lemma sound_first: "sound (first, None)"
  using I_first by (simp add: sound_def)

end

end
