(* ===== verification/Control_Store.thy ===== *)
theory Control_Store
  imports Control_Validation Storage
begin

text \<open>
  Integrity checks of the durable control-plane state (\<^verbatim>\<open>store_validation.go\<close>, with the campaign
  check of \<^verbatim>\<open>workflow.go\<close> it calls) and the file replacement protocol of \<^verbatim>\<open>storage.go\<close>. Every
  failed integrity check is the class \<open>ErrCorruptStore\<close>.
\<close>

section \<open>The completed campaign\<close>

text \<open>The loop of \<^verbatim>\<open>validateCompletedDevelopmentCampaign\<close>; \<open>next\<close> counts the completed steps. The
  result of a finished loop is the final count.\<close>

fun completedCampaign_loop ::
  "OperationRecord list \<Rightarrow> Approval \<Rightarrow> nat \<Rightarrow> control_error + nat" where
  "completedCampaign_loop [] approval next = Inr next"
| "completedCampaign_loop (operation # rest) approval next =
     (if next \<ge> length (ap_AllowedOperations approval) then Inl ErrIllegalTransition
      else if op_PlanDigest operation \<noteq> ap_PlanDigest approval then Inl ErrIllegalTransition
      else if op_Release operation \<noteq> ap_Release approval \<or>
              op_ApprovalExpiresAt operation \<noteq> ap_ExpiresAt approval then Inl ErrIllegalTransition
      else if op_Operation operation \<noteq> ap_AllowedOperations approval ! next
      then Inl ErrIllegalTransition
      else (case op_Status operation of
              OperationSucceeded \<Rightarrow> completedCampaign_loop rest approval (next + 1)
            | OperationConfirmedApplied \<Rightarrow> completedCampaign_loop rest approval (next + 1)
            | OperationConfirmedNotApplied \<Rightarrow> completedCampaign_loop rest approval next
            | _ \<Rightarrow> Inl ErrIllegalTransition))"

definition validateCompletedDevelopmentCampaign ::
  "OperationRecord list \<Rightarrow> Approval option \<Rightarrow> control_error option" where
  "validateCompletedDevelopmentCampaign operations approval =
     (case approval of None \<Rightarrow> Some ErrIllegalTransition
      | Some a \<Rightarrow>
          if validateDevelopmentOperationNames (ap_AllowedOperations a) \<noteq> None
          then Some ErrIllegalTransition
          else (case completedCampaign_loop operations a 0 of
                  Inl e \<Rightarrow> Some e
                | Inr next \<Rightarrow>
                    fail_if (next \<noteq> length (ap_AllowedOperations a)) ErrIllegalTransition))"

section \<open>Stored records\<close>

definition claimIdentityExists :: "Transaction \<Rightarrow> string \<Rightarrow> string \<Rightarrow> uint64 \<Rightarrow> bool" where
  "claimIdentityExists t stationID laneID fenceEpoch =
     (let matches = (\<lambda>c. cl_StationID c = stationID \<and> cl_LaneID c = laneID
                          \<and> cl_FenceEpoch c = fenceEpoch)
      in (case tx_ActiveClaim t of Some c \<Rightarrow> matches c | None \<Rightarrow> False)
         \<or> list_ex matches (tx_ClaimHistory t))"

definition validateClaim :: "Claim \<Rightarrow> Transaction \<Rightarrow> bool \<Rightarrow> control_error option" where
  "validateClaim c t active =
     first_err
       [fail_if (\<not> validIdentifier (cl_ID c) \<or> \<not> validIdentifier (cl_StationID c)
                 \<or> \<not> validIdentifier (cl_LaneID c) \<or> cl_AssetID c \<noteq> tx_AssetID t
                 \<or> cl_FenceEpoch c = 0 \<or> cl_FenceEpoch c > tx_FenceEpoch t
                 \<or> cl_AcquiredAt c = 0 \<or> \<not> cl_ExpiresAt c > cl_AcquiredAt c) ErrCorruptStore,
        fail_if (unsupportedMode (cl_Mode c)) ErrCorruptStore,
        fail_if (validateStringSet (cl_AllowedStages c) 1 32 \<noteq> None) ErrCorruptStore,
        (if active
         then fail_if (cl_Status c \<noteq> ClaimActive \<or> cl_ClosedAt c \<noteq> None
                       \<or> cl_FenceEpoch c \<noteq> tx_FenceEpoch t) ErrCorruptStore
         else first_err
                [fail_if (cl_Status c \<noteq> ClaimReleased \<and> cl_Status c \<noteq> ClaimTransferred
                          \<and> cl_Status c \<noteq> ClaimExpired) ErrCorruptStore,
                 (case cl_ClosedAt c of None \<Rightarrow> Some ErrCorruptStore
                  | Some closed \<Rightarrow> fail_if (closed < cl_AcquiredAt c) ErrCorruptStore)])]"

definition validateStoredApproval ::
  "Approval \<Rightarrow> Transaction \<Rightarrow> uint64 \<Rightarrow> control_error option" where
  "validateStoredApproval a t expectedFenceEpoch =
     first_err
       [fail_if (\<not> validIdentifier (ap_ID a) \<or> \<not> validIdentifier (ap_ApproverID a)
                 \<or> ap_TransactionDigest a \<noteq> tx_TransactionDigest t
                 \<or> \<not> validDigest (ap_PlanDigest a) \<or> \<not> validIdentifier (ap_StationID a)
                 \<or> \<not> validIdentifier (ap_LaneID a) \<or> ap_FenceEpoch a \<noteq> expectedFenceEpoch
                 \<or> (case tx_Target t of None \<Rightarrow> True
                    | Some target \<Rightarrow> ap_TargetFingerprint a \<noteq> tb_Fingerprint target)
                 \<or> SignedReleaseManifestDigest (ap_Release a) \<noteq> tx_BundleDigest t
                 \<or> rb_ExpectedCustomerKeyHash (ap_Release a) \<noteq> tx_ExpectedCustomerKeyHash t
                 \<or> \<not> validDigest (ap_AuditReceiptID a) \<or> ap_ApprovedAt a = 0
                 \<or> \<not> ap_ExpiresAt a > ap_ApprovedAt a
                 \<or> ap_ExpiresAt a > ap_ApprovedAt a + maximumApprovalLifetime) ErrCorruptStore,
        fail_if (\<not> Binding_Validate (ap_Release a)) ErrCorruptStore,
        fail_if (validateStringSet (ap_AllowedOperations a) 1 32 \<noteq> None) ErrCorruptStore,
        fail_if (validateDevelopmentOperationNames (ap_AllowedOperations a) \<noteq> None) ErrCorruptStore]"

text \<open>The evidence fields each operation status requires.\<close>

definition evidenceComplete :: "OperationRecord \<Rightarrow> control_error option" where
  "evidenceComplete op =
     (case op_Status op of
        OperationIntentRecorded \<Rightarrow>
          fail_if (op_OutputDigest op \<noteq> [] \<or> op_ObservationDigest op \<noteq> []
                   \<or> op_EvidenceAuditReceiptID op \<noteq> [] \<or> op_EvidenceAt op \<noteq> None
                   \<or> op_ReconciliationAuditReceiptID op \<noteq> []) ErrCorruptStore
      | OperationSucceeded \<Rightarrow>
          fail_if (\<not> validDigest (op_OutputDigest op) \<or> \<not> validDigest (op_ObservationDigest op)
                   \<or> \<not> validDigest (op_EvidenceAuditReceiptID op) \<or> op_EvidenceAt op = None) ErrCorruptStore
      | OperationFailed \<Rightarrow>
          fail_if (\<not> validDigest (op_OutputDigest op) \<or> \<not> validDigest (op_ObservationDigest op)
                   \<or> \<not> validDigest (op_EvidenceAuditReceiptID op) \<or> op_EvidenceAt op = None) ErrCorruptStore
      | OperationUncertain \<Rightarrow>
          (if op_EvidenceAuditReceiptID op \<noteq> []
           then fail_if (\<not> validDigest (op_OutputDigest op) \<or> \<not> validDigest (op_ObservationDigest op)
                         \<or> \<not> validDigest (op_EvidenceAuditReceiptID op) \<or> op_EvidenceAt op = None)
                  ErrCorruptStore
           else fail_if (\<not> validDigest (op_ObservationDigest op)
                         \<or> \<not> validDigest (op_ReconciliationAuditReceiptID op)
                         \<or> op_EvidenceAt op = None
                         \<or> (op_OutputDigest op \<noteq> [] \<and> \<not> validDigest (op_OutputDigest op)))
                  ErrCorruptStore)
      | OperationConfirmedApplied \<Rightarrow>
          fail_if (\<not> validDigest (op_OutputDigest op) \<or> \<not> validDigest (op_ObservationDigest op)
                   \<or> \<not> validDigest (op_ReconciliationAuditReceiptID op) \<or> op_EvidenceAt op = None)
            ErrCorruptStore
      | OperationConfirmedNotApplied \<Rightarrow>
          first_err
            [fail_if (op_OutputDigest op \<noteq> [] \<and> \<not> validDigest (op_OutputDigest op)) ErrCorruptStore,
             fail_if (\<not> validDigest (op_ObservationDigest op)
                      \<or> \<not> validDigest (op_ReconciliationAuditReceiptID op)
                      \<or> op_EvidenceAt op = None) ErrCorruptStore]
      | OperationStatusOther _ \<Rightarrow> Some ErrCorruptStore)"

definition validateStoredOperation :: "OperationRecord \<Rightarrow> Transaction \<Rightarrow> control_error option" where
  "validateStoredOperation op t =
     first_err
       [fail_if (\<not> validIdentifier (op_ID op) \<or> \<not> validIdentifier (op_Operation op)
                 \<or> \<not> validDigest (op_PlanDigest op) \<or> \<not> validDigest (op_InputDigest op)
                 \<or> \<not> validDigest (op_PrestateDigest op) \<or> \<not> validDigest (op_IntentAuditReceiptID op)
                 \<or> op_IntentAt op = 0 \<or> op_IntentFenceEpoch op = 0
                 \<or> op_IntentFenceEpoch op > tx_FenceEpoch t
                 \<or> \<not> op_ApprovalExpiresAt op > op_IntentAt op
                 \<or> op_ApprovalExpiresAt op > op_IntentAt op + maximumApprovalLifetime
                 \<or> SignedReleaseManifestDigest (op_Release op) \<noteq> tx_BundleDigest t
                 \<or> rb_ExpectedCustomerKeyHash (op_Release op) \<noteq> tx_ExpectedCustomerKeyHash t)
          ErrCorruptStore,
        fail_if (\<not> Binding_Validate (op_Release op)) ErrCorruptStore,
        fail_if (validateStoredApproval (op_Approval op) t (op_IntentFenceEpoch op) \<noteq> None)
          ErrCorruptStore,
        fail_if (ap_PlanDigest (op_Approval op) \<noteq> op_PlanDigest op
                 \<or> ap_Release (op_Approval op) \<noteq> op_Release op
                 \<or> ap_ExpiresAt (op_Approval op) \<noteq> op_ApprovalExpiresAt op
                 \<or> op_IntentAt op < ap_ApprovedAt (op_Approval op)
                 \<or> tx_Target t = None
                 \<or> \<not> claimIdentityExists t (ap_StationID (op_Approval op)) (ap_LaneID (op_Approval op))
                       (op_IntentFenceEpoch op)) ErrCorruptStore,
        evidenceComplete op]"

text \<open>The loop over the operations of one transaction: \<open>ids\<close> are the identifiers seen, \<open>blocked\<close>
  is \<^verbatim>\<open>confirmedNotApplied\<close>, \<open>first\<close> the first operation once it was read. The value of a finished
  loop is the final \<^verbatim>\<open>confirmedNotApplied\<close>.\<close>

fun operations_loop ::
  "Transaction \<Rightarrow> string list \<Rightarrow> bool \<Rightarrow> OperationRecord option \<Rightarrow> OperationRecord list
     \<Rightarrow> control_error + bool" where
  "operations_loop t ids blocked first [] = Inr blocked"
| "operations_loop t ids blocked first (op # ops) =
     (if blocked then Inl ErrCorruptStore
      else if op_ID op \<in> set ids then Inl ErrCorruptStore
      else (case validateStoredOperation op t of Some e \<Rightarrow> Inl e
            | None \<Rightarrow>
                (case first of
                   Some f \<Rightarrow>
                     if op_PlanDigest op \<noteq> op_PlanDigest f \<or> op_Release op \<noteq> op_Release f
                        \<or> op_ApprovalExpiresAt op \<noteq> op_ApprovalExpiresAt f
                     then Inl ErrCorruptStore
                     else operations_loop t (op_ID op # ids)
                            (op_Status op = OperationConfirmedNotApplied) (Some f) ops
                 | None \<Rightarrow>
                     operations_loop t (op_ID op # ids)
                       (op_Status op = OperationConfirmedNotApplied) (Some op) ops)))"

section \<open>One transaction, the whole store\<close>

definition transaction_header_ok :: "hash \<Rightarrow> Transaction \<Rightarrow> (string, uint64) gomap \<Rightarrow> control_error option" where
  "transaction_header_ok sha256 t fenceEpochs =
     first_err
       [fail_if (tx_SchemaVersion t \<noteq> TransactionSchemaVersion \<or> \<not> validIdentifier (tx_ID t)
                 \<or> \<not> validIdentifier (tx_AssetID t) \<or> \<not> validIdentifier (tx_IntendedLogicalID t)
                 \<or> \<not> validIdentifier (tx_ProfileID t)) ErrCorruptStore,
        fail_if (tx_ResourceVersion t = 0 \<or> tx_CreatedAt t = 0 \<or> tx_UpdatedAt t < tx_CreatedAt t)
          ErrCorruptStore,
        fail_if (\<not> validDigest (tx_BundleDigest t) \<or> \<not> validDigest (tx_PolicyDigest t)
                 \<or> \<not> validDigest (tx_ExpectedPrestateCustomerKeyHash t)
                 \<or> \<not> validDigest (tx_ExpectedCustomerKeyHash t)
                 \<or> \<not> validDigest (tx_TransactionDigest t)) ErrCorruptStore,
        fail_if (tx_ExpectedPrestateCustomerKeyHash t \<noteq> UnownedCustomerKeyHash
                 \<or> tx_ExpectedCustomerKeyHash t = UnownedCustomerKeyHash) ErrCorruptStore,
        fail_if (transactionDigest sha256 t \<noteq> Some (tx_TransactionDigest t)) ErrCorruptStore,
        (case tx_Status t of StatusOther _ \<Rightarrow> Some ErrCorruptStore | _ \<Rightarrow> None),
        fail_if (tx_FenceEpoch t > fenceEpochOf fenceEpochs (tx_AssetID t)) ErrCorruptStore]"

definition transaction_claims_ok :: "Transaction \<Rightarrow> control_error option" where
  "transaction_claims_ok t =
     first_err
       ((case tx_ActiveClaim t of None \<Rightarrow> None | Some c \<Rightarrow> validateClaim c t True)
        # map (\<lambda>c. validateClaim c t False) (tx_ClaimHistory t))"

definition transaction_target_ok :: "Transaction \<Rightarrow> control_error option" where
  "transaction_target_ok t =
     first_err
       [(case tx_Target t of None \<Rightarrow> None
         | Some target \<Rightarrow>
             fail_if (\<not> validDigest (tb_Fingerprint target) \<or> \<not> validDigest (tb_ObservationDigest target)
                      \<or> tb_CustomerKeyHash target \<noteq> tx_ExpectedPrestateCustomerKeyHash t
                      \<or> tb_BoundAt target = 0 \<or> tb_FenceEpoch target = 0
                      \<or> tb_FenceEpoch target > tx_FenceEpoch t) ErrCorruptStore),
        (case tx_Approval t of None \<Rightarrow> None
         | Some a \<Rightarrow> validateStoredApproval a t (tx_FenceEpoch t))]"

definition transaction_operations_ok :: "Transaction \<Rightarrow> control_error option" where
  "transaction_operations_ok t =
     (case operations_loop t [] False None (tx_Operations t) of
        Inl e \<Rightarrow> Some e
      | Inr confirmedNotApplied \<Rightarrow>
          fail_if (confirmedNotApplied \<and>
                   (case tx_ActiveClaim t of None \<Rightarrow> False
                    | Some c \<Rightarrow> cl_Mode c = ClaimModeMutation)) ErrCorruptStore)"

definition transaction_terminal_ok :: "Transaction \<Rightarrow> control_error option" where
  "transaction_terminal_ok t =
     first_err
       [fail_if ((tx_Status t = StatusQuarantined) \<noteq> (tx_Quarantine t \<noteq> None)) ErrCorruptStore,
        (case tx_Quarantine t of None \<Rightarrow> None
         | Some q \<Rightarrow> fail_if (\<not> validIdentifier (qr_ReasonCode q) \<or> \<not> validDigest (qr_ObservationDigest q)
                              \<or> \<not> validDigest (qr_AuditReceiptID q) \<or> qr_RecordedAt q = 0
                              \<or> qr_FenceEpoch q = 0) ErrCorruptStore),
        fail_if ((tx_Status t = StatusSecurityApplied) \<noteq> (tx_SecurityApplied t \<noteq> None)) ErrCorruptStore,
        (case tx_SecurityApplied t of None \<Rightarrow> None
         | Some s \<Rightarrow> fail_if (\<not> validDigest (sa_EvidenceDigest s) \<or> \<not> validDigest (sa_AuditReceiptID s)
                              \<or> sa_RollbackStatus s \<noteq> ''rollback_unimplemented''
                              \<or> sa_ReleaseClassification s \<noteq> ''development_asset''
                              \<or> sa_RecordedAt s = 0) ErrCorruptStore),
        (if tx_Status t = StatusSecurityApplied
         then first_err
                [fail_if (tx_Approval t = None) ErrCorruptStore,
                 fail_if (validateCompletedDevelopmentCampaign (tx_Operations t) (tx_Approval t) \<noteq> None)
                   ErrCorruptStore]
         else None),
        fail_if ((tx_Status t = StatusAborted) \<noteq> (tx_Abort t \<noteq> None)) ErrCorruptStore,
        (case tx_Abort t of None \<Rightarrow> None
         | Some a \<Rightarrow> fail_if (\<not> validDigest (ab_ReusableBaselineDigest a)
                              \<or> \<not> validDigest (ab_AuditReceiptID a) \<or> ab_RecordedAt a = 0)
                      ErrCorruptStore)]"

definition validateTransaction :: "hash \<Rightarrow> Transaction \<Rightarrow> (string, uint64) gomap \<Rightarrow> control_error option" where
  "validateTransaction sha256 t fenceEpochs =
     first_err
       [transaction_header_ok sha256 t fenceEpochs,
        transaction_claims_ok t,
        transaction_target_ok t,
        transaction_operations_ok t,
        transaction_terminal_ok t]"

definition ValidateTransactionSnapshot :: "hash \<Rightarrow> Transaction \<Rightarrow> control_error option" where
  "ValidateTransactionSnapshot sha256 t =
     validateTransaction sha256 t [(tx_AssetID t, tx_FenceEpoch t)]"

text \<open>The maps of a state held in memory are never nil; the nil check is part of opening a store,
  in the service.\<close>

definition validatePersistedState :: "hash \<Rightarrow> persistedState \<Rightarrow> control_error option" where
  "validatePersistedState sha256 st =
     first_err
       ([fail_if (ps_SchemaVersion st \<noteq> StoreSchemaVersion) ErrCorruptStore]
        @ map (\<lambda>(id, t). first_err [fail_if (id \<noteq> tx_ID t) ErrCorruptStore,
                                      validateTransaction sha256 t (ps_FenceEpochs st)])
            (ps_Transactions st)
        @ map (\<lambda>(key, r). first_err
                 [fail_if (\<not> validIdentifier key \<or> \<not> validIdentifier (ir_Operation r)
                           \<or> \<not> validDigest (ir_RequestDigest r)
                           \<or> \<not> validIdentifier (ir_TransactionID r)) ErrCorruptStore,
                  fail_if (map_get (ps_Transactions st) (ir_TransactionID r) = None) ErrCorruptStore])
            (ps_Idempotency st))"

end
