(* ===== verification/Control_Service.thy ===== *)
theory Control_Service
  imports Control_Store
begin

text \<open>
  The control-plane service (\<^verbatim>\<open>service.go\<close> and \<^verbatim>\<open>workflow.go\<close>). The service's mutex makes every
  call atomic, so a call is one function from the service to a result and the next service. What
  the call takes from outside is its \<open>env\<close>: the clock reading, the identifier generator's answer,
  the hash function, and which step of saving the store fails, if any.
\<close>

section \<open>Service state and environment\<close>

record env =
  env_now :: instant
  env_newID :: "string option" \<comment> \<open>\<open>None\<close>: the generator fails\<close>
  env_sha256 :: hash
  env_fault :: "save_step option"

text \<open>The generator that \<^verbatim>\<open>NewService\<close> installs; \<open>random\<close> is what \<^verbatim>\<open>crypto/rand\<close> puts into its buffer of
  sixteen bytes, or its failure.\<close>

definition randomID :: "string \<Rightarrow> string option \<Rightarrow> string option" where
  "randomID prefix random =
     (case random of None \<Rightarrow> None | Some bytes \<Rightarrow> Some (prefix @ ''-'' @ hex_encode bytes))"

record Service =
  svc_state :: persistedState
  svc_store :: "persistedState file_state"

text \<open>The times a value holds: encoding fails when one of them cannot be written as JSON.\<close>

definition claim_times :: "Claim \<Rightarrow> instant list" where
  "claim_times c = [cl_AcquiredAt c, cl_ExpiresAt c] @ (case cl_ClosedAt c of None \<Rightarrow> [] | Some t \<Rightarrow> [t])"

definition approval_times :: "Approval \<Rightarrow> instant list" where
  "approval_times a = [ap_ApprovedAt a, ap_ExpiresAt a]"

definition operation_times :: "OperationRecord \<Rightarrow> instant list" where
  "operation_times op = [op_ApprovalExpiresAt op, op_IntentAt op] @ approval_times (op_Approval op)
     @ (case op_EvidenceAt op of None \<Rightarrow> [] | Some t \<Rightarrow> [t])"

definition transaction_times :: "Transaction \<Rightarrow> instant list" where
  "transaction_times t =
     [tx_CreatedAt t, tx_UpdatedAt t]
     @ (case tx_ActiveClaim t of None \<Rightarrow> [] | Some c \<Rightarrow> claim_times c)
     @ concat (map claim_times (tx_ClaimHistory t))
     @ (case tx_Target t of None \<Rightarrow> [] | Some b \<Rightarrow> [tb_BoundAt b])
     @ (case tx_Approval t of None \<Rightarrow> [] | Some a \<Rightarrow> approval_times a)
     @ concat (map operation_times (tx_Operations t))
     @ (case tx_Quarantine t of None \<Rightarrow> [] | Some q \<Rightarrow> [qr_RecordedAt q])
     @ (case tx_SecurityApplied t of None \<Rightarrow> [] | Some s \<Rightarrow> [sa_RecordedAt s])
     @ (case tx_Abort t of None \<Rightarrow> [] | Some a \<Rightarrow> [ab_RecordedAt a])"

definition transaction_encodes :: "Transaction \<Rightarrow> bool" where
  "transaction_encodes t = list_all (\<lambda>i. time_marshals (utc i)) (transaction_times t)"

definition state_encodes :: "persistedState \<Rightarrow> bool" where
  "state_encodes st = list_all (\<lambda>(id, t). transaction_encodes t) (ps_Transactions st)"

text \<open>The JSON round trips that make defensive copies: the identity, or a failure to encode.\<close>

definition cloneState :: "persistedState \<Rightarrow> control_error + persistedState" where
  "cloneState st = (if state_encodes st then Inr st else Inl ErrOther)"

definition cloneTransaction :: "Transaction \<Rightarrow> control_error + Transaction" where
  "cloneTransaction t = (if transaction_encodes t then Inr t else Inl ErrOther)"

definition marshalState :: "persistedState \<Rightarrow> control_error + persistedState" where
  "marshalState st = (if state_encodes st then Inr st else Inl ErrOther)"

section \<open>Opening a service\<close>

definition initial_state :: persistedState where
  "initial_state = \<lparr>ps_SchemaVersion = StoreSchemaVersion, ps_Transactions = [],
     ps_FenceEpochs = [], ps_Idempotency = []\<rparr>"

text \<open>What \<^verbatim>\<open>store.Load\<close> and \<^verbatim>\<open>DecodeStrict\<close> find: no store, a read error, bytes that do not decode,
  or a decoded state, with a flag that says whether one of its three maps is missing.\<close>

datatype load_result = LoadNotFound | LoadFailed | LoadUndecodable | LoadDecoded bool persistedState

definition NewService :: "hash \<Rightarrow> bool \<Rightarrow> bool \<Rightarrow> load_result \<Rightarrow> control_error + persistedState" where
  "NewService sha256 store_nil option_nil loaded =
     (if store_nil then Inl ErrInvalid
      else if option_nil then Inl ErrInvalid
      else (case loaded of
              LoadNotFound \<Rightarrow> Inr initial_state
            | LoadFailed \<Rightarrow> Inl ErrOther
            | LoadUndecodable \<Rightarrow> Inl ErrCorruptStore
            | LoadDecoded maps_missing st \<Rightarrow>
                if ps_SchemaVersion st \<noteq> StoreSchemaVersion then Inl ErrCorruptStore
                else if maps_missing then Inl ErrCorruptStore
                else orFail (validatePersistedState sha256 st) (Inr st)))"

section \<open>Shared guards\<close>

definition GetTransaction :: "Service \<Rightarrow> string \<Rightarrow> control_error + Transaction" where
  "GetTransaction s transactionID =
     (case map_get (ps_Transactions (svc_state s)) transactionID of
        None \<Rightarrow> Inl ErrNotFound
      | Some t \<Rightarrow> cloneTransaction t)"

definition GetTransactionForReconciliation :: "Service \<Rightarrow> string \<Rightarrow> control_error + Transaction" where
  "GetTransactionForReconciliation s transactionID = GetTransaction s transactionID"

text \<open>An empty mode in the source asks for no particular mode.\<close>

definition requireCurrentClaim ::
  "Transaction \<Rightarrow> string \<Rightarrow> uint64 \<Rightarrow> instant \<Rightarrow> ClaimMode option \<Rightarrow> control_error + Claim" where
  "requireCurrentClaim t claimID epoch now mode =
     (case tx_ActiveClaim t of
        None \<Rightarrow> Inl ErrStaleFence
      | Some claim \<Rightarrow>
          if cl_Status claim \<noteq> ClaimActive \<or> cl_ID claim \<noteq> claimID
             \<or> cl_FenceEpoch claim \<noteq> epoch \<or> tx_FenceEpoch t \<noteq> epoch then Inl ErrStaleFence
          else if \<not> cl_ExpiresAt claim > now then Inl ErrLeaseExpired
          else (case mode of
                  Some m \<Rightarrow> if cl_Mode claim \<noteq> m then Inl ErrIllegalTransition else Inr claim
                | None \<Rightarrow> Inr claim))"

definition requireCurrentApproval ::
  "Transaction \<Rightarrow> Claim \<Rightarrow> string \<Rightarrow> string \<Rightarrow> instant \<Rightarrow> control_error + Approval" where
  "requireCurrentApproval t claim approvalID planDigest now =
     (case tx_Approval t of
        None \<Rightarrow> Inl ErrConflict
      | Some a \<Rightarrow>
          if ap_ID a \<noteq> approvalID \<or> ap_PlanDigest a \<noteq> planDigest
             \<or> ap_TransactionDigest a \<noteq> tx_TransactionDigest t
             \<or> ap_FenceEpoch a \<noteq> cl_FenceEpoch claim
             \<or> ap_StationID a \<noteq> cl_StationID claim \<or> ap_LaneID a \<noteq> cl_LaneID claim
             \<or> (case tx_Target t of None \<Rightarrow> True
                | Some target \<Rightarrow> ap_TargetFingerprint a \<noteq> tb_Fingerprint target)
             \<or> SignedReleaseManifestDigest (ap_Release a) \<noteq> tx_BundleDigest t
             \<or> rb_ExpectedCustomerKeyHash (ap_Release a) \<noteq> tx_ExpectedCustomerKeyHash t
          then Inl ErrConflict
          else if \<not> ap_ExpiresAt a > now then Inl ErrIllegalTransition
          else Inr a)"

definition hasConfirmedNotAppliedOperation :: "OperationRecord list \<Rightarrow> bool" where
  "hasConfirmedNotAppliedOperation operations =
     list_ex (\<lambda>op. op_Status op = OperationConfirmedNotApplied) operations"

definition validateClaimModeForStatus :: "ClaimMode \<Rightarrow> TransactionStatus \<Rightarrow> control_error option" where
  "validateClaimModeForStatus mode status =
     (case mode of
        ClaimModeMutation \<Rightarrow>
          (if status \<in> {StatusCreated, StatusClaimed, StatusTargetBound, StatusCommitApproved,
                        StatusReconciled} then None else Some ErrIllegalTransition)
      | ClaimModeReconciliation \<Rightarrow>
          (if status = StatusMutationInProgress \<or> status = StatusReconciliationRequired
              \<or> status = StatusQuarantined then None else Some ErrIllegalTransition)
      | ClaimModeOther _ \<Rightarrow> Some ErrIllegalTransition)"

text \<open>One iteration of \<^verbatim>\<open>ensureClaimResourcesAvailable\<close>.\<close>

definition claim_blocks ::
  "string \<Rightarrow> string \<Rightarrow> string \<Rightarrow> string \<Rightarrow> instant \<Rightarrow> string \<times> Transaction \<Rightarrow> bool" where
  "claim_blocks transactionID stationID laneID assetID now = (\<lambda>(id, t).
     (case tx_ActiveClaim t of
        None \<Rightarrow> False
      | Some claim \<Rightarrow>
          \<not> (id = transactionID \<or> cl_Status claim \<noteq> ClaimActive \<or> \<not> cl_ExpiresAt claim > now)
          \<and> (cl_AssetID claim = assetID
             \<or> cl_StationID claim = stationID \<and> cl_LaneID claim = laneID)))"

definition ensureClaimResourcesAvailable ::
  "persistedState \<Rightarrow> string \<Rightarrow> string \<Rightarrow> string \<Rightarrow> string \<Rightarrow> instant \<Rightarrow> control_error option" where
  "ensureClaimResourcesAvailable st transactionID stationID laneID assetID now =
     fail_if (list_ex (claim_blocks transactionID stationID laneID assetID now) (ps_Transactions st))
       ErrConflict"

section \<open>Idempotency, versions and commit\<close>

definition replayLocked ::
  "persistedState \<Rightarrow> string \<Rightarrow> string \<Rightarrow> string \<Rightarrow> control_error + Transaction option" where
  "replayLocked st operation key requestDigest =
     (case map_get (ps_Idempotency st) key of
        None \<Rightarrow> Inr None
      | Some r \<Rightarrow>
          if ir_Operation r \<noteq> operation \<or> ir_RequestDigest r \<noteq> requestDigest
          then Inl ErrIdempotencyConflict
          else (case map_get (ps_Transactions st) (ir_TransactionID r) of
                  None \<Rightarrow> Inl ErrCorruptStore
                | Some t \<Rightarrow> Inr (Some t)))"

text \<open>On success the memory state is the candidate; on failure it is unchanged, whatever the failed
  save left in the file.\<close>

definition commitLocked :: "env \<Rightarrow> persistedState \<Rightarrow> Service \<Rightarrow> control_error option \<times> Service" where
  "commitLocked e candidate s =
     (case validatePersistedState (env_sha256 e) candidate of
        Some err \<Rightarrow> (Some err, s)
      | None \<Rightarrow>
          (case marshalState candidate of
             Inl err \<Rightarrow> (Some err, s)
           | Inr data \<Rightarrow>
               (case FileStore_Save (env_fault e) data (svc_store s) of
                  (False, store) \<Rightarrow> (Some ErrOther, s\<lparr>svc_store := store\<rparr>)
                | (True, store) \<Rightarrow> (None, s\<lparr>svc_store := store, svc_state := candidate\<rparr>))))"

type_synonym mutateFunc =
  "instant \<Rightarrow> persistedState \<Rightarrow> Transaction \<Rightarrow> control_error + (persistedState \<times> Transaction)"

definition mutate ::
  "env \<Rightarrow> string \<Rightarrow> string \<Rightarrow> string \<Rightarrow> uint64 \<Rightarrow> json \<Rightarrow> mutateFunc \<Rightarrow> Service
     \<Rightarrow> (control_error + Transaction) \<times> Service" where
  "mutate e operation key transactionID expectedVersion request apply s =
     (case digestJSON (env_sha256 e) request of
        None \<Rightarrow> (Inl ErrOther, s)
      | Some requestDigest \<Rightarrow>
          (case replayLocked (svc_state s) operation key requestDigest of
             Inl err \<Rightarrow> (Inl err, s)
           | Inr (Some replay) \<Rightarrow> (cloneTransaction replay, s)
           | Inr None \<Rightarrow>
               (case map_get (ps_Transactions (svc_state s)) transactionID of
                  None \<Rightarrow> (Inl ErrNotFound, s)
                | Some current \<Rightarrow>
                    if expectedVersion = 0 \<or> tx_ResourceVersion current \<noteq> expectedVersion
                    then (Inl ErrVersionConflict, s)
                    else (case cloneState (svc_state s) of
                            Inl err \<Rightarrow> (Inl err, s)
                          | Inr candidate \<Rightarrow>
                              (case apply (env_now e) candidate current of
                                 Inl err \<Rightarrow> (Inl err, s)
                               | Inr (candidate', t) \<Rightarrow>
                                   let t' = t\<lparr>tx_ResourceVersion := tx_ResourceVersion t + 1,
                                              tx_UpdatedAt := env_now e\<rparr>;
                                       full = candidate'
                                         \<lparr>ps_Transactions := map_put transactionID t' (ps_Transactions candidate'),
                                          ps_Idempotency := map_put key
                                            \<lparr>ir_Operation = operation, ir_RequestDigest = requestDigest,
                                             ir_TransactionID = transactionID\<rparr> (ps_Idempotency candidate')\<rparr>
                                   in (case commitLocked e full s of
                                         (Some err, s') \<Rightarrow> (Inl err, s')
                                       | (None, s') \<Rightarrow> (cloneTransaction t', s')))))))"

section \<open>Creating a transaction\<close>

definition new_transaction :: "CreateTransactionRequest \<Rightarrow> instant \<Rightarrow> Transaction" where
  "new_transaction r now =
     \<lparr>tx_SchemaVersion = TransactionSchemaVersion, tx_ID = ct_TransactionID r,
      tx_ResourceVersion = 1, tx_Status = StatusCreated, tx_AssetID = ct_AssetID r,
      tx_IntendedLogicalID = ct_IntendedLogicalID r, tx_ProfileID = ct_ProfileID r,
      tx_BundleDigest = ct_BundleDigest r, tx_PolicyDigest = ct_PolicyDigest r,
      tx_ExpectedPrestateCustomerKeyHash = ct_ExpectedPrestateCustomerKeyHash r,
      tx_ExpectedCustomerKeyHash = ct_ExpectedCustomerKeyHash r,
      tx_TransactionDigest = [], tx_FenceEpoch = 0, tx_ActiveClaim = None, tx_ClaimHistory = [],
      tx_Target = None, tx_Approval = None, tx_Operations = [], tx_Quarantine = None,
      tx_SecurityApplied = None, tx_Abort = None, tx_CreatedAt = now, tx_UpdatedAt = now\<rparr>"

definition CreateTransaction ::
  "env \<Rightarrow> CreateTransactionRequest \<Rightarrow> Service \<Rightarrow> (control_error + Transaction) \<times> Service" where
  "CreateTransaction e r s =
     (case validateCreateRequest r of Some err \<Rightarrow> (Inl err, s) | None \<Rightarrow>
      (case digestJSON (env_sha256 e) (json_of_Create r) of None \<Rightarrow> (Inl ErrOther, s)
       | Some requestDigest \<Rightarrow>
         (case replayLocked (svc_state s) ''create_transaction'' (ct_IdempotencyKey r) requestDigest of
            Inl err \<Rightarrow> (Inl err, s)
          | Inr (Some replay) \<Rightarrow> (cloneTransaction replay, s)
          | Inr None \<Rightarrow>
              if map_get (ps_Transactions (svc_state s)) (ct_TransactionID r) \<noteq> None
              then (Inl ErrConflict, s)
              else if list_ex (\<lambda>(id, t). tx_AssetID t = ct_AssetID r
                                 \<or> tx_IntendedLogicalID t = ct_IntendedLogicalID r)
                        (ps_Transactions (svc_state s))
              then (Inl ErrConflict, s)
              else (case transactionDigest (env_sha256 e) (new_transaction r (env_now e)) of
                      None \<Rightarrow> (Inl ErrOther, s)
                    | Some d \<Rightarrow>
                        let t = (new_transaction r (env_now e))\<lparr>tx_TransactionDigest := d\<rparr>
                        in (case cloneState (svc_state s) of
                              Inl err \<Rightarrow> (Inl err, s)
                            | Inr candidate \<Rightarrow>
                                (case commitLocked e
                                        (candidate\<lparr>ps_Transactions :=
                                           map_put (tx_ID t) t (ps_Transactions candidate),
                                         ps_Idempotency := map_put (ct_IdempotencyKey r)
                                           \<lparr>ir_Operation = ''create_transaction'',
                                            ir_RequestDigest = requestDigest,
                                            ir_TransactionID = tx_ID t\<rparr>
                                           (ps_Idempotency candidate)\<rparr>) s of
                                   (Some err, s') \<Rightarrow> (Inl err, s')
                                 | (None, s') \<Rightarrow> (cloneTransaction t, s')))))))"

section \<open>Claims\<close>

text \<open>The status a fresh claim leaves, shared by acquisition and transfer.\<close>

definition claimed_status :: "ClaimMode \<Rightarrow> Transaction \<Rightarrow> TransactionStatus" where
  "claimed_status mode t =
     (if mode = ClaimModeReconciliation \<and> tx_Status t = StatusMutationInProgress
      then StatusReconciliationRequired
      else if tx_Status t \<noteq> StatusQuarantined \<and> tx_Status t \<noteq> StatusReconciliationRequired
      then (if tx_Target t = None then StatusClaimed
            else if mode = ClaimModeMutation then StatusTargetBound
            else tx_Status t)
      else tx_Status t)"

definition close_claim :: "ClaimStatus \<Rightarrow> instant \<Rightarrow> Claim \<Rightarrow> Claim" where
  "close_claim status now c = c\<lparr>cl_Status := status, cl_ClosedAt := Some now\<rparr>"

text \<open>The next fence epoch of an asset, and the claim literal of \<^verbatim>\<open>AcquireClaim\<close> and
  \<^verbatim>\<open>TransferClaim\<close>.\<close>

definition next_epoch :: "persistedState \<Rightarrow> string \<Rightarrow> uint64" where
  "next_epoch st asset = fenceEpochOf (ps_FenceEpochs st) asset + 1"

definition raise_fence :: "string \<Rightarrow> persistedState \<Rightarrow> persistedState" where
  "raise_fence asset st = st\<lparr>ps_FenceEpochs := map_put asset (next_epoch st asset) (ps_FenceEpochs st)\<rparr>"

definition new_claim ::
  "string \<Rightarrow> ClaimMode \<Rightarrow> string \<Rightarrow> string \<Rightarrow> string \<Rightarrow> uint64 \<Rightarrow> string list \<Rightarrow> instant \<Rightarrow> uint32 \<Rightarrow> Claim" where
  "new_claim claimID mode stationID laneID assetID epoch stages now lease =
     \<lparr>cl_ID = claimID, cl_Mode = mode, cl_Status = ClaimActive, cl_StationID = stationID,
      cl_LaneID = laneID, cl_AssetID = assetID, cl_FenceEpoch = epoch, cl_AllowedStages = stages,
      cl_AcquiredAt = now, cl_ExpiresAt = now + seconds lease, cl_ClosedAt = None\<rparr>"

definition install_claim :: "Claim list \<Rightarrow> Claim \<Rightarrow> Transaction \<Rightarrow> Transaction" where
  "install_claim history claim t =
     t\<lparr>tx_ClaimHistory := history, tx_FenceEpoch := cl_FenceEpoch claim, tx_ActiveClaim := Some claim,
       tx_Approval := None, tx_Status := claimed_status (cl_Mode claim) t\<rparr>"

definition acquire_apply :: "env \<Rightarrow> AcquireClaimRequest \<Rightarrow> mutateFunc" where
  "acquire_apply e r now st t =
     orFail (first_err
       [fail_if (case tx_ActiveClaim t of None \<Rightarrow> False
                 | Some c \<Rightarrow> cl_Status c = ClaimActive \<and> cl_ExpiresAt c > now) ErrConflict,
        fail_if (ac_Mode r = ClaimModeMutation \<and> hasConfirmedNotAppliedOperation (tx_Operations t))
          ErrIllegalTransition,
        validateClaimModeForStatus (ac_Mode r) (tx_Status t),
        ensureClaimResourcesAvailable st (tx_ID t) (ac_StationID r) (ac_LaneID r) (tx_AssetID t) now])
     (let history = (case tx_ActiveClaim t of None \<Rightarrow> tx_ClaimHistory t
                     | Some c \<Rightarrow> tx_ClaimHistory t @ [close_claim ClaimExpired now c])
      in (case env_newID e of
            None \<Rightarrow> Inl ErrOther
          | Some claimID \<Rightarrow>
              Inr (raise_fence (tx_AssetID t) st,
                   install_claim history
                     (new_claim claimID (ac_Mode r) (ac_StationID r) (ac_LaneID r) (tx_AssetID t)
                        (next_epoch st (tx_AssetID t)) (ac_AllowedStages r) now
                        (ac_LeaseDurationSeconds r)) t)))"

definition AcquireClaim ::
  "env \<Rightarrow> AcquireClaimRequest \<Rightarrow> Service \<Rightarrow> (control_error + Transaction) \<times> Service" where
  "AcquireClaim e r s =
     (case validateAcquireClaimRequest r of Some err \<Rightarrow> (Inl err, s)
      | None \<Rightarrow> mutate e ''acquire_claim'' (ac_IdempotencyKey r) (ac_TransactionID r)
                  (ac_ExpectedResourceVersion r) (json_of_Acquire r) (acquire_apply e r) s)"

definition requireClaimRenewalAuthorization ::
  "Transaction \<Rightarrow> Claim \<Rightarrow> RenewClaimRequest \<Rightarrow> instant \<Rightarrow> control_error option" where
  "requireClaimRenewalAuthorization t claim r now =
     (if tx_Status t = StatusTargetBound
      then (case rn_TargetBoundAuthorizationExpiresAt r of
              None \<Rightarrow> Some ErrIllegalTransition
            | Some deadline \<Rightarrow>
                first_err
                  [fail_if (rn_ApprovalID r \<noteq> []) ErrIllegalTransition,
                   fail_if (tx_Approval t \<noteq> None \<or> length (tx_Operations t) \<noteq> 0
                            \<or> length (tx_ClaimHistory t) \<noteq> 0 \<or> tx_Target t = None
                            \<or> tx_Quarantine t \<noteq> None \<or> tx_SecurityApplied t \<noteq> None
                            \<or> tx_Abort t \<noteq> None \<or> cl_Mode claim \<noteq> ClaimModeMutation
                            \<or> cl_AssetID claim \<noteq> tx_AssetID t) ErrIllegalTransition,
                   fail_if (\<not> gt_instant deadline > now
                            \<or> gt_instant deadline > now + maximumApprovalLifetime) ErrIllegalTransition])
      else first_err
             [fail_if (rn_TargetBoundAuthorizationExpiresAt r \<noteq> None) ErrIllegalTransition,
              fail_if (tx_Status t = StatusCommitApproved \<and> rn_ApprovalID r = []) ErrIllegalTransition,
              (if rn_ApprovalID r \<noteq> []
               then (case requireCurrentApproval t claim (rn_ApprovalID r) (rn_PlanDigest r) now of
                       Inl err \<Rightarrow> Some err | Inr _ \<Rightarrow> None)
               else None)])"

definition renew_apply :: "RenewClaimRequest \<Rightarrow> mutateFunc" where
  "renew_apply r now st t =
     bindE (requireCurrentClaim t (rn_ClaimID r) (rn_FenceEpoch r) now None) (\<lambda>claim.
       orFail (requireClaimRenewalAuthorization t claim r now)
         (Inr (st, t\<lparr>tx_ActiveClaim :=
            Some (claim\<lparr>cl_ExpiresAt := now + seconds (rn_LeaseDurationSeconds r)\<rparr>)\<rparr>)))"

definition RenewClaim ::
  "env \<Rightarrow> RenewClaimRequest \<Rightarrow> Service \<Rightarrow> (control_error + Transaction) \<times> Service" where
  "RenewClaim e r s =
     (case validateRenewClaimRequest r of Some err \<Rightarrow> (Inl err, s)
      | None \<Rightarrow> mutate e ''renew_claim'' (rn_IdempotencyKey r) (rn_TransactionID r)
                  (rn_ExpectedResourceVersion r) (json_of_Renew r) (renew_apply r) s)"

definition transfer_apply :: "env \<Rightarrow> TransferClaimRequest \<Rightarrow> mutateFunc" where
  "transfer_apply e r now st t =
     bindE (requireCurrentClaim t (tr_ClaimID r) (tr_FenceEpoch r) now None) (\<lambda>claim.
       orFail (first_err
         [fail_if (tx_Status t = StatusMutationInProgress \<and> tr_Mode r \<noteq> ClaimModeReconciliation)
            ErrIllegalTransition,
          fail_if (tr_Mode r = ClaimModeMutation \<and> hasConfirmedNotAppliedOperation (tx_Operations t))
            ErrIllegalTransition,
          validateClaimModeForStatus (tr_Mode r) (tx_Status t),
          ensureClaimResourcesAvailable st (tx_ID t) (tr_NewStationID r) (tr_NewLaneID r)
            (tx_AssetID t) now])
       (case env_newID e of
          None \<Rightarrow> Inl ErrOther
        | Some claimID \<Rightarrow>
            Inr (raise_fence (tx_AssetID t) st,
                 install_claim (tx_ClaimHistory t @ [close_claim ClaimTransferred now claim])
                   (new_claim claimID (tr_Mode r) (tr_NewStationID r) (tr_NewLaneID r) (tx_AssetID t)
                      (next_epoch st (tx_AssetID t)) (tr_AllowedStages r) now
                      (tr_LeaseDurationSeconds r)) t)))"

definition TransferClaim ::
  "env \<Rightarrow> TransferClaimRequest \<Rightarrow> Service \<Rightarrow> (control_error + Transaction) \<times> Service" where
  "TransferClaim e r s =
     (case validateTransferClaimRequest r of Some err \<Rightarrow> (Inl err, s)
      | None \<Rightarrow> mutate e ''transfer_claim'' (tr_IdempotencyKey r) (tr_TransactionID r)
                  (tr_ExpectedResourceVersion r) (json_of_Transfer r) (transfer_apply e r) s)"

definition release_apply :: "ReleaseClaimRequest \<Rightarrow> mutateFunc" where
  "release_apply r now st t =
     bindE (requireCurrentClaim t (rl_ClaimID r) (rl_FenceEpoch r) now None) (\<lambda>claim.
       if tx_Status t \<in> {StatusSecurityApplied, StatusQuarantined, StatusReconciled, StatusAborted}
       then Inr (st, t\<lparr>tx_ClaimHistory := tx_ClaimHistory t @ [close_claim ClaimReleased now claim],
                        tx_ActiveClaim := None\<rparr>)
       else Inl ErrIllegalTransition)"

definition ReleaseClaim ::
  "env \<Rightarrow> ReleaseClaimRequest \<Rightarrow> Service \<Rightarrow> (control_error + Transaction) \<times> Service" where
  "ReleaseClaim e r s =
     (case validateReleaseClaimRequest r of Some err \<Rightarrow> (Inl err, s)
      | None \<Rightarrow> mutate e ''release_claim'' (rl_IdempotencyKey r) (rl_TransactionID r)
                  (rl_ExpectedResourceVersion r) (json_of_Release r) (release_apply r) s)"

definition PreflightCurrentClaim ::
  "env \<Rightarrow> CurrentClaimPreflightRequest \<Rightarrow> Service \<Rightarrow> control_error + Transaction" where
  "PreflightCurrentClaim e r s =
     orFail (validateCurrentClaimPreflightRequest r)
       (let c = cp_MutationContext r; now = env_now e in
        case map_get (ps_Transactions (svc_state s)) (mc_TransactionID c) of
          None \<Rightarrow> Inl ErrNotFound
        | Some t \<Rightarrow>
            if tx_ResourceVersion t \<noteq> mc_ExpectedResourceVersion c then Inl ErrVersionConflict
            else bindE (requireCurrentClaim t (mc_ClaimID c) (mc_FenceEpoch c) now None) (\<lambda>claim.
              let minimum = seconds (cp_MinimumClaimRemainingSeconds r) in
              if minimum > 0 \<and> cl_ExpiresAt claim - now < minimum then Inl ErrLeaseExpired
              else if cp_ApprovalID r \<noteq> []
              then bindE (requireCurrentApproval t claim (cp_ApprovalID r) (cp_PlanDigest r) now) (\<lambda>a.
                     let minimum' = seconds (cp_MinimumApprovalRemainingSeconds r) in
                     if minimum' > 0 \<and> ap_ExpiresAt a - now < minimum' then Inl ErrIllegalTransition
                     else cloneTransaction t)
              else cloneTransaction t))"

section \<open>Target binding and approval\<close>

definition bind_apply :: "BindTargetRequest \<Rightarrow> mutateFunc" where
  "bind_apply r now st t =
     (let c = bt_MutationContext r in
      bindE (requireCurrentClaim t (mc_ClaimID c) (mc_FenceEpoch c) now (Some ClaimModeMutation)) (\<lambda>claim.
       orFail (first_err
         [fail_if (tx_Status t \<notin> {StatusClaimed, StatusTargetBound, StatusReconciled}) ErrIllegalTransition,
          fail_if (bt_CustomerKeyHash r \<noteq> tx_ExpectedPrestateCustomerKeyHash t) ErrConflict,
          fail_if (case tx_Target t of None \<Rightarrow> False
                   | Some b \<Rightarrow> tb_Fingerprint b \<noteq> bt_TargetFingerprint r
                              \<or> tb_CustomerKeyHash b \<noteq> bt_CustomerKeyHash r) ErrConflict])
       (Inr (st, t\<lparr>tx_Target := Some \<lparr>tb_Fingerprint = bt_TargetFingerprint r,
                     tb_ObservationDigest = bt_ObservationDigest r,
                     tb_CustomerKeyHash = bt_CustomerKeyHash r, tb_BoundAt = now,
                     tb_FenceEpoch = cl_FenceEpoch claim\<rparr>,
                   tx_Approval := None, tx_Status := StatusTargetBound\<rparr>))))"

definition BindTarget ::
  "env \<Rightarrow> BindTargetRequest \<Rightarrow> Service \<Rightarrow> (control_error + Transaction) \<times> Service" where
  "BindTarget e r s =
     (case validateBindTargetRequest r of Some err \<Rightarrow> (Inl err, s)
      | None \<Rightarrow> mutate e ''bind_target'' (bt_IdempotencyKey r) (mc_TransactionID (bt_MutationContext r))
                  (mc_ExpectedResourceVersion (bt_MutationContext r)) (json_of_Bind r) (bind_apply r) s)"

definition requireApprovalReplayClaim ::
  "Transaction \<Rightarrow> string \<Rightarrow> uint64 \<Rightarrow> control_error + Claim" where
  "requireApprovalReplayClaim t claimID fenceEpoch =
     (case tx_ActiveClaim t of
        None \<Rightarrow> Inl ErrStaleFence
      | Some claim \<Rightarrow>
          if cl_Status claim \<noteq> ClaimActive \<or> cl_ID claim \<noteq> claimID
             \<or> cl_FenceEpoch claim \<noteq> fenceEpoch \<or> tx_FenceEpoch t \<noteq> fenceEpoch then Inl ErrStaleFence
          else if cl_Mode claim \<noteq> ClaimModeMutation then Inl ErrIllegalTransition
          else Inr claim)"

definition equalOrderedStrings :: "string list \<Rightarrow> string list \<Rightarrow> bool" where
  "equalOrderedStrings left right =
     (length left = length right \<and> list_all (\<lambda>i. left ! i = right ! i) [0 ..< length left])"

definition matchApprovalPreflight ::
  "Transaction \<Rightarrow> ApprovalPreflightRequest \<Rightarrow> instant \<Rightarrow> control_error option" where
  "matchApprovalPreflight t r now =
     (let c = pf_MutationContext r;
          approvedAt = gt_instant (pf_ApprovedAt r);
          expiresAt = gt_instant (pf_ExpiresAt r);
          claim_of_status =
            (case tx_Status t of
               StatusTargetBound \<Rightarrow>
                 orFail (validateCurrentApprovalPreflightTimes approvedAt expiresAt now)
                   (bindE (requireCurrentClaim t (mc_ClaimID c) (mc_FenceEpoch c) now
                             (Some ClaimModeMutation)) (\<lambda>claim.
                      if tx_ResourceVersion t \<noteq> mc_ExpectedResourceVersion c then Inl ErrVersionConflict
                      else if tx_Approval t \<noteq> None \<or> length (tx_Operations t) \<noteq> 0 then Inl ErrConflict
                      else Inr claim))
             | StatusCommitApproved \<Rightarrow>
                 if tx_ResourceVersion t \<le> mc_ExpectedResourceVersion c \<or> length (tx_Operations t) \<noteq> 0
                 then Inl ErrConflict
                 else bindE (requireApprovalReplayClaim t (mc_ClaimID c) (mc_FenceEpoch c)) (\<lambda>claim.
                        case tx_Approval t of
                          None \<Rightarrow> Inl ErrConflict
                        | Some a \<Rightarrow>
                            if ap_ID a \<noteq> pf_ApprovalID r \<or> ap_ApproverID a \<noteq> pf_ApproverID r
                               \<or> ap_TransactionDigest a \<noteq> pf_TransactionDigest r
                               \<or> ap_PlanDigest a \<noteq> pf_PlanDigest r
                               \<or> ap_StationID a \<noteq> pf_StationID r \<or> ap_LaneID a \<noteq> pf_LaneID r
                               \<or> ap_FenceEpoch a \<noteq> mc_FenceEpoch c
                               \<or> ap_TargetFingerprint a \<noteq> pf_TargetFingerprint r
                               \<or> ap_Release a \<noteq> pf_Release r
                               \<or> \<not> equalOrderedStrings (ap_AllowedOperations a) (pf_AllowedOperations r)
                               \<or> ap_ExpiresAt a \<noteq> expiresAt
                            then Inl ErrConflict else Inr claim)
             | _ \<Rightarrow> Inl ErrIllegalTransition)
      in if tx_ID t \<noteq> mc_TransactionID c \<or> tx_TransactionDigest t \<noteq> pf_TransactionDigest r
         then Some ErrConflict
         else (case claim_of_status of
                 Inl err \<Rightarrow> Some err
               | Inr claim \<Rightarrow>
                   first_err
                     [fail_if (cl_StationID claim \<noteq> pf_StationID r \<or> cl_LaneID claim \<noteq> pf_LaneID r
                               \<or> \<not> equalOrderedStrings (cl_AllowedStages claim) (pf_AllowedOperations r))
                        ErrConflict,
                      (case tx_Target t of
                         None \<Rightarrow> Some ErrConflict
                       | Some target \<Rightarrow>
                           first_err
                             [fail_if (tb_FenceEpoch target \<noteq> mc_FenceEpoch c
                                       \<or> tb_Fingerprint target \<noteq> pf_TargetFingerprint r) ErrConflict,
                              fail_if (approvedAt < tb_BoundAt target
                                       \<or> \<not> cl_ExpiresAt claim > approvedAt) ErrConflict]),
                      fail_if (SignedReleaseManifestDigest (pf_Release r) \<noteq> tx_BundleDigest t
                               \<or> rb_ExpectedCustomerKeyHash (pf_Release r) \<noteq> tx_ExpectedCustomerKeyHash t)
                        ErrConflict]))"

definition PreflightApproval ::
  "env \<Rightarrow> ApprovalPreflightRequest \<Rightarrow> Service \<Rightarrow> control_error + Transaction" where
  "PreflightApproval e r s =
     orFail (validateApprovalPreflightRequest r)
       (case map_get (ps_Transactions (svc_state s)) (mc_TransactionID (pf_MutationContext r)) of
          None \<Rightarrow> Inl ErrNotFound
        | Some t \<Rightarrow> orFail (matchApprovalPreflight t r (env_now e)) (cloneTransaction t))"

text \<open>The loop of \<^verbatim>\<open>validatePriorOperationsAgainstPlan\<close>.\<close>

fun validatePriorOperationsAgainstPlan ::
  "OperationRecord list \<Rightarrow> string \<Rightarrow> Binding \<Rightarrow> instant \<Rightarrow> string list \<Rightarrow> nat \<Rightarrow> control_error option" where
  "validatePriorOperationsAgainstPlan [] planDigest release expiresAt approved next = None"
| "validatePriorOperationsAgainstPlan (op # ops) planDigest release expiresAt approved next =
     (if op_PlanDigest op \<noteq> planDigest then Some ErrConflict
      else if op_Release op \<noteq> release \<or> op_ApprovalExpiresAt op \<noteq> expiresAt then Some ErrConflict
      else if next \<ge> length approved \<or> approved ! next \<noteq> op_Operation op then Some ErrConflict
      else validatePriorOperationsAgainstPlan ops planDigest release expiresAt approved
             (if op_Status op = OperationSucceeded \<or> op_Status op = OperationConfirmedApplied
              then next + 1 else next))"

definition approval_apply :: "RecordApprovalRequest \<Rightarrow> mutateFunc" where
  "approval_apply r now st t =
     (let c = ra_MutationContext r; expiresAt = gt_instant (ra_ExpiresAt r) in
      orFail (validateCurrentApprovalExpiry expiresAt now)
       (bindE (requireCurrentClaim t (mc_ClaimID c) (mc_FenceEpoch c) now (Some ClaimModeMutation)) (\<lambda>claim.
         orFail (fail_if (tx_Status t \<noteq> StatusTargetBound \<and> tx_Status t \<noteq> StatusCommitApproved)
                   ErrIllegalTransition)
         (case tx_Target t of
            None \<Rightarrow> Inl ErrStaleFence
          | Some target \<Rightarrow>
              orFail (first_err
                [fail_if (tb_FenceEpoch target \<noteq> cl_FenceEpoch claim) ErrStaleFence,
                 fail_if (ra_TransactionDigest r \<noteq> tx_TransactionDigest t
                          \<or> ra_TargetFingerprint r \<noteq> tb_Fingerprint target
                          \<or> SignedReleaseManifestDigest (ra_Release r) \<noteq> tx_BundleDigest t
                          \<or> rb_ExpectedCustomerKeyHash (ra_Release r) \<noteq> tx_ExpectedCustomerKeyHash t)
                   ErrConflict,
                 fail_if (case tx_Approval t of None \<Rightarrow> False
                          | Some previous \<Rightarrow>
                              ra_PlanDigest r = ap_PlanDigest previous
                              \<and> (ra_Release r \<noteq> ap_Release previous
                                 \<or> expiresAt \<noteq> ap_ExpiresAt previous)) ErrConflict,
                 fail_if (list_ex (\<lambda>op. \<not> contains (cl_AllowedStages claim) op) (ra_AllowedOperations r))
                   ErrIllegalTransition,
                 validatePriorOperationsAgainstPlan (tx_Operations t) (ra_PlanDigest r) (ra_Release r)
                   expiresAt (ra_AllowedOperations r) 0])
              (Inr (st, t\<lparr>tx_Approval := Some \<lparr>ap_ID = ra_ApprovalID r, ap_ApproverID = ra_ApproverID r,
                            ap_TransactionDigest = ra_TransactionDigest r,
                            ap_PlanDigest = ra_PlanDigest r, ap_StationID = cl_StationID claim,
                            ap_LaneID = cl_LaneID claim, ap_FenceEpoch = cl_FenceEpoch claim,
                            ap_TargetFingerprint = ra_TargetFingerprint r,
                            ap_Release = ra_Release r, ap_AllowedOperations = ra_AllowedOperations r,
                            ap_AuditReceiptID = ra_AuditReceiptID r, ap_ApprovedAt = now,
                            ap_ExpiresAt = expiresAt\<rparr>,
                          tx_Status := StatusCommitApproved\<rparr>))))))"

definition RecordApproval ::
  "env \<Rightarrow> RecordApprovalRequest \<Rightarrow> Service \<Rightarrow> (control_error + Transaction) \<times> Service" where
  "RecordApproval e r s =
     (case validateRecordApprovalRequest r of Some err \<Rightarrow> (Inl err, s)
      | None \<Rightarrow> mutate e ''record_approval'' (ra_IdempotencyKey r) (mc_TransactionID (ra_MutationContext r))
                  (mc_ExpectedResourceVersion (ra_MutationContext r)) (json_of_RecordApproval r)
                  (approval_apply r) s)"

section \<open>Intent, evidence and reconciliation\<close>

definition completedApprovedOperations :: "OperationRecord list \<Rightarrow> nat" where
  "completedApprovedOperations operations =
     length (filter (\<lambda>op. op_Status op = OperationSucceeded \<or> op_Status op = OperationConfirmedApplied)
               operations)"

text \<open>The loop over the earlier operations in \<^verbatim>\<open>RecordIntent\<close>.\<close>

fun intent_loop :: "string \<Rightarrow> OperationRecord list \<Rightarrow> control_error option" where
  "intent_loop operationID [] = None"
| "intent_loop operationID (op # ops) =
     (if op_ID op = operationID then Some ErrConflict
      else if op_Status op = OperationConfirmedNotApplied then Some ErrIllegalTransition
      else if op_Status op = OperationIntentRecorded \<or> op_Status op = OperationUncertain
      then Some ErrIllegalTransition
      else intent_loop operationID ops)"

definition intent_apply :: "RecordIntentRequest \<Rightarrow> mutateFunc" where
  "intent_apply r now st t =
     (let c = ri_MutationContext r in
      bindE (requireCurrentClaim t (mc_ClaimID c) (mc_FenceEpoch c) now (Some ClaimModeMutation)) (\<lambda>claim.
       orFail (fail_if (tx_Status t \<noteq> StatusCommitApproved) ErrIllegalTransition)
       (bindE (requireCurrentApproval t claim (ri_ApprovalID r) (ri_PlanDigest r) now) (\<lambda>approval.
         orFail (intent_loop (ri_OperationID r) (tx_Operations t))
         (let next = completedApprovedOperations (tx_Operations t) in
          orFail (first_err
            [fail_if (next \<ge> length (ap_AllowedOperations approval)
                      \<or> ap_AllowedOperations approval ! next \<noteq> ri_Operation r) ErrIllegalTransition,
             fail_if (\<not> contains (cl_AllowedStages claim) (ri_Operation r)) ErrIllegalTransition])
          (Inr (st, t\<lparr>tx_Operations := tx_Operations t @
                        [\<lparr>op_ID = ri_OperationID r, op_Operation = ri_Operation r,
                          op_Status = OperationIntentRecorded, op_PlanDigest = ri_PlanDigest r,
                          op_Release = ap_Release approval,
                          op_ApprovalExpiresAt = ap_ExpiresAt approval, op_Approval = approval,
                          op_InputDigest = ri_InputDigest r, op_PrestateDigest = ri_PrestateDigest r,
                          op_IntentAuditReceiptID = ri_AuditReceiptID r, op_IntentAt = now,
                          op_IntentFenceEpoch = cl_FenceEpoch claim, op_OutputDigest = [],
                          op_ObservationDigest = [], op_EvidenceAuditReceiptID = [],
                          op_EvidenceAt = None, op_ReconciliationAuditReceiptID = []\<rparr>],
                      tx_Status := StatusMutationInProgress\<rparr>)))))))"

definition RecordIntent ::
  "env \<Rightarrow> RecordIntentRequest \<Rightarrow> Service \<Rightarrow> (control_error + Transaction) \<times> Service" where
  "RecordIntent e r s =
     (case validateRecordIntentRequest r of Some err \<Rightarrow> (Inl err, s)
      | None \<Rightarrow> mutate e ''record_intent'' (ri_IdempotencyKey r) (mc_TransactionID (ri_MutationContext r))
                  (mc_ExpectedResourceVersion (ri_MutationContext r)) (json_of_RecordIntent r)
                  (intent_apply r) s)"

text \<open>The record of the pending operation with the evidence written into it.\<close>

definition evidence_record :: "RecordEvidenceRequest \<Rightarrow> instant \<Rightarrow> OperationRecord \<Rightarrow> OperationRecord" where
  "evidence_record r now op =
     op\<lparr>op_OutputDigest := re_OutputDigest r, op_ObservationDigest := re_ObservationDigest r,
        op_EvidenceAuditReceiptID := re_AuditReceiptID r, op_EvidenceAt := Some now\<rparr>"

definition evidence_apply :: "RecordEvidenceRequest \<Rightarrow> mutateFunc" where
  "evidence_apply r now st t =
     (let c = re_MutationContext r in
      bindE (requireCurrentClaim t (mc_ClaimID c) (mc_FenceEpoch c) now (Some ClaimModeMutation)) (\<lambda>_.
       if tx_Status t \<noteq> StatusMutationInProgress \<or> length (tx_Operations t) = 0
       then Inl ErrIllegalTransition
       else let i = length (tx_Operations t) - 1; op = tx_Operations t ! i in
         if op_ID op \<noteq> re_OperationID r \<or> op_Status op \<noteq> OperationIntentRecorded then Inl ErrConflict
         else let op' = evidence_record r now op in
           (case re_Result r of
              EvidenceSucceeded \<Rightarrow>
                Inr (st, t\<lparr>tx_Operations := (tx_Operations t)[i := op'\<lparr>op_Status := OperationSucceeded\<rparr>],
                           tx_Status := StatusCommitApproved\<rparr>)
            | EvidenceFailed \<Rightarrow>
                Inr (st, t\<lparr>tx_Operations := (tx_Operations t)[i := op'\<lparr>op_Status := OperationFailed\<rparr>],
                           tx_Status := StatusQuarantined, tx_Approval := None,
                           tx_Quarantine := Some \<lparr>qr_ReasonCode = ''operation_failed'',
                             qr_ObservationDigest = re_ObservationDigest r,
                             qr_AuditReceiptID = re_AuditReceiptID r,
                             qr_FenceEpoch = mc_FenceEpoch c, qr_RecordedAt = now\<rparr>\<rparr>)
            | EvidenceUncertain \<Rightarrow>
                Inr (st, t\<lparr>tx_Operations := (tx_Operations t)[i := op'\<lparr>op_Status := OperationUncertain\<rparr>],
                           tx_Status := StatusReconciliationRequired, tx_Approval := None\<rparr>)
            | EvidenceOther _ \<Rightarrow>
                Inr (st, t\<lparr>tx_Operations := (tx_Operations t)[i := op']\<rparr>))))"

definition RecordEvidence ::
  "env \<Rightarrow> RecordEvidenceRequest \<Rightarrow> Service \<Rightarrow> (control_error + Transaction) \<times> Service" where
  "RecordEvidence e r s =
     (case validateRecordEvidenceRequest r of Some err \<Rightarrow> (Inl err, s)
      | None \<Rightarrow> mutate e ''record_evidence'' (re_IdempotencyKey r) (mc_TransactionID (re_MutationContext r))
                  (mc_ExpectedResourceVersion (re_MutationContext r)) (json_of_RecordEvidence r)
                  (evidence_apply r) s)"

text \<open>\<^verbatim>\<open>findOperation\<close> returns a pointer into the slice: the position of the first match.\<close>

fun findOperation :: "OperationRecord list \<Rightarrow> string \<Rightarrow> nat option" where
  "findOperation [] wanted = None"
| "findOperation (op # ops) wanted =
     (if op_ID op = wanted then Some 0 else map_option Suc (findOperation ops wanted))"

definition reconciliation_record ::
  "RecordReconciliationRequest \<Rightarrow> instant \<Rightarrow> OperationRecord \<Rightarrow> OperationRecord" where
  "reconciliation_record r now op =
     op\<lparr>op_OutputDigest := rr_OutputDigest r, op_ObservationDigest := rr_ObservationDigest r,
        op_ReconciliationAuditReceiptID := rr_AuditReceiptID r, op_EvidenceAt := Some now\<rparr>"

definition reconciliation_apply :: "RecordReconciliationRequest \<Rightarrow> mutateFunc" where
  "reconciliation_apply r now st t =
     (let c = rr_MutationContext r in
      bindE (requireCurrentClaim t (mc_ClaimID c) (mc_FenceEpoch c) now (Some ClaimModeReconciliation)) (\<lambda>_.
       if tx_Status t \<noteq> StatusReconciliationRequired \<and> tx_Status t \<noteq> StatusQuarantined
       then Inl ErrIllegalTransition
       else (case findOperation (tx_Operations t) (rr_OperationID r) of
               None \<Rightarrow> Inl ErrIllegalTransition
             | Some i \<Rightarrow>
                 let op = tx_Operations t ! i in
                 if op_Status op \<noteq> OperationIntentRecorded \<and> op_Status op \<noteq> OperationUncertain
                    \<and> op_Status op \<noteq> OperationFailed then Inl ErrIllegalTransition
                 else
                   let op' = reconciliation_record r now op;
                       resolved = (if tx_Status t \<noteq> StatusQuarantined then StatusReconciled
                                   else tx_Status t)
                   in (case rr_Resolution r of
                         ResolutionConfirmedApplied \<Rightarrow>
                           Inr (st, t\<lparr>tx_Operations :=
                                        (tx_Operations t)[i := op'\<lparr>op_Status := OperationConfirmedApplied\<rparr>],
                                      tx_Approval := None, tx_Status := resolved\<rparr>)
                       | ResolutionConfirmedNotApplied \<Rightarrow>
                           Inr (st, t\<lparr>tx_Operations :=
                                        (tx_Operations t)[i := op'\<lparr>op_Status := OperationConfirmedNotApplied\<rparr>],
                                      tx_Approval := None, tx_Status := resolved\<rparr>)
                       | ResolutionUnknown \<Rightarrow>
                           Inr (st, t\<lparr>tx_Operations :=
                                        (tx_Operations t)[i := op'\<lparr>op_Status := OperationUncertain\<rparr>],
                                      tx_Approval := None, tx_Status := StatusQuarantined,
                                      tx_Quarantine := Some \<lparr>qr_ReasonCode = ''reconciliation_unknown'',
                                        qr_ObservationDigest = rr_ObservationDigest r,
                                        qr_AuditReceiptID = rr_AuditReceiptID r,
                                        qr_FenceEpoch = mc_FenceEpoch c, qr_RecordedAt = now\<rparr>\<rparr>)
                       | ResolutionOther _ \<Rightarrow>
                           Inr (st, t\<lparr>tx_Operations := (tx_Operations t)[i := op'], tx_Approval := None\<rparr>)))))"

definition RecordReconciliation ::
  "env \<Rightarrow> RecordReconciliationRequest \<Rightarrow> Service \<Rightarrow> (control_error + Transaction) \<times> Service" where
  "RecordReconciliation e r s =
     (case validateRecordReconciliationRequest r of Some err \<Rightarrow> (Inl err, s)
      | None \<Rightarrow> mutate e ''record_reconciliation'' (rr_IdempotencyKey r)
                  (mc_TransactionID (rr_MutationContext r))
                  (mc_ExpectedResourceVersion (rr_MutationContext r)) (json_of_RecordReconciliation r)
                  (reconciliation_apply r) s)"

section \<open>Terminal transitions\<close>

definition quarantine_apply :: "QuarantineRequest \<Rightarrow> mutateFunc" where
  "quarantine_apply r now st t =
     (let c = qt_MutationContext r in
      bindE (requireCurrentClaim t (mc_ClaimID c) (mc_FenceEpoch c) now None) (\<lambda>_.
       if tx_Status t = StatusSecurityApplied \<or> tx_Status t = StatusAborted
          \<or> tx_Status t = StatusQuarantined then Inl ErrIllegalTransition
       else Inr (st, t\<lparr>tx_Approval := None, tx_Status := StatusQuarantined,
                       tx_Quarantine := Some \<lparr>qr_ReasonCode = qt_ReasonCode r,
                         qr_ObservationDigest = qt_ObservationDigest r,
                         qr_AuditReceiptID = qt_AuditReceiptID r,
                         qr_FenceEpoch = mc_FenceEpoch c, qr_RecordedAt = now\<rparr>\<rparr>)))"

definition QuarantineDevice ::
  "env \<Rightarrow> QuarantineRequest \<Rightarrow> Service \<Rightarrow> (control_error + Transaction) \<times> Service" where
  "QuarantineDevice e r s =
     (case validateQuarantineRequest r of Some err \<Rightarrow> (Inl err, s)
      | None \<Rightarrow> mutate e ''quarantine_device'' (qt_IdempotencyKey r) (mc_TransactionID (qt_MutationContext r))
                  (mc_ExpectedResourceVersion (qt_MutationContext r)) (json_of_Quarantine r)
                  (quarantine_apply r) s)"

definition abort_apply :: "AbortRequest \<Rightarrow> mutateFunc" where
  "abort_apply r now st t =
     (let c = ar_MutationContext r in
      bindE (requireCurrentClaim t (mc_ClaimID c) (mc_FenceEpoch c) now (Some ClaimModeMutation)) (\<lambda>_.
       if length (tx_Operations t) \<noteq> 0 \<or> tx_Status t = StatusSecurityApplied
          \<or> tx_Status t = StatusQuarantined then Inl ErrIllegalTransition
       else Inr (st, t\<lparr>tx_Approval := None, tx_Status := StatusAborted,
                       tx_Abort := Some \<lparr>ab_ReusableBaselineDigest = ar_ReusableBaselineDigest r,
                         ab_AuditReceiptID = ar_AuditReceiptID r, ab_RecordedAt = now\<rparr>\<rparr>)))"

definition AbortTransaction ::
  "env \<Rightarrow> AbortRequest \<Rightarrow> Service \<Rightarrow> (control_error + Transaction) \<times> Service" where
  "AbortTransaction e r s =
     (case validateAbortRequest r of Some err \<Rightarrow> (Inl err, s)
      | None \<Rightarrow> mutate e ''abort_transaction'' (ar_IdempotencyKey r) (mc_TransactionID (ar_MutationContext r))
                  (mc_ExpectedResourceVersion (ar_MutationContext r)) (json_of_Abort r) (abort_apply r) s)"

definition security_apply :: "SecurityAppliedRequest \<Rightarrow> mutateFunc" where
  "security_apply r now st t =
     (let c = sr_MutationContext r in
      bindE (requireCurrentClaim t (mc_ClaimID c) (mc_FenceEpoch c) now (Some ClaimModeMutation)) (\<lambda>claim.
       if tx_Status t \<noteq> StatusCommitApproved then Inl ErrIllegalTransition
       else (case tx_Approval t of
               None \<Rightarrow> Inl ErrIllegalTransition
             | Some current \<Rightarrow>
                 bindE (requireCurrentApproval t claim (ap_ID current) (sr_PlanDigest r) now) (\<lambda>approval.
                   orFail (validateCompletedDevelopmentCampaign (tx_Operations t) (Some approval))
                   (Inr (st, t\<lparr>tx_Status := StatusSecurityApplied,
                               tx_SecurityApplied := Some \<lparr>sa_EvidenceDigest = sr_EvidenceDigest r,
                                 sa_AuditReceiptID = sr_AuditReceiptID r,
                                 sa_RollbackStatus = sr_RollbackStatus r,
                                 sa_ReleaseClassification = sr_ReleaseClassification r,
                                 sa_RecordedAt = now\<rparr>\<rparr>))))))"

definition MarkSecurityApplied ::
  "env \<Rightarrow> SecurityAppliedRequest \<Rightarrow> Service \<Rightarrow> (control_error + Transaction) \<times> Service" where
  "MarkSecurityApplied e r s =
     (case validateSecurityAppliedRequest r of Some err \<Rightarrow> (Inl err, s)
      | None \<Rightarrow> mutate e ''mark_security_applied'' (sr_IdempotencyKey r)
                  (mc_TransactionID (sr_MutationContext r))
                  (mc_ExpectedResourceVersion (sr_MutationContext r)) (json_of_SecurityApplied r)
                  (security_apply r) s)"

section \<open>The operations as one interface\<close>

text \<open>\<^verbatim>\<open>Coordinator\<close>: the state-changing calls of the service.\<close>

datatype command =
    CmdCreate CreateTransactionRequest
  | CmdAcquire AcquireClaimRequest
  | CmdRenew RenewClaimRequest
  | CmdTransfer TransferClaimRequest
  | CmdRelease ReleaseClaimRequest
  | CmdBind BindTargetRequest
  | CmdApprove RecordApprovalRequest
  | CmdIntent RecordIntentRequest
  | CmdEvidence RecordEvidenceRequest
  | CmdReconcile RecordReconciliationRequest
  | CmdQuarantine QuarantineRequest
  | CmdAbort AbortRequest
  | CmdSecurityApplied SecurityAppliedRequest

fun run_command :: "env \<Rightarrow> command \<Rightarrow> Service \<Rightarrow> (control_error + Transaction) \<times> Service" where
  "run_command e (CmdCreate r) s = CreateTransaction e r s"
| "run_command e (CmdAcquire r) s = AcquireClaim e r s"
| "run_command e (CmdRenew r) s = RenewClaim e r s"
| "run_command e (CmdTransfer r) s = TransferClaim e r s"
| "run_command e (CmdRelease r) s = ReleaseClaim e r s"
| "run_command e (CmdBind r) s = BindTarget e r s"
| "run_command e (CmdApprove r) s = RecordApproval e r s"
| "run_command e (CmdIntent r) s = RecordIntent e r s"
| "run_command e (CmdEvidence r) s = RecordEvidence e r s"
| "run_command e (CmdReconcile r) s = RecordReconciliation e r s"
| "run_command e (CmdQuarantine r) s = QuarantineDevice e r s"
| "run_command e (CmdAbort r) s = AbortTransaction e r s"
| "run_command e (CmdSecurityApplied r) s = MarkSecurityApplied e r s"

end
