(* ===== verification/Control_Steps.thy ===== *)
theory Control_Steps
  imports Control_Service
begin

text \<open>
  The shape every state-changing call shares. A command other than a creation is a validation
  followed by \<open>mutate\<close> with one handler; whatever happens, the memory state and the stored state
  stay as they were or become the one candidate that passed the integrity check
  (\<open>run_command_effect\<close>). The rest of the theory characterises when each handler succeeds and what
  it changes, and packages what all handlers keep as the locale \<open>control_handler\<close>.
\<close>

named_theorems handler_simps \<open>success conditions and results of the handlers\<close>

section \<open>Commands as validated handlers\<close>

fun is_create :: "command \<Rightarrow> bool" where
  "is_create (CmdCreate r) = True"
| "is_create _ = False"

fun cmd_validate :: "command \<Rightarrow> control_error option" where
  "cmd_validate (CmdCreate r) = validateCreateRequest r"
| "cmd_validate (CmdAcquire r) = validateAcquireClaimRequest r"
| "cmd_validate (CmdRenew r) = validateRenewClaimRequest r"
| "cmd_validate (CmdTransfer r) = validateTransferClaimRequest r"
| "cmd_validate (CmdRelease r) = validateReleaseClaimRequest r"
| "cmd_validate (CmdBind r) = validateBindTargetRequest r"
| "cmd_validate (CmdApprove r) = validateRecordApprovalRequest r"
| "cmd_validate (CmdIntent r) = validateRecordIntentRequest r"
| "cmd_validate (CmdEvidence r) = validateRecordEvidenceRequest r"
| "cmd_validate (CmdReconcile r) = validateRecordReconciliationRequest r"
| "cmd_validate (CmdQuarantine r) = validateQuarantineRequest r"
| "cmd_validate (CmdAbort r) = validateAbortRequest r"
| "cmd_validate (CmdSecurityApplied r) = validateSecurityAppliedRequest r"

fun cmd_operation :: "command \<Rightarrow> string" where
  "cmd_operation (CmdCreate r) = ''create_transaction''"
| "cmd_operation (CmdAcquire r) = ''acquire_claim''"
| "cmd_operation (CmdRenew r) = ''renew_claim''"
| "cmd_operation (CmdTransfer r) = ''transfer_claim''"
| "cmd_operation (CmdRelease r) = ''release_claim''"
| "cmd_operation (CmdBind r) = ''bind_target''"
| "cmd_operation (CmdApprove r) = ''record_approval''"
| "cmd_operation (CmdIntent r) = ''record_intent''"
| "cmd_operation (CmdEvidence r) = ''record_evidence''"
| "cmd_operation (CmdReconcile r) = ''record_reconciliation''"
| "cmd_operation (CmdQuarantine r) = ''quarantine_device''"
| "cmd_operation (CmdAbort r) = ''abort_transaction''"
| "cmd_operation (CmdSecurityApplied r) = ''mark_security_applied''"

fun cmd_key :: "command \<Rightarrow> string" where
  "cmd_key (CmdCreate r) = ct_IdempotencyKey r"
| "cmd_key (CmdAcquire r) = ac_IdempotencyKey r"
| "cmd_key (CmdRenew r) = rn_IdempotencyKey r"
| "cmd_key (CmdTransfer r) = tr_IdempotencyKey r"
| "cmd_key (CmdRelease r) = rl_IdempotencyKey r"
| "cmd_key (CmdBind r) = bt_IdempotencyKey r"
| "cmd_key (CmdApprove r) = ra_IdempotencyKey r"
| "cmd_key (CmdIntent r) = ri_IdempotencyKey r"
| "cmd_key (CmdEvidence r) = re_IdempotencyKey r"
| "cmd_key (CmdReconcile r) = rr_IdempotencyKey r"
| "cmd_key (CmdQuarantine r) = qt_IdempotencyKey r"
| "cmd_key (CmdAbort r) = ar_IdempotencyKey r"
| "cmd_key (CmdSecurityApplied r) = sr_IdempotencyKey r"

fun cmd_transaction :: "command \<Rightarrow> string" where
  "cmd_transaction (CmdCreate r) = ct_TransactionID r"
| "cmd_transaction (CmdAcquire r) = ac_TransactionID r"
| "cmd_transaction (CmdRenew r) = rn_TransactionID r"
| "cmd_transaction (CmdTransfer r) = tr_TransactionID r"
| "cmd_transaction (CmdRelease r) = rl_TransactionID r"
| "cmd_transaction (CmdBind r) = mc_TransactionID (bt_MutationContext r)"
| "cmd_transaction (CmdApprove r) = mc_TransactionID (ra_MutationContext r)"
| "cmd_transaction (CmdIntent r) = mc_TransactionID (ri_MutationContext r)"
| "cmd_transaction (CmdEvidence r) = mc_TransactionID (re_MutationContext r)"
| "cmd_transaction (CmdReconcile r) = mc_TransactionID (rr_MutationContext r)"
| "cmd_transaction (CmdQuarantine r) = mc_TransactionID (qt_MutationContext r)"
| "cmd_transaction (CmdAbort r) = mc_TransactionID (ar_MutationContext r)"
| "cmd_transaction (CmdSecurityApplied r) = mc_TransactionID (sr_MutationContext r)"

text \<open>The expected resource version; a creation names none.\<close>

fun cmd_version :: "command \<Rightarrow> uint64" where
  "cmd_version (CmdCreate r) = 0"
| "cmd_version (CmdAcquire r) = ac_ExpectedResourceVersion r"
| "cmd_version (CmdRenew r) = rn_ExpectedResourceVersion r"
| "cmd_version (CmdTransfer r) = tr_ExpectedResourceVersion r"
| "cmd_version (CmdRelease r) = rl_ExpectedResourceVersion r"
| "cmd_version (CmdBind r) = mc_ExpectedResourceVersion (bt_MutationContext r)"
| "cmd_version (CmdApprove r) = mc_ExpectedResourceVersion (ra_MutationContext r)"
| "cmd_version (CmdIntent r) = mc_ExpectedResourceVersion (ri_MutationContext r)"
| "cmd_version (CmdEvidence r) = mc_ExpectedResourceVersion (re_MutationContext r)"
| "cmd_version (CmdReconcile r) = mc_ExpectedResourceVersion (rr_MutationContext r)"
| "cmd_version (CmdQuarantine r) = mc_ExpectedResourceVersion (qt_MutationContext r)"
| "cmd_version (CmdAbort r) = mc_ExpectedResourceVersion (ar_MutationContext r)"
| "cmd_version (CmdSecurityApplied r) = mc_ExpectedResourceVersion (sr_MutationContext r)"

text \<open>The claim and fence epoch a command is made under; creation and acquisition name none.\<close>

fun cmd_claim :: "command \<Rightarrow> (string \<times> uint64) option" where
  "cmd_claim (CmdCreate r) = None"
| "cmd_claim (CmdAcquire r) = None"
| "cmd_claim (CmdRenew r) = Some (rn_ClaimID r, rn_FenceEpoch r)"
| "cmd_claim (CmdTransfer r) = Some (tr_ClaimID r, tr_FenceEpoch r)"
| "cmd_claim (CmdRelease r) = Some (rl_ClaimID r, rl_FenceEpoch r)"
| "cmd_claim (CmdBind r) = Some (mc_ClaimID (bt_MutationContext r), mc_FenceEpoch (bt_MutationContext r))"
| "cmd_claim (CmdApprove r) = Some (mc_ClaimID (ra_MutationContext r), mc_FenceEpoch (ra_MutationContext r))"
| "cmd_claim (CmdIntent r) = Some (mc_ClaimID (ri_MutationContext r), mc_FenceEpoch (ri_MutationContext r))"
| "cmd_claim (CmdEvidence r) = Some (mc_ClaimID (re_MutationContext r), mc_FenceEpoch (re_MutationContext r))"
| "cmd_claim (CmdReconcile r) = Some (mc_ClaimID (rr_MutationContext r), mc_FenceEpoch (rr_MutationContext r))"
| "cmd_claim (CmdQuarantine r) = Some (mc_ClaimID (qt_MutationContext r), mc_FenceEpoch (qt_MutationContext r))"
| "cmd_claim (CmdAbort r) = Some (mc_ClaimID (ar_MutationContext r), mc_FenceEpoch (ar_MutationContext r))"
| "cmd_claim (CmdSecurityApplied r) = Some (mc_ClaimID (sr_MutationContext r), mc_FenceEpoch (sr_MutationContext r))"

fun cmd_json :: "command \<Rightarrow> json" where
  "cmd_json (CmdCreate r) = json_of_Create r"
| "cmd_json (CmdAcquire r) = json_of_Acquire r"
| "cmd_json (CmdRenew r) = json_of_Renew r"
| "cmd_json (CmdTransfer r) = json_of_Transfer r"
| "cmd_json (CmdRelease r) = json_of_Release r"
| "cmd_json (CmdBind r) = json_of_Bind r"
| "cmd_json (CmdApprove r) = json_of_RecordApproval r"
| "cmd_json (CmdIntent r) = json_of_RecordIntent r"
| "cmd_json (CmdEvidence r) = json_of_RecordEvidence r"
| "cmd_json (CmdReconcile r) = json_of_RecordReconciliation r"
| "cmd_json (CmdQuarantine r) = json_of_Quarantine r"
| "cmd_json (CmdAbort r) = json_of_Abort r"
| "cmd_json (CmdSecurityApplied r) = json_of_SecurityApplied r"

fun cmd_handler :: "env \<Rightarrow> command \<Rightarrow> mutateFunc" where
  "cmd_handler e (CmdCreate r) = (\<lambda>now st t. Inl ErrOther)"
| "cmd_handler e (CmdAcquire r) = acquire_apply e r"
| "cmd_handler e (CmdRenew r) = renew_apply r"
| "cmd_handler e (CmdTransfer r) = transfer_apply e r"
| "cmd_handler e (CmdRelease r) = release_apply r"
| "cmd_handler e (CmdBind r) = bind_apply r"
| "cmd_handler e (CmdApprove r) = approval_apply r"
| "cmd_handler e (CmdIntent r) = intent_apply r"
| "cmd_handler e (CmdEvidence r) = evidence_apply r"
| "cmd_handler e (CmdReconcile r) = reconciliation_apply r"
| "cmd_handler e (CmdQuarantine r) = quarantine_apply r"
| "cmd_handler e (CmdAbort r) = abort_apply r"
| "cmd_handler e (CmdSecurityApplied r) = security_apply r"

lemma run_command_mutate:
  "\<not> is_create c \<Longrightarrow> run_command e c s =
     (case cmd_validate c of Some err \<Rightarrow> (Inl err, s)
      | None \<Rightarrow> mutate e (cmd_operation c) (cmd_key c) (cmd_transaction c) (cmd_version c)
                  (cmd_json c) (cmd_handler e c) s)"
  by (cases c)
    (simp_all add: AcquireClaim_def RenewClaim_def TransferClaim_def ReleaseClaim_def BindTarget_def
      RecordApproval_def RecordIntent_def RecordEvidence_def RecordReconciliation_def
      QuarantineDevice_def AbortTransaction_def MarkSecurityApplied_def split: option.split)

section \<open>Candidates\<close>

definition bump :: "instant \<Rightarrow> Transaction \<Rightarrow> Transaction" where
  "bump now t = t\<lparr>tx_ResourceVersion := tx_ResourceVersion t + 1, tx_UpdatedAt := now\<rparr>"

definition enter ::
  "string \<Rightarrow> string \<Rightarrow> string \<Rightarrow> string \<Rightarrow> Transaction \<Rightarrow> persistedState \<Rightarrow> persistedState" where
  "enter operation key digest tid t st =
     st\<lparr>ps_Transactions := map_put tid t (ps_Transactions st),
        ps_Idempotency := map_put key \<lparr>ir_Operation = operation, ir_RequestDigest = digest,
          ir_TransactionID = tid\<rparr> (ps_Idempotency st)\<rparr>"

text \<open>The state a command proposes to commit, before the integrity check.\<close>

inductive proposes :: "env \<Rightarrow> command \<Rightarrow> persistedState \<Rightarrow> persistedState \<Rightarrow> bool" where
  create:
    "validateCreateRequest r = None \<Longrightarrow>
     digestJSON (env_sha256 e) (json_of_Create r) = Some digest \<Longrightarrow>
     map_get (ps_Idempotency st) (ct_IdempotencyKey r) = None \<Longrightarrow>
     map_get (ps_Transactions st) (ct_TransactionID r) = None \<Longrightarrow>
     list_all (\<lambda>(k, t). tx_AssetID t \<noteq> ct_AssetID r
        \<and> tx_IntendedLogicalID t \<noteq> ct_IntendedLogicalID r) (ps_Transactions st) \<Longrightarrow>
     transactionDigest (env_sha256 e) (new_transaction r (env_now e)) = Some d \<Longrightarrow>
     proposes e (CmdCreate r) st
       (enter ''create_transaction'' (ct_IdempotencyKey r) digest (ct_TransactionID r)
          ((new_transaction r (env_now e))\<lparr>tx_TransactionDigest := d\<rparr>) st)"
| update:
    "\<not> is_create c \<Longrightarrow> cmd_validate c = None \<Longrightarrow>
     digestJSON (env_sha256 e) (cmd_json c) = Some digest \<Longrightarrow>
     map_get (ps_Idempotency st) (cmd_key c) = None \<Longrightarrow>
     map_get (ps_Transactions st) (cmd_transaction c) = Some current \<Longrightarrow>
     cmd_version c \<noteq> 0 \<Longrightarrow> tx_ResourceVersion current = cmd_version c \<Longrightarrow>
     cmd_handler e c (env_now e) st current = Inr (st', t) \<Longrightarrow>
     proposes e c st
       (enter (cmd_operation c) (cmd_key c) digest (cmd_transaction c) (bump (env_now e) t) st')"

inductive_cases proposes_createE: "proposes e (CmdCreate r) st st'"

lemma replayLocked_None:
  "replayLocked st op key d = Inr None \<longleftrightarrow> map_get (ps_Idempotency st) key = None"
  by (auto simp: replayLocked_def split: option.splits)

lemma commitLocked_cases:
  assumes "commitLocked e st' s = (r, s')"
  shows "(r = None \<and> validatePersistedState (env_sha256 e) st' = None \<and> svc_state s' = st'
            \<and> FileStore_Load (svc_store s') = Some st' \<and> state_encodes st')
       \<or> (r \<noteq> None \<and> svc_state s' = svc_state s \<and>
            (s' = s \<or> validatePersistedState (env_sha256 e) st' = None
                \<and> (FileStore_Load (svc_store s') = FileStore_Load (svc_store s)
                   \<or> FileStore_Load (svc_store s') = Some st')))"
proof (cases "validatePersistedState (env_sha256 e) st'")
  case (Some err)
  with assms show ?thesis by (auto simp: commitLocked_def)
next
  case None
  show ?thesis
  proof (cases "state_encodes st'")
    case True
    obtain ok store where save: "FileStore_Save (env_fault e) st' (svc_store s) = (ok, store)"
      by (cases "FileStore_Save (env_fault e) st' (svc_store s)") auto
    show ?thesis
      using assms None True save file_store.save_ok [of "env_fault e" st' "svc_store s" store]
        file_store.save_failed [of "env_fault e" st' "svc_store s" store]
      by (cases ok) (auto simp: commitLocked_def marshalState_def)
  next
    case False
    with assms None show ?thesis by (auto simp: commitLocked_def marshalState_def)
  qed
qed

text \<open>Every call keeps both states, or moves one or both of them to the one candidate that passed
  the integrity check; it returns success with a changed state only when both moved.\<close>

definition moved :: "env \<Rightarrow> persistedState \<Rightarrow> Service \<Rightarrow> Service \<Rightarrow> bool" where
  "moved e st' s s' \<longleftrightarrow>
     validatePersistedState (env_sha256 e) st' = None \<and>
     (svc_state s' = st' \<and> FileStore_Load (svc_store s') = Some st'
      \<or> svc_state s' = svc_state s \<and>
        (FileStore_Load (svc_store s') = FileStore_Load (svc_store s)
         \<or> FileStore_Load (svc_store s') = Some st'))"

lemma mutate_effect:
  assumes m: "mutate e operation key tid ver req ap s = (r, s')"
  shows "s' = s \<or>
    (\<exists>digest current st' t.
       digestJSON (env_sha256 e) req = Some digest \<and>
       map_get (ps_Idempotency (svc_state s)) key = None \<and>
       map_get (ps_Transactions (svc_state s)) tid = Some current \<and>
       ver \<noteq> 0 \<and> tx_ResourceVersion current = ver \<and>
       ap (env_now e) (svc_state s) current = Inr (st', t) \<and>
       moved e (enter operation key digest tid (bump (env_now e) t) st') s s' \<and>
       (\<forall>t'. r = Inr t' \<longrightarrow> t' = bump (env_now e) t \<and>
          svc_state s' = enter operation key digest tid (bump (env_now e) t) st'))"
proof (cases "s' = s")
  case False
  from m False obtain digest where d: "digestJSON (env_sha256 e) req = Some digest"
    by (auto simp: mutate_def split: option.splits)
  with m False have rp: "replayLocked (svc_state s) operation key digest = Inr None"
    by (auto simp: mutate_def split: sum.splits option.splits)
  with m d False obtain current where c: "map_get (ps_Transactions (svc_state s)) tid = Some current"
    by (auto simp: mutate_def split: option.splits)
  with m d rp False have v: "ver \<noteq> 0" "tx_ResourceVersion current = ver"
    by (auto simp: mutate_def split: if_splits)
  with m d rp c False have cl: "cloneState (svc_state s) = Inr (svc_state s)"
    by (auto simp: mutate_def cloneState_def split: if_splits)
  with m d rp c v False obtain st' t where ap: "ap (env_now e) (svc_state s) current = Inr (st', t)"
    by (auto simp: mutate_def split: sum.splits)
  define full where "full = enter operation key digest tid (bump (env_now e) t) st'"
  obtain cr s'' where co: "commitLocked e full s = (cr, s'')"
    by (cases "commitLocked e full s") auto
  have eq: "(r, s') = (case cr of Some err \<Rightarrow> (Inl err, s'')
                      | None \<Rightarrow> (cloneTransaction (bump (env_now e) t), s''))"
    using m d rp c v cl ap co
    by (simp add: mutate_def Let_def full_def enter_def bump_def split: option.splits)
  then have s': "s' = s''" by (auto split: option.splits)
  have mv: "moved e full s s'"
    using commitLocked_cases [OF co] s' False by (auto simp: moved_def)
  have "\<forall>t'. r = Inr t' \<longrightarrow> t' = bump (env_now e) t \<and> svc_state s' = full"
    using eq commitLocked_cases [OF co]
    by (auto simp: cloneTransaction_def split: option.splits if_splits)
  with d rp c v ap mv show ?thesis
    by (auto simp: full_def replayLocked_None)
qed simp

lemma create_effect:
  assumes m: "CreateTransaction e r s = (res, s')"
  shows "s' = s \<or> (\<exists>st'. proposes e (CmdCreate r) (svc_state s) st' \<and> moved e st' s s' \<and>
           (\<forall>t'. res = Inr t' \<longrightarrow> svc_state s' = st'))"
proof (cases "s' = s")
  case False
  from m False have v: "validateCreateRequest r = None"
    by (auto simp: CreateTransaction_def split: option.splits)
  with m False obtain digest where d: "digestJSON (env_sha256 e) (json_of_Create r) = Some digest"
    by (auto simp: CreateTransaction_def split: option.splits)
  with m v False have rp: "replayLocked (svc_state s) ''create_transaction'' (ct_IdempotencyKey r) digest = Inr None"
    by (auto simp: CreateTransaction_def split: sum.splits option.splits)
  with m v d False have fresh: "map_get (ps_Transactions (svc_state s)) (ct_TransactionID r) = None"
    by (auto simp: CreateTransaction_def split: if_splits)
  with m v d rp False have free: "\<not> list_ex (\<lambda>(id, t). tx_AssetID t = ct_AssetID r
        \<or> tx_IntendedLogicalID t = ct_IntendedLogicalID r) (ps_Transactions (svc_state s))"
    by (auto simp: CreateTransaction_def split: if_splits)
  with m v d rp fresh False obtain td where
    td: "transactionDigest (env_sha256 e) (new_transaction r (env_now e)) = Some td"
    by (auto simp: CreateTransaction_def split: option.splits)
  with m v d rp fresh free False have cl: "cloneState (svc_state s) = Inr (svc_state s)"
    by (auto simp: CreateTransaction_def cloneState_def Let_def split: if_splits)
  define t where "t = (new_transaction r (env_now e))\<lparr>tx_TransactionDigest := td\<rparr>"
  have id: "tx_ID t = ct_TransactionID r" by (simp add: t_def new_transaction_def)
  define full where
    "full = enter ''create_transaction'' (ct_IdempotencyKey r) digest (ct_TransactionID r) t (svc_state s)"
  obtain cr s'' where co: "commitLocked e full s = (cr, s'')"
    by (cases "commitLocked e full s") auto
  have eq: "(res, s') = (case cr of Some err \<Rightarrow> (Inl err, s'') | None \<Rightarrow> (cloneTransaction t, s''))"
    using m v d rp fresh free td cl co id
    by (simp add: CreateTransaction_def Let_def full_def enter_def t_def [symmetric] split: option.splits)
  then have s': "s' = s''" by (auto split: option.splits)
  have "proposes e (CmdCreate r) (svc_state s) full"
    using v d rp fresh free td unfolding full_def t_def
    by (intro proposes.create) (auto simp: replayLocked_None list_ex_iff list_all_iff)
  moreover have "moved e full s s'"
    using commitLocked_cases [OF co] s' False by (auto simp: moved_def)
  moreover have "\<forall>t'. res = Inr t' \<longrightarrow> svc_state s' = full"
    using eq commitLocked_cases [OF co] by (auto simp: cloneTransaction_def split: option.splits if_splits)
  ultimately show ?thesis by blast
qed simp

lemma run_command_effect:
  assumes run: "run_command e c s = (r, s')"
  shows "s' = s \<or> (\<exists>st'. proposes e c (svc_state s) st' \<and> moved e st' s s' \<and>
           (\<forall>t'. r = Inr t' \<longrightarrow> svc_state s' = st'))"
proof (cases "is_create c")
  case True
  then show ?thesis using run create_effect by (cases c) auto
next
  case False
  show ?thesis
  proof (cases "cmd_validate c")
    case (Some err)
    with False run show ?thesis by (simp add: run_command_mutate)
  next
    case None
    then have "mutate e (cmd_operation c) (cmd_key c) (cmd_transaction c) (cmd_version c)
        (cmd_json c) (cmd_handler e c) s = (r, s')"
      using run False by (simp add: run_command_mutate)
    from mutate_effect [OF this] show ?thesis
      using False None by (blast intro: proposes.update)
  qed
qed

end
