(* ===== verification/Control_Handlers.thy ===== *)
theory Control_Handlers
  imports Control_Steps
begin

text \<open>
  When each handler of the control plane succeeds, and what it leaves. The lemmas \<open>*_Inr\<close> read the
  guards of a handler off its definition; the locale \<open>control_handler\<close> states what every handler
  keeps (the other transactions, the transaction's identity, the direction of the fence) and is
  interpreted on the handler of any command.
\<close>

section \<open>Guards\<close>

lemma requireCurrentClaim_Inr [handler_simps]:
  "requireCurrentClaim t cid ep now mode = Inr c \<longleftrightarrow>
     tx_ActiveClaim t = Some c \<and> cl_Status c = ClaimActive \<and> cl_ID c = cid \<and>
     cl_FenceEpoch c = ep \<and> tx_FenceEpoch t = ep \<and> now < cl_ExpiresAt c \<and>
     (\<forall>m. mode = Some m \<longrightarrow> cl_Mode c = m)"
  by (auto simp: requireCurrentClaim_def split: option.splits if_splits)

lemma requireApprovalReplayClaim_Inr [handler_simps]:
  "requireApprovalReplayClaim t cid ep = Inr c \<longleftrightarrow>
     tx_ActiveClaim t = Some c \<and> cl_Status c = ClaimActive \<and> cl_ID c = cid \<and>
     cl_FenceEpoch c = ep \<and> tx_FenceEpoch t = ep \<and> cl_Mode c = ClaimModeMutation"
  by (auto simp: requireApprovalReplayClaim_def split: option.splits if_splits)

lemma requireCurrentApproval_Inr [handler_simps]:
  "requireCurrentApproval t c aid plan now = Inr a \<longleftrightarrow>
     tx_Approval t = Some a \<and> ap_ID a = aid \<and> ap_PlanDigest a = plan \<and>
     ap_TransactionDigest a = tx_TransactionDigest t \<and> ap_FenceEpoch a = cl_FenceEpoch c \<and>
     ap_StationID a = cl_StationID c \<and> ap_LaneID a = cl_LaneID c \<and>
     (\<exists>target. tx_Target t = Some target \<and> ap_TargetFingerprint a = tb_Fingerprint target) \<and>
     SignedReleaseManifestDigest (ap_Release a) = tx_BundleDigest t \<and>
     rb_ExpectedCustomerKeyHash (ap_Release a) = tx_ExpectedCustomerKeyHash t \<and>
     now < ap_ExpiresAt a"
  by (auto simp: requireCurrentApproval_def split: option.splits if_splits)

lemma validateClaimModeForStatus_None [handler_simps]:
  "validateClaimModeForStatus m st = None \<longleftrightarrow>
     m = ClaimModeMutation \<and> st \<in> {StatusCreated, StatusClaimed, StatusTargetBound,
       StatusCommitApproved, StatusReconciled} \<or>
     m = ClaimModeReconciliation \<and> st \<in> {StatusMutationInProgress, StatusReconciliationRequired,
       StatusQuarantined}"
  by (cases m) (auto simp: validateClaimModeForStatus_def)

lemma ensureClaimResourcesAvailable_None [handler_simps]:
  "ensureClaimResourcesAvailable st tid station lane asset now = None \<longleftrightarrow>
     (\<forall>k t c. (k, t) \<in> set (ps_Transactions st) \<longrightarrow> k \<noteq> tid \<longrightarrow> tx_ActiveClaim t = Some c \<longrightarrow>
        cl_Status c = ClaimActive \<longrightarrow> now < cl_ExpiresAt c \<longrightarrow>
        cl_AssetID c \<noteq> asset \<and> (cl_StationID c, cl_LaneID c) \<noteq> (station, lane))"
  unfolding ensureClaimResourcesAvailable_def claim_blocks_def
  by (fastforce simp: list_ex_iff split: option.splits prod.splits)

lemma intent_loop_None [handler_simps]:
  "intent_loop oid ops = None \<longleftrightarrow>
     (\<forall>op \<in> set ops. op_ID op \<noteq> oid \<and> op_Status op \<notin>
        {OperationConfirmedNotApplied, OperationIntentRecorded, OperationUncertain})"
  by (induction ops) auto

lemma findOperation_Some:
  "findOperation ops wanted = Some i \<Longrightarrow> i < length ops \<and> op_ID (ops ! i) = wanted"
  by (induction ops arbitrary: i) (auto split: if_splits)

lemma findOperation_distinct:
  "distinct (map op_ID ops) \<Longrightarrow> i < length ops \<Longrightarrow> findOperation ops (op_ID (ops ! i)) = Some i"
  by (induction ops arbitrary: i) (auto simp: nth_Cons split: nat.splits)

section \<open>Success of each handler\<close>

lemma acquire_apply_Inr [handler_simps]:
  "acquire_apply e r now st t = Inr (st', t') \<longleftrightarrow>
     (\<forall>c. tx_ActiveClaim t = Some c \<longrightarrow> cl_Status c = ClaimActive \<longrightarrow> cl_ExpiresAt c \<le> now) \<and>
     (ac_Mode r = ClaimModeMutation \<longrightarrow> \<not> hasConfirmedNotAppliedOperation (tx_Operations t)) \<and>
     validateClaimModeForStatus (ac_Mode r) (tx_Status t) = None \<and>
     ensureClaimResourcesAvailable st (tx_ID t) (ac_StationID r) (ac_LaneID r) (tx_AssetID t) now = None \<and>
     (\<exists>claimID. env_newID e = Some claimID \<and> st' = raise_fence (tx_AssetID t) st \<and>
        t' = install_claim (case tx_ActiveClaim t of None \<Rightarrow> tx_ClaimHistory t
               | Some c \<Rightarrow> tx_ClaimHistory t @ [close_claim ClaimExpired now c])
               (new_claim claimID (ac_Mode r) (ac_StationID r) (ac_LaneID r) (tx_AssetID t)
                 (next_epoch st (tx_AssetID t)) (ac_AllowedStages r) now (ac_LeaseDurationSeconds r)) t)"
  unfolding acquire_apply_def Let_def
  by (auto simp: not_less split: option.splits)

lemma renew_apply_Inr [handler_simps]:
  "renew_apply r now st t = Inr (st', t') \<longleftrightarrow>
     (\<exists>c. requireCurrentClaim t (rn_ClaimID r) (rn_FenceEpoch r) now None = Inr c \<and>
        requireClaimRenewalAuthorization t c r now = None \<and> st' = st \<and>
        t' = t\<lparr>tx_ActiveClaim := Some (c\<lparr>cl_ExpiresAt := now + seconds (rn_LeaseDurationSeconds r)\<rparr>)\<rparr>)"
  by (auto simp: renew_apply_def)

lemma transfer_apply_Inr [handler_simps]:
  "transfer_apply e r now st t = Inr (st', t') \<longleftrightarrow>
     (\<exists>c claimID. requireCurrentClaim t (tr_ClaimID r) (tr_FenceEpoch r) now None = Inr c \<and>
        (tx_Status t = StatusMutationInProgress \<longrightarrow> tr_Mode r = ClaimModeReconciliation) \<and>
        (tr_Mode r = ClaimModeMutation \<longrightarrow> \<not> hasConfirmedNotAppliedOperation (tx_Operations t)) \<and>
        validateClaimModeForStatus (tr_Mode r) (tx_Status t) = None \<and>
        ensureClaimResourcesAvailable st (tx_ID t) (tr_NewStationID r) (tr_NewLaneID r) (tx_AssetID t) now = None \<and>
        env_newID e = Some claimID \<and> st' = raise_fence (tx_AssetID t) st \<and>
        t' = install_claim (tx_ClaimHistory t @ [close_claim ClaimTransferred now c])
               (new_claim claimID (tr_Mode r) (tr_NewStationID r) (tr_NewLaneID r) (tx_AssetID t)
                 (next_epoch st (tx_AssetID t)) (tr_AllowedStages r) now (tr_LeaseDurationSeconds r)) t)"
  by (auto simp: transfer_apply_def split: option.splits)

lemma release_apply_Inr [handler_simps]:
  "release_apply r now st t = Inr (st', t') \<longleftrightarrow>
     (\<exists>c. requireCurrentClaim t (rl_ClaimID r) (rl_FenceEpoch r) now None = Inr c \<and>
        tx_Status t \<in> {StatusSecurityApplied, StatusQuarantined, StatusReconciled, StatusAborted} \<and>
        st' = st \<and> t' = t\<lparr>tx_ClaimHistory := tx_ClaimHistory t @ [close_claim ClaimReleased now c],
                            tx_ActiveClaim := None\<rparr>)"
  by (auto simp: release_apply_def split: if_splits)

lemma bind_apply_Inr [handler_simps]:
  "bind_apply r now st t = Inr (st', t') \<longleftrightarrow>
     (\<exists>c. requireCurrentClaim t (mc_ClaimID (bt_MutationContext r)) (mc_FenceEpoch (bt_MutationContext r))
            now (Some ClaimModeMutation) = Inr c \<and>
        tx_Status t \<in> {StatusClaimed, StatusTargetBound, StatusReconciled} \<and>
        bt_CustomerKeyHash r = tx_ExpectedPrestateCustomerKeyHash t \<and>
        (\<forall>b. tx_Target t = Some b \<longrightarrow> tb_Fingerprint b = bt_TargetFingerprint r
              \<and> tb_CustomerKeyHash b = bt_CustomerKeyHash r) \<and>
        st' = st \<and>
        t' = t\<lparr>tx_Target := Some \<lparr>tb_Fingerprint = bt_TargetFingerprint r,
                 tb_ObservationDigest = bt_ObservationDigest r,
                 tb_CustomerKeyHash = bt_CustomerKeyHash r, tb_BoundAt = now,
                 tb_FenceEpoch = cl_FenceEpoch c\<rparr>,
               tx_Approval := None, tx_Status := StatusTargetBound\<rparr>)"
  unfolding bind_apply_def Let_def by (auto split: option.splits)

definition approval_of :: "RecordApprovalRequest \<Rightarrow> Claim \<Rightarrow> instant \<Rightarrow> Approval" where
  "approval_of r c now =
     \<lparr>ap_ID = ra_ApprovalID r, ap_ApproverID = ra_ApproverID r,
      ap_TransactionDigest = ra_TransactionDigest r, ap_PlanDigest = ra_PlanDigest r,
      ap_StationID = cl_StationID c, ap_LaneID = cl_LaneID c, ap_FenceEpoch = cl_FenceEpoch c,
      ap_TargetFingerprint = ra_TargetFingerprint r, ap_Release = ra_Release r,
      ap_AllowedOperations = ra_AllowedOperations r, ap_AuditReceiptID = ra_AuditReceiptID r,
      ap_ApprovedAt = now, ap_ExpiresAt = gt_instant (ra_ExpiresAt r)\<rparr>"

lemma approval_apply_Inr [handler_simps]:
  "approval_apply r now st t = Inr (st', t') \<longleftrightarrow>
     validateCurrentApprovalExpiry (gt_instant (ra_ExpiresAt r)) now = None \<and>
     (\<exists>c target. requireCurrentClaim t (mc_ClaimID (ra_MutationContext r))
            (mc_FenceEpoch (ra_MutationContext r)) now (Some ClaimModeMutation) = Inr c \<and>
        tx_Status t \<in> {StatusTargetBound, StatusCommitApproved} \<and>
        tx_Target t = Some target \<and> tb_FenceEpoch target = cl_FenceEpoch c \<and>
        ra_TransactionDigest r = tx_TransactionDigest t \<and>
        ra_TargetFingerprint r = tb_Fingerprint target \<and>
        SignedReleaseManifestDigest (ra_Release r) = tx_BundleDigest t \<and>
        rb_ExpectedCustomerKeyHash (ra_Release r) = tx_ExpectedCustomerKeyHash t \<and>
        (\<forall>p. tx_Approval t = Some p \<longrightarrow> ra_PlanDigest r = ap_PlanDigest p \<longrightarrow>
           ra_Release r = ap_Release p \<and> gt_instant (ra_ExpiresAt r) = ap_ExpiresAt p) \<and>
        set (ra_AllowedOperations r) \<subseteq> set (cl_AllowedStages c) \<and>
        validatePriorOperationsAgainstPlan (tx_Operations t) (ra_PlanDigest r) (ra_Release r)
          (gt_instant (ra_ExpiresAt r)) (ra_AllowedOperations r) 0 = None \<and>
        st' = st \<and> t' = t\<lparr>tx_Approval := Some (approval_of r c now), tx_Status := StatusCommitApproved\<rparr>)"
  unfolding approval_apply_def Let_def approval_of_def
  by (auto simp: list_ex_iff split: option.splits)

definition intent_record :: "RecordIntentRequest \<Rightarrow> Claim \<Rightarrow> Approval \<Rightarrow> instant \<Rightarrow> OperationRecord" where
  "intent_record r c a now =
     \<lparr>op_ID = ri_OperationID r, op_Operation = ri_Operation r, op_Status = OperationIntentRecorded,
      op_PlanDigest = ri_PlanDigest r, op_Release = ap_Release a, op_ApprovalExpiresAt = ap_ExpiresAt a,
      op_Approval = a, op_InputDigest = ri_InputDigest r, op_PrestateDigest = ri_PrestateDigest r,
      op_IntentAuditReceiptID = ri_AuditReceiptID r, op_IntentAt = now,
      op_IntentFenceEpoch = cl_FenceEpoch c, op_OutputDigest = [], op_ObservationDigest = [],
      op_EvidenceAuditReceiptID = [], op_EvidenceAt = None, op_ReconciliationAuditReceiptID = []\<rparr>"

lemma intent_apply_Inr [handler_simps]:
  "intent_apply r now st t = Inr (st', t') \<longleftrightarrow>
     (\<exists>c a. requireCurrentClaim t (mc_ClaimID (ri_MutationContext r))
            (mc_FenceEpoch (ri_MutationContext r)) now (Some ClaimModeMutation) = Inr c \<and>
        tx_Status t = StatusCommitApproved \<and>
        requireCurrentApproval t c (ri_ApprovalID r) (ri_PlanDigest r) now = Inr a \<and>
        intent_loop (ri_OperationID r) (tx_Operations t) = None \<and>
        completedApprovedOperations (tx_Operations t) < length (ap_AllowedOperations a) \<and>
        ap_AllowedOperations a ! completedApprovedOperations (tx_Operations t) = ri_Operation r \<and>
        ri_Operation r \<in> set (cl_AllowedStages c) \<and>
        st' = st \<and> t' = t\<lparr>tx_Operations := tx_Operations t @ [intent_record r c a now],
                            tx_Status := StatusMutationInProgress\<rparr>)"
  unfolding intent_apply_def Let_def intent_record_def by (auto simp: not_le)

text \<open>The four outcomes of evidence.\<close>

fun evidence_outcome :: "RecordEvidenceRequest \<Rightarrow> instant \<Rightarrow> OperationRecord \<Rightarrow> Transaction \<Rightarrow> Transaction" where
  "evidence_outcome r now op t =
     (let ops = butlast (tx_Operations t); op' = evidence_record r now op in
      case re_Result r of
        EvidenceSucceeded \<Rightarrow>
          t\<lparr>tx_Operations := ops @ [op'\<lparr>op_Status := OperationSucceeded\<rparr>], tx_Status := StatusCommitApproved\<rparr>
      | EvidenceFailed \<Rightarrow>
          t\<lparr>tx_Operations := ops @ [op'\<lparr>op_Status := OperationFailed\<rparr>], tx_Status := StatusQuarantined,
            tx_Approval := None,
            tx_Quarantine := Some \<lparr>qr_ReasonCode = ''operation_failed'',
              qr_ObservationDigest = re_ObservationDigest r, qr_AuditReceiptID = re_AuditReceiptID r,
              qr_FenceEpoch = mc_FenceEpoch (re_MutationContext r), qr_RecordedAt = now\<rparr>\<rparr>
      | EvidenceUncertain \<Rightarrow>
          t\<lparr>tx_Operations := ops @ [op'\<lparr>op_Status := OperationUncertain\<rparr>],
            tx_Status := StatusReconciliationRequired, tx_Approval := None\<rparr>
      | EvidenceOther _ \<Rightarrow> t\<lparr>tx_Operations := ops @ [op']\<rparr>)"

lemma list_update_last: "xs \<noteq> [] \<Longrightarrow> xs[length xs - Suc 0 := y] = butlast xs @ [y]"
  by (cases xs rule: rev_cases) auto

lemma evidence_apply_Inr [handler_simps]:
  "evidence_apply r now st t = Inr (st', t') \<longleftrightarrow>
     (\<exists>c. requireCurrentClaim t (mc_ClaimID (re_MutationContext r))
            (mc_FenceEpoch (re_MutationContext r)) now (Some ClaimModeMutation) = Inr c) \<and>
     tx_Status t = StatusMutationInProgress \<and> tx_Operations t \<noteq> [] \<and>
     op_ID (last (tx_Operations t)) = re_OperationID r \<and>
     op_Status (last (tx_Operations t)) = OperationIntentRecorded \<and>
     st' = st \<and> t' = evidence_outcome r now (last (tx_Operations t)) t"
  unfolding evidence_apply_def Let_def
  by (cases "re_Result r") (auto simp: last_conv_nth list_update_last Let_def split: if_splits)

definition reconciliation_outcome ::
  "RecordReconciliationRequest \<Rightarrow> instant \<Rightarrow> nat \<Rightarrow> Transaction \<Rightarrow> Transaction" where
  "reconciliation_outcome r now i t =
     (let op' = reconciliation_record r now (tx_Operations t ! i);
          resolved = (if tx_Status t \<noteq> StatusQuarantined then StatusReconciled else tx_Status t) in
      case rr_Resolution r of
        ResolutionConfirmedApplied \<Rightarrow>
          t\<lparr>tx_Operations := (tx_Operations t)[i := op'\<lparr>op_Status := OperationConfirmedApplied\<rparr>],
            tx_Approval := None, tx_Status := resolved\<rparr>
      | ResolutionConfirmedNotApplied \<Rightarrow>
          t\<lparr>tx_Operations := (tx_Operations t)[i := op'\<lparr>op_Status := OperationConfirmedNotApplied\<rparr>],
            tx_Approval := None, tx_Status := resolved\<rparr>
      | ResolutionUnknown \<Rightarrow>
          t\<lparr>tx_Operations := (tx_Operations t)[i := op'\<lparr>op_Status := OperationUncertain\<rparr>],
            tx_Approval := None, tx_Status := StatusQuarantined,
            tx_Quarantine := Some \<lparr>qr_ReasonCode = ''reconciliation_unknown'',
              qr_ObservationDigest = rr_ObservationDigest r, qr_AuditReceiptID = rr_AuditReceiptID r,
              qr_FenceEpoch = mc_FenceEpoch (rr_MutationContext r), qr_RecordedAt = now\<rparr>\<rparr>
      | ResolutionOther _ \<Rightarrow>
          t\<lparr>tx_Operations := (tx_Operations t)[i := op'], tx_Approval := None\<rparr>)"

lemma reconciliation_apply_Inr [handler_simps]:
  "reconciliation_apply r now st t = Inr (st', t') \<longleftrightarrow>
     (\<exists>c i. requireCurrentClaim t (mc_ClaimID (rr_MutationContext r))
            (mc_FenceEpoch (rr_MutationContext r)) now (Some ClaimModeReconciliation) = Inr c \<and>
        tx_Status t \<in> {StatusReconciliationRequired, StatusQuarantined} \<and>
        findOperation (tx_Operations t) (rr_OperationID r) = Some i \<and>
        op_Status (tx_Operations t ! i) \<in> {OperationIntentRecorded, OperationUncertain, OperationFailed} \<and>
        st' = st \<and> t' = reconciliation_outcome r now i t)"
  unfolding reconciliation_apply_def Let_def reconciliation_outcome_def
  by (cases "rr_Resolution r") (auto split: if_splits option.splits)

lemma quarantine_apply_Inr [handler_simps]:
  "quarantine_apply r now st t = Inr (st', t') \<longleftrightarrow>
     (\<exists>c. requireCurrentClaim t (mc_ClaimID (qt_MutationContext r))
            (mc_FenceEpoch (qt_MutationContext r)) now None = Inr c) \<and>
     tx_Status t \<notin> {StatusSecurityApplied, StatusAborted, StatusQuarantined} \<and>
     st' = st \<and>
     t' = t\<lparr>tx_Approval := None, tx_Status := StatusQuarantined,
            tx_Quarantine := Some \<lparr>qr_ReasonCode = qt_ReasonCode r,
              qr_ObservationDigest = qt_ObservationDigest r, qr_AuditReceiptID = qt_AuditReceiptID r,
              qr_FenceEpoch = mc_FenceEpoch (qt_MutationContext r), qr_RecordedAt = now\<rparr>\<rparr>"
  unfolding quarantine_apply_def Let_def by (auto split: if_splits)

lemma abort_apply_Inr [handler_simps]:
  "abort_apply r now st t = Inr (st', t') \<longleftrightarrow>
     (\<exists>c. requireCurrentClaim t (mc_ClaimID (ar_MutationContext r))
            (mc_FenceEpoch (ar_MutationContext r)) now (Some ClaimModeMutation) = Inr c) \<and>
     tx_Operations t = [] \<and> tx_Status t \<notin> {StatusSecurityApplied, StatusQuarantined} \<and>
     st' = st \<and>
     t' = t\<lparr>tx_Approval := None, tx_Status := StatusAborted,
            tx_Abort := Some \<lparr>ab_ReusableBaselineDigest = ar_ReusableBaselineDigest r,
              ab_AuditReceiptID = ar_AuditReceiptID r, ab_RecordedAt = now\<rparr>\<rparr>"
  unfolding abort_apply_def Let_def by (auto split: if_splits)

lemma security_apply_Inr [handler_simps]:
  "security_apply r now st t = Inr (st', t') \<longleftrightarrow>
     (\<exists>c a. requireCurrentClaim t (mc_ClaimID (sr_MutationContext r))
            (mc_FenceEpoch (sr_MutationContext r)) now (Some ClaimModeMutation) = Inr c \<and>
        tx_Status t = StatusCommitApproved \<and>
        requireCurrentApproval t c (ap_ID a) (sr_PlanDigest r) now = Inr a \<and>
        validateCompletedDevelopmentCampaign (tx_Operations t) (Some a) = None \<and>
        st' = st \<and>
        t' = t\<lparr>tx_Status := StatusSecurityApplied,
               tx_SecurityApplied := Some \<lparr>sa_EvidenceDigest = sr_EvidenceDigest r,
                 sa_AuditReceiptID = sr_AuditReceiptID r, sa_RollbackStatus = sr_RollbackStatus r,
                 sa_ReleaseClassification = sr_ReleaseClassification r, sa_RecordedAt = now\<rparr>\<rparr>)"
  unfolding security_apply_def Let_def
  by (auto simp: requireCurrentApproval_Inr split: if_splits option.splits)

section \<open>What every handler keeps\<close>

text \<open>The fields of a transaction that are fixed when it is created.\<close>

definition identity :: "Transaction \<Rightarrow> string list \<times> instant" where
  "identity t =
     ([tx_SchemaVersion t, tx_ID t, tx_AssetID t, tx_IntendedLogicalID t, tx_ProfileID t,
       tx_BundleDigest t, tx_PolicyDigest t, tx_ExpectedPrestateCustomerKeyHash t,
       tx_ExpectedCustomerKeyHash t, tx_TransactionDigest t], tx_CreatedAt t)"

text \<open>A handler either leaves the fences alone or takes the next epoch of its asset.\<close>

definition fence_move :: "persistedState \<Rightarrow> Transaction \<Rightarrow> persistedState \<Rightarrow> Transaction \<Rightarrow> bool" where
  "fence_move st t st' t' \<longleftrightarrow>
     st' = st \<and> tx_FenceEpoch t' = tx_FenceEpoch t \<or>
     st' = raise_fence (tx_AssetID t) st \<and> tx_FenceEpoch t' = next_epoch st (tx_AssetID t) \<and>
     tx_ActiveClaim t' \<noteq> None"

text \<open>What happens to the active claim: kept, extended, given up or replaced by a fresh one.\<close>

definition claim_move :: "instant \<Rightarrow> persistedState \<Rightarrow> Transaction \<Rightarrow> Transaction \<Rightarrow> bool" where
  "claim_move now st t t' \<longleftrightarrow>
     tx_ActiveClaim t' = tx_ActiveClaim t \<or>
     tx_ActiveClaim t' = None \<or>
     (\<exists>c x. tx_ActiveClaim t = Some c \<and> now < cl_ExpiresAt c \<and>
        tx_ActiveClaim t' = Some (c\<lparr>cl_ExpiresAt := x\<rparr>)) \<or>
     (\<exists>c. tx_ActiveClaim t' = Some c \<and>
        ensureClaimResourcesAvailable st (tx_ID t) (cl_StationID c) (cl_LaneID c) (tx_AssetID t) now = None)"

locale control_handler =
  fixes ap :: mutateFunc
  assumes ap_identity: "ap now st t = Inr (st', t') \<Longrightarrow> identity t' = identity t"
    and ap_version: "ap now st t = Inr (st', t') \<Longrightarrow> tx_ResourceVersion t' = tx_ResourceVersion t"
    and ap_fence: "ap now st t = Inr (st', t') \<Longrightarrow> fence_move st t st' t'"
    and ap_claim: "ap now st t = Inr (st', t') \<Longrightarrow> claim_move now st t t'"
begin

lemma ap_store:
  "ap now st t = Inr (st', t') \<Longrightarrow> ps_Transactions st' = ps_Transactions st \<and>
     ps_Idempotency st' = ps_Idempotency st \<and> ps_SchemaVersion st' = ps_SchemaVersion st"
  by (drule ap_fence) (auto simp: fence_move_def raise_fence_def)

lemma ap_names:
  assumes "ap now st t = Inr (st', t')"
  shows "tx_ID t' = tx_ID t" "tx_AssetID t' = tx_AssetID t"
    "tx_IntendedLogicalID t' = tx_IntendedLogicalID t"
    "tx_TransactionDigest t' = tx_TransactionDigest t" "tx_CreatedAt t' = tx_CreatedAt t"
  using ap_identity [OF assms] by (simp_all add: identity_def)

text \<open>An epoch that did not wrap to zero has moved up, for the asset and for the transaction.\<close>

lemma ap_fence_mono:
  assumes "ap now st t = Inr (st', t')"
    and "tx_FenceEpoch t \<le> fenceEpochOf (ps_FenceEpochs st) (tx_AssetID t)"
    and "tx_ActiveClaim t' \<noteq> None \<Longrightarrow> tx_FenceEpoch t' \<noteq> 0"
  shows "tx_FenceEpoch t \<le> tx_FenceEpoch t'"
    and "fenceEpochOf (ps_FenceEpochs st) a \<le> fenceEpochOf (ps_FenceEpochs st') a"
proof -
  consider "tx_FenceEpoch t' = tx_FenceEpoch t" "st' = st"
    | "tx_FenceEpoch t' = next_epoch st (tx_AssetID t)" "tx_FenceEpoch t' \<noteq> 0"
      "st' = raise_fence (tx_AssetID t) st"
    using ap_fence [OF assms(1)] assms(3) by (auto simp: fence_move_def)
  then have "tx_FenceEpoch t \<le> tx_FenceEpoch t' \<and>
    fenceEpochOf (ps_FenceEpochs st) a \<le> fenceEpochOf (ps_FenceEpochs st') a"
  proof cases
    case 2
    then have up: "fenceEpochOf (ps_FenceEpochs st) (tx_AssetID t) < next_epoch st (tx_AssetID t)"
      by (simp add: next_epoch_def word_succ_gt)
    then have "fenceEpochOf (ps_FenceEpochs st) a \<le> fenceEpochOf (ps_FenceEpochs st') a"
      using 2(3) by (auto simp: raise_fence_def fenceEpochOf_def less_imp_le split: option.splits)
    with up 2(1) assms(2) show ?thesis by (metis less_imp_le order.trans)
  qed simp
  then show "tx_FenceEpoch t \<le> tx_FenceEpoch t'"
    and "fenceEpochOf (ps_FenceEpochs st) a \<le> fenceEpochOf (ps_FenceEpochs st') a" by auto
qed

end

lemma identity_update [simp]:
  "identity (t\<lparr>tx_ResourceVersion := v\<rparr>) = identity t" "identity (t\<lparr>tx_Status := x0\<rparr>) = identity t"
  "identity (t\<lparr>tx_FenceEpoch := x1\<rparr>) = identity t" "identity (t\<lparr>tx_ActiveClaim := x2\<rparr>) = identity t"
  "identity (t\<lparr>tx_ClaimHistory := x3\<rparr>) = identity t" "identity (t\<lparr>tx_Target := x4\<rparr>) = identity t"
  "identity (t\<lparr>tx_Approval := x5\<rparr>) = identity t" "identity (t\<lparr>tx_Operations := x6\<rparr>) = identity t"
  "identity (t\<lparr>tx_Quarantine := x7\<rparr>) = identity t" "identity (t\<lparr>tx_SecurityApplied := x8\<rparr>) = identity t"
  "identity (t\<lparr>tx_Abort := x9\<rparr>) = identity t" "identity (t\<lparr>tx_UpdatedAt := x10\<rparr>) = identity t"
  by (simp_all add: identity_def)

lemma install_claim_simps [simp]:
  "tx_ClaimHistory (install_claim h c t) = h" "tx_FenceEpoch (install_claim h c t) = cl_FenceEpoch c"
  "tx_ActiveClaim (install_claim h c t) = Some c" "tx_Approval (install_claim h c t) = None"
  "tx_Status (install_claim h c t) = claimed_status (cl_Mode c) t"
  "tx_Operations (install_claim h c t) = tx_Operations t"
  "tx_Target (install_claim h c t) = tx_Target t"
  "tx_ResourceVersion (install_claim h c t) = tx_ResourceVersion t"
  "tx_Quarantine (install_claim h c t) = tx_Quarantine t"
  "tx_SecurityApplied (install_claim h c t) = tx_SecurityApplied t"
  "tx_Abort (install_claim h c t) = tx_Abort t"
  "tx_UpdatedAt (install_claim h c t) = tx_UpdatedAt t"
  "identity (install_claim h c t) = identity t"
  by (simp_all add: install_claim_def identity_def)

lemma new_claim_simps [simp]:
  "cl_ID (new_claim i m s l a f g n d) = i" "cl_Mode (new_claim i m s l a f g n d) = m"
  "cl_Status (new_claim i m s l a f g n d) = ClaimActive"
  "cl_StationID (new_claim i m s l a f g n d) = s" "cl_LaneID (new_claim i m s l a f g n d) = l"
  "cl_AssetID (new_claim i m s l a f g n d) = a" "cl_FenceEpoch (new_claim i m s l a f g n d) = f"
  "cl_AllowedStages (new_claim i m s l a f g n d) = g" "cl_AcquiredAt (new_claim i m s l a f g n d) = n"
  "cl_ExpiresAt (new_claim i m s l a f g n d) = n + seconds d" "cl_ClosedAt (new_claim i m s l a f g n d) = None"
  by (simp_all add: new_claim_def)

lemma close_claim_simps [simp]:
  "cl_ID (close_claim st n c) = cl_ID c" "cl_Mode (close_claim st n c) = cl_Mode c"
  "cl_Status (close_claim st n c) = st" "cl_StationID (close_claim st n c) = cl_StationID c"
  "cl_LaneID (close_claim st n c) = cl_LaneID c" "cl_AssetID (close_claim st n c) = cl_AssetID c"
  "cl_FenceEpoch (close_claim st n c) = cl_FenceEpoch c"
  "cl_AllowedStages (close_claim st n c) = cl_AllowedStages c"
  "cl_AcquiredAt (close_claim st n c) = cl_AcquiredAt c"
  "cl_ExpiresAt (close_claim st n c) = cl_ExpiresAt c" "cl_ClosedAt (close_claim st n c) = Some n"
  by (simp_all add: close_claim_def)

lemma evidence_outcome_frame [simp]:
  "identity (evidence_outcome r now op t) = identity t"
  "tx_ResourceVersion (evidence_outcome r now op t) = tx_ResourceVersion t"
  "tx_FenceEpoch (evidence_outcome r now op t) = tx_FenceEpoch t"
  "tx_ActiveClaim (evidence_outcome r now op t) = tx_ActiveClaim t"
  "tx_ClaimHistory (evidence_outcome r now op t) = tx_ClaimHistory t"
  "tx_Target (evidence_outcome r now op t) = tx_Target t"
  "tx_SecurityApplied (evidence_outcome r now op t) = tx_SecurityApplied t"
  "tx_Abort (evidence_outcome r now op t) = tx_Abort t"
  "tx_UpdatedAt (evidence_outcome r now op t) = tx_UpdatedAt t"
  by (simp_all add: Let_def identity_def split: EvidenceResult.split)

lemma reconciliation_outcome_frame [simp]:
  "identity (reconciliation_outcome r now i t) = identity t"
  "tx_ResourceVersion (reconciliation_outcome r now i t) = tx_ResourceVersion t"
  "tx_FenceEpoch (reconciliation_outcome r now i t) = tx_FenceEpoch t"
  "tx_ActiveClaim (reconciliation_outcome r now i t) = tx_ActiveClaim t"
  "tx_ClaimHistory (reconciliation_outcome r now i t) = tx_ClaimHistory t"
  "tx_Target (reconciliation_outcome r now i t) = tx_Target t"
  "tx_SecurityApplied (reconciliation_outcome r now i t) = tx_SecurityApplied t"
  "tx_Abort (reconciliation_outcome r now i t) = tx_Abort t"
  "tx_UpdatedAt (reconciliation_outcome r now i t) = tx_UpdatedAt t"
  by (simp_all add: reconciliation_outcome_def Let_def identity_def split: ReconciliationResolution.split)

declare evidence_outcome.simps [simp del]

lemmas apply_Inr = acquire_apply_Inr renew_apply_Inr transfer_apply_Inr release_apply_Inr
  bind_apply_Inr approval_apply_Inr intent_apply_Inr evidence_apply_Inr reconciliation_apply_Inr
  quarantine_apply_Inr abort_apply_Inr security_apply_Inr

text \<open>The claim a claim-bound command is made under is the current one, unexpired.\<close>

lemma handler_claim_current:
  assumes "cmd_handler e c now st t = Inr (st', t')" and "cmd_claim c = Some (cid, ep)"
  shows "\<exists>claim. requireCurrentClaim t cid ep now None = Inr claim"
  using assms by (cases c) (auto simp: handler_simps)

lemma cmd_handler_frame:
  assumes "cmd_handler e c now st t = Inr (st', t')"
  shows "identity t' = identity t" "tx_ResourceVersion t' = tx_ResourceVersion t"
    "fence_move st t st' t'" "claim_move now st t t'"
  using assms
  by (cases c; auto simp: apply_Inr requireCurrentClaim_Inr fence_move_def claim_move_def)+

interpretation handler: control_handler "cmd_handler e c" for e c
  by unfold_locales (rule cmd_handler_frame; assumption)+

end
