(* ===== verification/Control_Reach.thy ===== *)
theory Control_Reach
  imports Control_Handlers
begin

text \<open>
  Histories of one control-plane service: calls and restarts. A restart reads the file again, so a
  statement about all histories has to hold of the state in memory and of the state on disk, which
  differ after a save that failed too late. The locales of this theory carry that argument once:
  \<open>state_invariant\<close> for what holds of every state, \<open>relative_invariant\<close> for what holds on top
  of another invariant, \<open>state_order\<close> for how states grow.
\<close>

section \<open>Calls and restarts\<close>

definition reopen :: "hash \<Rightarrow> Service \<Rightarrow> control_error + Service" where
  "reopen sha s =
     bindE (NewService sha False False
              (case FileStore_Load (svc_store s) of None \<Rightarrow> LoadNotFound
               | Some st \<Rightarrow> LoadDecoded False st))
       (\<lambda>st. Inr (s\<lparr>svc_state := st\<rparr>))"

definition first_service :: Service where
  "first_service = \<lparr>svc_state = initial_state, svc_store = \<lparr>fs_path = None, fs_temp = None\<rparr>\<rparr>"

text \<open>A history carries the latest clock reading; the clock does not run backwards.\<close>

inductive control_step :: "hash \<Rightarrow> instant \<times> Service \<Rightarrow> instant \<times> Service \<Rightarrow> bool" for sha where
  call: "env_sha256 e = sha \<Longrightarrow> T \<le> env_now e \<Longrightarrow> run_command e c s = (r, s') \<Longrightarrow>
    control_step sha (T, s) (env_now e, s')"
| restart: "reopen sha s = Inr s' \<Longrightarrow> control_step sha (T, s) (T, s')"

inductive control_steps :: "hash \<Rightarrow> instant \<times> Service \<Rightarrow> instant \<times> Service \<Rightarrow> bool" for sha where
  none_yet: "control_steps sha x x"
| then_step: "control_steps sha x y \<Longrightarrow> control_step sha y z \<Longrightarrow> control_steps sha x z"

definition reachable :: "hash \<Rightarrow> instant \<Rightarrow> Service \<Rightarrow> bool" where
  "reachable sha T s \<longleftrightarrow> (\<exists>T0 > 0. control_steps sha (T0, first_service) (T, s))"

inductive_cases control_step_pairE: "control_step sha (T, s) (T', s')"

lemma control_stepE [consumes 1, case_names call restart]:
  assumes "control_step sha (T, s) (T', s')"
  obtains e c r where "env_sha256 e = sha" "env_now e = T'" "T \<le> T'" "run_command e c s = (r, s')"
  | "T' = T" "reopen sha s = Inr s'"
  using assms by (auto elim: control_step_pairE)

lemma reachable_induct [consumes 1, case_names start step]:
  assumes "reachable sha T s"
    and "\<And>T. 0 < T \<Longrightarrow> P T first_service"
    and "\<And>T s T' s'. reachable sha T s \<Longrightarrow> P T s \<Longrightarrow> control_step sha (T, s) (T', s') \<Longrightarrow> P T' s'"
  shows "P T s"
proof -
  have "P (fst y) (snd y)"
    if "control_steps sha x y" "x = (T0, first_service)" "0 < T0" for x y T0
    using that
  proof induction
    case (none_yet x)
    then show ?case using assms(2) by simp
  next
    case (then_step x y z)
    then have "reachable sha (fst y) (snd y)" by (auto simp: reachable_def)
    with then_step show ?case using assms(3) [of "fst y" "snd y" "fst z" "snd z"] by simp
  qed
  then show ?thesis using assms(1) by (fastforce simp: reachable_def)
qed

lemma reachable_step: "reachable sha T s \<Longrightarrow> control_step sha (T, s) (T', s') \<Longrightarrow> reachable sha T' s'"
  by (auto simp: reachable_def intro: control_steps.then_step)

lemma reachable_first: "0 < T \<Longrightarrow> reachable sha T first_service"
  by (auto simp: reachable_def intro: control_steps.none_yet)

lemma control_steps_trans:
  assumes "control_steps sha y z" and "control_steps sha x y"
  shows "control_steps sha x z"
  using assms by induction (auto intro: control_steps.then_step)

lemma reachable_steps: "reachable sha T s \<Longrightarrow> control_steps sha (T, s) (T', s') \<Longrightarrow> reachable sha T' s'"
  by (auto simp: reachable_def dest: control_steps_trans)

lemma reopen_cases:
  "reopen sha s = Inr s' \<Longrightarrow> svc_store s' = svc_store s \<and>
     (FileStore_Load (svc_store s) = None \<and> svc_state s' = initial_state \<or>
      FileStore_Load (svc_store s) = Some (svc_state s') \<and>
      validatePersistedState sha (svc_state s') = None)"
  by (auto simp: reopen_def NewService_def split: option.splits if_splits)

section \<open>The effect of a step on memory and file\<close>

definition candidate_of :: "hash \<Rightarrow> instant \<Rightarrow> persistedState \<Rightarrow> persistedState \<Rightarrow> bool" where
  "candidate_of sha T st st' \<longleftrightarrow>
     (\<exists>e c. env_sha256 e = sha \<and> env_now e = T \<and> proposes e c st st' \<and>
        validatePersistedState sha st' = None)"

lemma control_step_time: "control_step sha (T, s) (T', s') \<Longrightarrow> T \<le> T'"
  by (auto elim: control_stepE)

lemma reachable_time: "reachable sha T s \<Longrightarrow> 0 < T"
  by (induction rule: reachable_induct) (auto dest: control_step_time)

text \<open>A call whose save fails after the rename leaves the candidate in the file alone (\<open>late\<close>).\<close>

lemma control_step_cases:
  assumes "control_step sha (T, s) (T', s')"
  obtains (same) "svc_state s' = svc_state s" "FileStore_Load (svc_store s') = FileStore_Load (svc_store s)"
  | (late) st' where "candidate_of sha T' (svc_state s) st'" "svc_state s' = svc_state s"
      "FileStore_Load (svc_store s') = Some st'"
  | (commit) "candidate_of sha T' (svc_state s) (svc_state s')"
      "FileStore_Load (svc_store s') = Some (svc_state s')"
  | (load) "FileStore_Load (svc_store s) = Some (svc_state s')" "svc_store s' = svc_store s"
  | (none) "FileStore_Load (svc_store s) = None" "svc_store s' = svc_store s" "svc_state s' = initial_state"
  using assms
proof (cases rule: control_stepE)
  case (call e c r)
  from run_command_effect [OF call(4)] consider "s' = s" |
    st' where "proposes e c (svc_state s) st'" "moved e st' s s'" by blast
  then show thesis
  proof cases
    case 1
    then show ?thesis using same by simp
  next
    case 2
    then have "candidate_of sha T' (svc_state s) st'"
      using call by (auto simp: candidate_of_def moved_def)
    with 2(2) show ?thesis unfolding moved_def using same late commit by metis
  qed
next
  case restart
  show thesis using reopen_cases [OF restart(2)] load none by blast
qed

section \<open>Invariants of every state\<close>

locale state_invariant =
  fixes sha :: hash and I :: "instant \<Rightarrow> persistedState \<Rightarrow> bool"
  assumes init: "0 < T \<Longrightarrow> I T initial_state"
    and later: "I T st \<Longrightarrow> T \<le> T' \<Longrightarrow> I T' st"
    and keep: "I (env_now e) st \<Longrightarrow> 0 < env_now e \<Longrightarrow> env_sha256 e = sha \<Longrightarrow>
      proposes e c st st' \<Longrightarrow> validatePersistedState sha st' = None \<Longrightarrow> I (env_now e) st'"
begin

text \<open>Of a candidate the invariant holds from the time of the call on. The file and the memory are
  carried together through calls and restarts.\<close>

lemma everywhere:
  "reachable sha T s \<Longrightarrow>
     I T (svc_state s) \<and> (\<forall>st. FileStore_Load (svc_store s) = Some st \<longrightarrow> I T st)"
proof (induction rule: reachable_induct)
  case (start T)
  then show ?case by (simp add: first_service_def FileStore_Load_def init)
next
  case (step T s T' s')
  have T: "0 < T" "T \<le> T'" using step reachable_time control_step_time by blast+
  have new: "I T' st'" if "candidate_of sha T' (svc_state s) st'" for st'
    using that step.IH keep later [OF _ T(2)] T unfolding candidate_of_def by force
  from step.hyps(2) show ?case
    by (cases rule: control_step_cases) (use step.IH new later [OF _ T(2)] init T in auto)
qed

lemma in_memory: "reachable sha T s \<Longrightarrow> I T (svc_state s)"
  using everywhere by blast

lemma on_disk: "reachable sha T s \<Longrightarrow> FileStore_Load (svc_store s) = Some st \<Longrightarrow> I T st"
  using everywhere by blast

end

text \<open>An invariant that needs another one at both ends of a step.\<close>

locale relative_invariant = state_invariant sha I
  for sha :: hash and I :: "instant \<Rightarrow> persistedState \<Rightarrow> bool" +
  fixes J :: "instant \<Rightarrow> persistedState \<Rightarrow> bool"
  assumes rel_init: "0 < T \<Longrightarrow> J T initial_state"
    and rel_later: "J T st \<Longrightarrow> T \<le> T' \<Longrightarrow> J T' st"
    and rel_keep: "I (env_now e) st \<Longrightarrow> J (env_now e) st \<Longrightarrow> 0 < env_now e \<Longrightarrow> env_sha256 e = sha \<Longrightarrow>
      proposes e c st st' \<Longrightarrow> I (env_now e) st' \<Longrightarrow> J (env_now e) st'"

sublocale relative_invariant \<subseteq> both: state_invariant sha "\<lambda>T st. I T st \<and> J T st"
  using init later keep rel_init rel_later rel_keep by unfold_locales blast+

section \<open>How states grow\<close>

locale state_order = state_invariant sha I
  for sha :: hash and I :: "instant \<Rightarrow> persistedState \<Rightarrow> bool" +
  fixes R :: "persistedState \<Rightarrow> persistedState \<Rightarrow> bool"
  assumes R_refl: "R st st"
    and R_trans: "R st st' \<Longrightarrow> R st' st'' \<Longrightarrow> R st st''"
    and R_step: "I (env_now e) st \<Longrightarrow> 0 < env_now e \<Longrightarrow> env_sha256 e = sha \<Longrightarrow>
      proposes e c st st' \<Longrightarrow> I (env_now e) st' \<Longrightarrow> R st st'"
begin

lemma candidate_grows:
  assumes "I T st" and "T \<le> T'" and "0 < T'" and "candidate_of sha T' st st'"
  shows "R st st'"
  using assms keep later R_step unfolding candidate_of_def by (metis order_refl)

text \<open>The file holds a state that grew from the one in memory.\<close>

lemma file_ahead:
  "reachable sha T s \<Longrightarrow>
     (case FileStore_Load (svc_store s) of None \<Rightarrow> svc_state s = initial_state
      | Some st \<Rightarrow> R (svc_state s) st)"
proof (induction rule: reachable_induct)
  case (start T)
  show ?case by (simp add: first_service_def FileStore_Load_def)
next
  case (step T s T' s')
  have T: "0 < T" "T \<le> T'" using step reachable_time control_step_time by blast+
  have grow: "R (svc_state s) st'" if "candidate_of sha T' (svc_state s) st'" for st'
    using candidate_grows [OF _ T(2) _ that] in_memory step.hyps(1) T by auto
  from step.hyps(2) show ?case
    by (cases rule: control_step_cases) (use step.IH grow R_refl in \<open>auto split: option.splits\<close>)
qed

lemma grows_step:
  assumes r: "reachable sha T s" and st: "control_step sha (T, s) (T', s')"
  shows "R (svc_state s) (svc_state s')"
  using st
proof (cases rule: control_step_cases)
  case commit
  then show ?thesis
    using candidate_grows [OF in_memory [OF r] control_step_time [OF st]]
      reachable_time [OF r] control_step_time [OF st] by simp
qed (use file_ahead [OF r] R_refl in auto)

lemma grows:
  assumes "control_steps sha x y" and "x = (T, s)" and "y = (T', s')" and "reachable sha T s"
  shows "R (svc_state s) (svc_state s')"
  using assms
proof (induction arbitrary: T' s')
  case (none_yet x)
  then show ?case using R_refl by simp
next
  case (then_step x y z)
  then show ?case
    using grows_step [of "fst y" "snd y" T' s'] reachable_steps [of sha T s "fst y" "snd y"]
      R_trans by (metis prod.collapse)
qed

end

section \<open>Every state passes the integrity check\<close>

text \<open>The keys of the three maps are distinct, and opening the store would accept the state.\<close>

definition state_ok :: "hash \<Rightarrow> instant \<Rightarrow> persistedState \<Rightarrow> bool" where
  "state_ok sha T st \<longleftrightarrow> map_wf (ps_Transactions st) \<and> map_wf (ps_FenceEpochs st) \<and>
     map_wf (ps_Idempotency st) \<and> validatePersistedState sha st = None"

lemma proposes_map_wf:
  "proposes e c st st' \<Longrightarrow> map_wf (ps_Transactions st) \<Longrightarrow> map_wf (ps_FenceEpochs st) \<Longrightarrow>
     map_wf (ps_Idempotency st) \<Longrightarrow>
     map_wf (ps_Transactions st') \<and> map_wf (ps_FenceEpochs st') \<and> map_wf (ps_Idempotency st')"
  by (cases rule: proposes.cases)
    (auto simp: enter_def raise_fence_def fence_move_def dest!: handler.ap_fence)

interpretation ok: state_invariant sha "state_ok sha" for sha
  by unfold_locales
    (auto simp: state_ok_def initial_state_def validatePersistedState_def dest: proposes_map_wf)

end
