(* ===== verification/Control_Integrity.thy ===== *)
theory Control_Integrity
  imports Control_Reach
begin

text \<open>
  What the integrity check of the store says, in closed form, and the invariants of reachable states
  it does not check: the campaign runs in its one order, one operation at a time, under one plan, and
  the recorded times lie in the past. With them the check never fails on a state the service itself
  produces, but for one request.
\<close>

section \<open>The integrity check in closed form\<close>

lemma validatePersistedState_None:
  "map_wf (ps_Transactions st) \<Longrightarrow> map_wf (ps_Idempotency st) \<Longrightarrow>
   validatePersistedState sha st = None \<longleftrightarrow>
     ps_SchemaVersion st = StoreSchemaVersion \<and>
     (\<forall>k t. map_get (ps_Transactions st) k = Some t \<longrightarrow>
        k = tx_ID t \<and> validateTransaction sha t (ps_FenceEpochs st) = None) \<and>
     (\<forall>k r. map_get (ps_Idempotency st) k = Some r \<longrightarrow>
        validIdentifier k \<and> validIdentifier (ir_Operation r) \<and> validDigest (ir_RequestDigest r) \<and>
        validIdentifier (ir_TransactionID r) \<and> map_get (ps_Transactions st) (ir_TransactionID r) \<noteq> None)"
  unfolding validatePersistedState_def
  by (simp add: list_all_iff [symmetric] list_all_map_iff) blast

lemma state_ok_get:
  "state_ok sha T st \<Longrightarrow> map_get (ps_Transactions st) k = Some t \<Longrightarrow>
     tx_ID t = k \<and> validateTransaction sha t (ps_FenceEpochs st) = None"
  by (auto simp: state_ok_def validatePersistedState_None)

lemma validateTransaction_None:
  "validateTransaction sha t fe = None \<longleftrightarrow>
     transaction_header_ok sha t fe = None \<and> transaction_claims_ok t = None \<and>
     transaction_target_ok t = None \<and> transaction_operations_ok t = None \<and>
     transaction_terminal_ok t = None"
  by (simp add: validateTransaction_def)

lemma transaction_header_None:
  "transaction_header_ok sha t fe = None \<longleftrightarrow>
     tx_SchemaVersion t = TransactionSchemaVersion \<and> validIdentifier (tx_ID t) \<and>
     validIdentifier (tx_AssetID t) \<and> validIdentifier (tx_IntendedLogicalID t) \<and>
     validIdentifier (tx_ProfileID t) \<and> tx_ResourceVersion t \<noteq> 0 \<and> tx_CreatedAt t \<noteq> 0 \<and>
     tx_CreatedAt t \<le> tx_UpdatedAt t \<and> validDigest (tx_BundleDigest t) \<and>
     validDigest (tx_PolicyDigest t) \<and> validDigest (tx_TransactionDigest t) \<and>
     validDigest (tx_ExpectedCustomerKeyHash t) \<and>
     tx_ExpectedPrestateCustomerKeyHash t = UnownedCustomerKeyHash \<and>
     validDigest UnownedCustomerKeyHash \<and>
     tx_ExpectedCustomerKeyHash t \<noteq> UnownedCustomerKeyHash \<and>
     transactionDigest sha t = Some (tx_TransactionDigest t) \<and>
     (\<forall>x. tx_Status t \<noteq> StatusOther x) \<and>
     tx_FenceEpoch t \<le> fenceEpochOf fe (tx_AssetID t)"
  by (cases "tx_Status t") (auto simp: transaction_header_ok_def not_less)

definition claim_shape :: "Claim \<Rightarrow> Transaction \<Rightarrow> bool" where
  "claim_shape c t \<longleftrightarrow>
     validIdentifier (cl_ID c) \<and> validIdentifier (cl_StationID c) \<and> validIdentifier (cl_LaneID c) \<and>
     cl_AssetID c = tx_AssetID t \<and> cl_FenceEpoch c \<noteq> 0 \<and> cl_FenceEpoch c \<le> tx_FenceEpoch t \<and>
     cl_AcquiredAt c \<noteq> 0 \<and> cl_AcquiredAt c < cl_ExpiresAt c \<and> \<not> unsupportedMode (cl_Mode c) \<and>
     validateStringSet (cl_AllowedStages c) 1 32 = None"

lemma validateClaim_None:
  "validateClaim c t active = None \<longleftrightarrow> claim_shape c t \<and>
     (if active then cl_Status c = ClaimActive \<and> cl_ClosedAt c = None \<and> cl_FenceEpoch c = tx_FenceEpoch t
      else cl_Status c \<in> {ClaimReleased, ClaimTransferred, ClaimExpired} \<and>
        (\<exists>closed. cl_ClosedAt c = Some closed \<and> cl_AcquiredAt c \<le> closed))"
  by (auto simp: validateClaim_def claim_shape_def not_less split: option.splits)

lemma transaction_claims_None:
  "transaction_claims_ok t = None \<longleftrightarrow>
     (\<forall>c. tx_ActiveClaim t = Some c \<longrightarrow> validateClaim c t True = None) \<and>
     (\<forall>c \<in> set (tx_ClaimHistory t). validateClaim c t False = None)"
  by (auto simp: transaction_claims_ok_def split: option.splits)

lemma validateStoredApproval_None:
  "validateStoredApproval a t ep = None \<longleftrightarrow>
     validIdentifier (ap_ID a) \<and> validIdentifier (ap_ApproverID a) \<and>
     ap_TransactionDigest a = tx_TransactionDigest t \<and> validDigest (ap_PlanDigest a) \<and>
     validIdentifier (ap_StationID a) \<and> validIdentifier (ap_LaneID a) \<and> ap_FenceEpoch a = ep \<and>
     (\<exists>target. tx_Target t = Some target \<and> ap_TargetFingerprint a = tb_Fingerprint target) \<and>
     SignedReleaseManifestDigest (ap_Release a) = tx_BundleDigest t \<and>
     rb_ExpectedCustomerKeyHash (ap_Release a) = tx_ExpectedCustomerKeyHash t \<and>
     validDigest (ap_AuditReceiptID a) \<and> ap_ApprovedAt a \<noteq> 0 \<and> ap_ApprovedAt a < ap_ExpiresAt a \<and>
     ap_ExpiresAt a \<le> ap_ApprovedAt a + maximumApprovalLifetime \<and> Binding_Validate (ap_Release a) \<and>
     validateStringSet (ap_AllowedOperations a) 1 32 = None \<and>
     ap_AllowedOperations a = developmentOperations"
  by (auto simp: validateStoredApproval_def validateDevelopmentOperationNames_None not_less
      split: option.splits)

lemma transaction_target_None:
  "transaction_target_ok t = None \<longleftrightarrow>
     (\<forall>b. tx_Target t = Some b \<longrightarrow> validDigest (tb_Fingerprint b) \<and> validDigest (tb_ObservationDigest b) \<and>
        tb_CustomerKeyHash b = tx_ExpectedPrestateCustomerKeyHash t \<and> tb_BoundAt b \<noteq> 0 \<and>
        tb_FenceEpoch b \<noteq> 0 \<and> tb_FenceEpoch b \<le> tx_FenceEpoch t) \<and>
     (\<forall>a. tx_Approval t = Some a \<longrightarrow> validateStoredApproval a t (tx_FenceEpoch t) = None)"
  by (auto simp: transaction_target_ok_def not_less split: option.splits)

text \<open>The closed form of the loop over the operations.\<close>

definition same_plan :: "OperationRecord \<Rightarrow> OperationRecord \<Rightarrow> bool" where
  "same_plan op f \<longleftrightarrow> op_PlanDigest op = op_PlanDigest f \<and> op_Release op = op_Release f \<and>
     op_ApprovalExpiresAt op = op_ApprovalExpiresAt f"

abbreviation rejected :: "OperationRecord \<Rightarrow> bool" where
  "rejected op \<equiv> op_Status op = OperationConfirmedNotApplied"

lemma operations_loop_step:
  "operations_loop t ids blocked first (op # ops) = Inr b \<longleftrightarrow>
     \<not> blocked \<and> op_ID op \<notin> set ids \<and> validateStoredOperation op t = None \<and>
     (\<forall>f. first = Some f \<longrightarrow> same_plan op f) \<and>
     operations_loop t (op_ID op # ids) (rejected op)
       (Some (case first of Some f \<Rightarrow> f | None \<Rightarrow> op)) ops = Inr b"
  by (auto simp: same_plan_def split: option.splits)

lemma operations_loop_Some:
  "operations_loop t ids blocked (Some f) ops = Inr b \<longleftrightarrow>
     (ops \<noteq> [] \<longrightarrow> \<not> blocked) \<and> distinct (map op_ID ops) \<and> set ids \<inter> op_ID ` set ops = {} \<and>
     (\<forall>op \<in> set ops. validateStoredOperation op t = None \<and> same_plan op f) \<and>
     (\<forall>op \<in> set (butlast ops). \<not> rejected op) \<and>
     b = (if ops = [] then blocked else rejected (last ops))"
proof (induction ops arbitrary: ids blocked)
  case (Cons op ops)
  show ?case unfolding operations_loop_step using Cons.IH [of "op_ID op # ids" "rejected op"]
    by (cases ops) auto
qed auto

lemma transaction_operations_None:
  "transaction_operations_ok t = None \<longleftrightarrow>
     distinct (map op_ID (tx_Operations t)) \<and>
     (\<forall>op \<in> set (tx_Operations t). validateStoredOperation op t = None \<and>
        same_plan op (hd (tx_Operations t))) \<and>
     (\<forall>op \<in> set (butlast (tx_Operations t)). \<not> rejected op) \<and>
     (\<forall>c. tx_ActiveClaim t = Some c \<longrightarrow> cl_Mode c = ClaimModeMutation \<longrightarrow>
        tx_Operations t \<noteq> [] \<longrightarrow> \<not> rejected (last (tx_Operations t)))"
proof (cases "tx_Operations t")
  case Nil
  then show ?thesis by (auto simp: transaction_operations_ok_def)
next
  case (Cons op ops)
  have loop: "operations_loop t [] False None (op # ops) = Inr b \<longleftrightarrow>
      distinct (map op_ID (op # ops)) \<and>
      (\<forall>x \<in> set (op # ops). validateStoredOperation x t = None \<and> same_plan x op) \<and>
      (\<forall>x \<in> set (butlast (op # ops)). \<not> rejected x) \<and> b = rejected (last (op # ops))" for b
    unfolding operations_loop_step using operations_loop_Some [of t "[op_ID op]" "rejected op" op ops b]
    by (auto simp: same_plan_def)
  show ?thesis
  proof (cases "operations_loop t [] False None (op # ops)")
    case (Inl err)
    with loop [of "rejected (last (op # ops))"] show ?thesis
      unfolding transaction_operations_ok_def Cons list.sel(1) by auto
  next
    case (Inr b)
    with loop [of b] show ?thesis
      unfolding transaction_operations_ok_def Cons list.sel(1)
      by (simp split: option.splits) blast
  qed
qed

lemma transaction_terminal_None:
  "transaction_terminal_ok t = None \<longleftrightarrow>
     (tx_Status t = StatusQuarantined \<longleftrightarrow> tx_Quarantine t \<noteq> None) \<and>
     (\<forall>q. tx_Quarantine t = Some q \<longrightarrow> validIdentifier (qr_ReasonCode q) \<and>
        validDigest (qr_ObservationDigest q) \<and> validDigest (qr_AuditReceiptID q) \<and>
        qr_RecordedAt q \<noteq> 0 \<and> qr_FenceEpoch q \<noteq> 0) \<and>
     (tx_Status t = StatusSecurityApplied \<longleftrightarrow> tx_SecurityApplied t \<noteq> None) \<and>
     (\<forall>s. tx_SecurityApplied t = Some s \<longrightarrow> validDigest (sa_EvidenceDigest s) \<and>
        validDigest (sa_AuditReceiptID s) \<and> sa_RollbackStatus s = ''rollback_unimplemented'' \<and>
        sa_ReleaseClassification s = ''development_asset'' \<and> sa_RecordedAt s \<noteq> 0) \<and>
     (tx_Status t = StatusSecurityApplied \<longrightarrow> tx_Approval t \<noteq> None \<and>
        validateCompletedDevelopmentCampaign (tx_Operations t) (tx_Approval t) = None) \<and>
     (tx_Status t = StatusAborted \<longleftrightarrow> tx_Abort t \<noteq> None) \<and>
     (\<forall>a. tx_Abort t = Some a \<longrightarrow> validDigest (ab_ReusableBaselineDigest a) \<and>
        validDigest (ab_AuditReceiptID a) \<and> ab_RecordedAt a \<noteq> 0)"
  unfolding transaction_terminal_ok_def
  by (cases "tx_Quarantine t"; cases "tx_SecurityApplied t"; cases "tx_Abort t") auto

text \<open>The completed campaign: each step of the approval carried out once, in order.\<close>

definition completed :: "OperationRecord \<Rightarrow> bool" where
  "completed op \<longleftrightarrow> op_Status op = OperationSucceeded \<or> op_Status op = OperationConfirmedApplied"

definition under_approval :: "OperationRecord \<Rightarrow> Approval \<Rightarrow> bool" where
  "under_approval op a \<longleftrightarrow> op_PlanDigest op = ap_PlanDigest a \<and> op_Release op = ap_Release a \<and>
     op_ApprovalExpiresAt op = ap_ExpiresAt a"

lemma completedCampaign_loop_Inr:
  assumes "completedCampaign_loop ops a n = Inr m"
  shows "map op_Operation (filter completed ops) = take (m - n) (drop n (ap_AllowedOperations a))"
    and "n \<le> m" and "\<forall>op \<in> set ops. under_approval op a \<and> (completed op \<or> rejected op)"
proof -
  have "map op_Operation (filter completed ops) = take (m - n) (drop n (ap_AllowedOperations a))
    \<and> n \<le> m \<and> (\<forall>op \<in> set ops. under_approval op a \<and> (completed op \<or> rejected op))"
    using assms
  proof (induction ops arbitrary: n)
    case (Cons op ops)
    show ?case
    proof (cases "completed op")
      case True
      then have "completedCampaign_loop ops a (Suc n) = Inr m"
        and op: "n < length (ap_AllowedOperations a)" "under_approval op a"
          "op_Operation op = ap_AllowedOperations a ! n"
        using Cons.prems by (auto simp: completed_def under_approval_def split: if_splits)
      from Cons.IH [OF this(1)] op True show ?thesis
        by (auto simp: Cons_nth_drop_Suc [symmetric] Suc_diff_le take_Cons' Suc_le_eq)
    next
      case False
      then have "completedCampaign_loop ops a n = Inr m" and "under_approval op a" and "rejected op"
        using Cons.prems
        by (auto simp: completed_def under_approval_def split: if_splits OperationStatus.splits)
      with Cons.IH [of n] False show ?thesis by simp
    qed
  qed simp
  then show "map op_Operation (filter completed ops) = take (m - n) (drop n (ap_AllowedOperations a))"
    and "n \<le> m" and "\<forall>op \<in> set ops. under_approval op a \<and> (completed op \<or> rejected op)" by auto
qed

lemma validateCompletedDevelopmentCampaign_None:
  assumes "validateCompletedDevelopmentCampaign ops (Some a) = None"
  shows "map op_Operation (filter completed ops) = developmentOperations"
    and "\<forall>op \<in> set ops. under_approval op a \<and> (completed op \<or> rejected op)"
proof -
  from assms have "ap_AllowedOperations a = developmentOperations"
    and "completedCampaign_loop ops a 0 = Inr 7"
    by (auto simp: validateCompletedDevelopmentCampaign_def validateDevelopmentOperationNames_None
        split: if_splits sum.splits)
  with completedCampaign_loop_Inr [of ops a 0 7]
  show "map op_Operation (filter completed ops) = developmentOperations"
    and "\<forall>op \<in> set ops. under_approval op a \<and> (completed op \<or> rejected op)" by auto
qed

lemma validateCompletedDevelopmentCampaign_intro:
  assumes "ap_AllowedOperations a = developmentOperations"
    and "map op_Operation ops = developmentOperations"
    and "\<forall>op \<in> set ops. under_approval op a \<and> completed op"
  shows "validateCompletedDevelopmentCampaign ops (Some a) = None"
proof -
  have "completedCampaign_loop xs a n = Inr (n + length xs)"
    if "drop n developmentOperations = map op_Operation xs" "set xs \<subseteq> set ops" for xs n
    using that
  proof (induction xs arbitrary: n)
    case (Cons x xs)
    then have n: "n < 7" and hd: "developmentOperations ! n = op_Operation x"
      and tl: "drop (Suc n) developmentOperations = map op_Operation xs"
      by (metis length_developmentOperations drop_eq_Nil leI list.discI list.simps(9),
          metis nth_via_drop list.simps(9), metis drop_Suc list.sel(3) list.simps(9) drop_Suc tl_drop)
    from Cons.prems(2) assms(3) have "under_approval x a" "completed x" by auto
    then have "completedCampaign_loop (x # xs) a n = completedCampaign_loop xs a (n + 1)"
      using assms(1) n hd by (auto simp: under_approval_def completed_def)
    then show ?case using Cons.IH [of "n + 1"] tl Cons.prems(2) by simp
  qed simp
  from this [of 0 ops] have "completedCampaign_loop ops a 0 = Inr (length ops)" using assms(2) by simp
  moreover have "length ops = 7" using assms(2) by (metis length_developmentOperations length_map)
  ultimately show ?thesis
    using assms(1) by (simp add: validateCompletedDevelopmentCampaign_def validateDevelopmentOperationNames_None)
qed

end
