(* ===== verification/Control_Campaign.thy ===== *)
theory Control_Campaign
  imports Control_Integrity
begin

text \<open>
  The course of one transaction. The locale \<open>transaction_invariant\<close> lifts a property of single
  transactions that every handler keeps to all reachable states, in memory and on disk. Its main
  instance, \<open>campaign_ok\<close>, relates the status of a transaction to its operations: the seven
  operations of the development campaign run in order, under one plan, each one concluded before
  the next one starts.
\<close>

section \<open>Invariants of single transactions\<close>

lemma proposes_get:
  assumes "proposes e c st st'" and "map_get (ps_Transactions st') k = Some t'"
  obtains (kept) "map_get (ps_Transactions st) k = Some t'"
  | (created) r d where "c = CmdCreate r" "k = ct_TransactionID r" "validateCreateRequest r = None"
      "t' = (new_transaction r (env_now e))\<lparr>tx_TransactionDigest := d\<rparr>"
      "map_get (ps_Transactions st) k = None" "ps_FenceEpochs st' = ps_FenceEpochs st"
      "transactionDigest (env_sha256 e) (new_transaction r (env_now e)) = Some d"
  | (moved) t1 t2 st1 where "k = cmd_transaction c" "cmd_validate c = None"
      "map_get (ps_Transactions st) k = Some t1" "tx_ResourceVersion t1 = cmd_version c"
      "cmd_handler e c (env_now e) st t1 = Inr (st1, t2)" "t' = bump (env_now e) t2"
      "ps_FenceEpochs st' = ps_FenceEpochs st1"
  using assms
proof (cases rule: proposes.cases)
  case (create r digest d)
  then show ?thesis using assms(2) kept created by (auto simp: enter_def split: if_splits)
next
  case (update digest current st1 t)
  then show ?thesis using assms(2) kept moved handler.ap_store [OF update(9)]
    by (auto simp: enter_def split: if_splits)
qed

locale transaction_invariant =
  fixes sha :: hash and K :: "instant \<Rightarrow> Transaction \<Rightarrow> bool"
  assumes K_new: "0 < T \<Longrightarrow> validateCreateRequest r = None \<Longrightarrow>
      K T ((new_transaction r T)\<lparr>tx_TransactionDigest := d\<rparr>)"
    and K_later: "K T t \<Longrightarrow> T \<le> T' \<Longrightarrow> K T' t"
    and K_handler: "cmd_handler e c now st t = Inr (st', t') \<Longrightarrow> cmd_validate c = None \<Longrightarrow>
      0 < now \<Longrightarrow> validateTransaction sha t (ps_FenceEpochs st) = None \<Longrightarrow>
      validateTransaction sha (bump now t') (ps_FenceEpochs st') = None \<Longrightarrow>
      K now t \<Longrightarrow> K now (bump now t')"

sublocale transaction_invariant \<subseteq> rel: relative_invariant sha "state_ok sha"
  "\<lambda>T st. \<forall>k t. map_get (ps_Transactions st) k = Some t \<longrightarrow> K T t"
proof unfold_locales
  fix e c st st'
  assume ok: "state_ok sha (env_now e) st" "state_ok sha (env_now e) st'" and now: "0 < env_now e"
    and all: "\<forall>k t. map_get (ps_Transactions st) k = Some t \<longrightarrow> K (env_now e) t"
    and p: "proposes e c st st'"
  show "\<forall>k t. map_get (ps_Transactions st') k = Some t \<longrightarrow> K (env_now e) t"
  proof (intro allI impI)
    fix k t'
    assume t': "map_get (ps_Transactions st') k = Some t'"
    from p t' show "K (env_now e) t'"
    proof (cases rule: proposes_get)
      case kept
      then show ?thesis using all by blast
    next
      case (created r d)
      then show ?thesis using K_new now by simp
    next
      case (moved t1 t2 st1)
      then show ?thesis
        using K_handler [of e c "env_now e" st t1 st1 t2] now all
          state_ok_get [OF ok(1)] state_ok_get [OF ok(2) t'] by simp
    qed
  qed
qed (auto simp: initial_state_def intro: K_later)

context transaction_invariant begin

lemma of_reachable:
  "reachable sha T s \<Longrightarrow> map_get (ps_Transactions (svc_state s)) k = Some t \<Longrightarrow>
     K T t \<and> validateTransaction sha t (ps_FenceEpochs (svc_state s)) = None \<and> tx_ID t = k"
  using rel.both.in_memory [of T s] state_ok_get [of sha T "svc_state s" k t] by blast

end

section \<open>The campaign of a transaction\<close>

text \<open>Which last operation a status allows.\<close>

definition phase_ok :: "TransactionStatus \<Rightarrow> OperationRecord list \<Rightarrow> bool" where
  "phase_ok st ops \<longleftrightarrow>
     (if ops = [] then st \<notin> {StatusMutationInProgress, StatusReconciliationRequired, StatusReconciled}
      else case op_Status (last ops) of
        OperationIntentRecorded \<Rightarrow>
          st \<in> {StatusMutationInProgress, StatusReconciliationRequired, StatusQuarantined}
      | OperationSucceeded \<Rightarrow>
          st \<in> {StatusTargetBound, StatusCommitApproved, StatusSecurityApplied, StatusQuarantined}
      | OperationConfirmedApplied \<Rightarrow>
          st \<in> {StatusReconciled, StatusTargetBound, StatusCommitApproved, StatusSecurityApplied,
                StatusQuarantined}
      | OperationUncertain \<Rightarrow> st \<in> {StatusReconciliationRequired, StatusQuarantined}
      | OperationFailed \<Rightarrow> st = StatusQuarantined
      | OperationConfirmedNotApplied \<Rightarrow> st \<in> {StatusReconciled, StatusQuarantined}
      | OperationStatusOther _ \<Rightarrow> False)"

definition campaign_ok :: "instant \<Rightarrow> Transaction \<Rightarrow> bool" where
  "campaign_ok T t \<longleftrightarrow>
     map op_Operation (tx_Operations t) = take (length (tx_Operations t)) developmentOperations \<and>
     (\<forall>op \<in> set (butlast (tx_Operations t)). completed op) \<and>
     phase_ok (tx_Status t) (tx_Operations t) \<and>
     (\<forall>a op. tx_Approval t = Some a \<longrightarrow> op \<in> set (tx_Operations t) \<longrightarrow> under_approval op a) \<and>
     (tx_Status t \<in> {StatusCommitApproved, StatusMutationInProgress} \<longrightarrow> tx_Approval t \<noteq> None) \<and>
     (\<forall>a. tx_Approval t = Some a \<longrightarrow> ap_ApprovedAt a \<le> T) \<and>
     (\<forall>c. tx_ActiveClaim t = Some c \<longrightarrow> cl_AcquiredAt c \<le> T) \<and>
     tx_CreatedAt t \<le> T"

lemma campaign_ok_bump [simp]: "campaign_ok T (bump now t) = campaign_ok T t"
  by (simp add: campaign_ok_def bump_def)

lemma campaign_length: "campaign_ok T t \<Longrightarrow> length (tx_Operations t) \<le> 7"
  unfolding campaign_ok_def
  by (metis length_developmentOperations length_map length_take min.cobounded2 min.commute)

lemma operations_need_target:
  "transaction_operations_ok t = None \<Longrightarrow> tx_Operations t \<noteq> [] \<Longrightarrow> tx_Target t \<noteq> None"
  by (cases "tx_Operations t") (auto simp: transaction_operations_None validateStoredOperation_def)

lemma hasConfirmedNotApplied_iff:
  "hasConfirmedNotAppliedOperation ops \<longleftrightarrow> (\<exists>op \<in> set ops. rejected op)"
  by (auto simp: hasConfirmedNotAppliedOperation_def list_ex_iff)

lemma phase_claimed:
  assumes "phase_ok (tx_Status t) (tx_Operations t)"
    and "validateClaimModeForStatus m (tx_Status t) = None"
    and "m = ClaimModeMutation \<longrightarrow> \<not> hasConfirmedNotAppliedOperation (tx_Operations t)"
    and "tx_Operations t \<noteq> [] \<longrightarrow> tx_Target t \<noteq> None"
  shows "phase_ok (claimed_status m t) (tx_Operations t)"
proof (cases "tx_Operations t = []")
  case True
  with assms show ?thesis by (auto simp: phase_ok_def claimed_status_def validateClaimModeForStatus_None)
next
  case False
  with assms(3) have "m = ClaimModeMutation \<longrightarrow> \<not> rejected (last (tx_Operations t))"
    by (auto simp: hasConfirmedNotApplied_iff)
  with assms False show ?thesis
    by (auto simp: phase_ok_def claimed_status_def validateClaimModeForStatus_None
        split: OperationStatus.splits)
qed

lemma claimed_not_approved:
  "validateClaimModeForStatus m (tx_Status t) = None \<Longrightarrow> claimed_status m t \<notin> {StatusCommitApproved, StatusMutationInProgress}"
  by (auto simp: claimed_status_def validateClaimModeForStatus_None)

lemma campaign_ok_install:
  assumes "campaign_ok now t" and "validateClaimModeForStatus (cl_Mode c) (tx_Status t) = None"
    and "cl_Mode c = ClaimModeMutation \<longrightarrow> \<not> hasConfirmedNotAppliedOperation (tx_Operations t)"
    and "transaction_operations_ok t = None" and "cl_AcquiredAt c \<le> now"
  shows "campaign_ok now (install_claim h c t)"
  using assms phase_claimed [of t "cl_Mode c"] claimed_not_approved [of "cl_Mode c" t]
    operations_need_target [of t]
  by (auto simp: campaign_ok_def install_claim_def)

lemma prior_under_plan:
  assumes "validatePriorOperationsAgainstPlan ops plan rel expiry approved n = None"
  shows "\<forall>op \<in> set ops. op_PlanDigest op = plan \<and> op_Release op = rel \<and> op_ApprovalExpiresAt op = expiry"
  using assms by (induction ops arbitrary: n) (auto split: if_splits)

lemma phase_approved:
  "phase_ok StatusTargetBound ops \<or> phase_ok StatusCommitApproved ops \<Longrightarrow> ops \<noteq> [] \<Longrightarrow> completed (last ops)"
  by (auto simp: phase_ok_def completed_def split: OperationStatus.splits)

lemma all_completed:
  "ops = [] \<or> completed (last ops) \<Longrightarrow> \<forall>op \<in> set (butlast ops). completed op \<Longrightarrow> \<forall>op \<in> set ops. completed op"
  by (cases ops rule: rev_cases) auto

lemma completedApproved_all:
  "\<forall>op \<in> set ops. completed op \<Longrightarrow> completedApprovedOperations ops = length ops"
  by (simp add: completedApprovedOperations_def completed_def filter_id_conv)

lemma campaign_ok_intent:
  assumes k: "campaign_ok now t" and h: "intent_apply r now st t = Inr (st', t')"
    and v: "transaction_target_ok t = None"
  shows "campaign_ok now t'"
proof -
  from h obtain c a where a: "tx_Approval t = Some a" and s: "tx_Status t = StatusCommitApproved"
    and n: "completedApprovedOperations (tx_Operations t) < length (ap_AllowedOperations a)"
      "ap_AllowedOperations a ! completedApprovedOperations (tx_Operations t) = ri_Operation r"
    and p: "ap_PlanDigest a = ri_PlanDigest r"
    and t': "t' = t\<lparr>tx_Operations := tx_Operations t @ [intent_record r c a now],
                    tx_Status := StatusMutationInProgress\<rparr>"
    by (auto simp: intent_apply_Inr requireCurrentApproval_Inr)
  have dev: "ap_AllowedOperations a = developmentOperations"
    using v a by (simp add: transaction_target_None validateStoredApproval_None)
  have fin: "\<forall>op \<in> set (tx_Operations t). completed op"
    using k s phase_approved [of "tx_Operations t"] all_completed [of "tx_Operations t"]
    by (auto simp: campaign_ok_def)
  have n': "length (tx_Operations t) < 7"
      "developmentOperations ! length (tx_Operations t) = ri_Operation r"
    using n dev completedApproved_all [OF fin] by auto
  then have "map op_Operation (tx_Operations t @ [intent_record r c a now]) =
      take (Suc (length (tx_Operations t))) developmentOperations"
    using k by (simp add: campaign_ok_def intent_record_def take_Suc_conv_app_nth)
  then show ?thesis
    using k fin p a t' by (auto simp: campaign_ok_def phase_ok_def under_approval_def intent_record_def)
qed

text \<open>Evidence and reconciliation rewrite the last operation and leave its name and plan.\<close>

lemma campaign_ok_last:
  assumes k: "campaign_ok T t" and ne: "tx_Operations t \<noteq> []"
    and ops: "tx_Operations t' = butlast (tx_Operations t) @ [op]"
    and op: "op_Operation op = op_Operation (last (tx_Operations t))" "same_plan op (last (tx_Operations t))"
    and ph: "phase_ok (tx_Status t') [op]"
    and ap: "tx_Approval t' = None \<and> tx_Status t' \<notin> {StatusCommitApproved, StatusMutationInProgress}
      \<or> tx_Approval t' = tx_Approval t \<and> tx_Approval t \<noteq> None"
    and fr: "tx_ActiveClaim t' = tx_ActiveClaim t" "tx_CreatedAt t' = tx_CreatedAt t"
  shows "campaign_ok T t'"
proof -
  obtain xs x where xs: "tx_Operations t = xs @ [x]" using ne by (cases "tx_Operations t" rule: rev_cases) auto
  have n: "map op_Operation (tx_Operations t') = take (length (tx_Operations t')) developmentOperations"
    using k op(1) unfolding campaign_ok_def ops xs by simp
  have p: "phase_ok (tx_Status t') (tx_Operations t')"
    using ph unfolding ops phase_ok_def by simp
  have u: "under_approval x' a" if "tx_Approval t' = Some a" "x' \<in> set (tx_Operations t')" for x' a
  proof -
    have "tx_Approval t = Some a" using ap that(1) by auto
    then have "\<forall>y \<in> set (xs @ [x]). under_approval y a" using k unfolding campaign_ok_def xs by blast
    then show ?thesis using that(2) op(2) unfolding ops xs
      by (auto simp: under_approval_def same_plan_def)
  qed
  have b: "\<forall>x \<in> set (butlast (tx_Operations t')). completed x"
    using k unfolding campaign_ok_def ops by simp
  have c: "tx_Status t' \<in> {StatusCommitApproved, StatusMutationInProgress} \<longrightarrow> tx_Approval t' \<noteq> None"
    using ap by auto
  have d: "\<forall>a. tx_Approval t' = Some a \<longrightarrow> ap_ApprovedAt a \<le> T"
    using k ap unfolding campaign_ok_def by (metis option.discI)
  have "\<forall>c. tx_ActiveClaim t' = Some c \<longrightarrow> cl_AcquiredAt c \<le> T" "tx_CreatedAt t' \<le> T"
    using k unfolding campaign_ok_def fr by blast+
  with n b p u c d show ?thesis unfolding campaign_ok_def by blast
qed

lemma campaign_ok_evidence:
  assumes k: "campaign_ok now t" and h: "evidence_apply r now st t = Inr (st', t')"
    and v: "validateRecordEvidenceRequest r = None"
  shows "campaign_ok now t'"
proof -
  from h have ne: "tx_Operations t \<noteq> []" and t': "t' = evidence_outcome r now (last (tx_Operations t)) t"
    and s: "tx_Status t = StatusMutationInProgress"
    by (auto simp: evidence_apply_Inr)
  have res: "re_Result r \<in> {EvidenceSucceeded, EvidenceFailed, EvidenceUncertain}"
    using v by (auto simp: validateRecordEvidenceRequest_def)
  have ap: "tx_Approval t \<noteq> None" using k s by (simp add: campaign_ok_def)
  show ?thesis
    by (rule campaign_ok_last [OF k ne, of _ "last (tx_Operations t')"])
      (use res ap in \<open>auto simp: t' evidence_outcome.simps Let_def phase_ok_def same_plan_def evidence_record_def\<close>)
qed

text \<open>Only the last operation can be open to reconciliation.\<close>

lemma campaign_open_last:
  assumes "campaign_ok T t" and "i < length (tx_Operations t)" and "\<not> completed (tx_Operations t ! i)"
  shows "i = length (tx_Operations t) - 1"
proof (rule ccontr)
  assume "i \<noteq> length (tx_Operations t) - 1"
  with assms(2) have "tx_Operations t ! i \<in> set (butlast (tx_Operations t))"
    using nth_mem [of i "butlast (tx_Operations t)"] nth_butlast [of i "tx_Operations t"] by simp
  with assms(1,3) show False by (simp add: campaign_ok_def)
qed

lemma reconciliation_apply_last:
  assumes k: "campaign_ok now t" and h: "reconciliation_apply r now st t = Inr (st', t')"
  shows "tx_Operations t \<noteq> [] \<and> op_ID (last (tx_Operations t)) = rr_OperationID r \<and>
     op_Status (last (tx_Operations t)) \<in> {OperationIntentRecorded, OperationUncertain, OperationFailed} \<and>
     t' = reconciliation_outcome r now (length (tx_Operations t) - 1) t"
proof -
  from h obtain i where i: "findOperation (tx_Operations t) (rr_OperationID r) = Some i"
    and s: "op_Status (tx_Operations t ! i) \<in> {OperationIntentRecorded, OperationUncertain, OperationFailed}"
    and t': "t' = reconciliation_outcome r now i t"
    by (auto simp: reconciliation_apply_Inr)
  note f = findOperation_Some [OF i]
  have "i = length (tx_Operations t) - 1"
    using campaign_open_last [OF k] f s by (auto simp: completed_def)
  moreover have "tx_Operations t \<noteq> []" using f by auto
  ultimately show ?thesis using f s t' by (auto simp: last_conv_nth)
qed

fun resolved_operation :: "ReconciliationResolution \<Rightarrow> OperationStatus \<Rightarrow> OperationStatus" where
  "resolved_operation ResolutionConfirmedApplied old = OperationConfirmedApplied"
| "resolved_operation ResolutionConfirmedNotApplied old = OperationConfirmedNotApplied"
| "resolved_operation ResolutionUnknown old = OperationUncertain"
| "resolved_operation (ResolutionOther x) old = old"

lemma reconciliation_outcome_last:
  assumes "tx_Operations t \<noteq> []"
  shows "tx_Operations (reconciliation_outcome r now (length (tx_Operations t) - 1) t) =
      butlast (tx_Operations t) @ [(reconciliation_record r now (last (tx_Operations t)))
        \<lparr>op_Status := resolved_operation (rr_Resolution r) (op_Status (last (tx_Operations t)))\<rparr>]"
proof -
  have "tx_Operations t ! (length (tx_Operations t) - 1) = last (tx_Operations t)"
    using assms by (simp add: last_conv_nth)
  then show ?thesis using list_update_last [OF assms]
    by (cases "rr_Resolution r") (simp_all add: reconciliation_outcome_def Let_def reconciliation_record_def)
qed

lemma reconciliation_outcome_created [simp]: "tx_CreatedAt (reconciliation_outcome r now i t) = tx_CreatedAt t"
  by (simp add: reconciliation_outcome_def Let_def split: ReconciliationResolution.split)

lemma reconciliation_outcome_status:
  "tx_Approval (reconciliation_outcome r now i t) = None"
  "rr_Resolution r = ResolutionUnknown \<Longrightarrow> tx_Status (reconciliation_outcome r now i t) = StatusQuarantined"
  "rr_Resolution r \<in> {ResolutionConfirmedApplied, ResolutionConfirmedNotApplied} \<Longrightarrow>
     tx_Status (reconciliation_outcome r now i t) =
       (if tx_Status t = StatusQuarantined then StatusQuarantined else StatusReconciled)"
  by (auto simp: reconciliation_outcome_def Let_def split: ReconciliationResolution.split)

lemma campaign_ok_reconciliation:
  assumes k: "campaign_ok now t" and h: "reconciliation_apply r now st t = Inr (st', t')"
    and v: "validateRecordReconciliationRequest r = None"
  shows "campaign_ok now t'"
proof -
  note l = reconciliation_apply_last [OF k h]
  have ne: "tx_Operations t \<noteq> []" and t': "t' = reconciliation_outcome r now (length (tx_Operations t) - 1) t"
    using l by auto
  have res: "rr_Resolution r \<in> {ResolutionConfirmedApplied, ResolutionConfirmedNotApplied, ResolutionUnknown}"
    using v by (auto simp: validateRecordReconciliationRequest_def split: ReconciliationResolution.splits)
  show ?thesis
  proof (rule campaign_ok_last [OF k ne reconciliation_outcome_last [OF ne, of r now, folded t']])
    show "phase_ok (tx_Status t') [(reconciliation_record r now (last (tx_Operations t)))
        \<lparr>op_Status := resolved_operation (rr_Resolution r) (op_Status (last (tx_Operations t)))\<rparr>]"
      using res unfolding t' by (auto simp: phase_ok_def reconciliation_outcome_status)
    show "tx_Approval t' = None \<and> tx_Status t' \<notin> {StatusCommitApproved, StatusMutationInProgress} \<or>
        tx_Approval t' = tx_Approval t \<and> tx_Approval t \<noteq> None"
      using res unfolding t' by (auto simp: reconciliation_outcome_status split: if_splits)
  qed (simp_all add: t' reconciliation_record_def same_plan_def)
qed

lemma campaign_ok_handler:
  assumes h: "cmd_handler e c now st t = Inr (st', t')" and v: "cmd_validate c = None"
    and t: "validateTransaction sha t fe = None" and k: "campaign_ok now t"
  shows "campaign_ok now t'"
proof -
  have ok: "transaction_operations_ok t = None" "transaction_target_ok t = None"
    "transaction_terminal_ok t = None" "transaction_claims_ok t = None"
    using t by (auto simp: validateTransaction_None)
  show ?thesis
  proof (cases c)
    case (CmdAcquire r)
    then show ?thesis using h k ok by (auto simp: acquire_apply_Inr intro!: campaign_ok_install)
  next
    case (CmdTransfer r)
    then show ?thesis using h k ok by (auto simp: transfer_apply_Inr intro!: campaign_ok_install)
  next
    case (CmdBind r)
    then obtain cl where "tx_ActiveClaim t = Some cl" "cl_Mode cl = ClaimModeMutation"
      and "tx_Status t \<in> {StatusClaimed, StatusTargetBound, StatusReconciled}"
      and t': "t' = t\<lparr>tx_Target := tx_Target t', tx_Approval := None, tx_Status := StatusTargetBound\<rparr>"
      using h by (auto simp: bind_apply_Inr requireCurrentClaim_Inr)
    moreover from this have "tx_Operations t \<noteq> [] \<Longrightarrow> \<not> rejected (last (tx_Operations t))"
      using ok by (auto simp: transaction_operations_None)
    ultimately have "phase_ok StatusTargetBound (tx_Operations t)"
      using k by (auto simp: campaign_ok_def phase_ok_def split: if_splits OperationStatus.splits)
    then show ?thesis by (subst t') (use k in \<open>simp add: campaign_ok_def\<close>)
  next
    case (CmdApprove r)
    then obtain cl where t': "t' = t\<lparr>tx_Approval := Some (approval_of r cl now), tx_Status := StatusCommitApproved\<rparr>"
      and s: "tx_Status t \<in> {StatusTargetBound, StatusCommitApproved}"
      and p: "validatePriorOperationsAgainstPlan (tx_Operations t) (ra_PlanDigest r) (ra_Release r)
          (gt_instant (ra_ExpiresAt r)) (ra_AllowedOperations r) 0 = None"
      using h by (auto simp: approval_apply_Inr)
    have "phase_ok StatusCommitApproved (tx_Operations t)"
      using k s by (auto simp: campaign_ok_def phase_ok_def split: if_splits OperationStatus.splits)
    then show ?thesis using prior_under_plan [OF p] k
      by (auto simp: t' campaign_ok_def under_approval_def approval_of_def)
  next
    case (CmdIntent r)
    then show ?thesis using campaign_ok_intent k h ok by simp
  next
    case (CmdEvidence r)
    then show ?thesis using campaign_ok_evidence k h v by simp
  next
    case (CmdReconcile r)
    then show ?thesis using campaign_ok_reconciliation k h v by simp
  next
    case (CmdSecurityApplied r)
    then show ?thesis using h k
      by (auto simp: security_apply_Inr campaign_ok_def phase_ok_def split: if_splits OperationStatus.splits)
  qed (use h k in \<open>auto simp: apply_Inr requireCurrentClaim_Inr campaign_ok_def phase_ok_def
      split: if_splits OperationStatus.splits\<close>)
qed

interpretation campaign: transaction_invariant sha campaign_ok for sha
proof unfold_locales
  show "0 < T \<Longrightarrow> campaign_ok T ((new_transaction r T)\<lparr>tx_TransactionDigest := d\<rparr>)" for T r d
    by (simp add: campaign_ok_def new_transaction_def phase_ok_def)
  show "campaign_ok T t \<Longrightarrow> T \<le> T' \<Longrightarrow> campaign_ok T' t" for T T' t
    unfolding campaign_ok_def by (meson order.trans)
  show "campaign_ok now (bump now t')"
    if "cmd_handler e c now st t = Inr (st', t')" "cmd_validate c = None"
      "validateTransaction sha t (ps_FenceEpochs st) = None" "campaign_ok now t" for e c now st t st' t'
    using campaign_ok_handler that by simp
qed

section \<open>Fence epochs identify claims\<close>

definition claims_of :: "Transaction \<Rightarrow> Claim list" where
  "claims_of t = tx_ClaimHistory t @ (case tx_ActiveClaim t of None \<Rightarrow> [] | Some c \<Rightarrow> [c])"

definition epochs_ok :: "instant \<Rightarrow> Transaction \<Rightarrow> bool" where
  "epochs_ok T t \<longleftrightarrow> sorted_wrt (<) (map cl_FenceEpoch (claims_of t))"

lemma claims_bounded:
  "transaction_claims_ok t = None \<Longrightarrow> c \<in> set (claims_of t) \<Longrightarrow> claim_shape c t"
  by (auto simp: claims_of_def transaction_claims_None validateClaim_None split: option.splits)

lemma epochs_ok_install:
  assumes t: "transaction_claims_ok t = None" and k: "epochs_ok now t"
    and h: "map cl_FenceEpoch h = map cl_FenceEpoch (claims_of t)"
    and up: "tx_FenceEpoch t < cl_FenceEpoch c"
  shows "epochs_ok now (install_claim h c t)"
proof -
  have "x < cl_FenceEpoch c" if x: "x \<in> set (map cl_FenceEpoch h)" for x
  proof -
    obtain y where "y \<in> set (claims_of t)" "x = cl_FenceEpoch y"
      using x unfolding h by auto
    then have "x \<le> tx_FenceEpoch t" using claims_bounded [OF t] by (simp add: claim_shape_def)
    also note up
    finally show ?thesis .
  qed
  then show ?thesis using k h
    by (auto simp: epochs_ok_def claims_of_def install_claim_def sorted_wrt_append)
qed

lemma epochs_ok_handler:
  assumes h: "cmd_handler e c now st t = Inr (st', t')"
    and t: "validateTransaction sha t (ps_FenceEpochs st) = None"
    and t': "validateTransaction sha (bump now t') (ps_FenceEpochs st') = None" and k: "epochs_ok now t"
  shows "epochs_ok now t'"
proof -
  have cl: "transaction_claims_ok t = None" using t by (simp add: validateTransaction_None)
  have fe: "tx_FenceEpoch t \<le> fenceEpochOf (ps_FenceEpochs st) (tx_AssetID t)"
    using t by (simp add: validateTransaction_None transaction_header_None)
  have nz: "tx_ActiveClaim t' = Some x \<Longrightarrow> cl_FenceEpoch x \<noteq> 0" for x
    using t' by (auto simp: validateTransaction_None transaction_claims_None validateClaim_None
        claim_shape_def bump_def)
  have up: "next_epoch st (tx_AssetID t) \<noteq> 0 \<Longrightarrow> tx_FenceEpoch t < next_epoch st (tx_AssetID t)"
    using fe word_succ_gt [of "fenceEpochOf (ps_FenceEpochs st) (tx_AssetID t)"]
    by (auto simp: next_epoch_def)
  show ?thesis
  proof (cases c)
    case (CmdAcquire r)
    then show ?thesis using h nz up
      by (auto simp: acquire_apply_Inr claims_of_def intro!: epochs_ok_install [OF cl k] split: option.splits)
  next
    case (CmdTransfer r)
    then show ?thesis using h nz up
      by (auto simp: transfer_apply_Inr claims_of_def requireCurrentClaim_Inr intro!: epochs_ok_install [OF cl k])
  qed (use h k in \<open>auto simp: apply_Inr requireCurrentClaim_Inr epochs_ok_def claims_of_def
      split: option.splits\<close>)
qed

interpretation epochs: transaction_invariant sha epochs_ok for sha
proof unfold_locales
  show "epochs_ok T ((new_transaction r T)\<lparr>tx_TransactionDigest := d\<rparr>)" for T r d
    by (simp add: epochs_ok_def claims_of_def new_transaction_def)
  show "epochs_ok now (bump now t')"
    if "cmd_handler e c now st t = Inr (st', t')" "validateTransaction sha t (ps_FenceEpochs st) = None"
      "validateTransaction sha (bump now t') (ps_FenceEpochs st') = None" "epochs_ok now t"
    for e c now st t st' t'
    using epochs_ok_handler [OF that] by (simp add: epochs_ok_def claims_of_def bump_def)
qed (simp add: epochs_ok_def)

end
