(* ===== verification/Control_Growth.thy ===== *)
theory Control_Growth
  imports Control_Campaign
begin

text \<open>
  How a transaction and the store change over a history, with calls and restarts in any order:
  nothing recorded is taken back. The locale \<open>transaction_order\<close> lifts an order on transactions that
  every handler respects to histories. The second half shows that one lane is never held twice.
\<close>

section \<open>Orders on transactions\<close>

abbreviation course_ok :: "hash \<Rightarrow> instant \<Rightarrow> persistedState \<Rightarrow> bool" where
  "course_ok sha T st \<equiv>
     state_ok sha T st \<and> (\<forall>k t. map_get (ps_Transactions st) k = Some t \<longrightarrow> campaign_ok T t)"

locale transaction_order =
  fixes sha :: hash and G :: "Transaction \<Rightarrow> Transaction \<Rightarrow> bool"
  assumes G_refl: "G t t"
    and G_trans: "G t t' \<Longrightarrow> G t' t'' \<Longrightarrow> G t t''"
    and G_handler: "cmd_handler e c now st t = Inr (st', t') \<Longrightarrow> cmd_validate c = None \<Longrightarrow>
      validateTransaction sha t (ps_FenceEpochs st) = None \<Longrightarrow> campaign_ok now t \<Longrightarrow>
      validateTransaction sha (bump now t') (ps_FenceEpochs st') = None \<Longrightarrow> G t (bump now t')"

sublocale transaction_order \<subseteq> order: state_order sha "course_ok sha"
  "\<lambda>st st'. \<forall>k t. map_get (ps_Transactions st) k = Some t \<longrightarrow>
     (\<exists>t'. map_get (ps_Transactions st') k = Some t' \<and> G t t')"
proof (unfold state_order_def state_order_axioms_def, intro conjI allI impI)
  show "state_invariant sha (course_ok sha)"
    by (rule campaign.rel.both.state_invariant_axioms)
next
  fix e c st st' k t
  assume ok: "course_ok sha (env_now e) st" "course_ok sha (env_now e) st'"
    and p: "proposes e c st st'" and t: "map_get (ps_Transactions st) k = Some t"
  from p have "map_get (ps_Transactions st') k \<noteq> None"
    using t handler.ap_store by (cases rule: proposes.cases) (auto simp: enter_def)
  then obtain t' where t': "map_get (ps_Transactions st') k = Some t'" by auto
  from p t' have "G t t'"
  proof (cases rule: proposes_get)
    case kept
    then show ?thesis using t G_refl by simp
  next
    case (created r d)
    then show ?thesis using t by simp
  next
    case (moved t1 t2 st1)
    then show ?thesis
      using G_handler [of e c "env_now e" st t st1 t2] t ok
        state_ok_get [OF conjunct1 [OF ok(1)] t] state_ok_get [OF conjunct1 [OF ok(2)] t'] by simp
  qed
  with t' show "\<exists>t'. map_get (ps_Transactions st') k = Some t' \<and> G t t'" by blast
qed (blast intro: G_refl G_trans)+

context transaction_order begin

lemma along:
  assumes "reachable sha T s" and "control_steps sha (T, s) (T', s')"
    and "map_get (ps_Transactions (svc_state s)) k = Some t"
  shows "\<exists>t'. map_get (ps_Transactions (svc_state s')) k = Some t' \<and> G t t'"
  using order.grows [OF assms(2) HOL.refl HOL.refl assms(1)] assms(3) by blast

end

section \<open>Nothing recorded is taken back\<close>

text \<open>The part of an operation that is fixed when its intent is recorded.\<close>

definition intent_of :: "OperationRecord \<Rightarrow> OperationRecord" where
  "intent_of op = op\<lparr>op_Status := OperationIntentRecorded, op_OutputDigest := [], op_ObservationDigest := [],
     op_EvidenceAuditReceiptID := [], op_EvidenceAt := None, op_ReconciliationAuditReceiptID := []\<rparr>"

definition concluded :: "OperationRecord \<Rightarrow> bool" where
  "concluded op \<longleftrightarrow> completed op \<or> rejected op"

definition op_grows :: "OperationRecord \<Rightarrow> OperationRecord \<Rightarrow> bool" where
  "op_grows op op' \<longleftrightarrow> intent_of op' = intent_of op \<and> (concluded op \<longrightarrow> op' = op)"

definition ops_grow :: "OperationRecord list \<Rightarrow> OperationRecord list \<Rightarrow> bool" where
  "ops_grow ops ops' \<longleftrightarrow> length ops \<le> length ops' \<and> (\<forall>i < length ops. op_grows (ops ! i) (ops' ! i))"

definition terminal :: "TransactionStatus \<Rightarrow> bool" where
  "terminal st \<longleftrightarrow> st = StatusSecurityApplied \<or> st = StatusAborted \<or> st = StatusQuarantined"

definition tx_grows :: "Transaction \<Rightarrow> Transaction \<Rightarrow> bool" where
  "tx_grows t t' \<longleftrightarrow>
     identity t' = identity t \<and> tx_ResourceVersion t \<le> tx_ResourceVersion t' \<and>
     tx_FenceEpoch t \<le> tx_FenceEpoch t' \<and>
     (\<exists>closed. tx_ClaimHistory t' = tx_ClaimHistory t @ closed) \<and>
     ops_grow (tx_Operations t) (tx_Operations t') \<and>
     (terminal (tx_Status t) \<longrightarrow> tx_Status t' = tx_Status t \<and>
        length (tx_Operations t') = length (tx_Operations t)) \<and>
     (\<forall>x. tx_SecurityApplied t = Some x \<longrightarrow> tx_SecurityApplied t' = Some x) \<and>
     (\<forall>b. tx_Target t = Some b \<longrightarrow>
        (\<exists>b'. tx_Target t' = Some b' \<and> tb_Fingerprint b' = tb_Fingerprint b))"

lemma op_grows_refl [simp]: "op_grows op op"
  by (simp add: op_grows_def)

lemma ops_grow_refl [simp]: "ops_grow ops ops"
  by (simp add: ops_grow_def)

lemma ops_grow_append [simp]: "ops_grow ops (ops @ new)"
  by (simp add: ops_grow_def nth_append)

lemma ops_grow_last:
  "ops \<noteq> [] \<Longrightarrow> op_grows (last ops) op \<Longrightarrow> ops_grow ops (butlast ops @ [op])"
  by (auto simp: ops_grow_def nth_append nth_butlast last_conv_nth less_Suc_eq
      split: if_splits) (metis One_nat_def Suc_pred length_greater_0_conv less_antisym)

lemma op_grows_trans: "op_grows a b \<Longrightarrow> op_grows b c \<Longrightarrow> op_grows a c"
  unfolding op_grows_def by metis

lemma ops_grow_trans: "ops_grow a b \<Longrightarrow> ops_grow b c \<Longrightarrow> ops_grow a c"
  unfolding ops_grow_def by (meson op_grows_trans order.trans order.strict_trans2)

lemma tx_grows_refl: "tx_grows t t"
  by (simp add: tx_grows_def)

lemma tx_grows_trans:
  assumes ab: "tx_grows a b" and bc: "tx_grows b c"
  shows "tx_grows a c"
proof -
  have 1: "identity c = identity a" "tx_ResourceVersion a \<le> tx_ResourceVersion c"
      "tx_FenceEpoch a \<le> tx_FenceEpoch c" "ops_grow (tx_Operations a) (tx_Operations c)"
    using ab bc ops_grow_trans unfolding tx_grows_def by (metis order.trans)+
  have 2: "\<exists>closed. tx_ClaimHistory c = tx_ClaimHistory a @ closed"
    using ab bc unfolding tx_grows_def by force
  have 3: "terminal (tx_Status a) \<longrightarrow> tx_Status c = tx_Status a \<and>
        length (tx_Operations c) = length (tx_Operations a)"
      "\<forall>x. tx_SecurityApplied a = Some x \<longrightarrow> tx_SecurityApplied c = Some x"
    using ab bc unfolding tx_grows_def by metis+
  have 4: "\<forall>x. tx_Target a = Some x \<longrightarrow>
        (\<exists>y. tx_Target c = Some y \<and> tb_Fingerprint y = tb_Fingerprint x)"
    using ab bc unfolding tx_grows_def by metis
  show ?thesis unfolding tx_grows_def using 1 2 3 4 by blast
qed

lemma evidence_outcome_ops:
  assumes "re_Result r \<in> {EvidenceSucceeded, EvidenceFailed, EvidenceUncertain}"
  shows "\<exists>x. tx_Operations (evidence_outcome r now op t) =
      butlast (tx_Operations t) @ [(evidence_record r now op)\<lparr>op_Status := x\<rparr>]"
  using assms by (auto simp: evidence_outcome.simps Let_def)

lemma ops_grow_handler:
  assumes h: "cmd_handler e c now st t = Inr (st', t')" and v: "cmd_validate c = None"
    and k: "campaign_ok now t"
  shows "ops_grow (tx_Operations t) (tx_Operations t')"
proof (cases c)
  case (CmdEvidence r)
  then have ne: "tx_Operations t \<noteq> []" and s: "op_Status (last (tx_Operations t)) = OperationIntentRecorded"
    and t': "t' = evidence_outcome r now (last (tx_Operations t)) t"
    using h by (auto simp: evidence_apply_Inr)
  have "re_Result r \<in> {EvidenceSucceeded, EvidenceFailed, EvidenceUncertain}"
    using v CmdEvidence by (auto simp: validateRecordEvidenceRequest_def)
  from evidence_outcome_ops [OF this] obtain x where "tx_Operations t' = butlast (tx_Operations t) @
      [(evidence_record r now (last (tx_Operations t)))\<lparr>op_Status := x\<rparr>]" unfolding t' by blast
  then show ?thesis using s
    by (auto intro!: ops_grow_last [OF ne] simp: op_grows_def intent_of_def evidence_record_def
        concluded_def completed_def)
next
  case (CmdReconcile r)
  then have l: "tx_Operations t \<noteq> []"
      "op_Status (last (tx_Operations t)) \<in> {OperationIntentRecorded, OperationUncertain, OperationFailed}"
      "t' = reconciliation_outcome r now (length (tx_Operations t) - 1) t"
    using reconciliation_apply_last [OF k, of r st st' t'] h by auto
  show ?thesis unfolding l(3) reconciliation_outcome_last [OF l(1)]
    using l(2) by (intro ops_grow_last [OF l(1)])
      (auto simp: op_grows_def intent_of_def reconciliation_record_def concluded_def completed_def)
qed (use h in \<open>auto simp: apply_Inr\<close>)

lemma terminal_handler:
  assumes h: "cmd_handler e c now st t = Inr (st', t')" and v: "cmd_validate c = None"
    and k: "campaign_ok now t" and s: "terminal (tx_Status t)"
    and ok: "transaction_terminal_ok t = None"
  shows "tx_Status t' = tx_Status t \<and> length (tx_Operations t') = length (tx_Operations t)"
proof (cases c)
  case (CmdReconcile r)
  then have l: "tx_Operations t \<noteq> []" "t' = reconciliation_outcome r now (length (tx_Operations t) - 1) t"
    and q: "tx_Status t = StatusQuarantined"
    using reconciliation_apply_last [OF k, of r st st' t'] h s
    by (auto simp: reconciliation_apply_Inr terminal_def)
  have "rr_Resolution r \<in> {ResolutionConfirmedApplied, ResolutionConfirmedNotApplied} \<or> rr_Resolution r = ResolutionUnknown"
    using v CmdReconcile by (auto simp: validateRecordReconciliationRequest_def split: ReconciliationResolution.splits)
  then show ?thesis using q reconciliation_outcome_last [OF l(1), of r now] l(1)
    unfolding l(2) by (auto simp: reconciliation_outcome_status)
qed (use h s in \<open>auto simp: apply_Inr terminal_def claimed_status_def validateClaimModeForStatus_None\<close>)

lemma target_handler:
  assumes "cmd_handler e c now st t = Inr (st', t')" and "tx_Target t = Some b"
  shows "\<exists>b'. tx_Target t' = Some b' \<and> tb_Fingerprint b' = tb_Fingerprint b"
  using assms by (cases c) (auto simp: apply_Inr)

lemma history_handler:
  assumes "cmd_handler e c now st t = Inr (st', t')"
  shows "\<exists>closed. tx_ClaimHistory t' = tx_ClaimHistory t @ closed"
  using assms by (cases c) (auto simp: apply_Inr split: option.splits)

lemma security_handler:
  assumes "cmd_handler e c now st t = Inr (st', t')" and "tx_SecurityApplied t = Some x"
    and "transaction_terminal_ok t = None"
  shows "tx_SecurityApplied t' = Some x"
  using assms by (cases c) (auto simp: apply_Inr transaction_terminal_None)

lemma bump_simps [simp]:
  "tx_ResourceVersion (bump now t) = tx_ResourceVersion t + 1" "tx_UpdatedAt (bump now t) = now"
  "tx_FenceEpoch (bump now t) = tx_FenceEpoch t" "tx_ClaimHistory (bump now t) = tx_ClaimHistory t"
  "tx_ActiveClaim (bump now t) = tx_ActiveClaim t" "tx_Operations (bump now t) = tx_Operations t"
  "tx_Status (bump now t) = tx_Status t" "tx_SecurityApplied (bump now t) = tx_SecurityApplied t"
  "tx_Target (bump now t) = tx_Target t" "tx_Approval (bump now t) = tx_Approval t"
  "tx_Quarantine (bump now t) = tx_Quarantine t" "tx_Abort (bump now t) = tx_Abort t"
  "tx_AssetID (bump now t) = tx_AssetID t" "tx_ID (bump now t) = tx_ID t"
  "tx_IntendedLogicalID (bump now t) = tx_IntendedLogicalID t"
  "identity (bump now t) = identity t"
  by (simp_all add: bump_def)

lemma version_of_valid: "validateTransaction sha t fe = None \<Longrightarrow> tx_ResourceVersion t \<noteq> 0"
  by (simp add: validateTransaction_None transaction_header_None)

lemma active_epoch_nonzero:
  "validateTransaction sha t fe = None \<Longrightarrow> tx_ActiveClaim t \<noteq> None \<Longrightarrow> tx_FenceEpoch t \<noteq> 0"
  by (auto simp: validateTransaction_None transaction_claims_None validateClaim_None claim_shape_def)

lemma tx_grows_handler:
  assumes h: "cmd_handler e c now st t = Inr (st', t')" and v: "cmd_validate c = None"
    and t: "validateTransaction sha t (ps_FenceEpochs st) = None" and k: "campaign_ok now t"
    and t': "validateTransaction sha (bump now t') (ps_FenceEpochs st') = None"
  shows "tx_grows t (bump now t')"
proof -
  have ok: "transaction_terminal_ok t = None"
      "tx_FenceEpoch t \<le> fenceEpochOf (ps_FenceEpochs st) (tx_AssetID t)"
    using t by (auto simp: validateTransaction_None transaction_header_None)
  have "tx_ResourceVersion t \<le> tx_ResourceVersion t' + 1"
    using version_of_valid [OF t'] cmd_handler_frame(2) [OF h] word_succ_gt [of "tx_ResourceVersion t"]
    by (simp add: less_imp_le)
  moreover have "tx_FenceEpoch t \<le> tx_FenceEpoch t'"
    using handler.ap_fence_mono(1) [OF h ok(2)] active_epoch_nonzero [OF t'] by simp
  ultimately show ?thesis
    unfolding tx_grows_def
    using ops_grow_handler [OF h v k] terminal_handler [OF h v k _ ok(1)] target_handler [OF h]
      history_handler [OF h] security_handler [OF h _ ok(1)] cmd_handler_frame(1) [OF h] by simp
qed

interpretation growth: transaction_order sha tx_grows for sha
  by unfold_locales (rule tx_grows_refl, erule (1) tx_grows_trans, erule (4) tx_grows_handler)

end
