(* ===== verification/Control_Lanes.thy ===== *)
theory Control_Lanes
  imports Control_Growth
begin

text \<open>
  Properties of the whole store over a history: fence epochs never go back, idempotency records
  never change, assets and logical identities stay with one transaction, and one lane is never held
  by two transactions at once.
\<close>

section \<open>Fences and idempotency records\<close>

definition store_grows :: "persistedState \<Rightarrow> persistedState \<Rightarrow> bool" where
  "store_grows st st' \<longleftrightarrow>
     (\<forall>a. fenceEpochOf (ps_FenceEpochs st) a \<le> fenceEpochOf (ps_FenceEpochs st') a) \<and>
     (\<forall>k r. map_get (ps_Idempotency st) k = Some r \<longrightarrow> map_get (ps_Idempotency st') k = Some r)"

lemma proposes_store_grows:
  assumes ok: "state_ok sha T st" "state_ok sha T st'" and p: "proposes e c st st'"
  shows "store_grows st st'"
  using p
proof (cases rule: proposes.cases)
  case (create r digest d)
  then show ?thesis by (auto simp: store_grows_def enter_def)
next
  case (update digest current st1 t)
  have h: "cmd_handler e c (env_now e) st current = Inr (st1, t)" by (rule update)
  have "map_get (ps_Transactions st') (cmd_transaction c) = Some (bump (env_now e) t)"
    by (simp add: update enter_def)
  from state_ok_get [OF ok(2) this] have v: "validateTransaction sha (bump (env_now e) t) (ps_FenceEpochs st') = None"
    by simp
  have "tx_FenceEpoch current \<le> fenceEpochOf (ps_FenceEpochs st) (tx_AssetID current)"
    using state_ok_get [OF ok(1) update(6)] by (simp add: validateTransaction_None transaction_header_None)
  from handler.ap_fence_mono(2) [OF h this] active_epoch_nonzero [OF v]
  have "fenceEpochOf (ps_FenceEpochs st) a \<le> fenceEpochOf (ps_FenceEpochs st') a" for a
    by (simp add: update enter_def)
  moreover have "map_get (ps_Idempotency st') k = Some r" if "map_get (ps_Idempotency st) k = Some r" for k r
    using that update(5) handler.ap_store [OF h] by (auto simp: update(1) enter_def)
  ultimately show ?thesis by (simp add: store_grows_def)
qed

interpretation store: state_order sha "state_ok sha" store_grows for sha
proof unfold_locales
  show "store_grows st st" for st by (simp add: store_grows_def)
  show "store_grows st st''" if "store_grows st st'" "store_grows st' st''" for st st' st''
    using that unfolding store_grows_def by (meson order.trans)
qed (rule proposes_store_grows)

section \<open>One transaction per asset\<close>

definition names_ok :: "instant \<Rightarrow> persistedState \<Rightarrow> bool" where
  "names_ok T st \<longleftrightarrow>
     (\<forall>k k' t t'. map_get (ps_Transactions st) k = Some t \<longrightarrow> map_get (ps_Transactions st) k' = Some t' \<longrightarrow>
        tx_AssetID t = tx_AssetID t' \<or> tx_IntendedLogicalID t = tx_IntendedLogicalID t' \<longrightarrow> k = k')"

text \<open>What a step does to the transactions of the store.\<close>

lemma proposes_shape:
  assumes "proposes e c st st'"
  obtains (created) r d where "c = CmdCreate r"
      "ps_Transactions st' = map_put (ct_TransactionID r)
         ((new_transaction r (env_now e))\<lparr>tx_TransactionDigest := d\<rparr>) (ps_Transactions st)"
      "map_get (ps_Transactions st) (ct_TransactionID r) = None"
      "\<And>k t. map_get (ps_Transactions st) k = Some t \<Longrightarrow>
         tx_AssetID t \<noteq> ct_AssetID r \<and> tx_IntendedLogicalID t \<noteq> ct_IntendedLogicalID r"
  | (updated) t t' st1 where "map_get (ps_Transactions st) (cmd_transaction c) = Some t"
      "cmd_handler e c (env_now e) st t = Inr (st1, t')"
      "ps_Transactions st' = map_put (cmd_transaction c) (bump (env_now e) t') (ps_Transactions st)"
  using assms
proof (cases rule: proposes.cases)
  case (create r digest d)
  then show ?thesis
    using created [of r d] by (auto simp: enter_def list_all_iff dest!: map_get_mem)
next
  case (update digest current st1 t)
  then show ?thesis using updated handler.ap_store [OF update(9)] by (auto simp: enter_def)
qed

lemma names_ok_step:
  assumes n: "names_ok T st" and p: "proposes e c st st'"
  shows "names_ok T st'"
  using p
proof (cases rule: proposes_shape)
  case (created r d)
  then show ?thesis using n by (fastforce simp: names_ok_def new_transaction_def split: if_splits)
next
  case (updated t t' st1)
  then have "tx_AssetID t' = tx_AssetID t" "tx_IntendedLogicalID t' = tx_IntendedLogicalID t"
    using handler.ap_names(2,3) [OF updated(2)] by simp_all
  then show ?thesis using n updated by (auto simp: names_ok_def split: if_splits)
qed

interpretation names: state_invariant sha names_ok for sha
proof unfold_locales
  show "names_ok T initial_state" for T by (simp add: names_ok_def initial_state_def)
  show "names_ok T' st" if "names_ok T st" for T T' st using that by (simp add: names_ok_def)
qed (rule names_ok_step)

section \<open>One holder per lane\<close>

text \<open>Two transactions that name the same station and lane in their active claims: the lease of
  one of them is over.\<close>

definition lanes_ok :: "instant \<Rightarrow> persistedState \<Rightarrow> bool" where
  "lanes_ok T st \<longleftrightarrow>
     (\<forall>k k' t t' c c'. map_get (ps_Transactions st) k = Some t \<longrightarrow> map_get (ps_Transactions st) k' = Some t' \<longrightarrow>
        k \<noteq> k' \<longrightarrow> tx_ActiveClaim t = Some c \<longrightarrow> tx_ActiveClaim t' = Some c' \<longrightarrow>
        cl_StationID c = cl_StationID c' \<longrightarrow> cl_LaneID c = cl_LaneID c' \<longrightarrow>
        cl_ExpiresAt c \<le> T \<or> cl_ExpiresAt c' \<le> T)"

lemma active_claim_status:
  "validateTransaction sha t fe = None \<Longrightarrow> tx_ActiveClaim t = Some c \<Longrightarrow> cl_Status c = ClaimActive"
  by (auto simp: validateTransaction_None transaction_claims_None validateClaim_None)

text \<open>The claim a handler leaves is free of the unexpired claims of every other transaction.\<close>

lemma claim_move_free:
  assumes m: "claim_move T st t t'" and ok: "state_ok sha T st" and l: "lanes_ok T st"
    and k: "map_get (ps_Transactions st) k = Some t" and o: "map_get (ps_Transactions st) k' = Some t2" "k' \<noteq> k"
    and c: "tx_ActiveClaim t' = Some c" and c2: "tx_ActiveClaim t2 = Some c2"
    and same: "cl_StationID c = cl_StationID c2" "cl_LaneID c = cl_LaneID c2"
  shows "cl_ExpiresAt c \<le> T \<or> cl_ExpiresAt c2 \<le> T"
proof -
  have old: "cl_ExpiresAt x \<le> T \<or> cl_ExpiresAt c2 \<le> T"
    if "tx_ActiveClaim t = Some x" "cl_StationID x = cl_StationID c2" "cl_LaneID x = cl_LaneID c2" for x
    using l k o c2 that unfolding lanes_ok_def by blast
  consider "tx_ActiveClaim t = Some c"
    | x y where "tx_ActiveClaim t = Some x" "T < cl_ExpiresAt x" "c = x\<lparr>cl_ExpiresAt := y\<rparr>"
    | "ensureClaimResourcesAvailable st (tx_ID t) (cl_StationID c) (cl_LaneID c) (tx_AssetID t) T = None"
    using m c by (auto simp: claim_move_def)
  then show ?thesis
  proof cases
    case 3
    have "tx_ID t = k" "cl_Status c2 = ClaimActive"
      using state_ok_get [OF ok] k o c2 active_claim_status by blast+
    then show ?thesis using 3 o c2 same map_get_mem [OF o(1)]
      unfolding ensureClaimResourcesAvailable_None by (metis not_less)
  qed (use old same in auto)
qed

lemma lanes_ok_step:
  assumes ok: "state_ok sha (env_now e) st" and l: "lanes_ok (env_now e) st" and p: "proposes e c st st'"
  shows "lanes_ok (env_now e) st'"
  using p
proof (cases rule: proposes_shape)
  case (created r d)
  then show ?thesis using l by (auto simp: lanes_ok_def new_transaction_def)
next
  case (updated t t' st1)
  note free = claim_move_free [OF cmd_handler_frame(4) [OF updated(2)] ok l updated(1)]
  show ?thesis using l free unfolding lanes_ok_def updated(3)
    by (simp split: if_splits) metis
qed

interpretation lanes: relative_invariant sha "state_ok sha" lanes_ok for sha
proof unfold_locales
  show "lanes_ok T initial_state" for T by (simp add: lanes_ok_def initial_state_def)
  show "lanes_ok T' st" if "lanes_ok T st" "T \<le> T'" for T T' st
    using that unfolding lanes_ok_def by (meson order.trans)
qed (rule lanes_ok_step)

section \<open>Holders of a lane\<close>

text \<open>The transactions whose unexpired active claim is on a lane.\<close>

definition lane_holders :: "instant \<Rightarrow> persistedState \<Rightarrow> string \<Rightarrow> string \<Rightarrow> string list" where
  "lane_holders T st station lane =
     map fst (filter (\<lambda>(k, t). case tx_ActiveClaim t of None \<Rightarrow> False
        | Some c \<Rightarrow> cl_StationID c = station \<and> cl_LaneID c = lane \<and> T < cl_ExpiresAt c)
       (ps_Transactions st))"

lemma all_same_distinct: "distinct xs \<Longrightarrow> \<forall>x \<in> set xs. \<forall>y \<in> set xs. x = y \<Longrightarrow> length xs \<le> 1"
  by (metis One_nat_def List.finite_set card_le_Suc0_iff_eq distinct_card)

lemma lane_holders_le:
  assumes "map_wf (ps_Transactions st)" and "lanes_ok T st"
  shows "length (lane_holders T st station lane) \<le> 1"
proof (rule all_same_distinct)
  show "distinct (lane_holders T st station lane)"
    using assms(1) by (auto simp: lane_holders_def map_wf_def intro: distinct_map_filter)
  show "\<forall>x \<in> set (lane_holders T st station lane). \<forall>y \<in> set (lane_holders T st station lane). x = y"
  proof (intro ballI)
    fix x y
    assume "x \<in> set (lane_holders T st station lane)" "y \<in> set (lane_holders T st station lane)"
    then obtain t c t' c' where
      "map_get (ps_Transactions st) x = Some t" "tx_ActiveClaim t = Some c" "cl_StationID c = station"
      "cl_LaneID c = lane" "T < cl_ExpiresAt c"
      "map_get (ps_Transactions st) y = Some t'" "tx_ActiveClaim t' = Some c'" "cl_StationID c' = station"
      "cl_LaneID c' = lane" "T < cl_ExpiresAt c'"
      by (auto simp: lane_holders_def map_wf_get_iff [OF assms(1)] split: option.splits)
    then show "x = y" using assms(2) unfolding lanes_ok_def by (metis not_less)
  qed
qed

end
