(* ===== verification/Control_Closure.thy ===== *)
theory Control_Closure
  imports Control_Lanes
begin

text \<open>
  The integrity check and the handlers agree: the candidate of a call that a reachable state allows
  passes the check, so a call whose guards hold is carried out and a restart always succeeds. The
  exceptions are counters that would wrap, a generated identifier that is no identifier, and one
  kind of reconciliation request.
\<close>

section \<open>Constant names are identifiers\<close>

lemma cmd_operation_valid: "validIdentifier (cmd_operation c)"
  by (cases c) (simp_all, code_simp+)

lemma reason_codes_valid:
  "validIdentifier ''operation_failed''" "validIdentifier ''reconciliation_unknown''"
  by code_simp+

lemma cmd_validate_key:
  "cmd_validate c = None \<Longrightarrow> validIdentifier (cmd_key c) \<and> validIdentifier (cmd_transaction c)"
  by (cases c)
    (auto simp: validateCreateRequest_def validateAcquireClaimRequest_def validateRenewClaimRequest_def
      validateTransferClaimRequest_def validateReleaseClaimRequest_def validateBindTargetRequest_def
      validateRecordApprovalRequest_def validateRecordIntentRequest_def validateRecordEvidenceRequest_def
      validateRecordReconciliationRequest_def validateQuarantineRequest_def validateAbortRequest_def
      validateSecurityAppliedRequest_def rn_context_def tr_context_def rl_context_def validate_None)

section \<open>What the check keeps when a transaction changes\<close>

lemma transactionDigest_identity: "identity t' = identity t \<Longrightarrow> transactionDigest sha t' = transactionDigest sha t"
  by (simp add: identity_def transactionDigest_def transactionDigestMaterial_def)

lemma header_kept:
  assumes "transaction_header_ok sha t fe = None" and "identity t' = identity t"
    and "tx_ResourceVersion t' \<noteq> 0" and "tx_CreatedAt t \<le> tx_UpdatedAt t'"
    and "\<forall>x. tx_Status t' \<noteq> StatusOther x" and "tx_FenceEpoch t' \<le> fenceEpochOf fe' (tx_AssetID t)"
  shows "transaction_header_ok sha t' fe' = None"
  using assms(1,3-) transactionDigest_identity [OF assms(2), of sha] assms(2) [unfolded identity_def]
  unfolding transaction_header_None by auto

definition claim_ids :: "Transaction \<Rightarrow> (string \<times> string \<times> uint64) set" where
  "claim_ids t = (\<lambda>c. (cl_StationID c, cl_LaneID c, cl_FenceEpoch c)) ` set (claims_of t)"

lemma claimIdentityExists_iff: "claimIdentityExists t s l e \<longleftrightarrow> (s, l, e) \<in> claim_ids t"
  by (auto simp: claimIdentityExists_def claim_ids_def claims_of_def list_ex_iff Let_def split: option.splits)

text \<open>What the check of a stored operation or approval reads of its transaction.\<close>

definition context_kept :: "Transaction \<Rightarrow> Transaction \<Rightarrow> bool" where
  "context_kept t t' \<longleftrightarrow> identity t' = identity t \<and> tx_FenceEpoch t \<le> tx_FenceEpoch t' \<and>
     (\<forall>b. tx_Target t = Some b \<longrightarrow>
        (\<exists>b'. tx_Target t' = Some b' \<and> tb_Fingerprint b' = tb_Fingerprint b)) \<and>
     claim_ids t \<subseteq> claim_ids t'"

lemma stored_approval_kept:
  "validateStoredApproval a t ep = None \<Longrightarrow> context_kept t t' \<Longrightarrow> validateStoredApproval a t' ep = None"
  unfolding validateStoredApproval_None context_kept_def identity_def by auto

lemma validateStoredOperation_None:
  "validateStoredOperation op t = None \<longleftrightarrow>
     validIdentifier (op_ID op) \<and> validIdentifier (op_Operation op) \<and>
     validDigest (op_PlanDigest op) \<and> validDigest (op_InputDigest op) \<and>
     validDigest (op_PrestateDigest op) \<and> validDigest (op_IntentAuditReceiptID op) \<and>
     op_IntentAt op \<noteq> 0 \<and> op_IntentFenceEpoch op \<noteq> 0 \<and> op_IntentFenceEpoch op \<le> tx_FenceEpoch t \<and>
     op_IntentAt op < op_ApprovalExpiresAt op \<and>
     op_ApprovalExpiresAt op \<le> op_IntentAt op + maximumApprovalLifetime \<and>
     SignedReleaseManifestDigest (op_Release op) = tx_BundleDigest t \<and>
     rb_ExpectedCustomerKeyHash (op_Release op) = tx_ExpectedCustomerKeyHash t \<and>
     Binding_Validate (op_Release op) \<and>
     validateStoredApproval (op_Approval op) t (op_IntentFenceEpoch op) = None \<and>
     under_approval op (op_Approval op) \<and> ap_ApprovedAt (op_Approval op) \<le> op_IntentAt op \<and>
     tx_Target t \<noteq> None \<and>
     (ap_StationID (op_Approval op), ap_LaneID (op_Approval op), op_IntentFenceEpoch op) \<in> claim_ids t \<and>
     evidenceComplete op = None"
  unfolding validateStoredOperation_def under_approval_def claimIdentityExists_iff [symmetric]
  by (auto simp: not_less)

lemma stored_operation_kept:
  assumes "validateStoredOperation op t = None" and "context_kept t t'"
  shows "validateStoredOperation op t' = None"
  using assms stored_approval_kept [OF _ assms(2), of "op_Approval op" "op_IntentFenceEpoch op"]
  unfolding validateStoredOperation_None
  by (auto simp: context_kept_def identity_def intro: order.trans)

lemma intent_of_fields:
  assumes "intent_of op' = intent_of op"
  shows "op_ID op' = op_ID op" "op_Operation op' = op_Operation op" "op_PlanDigest op' = op_PlanDigest op"
    "op_InputDigest op' = op_InputDigest op" "op_PrestateDigest op' = op_PrestateDigest op"
    "op_IntentAuditReceiptID op' = op_IntentAuditReceiptID op" "op_IntentAt op' = op_IntentAt op"
    "op_IntentFenceEpoch op' = op_IntentFenceEpoch op" "op_ApprovalExpiresAt op' = op_ApprovalExpiresAt op"
    "op_Release op' = op_Release op" "op_Approval op' = op_Approval op"
  using assms by (simp_all add: intent_of_def) (cases op, cases op', simp)+

text \<open>A stored operation that changes only in what evidence and reconciliation write.\<close>

lemma stored_operation_outcome:
  assumes "validateStoredOperation op t = None" and "intent_of op' = intent_of op"
    and "evidenceComplete op' = None"
  shows "validateStoredOperation op' t = None"
  using assms(1,3) intent_of_fields [OF assms(2)]
  unfolding validateStoredOperation_None under_approval_def by auto

lemma operations_kept:
  assumes "transaction_operations_ok t = None" and "context_kept t t'"
    and "tx_Operations t' = tx_Operations t"
    and "\<And>c. tx_ActiveClaim t' = Some c \<Longrightarrow> cl_Mode c = ClaimModeMutation \<Longrightarrow>
       tx_Operations t \<noteq> [] \<Longrightarrow> \<not> rejected (last (tx_Operations t))"
  shows "transaction_operations_ok t' = None"
  using assms stored_operation_kept unfolding transaction_operations_None by auto

lemma claim_shape_kept:
  "claim_shape c t \<Longrightarrow> tx_AssetID t' = tx_AssetID t \<Longrightarrow> tx_FenceEpoch t \<le> tx_FenceEpoch t' \<Longrightarrow> claim_shape c t'"
  by (auto simp: claim_shape_def)

lemma context_handler:
  assumes h: "cmd_handler e c now st t = Inr (st', t')" and f: "tx_FenceEpoch t \<le> tx_FenceEpoch t'"
  shows "context_kept t (bump now t')"
proof -
  have "claim_ids t \<subseteq> claim_ids t'"
    using h by (cases c) (auto simp: apply_Inr claim_ids_def claims_of_def requireCurrentClaim_Inr
        split: option.splits)
  then show ?thesis
    using cmd_handler_frame(1) [OF h] target_handler [OF h] f
    by (auto simp: context_kept_def claim_ids_def claims_of_def)
qed


section \<open>Every handler leaves a transaction that passes\<close>

definition counters_ok :: "env \<Rightarrow> command \<Rightarrow> persistedState \<Rightarrow> Transaction \<Rightarrow> bool" where
  "counters_ok e c st t \<longleftrightarrow> cmd_version c + 1 \<noteq> 0 \<and> next_epoch st (tx_AssetID t) \<noteq> 0 \<and>
     (case env_newID e of None \<Rightarrow> True | Some i \<Rightarrow> validIdentifier i)"

text \<open>The one request the store cannot record: an unknown outcome, without an output digest, of an
  operation that already carries an evidence receipt.\<close>

definition unrecordable :: "command \<Rightarrow> Transaction \<Rightarrow> bool" where
  "unrecordable c t \<longleftrightarrow>
     (case c of
        CmdReconcile r \<Rightarrow> rr_Resolution r = ResolutionUnknown \<and> rr_OutputDigest r = [] \<and>
          list_ex (\<lambda>op. op_ID op = rr_OperationID r \<and> op_EvidenceAuditReceiptID op \<noteq> []) (tx_Operations t)
      | _ \<Rightarrow> False)"

lemma fence_handler:
  assumes h: "cmd_handler e c now st t = Inr (st', t')"
    and f: "tx_FenceEpoch t \<le> fenceEpochOf (ps_FenceEpochs st) (tx_AssetID t)"
    and n: "next_epoch st (tx_AssetID t) \<noteq> 0"
  shows "tx_FenceEpoch t \<le> tx_FenceEpoch t'"
    and "tx_FenceEpoch t' \<le> fenceEpochOf (ps_FenceEpochs st') (tx_AssetID t)"
    and "fenceEpochOf (ps_FenceEpochs st) a \<le> fenceEpochOf (ps_FenceEpochs st') a"
proof -
  have up: "fenceEpochOf (ps_FenceEpochs st) (tx_AssetID t) \<le> next_epoch st (tx_AssetID t)"
    using n word_succ_gt [of "fenceEpochOf (ps_FenceEpochs st) (tx_AssetID t)"]
    by (simp add: next_epoch_def less_imp_le)
  show "tx_FenceEpoch t \<le> tx_FenceEpoch t'"
    and "tx_FenceEpoch t' \<le> fenceEpochOf (ps_FenceEpochs st') (tx_AssetID t)"
    and "fenceEpochOf (ps_FenceEpochs st) a \<le> fenceEpochOf (ps_FenceEpochs st') a"
    using cmd_handler_frame(3) [OF h] f up
    by (auto simp: fence_move_def raise_fence_def fenceEpochOf_def split: option.splits if_splits)
qed

lemma evidence_outcome_status:
  "tx_Status (evidence_outcome r now op t) \<in>
     {StatusCommitApproved, StatusQuarantined, StatusReconciliationRequired, tx_Status t}"
  by (cases "re_Result r") (simp_all add: evidence_outcome.simps Let_def)

lemma reconciliation_outcome_statuses:
  "tx_Status (reconciliation_outcome r now i t) \<in> {StatusQuarantined, StatusReconciled, tx_Status t}"
  by (cases "rr_Resolution r") (simp_all add: reconciliation_outcome_def Let_def)

lemma status_handler:
  assumes h: "cmd_handler e c now st t = Inr (st', t')" and s: "\<forall>x. tx_Status t \<noteq> StatusOther x"
  shows "\<forall>x. tx_Status t' \<noteq> StatusOther x"
proof (cases c)
  case (CmdEvidence r)
  then show ?thesis
    using h s evidence_outcome_status [of r now "last (tx_Operations t)" t] by (auto simp: evidence_apply_Inr)
next
  case (CmdReconcile r)
  then obtain i where "t' = reconciliation_outcome r now i t" using h by (auto simp: reconciliation_apply_Inr)
  then show ?thesis using s reconciliation_outcome_statuses [of r now i t] by auto
qed (use h s in \<open>auto simp: apply_Inr claimed_status_def split: if_splits\<close>)

lemma lease_positive: "validateLease d = None \<Longrightarrow> 0 < seconds d"
  by (simp add: validateLease_def Let_def minimumLease_def second_def)

lemma new_claim_shape:
  assumes "validIdentifier i" and "validIdentifier s" and "validIdentifier l" and "f \<noteq> 0"
    and "0 < now" and "\<not> unsupportedMode m" and "validateStringSet g 1 32 = None" and "validateLease d = None"
  shows "claim_shape (new_claim i m s l (tx_AssetID t) f g now d) (install_claim h (new_claim i m s l (tx_AssetID t) f g now d) t)"
proof -
  have "0 < seconds d" using assms(8) by (rule lease_positive)
  moreover have "tx_AssetID (install_claim h x t) = tx_AssetID t" for x by (simp add: install_claim_def)
  ultimately show ?thesis using assms by (simp add: claim_shape_def)
qed

lemma claims_installed:
  assumes t: "transaction_claims_ok t = None" and f: "tx_FenceEpoch t \<le> cl_FenceEpoch c"
    and h: "\<forall>x \<in> set h. x \<in> set (tx_ClaimHistory t) \<or>
       (\<exists>y s. tx_ActiveClaim t = Some y \<and> s \<in> {ClaimExpired, ClaimTransferred} \<and>
          x = close_claim s now y \<and> cl_AcquiredAt y \<le> now)"
    and c: "claim_shape c (install_claim h c t)" "cl_Status c = ClaimActive" "cl_ClosedAt c = None"
  shows "transaction_claims_ok (install_claim h c t) = None"
proof -
  have shape: "claim_shape x (install_claim h c t)" if "x \<in> set (claims_of t)" for x
    using claim_shape_kept [OF claims_bounded [OF t that]] f by (simp add: install_claim_def)
  have "validateClaim x (install_claim h c t) False = None" if "x \<in> set h" for x
  proof -
    from h that consider "x \<in> set (tx_ClaimHistory t)"
      | y s where "tx_ActiveClaim t = Some y" "s \<in> {ClaimExpired, ClaimTransferred}"
          "x = close_claim s now y" "cl_AcquiredAt y \<le> now" by blast
    then show ?thesis
    proof cases
      case 1
      then show ?thesis using t shape [of x]
        by (auto simp: transaction_claims_None validateClaim_None claims_of_def)
    next
      case 2
      then show ?thesis using shape [of y]
        by (auto simp: validateClaim_None claims_of_def claim_shape_def)
    qed
  qed
  then show ?thesis using c by (auto simp: transaction_claims_None validateClaim_None)
qed

lemma claims_same:
  assumes "transaction_claims_ok t = None" and "tx_ActiveClaim t' = tx_ActiveClaim t"
    and "tx_ClaimHistory t' = tx_ClaimHistory t" and "tx_FenceEpoch t' = tx_FenceEpoch t"
    and "tx_AssetID t' = tx_AssetID t"
  shows "transaction_claims_ok t' = None"
  using assms unfolding transaction_claims_None validateClaim_None claim_shape_def by auto

lemma claims_handler:
  assumes h: "cmd_handler e c now st t = Inr (st', t')" and v: "cmd_validate c = None"
    and t: "transaction_claims_ok t = None" and k: "campaign_ok now t" and now: "0 < now"
    and n: "counters_ok e c st t" and f: "tx_FenceEpoch t \<le> tx_FenceEpoch t'"
  shows "transaction_claims_ok t' = None"
proof -
  have acq: "tx_ActiveClaim t = Some x \<Longrightarrow> cl_AcquiredAt x \<le> now" for x
    using k by (simp add: campaign_ok_def)
  show ?thesis
  proof (cases c)
    case (CmdAcquire r)
    then show ?thesis using h v n f now acq
      by (auto simp: acquire_apply_Inr counters_ok_def validateAcquireClaimRequest_def validateEnvelope_None
          intro!: claims_installed [OF t] new_claim_shape split: option.splits)
  next
    case (CmdTransfer r)
    then show ?thesis using h v n f now acq
      by (auto simp: transfer_apply_Inr counters_ok_def validateTransferClaimRequest_def requireCurrentClaim_Inr
          intro!: claims_installed [OF t] new_claim_shape)
  next
    case (CmdRenew r)
    then obtain x where x: "tx_ActiveClaim t = Some x"
      and t': "t' = t\<lparr>tx_ActiveClaim := Some (x\<lparr>cl_ExpiresAt := now + seconds (rn_LeaseDurationSeconds r)\<rparr>)\<rparr>"
      using h by (auto simp: renew_apply_Inr requireCurrentClaim_Inr)
    have "validateLease (rn_LeaseDurationSeconds r) = None"
      using v CmdRenew by (simp add: validateRenewClaimRequest_def)
    then have "0 < seconds (rn_LeaseDurationSeconds r)" by (rule lease_positive)
    then show ?thesis using t x acq [OF x]
      by (auto simp: t' transaction_claims_None validateClaim_None claim_shape_def)
  next
    case (CmdRelease r)
    then show ?thesis using h t acq
      by (auto simp: release_apply_Inr requireCurrentClaim_Inr transaction_claims_None validateClaim_None
          claim_shape_def)
  qed (use h handler.ap_names(2) [OF h] in \<open>auto simp: apply_Inr intro!: claims_same [OF t]\<close>)
qed


lemma mutation_context_epoch:
  "validateMutationContext m = None \<Longrightarrow> mc_FenceEpoch m \<noteq> 0"
  by (simp add: validateMutationContext_None)

text \<open>Approvals survive only where claim and target stay as they are.\<close>

lemma target_handler_ok:
  assumes h: "cmd_handler e c now st t = Inr (st', t')" and v: "cmd_validate c = None"
    and t: "transaction_target_ok t = None" and kept: "context_kept t (bump now t')"
    and now: "0 < now" and cl: "transaction_claims_ok t = None"
    and un: "tx_ExpectedPrestateCustomerKeyHash t = UnownedCustomerKeyHash"
  shows "transaction_target_ok (bump now t') = None"
proof -
  have id: "identity t' = identity t" by (rule cmd_handler_frame(1) [OF h])
  have f: "tx_FenceEpoch t \<le> tx_FenceEpoch t'" using kept by (simp add: context_kept_def)
  have active: "cl_FenceEpoch x \<noteq> 0 \<and> cl_FenceEpoch x = tx_FenceEpoch t \<and>
      validIdentifier (cl_StationID x) \<and> validIdentifier (cl_LaneID x)"
    if "tx_ActiveClaim t = Some x" for x
    using that cl by (auto simp: transaction_claims_None validateClaim_None claim_shape_def)
  have target: "validDigest (tb_Fingerprint b) \<and> validDigest (tb_ObservationDigest b) \<and>
        tb_CustomerKeyHash b = tx_ExpectedPrestateCustomerKeyHash (bump now t') \<and> tb_BoundAt b \<noteq> 0 \<and>
        tb_FenceEpoch b \<noteq> 0 \<and> tb_FenceEpoch b \<le> tx_FenceEpoch (bump now t')"
    if b: "tx_Target t' = Some b" for b
  proof (cases "\<exists>r. c = CmdBind r")
    case True
    then obtain r where c: "c = CmdBind r" by blast
    then have "tb_FenceEpoch b = tx_FenceEpoch t \<and> tx_FenceEpoch t \<noteq> 0"
      using h b active by (auto simp: bind_apply_Inr requireCurrentClaim_Inr)
    then show ?thesis using h v b now id f c
      by (auto simp: bind_apply_Inr validateBindTargetRequest_def identity_def bump_def)
  next
    case False
    then have "tx_Target t = Some b" using h b by (cases c) (auto simp: apply_Inr)
    then show ?thesis using t f id
      by (auto simp: transaction_target_None identity_def bump_def intro: order.trans)
  qed
  have approval: "validateStoredApproval a (bump now t') (tx_FenceEpoch (bump now t')) = None"
    if a: "tx_Approval t' = Some a" for a
  proof (cases "\<exists>r. c = CmdApprove r")
    case True
    then obtain r where c: "c = CmdApprove r" by blast
    with h v a now active show ?thesis
      by (auto simp: approval_apply_Inr requireCurrentClaim_Inr approval_of_def bump_def
          validateStoredApproval_None validateRecordApprovalRequest_def validateCurrentApprovalExpiry_def)
  next
    case False
    have "tx_Approval t = Some a \<and> tx_FenceEpoch t' = tx_FenceEpoch t"
    proof (cases c)
      case (CmdEvidence r)
      then show ?thesis using h a
        by (auto simp: evidence_apply_Inr evidence_outcome.simps Let_def split: EvidenceResult.splits)
    next
      case (CmdReconcile r)
      then show ?thesis using h a by (auto simp: reconciliation_apply_Inr reconciliation_outcome_status)
    qed (use h a False in \<open>auto simp: apply_Inr\<close>)
    then show ?thesis using t stored_approval_kept [OF _ kept] by (auto simp: transaction_target_None)
  qed
  show ?thesis unfolding transaction_target_None using target approval by simp
qed


text \<open>The operations: unchanged, extended by an intent, or the last one rewritten.\<close>

lemma operations_last:
  assumes t: "transaction_operations_ok t = None" and kept: "context_kept t t'" and ne: "tx_Operations t \<noteq> []"
    and ops: "tx_Operations t' = butlast (tx_Operations t) @ [op]"
    and op: "intent_of op = intent_of (last (tx_Operations t))" "evidenceComplete op = None"
    and m: "\<And>c. tx_ActiveClaim t' = Some c \<Longrightarrow> cl_Mode c = ClaimModeMutation \<Longrightarrow> \<not> rejected op"
  shows "transaction_operations_ok t' = None"
proof -
  obtain xs x where xs: "tx_Operations t = xs @ [x]" using ne by (cases "tx_Operations t" rule: rev_cases) auto
  have in_old: "validateStoredOperation y t' = None" "same_plan y (hd (tx_Operations t))"
    if "y \<in> set (tx_Operations t)" for y
    using t that stored_operation_kept [OF _ kept] unfolding transaction_operations_None by blast+
  have f: "intent_of op = intent_of x" using op(1) xs by simp
  note fields = intent_of_fields [OF f]
  have new: "validateStoredOperation op t' = None"
    using stored_operation_outcome [OF in_old(1) f op(2)] xs by simp
  have hd: "same_plan y (hd (tx_Operations t')) = same_plan y (hd (tx_Operations t))" for y
    using fields unfolding ops xs same_plan_def by (cases xs) simp_all
  have "same_plan op (hd (tx_Operations t))"
    using in_old(2) [of x] fields xs by (simp add: same_plan_def)
  then have plan: "\<forall>y \<in> set (tx_Operations t'). same_plan y (hd (tx_Operations t'))"
    unfolding hd using in_old(2) ops xs by auto
  moreover have "\<forall>y \<in> set (tx_Operations t'). validateStoredOperation y t' = None"
    using in_old(1) new ops xs by auto
  moreover have "distinct (map op_ID (tx_Operations t'))" "\<forall>y \<in> set (butlast (tx_Operations t')). \<not> rejected y"
    using t fields(1) unfolding transaction_operations_None ops xs by auto
  ultimately show ?thesis using m unfolding transaction_operations_None ops by auto
qed

lemma operations_intent:
  assumes h: "intent_apply r now st t = Inr (st', t')" and v: "validateRecordIntentRequest r = None"
    and t: "transaction_operations_ok t = None" "transaction_target_ok t = None" "transaction_claims_ok t = None"
    and k: "campaign_ok now t" and kept: "context_kept t (bump now t')" and now: "0 < now"
  shows "transaction_operations_ok (bump now t') = None"
proof -
  from h obtain c a where rc: "requireCurrentClaim t (mc_ClaimID (ri_MutationContext r))
            (mc_FenceEpoch (ri_MutationContext r)) now (Some ClaimModeMutation) = Inr c"
    and a: "requireCurrentApproval t c (ri_ApprovalID r) (ri_PlanDigest r) now = Inr a"
    and fresh: "intent_loop (ri_OperationID r) (tx_Operations t) = None"
    and t': "t' = t\<lparr>tx_Operations := tx_Operations t @ [intent_record r c a now],
                    tx_Status := StatusMutationInProgress\<rparr>"
    unfolding intent_apply_Inr by blast
  have c: "tx_ActiveClaim t = Some c" "tx_FenceEpoch t = cl_FenceEpoch c"
    using rc by (auto simp: requireCurrentClaim_Inr)
  let ?op = "intent_record r c a now"
  have ap: "tx_Approval t = Some a" "ap_PlanDigest a = ri_PlanDigest r" "ap_FenceEpoch a = cl_FenceEpoch c"
      "ap_StationID a = cl_StationID c" "ap_LaneID a = cl_LaneID c" "now < ap_ExpiresAt a"
    using a by (auto simp: requireCurrentApproval_Inr)
  have st: "validateStoredApproval a t (cl_FenceEpoch c) = None" "ap_ApprovedAt a \<le> now"
    using t(2) ap(1) c k by (auto simp: transaction_target_None campaign_ok_def)
  have ids: "(cl_StationID c, cl_LaneID c, cl_FenceEpoch c) \<in> claim_ids (bump now t')"
    using c by (auto simp: claim_ids_def claims_of_def t')
  have nz: "cl_FenceEpoch c \<noteq> 0"
    using t(3) c by (auto simp: transaction_claims_None validateClaim_None claim_shape_def)
  have "validateStoredOperation ?op (bump now t') = None"
    using stored_approval_kept [OF st(1) kept] st v ap c ids nz now
    by (auto simp: validateStoredOperation_None intent_record_def under_approval_def t' bump_def
        validateRecordIntentRequest_def validateStoredApproval_None evidenceComplete_def)
  moreover have "same_plan y ?op" if "y \<in> set (tx_Operations t)" for y
    using k ap that by (auto simp: campaign_ok_def under_approval_def same_plan_def intent_record_def)
  moreover have "same_plan ?op ?op" by (simp add: same_plan_def)
  moreover have "\<forall>y \<in> set (tx_Operations t). validateStoredOperation y (bump now t') = None
      \<and> same_plan y (hd (tx_Operations t))" "distinct (map op_ID (tx_Operations t))"
    using t(1) stored_operation_kept [OF _ kept] by (auto simp: transaction_operations_None)
  moreover have "op_ID ?op \<notin> op_ID ` set (tx_Operations t)" "\<forall>y \<in> set (tx_Operations t). \<not> rejected y"
    using fresh by (auto simp: intent_loop_None intent_record_def)
  moreover have "\<not> rejected ?op" by (simp add: intent_record_def)
  moreover have "same_plan ?op (hd (tx_Operations t))" if "tx_Operations t \<noteq> []"
    using calculation(2) [OF hd_in_set [OF that]] by (simp add: same_plan_def)
  ultimately show ?thesis
    unfolding transaction_operations_None by (cases "tx_Operations t") (auto simp: t')
qed

end
