(* ===== verification/Control_Progress.thy ===== *)
theory Control_Progress
  imports Control_Closure
begin

text \<open>
  A call whose guards hold is carried out: the candidate passes the integrity check, so with no fault
  of the file system the call returns the new transaction. A restart of a reachable service succeeds.
\<close>

section \<open>Operations and terminal records after a handler\<close>

lemma rejected_last_iff:
  assumes "campaign_ok T t"
  shows "hasConfirmedNotAppliedOperation (tx_Operations t) \<longleftrightarrow>
     tx_Operations t \<noteq> [] \<and> rejected (last (tx_Operations t))"
proof (cases "tx_Operations t" rule: rev_cases)
  case (snoc xs x)
  then show ?thesis using assms by (auto simp: hasConfirmedNotApplied_iff campaign_ok_def completed_def)
qed (simp add: hasConfirmedNotApplied_iff)

lemma evidence_complete:
  assumes "validateRecordEvidenceRequest r = None" and "op_Status op = OperationIntentRecorded"
    and "x \<in> {OperationSucceeded, OperationFailed, OperationUncertain}"
  shows "evidenceComplete ((evidence_record r now op)\<lparr>op_Status := x\<rparr>) = None"
  using assms by (auto simp: evidenceComplete_def evidence_record_def validateRecordEvidenceRequest_def)

lemma evidence_outcome_last:
  assumes "validateRecordEvidenceRequest r = None"
  shows "\<exists>x \<in> {OperationSucceeded, OperationFailed, OperationUncertain}.
     tx_Operations (evidence_outcome r now op t) =
       butlast (tx_Operations t) @ [(evidence_record r now op)\<lparr>op_Status := x\<rparr>]"
  using assms by (auto simp: validateRecordEvidenceRequest_def evidence_outcome.simps Let_def)

lemma reconciliation_complete:
  assumes v: "validateRecordReconciliationRequest r = None"
    and s: "op_Status op \<in> {OperationIntentRecorded, OperationUncertain, OperationFailed}"
    and old: "evidenceComplete op = None"
    and u: "rr_Resolution r = ResolutionUnknown \<Longrightarrow> rr_OutputDigest r = [] \<Longrightarrow> op_EvidenceAuditReceiptID op = []"
  shows "evidenceComplete ((reconciliation_record r now op)
     \<lparr>op_Status := resolved_operation (rr_Resolution r) (op_Status op)\<rparr>) = None"
proof (cases "rr_Resolution r")
  case ResolutionUnknown
  have "op_EvidenceAuditReceiptID op = [] \<or> validDigest (op_EvidenceAuditReceiptID op)"
    using old s by (auto simp: evidenceComplete_def split: if_splits)
  then show ?thesis using v u ResolutionUnknown
    by (auto simp: evidenceComplete_def reconciliation_record_def validateRecordReconciliationRequest_def)
qed (use v in \<open>auto simp: evidenceComplete_def reconciliation_record_def validateRecordReconciliationRequest_def\<close>)

lemma operations_handler:
  assumes h: "cmd_handler e c now st t = Inr (st', t')" and v: "cmd_validate c = None"
    and t: "validateTransaction sha t fe = None" and k: "campaign_ok now t"
    and kept: "context_kept t (bump now t')" and now: "0 < now" and u: "\<not> unrecordable c t"
  shows "transaction_operations_ok (bump now t') = None"
proof -
  have ok: "transaction_operations_ok t = None" "transaction_target_ok t = None" "transaction_claims_ok t = None"
    using t by (auto simp: validateTransaction_None)
  have stored: "validateStoredOperation op t = None" if "op \<in> set (tx_Operations t)" for op
    using ok(1) that by (auto simp: transaction_operations_None)
  show ?thesis
  proof (cases c)
    case (CmdIntent r)
    then show ?thesis using operations_intent h v ok k kept now by simp
  next
    case (CmdEvidence r)
    then have ne: "tx_Operations t \<noteq> []" and s: "op_Status (last (tx_Operations t)) = OperationIntentRecorded"
      and t': "t' = evidence_outcome r now (last (tx_Operations t)) t" and vr: "validateRecordEvidenceRequest r = None"
      using h v by (auto simp: evidence_apply_Inr)
    from evidence_outcome_last [OF vr, of now "last (tx_Operations t)" t] obtain x
      where x: "x \<in> {OperationSucceeded, OperationFailed, OperationUncertain}"
        and ops: "tx_Operations (bump now t') = butlast (tx_Operations t) @
          [(evidence_record r now (last (tx_Operations t)))\<lparr>op_Status := x\<rparr>]" by (auto simp: t')
    show ?thesis
      by (rule operations_last [OF ok(1) kept ne ops _ evidence_complete [OF vr s x]])
        (use x in \<open>auto simp: intent_of_def evidence_record_def\<close>)
  next
    case (CmdReconcile r)
    then have h': "reconciliation_apply r now st t = Inr (st', t')"
      and vr: "validateRecordReconciliationRequest r = None" using h v by auto
    note l = reconciliation_apply_last [OF k h']
    then have ne: "tx_Operations t \<noteq> []" by simp
    have ops: "tx_Operations (bump now t') = butlast (tx_Operations t) @
        [(reconciliation_record r now (last (tx_Operations t)))
          \<lparr>op_Status := resolved_operation (rr_Resolution r) (op_Status (last (tx_Operations t)))\<rparr>]"
      using reconciliation_outcome_last [OF ne, of r now] l by simp
    have "evidenceComplete (last (tx_Operations t)) = None"
      using stored [OF last_in_set [OF ne]] by (simp add: validateStoredOperation_None)
    moreover have "rr_Resolution r = ResolutionUnknown \<Longrightarrow> rr_OutputDigest r = [] \<Longrightarrow>
        op_EvidenceAuditReceiptID (last (tx_Operations t)) = []"
      using u l CmdReconcile last_in_set [OF ne] by (auto simp: unrecordable_def list_ex_iff)
    ultimately have comp: "evidenceComplete ((reconciliation_record r now (last (tx_Operations t)))
        \<lparr>op_Status := resolved_operation (rr_Resolution r) (op_Status (last (tx_Operations t)))\<rparr>) = None"
      using reconciliation_complete [OF vr] l by blast
    have mode: "tx_ActiveClaim t' = Some x \<Longrightarrow> cl_Mode x = ClaimModeReconciliation" for x
      using h' by (auto simp: reconciliation_apply_Inr requireCurrentClaim_Inr)
    show ?thesis
      by (rule operations_last [OF ok(1) kept ne ops _ comp])
        (use mode in \<open>auto simp: intent_of_def reconciliation_record_def\<close>)
  next
    case (CmdAcquire r)
    then show ?thesis using h rejected_last_iff [OF k]
      by (intro operations_kept [OF ok(1) kept]) (auto simp: acquire_apply_Inr)
  next
    case (CmdTransfer r)
    then show ?thesis using h rejected_last_iff [OF k]
      by (intro operations_kept [OF ok(1) kept]) (auto simp: transfer_apply_Inr)
  qed (use h ok(1) in \<open>intro operations_kept [OF ok(1) kept];
      auto simp: apply_Inr transaction_operations_None requireCurrentClaim_Inr\<close>)+
qed

lemma validate_contexts:
  "validateQuarantineRequest r = None \<Longrightarrow> mc_FenceEpoch (qt_MutationContext r) \<noteq> 0"
  "validateRecordEvidenceRequest re = None \<Longrightarrow> mc_FenceEpoch (re_MutationContext re) \<noteq> 0"
  "validateRecordReconciliationRequest rr = None \<Longrightarrow> mc_FenceEpoch (rr_MutationContext rr) \<noteq> 0"
  by (simp_all add: validateQuarantineRequest_def validateRecordEvidenceRequest_def
      validateRecordReconciliationRequest_def validateMutationContext_None)

text \<open>The terminal records, status by status.\<close>

definition quarantine_ok :: "QuarantineRecord \<Rightarrow> bool" where
  "quarantine_ok q \<longleftrightarrow> validIdentifier (qr_ReasonCode q) \<and> validDigest (qr_ObservationDigest q) \<and>
     validDigest (qr_AuditReceiptID q) \<and> qr_RecordedAt q \<noteq> 0 \<and> qr_FenceEpoch q \<noteq> 0"

lemma terminal_open:
  "\<not> terminal (tx_Status t) \<Longrightarrow> transaction_terminal_ok t = None \<longleftrightarrow>
     tx_Quarantine t = None \<and> tx_SecurityApplied t = None \<and> tx_Abort t = None"
  by (auto simp: transaction_terminal_None terminal_def)

lemma terminal_quarantined:
  "tx_Status t = StatusQuarantined \<Longrightarrow> transaction_terminal_ok t = None \<longleftrightarrow>
     (\<exists>q. tx_Quarantine t = Some q \<and> quarantine_ok q) \<and> tx_SecurityApplied t = None \<and> tx_Abort t = None"
  by (auto simp: transaction_terminal_None quarantine_ok_def)

lemma terminal_same:
  assumes "transaction_terminal_ok t = None" and "tx_Status t' = tx_Status t"
    and "tx_Quarantine t' = tx_Quarantine t" "tx_SecurityApplied t' = tx_SecurityApplied t" "tx_Abort t' = tx_Abort t"
    and "tx_Status t = StatusSecurityApplied \<Longrightarrow>
       tx_Approval t' = tx_Approval t \<and> tx_Operations t' = tx_Operations t"
  shows "transaction_terminal_ok t' = None"
  using assms by (simp add: transaction_terminal_None)

lemma terminal_evidence:
  assumes h: "evidence_apply r now st t = Inr (st', t')" and v: "validateRecordEvidenceRequest r = None"
    and t: "transaction_terminal_ok t = None" and now: "0 < now"
  shows "transaction_terminal_ok t' = None"
proof -
  have "tx_Status t = StatusMutationInProgress" using h by (simp add: evidence_apply_Inr)
  then have none: "tx_Quarantine t = None" "tx_SecurityApplied t = None" "tx_Abort t = None"
    using t terminal_open [of t] by (auto simp: terminal_def)
  have t': "t' = evidence_outcome r now (last (tx_Operations t)) t" using h by (simp add: evidence_apply_Inr)
  have d: "validDigest (re_ObservationDigest r)" "validDigest (re_AuditReceiptID r)"
    using v by (auto simp: validateRecordEvidenceRequest_def)
  consider "re_Result r = EvidenceFailed" | "re_Result r = EvidenceSucceeded" | "re_Result r = EvidenceUncertain"
    using v by (auto simp: validateRecordEvidenceRequest_def)
  then show ?thesis
  proof cases
    case 1
    then show ?thesis using none d now validate_contexts(2) [OF v] reason_codes_valid(1)
      by (simp add: t' evidence_outcome.simps Let_def terminal_quarantined quarantine_ok_def)
  qed (use none in \<open>simp_all add: t' evidence_outcome.simps Let_def terminal_open terminal_def\<close>)
qed

lemma terminal_reconciliation:
  assumes h: "reconciliation_apply r now st t = Inr (st', t')" and v: "validateRecordReconciliationRequest r = None"
    and t: "transaction_terminal_ok t = None" and now: "0 < now"
  shows "transaction_terminal_ok t' = None"
proof -
  obtain i where t': "t' = reconciliation_outcome r now i t"
    and s: "tx_Status t = StatusReconciliationRequired \<or> tx_Status t = StatusQuarantined"
    using h by (auto simp: reconciliation_apply_Inr)
  have none: "tx_SecurityApplied t = None" "tx_Abort t = None"
    using s t by (auto simp: terminal_quarantined terminal_open terminal_def)
  have q: "tx_Status t \<noteq> StatusQuarantined \<Longrightarrow> tx_Quarantine t = None"
    using s t by (auto simp: terminal_open terminal_def)
  have d: "validDigest (rr_ObservationDigest r)" "validDigest (rr_AuditReceiptID r)"
    using v by (auto simp: validateRecordReconciliationRequest_def)
  consider "rr_Resolution r = ResolutionUnknown"
    | "rr_Resolution r \<in> {ResolutionConfirmedApplied, ResolutionConfirmedNotApplied}"
    using v by (auto simp: validateRecordReconciliationRequest_def split: ReconciliationResolution.splits)
  then show ?thesis
  proof cases
    case 1
    then show ?thesis using none d now validate_contexts(3) [OF v] reason_codes_valid(2)
      by (simp add: t' reconciliation_outcome_def Let_def terminal_quarantined quarantine_ok_def)
  next
    case 2
    have "tx_Quarantine t' = tx_Quarantine t"
      using 2 by (auto simp: t' reconciliation_outcome_def Let_def)
    then show ?thesis
    proof (cases "tx_Status t = StatusQuarantined")
      case True
      then show ?thesis using t 2 \<open>tx_Quarantine t' = tx_Quarantine t\<close>
        by (intro terminal_same [OF t]) (simp_all add: t' reconciliation_outcome_status)
    next
      case False
      then show ?thesis using 2 none q \<open>tx_Quarantine t' = tx_Quarantine t\<close>
        by (simp add: terminal_open terminal_def t' reconciliation_outcome_status)
    qed
  qed
qed

lemma terminal_claimed:
  assumes "transaction_terminal_ok t = None" and "validateClaimModeForStatus (cl_Mode c) (tx_Status t) = None"
  shows "transaction_terminal_ok (install_claim h c t) = None"
proof (cases "tx_Status t = StatusQuarantined")
  case True
  then show ?thesis by (intro terminal_same [OF assms(1)]) (simp_all add: claimed_status_def)
next
  case False
  then have "\<not> terminal (tx_Status t)" "\<not> terminal (claimed_status (cl_Mode c) t)"
    using assms(2) by (auto simp: validateClaimModeForStatus_None terminal_def claimed_status_def)
  then show ?thesis using assms(1) by (simp add: terminal_open)
qed

lemma terminal_handler_ok:
  assumes h: "cmd_handler e c now st t = Inr (st', t')" and v: "cmd_validate c = None"
    and t: "transaction_terminal_ok t = None" and now: "0 < now"
  shows "transaction_terminal_ok t' = None"
proof (cases c)
  case (CmdEvidence r)
  then show ?thesis using terminal_evidence h v t now by simp
next
  case (CmdReconcile r)
  then show ?thesis using terminal_reconciliation h v t now by simp
next
  case (CmdAcquire r)
  then show ?thesis using h terminal_claimed [OF t] by (auto simp: acquire_apply_Inr)
next
  case (CmdTransfer r)
  then show ?thesis using h terminal_claimed [OF t] by (auto simp: transfer_apply_Inr)
next
  case (CmdQuarantine r)
  then have "\<not> terminal (tx_Status t)" "tx_Status t' = StatusQuarantined"
    using h by (auto simp: quarantine_apply_Inr terminal_def)
  then show ?thesis using h t v now validate_contexts(1) [of r] CmdQuarantine
    by (simp add: terminal_quarantined terminal_open quarantine_apply_Inr quarantine_ok_def
        validateQuarantineRequest_def)
next
  case (CmdAbort r)
  then show ?thesis using h t v now
    by (simp add: abort_apply_Inr transaction_terminal_None validateAbortRequest_def)
next
  case (CmdSecurityApplied r)
  then obtain a where "tx_Status t = StatusCommitApproved" "tx_Approval t = Some a"
      "validateCompletedDevelopmentCampaign (tx_Operations t) (Some a) = None"
      "t' = t\<lparr>tx_Status := StatusSecurityApplied,
               tx_SecurityApplied := Some \<lparr>sa_EvidenceDigest = sr_EvidenceDigest r,
                 sa_AuditReceiptID = sr_AuditReceiptID r, sa_RollbackStatus = sr_RollbackStatus r,
                 sa_ReleaseClassification = sr_ReleaseClassification r, sa_RecordedAt = now\<rparr>\<rparr>"
    using h by (auto simp: security_apply_Inr requireCurrentApproval_Inr)
  then show ?thesis using t v now CmdSecurityApplied
    by (simp add: transaction_terminal_None validateSecurityAppliedRequest_def)
next
  case (CmdBind r)
  then have "\<not> terminal (tx_Status t)" "\<not> terminal (tx_Status t')" using h by (auto simp: bind_apply_Inr terminal_def)
  then show ?thesis using h t CmdBind by (auto simp: terminal_open bind_apply_Inr)
next
  case (CmdApprove r)
  then have "\<not> terminal (tx_Status t)" "\<not> terminal (tx_Status t')" using h by (auto simp: approval_apply_Inr terminal_def)
  then show ?thesis using h t CmdApprove by (auto simp: terminal_open approval_apply_Inr)
next
  case (CmdIntent r)
  then have "\<not> terminal (tx_Status t)" "\<not> terminal (tx_Status t')" using h by (auto simp: intent_apply_Inr terminal_def)
  then show ?thesis using h t CmdIntent by (auto simp: terminal_open intent_apply_Inr)
next
  case (CmdRenew r)
  then show ?thesis using h by (auto simp: renew_apply_Inr intro!: terminal_same [OF t])
next
  case (CmdRelease r)
  then show ?thesis using h by (auto simp: release_apply_Inr intro!: terminal_same [OF t])
qed (use h in simp)


section \<open>The candidate passes the check\<close>

lemma handler_valid:
  assumes h: "cmd_handler e c now st t = Inr (st', t')" and v: "cmd_validate c = None"
    and t: "validateTransaction sha t (ps_FenceEpochs st) = None" and k: "campaign_ok now t" and now: "0 < now"
    and n: "counters_ok e c st t" and ver: "tx_ResourceVersion t = cmd_version c" and u: "\<not> unrecordable c t"
  shows "validateTransaction sha (bump now t') (ps_FenceEpochs st') = None"
proof -
  have parts: "transaction_header_ok sha t (ps_FenceEpochs st) = None" "transaction_claims_ok t = None"
    "transaction_target_ok t = None" "transaction_operations_ok t = None" "transaction_terminal_ok t = None"
    using t by (auto simp: validateTransaction_None)
  have f: "tx_FenceEpoch t \<le> fenceEpochOf (ps_FenceEpochs st) (tx_AssetID t)" "\<forall>x. tx_Status t \<noteq> StatusOther x"
    "tx_ExpectedPrestateCustomerKeyHash t = UnownedCustomerKeyHash"
    using parts(1) by (simp_all add: transaction_header_None)
  have nz: "next_epoch st (tx_AssetID t) \<noteq> 0" using n by (simp add: counters_ok_def)
  note fe = fence_handler [OF h f(1) nz]
  note kept = context_handler [OF h fe(1)]
  have created: "tx_CreatedAt t \<le> now" using k by (simp add: campaign_ok_def)
  have "transaction_header_ok sha (bump now t') (ps_FenceEpochs st') = None"
    using n ver cmd_handler_frame(1,2) [OF h] status_handler [OF h f(2)] fe(2) created
    by (intro header_kept [OF parts(1)]) (simp_all add: counters_ok_def)
  moreover have "transaction_claims_ok (bump now t') = None"
    using claims_handler [OF h v parts(2) k now n fe(1)] by (rule claims_same) simp_all
  moreover have "transaction_terminal_ok (bump now t') = None"
    using terminal_handler_ok [OF h v parts(5) now] by (rule terminal_same) simp_all
  ultimately show ?thesis
    using target_handler_ok [OF h v parts(3) kept now parts(2) f(3)]
      operations_handler [OF h v t k kept now u]
    by (simp add: validateTransaction_None)
qed

lemma validateTransaction_fences:
  assumes "validateTransaction sha t fe = None" and "\<And>a. fenceEpochOf fe a \<le> fenceEpochOf fe' a"
  shows "validateTransaction sha t fe' = None"
  using assms order.trans unfolding validateTransaction_None transaction_header_None by blast

lemma new_transaction_valid:
  assumes v: "validateCreateRequest r = None" and now: "0 < now"
    and d: "transactionDigest sha (new_transaction r now) = Some d" and len: "\<forall>m. length (sha m) = 32"
  shows "validateTransaction sha ((new_transaction r now)\<lparr>tx_TransactionDigest := d\<rparr>) fe = None"
proof -
  let ?t = "(new_transaction r now)\<lparr>tx_TransactionDigest := d\<rparr>"
  have d': "transactionDigest sha ?t = Some d" "validDigest d"
    using d len validDigest_digestJSON by (auto simp: transactionDigest_def transactionDigestMaterial_def)
  have "transaction_header_ok sha ?t fe = None"
    unfolding transaction_header_None using v now d'
    by (auto simp: new_transaction_def validateCreateRequest_def)
  then show ?thesis
    by (simp add: validateTransaction_None transaction_claims_None transaction_target_None
        transaction_operations_None terminal_open terminal_def new_transaction_def)
qed

text \<open>The counters that a call moves have room, and the identifier it generates is one.\<close>

definition counters_fit :: "env \<Rightarrow> command \<Rightarrow> persistedState \<Rightarrow> bool" where
  "counters_fit e c st \<longleftrightarrow>
     (case map_get (ps_Transactions st) (cmd_transaction c) of None \<Rightarrow> True | Some t \<Rightarrow> counters_ok e c st t)"

text \<open>The call is the one reconciliation that the store cannot record.\<close>

definition call_unrecordable :: "command \<Rightarrow> persistedState \<Rightarrow> bool" where
  "call_unrecordable c st \<longleftrightarrow>
     (case map_get (ps_Transactions st) (cmd_transaction c) of None \<Rightarrow> False | Some t \<Rightarrow> unrecordable c t)"

definition command_recordable :: "env \<Rightarrow> command \<Rightarrow> persistedState \<Rightarrow> bool" where
  "command_recordable e c st \<longleftrightarrow>
     (case map_get (ps_Transactions st) (cmd_transaction c) of None \<Rightarrow> True
      | Some t \<Rightarrow> counters_ok e c st t \<and> \<not> unrecordable c t)"

lemma command_recordable_iff: "command_recordable e c st \<longleftrightarrow> counters_fit e c st \<and> \<not> call_unrecordable c st"
  by (simp add: command_recordable_def counters_fit_def call_unrecordable_def split: option.splits)

lemma enter_valid:
  assumes ok: "state_ok sha T st" and k: "validIdentifier key" "validIdentifier op" "validDigest d" "validIdentifier tid"
    and st': "ps_SchemaVersion st' = ps_SchemaVersion st" "ps_Transactions st' = ps_Transactions st"
      "ps_Idempotency st' = ps_Idempotency st"
      "\<And>a. fenceEpochOf (ps_FenceEpochs st) a \<le> fenceEpochOf (ps_FenceEpochs st') a"
    and t: "tx_ID t = tid" "validateTransaction sha t (ps_FenceEpochs st') = None"
  shows "validatePersistedState sha (enter op key d tid t st') = None"
proof -
  have wf: "map_wf (ps_Transactions st)" "map_wf (ps_Idempotency st)" using ok by (auto simp: state_ok_def)
  note old = ok [unfolded state_ok_def validatePersistedState_None [OF wf]]
  have "validateTransaction sha x (ps_FenceEpochs st') = None" if "map_get (ps_Transactions st) i = Some x" for i x
    using old that validateTransaction_fences [OF _ st'(4)] by blast
  then show ?thesis
    using old wf k t st'(1-3) by (subst validatePersistedState_None) (auto simp: enter_def split: if_splits)
qed

lemma candidate_valid:
  assumes ok: "course_ok sha (env_now e) st" and sha: "env_sha256 e = sha" "\<forall>m. length (sha m) = 32"
    and now: "0 < env_now e" and p: "proposes e c st st'" and fit: "command_recordable e c st"
  shows "validatePersistedState sha st' = None"
  using p
proof (cases rule: proposes.cases)
  case (create r digest d)
  have v: "cmd_validate c = None" "cmd_operation c = ''create_transaction''" "cmd_key c = ct_IdempotencyKey r"
    "cmd_transaction c = ct_TransactionID r" using create by simp_all
  let ?t = "(new_transaction r (env_now e))\<lparr>tx_TransactionDigest := d\<rparr>"
  have "validDigest digest" using create sha validDigest_digestJSON by blast
  moreover have "tx_ID ?t = ct_TransactionID r" by (simp add: new_transaction_def)
  moreover have "validateTransaction sha ?t (ps_FenceEpochs st) = None"
    by (rule new_transaction_valid) (use create sha now in auto)
  ultimately show ?thesis
    unfolding create(2)
    using enter_valid [OF conjunct1 [OF ok] _ _ _ _ refl refl refl order.refl]
      cmd_validate_key [OF v(1)] cmd_operation_valid [of c] v by simp
next
  case (update digest current st1 t)
  have h: "cmd_handler e c (env_now e) st current = Inr (st1, t)" by (rule update)
  have cur: "tx_ID current = cmd_transaction c" "validateTransaction sha current (ps_FenceEpochs st) = None"
    "campaign_ok (env_now e) current"
    using ok update(6) state_ok_get by blast+
  have n: "counters_ok e c st current" "\<not> unrecordable c current" using fit update(6) by (auto simp: command_recordable_def)
  have "validateTransaction sha (bump (env_now e) t) (ps_FenceEpochs st1) = None"
    by (rule handler_valid [OF h update(3) cur(2,3) now n(1) update(8) n(2)])
  moreover have "validDigest digest" using update sha validDigest_digestJSON by blast
  moreover have "fenceEpochOf (ps_FenceEpochs st) a \<le> fenceEpochOf (ps_FenceEpochs st1) a" for a
    using fence_handler(3) [OF h] cur(2) n(1)
    by (simp add: counters_ok_def validateTransaction_None transaction_header_None)
  ultimately show ?thesis
    unfolding update(1)
    using ok cmd_validate_key [OF update(3)] cmd_operation_valid [of c] handler.ap_store [OF h]
      handler.ap_names(1) [OF h] cur(1)
    by (intro enter_valid) auto
qed


section \<open>Calls are carried out\<close>

lemma FileStore_Save_no_fault:
  "FileStore_Save None d fs = (True, \<lparr>fs_path = Some d, fs_temp = None\<rparr>)"
  by (simp add: FileStore_Save_def save_steps_def)

lemma commitLocked_no_fault:
  assumes "validatePersistedState (env_sha256 e) st' = None" and "state_encodes st'" and "env_fault e = None"
  shows "commitLocked e st' s =
    (None, \<lparr>svc_state = st', svc_store = \<lparr>fs_path = Some st', fs_temp = None\<rparr>\<rparr>)"
  using assms by (simp add: commitLocked_def marshalState_def FileStore_Save_no_fault)

lemma cloneTransaction_of:
  "state_encodes st \<Longrightarrow> map_get (ps_Transactions st) k = Some t \<Longrightarrow> cloneTransaction t = Inr t"
  by (auto simp: state_encodes_def cloneTransaction_def list_all_iff dest!: map_get_mem)

lemma run_command_carried_out:
  assumes p: "proposes e c (svc_state s) st'" and v: "validatePersistedState (env_sha256 e) st' = None"
    and enc: "state_encodes (svc_state s)" "state_encodes st'" and nf: "env_fault e = None"
  shows "\<exists>t. map_get (ps_Transactions st') (cmd_transaction c) = Some t \<and>
     run_command e c s = (Inr t, \<lparr>svc_state = st', svc_store = \<lparr>fs_path = Some st', fs_temp = None\<rparr>\<rparr>)"
  using p
proof (cases rule: proposes.cases)
  case (create r digest d)
  let ?t = "(new_transaction r (env_now e))\<lparr>tx_TransactionDigest := d\<rparr>"
  have get: "map_get (ps_Transactions st') (ct_TransactionID r) = Some ?t" by (simp add: create(2) enter_def)
  have id: "tx_ID ?t = ct_TransactionID r" by (simp add: new_transaction_def)
  have free: "\<not> list_ex (\<lambda>(id, t). tx_AssetID t = ct_AssetID r \<or> tx_IntendedLogicalID t = ct_IntendedLogicalID r)
      (ps_Transactions (svc_state s))"
    using create(7) by (auto simp: list_ex_iff list_all_iff)
  have "replayLocked (svc_state s) ''create_transaction'' (ct_IdempotencyKey r) digest = Inr None"
    using create(5) by (simp add: replayLocked_None)
  then have "CreateTransaction e r s = (Inr ?t, \<lparr>svc_state = st', svc_store = \<lparr>fs_path = Some st', fs_temp = None\<rparr>\<rparr>)"
    using create free id enc cloneTransaction_of [OF enc(2) get] commitLocked_no_fault [OF v enc(2) nf, of s]
    by (simp add: CreateTransaction_def cloneState_def Let_def enter_def [symmetric])
  then show ?thesis using get create(1) by simp
next
  case (update digest current st1 t)
  have get: "map_get (ps_Transactions st') (cmd_transaction c) = Some (bump (env_now e) t)"
    by (simp add: update(1) enter_def)
  have "replayLocked (svc_state s) (cmd_operation c) (cmd_key c) digest = Inr None"
    using update(5) by (simp add: replayLocked_None)
  then have "run_command e c s = (Inr (bump (env_now e) t),
      \<lparr>svc_state = st', svc_store = \<lparr>fs_path = Some st', fs_temp = None\<rparr>\<rparr>)"
    using update enc cloneTransaction_of [OF enc(2) get] commitLocked_no_fault [OF v enc(2) nf, of s]
    by (simp add: run_command_mutate mutate_def cloneState_def Let_def bump_def [symmetric] enter_def [symmetric])
  then show ?thesis using get by simp
qed

lemma reopen_reachable:
  assumes "reachable sha T s"
  shows "reopen sha s = Inr (s\<lparr>svc_state := (case FileStore_Load (svc_store s) of None \<Rightarrow> initial_state
     | Some st \<Rightarrow> st)\<rparr>)"
proof (cases "FileStore_Load (svc_store s)")
  case (Some st)
  then have "state_ok sha T st" using ok.on_disk [OF assms] by simp
  then have "validatePersistedState sha st = None" "ps_SchemaVersion st = StoreSchemaVersion"
    by (auto simp: state_ok_def validatePersistedState_None)
  then show ?thesis using Some by (simp add: reopen_def NewService_def)
qed (simp add: reopen_def NewService_def)

end
