(* ===== verification/Control_Calls.thy ===== *)
theory Control_Calls
  imports Control_Progress
begin

text \<open>
  What a single call returns and leaves. The class \<open>ErrCorruptStore\<close> comes from the integrity check
  alone: no request check and no handler returns it. A failed call keeps the state in memory, and a
  successful one leaves the record of its idempotency key.
\<close>

section \<open>Which errors a call returns\<close>

lemma first_err_Cons_Some:
  "first_err (c # cs) = Some e \<longleftrightarrow> c = Some e \<or> c = None \<and> first_err cs = Some e"
  by (cases c) auto

lemma first_err_append_Some:
  "first_err (cs @ ds) = Some e \<longleftrightarrow> first_err cs = Some e \<or> first_err cs = None \<and> first_err ds = Some e"
  by (induction cs) (auto simp: first_err_Cons_Some)

lemma validateStringSet_loop_err: "validateStringSet_loop seen vs = Some e \<Longrightarrow> e = ErrInvalid"
  by (induction vs arbitrary: seen) (auto split: if_splits)

lemma validateStringSet_err: "validateStringSet vs lo hi = Some e \<Longrightarrow> e = ErrInvalid"
  by (auto simp: validateStringSet_def split: if_splits dest: validateStringSet_loop_err)

lemma cmd_validate_err: "cmd_validate c = Some e \<Longrightarrow> e = ErrInvalid"
  by (cases c)
    (auto simp: validateCreateRequest_def validateAcquireClaimRequest_def validateRenewClaimRequest_def
      validateTransferClaimRequest_def validateReleaseClaimRequest_def validateBindTargetRequest_def
      validateRecordApprovalRequest_def validateRecordIntentRequest_def validateRecordEvidenceRequest_def
      validateRecordReconciliationRequest_def validateQuarantineRequest_def validateAbortRequest_def
      validateSecurityAppliedRequest_def validateEnvelope_def validateMutationContext_def validateLease_def
      invalidDevelopmentOperationNames_def Let_def first_err_Cons_Some first_err_append_Some
      split: option.splits ReconciliationResolution.splits dest: validateStringSet_err)

lemma guard_errors:
  "requireCurrentClaim t i f n m \<noteq> Inl ErrCorruptStore"
  "requireCurrentApproval t c i p n \<noteq> Inl ErrCorruptStore"
  "validateClaimModeForStatus md s \<noteq> Some ErrCorruptStore"
  "ensureClaimResourcesAvailable st i stn l a n \<noteq> Some ErrCorruptStore"
  "validateCurrentApprovalExpiry x n \<noteq> Some ErrCorruptStore"
  by (auto simp: requireCurrentClaim_def requireCurrentApproval_def validateClaimModeForStatus_def
      ensureClaimResourcesAvailable_def validateCurrentApprovalExpiry_def
      split: option.splits if_splits ClaimMode.splits)

lemma loop_errors:
  "intent_loop i ops \<noteq> Some ErrCorruptStore"
  "validatePriorOperationsAgainstPlan ops p r x al n \<noteq> Some ErrCorruptStore"
  "completedCampaign_loop ops a n \<noteq> Inl ErrCorruptStore"
  by (induction ops arbitrary: n) (auto split: OperationStatus.splits)

lemma campaign_errors: "validateCompletedDevelopmentCampaign ops a \<noteq> Some ErrCorruptStore"
  using loop_errors(3)
  by (auto simp: validateCompletedDevelopmentCampaign_def split: option.splits sum.splits)

lemma renewal_errors: "requireClaimRenewalAuthorization t c r now \<noteq> Some ErrCorruptStore"
  using guard_errors(2)
  by (auto simp: requireClaimRenewalAuthorization_def first_err_Cons_Some split: option.splits sum.splits if_splits)

lemma handler_errors: "cmd_handler e c now st t \<noteq> Inl ErrCorruptStore"
  using guard_errors loop_errors campaign_errors renewal_errors
  by (cases c)
    (simp_all add: acquire_apply_def renew_apply_def transfer_apply_def release_apply_def bind_apply_def
      approval_apply_def intent_apply_def evidence_apply_def reconciliation_apply_def quarantine_apply_def
      abort_apply_def security_apply_def Let_def bindE_Inl orFail_Inl first_err_Cons_Some
      split: option.splits EvidenceResult.splits ReconciliationResolution.splits)

section \<open>What a single call leaves\<close>

lemma phase_secured: "phase_ok StatusSecurityApplied ops \<Longrightarrow> ops \<noteq> [] \<Longrightarrow> completed (last ops)"
  by (auto simp: phase_ok_def completed_def split: OperationStatus.splits)

definition rejection_final :: "Transaction \<Rightarrow> Transaction \<Rightarrow> bool" where
  "rejection_final t t' \<longleftrightarrow>
     (hasConfirmedNotAppliedOperation (tx_Operations t) \<longrightarrow> tx_Operations t' = tx_Operations t)"

lemma rejection_handler:
  assumes h: "cmd_handler e c now st t = Inr (st', t')" and k: "campaign_ok now t"
  shows "rejection_final t (bump now t')"
proof (cases "hasConfirmedNotAppliedOperation (tx_Operations t)")
  case True
  then have l: "tx_Operations t \<noteq> []" "rejected (last (tx_Operations t))" using rejected_last_iff [OF k] by auto
  have "tx_Operations t' = tx_Operations t"
  proof (cases c)
    case (CmdIntent r)
    then show ?thesis using h True by (auto simp: intent_apply_Inr intent_loop_None hasConfirmedNotApplied_iff)
  next
    case (CmdReconcile r)
    then show ?thesis using reconciliation_apply_last [OF k, of r st st' t'] h l by auto
  qed (use h l in \<open>auto simp: apply_Inr\<close>)
  then show ?thesis by (simp add: rejection_final_def)
qed (simp add: rejection_final_def)

interpretation rejection: transaction_order sha rejection_final for sha
proof unfold_locales
  show "rejection_final t t''" if "rejection_final t t'" "rejection_final t' t''" for t t' t''
    using that by (simp add: rejection_final_def)
qed (simp add: rejection_final_def, rule rejection_handler)

lemma validated_get:
  "validatePersistedState sha st = None \<Longrightarrow> map_get (ps_Transactions st) k = Some t \<Longrightarrow>
     validateTransaction sha t (ps_FenceEpochs st) = None \<and> k = tx_ID t"
  by (drule map_get_mem) (auto simp: validatePersistedState_def)

lemma commit_failed: "commitLocked e st' s = (Some err, s') \<Longrightarrow> svc_state s' = svc_state s"
  using commitLocked_cases [of e st' s "Some err" s'] by auto

lemma commit_clone:
  "commitLocked e st' s = (None, s') \<Longrightarrow> map_get (ps_Transactions st') k = Some t \<Longrightarrow> cloneTransaction t = Inr t"
  using commitLocked_cases [of e st' s None s'] cloneTransaction_of by blast

lemma mutate_failed: "mutate e op key tid ver req ap s = (Inl err, s') \<Longrightarrow> svc_state s' = svc_state s"
  by (auto simp: mutate_def Let_def split: option.splits sum.splits if_splits prod.splits
      dest: commit_failed commit_clone [where k = tid])

lemma create_failed: "CreateTransaction e r s = (Inl err, s') \<Longrightarrow> svc_state s' = svc_state s"
  by (auto simp: CreateTransaction_def Let_def split: option.splits sum.splits if_splits prod.splits
      dest: commit_failed commit_clone [where k = "tx_ID (new_transaction r (env_now e))"])

lemma run_command_failed:
  assumes "run_command e c s = (Inl err, s')"
  shows "svc_state s' = svc_state s"
proof (cases "is_create c")
  case True
  then show ?thesis using assms create_failed by (cases c) auto
next
  case False
  then show ?thesis using assms by (auto simp: run_command_mutate split: option.splits dest: mutate_failed)
qed

lemma run_command_known_key:
  assumes "cmd_validate c = None" and "digestJSON (env_sha256 e) (cmd_json c) = Some d"
    and "map_get (ps_Idempotency (svc_state s)) (cmd_key c) = Some r"
  shows "run_command e c s =
    (if ir_Operation r \<noteq> cmd_operation c \<or> ir_RequestDigest r \<noteq> d then Inl ErrIdempotencyConflict
     else case map_get (ps_Transactions (svc_state s)) (ir_TransactionID r) of
       None \<Rightarrow> Inl ErrCorruptStore | Some t \<Rightarrow> cloneTransaction t, s)"
proof (cases "is_create c")
  case True
  then obtain q where "c = CmdCreate q" by (cases c) auto
  then show ?thesis using assms by (simp add: CreateTransaction_def replayLocked_def split: option.splits)
next
  case False
  then show ?thesis using assms by (simp add: run_command_mutate mutate_def replayLocked_def split: option.splits)
qed

lemma commit_ok:
  "commitLocked e st' s = (None, s') \<Longrightarrow> svc_state s' = st' \<and> validatePersistedState (env_sha256 e) st' = None"
  using commitLocked_cases [of e st' s None s'] by auto

lemma clone_id: "cloneTransaction t = Inr t' \<Longrightarrow> t' = t"
  by (auto simp: cloneTransaction_def split: if_splits)

text \<open>A command that was carried out has left its record under its key.\<close>

definition recorded :: "env \<Rightarrow> command \<Rightarrow> persistedState \<Rightarrow> string \<Rightarrow> bool" where
  "recorded e c st tid \<longleftrightarrow> cmd_validate c = None \<and>
     (\<exists>d r. digestJSON (env_sha256 e) (cmd_json c) = Some d \<and> map_get (ps_Idempotency st) (cmd_key c) = Some r \<and>
        ir_Operation r = cmd_operation c \<and> ir_RequestDigest r = d \<and> ir_TransactionID r = tid)"

lemma mutate_fresh_success:
  assumes "mutate e op key tid ver req ap s = (Inr t, s')" and "digestJSON (env_sha256 e) req = Some d"
    and "map_get (ps_Idempotency (svc_state s)) key = None"
  shows "map_get (ps_Idempotency (svc_state s')) key = Some \<lparr>ir_Operation = op, ir_RequestDigest = d, ir_TransactionID = tid\<rparr>
    \<and> map_get (ps_Transactions (svc_state s')) tid = Some t
    \<and> validatePersistedState (env_sha256 e) (svc_state s') = None"
  using assms
  by (auto simp: mutate_def Let_def replayLocked_def split: option.splits sum.splits if_splits prod.splits
      dest!: commit_ok clone_id)

lemma create_fresh_success:
  assumes "CreateTransaction e q s = (Inr t, s')" and "digestJSON (env_sha256 e) (json_of_Create q) = Some d"
    and "map_get (ps_Idempotency (svc_state s)) (ct_IdempotencyKey q) = None"
  shows "map_get (ps_Idempotency (svc_state s')) (ct_IdempotencyKey q) =
      Some \<lparr>ir_Operation = ''create_transaction'', ir_RequestDigest = d, ir_TransactionID = ct_TransactionID q\<rparr>
    \<and> map_get (ps_Transactions (svc_state s')) (ct_TransactionID q) = Some t
    \<and> validatePersistedState (env_sha256 e) (svc_state s') = None"
  using assms
  by (auto simp: CreateTransaction_def Let_def replayLocked_def new_transaction_def
      split: option.splits sum.splits if_splits prod.splits dest!: commit_ok clone_id)

lemma success_leaves_record:
  assumes run: "run_command e c s = (Inr t, s')" and ok: "state_ok (env_sha256 e) T (svc_state s)"
  shows "recorded e c (svc_state s') (tx_ID t)"
proof -
  have v: "cmd_validate c = None"
  proof (cases "is_create c")
    case True
    then show ?thesis using run by (cases c) (auto simp: CreateTransaction_def split: option.splits)
  qed (use run in \<open>auto simp: run_command_mutate split: option.splits\<close>)
  obtain d where d: "digestJSON (env_sha256 e) (cmd_json c) = Some d"
  proof (cases "is_create c")
    case True
    then show ?thesis using run that by (cases c) (auto simp: CreateTransaction_def split: option.splits)
  qed (use run that in \<open>auto simp: run_command_mutate mutate_def split: option.splits\<close>)
  show ?thesis
  proof (cases "map_get (ps_Idempotency (svc_state s)) (cmd_key c)")
    case (Some r)
    from run_command_known_key [OF v d Some] run
    have "ir_Operation r = cmd_operation c" "ir_RequestDigest r = d" "s' = s"
      and "map_get (ps_Transactions (svc_state s)) (ir_TransactionID r) = Some t"
      by (auto split: if_splits option.splits dest!: clone_id [OF sym])
    then show ?thesis using v d Some state_ok_get [OF ok] by (auto simp: recorded_def)
  next
    case None
    show ?thesis
    proof (cases "is_create c")
      case True
      then obtain q where q: "c = CmdCreate q" by (cases c) auto
      with create_fresh_success [of e q s t s' d] run d None validated_get v
      show ?thesis by (fastforce simp: recorded_def)
    next
      case False
      with run v have "mutate e (cmd_operation c) (cmd_key c) (cmd_transaction c) (cmd_version c)
          (cmd_json c) (cmd_handler e c) s = (Inr t, s')" by (simp add: run_command_mutate)
      from mutate_fresh_success [OF this d None] validated_get v d show ?thesis
        by (fastforce simp: recorded_def)
    qed
  qed
qed

lemma commit_corrupt:
  "commitLocked e st' s = (Some ErrCorruptStore, s') \<Longrightarrow> validatePersistedState (env_sha256 e) st' \<noteq> None"
  by (auto simp: commitLocked_def marshalState_def split: option.splits if_splits prod.splits bool.splits)

lemma clone_error: "cloneTransaction t \<noteq> Inl ErrCorruptStore" "cloneState st \<noteq> Inl ErrCorruptStore"
  by (auto simp: cloneTransaction_def cloneState_def)

lemma mutate_corrupt:
  assumes "mutate e op key tid ver req ap s = (Inl ErrCorruptStore, s')"
    and "\<And>now st t. ap now st t \<noteq> Inl ErrCorruptStore"
  shows "\<exists>d. digestJSON (env_sha256 e) req = Some d \<and>
    (replayLocked (svc_state s) op key d = Inl ErrCorruptStore \<or>
     map_get (ps_Idempotency (svc_state s)) key = None \<and>
     (\<exists>t st1 t1. map_get (ps_Transactions (svc_state s)) tid = Some t \<and> ver \<noteq> 0 \<and> tx_ResourceVersion t = ver \<and>
        ap (env_now e) (svc_state s) t = Inr (st1, t1) \<and>
        validatePersistedState (env_sha256 e) (enter op key d tid (bump (env_now e) t1) st1) \<noteq> None))"
proof -
  from assms(1) obtain d where d: "digestJSON (env_sha256 e) req = Some d"
    by (auto simp: mutate_def split: option.splits)
  show ?thesis
  proof (cases "replayLocked (svc_state s) op key d")
    case (Inl err)
    then show ?thesis using assms(1) d by (auto simp: mutate_def)
  next
    case (Inr x)
    then have x: "x = None" using assms(1) d clone_error by (cases x) (auto simp: mutate_def)
    then have fresh: "map_get (ps_Idempotency (svc_state s)) key = None" using Inr by (simp add: replayLocked_None)
    show ?thesis
      using assms d Inr x clone_error fresh
      by (auto simp: mutate_def Let_def cloneState_def enter_def [symmetric] bump_def [symmetric]
          split: option.splits sum.splits if_splits prod.splits dest!: commit_corrupt)
  qed
qed

lemma create_corrupt:
  assumes "CreateTransaction e q s = (Inl ErrCorruptStore, s')"
  shows "\<exists>d. validateCreateRequest q = None \<and> digestJSON (env_sha256 e) (json_of_Create q) = Some d \<and>
    (replayLocked (svc_state s) ''create_transaction'' (ct_IdempotencyKey q) d = Inl ErrCorruptStore \<or>
     (\<exists>st'. proposes e (CmdCreate q) (svc_state s) st' \<and> validatePersistedState (env_sha256 e) st' \<noteq> None))"
proof -
  have v: "validateCreateRequest q = None"
    using assms cmd_validate_err [of "CmdCreate q"] by (auto simp: CreateTransaction_def split: option.splits)
  from assms v obtain d where d: "digestJSON (env_sha256 e) (json_of_Create q) = Some d"
    by (auto simp: CreateTransaction_def split: option.splits)
  show ?thesis
  proof (cases "replayLocked (svc_state s) ''create_transaction'' (ct_IdempotencyKey q) d")
    case (Inl err)
    then show ?thesis using assms d v by (auto simp: CreateTransaction_def)
  next
    case (Inr x)
    then have x: "x = None" using assms d v clone_error by (cases x) (auto simp: CreateTransaction_def)
    then have fresh: "map_get (ps_Idempotency (svc_state s)) (ct_IdempotencyKey q) = None"
      using Inr by (simp add: replayLocked_None)
    have "\<exists>td. map_get (ps_Transactions (svc_state s)) (ct_TransactionID q) = None \<and>
        list_all (\<lambda>(k, t). tx_AssetID t \<noteq> ct_AssetID q \<and> tx_IntendedLogicalID t \<noteq> ct_IntendedLogicalID q)
          (ps_Transactions (svc_state s)) \<and>
        transactionDigest (env_sha256 e) (new_transaction q (env_now e)) = Some td \<and>
        validatePersistedState (env_sha256 e) (enter ''create_transaction'' (ct_IdempotencyKey q) d (ct_TransactionID q)
          ((new_transaction q (env_now e))\<lparr>tx_TransactionDigest := td\<rparr>) (svc_state s)) \<noteq> None"
      using assms d v Inr x clone_error
      by (auto simp: CreateTransaction_def Let_def cloneState_def list_all_iff list_ex_iff enter_def
          new_transaction_def split: option.splits sum.splits if_splits prod.splits dest!: commit_corrupt)
    then show ?thesis using v d fresh proposes.create by blast
  qed
qed

lemma replay_not_corrupt:
  "state_ok sha T st \<Longrightarrow> replayLocked st op key d \<noteq> Inl ErrCorruptStore"
  by (auto simp: replayLocked_def state_ok_def validatePersistedState_None split: option.splits) fastforce

text \<open>The integrity check returns one class of error.\<close>

definition only :: "'e \<Rightarrow> 'e option \<Rightarrow> bool" where
  "only E c \<longleftrightarrow> c = None \<or> c = Some E"

lemma only_simps [simp]: "only E None" "only E (Some E)" "only E (fail_if b E)"
  by (auto simp: only_def fail_if_def)

lemma only_first_err [simp]: "list_all (only E) cs \<Longrightarrow> only E (first_err cs)"
  by (induction cs rule: first_err.induct) (auto simp: only_def)

lemma only_stored:
  "only ErrCorruptStore (evidenceComplete op)"
  "only ErrCorruptStore (validateStoredApproval a t ep)" "only ErrCorruptStore (validateClaim c t b)"
  by (simp_all add: evidenceComplete_def validateStoredApproval_def validateClaim_def
      split: OperationStatus.splits option.splits)

lemma only_stored_operation: "only ErrCorruptStore (validateStoredOperation op t)"
  by (simp add: validateStoredOperation_def only_stored)

lemma operations_loop_err: "operations_loop t ids b f ops = Inl x \<Longrightarrow> x = ErrCorruptStore"
proof (induction ops arbitrary: ids b f)
  case (Cons op ops)
  then show ?case using only_stored_operation [of op t]
    by (auto simp: only_def split: if_splits option.splits)
qed simp

lemma only_parts:
  "only ErrCorruptStore (transaction_header_ok sha t fe)" "only ErrCorruptStore (transaction_claims_ok t)"
  "only ErrCorruptStore (transaction_target_ok t)" "only ErrCorruptStore (transaction_operations_ok t)"
  "only ErrCorruptStore (transaction_terminal_ok t)"
proof -
  show "only ErrCorruptStore (transaction_header_ok sha t fe)"
    by (cases "tx_Status t") (simp_all add: transaction_header_ok_def)
  show "only ErrCorruptStore (transaction_claims_ok t)"
    by (cases "tx_ActiveClaim t") (simp_all add: transaction_claims_ok_def list_all_iff only_stored)
  show "only ErrCorruptStore (transaction_target_ok t)"
    by (cases "tx_Target t"; cases "tx_Approval t") (simp_all add: transaction_target_ok_def only_stored)
  show "only ErrCorruptStore (transaction_operations_ok t)"
    by (cases "operations_loop t [] False None (tx_Operations t)")
      (auto simp: transaction_operations_ok_def dest: operations_loop_err)
  show "only ErrCorruptStore (transaction_terminal_ok t)"
    by (cases "tx_Quarantine t"; cases "tx_SecurityApplied t"; cases "tx_Abort t")
      (simp_all add: transaction_terminal_ok_def)
qed

lemma only_persisted: "only ErrCorruptStore (validatePersistedState sha st)"
  unfolding validatePersistedState_def
  by (rule only_first_err) (auto simp: list_all_iff validateTransaction_def only_parts)

lemma run_command_rejected:
  assumes p: "proposes e c (svc_state s) st'" and v: "validatePersistedState (env_sha256 e) st' \<noteq> None"
    and enc: "state_encodes (svc_state s)" and c: "\<not> is_create c"
  shows "run_command e c s = (Inl ErrCorruptStore, s)"
proof -
  from v obtain x where x: "validatePersistedState (env_sha256 e) st' = Some x" by auto
  then have "commitLocked e st' s = (Some ErrCorruptStore, s)"
    using only_persisted [of "env_sha256 e" st'] by (simp add: commitLocked_def only_def)
  with p c show ?thesis
  proof (cases rule: proposes.cases)
    case (update digest current st1 t)
    have "replayLocked (svc_state s) (cmd_operation c) (cmd_key c) digest = Inr None"
      using update(5) by (simp add: replayLocked_None)
    then show ?thesis
      using update enc \<open>commitLocked e st' s = (Some ErrCorruptStore, s)\<close>
      by (simp add: run_command_mutate mutate_def cloneState_def Let_def bump_def [symmetric] enter_def [symmetric])
  qed simp
qed

text \<open>A recording request that repeats what the preflight was asked.\<close>

definition same_approval :: "ApprovalPreflightRequest \<Rightarrow> RecordApprovalRequest \<Rightarrow> bool" where
  "same_approval p r \<longleftrightarrow>
     ra_MutationContext r = pf_MutationContext p \<and> ra_TransactionDigest r = pf_TransactionDigest p \<and>
     ra_PlanDigest r = pf_PlanDigest p \<and> ra_TargetFingerprint r = pf_TargetFingerprint p \<and>
     ra_Release r = pf_Release p \<and> ra_AllowedOperations r = pf_AllowedOperations p \<and>
     gt_instant (ra_ExpiresAt r) = gt_instant (pf_ExpiresAt p)"

lemma equalOrderedStrings_eq [simp]: "equalOrderedStrings xs ys \<longleftrightarrow> xs = ys"
  unfolding equalOrderedStrings_def list_all_iff by (auto intro: nth_equalityI)

lemma matchApprovalPreflight_bound:
  assumes s: "tx_Status t = StatusTargetBound" and m: "matchApprovalPreflight t p now = None"
  obtains claim target where
    "requireCurrentClaim t (mc_ClaimID (pf_MutationContext p)) (mc_FenceEpoch (pf_MutationContext p)) now
       (Some ClaimModeMutation) = Inr claim"
    "validateCurrentApprovalExpiry (gt_instant (pf_ExpiresAt p)) now = None"
    "tx_TransactionDigest t = pf_TransactionDigest p" "tx_Approval t = None" "tx_Operations t = []"
    "cl_AllowedStages claim = pf_AllowedOperations p" "tx_Target t = Some target"
    "tb_FenceEpoch target = mc_FenceEpoch (pf_MutationContext p)" "tb_Fingerprint target = pf_TargetFingerprint p"
    "SignedReleaseManifestDigest (pf_Release p) = tx_BundleDigest t"
    "rb_ExpectedCustomerKeyHash (pf_Release p) = tx_ExpectedCustomerKeyHash t"
proof (cases "requireCurrentClaim t (mc_ClaimID (pf_MutationContext p)) (mc_FenceEpoch (pf_MutationContext p)) now
    (Some ClaimModeMutation)")
  case (Inl err)
  then show ?thesis using m s by (simp add: matchApprovalPreflight_def Let_def orFail_def split: option.splits if_splits)
next
  case (Inr claim)
  have time: "validateCurrentApprovalPreflightTimes (gt_instant (pf_ApprovedAt p)) (gt_instant (pf_ExpiresAt p)) now = None"
    using m s by (cases "validateCurrentApprovalPreflightTimes (gt_instant (pf_ApprovedAt p)) (gt_instant (pf_ExpiresAt p)) now")
      (simp_all add: matchApprovalPreflight_def Let_def split: if_splits)
  have none: "tx_Approval t = None" "tx_Operations t = []"
    using m s Inr time by (simp_all add: matchApprovalPreflight_def Let_def split: if_splits)
  obtain target where target: "tx_Target t = Some target"
    using m s Inr time none by (cases "tx_Target t") (simp_all add: matchApprovalPreflight_def Let_def split: if_splits)
  have f: "tx_TransactionDigest t = pf_TransactionDigest p \<and> cl_AllowedStages claim = pf_AllowedOperations p \<and>
      tb_FenceEpoch target = mc_FenceEpoch (pf_MutationContext p) \<and>
      tb_Fingerprint target = pf_TargetFingerprint p \<and>
      SignedReleaseManifestDigest (pf_Release p) = tx_BundleDigest t \<and>
      rb_ExpectedCustomerKeyHash (pf_Release p) = tx_ExpectedCustomerKeyHash t"
    using m s Inr time none target by (simp add: matchApprovalPreflight_def Let_def split: if_splits)
  have "validateCurrentApprovalExpiry (gt_instant (pf_ExpiresAt p)) now = None"
    using time by (simp add: validateCurrentApprovalPreflightTimes_def)
  then show ?thesis using f none target by (intro that [OF Inr, of target]) simp_all
qed

end
