(* ===== verification/Demo_Hash.thy ===== *)
theory Demo_Hash
  imports Campaign
begin

text \<open>
  The hash function of the demonstration runs. It has two values: one for the second record of the audit
  log and for that record's receipt, one for everything else, so that the two receipts of a binding differ
  and every other digest is one text.
\<close>

definition demo_digest :: string where
  "demo_digest = ''sha256:6b6b6b6b6b6b6b6b6b6b6b6b6b6b6b6b6b6b6b6b6b6b6b6b6b6b6b6b6b6b6b6b''"

definition demo_receipt :: string where
  "demo_receipt = ''sha256:6262626262626262626262626262626262626262626262626262626262626262''"

definition second_record :: string where
  "second_record = [CHR 0x7B, CHR 0x22] @ ''sequence'' @ [CHR 0x22] @ '':2''"

definition receipt_text :: "string \<Rightarrow> string" where
  "receipt_text eventHash = ''kaiba-audit-receipt'' @ [char_of (0 :: nat)] @ eventHash"

definition demo_hash :: hash where
  "demo_hash m = (if take 13 m = second_record \<or> m = receipt_text demo_receipt
     then replicate 32 (CHR ''b'') else replicate 32 (CHR ''k''))"

lemma demo_hash_length: "\<forall>m. length (demo_hash m) = 32" by (simp add: demo_hash_def)

lemma demo_digests_valid [simp]: "validDigest demo_digest" "validDigest demo_receipt" "demo_digest \<noteq> demo_receipt"
  "demo_receipt \<noteq> demo_digest" "demo_digest \<noteq> []" "demo_receipt \<noteq> []"
  by code_simp+

lemma hash_texts: "digest_prefix @ hex_encode (replicate 32 (CHR ''k'')) = demo_digest"
  "digest_prefix @ hex_encode (replicate 32 (CHR ''b'')) = demo_receipt"
  by code_simp+

text \<open>Texts that are told apart from both in their first characters.\<close>

definition plain_text :: "string \<Rightarrow> bool" where
  "plain_text m \<longleftrightarrow> take 4 m \<noteq> take 4 second_record \<and> take 6 m \<noteq> ''kaiba-''"

lemma digest_plain: "plain_text m \<Longrightarrow> digestBytes demo_hash m = demo_digest"
proof -
  assume p: "plain_text m"
  have "take 13 m \<noteq> second_record"
  proof
    assume "take 13 m = second_record"
    then have "take 4 (take 13 m) = take 4 second_record" by simp
    then show False using p by (simp add: plain_text_def)
  qed
  moreover have "m \<noteq> receipt_text demo_receipt" using p by (auto simp: plain_text_def receipt_text_def)
  ultimately show ?thesis using hash_texts by (simp add: digestBytes_def demo_hash_def)
qed

lemma digest_receipt:
  "digestBytes demo_hash (receipt_text demo_digest) = demo_digest" "digestBytes demo_hash (receipt_text demo_receipt) = demo_receipt"
proof -
  have "take 13 (receipt_text x) \<noteq> second_record" for x by (simp add: receipt_text_def second_record_def)
  moreover have "receipt_text demo_digest \<noteq> receipt_text demo_receipt" by (simp add: receipt_text_def)
  ultimately show "digestBytes demo_hash (receipt_text demo_digest) = demo_digest"
    "digestBytes demo_hash (receipt_text demo_receipt) = demo_receipt"
    using hash_texts by (simp_all add: digestBytes_def demo_hash_def)
qed

text \<open>A digest in a domain of its own, and the digest of an object whose first member is not the sequence.\<close>

lemma plain_domain: "take 6 domain = ''kaiba.'' \<Longrightarrow> plain_text (domain @ rest)"
proof -
  assume d: "take 6 domain = ''kaiba.''"
  have "domain = ''kaiba.'' @ drop 6 domain" using append_take_drop_id [of 6 domain] d by simp
  then obtain tail where "domain = ''kaiba.'' @ tail" by blast
  then show ?thesis by (simp add: plain_text_def second_record_def)
qed

definition plain_object :: "json \<Rightarrow> bool" where
  "plain_object j = (case j of JObj ((key, v) # ms) \<Rightarrow> key = ''schema_version'' \<or> key = ''id'' | _ \<Rightarrow> False)"

lemma digestJSON_plain: "plain_object j \<Longrightarrow> marshals j \<Longrightarrow> digestJSON demo_hash j = Some demo_digest"
proof -
  assume p: "plain_object j" and m: "marshals j"
  obtain key v ms where j: "j = JObj ((key, v) # ms)" and key: "key = ''schema_version'' \<or> key = ''id''"
    using p by (auto simp: plain_object_def split: json.splits list.splits)
  have q: "quote_string ''schema_version'' = CHR 0x22 # ''schema_version'' @ [CHR 0x22]" "quote_string ''id'' = CHR 0x22 # ''id'' @ [CHR 0x22]"
    by code_simp+
  have "plain_text (render j)" using key by (cases ms) (auto simp: j q plain_text_def second_record_def)
  then show ?thesis using m digest_plain by (simp add: digestJSON_def)
qed

end
