(* ===== verification/Control_Demo.thy ===== *)
theory Control_Demo
  imports Control_Calls Demo_Hash
begin

text \<open>
  A complete run of one development transaction: creation, claim, target binding, approval, the seven
  operations with their evidence, and the terminal record; and a run whose first operation ends in
  doubt and is reconciled at another station. It shows that the hypotheses of the
  properties can hold together, and the witnesses evaluate on it.
\<close>

section \<open>Inputs\<close>

definition demo_transaction_digest :: string where
  "demo_transaction_digest = digestBytes demo_hash []"

definition demo_now :: instant where
  "demo_now = 63900000000 * second"

definition demo_expiry :: instant where
  "demo_expiry = demo_now + 3600 * second"

definition demo_env :: env where
  "demo_env = \<lparr>env_now = demo_now, env_newID = Some ''claim1'', env_sha256 = demo_hash, env_fault = None\<rparr>"

definition demo_release :: Binding where
  "demo_release = \<lparr>SignedReleaseManifestDigest = demo_digest, LaneGuardPackageDigest = demo_digest,
     CompiledArtifactSetDigest = demo_digest, rb_ExpectedCustomerKeyHash = demo_digest,
     ExpectedEEPROMDigest = demo_digest, ExpectedBootImageDigest = demo_digest\<rparr>"

definition demo_create :: CreateTransactionRequest where
  "demo_create = \<lparr>ct_SchemaVersion = CreateTransactionRequestSchemaVersion, ct_IdempotencyKey = ''create'',
     ct_TransactionID = ''tx1'', ct_AssetID = ''asset1'', ct_IntendedLogicalID = ''node1'',
     ct_ProfileID = ''rpi5'', ct_BundleDigest = demo_digest, ct_PolicyDigest = demo_digest,
     ct_ExpectedPrestateCustomerKeyHash = UnownedCustomerKeyHash, ct_ExpectedCustomerKeyHash = demo_digest\<rparr>"

definition demo_acquire :: AcquireClaimRequest where
  "demo_acquire = \<lparr>ac_SchemaVersion = AcquireClaimRequestSchemaVersion, ac_IdempotencyKey = ''acquire'',
     ac_TransactionID = ''tx1'', ac_ExpectedResourceVersion = 1, ac_StationID = ''station1'',
     ac_LaneID = ''lane1'', ac_Mode = ClaimModeMutation, ac_AllowedStages = developmentOperations,
     ac_LeaseDurationSeconds = 3600\<rparr>"

definition demo_context :: "uint64 \<Rightarrow> MutationContext" where
  "demo_context version = \<lparr>mc_TransactionID = ''tx1'', mc_ExpectedResourceVersion = version,
     mc_ClaimID = ''claim1'', mc_FenceEpoch = 1\<rparr>"

definition demo_bind :: BindTargetRequest where
  "demo_bind = \<lparr>bt_SchemaVersion = BindTargetRequestSchemaVersion, bt_IdempotencyKey = ''bind'',
     bt_MutationContext = demo_context 2, bt_TargetFingerprint = demo_digest,
     bt_ObservationDigest = demo_digest, bt_CustomerKeyHash = UnownedCustomerKeyHash\<rparr>"

definition demo_approve :: RecordApprovalRequest where
  "demo_approve = \<lparr>ra_SchemaVersion = RecordApprovalRequestSchemaVersion, ra_IdempotencyKey = ''approve'',
     ra_MutationContext = demo_context 3, ra_ApprovalID = ''approval1'', ra_ApproverID = ''approver1'',
     ra_TransactionDigest = demo_transaction_digest, ra_PlanDigest = demo_digest,
     ra_TargetFingerprint = demo_digest, ra_Release = demo_release,
     ra_AllowedOperations = developmentOperations, ra_AuditReceiptID = demo_digest,
     ra_ExpiresAt = utc demo_expiry\<rparr>"

definition demo_version :: "nat \<Rightarrow> uint64" where
  "demo_version n = of_nat (4 + 2 * n)"

definition demo_intent_key :: "nat \<Rightarrow> string" where
  "demo_intent_key n = ''intent-'' @ developmentOperations ! n"

definition demo_evidence_key :: "nat \<Rightarrow> string" where
  "demo_evidence_key n = ''evidence-'' @ developmentOperations ! n"

definition demo_intent :: "nat \<Rightarrow> RecordIntentRequest" where
  "demo_intent n = \<lparr>ri_SchemaVersion = RecordIntentRequestSchemaVersion,
     ri_IdempotencyKey = demo_intent_key n,
     ri_MutationContext = demo_context (demo_version n), ri_ApprovalID = ''approval1'',
     ri_OperationID = developmentOperations ! n, ri_Operation = developmentOperations ! n,
     ri_PlanDigest = demo_digest, ri_InputDigest = demo_digest, ri_PrestateDigest = demo_digest,
     ri_AuditReceiptID = demo_receipt\<rparr>"

definition demo_evidence :: "nat \<Rightarrow> RecordEvidenceRequest" where
  "demo_evidence n = \<lparr>re_SchemaVersion = RecordEvidenceRequestSchemaVersion,
     re_IdempotencyKey = demo_evidence_key n,
     re_MutationContext = demo_context (demo_version n + 1), re_OperationID = developmentOperations ! n,
     re_Result = EvidenceSucceeded, re_OutputDigest = demo_digest, re_ObservationDigest = demo_digest,
     re_AuditReceiptID = demo_digest\<rparr>"

definition demo_security :: "nat \<Rightarrow> SecurityAppliedRequest" where
  "demo_security n = \<lparr>sr_SchemaVersion = SecurityAppliedRequestSchemaVersion,
     sr_IdempotencyKey = ''security'', sr_MutationContext = demo_context (demo_version n),
     sr_PlanDigest = demo_digest, sr_EvidenceDigest = demo_digest, sr_AuditReceiptID = demo_digest,
     sr_RollbackStatus = ''rollback_unimplemented'', sr_ReleaseClassification = ''development_asset''\<rparr>"

primrec demo_operations :: "nat \<Rightarrow> command list" where
  "demo_operations 0 = []"
| "demo_operations (Suc n) = demo_operations n @ [CmdIntent (demo_intent n), CmdEvidence (demo_evidence n)]"

definition demo_start :: "command list" where
  "demo_start = [CmdCreate demo_create, CmdAcquire demo_acquire, CmdBind demo_bind, CmdApprove demo_approve]"

definition demo_service :: "command list \<Rightarrow> Service" where
  "demo_service cs = foldl (\<lambda>s c. snd (run_command demo_env c s)) first_service cs"

section \<open>Facts about the inputs\<close>

lemma demo_unowned_valid [simp]: "validDigest UnownedCustomerKeyHash" by code_simp
lemma demo_digest_owned [simp]: "demo_digest \<noteq> UnownedCustomerKeyHash" "UnownedCustomerKeyHash \<noteq> demo_digest"
  by (simp_all add: demo_digest_def UnownedCustomerKeyHash_def)

lemma demo_transaction_digest: "demo_transaction_digest = demo_digest"
  using digest_plain [of "[]"] by (simp add: demo_transaction_digest_def plain_text_def second_record_def)

lemma demo_digestJSON: "plain_object j \<Longrightarrow> marshals j \<Longrightarrow> digestJSON demo_hash j = Some demo_transaction_digest"
  by (simp add: digestJSON_plain demo_transaction_digest)

lemma demo_plain [simp]: "plain_object (cmd_json c)" "plain_object (json_of_Create r)" "plain_object (transactionDigestMaterial t)"
proof -
  show "plain_object (json_of_Create r)" by (simp add: plain_object_def json_of_Create_def)
  show "plain_object (transactionDigestMaterial t)" by (simp add: plain_object_def transactionDigestMaterial_def)
  show "plain_object (cmd_json c)"
    by (cases c) (simp_all add: plain_object_def json_of_Create_def json_of_Acquire_def json_of_Renew_def json_of_Transfer_def
        json_of_Release_def json_of_Bind_def json_of_RecordApproval_def json_of_RecordIntent_def json_of_RecordEvidence_def
        json_of_RecordReconciliation_def json_of_Quarantine_def json_of_Abort_def json_of_SecurityApplied_def)
qed

lemma demo_names_valid [simp]:
  "validIdentifier ''tx1''" "validIdentifier ''asset1''" "validIdentifier ''node1''" "validIdentifier ''rpi5''"
  "validIdentifier ''create''" "validIdentifier ''acquire''" "validIdentifier ''station1''"
  "validIdentifier ''lane1''" "validIdentifier ''claim1''" "validIdentifier ''bind''"
  "validIdentifier ''approve''" "validIdentifier ''approval1''" "validIdentifier ''approver1''"
  "validIdentifier ''security''"
  by code_simp+

lemma demo_operation_names:
  "list_all (\<lambda>x. validIdentifier x \<and> validIdentifier (''intent-'' @ x) \<and> validIdentifier (''evidence-'' @ x))
     developmentOperations"
  by code_simp

lemma demo_operation_name [simp]:
  "n < 7 \<Longrightarrow> validIdentifier (developmentOperations ! n)"
  "n < 7 \<Longrightarrow> validIdentifier (demo_intent_key n)"
  "n < 7 \<Longrightarrow> validIdentifier (demo_evidence_key n)"
  using demo_operation_names by (auto simp: list_all_length demo_intent_key_def demo_evidence_key_def)

lemma demo_times [simp]: "time_marshals (utc demo_now)" "time_marshals (utc demo_expiry)"
  by code_simp+


section \<open>One call of the run\<close>

lemma demo_reachable: "reachable demo_hash demo_now (demo_service cs)"
proof (induction cs rule: rev_induct)
  case Nil
  then show ?case by (simp add: demo_service_def reachable_first demo_now_def second_def)
next
  case (snoc c cs)
  obtain r s' where run: "run_command demo_env c (demo_service cs) = (r, s')" by fastforce
  have "control_step demo_hash (demo_now, demo_service cs) (env_now demo_env, s')"
    by (rule control_step.call [OF _ _ run]) (simp_all add: demo_env_def)
  then show ?case using reachable_step [OF snoc] run by (simp add: demo_service_def demo_env_def)
qed

text \<open>The store of the run: the one transaction, its fence, and the keys used so far.\<close>

definition demo_at :: "command list \<Rightarrow> Transaction \<Rightarrow> string set \<Rightarrow> bool" where
  "demo_at cs t keys \<longleftrightarrow>
     ps_Transactions (svc_state (demo_service cs)) = [(''tx1'', t)] \<and>
     fenceEpochOf (ps_FenceEpochs (svc_state (demo_service cs))) ''asset1'' = tx_FenceEpoch t \<and>
     {k. map_get (ps_Idempotency (svc_state (demo_service cs))) k \<noteq> None} = keys \<and>
     transaction_encodes t"

lemma demo_at_reachable:
  "demo_at cs t keys \<Longrightarrow> map_get (ps_Transactions (svc_state (demo_service cs))) ''tx1'' = Some t"
  by (simp add: demo_at_def map_get_def)

lemma demo_course: "course_ok demo_hash (env_now demo_env) (svc_state (demo_service cs))"
  using campaign.rel.both.in_memory [OF demo_reachable] by (simp add: demo_env_def)

lemma demo_call:
  assumes p: "proposes demo_env c (svc_state (demo_service cs)) st'"
    and f: "command_recordable demo_env c (svc_state (demo_service cs))"
    and enc: "state_encodes (svc_state (demo_service cs))" "state_encodes st'"
  shows "svc_state (demo_service (cs @ [c])) = st'"
proof -
  have "validatePersistedState demo_hash st' = None"
    by (rule candidate_valid [OF demo_course _ demo_hash_length _ p f])
      (simp_all add: demo_env_def demo_now_def second_def)
  from run_command_carried_out [OF p _ enc] this show ?thesis
    by (auto simp: demo_env_def demo_service_def)
qed

lemma demo_advance:
  assumes at: "demo_at cs t keys" and c: "\<not> is_create c" "cmd_validate c = None" "marshals (cmd_json c)"
      "cmd_key c \<notin> keys" "cmd_transaction c = ''tx1''" "cmd_version c = tx_ResourceVersion t" "cmd_version c \<noteq> 0"
      "cmd_version c + 1 \<noteq> 0" "\<not> unrecordable c t"
    and h: "\<And>st. ps_Transactions st = [(''tx1'', t)] \<Longrightarrow> fenceEpochOf (ps_FenceEpochs st) ''asset1'' = tx_FenceEpoch t \<Longrightarrow>
      \<exists>st'. cmd_handler demo_env c demo_now st t = Inr (st', t') \<and>
        fenceEpochOf (ps_FenceEpochs st') ''asset1'' = tx_FenceEpoch t'"
    and e: "transaction_encodes (bump demo_now t')" and a: "tx_AssetID t = ''asset1''" "tx_FenceEpoch t + 1 \<noteq> 0"
  shows "demo_at (cs @ [c]) (bump demo_now t') (insert (cmd_key c) keys)"
proof -
  let ?st = "svc_state (demo_service cs)"
  have st: "ps_Transactions ?st = [(''tx1'', t)]" "fenceEpochOf (ps_FenceEpochs ?st) ''asset1'' = tx_FenceEpoch t"
      "map_get (ps_Idempotency ?st) (cmd_key c) = None"
    using at c(4) by (auto simp: demo_at_def)
  from h [OF st(1,2)] obtain st1 where h1: "cmd_handler demo_env c (env_now demo_env) ?st t = Inr (st1, t')"
      and fe: "fenceEpochOf (ps_FenceEpochs st1) ''asset1'' = tx_FenceEpoch t'" by (auto simp: demo_env_def)
  define st' where "st' = enter (cmd_operation c) (cmd_key c) demo_transaction_digest (cmd_transaction c)
     (bump (env_now demo_env) t') st1"
  have get: "map_get (ps_Transactions ?st) (cmd_transaction c) = Some t" using st(1) c(5) by (simp add: map_get_def)
  have p: "proposes demo_env c ?st st'" unfolding st'_def
    using c st get h1 demo_digestJSON [OF demo_plain(1) c(3)] by (intro proposes.update) (auto simp: demo_env_def)
  have tx: "ps_Transactions st' = [(''tx1'', bump demo_now t')]"
    using handler.ap_store [OF h1] st(1) c(5) by (simp add: st'_def enter_def demo_env_def map_put_def)
  have "command_recordable demo_env c ?st"
    using get c a st(2) by (simp add: command_recordable_def counters_ok_def demo_env_def next_epoch_def)
  then have "svc_state (demo_service (cs @ [c])) = st'"
    by (rule demo_call [OF p]) (use at tx e in \<open>auto simp: state_encodes_def demo_at_def\<close>)
  then show ?thesis
    using tx fe e at handler.ap_store [OF h1] by (auto simp: demo_at_def st'_def enter_def)
qed


section \<open>The transaction along the run\<close>

definition demo_created :: Transaction where
  "demo_created = (new_transaction demo_create demo_now)\<lparr>tx_TransactionDigest := demo_transaction_digest\<rparr>"

definition demo_claim :: Claim where
  "demo_claim = new_claim ''claim1'' ClaimModeMutation ''station1'' ''lane1'' ''asset1'' 1
     developmentOperations demo_now 3600"

definition demo_claimed :: Transaction where
  "demo_claimed = demo_created\<lparr>tx_ResourceVersion := 2, tx_Status := StatusClaimed, tx_FenceEpoch := 1,
     tx_ActiveClaim := Some demo_claim\<rparr>"

definition demo_bound :: Transaction where
  "demo_bound = demo_claimed\<lparr>tx_ResourceVersion := 3, tx_Status := StatusTargetBound,
     tx_Target := Some \<lparr>tb_Fingerprint = demo_digest, tb_ObservationDigest = demo_digest,
       tb_CustomerKeyHash = UnownedCustomerKeyHash, tb_BoundAt = demo_now, tb_FenceEpoch = 1\<rparr>\<rparr>"

definition demo_approval :: Approval where
  "demo_approval = approval_of demo_approve demo_claim demo_now"

definition demo_started :: "nat \<Rightarrow> OperationRecord" where
  "demo_started n = intent_record (demo_intent n) demo_claim demo_approval demo_now"

definition demo_finished :: "nat \<Rightarrow> OperationRecord" where
  "demo_finished n = (evidence_record (demo_evidence n) demo_now (demo_started n))\<lparr>op_Status := OperationSucceeded\<rparr>"

text \<open>After \<open>n\<close> operations, and with operation \<open>n\<close> under way.\<close>

definition demo_ready :: "nat \<Rightarrow> Transaction" where
  "demo_ready n = demo_bound\<lparr>tx_ResourceVersion := demo_version n, tx_Status := StatusCommitApproved,
     tx_Approval := Some demo_approval, tx_Operations := map demo_finished [0 ..< n]\<rparr>"

definition demo_open :: "nat \<Rightarrow> Transaction" where
  "demo_open n = (demo_ready n)\<lparr>tx_ResourceVersion := demo_version n + 1,
     tx_Status := StatusMutationInProgress,
     tx_Operations := map demo_finished [0 ..< n] @ [demo_started n]\<rparr>"

definition demo_secured :: "nat \<Rightarrow> Transaction" where
  "demo_secured n = (demo_ready n)\<lparr>tx_ResourceVersion := demo_version n + 1,
     tx_Status := StatusSecurityApplied,
     tx_SecurityApplied := Some \<lparr>sa_EvidenceDigest = demo_digest, sa_AuditReceiptID = demo_digest,
       sa_RollbackStatus = ''rollback_unimplemented'', sa_ReleaseClassification = ''development_asset'',
       sa_RecordedAt = demo_now\<rparr>\<rparr>"

lemmas demo_tx_defs = demo_created_def new_transaction_def demo_create_def demo_claimed_def demo_bound_def
  demo_ready_def demo_open_def demo_secured_def

lemmas demo_op_defs = demo_finished_def evidence_record_def demo_started_def intent_record_def
  demo_intent_def demo_evidence_def

lemma demo_lease_end: "cl_ExpiresAt demo_claim = demo_expiry"
  by (simp add: demo_claim_def demo_expiry_def seconds_def)

lemma demo_now_before: "demo_now < demo_expiry" "demo_now \<noteq> 0" "0 < demo_now" "demo_expiry \<noteq> 0"
  by (simp_all add: demo_expiry_def demo_now_def second_def)

lemma gt_instant_utc [simp]: "gt_instant (utc x) = x"
  by (simp add: utc_def)

lemma demo_claim_times: "list_all (\<lambda>i. time_marshals (utc i)) (claim_times demo_claim)"
  using demo_lease_end by (simp add: claim_times_def) (simp add: demo_claim_def)

lemma demo_approval_times: "list_all (\<lambda>i. time_marshals (utc i)) (approval_times demo_approval)"
  by (simp add: approval_times_def demo_approval_def approval_of_def demo_approve_def)

lemma demo_operation_times:
  "list_all (\<lambda>i. time_marshals (utc i)) (operation_times (demo_started n))"
  "list_all (\<lambda>i. time_marshals (utc i)) (operation_times (demo_finished n))"
  using demo_approval_times
  by (simp_all add: operation_times_def demo_op_defs)
    (simp_all add: demo_approval_def approval_of_def demo_approve_def)

lemma demo_encodes:
  "transaction_encodes demo_created" "transaction_encodes demo_claimed" "transaction_encodes demo_bound"
  "transaction_encodes (demo_ready n)" "transaction_encodes (demo_open n)" "transaction_encodes (demo_secured n)"
  using demo_claim_times demo_approval_times demo_operation_times
  by (auto simp: transaction_encodes_def transaction_times_def demo_tx_defs list_all_iff)

lemma demo_stages: "validateStringSet developmentOperations (Suc 0) 32 = None"
  using demo_operation_names by (simp add: validateStringSet_None list_all_iff)

lemma demo_seconds: "validateLease 3600 = None"
  by (simp add: validateLease_def Let_def seconds_def minimumLease_def maximumLease_def second_def)

lemma demo_step_create: "demo_at [CmdCreate demo_create] demo_created {''create''}"
proof -
  let ?st = "enter ''create_transaction'' ''create'' demo_transaction_digest ''tx1'' demo_created initial_state"
  have s0: "svc_state (demo_service []) = initial_state" by (simp add: demo_service_def first_service_def)
  have p: "proposes demo_env (CmdCreate demo_create) (svc_state (demo_service [])) ?st"
    unfolding s0 demo_created_def
    using proposes.create [of demo_create demo_env demo_transaction_digest initial_state demo_transaction_digest]
    by (simp add: demo_env_def demo_digestJSON plain_object_def json_of_Create_def validateCreateRequest_def validateEnvelope_None
        initial_state_def transactionDigest_def transactionDigestMaterial_def)
      (simp add: demo_create_def)
  have "svc_state (demo_service ([] @ [CmdCreate demo_create])) = ?st"
    by (rule demo_call [OF p])
      (use demo_encodes(1) in \<open>auto simp: s0 command_recordable_def initial_state_def state_encodes_def enter_def map_put_def\<close>)
  then show ?thesis
    by (simp add: demo_at_def enter_def initial_state_def demo_encodes map_put_def map_get_def fenceEpochOf_def)
      (simp add: demo_tx_defs)
qed


lemmas demo_request_checks = validateEnvelope_None validateMutationContext_None demo_context_def
  demo_stages demo_seconds fields_of_MutationContext_def juint64_def juint32_def jstrings_def unsupportedMode_def
  list_all_iff

lemma demo_step_acquire:
  "demo_at [CmdCreate demo_create, CmdAcquire demo_acquire] demo_claimed {''acquire'', ''create''}"
proof -
  have c: "cmd_validate (CmdAcquire demo_acquire) = None" "marshals (cmd_json (CmdAcquire demo_acquire))"
    by (simp_all add: demo_acquire_def validateAcquireClaimRequest_def json_of_Acquire_def demo_request_checks)
  define t' where "t' = install_claim [] demo_claim demo_created"
  have t': "bump demo_now t' = demo_claimed"
    by (simp add: t'_def bump_def install_claim_def claimed_status_def demo_tx_defs demo_claim_def new_claim_def)
  have h: "\<exists>st'. cmd_handler demo_env (CmdAcquire demo_acquire) demo_now st demo_created = Inr (st', t') \<and>
      fenceEpochOf (ps_FenceEpochs st') ''asset1'' = tx_FenceEpoch t'"
    if "ps_Transactions st = [(''tx1'', demo_created)]" "fenceEpochOf (ps_FenceEpochs st) ''asset1'' = tx_FenceEpoch demo_created" for st
    using that
    by (simp add: acquire_apply_Inr t'_def demo_acquire_def demo_env_def demo_claim_def
        ensureClaimResourcesAvailable_None validateClaimModeForStatus_None hasConfirmedNotAppliedOperation_def
        raise_fence_def next_epoch_def fenceEpochOf_def [of "map_put _ _ _"])
      (simp add: demo_tx_defs)
  have "demo_at ([CmdCreate demo_create] @ [CmdAcquire demo_acquire]) (bump demo_now t')
      (insert (cmd_key (CmdAcquire demo_acquire)) {''create''})"
    by (rule demo_advance [OF demo_step_create _ c _ _ _ _ _ _ h])
      (simp_all add: demo_acquire_def unrecordable_def t' demo_encodes, simp_all add: demo_tx_defs)
  then show ?thesis by (simp add: t' demo_acquire_def insert_commute)
qed

lemma demo_step_bind:
  "demo_at [CmdCreate demo_create, CmdAcquire demo_acquire, CmdBind demo_bind] demo_bound
     {''bind'', ''acquire'', ''create''}"
proof -
  have c: "cmd_validate (CmdBind demo_bind) = None" "marshals (cmd_json (CmdBind demo_bind))"
    by (simp_all add: demo_bind_def validateBindTargetRequest_def json_of_Bind_def demo_request_checks)
  define t' where "t' = demo_bound\<lparr>tx_ResourceVersion := 2\<rparr>"
  have t': "bump demo_now t' = demo_bound"
    by (simp add: t'_def bump_def demo_tx_defs)
  have h: "\<exists>st'. cmd_handler demo_env (CmdBind demo_bind) demo_now st demo_claimed = Inr (st', t') \<and>
      fenceEpochOf (ps_FenceEpochs st') ''asset1'' = tx_FenceEpoch t'"
    if "fenceEpochOf (ps_FenceEpochs st) ''asset1'' = tx_FenceEpoch demo_claimed" for st
    using that demo_now_before demo_lease_end
    by (simp add: bind_apply_Inr requireCurrentClaim_Inr t'_def demo_bind_def demo_context_def)
      (simp add: demo_tx_defs demo_claim_def new_claim_def)
  have "demo_at ([CmdCreate demo_create, CmdAcquire demo_acquire] @ [CmdBind demo_bind]) (bump demo_now t')
      (insert (cmd_key (CmdBind demo_bind)) {''acquire'', ''create''})"
    by (rule demo_advance [OF demo_step_acquire _ c _ _ _ _ _ _ h])
      (simp_all add: demo_bind_def demo_context_def unrecordable_def t' demo_encodes, simp_all add: demo_tx_defs)
  then show ?thesis by (simp add: t' demo_bind_def)
qed

lemma demo_release_valid: "Binding_Validate demo_release"
  using ParseDigest_validDigest [of demo_digest] by (simp add: Binding_Validate_def demo_release_def)

lemma demo_step_approve: "demo_at demo_start (demo_ready 0) {''approve'', ''bind'', ''acquire'', ''create''}"
proof -
  have c: "cmd_validate (CmdApprove demo_approve) = None" "marshals (cmd_json (CmdApprove demo_approve))"
    using demo_now_before validDigest_digestBytes [of demo_hash "[]"] demo_hash_length
    by (simp_all add: demo_approve_def validateRecordApprovalRequest_def json_of_RecordApproval_def
        demo_request_checks demo_release_valid json_of_Binding_def
        demo_transaction_digest_def)
  define t' where "t' = (demo_ready 0)\<lparr>tx_ResourceVersion := 3\<rparr>"
  have t': "bump demo_now t' = demo_ready 0"
    by (simp add: t'_def bump_def demo_tx_defs demo_version_def)
  have h: "\<exists>st'. cmd_handler demo_env (CmdApprove demo_approve) demo_now st demo_bound = Inr (st', t') \<and>
      fenceEpochOf (ps_FenceEpochs st') ''asset1'' = tx_FenceEpoch t'"
    if "fenceEpochOf (ps_FenceEpochs st) ''asset1'' = tx_FenceEpoch demo_bound" for st
  proof -
    have "validateCurrentApprovalExpiry demo_expiry demo_now = None"
      by (simp add: validateCurrentApprovalExpiry_def demo_expiry_def maximumApprovalLifetime_def second_def)
    then show ?thesis using that demo_now_before demo_lease_end
      by (simp add: approval_apply_Inr requireCurrentClaim_Inr t'_def demo_approval_def)
        (simp add: demo_tx_defs demo_claim_def new_claim_def demo_approve_def demo_context_def demo_release_def demo_version_def demo_approval_def)
  qed
  have "demo_at ([CmdCreate demo_create, CmdAcquire demo_acquire, CmdBind demo_bind] @ [CmdApprove demo_approve])
      (bump demo_now t') (insert (cmd_key (CmdApprove demo_approve)) {''bind'', ''acquire'', ''create''})"
    by (rule demo_advance [OF demo_step_bind _ c _ _ _ _ _ _ h])
      (simp_all add: demo_approve_def demo_context_def unrecordable_def t' demo_encodes, simp_all add: demo_tx_defs)
  then show ?thesis by (simp add: t' demo_approve_def demo_start_def)
qed


text \<open>Operation \<open>n\<close>: intent, then evidence. The keys used are those of the operations before.\<close>

definition demo_keys :: "nat \<Rightarrow> string set" where
  "demo_keys n = {''approve'', ''bind'', ''acquire'', ''create''} \<union>
     demo_intent_key ` {..<n} \<union>
     demo_evidence_key ` {..<n}"

lemma demo_keys_Suc:
  "demo_keys (Suc n) = insert (demo_evidence_key n)
     (insert (demo_intent_key n) (demo_keys n))"
  by (auto simp: demo_keys_def lessThan_Suc)

lemma demo_name_fresh: "n < 7 \<Longrightarrow> i < n \<Longrightarrow> developmentOperations ! n \<noteq> developmentOperations ! i"
  by (simp add: nth_eq_iff_index_eq)

lemma demo_keys_fresh:
  assumes "n < 7"
  shows "demo_intent_key n \<notin> demo_keys n"
    and "demo_evidence_key n \<notin> insert (demo_intent_key n) (demo_keys n)"
  using demo_name_fresh [OF assms] by (auto simp: demo_keys_def demo_intent_key_def demo_evidence_key_def)

lemma demo_version_Suc: "demo_version (Suc n) = demo_version n + 1 + 1"
  by (simp add: demo_version_def)

lemma demo_versions_fit:
  assumes "n \<le> 7"
  shows "demo_version n \<noteq> 0" "demo_version n + 1 \<noteq> 0" "demo_version n + 1 + 1 \<noteq> 0"
proof -
  from assms have "n \<in> {0, 1, 2, 3, 4, 5, 6, 7}" by auto
  then show "demo_version n \<noteq> 0" "demo_version n + 1 \<noteq> 0" "demo_version n + 1 + 1 \<noteq> 0"
    by (auto simp: demo_version_def)
qed

lemma demo_finished_simps [simp]:
  "op_Status (demo_finished n) = OperationSucceeded" "op_ID (demo_finished n) = developmentOperations ! n"
  "op_Operation (demo_finished n) = developmentOperations ! n"
  "op_Status (demo_started n) = OperationIntentRecorded" "op_ID (demo_started n) = developmentOperations ! n"
  by (simp_all add: demo_op_defs)

lemma demo_step_intent:
  assumes n: "n < 7" and at: "demo_at cs (demo_ready n) (demo_keys n)"
  shows "demo_at (cs @ [CmdIntent (demo_intent n)]) (demo_open n)
     (insert (demo_intent_key n) (demo_keys n))"
proof -
  have c: "cmd_validate (CmdIntent (demo_intent n)) = None" "marshals (cmd_json (CmdIntent (demo_intent n)))"
    using n demo_versions_fit [of n]
    by (simp_all add: demo_intent_def validateRecordIntentRequest_def json_of_RecordIntent_def demo_request_checks)
  define t' where "t' = (demo_open n)\<lparr>tx_ResourceVersion := demo_version n\<rparr>"
  have t': "bump demo_now t' = demo_open n" by (simp add: t'_def bump_def demo_tx_defs)
  have "completedApprovedOperations (map demo_finished [0 ..< n]) = n"
    using completedApproved_all [of "map demo_finished [0 ..< n]"] by (simp add: completed_def)
  moreover have "intent_loop (developmentOperations ! n) (map demo_finished [0 ..< n]) = None"
    using demo_name_fresh [OF n] by (fastforce simp: intent_loop_None)
  moreover have "developmentOperations ! n \<in> set developmentOperations" using n by (simp add: nth_mem)
  ultimately have h: "\<exists>st'. cmd_handler demo_env (CmdIntent (demo_intent n)) demo_now st (demo_ready n) = Inr (st', t') \<and>
      fenceEpochOf (ps_FenceEpochs st') ''asset1'' = tx_FenceEpoch t'"
    if "fenceEpochOf (ps_FenceEpochs st) ''asset1'' = tx_FenceEpoch (demo_ready n)" for st
    using that n demo_now_before demo_lease_end
    by (simp add: intent_apply_Inr requireCurrentClaim_Inr requireCurrentApproval_Inr t'_def demo_started_def)
      (simp add: demo_tx_defs demo_claim_def new_claim_def demo_intent_def demo_context_def demo_approval_def
        approval_of_def demo_approve_def demo_release_def demo_started_def)
  have "demo_at (cs @ [CmdIntent (demo_intent n)]) (bump demo_now t')
      (insert (cmd_key (CmdIntent (demo_intent n))) (demo_keys n))"
    by (rule demo_advance [OF at _ c _ _ _ _ _ _ h])
      (use n demo_versions_fit [of n] demo_keys_fresh(1) [OF n] in
        \<open>simp_all add: demo_intent_def demo_context_def unrecordable_def t' demo_encodes\<close>,
       simp_all add: demo_tx_defs)
  then show ?thesis by (simp add: t' demo_intent_def)
qed

lemma demo_step_evidence:
  assumes n: "n < 7" and at: "demo_at cs (demo_open n) (insert (demo_intent_key n) (demo_keys n))"
  shows "demo_at (cs @ [CmdEvidence (demo_evidence n)]) (demo_ready (Suc n)) (demo_keys (Suc n))"
proof -
  have c: "cmd_validate (CmdEvidence (demo_evidence n)) = None" "marshals (cmd_json (CmdEvidence (demo_evidence n)))"
    using n demo_versions_fit [of n]
    by (simp_all add: demo_evidence_def validateRecordEvidenceRequest_def json_of_RecordEvidence_def demo_request_checks)
  define t' where "t' = (demo_ready (Suc n))\<lparr>tx_ResourceVersion := demo_version n + 1\<rparr>"
  have t': "bump demo_now t' = demo_ready (Suc n)" by (simp add: t'_def bump_def demo_tx_defs demo_version_Suc)
  have h: "\<exists>st'. cmd_handler demo_env (CmdEvidence (demo_evidence n)) demo_now st (demo_open n) = Inr (st', t') \<and>
      fenceEpochOf (ps_FenceEpochs st') ''asset1'' = tx_FenceEpoch t'"
    if "fenceEpochOf (ps_FenceEpochs st) ''asset1'' = tx_FenceEpoch (demo_open n)" for st
    using that n demo_now_before demo_lease_end
    by (simp add: evidence_apply_Inr requireCurrentClaim_Inr t'_def evidence_outcome.simps Let_def)
      (simp add: demo_tx_defs demo_claim_def new_claim_def demo_evidence_def demo_context_def
        demo_finished_def)
  have "demo_at (cs @ [CmdEvidence (demo_evidence n)]) (bump demo_now t')
      (insert (cmd_key (CmdEvidence (demo_evidence n))) (insert (demo_intent_key n) (demo_keys n)))"
    by (rule demo_advance [OF at _ c _ _ _ _ _ _ h])
      (use n demo_versions_fit [of n] demo_keys_fresh(2) [OF n] in
        \<open>simp_all add: demo_evidence_def demo_context_def unrecordable_def t' demo_encodes\<close>,
       simp_all add: demo_tx_defs)
  then show ?thesis by (simp add: t' demo_evidence_def demo_keys_Suc)
qed

lemma demo_after: "n \<le> 7 \<Longrightarrow> demo_at (demo_start @ demo_operations n) (demo_ready n) (demo_keys n)"
proof (induction n)
  case 0
  then show ?case using demo_step_approve by (simp add: demo_keys_def)
next
  case (Suc n)
  then show ?case
    using demo_step_evidence [OF _ demo_step_intent, of n "demo_start @ demo_operations n"] by simp
qed

lemma demo_during:
  "n < 7 \<Longrightarrow> demo_at (demo_start @ demo_operations n @ [CmdIntent (demo_intent n)]) (demo_open n)
     (insert (demo_intent_key n) (demo_keys n))"
  using demo_step_intent [OF _ demo_after, of n] by simp


lemma demo_under: "under_approval (demo_finished n) demo_approval"
  by (simp add: under_approval_def demo_op_defs)
    (simp add: demo_approval_def approval_of_def demo_approve_def)

lemma demo_complete_at:
  assumes n: "n = 7"
  shows "demo_at (demo_start @ demo_operations n @ [CmdSecurityApplied (demo_security n)]) (demo_secured n)
     (insert ''security'' (demo_keys n))"
proof -
  have c: "cmd_validate (CmdSecurityApplied (demo_security n)) = None"
      "marshals (cmd_json (CmdSecurityApplied (demo_security n)))"
    using demo_versions_fit [of n] n
    by (simp_all add: demo_security_def validateSecurityAppliedRequest_def json_of_SecurityApplied_def demo_request_checks)
  define t' where "t' = (demo_secured n)\<lparr>tx_ResourceVersion := demo_version n\<rparr>"
  have t': "bump demo_now t' = demo_secured n" by (simp add: t'_def bump_def demo_tx_defs)
  have names: "map op_Operation (map demo_finished [0 ..< n]) = developmentOperations"
    using n by (simp add: list_eq_iff_nth_eq del: upt_rec_numeral)
  have camp: "validateCompletedDevelopmentCampaign (map demo_finished [0 ..< n]) (Some demo_approval) = None"
    by (rule validateCompletedDevelopmentCampaign_intro [OF _ names])
      (auto simp: demo_under completed_def, simp add: demo_approval_def approval_of_def demo_approve_def)
  have ctx: "sr_MutationContext (demo_security n) = demo_context (demo_version n)"
    "sr_PlanDigest (demo_security n) = demo_digest" by (simp_all add: demo_security_def)
  have rc: "requireCurrentClaim (demo_ready n) ''claim1'' 1 demo_now (Some ClaimModeMutation) = Inr demo_claim"
    using demo_now_before demo_lease_end
    by (simp add: requireCurrentClaim_Inr) (simp add: demo_tx_defs demo_claim_def)
  have ra: "requireCurrentApproval (demo_ready n) demo_claim (ap_ID demo_approval) demo_digest demo_now = Inr demo_approval"
    using demo_now_before
    by (simp add: requireCurrentApproval_Inr)
      (simp add: demo_tx_defs demo_approval_def approval_of_def demo_approve_def demo_release_def demo_claim_def)
  have "security_apply (demo_security n) demo_now st (demo_ready n) = Inr (st, t')" for st
    unfolding security_apply_Inr ctx
    by (intro exI [of _ demo_claim] exI [of _ demo_approval] conjI)
      (use rc ra camp in \<open>simp_all add: demo_context_def\<close>,
       simp_all add: t'_def demo_tx_defs demo_security_def)
  then have h: "\<exists>st'. cmd_handler demo_env (CmdSecurityApplied (demo_security n)) demo_now st (demo_ready n) = Inr (st', t') \<and>
      fenceEpochOf (ps_FenceEpochs st') ''asset1'' = tx_FenceEpoch t'"
    if "fenceEpochOf (ps_FenceEpochs st) ''asset1'' = tx_FenceEpoch (demo_ready n)" for st
    using that by (simp add: t'_def demo_secured_def)
  have key: "cmd_key (CmdSecurityApplied (demo_security n)) \<notin> demo_keys n"
    by (auto simp: demo_security_def demo_keys_def demo_intent_key_def demo_evidence_key_def)
  have "demo_at ((demo_start @ demo_operations n) @ [CmdSecurityApplied (demo_security n)]) (bump demo_now t')
      (insert (cmd_key (CmdSecurityApplied (demo_security n))) (demo_keys n))"
    by (rule demo_advance [OF demo_after _ c key _ _ _ _ _ h])
      (use n demo_versions_fit [of n] in
        \<open>simp_all add: demo_security_def demo_context_def unrecordable_def t' demo_encodes\<close>,
       simp_all add: demo_tx_defs)
  then show ?thesis by (simp add: t' demo_security_def)
qed

definition demo_run :: "command list" where
  "demo_run = demo_start @ demo_operations 7 @ [CmdSecurityApplied (demo_security 7)]"

lemma demo_complete:
  "map_get (ps_Transactions (svc_state (demo_service demo_run))) ''tx1'' = Some (demo_secured 7)"
  using demo_at_reachable [OF demo_complete_at [OF refl]] by (simp add: demo_run_def)

section \<open>A run with a doubtful outcome\<close>

text \<open>The first operation ends with uncertain evidence; the claim is transferred to another station for
  reconciliation, which finds that the operation was not applied.\<close>

definition demo_uncertain :: RecordEvidenceRequest where
  "demo_uncertain = (demo_evidence 0)\<lparr>re_Result := EvidenceUncertain\<rparr>"

definition demo_transfer :: TransferClaimRequest where
  "demo_transfer = \<lparr>tr_SchemaVersion = TransferClaimRequestSchemaVersion, tr_IdempotencyKey = ''transfer'',
     tr_TransactionID = ''tx1'', tr_ExpectedResourceVersion = 6, tr_ClaimID = ''claim1'', tr_FenceEpoch = 1,
     tr_NewStationID = ''station2'', tr_NewLaneID = ''lane2'', tr_Mode = ClaimModeReconciliation,
     tr_AllowedStages = developmentOperations, tr_LeaseDurationSeconds = 3600\<rparr>"

definition demo_reconcile :: "ReconciliationResolution \<Rightarrow> RecordReconciliationRequest" where
  "demo_reconcile res = \<lparr>rr_SchemaVersion = RecordReconciliationRequestSchemaVersion,
     rr_IdempotencyKey = ''reconcile'', rr_MutationContext = (demo_context 7)\<lparr>mc_FenceEpoch := 2\<rparr>,
     rr_OperationID = developmentOperations ! 0, rr_Resolution = res, rr_OutputDigest = [],
     rr_ObservationDigest = demo_digest, rr_AuditReceiptID = demo_digest\<rparr>"

definition demo_doubt :: Transaction where
  "demo_doubt = bump demo_now (evidence_outcome demo_uncertain demo_now (demo_started 0) (demo_open 0))"

definition demo_claim2 :: Claim where
  "demo_claim2 = new_claim ''claim1'' ClaimModeReconciliation ''station2'' ''lane2'' ''asset1'' 2
     developmentOperations demo_now 3600"

definition demo_moved :: Transaction where
  "demo_moved = bump demo_now (install_claim [close_claim ClaimTransferred demo_now demo_claim] demo_claim2 demo_doubt)"

definition demo_rejected :: Transaction where
  "demo_rejected = bump demo_now (reconciliation_outcome (demo_reconcile ResolutionConfirmedNotApplied) demo_now 0 demo_moved)"

definition demo_doubtful_run :: "command list" where
  "demo_doubtful_run = demo_start @ [CmdIntent (demo_intent 0), CmdEvidence demo_uncertain, CmdTransfer demo_transfer]"

lemma demo_names2 [simp]:
  "validIdentifier ''transfer''" "validIdentifier ''station2''" "validIdentifier ''lane2''"
  "validIdentifier ''reconcile''"
  by code_simp+

lemma demo_lease_end2: "cl_ExpiresAt demo_claim2 = demo_expiry"
  by (simp add: demo_claim2_def demo_expiry_def seconds_def)

lemma demo_op_times2:
  "list_all (\<lambda>i. time_marshals (utc i)) (operation_times ((evidence_record r demo_now (demo_started n))\<lparr>op_Status := x\<rparr>))"
  "list_all (\<lambda>i. time_marshals (utc i)) (operation_times ((reconciliation_record r' demo_now
     ((evidence_record r demo_now (demo_started n))\<lparr>op_Status := x\<rparr>))\<lparr>op_Status := y\<rparr>))"
  using demo_operation_times(1) [of n]
  by (simp_all add: operation_times_def evidence_record_def reconciliation_record_def)

lemma demo_doubt_ops: "tx_Operations demo_doubt = [(evidence_record demo_uncertain demo_now (demo_started 0))
    \<lparr>op_Status := OperationUncertain\<rparr>]"
  by (simp add: demo_doubt_def evidence_outcome.simps Let_def demo_uncertain_def) (simp add: demo_open_def)

lemma demo_doubt_fields:
  "tx_Status demo_doubt = StatusReconciliationRequired" "tx_ResourceVersion demo_doubt = 6"
  "tx_FenceEpoch demo_doubt = 1" "tx_AssetID demo_doubt = ''asset1''" "tx_ID demo_doubt = ''tx1''"
  "tx_ActiveClaim demo_doubt = Some demo_claim" "tx_ClaimHistory demo_doubt = []"
  by (simp_all add: demo_doubt_def evidence_outcome.simps Let_def demo_uncertain_def)
    (simp_all add: demo_tx_defs demo_version_def)

lemma demo_encodes2:
  "transaction_encodes demo_doubt" "transaction_encodes demo_moved" "transaction_encodes demo_rejected"
proof -
  have c: "list_all (\<lambda>i. time_marshals (utc i)) (claim_times demo_claim2)"
      "list_all (\<lambda>i. time_marshals (utc i)) (claim_times (close_claim ClaimTransferred demo_now demo_claim))"
    using demo_lease_end demo_lease_end2 demo_claim_times
    by (simp_all add: claim_times_def) (simp_all add: demo_claim2_def demo_claim_def)
  show 1: "transaction_encodes demo_doubt"
    using demo_claim_times demo_op_times2(1) [where r = demo_uncertain and n = 0 and x = OperationUncertain]
    by (simp add: transaction_encodes_def transaction_times_def demo_doubt_def evidence_outcome.simps Let_def
        demo_uncertain_def bump_def)
      (simp add: demo_tx_defs)
  show 2: "transaction_encodes demo_moved"
    using 1 c
    by (simp add: transaction_encodes_def transaction_times_def demo_moved_def install_claim_def bump_def
        split: option.splits)
  have ops: "tx_Operations demo_moved = tx_Operations demo_doubt" by (simp add: demo_moved_def)
  show "transaction_encodes demo_rejected"
    using 2 demo_op_times2(2) [where r = demo_uncertain and n = 0 and x = OperationUncertain
        and r' = "demo_reconcile ResolutionConfirmedNotApplied" and y = OperationConfirmedNotApplied]
    by (simp add: transaction_encodes_def transaction_times_def demo_rejected_def reconciliation_outcome_def
        Let_def bump_def ops demo_doubt_ops demo_reconcile_def [of ResolutionConfirmedNotApplied]
        split: option.splits)
qed

lemma demo_step_uncertain:
  "demo_at (demo_start @ [CmdIntent (demo_intent 0), CmdEvidence demo_uncertain]) demo_doubt
     {demo_evidence_key 0, demo_intent_key 0, ''approve'', ''bind'', ''acquire'', ''create''}"
proof -
  have at: "demo_at (demo_start @ [CmdIntent (demo_intent 0)]) (demo_open 0)
     {demo_intent_key 0, ''approve'', ''bind'', ''acquire'', ''create''}"
    using demo_during [of 0] by (simp add: demo_keys_def)
  have c: "cmd_validate (CmdEvidence demo_uncertain) = None" "marshals (cmd_json (CmdEvidence demo_uncertain))"
    using demo_versions_fit [of 0]
    by (simp_all add: demo_uncertain_def demo_evidence_def validateRecordEvidenceRequest_def
        json_of_RecordEvidence_def demo_request_checks)
  let ?t = "evidence_outcome demo_uncertain demo_now (demo_started 0) (demo_open 0)"
  have h: "\<exists>st'. cmd_handler demo_env (CmdEvidence demo_uncertain) demo_now st (demo_open 0) = Inr (st', ?t) \<and>
      fenceEpochOf (ps_FenceEpochs st') ''asset1'' = tx_FenceEpoch ?t"
    if "fenceEpochOf (ps_FenceEpochs st) ''asset1'' = tx_FenceEpoch (demo_open 0)" for st
    using that demo_now_before demo_lease_end
    by (simp add: evidence_apply_Inr requireCurrentClaim_Inr)
      (simp add: demo_tx_defs demo_claim_def new_claim_def demo_uncertain_def demo_evidence_def demo_context_def)
  have "demo_at ((demo_start @ [CmdIntent (demo_intent 0)]) @ [CmdEvidence demo_uncertain]) (bump demo_now ?t)
      (insert (cmd_key (CmdEvidence demo_uncertain)) {demo_intent_key 0, ''approve'', ''bind'', ''acquire'', ''create''})"
    by (rule demo_advance [OF at _ c _ _ _ _ _ _ h])
      (use demo_versions_fit [of 0] demo_keys_fresh(2) [of 0] demo_encodes2(1) in
        \<open>simp_all add: demo_uncertain_def demo_evidence_def demo_context_def unrecordable_def demo_keys_def
           demo_doubt_def [symmetric]\<close>,
       simp_all add: demo_tx_defs demo_doubt_def demo_uncertain_def demo_evidence_def demo_context_def)
  then show ?thesis by (simp add: demo_doubt_def [symmetric]) (simp add: demo_uncertain_def demo_evidence_def)
qed

lemma demo_step_transfer:
  "demo_at demo_doubtful_run demo_moved
     {''transfer'', demo_evidence_key 0, demo_intent_key 0, ''approve'', ''bind'', ''acquire'', ''create''}"
proof -
  have c: "cmd_validate (CmdTransfer demo_transfer) = None" "marshals (cmd_json (CmdTransfer demo_transfer))"
    by (simp_all add: demo_transfer_def validateTransferClaimRequest_def json_of_Transfer_def tr_context_def
        demo_request_checks)
  let ?t = "install_claim [close_claim ClaimTransferred demo_now demo_claim] demo_claim2 demo_doubt"
  have h: "\<exists>st'. cmd_handler demo_env (CmdTransfer demo_transfer) demo_now st demo_doubt = Inr (st', ?t) \<and>
      fenceEpochOf (ps_FenceEpochs st') ''asset1'' = tx_FenceEpoch ?t"
    if "ps_Transactions st = [(''tx1'', demo_doubt)]" "fenceEpochOf (ps_FenceEpochs st) ''asset1'' = tx_FenceEpoch demo_doubt" for st
    using that demo_now_before demo_lease_end
    by (simp add: transfer_apply_Inr requireCurrentClaim_Inr demo_doubt_fields demo_transfer_def demo_env_def
        ensureClaimResourcesAvailable_None validateClaimModeForStatus_None raise_fence_def next_epoch_def
        fenceEpochOf_def [of "map_put _ _ _"] demo_claim2_def)
      (simp add: demo_claim_def)
  have "demo_at ((demo_start @ [CmdIntent (demo_intent 0), CmdEvidence demo_uncertain]) @ [CmdTransfer demo_transfer])
      (bump demo_now ?t) (insert (cmd_key (CmdTransfer demo_transfer))
        {demo_evidence_key 0, demo_intent_key 0, ''approve'', ''bind'', ''acquire'', ''create''})"
    by (rule demo_advance [OF demo_step_uncertain _ c _ _ _ _ _ _ h])
      (use demo_encodes2(2) in \<open>simp_all add: demo_doubt_fields demo_transfer_def unrecordable_def demo_moved_def [symmetric]\<close>,
       simp_all add: demo_moved_def demo_intent_key_def demo_evidence_key_def demo_transfer_def)
  then show ?thesis by (simp add: demo_moved_def demo_doubtful_run_def demo_transfer_def)
qed

lemma demo_moved_fields:
  "tx_Status demo_moved = StatusReconciliationRequired" "tx_ResourceVersion demo_moved = 7"
  "tx_FenceEpoch demo_moved = 2" "tx_AssetID demo_moved = ''asset1''" "tx_ActiveClaim demo_moved = Some demo_claim2"
  "tx_Operations demo_moved = tx_Operations demo_doubt"
  by (simp_all add: demo_moved_def claimed_status_def demo_doubt_fields)
    (simp_all add: demo_claim2_def install_claim_def demo_doubt_fields)

lemma demo_reconcile_applies:
  "reconciliation_apply (demo_reconcile res) demo_now st demo_moved =
     Inr (st, reconciliation_outcome (demo_reconcile res) demo_now 0 demo_moved)"
  unfolding reconciliation_apply_Inr
  by (rule exI [of _ demo_claim2], rule exI [of _ 0])
    (use demo_now_before demo_lease_end2 in \<open>simp add: demo_moved_fields requireCurrentClaim_Inr demo_doubt_ops
       demo_reconcile_def demo_context_def evidence_record_def\<close>, simp add: demo_claim2_def)

lemma demo_step_reconcile:
  "demo_at (demo_doubtful_run @ [CmdReconcile (demo_reconcile ResolutionConfirmedNotApplied)]) demo_rejected
     {''reconcile'', ''transfer'', demo_evidence_key 0, demo_intent_key 0, ''approve'', ''bind'', ''acquire'', ''create''}"
proof -
  let ?c = "CmdReconcile (demo_reconcile ResolutionConfirmedNotApplied)"
  let ?t = "reconciliation_outcome (demo_reconcile ResolutionConfirmedNotApplied) demo_now 0 demo_moved"
  have c: "cmd_validate ?c = None" "marshals (cmd_json ?c)"
    by (simp_all add: demo_reconcile_def validateRecordReconciliationRequest_def json_of_RecordReconciliation_def
        omit_empty_def demo_request_checks)
  have h: "\<exists>st'. cmd_handler demo_env ?c demo_now st demo_moved = Inr (st', ?t) \<and>
      fenceEpochOf (ps_FenceEpochs st') ''asset1'' = tx_FenceEpoch ?t"
    if "fenceEpochOf (ps_FenceEpochs st) ''asset1'' = tx_FenceEpoch demo_moved" for st
    using that demo_reconcile_applies by simp
  have "demo_at (demo_doubtful_run @ [?c]) (bump demo_now ?t) (insert (cmd_key ?c)
        {''transfer'', demo_evidence_key 0, demo_intent_key 0, ''approve'', ''bind'', ''acquire'', ''create''})"
    by (rule demo_advance [OF demo_step_transfer _ c _ _ _ _ _ _ h])
      (use demo_encodes2(3) in \<open>simp_all add: demo_moved_fields demo_reconcile_def [of ResolutionConfirmedNotApplied]
         demo_context_def unrecordable_def\<close>,
       simp_all add: demo_rejected_def demo_intent_key_def demo_evidence_key_def demo_reconcile_def demo_context_def)
  then show ?thesis by (simp add: demo_rejected_def) (simp add: demo_reconcile_def)
qed

lemma demo_rejected_ops: "hasConfirmedNotAppliedOperation (tx_Operations demo_rejected)"
  by (simp add: hasConfirmedNotApplied_iff demo_rejected_def reconciliation_outcome_def Let_def
      demo_reconcile_def demo_moved_fields demo_doubt_ops)

section \<open>Facts the witnesses share\<close>

lemma demo_ready_at: "n \<le> 7 \<Longrightarrow> ps_Transactions (svc_state (demo_service (demo_start @ demo_operations n))) =
    [(''tx1'', demo_ready n)]"
  using demo_after [of n] by (simp add: demo_at_def)

lemma demo_ready_claim: "tx_ActiveClaim (demo_ready n) = Some demo_claim"
  by (simp add: demo_tx_defs)

lemma demo_moved_at: "map_get (ps_Transactions (svc_state (demo_service demo_doubtful_run))) ''tx1'' = Some demo_moved"
  by (rule demo_at_reachable [OF demo_step_transfer])

lemma demo_service_snoc: "demo_service (cs @ [c]) = snd (run_command demo_env c (demo_service cs))"
  by (simp add: demo_service_def)

lemma demo_acquire_run:
  "run_command demo_env (CmdAcquire demo_acquire) (demo_service [CmdCreate demo_create]) =
     (fst (run_command demo_env (CmdAcquire demo_acquire) (demo_service [CmdCreate demo_create])),
      demo_service [CmdCreate demo_create, CmdAcquire demo_acquire])"
  using demo_service_snoc [of "[CmdCreate demo_create]" "CmdAcquire demo_acquire"] by simp

lemma demo_acquire_changes:
  "svc_state (demo_service [CmdCreate demo_create, CmdAcquire demo_acquire]) \<noteq>
   svc_state (demo_service [CmdCreate demo_create])"
proof -
  have "demo_created \<noteq> demo_claimed" by (simp add: demo_tx_defs)
  then show ?thesis using demo_step_create demo_step_acquire unfolding demo_at_def by force
qed

lemma demo_acquire_success:
  "\<exists>t. run_command demo_env (CmdAcquire demo_acquire) (demo_service [CmdCreate demo_create]) =
     (Inr t, demo_service [CmdCreate demo_create, CmdAcquire demo_acquire])"
proof -
  have "fst (run_command demo_env (CmdAcquire demo_acquire) (demo_service [CmdCreate demo_create])) \<noteq> Inl err" for err
    using run_command_failed [of demo_env "CmdAcquire demo_acquire" "demo_service [CmdCreate demo_create]" err]
      demo_acquire_run demo_acquire_changes by (metis prod.collapse snd_conv)
  then show ?thesis using demo_acquire_run by (metis sum.exhaust)
qed

lemma demo_fresh_key:
  "demo_at cs t keys \<Longrightarrow> k \<notin> keys \<Longrightarrow> map_get (ps_Idempotency (svc_state (demo_service cs))) k = None"
  by (auto simp: demo_at_def)

definition demo_preflight :: ApprovalPreflightRequest where
  "demo_preflight = \<lparr>pf_SchemaVersion = ApprovalPreflightRequestSchemaVersion, pf_MutationContext = demo_context 3,
     pf_ApprovalID = ''approval1'', pf_ApproverID = ''approver1'',
     pf_TransactionDigest = demo_transaction_digest, pf_PlanDigest = demo_digest, pf_StationID = ''station1'',
     pf_LaneID = ''lane1'', pf_TargetFingerprint = demo_digest, pf_Release = demo_release,
     pf_AllowedOperations = developmentOperations, pf_ApprovedAt = utc demo_now, pf_ExpiresAt = utc demo_expiry\<rparr>"

end
