(* ===== verification/Control_Properties.thy ===== *)
theory Control_Properties
  imports Control_Demo
begin

text \<open>
  The properties of the control plane: each one holds of every history of calls and restarts from an
  empty store, under a clock that does not run backwards. The witnesses evaluate them on the run of
  the demonstration transaction.
\<close>

section \<open>Claims and fences\<close>

text \<open>Property C4. One holder per lane: whatever calls were made and however often the service was
  restarted, at most one transaction holds an unexpired active claim on a station's lane.\<close>

theorem lane_never_shared:
  assumes "reachable sha T s"
  shows "length (lane_holders T (svc_state s) station lane) \<le> 1"
  using lanes.both.in_memory [OF assms] lane_holders_le by (auto simp: state_ok_def)

theorem lane_never_shared_witness:
  "length (lane_holders demo_now (svc_state (demo_service (demo_start @ demo_operations 0))) ''station1'' ''lane1'') \<le> 1 \<and>
   lane_holders demo_now (svc_state (demo_service (demo_start @ demo_operations 0))) ''station1'' ''lane1'' = [''tx1'']"
  using lane_never_shared [OF demo_reachable, of "demo_start @ demo_operations 0" "''station1''" "''lane1''"]
    demo_ready_at [of 0] demo_ready_claim [of 0] demo_lease_end demo_now_before
  by (simp add: lane_holders_def) (simp add: demo_claim_def)

text \<open>Property C5. Fencing: once a transaction has moved past a fence epoch, a command made under that
  epoch changes nothing, in memory or in the file, at any later time and after any restarts.\<close>

theorem stale_epoch_inert:
  assumes r: "reachable sha T s" and later: "control_steps sha (T, s) (T', s')"
    and t: "map_get (ps_Transactions (svc_state s)) (cmd_transaction c) = Some t"
    and c: "cmd_claim c = Some (cid, ep)" and stale: "ep < tx_FenceEpoch t"
  shows "snd (run_command e c s') = s'"
proof (rule ccontr)
  assume changed: "snd (run_command e c s') \<noteq> s'"
  obtain res s'' where run: "run_command e c s' = (res, s'')" by fastforce
  obtain t' where t': "map_get (ps_Transactions (svc_state s')) (cmd_transaction c) = Some t'" "tx_grows t t'"
    using growth.along [OF r later t] by blast
  from run_command_effect [OF run] changed run obtain st' where p: "proposes e c (svc_state s') st'" by auto
  from p c obtain st1 t1 where "cmd_handler e c (env_now e) (svc_state s') t' = Inr (st1, t1)"
    using t'(1) by (cases rule: proposes.cases) auto
  from handler_claim_current [OF this c] have "tx_FenceEpoch t' = ep"
    by (auto simp: requireCurrentClaim_Inr)
  with t'(2) stale show False unfolding tx_grows_def by (metis leD)
qed

theorem stale_epoch_inert_witness:
  "snd (run_command demo_env (CmdEvidence (demo_evidence 0)) (demo_service demo_doubtful_run)) =
   demo_service demo_doubtful_run"
  by (rule stale_epoch_inert [OF demo_reachable control_steps.none_yet, where t = demo_moved and ep = 1])
    (simp_all add: demo_evidence_def demo_context_def demo_moved_at demo_moved_fields)

text \<open>Epochs identify claims: along the claims a transaction has had, the fence epochs
  strictly increase, and none is above the epoch of the transaction or of its asset.\<close>

theorem claim_epochs_increase:
  assumes "reachable sha T s" and "map_get (ps_Transactions (svc_state s)) k = Some t"
  shows "sorted_wrt (<) (map cl_FenceEpoch (claims_of t)) \<and>
    (\<forall>c \<in> set (claims_of t). 0 < cl_FenceEpoch c \<and> cl_FenceEpoch c \<le> tx_FenceEpoch t) \<and>
    tx_FenceEpoch t \<le> fenceEpochOf (ps_FenceEpochs (svc_state s)) (tx_AssetID t)"
  using epochs.of_reachable [OF assms] claims_bounded [of t]
  by (auto simp: epochs_ok_def validateTransaction_None claim_shape_def word_gt_0 transaction_header_None)

theorem claim_epochs_increase_witness:
  "sorted_wrt (<) (map cl_FenceEpoch (claims_of (demo_ready 0))) \<and> claims_of (demo_ready 0) = [demo_claim]"
  using claim_epochs_increase [OF demo_reachable demo_at_reachable [OF demo_after [of 0]]]
  by (simp add: claims_of_def demo_tx_defs)


section \<open>The campaign\<close>

text \<open>Property C17. The campaign runs in order: the recorded operations are the first ones of the
  development campaign, in its order, with distinct identifiers, and every operation before the last
  one was completed before the next one started.\<close>

theorem campaign_in_order:
  assumes "reachable sha T s" and "map_get (ps_Transactions (svc_state s)) k = Some t"
  shows "map op_Operation (tx_Operations t) = take (length (tx_Operations t)) developmentOperations \<and>
    distinct (map op_ID (tx_Operations t)) \<and> length (tx_Operations t) \<le> 7 \<and>
    (\<forall>op \<in> set (butlast (tx_Operations t)). completed op)"
  using campaign.of_reachable [OF assms] campaign_length [of T t]
  by (auto simp: campaign_ok_def validateTransaction_None transaction_operations_None)

theorem campaign_in_order_witness:
  "map op_Operation (tx_Operations (demo_secured 7)) = developmentOperations \<and>
   length (tx_Operations (demo_secured 7)) = 7"
proof -
  have "length (tx_Operations (demo_secured 7)) = 7"
    by (simp add: demo_tx_defs del: upt_rec_numeral)
  then show ?thesis using campaign_in_order [OF demo_reachable demo_complete] by simp
qed

text \<open>Property C16. What security-applied means: the seven operations of the development campaign are
  all recorded, each exactly once and completed, all under the plan, release and expiry of the one
  approval the transaction still carries.\<close>

theorem security_applied_complete:
  assumes "reachable sha T s" and "map_get (ps_Transactions (svc_state s)) k = Some t"
    and "tx_Status t = StatusSecurityApplied"
  shows "map op_Operation (tx_Operations t) = developmentOperations \<and>
    (\<forall>op \<in> set (tx_Operations t). completed op) \<and>
    (\<exists>a. tx_Approval t = Some a \<and> (\<forall>op \<in> set (tx_Operations t). under_approval op a) \<and>
      ap_AllowedOperations a = developmentOperations \<and> ap_TransactionDigest a = tx_TransactionDigest t)"
proof -
  note k = campaign.of_reachable [OF assms(1,2)]
  then have v: "transaction_terminal_ok t = None" "transaction_target_ok t = None" "campaign_ok T t"
    by (auto simp: validateTransaction_None)
  obtain a where a: "tx_Approval t = Some a" "validateCompletedDevelopmentCampaign (tx_Operations t) (Some a) = None"
    using v(1) assms(3) by (auto simp: transaction_terminal_None)
  have "tx_Operations t = [] \<or> completed (last (tx_Operations t))"
    using v(3) assms(3) phase_secured by (auto simp: campaign_ok_def)
  then have all: "\<forall>op \<in> set (tx_Operations t). completed op"
    by (rule all_completed) (use v(3) in \<open>simp add: campaign_ok_def\<close>)
  then have "filter completed (tx_Operations t) = tx_Operations t" by (simp add: filter_id_conv)
  then have "map op_Operation (tx_Operations t) = developmentOperations"
    using validateCompletedDevelopmentCampaign_None(1) [OF a(2)] by simp
  moreover have "ap_AllowedOperations a = developmentOperations" "ap_TransactionDigest a = tx_TransactionDigest t"
    using v(2) a(1) by (simp_all add: transaction_target_None validateStoredApproval_None)
  ultimately show ?thesis
    using validateCompletedDevelopmentCampaign_None(2) [OF a(2)] all a(1) by blast
qed

theorem security_applied_complete_witness:
  "tx_Status (demo_secured 7) = StatusSecurityApplied \<and>
   map op_Operation (tx_Operations (demo_secured 7)) = developmentOperations"
proof -
  have "tx_Status (demo_secured 7) = StatusSecurityApplied" by (simp add: demo_secured_def)
  then show ?thesis using security_applied_complete [OF demo_reachable demo_complete] by simp
qed

text \<open>Property C18. Every recorded operation was authorised: it started inside the window of an approval
  for exactly this transaction, plan and release, under a claim the transaction really had on the
  approved station and lane, with that claim's fence epoch.\<close>

theorem operations_authorised:
  assumes "reachable sha T s" and "map_get (ps_Transactions (svc_state s)) k = Some t"
    and "op \<in> set (tx_Operations t)"
  shows "let a = op_Approval op in
    ap_ApprovedAt a \<le> op_IntentAt op \<and> op_IntentAt op < ap_ExpiresAt a \<and>
    ap_ExpiresAt a \<le> ap_ApprovedAt a + maximumApprovalLifetime \<and>
    ap_TransactionDigest a = tx_TransactionDigest t \<and> under_approval op a \<and>
    op_Operation op \<in> set (ap_AllowedOperations a) \<and>
    SignedReleaseManifestDigest (ap_Release a) = tx_BundleDigest t \<and>
    (\<exists>c \<in> set (claims_of t). cl_StationID c = ap_StationID a \<and> cl_LaneID c = ap_LaneID a \<and>
       cl_FenceEpoch c = op_IntentFenceEpoch op \<and> ap_FenceEpoch a = op_IntentFenceEpoch op)"
proof -
  note k = campaign.of_reachable [OF assms(1,2)]
  then have v: "validateStoredOperation op t = None"
    using assms(3) by (auto simp: validateTransaction_None transaction_operations_None)
  have "op_Operation op \<in> set developmentOperations"
    using k assms(3) unfolding campaign_ok_def by (metis in_set_takeD list.set_map image_eqI)
  then show ?thesis using v
    by (auto simp: validateStoredOperation_None validateStoredApproval_None claim_ids_def under_approval_def Let_def)
qed

theorem operations_authorised_witness:
  "demo_finished 0 \<in> set (tx_Operations (demo_ready 1)) \<and>
   op_IntentAt (demo_finished 0) < ap_ExpiresAt (op_Approval (demo_finished 0))"
proof -
  have m: "demo_finished 0 \<in> set (tx_Operations (demo_ready 1))" by (simp add: demo_tx_defs)
  have "map_get (ps_Transactions (svc_state (demo_service (demo_start @ demo_operations 1)))) ''tx1'' = Some (demo_ready 1)"
    by (rule demo_at_reachable [OF demo_after]) simp
  from operations_authorised [OF demo_reachable this m] m show ?thesis by (simp add: Let_def)
qed


section \<open>Histories\<close>

text \<open>Property C19. Terminal states are final: a transaction that is security-applied, aborted or
  quarantined stays so, and starts no further operation, through any later calls and restarts.\<close>

theorem terminal_is_final:
  assumes "reachable sha T s" and "control_steps sha (T, s) (T', s')"
    and "map_get (ps_Transactions (svc_state s)) k = Some t" and "terminal (tx_Status t)"
  shows "\<exists>t'. map_get (ps_Transactions (svc_state s')) k = Some t' \<and> tx_Status t' = tx_Status t \<and>
    length (tx_Operations t') = length (tx_Operations t)"
  using growth.along [OF assms(1-3)] assms(4) by (auto simp: tx_grows_def)

theorem terminal_is_final_witness:
  "\<exists>t'. map_get (ps_Transactions (svc_state (demo_service demo_run))) ''tx1'' = Some t' \<and>
    tx_Status t' = StatusSecurityApplied \<and> length (tx_Operations t') = length (tx_Operations (demo_secured 7))"
proof -
  have "terminal (tx_Status (demo_secured 7))" "tx_Status (demo_secured 7) = StatusSecurityApplied"
    by (simp_all add: terminal_def demo_secured_def)
  then show ?thesis
    using terminal_is_final [OF demo_reachable control_steps.none_yet demo_complete] by simp
qed

text \<open>Property C20. The record only grows: identity and target fingerprint of a transaction never change, versions
  and fence epochs never decrease, closed claims stay in place, no operation is removed or reordered,
  what its intent recorded never changes, and a concluded operation is frozen.\<close>

theorem history_append_only:
  assumes "reachable sha T s" and "control_steps sha (T, s) (T', s')"
    and "map_get (ps_Transactions (svc_state s)) k = Some t"
  shows "\<exists>t'. map_get (ps_Transactions (svc_state s')) k = Some t' \<and> identity t' = identity t \<and>
    tx_ResourceVersion t \<le> tx_ResourceVersion t' \<and> tx_FenceEpoch t \<le> tx_FenceEpoch t' \<and>
    (\<exists>closed. tx_ClaimHistory t' = tx_ClaimHistory t @ closed) \<and>
    length (tx_Operations t) \<le> length (tx_Operations t') \<and>
    (\<forall>i < length (tx_Operations t). intent_of (tx_Operations t' ! i) = intent_of (tx_Operations t ! i) \<and>
       (concluded (tx_Operations t ! i) \<longrightarrow> tx_Operations t' ! i = tx_Operations t ! i)) \<and>
    (\<forall>b. tx_Target t = Some b \<longrightarrow>
       (\<exists>b'. tx_Target t' = Some b' \<and> tb_Fingerprint b' = tb_Fingerprint b))"
  using growth.along [OF assms] by (auto simp: tx_grows_def ops_grow_def op_grows_def)

theorem history_append_only_witness:
  "\<exists>t'. map_get (ps_Transactions (svc_state (demo_service (demo_start @ demo_operations 1)))) ''tx1'' = Some t' \<and>
    identity t' = identity (demo_ready 1) \<and> tx_Operations t' ! 0 = demo_finished 0"
proof -
  have g: "map_get (ps_Transactions (svc_state (demo_service (demo_start @ demo_operations 1)))) ''tx1'' = Some (demo_ready 1)"
    by (rule demo_at_reachable [OF demo_after]) simp
  have "length (tx_Operations (demo_ready 1)) = 1" "tx_Operations (demo_ready 1) ! 0 = demo_finished 0"
      "concluded (demo_finished 0)"
    by (simp_all add: demo_tx_defs concluded_def completed_def)
  then show ?thesis using history_append_only [OF demo_reachable control_steps.none_yet g] by force
qed

text \<open>An operation that was confirmed not applied ends the campaign: the operations of the
  transaction never change again, whatever calls and restarts follow.\<close>

theorem rejection_is_final:
  assumes "reachable sha T s" and "control_steps sha (T, s) (T', s')"
    and "map_get (ps_Transactions (svc_state s)) k = Some t"
    and "hasConfirmedNotAppliedOperation (tx_Operations t)"
  shows "\<exists>t'. map_get (ps_Transactions (svc_state s')) k = Some t' \<and> tx_Operations t' = tx_Operations t"
  using rejection.along [OF assms(1-3)] assms(4) by (auto simp: rejection_final_def)


theorem rejection_is_final_witness:
  "\<exists>t'. map_get (ps_Transactions (svc_state (demo_service (demo_doubtful_run @
      [CmdReconcile (demo_reconcile ResolutionConfirmedNotApplied)])))) ''tx1'' = Some t' \<and>
    tx_Operations t' = tx_Operations demo_rejected"
  by (rule rejection_is_final [OF demo_reachable control_steps.none_yet
        demo_at_reachable [OF demo_step_reconcile] demo_rejected_ops])

text \<open>One transaction per asset and per logical identity.\<close>

theorem one_transaction_per_asset:
  assumes "reachable sha T s"
  shows "distinct (map (\<lambda>(k, t). tx_AssetID t) (ps_Transactions (svc_state s))) \<and>
    distinct (map (\<lambda>(k, t). tx_IntendedLogicalID t) (ps_Transactions (svc_state s)))"
proof -
  let ?m = "ps_Transactions (svc_state s)"
  have n: "names_ok T (svc_state s)" by (rule names.in_memory [OF assms])
  have wf: "map_wf ?m" using ok.in_memory [OF assms] by (simp add: state_ok_def)
  have inj: "inj_on (\<lambda>(k, t). f t) (set ?m)"
    if "\<And>k k' t t'. map_get ?m k = Some t \<Longrightarrow> map_get ?m k' = Some t' \<Longrightarrow> f t = f t' \<Longrightarrow> k = k'"
    for f :: "Transaction \<Rightarrow> string"
    using that by (auto simp: inj_on_def map_wf_get_iff [OF wf]) fastforce
  have "distinct ?m" using wf by (simp add: map_wf_def distinct_map)
  moreover have "inj_on (\<lambda>(k, t). tx_AssetID t) (set ?m)" "inj_on (\<lambda>(k, t). tx_IntendedLogicalID t) (set ?m)"
    using n unfolding names_ok_def by (intro inj; blast)+
  ultimately show ?thesis by (simp add: distinct_map)
qed

theorem one_transaction_per_asset_witness:
  "distinct (map (\<lambda>(k, t). tx_AssetID t) (ps_Transactions (svc_state (demo_service (demo_start @ demo_operations 0))))) \<and>
   map (\<lambda>(k, t). tx_AssetID t) (ps_Transactions (svc_state (demo_service (demo_start @ demo_operations 0)))) = [''asset1'']"
  using one_transaction_per_asset [OF demo_reachable, of "demo_start @ demo_operations 0"] demo_ready_at [of 0]
  by (simp add: demo_tx_defs)

section \<open>Single calls\<close>

text \<open>Updates are compare-and-swap: a call that changes the state found its transaction at
  exactly the version it names, leaves it at the next version, which did not wrap around, and leaves
  every other transaction alone.\<close>

theorem update_compare_and_swap:
  assumes run: "run_command e c s = (r, s')" and ch: "svc_state s' \<noteq> svc_state s" and c: "\<not> is_create c"
  shows "\<exists>t t'. map_get (ps_Transactions (svc_state s)) (cmd_transaction c) = Some t \<and>
    tx_ResourceVersion t = cmd_version c \<and>
    map_get (ps_Transactions (svc_state s')) (cmd_transaction c) = Some t' \<and>
    unat (tx_ResourceVersion t') = unat (tx_ResourceVersion t) + 1 \<and>
    (\<forall>k. k \<noteq> cmd_transaction c \<longrightarrow>
       map_get (ps_Transactions (svc_state s')) k = map_get (ps_Transactions (svc_state s)) k)"
proof -
  from run_command_effect [OF run] ch obtain st' where p: "proposes e c (svc_state s) st'"
    and v: "validatePersistedState (env_sha256 e) st' = None" and s': "svc_state s' = st'"
    by (auto simp: moved_def)
  from p show ?thesis
  proof (cases rule: proposes_shape)
    case (created r d)
    then show ?thesis using c by simp
  next
    case (updated t t1 st1)
    have g: "map_get (ps_Transactions st') (cmd_transaction c) = Some (bump (env_now e) t1)"
      by (simp add: updated)
    have "tx_ResourceVersion t1 = tx_ResourceVersion t" by (rule cmd_handler_frame(2) [OF updated(2)])
    then have "unat (tx_ResourceVersion (bump (env_now e) t1)) = unat (tx_ResourceVersion t) + 1"
      using validated_get [OF v g] version_of_valid unat_succ by fastforce
    moreover have "tx_ResourceVersion t = cmd_version c"
      using p c updated(1) by (cases rule: proposes.cases) auto
    ultimately show ?thesis using updated g s' by auto
  qed
qed


theorem update_compare_and_swap_witness:
  "\<exists>t t'. map_get (ps_Transactions (svc_state (demo_service [CmdCreate demo_create]))) ''tx1'' = Some t \<and>
    map_get (ps_Transactions (svc_state (demo_service [CmdCreate demo_create, CmdAcquire demo_acquire]))) ''tx1'' = Some t' \<and>
    unat (tx_ResourceVersion t') = unat (tx_ResourceVersion t) + 1"
  using update_compare_and_swap [OF demo_acquire_run demo_acquire_changes] by (auto simp: demo_acquire_def)

text \<open>A failed call is harmless: the state in memory is unchanged, and the file holds what
  it held before or one complete state that passes the integrity check.\<close>

theorem failed_call_keeps_state:
  assumes "run_command e c s = (Inl err, s')"
  shows "svc_state s' = svc_state s \<and>
    (FileStore_Load (svc_store s') = FileStore_Load (svc_store s) \<or>
     (\<exists>st. FileStore_Load (svc_store s') = Some st \<and> validatePersistedState (env_sha256 e) st = None))"
  using run_command_failed [OF assms] run_command_effect [OF assms] unfolding moved_def by auto


theorem failed_call_keeps_state_witness:
  "run_command demo_env (CmdAcquire (demo_acquire\<lparr>ac_SchemaVersion := []\<rparr>)) first_service = (Inl ErrInvalid, first_service) \<and>
   svc_state first_service = initial_state"
proof -
  have "run_command demo_env (CmdAcquire (demo_acquire\<lparr>ac_SchemaVersion := []\<rparr>)) first_service = (Inl ErrInvalid, first_service)"
    by (simp add: AcquireClaim_def validateAcquireClaimRequest_def validateEnvelope_def
        AcquireClaimRequestSchemaVersion_def)
  then show ?thesis using failed_call_keeps_state by (fastforce simp: first_service_def)
qed

text \<open>Property C34. What a call acknowledged is durable: when a call succeeds and changes the state, the
  file holds the new state, and a restart at that point comes back with exactly it.\<close>

theorem acknowledged_is_durable:
  assumes "reachable sha T s" and "env_sha256 e = sha" and "T \<le> env_now e"
    and run: "run_command e c s = (Inr t, s')" and "svc_state s' \<noteq> svc_state s"
  shows "FileStore_Load (svc_store s') = Some (svc_state s') \<and> reopen sha s' = Inr s'"
proof -
  from run_command_effect [OF run] assms(5) have f: "FileStore_Load (svc_store s') = Some (svc_state s')"
    by (auto simp: moved_def)
  have "reachable sha (env_now e) s'"
    by (rule reachable_step [OF assms(1) control_step.call [OF assms(2,3) run]])
  from reopen_reachable [OF this] f show ?thesis by simp
qed

theorem acknowledged_is_durable_witness:
  "reopen demo_hash (demo_service [CmdCreate demo_create, CmdAcquire demo_acquire]) =
   Inr (demo_service [CmdCreate demo_create, CmdAcquire demo_acquire])"
proof -
  obtain t where t: "run_command demo_env (CmdAcquire demo_acquire) (demo_service [CmdCreate demo_create]) =
     (Inr t, demo_service [CmdCreate demo_create, CmdAcquire demo_acquire])"
    using demo_acquire_success by blast
  have "env_sha256 demo_env = demo_hash" "demo_now \<le> env_now demo_env" by (simp_all add: demo_env_def)
  from acknowledged_is_durable [OF demo_reachable this t demo_acquire_changes] show ?thesis by blast
qed

text \<open>A restart never fails: from every reachable service the store opens again, with the
  state of the file, or the initial state before the first save.\<close>

theorem restart_never_fails:
  assumes "reachable sha T s"
  shows "\<exists>s'. reopen sha s = Inr s' \<and> svc_store s' = svc_store s \<and>
    svc_state s' = (case FileStore_Load (svc_store s) of None \<Rightarrow> initial_state | Some st \<Rightarrow> st)"
  using reopen_reachable [OF assms] by simp

theorem restart_never_fails_witness:
  "\<exists>s'. reopen demo_hash (demo_service demo_run) = Inr s' \<and> svc_store s' = svc_store (demo_service demo_run)"
  using restart_never_fails [OF demo_reachable] by blast

section \<open>Idempotency\<close>

text \<open>Property C35. Retrying is safe: a command that succeeded once, sent again with the same content
  after any number of other calls and restarts, changes nothing and returns the transaction it was
  about, as it is now.\<close>

theorem retry_is_replay:
  assumes r: "reachable sha T s" and e: "env_sha256 e = sha" "T \<le> env_now e"
    and run: "run_command e c s = (Inr t, s1)"
    and later: "control_steps sha (env_now e, s1) (T2, s2)" and e2: "env_sha256 e2 = sha"
  shows "\<exists>t2. map_get (ps_Transactions (svc_state s2)) (tx_ID t) = Some t2 \<and>
    run_command e2 c s2 = (cloneTransaction t2, s2)"
proof -
  have r1: "reachable sha (env_now e) s1" by (rule reachable_step [OF r control_step.call [OF e run]])
  have "recorded e c (svc_state s1) (tx_ID t)"
    using success_leaves_record [OF run] ok.in_memory [OF r] e by blast
  then obtain d rec where rec: "cmd_validate c = None" "digestJSON sha (cmd_json c) = Some d"
      "map_get (ps_Idempotency (svc_state s1)) (cmd_key c) = Some rec" "ir_Operation rec = cmd_operation c"
      "ir_RequestDigest rec = d" "ir_TransactionID rec = tx_ID t"
    using e by (auto simp: recorded_def)
  have kept: "map_get (ps_Idempotency (svc_state s2)) (cmd_key c) = Some rec"
    using store.grows [OF later HOL.refl HOL.refl r1] rec(3) by (simp add: store_grows_def)
  have r2: "reachable sha T2 s2" by (rule reachable_steps [OF r1 later])
  have "map_get (ps_Transactions (svc_state s2)) (tx_ID t) \<noteq> None"
    using ok.in_memory [OF r2] kept unfolding rec(6) [symmetric]
    by (auto simp: state_ok_def validatePersistedState_None)
  then show ?thesis
    using run_command_known_key [OF rec(1), of e2 d s2 rec] rec kept e2 by auto
qed

theorem retry_is_replay_witness:
  "\<exists>t2. run_command demo_env (CmdAcquire demo_acquire) (demo_service [CmdCreate demo_create, CmdAcquire demo_acquire]) =
    (cloneTransaction t2, demo_service [CmdCreate demo_create, CmdAcquire demo_acquire])"
proof -
  obtain t where t: "run_command demo_env (CmdAcquire demo_acquire) (demo_service [CmdCreate demo_create]) =
     (Inr t, demo_service [CmdCreate demo_create, CmdAcquire demo_acquire])"
    using demo_acquire_success by blast
  have e: "env_sha256 demo_env = demo_hash" "demo_now \<le> env_now demo_env" by (simp_all add: demo_env_def)
  from retry_is_replay [OF demo_reachable e t control_steps.none_yet e(1)] show ?thesis by blast
qed


section \<open>Progress and integrity\<close>

text \<open>No false alarms: a call on a reachable service never reports a corrupt store, except
  for a reconciliation request of the one unrecordable kind, a counter at its maximum or a generated
  claim identifier that is none.\<close>

theorem no_false_corruption:
  assumes r: "reachable sha T s" and e: "env_sha256 e = sha" "T \<le> env_now e"
    and len: "\<forall>m. length (sha m) = 32" and fit: "command_recordable e c (svc_state s)"
  shows "fst (run_command e c s) \<noteq> Inl ErrCorruptStore"
proof
  assume "fst (run_command e c s) = Inl ErrCorruptStore"
  then obtain s' where run: "run_command e c s = (Inl ErrCorruptStore, s')" by (metis prod.collapse)
  have course: "course_ok sha (env_now e) (svc_state s)"
    using campaign.rel.both.later [OF campaign.rel.both.in_memory [OF r] e(2)] .
  have now: "0 < env_now e" using reachable_time [OF r] e(2) by simp
  have valid: "proposes e c (svc_state s) st' \<Longrightarrow> validatePersistedState (env_sha256 e) st' = None" for st'
    using candidate_valid [OF course e(1) len now _ fit] e(1) by simp
  have rep: "replayLocked (svc_state s) op key d \<noteq> Inl ErrCorruptStore" for op key d
    using replay_not_corrupt course by blast
  show False
  proof (cases "is_create c")
    case True
    then obtain q where "c = CmdCreate q" by (cases c) auto
    then show False using create_corrupt [of e q s s'] run rep valid by auto
  next
    case False
    have v: "cmd_validate c = None" using run False cmd_validate_err by (auto simp: run_command_mutate split: option.splits)
    then have "mutate e (cmd_operation c) (cmd_key c) (cmd_transaction c) (cmd_version c)
        (cmd_json c) (cmd_handler e c) s = (Inl ErrCorruptStore, s')" using run False by (simp add: run_command_mutate)
    from mutate_corrupt [OF this handler_errors] rep obtain d t st1 t1 where
      m: "digestJSON (env_sha256 e) (cmd_json c) = Some d" "map_get (ps_Idempotency (svc_state s)) (cmd_key c) = None"
        "map_get (ps_Transactions (svc_state s)) (cmd_transaction c) = Some t" "cmd_version c \<noteq> 0"
        "tx_ResourceVersion t = cmd_version c" "cmd_handler e c (env_now e) (svc_state s) t = Inr (st1, t1)"
      and bad: "validatePersistedState (env_sha256 e) (enter (cmd_operation c) (cmd_key c) d (cmd_transaction c)
          (bump (env_now e) t1) st1) \<noteq> None" by blast
    from valid [OF proposes.update [OF False v m]] bad show False by simp
  qed
qed

theorem no_false_corruption_witness:
  "fst (run_command demo_env (CmdCreate demo_create) first_service) \<noteq> Inl ErrCorruptStore"
  by (rule no_false_corruption [OF reachable_first [OF demo_now_before(3)] _ _ demo_hash_length])
    (simp_all add: demo_env_def command_recordable_def first_service_def initial_state_def)


text \<open>The unrecordable request: reconciling an operation that already carries an evidence
  receipt with the resolution unknown and no output digest passes request validation and every guard,
  and is then refused as a corrupt store; the transaction is not quarantined.\<close>

theorem unknown_reconciliation_refused:
  assumes r: "reachable sha T s" and e: "env_sha256 e = sha"
    and p: "proposes e (CmdReconcile q) (svc_state s) st'"
    and t: "map_get (ps_Transactions (svc_state s)) (cmd_transaction (CmdReconcile q)) = Some t"
    and u: "unrecordable (CmdReconcile q) t" and enc: "state_encodes (svc_state s)" and T: "T \<le> env_now e"
  shows "run_command e (CmdReconcile q) s = (Inl ErrCorruptStore, s)"
proof -
  have k: "campaign_ok (env_now e) t"
    using campaign.of_reachable [OF r t] campaign.K_later T by blast
  from p t obtain st1 t1 where h: "reconciliation_apply q (env_now e) (svc_state s) t = Inr (st1, t1)"
    and g: "map_get (ps_Transactions st') (cmd_transaction (CmdReconcile q)) = Some (bump (env_now e) t1)"
    by (cases rule: proposes.cases) (auto simp: enter_def)
  note l = reconciliation_apply_last [OF k h]
  have ne: "tx_Operations t \<noteq> []" using l by simp
  have dist: "distinct (map op_ID (tx_Operations t))"
    using campaign.of_reachable [OF r t] by (auto simp: validateTransaction_None transaction_operations_None)
  from u obtain op where op: "op \<in> set (tx_Operations t)" "op_ID op = rr_OperationID q"
      "op_EvidenceAuditReceiptID op \<noteq> []" and q: "rr_Resolution q = ResolutionUnknown" "rr_OutputDigest q = []"
    by (auto simp: unrecordable_def list_ex_iff)
  have "op = last (tx_Operations t)"
    using dist op(1,2) l last_in_set [OF ne] by (auto simp: distinct_map inj_on_def)
  then have "evidenceComplete (last (tx_Operations t1)) \<noteq> None"
    using l q op(3) reconciliation_outcome_last [OF ne, of q "env_now e"]
    by (simp add: evidenceComplete_def reconciliation_record_def)
  moreover have "last (tx_Operations t1) \<in> set (tx_Operations t1)"
    using l reconciliation_outcome_last [OF ne, of q "env_now e"] by simp
  ultimately have "transaction_operations_ok (bump (env_now e) t1) \<noteq> None"
    by (auto simp: transaction_operations_None validateStoredOperation_None)
  then have "validatePersistedState (env_sha256 e) st' \<noteq> None"
    using validated_get [of "env_sha256 e", OF _ g] by (metis validateTransaction_None)
  then show ?thesis using run_command_rejected [OF p _ enc] by simp
qed

theorem unknown_reconciliation_refused_witness:
  "run_command demo_env (CmdReconcile (demo_reconcile ResolutionUnknown)) (demo_service demo_doubtful_run) =
   (Inl ErrCorruptStore, demo_service demo_doubtful_run)"
proof -
  let ?c = "CmdReconcile (demo_reconcile ResolutionUnknown)" and ?s = "demo_service demo_doubtful_run"
  have c: "cmd_validate ?c = None" "marshals (cmd_json ?c)"
    by (simp_all add: demo_reconcile_def validateRecordReconciliationRequest_def json_of_RecordReconciliation_def
        omit_empty_def demo_request_checks)
  have at: "ps_Transactions (svc_state ?s) = [(''tx1'', demo_moved)]"
      "map_get (ps_Idempotency (svc_state ?s)) ''reconcile'' = None"
    using demo_step_transfer demo_fresh_key [OF demo_step_transfer, of "''reconcile''"]
    by (simp_all add: demo_at_def demo_intent_key_def demo_evidence_key_def)
  have k: "cmd_transaction ?c = ''tx1''" "cmd_key ?c = ''reconcile''" "cmd_version ?c = 7"
    by (simp_all add: demo_reconcile_def demo_context_def)
  have p: "proposes demo_env ?c (svc_state ?s) (enter (cmd_operation ?c) (cmd_key ?c) demo_transaction_digest
      (cmd_transaction ?c) (bump (env_now demo_env)
        (reconciliation_outcome (demo_reconcile ResolutionUnknown) demo_now 0 demo_moved)) (svc_state ?s))"
    by (rule proposes.update [where current = demo_moved])
      (use c at k demo_moved_fields demo_digestJSON [OF demo_plain(1) c(2)] demo_reconcile_applies demo_moved_at in
        \<open>simp_all add: demo_env_def\<close>)
  have u: "unrecordable ?c demo_moved"
    by (simp add: unrecordable_def demo_moved_fields demo_doubt_ops demo_reconcile_def evidence_record_def)
      (simp add: demo_uncertain_def demo_evidence_def demo_digest_def)
  show ?thesis
    by (rule unknown_reconciliation_refused [OF demo_reachable _ p _ u])
      (use demo_moved_at k at demo_encodes2(2) in \<open>simp_all add: demo_env_def state_encodes_def\<close>)
qed


text \<open>Property C36. Calls that are allowed are carried out: from every reachable service, a call whose
  guards all hold is committed and answered with the new transaction, and the integrity check of the
  candidate stands in its way in exactly one case. This case is the reconciliation with an unknown outcome
  and without an output digest of an operation that already carries an evidence receipt; it is refused
  with a corrupt store and changes nothing. The call has to fit the counters (the resource version and the
  fence epoch can be raised, a generated claim identifier is one), the file system does not fail, and the
  times of the old and of the new state can be encoded.\<close>

theorem allowed_call_outcome:
  assumes r: "reachable sha T s" and e: "env_sha256 e = sha" "T \<le> env_now e" "env_fault e = None"
    and len: "\<forall>m. length (sha m) = 32" and p: "proposes e c (svc_state s) st'"
    and fit: "counters_fit e c (svc_state s)" and enc: "state_encodes (svc_state s)" "state_encodes st'"
  shows "\<exists>t. map_get (ps_Transactions st') (cmd_transaction c) = Some t \<and>
    run_command e c s =
      (if call_unrecordable c (svc_state s) then (Inl ErrCorruptStore, s)
       else (Inr t, \<lparr>svc_state = st', svc_store = \<lparr>fs_path = Some st', fs_temp = None\<rparr>\<rparr>))"
proof (cases "call_unrecordable c (svc_state s)")
  case True
  then obtain t q where t: "map_get (ps_Transactions (svc_state s)) (cmd_transaction c) = Some t" "unrecordable c t"
    and c: "c = CmdReconcile q"
    by (auto simp: call_unrecordable_def unrecordable_def split: option.splits command.splits)
  have "run_command e c s = (Inl ErrCorruptStore, s)"
    using unknown_reconciliation_refused [OF r e(1) p [unfolded c] t(1) [unfolded c] t(2) [unfolded c] enc(1) e(2)] c by simp
  moreover have "\<exists>t. map_get (ps_Transactions st') (cmd_transaction c) = Some t"
    using p by (cases rule: proposes.cases) (auto simp: enter_def)
  ultimately show ?thesis using True by simp
next
  case False
  have "course_ok sha (env_now e) (svc_state s)"
    using campaign.rel.both.later [OF campaign.rel.both.in_memory [OF r] e(2)] .
  moreover have "0 < env_now e" using reachable_time [OF r] e(2) by simp
  moreover have "command_recordable e c (svc_state s)" using fit False by (simp add: command_recordable_iff)
  ultimately have "validatePersistedState sha st' = None" using candidate_valid [OF _ e(1) len _ p] by simp
  then show ?thesis using run_command_carried_out [OF p _ enc e(3)] e(1) False by simp
qed

theorem allowed_call_outcome_witness:
  "\<exists>t s'. run_command demo_env (CmdCreate demo_create) first_service = (Inr t, s')"
proof -
  let ?st = "enter ''create_transaction'' ''create'' demo_transaction_digest ''tx1'' demo_created initial_state"
  have e: "env_sha256 demo_env = demo_hash" "demo_now \<le> env_now demo_env" "env_fault demo_env = None"
    by (simp_all add: demo_env_def)
  have p: "proposes demo_env (CmdCreate demo_create) (svc_state first_service) ?st"
    using proposes.create [of demo_create demo_env demo_transaction_digest initial_state demo_transaction_digest]
    by (simp add: first_service_def demo_created_def demo_env_def demo_digestJSON plain_object_def json_of_Create_def
        validateCreateRequest_def validateEnvelope_None initial_state_def transactionDigest_def
        transactionDigestMaterial_def)
      (simp add: demo_create_def)
  have "counters_fit demo_env (CmdCreate demo_create) (svc_state first_service)"
      "state_encodes (svc_state first_service)" "state_encodes ?st"
    using demo_encodes(1)
    by (simp_all add: counters_fit_def first_service_def initial_state_def state_encodes_def enter_def map_put_def)
  moreover have "\<not> call_unrecordable (CmdCreate demo_create) (svc_state first_service)"
    by (simp add: call_unrecordable_def first_service_def initial_state_def)
  ultimately show ?thesis
    using allowed_call_outcome [OF reachable_first e demo_hash_length p] demo_now_before by auto
qed

section \<open>The store file\<close>

text \<open>Replacing the file is all or nothing: whichever step fails, the path holds the old
  content if the failure is at or before the rename and the new content otherwise, the call reports
  success exactly when no step failed, and no temporary file with content is left behind.\<close>

theorem save_all_or_nothing:
  fixes fs :: "'d file_state"
  assumes "fs_temp fs = None"
  shows "let (done, fs') = FileStore_Save fault d fs in
    (done \<longleftrightarrow> fault = None) \<and>
    fs_path fs' = (case fault of Some f \<Rightarrow> if before_rename f then fs_path fs else Some d | None \<Rightarrow> Some d) \<and>
    fs_temp fs' = None"
proof (cases fault)
  case (Some f)
  then show ?thesis using assms
    by (cases f) (simp_all add: FileStore_Save_def save_steps_def before_rename_def)
qed (use assms in \<open>simp add: FileStore_Save_def save_steps_def\<close>)

theorem save_all_or_nothing_witness:
  "FileStore_Save (Some SaveSync) (7 :: nat) \<lparr>fs_path = Some 3, fs_temp = None\<rparr> =
     (False, \<lparr>fs_path = Some 3, fs_temp = None\<rparr>) \<and>
   fs_path (snd (FileStore_Save (Some SaveSyncDir) (7 :: nat) \<lparr>fs_path = Some 3, fs_temp = None\<rparr>)) = Some 7"
  using save_all_or_nothing [of "\<lparr>fs_path = Some 3, fs_temp = None\<rparr>" "Some SaveSyncDir" "7 :: nat"]
  by (simp add: FileStore_Save_def save_steps_def before_rename_def)

section \<open>Preflight\<close>

text \<open>A preflight is kept: when the approval preflight of a transaction that waits for its
  approval succeeds, recording the same approval at the same time passes every guard.\<close>

theorem preflight_is_kept:
  assumes "PreflightApproval e p s = Inr t" and "tx_Status t = StatusTargetBound" and "same_approval p r"
  shows "\<exists>t'. approval_apply r (env_now e) (svc_state s) t = Inr (svc_state s, t') \<and>
    tx_Status t' = StatusCommitApproved"
proof -
  from assms(1) have "matchApprovalPreflight t p (env_now e) = None"
    by (auto simp: PreflightApproval_def split: option.splits dest!: clone_id)
  from matchApprovalPreflight_bound [OF assms(2) this] obtain claim target where
    m: "requireCurrentClaim t (mc_ClaimID (pf_MutationContext p)) (mc_FenceEpoch (pf_MutationContext p)) (env_now e)
       (Some ClaimModeMutation) = Inr claim"
    "validateCurrentApprovalExpiry (gt_instant (pf_ExpiresAt p)) (env_now e) = None"
    "tx_TransactionDigest t = pf_TransactionDigest p" "tx_Approval t = None" "tx_Operations t = []"
    "cl_AllowedStages claim = pf_AllowedOperations p" "tx_Target t = Some target"
    "tb_FenceEpoch target = mc_FenceEpoch (pf_MutationContext p)" "tb_Fingerprint target = pf_TargetFingerprint p"
    "SignedReleaseManifestDigest (pf_Release p) = tx_BundleDigest t"
    "rb_ExpectedCustomerKeyHash (pf_Release p) = tx_ExpectedCustomerKeyHash t" .
  have ep: "cl_FenceEpoch claim = mc_FenceEpoch (pf_MutationContext p)"
    using m(1) by (simp add: requireCurrentClaim_Inr)
  have "approval_apply r (env_now e) (svc_state s) t =
      Inr (svc_state s, t\<lparr>tx_Approval := Some (approval_of r claim (env_now e)), tx_Status := StatusCommitApproved\<rparr>)"
    unfolding approval_apply_Inr
    using m ep assms(2,3) by (intro conjI exI [of _ claim] exI [of _ target]) (simp_all add: same_approval_def)
  then show ?thesis by simp
qed

theorem preflight_is_kept_witness:
  "PreflightApproval demo_env demo_preflight (demo_service [CmdCreate demo_create, CmdAcquire demo_acquire, CmdBind demo_bind]) =
     Inr demo_bound \<and>
   (\<exists>t'. approval_apply demo_approve demo_now (svc_state (demo_service
       [CmdCreate demo_create, CmdAcquire demo_acquire, CmdBind demo_bind])) demo_bound =
     Inr (svc_state (demo_service [CmdCreate demo_create, CmdAcquire demo_acquire, CmdBind demo_bind]), t') \<and>
     tx_Status t' = StatusCommitApproved)"
proof -
  let ?s = "demo_service [CmdCreate demo_create, CmdAcquire demo_acquire, CmdBind demo_bind]"
  have get: "map_get (ps_Transactions (svc_state ?s)) ''tx1'' = Some demo_bound"
    by (rule demo_at_reachable [OF demo_step_bind])
  have dig: "validDigest demo_transaction_digest"
    using validDigest_digestBytes [of demo_hash "[]"] demo_hash_length by (simp add: demo_transaction_digest_def)
  have v: "validateApprovalPreflightRequest demo_preflight = None"
    using dig demo_now_before
    by (simp add: demo_preflight_def validateApprovalPreflightRequest_def demo_request_checks demo_release_valid
        validateApprovalTimeShape_def demo_expiry_def maximumApprovalLifetime_def second_def)
  have c: "requireCurrentClaim demo_bound ''claim1'' 1 demo_now (Some ClaimModeMutation) = Inr demo_claim"
    using demo_now_before demo_lease_end
    by (simp add: requireCurrentClaim_Inr) (simp add: demo_tx_defs demo_claim_def)
  have tm: "validateCurrentApprovalPreflightTimes demo_now demo_expiry demo_now = None"
    by (simp add: validateCurrentApprovalPreflightTimes_def validateCurrentApprovalExpiry_def demo_expiry_def
        maximumApprovalLifetime_def maximumApprovalClockSkew_def second_def)
  have "matchApprovalPreflight demo_bound demo_preflight demo_now = None"
    using c tm demo_now_before demo_lease_end
    by (simp add: matchApprovalPreflight_def Let_def demo_preflight_def demo_context_def)
      (simp add: demo_tx_defs demo_claim_def demo_release_def)
  then have pre: "PreflightApproval demo_env demo_preflight ?s = Inr demo_bound"
    using v get demo_encodes(3)
    by (simp add: PreflightApproval_def demo_env_def demo_preflight_def demo_context_def cloneTransaction_def)
  have "tx_Status demo_bound = StatusTargetBound" "same_approval demo_preflight demo_approve"
    by (simp_all add: demo_bound_def same_approval_def demo_preflight_def demo_approve_def)
  from preflight_is_kept [OF pre this] pre show ?thesis by (simp add: demo_env_def)
qed

section \<open>Campaign and digests\<close>


text \<open>The two digest checks of the program agree: a text is a valid digest for the services
  exactly when the bundle package parses it, and then it is the prefix followed by 64 lower-case
  hexadecimal digits.\<close>

theorem digest_checks_agree:
  "(ParseDigest v = Some v \<longleftrightarrow> validDigest v) \<and>
   (validDigest v \<longleftrightarrow> (\<exists>h. v = digest_prefix @ h \<and> length h = 64 \<and> list_all lower_hex_char h))"
  using ParseDigest_alt [of v v] validDigest_alt [of v] by auto

end
