(* ===== verification/Mtls.thy ===== *)
theory Mtls
  imports GoText
begin

text \<open>
  Client identities (\<^verbatim>\<open>mtls/identity.go\<close>): the station and approver principals a verified client
  certificate names, and the policy that authorises a request with them. Of the standard library
  the code reads a certificate's raw bytes and URI names, and of a \<^verbatim>\<open>url.URL\<close> its \<^verbatim>\<open>Path\<close> and the
  text \<^verbatim>\<open>String\<close> gives; the model carries these and nothing relates them, so that the theorems hold
  for every parsed URL. Chain verification itself is the TLS library's: a request holds its result.
\<close>

section \<open>Data\<close>

datatype identity_error = ErrClientIdentity | ErrClientIdentityMismatch

record StationLaneIdentity =
  si_StationID :: string
  si_LaneID :: string

record ApproverIdentity =
  ai_ApproverID :: string

text \<open>The zero value of the mode, which no constructor function sets, is \<open>IdentityPolicyUnset\<close>.\<close>

datatype identityPolicyMode =
    IdentityPolicyUnset
  | IdentityPolicyLoopbackPlaintext
  | IdentityPolicyMutualTLS

record URL =
  url_Path :: string
  url_String :: string

text \<open>Pointers that may be \<^verbatim>\<open>nil\<close> are options. A request without TLS has no chains at all.\<close>

record Certificate =
  crt_Raw :: string
  crt_URIs :: "URL option list"

type_synonym verified_chains = "Certificate option list list"

record Request =
  hr_TLS :: "verified_chains option" \<comment> \<open>\<^verbatim>\<open>request.TLS.VerifiedChains\<close>\<close>
  hr_ContentType :: string
  hr_Body :: string

definition stationLaneURIPrefix :: string where
  "stationLaneURIPrefix = ''spiffe://kaiba.network/station/''"

definition approverURIPrefix :: string where
  "approverURIPrefix = ''spiffe://kaiba.network/approver/''"

section \<open>Canonical identity URIs\<close>

text \<open>The pattern \<^verbatim>\<open>^[A-Za-z0-9][A-Za-z0-9._:-]{0,127}$\<close>, without the slash of \<open>validIdentifier\<close>.\<close>

definition identityComponent :: "string \<Rightarrow> bool" where
  "identityComponent value =
     (case value of [] \<Rightarrow> False
      | c # cs \<Rightarrow> is_alnum c \<and> length cs \<le> 127 \<and>
          list_all (\<lambda>x. is_alnum x \<or> x \<in> set ''._:-'') cs)"

text \<open>\<^verbatim>\<open>strings.Split\<close> with a one-byte separator.\<close>

fun split_on :: "char \<Rightarrow> string \<Rightarrow> string list" where
  "split_on sep [] = [[]]"
| "split_on sep (c # cs) =
     (if c = sep then [] # split_on sep cs
      else (case split_on sep cs of [] \<Rightarrow> [[c]] | part # parts \<Rightarrow> (c # part) # parts))"

definition parseStationLaneURI :: "URL option \<Rightarrow> StationLaneIdentity option" where
  "parseStationLaneURI identityURI =
     (case identityURI of
        None \<Rightarrow> None
      | Some u \<Rightarrow>
          let parts = split_on (CHR ''/'') (url_Path u) in
          if length parts \<noteq> 5 \<or> parts ! 0 \<noteq> [] \<or> parts ! 1 \<noteq> ''station'' \<or> parts ! 3 \<noteq> ''lane''
             \<or> \<not> identityComponent (parts ! 2) \<or> \<not> identityComponent (parts ! 4)
          then None
          else let identity = \<lparr>si_StationID = parts ! 2, si_LaneID = parts ! 4\<rparr>;
                   expected = stationLaneURIPrefix @ si_StationID identity @ ''/lane/'' @ si_LaneID identity
               in if url_String u \<noteq> expected then None else Some identity)"

definition parseApproverURI :: "URL option \<Rightarrow> ApproverIdentity option" where
  "parseApproverURI identityURI =
     (case identityURI of
        None \<Rightarrow> None
      | Some u \<Rightarrow>
          let parts = split_on (CHR ''/'') (url_Path u) in
          if length parts \<noteq> 3 \<or> parts ! 0 \<noteq> [] \<or> parts ! 1 \<noteq> ''approver''
             \<or> \<not> identityComponent (parts ! 2)
          then None
          else let identity = \<lparr>ai_ApproverID = parts ! 2\<rparr>;
                   expected = approverURIPrefix @ ai_ApproverID identity
               in if url_String u \<noteq> expected then None else Some identity)"

section \<open>Verified certificates\<close>

definition certificateIdentityURI :: "Certificate option \<Rightarrow> identity_error + URL option" where
  "certificateIdentityURI leaf =
     (case leaf of
        None \<Rightarrow> Inl ErrClientIdentity
      | Some c \<Rightarrow>
          if length (crt_URIs c) = 0 then Inl ErrClientIdentity
          else if length (crt_URIs c) \<noteq> 1 then Inl ErrClientIdentity
          else Inr (crt_URIs c ! 0))"

text \<open>The loop over the verified chains; \<open>leaf\<close> is the leaf of the first chain once it was seen.\<close>

fun leaf_loop :: "Certificate option \<Rightarrow> verified_chains \<Rightarrow> identity_error + Certificate option" where
  "leaf_loop leaf [] = Inr leaf"
| "leaf_loop leaf (chain # others) =
     (case chain of
        [] \<Rightarrow> Inl ErrClientIdentity
      | None # _ \<Rightarrow> Inl ErrClientIdentity
      | Some c # _ \<Rightarrow>
          (case leaf of
             None \<Rightarrow> leaf_loop (Some c) others
           | Some l \<Rightarrow> if crt_Raw l \<noteq> crt_Raw c then Inl ErrClientIdentity
                       else leaf_loop leaf others))"

definition verifiedIdentityURI :: "Request option \<Rightarrow> identity_error + URL option" where
  "verifiedIdentityURI request =
     (case request of
        None \<Rightarrow> Inl ErrClientIdentity
      | Some r \<Rightarrow>
          (case hr_TLS r of
             None \<Rightarrow> Inl ErrClientIdentity
           | Some cs \<Rightarrow>
               if length cs = 0 then Inl ErrClientIdentity
               else bindE (leaf_loop None cs) certificateIdentityURI))"

definition ParseStationLaneCertificate :: "Certificate option \<Rightarrow> identity_error + StationLaneIdentity" where
  "ParseStationLaneCertificate certificate =
     bindE (certificateIdentityURI certificate) (\<lambda>identityURI.
       case parseStationLaneURI identityURI of
         None \<Rightarrow> Inl ErrClientIdentity | Some identity \<Rightarrow> Inr identity)"

definition verifiedStationLaneIdentity :: "Request option \<Rightarrow> identity_error + StationLaneIdentity" where
  "verifiedStationLaneIdentity request =
     bindE (verifiedIdentityURI request) (\<lambda>identityURI.
       case parseStationLaneURI identityURI of
         None \<Rightarrow> Inl ErrClientIdentity | Some identity \<Rightarrow> Inr identity)"

definition verifiedApproverIdentity :: "Request option \<Rightarrow> identity_error + ApproverIdentity" where
  "verifiedApproverIdentity request =
     bindE (verifiedIdentityURI request) (\<lambda>identityURI.
       case parseApproverURI identityURI of
         None \<Rightarrow> Inl ErrClientIdentity | Some identity \<Rightarrow> Inr identity)"

section \<open>The identity policy\<close>

definition RequiresClientIdentity :: "identityPolicyMode \<Rightarrow> bool" where
  "RequiresClientIdentity policy = (policy \<noteq> IdentityPolicyLoopbackPlaintext)"

definition Authenticate :: "identityPolicyMode \<Rightarrow> Request option \<Rightarrow> identity_error + StationLaneIdentity" where
  "Authenticate policy request =
     (case policy of
        IdentityPolicyLoopbackPlaintext \<Rightarrow> Inr \<lparr>si_StationID = [], si_LaneID = []\<rparr>
      | IdentityPolicyMutualTLS \<Rightarrow> verifiedStationLaneIdentity request
      | IdentityPolicyUnset \<Rightarrow> Inl ErrClientIdentity)"

definition Authorize :: "identityPolicyMode \<Rightarrow> Request option \<Rightarrow> string \<Rightarrow> string \<Rightarrow> identity_error option" where
  "Authorize policy request stationID laneID =
     (if policy = IdentityPolicyLoopbackPlaintext then None
      else (case Authenticate policy request of
              Inl err \<Rightarrow> Some err
            | Inr identity \<Rightarrow>
                if si_StationID identity \<noteq> stationID \<or> si_LaneID identity \<noteq> laneID
                then Some ErrClientIdentityMismatch else None))"

definition AuthenticateApprover :: "identityPolicyMode \<Rightarrow> Request option \<Rightarrow> identity_error + ApproverIdentity" where
  "AuthenticateApprover policy request =
     (case policy of
        IdentityPolicyLoopbackPlaintext \<Rightarrow> Inr \<lparr>ai_ApproverID = []\<rparr>
      | IdentityPolicyMutualTLS \<Rightarrow> verifiedApproverIdentity request
      | IdentityPolicyUnset \<Rightarrow> Inl ErrClientIdentity)"

definition AuthorizeApprover :: "identityPolicyMode \<Rightarrow> Request option \<Rightarrow> string \<Rightarrow> identity_error option" where
  "AuthorizeApprover policy request approverID =
     (if policy = IdentityPolicyLoopbackPlaintext then None
      else (case AuthenticateApprover policy request of
              Inl err \<Rightarrow> Some err
            | Inr identity \<Rightarrow>
                if ai_ApproverID identity \<noteq> approverID then Some ErrClientIdentityMismatch else None))"

section \<open>Splitting and joining\<close>

definition join_with :: "char \<Rightarrow> string list \<Rightarrow> string" where
  "join_with sep parts = (case parts of [] \<Rightarrow> [] | p # ps \<Rightarrow> p @ concat (map (\<lambda>q. sep # q) ps))"

lemma split_on_nonempty [simp]: "split_on sep cs \<noteq> []"
  by (cases cs) (auto split: list.splits)

lemma join_split: "join_with sep (split_on sep cs) = cs"
  by (induction cs) (auto simp: join_with_def split: list.splits)

lemma split_on_free: "sep \<notin> set cs \<Longrightarrow> split_on sep cs = [cs]"
  by (induction cs) auto

lemma split_on_append: "sep \<notin> set cs \<Longrightarrow> split_on sep (cs @ sep # ds) = cs # split_on sep ds"
  by (induction cs) auto

lemma component_no_slash: "identityComponent v \<Longrightarrow> CHR ''/'' \<notin> set v"
  by (auto simp: identityComponent_def list_all_iff is_alnum_def is_digit_def is_upper_def is_lower_def
      byte_def split: list.splits)

lemma component_identifier: "identityComponent v \<Longrightarrow> validIdentifier v"
  by (auto simp: identityComponent_def validIdentifier_def ident_char_def list_all_iff split: list.splits)

lemma five_parts:
  "length ps = 5 \<Longrightarrow> ps = [ps ! 0, ps ! 1, ps ! 2, ps ! 3, ps ! 4]"
  by (simp add: numeral_eq_Suc length_Suc_conv) auto

lemma three_parts: "length ps = 3 \<Longrightarrow> ps = [ps ! 0, ps ! 1, ps ! 2]"
  by (simp add: numeral_eq_Suc length_Suc_conv) auto

section \<open>Exactly the canonical names\<close>

lemma parseStationLaneURI_Some:
  "parseStationLaneURI u = Some i \<longleftrightarrow>
     (\<exists>v. u = Some v \<and> identityComponent (si_StationID i) \<and> identityComponent (si_LaneID i) \<and>
        url_Path v = ''/station/'' @ si_StationID i @ ''/lane/'' @ si_LaneID i \<and>
        url_String v = stationLaneURIPrefix @ si_StationID i @ ''/lane/'' @ si_LaneID i)" (is "?l \<longleftrightarrow> ?r")
proof
  assume ?l
  then obtain v where u: "u = Some v" by (auto simp: parseStationLaneURI_def split: option.splits)
  let ?p = "split_on (CHR ''/'') (url_Path v)"
  from \<open>?l\<close> u have p: "length ?p = 5" "?p ! 0 = []" "?p ! 1 = ''station''" "?p ! 3 = ''lane''"
      "identityComponent (?p ! 2)" "identityComponent (?p ! 4)"
      "i = \<lparr>si_StationID = ?p ! 2, si_LaneID = ?p ! 4\<rparr>"
      "url_String v = stationLaneURIPrefix @ ?p ! 2 @ ''/lane/'' @ ?p ! 4"
    by (simp_all add: parseStationLaneURI_def Let_def split: if_splits)
  have "url_Path v = join_with (CHR ''/'') ?p" by (simp add: join_split)
  also have "\<dots> = join_with (CHR ''/'') [?p ! 0, ?p ! 1, ?p ! 2, ?p ! 3, ?p ! 4]"
    using five_parts [OF p(1)] by simp
  finally have "url_Path v = ''/station/'' @ ?p ! 2 @ ''/lane/'' @ ?p ! 4"
    using p(2-4) by (simp add: join_with_def)
  then show ?r using p u by simp
next
  assume ?r
  then obtain v where v: "u = Some v" "identityComponent (si_StationID i)" "identityComponent (si_LaneID i)"
      "url_Path v = ''/station/'' @ si_StationID i @ ''/lane/'' @ si_LaneID i"
      "url_String v = stationLaneURIPrefix @ si_StationID i @ ''/lane/'' @ si_LaneID i" by blast
  have "split_on (CHR ''/'') (url_Path v) = [[], ''station'', si_StationID i, ''lane'', si_LaneID i]"
    using v(2,3) by (simp add: v(4) component_no_slash split_on_append split_on_free)
  then show ?l using v by (simp add: parseStationLaneURI_def Let_def)
qed

lemma parseApproverURI_Some:
  "parseApproverURI u = Some i \<longleftrightarrow>
     (\<exists>v. u = Some v \<and> identityComponent (ai_ApproverID i) \<and>
        url_Path v = ''/approver/'' @ ai_ApproverID i \<and>
        url_String v = approverURIPrefix @ ai_ApproverID i)" (is "?l \<longleftrightarrow> ?r")
proof
  assume ?l
  then obtain v where u: "u = Some v" by (auto simp: parseApproverURI_def split: option.splits)
  let ?p = "split_on (CHR ''/'') (url_Path v)"
  from \<open>?l\<close> u have p: "length ?p = 3" "?p ! 0 = []" "?p ! 1 = ''approver''" "identityComponent (?p ! 2)"
      "i = \<lparr>ai_ApproverID = ?p ! 2\<rparr>" "url_String v = approverURIPrefix @ ?p ! 2"
    by (simp_all add: parseApproverURI_def Let_def split: if_splits)
  have "url_Path v = join_with (CHR ''/'') ?p" by (simp add: join_split)
  also have "\<dots> = join_with (CHR ''/'') [?p ! 0, ?p ! 1, ?p ! 2]"
    using three_parts [OF p(1)] by simp
  finally have "url_Path v = ''/approver/'' @ ?p ! 2"
    using p(2,3) by (simp add: join_with_def)
  then show ?r using p u by simp
next
  assume ?r
  then obtain v where v: "u = Some v" "identityComponent (ai_ApproverID i)"
      "url_Path v = ''/approver/'' @ ai_ApproverID i"
      "url_String v = approverURIPrefix @ ai_ApproverID i" by blast
  have "split_on (CHR ''/'') (url_Path v) = [[], ''approver'', ai_ApproverID i]"
    using v(2) by (simp add: v(3) component_no_slash split_on_append split_on_free)
  then show ?l using v by (simp add: parseApproverURI_def Let_def)
qed

lemma station_not_approver: "parseStationLaneURI u = Some i \<Longrightarrow> parseApproverURI u = None"
proof (rule ccontr)
  assume s: "parseStationLaneURI u = Some i" and "parseApproverURI u \<noteq> None"
  then obtain a where "parseApproverURI u = Some a" by blast
  with s show False by (auto simp: parseStationLaneURI_Some parseApproverURI_Some)
qed

section \<open>One leaf, one name\<close>

text \<open>What a verified identity URI means: every verified chain starts with a certificate of the same
  bytes, and the first of them names exactly one URI.\<close>

lemma leaf_loop_Inr_Some:
  "leaf_loop (Some l) cs = Inr m \<longleftrightarrow>
     m = Some l \<and> (\<forall>chain \<in> set cs. \<exists>c rest. chain = Some c # rest \<and> crt_Raw c = crt_Raw l)"
  by (induction cs) (auto split: list.splits option.splits)

lemma leaf_loop_Inr:
  "leaf_loop None cs = Inr (Some l) \<longleftrightarrow>
     (\<exists>rest others. cs = (Some l # rest) # others \<and>
        (\<forall>chain \<in> set cs. \<exists>c rest'. chain = Some c # rest' \<and> crt_Raw c = crt_Raw l))"
  by (cases cs) (auto simp: leaf_loop_Inr_Some split: list.splits option.splits)

lemma certificateIdentityURI_Inr:
  "certificateIdentityURI c = Inr u \<longleftrightarrow> (\<exists>l. c = Some l \<and> crt_URIs l = [u])"
  by (auto simp: certificateIdentityURI_def length_Suc_conv split: option.splits)

lemma verifiedIdentityURI_Inr:
  "verifiedIdentityURI r = Inr u \<longleftrightarrow>
     (\<exists>q l rest others. r = Some q \<and> hr_TLS q = Some ((Some l # rest) # others) \<and> crt_URIs l = [u] \<and>
        (\<forall>chain \<in> set others. \<exists>c rest'. chain = Some c # rest' \<and> crt_Raw c = crt_Raw l))"
proof -
  have "verifiedIdentityURI r = Inr u \<longleftrightarrow>
      (\<exists>q cs l. r = Some q \<and> hr_TLS q = Some cs \<and> leaf_loop None cs = Inr (Some l) \<and> crt_URIs l = [u])"
    by (auto simp: verifiedIdentityURI_def certificateIdentityURI_Inr split: option.splits)
  then show ?thesis unfolding leaf_loop_Inr by fastforce
qed

lemma identity_errors [simp]:
  "verifiedIdentityURI r \<noteq> Inl ErrClientIdentityMismatch"
  "Authenticate p r \<noteq> Inl ErrClientIdentityMismatch"
  "AuthenticateApprover p r \<noteq> Inl ErrClientIdentityMismatch"
proof -
  have l: "leaf_loop l cs \<noteq> Inl ErrClientIdentityMismatch" for l cs
    by (induction cs arbitrary: l) (auto split: list.splits option.splits)
  show v: "verifiedIdentityURI r \<noteq> Inl ErrClientIdentityMismatch"
    using l by (auto simp: verifiedIdentityURI_def certificateIdentityURI_def bindE_Inl split: option.splits if_splits)
  show "Authenticate p r \<noteq> Inl ErrClientIdentityMismatch"
    using v by (auto simp: Authenticate_def verifiedStationLaneIdentity_def bindE_Inl
        split: identityPolicyMode.splits option.splits)
  show "AuthenticateApprover p r \<noteq> Inl ErrClientIdentityMismatch"
    using v by (auto simp: AuthenticateApprover_def verifiedApproverIdentity_def bindE_Inl
        split: identityPolicyMode.splits option.splits)
qed

section \<open>What the policies grant\<close>

lemma unset_policy [simp]:
  "Authenticate IdentityPolicyUnset r = Inl ErrClientIdentity"
  "AuthenticateApprover IdentityPolicyUnset r = Inl ErrClientIdentity"
  "Authorize IdentityPolicyUnset r s l = Some ErrClientIdentity"
  "AuthorizeApprover IdentityPolicyUnset r a = Some ErrClientIdentity"
  by (simp_all add: Authenticate_def AuthenticateApprover_def Authorize_def AuthorizeApprover_def)

lemma Authorize_mutual:
  "Authorize IdentityPolicyMutualTLS r s l = None \<longleftrightarrow>
     Authenticate IdentityPolicyMutualTLS r = Inr \<lparr>si_StationID = s, si_LaneID = l\<rparr>"
  by (auto simp: Authorize_def split: sum.splits)

lemma AuthorizeApprover_mutual:
  "AuthorizeApprover IdentityPolicyMutualTLS r a = None \<longleftrightarrow>
     AuthenticateApprover IdentityPolicyMutualTLS r = Inr \<lparr>ai_ApproverID = a\<rparr>"
  by (auto simp: AuthorizeApprover_def split: sum.splits)

lemma not_both_principals:
  "Authenticate IdentityPolicyMutualTLS r = Inr i \<Longrightarrow>
     AuthenticateApprover IdentityPolicyMutualTLS r = Inl ErrClientIdentity"
  using station_not_approver
  by (auto simp: Authenticate_def AuthenticateApprover_def verifiedStationLaneIdentity_def
      verifiedApproverIdentity_def split: option.splits)

end
