(* ===== verification/StrictJSON.thy ===== *)
theory StrictJSON
  imports Mtls
begin

text \<open>
  What the HTTP surfaces of both services share: strict decoding of JSON (\<^verbatim>\<open>controlplane/strictjson.go\<close>
  and \<^verbatim>\<open>auditlog/strictjson.go\<close>, the same code) and reading a request's body (\<^verbatim>\<open>readBody\<close> of both
  \<^verbatim>\<open>http.go\<close>).
\<close>

section \<open>Strict decoding\<close>

text \<open>A JSON text as the standard library's tokenizer delivers it: members in order, with duplicates.\<close>

datatype jvalue =
    JScalar string
  | JArray "jvalue list"
  | JObject "(string \<times> jvalue) list"

text \<open>Decoding errors wrap none of the classes a status is chosen by.\<close>

datatype decode_error = ErrDecode

fun walkJSONValue :: "jvalue \<Rightarrow> decode_error option"
  and walk_elements :: "jvalue list \<Rightarrow> decode_error option"
  and walk_members :: "string list \<Rightarrow> (string \<times> jvalue) list \<Rightarrow> decode_error option" where
  "walkJSONValue (JScalar token) = None"
| "walkJSONValue (JArray vs) = walk_elements vs"
| "walkJSONValue (JObject ms) = walk_members [] ms"
| "walk_elements [] = None"
| "walk_elements (v # vs) = (case walkJSONValue v of Some err \<Rightarrow> Some err | None \<Rightarrow> walk_elements vs)"
| "walk_members seen [] = None"
| "walk_members seen ((key, v) # ms) =
     (if key \<in> set seen then Some ErrDecode
      else (case walkJSONValue v of Some err \<Rightarrow> Some err | None \<Rightarrow> walk_members (key # seen) ms))"

text \<open>\<open>parse\<close> stands for the standard library's scanner: \<open>None\<close> unless the text is one JSON value and
  nothing after it (\<^verbatim>\<open>requireEOF\<close>). \<open>into\<close> stands for its reflection-driven decoding of a value into
  the destination's type with unknown fields disallowed.\<close>

definition DecodeStrict ::
  "(string \<Rightarrow> jvalue option) \<Rightarrow> (jvalue \<Rightarrow> 'a option) \<Rightarrow> string \<Rightarrow> decode_error + 'a" where
  "DecodeStrict parse into data =
     (case parse data of
        None \<Rightarrow> Inl ErrDecode
      | Some v \<Rightarrow>
          (case walkJSONValue v of
             Some err \<Rightarrow> Inl err
           | None \<Rightarrow> (case into v of None \<Rightarrow> Inl ErrDecode | Some x \<Rightarrow> Inr x)))"

section \<open>The body of a request\<close>

datatype body_error = ErrContentType | ErrBodyRead

definition maxRequestBytes :: nat where
  "maxRequestBytes = 2 ^ 20"

text \<open>\<^verbatim>\<open>strings.ToLower\<close> as far as a comparison with ASCII text can tell: besides the ASCII letters,
  U+0130 (bytes C4 B0) becomes i and U+212A (bytes E2 84 AA) becomes k.\<close>

fun lower_text :: "string \<Rightarrow> string" where
  "lower_text [] = []"
| "lower_text (c # cs) =
     (if byte c = 196 \<and> map byte (take 1 cs) = [176] then CHR ''i'' # lower_text (drop 1 cs)
      else if byte c = 226 \<and> map byte (take 2 cs) = [132, 170] then CHR ''k'' # lower_text (drop 2 cs)
      else to_lower c # lower_text cs)"

definition json_media_type :: "string \<Rightarrow> bool" where
  "json_media_type mediaType =
     (mediaType = [] \<or>
      take (length ''application/json'') (lower_text mediaType) = ''application/json'')"

text \<open>\<^verbatim>\<open>http.MaxBytesReader\<close> fails a longer body. A body whose transport fails never arrives.\<close>

definition readBody :: "Request \<Rightarrow> body_error + string" where
  "readBody request =
     (if \<not> json_media_type (hr_ContentType request) then Inl ErrContentType
      else if length (hr_Body request) > maxRequestBytes then Inl ErrBodyRead
      else Inr (hr_Body request))"

section \<open>No duplicate keys\<close>

fun unique_keys :: "jvalue \<Rightarrow> bool" where
  "unique_keys (JScalar token) = True"
| "unique_keys (JArray vs) = list_all unique_keys vs"
| "unique_keys (JObject ms) = (distinct (map fst ms) \<and> list_all (\<lambda>(key, v). unique_keys v) ms)"

lemma walk_None:
  "walkJSONValue v = None \<longleftrightarrow> unique_keys v"
  "walk_elements vs = None \<longleftrightarrow> list_all unique_keys vs"
  "walk_members seen ms = None \<longleftrightarrow>
     distinct (map fst ms) \<and> set (map fst ms) \<inter> set seen = {} \<and> list_all (\<lambda>(key, v). unique_keys v) ms"
  by (induction v and vs and seen ms rule: walkJSONValue_walk_elements_walk_members.induct)
    (auto split: option.splits)

lemma walk_Some:
  "walkJSONValue v = Some err \<Longrightarrow> err = ErrDecode"
  "walk_elements vs = Some err \<Longrightarrow> err = ErrDecode"
  "walk_members seen ms = Some err \<Longrightarrow> err = ErrDecode"
  by (induction v and vs and seen ms rule: walkJSONValue_walk_elements_walk_members.induct)
    (auto split: option.splits if_splits)

lemma DecodeStrict_Inr:
  "DecodeStrict parse into data = Inr x \<longleftrightarrow> (\<exists>v. parse data = Some v \<and> unique_keys v \<and> into v = Some x)"
  by (auto simp: DecodeStrict_def walk_None [symmetric] split: option.splits)

lemma DecodeStrict_Inl: "DecodeStrict parse into data = Inl err \<Longrightarrow> err = ErrDecode"
  by (auto simp: DecodeStrict_def split: option.splits dest: walk_Some)

end
