(* ===== verification/Control_HTTP.thy ===== *)
theory Control_HTTP
  imports Control_Service StrictJSON
begin

text \<open>
  The control plane's HTTP surface (\<^verbatim>\<open>controlplane/http.go\<close>): strict
  decoding of a command, the identity check its operation needs, and the call. A claim-bound
  command reads the current claim and makes the call under two separate acquisitions of the
  service's mutex, so other calls can run in between: the definitions take the service \<open>s0\<close> the
  identity check sees and the service \<open>s\<close> the call runs on; they are equal when no other request
  interferes.
\<close>

section \<open>Errors and decoders\<close>

text \<open>The errors of this layer: those of the service, of the identity policy, of decoding and of reading
  the body.\<close>

datatype http_error =
    ServiceError control_error
  | IdentityError identity_error
  | DecodeError decode_error
  | BodyError body_error

record Command =
  cm_SchemaVersion :: string
  cm_Operation :: string
  cm_Request :: string \<comment> \<open>\<^verbatim>\<open>json.RawMessage\<close>\<close>

record decoders =
  de_parse :: "string \<Rightarrow> jvalue option"
  de_Command :: "jvalue \<Rightarrow> Command option"
  de_CreateTransaction :: "jvalue \<Rightarrow> CreateTransactionRequest option"
  de_AcquireClaim :: "jvalue \<Rightarrow> AcquireClaimRequest option"
  de_RenewClaim :: "jvalue \<Rightarrow> RenewClaimRequest option"
  de_CurrentClaimPreflight :: "jvalue \<Rightarrow> CurrentClaimPreflightRequest option"
  de_TransferClaim :: "jvalue \<Rightarrow> TransferClaimRequest option"
  de_ReleaseClaim :: "jvalue \<Rightarrow> ReleaseClaimRequest option"
  de_BindTarget :: "jvalue \<Rightarrow> BindTargetRequest option"
  de_RecordApproval :: "jvalue \<Rightarrow> RecordApprovalRequest option"
  de_ApprovalPreflight :: "jvalue \<Rightarrow> ApprovalPreflightRequest option"
  de_RecordIntent :: "jvalue \<Rightarrow> RecordIntentRequest option"
  de_RecordEvidence :: "jvalue \<Rightarrow> RecordEvidenceRequest option"
  de_RecordReconciliation :: "jvalue \<Rightarrow> RecordReconciliationRequest option"
  de_Quarantine :: "jvalue \<Rightarrow> QuarantineRequest option"
  de_Abort :: "jvalue \<Rightarrow> AbortRequest option"
  de_SecurityApplied :: "jvalue \<Rightarrow> SecurityAppliedRequest option"

section \<open>Authorisation of a request\<close>

definition transactionReadOwner :: "Transaction \<Rightarrow> (string \<times> string) option" where
  "transactionReadOwner t =
     (case tx_ActiveClaim t of
        Some c \<Rightarrow> Some (cl_StationID c, cl_LaneID c)
      | None \<Rightarrow>
          (case tx_ClaimHistory t of
             [] \<Rightarrow> None
           | c # cs \<Rightarrow>
               let latest = foldl (\<lambda>latest claim. if cl_FenceEpoch claim > cl_FenceEpoch latest
                                    then claim else latest) c cs
               in Some (cl_StationID latest, cl_LaneID latest)))"

definition authorizeCurrentClaim ::
  "Request \<Rightarrow> Service \<Rightarrow> identityPolicyMode \<Rightarrow> string \<Rightarrow> http_error option" where
  "authorizeCurrentClaim request s0 policy transactionID =
     (case Authenticate policy (Some request) of
        Inl err \<Rightarrow> Some (IdentityError err)
      | Inr _ \<Rightarrow>
          (case GetTransaction s0 transactionID of
             Inl err \<Rightarrow> Some (ServiceError err)
           | Inr t \<Rightarrow>
               (case tx_ActiveClaim t of
                  None \<Rightarrow> Some (IdentityError ErrClientIdentityMismatch)
                | Some c \<Rightarrow> map_option IdentityError
                              (Authorize policy (Some request) (cl_StationID c) (cl_LaneID c)))))"

section \<open>Dispatch\<close>

text \<open>\<^verbatim>\<open>if err := DecodeStrict(...); if err := authorize...; return service.Call(...)\<close>, the shape of
  every case.\<close>

definition serve ::
  "decode_error + 'a \<Rightarrow> ('a \<Rightarrow> http_error option) \<Rightarrow>
     ('a \<Rightarrow> (control_error + Transaction) \<times> Service) \<Rightarrow> Service \<Rightarrow> (http_error + Transaction) \<times> Service" where
  "serve decoded authorize call s =
     (case decoded of
        Inl err \<Rightarrow> (Inl (DecodeError err), s)
      | Inr request \<Rightarrow>
          (case authorize request of
             Some err \<Rightarrow> (Inl err, s)
           | None \<Rightarrow>
               (case call request of
                  (Inl err, s') \<Rightarrow> (Inl (ServiceError err), s')
                | (Inr t, s') \<Rightarrow> (Inr t, s'))))"

definition dispatchCommand ::
  "decoders \<Rightarrow> env \<Rightarrow> Request \<Rightarrow> Service \<Rightarrow> Service \<Rightarrow> identityPolicyMode \<Rightarrow> Command
     \<Rightarrow> (http_error + Transaction) \<times> Service" where
  "dispatchCommand d e httpRequest s0 s policy command =
     (let operation = cm_Operation command;
          claim_bound = authorizeCurrentClaim httpRequest s0 policy
      in if operation = ''create_transaction'' then
        serve (DecodeStrict (de_parse d) (de_CreateTransaction d) (cm_Request command))
          (\<lambda>r. case Authenticate policy (Some httpRequest) of
                 Inl err \<Rightarrow> Some (IdentityError err) | Inr _ \<Rightarrow> None)
          (\<lambda>r. CreateTransaction e r s) s
      else if operation = ''acquire_claim'' then
        serve (DecodeStrict (de_parse d) (de_AcquireClaim d) (cm_Request command))
          (\<lambda>r. map_option IdentityError
                 (Authorize policy (Some httpRequest) (ac_StationID r) (ac_LaneID r)))
          (\<lambda>r. AcquireClaim e r s) s
      else if operation = ''renew_claim'' then
        serve (DecodeStrict (de_parse d) (de_RenewClaim d) (cm_Request command))
          (\<lambda>r. claim_bound (rn_TransactionID r)) (\<lambda>r. RenewClaim e r s) s
      else if operation = ''preflight_current_claim'' then
        serve (DecodeStrict (de_parse d) (de_CurrentClaimPreflight d) (cm_Request command))
          (\<lambda>r. claim_bound (mc_TransactionID (cp_MutationContext r)))
          (\<lambda>r. (PreflightCurrentClaim e r s, s)) s
      else if operation = ''transfer_claim'' then
        serve (DecodeStrict (de_parse d) (de_TransferClaim d) (cm_Request command))
          (\<lambda>r. claim_bound (tr_TransactionID r)) (\<lambda>r. TransferClaim e r s) s
      else if operation = ''release_claim'' then
        serve (DecodeStrict (de_parse d) (de_ReleaseClaim d) (cm_Request command))
          (\<lambda>r. claim_bound (rl_TransactionID r)) (\<lambda>r. ReleaseClaim e r s) s
      else if operation = ''bind_target'' then
        serve (DecodeStrict (de_parse d) (de_BindTarget d) (cm_Request command))
          (\<lambda>r. claim_bound (mc_TransactionID (bt_MutationContext r))) (\<lambda>r. BindTarget e r s) s
      else if operation = ''record_approval'' then
        serve (DecodeStrict (de_parse d) (de_RecordApproval d) (cm_Request command))
          (\<lambda>r. map_option IdentityError (AuthorizeApprover policy (Some httpRequest) (ra_ApproverID r)))
          (\<lambda>r. RecordApproval e r s) s
      else if operation = ''preflight_approval'' then
        serve (DecodeStrict (de_parse d) (de_ApprovalPreflight d) (cm_Request command))
          (\<lambda>r. map_option IdentityError (AuthorizeApprover policy (Some httpRequest) (pf_ApproverID r)))
          (\<lambda>r. (PreflightApproval e r s, s)) s
      else if operation = ''record_intent'' then
        serve (DecodeStrict (de_parse d) (de_RecordIntent d) (cm_Request command))
          (\<lambda>r. claim_bound (mc_TransactionID (ri_MutationContext r))) (\<lambda>r. RecordIntent e r s) s
      else if operation = ''record_evidence'' then
        serve (DecodeStrict (de_parse d) (de_RecordEvidence d) (cm_Request command))
          (\<lambda>r. claim_bound (mc_TransactionID (re_MutationContext r))) (\<lambda>r. RecordEvidence e r s) s
      else if operation = ''record_reconciliation'' then
        serve (DecodeStrict (de_parse d) (de_RecordReconciliation d) (cm_Request command))
          (\<lambda>r. claim_bound (mc_TransactionID (rr_MutationContext r))) (\<lambda>r. RecordReconciliation e r s) s
      else if operation = ''quarantine_device'' then
        serve (DecodeStrict (de_parse d) (de_Quarantine d) (cm_Request command))
          (\<lambda>r. claim_bound (mc_TransactionID (qt_MutationContext r))) (\<lambda>r. QuarantineDevice e r s) s
      else if operation = ''abort_transaction'' then
        serve (DecodeStrict (de_parse d) (de_Abort d) (cm_Request command))
          (\<lambda>r. claim_bound (mc_TransactionID (ar_MutationContext r))) (\<lambda>r. AbortTransaction e r s) s
      else if operation = ''mark_security_applied'' then
        serve (DecodeStrict (de_parse d) (de_SecurityApplied d) (cm_Request command))
          (\<lambda>r. claim_bound (mc_TransactionID (sr_MutationContext r))) (\<lambda>r. MarkSecurityApplied e r s) s
      else (Inl (ServiceError ErrInvalid), s))"

section \<open>Responses\<close>

fun statusForError :: "http_error \<Rightarrow> nat" where
  "statusForError (IdentityError ErrClientIdentityMismatch) = 403"
| "statusForError (IdentityError ErrClientIdentity) = 401"
| "statusForError (ServiceError ErrInvalid) = 400"
| "statusForError (ServiceError ErrNotFound) = 404"
| "statusForError (ServiceError ErrVersionConflict) = 409"
| "statusForError (ServiceError ErrIdempotencyConflict) = 409"
| "statusForError (ServiceError ErrConflict) = 409"
| "statusForError (ServiceError ErrStaleFence) = 409"
| "statusForError (ServiceError ErrLeaseExpired) = 409"
| "statusForError (ServiceError ErrIllegalTransition) = 409"
| "statusForError _ = 500"

datatype response =
    Healthy \<comment> \<open>200, \<^verbatim>\<open>{"status": "ok"}\<close>\<close>
  | Found Transaction \<comment> \<open>200 and the transaction\<close>
  | Failed nat http_error

fun response_status :: "response \<Rightarrow> nat" where
  "response_status Healthy = 200"
| "response_status (Found t) = 200"
| "response_status (Failed status err) = status"

definition get_transaction ::
  "Request \<Rightarrow> Service \<Rightarrow> identityPolicyMode \<Rightarrow> string \<Rightarrow> response" where
  "get_transaction request s policy transactionID =
     (case Authenticate policy (Some request) of
        Inl err \<Rightarrow> Failed (statusForError (IdentityError err)) (IdentityError err)
      | Inr _ \<Rightarrow>
          (case GetTransaction s transactionID of
             Inl err \<Rightarrow> Failed (if err = ErrNotFound then 404 else 500) (ServiceError err)
           | Inr t \<Rightarrow>
               (case transactionReadOwner t of
                  None \<Rightarrow> if RequiresClientIdentity policy
                          then Failed 403 (IdentityError ErrClientIdentityMismatch) else Found t
                | Some (stationID, laneID) \<Rightarrow>
                    (case Authorize policy (Some request) stationID laneID of
                       Some err \<Rightarrow> Failed (statusForError (IdentityError err)) (IdentityError err)
                     | None \<Rightarrow> Found t))))"

definition post_command ::
  "decoders \<Rightarrow> env \<Rightarrow> Request \<Rightarrow> Service \<Rightarrow> Service \<Rightarrow> identityPolicyMode \<Rightarrow> response \<times> Service" where
  "post_command d e request s0 s policy =
     (case readBody request of
        Inl err \<Rightarrow> (Failed 400 (BodyError err), s)
      | Inr body \<Rightarrow>
          (case DecodeStrict (de_parse d) (de_Command d) body of
             Inl err \<Rightarrow> (Failed 400 (DecodeError err), s)
           | Inr command \<Rightarrow>
               if cm_SchemaVersion command \<noteq> CommandSchemaVersion
                  \<or> \<not> validIdentifier (cm_Operation command) \<or> length (cm_Request command) = 0
               then (Failed 400 (ServiceError ErrInvalid), s)
               else (case dispatchCommand d e request s0 s policy command of
                       (Inl err, s') \<Rightarrow> (Failed (statusForError err) err, s')
                     | (Inr t, s') \<Rightarrow> (Found t, s'))))"

text \<open>The three routes of \<^verbatim>\<open>Handler\<close>; the mux delivers the method, the path and the path value.\<close>

datatype route = GetHealth | GetTransactionRoute string | PostCommands

fun Handler ::
  "decoders \<Rightarrow> env \<Rightarrow> identityPolicyMode \<Rightarrow> route \<Rightarrow> Request \<Rightarrow> Service \<Rightarrow> Service \<Rightarrow> response \<times> Service" where
  "Handler d e policy GetHealth request s0 s = (Healthy, s)"
| "Handler d e policy (GetTransactionRoute transactionID) request s0 s =
     (get_transaction request s policy transactionID, s)"
| "Handler d e policy PostCommands request s0 s = post_command d e request s0 s policy"

end
