(* ===== verification/Control_Access.thy ===== *)
theory Control_Access
  imports Control_Calls Control_HTTP
begin

text \<open>
  What the HTTP layer adds to the service: which identity each command needs, and that a command
  that changed anything was one call of the service that passed its check.
\<close>

section \<open>Dispatch as one decoding, one check and one call\<close>

datatype http_call =
    Mutating command
  | ClaimPreflight CurrentClaimPreflightRequest
  | ApprovalPreflight ApprovalPreflightRequest

definition requested :: "decoders \<Rightarrow> Command \<Rightarrow> http_error + http_call" where
  "requested d command =
     (let operation = cm_Operation command
      in if operation = ''create_transaction'' then
        map_sum DecodeError (Mutating \<circ> CmdCreate) (DecodeStrict (de_parse d) (de_CreateTransaction d) (cm_Request command))
      else if operation = ''acquire_claim'' then
        map_sum DecodeError (Mutating \<circ> CmdAcquire) (DecodeStrict (de_parse d) (de_AcquireClaim d) (cm_Request command))
      else if operation = ''renew_claim'' then
        map_sum DecodeError (Mutating \<circ> CmdRenew) (DecodeStrict (de_parse d) (de_RenewClaim d) (cm_Request command))
      else if operation = ''preflight_current_claim'' then
        map_sum DecodeError ClaimPreflight (DecodeStrict (de_parse d) (de_CurrentClaimPreflight d) (cm_Request command))
      else if operation = ''transfer_claim'' then
        map_sum DecodeError (Mutating \<circ> CmdTransfer) (DecodeStrict (de_parse d) (de_TransferClaim d) (cm_Request command))
      else if operation = ''release_claim'' then
        map_sum DecodeError (Mutating \<circ> CmdRelease) (DecodeStrict (de_parse d) (de_ReleaseClaim d) (cm_Request command))
      else if operation = ''bind_target'' then
        map_sum DecodeError (Mutating \<circ> CmdBind) (DecodeStrict (de_parse d) (de_BindTarget d) (cm_Request command))
      else if operation = ''record_approval'' then
        map_sum DecodeError (Mutating \<circ> CmdApprove) (DecodeStrict (de_parse d) (de_RecordApproval d) (cm_Request command))
      else if operation = ''preflight_approval'' then
        map_sum DecodeError ApprovalPreflight (DecodeStrict (de_parse d) (de_ApprovalPreflight d) (cm_Request command))
      else if operation = ''record_intent'' then
        map_sum DecodeError (Mutating \<circ> CmdIntent) (DecodeStrict (de_parse d) (de_RecordIntent d) (cm_Request command))
      else if operation = ''record_evidence'' then
        map_sum DecodeError (Mutating \<circ> CmdEvidence) (DecodeStrict (de_parse d) (de_RecordEvidence d) (cm_Request command))
      else if operation = ''record_reconciliation'' then
        map_sum DecodeError (Mutating \<circ> CmdReconcile) (DecodeStrict (de_parse d) (de_RecordReconciliation d) (cm_Request command))
      else if operation = ''quarantine_device'' then
        map_sum DecodeError (Mutating \<circ> CmdQuarantine) (DecodeStrict (de_parse d) (de_Quarantine d) (cm_Request command))
      else if operation = ''abort_transaction'' then
        map_sum DecodeError (Mutating \<circ> CmdAbort) (DecodeStrict (de_parse d) (de_Abort d) (cm_Request command))
      else if operation = ''mark_security_applied'' then
        map_sum DecodeError (Mutating \<circ> CmdSecurityApplied) (DecodeStrict (de_parse d) (de_SecurityApplied d) (cm_Request command))
      else Inl (ServiceError ErrInvalid))"

fun access :: "Request \<Rightarrow> Service \<Rightarrow> identityPolicyMode \<Rightarrow> command \<Rightarrow> http_error option" where
  "access request s0 policy (CmdCreate r) =
     (case Authenticate policy (Some request) of Inl err \<Rightarrow> Some (IdentityError err) | Inr _ \<Rightarrow> None)"
| "access request s0 policy (CmdAcquire r) =
     map_option IdentityError (Authorize policy (Some request) (ac_StationID r) (ac_LaneID r))"
| "access request s0 policy (CmdApprove r) =
     map_option IdentityError (AuthorizeApprover policy (Some request) (ra_ApproverID r))"
| "access request s0 policy c = authorizeCurrentClaim request s0 policy (cmd_transaction c)"

fun call_access :: "Request \<Rightarrow> Service \<Rightarrow> identityPolicyMode \<Rightarrow> http_call \<Rightarrow> http_error option" where
  "call_access request s0 policy (Mutating c) = access request s0 policy c"
| "call_access request s0 policy (ClaimPreflight r) =
     authorizeCurrentClaim request s0 policy (mc_TransactionID (cp_MutationContext r))"
| "call_access request s0 policy (ApprovalPreflight r) =
     map_option IdentityError (AuthorizeApprover policy (Some request) (pf_ApproverID r))"

fun run_call :: "env \<Rightarrow> Service \<Rightarrow> http_call \<Rightarrow> (control_error + Transaction) \<times> Service" where
  "run_call e s (Mutating c) = run_command e c s"
| "run_call e s (ClaimPreflight r) = (PreflightCurrentClaim e r s, s)"
| "run_call e s (ApprovalPreflight r) = (PreflightApproval e r s, s)"

text \<open>The part of \<open>serve\<close> after decoding, for a request that may also have been refused for its operation.\<close>

definition serve_call ::
  "http_error + http_call \<Rightarrow> (http_call \<Rightarrow> http_error option) \<Rightarrow>
     (http_call \<Rightarrow> (control_error + Transaction) \<times> Service) \<Rightarrow> Service \<Rightarrow> (http_error + Transaction) \<times> Service" where
  "serve_call decoded authorize call s =
     (case decoded of Inl err \<Rightarrow> (Inl err, s) | Inr request \<Rightarrow> serve (Inr request) authorize call s)"

lemma serve_map:
  "serve_call (map_sum DecodeError K decoded) authorize call s = serve decoded (authorize \<circ> K) (call \<circ> K) s"
  by (cases decoded) (simp_all add: serve_def serve_call_def o_def)

lemma serve_Inl [simp]: "serve_call (Inl err) authorize call s = (Inl err, s)"
  by (simp add: serve_call_def)

lemma dispatch_alt:
  "dispatchCommand d e req s0 s policy command =
     serve_call (requested d command) (call_access req s0 policy) (run_call e s) s"
  unfolding dispatchCommand_def requested_def Let_def
  by (simp add: serve_map o_def)

lemma serve_cases [consumes 1, case_names refused called]:
  assumes "serve_call decoded authorize call s = (res, s')"
  obtains (refused) err where "res = Inl err" "s' = s"
  | (called) r out where "decoded = Inr r" "authorize r = None" "call r = (out, s')"
      "res = (case out of Inl err \<Rightarrow> Inl (ServiceError err) | Inr t \<Rightarrow> Inr t)"
  using assms by (auto simp: serve_call_def serve_def split: sum.splits option.splits prod.splits)

lemma map_sum_Inr: "map_sum f K x = Inr y \<longleftrightarrow> (\<exists>z. x = Inr z \<and> y = K z)"
  by (cases x) auto

lemma requested_operation:
  "requested d command = Inr (Mutating c) \<Longrightarrow> cmd_operation c = cm_Operation command"
  unfolding requested_def Let_def by (auto simp: map_sum_Inr split: if_splits)

text \<open>A dispatched command that changed something is one call of the service, and passed the check of
  its kind.\<close>

lemma dispatch_effect:
  assumes "dispatchCommand d e req s0 s policy command = (res, s')" and "s' \<noteq> s"
  shows "\<exists>c out. run_command e c s = (out, s') \<and> access req s0 policy c = None \<and>
    cmd_operation c = cm_Operation command \<and>
    res = (case out of Inl err \<Rightarrow> Inl (ServiceError err) | Inr t \<Rightarrow> Inr t)"
  using assms(1) unfolding dispatch_alt
proof (cases rule: serve_cases)
  case (called r out)
  show ?thesis
  proof (cases r)
    case (Mutating c)
    then show ?thesis using called requested_operation [of d command c] run_call.simps(1) call_access.simps(1)
      by (intro exI [of _ c] exI [of _ out]) simp
  qed (use called assms(2) in auto)
qed (use assms(2) in simp)

lemma dispatch_success:
  assumes "dispatchCommand d e req s0 s policy command = (Inr t, s')" and "s' \<noteq> s"
  obtains c where "run_command e c s = (Inr t, s')" "access req s0 policy c = None"
    "cmd_operation c = cm_Operation command"
  using dispatch_effect [OF assms] by (fastforce split: sum.splits)

section \<open>An epoch has one holder\<close>

text \<open>As long as a transaction stays at a fence epoch, its active claim is the one claim of that epoch,
  or none once that was released.\<close>

definition same_holder :: "Claim \<Rightarrow> Claim \<Rightarrow> bool" where
  "same_holder c c' \<longleftrightarrow> cl_ID c' = cl_ID c \<and> cl_StationID c' = cl_StationID c \<and> cl_LaneID c' = cl_LaneID c"

definition holder_kept :: "Transaction \<Rightarrow> Transaction \<Rightarrow> bool" where
  "holder_kept t t' \<longleftrightarrow> tx_FenceEpoch t \<le> tx_FenceEpoch t' \<and>
     (tx_FenceEpoch t' = tx_FenceEpoch t \<longrightarrow>
       (\<forall>c'. tx_ActiveClaim t' = Some c' \<longrightarrow> (\<exists>c. tx_ActiveClaim t = Some c \<and> same_holder c c')))"

lemma holder_kept_refl: "holder_kept t t"
  by (simp add: holder_kept_def same_holder_def)

lemma holder_kept_trans:
  assumes ab: "holder_kept a b" and bc: "holder_kept b c"
  shows "holder_kept a c"
proof -
  have le: "tx_FenceEpoch a \<le> tx_FenceEpoch b" "tx_FenceEpoch b \<le> tx_FenceEpoch c"
    using ab bc by (simp_all add: holder_kept_def)
  show ?thesis
  proof (cases "tx_FenceEpoch c = tx_FenceEpoch a")
    case True
    then have eq: "tx_FenceEpoch b = tx_FenceEpoch a" "tx_FenceEpoch c = tx_FenceEpoch b"
      using le by simp_all
    show ?thesis using ab bc eq unfolding holder_kept_def same_holder_def by metis
  qed (use le in \<open>auto simp: holder_kept_def\<close>)
qed

lemma holder_handler:
  assumes h: "cmd_handler e c now st t = Inr (st', t')"
    and t: "validateTransaction sha t (ps_FenceEpochs st) = None"
    and t': "validateTransaction sha (bump now t') (ps_FenceEpochs st') = None"
  shows "holder_kept t (bump now t')"
proof -
  have le: "tx_FenceEpoch t \<le> fenceEpochOf (ps_FenceEpochs st) (tx_AssetID t)"
    using t by (auto simp: validateTransaction_None transaction_header_None)
  note up = handler.ap_fence_mono(1) [OF h le]
  have nz: "tx_ActiveClaim t' \<noteq> None \<Longrightarrow> tx_FenceEpoch t' \<noteq> 0" using active_epoch_nonzero [OF t'] by simp
  have fresh: "tx_FenceEpoch t < tx_FenceEpoch t'"
    if "tx_FenceEpoch t' = next_epoch st (tx_AssetID t)" "tx_ActiveClaim t' \<noteq> None"
    using that nz le word_succ_gt [of "fenceEpochOf (ps_FenceEpochs st) (tx_AssetID t)"]
    by (simp add: next_epoch_def)
  have "\<exists>a. tx_ActiveClaim t = Some a \<and> same_holder a b"
    if "tx_FenceEpoch t' = tx_FenceEpoch t" "tx_ActiveClaim t' = Some b" for b
    using h that fresh by (cases c) (auto simp: apply_Inr same_holder_def install_claim_def new_claim_def requireCurrentClaim_Inr)
  then show ?thesis using up nz by (simp add: holder_kept_def)
qed

interpretation holder: transaction_order sha holder_kept for sha
  by unfold_locales (rule holder_kept_refl, erule (1) holder_kept_trans, erule (2) holder_handler)

section \<open>Who may make a claim-bound call\<close>

lemma authorizeCurrentClaim_None:
  "authorizeCurrentClaim req s0 policy tid = None \<longleftrightarrow>
     (\<exists>i t c. Authenticate policy (Some req) = Inr i \<and>
        map_get (ps_Transactions (svc_state s0)) tid = Some t \<and> transaction_encodes t \<and>
        tx_ActiveClaim t = Some c \<and> Authorize policy (Some req) (cl_StationID c) (cl_LaneID c) = None)"
  by (auto simp: authorizeCurrentClaim_def GetTransaction_def cloneTransaction_def
      split: sum.splits option.splits if_splits)

lemma access_claim_bound:
  "cmd_claim c = Some x \<Longrightarrow> cmd_operation c \<noteq> ''record_approval'' \<Longrightarrow>
     access req s0 policy c = authorizeCurrentClaim req s0 policy (cmd_transaction c)"
  by (cases c) auto

lemma cmd_claim_operation:
  "cmd_operation c \<notin> {''create_transaction'', ''acquire_claim''} \<Longrightarrow> \<exists>x. cmd_claim c = Some x"
  by (cases c) auto

lemma call_claim_current:
  assumes "run_command e c s = (out, s')" and "s' \<noteq> s" and "cmd_claim c = Some (cid, ep)"
  shows "\<exists>t claim. map_get (ps_Transactions (svc_state s)) (cmd_transaction c) = Some t \<and>
    requireCurrentClaim t cid ep (env_now e) None = Inr claim"
proof -
  from run_command_effect [OF assms(1)] assms(2) obtain st' where p: "proposes e c (svc_state s) st'" by blast
  then show ?thesis using assms(3) handler_claim_current
    by (cases rule: proposes.cases) (fastforce)+
qed

lemma commit_encodes:
  "commitLocked e st' s = (None, s') \<Longrightarrow> map_get (ps_Transactions st') k = Some t \<Longrightarrow> transaction_encodes t"
  using commit_clone [of e st' s s' k t] by (simp add: cloneTransaction_def split: if_splits)

text \<open>What a call that changed something answers: the transaction its handler made.\<close>

lemma call_result:
  assumes "run_command e c s = (Inr t, s')" and "s' \<noteq> s" and "\<not> is_create c"
  shows "map_get (ps_Transactions (svc_state s')) (cmd_transaction c) = Some t \<and> transaction_encodes t \<and>
    (\<exists>t0 st1 t1. map_get (ps_Transactions (svc_state s)) (cmd_transaction c) = Some t0 \<and>
       cmd_handler e c (env_now e) (svc_state s) t0 = Inr (st1, t1) \<and> t = bump (env_now e) t1)"
  using assms
  by (auto simp: run_command_mutate mutate_def Let_def bump_def cloneState_def
      split: option.splits sum.splits if_splits prod.splits
      dest!: clone_id dest: commit_ok commit_encodes [where k = "cmd_transaction c"])

text \<open>Right after it, the same call is answered from the record of the first.\<close>

lemma fresh_call_replays:
  assumes run: "run_command e c s = (Inr t, s')" and "s' \<noteq> s" and c: "\<not> is_create c"
  shows "run_command e c s' = (cloneTransaction t, s')"
proof -
  have v: "cmd_validate c = None" using run c by (auto simp: run_command_mutate split: option.splits)
  then have m: "mutate e (cmd_operation c) (cmd_key c) (cmd_transaction c) (cmd_version c)
      (cmd_json c) (cmd_handler e c) s = (Inr t, s')" using run c by (simp add: run_command_mutate)
  then obtain d where d: "digestJSON (env_sha256 e) (cmd_json c) = Some d"
    by (auto simp: mutate_def split: option.splits)
  have "map_get (ps_Idempotency (svc_state s)) (cmd_key c) = None"
    using m d assms(2) by (auto simp: mutate_def replayLocked_def split: option.splits if_splits)
  from mutate_fresh_success [OF m d this] show ?thesis
    using v c d by (simp add: run_command_mutate mutate_def replayLocked_def)
qed

section \<open>Refusals\<close>

lemma access_unset: "call_access req s0 IdentityPolicyUnset c = Some (IdentityError ErrClientIdentity)"
proof (cases c)
  case (Mutating m)
  then show ?thesis by (cases m) (auto simp: authorizeCurrentClaim_def)
qed (auto simp: authorizeCurrentClaim_def)

text \<open>A client without a station identity gets no further than an approval.\<close>

lemma station_refused:
  assumes "\<And>i. Authenticate policy (Some req) \<noteq> Inr i"
    and "cm_Operation command \<notin> {''record_approval'', ''preflight_approval''}"
  shows "\<exists>err. dispatchCommand d e req s0 s policy command = (Inl err, s)"
proof (cases "requested d command")
  case (Inr c)
  obtain err where err: "Authenticate policy (Some req) = Inl err" using assms(1) by (cases "Authenticate policy (Some req)") auto
  have p: "policy \<noteq> IdentityPolicyLoopbackPlaintext" using assms(1) [of "\<lparr>si_StationID = [], si_LaneID = []\<rparr>"] by (auto simp: Authenticate_def)
  have "\<exists>x. call_access req s0 policy c = Some x"
  proof (cases c)
    case (Mutating m)
    then show ?thesis using requested_operation [of d command m] Inr assms(2) err p
      by (cases m) (auto simp: authorizeCurrentClaim_def Authorize_def)
  next
    case (ApprovalPreflight q)
    then show ?thesis using Inr assms(2)
      by (auto simp: requested_def Let_def map_sum_Inr split: if_splits)
  qed (use err in \<open>auto simp: authorizeCurrentClaim_def\<close>)
  then show ?thesis unfolding dispatch_alt Inr by (auto simp: serve_call_def serve_def)
qed (simp add: dispatch_alt)

section \<open>The reader of a transaction\<close>

lemma latest_sorted:
  "sorted_wrt (<) (map cl_FenceEpoch (c # cs)) \<Longrightarrow>
     foldl (\<lambda>latest claim. if cl_FenceEpoch claim > cl_FenceEpoch latest then claim else latest) c cs =
     last (c # cs)"
  by (induction cs arbitrary: c) auto

lemma transactionReadOwner_last:
  assumes "sorted_wrt (<) (map cl_FenceEpoch (claims_of t))"
  shows "transactionReadOwner t =
    (if claims_of t = [] then None
     else Some (cl_StationID (last (claims_of t)), cl_LaneID (last (claims_of t))))"
proof (cases "tx_ActiveClaim t")
  case None
  show ?thesis
  proof (cases "tx_ClaimHistory t")
    case (Cons c cs)
    then show ?thesis using latest_sorted [of c cs] assms None
      by (simp add: transactionReadOwner_def claims_of_def Let_def)
  qed (use None in \<open>simp add: transactionReadOwner_def claims_of_def\<close>)
qed (simp add: transactionReadOwner_def claims_of_def)

end
