(* ===== verification/HTTP_Properties.thy ===== *)
theory HTTP_Properties
  imports Control_Demo Control_Access
begin

text \<open>
  The properties of client identities and of the control plane's HTTP surface, with the
  demonstration run driven through it for the witnesses.
\<close>

section \<open>Requests of the demonstration\<close>

definition demo_certificate :: "string \<Rightarrow> string \<Rightarrow> Certificate" where
  "demo_certificate path text =
     \<lparr>crt_Raw = path, crt_URIs = [Some \<lparr>url_Path = path, url_String = text\<rparr>]\<rparr>"

definition demo_request :: "Certificate \<Rightarrow> Request" where
  "demo_request c = \<lparr>hr_TLS = Some [[Some c]], hr_ContentType = ''application/json'', hr_Body = ''{}''\<rparr>"

definition demo_station :: Request where
  "demo_station = demo_request (demo_certificate ''/station/station1/lane/lane1''
     ''spiffe://kaiba.network/station/station1/lane/lane1'')"

definition demo_approver :: Request where
  "demo_approver = demo_request (demo_certificate ''/approver/approver1''
     ''spiffe://kaiba.network/approver/approver1'')"

definition demo_release_claim :: ReleaseClaimRequest where
  "demo_release_claim = \<lparr>rl_SchemaVersion = ReleaseClaimRequestSchemaVersion, rl_IdempotencyKey = ''release'',
     rl_TransactionID = ''tx1'', rl_ExpectedResourceVersion = 19, rl_ClaimID = ''claim1'', rl_FenceEpoch = 1\<rparr>"

definition demo_decoders :: decoders where
  "demo_decoders = \<lparr>de_parse = (\<lambda>_. Some (JObject [])), de_Command = (\<lambda>_. None),
     de_CreateTransaction = (\<lambda>_. Some demo_create), de_AcquireClaim = (\<lambda>_. Some demo_acquire),
     de_RenewClaim = (\<lambda>_. None), de_CurrentClaimPreflight = (\<lambda>_. None),
     de_TransferClaim = (\<lambda>_. Some demo_transfer), de_ReleaseClaim = (\<lambda>_. Some demo_release_claim),
     de_BindTarget = (\<lambda>_. Some demo_bind), de_RecordApproval = (\<lambda>_. Some demo_approve),
     de_ApprovalPreflight = (\<lambda>_. Some demo_preflight), de_RecordIntent = (\<lambda>_. Some (demo_intent 0)),
     de_RecordEvidence = (\<lambda>_. Some (demo_evidence 0)), de_RecordReconciliation = (\<lambda>_. None),
     de_Quarantine = (\<lambda>_. None), de_Abort = (\<lambda>_. None), de_SecurityApplied = (\<lambda>_. Some (demo_security 7))\<rparr>"

definition demo_command :: "string \<Rightarrow> Command" where
  "demo_command operation =
     \<lparr>cm_SchemaVersion = CommandSchemaVersion, cm_Operation = operation, cm_Request = ''{}''\<rparr>"

lemma demo_version_7: "demo_version 7 = 18 \<and> tx_ResourceVersion (demo_secured 7) = 19"
  by (simp add: demo_version_def demo_secured_def)

lemma demo_station_identity:
  "Authenticate IdentityPolicyMutualTLS (Some demo_station) =
     Inr \<lparr>si_StationID = ''station1'', si_LaneID = ''lane1''\<rparr>"
  by code_simp

lemma demo_approver_identity:
  "AuthenticateApprover IdentityPolicyMutualTLS (Some demo_approver) = Inr \<lparr>ai_ApproverID = ''approver1''\<rparr>"
  by code_simp

section \<open>Client identities\<close>

text \<open>A verified station identity is exactly this: every verified chain starts with the
  same leaf certificate, the leaf carries one URI name and no other, and that name is the canonical
  text of the station and lane.\<close>

theorem station_identity_exact:
  "Authenticate IdentityPolicyMutualTLS (Some q) = Inr i \<longleftrightarrow>
     (\<exists>l rest others u. hr_TLS q = Some ((Some l # rest) # others) \<and> crt_URIs l = [Some u] \<and>
        (\<forall>chain \<in> set others. \<exists>c rest'. chain = Some c # rest' \<and> crt_Raw c = crt_Raw l) \<and>
        identityComponent (si_StationID i) \<and> identityComponent (si_LaneID i) \<and>
        url_Path u = ''/station/'' @ si_StationID i @ ''/lane/'' @ si_LaneID i \<and>
        url_String u = ''spiffe://kaiba.network/station/'' @ si_StationID i @ ''/lane/'' @ si_LaneID i)"
proof -
  have "Authenticate IdentityPolicyMutualTLS (Some q) = Inr i \<longleftrightarrow>
      (\<exists>u. verifiedIdentityURI (Some q) = Inr u \<and> parseStationLaneURI u = Some i)"
    by (auto simp: Authenticate_def verifiedStationLaneIdentity_def split: option.splits)
  then show ?thesis
    unfolding verifiedIdentityURI_Inr parseStationLaneURI_Some stationLaneURIPrefix_def by auto
qed

theorem station_identity_exact_witness:
  "identityComponent ''station1'' \<and> hr_TLS demo_station \<noteq> None"
  using demo_station_identity station_identity_exact
    [of demo_station "\<lparr>si_StationID = ''station1'', si_LaneID = ''lane1''\<rparr>"] by auto

section \<open>Commands over HTTP\<close>

text \<open>Property C33. Only the holder uses a claim: under mutual TLS, a claim-bound command that changed
  anything named the transaction's current claim, and the client's verified identity is that claim's
  station and lane, unless the transaction moved on to a new fence epoch between the identity check
  (on the service \<open>s0\<close>) and the call (on \<open>s\<close>).\<close>

theorem claim_bound_by_holder:
  assumes run: "dispatchCommand d e req s0 s IdentityPolicyMutualTLS command = (res, s')" "s' \<noteq> s"
    and op: "cm_Operation command \<notin> {''create_transaction'', ''acquire_claim'', ''record_approval''}"
    and r: "reachable sha T s0" "control_steps sha (T, s0) (T', s)"
  shows "\<exists>c cid ep t0 t claim. snd (run_command e c s) = s' \<and> cmd_operation c = cm_Operation command \<and>
    cmd_claim c = Some (cid, ep) \<and>
    map_get (ps_Transactions (svc_state s0)) (cmd_transaction c) = Some t0 \<and>
    map_get (ps_Transactions (svc_state s)) (cmd_transaction c) = Some t \<and>
    requireCurrentClaim t cid ep (env_now e) None = Inr claim \<and>
    (Authenticate IdentityPolicyMutualTLS (Some req) =
       Inr \<lparr>si_StationID = cl_StationID claim, si_LaneID = cl_LaneID claim\<rparr> \<or>
     tx_FenceEpoch t0 < tx_FenceEpoch t)"
proof -
  from dispatch_effect [OF run] obtain c out where c: "run_command e c s = (out, s')"
      "access req s0 IdentityPolicyMutualTLS c = None" "cmd_operation c = cm_Operation command" by blast
  then obtain cid ep where cl: "cmd_claim c = Some (cid, ep)"
    using op cmd_claim_operation [of c] by auto
  obtain t0 c0 where t0: "map_get (ps_Transactions (svc_state s0)) (cmd_transaction c) = Some t0"
      "tx_ActiveClaim t0 = Some c0"
      "Authorize IdentityPolicyMutualTLS (Some req) (cl_StationID c0) (cl_LaneID c0) = None"
    using c(2,3) op access_claim_bound [OF cl] by (auto simp: authorizeCurrentClaim_None)
  obtain t claim where t: "map_get (ps_Transactions (svc_state s)) (cmd_transaction c) = Some t"
      "requireCurrentClaim t cid ep (env_now e) None = Inr claim"
    using call_claim_current [OF c(1) run(2) cl] by blast
  have "holder_kept t0 t" using holder.along [OF r t0(1)] t(1) by auto
  then have "tx_FenceEpoch t0 < tx_FenceEpoch t \<or> same_holder c0 claim"
    using t(2) t0(2) by (auto simp: holder_kept_def requireCurrentClaim_Inr)
  then have "Authenticate IdentityPolicyMutualTLS (Some req) =
      Inr \<lparr>si_StationID = cl_StationID claim, si_LaneID = cl_LaneID claim\<rparr> \<or> tx_FenceEpoch t0 < tx_FenceEpoch t"
    using t0(3) by (auto simp: Authorize_mutual same_holder_def)
  moreover have "snd (run_command e c s) = s'" using c(1) by simp
  ultimately show ?thesis using c(3) cl t0(1) t by blast
qed

text \<open>A client claims only its own lane: under mutual TLS, the claim an acquisition
  established names exactly the client's verified station and lane.\<close>

theorem acquired_lane_is_own:
  assumes "dispatchCommand d e req s0 s IdentityPolicyMutualTLS command = (Inr t, s')" and "s' \<noteq> s"
    and "cm_Operation command = ''acquire_claim''"
  shows "\<exists>claim. tx_ActiveClaim t = Some claim \<and> cl_Status claim = ClaimActive \<and>
    Authenticate IdentityPolicyMutualTLS (Some req) =
      Inr \<lparr>si_StationID = cl_StationID claim, si_LaneID = cl_LaneID claim\<rparr>"
proof -
  obtain c where c: "run_command e c s = (Inr t, s')"
      "access req s0 IdentityPolicyMutualTLS c = None" "cmd_operation c = ''acquire_claim''"
    using dispatch_success [OF assms(1,2)] assms(3) by metis
  then obtain r where r: "c = CmdAcquire r" by (cases c) auto
  with call_result [OF c(1) assms(2)] obtain t0 st1 t1 where
    "acquire_apply e r (env_now e) (svc_state s) t0 = Inr (st1, t1)" "t = bump (env_now e) t1" by auto
  then show ?thesis using c(2) r
    by (auto simp: acquire_apply_Inr install_claim_def new_claim_def Authorize_mutual)
qed

text \<open>Property C37. Approval is independent of the stations: under mutual TLS, an approval that was
  recorded over HTTP names the client's verified approver identity, and a client with that certificate
  can do nothing but approve or preflight an approval.\<close>

theorem approver_is_independent:
  assumes "dispatchCommand d e req s0 s IdentityPolicyMutualTLS command = (res, s')" and "s' \<noteq> s"
    and "cm_Operation command = ''record_approval''"
  shows "(\<exists>r. snd (run_command e (CmdApprove r) s) = s' \<and>
      AuthenticateApprover IdentityPolicyMutualTLS (Some req) = Inr \<lparr>ai_ApproverID = ra_ApproverID r\<rparr>) \<and>
    (\<forall>d2 e2 r0 r2 command2. cm_Operation command2 \<notin> {''record_approval'', ''preflight_approval''} \<longrightarrow>
      (\<exists>err. dispatchCommand d2 e2 req r0 r2 IdentityPolicyMutualTLS command2 = (Inl err, r2)))"
proof -
  from dispatch_effect [OF assms(1,2)] obtain c out where c: "run_command e c s = (out, s')"
      "access req s0 IdentityPolicyMutualTLS c = None" "cmd_operation c = ''record_approval''"
    unfolding assms(3) by blast
  then obtain r where r: "c = CmdApprove r" by (cases c) auto
  have a: "AuthenticateApprover IdentityPolicyMutualTLS (Some req) = Inr \<lparr>ai_ApproverID = ra_ApproverID r\<rparr>"
    using c(2) r by (simp add: AuthorizeApprover_mutual)
  then have "Authenticate IdentityPolicyMutualTLS (Some req) \<noteq> Inr i" for i
    using not_both_principals by force
  from station_refused [OF this] have "\<forall>d2 e2 r0 r2 command2.
      cm_Operation command2 \<notin> {''record_approval'', ''preflight_approval''} \<longrightarrow>
      (\<exists>err. dispatchCommand d2 e2 req r0 r2 IdentityPolicyMutualTLS command2 = (Inl err, r2))" by blast
  moreover have "snd (run_command e (CmdApprove r) s) = s'" using c(1) r by simp
  ultimately show ?thesis using a by blast
qed

section \<open>Refusals and reads\<close>

text \<open>The zero policy is closed: a handler whose identity policy was never configured
  answers no request with a transaction and changes nothing.\<close>

theorem unset_policy_refuses:
  "snd (Handler d e IdentityPolicyUnset route req s0 s) = s \<and>
   fst (Handler d e IdentityPolicyUnset route req s0 s) \<noteq> Found t"
proof -
  have "\<exists>err. dispatchCommand d e req s0 s IdentityPolicyUnset command = (Inl err, s)" for command
    by (cases "requested d command") (simp_all add: dispatch_alt serve_call_def serve_def access_unset)
  then obtain f where "\<And>command. dispatchCommand d e req s0 s IdentityPolicyUnset command = (Inl (f command), s)"
    by metis
  then have "\<exists>status err. post_command d e req s0 s IdentityPolicyUnset = (Failed status err, s)"
    by (auto simp: post_command_def split: sum.splits)
  then show ?thesis
    by (cases route) (auto simp: get_transaction_def)
qed

text \<open>Reads are scoped: under mutual TLS a transaction is shown only to the station and
  lane of its most recent claim, the active one if there is one; a transaction that was never claimed
  is shown to nobody.\<close>

theorem read_only_by_claimant:
  assumes "get_transaction req s IdentityPolicyMutualTLS tid = Found t" and "reachable sha T s"
  shows "map_get (ps_Transactions (svc_state s)) tid = Some t \<and> claims_of t \<noteq> [] \<and>
    Authenticate IdentityPolicyMutualTLS (Some req) =
      Inr \<lparr>si_StationID = cl_StationID (last (claims_of t)), si_LaneID = cl_LaneID (last (claims_of t))\<rparr>"
proof -
  have t: "map_get (ps_Transactions (svc_state s)) tid = Some t"
    using assms(1) by (auto simp: get_transaction_def GetTransaction_def cloneTransaction_def
        split: sum.splits option.splits if_splits prod.splits)
  have "sorted_wrt (<) (map cl_FenceEpoch (claims_of t))"
    using epochs.of_reachable [OF assms(2) t] by (simp add: epochs_ok_def)
  note owner = transactionReadOwner_last [OF this]
  show ?thesis using assms(1) t owner
    by (auto simp: get_transaction_def GetTransaction_def cloneTransaction_def RequiresClientIdentity_def
        Authorize_mutual split: sum.splits option.splits if_splits prod.splits)
qed


text \<open>A release cannot be retried: after a claim was released, the service would answer the
  same request again with the same transaction, but over HTTP the retry is refused as an identity
  mismatch, whoever sends it and under every configured policy.\<close>

theorem release_retry_refused:
  assumes run: "ReleaseClaim e r s = (Inr t, s')" "s' \<noteq> s"
    and c: "cm_Operation command = ''release_claim''"
      "DecodeStrict (de_parse d) (de_ReleaseClaim d) (cm_Request command) = Inr r"
    and a: "Authenticate policy (Some req) = Inr i"
  shows "ReleaseClaim e r s' = (Inr t, s') \<and>
    dispatchCommand d e req s' s' policy command = (Inl (IdentityError ErrClientIdentityMismatch), s')"
proof -
  have run': "run_command e (CmdRelease r) s = (Inr t, s')" using run(1) by simp
  note res = call_result [OF run' run(2), simplified]
  have none: "tx_ActiveClaim t = None" using res by (auto simp: release_apply_Inr)
  have known: "run_command e (CmdRelease r) s' = (cloneTransaction t, s')"
    using fresh_call_replays [OF run' run(2)] by simp
  have "authorizeCurrentClaim req s' policy (rl_TransactionID r) = Some (IdentityError ErrClientIdentityMismatch)"
    using res none a by (simp add: authorizeCurrentClaim_def GetTransaction_def cloneTransaction_def)
  then show ?thesis
    using known res c by (simp add: dispatch_alt requested_def serve_call_def serve_def cloneTransaction_def)
qed

text \<open>A well-formed envelope around a request that does not decode (an unknown field, a
  duplicate key, a wrong type) is answered with status 500, as if the server had failed.\<close>

theorem malformed_request_is_500:
  assumes "readBody req = Inr body" and "DecodeStrict (de_parse d) (de_Command d) body = Inr command"
    and "cm_SchemaVersion command = CommandSchemaVersion" and "validIdentifier (cm_Operation command)"
    and "cm_Request command \<noteq> []" and "requested d command = Inl (DecodeError ErrDecode)"
  shows "post_command d e req s0 s policy = (Failed 500 (DecodeError ErrDecode), s)"
  using assms by (simp add: post_command_def dispatch_alt)

text \<open>Strict decoding accepts a text exactly when it is one JSON value in which no object,
  at any depth, has a key twice, and the value decodes into the destination's type; every refusal is
  a decoding error.\<close>

theorem strict_decode_exact:
  "(DecodeStrict parse into data = Inr x \<longleftrightarrow>
      (\<exists>v. parse data = Some v \<and> unique_keys v \<and> into v = Some x)) \<and>
   (DecodeStrict parse into data = Inl err \<longleftrightarrow>
      err = ErrDecode \<and> \<not> (\<exists>v x. parse data = Some v \<and> unique_keys v \<and> into v = Some x))"
proof -
  have "DecodeStrict parse into data = Inl err \<longleftrightarrow> err = ErrDecode \<and> (\<forall>x. DecodeStrict parse into data \<noteq> Inr x)"
    using DecodeStrict_Inl [of parse into data] by (cases "DecodeStrict parse into data") auto
  then show ?thesis by (auto simp: DecodeStrict_Inr)
qed

section \<open>Witnesses\<close>

lemma demo_dispatch:
  assumes "requested demo_decoders (demo_command operation) = Inr (Mutating c)"
    and "access req s0 policy c = None" and "run_command demo_env c (demo_service cs) = (Inr t, demo_service (cs @ [c]))"
  shows "dispatchCommand demo_decoders demo_env req s0 (demo_service cs) policy (demo_command operation) =
    (Inr t, demo_service (cs @ [c]))"
  using assms by (simp add: dispatch_alt serve_call_def serve_def)

lemma demo_requested:
  "requested demo_decoders (demo_command ''acquire_claim'') = Inr (Mutating (CmdAcquire demo_acquire))"
  "requested demo_decoders (demo_command ''bind_target'') = Inr (Mutating (CmdBind demo_bind))"
  "requested demo_decoders (demo_command ''record_approval'') = Inr (Mutating (CmdApprove demo_approve))"
  "requested demo_decoders (demo_command ''renew_claim'') = Inl (DecodeError ErrDecode)"
  by (simp_all add: requested_def demo_command_def demo_decoders_def DecodeStrict_def)

lemma demo_ran:
  assumes a: "demo_at cs t keys" and b: "demo_at (cs @ [c]) t' keys'" and k: "cmd_key c \<notin> keys"
    and ne: "t' \<noteq> t" and v: "cmd_transaction c = ''tx1''" "\<not> is_create c"
  shows "run_command demo_env c (demo_service cs) = (Inr t', demo_service (cs @ [c])) \<and>
    demo_service (cs @ [c]) \<noteq> demo_service cs"
proof -
  obtain r s' where run: "run_command demo_env c (demo_service cs) = (r, s')" by fastforce
  then have s': "s' = demo_service (cs @ [c])" by (simp add: demo_service_def)
  have tx: "ps_Transactions (svc_state (demo_service cs)) = [(''tx1'', t)]"
      "ps_Transactions (svc_state (demo_service (cs @ [c]))) = [(''tx1'', t')]"
    using a b by (simp_all add: demo_at_def)
  have ch: "svc_state s' \<noteq> svc_state (demo_service cs)" using tx ne s' by auto
  then obtain x where x: "r = Inr x" using run_command_failed run by (cases r) auto
  from ch have "s' \<noteq> demo_service cs" by auto
  from call_result [OF run [unfolded x] this v(2)] have "x = t'" using tx(2) v(1) s' by (simp add: map_get_def)
  then show ?thesis using run x s' ch by auto
qed

lemma demo_ran_acquire:
  "run_command demo_env (CmdAcquire demo_acquire) (demo_service [CmdCreate demo_create]) =
     (Inr demo_claimed, demo_service [CmdCreate demo_create, CmdAcquire demo_acquire]) \<and>
   demo_service [CmdCreate demo_create, CmdAcquire demo_acquire] \<noteq> demo_service [CmdCreate demo_create]"
  using demo_ran [of "[CmdCreate demo_create]" demo_created "{''create''}" "CmdAcquire demo_acquire" demo_claimed
      "{''acquire'', ''create''}"] demo_step_create demo_step_acquire
  by (simp add: demo_acquire_def) (simp add: demo_tx_defs)

lemma demo_ran_bind:
  "run_command demo_env (CmdBind demo_bind) (demo_service [CmdCreate demo_create, CmdAcquire demo_acquire]) =
     (Inr demo_bound, demo_service [CmdCreate demo_create, CmdAcquire demo_acquire, CmdBind demo_bind]) \<and>
   demo_service [CmdCreate demo_create, CmdAcquire demo_acquire, CmdBind demo_bind] \<noteq>
     demo_service [CmdCreate demo_create, CmdAcquire demo_acquire]"
  using demo_ran [of "[CmdCreate demo_create, CmdAcquire demo_acquire]" demo_claimed "{''acquire'', ''create''}"
      "CmdBind demo_bind" demo_bound "{''bind'', ''acquire'', ''create''}"] demo_step_acquire demo_step_bind
  by (simp add: demo_bind_def demo_context_def) (simp add: demo_tx_defs)

definition demo_released :: Transaction where
  "demo_released = (demo_secured 7)\<lparr>tx_ResourceVersion := 20, tx_ActiveClaim := None,
     tx_ClaimHistory := [close_claim ClaimReleased demo_now demo_claim]\<rparr>"

lemma demo_released_encodes: "transaction_encodes demo_released"
  using demo_encodes(6) [of 7]
  by (simp add: demo_released_def transaction_encodes_def transaction_times_def claim_times_def close_claim_def)
    (simp add: demo_tx_defs list_all_iff claim_times_def)

lemma demo_step_release:
  "demo_at (demo_run @ [CmdRelease demo_release_claim]) demo_released
     (insert ''release'' (insert ''security'' (demo_keys 7)))"
proof -
  have c: "cmd_validate (CmdRelease demo_release_claim) = None" "marshals (cmd_json (CmdRelease demo_release_claim))"
    by (simp_all add: demo_release_claim_def validateReleaseClaimRequest_def json_of_Release_def rl_context_def
        demo_request_checks) code_simp
  have at: "demo_at demo_run (demo_secured 7) (insert ''security'' (demo_keys 7))"
    using demo_complete_at [OF refl] by (simp add: demo_run_def)
  define t' where "t' = demo_released\<lparr>tx_ResourceVersion := 19\<rparr>"
  have t': "bump demo_now t' = demo_released"
    by (simp add: t'_def bump_def demo_released_def demo_tx_defs del: upt_rec_numeral)
  have rc: "requireCurrentClaim (demo_secured 7) ''claim1'' 1 demo_now None = Inr demo_claim"
    using demo_now_before demo_lease_end
    by (simp add: requireCurrentClaim_Inr) (simp add: demo_tx_defs demo_claim_def)
  have "release_apply demo_release_claim demo_now st (demo_secured 7) = Inr (st, t')" for st
    unfolding release_apply_Inr
    by (intro exI [of _ demo_claim] conjI) (use rc in \<open>simp_all add: demo_release_claim_def\<close>,
        simp_all add: t'_def demo_released_def demo_tx_defs demo_version_def)
  then have h: "\<exists>st'. cmd_handler demo_env (CmdRelease demo_release_claim) demo_now st (demo_secured 7) = Inr (st', t') \<and>
      fenceEpochOf (ps_FenceEpochs st') ''asset1'' = tx_FenceEpoch t'"
    if "fenceEpochOf (ps_FenceEpochs st) ''asset1'' = tx_FenceEpoch (demo_secured 7)" for st
    using that by (simp add: t'_def demo_released_def)
  have key: "cmd_key (CmdRelease demo_release_claim) \<notin> insert ''security'' (demo_keys 7)"
    by (auto simp: demo_release_claim_def demo_keys_def demo_intent_key_def demo_evidence_key_def)
  have "demo_at (demo_run @ [CmdRelease demo_release_claim]) (bump demo_now t')
      (insert (cmd_key (CmdRelease demo_release_claim)) (insert ''security'' (demo_keys 7)))"
    by (rule demo_advance [OF at _ c key _ _ _ _ _ h])
      (simp_all add: demo_release_claim_def unrecordable_def t' demo_released_encodes, simp_all add: demo_version_def demo_tx_defs)
  then show ?thesis by (simp add: t' demo_release_claim_def)
qed

theorem claim_bound_by_holder_witness:
  "snd (dispatchCommand demo_decoders demo_env demo_station
      (demo_service [CmdCreate demo_create, CmdAcquire demo_acquire])
      (demo_service [CmdCreate demo_create, CmdAcquire demo_acquire]) IdentityPolicyMutualTLS
      (demo_command ''bind_target'')) = demo_service [CmdCreate demo_create, CmdAcquire demo_acquire, CmdBind demo_bind] \<and>
   (\<exists>c cid ep. cmd_operation c = ''bind_target'' \<and> cmd_claim c = Some (cid, ep) \<and>
      Authenticate IdentityPolicyMutualTLS (Some demo_station) = Inr \<lparr>si_StationID = ''station1'', si_LaneID = ''lane1''\<rparr>)"
proof -
  let ?s = "demo_service [CmdCreate demo_create, CmdAcquire demo_acquire]"
  have get: "map_get (ps_Transactions (svc_state ?s)) ''tx1'' = Some demo_claimed"
    by (rule demo_at_reachable [OF demo_step_acquire])
  have cl: "tx_ActiveClaim demo_claimed = Some demo_claim" "cl_StationID demo_claim = ''station1''"
      "cl_LaneID demo_claim = ''lane1''"
    by (simp_all add: demo_tx_defs demo_claim_def new_claim_def)
  have acc: "access demo_station ?s IdentityPolicyMutualTLS (CmdBind demo_bind) = None"
    using get cl demo_encodes(2) demo_station_identity
    by (auto simp: authorizeCurrentClaim_None Authorize_mutual demo_bind_def demo_context_def)
  have run: "dispatchCommand demo_decoders demo_env demo_station ?s ?s IdentityPolicyMutualTLS (demo_command ''bind_target'') =
      (Inr demo_bound, demo_service [CmdCreate demo_create, CmdAcquire demo_acquire, CmdBind demo_bind])"
    using demo_dispatch [OF demo_requested(2) acc,
        where cs = "[CmdCreate demo_create, CmdAcquire demo_acquire]" and t = demo_bound] demo_ran_bind by simp
  from claim_bound_by_holder [OF run _ _ demo_reachable control_steps.none_yet] demo_ran_bind run
  show ?thesis using demo_station_identity by (auto simp: demo_command_def)
qed

theorem acquired_lane_is_own_witness:
  "tx_ActiveClaim demo_claimed = Some demo_claim \<and>
   Authenticate IdentityPolicyMutualTLS (Some demo_station) =
     Inr \<lparr>si_StationID = cl_StationID demo_claim, si_LaneID = cl_LaneID demo_claim\<rparr>"
proof -
  have acc: "access demo_station (demo_service [CmdCreate demo_create]) IdentityPolicyMutualTLS (CmdAcquire demo_acquire) = None"
    using demo_station_identity by (simp add: Authorize_mutual demo_acquire_def)
  have run: "dispatchCommand demo_decoders demo_env demo_station (demo_service [CmdCreate demo_create])
      (demo_service [CmdCreate demo_create]) IdentityPolicyMutualTLS (demo_command ''acquire_claim'') =
      (Inr demo_claimed, demo_service [CmdCreate demo_create, CmdAcquire demo_acquire])"
    using demo_dispatch [OF demo_requested(1) acc,
        where cs = "[CmdCreate demo_create]" and t = demo_claimed] demo_ran_acquire by simp
  have "tx_ActiveClaim demo_claimed = Some demo_claim" by (simp add: demo_tx_defs)
  then show ?thesis using acquired_lane_is_own [OF run] demo_ran_acquire by (auto simp: demo_command_def)
qed

lemma demo_ran_approve:
  "run_command demo_env (CmdApprove demo_approve) (demo_service [CmdCreate demo_create, CmdAcquire demo_acquire, CmdBind demo_bind]) =
     (Inr (demo_ready 0), demo_service demo_start) \<and>
   demo_service demo_start \<noteq> demo_service [CmdCreate demo_create, CmdAcquire demo_acquire, CmdBind demo_bind]"
  using demo_ran [of "[CmdCreate demo_create, CmdAcquire demo_acquire, CmdBind demo_bind]" demo_bound
      "{''bind'', ''acquire'', ''create''}" "CmdApprove demo_approve" "demo_ready 0"
      "{''approve'', ''bind'', ''acquire'', ''create''}"] demo_step_bind demo_step_approve
  by (simp add: demo_approve_def demo_context_def demo_start_def) (simp add: demo_tx_defs)

theorem approver_is_independent_witness:
  "\<exists>err. dispatchCommand demo_decoders demo_env demo_approver (demo_service demo_start) (demo_service demo_start)
     IdentityPolicyMutualTLS (demo_command ''record_intent'') = (Inl err, demo_service demo_start)"
proof -
  let ?s = "demo_service [CmdCreate demo_create, CmdAcquire demo_acquire, CmdBind demo_bind]"
  have acc: "access demo_approver ?s IdentityPolicyMutualTLS (CmdApprove demo_approve) = None"
    using demo_approver_identity by (simp add: AuthorizeApprover_mutual demo_approve_def)
  have run: "dispatchCommand demo_decoders demo_env demo_approver ?s ?s IdentityPolicyMutualTLS (demo_command ''record_approval'') =
      (Inr (demo_ready 0), demo_service demo_start)"
    using demo_dispatch [OF demo_requested(3) acc,
        where cs = "[CmdCreate demo_create, CmdAcquire demo_acquire, CmdBind demo_bind]" and t = "demo_ready 0"] demo_ran_approve by (simp add: demo_start_def)
  from approver_is_independent [OF run] demo_ran_approve
  have "\<forall>d2 e2 r0 r2 command2. cm_Operation command2 \<notin> {''record_approval'', ''preflight_approval''} \<longrightarrow>
      (\<exists>err. dispatchCommand d2 e2 demo_approver r0 r2 IdentityPolicyMutualTLS command2 = (Inl err, r2))"
    by (simp add: demo_command_def)
  moreover have "cm_Operation (demo_command ''record_intent'') \<notin> {''record_approval'', ''preflight_approval''}"
    by (simp add: demo_command_def)
  ultimately show ?thesis by blast
qed

theorem read_only_by_claimant_witness:
  "get_transaction demo_station (demo_service demo_start) IdentityPolicyMutualTLS ''tx1'' = Found (demo_ready 0) \<and>
   last (claims_of (demo_ready 0)) = demo_claim \<and> claims_of (demo_ready 0) \<noteq> []"
proof -
  have cl: "tx_ActiveClaim (demo_ready 0) = Some demo_claim" "cl_StationID demo_claim = ''station1''"
      "cl_LaneID demo_claim = ''lane1''" by (simp_all add: demo_tx_defs demo_claim_def new_claim_def)
  have "Authorize IdentityPolicyMutualTLS (Some demo_station) ''station1'' ''lane1'' = None"
    using demo_station_identity by (simp add: Authorize_mutual)
  then have f: "get_transaction demo_station (demo_service demo_start) IdentityPolicyMutualTLS ''tx1'' = Found (demo_ready 0)"
    using demo_at_reachable [OF demo_step_approve] cl demo_encodes(4) demo_station_identity
    by (simp add: get_transaction_def GetTransaction_def cloneTransaction_def transactionReadOwner_def)
  from read_only_by_claimant [OF f demo_reachable] show ?thesis using f cl(1) by (simp add: claims_of_def)
qed

lemma demo_renew_valid: "validIdentifier ''renew_claim''" by code_simp

lemma demo_media_type: "json_media_type ''application/json''" by code_simp

lemma demo_body: "readBody demo_station = Inr ''{}''"
  using demo_media_type by (simp add: readBody_def demo_station_def demo_request_def maxRequestBytes_def)


theorem release_retry_refused_witness:
  "dispatchCommand demo_decoders demo_env demo_station (demo_service (demo_run @ [CmdRelease demo_release_claim]))
      (demo_service (demo_run @ [CmdRelease demo_release_claim])) IdentityPolicyMutualTLS (demo_command ''release_claim'') =
   (Inl (IdentityError ErrClientIdentityMismatch), demo_service (demo_run @ [CmdRelease demo_release_claim]))"
proof -
  have at: "demo_at demo_run (demo_secured 7) (insert ''security'' (demo_keys 7))"
    using demo_complete_at [OF refl] by (simp add: demo_run_def)
  have "tx_ResourceVersion demo_released = 20" by (simp add: demo_released_def)
  then have ne: "demo_released \<noteq> demo_secured 7" using demo_version_7 by auto
  have k: "cmd_key (CmdRelease demo_release_claim) \<notin> insert ''security'' (demo_keys 7)"
    by (auto simp: demo_release_claim_def demo_keys_def demo_intent_key_def demo_evidence_key_def)
  have r: "ReleaseClaim demo_env demo_release_claim (demo_service demo_run) =
      (Inr demo_released, demo_service (demo_run @ [CmdRelease demo_release_claim]))"
      "demo_service (demo_run @ [CmdRelease demo_release_claim]) \<noteq> demo_service demo_run"
    using demo_ran [OF at demo_step_release k ne] by (simp_all add: demo_release_claim_def)
  show ?thesis
    by (rule conjunct2 [OF release_retry_refused [OF r _ _ demo_station_identity]])
      (simp_all add: demo_command_def demo_decoders_def DecodeStrict_def)
qed

theorem malformed_request_is_500_witness:
  "post_command (demo_decoders\<lparr>de_Command := \<lambda>_. Some (demo_command ''renew_claim'')\<rparr>) demo_env demo_station
     first_service first_service IdentityPolicyMutualTLS = (Failed 500 (DecodeError ErrDecode), first_service)"
  by (rule malformed_request_is_500 [where body = "''{}''" and command = "demo_command ''renew_claim''"])
    (simp_all add: demo_body demo_decoders_def DecodeStrict_def demo_command_def requested_def demo_renew_valid)

end
