(* ===== verification/Audit_Log.thy ===== *)
theory Audit_Log
  imports StrictJSON Storage
begin

text \<open>
  The append-only audit service (\<^verbatim>\<open>auditlog/types.go\<close>, \<^verbatim>\<open>auditlog/service.go\<close>): events, the records the
  service makes of them, their hash chain, the idempotency index and the integrity check that runs
  on every append and on every opening. The service's mutex makes a call atomic. What a call takes
  from outside is its \<open>audit_env\<close>: the clock reading, the hash function, the standard library's URL
  parser as far as the code looks at its result, and which step of saving fails, if any.
\<close>

section \<open>Data\<close>

definition AppendRequestSchemaVersion :: string where
  "AppendRequestSchemaVersion = ''provisioning.kaiba.network/audit-append-request/v1alpha1''"
definition EventSchemaVersion :: string where
  "EventSchemaVersion = ''provisioning.kaiba.network/audit-event/v1alpha1''"
definition ReceiptSchemaVersion :: string where
  "ReceiptSchemaVersion = ''provisioning.kaiba.network/audit-receipt/v1alpha1''"
definition AuditStoreSchemaVersion :: string where
  "AuditStoreSchemaVersion = ''provisioning.kaiba.network/audit-store/v1alpha1''"

text \<open>\<open>AuditPanic\<close> is the run-time panic of an index out of range.\<close>

datatype audit_error =
  AuditInvalid | AuditIdempotencyConflict | AuditCorruptStore | AuditOther | AuditPanic

record Actor =
  actor_ID :: string
  actor_Role :: string

record TimeEvidence =
  te_StationTime :: gtime
  te_ClockStatus :: string

record ObservationReference =
  or_Kind :: string
  or_Digest :: string
  or_URI :: string

record Event =
  ev_SchemaVersion :: string
  ev_PolicyVersion :: string
  ev_EventID :: string
  ev_TransactionID :: string
  ev_StationID :: string
  ev_LaneID :: string
  ev_Stage :: string
  ev_FenceEpoch :: uint64
  ev_InputDigest :: string
  ev_OutputDigest :: string
  ev_Result :: string
  ev_Actors :: "Actor list"
  ev_TimeEvidence :: TimeEvidence
  ev_ObservationReferences :: "ObservationReference list"

record AppendRequest =
  aq_SchemaVersion :: string
  aq_IdempotencyKey :: string
  aq_Event :: Event

record Receipt =
  rc_SchemaVersion :: string
  rc_ReceiptID :: string
  rc_Sequence :: uint64
  rc_PreviousEventHash :: string
  rc_EventHash :: string
  rc_RecordedAt :: instant

record Record =
  rd_Sequence :: uint64
  rd_PreviousEventHash :: string
  rd_EventHash :: string
  rd_RequestDigest :: string
  rd_RecordedAt :: instant
  rd_Event :: Event

record audit_state =
  au_SchemaVersion :: string
  au_Records :: "Record list"
  au_Idempotency :: "(string, uint64) gomap"

text \<open>What the code reads of a parsed \<^verbatim>\<open>url.URL\<close>; \<open>None\<close> where \<^verbatim>\<open>url.Parse\<close> fails.\<close>

record parsed_url =
  pu_Scheme :: string
  pu_HasUser :: bool
  pu_Fragment :: string

type_synonym url_parser = "string \<Rightarrow> parsed_url option"

record audit_env =
  ae_now :: instant
  ae_sha256 :: hash
  ae_url :: url_parser
  ae_fault :: "save_step option"

record audit_service =
  as_state :: audit_state
  as_store :: "audit_state file_state"

section \<open>The JSON objects that are hashed\<close>

definition json_of_Actor :: "Actor \<Rightarrow> json" where
  "json_of_Actor a = JObj [(''id'', JStr (actor_ID a)), (''role'', JStr (actor_Role a))]"

definition json_of_TimeEvidence :: "TimeEvidence \<Rightarrow> json" where
  "json_of_TimeEvidence t =
     JObj [(''station_time'', JTime (te_StationTime t)), (''clock_status'', JStr (te_ClockStatus t))]"

definition json_of_ObservationReference :: "ObservationReference \<Rightarrow> json" where
  "json_of_ObservationReference r =
     JObj ([(''kind'', JStr (or_Kind r)), (''digest'', JStr (or_Digest r))] @ omit_empty ''uri'' (or_URI r))"

definition json_of_Event :: "Event \<Rightarrow> json" where
  "json_of_Event ev = JObj (
     [(''schema_version'', JStr (ev_SchemaVersion ev)), (''policy_version'', JStr (ev_PolicyVersion ev)),
      (''event_id'', JStr (ev_EventID ev)), (''transaction_id'', JStr (ev_TransactionID ev)),
      (''station_id'', JStr (ev_StationID ev)), (''lane_id'', JStr (ev_LaneID ev)),
      (''stage'', JStr (ev_Stage ev)), (''fence_epoch'', juint64 (ev_FenceEpoch ev)),
      (''input_digest'', JStr (ev_InputDigest ev))]
     @ omit_empty ''output_digest'' (ev_OutputDigest ev)
     @ [(''result'', JStr (ev_Result ev)), (''actors'', JList (map json_of_Actor (ev_Actors ev))),
        (''time_evidence'', json_of_TimeEvidence (ev_TimeEvidence ev))]
     @ (if ev_ObservationReferences ev = [] then []
        else [(''observation_references'',
               JList (map json_of_ObservationReference (ev_ObservationReferences ev)))]))"

definition json_of_AppendRequest :: "AppendRequest \<Rightarrow> json" where
  "json_of_AppendRequest r =
     JObj [(''schema_version'', JStr (aq_SchemaVersion r)),
           (''idempotency_key'', JStr (aq_IdempotencyKey r)), (''event'', json_of_Event (aq_Event r))]"

text \<open>The hash material of a record: everything but its own hash.\<close>

definition recordHashMaterial :: "Record \<Rightarrow> json" where
  "recordHashMaterial r = JObj (
     [(''sequence'', juint64 (rd_Sequence r))]
     @ omit_empty ''previous_event_hash'' (rd_PreviousEventHash r)
     @ [(''request_digest'', JStr (rd_RequestDigest r)), (''recorded_at'', JTime (utc (rd_RecordedAt r))),
        (''event'', json_of_Event (rd_Event r))])"

definition receiptFor :: "hash \<Rightarrow> Record \<Rightarrow> Receipt" where
  "receiptFor sha256 r =
     \<lparr>rc_SchemaVersion = ReceiptSchemaVersion,
      rc_ReceiptID = digestBytes sha256 (''kaiba-audit-receipt'' @ [char_of (0 :: nat)] @ rd_EventHash r),
      rc_Sequence = rd_Sequence r, rc_PreviousEventHash = rd_PreviousEventHash r,
      rc_EventHash = rd_EventHash r, rc_RecordedAt = rd_RecordedAt r\<rparr>"

section \<open>Validation of a request\<close>

fun actors_loop :: "string list \<Rightarrow> Actor list \<Rightarrow> audit_error option" where
  "actors_loop seen [] = None"
| "actors_loop seen (a # as) =
     (if \<not> validIdentifier (actor_ID a) \<or> \<not> validIdentifier (actor_Role a) then Some AuditInvalid
      else let key = actor_Role a @ [char_of (0 :: nat)] @ actor_ID a
           in if key \<in> set seen then Some AuditInvalid else actors_loop (key # seen) as)"

definition reference_ok :: "url_parser \<Rightarrow> ObservationReference \<Rightarrow> audit_error option" where
  "reference_ok url r =
     first_err
       [fail_if (\<not> validIdentifier (or_Kind r) \<or> \<not> validDigest (or_Digest r)) AuditInvalid,
        (if or_URI r \<noteq> []
         then (case url (or_URI r) of
                 None \<Rightarrow> Some AuditInvalid
               | Some u \<Rightarrow> fail_if (pu_HasUser u \<or> pu_Fragment u \<noteq> []
                             \<or> pu_Scheme u \<noteq> ''https'' \<and> pu_Scheme u \<noteq> ''kaiba-evidence'') AuditInvalid)
         else None)]"

definition supported_results :: "string list" where
  "supported_results = [''intent_recorded'', ''succeeded'', ''failed'', ''uncertain'', ''quarantined'', ''reconciled'']"

definition validateEvent :: "url_parser \<Rightarrow> Event \<Rightarrow> audit_error option" where
  "validateEvent url ev =
     first_err (
       [fail_if (ev_SchemaVersion ev \<noteq> EventSchemaVersion) AuditInvalid,
        fail_if (ev_PolicyVersion ev = [] \<or> length (ev_PolicyVersion ev) > 128) AuditInvalid]
       @ map (\<lambda>v. fail_if (\<not> validIdentifier v) AuditInvalid)
           [ev_EventID ev, ev_TransactionID ev, ev_StationID ev, ev_LaneID ev, ev_Stage ev]
       @ [fail_if (ev_FenceEpoch ev = 0) AuditInvalid,
          fail_if (\<not> validDigest (ev_InputDigest ev)) AuditInvalid,
          fail_if (ev_OutputDigest ev \<noteq> [] \<and> \<not> validDigest (ev_OutputDigest ev)) AuditInvalid,
          fail_if (ev_Result ev \<notin> set supported_results) AuditInvalid,
          fail_if (gt_instant (te_StationTime (ev_TimeEvidence ev)) = 0) AuditInvalid,
          fail_if (te_ClockStatus (ev_TimeEvidence ev) \<notin> {''synchronized'', ''degraded'', ''unknown''}) AuditInvalid,
          fail_if (length (ev_Actors ev) = 0 \<or> length (ev_Actors ev) > 8) AuditInvalid,
          actors_loop [] (ev_Actors ev),
          fail_if (length (ev_ObservationReferences ev) > 64) AuditInvalid]
       @ map (reference_ok url) (ev_ObservationReferences ev))"

definition validateAppendRequest :: "url_parser \<Rightarrow> AppendRequest \<Rightarrow> audit_error option" where
  "validateAppendRequest url r =
     first_err
       [fail_if (aq_SchemaVersion r \<noteq> AppendRequestSchemaVersion) AuditInvalid,
        fail_if (\<not> validIdentifier (aq_IdempotencyKey r)) AuditInvalid,
        validateEvent url (aq_Event r)]"

section \<open>The integrity check\<close>

text \<open>The loop over the idempotency map; the result is \<^verbatim>\<open>indexedSequences\<close>, from sequence to key.\<close>

fun index_loop ::
  "uint64 \<Rightarrow> (uint64, string) gomap \<Rightarrow> (string, uint64) gomap \<Rightarrow> audit_error + (uint64, string) gomap" where
  "index_loop count indexed [] = Inr indexed"
| "index_loop count indexed ((key, sequence) # rest) =
     (if \<not> validIdentifier key \<or> sequence = 0 \<or> sequence > count then Inl AuditCorruptStore
      else if map_get indexed sequence \<noteq> None then Inl AuditCorruptStore
      else index_loop count (map_put sequence key indexed) rest)"

text \<open>The loop over the records, at sequence \<open>index + 1\<close>.\<close>

fun records_loop ::
  "hash \<Rightarrow> url_parser \<Rightarrow> (uint64, string) gomap \<Rightarrow> string list \<Rightarrow> string \<Rightarrow> nat \<Rightarrow> Record list
     \<Rightarrow> audit_error option" where
  "records_loop sha256 url indexed seen previous index [] = None"
| "records_loop sha256 url indexed seen previous index (r # rs) =
     (let wantSequence = of_nat (index + 1) in
      if rd_Sequence r \<noteq> wantSequence \<or> rd_PreviousEventHash r \<noteq> previous \<or> rd_RecordedAt r = 0
         \<or> \<not> validDigest (rd_RequestDigest r) then Some AuditCorruptStore
      else if validateEvent url (rd_Event r) \<noteq> None then Some AuditCorruptStore
      else if ev_EventID (rd_Event r) \<in> set seen then Some AuditCorruptStore
      else if digestJSON sha256 (recordHashMaterial r) \<noteq> Some (rd_EventHash r) then Some AuditCorruptStore
      else (case map_get indexed wantSequence of
              None \<Rightarrow> Some AuditCorruptStore
            | Some idempotencyKey \<Rightarrow>
                if digestJSON sha256 (json_of_AppendRequest
                     \<lparr>aq_SchemaVersion = AppendRequestSchemaVersion,
                      aq_IdempotencyKey = idempotencyKey, aq_Event = rd_Event r\<rparr>)
                   \<noteq> Some (rd_RequestDigest r) then Some AuditCorruptStore
                else records_loop sha256 url indexed (ev_EventID (rd_Event r) # seen) (rd_EventHash r)
                       (index + 1) rs))"

definition validateState :: "hash \<Rightarrow> url_parser \<Rightarrow> audit_state \<Rightarrow> audit_error option" where
  "validateState sha256 url st =
     (if au_SchemaVersion st \<noteq> AuditStoreSchemaVersion then Some AuditCorruptStore
      else (case index_loop (of_nat (length (au_Records st))) [] (au_Idempotency st) of
              Inl err \<Rightarrow> Some err
            | Inr indexed \<Rightarrow> records_loop sha256 url indexed [] [] 0 (au_Records st)))"

definition ValidateRetainedRecord :: "hash \<Rightarrow> url_parser \<Rightarrow> Record \<Rightarrow> audit_error option" where
  "ValidateRetainedRecord sha256 url r =
     (case validateEvent url (rd_Event r) of
        Some err \<Rightarrow> Some err
      | None \<Rightarrow>
          (case digestJSON sha256 (recordHashMaterial r) of
             None \<Rightarrow> Some AuditOther
           | Some hash \<Rightarrow>
               fail_if (hash \<noteq> rd_EventHash r \<or> rd_Sequence r = 0 \<or> rd_RecordedAt r = 0) AuditOther))"

section \<open>The service\<close>

definition audit_initial :: audit_state where
  "audit_initial = \<lparr>au_SchemaVersion = AuditStoreSchemaVersion, au_Records = [], au_Idempotency = []\<rparr>"

text \<open>What \<^verbatim>\<open>store.Load\<close> and \<^verbatim>\<open>DecodeStrict\<close> find; the flag says whether the index is missing.\<close>

datatype audit_load =
  AuditNotFound | AuditLoadFailed | AuditUndecodable | AuditDecoded bool audit_state

definition audit_NewService ::
  "hash \<Rightarrow> url_parser \<Rightarrow> bool \<Rightarrow> bool \<Rightarrow> audit_load \<Rightarrow> audit_error + audit_state" where
  "audit_NewService sha256 url store_nil clock_nil loaded =
     (if store_nil then Inl AuditInvalid
      else if clock_nil then Inl AuditInvalid
      else (case loaded of
              AuditNotFound \<Rightarrow> Inr audit_initial
            | AuditLoadFailed \<Rightarrow> Inl AuditOther
            | AuditUndecodable \<Rightarrow> Inl AuditCorruptStore
            | AuditDecoded index_missing st \<Rightarrow>
                if au_SchemaVersion st \<noteq> AuditStoreSchemaVersion then Inl AuditCorruptStore
                else if index_missing then Inl AuditCorruptStore
                else orFail (validateState sha256 url st) (Inr st)))"

text \<open>\<^verbatim>\<open>json.MarshalIndent\<close> of the state: fails where one of its times cannot be written.\<close>

definition record_encodes :: "Record \<Rightarrow> bool" where
  "record_encodes r =
     (time_marshals (utc (rd_RecordedAt r)) \<and> time_marshals (te_StationTime (ev_TimeEvidence (rd_Event r))))"

definition audit_marshalState :: "audit_state \<Rightarrow> audit_error + audit_state" where
  "audit_marshalState st = (if list_all record_encodes (au_Records st) then Inr st else Inl AuditOther)"

text \<open>\<open>s.state.Records[sequence-1]\<close>\<close>

definition record_at :: "Record list \<Rightarrow> uint64 \<Rightarrow> Record option" where
  "record_at rs sequence =
     (if unat (sequence - 1) < length rs then Some (rs ! unat (sequence - 1)) else None)"

definition new_record :: "Record list \<Rightarrow> string \<Rightarrow> instant \<Rightarrow> Event \<Rightarrow> Record" where
  "new_record rs requestDigest now ev =
     \<lparr>rd_Sequence = of_nat (length rs + 1),
      rd_PreviousEventHash = (if length rs > 0 then rd_EventHash (rs ! (length rs - 1)) else []),
      rd_EventHash = [], rd_RequestDigest = requestDigest, rd_RecordedAt = now, rd_Event = ev\<rparr>"

definition Append :: "audit_env \<Rightarrow> AppendRequest \<Rightarrow> audit_service \<Rightarrow> (audit_error + Receipt) \<times> audit_service" where
  "Append e request s =
     (case validateAppendRequest (ae_url e) request of Some err \<Rightarrow> (Inl err, s) | None \<Rightarrow>
      (case digestJSON (ae_sha256 e) (json_of_AppendRequest request) of None \<Rightarrow> (Inl AuditOther, s)
       | Some requestDigest \<Rightarrow>
         let records = au_Records (as_state s) in
         (case map_get (au_Idempotency (as_state s)) (aq_IdempotencyKey request) of
            Some sequence \<Rightarrow>
              (case record_at records sequence of
                 None \<Rightarrow> (Inl AuditPanic, s)
               | Some record \<Rightarrow>
                   if rd_RequestDigest record \<noteq> requestDigest then (Inl AuditIdempotencyConflict, s)
                   else (Inr (receiptFor (ae_sha256 e) record), s))
          | None \<Rightarrow>
              if list_ex (\<lambda>existing. ev_EventID (rd_Event existing) = ev_EventID (aq_Event request)) records
              then (Inl AuditIdempotencyConflict, s)
              else
                let record = new_record records requestDigest (ae_now e) (aq_Event request) in
                (case digestJSON (ae_sha256 e) (recordHashMaterial record) of None \<Rightarrow> (Inl AuditOther, s)
                 | Some hash \<Rightarrow>
                     let record = record\<lparr>rd_EventHash := hash\<rparr>;
                         candidate = (as_state s)
                           \<lparr>au_Records := records @ [record],
                            au_Idempotency := map_put (aq_IdempotencyKey request) (rd_Sequence record)
                              (au_Idempotency (as_state s))\<rparr>
                     in (case validateState (ae_sha256 e) (ae_url e) candidate of
                           Some err \<Rightarrow> (Inl err, s)
                         | None \<Rightarrow>
                             (case audit_marshalState candidate of
                                Inl err \<Rightarrow> (Inl err, s)
                              | Inr data \<Rightarrow>
                                  (case FileStore_Save (ae_fault e) data (as_store s) of
                                     (False, store) \<Rightarrow> (Inl AuditOther, s\<lparr>as_store := store\<rparr>)
                                   | (True, store) \<Rightarrow>
                                       (Inr (receiptFor (ae_sha256 e) record),
                                        s\<lparr>as_store := store, as_state := candidate\<rparr>))))))))"

definition Records :: "audit_service \<Rightarrow> string \<Rightarrow> Record list" where
  "Records s transactionID =
     filter (\<lambda>r. transactionID = [] \<or> ev_TransactionID (rd_Event r) = transactionID) (au_Records (as_state s))"

text \<open>\<^verbatim>\<open>sort.Slice\<close> by sequence; for records of distinct sequences every sort gives this list.\<close>

definition SortRecords :: "Record list \<Rightarrow> Record list" where
  "SortRecords rs = sort_key rd_Sequence rs"

end
