(* ===== verification/Audit_Chain.thy ===== *)
theory Audit_Chain
  imports Audit_Log Campaign
begin

text \<open>
  What the integrity check of the audit log means: a declarative reading of its two loops, the hash
  chain, and what follows for appends, prefixes and replaced records.
\<close>

section \<open>The index\<close>

lemma index_loop_Inr:
  "index_loop count indexed m = Inr indexed' \<longleftrightarrow>
     (\<forall>(k, s) \<in> set m. validIdentifier k \<and> s \<noteq> 0 \<and> s \<le> count) \<and> distinct (map snd m) \<and>
     (\<forall>s \<in> snd ` set m. map_get indexed s = None) \<and>
     indexed' = foldl (\<lambda>ix (k, s). map_put s k ix) indexed m"
  by (induction count indexed m rule: index_loop.induct) (auto simp: not_less split: if_splits)

lemma index_lookup:
  "distinct (map snd m) \<Longrightarrow>
     map_get (foldl (\<lambda>ix (k, s). map_put s k ix) indexed m) q =
     (case map_of (map prod.swap m) q of None \<Rightarrow> map_get indexed q | Some k \<Rightarrow> Some k)"
proof (induction m arbitrary: indexed)
  case (Cons p m)
  obtain k s where p: "p = (k, s)" by fastforce
  have "map_of (map prod.swap m) s = None" using Cons.prems p by (force simp: map_of_eq_None_iff)
  then show ?case using Cons p by (auto split: option.splits)
qed simp

lemma swap_lookup:
  "distinct (map snd m) \<Longrightarrow> map_of (map prod.swap m) q = Some k \<longleftrightarrow> (k, q) \<in> set m"
  by (subst map_of_eq_Some_iff) (force simp: o_def)+

lemma index_loop_error: "index_loop count indexed m = Inl err \<Longrightarrow> err = AuditCorruptStore"
  by (induction count indexed m rule: index_loop.induct) (auto split: if_splits)

lemma records_loop_error:
  "records_loop sha url ix seen prev n rs = Some err \<Longrightarrow> err = AuditCorruptStore"
  by (induction sha url ix seen prev n rs rule: records_loop.induct)
    (auto simp: Let_def split: if_splits option.splits)

section \<open>The chain\<close>

abbreviation event_id :: "Record \<Rightarrow> string" where
  "event_id r \<equiv> ev_EventID (rd_Event r)"

definition previous_hash :: "string \<Rightarrow> Record list \<Rightarrow> nat \<Rightarrow> string" where
  "previous_hash prev rs i = (if i = 0 then prev else rd_EventHash (rs ! (i - 1)))"

text \<open>One record in its place: after a record with hash \<open>prev\<close>, at position \<open>n\<close>, made for \<open>key\<close>.\<close>

definition record_fits :: "hash \<Rightarrow> url_parser \<Rightarrow> string option \<Rightarrow> string \<Rightarrow> nat \<Rightarrow> Record \<Rightarrow> bool" where
  "record_fits sha url key prev n r \<longleftrightarrow>
     rd_Sequence r = of_nat (n + 1) \<and> rd_PreviousEventHash r = prev \<and> rd_RecordedAt r \<noteq> 0 \<and>
     validDigest (rd_RequestDigest r) \<and> validateEvent url (rd_Event r) = None \<and>
     digestJSON sha (recordHashMaterial r) = Some (rd_EventHash r) \<and>
     (\<exists>k. key = Some k \<and> digestJSON sha (json_of_AppendRequest
        \<lparr>aq_SchemaVersion = AppendRequestSchemaVersion, aq_IdempotencyKey = k, aq_Event = rd_Event r\<rparr>)
        = Some (rd_RequestDigest r))"

lemma records_loop_None:
  "records_loop sha url ix seen prev n rs = None \<longleftrightarrow>
     (\<forall>i < length rs. record_fits sha url (map_get ix (of_nat (n + i + 1))) (previous_hash prev rs i) (n + i) (rs ! i)) \<and>
     distinct (map event_id rs) \<and> set (map event_id rs) \<inter> set seen = {}"
proof (induction rs arbitrary: seen prev n)
  case (Cons r rs)
  have shift: "(\<forall>i < length (r # rs). record_fits sha url (map_get ix (of_nat (n + i + 1)))
        (previous_hash prev (r # rs) i) (n + i) ((r # rs) ! i)) \<longleftrightarrow>
      record_fits sha url (map_get ix (of_nat (n + 1))) prev n r \<and>
      (\<forall>i < length rs. record_fits sha url (map_get ix (of_nat (Suc n + i + 1)))
        (previous_hash (rd_EventHash r) rs i) (Suc n + i) (rs ! i))"
    by (auto simp: All_less_Suc2 previous_hash_def nth_Cons' simp del: of_nat_Suc of_nat_add)
  have "records_loop sha url ix seen prev n (r # rs) = None \<longleftrightarrow>
      record_fits sha url (map_get ix (of_nat (n + 1))) prev n r \<and> event_id r \<notin> set seen \<and>
      records_loop sha url ix (event_id r # seen) (rd_EventHash r) (Suc n) rs = None"
    by (auto simp: record_fits_def Let_def simp del: of_nat_Suc of_nat_add split: option.splits)
  then show ?case unfolding shift Cons.IH by auto
qed simp

section \<open>The whole check\<close>

text \<open>The key a sequence is indexed under.\<close>

definition key_of :: "(string, uint64) gomap \<Rightarrow> uint64 \<Rightarrow> string option" where
  "key_of m q = map_of (map prod.swap m) q"

definition index_ok :: "nat \<Rightarrow> (string, uint64) gomap \<Rightarrow> bool" where
  "index_ok n m \<longleftrightarrow> (\<forall>(k, s) \<in> set m. validIdentifier k \<and> s \<noteq> 0 \<and> s \<le> of_nat n) \<and> distinct (map snd m)"

definition chain_ok :: "hash \<Rightarrow> url_parser \<Rightarrow> (string, uint64) gomap \<Rightarrow> Record list \<Rightarrow> bool" where
  "chain_ok sha url m rs \<longleftrightarrow>
     (\<forall>i < length rs. record_fits sha url (key_of m (of_nat (i + 1))) (previous_hash [] rs i) i (rs ! i)) \<and>
     distinct (map event_id rs)"

lemma validateState_None:
  "validateState sha url st = None \<longleftrightarrow>
     au_SchemaVersion st = AuditStoreSchemaVersion \<and> index_ok (length (au_Records st)) (au_Idempotency st) \<and>
     chain_ok sha url (au_Idempotency st) (au_Records st)"
proof -
  let ?n = "of_nat (length (au_Records st)) :: uint64" and ?m = "au_Idempotency st"
  have ix: "(\<exists>ix. index_loop ?n [] ?m = Inr ix) \<longleftrightarrow> index_ok (length (au_Records st)) ?m"
    by (simp add: index_loop_Inr index_ok_def)
  have lk: "map_get ix q = key_of ?m q" if "index_loop ?n [] ?m = Inr ix" for ix q
    using that index_lookup [of ?m "[]" q] by (auto simp: index_loop_Inr key_of_def split: option.splits)
  show ?thesis
  proof (cases "index_loop ?n [] ?m")
    case (Inl err)
    then show ?thesis using ix by (simp add: validateState_def)
  next
    case (Inr ix')
    then show ?thesis using ix lk [OF Inr]
      by (auto simp: validateState_def records_loop_None chain_ok_def)
  qed
qed

lemma validateState_error: "validateState sha url st = Some err \<Longrightarrow> err = AuditCorruptStore"
  by (auto simp: validateState_def split: if_splits sum.splits dest: index_loop_error records_loop_error)

lemma key_of_Some: "index_ok n m \<Longrightarrow> key_of m q = Some k \<longleftrightarrow> (k, q) \<in> set m"
  by (simp add: key_of_def swap_lookup index_ok_def)

section \<open>Prefixes\<close>

text \<open>The first \<open>n\<close> records with their index entries.\<close>

definition truncated :: "nat \<Rightarrow> audit_state \<Rightarrow> audit_state" where
  "truncated n st = st\<lparr>au_Records := take n (au_Records st),
     au_Idempotency := filter (\<lambda>(k, s). s \<le> of_nat n) (au_Idempotency st)\<rparr>"

lemma unat_of_small: "n < 2 ^ 64 \<Longrightarrow> unat (of_nat n :: uint64) = n"
  by (simp add: unsigned_of_nat take_bit_nat_eq_self)

lemma fits_bound:
  fixes i n :: nat
  assumes "i < n" and "n < 2 ^ 64"
  shows "(of_nat (i + 1) :: uint64) \<le> of_nat n"
  proof -
  have "unat (of_nat (i + 1) :: uint64) = i + 1" "unat (of_nat n :: uint64) = n"
    using assms by (simp_all only: unat_of_small)
  then show ?thesis using assms by (simp add: word_le_nat_alt del: of_nat_add)
qed

lemma index_ok_filter:
  "index_ok n m \<Longrightarrow> index_ok k (filter (\<lambda>(key, s). s \<le> of_nat k) m)"
  by (auto simp: index_ok_def distinct_map_filter)

lemma key_of_filter:
  assumes "index_ok n m" and "P q"
  shows "key_of (filter (\<lambda>(key, s). P s) m) q = key_of m q"
proof -
  have "distinct (map snd (filter (\<lambda>(key, s). P s) m))" using assms(1) by (simp add: index_ok_def distinct_map_filter)
  then have "key_of (filter (\<lambda>(key, s). P s) m) q = Some k \<longleftrightarrow> key_of m q = Some k" for k
    using assms by (auto simp: key_of_def swap_lookup index_ok_def)
  then show ?thesis by (metis not_None_eq)
qed

lemma truncated_valid:
  assumes "validateState sha url st = None" and "n \<le> length (au_Records st)" and "length (au_Records st) < 2 ^ 64"
  shows "validateState sha url (truncated n st) = None"
proof -
  let ?m = "au_Idempotency st" and ?rs = "au_Records st"
  have ok: "au_SchemaVersion st = AuditStoreSchemaVersion" "index_ok (length ?rs) ?m" "chain_ok sha url ?m ?rs"
    using assms(1) by (simp_all add: validateState_None)
  have "record_fits sha url (key_of (filter (\<lambda>(k, s). s \<le> of_nat n) ?m) (of_nat (i + 1)))
      (previous_hash [] (take n ?rs) i) i (take n ?rs ! i)" if "i < n" for i
  proof -
    have "record_fits sha url (key_of ?m (of_nat (i + 1))) (previous_hash [] ?rs i) i (?rs ! i)"
      using ok(3) that assms(2) by (simp add: chain_ok_def)
    moreover have "key_of (filter (\<lambda>(k, s). s \<le> of_nat n) ?m) (of_nat (i + 1)) = key_of ?m (of_nat (i + 1))"
      by (rule key_of_filter [OF ok(2)]) (use fits_bound [of i n] that assms(2,3) in simp)
    moreover have "previous_hash [] (take n ?rs) i = previous_hash [] ?rs i" "take n ?rs ! i = ?rs ! i"
      using that by (auto simp: previous_hash_def)
    ultimately show ?thesis by simp
  qed
  then have "chain_ok sha url (filter (\<lambda>(k, s). s \<le> of_nat n) ?m) (take n ?rs)"
    using ok(3) assms(2) by (simp add: chain_ok_def take_map [symmetric] del: of_nat_add)
  then show ?thesis
    using ok index_ok_filter [OF ok(2), of n] assms(2) by (simp add: validateState_None truncated_def min_def)
qed

section \<open>Tamper evidence\<close>

text \<open>No two of the given records have the same hash without having the same hash material.\<close>

definition collision_free :: "hash \<Rightarrow> Record set \<Rightarrow> bool" where
  "collision_free sha R \<longleftrightarrow>
     (\<forall>r \<in> R. \<forall>r' \<in> R. digestJSON sha (recordHashMaterial r) = digestJSON sha (recordHashMaterial r') \<longrightarrow>
        recordHashMaterial r = recordHashMaterial r')"

lemma omit_empty_inj: "omit_empty k v @ xs = omit_empty k v' @ xs' \<Longrightarrow> length xs = length xs' \<Longrightarrow> v = v' \<and> xs = xs'"
  by (auto simp: omit_empty_def split: if_splits)

lemma json_of_Actor_inj: "json_of_Actor a = json_of_Actor b \<Longrightarrow> a = b"
  by (cases a; cases b) (simp add: json_of_Actor_def)

lemma json_of_ObservationReference_inj: "json_of_ObservationReference a = json_of_ObservationReference b \<Longrightarrow> a = b"
  by (cases a; cases b) (auto simp: json_of_ObservationReference_def omit_empty_def split: if_splits)

lemma json_of_TimeEvidence_inj: "json_of_TimeEvidence a = json_of_TimeEvidence b \<Longrightarrow> a = b"
  by (cases a; cases b) (simp add: json_of_TimeEvidence_def)

lemma juint64_inj [simp]: "juint64 a = juint64 b \<longleftrightarrow> a = b"
  by (auto simp: juint64_def intro: unsigned_word_eqI)

lemma map_inj_eq: "map f xs = map f ys \<Longrightarrow> (\<And>x y. f x = f y \<Longrightarrow> x = y) \<Longrightarrow> xs = ys"
  by (metis inj_def inj_map_eq_map)

lemma json_of_Event_inj: "json_of_Event a = json_of_Event b \<Longrightarrow> a = b"
  apply (cases a; cases b)
  apply (auto simp: json_of_Event_def omit_empty_def split: if_splits
      dest!: json_of_TimeEvidence_inj map_inj_eq [OF _ json_of_Actor_inj] map_inj_eq [OF _ json_of_ObservationReference_inj])
  done

text \<open>A record is determined by its hash material and its hash.\<close>

lemma material_inj:
  assumes "recordHashMaterial a = recordHashMaterial b" and "rd_EventHash a = rd_EventHash b"
  shows "a = b"
  using assms json_of_Event_inj
  by (cases a; cases b) (auto simp: recordHashMaterial_def omit_empty_def utc_def split: if_splits)

text \<open>Two valid logs that agree on the hash of one record each agree on that record, on its place, and on
  everything before it.\<close>

lemma chain_link:
  assumes "chain_ok sha url m rs" and "chain_ok sha url' m' rs'" and "collision_free sha (set rs \<union> set rs')"
    and "i < length rs" and "j < length rs'" and "rd_EventHash (rs ! i) = rd_EventHash (rs' ! j)"
  shows "rs ! i = rs' ! j"
proof -
  have "digestJSON sha (recordHashMaterial (rs ! i)) = digestJSON sha (recordHashMaterial (rs' ! j))"
    using assms by (simp add: chain_ok_def record_fits_def)
  then have "recordHashMaterial (rs ! i) = recordHashMaterial (rs' ! j)"
    using assms(3-5) by (simp add: collision_free_def)
  then show ?thesis using assms(6) by (rule material_inj)
qed

lemma chain_position:
  assumes "chain_ok sha url m rs" and "i < length rs" and "length rs < 2 ^ 64"
  shows "unat (rd_Sequence (rs ! i)) = i + 1"
  using assms unat_of_small [of "i + 1"] by (simp add: chain_ok_def record_fits_def del: of_nat_Suc of_nat_add)

lemma chain_prefix:
  assumes c: "chain_ok sha url m rs" "chain_ok sha url' m' rs'" "collision_free sha (set rs \<union> set rs')"
    and n: "i < length rs" "i < length rs'" "rd_EventHash (rs ! i) = rd_EventHash (rs' ! i)"
  shows "take (Suc i) rs = take (Suc i) rs'"
  using n
proof (induction i)
  case 0
  then show ?case using chain_link [OF c 0] by (simp add: take_Suc_conv_app_nth)
next
  case (Suc i)
  have here: "rs ! Suc i = rs' ! Suc i" by (rule chain_link [OF c Suc.prems])
  have "rd_PreviousEventHash (rs ! Suc i) = rd_EventHash (rs ! i)" "rd_PreviousEventHash (rs' ! Suc i) = rd_EventHash (rs' ! i)"
    using c(1,2) Suc.prems by (simp_all add: chain_ok_def record_fits_def previous_hash_def)
  then have "take (Suc i) rs = take (Suc i) rs'" using Suc here by simp
  then show ?case using here Suc.prems by (simp add: take_Suc_conv_app_nth [of "Suc i"])
qed

end
