(* ===== verification/Audit_History.thy ===== *)
theory Audit_History
  imports Audit_Chain
begin

text \<open>
  Histories of the audit service: appends and restarts in any order. What one append does is
  characterised once; the locale \<open>journal\<close> then gives that every state in memory and on disk passes
  the integrity check and that the log only grows.
\<close>

section \<open>What an append does\<close>

definition sealed :: "hash \<Rightarrow> Record list \<Rightarrow> string \<Rightarrow> instant \<Rightarrow> Event \<Rightarrow> Record option" where
  "sealed sha rs d now ev =
     map_option (\<lambda>h. (new_record rs d now ev)\<lparr>rd_EventHash := h\<rparr>)
       (digestJSON sha (recordHashMaterial (new_record rs d now ev)))"

definition extended :: "AppendRequest \<Rightarrow> Record \<Rightarrow> audit_state \<Rightarrow> audit_state" where
  "extended q r st = st\<lparr>au_Records := au_Records st @ [r],
     au_Idempotency := map_put (aq_IdempotencyKey q) (rd_Sequence r) (au_Idempotency st)\<rparr>"

text \<open>A request that gets a record of its own.\<close>

definition accepts :: "audit_env \<Rightarrow> AppendRequest \<Rightarrow> audit_state \<Rightarrow> Record \<Rightarrow> bool" where
  "accepts e q st r \<longleftrightarrow> validateAppendRequest (ae_url e) q = None \<and>
     map_get (au_Idempotency st) (aq_IdempotencyKey q) = None \<and>
     (\<forall>x \<in> set (au_Records st). event_id x \<noteq> ev_EventID (aq_Event q)) \<and>
     (\<exists>d. digestJSON (ae_sha256 e) (json_of_AppendRequest q) = Some d \<and>
        sealed (ae_sha256 e) (au_Records st) d (ae_now e) (aq_Event q) = Some r)"

lemma material_hash [simp]: "recordHashMaterial (r\<lparr>rd_EventHash := h\<rparr>) = recordHashMaterial r"
  by (simp add: recordHashMaterial_def)

lemma marshals_parts:
  "digestJSON sha (recordHashMaterial r) = Some h \<Longrightarrow> record_encodes r"
  by (auto simp: digestJSON_def recordHashMaterial_def record_encodes_def json_of_Event_def
      json_of_TimeEvidence_def omit_empty_def split: if_splits)

lemma Append_early:
  assumes "Append e q s = (res, s')"
    and "\<nexists>r. accepts e q (as_state s) r"
  shows "s' = s \<and> (\<forall>rc. res = Inr rc \<longrightarrow> validateAppendRequest (ae_url e) q = None \<and>
    (\<exists>sequence r. map_get (au_Idempotency (as_state s)) (aq_IdempotencyKey q) = Some sequence \<and>
      record_at (au_Records (as_state s)) sequence = Some r \<and> rc = receiptFor (ae_sha256 e) r \<and>
      digestJSON (ae_sha256 e) (json_of_AppendRequest q) = Some (rd_RequestDigest r)))"
  using assms
  by (auto simp: Append_def accepts_def sealed_def Let_def list_ex_iff split: option.splits if_splits)

lemma Append_fresh:
  assumes "accepts e q (as_state s) r"
  shows "Append e q s =
    (case validateState (ae_sha256 e) (ae_url e) (extended q r (as_state s)) of
       Some err \<Rightarrow> (Inl err, s)
     | None \<Rightarrow>
         (case audit_marshalState (extended q r (as_state s)) of
            Inl err \<Rightarrow> (Inl err, s)
          | Inr data \<Rightarrow>
              (case FileStore_Save (ae_fault e) data (as_store s) of
                 (False, store) \<Rightarrow> (Inl AuditOther, s\<lparr>as_store := store\<rparr>)
               | (True, store) \<Rightarrow>
                   (Inr (receiptFor (ae_sha256 e) r), s\<lparr>as_store := store, as_state := extended q r (as_state s)\<rparr>))))"
proof -
  from assms obtain d h where a: "validateAppendRequest (ae_url e) q = None"
      "map_get (au_Idempotency (as_state s)) (aq_IdempotencyKey q) = None"
      "digestJSON (ae_sha256 e) (json_of_AppendRequest q) = Some d"
      "digestJSON (ae_sha256 e) (recordHashMaterial (new_record (au_Records (as_state s)) d (ae_now e) (aq_Event q))) = Some h"
      "r = (new_record (au_Records (as_state s)) d (ae_now e) (aq_Event q))\<lparr>rd_EventHash := h\<rparr>"
    by (auto simp: accepts_def sealed_def)
  have n: "\<not> list_ex (\<lambda>x. event_id x = ev_EventID (aq_Event q)) (au_Records (as_state s))"
    using assms by (auto simp: accepts_def list_ex_iff)
  show ?thesis by (simp only: Append_def extended_def Let_def option.case a n if_False)
qed

lemma Append_cases [consumes 1, case_names refused replayed late stored]:
  assumes "Append e q s = (res, s')"
  obtains (refused) err where "res = Inl err" "s' = s"
  | (replayed) sequence r where "map_get (au_Idempotency (as_state s)) (aq_IdempotencyKey q) = Some sequence"
      "record_at (au_Records (as_state s)) sequence = Some r" "res = Inr (receiptFor (ae_sha256 e) r)" "s' = s"
      "digestJSON (ae_sha256 e) (json_of_AppendRequest q) = Some (rd_RequestDigest r)"
      "validateAppendRequest (ae_url e) q = None"
  | (late) r where "accepts e q (as_state s) r" "as_state s' = as_state s" "res = Inl AuditOther"
      "validateState (ae_sha256 e) (ae_url e) (extended q r (as_state s)) = None"
      "FileStore_Load (as_store s') = FileStore_Load (as_store s) \<or>
       FileStore_Load (as_store s') = Some (extended q r (as_state s))"
  | (stored) r where "accepts e q (as_state s) r" "as_state s' = extended q r (as_state s)"
      "validateState (ae_sha256 e) (ae_url e) (extended q r (as_state s)) = None"
      "FileStore_Load (as_store s') = Some (extended q r (as_state s))" "res = Inr (receiptFor (ae_sha256 e) r)"
proof (cases "\<exists>r. accepts e q (as_state s) r")
  case False
  show ?thesis using Append_early [OF assms False] refused replayed by (cases res) auto
next
  case True
  then obtain r where r: "accepts e q (as_state s) r" by blast
  note run = assms [unfolded Append_fresh [OF r]]
  let ?st = "extended q r (as_state s)"
  show ?thesis
  proof (cases "validateState (ae_sha256 e) (ae_url e) ?st = None \<and> audit_marshalState ?st = Inr ?st")
    case False
    then show ?thesis using run refused by (auto simp: audit_marshalState_def split: option.splits if_splits)
  next
    case True
    obtain okay store where sv: "FileStore_Save (ae_fault e) ?st (as_store s) = (okay, store)" by fastforce
    show ?thesis
    proof (cases okay)
      case True': True
      then show ?thesis using run stored [OF r] True sv file_store.save_ok [of "ae_fault e" ?st "as_store s" store] by auto
    next
      case False
      then show ?thesis using run late [OF r] True sv file_store.save_failed [of "ae_fault e" ?st "as_store s" store] by auto
    qed
  qed
qed

section \<open>Calls and restarts\<close>

text \<open>Requests reach the service as decoded JSON: their texts are UTF-8 and their zone offsets whole
  minutes, so that writing an event and reading it back gives the same event.\<close>

function utf8_valid :: "string \<Rightarrow> bool" where
  "utf8_valid [] = True"
| "utf8_valid (c # cs) =
     (if byte c < 128 then utf8_valid cs
      else let w = rune_width (c # cs) in w \<noteq> 0 \<and> utf8_valid (drop (w - 1) cs))"
  by pat_completeness auto
termination
  by (relation "measure length") auto

definition json_stable :: "Event \<Rightarrow> bool" where
  "json_stable ev \<longleftrightarrow> 60 dvd gt_offset (te_StationTime (ev_TimeEvidence ev)) \<and> utf8_valid (ev_PolicyVersion ev) \<and>
     list_all (\<lambda>r. utf8_valid (or_URI r)) (ev_ObservationReferences ev)"

definition audit_reopen :: "hash \<Rightarrow> url_parser \<Rightarrow> audit_service \<Rightarrow> audit_error + audit_service" where
  "audit_reopen sha url s =
     bindE (audit_NewService sha url False False
              (case FileStore_Load (as_store s) of None \<Rightarrow> AuditNotFound | Some st \<Rightarrow> AuditDecoded False st))
       (\<lambda>st. Inr (s\<lparr>as_state := st\<rparr>))"

definition first_audit :: audit_service where
  "first_audit = \<lparr>as_state = audit_initial, as_store = \<lparr>fs_path = None, fs_temp = None\<rparr>\<rparr>"

inductive audit_step :: "hash \<Rightarrow> url_parser \<Rightarrow> audit_service \<Rightarrow> audit_service \<Rightarrow> bool" for sha url where
  append: "ae_sha256 e = sha \<Longrightarrow> ae_url e = url \<Longrightarrow> json_stable (aq_Event q) \<Longrightarrow> Append e q s = (res, s') \<Longrightarrow>
    audit_step sha url s s'"
| restart: "audit_reopen sha url s = Inr s' \<Longrightarrow> audit_step sha url s s'"

inductive audit_steps :: "hash \<Rightarrow> url_parser \<Rightarrow> audit_service \<Rightarrow> audit_service \<Rightarrow> bool" for sha url where
  audit_none: "audit_steps sha url s s"
| audit_then: "audit_steps sha url s s' \<Longrightarrow> audit_step sha url s' s'' \<Longrightarrow> audit_steps sha url s s''"

definition audit_reachable :: "hash \<Rightarrow> url_parser \<Rightarrow> audit_service \<Rightarrow> bool" where
  "audit_reachable sha url s \<longleftrightarrow> audit_steps sha url first_audit s"

section \<open>Memory and file\<close>

definition audit_proposes :: "hash \<Rightarrow> url_parser \<Rightarrow> audit_state \<Rightarrow> audit_state \<Rightarrow> bool" where
  "audit_proposes sha url st st' \<longleftrightarrow>
     (\<exists>e q r. ae_sha256 e = sha \<and> ae_url e = url \<and> accepts e q st r \<and> st' = extended q r st \<and>
        validateState sha url st' = None)"

definition log_ok :: "hash \<Rightarrow> url_parser \<Rightarrow> audit_state \<Rightarrow> bool" where
  "log_ok sha url st \<longleftrightarrow> validateState sha url st = None \<and> map_wf (au_Idempotency st)"

definition log_grows :: "audit_state \<Rightarrow> audit_state \<Rightarrow> bool" where
  "log_grows st st' \<longleftrightarrow> (\<exists>new. au_Records st' = au_Records st @ new) \<and>
     (\<forall>k s. map_get (au_Idempotency st) k = Some s \<longrightarrow> map_get (au_Idempotency st') k = Some s)"

definition in_journal :: "audit_service \<Rightarrow> audit_state \<times> audit_state option" where
  "in_journal s = (as_state s, FileStore_Load (as_store s))"

interpretation log: journal audit_initial "audit_proposes sha url" "log_ok sha url" log_grows for sha url
proof unfold_locales
  show "log_ok sha url audit_initial"
    by (simp add: log_ok_def audit_initial_def validateState_def)
  show "log_ok sha url st'" if "log_ok sha url st" "audit_proposes sha url st st'" for st st'
    using that by (auto simp: log_ok_def audit_proposes_def extended_def)
  show "log_grows st st" for st by (simp add: log_grows_def)
  show "log_grows st st''" if "log_grows st st'" "log_grows st' st''" for st st' st''
    using that by (auto simp: log_grows_def)
  show "log_grows st st'" if "log_ok sha url st" "audit_proposes sha url st st'" for st st'
    using that by (auto simp: log_grows_def audit_proposes_def extended_def accepts_def)
qed

text \<open>Every step of the service is a step of the journal.\<close>

lemma audit_step_journal:
  assumes "audit_step sha url s s'"
  shows "journal_step audit_initial (audit_proposes sha url) (in_journal s) (in_journal s')"
  using assms
proof cases
  case (append e q res)
  have proposal: "audit_proposes sha url (as_state s) (extended q r (as_state s))"
    if "accepts e q (as_state s) r" "validateState (ae_sha256 e) (ae_url e) (extended q r (as_state s)) = None" for r
    using that append by (auto simp: audit_proposes_def)
  from append(4) show ?thesis
  proof (cases rule: Append_cases)
    case (late r)
    then show ?thesis
      using journal_step.late [where propose = "audit_proposes sha url", OF proposal [OF late(1,4)]] by (auto simp: in_journal_def intro: journal_step.keep)
  next
    case (stored r)
    then show ?thesis
      using journal_step.commit [where propose = "audit_proposes sha url", OF proposal [OF stored(1,3)]] by (auto simp: in_journal_def)
  qed (auto intro: journal_step.keep)
next
  case restart
  then show ?thesis
    by (auto simp: audit_reopen_def audit_NewService_def in_journal_def
        intro: journal_step.restart journal_step.fresh split: option.splits if_splits)
qed

lemma audit_steps_journal:
  "audit_steps sha url s s' \<Longrightarrow> journal_steps audit_initial (audit_proposes sha url) (in_journal s) (in_journal s')"
  by (induction rule: audit_steps.induct) (auto intro: journal_steps.start journal_steps.onward dest: audit_step_journal)

lemma audit_sound: "audit_reachable sha url s \<Longrightarrow> log.sound sha url (in_journal s)"
  using log.sound_steps [OF audit_steps_journal] log.sound_first
  by (fastforce simp: audit_reachable_def in_journal_def first_audit_def FileStore_Load_def)

lemma audit_grows:
  "audit_reachable sha url s \<Longrightarrow> audit_steps sha url s s' \<Longrightarrow> log_grows (as_state s) (as_state s')"
  using log.sound_steps [OF audit_steps_journal audit_sound] by (fastforce simp: in_journal_def)

lemma audit_ok: "audit_reachable sha url s \<Longrightarrow> log_ok sha url (as_state s)"
  using audit_sound [of sha url s] by (simp add: log.sound_def in_journal_def)

lemma audit_trans: "audit_steps sha url s s' \<Longrightarrow> audit_steps sha url s' s'' \<Longrightarrow> audit_steps sha url s s''"
  by (rotate_tac, induction rule: audit_steps.induct) (auto intro: audit_steps.audit_then)

lemma audit_reachable_steps: "audit_reachable sha url s \<Longrightarrow> audit_steps sha url s s' \<Longrightarrow> audit_reachable sha url s'"
  unfolding audit_reachable_def by (rule audit_trans)

section \<open>An accepted request can be recorded\<close>

lemma map_put_fresh: "map_get m k = None \<Longrightarrow> map_put k v m = m @ [(k, v)]"
  unfolding map_get_def map_put_def by (induction m) (auto split: if_splits)

lemma of_nat_fits:
  assumes "n + 1 < (2 :: nat) ^ 64"
  shows "(of_nat n :: uint64) < of_nat (n + 1)" "(of_nat (n + 1) :: uint64) \<noteq> 0"
proof -
  have u: "unat (of_nat n :: uint64) = n" "unat (of_nat (n + 1) :: uint64) = n + 1"
    using assms unat_of_small [of n] unat_of_small [of "n + 1"] by (simp_all del: of_nat_add)
  show "(of_nat n :: uint64) < of_nat (n + 1)" using u by (simp add: word_less_nat_alt del: of_nat_add)
  show "(of_nat (n + 1) :: uint64) \<noteq> 0" using u(2) by (metis Suc_eq_plus1 nat.distinct(1) unsigned_0)
qed

lemma index_ok_put:
  assumes m: "index_ok n m" "map_get m k = None" and k: "validIdentifier k" and n: "n + 1 < 2 ^ 64"
  shows "index_ok (n + 1) (map_put k (of_nat (n + 1)) m)"
proof -
  have lt: "s \<le> of_nat (n + 1) \<and> s \<noteq> of_nat (n + 1)" if "(x, s) \<in> set m" for x and s :: uint64
  proof -
    have "s \<le> of_nat n" using m(1) that by (auto simp: index_ok_def)
    then have "s < of_nat (n + 1)" using of_nat_fits(1) [OF n] by (rule le_less_trans)
    then show ?thesis by (metis less_imp_le less_irrefl)
  qed
  then have "of_nat (n + 1) \<notin> snd ` set m" by fastforce
  then show ?thesis
    using m lt k of_nat_fits(2) [OF n] unfolding map_put_fresh [OF m(2)] index_ok_def
    by (auto simp del: of_nat_add of_nat_Suc)
qed

lemma key_of_put:
  assumes m: "index_ok n m" "map_get m k = None" and n: "n + 1 < 2 ^ 64"
  shows "key_of (map_put k (of_nat (n + 1)) m) (of_nat (n + 1)) = Some k"
    and "key_of m q = Some x \<Longrightarrow> key_of (map_put k (of_nat (n + 1)) m) q = Some x"
proof -
  have "key_of m (of_nat (n + 1)) = None"
  proof (rule ccontr)
    assume "key_of m (of_nat (n + 1)) \<noteq> None"
    then obtain x where "(x, of_nat (n + 1)) \<in> set m" using key_of_Some [OF m(1)] by auto
    then have "(of_nat (n + 1) :: uint64) \<le> of_nat n" using m(1) unfolding index_ok_def by blast
    with of_nat_fits(1) [OF n] show False by simp
  qed
  then show "key_of (map_put k (of_nat (n + 1)) m) (of_nat (n + 1)) = Some k"
    unfolding map_put_fresh [OF m(2)] key_of_def by (simp add: map_add_Some_iff del: of_nat_add)
  show "key_of m q = Some x \<Longrightarrow> key_of (map_put k (of_nat (n + 1)) m) q = Some x"
    unfolding map_put_fresh [OF m(2)] key_of_def by (auto simp: map_add_def split: option.splits)
qed

lemma sealed_fits:
  assumes d: "digestJSON sha (json_of_AppendRequest q) = Some d" and r: "sealed sha rs d now (aq_Event q) = Some r"
    and v: "validateAppendRequest url q = None" and now: "now \<noteq> 0" and len: "\<forall>m. length (sha m) = 32"
  shows "record_fits sha url (Some (aq_IdempotencyKey q)) (previous_hash [] rs (length rs)) (length rs) r"
proof -
  have q: "q = \<lparr>aq_SchemaVersion = AppendRequestSchemaVersion, aq_IdempotencyKey = aq_IdempotencyKey q, aq_Event = aq_Event q\<rparr>"
    using v by (cases q) (simp add: validateAppendRequest_def)
  obtain h where "digestJSON sha (recordHashMaterial (new_record rs d now (aq_Event q))) = Some h"
      "r = (new_record rs d now (aq_Event q))\<lparr>rd_EventHash := h\<rparr>" using r by (auto simp: sealed_def)
  then have seal: "digestJSON sha (recordHashMaterial r) = Some (rd_EventHash r)"
      "rd_Sequence r = of_nat (length rs + 1)" "rd_PreviousEventHash r = previous_hash [] rs (length rs)"
      "rd_RequestDigest r = d" "rd_RecordedAt r = now" "rd_Event r = aq_Event q"
    by (simp_all add: new_record_def previous_hash_def) (auto simp: recordHashMaterial_def)
  have "validDigest d" using validDigest_digestJSON [of sha "json_of_AppendRequest q" d] d len by blast
  then show ?thesis
    using seal v now d arg_cong [OF q, of json_of_AppendRequest]
    by (auto simp: record_fits_def validateAppendRequest_def)
qed

lemma extended_valid:
  assumes ok: "log_ok (ae_sha256 e) (ae_url e) st" and a: "accepts e q st r" and now: "ae_now e \<noteq> 0"
    and len: "\<forall>m. length (ae_sha256 e m) = 32" and n: "length (au_Records st) + 1 < 2 ^ 64"
  shows "validateState (ae_sha256 e) (ae_url e) (extended q r st) = None"
proof -
  let ?rs = "au_Records st" and ?m = "au_Idempotency st" and ?k = "aq_IdempotencyKey q"
  have st: "au_SchemaVersion st = AuditStoreSchemaVersion" "index_ok (length ?rs) ?m" "chain_ok (ae_sha256 e) (ae_url e) ?m ?rs"
    using ok by (simp_all add: log_ok_def validateState_None)
  obtain d where d: "validateAppendRequest (ae_url e) q = None" "map_get ?m ?k = None"
      "digestJSON (ae_sha256 e) (json_of_AppendRequest q) = Some d" "sealed (ae_sha256 e) ?rs d (ae_now e) (aq_Event q) = Some r"
      "\<forall>x \<in> set ?rs. event_id x \<noteq> ev_EventID (aq_Event q)"
    using a by (auto simp: accepts_def)
  have r: "rd_Sequence r = of_nat (length ?rs + 1)" "rd_Event r = aq_Event q"
    using d(4) by (auto simp: sealed_def new_record_def)
  have k: "validIdentifier ?k" using d(1) by (simp add: validateAppendRequest_def)
  define m' where "m' = map_put ?k (of_nat (length ?rs + 1)) ?m"
  note kp = key_of_put [OF st(2) d(2) n, folded m'_def]
  have fits: "record_fits (ae_sha256 e) (ae_url e) (key_of m' (of_nat (i + 1))) (previous_hash [] (?rs @ [r]) i) i ((?rs @ [r]) ! i)"
    if "i < length (?rs @ [r])" for i
  proof (cases "i = length ?rs")
    case True
    then have "previous_hash [] (?rs @ [r]) i = previous_hash [] ?rs (length ?rs)"
      by (auto simp: previous_hash_def nth_append)
    then show ?thesis using sealed_fits [OF d(3,4,1) now len] kp(1) True by simp
  next
    case False
    then have i: "i < length ?rs" using that by simp
    then have "record_fits (ae_sha256 e) (ae_url e) (key_of ?m (of_nat (i + 1))) (previous_hash [] ?rs i) i (?rs ! i)"
      using st(3) by (simp add: chain_ok_def)
    moreover from this have "key_of m' (of_nat (i + 1)) = key_of ?m (of_nat (i + 1))"
      using kp(2) unfolding record_fits_def by force
    moreover have "previous_hash [] (?rs @ [r]) i = previous_hash [] ?rs i" "(?rs @ [r]) ! i = ?rs ! i"
      using i by (auto simp: previous_hash_def nth_append)
    ultimately show ?thesis by simp
  qed
  have "chain_ok (ae_sha256 e) (ae_url e) m' (?rs @ [r])"
    unfolding chain_ok_def using fits st(3) d(5) r by (auto simp: chain_ok_def simp del: of_nat_Suc of_nat_add)
  then show ?thesis
    using st(1) index_ok_put [OF st(2) d(2) k n] r by (simp add: validateState_None extended_def m'_def del: of_nat_add)
qed

lemma au_Records_extended [simp]: "au_Records (extended q r st) = au_Records st @ [r]"
  by (simp add: extended_def)

lemma valid_encodes: "validateState sha url st = None \<Longrightarrow> list_all record_encodes (au_Records st)"
  by (auto simp: validateState_None chain_ok_def record_fits_def list_all_length dest!: marshals_parts)

lemma event_marshals:
  "marshals (json_of_Event ev) \<longleftrightarrow> time_marshals (te_StationTime (ev_TimeEvidence ev))"
  by (auto simp: json_of_Event_def json_of_TimeEvidence_def json_of_Actor_def json_of_ObservationReference_def
      omit_empty_def juint64_def list_all_iff)

lemma accepted_when_fresh:
  assumes "validateAppendRequest (ae_url e) q = None" and "map_get (au_Idempotency st) (aq_IdempotencyKey q) = None"
    and "\<forall>x \<in> set (au_Records st). event_id x \<noteq> ev_EventID (aq_Event q)"
    and "time_marshals (te_StationTime (ev_TimeEvidence (aq_Event q)))" and "time_marshals (utc (ae_now e))"
  shows "\<exists>r. accepts e q st r"
proof -
  have m: "marshals (json_of_AppendRequest q)" using assms(4) by (simp add: json_of_AppendRequest_def event_marshals)
  have "marshals (recordHashMaterial (new_record rs d (ae_now e) (aq_Event q)))" for rs d
    using assms(4,5) by (simp add: recordHashMaterial_def new_record_def event_marshals omit_empty_def juint64_def)
  then show ?thesis using assms(1-3) m by (simp add: accepts_def sealed_def digestJSON_def)
qed

lemma fresh_event_recorded:
  assumes ok: "log_ok (ae_sha256 e) (ae_url e) (as_state s)" and e: "ae_fault e = None" "ae_now e \<noteq> 0"
    and q: "validateAppendRequest (ae_url e) q = None" "map_get (au_Idempotency (as_state s)) (aq_IdempotencyKey q) = None"
      "\<forall>x \<in> set (au_Records (as_state s)). event_id x \<noteq> ev_EventID (aq_Event q)"
    and t: "time_marshals (te_StationTime (ev_TimeEvidence (aq_Event q)))" "time_marshals (utc (ae_now e))"
    and len: "\<forall>m. length (ae_sha256 e m) = 32" and n: "length (au_Records (as_state s)) + 1 < 2 ^ 64"
  shows "\<exists>x s'. Append e q s = (Inr (receiptFor (ae_sha256 e) x), s') \<and> as_state s' = extended q x (as_state s) \<and>
    accepts e q (as_state s) x"
proof -
  obtain x where x: "accepts e q (as_state s) x" using accepted_when_fresh [OF q t] by blast
  note v = extended_valid [OF ok x e(2) len n]
  have m: "audit_marshalState (extended q x (as_state s)) = Inr (extended q x (as_state s))"
    using valid_encodes [OF v] by (simp add: audit_marshalState_def)
  have "fst (FileStore_Save None d fs)" for d and fs :: "audit_state file_state"
    by (simp add: FileStore_Save_def save_steps_def)
  then obtain store where "FileStore_Save None (extended q x (as_state s)) (as_store s) = (True, store)"
    by (metis (full_types) prod.collapse)
  then have "Append e q s = (Inr (receiptFor (ae_sha256 e) x),
      s\<lparr>as_store := store, as_state := extended q x (as_state s)\<rparr>)" using Append_fresh [OF x] v m e by simp
  then show ?thesis using x by auto
qed

section \<open>Acknowledged requests\<close>

text \<open>The record a request was acknowledged with, as the index finds it.\<close>

definition recorded_for :: "hash \<Rightarrow> AppendRequest \<Rightarrow> audit_state \<Rightarrow> Record \<Rightarrow> bool" where
  "recorded_for sha q st r \<longleftrightarrow> digestJSON sha (json_of_AppendRequest q) = Some (rd_RequestDigest r) \<and>
     (\<exists>sequence. map_get (au_Idempotency st) (aq_IdempotencyKey q) = Some sequence \<and>
        record_at (au_Records st) sequence = Some r)"

lemma recorded_grows: "recorded_for sha q st r \<Longrightarrow> log_grows st st' \<Longrightarrow> recorded_for sha q st' r"
  by (auto simp: recorded_for_def log_grows_def record_at_def nth_append split: if_splits)

lemma acknowledged_recorded:
  assumes run: "Append e q s = (Inr rc, s')" and ok: "log_ok (ae_sha256 e) (ae_url e) (as_state s)"
    and n: "length (au_Records (as_state s')) < 2 ^ 64"
  shows "\<exists>r. recorded_for (ae_sha256 e) q (as_state s') r \<and> rc = receiptFor (ae_sha256 e) r \<and>
    validateAppendRequest (ae_url e) q = None"
  using run
proof (cases rule: Append_cases)
  case (replayed sequence r)
  then show ?thesis by (auto simp: recorded_for_def)
next
  case (stored r)
  let ?rs = "au_Records (as_state s)"
  have r: "rd_Sequence r = of_nat (length ?rs + 1)"
      "digestJSON (ae_sha256 e) (json_of_AppendRequest q) = Some (rd_RequestDigest r)" "validateAppendRequest (ae_url e) q = None"
    using stored(1) by (auto simp: accepts_def sealed_def new_record_def)
  have "unat (rd_Sequence r - 1) = length ?rs" using r(1) unat_of_small [of "length ?rs"] n stored(2) by simp
  then have "record_at (?rs @ [r]) (rd_Sequence r) = Some r" by (simp add: record_at_def)
  then show ?thesis using stored r by (auto simp: recorded_for_def extended_def)
qed auto

end
