(* ===== verification/Audit_HTTP.thy ===== *)
theory Audit_HTTP
  imports Audit_Log Campaign
begin

text \<open>
  The audit service's HTTP surface (\<^verbatim>\<open>auditlog/http.go\<close>): who may append which event, and who may
  read which records. An append is authorised on the request alone, so it needs no earlier look at
  the service.
\<close>

datatype audit_http_error =
    AuditServiceError audit_error
  | AuditIdentityError identity_error
  | AuditDecodeError decode_error
  | AuditBodyError body_error

definition authorizeAppend :: "Request \<Rightarrow> identityPolicyMode \<Rightarrow> Event \<Rightarrow> audit_http_error option" where
  "authorizeAppend request policy event =
     (if ev_Stage event \<noteq> ''plan_approval''
      then map_option AuditIdentityError
             (Authorize policy (Some request) (ev_StationID event) (ev_LaneID event))
      else if length (ev_Actors event) \<noteq> 1 \<or> actor_Role (ev_Actors event ! 0) \<noteq> ''approver''
              \<or> actor_ID (ev_Actors event ! 0) = []
      then Some (AuditServiceError AuditInvalid)
      else map_option AuditIdentityError
             (AuthorizeApprover policy (Some request) (actor_ID (ev_Actors event ! 0))))"

fun authorizationStatus :: "audit_http_error \<Rightarrow> nat" where
  "authorizationStatus (AuditIdentityError ErrClientIdentityMismatch) = 403"
| "authorizationStatus _ = 401"

definition append_refusal_status :: "audit_http_error \<Rightarrow> nat" where
  "append_refusal_status err =
     (if err = AuditServiceError AuditInvalid then 400 else authorizationStatus err)"

fun append_error_status :: "audit_error \<Rightarrow> nat" where
  "append_error_status AuditInvalid = 400"
| "append_error_status AuditIdempotencyConflict = 409"
| "append_error_status _ = 500"

datatype audit_response =
    AuditHealthy
  | Created Receipt
  | Listed "Record list"
  | AuditFailed nat audit_http_error

definition post_event ::
  "(string \<Rightarrow> jvalue option) \<Rightarrow> (jvalue \<Rightarrow> AppendRequest option) \<Rightarrow> audit_env \<Rightarrow> identityPolicyMode
     \<Rightarrow> Request \<Rightarrow> audit_service \<Rightarrow> audit_response \<times> audit_service" where
  "post_event parse into e policy request s =
     (case readBody request of
        Inl err \<Rightarrow> (AuditFailed 400 (AuditBodyError err), s)
      | Inr body \<Rightarrow>
          (case DecodeStrict parse into body of
             Inl err \<Rightarrow> (AuditFailed 400 (AuditDecodeError err), s)
           | Inr appendRequest \<Rightarrow>
               (case authorizeAppend request policy (aq_Event appendRequest) of
                  Some err \<Rightarrow> (AuditFailed (append_refusal_status err) err, s)
                | None \<Rightarrow>
                    (case Append e appendRequest s of
                       (Inl err, s') \<Rightarrow> (AuditFailed (append_error_status err) (AuditServiceError err), s')
                     | (Inr receipt, s') \<Rightarrow> (Created receipt, s')))))"

text \<open>The pattern \<^verbatim>\<open>^sha256:[0-9a-f]{64}$\<close>.\<close>

definition receiptIDPattern :: "string \<Rightarrow> bool" where
  "receiptIDPattern v = (take (length digest_prefix) v = digest_prefix \<and>
     length (drop (length digest_prefix) v) = 64 \<and> list_all lower_hex_char (drop (length digest_prefix) v))"

fun receipts_loop :: "string list \<Rightarrow> string list \<Rightarrow> audit_http_error option" where
  "receipts_loop selected [] = None"
| "receipts_loop selected (receiptID # rest) =
     (if \<not> receiptIDPattern receiptID then Some (AuditServiceError AuditInvalid)
      else if receiptID \<in> set selected then Some (AuditServiceError AuditInvalid)
      else receipts_loop (receiptID # selected) rest)"

text \<open>\<open>receiptIDs\<close> and \<open>transactionID\<close> are the query's values, the latter empty when absent.\<close>

definition get_events ::
  "hash \<Rightarrow> identityPolicyMode \<Rightarrow> Request \<Rightarrow> string list \<Rightarrow> string \<Rightarrow> audit_service \<Rightarrow> audit_response" where
  "get_events sha256 policy request receiptIDs transactionID s =
     (case (if RequiresClientIdentity policy then Authenticate policy (Some request)
            else Inr \<lparr>si_StationID = [], si_LaneID = []\<rparr>) of
        Inl err \<Rightarrow> AuditFailed (authorizationStatus (AuditIdentityError err)) (AuditIdentityError err)
      | Inr identity \<Rightarrow>
          if length receiptIDs > 8 then AuditFailed 400 (AuditServiceError AuditInvalid)
          else if length receiptIDs \<noteq> 0 \<and> transactionID = [] then AuditFailed 400 (AuditServiceError AuditInvalid)
          else (case receipts_loop [] receiptIDs of
                  Some err \<Rightarrow> AuditFailed 400 err
                | None \<Rightarrow>
                    let records = Records s transactionID in
                    if length receiptIDs \<noteq> 0
                    then Listed (filter (\<lambda>r. rc_ReceiptID (receiptFor sha256 r) \<in> set receiptIDs) records)
                    else if RequiresClientIdentity policy
                    then Listed (filter (\<lambda>r. ev_StationID (rd_Event r) = si_StationID identity
                                   \<and> ev_LaneID (rd_Event r) = si_LaneID identity) records)
                    else Listed records))"

datatype audit_route = AuditGetHealth | PostEvents | GetEvents "string list" string

fun audit_Handler ::
  "(string \<Rightarrow> jvalue option) \<Rightarrow> (jvalue \<Rightarrow> AppendRequest option) \<Rightarrow> audit_env \<Rightarrow> identityPolicyMode
     \<Rightarrow> audit_route \<Rightarrow> Request \<Rightarrow> audit_service \<Rightarrow> audit_response \<times> audit_service" where
  "audit_Handler parse into e policy AuditGetHealth request s = (AuditHealthy, s)"
| "audit_Handler parse into e policy PostEvents request s = post_event parse into e policy request s"
| "audit_Handler parse into e policy (GetEvents receiptIDs transactionID) request s =
     (get_events (ae_sha256 e) policy request receiptIDs transactionID s, s)"

end
