(* ===== verification/Audit_Properties.thy ===== *)
theory Audit_Properties
  imports Audit_History Audit_HTTP
begin

text \<open>
  The properties of the audit service, over every history of appends and restarts from an empty store.
\<close>

section \<open>The log\<close>

text \<open>The log is append-only and gap-free: whatever appends and restarts follow, the
  records are a prefix of the later ones, and record \<open>i\<close> has sequence \<open>i + 1\<close>, chains to the record
  before it and carries the hash of its own content.\<close>

theorem log_append_only:
  assumes "audit_reachable sha url s" and "audit_steps sha url s s'"
  shows "(\<exists>new. au_Records (as_state s') = au_Records (as_state s) @ new) \<and>
    (\<forall>i < length (au_Records (as_state s')).
      let r = au_Records (as_state s') ! i in
      rd_Sequence r = of_nat (i + 1) \<and>
      rd_PreviousEventHash r = (if i = 0 then [] else rd_EventHash (au_Records (as_state s') ! (i - 1))) \<and>
      digestJSON sha (recordHashMaterial r) = Some (rd_EventHash r))"
proof -
  have "log_ok sha url (as_state s')" by (rule audit_ok [OF audit_reachable_steps [OF assms]])
  then have "chain_ok sha url (au_Idempotency (as_state s')) (au_Records (as_state s'))"
    by (simp add: log_ok_def validateState_None)
  then show ?thesis
    using audit_grows [OF assms] by (simp add: log_grows_def chain_ok_def record_fits_def previous_hash_def Let_def del: of_nat_Suc of_nat_add)
qed

text \<open>The service can always be opened again: whatever failed during earlier appends, the
  file holds a log that passes the integrity check and contains every record in memory.\<close>

theorem audit_restart_never_fails:
  assumes "audit_reachable sha url s"
  shows "\<exists>s'. audit_reopen sha url s = Inr s' \<and>
    (\<exists>new. au_Records (as_state s') = au_Records (as_state s) @ new)"
proof (cases "FileStore_Load (as_store s)")
  case None
  then show ?thesis using audit_sound [OF assms]
    by (simp add: log.sound_def in_journal_def audit_reopen_def audit_NewService_def)
next
  case (Some st)
  then have "log_ok sha url st" "log_grows (as_state s) st"
    using audit_sound [OF assms] by (simp_all add: log.sound_def in_journal_def)
  then show ?thesis using Some
    by (simp add: audit_reopen_def audit_NewService_def log_ok_def log_grows_def validateState_None)
qed

text \<open>A receipt is final: once a request was acknowledged, repeating it at any later time,
  after any other appends and restarts, returns the same receipt and changes nothing.\<close>

theorem receipt_is_final:
  assumes r: "audit_reachable sha url s" and e: "ae_sha256 e = sha" "ae_url e = url" "json_stable (aq_Event q)"
    and run: "Append e q s = (Inr rc, s1)" and later: "audit_steps sha url s1 s2"
    and e2: "ae_sha256 e2 = sha" "ae_url e2 = url" and small: "length (au_Records (as_state s2)) < 2 ^ 64"
  shows "Append e2 q s2 = (Inr rc, s2)"
proof -
  have r1: "audit_reachable sha url s1"
    using r audit_step.append [OF e run] unfolding audit_reachable_def by (auto intro: audit_steps.audit_then)
  note g = audit_grows [OF r1 later]
  have fit: "length (au_Records (as_state s1)) < 2 ^ 64"
    using g small by (auto simp: log_grows_def)
  obtain x where x: "recorded_for sha q (as_state s1) x" "rc = receiptFor sha x" "validateAppendRequest url q = None"
    using acknowledged_recorded [OF run] audit_ok [OF r] e fit by blast
  from recorded_grows [OF x(1) g] have "recorded_for sha q (as_state s2) x" .
  then show ?thesis using x e2 by (auto simp: Append_def recorded_for_def)
qed

text \<open>An acknowledged event is durable: the record is in the file, as the last one, under
  the next sequence number, with the event as it was sent.\<close>

theorem acknowledged_event_durable:
  assumes "Append e q s = (Inr rc, s')" and "s' \<noteq> s"
  shows "\<exists>r st. FileStore_Load (as_store s') = Some st \<and> as_state s' = st \<and>
    au_Records st = au_Records (as_state s) @ [r] \<and> rd_Event r = aq_Event q \<and>
    rd_RecordedAt r = ae_now e \<and> rc = receiptFor (ae_sha256 e) r \<and>
    rc_Sequence rc = of_nat (length (au_Records (as_state s)) + 1)"
  using assms(1)
proof (cases rule: Append_cases)
  case (stored r)
  then show ?thesis
    by (auto simp: extended_def accepts_def sealed_def new_record_def receiptFor_def)
qed (use assms(2) in auto)

text \<open>A valid new event is accepted: on a reachable service, with a running clock and a store
  that works, a request that validates, whose times can be written and whose key and event identifier
  are unused is recorded and acknowledged.\<close>

theorem valid_event_accepted:
  assumes r: "audit_reachable sha url s" and e: "ae_sha256 e = sha" "ae_url e = url" "ae_fault e = None" "ae_now e \<noteq> 0"
    and q: "validateAppendRequest url q = None" "map_get (au_Idempotency (as_state s)) (aq_IdempotencyKey q) = None"
      "\<forall>x \<in> set (au_Records (as_state s)). ev_EventID (rd_Event x) \<noteq> ev_EventID (aq_Event q)"
    and t: "time_marshals (te_StationTime (ev_TimeEvidence (aq_Event q)))" "time_marshals (utc (ae_now e))"
    and len: "\<forall>m. length (sha m) = 32" and n: "length (au_Records (as_state s)) + 1 < 2 ^ 64"
  shows "\<exists>rc s'. Append e q s = (Inr rc, s') \<and> s' \<noteq> s"
proof -
  have ok: "log_ok (ae_sha256 e) (ae_url e) (as_state s)" using audit_ok [OF r] e by simp
  obtain x s' where "Append e q s = (Inr (receiptFor sha x), s')" "as_state s' = extended q x (as_state s)"
    using fresh_event_recorded [OF ok e(3,4) _ _ _ t _ n] e q len by auto
  then show ?thesis by (metis au_Records_extended append_self_conv list.distinct(1))
qed

section \<open>Tampering\<close>

text \<open>Property C31. A receipt anchors the log: if two logs both pass the integrity check and each has a
  record with the same hash, then, unless the hash function collides on their records, the two logs
  agree on that record, its position and everything before it.\<close>

theorem receipt_anchors_log:
  assumes "validateState sha url st = None" and "validateState sha url' st' = None"
    and "collision_free sha (set (au_Records st) \<union> set (au_Records st'))"
    and "i < length (au_Records st)" and "j < length (au_Records st')"
    and "length (au_Records st) < 2 ^ 64" and "length (au_Records st') < 2 ^ 64"
    and "rd_EventHash (au_Records st ! i) = rd_EventHash (au_Records st' ! j)"
  shows "i = j \<and> take (i + 1) (au_Records st') = take (i + 1) (au_Records st)"
proof -
  have c: "chain_ok sha url (au_Idempotency st) (au_Records st)" "chain_ok sha url' (au_Idempotency st') (au_Records st')"
    using assms(1,2) by (simp_all add: validateState_None)
  have "au_Records st ! i = au_Records st' ! j" by (rule chain_link [OF c assms(3,4,5,8)])
  then have ij: "i = j" using chain_position [OF c(1) assms(4,6)] chain_position [OF c(2) assms(5,7)] by simp
  then show ?thesis using chain_prefix [OF c assms(3), of i] assms(4,5,8) by simp
qed

text \<open>Cutting the end off is not noticed: the first \<open>n\<close> records of a log that passes the
  integrity check, with their index entries, pass it too.\<close>

theorem truncation_unnoticed:
  assumes "validateState sha url st = None" and "n \<le> length (au_Records st)" and "length (au_Records st) < 2 ^ 64"
  shows "audit_NewService sha url False False (AuditDecoded False (truncated n st)) = Inr (truncated n st)"
  using truncated_valid [OF assms] by (simp add: audit_NewService_def validateState_None)

section \<open>Over HTTP\<close>

text \<open>Events are attributed: under mutual TLS, an event that was recorded over HTTP names
  the client's own verified station and lane, or is a plan approval whose single actor is the client's
  verified approver identity.\<close>

theorem event_attributed:
  assumes "post_event parse into e IdentityPolicyMutualTLS req s = (resp, s')" and "as_state s' \<noteq> as_state s"
  shows "\<exists>r. au_Records (as_state s') = au_Records (as_state s) @ [r] \<and>
    (if ev_Stage (rd_Event r) = ''plan_approval''
     then (\<exists>a. ev_Actors (rd_Event r) = [a] \<and> actor_Role a = ''approver'' \<and>
       AuthenticateApprover IdentityPolicyMutualTLS (Some req) = Inr \<lparr>ai_ApproverID = actor_ID a\<rparr>)
     else Authenticate IdentityPolicyMutualTLS (Some req) =
       Inr \<lparr>si_StationID = ev_StationID (rd_Event r), si_LaneID = ev_LaneID (rd_Event r)\<rparr>)"
proof -
  from assms obtain q res where run: "Append e q s = (res, s')"
      and a: "authorizeAppend req IdentityPolicyMutualTLS (aq_Event q) = None"
    by (auto simp: post_event_def split: sum.splits option.splits prod.splits)
  from run obtain r where r: "au_Records (as_state s') = au_Records (as_state s) @ [r]" "rd_Event r = aq_Event q"
    using assms(2) by (cases rule: Append_cases) (auto simp: accepts_def sealed_def new_record_def)
  from a r show ?thesis
    by (auto simp: authorizeAppend_def Authorize_mutual AuthorizeApprover_mutual length_Suc_conv split: if_splits)
qed

text \<open>Reads of the log are scoped: under mutual TLS only a verified station gets records;
  without receipts it gets exactly its own station and lane's records of the transaction asked for,
  with receipts exactly the transaction's records those receipts name.\<close>

theorem audit_reads_scoped:
  assumes "get_events sha IdentityPolicyMutualTLS req receipts tid s = Listed rs"
  shows "\<exists>i. Authenticate IdentityPolicyMutualTLS (Some req) = Inr i \<and>
    rs = filter (\<lambda>r. (tid = [] \<or> ev_TransactionID (rd_Event r) = tid) \<and>
           (if receipts = [] then ev_StationID (rd_Event r) = si_StationID i \<and> ev_LaneID (rd_Event r) = si_LaneID i
            else rc_ReceiptID (receiptFor sha r) \<in> set receipts)) (au_Records (as_state s)) \<and>
    (receipts \<noteq> [] \<longrightarrow> tid \<noteq> [])"
  using assms
  by (auto simp: get_events_def RequiresClientIdentity_def Records_def Let_def conj_commute
      split: sum.splits option.splits if_splits intro!: filter_cong)

section \<open>Witnesses\<close>

text \<open>A log of one event, with a hash function that is constant.\<close>

definition log_hash :: hash where
  "log_hash m = replicate 32 (CHR ''a'')"

definition log_digest :: string where
  "log_digest = digestBytes log_hash []"

definition log_url :: url_parser where
  "log_url u = None"

definition log_env :: audit_env where
  "log_env = \<lparr>ae_now = 63900000000 * second, ae_sha256 = log_hash, ae_url = log_url, ae_fault = None\<rparr>"

definition log_event :: Event where
  "log_event = \<lparr>ev_SchemaVersion = EventSchemaVersion, ev_PolicyVersion = ''v1'', ev_EventID = ''event1'',
     ev_TransactionID = ''tx1'', ev_StationID = ''station1'', ev_LaneID = ''lane1'', ev_Stage = ''cold_power_cycle'',
     ev_FenceEpoch = 1, ev_InputDigest = log_digest, ev_OutputDigest = [], ev_Result = ''succeeded'',
     ev_Actors = [\<lparr>actor_ID = ''guard1'', actor_Role = ''station''\<rparr>],
     ev_TimeEvidence = \<lparr>te_StationTime = utc (63900000000 * second), te_ClockStatus = ''synchronized''\<rparr>,
     ev_ObservationReferences = []\<rparr>"

definition log_request :: AppendRequest where
  "log_request = \<lparr>aq_SchemaVersion = AppendRequestSchemaVersion, aq_IdempotencyKey = ''key1'', aq_Event = log_event\<rparr>"

definition log_service :: audit_service where
  "log_service = snd (Append log_env log_request first_audit)"

lemma log_hash_length: "\<forall>m. length (log_hash m) = 32" by (simp add: log_hash_def)

lemma log_digest_valid: "validDigest log_digest"
  using validDigest_digestBytes [of log_hash "[]"] log_hash_length by (simp add: log_digest_def)

lemma log_names:
  "validIdentifier ''event1''" "validIdentifier ''tx1''" "validIdentifier ''station1''" "validIdentifier ''lane1''"
  "validIdentifier ''cold_power_cycle''" "validIdentifier ''guard1''" "validIdentifier ''station''" "validIdentifier ''key1''"
  by code_simp+

lemma log_times: "time_marshals (utc (63900000000 * second))" by code_simp

lemma log_request_valid: "validateAppendRequest log_url log_request = None"
  using log_names log_digest_valid
  by (simp add: validateAppendRequest_def validateEvent_def log_request_def log_event_def supported_results_def
      utc_def second_def)

lemma log_stable: "json_stable (aq_Event log_request)"
  by (simp add: json_stable_def log_request_def log_event_def utc_def byte_def of_char_def)

lemma log_first_reachable: "audit_reachable log_hash log_url first_audit"
  by (simp add: audit_reachable_def audit_steps.audit_none)

lemma log_stored:
  "\<exists>x. Append log_env log_request first_audit = (Inr (receiptFor log_hash x), log_service) \<and>
     as_state log_service = extended log_request x audit_initial \<and> accepts log_env log_request audit_initial x"
proof -
  have ok: "log_ok (ae_sha256 log_env) (ae_url log_env) (as_state first_audit)"
    using audit_ok [OF log_first_reachable] by (simp add: log_env_def)
  obtain x s' where "Append log_env log_request first_audit = (Inr (receiptFor log_hash x), s')"
      "as_state s' = extended log_request x audit_initial" "accepts log_env log_request audit_initial x"
    using fresh_event_recorded [OF ok, of log_request] log_request_valid log_times log_hash_length
    by (auto simp: log_env_def first_audit_def audit_initial_def log_request_def log_event_def second_def)
  then show ?thesis by (auto simp: log_service_def)
qed

lemma log_reachable: "audit_reachable log_hash log_url log_service"
  using log_stored audit_step.append [OF _ _ log_stable, of log_env log_hash log_url first_audit]
    log_first_reachable
  by (auto simp: audit_reachable_def log_env_def intro: audit_steps.audit_then)

lemma log_records: "\<exists>x. au_Records (as_state log_service) = [x] \<and> rd_Event x = log_event"
  using log_stored by (auto simp: audit_initial_def accepts_def sealed_def new_record_def log_request_def)

theorem valid_event_accepted_witness:
  "\<exists>rc s'. Append log_env log_request first_audit = (Inr rc, s') \<and> s' \<noteq> first_audit"
  by (rule valid_event_accepted [OF log_first_reachable _ _ _ _ log_request_valid _ _ _ _ log_hash_length])
    (use log_times in \<open>simp_all add: log_env_def first_audit_def audit_initial_def log_request_def log_event_def second_def\<close>)

theorem log_append_only_witness:
  "\<exists>x. au_Records (as_state log_service) = [x] \<and> rd_Sequence x = 1 \<and> rd_PreviousEventHash x = []"
proof -
  obtain x where x: "au_Records (as_state log_service) = [x]" using log_records by blast
  then show ?thesis using log_append_only [OF log_reachable audit_steps.audit_none] by simp
qed

theorem audit_restart_never_fails_witness:
  "\<exists>s'. audit_reopen log_hash log_url log_service = Inr s' \<and> au_Records (as_state s') \<noteq> []"
  using audit_restart_never_fails [OF log_reachable] log_records by fastforce

theorem receipt_is_final_witness:
  "\<exists>rc. Append log_env log_request first_audit = (Inr rc, log_service) \<and>
     Append log_env log_request log_service = (Inr rc, log_service)"
proof -
  obtain x where x: "Append log_env log_request first_audit = (Inr (receiptFor log_hash x), log_service)"
    using log_stored by blast
  have "length (au_Records (as_state log_service)) < 2 ^ 64" using log_records by auto
  then have "Append log_env log_request log_service = (Inr (receiptFor log_hash x), log_service)"
    by (intro receipt_is_final [OF log_first_reachable _ _ log_stable x audit_steps.audit_none])
      (simp_all add: log_env_def)
  then show ?thesis using x by blast
qed

theorem acknowledged_event_durable_witness:
  "\<exists>r st. FileStore_Load (as_store log_service) = Some st \<and> au_Records st = [r] \<and> rd_Event r = log_event"
proof -
  obtain x where x: "Append log_env log_request first_audit = (Inr (receiptFor log_hash x), log_service)"
    using log_stored by blast
  have "au_Records (as_state first_audit) = []" by (simp add: first_audit_def audit_initial_def)
  then have "log_service \<noteq> first_audit" using log_records by auto
  from acknowledged_event_durable [OF x this] show ?thesis
    by (auto simp: first_audit_def audit_initial_def log_request_def)
qed

theorem receipt_anchors_log_witness:
  "\<exists>x. au_Records (as_state log_service) = [x] \<and>
     take 1 (au_Records (as_state log_service)) = take 1 (au_Records (truncated 1 (as_state log_service)))"
proof -
  obtain x where x: "au_Records (as_state log_service) = [x]" using log_records by blast
  then have t: "au_Records (truncated 1 (as_state log_service)) = [x]" by (simp add: truncated_def)
  have v: "validateState log_hash log_url (as_state log_service) = None"
    using audit_ok [OF log_reachable] by (simp add: log_ok_def)
  have "validateState log_hash log_url (truncated 1 (as_state log_service)) = None"
    by (rule truncated_valid [OF v]) (simp_all add: x)
  from receipt_anchors_log [OF this v, of 0 0] x t show ?thesis by (simp add: collision_free_def)
qed

theorem truncation_unnoticed_witness:
  "audit_NewService log_hash log_url False False (AuditDecoded False (truncated 0 (as_state log_service))) =
     Inr (truncated 0 (as_state log_service)) \<and>
   au_Records (truncated 0 (as_state log_service)) = [] \<and> au_Records (as_state log_service) \<noteq> []"
proof -
  have "validateState log_hash log_url (as_state log_service) = None"
    using audit_ok [OF log_reachable] by (simp add: log_ok_def)
  from truncation_unnoticed [OF this, of 0] log_records show ?thesis by (auto simp: truncated_def)
qed

definition log_client :: Request where
  "log_client = \<lparr>hr_TLS = Some [[Some \<lparr>crt_Raw = ''leaf'', crt_URIs = [Some
       \<lparr>url_Path = ''/station/station1/lane/lane1'',
        url_String = ''spiffe://kaiba.network/station/station1/lane/lane1''\<rparr>]\<rparr>]],
     hr_ContentType = [], hr_Body = ''{}''\<rparr>"

lemma log_client_identity:
  "Authenticate IdentityPolicyMutualTLS (Some log_client) = Inr \<lparr>si_StationID = ''station1'', si_LaneID = ''lane1''\<rparr>"
  by code_simp

theorem event_attributed_witness:
  "\<exists>resp. post_event (\<lambda>_. Some (JObject [])) (\<lambda>_. Some log_request) log_env IdentityPolicyMutualTLS log_client first_audit =
     (resp, log_service) \<and> Authenticate IdentityPolicyMutualTLS (Some log_client) =
       Inr \<lparr>si_StationID = ev_StationID log_event, si_LaneID = ev_LaneID log_event\<rparr>"
proof -
  obtain x where x: "Append log_env log_request first_audit = (Inr (receiptFor log_hash x), log_service)"
    using log_stored by blast
  have "authorizeAppend log_client IdentityPolicyMutualTLS log_event = None"
    using log_client_identity by (simp add: authorizeAppend_def Authorize_mutual log_event_def)
  moreover have "readBody log_client = Inr ''{}''"
    by (simp add: readBody_def log_client_def json_media_type_def maxRequestBytes_def)
  ultimately have run: "post_event (\<lambda>_. Some (JObject [])) (\<lambda>_. Some log_request) log_env IdentityPolicyMutualTLS log_client
      first_audit = (Created (receiptFor log_hash x), log_service)"
    using x by (simp add: post_event_def DecodeStrict_def log_request_def)
  obtain y where y: "au_Records (as_state log_service) = [y]" "rd_Event y = log_event" using log_records by blast
  have "as_state log_service \<noteq> as_state first_audit" using y by (auto simp: first_audit_def audit_initial_def)
  from event_attributed [OF run this] y run show ?thesis
    by (auto simp: first_audit_def audit_initial_def log_event_def)
qed

theorem audit_reads_scoped_witness:
  "get_events log_hash IdentityPolicyMutualTLS log_client [] ''tx1'' log_service = Listed (au_Records (as_state log_service))"
proof -
  obtain y where y: "au_Records (as_state log_service) = [y]" "rd_Event y = log_event" using log_records by blast
  obtain rs where rs: "get_events log_hash IdentityPolicyMutualTLS log_client [] ''tx1'' log_service = Listed rs"
    using log_client_identity by (simp add: get_events_def RequiresClientIdentity_def Let_def)
  from audit_reads_scoped [OF rs] rs y log_client_identity show ?thesis by (auto simp: log_event_def)
qed

end
