(* ===== verification/Lane_Types.thy ===== *)
theory Lane_Types
  imports Campaign
begin

text \<open>
  The data of the lane guard (package \<^verbatim>\<open>laneguard\<close>: \<^verbatim>\<open>contracts.go\<close>, the records of
  \<^verbatim>\<open>boot_transition.go\<close> and \<^verbatim>\<open>store.go\<close>). The package's string types are strings, with the named
  constants of the source. Every time the guard and the hardware adapter record is in UTC, so a
  \<^verbatim>\<open>time.Time\<close> is its instant and Go's \<open>==\<close> on records is equality; the zero time is the instant 0.
  An \<^verbatim>\<open>error\<close> is the list of the sentinel errors that \<^verbatim>\<open>errors.Is\<close> finds in it, with \<open>ErrPlain\<close> for a
  message of its own; \<^verbatim>\<open>errors.Join\<close> is append and the empty list is \<^verbatim>\<open>nil\<close>.
\<close>

section \<open>Errors and constants\<close>

datatype guard_error =
    ErrNoPlan | ErrPlanMismatch | ErrDigestMismatch | ErrPlanLocked | ErrTargetContinuity
  | ErrPrestateMismatch | ErrPoststateMismatch | ErrOutOfOrder | ErrApprovalExpired | ErrLeaseInvalid
  | ErrConfirmedNotApplied | ErrReconciliationAuthority | ErrReconciliationRequired | ErrQuarantined
  | ErrBootTransitionOutcome | ErrOperationDeadline | ErrReconciliationDeadline
  | ErrBootTransitionOpen | ErrBootTransitionNotBegun | ErrPlain

definition ContractSchemaVersion :: string where
  "ContractSchemaVersion = ''provisioning.kaiba.network/lane-guard/v1alpha6''"
definition ReconcileRequestSchemaVersion :: string where
  "ReconcileRequestSchemaVersion = ''provisioning.kaiba.network/lane-guard-reconcile-request/v1alpha3''"
definition CommitAttestationSchemaVersion :: string where
  "CommitAttestationSchemaVersion = ''provisioning.kaiba.network/fresh-commit-attestation/v1alpha1''"
definition ReconciliationObservationBudget :: duration where
  "ReconciliationObservationBudget = 5 * 60 * second"
definition unownedCustomerKeyHash :: string where
  "unownedCustomerKeyHash = ''sha256:0000000000000000000000000000000000000000000000000000000000000000''"

type_synonym OperationClass = string
definition ClassReadOnly :: OperationClass where "ClassReadOnly = ''read_only''"
definition ClassReversible :: OperationClass where "ClassReversible = ''reversible''"
definition ClassIrreversible :: OperationClass where "ClassIrreversible = ''irreversible''"

type_synonym BootMode = string
definition BootModeRPIBoot :: BootMode where "BootModeRPIBoot = ''rpiboot''"
definition BootModeNormal :: BootMode where "BootModeNormal = ''normal''"

type_synonym EEPROMHashStatus = string
definition EEPROMHashObserved :: EEPROMHashStatus where "EEPROMHashObserved = ''observed''"
definition EEPROMHashUnavailable :: EEPROMHashStatus where "EEPROMHashUnavailable = ''unavailable''"
definition EEPROMHashCommitAttested :: EEPROMHashStatus where "EEPROMHashCommitAttested = ''commit_attested''"

type_synonym PowerControlMode = string
definition PowerControlRelay :: PowerControlMode where "PowerControlRelay = ''relay''"
definition PowerControlManual :: PowerControlMode where "PowerControlManual = ''manual''"

type_synonym PowerEstablishmentBasis = string
definition PowerEstablishmentRelayCommand :: PowerEstablishmentBasis where
  "PowerEstablishmentRelayCommand = ''relay_command''"
definition PowerEstablishmentOperatorAttestation :: PowerEstablishmentBasis where
  "PowerEstablishmentOperatorAttestation = ''operator_attestation''"

type_synonym SafeOffBasis = string
definition SafeOffRelayInactiveAndUSBAbsence :: SafeOffBasis where
  "SafeOffRelayInactiveAndUSBAbsence = ''relay_inactive_and_usb_absence''"
definition SafeOffOperatorDisconnectAndUSBAbsence :: SafeOffBasis where
  "SafeOffOperatorDisconnectAndUSBAbsence = ''operator_disconnect_and_usb_absence''"
definition SafeOffUnproven :: SafeOffBasis where "SafeOffUnproven = ''unproven''"

type_synonym RPIBootObservationMethod = string
definition RPIBootObservationSysfsPoll :: RPIBootObservationMethod where
  "RPIBootObservationSysfsPoll = ''sysfs_poll''"

type_synonym HardwarePhase = string
definition HardwarePhasePreObservation :: HardwarePhase where "HardwarePhasePreObservation = ''pre_observation''"
definition HardwarePhaseExecute :: HardwarePhase where "HardwarePhaseExecute = ''execute''"
definition HardwarePhasePostObservation :: HardwarePhase where "HardwarePhasePostObservation = ''post_observation''"
definition HardwarePhaseReconciliation :: HardwarePhase where "HardwarePhaseReconciliation = ''reconciliation''"

type_synonym BootTransitionStatus = string
definition BootTransitionRequested :: BootTransitionStatus where "BootTransitionRequested = ''requested''"
definition BootTransitionAwaitingOperator :: BootTransitionStatus where
  "BootTransitionAwaitingOperator = ''awaiting_operator''"
definition BootTransitionOperatorAcknowledged :: BootTransitionStatus where
  "BootTransitionOperatorAcknowledged = ''operator_acknowledged''"
definition BootTransitionPowerEstablished :: BootTransitionStatus where
  "BootTransitionPowerEstablished = ''power_established''"
definition BootTransitionModeObserved :: BootTransitionStatus where "BootTransitionModeObserved = ''mode_observed''"
definition BootTransitionOperatorReleased :: BootTransitionStatus where
  "BootTransitionOperatorReleased = ''operator_released''"
definition BootTransitionCompleted :: BootTransitionStatus where "BootTransitionCompleted = ''completed''"
definition BootTransitionAbortedSafeOff :: BootTransitionStatus where
  "BootTransitionAbortedSafeOff = ''aborted_safe_off''"
definition BootTransitionInterruptedSafeOff :: BootTransitionStatus where
  "BootTransitionInterruptedSafeOff = ''interrupted_safe_off''"
definition BootTransitionQuarantined :: BootTransitionStatus where "BootTransitionQuarantined = ''quarantined''"

type_synonym BootTransitionFailure = string
definition BootTransitionFailureNone :: BootTransitionFailure where "BootTransitionFailureNone = []"
definition BootTransitionFailureInterrupted :: BootTransitionFailure where
  "BootTransitionFailureInterrupted = ''interrupted''"
definition BootTransitionFailureSafeOffUnproven :: BootTransitionFailure where
  "BootTransitionFailureSafeOffUnproven = ''safe_off_unproven''"

definition BootTransitionActionSchemaVersion :: string where
  "BootTransitionActionSchemaVersion = ''provisioning.kaiba.network/boot-transition-action/v1alpha2''"
definition BootTransitionSchemaVersion :: string where
  "BootTransitionSchemaVersion = ''provisioning.kaiba.network/boot-transition/v1alpha3''"
definition BootTransitionEvidenceSchemaVersion :: string where
  "BootTransitionEvidenceSchemaVersion = ''provisioning.kaiba.network/boot-transition-evidence/v1alpha3''"
definition BootTransitionReferenceSchemaVersion :: string where
  "BootTransitionReferenceSchemaVersion = ''provisioning.kaiba.network/boot-transition-reference/v1alpha2''"
definition BootTransitionOutcomeSchemaVersion :: string where
  "BootTransitionOutcomeSchemaVersion = ''provisioning.kaiba.network/boot-transition-outcome/v1alpha2''"

type_synonym AttemptStatus = string
definition AttemptStarted :: AttemptStatus where "AttemptStarted = ''started''"
definition AttemptUncertain :: AttemptStatus where "AttemptUncertain = ''uncertain''"
definition AttemptVerified :: AttemptStatus where "AttemptVerified = ''verified''"
definition AttemptConfirmedNotApplied :: AttemptStatus where "AttemptConfirmedNotApplied = ''confirmed_not_applied''"
definition AttemptQuarantined :: AttemptStatus where "AttemptQuarantined = ''quarantined''"
definition AttemptSchemaVersion :: string where
  "AttemptSchemaVersion = ''provisioning.kaiba.network/lane-guard-attempt/v1alpha4''"
definition AttemptStoreSchemaVersion :: string where
  "AttemptStoreSchemaVersion = ''provisioning.kaiba.network/lane-guard-attempt-store/v1alpha5''"
definition maximumLaneJournalBytes :: nat where
  "maximumLaneJournalBytes = 8 * 1024 * 1024"

lemmas boot_mode_defs = BootModeRPIBoot_def BootModeNormal_def
lemmas eeprom_status_defs = EEPROMHashObserved_def EEPROMHashUnavailable_def EEPROMHashCommitAttested_def
lemmas power_mode_defs = PowerControlRelay_def PowerControlManual_def
lemmas phase_defs = HardwarePhasePreObservation_def HardwarePhaseExecute_def
  HardwarePhasePostObservation_def HardwarePhaseReconciliation_def
lemmas transition_status_defs = BootTransitionRequested_def BootTransitionAwaitingOperator_def
  BootTransitionOperatorAcknowledged_def BootTransitionPowerEstablished_def BootTransitionModeObserved_def
  BootTransitionOperatorReleased_def BootTransitionCompleted_def BootTransitionAbortedSafeOff_def
  BootTransitionInterruptedSafeOff_def BootTransitionQuarantined_def
lemmas attempt_status_defs = AttemptStarted_def AttemptUncertain_def AttemptVerified_def
  AttemptConfirmedNotApplied_def AttemptQuarantined_def
lemmas operation_defs = OperationProgramCustomerKeyAndEEPROM_def OperationColdPowerCycle_def
  OperationOwnedReadback_def OperationTestOwnedRecovery_def OperationPostRecoveryReadback_def
  OperationTestNegativeBoot_def OperationTestRootIntegrity_def

section \<open>Operations\<close>

definition operationClass :: "Operation \<Rightarrow> OperationClass \<times> bool" where
  "operationClass operation =
     (if operation = OperationProgramCustomerKeyAndEEPROM then (ClassIrreversible, True)
      else if operation \<in> {OperationColdPowerCycle, OperationTestOwnedRecovery, OperationTestNegativeBoot,
                           OperationTestRootIntegrity} then (ClassReversible, True)
      else if operation \<in> {OperationOwnedReadback, OperationPostRecoveryReadback} then (ClassReadOnly, True)
      else ([], False))"

definition RequiredBootModeForOperation :: "Operation \<Rightarrow> BootMode \<times> bool" where
  "RequiredBootModeForOperation operation =
     (if operation = OperationColdPowerCycle then (BootModeNormal, True)
      else if operation \<in> {OperationProgramCustomerKeyAndEEPROM, OperationOwnedReadback,
                           OperationTestOwnedRecovery, OperationPostRecoveryReadback,
                           OperationTestNegativeBoot, OperationTestRootIntegrity} then (BootModeRPIBoot, True)
      else ([], False))"

section \<open>Records\<close>

record GPIODescriptor =
  gp_ChipPath :: string
  gp_Offset :: uint32
  gp_ActiveLow :: bool

record Config =
  cf_SchemaVersion :: string
  cf_StationID :: string
  cf_LaneID :: string
  cf_PowerControlMode :: PowerControlMode
  cf_RPIBootSysfsPath :: string
  cf_UARTPath :: string
  cf_PowerGPIO :: GPIODescriptor
  cf_LeaseSafetyMargin :: duration

record DirectState =
  ds_CustomerKeyHash :: string
  ds_EEPROMHash :: string
  ds_EEPROMHashStatus :: EEPROMHashStatus
  ds_SecurityState :: string
  ds_PowerState :: string

record OperationSpec =
  os_Sequence :: uint32
  os_Operation :: Operation
  os_Classification :: OperationClass
  os_RequiredBootMode :: BootMode
  os_OperationDigest :: string
  os_AuthorizationID :: string
  os_ExpectedPrestate :: DirectState
  os_ExpectedPoststate :: DirectState
  os_MaximumDuration :: duration

record Plan =
  pl_SchemaVersion :: string
  pl_StationID :: string
  pl_LaneID :: string
  pl_PowerControlMode :: PowerControlMode
  pl_TransactionID :: string
  pl_PlanDigest :: string
  pl_Release :: Binding
  pl_TargetFingerprint :: string
  pl_InitialObservationDigest :: string
  pl_FenceEpoch :: uint64
  pl_ApprovalID :: string
  pl_ApprovalExpiresAt :: instant
  pl_IntentReceipt :: string
  pl_IntentSequence :: uint32
  pl_Operations :: "OperationSpec list"

record ExecuteRequest =
  xr_SchemaVersion :: string
  xr_StationID :: string
  xr_LaneID :: string
  xr_TransactionID :: string
  xr_PlanDigest :: string
  xr_Release :: Binding
  xr_TargetFingerprint :: string
  xr_InitialObservationDigest :: string
  xr_FenceEpoch :: uint64
  xr_ApprovalID :: string
  xr_ApprovalExpiresAt :: instant
  xr_IntentReceipt :: string
  xr_Sequence :: uint32
  xr_OperationDigest :: string
  xr_AuthorizationID :: string
  xr_RequiredBootMode :: BootMode
  xr_ExpectedPrestate :: DirectState
  xr_ClaimExpiresAt :: instant

record ReconciliationClaim =
  rl_StationID :: string
  rl_LaneID :: string
  rl_TransactionID :: string
  rl_TargetFingerprint :: string
  rl_ClaimID :: string
  rl_FenceEpoch :: uint64
  rl_ExpiresAt :: instant

record ReconcileRequest =
  rq_SchemaVersion :: string
  rq_OriginalRequest :: ExecuteRequest
  rq_Claim :: ReconciliationClaim

record CommitAttestation =
  ca_SchemaVersion :: string
  ca_TargetFingerprint :: string
  ca_CustomerKeyHash :: string
  ca_EEPROMHash :: string
  ca_EEPROMUpdateResult :: string
  ca_SecureBootProvisionResult :: string

record HardwareAction =
  ha_SchemaVersion :: string
  ha_StationID :: string
  ha_LaneID :: string
  ha_PowerControlMode :: PowerControlMode
  ha_TransactionID :: string
  ha_PlanDigest :: string
  ha_TargetFingerprint :: string
  ha_FenceEpoch :: uint64
  ha_ApprovalID :: string
  ha_IntentReceipt :: string
  ha_IntentSequence :: uint32
  ha_Sequence :: uint32
  ha_Operation :: Operation
  ha_OperationDigest :: string
  ha_AuthorizationID :: string
  ha_Phase :: HardwarePhase
  ha_OperationRequiredBootMode :: BootMode
  ha_RequestedBootMode :: BootMode
  ha_ReconciliationClaimID :: string
  ha_ReconciliationFenceEpoch :: uint64

record OperatorPeer =
  pe_UID :: uint32
  pe_GID :: uint32
  pe_PID :: int

record OperatorPowerProof =
  pp_PromptID :: string
  pp_PromptDigest :: string
  pp_PromptExpiresAt :: instant
  pp_Operator :: OperatorPeer
  pp_AcknowledgedAt :: instant

record BeginBootTransitionRequest =
  bb_Action :: HardwareAction
  bb_PowerControlMode :: PowerControlMode
  bb_InitialPowerOffProof :: OperatorPowerProof
  bb_StartedAt :: instant
  bb_RecordedAt :: instant
  bb_PowerOffObservedAt :: instant
  bb_USBAbsentObservedAt :: instant
  bb_ColdIntervalEndsAt :: instant
  bb_PromptID :: string
  bb_PromptDigest :: string
  bb_PromptExpiresAt :: instant

record BootTransition =
  bt_SchemaVersion :: string
  bt_Key :: string
  bt_Generation :: uint64
  bt_Action :: HardwareAction
  bt_PowerControlMode :: PowerControlMode
  bt_PowerEstablishmentBasis :: PowerEstablishmentBasis
  bt_InitialPowerOffProof :: OperatorPowerProof
  bt_Status :: BootTransitionStatus
  bt_StartedAt :: instant
  bt_UpdatedAt :: instant
  bt_PowerOffObservedAt :: instant
  bt_USBAbsentObservedAt :: instant
  bt_ColdIntervalEndsAt :: instant
  bt_PromptID :: string
  bt_PromptDigest :: string
  bt_PromptExpiresAt :: instant
  bt_Operator :: OperatorPeer
  bt_OperatorAcknowledgedAt :: instant
  bt_PowerEstablishedAt :: instant
  bt_ModeObservedAt :: instant
  bt_ObservedMode :: BootMode
  bt_RPIBootSysfsPath :: string
  bt_RPIBootEligibleTargets :: int
  bt_UARTPath :: string
  bt_UARTOutputDigest :: string
  bt_RPIBootObservationMethod :: RPIBootObservationMethod
  bt_RPIBootPollInterval :: duration
  bt_RPIBootNotObservedThrough :: instant
  bt_ReleasePromptID :: string
  bt_ReleasePromptDigest :: string
  bt_ReleasePromptExpiresAt :: instant
  bt_ReleaseOperator :: OperatorPeer
  bt_OperatorReleasedAt :: instant
  bt_FinalSafeOffProof :: OperatorPowerProof
  bt_SafeOffObservedAt :: instant
  bt_CompletedAt :: instant
  bt_Failure :: BootTransitionFailure
  bt_EvidenceDigest :: string

record BootTransitionReference =
  br_SchemaVersion :: string
  br_TransitionKey :: string
  br_PowerControlMode :: PowerControlMode
  br_PowerEstablishmentBasis :: PowerEstablishmentBasis
  br_SafeOffBasis :: SafeOffBasis
  br_InitialPowerOffProof :: OperatorPowerProof
  br_FinalSafeOffProof :: OperatorPowerProof
  br_SafeOffObservedAt :: instant
  br_Status :: BootTransitionStatus
  br_Failure :: BootTransitionFailure
  br_EvidenceDigest :: string

record BootTransitionEvidence =
  be_SchemaVersion :: string
  be_TransitionKey :: string
  be_Generation :: uint64
  be_Action :: HardwareAction
  be_PowerControlMode :: PowerControlMode
  be_PowerEstablishmentBasis :: PowerEstablishmentBasis
  be_InitialPowerOffProof :: OperatorPowerProof
  be_StartedAt :: instant
  be_PromptID :: string
  be_PromptDigest :: string
  be_PromptExpiresAt :: instant
  be_Operator :: OperatorPeer
  be_PowerOffObservedAt :: instant
  be_USBAbsentObservedAt :: instant
  be_ColdIntervalEndsAt :: instant
  be_OperatorAcknowledgedAt :: instant
  be_PowerEstablishedAt :: instant
  be_ModeObservedAt :: instant
  be_ObservedMode :: BootMode
  be_RPIBootSysfsPath :: string
  be_RPIBootEligibleTargets :: int
  be_UARTPath :: string
  be_UARTOutputDigest :: string
  be_RPIBootObservationMethod :: RPIBootObservationMethod
  be_RPIBootPollInterval :: duration
  be_RPIBootNotObservedThrough :: instant
  be_ReleasePromptID :: string
  be_ReleasePromptDigest :: string
  be_ReleasePromptExpiresAt :: instant
  be_ReleaseOperator :: OperatorPeer
  be_OperatorReleasedAt :: instant
  be_FinalSafeOffProof :: OperatorPowerProof
  be_SafeOffObservedAt :: instant
  be_CompletedAt :: instant

record BootTransitionOutcome =
  bo_SchemaVersion :: string
  bo_Action :: HardwareAction
  bo_Generation :: uint64
  bo_Reference :: BootTransitionReference
  bo_Evidence :: BootTransitionEvidence

record Observation =
  ob_EligibleTargets :: int
  ob_RPIBootSysfsPath :: string
  ob_TargetFingerprint :: string
  ob_State :: DirectState
  ob_BootTransition :: BootTransitionOutcome

record OperationResult =
  re_OutputDigest :: string
  re_BindingDigest :: string
  re_Detail :: string
  re_CommitAttestation :: CommitAttestation
  re_BootTransition :: BootTransitionOutcome

record Attempt =
  at_SchemaVersion :: string
  at_Key :: string
  at_TransactionID :: string
  at_PlanDigest :: string
  at_TargetFingerprint :: string
  at_FenceEpoch :: uint64
  at_ApprovalID :: string
  at_IntentReceipt :: string
  at_IntentSequence :: uint32
  at_Sequence :: uint32
  at_Operation :: Operation
  at_OperationDigest :: string
  at_Status :: AttemptStatus
  at_StartedAt :: instant
  at_UpdatedAt :: instant
  at_Result :: OperationResult
  at_ObservedState :: DirectState
  at_PreObservationTransition :: BootTransitionOutcome
  at_ExecutionTransition :: BootTransitionOutcome
  at_PostObservationTransition :: BootTransitionOutcome
  at_ReconciliationTransition :: BootTransitionOutcome
  at_Detail :: string

record journalState =
  js_Attempts :: "(string, Attempt) gomap"
  js_BootTransitions :: "(string, BootTransition) gomap"

definition newJournalState :: journalState where
  "newJournalState = \<lparr>js_Attempts = [], js_BootTransitions = []\<rparr>"

section \<open>Zero values\<close>

definition zero_DirectState :: DirectState where
  "zero_DirectState = \<lparr>ds_CustomerKeyHash = [], ds_EEPROMHash = [], ds_EEPROMHashStatus = [],
     ds_SecurityState = [], ds_PowerState = []\<rparr>"

definition zero_CommitAttestation :: CommitAttestation where
  "zero_CommitAttestation = \<lparr>ca_SchemaVersion = [], ca_TargetFingerprint = [], ca_CustomerKeyHash = [],
     ca_EEPROMHash = [], ca_EEPROMUpdateResult = [], ca_SecureBootProvisionResult = []\<rparr>"

definition zero_HardwareAction :: HardwareAction where
  "zero_HardwareAction = \<lparr>ha_SchemaVersion = [], ha_StationID = [], ha_LaneID = [], ha_PowerControlMode = [],
     ha_TransactionID = [], ha_PlanDigest = [], ha_TargetFingerprint = [], ha_FenceEpoch = 0,
     ha_ApprovalID = [], ha_IntentReceipt = [], ha_IntentSequence = 0, ha_Sequence = 0, ha_Operation = [],
     ha_OperationDigest = [], ha_AuthorizationID = [], ha_Phase = [], ha_OperationRequiredBootMode = [],
     ha_RequestedBootMode = [], ha_ReconciliationClaimID = [], ha_ReconciliationFenceEpoch = 0\<rparr>"

definition zero_OperatorPeer :: OperatorPeer where
  "zero_OperatorPeer = \<lparr>pe_UID = 0, pe_GID = 0, pe_PID = 0\<rparr>"

definition zero_OperatorPowerProof :: OperatorPowerProof where
  "zero_OperatorPowerProof = \<lparr>pp_PromptID = [], pp_PromptDigest = [], pp_PromptExpiresAt = 0,
     pp_Operator = zero_OperatorPeer, pp_AcknowledgedAt = 0\<rparr>"

definition zero_BootTransitionReference :: BootTransitionReference where
  "zero_BootTransitionReference = \<lparr>br_SchemaVersion = [], br_TransitionKey = [], br_PowerControlMode = [],
     br_PowerEstablishmentBasis = [], br_SafeOffBasis = [], br_InitialPowerOffProof = zero_OperatorPowerProof,
     br_FinalSafeOffProof = zero_OperatorPowerProof, br_SafeOffObservedAt = 0, br_Status = [],
     br_Failure = [], br_EvidenceDigest = []\<rparr>"

definition zero_BootTransitionEvidence :: BootTransitionEvidence where
  "zero_BootTransitionEvidence = \<lparr>be_SchemaVersion = [], be_TransitionKey = [], be_Generation = 0,
     be_Action = zero_HardwareAction, be_PowerControlMode = [], be_PowerEstablishmentBasis = [],
     be_InitialPowerOffProof = zero_OperatorPowerProof, be_StartedAt = 0, be_PromptID = [],
     be_PromptDigest = [], be_PromptExpiresAt = 0, be_Operator = zero_OperatorPeer,
     be_PowerOffObservedAt = 0, be_USBAbsentObservedAt = 0, be_ColdIntervalEndsAt = 0,
     be_OperatorAcknowledgedAt = 0, be_PowerEstablishedAt = 0, be_ModeObservedAt = 0, be_ObservedMode = [],
     be_RPIBootSysfsPath = [], be_RPIBootEligibleTargets = 0, be_UARTPath = [], be_UARTOutputDigest = [],
     be_RPIBootObservationMethod = [], be_RPIBootPollInterval = 0, be_RPIBootNotObservedThrough = 0,
     be_ReleasePromptID = [], be_ReleasePromptDigest = [], be_ReleasePromptExpiresAt = 0,
     be_ReleaseOperator = zero_OperatorPeer, be_OperatorReleasedAt = 0,
     be_FinalSafeOffProof = zero_OperatorPowerProof, be_SafeOffObservedAt = 0, be_CompletedAt = 0\<rparr>"

definition zero_BootTransitionOutcome :: BootTransitionOutcome where
  "zero_BootTransitionOutcome = \<lparr>bo_SchemaVersion = [], bo_Action = zero_HardwareAction, bo_Generation = 0,
     bo_Reference = zero_BootTransitionReference, bo_Evidence = zero_BootTransitionEvidence\<rparr>"

definition zero_OperationResult :: OperationResult where
  "zero_OperationResult = \<lparr>re_OutputDigest = [], re_BindingDigest = [], re_Detail = [],
     re_CommitAttestation = zero_CommitAttestation, re_BootTransition = zero_BootTransitionOutcome\<rparr>"

end
