(* ===== verification/Lane_Plan.thy ===== *)
theory Lane_Plan
  imports Lane_Types
begin

text \<open>
  Plans of the lane guard (\<^verbatim>\<open>contracts.go\<close>, \<^verbatim>\<open>plan_digest.go\<close> and the request matching of
  \<^verbatim>\<open>guard.go\<close>): validation of the lane configuration, of direct states and of the complete approved
  plan with its digests, and the comparison of a request with the plan.
\<close>

section \<open>Texts and paths\<close>

text \<open>The patterns \<^verbatim>\<open>^[A-Za-z0-9][A-Za-z0-9._:-]{0,127}$\<close> and \<^verbatim>\<open>^sha256:[0-9a-f]{64}$\<close>.\<close>

definition identifierPattern :: "string \<Rightarrow> bool" where
  "identifierPattern value =
     (case value of [] \<Rightarrow> False
      | c # cs \<Rightarrow> is_alnum c \<and> length cs \<le> 127 \<and> list_all (\<lambda>c. is_alnum c \<or> c \<in> set ''._:-'') cs)"

definition digestPattern :: "string \<Rightarrow> bool" where
  "digestPattern value =
     (take 7 value = ''sha256:'' \<and> length (drop 7 value) = 64 \<and> list_all lower_hex_char (drop 7 value))"

definition hasPrefix :: "string \<Rightarrow> string \<Rightarrow> bool" where
  "hasPrefix value prefix = (take (length prefix) value = prefix)"

text \<open>\<^verbatim>\<open>filepath.Clean\<close>: the elements between slashes, without empty ones and dots, each double dot
  cancelling the element before it, and none above the root.\<close>

fun path_elements :: "string \<Rightarrow> string list" where
  "path_elements [] = [[]]"
| "path_elements (c # cs) =
     (if c = CHR ''/'' then [] # path_elements cs
      else (case path_elements cs of [] \<Rightarrow> [[c]] | e # es \<Rightarrow> (c # e) # es))"

fun clean_elements :: "bool \<Rightarrow> string list \<Rightarrow> string list \<Rightarrow> string list" where
  "clean_elements rooted stack [] = rev stack"
| "clean_elements rooted stack (e # es) =
     (if e = [] \<or> e = ''.'' then clean_elements rooted stack es
      else if e = ''..'' then
        (case stack of
           [] \<Rightarrow> clean_elements rooted (if rooted then [] else [e]) es
         | prev # below \<Rightarrow>
             if prev = ''..'' then clean_elements rooted (e # stack) es
             else clean_elements rooted below es)
      else clean_elements rooted (e # stack) es)"

fun join_slash :: "string list \<Rightarrow> string" where
  "join_slash [] = []"
| "join_slash [e] = e"
| "join_slash (e # f # es) = e @ ''/'' @ join_slash (f # es)"

definition path_Clean :: "string \<Rightarrow> string" where
  "path_Clean path =
     (case path of [] \<Rightarrow> ''.''
      | c # _ \<Rightarrow>
          let rooted = (c = CHR ''/''); body = join_slash (clean_elements rooted [] (path_elements path))
          in if rooted then ''/'' @ body else if body = [] then ''.'' else body)"

definition fixedChild :: "string \<Rightarrow> string \<Rightarrow> bool" where
  "fixedChild value prefix =
     (if \<not> hasPrefix value prefix \<or> path_Clean value \<noteq> value then False
      else let relative = drop (length prefix) value
           in relative \<noteq> [] \<and> relative \<noteq> ''.'' \<and> CHR ''/'' \<notin> set relative)"

section \<open>Configuration, leases and direct states\<close>

definition Config_Validate :: "Config \<Rightarrow> guard_error option" where
  "Config_Validate config =
     first_err
       [fail_if (cf_SchemaVersion config \<noteq> [] \<and> cf_SchemaVersion config \<noteq> ContractSchemaVersion) ErrPlain,
        fail_if (\<not> identifierPattern (cf_StationID config)) ErrPlain,
        fail_if (\<not> identifierPattern (cf_LaneID config)) ErrPlain,
        fail_if (cf_PowerControlMode config \<noteq> PowerControlRelay
                 \<and> cf_PowerControlMode config \<noteq> PowerControlManual) ErrPlain,
        fail_if (\<not> fixedChild (cf_RPIBootSysfsPath config) ''/sys/bus/usb/devices/'') ErrPlain,
        fail_if (\<not> fixedChild (cf_UARTPath config) ''/dev/serial/by-id/'') ErrPlain,
        fail_if (\<not> hasPrefix (gp_ChipPath (cf_PowerGPIO config)) ''/dev/gpiochip''
                 \<or> path_Clean (gp_ChipPath (cf_PowerGPIO config)) \<noteq> gp_ChipPath (cf_PowerGPIO config)) ErrPlain,
        fail_if (cf_LeaseSafetyMargin config < 0) ErrPlain]"

text \<open>\<^verbatim>\<open>Time.Sub\<close>: the difference, saturated to the range of \<^verbatim>\<open>time.Duration\<close>.\<close>

definition time_Sub :: "instant \<Rightarrow> instant \<Rightarrow> duration" where
  "time_Sub t u = max (- (2 ^ 63)) (min (2 ^ 63 - 1) (t - u))"

definition LeaseCoversOperation :: "instant \<Rightarrow> instant \<Rightarrow> duration \<Rightarrow> duration \<Rightarrow> bool" where
  "LeaseCoversOperation now expiresAt maximumDuration safetyMargin =
     (if now = 0 \<or> \<not> expiresAt > now \<or> maximumDuration \<le> 0 \<or> safetyMargin < 0 then False
      else let remaining = time_Sub expiresAt now
           in remaining \<ge> maximumDuration \<and> remaining - maximumDuration \<ge> safetyMargin)"

definition DirectState_Validate :: "DirectState \<Rightarrow> guard_error option" where
  "DirectState_Validate state =
     first_err
       [fail_if (\<not> digestPattern (ds_CustomerKeyHash state)) ErrPlain,
        fail_if (ds_SecurityState state = [] \<or> ds_PowerState state = []) ErrPlain,
        fail_if (ds_SecurityState state = ''fresh'' \<and> ds_CustomerKeyHash state \<noteq> unownedCustomerKeyHash) ErrPlain,
        fail_if (ds_SecurityState state \<noteq> ''fresh'' \<and> ds_CustomerKeyHash state = unownedCustomerKeyHash) ErrPlain,
        (if ds_EEPROMHashStatus state = EEPROMHashObserved \<or> ds_EEPROMHashStatus state = EEPROMHashCommitAttested
         then first_err
                [fail_if (\<not> digestPattern (ds_EEPROMHash state)) ErrPlain,
                 fail_if (ds_EEPROMHashStatus state = EEPROMHashCommitAttested
                          \<and> ds_SecurityState state \<noteq> ''owned'') ErrPlain]
         else if ds_EEPROMHashStatus state = EEPROMHashUnavailable
         then fail_if (ds_EEPROMHash state \<noteq> []) ErrPlain
         else Some ErrPlain)]"

definition CommitAttestation_IsZero :: "CommitAttestation \<Rightarrow> bool" where
  "CommitAttestation_IsZero attestation = (attestation = zero_CommitAttestation)"

definition CommitAttestation_Validate :: "CommitAttestation \<Rightarrow> guard_error option" where
  "CommitAttestation_Validate a =
     first_err
       [fail_if (ca_SchemaVersion a \<noteq> CommitAttestationSchemaVersion
                 \<or> \<not> identifierPattern (ca_TargetFingerprint a)
                 \<or> \<not> digestPattern (ca_CustomerKeyHash a) \<or> \<not> digestPattern (ca_EEPROMHash a)
                 \<or> ca_EEPROMUpdateResult a \<noteq> ''success'' \<or> ca_SecureBootProvisionResult a \<noteq> ''success'') ErrPlain,
        fail_if (ca_CustomerKeyHash a = unownedCustomerKeyHash) ErrPlain]"

section \<open>Digests\<close>

definition operationDigestDomain :: string where
  "operationDigestDomain = ''kaiba.provisioning.lane-guard.operation-digest.v1alpha5''"
definition planDigestDomain :: string where
  "planDigestDomain = ''kaiba.provisioning.lane-guard.plan-digest.v1alpha6''"

definition json_of_DirectState :: "DirectState \<Rightarrow> json" where
  "json_of_DirectState s = JObj
     [(''customer_key_hash'', JStr (ds_CustomerKeyHash s)), (''eeprom_hash'', JStr (ds_EEPROMHash s)),
      (''eeprom_hash_status'', JStr (ds_EEPROMHashStatus s)), (''security_state'', JStr (ds_SecurityState s)),
      (''power_state'', JStr (ds_PowerState s))]"

definition operationDigestMaterial :: "OperationSpec \<Rightarrow> json" where
  "operationDigestMaterial operation = JObj
     [(''sequence'', juint32 (os_Sequence operation)), (''operation'', JStr (os_Operation operation)),
      (''classification'', JStr (os_Classification operation)),
      (''required_boot_mode'', JStr (os_RequiredBootMode operation)),
      (''authorization_id'', JStr (os_AuthorizationID operation)),
      (''expected_prestate'', json_of_DirectState (os_ExpectedPrestate operation)),
      (''expected_poststate'', json_of_DirectState (os_ExpectedPoststate operation)),
      (''maximum_duration_nanoseconds'', JInt (os_MaximumDuration operation))]"

definition deriveDigest :: "hash \<Rightarrow> string \<Rightarrow> string \<Rightarrow> string" where
  "deriveDigest sha256 domain material = digestBytes sha256 (domain @ [char_of (0 :: nat)] @ material)"

definition OperationSpec_Digest :: "hash \<Rightarrow> OperationSpec \<Rightarrow> string" where
  "OperationSpec_Digest sha256 operation =
     deriveDigest sha256 operationDigestDomain (render (operationDigestMaterial operation))"

text \<open>
  The round trip through the text form that \<^verbatim>\<open>canonicalApprovalExpiry\<close> makes gives the same instant
  exactly when the year has four digits; \<^verbatim>\<open>time.Parse\<close> refuses every other year.
\<close>

definition canonicalApprovalExpiry :: "instant \<Rightarrow> guard_error + string" where
  "canonicalApprovalExpiry value =
     (if value = 0 then Inl ErrPlain
      else if \<not> (0 \<le> year_of (utc value) \<and> year_of (utc value) \<le> 9999) then Inl ErrPlain
      else Inr (format_time (utc value)))"

definition planDigestMaterial :: "hash \<Rightarrow> Plan \<Rightarrow> string \<Rightarrow> json" where
  "planDigestMaterial sha256 plan approvalExpiresAt = JObj
     [(''schema_version'', JStr (pl_SchemaVersion plan)), (''station_id'', JStr (pl_StationID plan)),
      (''lane_id'', JStr (pl_LaneID plan)), (''power_control_mode'', JStr (pl_PowerControlMode plan)),
      (''transaction_id'', JStr (pl_TransactionID plan)), (''release'', json_of_Binding (pl_Release plan)),
      (''target_fingerprint'', JStr (pl_TargetFingerprint plan)),
      (''initial_observation_digest'', JStr (pl_InitialObservationDigest plan)),
      (''fence_epoch'', juint64 (pl_FenceEpoch plan)),
      (''approval_expires_at'', JStr approvalExpiresAt),
      (''operation_digests'', jstrings (map (OperationSpec_Digest sha256) (pl_Operations plan)))]"

definition Plan_CanonicalDigestMaterial :: "hash \<Rightarrow> Plan \<Rightarrow> guard_error + string" where
  "Plan_CanonicalDigestMaterial sha256 plan =
     bindE (canonicalApprovalExpiry (pl_ApprovalExpiresAt plan)) (\<lambda>approvalExpiresAt.
       Inr (render (planDigestMaterial sha256 plan approvalExpiresAt)))"

definition Plan_Digest :: "hash \<Rightarrow> Plan \<Rightarrow> guard_error + string" where
  "Plan_Digest sha256 plan =
     bindE (Plan_CanonicalDigestMaterial sha256 plan) (\<lambda>material.
       Inr (deriveDigest sha256 planDigestDomain material))"

definition WithDerivedDigests :: "hash \<Rightarrow> Plan \<Rightarrow> guard_error + Plan" where
  "WithDerivedDigests sha256 plan =
     (let derived = plan\<lparr>pl_Operations :=
            map (\<lambda>operation. operation\<lparr>os_OperationDigest := OperationSpec_Digest sha256 operation\<rparr>)
              (pl_Operations plan)\<rparr>
      in bindE (Plan_Digest sha256 derived) (\<lambda>digest. Inr (derived\<lparr>pl_PlanDigest := digest\<rparr>)))"

section \<open>Plan validation\<close>

definition commitAttestedState :: "Plan \<Rightarrow> DirectState" where
  "commitAttestedState plan =
     \<lparr>ds_CustomerKeyHash = rb_ExpectedCustomerKeyHash (pl_Release plan),
      ds_EEPROMHash = ExpectedEEPROMDigest (pl_Release plan),
      ds_EEPROMHashStatus = EEPROMHashCommitAttested, ds_SecurityState = ''owned'',
      ds_PowerState = ''powered_off''\<rparr>"

definition observedOwnedState :: "Plan \<Rightarrow> DirectState" where
  "observedOwnedState plan = (commitAttestedState plan)\<lparr>ds_EEPROMHashStatus := EEPROMHashObserved\<rparr>"

text \<open>The states the fixed campaign expects before and after the operation at \<open>index\<close>.\<close>

definition want_states :: "Plan \<Rightarrow> DirectState \<Rightarrow> nat \<Rightarrow> DirectState \<times> DirectState" where
  "want_states plan initialState index =
     (if index = 0 then (initialState, commitAttestedState plan)
      else if index = 1 then (commitAttestedState plan, commitAttestedState plan)
      else if index = 2 then (commitAttestedState plan, observedOwnedState plan)
      else (observedOwnedState plan, observedOwnedState plan))"

fun plan_operations_loop ::
  "hash \<Rightarrow> Plan \<Rightarrow> DirectState \<Rightarrow> DirectState \<Rightarrow> nat \<Rightarrow> OperationSpec list \<Rightarrow> guard_error option" where
  "plan_operations_loop sha256 plan initialState previousPoststate index [] = None"
| "plan_operations_loop sha256 plan initialState previousPoststate index (operation # rest) =
     first_err
       [fail_if (os_Sequence operation \<noteq> of_nat (index + 1)) ErrPlain,
        fail_if (os_Classification operation \<noteq> fst (operationClass (os_Operation operation))) ErrPlain,
        fail_if (os_RequiredBootMode operation \<noteq> fst (RequiredBootModeForOperation (os_Operation operation))) ErrPlain,
        fail_if (\<not> digestPattern (os_OperationDigest operation) \<or> os_AuthorizationID operation = []) ErrPlain,
        fail_if (os_MaximumDuration operation \<le> 0) ErrPlain,
        DirectState_Validate (os_ExpectedPrestate operation),
        DirectState_Validate (os_ExpectedPoststate operation),
        fail_if (index > 0 \<and> os_ExpectedPrestate operation \<noteq> previousPoststate) ErrPlain,
        fail_if (os_OperationDigest operation \<noteq> OperationSpec_Digest sha256 operation) ErrDigestMismatch,
        fail_if ((os_ExpectedPrestate operation, os_ExpectedPoststate operation)
                 \<noteq> want_states plan initialState index) ErrPlain,
        plan_operations_loop sha256 plan initialState (os_ExpectedPoststate operation) (index + 1) rest]"

definition Plan_validate :: "hash \<Rightarrow> Plan \<Rightarrow> Config \<Rightarrow> bool \<Rightarrow> guard_error option" where
  "Plan_validate sha256 plan config requireExecutionLane =
     first_err
       [Config_Validate config,
        fail_if (pl_SchemaVersion plan \<noteq> ContractSchemaVersion) ErrPlain,
        fail_if (\<not> identifierPattern (pl_StationID plan) \<or> \<not> identifierPattern (pl_LaneID plan)) ErrPlain,
        fail_if (requireExecutionLane \<and> (pl_StationID plan \<noteq> cf_StationID config
                                         \<or> pl_LaneID plan \<noteq> cf_LaneID config)) ErrPlanMismatch,
        fail_if (pl_PowerControlMode plan \<noteq> PowerControlRelay
                 \<and> pl_PowerControlMode plan \<noteq> PowerControlManual) ErrPlain,
        fail_if (pl_PowerControlMode plan \<noteq> cf_PowerControlMode config) ErrPlanMismatch,
        fail_if (\<not> identifierPattern (pl_TransactionID plan)
                 \<or> \<not> identifierPattern (pl_TargetFingerprint plan)) ErrPlain,
        fail_if (\<not> digestPattern (pl_InitialObservationDigest plan)) ErrPlain,
        fail_if (\<not> digestPattern (pl_PlanDigest plan)) ErrPlain,
        fail_if (\<not> Binding_Validate (pl_Release plan)) ErrPlain,
        fail_if (pl_FenceEpoch plan = 0 \<or> pl_ApprovalID plan = [] \<or> pl_IntentReceipt plan = []
                 \<or> pl_IntentSequence plan = 0) ErrPlain,
        (case canonicalApprovalExpiry (pl_ApprovalExpiresAt plan) of Inl err \<Rightarrow> Some err | Inr _ \<Rightarrow> None),
        fail_if (list_ex (\<lambda>operation. \<not> snd (operationClass (os_Operation operation))) (pl_Operations plan)) ErrPlain,
        fail_if (ValidateDevelopmentOperations (map os_Operation (pl_Operations plan)) \<noteq> None) ErrPlain,
        (let initialState = os_ExpectedPrestate (pl_Operations plan ! 0)
         in first_err
              [fail_if (ds_SecurityState initialState \<noteq> ''fresh''
                        \<or> ds_CustomerKeyHash initialState \<noteq> unownedCustomerKeyHash
                        \<or> ds_PowerState initialState \<noteq> ''powered_off''
                        \<or> ds_EEPROMHashStatus initialState \<noteq> EEPROMHashObserved
                           \<and> ds_EEPROMHashStatus initialState \<noteq> EEPROMHashUnavailable) ErrPlain,
               fail_if (unat (pl_IntentSequence plan) > length (pl_Operations plan)) ErrPlain,
               plan_operations_loop sha256 plan initialState zero_DirectState 0 (pl_Operations plan)]),
        (case Plan_Digest sha256 plan of
           Inl err \<Rightarrow> Some err
         | Inr derivedDigest \<Rightarrow> fail_if (pl_PlanDigest plan \<noteq> derivedDigest) ErrDigestMismatch)]"

definition Plan_Validate :: "hash \<Rightarrow> Plan \<Rightarrow> Config \<Rightarrow> guard_error option" where
  "Plan_Validate sha256 plan config = Plan_validate sha256 plan config True"

definition ValidateReconciliationPlan :: "hash \<Rightarrow> Config \<Rightarrow> Plan \<Rightarrow> guard_error option" where
  "ValidateReconciliationPlan sha256 config plan = Plan_validate sha256 plan config False"

section \<open>Requests against a plan\<close>

definition matchPlanRequest :: "Plan \<Rightarrow> ExecuteRequest \<Rightarrow> guard_error + OperationSpec" where
  "matchPlanRequest plan request =
     (if xr_SchemaVersion request \<noteq> ContractSchemaVersion
         \<or> xr_StationID request \<noteq> pl_StationID plan \<or> xr_LaneID request \<noteq> pl_LaneID plan
         \<or> xr_TransactionID request \<noteq> pl_TransactionID plan \<or> xr_PlanDigest request \<noteq> pl_PlanDigest plan
         \<or> xr_Release request \<noteq> pl_Release plan
         \<or> xr_TargetFingerprint request \<noteq> pl_TargetFingerprint plan
         \<or> xr_InitialObservationDigest request \<noteq> pl_InitialObservationDigest plan
         \<or> xr_FenceEpoch request \<noteq> pl_FenceEpoch plan
         \<or> xr_ApprovalID request \<noteq> pl_ApprovalID plan
         \<or> xr_ApprovalExpiresAt request \<noteq> pl_ApprovalExpiresAt plan
         \<or> xr_IntentReceipt request \<noteq> pl_IntentReceipt plan
         \<or> xr_Sequence request = 0 \<or> xr_Sequence request \<noteq> pl_IntentSequence plan
         \<or> unat (xr_Sequence request) > length (pl_Operations plan)
      then Inl ErrPlanMismatch
      else let operation = pl_Operations plan ! unat (xr_Sequence request - 1)
           in if xr_OperationDigest request \<noteq> os_OperationDigest operation
                 \<or> xr_AuthorizationID request \<noteq> os_AuthorizationID operation
                 \<or> xr_RequiredBootMode request \<noteq> os_RequiredBootMode operation
                 \<or> xr_ExpectedPrestate request \<noteq> os_ExpectedPrestate operation
              then Inl ErrPlanMismatch
              else Inr operation)"

definition match_ReconcileRequest :: "Config \<Rightarrow> Plan \<Rightarrow> ReconcileRequest \<Rightarrow> guard_error + OperationSpec" where
  "match_ReconcileRequest config plan request =
     bindE (matchPlanRequest plan (rq_OriginalRequest request)) (\<lambda>operation.
       let claim = rq_Claim request in
       if rq_SchemaVersion request \<noteq> ReconcileRequestSchemaVersion
          \<or> rl_StationID claim \<noteq> cf_StationID config \<or> rl_LaneID claim \<noteq> cf_LaneID config
          \<or> rl_TransactionID claim \<noteq> pl_TransactionID plan
          \<or> rl_TargetFingerprint claim \<noteq> pl_TargetFingerprint plan
          \<or> \<not> identifierPattern (rl_ClaimID claim) \<or> rl_FenceEpoch claim \<le> pl_FenceEpoch plan
          \<or> rl_ExpiresAt claim = 0
       then Inl ErrReconciliationAuthority
       else (case canonicalApprovalExpiry (rl_ExpiresAt claim) of
               Inl _ \<Rightarrow> Inl ErrReconciliationAuthority
             | Inr _ \<Rightarrow> Inr operation))"

definition ValidatePlanRequest :: "hash \<Rightarrow> Config \<Rightarrow> Plan \<Rightarrow> ExecuteRequest \<Rightarrow> guard_error option" where
  "ValidatePlanRequest sha256 config plan request =
     first_err
       [Plan_Validate sha256 plan config,
        (case matchPlanRequest plan request of Inl err \<Rightarrow> Some err | Inr _ \<Rightarrow> None)]"

definition ValidateReconcileRequest :: "hash \<Rightarrow> Config \<Rightarrow> Plan \<Rightarrow> ReconcileRequest \<Rightarrow> guard_error option" where
  "ValidateReconcileRequest sha256 config plan request =
     first_err
       [ValidateReconciliationPlan sha256 config plan,
        (case match_ReconcileRequest config plan request of Inl err \<Rightarrow> Some err | Inr _ \<Rightarrow> None)]"

definition AttemptJournalKey :: "Plan \<Rightarrow> uint32 \<Rightarrow> string" where
  "AttemptJournalKey plan sequence =
     pl_TransactionID plan @ ''/'' @ pl_PlanDigest plan @ ''/'' @ show_nat (unat (pl_FenceEpoch plan))
     @ ''/'' @ show_nat (unat sequence)"

definition samePlan :: "Plan \<Rightarrow> Plan \<Rightarrow> bool" where
  "samePlan left right =
     (\<not> (pl_SchemaVersion left \<noteq> pl_SchemaVersion right \<or> pl_StationID left \<noteq> pl_StationID right
         \<or> pl_LaneID left \<noteq> pl_LaneID right \<or> pl_PowerControlMode left \<noteq> pl_PowerControlMode right
         \<or> pl_TransactionID left \<noteq> pl_TransactionID right \<or> pl_PlanDigest left \<noteq> pl_PlanDigest right
         \<or> pl_Release left \<noteq> pl_Release right \<or> pl_TargetFingerprint left \<noteq> pl_TargetFingerprint right
         \<or> pl_InitialObservationDigest left \<noteq> pl_InitialObservationDigest right
         \<or> pl_FenceEpoch left \<noteq> pl_FenceEpoch right \<or> pl_ApprovalID left \<noteq> pl_ApprovalID right
         \<or> pl_ApprovalExpiresAt left \<noteq> pl_ApprovalExpiresAt right
         \<or> pl_IntentReceipt left \<noteq> pl_IntentReceipt right
         \<or> pl_IntentSequence left \<noteq> pl_IntentSequence right
         \<or> length (pl_Operations left) \<noteq> length (pl_Operations right))
      \<and> list_all2 (=) (pl_Operations left) (pl_Operations right))"

end
