(* ===== verification/Lane_Boot.thy ===== *)
theory Lane_Boot
  imports Lane_Plan "HOL-Library.Char_ord" "HOL-Library.List_Lexorder"
begin

text \<open>
  Boot transitions of the lane guard (\<^verbatim>\<open>boot_transition.go\<close> and the transition part of
  \<^verbatim>\<open>store.go\<close>): the forward-only state machine of one physical mode selection, its evidence with the
  digest, the outcome that crosses the hardware boundary, and the rules for creating and updating a
  durable transition.
\<close>

section \<open>Actions\<close>

definition HardwareAction_Validate :: "HardwareAction \<Rightarrow> guard_error option" where
  "HardwareAction_Validate action =
     (let (required, allowed) = RequiredBootModeForOperation (ha_Operation action) in
      first_err
       [fail_if (ha_SchemaVersion action \<noteq> BootTransitionActionSchemaVersion) ErrPlain,
        fail_if (\<not> identifierPattern (ha_StationID action) \<or> \<not> identifierPattern (ha_LaneID action)
                 \<or> \<not> identifierPattern (ha_TransactionID action)
                 \<or> \<not> identifierPattern (ha_TargetFingerprint action)) ErrPlain,
        fail_if (ha_PowerControlMode action \<noteq> PowerControlRelay
                 \<and> ha_PowerControlMode action \<noteq> PowerControlManual) ErrPlain,
        fail_if (\<not> digestPattern (ha_PlanDigest action) \<or> \<not> digestPattern (ha_OperationDigest action)) ErrPlain,
        fail_if (ha_FenceEpoch action = 0 \<or> ha_ApprovalID action = [] \<or> ha_IntentReceipt action = []
                 \<or> ha_IntentSequence action = 0 \<or> ha_Sequence action = 0
                 \<or> ha_IntentSequence action \<noteq> ha_Sequence action \<or> ha_AuthorizationID action = []) ErrPlain,
        fail_if (\<not> allowed \<or> ha_OperationRequiredBootMode action \<noteq> required) ErrPlain,
        (if ha_Phase action = HardwarePhaseExecute
         then fail_if (ha_RequestedBootMode action \<noteq> required) ErrPlain
         else if ha_Phase action = HardwarePhasePreObservation \<or> ha_Phase action = HardwarePhasePostObservation
         then fail_if (ha_RequestedBootMode action \<noteq> BootModeRPIBoot) ErrPlain
         else if ha_Phase action = HardwarePhaseReconciliation
         then first_err
                [fail_if (ha_RequestedBootMode action \<noteq> BootModeRPIBoot) ErrPlain,
                 fail_if (\<not> identifierPattern (ha_ReconciliationClaimID action)
                          \<or> ha_ReconciliationFenceEpoch action \<le> ha_FenceEpoch action) ErrPlain]
         else Some ErrPlain),
        fail_if (ha_Phase action \<noteq> HardwarePhaseReconciliation
                 \<and> (ha_ReconciliationClaimID action \<noteq> [] \<or> ha_ReconciliationFenceEpoch action \<noteq> 0)) ErrPlain])"

definition powerEstablishmentBasis :: "PowerControlMode \<Rightarrow> PowerEstablishmentBasis \<times> bool" where
  "powerEstablishmentBasis mode =
     (if mode = PowerControlRelay then (PowerEstablishmentRelayCommand, True)
      else if mode = PowerControlManual then (PowerEstablishmentOperatorAttestation, True)
      else ([], False))"

definition OperatorPowerProof_isZero :: "OperatorPowerProof \<Rightarrow> bool" where
  "OperatorPowerProof_isZero proof = (proof = zero_OperatorPowerProof)"

definition OperatorPowerProof_validate :: "OperatorPowerProof \<Rightarrow> instant \<Rightarrow> guard_error option" where
  "OperatorPowerProof_validate p notBefore =
     fail_if (\<not> identifierPattern (pp_PromptID p) \<or> \<not> digestPattern (pp_PromptDigest p)
              \<or> pe_PID (pp_Operator p) \<le> 0 \<or> pp_AcknowledgedAt p = 0 \<or> pp_PromptExpiresAt p = 0
              \<or> pp_AcknowledgedAt p < notBefore \<or> \<not> pp_AcknowledgedAt p < pp_PromptExpiresAt p) ErrPlain"

definition BootTransitionKey :: "HardwareAction \<Rightarrow> uint64 \<Rightarrow> string" where
  "BootTransitionKey action generation =
     ha_TransactionID action @ ''/'' @ ha_PlanDigest action @ ''/'' @ show_nat (unat (ha_FenceEpoch action))
     @ ''/'' @ show_nat (unat (ha_Sequence action)) @ ''/'' @ ha_Phase action @ ''/'' @ show_nat (unat generation)"

definition terminal_status :: "BootTransitionStatus \<Rightarrow> bool" where
  "terminal_status s \<longleftrightarrow> s \<in> {BootTransitionCompleted, BootTransitionAbortedSafeOff,
     BootTransitionInterruptedSafeOff, BootTransitionQuarantined}"

definition IsTerminal :: "BootTransition \<Rightarrow> bool" where
  "IsTerminal transition = terminal_status (bt_Status transition)"

definition bootTransitionRank :: "BootTransitionStatus \<Rightarrow> nat \<times> bool" where
  "bootTransitionRank status =
     (if status = BootTransitionRequested then (0, True)
      else if status = BootTransitionAwaitingOperator then (1, True)
      else if status = BootTransitionOperatorAcknowledged then (2, True)
      else if status = BootTransitionPowerEstablished then (3, True)
      else if status = BootTransitionModeObserved then (4, True)
      else if status = BootTransitionOperatorReleased then (5, True)
      else (0, False))"

definition knownBootTransitionFailure :: "BootTransitionFailure \<Rightarrow> bool" where
  "knownBootTransitionFailure failure \<longleftrightarrow>
     failure \<in> {''operator_timeout'', ''operator_rejected'', ''mode_timeout'', ''wrong_mode'',
       ''target_continuity'', ''hardware_error'', BootTransitionFailureInterrupted,
       BootTransitionFailureSafeOffUnproven}"

section \<open>What a transition records\<close>

definition final_power_proof_ok :: "BootTransition \<Rightarrow> guard_error option" where
  "final_power_proof_ok t =
     (if OperatorPowerProof_isZero (bt_FinalSafeOffProof t)
      then fail_if (bt_Status t = BootTransitionCompleted \<or> bt_Status t = BootTransitionAbortedSafeOff
                    \<or> bt_Status t = BootTransitionInterruptedSafeOff) ErrPlain
      else
        let lowerBound = foldl (\<lambda>lowerBound observed. if observed > lowerBound then observed else lowerBound)
              (pp_AcknowledgedAt (bt_InitialPowerOffProof t))
              [bt_OperatorAcknowledgedAt t, bt_PowerEstablishedAt t, bt_ModeObservedAt t, bt_OperatorReleasedAt t]
        in first_err
             [fail_if (\<not> IsTerminal t) ErrPlain,
              OperatorPowerProof_validate (bt_FinalSafeOffProof t) lowerBound,
              fail_if (bt_SafeOffObservedAt t \<noteq> 0
                       \<and> bt_SafeOffObservedAt t < pp_AcknowledgedAt (bt_FinalSafeOffProof t)) ErrPlain])"

definition validatePowerControlEvidence :: "BootTransition \<Rightarrow> guard_error option" where
  "validatePowerControlEvidence t =
     (let (expectedEstablishment, validMode) = powerEstablishmentBasis (bt_PowerControlMode t) in
      first_err
       [fail_if (bt_PowerControlMode t \<noteq> ha_PowerControlMode (bt_Action t)) ErrPlain,
        fail_if (\<not> validMode \<or> bt_PowerEstablishmentBasis t \<noteq> expectedEstablishment) ErrPlain,
        (if bt_PowerControlMode t = PowerControlRelay
         then fail_if (\<not> OperatorPowerProof_isZero (bt_InitialPowerOffProof t)
                       \<or> \<not> OperatorPowerProof_isZero (bt_FinalSafeOffProof t)) ErrPlain
         else if bt_PowerControlMode t = PowerControlManual
         then first_err
                [OperatorPowerProof_validate (bt_InitialPowerOffProof t) (bt_StartedAt t),
                 fail_if (bt_PowerOffObservedAt t < pp_AcknowledgedAt (bt_InitialPowerOffProof t)) ErrPlain,
                 fail_if (bt_PowerEstablishedAt t \<noteq> 0
                          \<and> bt_PowerEstablishedAt t \<noteq> bt_OperatorAcknowledgedAt t) ErrPlain,
                 final_power_proof_ok t]
         else Some ErrPlain)])"

definition validateObservedBootMode :: "BootTransition \<Rightarrow> guard_error option" where
  "validateObservedBootMode t =
     first_err
       [fail_if (bt_ObservedMode t \<noteq> ha_RequestedBootMode (bt_Action t)) ErrPlain,
        fail_if (\<not> fixedChild (bt_RPIBootSysfsPath t) ''/sys/bus/usb/devices/'') ErrPlain,
        fail_if (bt_RPIBootObservationMethod t \<noteq> RPIBootObservationSysfsPoll
                 \<or> bt_RPIBootPollInterval t \<le> 0 \<or> bt_RPIBootPollInterval t > 60 * second) ErrPlain,
        (if bt_ObservedMode t = BootModeRPIBoot
         then fail_if (bt_RPIBootEligibleTargets t \<noteq> 1 \<or> bt_UARTPath t \<noteq> [] \<or> bt_UARTOutputDigest t \<noteq> []
                       \<or> bt_RPIBootNotObservedThrough t \<noteq> 0
                       \<or> \<not> identifierPattern (bt_ReleasePromptID t)
                       \<or> \<not> digestPattern (bt_ReleasePromptDigest t)
                       \<or> \<not> bt_ReleasePromptExpiresAt t > bt_ModeObservedAt t) ErrPlain
         else if bt_ObservedMode t = BootModeNormal
         then fail_if (bt_RPIBootEligibleTargets t \<noteq> 0 \<or> \<not> fixedChild (bt_UARTPath t) ''/dev/serial/by-id/''
                       \<or> \<not> digestPattern (bt_UARTOutputDigest t)
                       \<or> bt_RPIBootNotObservedThrough t < bt_ModeObservedAt t
                       \<or> bt_ReleasePromptID t \<noteq> [] \<or> bt_ReleasePromptDigest t \<noteq> []
                       \<or> bt_ReleasePromptExpiresAt t \<noteq> 0) ErrPlain
         else Some ErrPlain)]"

section \<open>Evidence\<close>

definition Evidence :: "BootTransition \<Rightarrow> guard_error + BootTransitionEvidence" where
  "Evidence t =
     (if bt_Status t \<noteq> BootTransitionCompleted then Inl ErrPlain
      else Inr
        \<lparr>be_SchemaVersion = BootTransitionEvidenceSchemaVersion, be_TransitionKey = bt_Key t,
         be_Generation = bt_Generation t, be_Action = bt_Action t, be_PowerControlMode = bt_PowerControlMode t,
         be_PowerEstablishmentBasis = bt_PowerEstablishmentBasis t,
         be_InitialPowerOffProof = bt_InitialPowerOffProof t, be_StartedAt = bt_StartedAt t,
         be_PromptID = bt_PromptID t, be_PromptDigest = bt_PromptDigest t,
         be_PromptExpiresAt = bt_PromptExpiresAt t, be_Operator = bt_Operator t,
         be_PowerOffObservedAt = bt_PowerOffObservedAt t, be_USBAbsentObservedAt = bt_USBAbsentObservedAt t,
         be_ColdIntervalEndsAt = bt_ColdIntervalEndsAt t,
         be_OperatorAcknowledgedAt = bt_OperatorAcknowledgedAt t,
         be_PowerEstablishedAt = bt_PowerEstablishedAt t, be_ModeObservedAt = bt_ModeObservedAt t,
         be_ObservedMode = bt_ObservedMode t, be_RPIBootSysfsPath = bt_RPIBootSysfsPath t,
         be_RPIBootEligibleTargets = bt_RPIBootEligibleTargets t, be_UARTPath = bt_UARTPath t,
         be_UARTOutputDigest = bt_UARTOutputDigest t,
         be_RPIBootObservationMethod = bt_RPIBootObservationMethod t,
         be_RPIBootPollInterval = bt_RPIBootPollInterval t,
         be_RPIBootNotObservedThrough = bt_RPIBootNotObservedThrough t,
         be_ReleasePromptID = bt_ReleasePromptID t, be_ReleasePromptDigest = bt_ReleasePromptDigest t,
         be_ReleasePromptExpiresAt = bt_ReleasePromptExpiresAt t,
         be_ReleaseOperator = bt_ReleaseOperator t, be_OperatorReleasedAt = bt_OperatorReleasedAt t,
         be_FinalSafeOffProof = bt_FinalSafeOffProof t, be_SafeOffObservedAt = bt_SafeOffObservedAt t,
         be_CompletedAt = bt_CompletedAt t\<rparr>)"

text \<open>The completed transition \<^verbatim>\<open>BootTransitionEvidence.Validate\<close> rebuilds from the evidence.\<close>

definition evidence_transition :: "BootTransitionEvidence \<Rightarrow> BootTransition" where
  "evidence_transition ev =
     \<lparr>bt_SchemaVersion = BootTransitionSchemaVersion, bt_Key = be_TransitionKey ev,
      bt_Generation = be_Generation ev, bt_Action = be_Action ev,
      bt_PowerControlMode = be_PowerControlMode ev,
      bt_PowerEstablishmentBasis = be_PowerEstablishmentBasis ev,
      bt_InitialPowerOffProof = be_InitialPowerOffProof ev, bt_Status = BootTransitionCompleted,
      bt_StartedAt = be_StartedAt ev, bt_UpdatedAt = be_CompletedAt ev,
      bt_PowerOffObservedAt = be_PowerOffObservedAt ev, bt_USBAbsentObservedAt = be_USBAbsentObservedAt ev,
      bt_ColdIntervalEndsAt = be_ColdIntervalEndsAt ev, bt_PromptID = be_PromptID ev,
      bt_PromptDigest = be_PromptDigest ev, bt_PromptExpiresAt = be_PromptExpiresAt ev,
      bt_Operator = be_Operator ev, bt_OperatorAcknowledgedAt = be_OperatorAcknowledgedAt ev,
      bt_PowerEstablishedAt = be_PowerEstablishedAt ev, bt_ModeObservedAt = be_ModeObservedAt ev,
      bt_ObservedMode = be_ObservedMode ev, bt_RPIBootSysfsPath = be_RPIBootSysfsPath ev,
      bt_RPIBootEligibleTargets = be_RPIBootEligibleTargets ev, bt_UARTPath = be_UARTPath ev,
      bt_UARTOutputDigest = be_UARTOutputDigest ev,
      bt_RPIBootObservationMethod = be_RPIBootObservationMethod ev,
      bt_RPIBootPollInterval = be_RPIBootPollInterval ev,
      bt_RPIBootNotObservedThrough = be_RPIBootNotObservedThrough ev,
      bt_ReleasePromptID = be_ReleasePromptID ev, bt_ReleasePromptDigest = be_ReleasePromptDigest ev,
      bt_ReleasePromptExpiresAt = be_ReleasePromptExpiresAt ev,
      bt_ReleaseOperator = be_ReleaseOperator ev, bt_OperatorReleasedAt = be_OperatorReleasedAt ev,
      bt_FinalSafeOffProof = be_FinalSafeOffProof ev, bt_SafeOffObservedAt = be_SafeOffObservedAt ev,
      bt_CompletedAt = be_CompletedAt ev, bt_Failure = [], bt_EvidenceDigest = []\<rparr>"

definition Evidence_Validate :: "BootTransitionEvidence \<Rightarrow> guard_error option" where
  "Evidence_Validate ev =
     (let t = evidence_transition ev in
      first_err
       [fail_if (be_SchemaVersion ev \<noteq> BootTransitionEvidenceSchemaVersion \<or> be_TransitionKey ev = []
                 \<or> be_Generation ev = 0) ErrPlain,
        HardwareAction_Validate (be_Action ev),
        fail_if (bt_Key t \<noteq> BootTransitionKey (bt_Action t) (bt_Generation t)) ErrPlain,
        fail_if (bt_StartedAt t = 0 \<or> bt_PowerOffObservedAt t < bt_StartedAt t
                 \<or> bt_USBAbsentObservedAt t < bt_PowerOffObservedAt t
                 \<or> bt_ColdIntervalEndsAt t < bt_USBAbsentObservedAt t
                 \<or> bt_OperatorAcknowledgedAt t < bt_ColdIntervalEndsAt t
                 \<or> bt_OperatorAcknowledgedAt t > bt_PromptExpiresAt t
                 \<or> bt_PowerEstablishedAt t < bt_OperatorAcknowledgedAt t
                 \<or> bt_ModeObservedAt t < bt_PowerEstablishedAt t
                 \<or> bt_SafeOffObservedAt t < bt_ModeObservedAt t
                 \<or> bt_CompletedAt t < bt_SafeOffObservedAt t) ErrPlain,
        fail_if (\<not> identifierPattern (be_PromptID ev) \<or> \<not> digestPattern (be_PromptDigest ev)
                 \<or> pe_PID (be_Operator ev) \<le> 0) ErrPlain,
        validatePowerControlEvidence t,
        validateObservedBootMode t,
        (if be_ObservedMode ev = BootModeRPIBoot
         then fail_if (pe_PID (be_ReleaseOperator ev) \<le> 0 \<or> be_OperatorReleasedAt ev < be_ModeObservedAt ev
                       \<or> be_OperatorReleasedAt ev > be_ReleasePromptExpiresAt ev
                       \<or> be_SafeOffObservedAt ev < be_OperatorReleasedAt ev) ErrPlain
         else fail_if (be_ReleaseOperator ev \<noteq> zero_OperatorPeer \<or> be_OperatorReleasedAt ev \<noteq> 0) ErrPlain)])"

definition canonicalBootTransitionTime :: "instant \<Rightarrow> string" where
  "canonicalBootTransitionTime value = (if value = 0 then [] else format_time (utc value))"

definition json_of_OperatorPeer :: "OperatorPeer \<Rightarrow> json" where
  "json_of_OperatorPeer p =
     JObj [(''uid'', juint32 (pe_UID p)), (''gid'', juint32 (pe_GID p)), (''pid'', JInt (pe_PID p))]"

definition canonicalOperatorPowerProof :: "OperatorPowerProof \<Rightarrow> json" where
  "canonicalOperatorPowerProof p = JObj
     [(''prompt_id'', JStr (pp_PromptID p)), (''prompt_digest'', JStr (pp_PromptDigest p)),
      (''prompt_expires_at'', JStr (canonicalBootTransitionTime (pp_PromptExpiresAt p))),
      (''operator'', json_of_OperatorPeer (pp_Operator p)),
      (''acknowledged_at'', JStr (canonicalBootTransitionTime (pp_AcknowledgedAt p)))]"

definition json_of_HardwareAction :: "HardwareAction \<Rightarrow> json" where
  "json_of_HardwareAction a = JObj (
     [(''schema_version'', JStr (ha_SchemaVersion a)), (''station_id'', JStr (ha_StationID a)),
      (''lane_id'', JStr (ha_LaneID a)), (''power_control_mode'', JStr (ha_PowerControlMode a)),
      (''transaction_id'', JStr (ha_TransactionID a)), (''plan_digest'', JStr (ha_PlanDigest a)),
      (''target_fingerprint'', JStr (ha_TargetFingerprint a)), (''fence_epoch'', juint64 (ha_FenceEpoch a)),
      (''approval_id'', JStr (ha_ApprovalID a)), (''intent_receipt'', JStr (ha_IntentReceipt a)),
      (''intent_sequence'', juint32 (ha_IntentSequence a)), (''sequence'', juint32 (ha_Sequence a)),
      (''operation'', JStr (ha_Operation a)), (''operation_digest'', JStr (ha_OperationDigest a)),
      (''authorization_id'', JStr (ha_AuthorizationID a)), (''phase'', JStr (ha_Phase a)),
      (''operation_required_boot_mode'', JStr (ha_OperationRequiredBootMode a)),
      (''requested_boot_mode'', JStr (ha_RequestedBootMode a))]
     @ omit_empty ''reconciliation_claim_id'' (ha_ReconciliationClaimID a)
     @ (if ha_ReconciliationFenceEpoch a = 0 then []
        else [(''reconciliation_fence_epoch'', juint64 (ha_ReconciliationFenceEpoch a))]))"

definition canonicalBootTransitionEvidence :: "BootTransitionEvidence \<Rightarrow> json" where
  "canonicalBootTransitionEvidence ev = JObj
     [(''schema_version'', JStr (be_SchemaVersion ev)), (''transition_key'', JStr (be_TransitionKey ev)),
      (''generation'', juint64 (be_Generation ev)), (''action'', json_of_HardwareAction (be_Action ev)),
      (''power_control_mode'', JStr (be_PowerControlMode ev)),
      (''power_establishment_basis'', JStr (be_PowerEstablishmentBasis ev)),
      (''initial_power_off_proof'', canonicalOperatorPowerProof (be_InitialPowerOffProof ev)),
      (''started_at'', JStr (canonicalBootTransitionTime (be_StartedAt ev))),
      (''prompt_id'', JStr (be_PromptID ev)), (''prompt_digest'', JStr (be_PromptDigest ev)),
      (''prompt_expires_at'', JStr (canonicalBootTransitionTime (be_PromptExpiresAt ev))),
      (''operator'', json_of_OperatorPeer (be_Operator ev)),
      (''power_off_observed_at'', JStr (canonicalBootTransitionTime (be_PowerOffObservedAt ev))),
      (''usb_absent_observed_at'', JStr (canonicalBootTransitionTime (be_USBAbsentObservedAt ev))),
      (''cold_interval_ends_at'', JStr (canonicalBootTransitionTime (be_ColdIntervalEndsAt ev))),
      (''operator_acknowledged_at'', JStr (canonicalBootTransitionTime (be_OperatorAcknowledgedAt ev))),
      (''power_established_at'', JStr (canonicalBootTransitionTime (be_PowerEstablishedAt ev))),
      (''mode_observed_at'', JStr (canonicalBootTransitionTime (be_ModeObservedAt ev))),
      (''observed_mode'', JStr (be_ObservedMode ev)), (''rpiboot_sysfs_path'', JStr (be_RPIBootSysfsPath ev)),
      (''rpiboot_eligible_targets'', JInt (be_RPIBootEligibleTargets ev)),
      (''uart_path'', JStr (be_UARTPath ev)), (''uart_output_digest'', JStr (be_UARTOutputDigest ev)),
      (''rpiboot_observation_method'', JStr (be_RPIBootObservationMethod ev)),
      (''rpiboot_poll_interval_nanoseconds'', JInt (be_RPIBootPollInterval ev)),
      (''rpiboot_not_observed_through'', JStr (canonicalBootTransitionTime (be_RPIBootNotObservedThrough ev))),
      (''release_prompt_id'', JStr (be_ReleasePromptID ev)),
      (''release_prompt_digest'', JStr (be_ReleasePromptDigest ev)),
      (''release_prompt_expires_at'', JStr (canonicalBootTransitionTime (be_ReleasePromptExpiresAt ev))),
      (''release_operator'', json_of_OperatorPeer (be_ReleaseOperator ev)),
      (''operator_released_at'', JStr (canonicalBootTransitionTime (be_OperatorReleasedAt ev))),
      (''final_safe_off_proof'', canonicalOperatorPowerProof (be_FinalSafeOffProof ev)),
      (''safe_off_observed_at'', JStr (canonicalBootTransitionTime (be_SafeOffObservedAt ev))),
      (''completed_at'', JStr (canonicalBootTransitionTime (be_CompletedAt ev)))]"

definition bootTransitionEvidenceDigestDomain :: string where
  "bootTransitionEvidenceDigestDomain = ''kaiba.provisioning.boot-transition-evidence.v1alpha3''"

definition Evidence_Digest :: "hash \<Rightarrow> BootTransitionEvidence \<Rightarrow> guard_error + string" where
  "Evidence_Digest sha256 ev =
     orFail (Evidence_Validate ev)
       (Inr (deriveDigest sha256 bootTransitionEvidenceDigestDomain
               (render (canonicalBootTransitionEvidence ev))))"

end
