(* ===== verification/Lane_Transition.thy ===== *)
theory Lane_Transition
  imports Lane_Boot
begin

text \<open>
  Durable boot transitions: the complete validation of a transition, its reference and outcome, the
  rule for updates, the allocation of generations and the merge of locally observed progress
  (\<^verbatim>\<open>boot_transition.go\<close>, \<^verbatim>\<open>store.go\<close>).
\<close>

section \<open>Validation\<close>

text \<open>The checks on the recorded times, in the order of the source; a time that is not zero is recorded.\<close>

definition progress_times_ok :: "BootTransition \<Rightarrow> guard_error option" where
  "progress_times_ok t =
     (let acknowledged = (bt_OperatorAcknowledgedAt t \<noteq> 0); powered = (bt_PowerEstablishedAt t \<noteq> 0);
          observed = (bt_ModeObservedAt t \<noteq> 0); released = (bt_OperatorReleasedAt t \<noteq> 0);
          safeOff = (bt_SafeOffObservedAt t \<noteq> 0); completed = (bt_CompletedAt t \<noteq> 0);
          safeOffLowerBound =
            (if released then bt_OperatorReleasedAt t else if observed then bt_ModeObservedAt t
             else if powered then bt_PowerEstablishedAt t else bt_USBAbsentObservedAt t)
      in first_err
       [fail_if (acknowledged \<and> (pe_PID (bt_Operator t) \<le> 0
                                 \<or> bt_OperatorAcknowledgedAt t < bt_ColdIntervalEndsAt t)) ErrPlain,
        fail_if (acknowledged \<and> bt_OperatorAcknowledgedAt t > bt_PromptExpiresAt t) ErrPlain,
        fail_if (powered \<and> (\<not> acknowledged \<or> bt_PowerEstablishedAt t < bt_OperatorAcknowledgedAt t)) ErrPlain,
        fail_if (observed \<and> (\<not> powered \<or> bt_ModeObservedAt t < bt_PowerEstablishedAt t)) ErrPlain,
        fail_if (released \<and> (\<not> observed \<or> pe_PID (bt_ReleaseOperator t) \<le> 0
                             \<or> bt_OperatorReleasedAt t < bt_ModeObservedAt t)) ErrPlain,
        fail_if (released \<and> bt_OperatorReleasedAt t > bt_ReleasePromptExpiresAt t) ErrPlain,
        fail_if (safeOff \<and> bt_SafeOffObservedAt t < safeOffLowerBound) ErrPlain,
        fail_if (completed \<and> (\<not> safeOff \<or> bt_CompletedAt t < bt_SafeOffObservedAt t)) ErrPlain,
        fail_if (acknowledged \<and> bt_UpdatedAt t < bt_OperatorAcknowledgedAt t
                 \<or> powered \<and> bt_UpdatedAt t < bt_PowerEstablishedAt t
                 \<or> observed \<and> bt_UpdatedAt t < bt_ModeObservedAt t
                 \<or> released \<and> bt_UpdatedAt t < bt_OperatorReleasedAt t
                 \<or> safeOff \<and> bt_UpdatedAt t < bt_SafeOffObservedAt t
                 \<or> completed \<and> bt_UpdatedAt t < bt_CompletedAt t) ErrPlain])"

definition active_progress_ok :: "nat \<Rightarrow> BootTransition \<Rightarrow> guard_error option" where
  "active_progress_ok statusRank t =
     (let acknowledged = (bt_OperatorAcknowledgedAt t \<noteq> 0); powered = (bt_PowerEstablishedAt t \<noteq> 0);
          observed = (bt_ModeObservedAt t \<noteq> 0); released = (bt_OperatorReleasedAt t \<noteq> 0);
          safeOff = (bt_SafeOffObservedAt t \<noteq> 0); completed = (bt_CompletedAt t \<noteq> 0)
      in first_err
       [fail_if (bt_Failure t \<noteq> BootTransitionFailureNone \<or> bt_EvidenceDigest t \<noteq> [] \<or> completed \<or> safeOff) ErrPlain,
        fail_if (statusRank \<ge> 2 \<and> \<not> acknowledged \<or> statusRank < 2 \<and> acknowledged) ErrPlain,
        fail_if (statusRank \<ge> 3 \<and> \<not> powered \<or> statusRank < 3 \<and> powered) ErrPlain,
        fail_if (statusRank \<ge> 4 \<and> \<not> observed \<or> statusRank < 4 \<and> observed) ErrPlain,
        fail_if (statusRank \<ge> 5 \<and> \<not> released \<or> statusRank < 5 \<and> released) ErrPlain,
        (if observed
         then first_err
                [validateObservedBootMode t,
                 fail_if (bt_ObservedMode t = BootModeNormal \<and> released) ErrPlain]
         else first_err
                [fail_if (statusRank \<ge> 1 \<and> bt_UpdatedAt t < bt_ColdIntervalEndsAt t) ErrPlain,
                 fail_if (bt_ObservedMode t \<noteq> [] \<or> bt_RPIBootSysfsPath t \<noteq> [] \<or> bt_RPIBootEligibleTargets t \<noteq> 0
                          \<or> bt_UARTPath t \<noteq> [] \<or> bt_UARTOutputDigest t \<noteq> []
                          \<or> bt_RPIBootObservationMethod t \<noteq> [] \<or> bt_RPIBootPollInterval t \<noteq> 0
                          \<or> bt_RPIBootNotObservedThrough t \<noteq> 0) ErrPlain])])"

definition completed_progress_ok :: "hash \<Rightarrow> BootTransition \<Rightarrow> guard_error option" where
  "completed_progress_ok sha256 t =
     (let released = (bt_OperatorReleasedAt t \<noteq> 0) in
      first_err
       [fail_if (bt_Failure t \<noteq> BootTransitionFailureNone \<or> bt_OperatorAcknowledgedAt t = 0
                 \<or> bt_PowerEstablishedAt t = 0 \<or> bt_ModeObservedAt t = 0 \<or> bt_SafeOffObservedAt t = 0
                 \<or> bt_CompletedAt t = 0) ErrPlain,
        validateObservedBootMode t,
        fail_if (bt_ObservedMode t = BootModeRPIBoot \<and> \<not> released) ErrPlain,
        fail_if (bt_ObservedMode t = BootModeNormal \<and> released) ErrPlain,
        (case bindE (Evidence t) (Evidence_Digest sha256) of
           Inl err \<Rightarrow> Some err
         | Inr digest \<Rightarrow> fail_if (bt_EvidenceDigest t \<noteq> digest) ErrPlain)])"

definition failed_progress_ok :: "BootTransition \<Rightarrow> guard_error option" where
  "failed_progress_ok t =
     (let safeOff = (bt_SafeOffObservedAt t \<noteq> 0) in
      first_err
       [fail_if (\<not> knownBootTransitionFailure (bt_Failure t) \<or> bt_Failure t = BootTransitionFailureNone
                 \<or> bt_EvidenceDigest t \<noteq> [] \<or> bt_CompletedAt t \<noteq> 0) ErrPlain,
        (if bt_Status t = BootTransitionQuarantined
         then fail_if (safeOff \<or> bt_Failure t \<noteq> BootTransitionFailureSafeOffUnproven) ErrPlain
         else first_err
                [fail_if (\<not> safeOff \<or> bt_Failure t = BootTransitionFailureSafeOffUnproven) ErrPlain,
                 fail_if (bt_Status t = BootTransitionInterruptedSafeOff
                          \<and> bt_Failure t \<noteq> BootTransitionFailureInterrupted) ErrPlain])])"

definition validateBootTransitionProgress :: "hash \<Rightarrow> BootTransition \<Rightarrow> guard_error option" where
  "validateBootTransitionProgress sha256 t =
     (let (statusRank, active) = bootTransitionRank (bt_Status t) in
      first_err
       [fail_if (\<not> active \<and> \<not> IsTerminal t) ErrPlain,
        progress_times_ok t,
        (if active then active_progress_ok statusRank t
         else if bt_Status t = BootTransitionCompleted then completed_progress_ok sha256 t
         else failed_progress_ok t)])"

definition BootTransition_Validate :: "hash \<Rightarrow> BootTransition \<Rightarrow> guard_error option" where
  "BootTransition_Validate sha256 t =
     first_err
       [fail_if (bt_SchemaVersion t \<noteq> BootTransitionSchemaVersion \<or> bt_Generation t = 0 \<or> bt_Key t = []) ErrPlain,
        HardwareAction_Validate (bt_Action t),
        fail_if (bt_Key t \<noteq> BootTransitionKey (bt_Action t) (bt_Generation t)) ErrPlain,
        fail_if (bt_StartedAt t = 0 \<or> bt_UpdatedAt t < bt_USBAbsentObservedAt t
                 \<or> bt_PowerOffObservedAt t < bt_StartedAt t
                 \<or> bt_USBAbsentObservedAt t < bt_PowerOffObservedAt t
                 \<or> bt_ColdIntervalEndsAt t < bt_USBAbsentObservedAt t
                 \<or> \<not> bt_PromptExpiresAt t > bt_ColdIntervalEndsAt t) ErrPlain,
        fail_if (\<not> identifierPattern (bt_PromptID t) \<or> \<not> digestPattern (bt_PromptDigest t)) ErrPlain,
        validatePowerControlEvidence t,
        validateBootTransitionProgress sha256 t]"

section \<open>References and outcomes\<close>

definition safe_terminal :: "BootTransitionStatus \<Rightarrow> bool" where
  "safe_terminal s \<longleftrightarrow> s = BootTransitionCompleted \<or> s = BootTransitionAbortedSafeOff
     \<or> s = BootTransitionInterruptedSafeOff"

definition Reference_Validate :: "BootTransitionReference \<Rightarrow> guard_error option" where
  "Reference_Validate r =
     (let (expectedEstablishment, validMode) = powerEstablishmentBasis (br_PowerControlMode r) in
      first_err
       [fail_if (br_SchemaVersion r \<noteq> BootTransitionReferenceSchemaVersion \<or> br_TransitionKey r = []) ErrPlain,
        fail_if (\<not> validMode \<or> br_PowerEstablishmentBasis r \<noteq> expectedEstablishment) ErrPlain,
        (if br_PowerControlMode r = PowerControlRelay
         then first_err
                [fail_if (\<not> OperatorPowerProof_isZero (br_InitialPowerOffProof r)
                          \<or> \<not> OperatorPowerProof_isZero (br_FinalSafeOffProof r)) ErrPlain,
                 fail_if (safe_terminal (br_Status r) \<and> (br_SafeOffBasis r \<noteq> SafeOffRelayInactiveAndUSBAbsence
                                                        \<or> br_SafeOffObservedAt r = 0)) ErrPlain]
         else first_err
                [OperatorPowerProof_validate (br_InitialPowerOffProof r) 0,
                 (if safe_terminal (br_Status r)
                  then first_err
                         [fail_if (br_SafeOffBasis r \<noteq> SafeOffOperatorDisconnectAndUSBAbsence
                                   \<or> br_SafeOffObservedAt r = 0) ErrPlain,
                          OperatorPowerProof_validate (br_FinalSafeOffProof r)
                            (pp_AcknowledgedAt (br_InitialPowerOffProof r)),
                          fail_if (br_SafeOffObservedAt r < pp_AcknowledgedAt (br_FinalSafeOffProof r)) ErrPlain]
                  else None)]),
        (if br_Status r = BootTransitionQuarantined
         then first_err
                [fail_if (br_SafeOffBasis r \<noteq> SafeOffUnproven \<or> br_SafeOffObservedAt r \<noteq> 0) ErrPlain,
                 (if br_PowerControlMode r = PowerControlManual
                     \<and> \<not> OperatorPowerProof_isZero (br_FinalSafeOffProof r)
                  then OperatorPowerProof_validate (br_FinalSafeOffProof r)
                         (pp_AcknowledgedAt (br_InitialPowerOffProof r))
                  else None)]
         else None),
        (if br_Status r = BootTransitionCompleted
         then fail_if (br_Failure r \<noteq> BootTransitionFailureNone \<or> \<not> digestPattern (br_EvidenceDigest r)) ErrPlain
         else if terminal_status (br_Status r)
         then fail_if (\<not> knownBootTransitionFailure (br_Failure r) \<or> br_Failure r = BootTransitionFailureNone
                       \<or> br_EvidenceDigest r \<noteq> []) ErrPlain
         else Some ErrPlain)])"

definition make_reference :: "BootTransition \<Rightarrow> BootTransitionReference" where
  "make_reference t =
     \<lparr>br_SchemaVersion = BootTransitionReferenceSchemaVersion, br_TransitionKey = bt_Key t,
      br_PowerControlMode = bt_PowerControlMode t, br_PowerEstablishmentBasis = bt_PowerEstablishmentBasis t,
      br_SafeOffBasis =
        (if bt_Status t \<noteq> BootTransitionQuarantined
         then if bt_PowerControlMode t = PowerControlManual then SafeOffOperatorDisconnectAndUSBAbsence
              else SafeOffRelayInactiveAndUSBAbsence
         else SafeOffUnproven),
      br_InitialPowerOffProof = bt_InitialPowerOffProof t, br_FinalSafeOffProof = bt_FinalSafeOffProof t,
      br_SafeOffObservedAt = bt_SafeOffObservedAt t, br_Status = bt_Status t, br_Failure = bt_Failure t,
      br_EvidenceDigest = bt_EvidenceDigest t\<rparr>"

definition Reference :: "hash \<Rightarrow> BootTransition \<Rightarrow> guard_error + BootTransitionReference" where
  "Reference sha256 t =
     orFail (BootTransition_Validate sha256 t)
       (if \<not> IsTerminal t then Inl ErrPlain
        else orFail (Reference_Validate (make_reference t)) (Inr (make_reference t)))"

definition ValidateForAction :: "hash \<Rightarrow> BootTransitionOutcome \<Rightarrow> HardwareAction \<Rightarrow> guard_error option" where
  "ValidateForAction sha256 outcome expected =
     (let r = bo_Reference outcome; ev = bo_Evidence outcome in
      first_err
       [fail_if (bo_SchemaVersion outcome \<noteq> BootTransitionOutcomeSchemaVersion \<or> bo_Generation outcome = 0) ErrPlain,
        HardwareAction_Validate expected,
        fail_if (bo_Action outcome \<noteq> expected) ErrPlain,
        Reference_Validate r,
        fail_if (br_TransitionKey r \<noteq> BootTransitionKey (bo_Action outcome) (bo_Generation outcome)) ErrPlain,
        fail_if (br_PowerControlMode r \<noteq> ha_PowerControlMode (bo_Action outcome)) ErrPlain,
        (if br_Status r = BootTransitionCompleted
         then first_err
                [Evidence_Validate ev,
                 fail_if (be_Action ev \<noteq> bo_Action outcome \<or> be_Generation ev \<noteq> bo_Generation outcome
                          \<or> be_TransitionKey ev \<noteq> br_TransitionKey r
                          \<or> be_PowerControlMode ev \<noteq> br_PowerControlMode r
                          \<or> be_PowerEstablishmentBasis ev \<noteq> br_PowerEstablishmentBasis r
                          \<or> be_InitialPowerOffProof ev \<noteq> br_InitialPowerOffProof r
                          \<or> be_FinalSafeOffProof ev \<noteq> br_FinalSafeOffProof r
                          \<or> be_SafeOffObservedAt ev \<noteq> br_SafeOffObservedAt r) ErrPlain,
                 (case Evidence_Digest sha256 ev of
                    Inl err \<Rightarrow> Some err
                  | Inr digest \<Rightarrow> fail_if (digest \<noteq> br_EvidenceDigest r) ErrPlain)]
         else fail_if (ev \<noteq> zero_BootTransitionEvidence) ErrPlain)])"

definition Outcome :: "hash \<Rightarrow> BootTransition \<Rightarrow> guard_error + BootTransitionOutcome" where
  "Outcome sha256 t =
     bindE (Reference sha256 t) (\<lambda>reference.
       let outcome = \<lparr>bo_SchemaVersion = BootTransitionOutcomeSchemaVersion, bo_Action = bt_Action t,
                      bo_Generation = bt_Generation t, bo_Reference = reference,
                      bo_Evidence = zero_BootTransitionEvidence\<rparr>
       in bindE (if bt_Status t = BootTransitionCompleted
                 then bindE (Evidence t) (\<lambda>evidence. Inr (outcome\<lparr>bo_Evidence := evidence\<rparr>))
                 else Inr outcome) (\<lambda>outcome.
            orFail (ValidateForAction sha256 outcome (bt_Action t)) (Inr outcome)))"

section \<open>Updates\<close>

definition bootTransitionProgressIsPrefix :: "BootTransition \<Rightarrow> BootTransition \<Rightarrow> bool" where
  "bootTransitionProgressIsPrefix existing new =
     (if bt_OperatorAcknowledgedAt existing \<noteq> 0
         \<and> (bt_Operator existing \<noteq> bt_Operator new
            \<or> bt_OperatorAcknowledgedAt existing \<noteq> bt_OperatorAcknowledgedAt new) then False
      else if bt_PowerEstablishedAt existing \<noteq> 0
              \<and> bt_PowerEstablishedAt existing \<noteq> bt_PowerEstablishedAt new then False
      else if bt_ModeObservedAt existing \<noteq> 0
              \<and> (bt_ModeObservedAt existing \<noteq> bt_ModeObservedAt new \<or> bt_ObservedMode existing \<noteq> bt_ObservedMode new
                 \<or> bt_RPIBootSysfsPath existing \<noteq> bt_RPIBootSysfsPath new
                 \<or> bt_RPIBootEligibleTargets existing \<noteq> bt_RPIBootEligibleTargets new
                 \<or> bt_UARTPath existing \<noteq> bt_UARTPath new
                 \<or> bt_UARTOutputDigest existing \<noteq> bt_UARTOutputDigest new
                 \<or> bt_RPIBootObservationMethod existing \<noteq> bt_RPIBootObservationMethod new
                 \<or> bt_RPIBootPollInterval existing \<noteq> bt_RPIBootPollInterval new
                 \<or> bt_RPIBootNotObservedThrough existing \<noteq> bt_RPIBootNotObservedThrough new
                 \<or> bt_ReleasePromptID existing \<noteq> bt_ReleasePromptID new
                 \<or> bt_ReleasePromptDigest existing \<noteq> bt_ReleasePromptDigest new
                 \<or> bt_ReleasePromptExpiresAt existing \<noteq> bt_ReleasePromptExpiresAt new) then False
      else if bt_OperatorReleasedAt existing \<noteq> 0
              \<and> (bt_ReleaseOperator existing \<noteq> bt_ReleaseOperator new
                 \<or> bt_OperatorReleasedAt existing \<noteq> bt_OperatorReleasedAt new) then False
      else if \<not> OperatorPowerProof_isZero (bt_FinalSafeOffProof existing)
              \<and> bt_FinalSafeOffProof existing \<noteq> bt_FinalSafeOffProof new then False
      else if bt_SafeOffObservedAt existing \<noteq> 0
              \<and> bt_SafeOffObservedAt existing \<noteq> bt_SafeOffObservedAt new then False
      else if bt_CompletedAt existing \<noteq> 0 \<and> bt_CompletedAt existing \<noteq> bt_CompletedAt new then False
      else if bt_Failure existing \<noteq> BootTransitionFailureNone \<and> bt_Failure existing \<noteq> bt_Failure new then False
      else if bt_EvidenceDigest existing \<noteq> [] \<and> bt_EvidenceDigest existing \<noteq> bt_EvidenceDigest new then False
      else True)"

definition transition_bindings_differ :: "BootTransition \<Rightarrow> BootTransition \<Rightarrow> bool" where
  "transition_bindings_differ existing new \<longleftrightarrow>
     bt_SchemaVersion existing \<noteq> bt_SchemaVersion new \<or> bt_Key existing \<noteq> bt_Key new
     \<or> bt_Generation existing \<noteq> bt_Generation new \<or> bt_Action existing \<noteq> bt_Action new
     \<or> bt_PowerControlMode existing \<noteq> bt_PowerControlMode new
     \<or> bt_PowerEstablishmentBasis existing \<noteq> bt_PowerEstablishmentBasis new
     \<or> bt_InitialPowerOffProof existing \<noteq> bt_InitialPowerOffProof new
     \<or> bt_StartedAt existing \<noteq> bt_StartedAt new
     \<or> bt_PowerOffObservedAt existing \<noteq> bt_PowerOffObservedAt new
     \<or> bt_USBAbsentObservedAt existing \<noteq> bt_USBAbsentObservedAt new
     \<or> bt_ColdIntervalEndsAt existing \<noteq> bt_ColdIntervalEndsAt new
     \<or> bt_PromptID existing \<noteq> bt_PromptID new \<or> bt_PromptDigest existing \<noteq> bt_PromptDigest new
     \<or> bt_PromptExpiresAt existing \<noteq> bt_PromptExpiresAt new"

definition validBootTransitionUpdate :: "hash \<Rightarrow> BootTransition \<Rightarrow> BootTransition \<Rightarrow> guard_error option" where
  "validBootTransitionUpdate sha256 existing new =
     (case BootTransition_Validate sha256 existing of Some err \<Rightarrow> Some err | None \<Rightarrow>
      (case BootTransition_Validate sha256 new of Some err \<Rightarrow> Some err | None \<Rightarrow>
       if transition_bindings_differ existing new then Some ErrPlain
       else if \<not> bootTransitionProgressIsPrefix existing new then Some ErrPlain
       else if IsTerminal existing then fail_if (existing \<noteq> new) ErrPlain
       else if bt_UpdatedAt new < bt_UpdatedAt existing then Some ErrPlain
       else if IsTerminal new then
         (if bt_Status new = BootTransitionCompleted
          then first_err
                 [fail_if (ha_RequestedBootMode (bt_Action new) = BootModeRPIBoot
                           \<and> bt_Status existing \<noteq> BootTransitionOperatorReleased) ErrPlain,
                  fail_if (ha_RequestedBootMode (bt_Action new) = BootModeNormal
                           \<and> bt_Status existing \<noteq> BootTransitionModeObserved) ErrPlain]
          else None)
       else let existingRank = fst (bootTransitionRank (bt_Status existing));
                nextRank = fst (bootTransitionRank (bt_Status new))
            in first_err
                 [fail_if (nextRank < existingRank \<or> nextRank > existingRank + 1) ErrPlain,
                  fail_if (nextRank = existingRank \<and> existing \<noteq> new) ErrPlain]))"

section \<open>New transitions\<close>

definition request_transition ::
  "hash \<Rightarrow> BeginBootTransitionRequest \<Rightarrow> uint64 \<Rightarrow> guard_error + BootTransition" where
  "request_transition sha256 request generation =
     (let transition =
        \<lparr>bt_SchemaVersion = BootTransitionSchemaVersion, bt_Key = BootTransitionKey (bb_Action request) generation,
         bt_Generation = generation, bt_Action = bb_Action request,
         bt_PowerControlMode = bb_PowerControlMode request,
         bt_PowerEstablishmentBasis = fst (powerEstablishmentBasis (bb_PowerControlMode request)),
         bt_InitialPowerOffProof = bb_InitialPowerOffProof request, bt_Status = BootTransitionRequested,
         bt_StartedAt = bb_StartedAt request, bt_UpdatedAt = bb_RecordedAt request,
         bt_PowerOffObservedAt = bb_PowerOffObservedAt request,
         bt_USBAbsentObservedAt = bb_USBAbsentObservedAt request,
         bt_ColdIntervalEndsAt = bb_ColdIntervalEndsAt request, bt_PromptID = bb_PromptID request,
         bt_PromptDigest = bb_PromptDigest request, bt_PromptExpiresAt = bb_PromptExpiresAt request,
         bt_Operator = zero_OperatorPeer, bt_OperatorAcknowledgedAt = 0, bt_PowerEstablishedAt = 0,
         bt_ModeObservedAt = 0, bt_ObservedMode = [], bt_RPIBootSysfsPath = [], bt_RPIBootEligibleTargets = 0,
         bt_UARTPath = [], bt_UARTOutputDigest = [], bt_RPIBootObservationMethod = [],
         bt_RPIBootPollInterval = 0, bt_RPIBootNotObservedThrough = 0, bt_ReleasePromptID = [],
         bt_ReleasePromptDigest = [], bt_ReleasePromptExpiresAt = 0, bt_ReleaseOperator = zero_OperatorPeer,
         bt_OperatorReleasedAt = 0, bt_FinalSafeOffProof = zero_OperatorPowerProof, bt_SafeOffObservedAt = 0,
         bt_CompletedAt = 0, bt_Failure = [], bt_EvidenceDigest = []\<rparr>
      in orFail (BootTransition_Validate sha256 transition) (Inr transition))"

definition sameBootTransitionScope :: "HardwareAction \<Rightarrow> HardwareAction \<Rightarrow> bool" where
  "sameBootTransitionScope left right \<longleftrightarrow>
     ha_StationID left = ha_StationID right \<and> ha_LaneID left = ha_LaneID right
     \<and> ha_TransactionID left = ha_TransactionID right \<and> ha_PlanDigest left = ha_PlanDigest right
     \<and> ha_TargetFingerprint left = ha_TargetFingerprint right \<and> ha_FenceEpoch left = ha_FenceEpoch right
     \<and> ha_Sequence left = ha_Sequence right \<and> ha_Operation left = ha_Operation right
     \<and> ha_Phase left = ha_Phase right"

text \<open>The loop over the map: no open transition of the scope, and the highest generation of it.\<close>

fun generation_loop ::
  "HardwareAction \<Rightarrow> uint64 \<Rightarrow> (string, BootTransition) gomap \<Rightarrow> guard_error + uint64" where
  "generation_loop action maximumGeneration [] = Inr maximumGeneration"
| "generation_loop action maximumGeneration ((key, existing) # rest) =
     (if \<not> sameBootTransitionScope (bt_Action existing) action
      then generation_loop action maximumGeneration rest
      else if \<not> IsTerminal existing then Inl ErrBootTransitionOpen
      else generation_loop action
             (if bt_Generation existing > maximumGeneration then bt_Generation existing else maximumGeneration) rest)"

definition begin_transition ::
  "hash \<Rightarrow> (string, BootTransition) gomap \<Rightarrow> BeginBootTransitionRequest \<Rightarrow> guard_error + BootTransition" where
  "begin_transition sha256 transitions request =
     orFail (HardwareAction_Validate (bb_Action request))
       (bindE (generation_loop (bb_Action request) 0 transitions) (\<lambda>maximumGeneration.
          if maximumGeneration = - 1 then Inl ErrPlain
          else request_transition sha256 request (maximumGeneration + 1)))"

section \<open>Restart\<close>

definition incompleteBootTransitions :: "(string, BootTransition) gomap \<Rightarrow> BootTransition list" where
  "incompleteBootTransitions transitions =
     sort_key bt_Key (filter (\<lambda>t. \<not> IsTerminal t) (map snd transitions))"

definition has_quarantined :: "(string, BootTransition) gomap \<Rightarrow> bool" where
  "has_quarantined transitions = list_ex (\<lambda>(key, t). bt_Status t = BootTransitionQuarantined) transitions"

definition latestBootTransitionTime :: "instant \<Rightarrow> instant \<Rightarrow> instant" where
  "latestBootTransitionTime left right = (if right > left then right else left)"

text \<open>A terminal value is projected back to its deepest active prefix; the status and the update time
  follow from what it recorded.\<close>

definition project_progress :: "BootTransition \<Rightarrow> BootTransition \<Rightarrow> BootTransition" where
  "project_progress durable local =
     (let progress = local\<lparr>bt_FinalSafeOffProof := zero_OperatorPowerProof, bt_SafeOffObservedAt := 0,
            bt_CompletedAt := 0, bt_Failure := BootTransitionFailureNone, bt_EvidenceDigest := []\<rparr>;
          at = (\<lambda>status time. progress\<lparr>bt_Status := status,
                  bt_UpdatedAt := latestBootTransitionTime (bt_UpdatedAt durable) time\<rparr>)
      in if bt_OperatorReleasedAt progress \<noteq> 0
         then at BootTransitionOperatorReleased (bt_OperatorReleasedAt progress)
         else if bt_ModeObservedAt progress \<noteq> 0
         then at BootTransitionModeObserved (bt_ModeObservedAt progress)
         else if bt_PowerEstablishedAt progress \<noteq> 0
         then at BootTransitionPowerEstablished (bt_PowerEstablishedAt progress)
         else if bt_OperatorAcknowledgedAt progress \<noteq> 0
         then at BootTransitionOperatorAcknowledged (bt_OperatorAcknowledgedAt progress)
         else if \<not> bt_UpdatedAt local < bt_ColdIntervalEndsAt local
         then at BootTransitionAwaitingOperator (bt_ColdIntervalEndsAt progress)
         else progress\<lparr>bt_Status := BootTransitionRequested, bt_UpdatedAt := bt_UpdatedAt durable\<rparr>)"

definition MergeBootTransitionProgress ::
  "hash \<Rightarrow> BootTransition \<Rightarrow> BootTransition \<Rightarrow> guard_error + BootTransition" where
  "MergeBootTransitionProgress sha256 durable local =
     (if IsTerminal durable then Inl ErrPlain
      else bindE
        (if IsTerminal local
         then orFail (BootTransition_Validate sha256 local) (Inr (project_progress durable local))
         else Inr (local\<lparr>bt_FinalSafeOffProof := zero_OperatorPowerProof\<rparr>)) (\<lambda>progress.
        orFail (BootTransition_Validate sha256 progress)
          (orFail (validBootTransitionUpdate sha256 durable progress) (Inr progress))))"

end
