(* ===== verification/Lane_Journal.thy ===== *)
theory Lane_Journal
  imports Lane_Transition Storage
begin

text \<open>
  The execute-once journal of the lane guard (\<^verbatim>\<open>store.go\<close>): attempts and boot transitions, the checks
  every write passes, and the two stores. The file store reads the whole journal before every operation
  and replaces the file atomically for every write, with the same steps as the services' stores
  (\<open>FileStore_Save\<close>). The size of the encoded journal is a parameter; a journal is taken to be read back
  as it was written, which holds for the valid UTF-8 texts that requests and records carry.
\<close>

section \<open>Attempts\<close>

definition attemptMatchesHardwareAction :: "Attempt \<Rightarrow> HardwareAction \<Rightarrow> bool" where
  "attemptMatchesHardwareAction attempt action \<longleftrightarrow>
     ha_TransactionID action = at_TransactionID attempt \<and> ha_PlanDigest action = at_PlanDigest attempt
     \<and> ha_TargetFingerprint action = at_TargetFingerprint attempt
     \<and> ha_FenceEpoch action = at_FenceEpoch attempt \<and> ha_ApprovalID action = at_ApprovalID attempt
     \<and> ha_IntentReceipt action = at_IntentReceipt attempt
     \<and> ha_IntentSequence action = at_IntentSequence attempt \<and> ha_Sequence action = at_Sequence attempt
     \<and> ha_Operation action = at_Operation attempt \<and> ha_OperationDigest action = at_OperationDigest attempt"

text \<open>The action that the outcome of a later phase has to carry, given the one of the pre-observation.\<close>

definition phase_action :: "HardwareAction \<Rightarrow> BootTransitionOutcome \<Rightarrow> HardwarePhase \<Rightarrow> HardwareAction" where
  "phase_action pre outcome phase =
     (let expected = pre\<lparr>ha_Phase := phase, ha_RequestedBootMode := BootModeRPIBoot,
            ha_ReconciliationClaimID := [], ha_ReconciliationFenceEpoch := 0\<rparr>;
          expected = (if phase = HardwarePhaseExecute
                      then expected\<lparr>ha_RequestedBootMode := ha_OperationRequiredBootMode expected\<rparr> else expected)
      in if phase = HardwarePhaseReconciliation
         then expected\<lparr>ha_StationID := ha_StationID (bo_Action outcome), ha_LaneID := ha_LaneID (bo_Action outcome),
                ha_ReconciliationClaimID := ha_ReconciliationClaimID (bo_Action outcome),
                ha_ReconciliationFenceEpoch := ha_ReconciliationFenceEpoch (bo_Action outcome)\<rparr>
         else expected)"

definition validatePhase :: "hash \<Rightarrow> HardwareAction \<Rightarrow> BootTransitionOutcome \<Rightarrow> HardwarePhase \<Rightarrow> guard_error option" where
  "validatePhase sha256 pre outcome phase =
     (if outcome = zero_BootTransitionOutcome then None
      else ValidateForAction sha256 outcome (phase_action pre outcome phase))"

definition validateAttemptBootTransitionOutcomes :: "hash \<Rightarrow> Attempt \<Rightarrow> guard_error option" where
  "validateAttemptBootTransitionOutcomes sha256 attempt =
     (let pre = at_PreObservationTransition attempt;
          execution_status = br_Status (bo_Reference (at_ExecutionTransition attempt))
      in first_err
       [fail_if (pre = zero_BootTransitionOutcome \<or> br_Status (bo_Reference pre) \<noteq> BootTransitionCompleted) ErrPlain,
        fail_if (\<not> attemptMatchesHardwareAction attempt (bo_Action pre)
                 \<or> ha_Phase (bo_Action pre) \<noteq> HardwarePhasePreObservation
                 \<or> ha_RequestedBootMode (bo_Action pre) \<noteq> BootModeRPIBoot) ErrPlain,
        ValidateForAction sha256 pre (bo_Action pre),
        validatePhase sha256 (bo_Action pre) (at_ExecutionTransition attempt) HardwarePhaseExecute,
        validatePhase sha256 (bo_Action pre) (at_PostObservationTransition attempt) HardwarePhasePostObservation,
        validatePhase sha256 (bo_Action pre) (at_ReconciliationTransition attempt) HardwarePhaseReconciliation,
        fail_if (at_PostObservationTransition attempt \<noteq> zero_BootTransitionOutcome
                 \<and> (at_ExecutionTransition attempt = zero_BootTransitionOutcome
                    \<or> execution_status \<noteq> BootTransitionCompleted)) ErrPlain,
        (if at_Result attempt \<noteq> zero_OperationResult
         then fail_if (execution_status \<noteq> BootTransitionCompleted
                       \<or> re_BootTransition (at_Result attempt) \<noteq> at_ExecutionTransition attempt) ErrPlain
         else fail_if (execution_status = BootTransitionCompleted) ErrPlain)])"

definition attempt_key :: "Attempt \<Rightarrow> string" where
  "attempt_key attempt =
     at_TransactionID attempt @ ''/'' @ at_PlanDigest attempt @ ''/'' @ show_nat (unat (at_FenceEpoch attempt))
     @ ''/'' @ show_nat (unat (at_Sequence attempt))"

definition attempt_attestation_ok :: "Attempt \<Rightarrow> guard_error option" where
  "attempt_attestation_ok attempt =
     (let attestation = re_CommitAttestation (at_Result attempt) in
      if at_Operation attempt \<noteq> OperationProgramCustomerKeyAndEEPROM
      then fail_if (\<not> CommitAttestation_IsZero attestation) ErrPlain
      else first_err
       [fail_if (at_Status attempt = AttemptVerified \<and> CommitAttestation_IsZero attestation) ErrPlain,
        fail_if (at_Status attempt = AttemptConfirmedNotApplied \<and> \<not> CommitAttestation_IsZero attestation) ErrPlain,
        (if \<not> CommitAttestation_IsZero attestation
         then first_err
                [CommitAttestation_Validate attestation,
                 fail_if (ca_TargetFingerprint attestation \<noteq> at_TargetFingerprint attempt) ErrPlain]
         else None)])"

definition validateAttempt :: "hash \<Rightarrow> Attempt \<Rightarrow> guard_error option" where
  "validateAttempt sha256 attempt =
     first_err
       [fail_if (at_SchemaVersion attempt \<noteq> AttemptSchemaVersion) ErrPlain,
        fail_if (at_Key attempt = [] \<or> at_TransactionID attempt = [] \<or> at_PlanDigest attempt = []
                 \<or> at_TargetFingerprint attempt = [] \<or> at_FenceEpoch attempt = 0 \<or> at_ApprovalID attempt = []
                 \<or> at_IntentReceipt attempt = [] \<or> at_IntentSequence attempt = 0
                 \<or> at_IntentSequence attempt \<noteq> at_Sequence attempt \<or> at_Sequence attempt = 0
                 \<or> at_OperationDigest attempt = []) ErrPlain,
        fail_if (at_Key attempt \<noteq> attempt_key attempt) ErrPlain,
        fail_if (\<not> snd (operationClass (at_Operation attempt))) ErrPlain,
        fail_if (at_Status attempt \<notin> {AttemptStarted, AttemptUncertain, AttemptVerified,
                   AttemptConfirmedNotApplied, AttemptQuarantined}) ErrPlain,
        fail_if (at_StartedAt attempt = 0 \<or> at_UpdatedAt attempt = 0) ErrPlain,
        validateAttemptBootTransitionOutcomes sha256 attempt,
        attempt_attestation_ok attempt]"

definition outcome_binding_ok ::
  "hash \<Rightarrow> (string, BootTransition) gomap \<Rightarrow> BootTransitionOutcome \<Rightarrow> guard_error option" where
  "outcome_binding_ok sha256 transitions outcome =
     (if outcome = zero_BootTransitionOutcome then None
      else (case map_get transitions (br_TransitionKey (bo_Reference outcome)) of
              None \<Rightarrow> Some ErrPlain
            | Some transition \<Rightarrow>
                (case Outcome sha256 transition of
                   Inl err \<Rightarrow> Some err
                 | Inr durable \<Rightarrow> fail_if (durable \<noteq> outcome) ErrPlain)))"

definition validateAttemptJournalBindings ::
  "hash \<Rightarrow> Attempt \<Rightarrow> (string, BootTransition) gomap \<Rightarrow> guard_error option" where
  "validateAttemptJournalBindings sha256 attempt transitions =
     first_err (map (outcome_binding_ok sha256 transitions)
       [at_PreObservationTransition attempt, at_ExecutionTransition attempt,
        at_PostObservationTransition attempt, at_ReconciliationTransition attempt])"

definition attempt_bindings_differ :: "Attempt \<Rightarrow> Attempt \<Rightarrow> bool" where
  "attempt_bindings_differ existing new \<longleftrightarrow>
     at_Key existing \<noteq> at_Key new \<or> at_TransactionID existing \<noteq> at_TransactionID new
     \<or> at_PlanDigest existing \<noteq> at_PlanDigest new \<or> at_TargetFingerprint existing \<noteq> at_TargetFingerprint new
     \<or> at_FenceEpoch existing \<noteq> at_FenceEpoch new \<or> at_ApprovalID existing \<noteq> at_ApprovalID new
     \<or> at_IntentReceipt existing \<noteq> at_IntentReceipt new \<or> at_IntentSequence existing \<noteq> at_IntentSequence new
     \<or> at_Sequence existing \<noteq> at_Sequence new \<or> at_Operation existing \<noteq> at_Operation new
     \<or> at_OperationDigest existing \<noteq> at_OperationDigest new \<or> at_StartedAt existing \<noteq> at_StartedAt new"

definition validAttemptTransition :: "Attempt \<Rightarrow> Attempt \<Rightarrow> guard_error option" where
  "validAttemptTransition existing new =
     (if attempt_bindings_differ existing new then Some ErrPlain
      else if at_Status existing = AttemptVerified \<or> at_Status existing = AttemptConfirmedNotApplied
              \<or> at_Status existing = AttemptQuarantined then fail_if (existing \<noteq> new) ErrPlain
      else if at_Status existing = AttemptUncertain \<and> at_Status new = AttemptStarted then Some ErrPlain
      else if at_PreObservationTransition existing \<noteq> at_PreObservationTransition new
              \<or> at_ExecutionTransition existing \<noteq> zero_BootTransitionOutcome
                 \<and> at_ExecutionTransition existing \<noteq> at_ExecutionTransition new
              \<or> at_PostObservationTransition existing \<noteq> zero_BootTransitionOutcome
                 \<and> at_PostObservationTransition existing \<noteq> at_PostObservationTransition new
              \<or> at_Result existing \<noteq> zero_OperationResult \<and> at_Result existing \<noteq> at_Result new
      then Some ErrPlain
      else None)"

section \<open>Writes of the file store\<close>

text \<open>What the file store does with the journal it has read, before it saves the new one.\<close>

definition put_attempt :: "hash \<Rightarrow> Attempt \<Rightarrow> journalState \<Rightarrow> guard_error + journalState" where
  "put_attempt sha256 attempt st =
     orFail (validateAttemptJournalBindings sha256 attempt (js_BootTransitions st))
       (orFail (case map_get (js_Attempts st) (at_Key attempt) of
                  Some existing \<Rightarrow> validAttemptTransition existing attempt
                | None \<Rightarrow> fail_if (at_Status attempt \<noteq> AttemptStarted) ErrPlain)
          (Inr (st\<lparr>js_Attempts := map_put (at_Key attempt) attempt (js_Attempts st)\<rparr>)))"

definition put_transition :: "hash \<Rightarrow> BootTransition \<Rightarrow> journalState \<Rightarrow> guard_error + journalState" where
  "put_transition sha256 transition st =
     orFail (case map_get (js_BootTransitions st) (bt_Key transition) of
               Some existing \<Rightarrow> validBootTransitionUpdate sha256 existing transition
             | None \<Rightarrow> Some ErrBootTransitionNotBegun)
       (Inr (st\<lparr>js_BootTransitions := map_put (bt_Key transition) transition (js_BootTransitions st)\<rparr>))"

definition add_transition ::
  "hash \<Rightarrow> BeginBootTransitionRequest \<Rightarrow> journalState \<Rightarrow> guard_error + (BootTransition \<times> journalState)" where
  "add_transition sha256 request st =
     bindE (begin_transition sha256 (js_BootTransitions st) request) (\<lambda>transition.
       Inr (transition,
            st\<lparr>js_BootTransitions := map_put (bt_Key transition) transition (js_BootTransitions st)\<rparr>))"

section \<open>The memory store\<close>

record MemoryStore =
  ms_attempts :: "(string, Attempt) gomap"
  ms_bootTransitions :: "(string, BootTransition) gomap"

definition NewMemoryStore :: MemoryStore where
  "NewMemoryStore = \<lparr>ms_attempts = [], ms_bootTransitions = []\<rparr>"

definition Memory_Get :: "string \<Rightarrow> MemoryStore \<Rightarrow> guard_error + Attempt option" where
  "Memory_Get key m = Inr (map_get (ms_attempts m) key)"

definition Memory_Put :: "hash \<Rightarrow> Attempt \<Rightarrow> MemoryStore \<Rightarrow> guard_error option \<times> MemoryStore" where
  "Memory_Put sha256 attempt m =
     (let kept = m\<lparr>ms_attempts := map_put (at_Key attempt) attempt (ms_attempts m)\<rparr> in
      case validateAttempt sha256 attempt of
        Some err \<Rightarrow> (Some err, m)
      | None \<Rightarrow>
          (case validateAttemptJournalBindings sha256 attempt (ms_bootTransitions m) of
             Some err \<Rightarrow> (Some err, m)
           | None \<Rightarrow>
               (case map_get (ms_attempts m) (at_Key attempt) of
                  Some existing \<Rightarrow>
                    (case validAttemptTransition existing attempt of Some err \<Rightarrow> (Some err, m) | None \<Rightarrow> (None, kept))
                | None \<Rightarrow> if at_Status attempt \<noteq> AttemptStarted then (Some ErrPlain, m) else (None, kept))))"

definition Memory_GetBootTransition :: "string \<Rightarrow> MemoryStore \<Rightarrow> guard_error + BootTransition option" where
  "Memory_GetBootTransition key m = Inr (map_get (ms_bootTransitions m) key)"

definition Memory_BeginBootTransition ::
  "hash \<Rightarrow> BeginBootTransitionRequest \<Rightarrow> MemoryStore \<Rightarrow> (guard_error + BootTransition) \<times> MemoryStore" where
  "Memory_BeginBootTransition sha256 request m =
     (case begin_transition sha256 (ms_bootTransitions m) request of
        Inl err \<Rightarrow> (Inl err, m)
      | Inr transition \<Rightarrow>
          (Inr transition, m\<lparr>ms_bootTransitions := map_put (bt_Key transition) transition (ms_bootTransitions m)\<rparr>))"

definition Memory_PutBootTransition :: "hash \<Rightarrow> BootTransition \<Rightarrow> MemoryStore \<Rightarrow> guard_error option \<times> MemoryStore" where
  "Memory_PutBootTransition sha256 transition m =
     (case BootTransition_Validate sha256 transition of
        Some err \<Rightarrow> (Some err, m)
      | None \<Rightarrow>
          (case map_get (ms_bootTransitions m) (bt_Key transition) of
             None \<Rightarrow> (Some ErrBootTransitionNotBegun, m)
           | Some existing \<Rightarrow>
               (case validBootTransitionUpdate sha256 existing transition of
                  Some err \<Rightarrow> (Some err, m)
                | None \<Rightarrow>
                    (None, m\<lparr>ms_bootTransitions := map_put (bt_Key transition) transition (ms_bootTransitions m)\<rparr>))))"

definition Memory_IncompleteBootTransitions :: "MemoryStore \<Rightarrow> guard_error + BootTransition list" where
  "Memory_IncompleteBootTransitions m = Inr (incompleteBootTransitions (ms_bootTransitions m))"

definition Memory_HasQuarantinedBootTransition :: "MemoryStore \<Rightarrow> guard_error + bool" where
  "Memory_HasQuarantinedBootTransition m = Inr (has_quarantined (ms_bootTransitions m))"

section \<open>The file store\<close>

text \<open>The times a journal record is encoded with; \<^verbatim>\<open>encoding/json\<close> refuses a year outside [0, 9999].\<close>

definition proof_times :: "OperatorPowerProof \<Rightarrow> instant list" where
  "proof_times p = [pp_PromptExpiresAt p, pp_AcknowledgedAt p]"

definition outcome_times :: "BootTransitionOutcome \<Rightarrow> instant list" where
  "outcome_times outcome =
     (let r = bo_Reference outcome; ev = bo_Evidence outcome in
      proof_times (br_InitialPowerOffProof r) @ proof_times (br_FinalSafeOffProof r) @ [br_SafeOffObservedAt r]
      @ proof_times (be_InitialPowerOffProof ev) @ proof_times (be_FinalSafeOffProof ev)
      @ [be_StartedAt ev, be_PromptExpiresAt ev, be_PowerOffObservedAt ev, be_USBAbsentObservedAt ev,
         be_ColdIntervalEndsAt ev, be_OperatorAcknowledgedAt ev, be_PowerEstablishedAt ev, be_ModeObservedAt ev,
         be_RPIBootNotObservedThrough ev, be_ReleasePromptExpiresAt ev, be_OperatorReleasedAt ev,
         be_SafeOffObservedAt ev, be_CompletedAt ev])"

definition attempt_times :: "Attempt \<Rightarrow> instant list" where
  "attempt_times a =
     [at_StartedAt a, at_UpdatedAt a] @ outcome_times (re_BootTransition (at_Result a))
     @ outcome_times (at_PreObservationTransition a) @ outcome_times (at_ExecutionTransition a)
     @ outcome_times (at_PostObservationTransition a) @ outcome_times (at_ReconciliationTransition a)"

definition transition_times :: "BootTransition \<Rightarrow> instant list" where
  "transition_times t =
     proof_times (bt_InitialPowerOffProof t) @ proof_times (bt_FinalSafeOffProof t)
     @ [bt_StartedAt t, bt_UpdatedAt t, bt_PowerOffObservedAt t, bt_USBAbsentObservedAt t,
        bt_ColdIntervalEndsAt t, bt_PromptExpiresAt t, bt_OperatorAcknowledgedAt t, bt_PowerEstablishedAt t,
        bt_ModeObservedAt t, bt_RPIBootNotObservedThrough t, bt_ReleasePromptExpiresAt t,
        bt_OperatorReleasedAt t, bt_SafeOffObservedAt t, bt_CompletedAt t]"

definition journal_encodes :: "journalState \<Rightarrow> bool" where
  "journal_encodes st =
     (list_all (\<lambda>(key, a). list_all (\<lambda>x. time_marshals (utc x)) (attempt_times a)) (js_Attempts st)
      \<and> list_all (\<lambda>(key, t). list_all (\<lambda>x. time_marshals (utc x)) (transition_times t)) (js_BootTransitions st))"

text \<open>What may go wrong in one operation of the store: reading the file, or a step of replacing it.\<close>

datatype store_fault = LoadFails | SaveFails save_step

record lane_env =
  le_sha256 :: hash
  le_size :: "journalState \<Rightarrow> nat" \<comment> \<open>bytes of the encoded journal\<close>

record lane_store =
  ls_open :: bool \<comment> \<open>the lock file is held\<close>
  ls_file :: "journalState file_state"

text \<open>\<open>io_fails\<close>: the directory or the lock file cannot be made, the lock file is not the owner's own, or
  another guard holds the lock.\<close>

definition NewFileStore :: "string \<Rightarrow> bool \<Rightarrow> lane_store \<Rightarrow> guard_error + lane_store" where
  "NewFileStore path io_fails s =
     orFail (fail_if (\<not> hasPrefix path ''/'' \<or> path_Clean path \<noteq> path) ErrPlain)
       (if io_fails then Inl ErrPlain else Inr (s\<lparr>ls_open := True\<rparr>))"

definition Store_Close :: "lane_store \<Rightarrow> lane_store" where
  "Store_Close s = s\<lparr>ls_open := False\<rparr>"

definition requireOpen :: "lane_store \<Rightarrow> guard_error option" where
  "requireOpen s = fail_if (\<not> ls_open s) ErrPlain"

definition loaded_ok :: "hash \<Rightarrow> journalState \<Rightarrow> guard_error option" where
  "loaded_ok sha256 st =
     first_err
       (map (\<lambda>(key, attempt). first_err [fail_if (key \<noteq> at_Key attempt) ErrPlain, validateAttempt sha256 attempt])
          (js_Attempts st)
        @ map (\<lambda>(key, transition). first_err
                 [fail_if (key \<noteq> bt_Key transition) ErrPlain, BootTransition_Validate sha256 transition])
            (js_BootTransitions st)
        @ map (\<lambda>(key, attempt). validateAttemptJournalBindings sha256 attempt (js_BootTransitions st))
            (js_Attempts st))"

definition Store_load :: "lane_env \<Rightarrow> store_fault option \<Rightarrow> lane_store \<Rightarrow> guard_error + journalState" where
  "Store_load e fault s =
     (if fault = Some LoadFails then Inl ErrPlain
      else (case fs_path (ls_file s) of
              None \<Rightarrow> Inr newJournalState
            | Some st \<Rightarrow>
                if le_size e st > maximumLaneJournalBytes then Inl ErrPlain
                else orFail (loaded_ok (le_sha256 e) st) (Inr st)))"

text \<open>A journal whose times cannot be encoded fails in the writing step, if no step before it fails.\<close>

definition encode_fault :: "journalState \<Rightarrow> store_fault option \<Rightarrow> save_step option" where
  "encode_fault st fault =
     (let step = (case fault of Some (SaveFails step) \<Rightarrow> Some step | _ \<Rightarrow> None) in
      if journal_encodes st \<or> step \<in> {Some SaveMkdir, Some SaveCreateTemp, Some SaveChmod} then step
      else Some SaveWrite)"

definition Store_save :: "store_fault option \<Rightarrow> journalState \<Rightarrow> lane_store \<Rightarrow> guard_error option \<times> lane_store" where
  "Store_save fault st s =
     (case FileStore_Save (encode_fault st fault) st (ls_file s) of
        (saved, file) \<Rightarrow> (fail_if (\<not> saved) ErrPlain, s\<lparr>ls_file := file\<rparr>))"

definition Store_Get :: "lane_env \<Rightarrow> store_fault option \<Rightarrow> string \<Rightarrow> lane_store \<Rightarrow> guard_error + Attempt option" where
  "Store_Get e fault key s =
     orFail (requireOpen s)
       (bindE (Store_load e fault s) (\<lambda>st. Inr (map_get (js_Attempts st) key)))"

definition Store_Put ::
  "lane_env \<Rightarrow> store_fault option \<Rightarrow> Attempt \<Rightarrow> lane_store \<Rightarrow> guard_error option \<times> lane_store" where
  "Store_Put e fault attempt s =
     (case orFail (validateAttempt (le_sha256 e) attempt)
             (orFail (requireOpen s)
               (bindE (Store_load e fault s) (put_attempt (le_sha256 e) attempt))) of
        Inl err \<Rightarrow> (Some err, s)
      | Inr st \<Rightarrow> Store_save fault st s)"

definition Store_GetBootTransition ::
  "lane_env \<Rightarrow> store_fault option \<Rightarrow> string \<Rightarrow> lane_store \<Rightarrow> guard_error + BootTransition option" where
  "Store_GetBootTransition e fault key s =
     orFail (requireOpen s)
       (bindE (Store_load e fault s) (\<lambda>st. Inr (map_get (js_BootTransitions st) key)))"

definition Store_PutBootTransition ::
  "lane_env \<Rightarrow> store_fault option \<Rightarrow> BootTransition \<Rightarrow> lane_store \<Rightarrow> guard_error option \<times> lane_store" where
  "Store_PutBootTransition e fault transition s =
     (case orFail (BootTransition_Validate (le_sha256 e) transition)
             (orFail (requireOpen s)
               (bindE (Store_load e fault s) (put_transition (le_sha256 e) transition))) of
        Inl err \<Rightarrow> (Some err, s)
      | Inr st \<Rightarrow> Store_save fault st s)"

definition Store_BeginBootTransition ::
  "lane_env \<Rightarrow> store_fault option \<Rightarrow> BeginBootTransitionRequest \<Rightarrow> lane_store
     \<Rightarrow> (guard_error + BootTransition) \<times> lane_store" where
  "Store_BeginBootTransition e fault request s =
     (case orFail (requireOpen s) (bindE (Store_load e fault s) (add_transition (le_sha256 e) request)) of
        Inl err \<Rightarrow> (Inl err, s)
      | Inr (transition, st) \<Rightarrow>
          (case Store_save fault st s of
             (Some err, s') \<Rightarrow> (Inl err, s')
           | (None, s') \<Rightarrow> (Inr transition, s')))"

definition Store_IncompleteBootTransitions ::
  "lane_env \<Rightarrow> store_fault option \<Rightarrow> lane_store \<Rightarrow> guard_error + BootTransition list" where
  "Store_IncompleteBootTransitions e fault s =
     orFail (requireOpen s)
       (bindE (Store_load e fault s) (\<lambda>st. Inr (incompleteBootTransitions (js_BootTransitions st))))"

definition Store_HasQuarantinedBootTransition ::
  "lane_env \<Rightarrow> store_fault option \<Rightarrow> lane_store \<Rightarrow> guard_error + bool" where
  "Store_HasQuarantinedBootTransition e fault s =
     orFail (requireOpen s)
       (bindE (Store_load e fault s) (\<lambda>st. Inr (has_quarantined (js_BootTransitions st))))"

section \<open>The interface of the stores\<close>

text \<open>One call of the interface \<^verbatim>\<open>Journal\<close> and what it returns.\<close>

datatype journal_call =
    CallGet string | CallPut Attempt
  | CallBeginBootTransition BeginBootTransitionRequest | CallGetBootTransition string
  | CallPutBootTransition BootTransition | CallIncompleteBootTransitions | CallHasQuarantinedBootTransition

datatype journal_answer =
    Failed guard_error | Stored | GotAttempt "Attempt option" | GotTransition "BootTransition option"
  | Begun BootTransition | GotIncomplete "BootTransition list" | GotQuarantined bool

definition read_answer :: "('a \<Rightarrow> journal_answer) \<Rightarrow> guard_error + 'a \<Rightarrow> journal_answer" where
  "read_answer got r = (case r of Inl err \<Rightarrow> Failed err | Inr x \<Rightarrow> got x)"

definition write_answer :: "guard_error option \<Rightarrow> journal_answer" where
  "write_answer r = (case r of Some err \<Rightarrow> Failed err | None \<Rightarrow> Stored)"

fun memory_call :: "hash \<Rightarrow> journal_call \<Rightarrow> MemoryStore \<Rightarrow> journal_answer \<times> MemoryStore" where
  "memory_call sha256 (CallGet key) m = (read_answer GotAttempt (Memory_Get key m), m)"
| "memory_call sha256 (CallPut a) m = apfst write_answer (Memory_Put sha256 a m)"
| "memory_call sha256 (CallBeginBootTransition q) m = apfst (read_answer Begun) (Memory_BeginBootTransition sha256 q m)"
| "memory_call sha256 (CallGetBootTransition key) m = (read_answer GotTransition (Memory_GetBootTransition key m), m)"
| "memory_call sha256 (CallPutBootTransition t) m = apfst write_answer (Memory_PutBootTransition sha256 t m)"
| "memory_call sha256 CallIncompleteBootTransitions m = (read_answer GotIncomplete (Memory_IncompleteBootTransitions m), m)"
| "memory_call sha256 CallHasQuarantinedBootTransition m =
     (read_answer GotQuarantined (Memory_HasQuarantinedBootTransition m), m)"

fun file_call :: "lane_env \<Rightarrow> store_fault option \<Rightarrow> journal_call \<Rightarrow> lane_store \<Rightarrow> journal_answer \<times> lane_store" where
  "file_call e fault (CallGet key) s = (read_answer GotAttempt (Store_Get e fault key s), s)"
| "file_call e fault (CallPut a) s = apfst write_answer (Store_Put e fault a s)"
| "file_call e fault (CallBeginBootTransition q) s = apfst (read_answer Begun) (Store_BeginBootTransition e fault q s)"
| "file_call e fault (CallGetBootTransition key) s = (read_answer GotTransition (Store_GetBootTransition e fault key s), s)"
| "file_call e fault (CallPutBootTransition t) s = apfst write_answer (Store_PutBootTransition e fault t s)"
| "file_call e fault CallIncompleteBootTransitions s = (read_answer GotIncomplete (Store_IncompleteBootTransitions e fault s), s)"
| "file_call e fault CallHasQuarantinedBootTransition s =
     (read_answer GotQuarantined (Store_HasQuarantinedBootTransition e fault s), s)"

fun memory_calls :: "hash \<Rightarrow> journal_call list \<Rightarrow> MemoryStore \<Rightarrow> journal_answer list \<times> MemoryStore" where
  "memory_calls sha256 [] m = ([], m)"
| "memory_calls sha256 (c # cs) m = (case memory_call sha256 c m of (r, m') \<Rightarrow> apfst ((#) r) (memory_calls sha256 cs m'))"

fun file_calls :: "lane_env \<Rightarrow> journal_call list \<Rightarrow> lane_store \<Rightarrow> journal_answer list \<times> lane_store" where
  "file_calls e [] s = ([], s)"
| "file_calls e (c # cs) s = (case file_call e None c s of (r, s') \<Rightarrow> apfst ((#) r) (file_calls e cs s'))"

end
