(* ===== verification/Lane_Guard.thy ===== *)
theory Lane_Guard
  imports Lane_Journal
begin

text \<open>
  The lane guard (\<^verbatim>\<open>guard.go\<close>): loading a plan, executing one operation of it at most once, and
  reconciling an interrupted operation. The guard's mutex makes a call atomic. What a call takes from
  outside is its \<open>guard_env\<close>: the readings of the clock and of the context's cause, one per place in the
  code, the faults of the store, the dispatch authority's answer and what the hardware does in each
  phase. During a hardware call the adapter writes boot transitions to the same journal (\<open>boot_op\<close>), and
  the process may die. A call returns its answer, the store and the hardware calls it made.
\<close>

section \<open>The guard and its environment\<close>

record Guard =
  gd_config :: Config
  gd_plan :: "Plan option"
  gd_reconciliationOnly :: bool
  gd_lockedOut :: bool

datatype boot_op = BeginOp "store_fault option" BeginBootTransitionRequest | PutOp "store_fault option" BootTransition

fun run_boot_op :: "lane_env \<Rightarrow> boot_op \<Rightarrow> lane_store \<Rightarrow> lane_store" where
  "run_boot_op e (BeginOp fault request) s = snd (Store_BeginBootTransition e fault request s)"
| "run_boot_op e (PutOp fault transition) s = snd (Store_PutBootTransition e fault transition s)"

definition run_boot_ops :: "lane_env \<Rightarrow> boot_op list \<Rightarrow> lane_store \<Rightarrow> lane_store" where
  "run_boot_ops e ops s = foldl (\<lambda>s op. run_boot_op e op s) s ops"

text \<open>A hardware call returns a value and an error (empty for nil), or the process dies in it.\<close>

datatype 'r hw_reply = Returned "boot_op list" 'r "guard_error list" | Crashed "boot_op list"

datatype hw_event = EvObserve HardwareAction | EvExecute HardwareAction

datatype answer = Answered "Attempt option" "guard_error list" | Died

record guard_env =
  ge_lane :: lane_env
  ge_clock :: "nat \<Rightarrow> instant"
  ge_cause :: "nat \<Rightarrow> guard_error list"
  ge_fault :: "nat \<Rightarrow> store_fault option"
  ge_restart :: "nat \<Rightarrow> nat \<Rightarrow> store_fault option"
  ge_recheck :: "guard_error list"
  ge_pre :: "Observation hw_reply"
  ge_exec :: "OperationResult hw_reply"
  ge_post :: "Observation hw_reply"

definition zero_Observation :: Observation where
  "zero_Observation = \<lparr>ob_EligibleTargets = 0, ob_RPIBootSysfsPath = [], ob_TargetFingerprint = [],
     ob_State = zero_DirectState, ob_BootTransition = zero_BootTransitionOutcome\<rparr>"

definition newGuard :: "Config \<Rightarrow> bool \<Rightarrow> guard_error + Guard" where
  "newGuard config dependency_missing =
     orFail (Config_Validate config)
       (if dependency_missing then Inl ErrPlain
        else Inr \<lparr>gd_config = config\<lparr>cf_SchemaVersion := ContractSchemaVersion\<rparr>, gd_plan = None,
                  gd_reconciliationOnly = False, gd_lockedOut = False\<rparr>)"

section \<open>Results and attestations\<close>

definition bindOperationResult :: "hash \<Rightarrow> Plan \<Rightarrow> OperationSpec \<Rightarrow> OperationResult \<Rightarrow> OperationResult" where
  "bindOperationResult sha256 plan operation result =
     (let a = re_CommitAttestation result; r = bo_Reference (re_BootTransition result);
          values = [ContractSchemaVersion, pl_StationID plan, pl_LaneID plan, pl_TransactionID plan,
            pl_PlanDigest plan, pl_TargetFingerprint plan, show_nat (unat (pl_FenceEpoch plan)),
            pl_ApprovalID plan, pl_IntentReceipt plan, show_nat (unat (os_Sequence operation)),
            os_Operation operation, os_OperationDigest operation, os_AuthorizationID operation,
            re_OutputDigest result, ca_SchemaVersion a, ca_TargetFingerprint a, ca_CustomerKeyHash a,
            ca_EEPROMHash a, ca_EEPROMUpdateResult a, ca_SecureBootProvisionResult a,
            br_TransitionKey r, br_EvidenceDigest r]
      in result\<lparr>re_BindingDigest :=
           digestBytes sha256 (concat (map (\<lambda>value. value @ [char_of (0 :: nat)]) values))\<rparr>)"

definition expectedCommitAttestation :: "Plan \<Rightarrow> CommitAttestation" where
  "expectedCommitAttestation plan =
     \<lparr>ca_SchemaVersion = CommitAttestationSchemaVersion, ca_TargetFingerprint = pl_TargetFingerprint plan,
      ca_CustomerKeyHash = rb_ExpectedCustomerKeyHash (pl_Release plan),
      ca_EEPROMHash = ExpectedEEPROMDigest (pl_Release plan),
      ca_EEPROMUpdateResult = ''success'', ca_SecureBootProvisionResult = ''success''\<rparr>"

definition validateResultCommitAttestation :: "Plan \<Rightarrow> OperationSpec \<Rightarrow> OperationResult \<Rightarrow> guard_error option" where
  "validateResultCommitAttestation plan operation result =
     (let a = re_CommitAttestation result in
      if os_Operation operation \<noteq> OperationProgramCustomerKeyAndEEPROM
      then fail_if (\<not> CommitAttestation_IsZero a) ErrPlain
      else first_err
       [CommitAttestation_Validate a,
        fail_if (a \<noteq> expectedCommitAttestation plan
                 \<or> ds_EEPROMHashStatus (os_ExpectedPoststate operation) \<noteq> EEPROMHashCommitAttested
                 \<or> ds_CustomerKeyHash (os_ExpectedPoststate operation) \<noteq> ca_CustomerKeyHash a
                 \<or> ds_EEPROMHash (os_ExpectedPoststate operation) \<noteq> ca_EEPROMHash a) ErrPlain])"

definition ValidateAttemptForPlan :: "Plan \<Rightarrow> Attempt \<Rightarrow> guard_error option" where
  "ValidateAttemptForPlan plan attempt =
     (if at_Sequence attempt = 0 \<or> unat (at_Sequence attempt) > length (pl_Operations plan)
      then Some ErrPlanMismatch
      else
        let operation = pl_Operations plan ! unat (at_Sequence attempt - 1) in
        first_err
         ([fail_if (at_Key attempt \<noteq> AttemptJournalKey plan (os_Sequence operation)
                   \<or> at_TransactionID attempt \<noteq> pl_TransactionID plan \<or> at_PlanDigest attempt \<noteq> pl_PlanDigest plan
                   \<or> at_TargetFingerprint attempt \<noteq> pl_TargetFingerprint plan
                   \<or> at_FenceEpoch attempt \<noteq> pl_FenceEpoch plan \<or> at_ApprovalID attempt \<noteq> pl_ApprovalID plan
                   \<or> at_Sequence attempt \<noteq> os_Sequence operation \<or> at_Operation attempt \<noteq> os_Operation operation
                   \<or> at_OperationDigest attempt \<noteq> os_OperationDigest operation) ErrPlanMismatch]
          @ map (\<lambda>outcome. fail_if (outcome \<noteq> zero_BootTransitionOutcome
                     \<and> (ha_PowerControlMode (bo_Action outcome) \<noteq> pl_PowerControlMode plan
                        \<or> br_PowerControlMode (bo_Reference outcome) \<noteq> pl_PowerControlMode plan)) ErrPlanMismatch)
              [at_PreObservationTransition attempt, at_ExecutionTransition attempt,
               at_PostObservationTransition attempt, at_ReconciliationTransition attempt]
          @ [if at_Status attempt = AttemptVerified
             then first_err
                    [fail_if (at_ObservedState attempt \<noteq> os_ExpectedPoststate operation) ErrPlain,
                     validateResultCommitAttestation plan operation (at_Result attempt)]
             else if at_Status attempt = AttemptConfirmedNotApplied
             then first_err
                    [fail_if (at_ObservedState attempt \<noteq> os_ExpectedPrestate operation) ErrPlain,
                     fail_if (\<not> CommitAttestation_IsZero (re_CommitAttestation (at_Result attempt))) ErrPlain]
             else None]))"

definition loadCommitAttestation ::
  "lane_env \<Rightarrow> store_fault option \<Rightarrow> Plan \<Rightarrow> lane_store \<Rightarrow> guard_error + CommitAttestation" where
  "loadCommitAttestation e fault plan s =
     (let commitOperation = pl_Operations plan ! 0 in
      bindE (Store_Get e fault (AttemptJournalKey plan (os_Sequence commitOperation)) s) (\<lambda>found.
       case found of
         None \<Rightarrow> Inl ErrOutOfOrder
       | Some attempt \<Rightarrow>
           if at_Status attempt \<noteq> AttemptVerified \<or> at_ObservedState attempt \<noteq> os_ExpectedPoststate commitOperation
              \<or> validateResultCommitAttestation plan commitOperation (at_Result attempt) \<noteq> None
           then Inl ErrOutOfOrder
           else Inr (re_CommitAttestation (at_Result attempt))))"

text \<open>The state a raw observation proves, whether it is the expected one, and whether it is inconclusive.\<close>

definition resolveEEPROMProof ::
  "DirectState \<Rightarrow> DirectState \<Rightarrow> CommitAttestation \<Rightarrow> DirectState \<times> bool \<times> bool" where
  "resolveEEPROMProof expected observed attestation =
     (if ds_EEPROMHashStatus expected \<noteq> EEPROMHashCommitAttested then (observed, observed = expected, False)
      else if ds_CustomerKeyHash observed \<noteq> ds_CustomerKeyHash expected
              \<or> ds_SecurityState observed \<noteq> ds_SecurityState expected
              \<or> ds_PowerState observed \<noteq> ds_PowerState expected then (observed, False, False)
      else
        let attestationMatches = (\<not> CommitAttestation_IsZero attestation
              \<and> ca_CustomerKeyHash attestation = ds_CustomerKeyHash expected
              \<and> ca_EEPROMHash attestation = ds_EEPROMHash expected
              \<and> CommitAttestation_Validate attestation = None);
            matched = (if attestationMatches then (expected, True, False) else (observed, False, True))
        in if ds_EEPROMHashStatus observed = EEPROMHashObserved \<and> ds_EEPROMHash observed = ds_EEPROMHash expected
           then matched
           else if ds_EEPROMHashStatus observed = EEPROMHashUnavailable \<and> ds_EEPROMHash observed = [] then matched
           else if ds_EEPROMHashStatus observed = EEPROMHashCommitAttested
                   \<and> ds_EEPROMHash observed = ds_EEPROMHash expected then matched
           else (observed, False, False))"

section \<open>Actions and observations\<close>

definition makeHardwareAction ::
  "Plan \<Rightarrow> OperationSpec \<Rightarrow> HardwarePhase \<Rightarrow> ReconciliationClaim option \<Rightarrow> guard_error + HardwareAction" where
  "makeHardwareAction plan operation phase claim =
     (let action =
        \<lparr>ha_SchemaVersion = BootTransitionActionSchemaVersion, ha_StationID = pl_StationID plan,
         ha_LaneID = pl_LaneID plan, ha_PowerControlMode = pl_PowerControlMode plan,
         ha_TransactionID = pl_TransactionID plan, ha_PlanDigest = pl_PlanDigest plan,
         ha_TargetFingerprint = pl_TargetFingerprint plan, ha_FenceEpoch = pl_FenceEpoch plan,
         ha_ApprovalID = pl_ApprovalID plan, ha_IntentReceipt = pl_IntentReceipt plan,
         ha_IntentSequence = pl_IntentSequence plan, ha_Sequence = os_Sequence operation,
         ha_Operation = os_Operation operation, ha_OperationDigest = os_OperationDigest operation,
         ha_AuthorizationID = os_AuthorizationID operation, ha_Phase = phase,
         ha_OperationRequiredBootMode = os_RequiredBootMode operation,
         ha_RequestedBootMode = (if phase = HardwarePhaseExecute then os_RequiredBootMode operation
                                 else BootModeRPIBoot),
         ha_ReconciliationClaimID = [], ha_ReconciliationFenceEpoch = 0\<rparr>
      in bindE (if phase = HardwarePhaseReconciliation
                then (case claim of
                        None \<Rightarrow> Inl ErrPlain
                      | Some c \<Rightarrow> Inr (action\<lparr>ha_StationID := rl_StationID c, ha_LaneID := rl_LaneID c,
                          ha_ReconciliationClaimID := rl_ClaimID c,
                          ha_ReconciliationFenceEpoch := rl_FenceEpoch c\<rparr>))
                else if claim \<noteq> None then Inl ErrPlain else Inr action) (\<lambda>action.
           orFail (HardwareAction_Validate action) (Inr action)))"

definition validateBootTransitionOutcome ::
  "lane_env \<Rightarrow> store_fault option \<Rightarrow> Config \<Rightarrow> HardwareAction \<Rightarrow> BootTransitionOutcome \<Rightarrow> bool \<Rightarrow> lane_store
     \<Rightarrow> guard_error option" where
  "validateBootTransitionOutcome e fault config action outcome completed s =
     (if ValidateForAction (le_sha256 e) outcome action \<noteq> None then Some ErrBootTransitionOutcome
      else if br_PowerControlMode (bo_Reference outcome) \<noteq> cf_PowerControlMode config
      then Some ErrBootTransitionOutcome
      else if (br_Status (bo_Reference outcome) = BootTransitionCompleted) \<noteq> completed
      then Some ErrBootTransitionOutcome
      else (case Store_GetBootTransition e fault (br_TransitionKey (bo_Reference outcome)) s of
              Inl _ \<Rightarrow> Some ErrBootTransitionOutcome
            | Inr None \<Rightarrow> Some ErrBootTransitionOutcome
            | Inr (Some transition) \<Rightarrow>
                (case Outcome (le_sha256 e) transition of
                   Inl _ \<Rightarrow> Some ErrBootTransitionOutcome
                 | Inr durable \<Rightarrow> fail_if (durable \<noteq> outcome) ErrBootTransitionOutcome)))"

text \<open>\<open>observation\<close> and \<open>hardwareErr\<close> are what \<^verbatim>\<open>hardware.Observe\<close> returned.\<close>

definition observeBoundTarget ::
  "lane_env \<Rightarrow> store_fault option \<Rightarrow> Config \<Rightarrow> string \<Rightarrow> HardwareAction \<Rightarrow> Observation \<Rightarrow> guard_error list
     \<Rightarrow> lane_store \<Rightarrow> Observation \<times> guard_error list" where
  "observeBoundTarget e fault config fingerprint action observation hardwareErr s =
     (case validateBootTransitionOutcome e fault config action (ob_BootTransition observation) (hardwareErr = []) s of
        Some transitionErr \<Rightarrow> (zero_Observation, transitionErr # hardwareErr)
      | None \<Rightarrow>
          if hardwareErr \<noteq> [] then (observation, hardwareErr)
          else if ob_EligibleTargets observation \<noteq> 1
                  \<or> ob_RPIBootSysfsPath observation \<noteq> cf_RPIBootSysfsPath config
                  \<or> ob_TargetFingerprint observation \<noteq> fingerprint then (observation, [ErrTargetContinuity])
          else (observation, []))"

section \<open>Restart\<close>

definition attemptMatchesIntent :: "Attempt \<Rightarrow> Plan \<Rightarrow> OperationSpec \<Rightarrow> bool" where
  "attemptMatchesIntent attempt plan operation \<longleftrightarrow>
     at_ApprovalID attempt = pl_ApprovalID plan \<and> at_IntentReceipt attempt = pl_IntentReceipt plan
     \<and> at_IntentSequence attempt = pl_IntentSequence plan \<and> at_Sequence attempt = os_Sequence operation"

text \<open>No later operation has an attempt.\<close>

fun later_loop ::
  "lane_env \<Rightarrow> (nat \<Rightarrow> store_fault option) \<Rightarrow> Plan \<Rightarrow> lane_store \<Rightarrow> nat \<Rightarrow> OperationSpec list \<Rightarrow> guard_error option" where
  "later_loop e fault plan s later [] = None"
| "later_loop e fault plan s later (operation # rest) =
     (case Store_Get e (fault later) (AttemptJournalKey plan (os_Sequence operation)) s of
        Inl err \<Rightarrow> Some err
      | Inr (Some _) \<Rightarrow> Some ErrPlain
      | Inr None \<Rightarrow> later_loop e fault plan s (later + 1) rest)"

fun restart_loop ::
  "lane_env \<Rightarrow> (nat \<Rightarrow> nat \<Rightarrow> store_fault option) \<Rightarrow> Plan \<Rightarrow> lane_store \<Rightarrow> nat \<Rightarrow> bool \<Rightarrow> DirectState list
     \<Rightarrow> OperationSpec list \<Rightarrow> guard_error + (DirectState list \<times> bool)" where
  "restart_loop e fault plan s index foundAttempt expected [] = Inr (expected, False)"
| "restart_loop e fault plan s index foundAttempt expected (operation # rest) =
     bindE (Store_Get e (fault index index) (AttemptJournalKey plan (os_Sequence operation)) s) (\<lambda>found.
      case found of
        None \<Rightarrow>
          orFail (later_loop e (fault index) plan s (index + 1) rest)
            (Inr (if foundAttempt then [os_ExpectedPrestate operation] else expected, False))
      | Some attempt \<Rightarrow>
          orFail (fail_if (os_Sequence operation > pl_IntentSequence plan) ErrPlanMismatch)
          (orFail (ValidateAttemptForPlan plan attempt)
          (orFail (fail_if (os_Sequence operation = pl_IntentSequence plan
                            \<and> \<not> attemptMatchesIntent attempt plan operation) ErrPlanMismatch)
          (if at_Status attempt = AttemptVerified
           then restart_loop e fault plan s (index + 1) True [os_ExpectedPoststate operation] rest
           else if at_Status attempt = AttemptConfirmedNotApplied
           then orFail (later_loop e (fault index) plan s (index + 1) rest)
                  (Inr ([os_ExpectedPrestate operation], False))
           else if at_Status attempt = AttemptStarted \<or> at_Status attempt = AttemptUncertain
           then orFail (later_loop e (fault index) plan s (index + 1) rest)
                  (Inr ([os_ExpectedPrestate operation, os_ExpectedPoststate operation], False))
           else if at_Status attempt = AttemptQuarantined
           then orFail (later_loop e (fault index) plan s (index + 1) rest)
                  (Inr ([at_ObservedState attempt], True))
           else Inl ErrPlain))))"

definition restartStates ::
  "lane_env \<Rightarrow> (nat \<Rightarrow> nat \<Rightarrow> store_fault option) \<Rightarrow> Plan \<Rightarrow> lane_store \<Rightarrow> guard_error + (DirectState list \<times> bool)" where
  "restartStates e fault plan s =
     restart_loop e fault plan s 0 False [os_ExpectedPrestate (pl_Operations plan ! 0)] (pl_Operations plan)"

definition LoadPlan :: "guard_env \<Rightarrow> Plan \<Rightarrow> Guard \<Rightarrow> lane_store \<Rightarrow> guard_error option \<times> Guard" where
  "LoadPlan e plan g s =
     (case Plan_Validate (le_sha256 (ge_lane e)) plan (gd_config g) of
        Some err \<Rightarrow> (Some err, g)
      | None \<Rightarrow>
          (case gd_plan g of
             Some loaded \<Rightarrow> (if samePlan loaded plan then None else Some ErrPlanLocked, g)
           | None \<Rightarrow>
               (case restartStates (ge_lane e) (ge_restart e) plan s of
                  Inl err \<Rightarrow> (Some err, g)
                | Inr (_, lockedOut) \<Rightarrow> (None, g\<lparr>gd_plan := Some plan, gd_lockedOut := lockedOut\<rparr>))))"

definition matchRequest :: "Guard \<Rightarrow> ExecuteRequest \<Rightarrow> guard_error + (Plan \<times> OperationSpec)" where
  "matchRequest g request =
     (case gd_plan g of
        None \<Rightarrow> Inl ErrNoPlan
      | Some plan \<Rightarrow>
          if gd_reconciliationOnly g then Inl ErrReconciliationAuthority
          else if gd_lockedOut g then Inl ErrQuarantined
          else bindE (matchPlanRequest plan request) (\<lambda>operation. Inr (plan, operation)))"

definition matchReconcileRequest :: "Guard \<Rightarrow> ReconcileRequest \<Rightarrow> guard_error + (Plan \<times> OperationSpec)" where
  "matchReconcileRequest g request =
     (case gd_plan g of
        None \<Rightarrow> Inl ErrNoPlan
      | Some plan \<Rightarrow>
          if gd_lockedOut g then Inl ErrQuarantined
          else bindE (match_ReconcileRequest (gd_config g) plan request) (\<lambda>operation. Inr (plan, operation)))"

end
