(* ===== verification/Lane_Execute.thy ===== *)
theory Lane_Execute
  imports Lane_Guard
begin

text \<open>
  Execution and reconciliation (\<^verbatim>\<open>Guard.Execute\<close>, \<^verbatim>\<open>Guard.Reconcile\<close>, \<^verbatim>\<open>Guard.ReconcilePlan\<close>), cut at
  their hardware calls: what is decided before the pre-observation, up to the durable intent, after the
  hardware returned, and after the post-observation. The clock, cause and fault readings are numbered
  in the order the code makes them.
\<close>

section \<open>Before the hardware\<close>

definition started_answer :: "Attempt \<Rightarrow> Attempt option \<times> guard_error list" where
  "started_answer existing =
     (Some existing,
      if at_Status existing = AttemptVerified then []
      else if at_Status existing = AttemptConfirmedNotApplied then [ErrConfirmedNotApplied]
      else if at_Status existing = AttemptQuarantined then [ErrQuarantined]
      else [ErrReconciliationRequired])"

definition preceding_ok ::
  "guard_env \<Rightarrow> Plan \<Rightarrow> OperationSpec \<Rightarrow> lane_store \<Rightarrow> guard_error + CommitAttestation" where
  "preceding_ok e plan operation s =
     (if os_Sequence operation > 1
      then bindE (Store_Get (ge_lane e) (ge_fault e 1) (AttemptJournalKey plan (os_Sequence operation - 1)) s) (\<lambda>previous.
        case previous of
          None \<Rightarrow> Inl ErrOutOfOrder
        | Some attempt \<Rightarrow>
            if at_Status attempt \<noteq> AttemptVerified \<or> at_ObservedState attempt \<noteq> os_ExpectedPrestate operation
            then Inl ErrOutOfOrder
            else if ds_EEPROMHashStatus (os_ExpectedPrestate operation) = EEPROMHashCommitAttested
            then loadCommitAttestation (ge_lane e) (ge_fault e 2) plan s
            else Inr zero_CommitAttestation)
      else Inr zero_CommitAttestation)"

definition authority_ok :: "instant \<Rightarrow> Plan \<Rightarrow> OperationSpec \<Rightarrow> ExecuteRequest \<Rightarrow> Config \<Rightarrow> guard_error option" where
  "authority_ok current plan operation request config =
     first_err
       [fail_if (\<not> current < pl_ApprovalExpiresAt plan) ErrApprovalExpired,
        fail_if (\<not> LeaseCoversOperation current (xr_ClaimExpiresAt request) (os_MaximumDuration operation)
                     (cf_LeaseSafetyMargin config)) ErrLeaseInvalid]"

text \<open>Up to the pre-observation: \<open>Inl\<close> is what the call answers without touching the target.\<close>

definition execute_admit ::
  "guard_env \<Rightarrow> ExecuteRequest \<Rightarrow> Guard \<Rightarrow> lane_store
     \<Rightarrow> (Attempt option \<times> guard_error list) + (Plan \<times> OperationSpec \<times> CommitAttestation \<times> HardwareAction)" where
  "execute_admit e request g s =
     (case matchRequest g request of Inl err \<Rightarrow> Inl (None, [err]) | Inr (plan, operation) \<Rightarrow>
      (case authority_ok (ge_clock e 0) plan operation request (gd_config g) of Some err \<Rightarrow> Inl (None, [err]) | None \<Rightarrow>
       (case Store_Get (ge_lane e) (ge_fault e 0) (AttemptJournalKey plan (os_Sequence operation)) s of
          Inl err \<Rightarrow> Inl (None, [err])
        | Inr (Some existing) \<Rightarrow>
            Inl (if \<not> attemptMatchesIntent existing plan operation then (None, [ErrPlanMismatch])
                 else started_answer existing)
        | Inr None \<Rightarrow>
            (case preceding_ok e plan operation s of Inl err \<Rightarrow> Inl (None, [err]) | Inr carried \<Rightarrow>
             (case makeHardwareAction plan operation HardwarePhasePreObservation None of
                Inl err \<Rightarrow> Inl (None, [err])
              | Inr preAction \<Rightarrow> Inr (plan, operation, carried, preAction))))))"

definition new_attempt :: "Plan \<Rightarrow> OperationSpec \<Rightarrow> instant \<Rightarrow> Observation \<Rightarrow> Attempt" where
  "new_attempt plan operation now observation =
     \<lparr>at_SchemaVersion = AttemptSchemaVersion, at_Key = AttemptJournalKey plan (os_Sequence operation),
      at_TransactionID = pl_TransactionID plan, at_PlanDigest = pl_PlanDigest plan,
      at_TargetFingerprint = pl_TargetFingerprint plan, at_FenceEpoch = pl_FenceEpoch plan,
      at_ApprovalID = pl_ApprovalID plan, at_IntentReceipt = pl_IntentReceipt plan,
      at_IntentSequence = pl_IntentSequence plan, at_Sequence = os_Sequence operation,
      at_Operation = os_Operation operation, at_OperationDigest = os_OperationDigest operation,
      at_Status = AttemptStarted, at_StartedAt = now, at_UpdatedAt = now, at_Result = zero_OperationResult,
      at_ObservedState = ob_State observation, at_PreObservationTransition = ob_BootTransition observation,
      at_ExecutionTransition = zero_BootTransitionOutcome, at_PostObservationTransition = zero_BootTransitionOutcome,
      at_ReconciliationTransition = zero_BootTransitionOutcome,
      at_Detail = ''durable intent recorded before hardware execution''\<rparr>"

text \<open>From the pre-observation to the intent that will be recorded.\<close>

definition execute_prepare ::
  "guard_env \<Rightarrow> ExecuteRequest \<Rightarrow> Plan \<Rightarrow> OperationSpec \<Rightarrow> CommitAttestation \<Rightarrow> HardwareAction
     \<Rightarrow> Observation \<Rightarrow> guard_error list \<Rightarrow> Config \<Rightarrow> lane_store \<Rightarrow> guard_error list + (Attempt \<times> HardwareAction)" where
  "execute_prepare e request plan operation carried preAction raw hardwareErr config s =
     (case observeBoundTarget (ge_lane e) (ge_fault e 3) config (pl_TargetFingerprint plan) preAction raw hardwareErr s of
        (observation, err) \<Rightarrow>
      if err \<noteq> [] then Inl (err @ ge_cause e 0)
      else if ge_cause e 1 \<noteq> [] then Inl (ge_cause e 1)
      else (case authority_ok (ge_clock e 1) plan operation request config of Some err \<Rightarrow> Inl [err] | None \<Rightarrow>
       (case resolveEEPROMProof (os_ExpectedPrestate operation) (ob_State observation) carried of
          (resolvedPrestate, prestateMatches, _) \<Rightarrow>
        if \<not> prestateMatches then Inl [ErrPrestateMismatch]
        else (case makeHardwareAction plan operation HardwarePhaseExecute None of
                Inl err \<Rightarrow> Inl [err]
              | Inr executionAction \<Rightarrow>
                  if ge_recheck e \<noteq> [] then Inl (ge_recheck e @ ge_cause e 2)
                  else if ge_cause e 3 \<noteq> [] then Inl (ge_cause e 3)
                  else (case authority_ok (ge_clock e 2) plan operation request config of
                          Some err \<Rightarrow> Inl [err]
                        | None \<Rightarrow> Inr (new_attempt plan operation (ge_clock e 2)
                                        (observation\<lparr>ob_State := resolvedPrestate\<rparr>), executionAction))))))"

section \<open>After the hardware\<close>

text \<open>Every outcome is written to the journal; the error of a failed write is joined to the answer.\<close>

definition record_outcome ::
  "guard_env \<Rightarrow> store_fault option \<Rightarrow> Attempt \<Rightarrow> guard_error list \<Rightarrow> lane_store \<Rightarrow> answer \<times> lane_store" where
  "record_outcome e fault attempt errs s =
     (case Store_Put (ge_lane e) fault attempt s of
        (Some err, s') \<Rightarrow> (Answered (Some attempt) (errs @ [err]), s')
      | (None, s') \<Rightarrow> (Answered (Some attempt) errs, s'))"

definition finishObserved ::
  "instant \<Rightarrow> Attempt \<Rightarrow> OperationSpec \<Rightarrow> Observation \<Rightarrow> CommitAttestation \<Rightarrow> Attempt \<times> guard_error list" where
  "finishObserved now attempt operation observation attestation =
     (case resolveEEPROMProof (os_ExpectedPoststate operation) (ob_State observation) attestation of
        (resolved, matches, inconclusive) \<Rightarrow>
      let attempt = attempt\<lparr>at_ObservedState := resolved, at_UpdatedAt := now\<rparr> in
      if matches then
        (attempt\<lparr>at_Status := AttemptVerified, at_Detail := ''evidence-backed postcondition verified''\<rparr>, [])
      else if inconclusive then
        (attempt\<lparr>at_Status := AttemptUncertain, at_ObservedState := ob_State observation,
           at_Detail := ''unavailable EEPROM readback has no exact durable commit attestation''\<rparr>,
         [ErrReconciliationRequired])
      else
        (attempt\<lparr>at_Status := AttemptQuarantined,
           at_Detail := ''direct postcondition did not match the approved plan''\<rparr>,
         [ErrQuarantined, ErrPoststateMismatch]))"

datatype conclusion =
    Record Attempt "guard_error list"
  | GiveUp Attempt "guard_error list"
  | Observe Attempt HardwareAction

definition execute_conclude ::
  "guard_env \<Rightarrow> Plan \<Rightarrow> OperationSpec \<Rightarrow> Attempt \<Rightarrow> HardwareAction \<Rightarrow> OperationResult \<Rightarrow> guard_error list
     \<Rightarrow> Config \<Rightarrow> lane_store \<Rightarrow> conclusion" where
  "execute_conclude e plan operation attempt executionAction result hardwareErr config s =
     (let transitionErr = validateBootTransitionOutcome (ge_lane e) (ge_fault e 5) config executionAction
            (re_BootTransition result) (hardwareErr = []) s;
          transitionErrs = (case transitionErr of None \<Rightarrow> [] | Some err \<Rightarrow> [err]);
          executeErr = hardwareErr @ ge_cause e 4;
          uncertain = (\<lambda>attempt detail. attempt\<lparr>at_Status := AttemptUncertain, at_UpdatedAt := ge_clock e 3,
                         at_Detail := detail\<rparr>)
      in if executeErr \<noteq> [] then
           Record (uncertain (if transitionErr = None
                              then attempt\<lparr>at_ExecutionTransition := re_BootTransition result\<rparr> else attempt)
                     ''hardware call returned without an authoritative postcondition'')
             (ErrReconciliationRequired # executeErr @ transitionErrs)
         else if transitionErr \<noteq> None then
           Record (uncertain attempt ''hardware returned an invalid or non-durable boot-transition outcome'')
             (ErrReconciliationRequired # transitionErrs)
         else
           let attempt = attempt\<lparr>at_ExecutionTransition := re_BootTransition result,
                 at_Result := bindOperationResult (le_sha256 (ge_lane e)) plan operation result\<rparr>
           in (case validateResultCommitAttestation plan operation (at_Result attempt) of
                 Some err \<Rightarrow>
                   Record (uncertain attempt
                      ''completed hardware response lacks the exact required fresh-commit attestation'')
                     [ErrReconciliationRequired, err]
               | None \<Rightarrow>
                   (case makeHardwareAction plan operation HardwarePhasePostObservation None of
                      Inl err \<Rightarrow> GiveUp attempt [err]
                    | Inr postAction \<Rightarrow> Observe attempt postAction)))"

definition execute_finish ::
  "guard_env \<Rightarrow> Plan \<Rightarrow> OperationSpec \<Rightarrow> CommitAttestation \<Rightarrow> Attempt \<Rightarrow> HardwareAction \<Rightarrow> Observation
     \<Rightarrow> guard_error list \<Rightarrow> Config \<Rightarrow> lane_store \<Rightarrow> Attempt \<times> guard_error list" where
  "execute_finish e plan operation carried attempt postAction raw hardwareErr config s =
     (case observeBoundTarget (ge_lane e) (ge_fault e 7) config (pl_TargetFingerprint plan) postAction raw hardwareErr s of
        (postObservation, err) \<Rightarrow>
      let observeErr = err @ ge_cause e 5;
          attempt = (if ob_BootTransition postObservation \<noteq> zero_BootTransitionOutcome
                     then attempt\<lparr>at_PostObservationTransition := ob_BootTransition postObservation\<rparr> else attempt)
      in if observeErr \<noteq> [] then
           if ErrTargetContinuity \<in> set observeErr then
             (attempt\<lparr>at_Status := AttemptQuarantined, at_UpdatedAt := ge_clock e 3,
                at_Detail := ''target continuity changed after hardware execution''\<rparr>,
              ErrQuarantined # observeErr)
           else
             (attempt\<lparr>at_Status := AttemptUncertain, at_UpdatedAt := ge_clock e 3,
                at_Detail := ''hardware returned but direct postcondition observation failed''\<rparr>,
              ErrReconciliationRequired # observeErr)
         else
           finishObserved (ge_clock e 3) attempt operation postObservation
             (if os_Operation operation = OperationProgramCustomerKeyAndEEPROM
                 \<and> validateResultCommitAttestation plan operation (at_Result attempt) = None
              then re_CommitAttestation (at_Result attempt) else carried))"

section \<open>Execute\<close>

text \<open>From the durable intent on: the hardware call, and what is recorded of it.\<close>

definition execute_dispatch ::
  "guard_env \<Rightarrow> Plan \<Rightarrow> OperationSpec \<Rightarrow> CommitAttestation \<Rightarrow> Attempt \<Rightarrow> HardwareAction \<Rightarrow> Config \<Rightarrow> lane_store
     \<Rightarrow> answer \<times> lane_store \<times> hw_event list" where
  "execute_dispatch e plan operation carried attempt executionAction config s =
     (case ge_exec e of
        Crashed ops \<Rightarrow> (Died, run_boot_ops (ge_lane e) ops s, [EvExecute executionAction])
      | Returned ops result hardwareErr \<Rightarrow>
          let s = run_boot_ops (ge_lane e) ops s in
          (case execute_conclude e plan operation attempt executionAction result hardwareErr config s of
             GiveUp attempt errs \<Rightarrow> (Answered (Some attempt) errs, s, [EvExecute executionAction])
           | Record attempt errs \<Rightarrow>
               (case record_outcome e (ge_fault e 6) attempt errs s of
                  (answer, s) \<Rightarrow> (answer, s, [EvExecute executionAction]))
           | Observe attempt postAction \<Rightarrow>
               (case ge_post e of
                  Crashed ops \<Rightarrow> (Died, run_boot_ops (ge_lane e) ops s, [EvExecute executionAction, EvObserve postAction])
                | Returned ops raw hardwareErr \<Rightarrow>
                    let s = run_boot_ops (ge_lane e) ops s in
                    (case execute_finish e plan operation carried attempt postAction raw hardwareErr config s of
                       (attempt, errs) \<Rightarrow>
                         (case record_outcome e (ge_fault e 6) attempt errs s of
                            (answer, s) \<Rightarrow> (answer, s, [EvExecute executionAction, EvObserve postAction]))))))"

definition Execute ::
  "guard_env \<Rightarrow> ExecuteRequest \<Rightarrow> Guard \<Rightarrow> lane_store \<Rightarrow> answer \<times> lane_store \<times> hw_event list" where
  "Execute e request g s =
     (case execute_admit e request g s of
        Inl (attempt, errs) \<Rightarrow> (Answered attempt errs, s, [])
      | Inr (plan, operation, carried, preAction) \<Rightarrow>
          (case ge_pre e of
             Crashed ops \<Rightarrow> (Died, run_boot_ops (ge_lane e) ops s, [EvObserve preAction])
           | Returned ops raw hardwareErr \<Rightarrow>
               let s = run_boot_ops (ge_lane e) ops s in
               (case execute_prepare e request plan operation carried preAction raw hardwareErr (gd_config g) s of
                  Inl errs \<Rightarrow> (Answered None errs, s, [EvObserve preAction])
                | Inr (attempt, executionAction) \<Rightarrow>
                    (case Store_Put (ge_lane e) (ge_fault e 4) attempt s of
                       (Some err, s) \<Rightarrow> (Answered None [err], s, [EvObserve preAction])
                     | (None, s) \<Rightarrow>
                         (case execute_dispatch e plan operation carried attempt executionAction (gd_config g) s of
                            (answer, s, events) \<Rightarrow> (answer, s, EvObserve preAction # events))))))"

section \<open>Reconcile\<close>

definition reconcile_lease_ok :: "instant \<Rightarrow> ReconcileRequest \<Rightarrow> Config \<Rightarrow> bool" where
  "reconcile_lease_ok current request config =
     LeaseCoversOperation current (rl_ExpiresAt (rq_Claim request)) ReconciliationObservationBudget
       (cf_LeaseSafetyMargin config)"

definition reconcile_admit ::
  "guard_env \<Rightarrow> ReconcileRequest \<Rightarrow> Guard \<Rightarrow> lane_store
     \<Rightarrow> (Attempt option \<times> guard_error list) + (Plan \<times> OperationSpec \<times> Attempt \<times> HardwareAction)" where
  "reconcile_admit e request g s =
     (case matchReconcileRequest g request of Inl err \<Rightarrow> Inl (None, [err]) | Inr (plan, operation) \<Rightarrow>
      if \<not> reconcile_lease_ok (ge_clock e 1) request (gd_config g) then Inl (None, [ErrLeaseInvalid])
      else (case Store_Get (ge_lane e) (ge_fault e 0) (AttemptJournalKey plan (os_Sequence operation)) s of
          Inl err \<Rightarrow> Inl (None, [err])
        | Inr None \<Rightarrow> Inl (None, [ErrPlain])
        | Inr (Some attempt) \<Rightarrow>
            if \<not> attemptMatchesIntent attempt plan operation then Inl (None, [ErrPlanMismatch])
            else if at_Status attempt = AttemptVerified \<or> at_Status attempt = AttemptConfirmedNotApplied
            then Inl (Some attempt, [])
            else if at_Status attempt = AttemptQuarantined then Inl (Some attempt, [ErrQuarantined])
            else if at_Status attempt \<noteq> AttemptStarted \<and> at_Status attempt \<noteq> AttemptUncertain
            then Inl (None, [ErrPlain])
            else if \<not> reconcile_lease_ok (ge_clock e 2) request (gd_config g) then Inl (None, [ErrLeaseInvalid])
            else (case makeHardwareAction plan operation HardwarePhaseReconciliation (Some (rq_Claim request)) of
                    Inl err \<Rightarrow> Inl (None, [err])
                  | Inr action \<Rightarrow>
                      if ge_recheck e \<noteq> [] then Inl (None, ge_recheck e @ ge_cause e 0)
                      else if ge_cause e 1 \<noteq> [] then Inl (None, ge_cause e 1)
                      else if \<not> reconcile_lease_ok (ge_clock e 3) request (gd_config g)
                      then Inl (None, [ErrLeaseInvalid])
                      else Inr (plan, operation, attempt, action))))"

text \<open>What the one observation of a reconciliation shows.\<close>

definition reconcile_judge ::
  "guard_env \<Rightarrow> Plan \<Rightarrow> OperationSpec \<Rightarrow> Attempt \<Rightarrow> Observation \<Rightarrow> CommitAttestation \<Rightarrow> Attempt \<times> guard_error list" where
  "reconcile_judge e plan operation attempt observation carried =
     (let postAttestation =
            (if os_Operation operation = OperationProgramCustomerKeyAndEEPROM
                \<and> validateResultCommitAttestation plan operation (at_Result attempt) = None
             then re_CommitAttestation (at_Result attempt) else carried);
          (_, poststateMatches, poststateInconclusive) =
            resolveEEPROMProof (os_ExpectedPoststate operation) (ob_State observation) postAttestation;
          (resolvedPrestate, prestateMatches, prestateInconclusive) =
            resolveEEPROMProof (os_ExpectedPrestate operation) (ob_State observation) carried;
          judged = (\<lambda>status state detail. attempt\<lparr>at_Status := status, at_ObservedState := state,
                      at_UpdatedAt := ge_clock e 4, at_Detail := detail\<rparr>)
      in if os_ExpectedPrestate operation = os_ExpectedPoststate operation \<and> (prestateMatches \<or> poststateMatches)
         then (judged AttemptUncertain resolvedPrestate
                 ''direct state cannot distinguish whether the interrupted operation executed'',
               [ErrReconciliationRequired])
         else if poststateMatches
         then finishObserved (ge_clock e 4) attempt operation observation postAttestation
         else if prestateMatches \<and> ds_EEPROMHashStatus (os_ExpectedPrestate operation) = EEPROMHashUnavailable
         then (judged AttemptUncertain resolvedPrestate
                 ''unavailable initial EEPROM hash cannot prove that the interrupted operation did not change EEPROM'',
               [ErrReconciliationRequired])
         else if prestateMatches
         then if \<not> CommitAttestation_IsZero (re_CommitAttestation (at_Result attempt))
              then (judged AttemptUncertain resolvedPrestate
                      ''direct original prestate conflicts with the durable fresh-commit attestation'',
                    [ErrReconciliationRequired])
              else (judged AttemptConfirmedNotApplied resolvedPrestate
                      ''direct original prestate confirms that the interrupted operation did not apply'', [])
         else if prestateInconclusive \<or> poststateInconclusive
         then (judged AttemptUncertain (ob_State observation)
                 ''unavailable EEPROM readback has no exact durable commit attestation'',
               [ErrReconciliationRequired])
         else finishObserved (ge_clock e 4) attempt operation observation postAttestation)"

text \<open>\<open>Inl\<close> is answered without a write, \<open>Inr\<close> is recorded.\<close>

definition reconcile_observed ::
  "guard_env \<Rightarrow> Plan \<Rightarrow> OperationSpec \<Rightarrow> Attempt \<Rightarrow> HardwareAction \<Rightarrow> Observation \<Rightarrow> guard_error list
     \<Rightarrow> Config \<Rightarrow> lane_store \<Rightarrow> (Attempt \<times> guard_error list) + (Attempt \<times> guard_error list)" where
  "reconcile_observed e plan operation attempt action raw hardwareErr config s =
     (case observeBoundTarget (ge_lane e) (ge_fault e 1) config (pl_TargetFingerprint plan) action raw hardwareErr s of
        (observation, observeErr) \<Rightarrow>
      let err = observeErr @ ge_cause e 2;
          attempt = (if ob_BootTransition observation \<noteq> zero_BootTransitionOutcome
                     then attempt\<lparr>at_ReconciliationTransition := ob_BootTransition observation\<rparr> else attempt)
      in if err \<noteq> [] then
           if ErrTargetContinuity \<in> set err then
             Inr (attempt\<lparr>at_Status := AttemptQuarantined, at_UpdatedAt := ge_clock e 4,
                    at_Detail := ''target continuity changed during reconciliation''\<rparr>, ErrQuarantined # err)
           else
             Inr (attempt\<lparr>at_UpdatedAt := ge_clock e 4, at_Detail := ''direct reconciliation observation failed''\<rparr>,
                  ErrReconciliationRequired # err)
         else
           (case (if os_Sequence operation > 1
                     \<and> (ds_EEPROMHashStatus (os_ExpectedPrestate operation) = EEPROMHashCommitAttested
                        \<or> ds_EEPROMHashStatus (os_ExpectedPoststate operation) = EEPROMHashCommitAttested)
                  then loadCommitAttestation (ge_lane e) (ge_fault e 2) plan s
                  else Inr zero_CommitAttestation) of
              Inl loadErr \<Rightarrow> Inl (attempt, [loadErr])
            | Inr carried \<Rightarrow> Inr (reconcile_judge e plan operation attempt observation carried)))"

definition Reconcile ::
  "guard_env \<Rightarrow> ReconcileRequest \<Rightarrow> Guard \<Rightarrow> lane_store \<Rightarrow> answer \<times> lane_store \<times> hw_event list" where
  "Reconcile e request g s =
     (case reconcile_admit e request g s of
        Inl (attempt, errs) \<Rightarrow> (Answered attempt errs, s, [])
      | Inr (plan, operation, attempt, action) \<Rightarrow>
          (case ge_pre e of
             Crashed ops \<Rightarrow> (Died, run_boot_ops (ge_lane e) ops s, [EvObserve action])
           | Returned ops raw hardwareErr \<Rightarrow>
               let s = run_boot_ops (ge_lane e) ops s in
               (case reconcile_observed e plan operation attempt action raw hardwareErr (gd_config g) s of
                  Inr (attempt, errs) \<Rightarrow>
                    (case record_outcome e (ge_fault e 3) attempt errs s of
                       (answer, s) \<Rightarrow> (answer, s, [EvObserve action]))
                | Inl (attempt, errs) \<Rightarrow> (Answered (Some attempt) errs, s, [EvObserve action]))))"

text \<open>The new guard and what \<^verbatim>\<open>reconcileLocked\<close> answers; once the claim was accepted the guard is disarmed.\<close>

definition ReconcilePlan ::
  "guard_env \<Rightarrow> Plan \<Rightarrow> ReconcileRequest \<Rightarrow> Guard \<Rightarrow> lane_store
     \<Rightarrow> answer \<times> Guard \<times> lane_store \<times> hw_event list" where
  "ReconcilePlan e plan request g s =
     (let refuse = (\<lambda>err. (Answered None [err], g, s, []));
          go = (\<lambda>g. case Reconcile e request (g\<lparr>gd_reconciliationOnly := True\<rparr>) s of
                  (answer, s, events) \<Rightarrow> (answer, g\<lparr>gd_reconciliationOnly := True\<rparr>, s, events))
      in case ValidateReconcileRequest (le_sha256 (ge_lane e)) (gd_config g) plan request of
           Some err \<Rightarrow> refuse err
         | None \<Rightarrow>
             if \<not> reconcile_lease_ok (ge_clock e 0) request (gd_config g) then refuse ErrLeaseInvalid
             else (case gd_plan g of
                     Some loaded \<Rightarrow> if \<not> samePlan loaded plan then refuse ErrPlanLocked else go g
                   | None \<Rightarrow>
                       (case restartStates (ge_lane e) (ge_restart e) plan s of
                          Inl err \<Rightarrow> refuse err
                        | Inr (_, lockedOut) \<Rightarrow> go (g\<lparr>gd_plan := Some plan, gd_lockedOut := lockedOut\<rparr>))))"

end
