(* ===== verification/Lane_Writes.thy ===== *)
theory Lane_Writes
  imports Lane_Execute
begin

text \<open>
  What a write to the journal does. The locale \<open>lane_journal\<close> is the interface \<^verbatim>\<open>Journal\<close> as the guard
  and the hardware adapter rely on it: an operation leaves the journal alone or makes one of the three
  checked writes, and makes it whenever it reports success. It is interpreted on the file store and on
  the memory store. The rest of the theory says what every sequence of writes keeps: attempts and their
  bindings stay, concluded attempts are frozen.
\<close>

definition lane_journal_of :: "lane_store \<Rightarrow> journalState" where
  "lane_journal_of s = (case fs_path (ls_file s) of None \<Rightarrow> newJournalState | Some st \<Rightarrow> st)"

inductive journal_write :: "hash \<Rightarrow> journalState \<Rightarrow> journalState \<Rightarrow> bool" for sha where
  attempt: "validateAttempt sha a = None \<Longrightarrow> put_attempt sha a st = Inr st' \<Longrightarrow> journal_write sha st st'"
| transition: "BootTransition_Validate sha t = None \<Longrightarrow> put_transition sha t st = Inr st' \<Longrightarrow> journal_write sha st st'"
| begin_new: "add_transition sha q st = Inr (t, st') \<Longrightarrow> journal_write sha st st'"

inductive journal_writes :: "hash \<Rightarrow> journalState \<Rightarrow> journalState \<Rightarrow> bool" for sha where
  none: "journal_writes sha st st"
| more_write: "journal_writes sha st st' \<Longrightarrow> journal_write sha st' st'' \<Longrightarrow> journal_writes sha st st''"

lemma journal_writes_trans:
  assumes "journal_writes sha st' st''" and "journal_writes sha st st'"
  shows "journal_writes sha st st''"
  using assms by (induction rule: journal_writes.induct) (auto intro: journal_writes.intros)

section \<open>The interface\<close>

locale lane_journal =
  fixes sha :: hash
    and view :: "'s \<Rightarrow> journalState"
    and put :: "'f \<Rightarrow> Attempt \<Rightarrow> 's \<Rightarrow> guard_error option \<times> 's"
    and putBoot :: "'f \<Rightarrow> BootTransition \<Rightarrow> 's \<Rightarrow> guard_error option \<times> 's"
    and beginBoot :: "'f \<Rightarrow> BeginBootTransitionRequest \<Rightarrow> 's \<Rightarrow> (guard_error + BootTransition) \<times> 's"
  assumes put_law: "put f a s = (r, s') \<Longrightarrow>
      r \<noteq> None \<and> view s' = view s \<or> validateAttempt sha a = None \<and> put_attempt sha a (view s) = Inr (view s')"
    and putBoot_law: "putBoot f t s = (r, s') \<Longrightarrow>
      r \<noteq> None \<and> view s' = view s
      \<or> BootTransition_Validate sha t = None \<and> put_transition sha t (view s) = Inr (view s')"
    and beginBoot_law: "beginBoot f q s = (b, s') \<Longrightarrow>
      (\<exists>err. b = Inl err) \<and> view s' = view s
      \<or> (\<exists>t. add_transition sha q (view s) = Inr (t, view s') \<and> (b = Inr t \<or> (\<exists>err. b = Inl err)))"
begin

lemma put_writes: "put f a s = (r, s') \<Longrightarrow> journal_writes sha (view s) (view s')"
  using put_law [of f a s r s'] by (auto intro: journal_writes.intros journal_write.intros)

lemma putBoot_writes: "putBoot f t s = (r, s') \<Longrightarrow> journal_writes sha (view s) (view s')"
  using putBoot_law [of f t s r s'] by (auto intro: journal_writes.intros journal_write.intros)

lemma beginBoot_writes: "beginBoot f q s = (b, s') \<Longrightarrow> journal_writes sha (view s) (view s')"
  using beginBoot_law [of f q s b s'] by (auto intro: journal_writes.intros journal_write.intros)

lemma put_done:
  "put f a s = (None, s') \<Longrightarrow> validateAttempt sha a = None \<and> put_attempt sha a (view s) = Inr (view s')"
  using put_law by blast

end

lemma Store_load_Inr: "Store_load e f s = Inr st \<Longrightarrow> st = lane_journal_of s"
  by (auto simp: Store_load_def lane_journal_of_def split: if_splits option.splits)

lemma Store_save_effect:
  assumes "Store_save f st s = (r, s')"
  shows "r \<noteq> None \<and> lane_journal_of s' = lane_journal_of s \<or> lane_journal_of s' = st"
proof (cases "FileStore_Save (encode_fault st f) st (ls_file s)")
  case (Pair saved fs)
  have "saved \<Longrightarrow> fs_path fs = Some st"
    using file_store.save_ok [of "encode_fault st f" st "ls_file s" fs] Pair by (simp add: FileStore_Load_def)
  moreover have "fs_path fs = fs_path (ls_file s) \<or> fs_path fs = Some st"
    using FileStore_Save_path [of "encode_fault st f" st "ls_file s"] Pair by simp
  ultimately show ?thesis
    using assms Pair by (cases saved) (auto simp: Store_save_def lane_journal_of_def)
qed

interpretation file_journal: lane_journal "le_sha256 e" lane_journal_of
  "\<lambda>f a s. Store_Put e f a s" "\<lambda>f t s. Store_PutBootTransition e f t s" "\<lambda>f q s. Store_BeginBootTransition e f q s"
proof
  show "r \<noteq> None \<and> lane_journal_of s' = lane_journal_of s
      \<or> validateAttempt (le_sha256 e) a = None \<and> put_attempt (le_sha256 e) a (lane_journal_of s) = Inr (lane_journal_of s')"
    if "Store_Put e f a s = (r, s')" for f a s r s'
    using that Store_load_Inr [of e f s] Store_save_effect [of f _ s r s']
    by (auto simp: Store_Put_def split: sum.splits)
  show "r \<noteq> None \<and> lane_journal_of s' = lane_journal_of s
      \<or> BootTransition_Validate (le_sha256 e) t = None
         \<and> put_transition (le_sha256 e) t (lane_journal_of s) = Inr (lane_journal_of s')"
    if "Store_PutBootTransition e f t s = (r, s')" for f t s r s'
    using that Store_load_Inr [of e f s] Store_save_effect [of f _ s r s']
    by (auto simp: Store_PutBootTransition_def split: sum.splits)
  show "(\<exists>err. b = Inl err) \<and> lane_journal_of s' = lane_journal_of s
      \<or> (\<exists>t. add_transition (le_sha256 e) q (lane_journal_of s) = Inr (t, lane_journal_of s')
             \<and> (b = Inr t \<or> (\<exists>err. b = Inl err)))"
    if "Store_BeginBootTransition e f q s = (b, s')" for f q s b s'
    using that Store_load_Inr [of e f s] Store_save_effect [of f _ s]
    by (auto simp: Store_BeginBootTransition_def split: sum.splits prod.splits option.splits)
qed

definition memory_journal_of :: "MemoryStore \<Rightarrow> journalState" where
  "memory_journal_of m = \<lparr>js_Attempts = ms_attempts m, js_BootTransitions = ms_bootTransitions m\<rparr>"

interpretation memory_journal: lane_journal sha memory_journal_of
  "\<lambda>(f :: unit) a m. Memory_Put sha a m" "\<lambda>f t m. Memory_PutBootTransition sha t m"
  "\<lambda>f q m. Memory_BeginBootTransition sha q m"
  by unfold_locales
    (auto simp: Memory_Put_def Memory_PutBootTransition_def Memory_BeginBootTransition_def put_attempt_def
          put_transition_def add_transition_def memory_journal_of_def Let_def
          split: sum.splits prod.splits option.splits if_splits, metis+)

section \<open>What writes keep\<close>

lemma put_attempt_Inr:
  "put_attempt sha a st = Inr st' \<longleftrightarrow>
     validateAttemptJournalBindings sha a (js_BootTransitions st) = None
     \<and> (case map_get (js_Attempts st) (at_Key a) of
          Some existing \<Rightarrow> validAttemptTransition existing a = None
        | None \<Rightarrow> at_Status a = AttemptStarted)
     \<and> st' = st\<lparr>js_Attempts := map_put (at_Key a) a (js_Attempts st)\<rparr>"
  by (auto simp: put_attempt_def split: option.splits)

lemma transition_writes_keep_attempts:
  "put_transition sha t st = Inr st' \<Longrightarrow> js_Attempts st' = js_Attempts st"
  "add_transition sha q st = Inr (t, st') \<Longrightarrow> js_Attempts st' = js_Attempts st"
  by (auto simp: put_transition_def add_transition_def)

definition concluded_attempt :: "Attempt \<Rightarrow> bool" where
  "concluded_attempt a \<longleftrightarrow> at_Status a \<in> {AttemptVerified, AttemptConfirmedNotApplied, AttemptQuarantined}"

text \<open>How the attempt under one key may change: its bindings never, a concluded one not at all, and
  evidence only from absent to present.\<close>

definition attempt_grows :: "Attempt \<Rightarrow> Attempt \<Rightarrow> bool" where
  "attempt_grows a b \<longleftrightarrow>
     \<not> attempt_bindings_differ a b
     \<and> (concluded_attempt a \<longrightarrow> b = a)
     \<and> (at_Status a = AttemptUncertain \<longrightarrow> at_Status b \<noteq> AttemptStarted)
     \<and> at_PreObservationTransition b = at_PreObservationTransition a
     \<and> (at_ExecutionTransition a \<noteq> zero_BootTransitionOutcome \<longrightarrow> at_ExecutionTransition b = at_ExecutionTransition a)
     \<and> (at_PostObservationTransition a \<noteq> zero_BootTransitionOutcome
         \<longrightarrow> at_PostObservationTransition b = at_PostObservationTransition a)
     \<and> (at_Result a \<noteq> zero_OperationResult \<longrightarrow> at_Result b = at_Result a)"

lemma attempt_grows_refl [simp]: "attempt_grows a a"
  by (auto simp: attempt_grows_def attempt_bindings_differ_def attempt_status_defs)

lemma validAttemptTransition_grows: "validAttemptTransition a b = None \<Longrightarrow> attempt_grows a b"
  by (auto simp: validAttemptTransition_def attempt_grows_def concluded_attempt_def attempt_status_defs
      split: if_splits)

lemma attempt_grows_trans:
  assumes "attempt_grows a b" and "attempt_grows b c"
    and "at_Status b \<in> {AttemptStarted, AttemptUncertain, AttemptVerified, AttemptConfirmedNotApplied, AttemptQuarantined}"
    and "at_Status a \<in> {AttemptStarted, AttemptUncertain, AttemptVerified, AttemptConfirmedNotApplied, AttemptQuarantined}"
  shows "attempt_grows a c"
  using assms unfolding attempt_grows_def attempt_bindings_differ_def concluded_attempt_def
  by (auto simp: attempt_status_defs)

lemma attempt_grows_key: "attempt_grows a b \<Longrightarrow> at_Key b = at_Key a"
  by (simp add: attempt_grows_def attempt_bindings_differ_def)

lemma attempt_grows_concluded: "attempt_grows a b \<Longrightarrow> concluded_attempt a \<Longrightarrow> b = a"
  by (simp add: attempt_grows_def)

end
