(* ===== verification/Lane_Plan_Facts.thy ===== *)
theory Lane_Plan_Facts
  imports Lane_Plan
begin

text \<open>
  What a plan that validates is: the seven operations of the campaign in order, numbered from one, with
  the fixed chain of states and derived digests; which requests match it; and when a lease covers an
  operation.
\<close>

section \<open>Texts\<close>

lemma digestPattern_validDigest: "digestPattern v \<longleftrightarrow> validDigest v"
proof -
  have "digestPattern v \<longleftrightarrow> (\<exists>h. v = ''sha256:'' @ h \<and> length h = 64 \<and> list_all lower_hex_char h)"
  proof
    assume "digestPattern v"
    then show "\<exists>h. v = ''sha256:'' @ h \<and> length h = 64 \<and> list_all lower_hex_char h"
      unfolding digestPattern_def by (metis append_take_drop_id)
  qed (auto simp: digestPattern_def)
  then show ?thesis by (simp add: validDigest_alt digest_prefix_def)
qed

lemma digestPattern_derive:
  "\<forall>m. length (sha m) = 32 \<Longrightarrow> digestPattern (deriveDigest sha domain material)"
  by (simp add: digestPattern_validDigest deriveDigest_def validDigest_digestBytes)

lemma slash_not_ident [simp]: "\<not> is_alnum (CHR ''/'')"
  by (simp add: is_alnum_def is_digit_def is_upper_def is_lower_def byte_def)

lemma identifierPattern_no_slash: "identifierPattern v \<Longrightarrow> CHR ''/'' \<notin> set v"
  by (cases v) (auto simp: identifierPattern_def list_all_iff)

lemma digest_no_slash: "validDigest v \<Longrightarrow> CHR ''/'' \<notin> set v"
  by (fastforce simp: validDigest_alt digest_prefix_def list_all_iff lower_hex_char_def is_digit_def byte_def)

section \<open>Plans\<close>

definition operation_ok :: "hash \<Rightarrow> Plan \<Rightarrow> DirectState \<Rightarrow> nat \<Rightarrow> OperationSpec \<Rightarrow> bool" where
  "operation_ok sha plan initialState index operation \<longleftrightarrow>
     os_Sequence operation = of_nat (index + 1)
     \<and> os_Classification operation = fst (operationClass (os_Operation operation))
     \<and> os_RequiredBootMode operation = fst (RequiredBootModeForOperation (os_Operation operation))
     \<and> digestPattern (os_OperationDigest operation) \<and> os_AuthorizationID operation \<noteq> []
     \<and> os_MaximumDuration operation > 0
     \<and> DirectState_Validate (os_ExpectedPrestate operation) = None
     \<and> DirectState_Validate (os_ExpectedPoststate operation) = None
     \<and> os_OperationDigest operation = OperationSpec_Digest sha operation
     \<and> (os_ExpectedPrestate operation, os_ExpectedPoststate operation) = want_states plan initialState index"

lemma plan_operations_loop_None:
  "plan_operations_loop sha plan initialState previous index ops = None \<Longrightarrow>
     i < length ops \<Longrightarrow> operation_ok sha plan initialState (index + i) (ops ! i)"
proof (induction ops arbitrary: previous index i)
  case (Cons op ops)
  then have "operation_ok sha plan initialState index op"
    by (simp add: operation_ok_def not_le del: of_nat_Suc of_nat_add) metis
  moreover have "plan_operations_loop sha plan initialState (os_ExpectedPoststate op) (index + 1) ops = None"
    using Cons.prems by simp
  ultimately show ?case
    using Cons.IH [of "os_ExpectedPoststate op" "index + 1"] Cons.prems(2) by (cases i) auto
qed simp

definition initial_state_ok :: "DirectState \<Rightarrow> bool" where
  "initial_state_ok s \<longleftrightarrow>
     ds_SecurityState s = ''fresh'' \<and> ds_CustomerKeyHash s = unownedCustomerKeyHash
     \<and> ds_PowerState s = ''powered_off''
     \<and> (ds_EEPROMHashStatus s = EEPROMHashObserved \<or> ds_EEPROMHashStatus s = EEPROMHashUnavailable)"

lemma Plan_validate_None:
  assumes "Plan_validate sha plan config lane = None"
  shows "pl_SchemaVersion plan = ContractSchemaVersion" and "identifierPattern (pl_StationID plan)"
    and "identifierPattern (pl_LaneID plan)" and "pl_PowerControlMode plan = cf_PowerControlMode config"
    and "pl_PowerControlMode plan = PowerControlRelay \<or> pl_PowerControlMode plan = PowerControlManual"
    and "lane \<Longrightarrow> pl_StationID plan = cf_StationID config \<and> pl_LaneID plan = cf_LaneID config"
    and "identifierPattern (pl_TransactionID plan)" and "identifierPattern (pl_TargetFingerprint plan)"
    and "digestPattern (pl_PlanDigest plan)" and "Binding_Validate (pl_Release plan)"
    and "pl_FenceEpoch plan \<noteq> 0" and "pl_ApprovalID plan \<noteq> []" and "pl_IntentReceipt plan \<noteq> []"
    and "pl_IntentSequence plan \<noteq> 0" and "unat (pl_IntentSequence plan) \<le> length (pl_Operations plan)"
    and "\<exists>text. canonicalApprovalExpiry (pl_ApprovalExpiresAt plan) = Inr text"
    and "map os_Operation (pl_Operations plan) = developmentOperations"
    and "initial_state_ok (os_ExpectedPrestate (pl_Operations plan ! 0))"
    and "plan_operations_loop sha plan (os_ExpectedPrestate (pl_Operations plan ! 0)) zero_DirectState 0
           (pl_Operations plan) = None"
    and "Plan_Digest sha plan = Inr (pl_PlanDigest plan)"
  using assms
  by (auto simp: Plan_validate_def Let_def ValidateDevelopmentOperations_None initial_state_ok_def
      split: sum.splits)

lemma plan_length: "Plan_validate sha plan config lane = None \<Longrightarrow> length (pl_Operations plan) = 7"
  using Plan_validate_None(17) [of sha plan config lane]
  by (metis length_map length_developmentOperations)

lemma plan_operation:
  assumes "Plan_validate sha plan config lane = None" and "i < 7"
  shows "operation_ok sha plan (os_ExpectedPrestate (pl_Operations plan ! 0)) i (pl_Operations plan ! i)"
    and "os_Operation (pl_Operations plan ! i) = developmentOperations ! i"
proof -
  show "operation_ok sha plan (os_ExpectedPrestate (pl_Operations plan ! 0)) i (pl_Operations plan ! i)"
    using plan_operations_loop_None [OF Plan_validate_None(19) [OF assms(1)], of i] plan_length assms by simp
  show "os_Operation (pl_Operations plan ! i) = developmentOperations ! i"
    using Plan_validate_None(17) [OF assms(1)] plan_length [OF assms(1)] assms(2) by (metis nth_map)
qed

lemma operation_sequence:
  "operation_ok sha plan initial i operation \<Longrightarrow> i < 7 \<Longrightarrow>
     os_Sequence operation = of_nat (i + 1) \<and> unat (os_Sequence operation) = i + 1"
  by (simp add: operation_ok_def unat_of_nat take_bit_nat_eq_self del: of_nat_Suc of_nat_add)

lemma commit_operation_first:
  "i < 7 \<Longrightarrow> developmentOperations ! i = OperationProgramCustomerKeyAndEEPROM \<longleftrightarrow> i = 0"
  using nth_eq_iff_index_eq [OF distinct_developmentOperations, of i 0]
  by (simp add: developmentOperations_def)

section \<open>Matching requests\<close>

lemma unat_minus_one: "(w :: uint32) \<noteq> 0 \<Longrightarrow> unat (w - 1) = unat w - 1"
  by (simp add: unat_minus_one)

lemma matchPlanRequest_Inr:
  assumes "matchPlanRequest plan request = Inr operation"
  shows "xr_Sequence request = pl_IntentSequence plan" and "pl_IntentSequence plan \<noteq> 0"
    and "unat (pl_IntentSequence plan) \<le> length (pl_Operations plan)"
    and "operation = pl_Operations plan ! (unat (pl_IntentSequence plan) - 1)"
    and "xr_OperationDigest request = os_OperationDigest operation"
    and "xr_PlanDigest request = pl_PlanDigest plan" and "xr_FenceEpoch request = pl_FenceEpoch plan"
    and "xr_TransactionID request = pl_TransactionID plan"
    and "xr_TargetFingerprint request = pl_TargetFingerprint plan"
    and "xr_ApprovalID request = pl_ApprovalID plan"
  using assms by (auto simp: matchPlanRequest_def Let_def unat_minus_one split: if_splits)

lemma matched_operation:
  assumes "Plan_validate sha plan config lane = None" and "matchPlanRequest plan request = Inr operation"
  obtains i where "i < 7" and "operation = pl_Operations plan ! i" and "os_Sequence operation = of_nat (i + 1)"
    and "unat (os_Sequence operation) = i + 1" and "os_Sequence operation = pl_IntentSequence plan"
    and "operation_ok sha plan (os_ExpectedPrestate (pl_Operations plan ! 0)) i operation"
proof -
  let ?i = "unat (pl_IntentSequence plan) - 1"
  have nz: "unat (pl_IntentSequence plan) \<noteq> 0" and le: "unat (pl_IntentSequence plan) \<le> 7"
    using matchPlanRequest_Inr(2,3) [OF assms(2)] plan_length [OF assms(1)] by (auto simp: unat_eq_0)
  then have i: "?i < 7" by simp
  note ok = plan_operation(1) [OF assms(1) i]
  have s: "os_Sequence (pl_Operations plan ! ?i) = of_nat (?i + 1)" "unat (os_Sequence (pl_Operations plan ! ?i)) = ?i + 1"
    using operation_sequence [OF ok i] by auto
  have "os_Sequence (pl_Operations plan ! ?i) = pl_IntentSequence plan"
    using s(2) nz by (metis One_nat_def Suc_pred' add.right_neutral add_Suc_right not_gr_zero word_unat_eq_iff)
  then show ?thesis
    using that [OF i] matchPlanRequest_Inr(4) [OF assms(2)] s ok by simp
qed

lemma match_ReconcileRequest_Inr:
  "match_ReconcileRequest config plan request = Inr operation \<Longrightarrow>
     matchPlanRequest plan (rq_OriginalRequest request) = Inr operation
     \<and> rl_FenceEpoch (rq_Claim request) > pl_FenceEpoch plan
     \<and> rl_StationID (rq_Claim request) = cf_StationID config \<and> rl_LaneID (rq_Claim request) = cf_LaneID config"
  by (auto simp: match_ReconcileRequest_def Let_def split: if_splits sum.splits)

lemma samePlan_eq [simp]: "samePlan left right \<longleftrightarrow> left = right"
  by (auto simp: samePlan_def list.rel_eq intro: Plan.equality)

section \<open>Leases\<close>

lemma lease_exact:
  "LeaseCoversOperation now expiresAt maximumDuration safetyMargin \<longleftrightarrow>
     now \<noteq> 0 \<and> 0 < maximumDuration \<and> 0 \<le> safetyMargin \<and> maximumDuration + safetyMargin < 2 ^ 63
     \<and> now + maximumDuration + safetyMargin \<le> expiresAt"
  by (auto simp: LeaseCoversOperation_def time_Sub_def Let_def max_def min_def)

end
