(* ===== verification/Lane_Calls.thy ===== *)
theory Lane_Calls
  imports Lane_Writes Lane_Plan_Facts
begin

text \<open>
  What one call of the guard does to the journal and to the hardware: which attempt it adds, which one
  it changes, and that what it records is what the plan allows.
\<close>

definition executions :: "hw_event list \<Rightarrow> HardwareAction list" where
  "executions events = concat (map (\<lambda>event. case event of EvExecute a \<Rightarrow> [a] | EvObserve _ \<Rightarrow> []) events)"

lemma executions_simps [simp]:
  "executions [] = []" "executions (EvExecute a # events) = a # executions events"
  "executions (EvObserve a # events) = executions events"
  "executions (events @ events') = executions events @ executions events'"
  by (simp_all add: executions_def)

abbreviation attempts_in :: "lane_store \<Rightarrow> (string, Attempt) gomap" where
  "attempts_in s \<equiv> js_Attempts (lane_journal_of s)"

section \<open>Boot operations of the adapter\<close>

lemma run_boot_op_writes:
  "journal_writes (le_sha256 e) (lane_journal_of s) (lane_journal_of (run_boot_op e op s))
   \<and> attempts_in (run_boot_op e op s) = attempts_in s"
proof (cases op)
  case (BeginOp f q)
  obtain b s' where b: "Store_BeginBootTransition e f q s = (b, s')" by fastforce
  then show ?thesis
    using file_journal.beginBoot_law [OF b] file_journal.beginBoot_writes [OF b] transition_writes_keep_attempts(2)
    by (auto simp: BeginOp)
next
  case (PutOp f t)
  obtain r s' where r: "Store_PutBootTransition e f t s = (r, s')" by fastforce
  then show ?thesis
    using file_journal.putBoot_law [OF r] file_journal.putBoot_writes [OF r] transition_writes_keep_attempts(1)
    by (auto simp: PutOp)
qed

lemma run_boot_ops_writes:
  "journal_writes (le_sha256 e) (lane_journal_of s) (lane_journal_of (run_boot_ops e ops s))
   \<and> attempts_in (run_boot_ops e ops s) = attempts_in s"
  unfolding run_boot_ops_def
proof (induction ops arbitrary: s)
  case (Cons op ops)
  then show ?case
    using run_boot_op_writes [of e s op] journal_writes_trans by (fastforce simp: run_boot_ops_def)
qed (simp add: journal_writes.none)

lemmas boot_ops_attempts [simp] = conjunct2 [OF run_boot_ops_writes]

section \<open>What is recorded\<close>

lemma Store_Get_Inr: "Store_Get e f key s = Inr found \<Longrightarrow> found = map_get (attempts_in s) key"
  using Store_load_Inr by (auto simp: Store_Get_def)

lemma ValidateForAction_None:
  "ValidateForAction sha outcome action = None \<Longrightarrow>
     bo_Action outcome = action \<and> br_PowerControlMode (bo_Reference outcome) = ha_PowerControlMode action"
  by (auto simp: ValidateForAction_def Let_def)

lemma makeHardwareAction_Inr:
  assumes "makeHardwareAction plan operation phase claim = Inr action"
  shows "ha_PowerControlMode action = pl_PowerControlMode plan" and "ha_Phase action = phase"
    and "ha_TransactionID action = pl_TransactionID plan" and "ha_PlanDigest action = pl_PlanDigest plan"
    and "ha_FenceEpoch action = pl_FenceEpoch plan" and "ha_Sequence action = os_Sequence operation"
    and "ha_Operation action = os_Operation operation" and "ha_TargetFingerprint action = pl_TargetFingerprint plan"
    and "ha_OperationDigest action = os_OperationDigest operation"
    and "ha_AuthorizationID action = os_AuthorizationID operation"
    and "ha_ApprovalID action = pl_ApprovalID plan" and "ha_IntentReceipt action = pl_IntentReceipt plan"
    and "HardwareAction_Validate action = None"
  using assms by (auto simp: makeHardwareAction_def Let_def split: if_splits option.splits)

text \<open>An outcome that is absent or carries the plan's power-control mode.\<close>

definition mode_ok :: "Plan \<Rightarrow> BootTransitionOutcome \<Rightarrow> bool" where
  "mode_ok plan outcome \<longleftrightarrow> outcome = zero_BootTransitionOutcome
     \<or> ha_PowerControlMode (bo_Action outcome) = pl_PowerControlMode plan
        \<and> br_PowerControlMode (bo_Reference outcome) = pl_PowerControlMode plan"

lemma validated_mode_ok:
  "ValidateForAction sha outcome action = None \<Longrightarrow> ha_PowerControlMode action = pl_PowerControlMode plan \<Longrightarrow>
     mode_ok plan outcome"
  using ValidateForAction_None [of sha outcome action] by (simp add: mode_ok_def)

lemma validateBootTransitionOutcome_None:
  "validateBootTransitionOutcome e f config action outcome completed s = None \<Longrightarrow>
     ValidateForAction (le_sha256 e) outcome action = None
     \<and> (br_Status (bo_Reference outcome) = BootTransitionCompleted \<longleftrightarrow> completed)
     \<and> (\<exists>t. map_get (js_BootTransitions (lane_journal_of s)) (br_TransitionKey (bo_Reference outcome)) = Some t
            \<and> Outcome (le_sha256 e) t = Inr outcome)"
  using Store_load_Inr [of e f s]
  by (auto simp: validateBootTransitionOutcome_def Store_GetBootTransition_def split: if_splits sum.splits option.splits)

lemma observeBoundTarget_mode:
  assumes "observeBoundTarget e f config fingerprint action raw err s = (observation, errs)"
    and "ha_PowerControlMode action = pl_PowerControlMode plan"
  shows "mode_ok plan (ob_BootTransition observation)"
  using assms validateBootTransitionOutcome_None [of e f config action "ob_BootTransition raw" "err = []" s]
    validated_mode_ok
  by (auto simp: observeBoundTarget_def zero_Observation_def mode_ok_def split: option.splits if_splits)

lemma observeBoundTarget_good:
  assumes "observeBoundTarget e f config fingerprint action raw err s = (observation, [])"
  shows "observation = raw" and "err = []" and "ob_EligibleTargets raw = 1"
    and "ob_RPIBootSysfsPath raw = cf_RPIBootSysfsPath config" and "ob_TargetFingerprint raw = fingerprint"
    and "validateBootTransitionOutcome e f config action (ob_BootTransition raw) True s = None"
  using assms by (auto simp: observeBoundTarget_def split: option.splits if_splits)

text \<open>An attempt with the bindings of one operation of a plan.\<close>

definition of_plan :: "Plan \<Rightarrow> OperationSpec \<Rightarrow> Attempt \<Rightarrow> bool" where
  "of_plan plan operation a \<longleftrightarrow>
     at_Key a = AttemptJournalKey plan (os_Sequence operation)
     \<and> at_TransactionID a = pl_TransactionID plan \<and> at_PlanDigest a = pl_PlanDigest plan
     \<and> at_TargetFingerprint a = pl_TargetFingerprint plan \<and> at_FenceEpoch a = pl_FenceEpoch plan
     \<and> at_ApprovalID a = pl_ApprovalID plan \<and> at_Sequence a = os_Sequence operation
     \<and> at_Operation a = os_Operation operation \<and> at_OperationDigest a = os_OperationDigest operation
     \<and> mode_ok plan (at_PreObservationTransition a) \<and> mode_ok plan (at_ExecutionTransition a)
     \<and> mode_ok plan (at_PostObservationTransition a) \<and> mode_ok plan (at_ReconciliationTransition a)"

lemma of_plan_frame [simp]:
  "of_plan plan operation (a\<lparr>at_Status := st\<rparr>) = of_plan plan operation a"
  "of_plan plan operation (a\<lparr>at_UpdatedAt := now\<rparr>) = of_plan plan operation a"
  "of_plan plan operation (a\<lparr>at_Detail := d\<rparr>) = of_plan plan operation a"
  "of_plan plan operation (a\<lparr>at_ObservedState := os\<rparr>) = of_plan plan operation a"
  "of_plan plan operation (a\<lparr>at_Result := res\<rparr>) = of_plan plan operation a"
  by (simp_all add: of_plan_def)

text \<open>What the two conclusive results say.\<close>

definition verdict_ok :: "Plan \<Rightarrow> OperationSpec \<Rightarrow> Attempt \<Rightarrow> bool" where
  "verdict_ok plan operation a \<longleftrightarrow>
     (at_Status a = AttemptVerified \<longrightarrow>
        at_ObservedState a = os_ExpectedPoststate operation
        \<and> validateResultCommitAttestation plan operation (at_Result a) = None)
     \<and> (at_Status a = AttemptConfirmedNotApplied \<longrightarrow>
        at_ObservedState a = os_ExpectedPrestate operation
        \<and> re_CommitAttestation (at_Result a) = zero_CommitAttestation)"

lemma ValidateAttemptForPlan_None:
  assumes "Plan_validate sha plan config lane = None" and "i < 7" and "at_Sequence a = of_nat (i + 1)"
  shows "ValidateAttemptForPlan plan a = None \<longleftrightarrow>
     of_plan plan (pl_Operations plan ! i) a \<and> verdict_ok plan (pl_Operations plan ! i) a"
proof -
  have u: "unat (at_Sequence a) = i + 1"
    using assms(2,3) by (simp add: unat_of_nat take_bit_nat_eq_self del: of_nat_Suc of_nat_add)
  then have "at_Sequence a \<noteq> 0" by auto
  then have "unat (at_Sequence a - 1) = i" using u unat_minus_one by simp
  with u \<open>at_Sequence a \<noteq> 0\<close> assms(2) plan_length [OF assms(1)] show ?thesis
    unfolding ValidateAttemptForPlan_def of_plan_def verdict_ok_def mode_ok_def Let_def
    by (auto simp: CommitAttestation_IsZero_def attempt_status_defs)
qed

section \<open>After the intent\<close>

lemma record_outcome_effect:
  assumes "record_outcome e f a errs s = (ans, s')"
  shows "ans \<noteq> Died" and "journal_writes (le_sha256 (ge_lane e)) (lane_journal_of s) (lane_journal_of s')"
    and "attempts_in s' = attempts_in s
         \<or> validateAttempt (le_sha256 (ge_lane e)) a = None
            \<and> put_attempt (le_sha256 (ge_lane e)) a (lane_journal_of s) = Inr (lane_journal_of s')"
proof -
  obtain r where r: "Store_Put (ge_lane e) f a s = (r, s')" and "ans = Answered (Some a) (errs @ (case r of None \<Rightarrow> [] | Some x \<Rightarrow> [x]))"
    using assms by (auto simp: record_outcome_def split: prod.splits option.splits)
  then show "ans \<noteq> Died" by simp
  show "journal_writes (le_sha256 (ge_lane e)) (lane_journal_of s) (lane_journal_of s')"
    using file_journal.put_writes [OF r] .
  show "attempts_in s' = attempts_in s
         \<or> validateAttempt (le_sha256 (ge_lane e)) a = None
            \<and> put_attempt (le_sha256 (ge_lane e)) a (lane_journal_of s) = Inr (lane_journal_of s')"
    using file_journal.put_law [OF r] by auto
qed

lemma resolve_matches:
  assumes "resolveEEPROMProof expected observed attestation = (resolved, True, inconclusive)"
  shows "resolved = expected" and "ds_EEPROMHashStatus expected = EEPROMHashCommitAttested \<Longrightarrow> attestation \<noteq> zero_CommitAttestation"
    and "ds_EEPROMHashStatus expected \<noteq> EEPROMHashCommitAttested \<Longrightarrow> observed = expected"
  using assms by (auto simp: resolveEEPROMProof_def Let_def CommitAttestation_IsZero_def split: if_splits)

lemma finishObserved_facts:
  assumes "finishObserved now a operation observation attestation = (b, errs)" and "of_plan plan operation a"
  shows "of_plan plan operation b" and "at_Result b = at_Result a" and "at_Status b \<noteq> AttemptConfirmedNotApplied"
    and "at_Status b = AttemptVerified \<longleftrightarrow> errs = []"
    and "at_Status b = AttemptVerified \<Longrightarrow> at_ObservedState b = os_ExpectedPoststate operation
         \<and> (ds_EEPROMHashStatus (os_ExpectedPoststate operation) = EEPROMHashCommitAttested \<longrightarrow>
              attestation \<noteq> zero_CommitAttestation)"
  using assms resolve_matches [of "os_ExpectedPoststate operation" "ob_State observation" attestation]
  by (auto simp: finishObserved_def Let_def of_plan_def attempt_status_defs split: prod.splits if_splits)

lemma conclude_Record:
  assumes "execute_conclude e plan operation a action result err config s = Record b errs"
    and "of_plan plan operation a" and "ha_PowerControlMode action = pl_PowerControlMode plan"
  shows "of_plan plan operation b" and "at_Status b = AttemptUncertain" and "errs \<noteq> []"
  using assms validateBootTransitionOutcome_None [of "ge_lane e" "ge_fault e 5" config action "re_BootTransition result" "err = []" s]
    validated_mode_ok
  by (auto simp: execute_conclude_def Let_def of_plan_def split: if_splits option.splits sum.splits)

lemma conclude_Observe:
  assumes "execute_conclude e plan operation a action result err config s = Observe b postAction"
    and "of_plan plan operation a" and "ha_PowerControlMode action = pl_PowerControlMode plan"
  shows "of_plan plan operation b" and "at_Status b = at_Status a"
    and "validateResultCommitAttestation plan operation (at_Result b) = None"
    and "ha_PowerControlMode postAction = pl_PowerControlMode plan"
  using assms validateBootTransitionOutcome_None [of "ge_lane e" "ge_fault e 5" config action "re_BootTransition result" "err = []" s]
    validated_mode_ok makeHardwareAction_Inr(1) [of plan operation HardwarePhasePostObservation None]
  by (auto simp: execute_conclude_def Let_def of_plan_def split: if_splits option.splits sum.splits)

lemma execute_finish_facts:
  assumes "execute_finish e plan operation carried a postAction raw err config s = (b, errs)"
    and "of_plan plan operation a" and "ha_PowerControlMode postAction = pl_PowerControlMode plan"
    and "validateResultCommitAttestation plan operation (at_Result a) = None"
  shows "of_plan plan operation b \<and> verdict_ok plan operation b"
    and "at_Status b = AttemptVerified \<longleftrightarrow> errs = []"
proof -
  obtain observation oerr where o: "observeBoundTarget (ge_lane e) (ge_fault e 7) config (pl_TargetFingerprint plan)
      postAction raw err s = (observation, oerr)" by fastforce
  define c where "c = (if ob_BootTransition observation \<noteq> zero_BootTransitionOutcome
            then a\<lparr>at_PostObservationTransition := ob_BootTransition observation\<rparr> else a)"
  have a: "of_plan plan operation c" and r: "at_Result c = at_Result a"
    using observeBoundTarget_mode [OF o assms(3)] assms(2) by (auto simp: of_plan_def c_def)
  note fin_def = execute_finish_def [of e plan operation carried a postAction raw err config s, unfolded o prod.case,
      folded c_def, unfolded Let_def]
  have "(of_plan plan operation b \<and> verdict_ok plan operation b) \<and> (at_Status b = AttemptVerified \<longleftrightarrow> errs = [])"
  proof (cases "oerr @ ge_cause e 5 = []")
    case True
    obtain attestation where fin: "finishObserved (ge_clock e 3) c operation observation attestation = (b, errs)"
      using assms(1) True by (simp add: fin_def c_def [symmetric])
    show ?thesis
      using finishObserved_facts [OF fin a] r assms(4) by (simp add: verdict_ok_def)
  next
    case False
    then show ?thesis
      using assms(1) a by (auto simp: fin_def c_def [symmetric] verdict_ok_def attempt_status_defs split: if_splits)
  qed
  then show "of_plan plan operation b \<and> verdict_ok plan operation b"
    and "at_Status b = AttemptVerified \<longleftrightarrow> errs = []" by auto
qed

text \<open>The hardware is called once, and the attempt keeps its intent or gets one recorded result.\<close>

lemma execute_dispatch_effect:
  assumes "execute_dispatch e plan operation carried a action config s = (ans, s', events)"
    and "of_plan plan operation a" and "ha_PowerControlMode action = pl_PowerControlMode plan"
  shows "executions events = [action]"
    and "journal_writes (le_sha256 (ge_lane e)) (lane_journal_of s) (lane_journal_of s')"
    and "attempts_in s' = attempts_in s
         \<or> (\<exists>b st. of_plan plan operation b \<and> verdict_ok plan operation b
                   \<and> js_Attempts st = attempts_in s \<and> validateAttempt (le_sha256 (ge_lane e)) b = None
                   \<and> put_attempt (le_sha256 (ge_lane e)) b st = Inr (lane_journal_of s'))"
    and "ans = Died \<Longrightarrow> attempts_in s' = attempts_in s"
proof -
  let ?sha = "le_sha256 (ge_lane e)"
  let ?goal = "executions events = [action]
    \<and> journal_writes ?sha (lane_journal_of s) (lane_journal_of s')
    \<and> (attempts_in s' = attempts_in s
       \<or> (\<exists>b st. of_plan plan operation b \<and> verdict_ok plan operation b
              \<and> js_Attempts st = attempts_in s \<and> validateAttempt ?sha b = None
              \<and> put_attempt ?sha b st = Inr (lane_journal_of s')))
    \<and> (ans = Died \<longrightarrow> attempts_in s' = attempts_in s)"
  have rec: ?goal if r: "record_outcome e f b errs s2 = (ans, s')" and b: "of_plan plan operation b" "verdict_ok plan operation b"
    and ev: "executions events = [action]" and s2: "attempts_in s2 = attempts_in s"
      "journal_writes ?sha (lane_journal_of s) (lane_journal_of s2)" for f b errs s2
    using record_outcome_effect [OF r] ev s2 b journal_writes_trans by metis
  note ops = run_boot_ops_writes [of "ge_lane e"]
  have ?goal
  proof (cases "ge_exec e")
    case (Crashed bops)
    then show ?thesis using assms(1) ops by (auto simp: execute_dispatch_def)
  next
    case (Returned bops result err)
    let ?s1 = "run_boot_ops (ge_lane e) bops s"
    show ?thesis
    proof (cases "execute_conclude e plan operation a action result err config ?s1")
      case (GiveUp b errs)
      then show ?thesis using assms(1) ops Returned by (auto simp: execute_dispatch_def)
    next
      case (Record b errs)
      have "of_plan plan operation b" "verdict_ok plan operation b"
        using conclude_Record [OF Record assms(2,3)] by (auto simp: verdict_ok_def attempt_status_defs)
      then show ?thesis
        using assms(1) Returned Record ops [of s bops] rec [of "ge_fault e 6" b errs ?s1]
        by (auto simp: execute_dispatch_def split: prod.splits)
    next
      case (Observe b postAction)
      note ob = conclude_Observe [OF Observe assms(2,3)]
      show ?thesis
      proof (cases "ge_post e")
        case (Crashed bops2)
        then show ?thesis
          using assms(1) Returned Observe ops [of s bops] ops [of ?s1 bops2] journal_writes_trans
          by (fastforce simp: execute_dispatch_def)
      next
        case (Returned bops2 raw err2)
        let ?s2 = "run_boot_ops (ge_lane e) bops2 ?s1"
        obtain c errs where c: "execute_finish e plan operation carried b postAction raw err2 config ?s2 = (c, errs)"
          by fastforce
        have w: "journal_writes ?sha (lane_journal_of s) (lane_journal_of ?s2)"
          using ops [of s bops] ops [of ?s1 bops2] journal_writes_trans by blast
        show ?thesis
          using assms(1) \<open>ge_exec e = Returned bops result err\<close> Observe Returned c w
            execute_finish_facts(1) [OF c ob(1,4,3)] rec [of "ge_fault e 6" c errs ?s2]
          by (auto simp: execute_dispatch_def split: prod.splits)
      qed
    qed
  qed
  then show "executions events = [action]"
    and "journal_writes ?sha (lane_journal_of s) (lane_journal_of s')"
    and "attempts_in s' = attempts_in s
         \<or> (\<exists>b st. of_plan plan operation b \<and> verdict_ok plan operation b
                   \<and> js_Attempts st = attempts_in s \<and> validateAttempt ?sha b = None
                   \<and> put_attempt ?sha b st = Inr (lane_journal_of s'))"
    and "ans = Died \<Longrightarrow> attempts_in s' = attempts_in s"
    by blast+
qed

end
