(* ===== verification/Lane_Effects.thy ===== *)
theory Lane_Effects
  imports Lane_Calls
begin

text \<open>
  The effect of a whole call: execution adds one new attempt, whose predecessor is verified, before it
  calls the hardware; reconciliation only ever changes an attempt that has no conclusion yet, and never
  calls the hardware for execution.
\<close>

section \<open>Execution\<close>

lemma execute_admit_Inr:
  assumes "execute_admit e q g s = Inr (plan, operation, carried, pre)"
  shows "gd_plan g = Some plan" and "\<not> gd_reconciliationOnly g" and "\<not> gd_lockedOut g"
    and "matchPlanRequest plan q = Inr operation"
    and "map_get (attempts_in s) (AttemptJournalKey plan (os_Sequence operation)) = None"
    and "os_Sequence operation > 1 \<Longrightarrow>
      \<exists>p. map_get (attempts_in s) (AttemptJournalKey plan (os_Sequence operation - 1)) = Some p
          \<and> at_Status p = AttemptVerified \<and> at_ObservedState p = os_ExpectedPrestate operation"
    and "\<not> os_Sequence operation > 1 \<Longrightarrow> carried = zero_CommitAttestation"
    and "makeHardwareAction plan operation HardwarePhasePreObservation None = Inr pre"
proof -
  obtain m: "matchRequest g q = Inr (plan, operation)"
    and get: "Store_Get (ge_lane e) (ge_fault e 0) (AttemptJournalKey plan (os_Sequence operation)) s = Inr None"
    and prec: "preceding_ok e plan operation s = Inr carried"
    and act: "makeHardwareAction plan operation HardwarePhasePreObservation None = Inr pre"
    using assms by (auto simp: execute_admit_def split: sum.splits option.splits)
  show "gd_plan g = Some plan" and "\<not> gd_reconciliationOnly g" and "\<not> gd_lockedOut g"
    and "matchPlanRequest plan q = Inr operation"
    using m by (auto simp: matchRequest_def split: option.splits if_splits)
  show "map_get (attempts_in s) (AttemptJournalKey plan (os_Sequence operation)) = None"
    using Store_Get_Inr [OF get] by simp
  show "\<exists>p. map_get (attempts_in s) (AttemptJournalKey plan (os_Sequence operation - 1)) = Some p
          \<and> at_Status p = AttemptVerified \<and> at_ObservedState p = os_ExpectedPrestate operation"
    if gt: "os_Sequence operation > 1"
  proof -
    obtain found where f: "Store_Get (ge_lane e) (ge_fault e 1) (AttemptJournalKey plan (os_Sequence operation - 1)) s = Inr found"
      and k: "(case found of None \<Rightarrow> Inl ErrOutOfOrder
        | Some attempt \<Rightarrow>
            if at_Status attempt \<noteq> AttemptVerified \<or> at_ObservedState attempt \<noteq> os_ExpectedPrestate operation
            then Inl ErrOutOfOrder
            else if ds_EEPROMHashStatus (os_ExpectedPrestate operation) = EEPROMHashCommitAttested
            then loadCommitAttestation (ge_lane e) (ge_fault e 2) plan s
            else Inr zero_CommitAttestation) = Inr carried"
      using prec gt unfolding preceding_ok_def by (simp only: if_True bindE_Inr) blast
    show ?thesis
      using k Store_Get_Inr [OF f] by (auto split: option.splits if_splits)
  qed
  show "carried = zero_CommitAttestation" if "\<not> os_Sequence operation > 1"
    using prec that by (simp add: preceding_ok_def)
  show "makeHardwareAction plan operation HardwarePhasePreObservation None = Inr pre" by (fact act)
qed

lemma execute_prepare_Inr:
  assumes "execute_prepare e q plan operation carried pre raw err config s = Inr (a, action)"
    and "ha_PowerControlMode pre = pl_PowerControlMode plan"
  shows "\<exists>observation. a = new_attempt plan operation (ge_clock e 2) observation
           \<and> ob_State observation = os_ExpectedPrestate operation \<and> mode_ok plan (ob_BootTransition observation)"
    and "makeHardwareAction plan operation HardwarePhaseExecute None = Inr action"
    and "authority_ok (ge_clock e 2) plan operation q config = None" and "ge_recheck e = []"
    and "ob_EligibleTargets raw = 1" and "ob_TargetFingerprint raw = pl_TargetFingerprint plan"
    and "ob_RPIBootSysfsPath raw = cf_RPIBootSysfsPath config" and "err = []"
proof -
  obtain observation errs where o: "observeBoundTarget (ge_lane e) (ge_fault e 3) config (pl_TargetFingerprint plan)
      pre raw err s = (observation, errs)" by fastforce
  then have o': "observeBoundTarget (ge_lane e) (ge_fault e 3) config (pl_TargetFingerprint plan)
      pre raw err s = (observation, [])"
    using assms(1) by (auto simp: execute_prepare_def split: if_splits)
  obtain resolved inconclusive where r: "resolveEEPROMProof (os_ExpectedPrestate operation) (ob_State observation) carried
      = (resolved, True, inconclusive)" and a: "a = new_attempt plan operation (ge_clock e 2) (observation\<lparr>ob_State := resolved\<rparr>)"
    and act: "makeHardwareAction plan operation HardwarePhaseExecute None = Inr action"
    and auth: "authority_ok (ge_clock e 2) plan operation q config = None" and "ge_recheck e = []"
    using assms(1) o' by (auto simp: execute_prepare_def split: if_splits option.splits prod.splits sum.splits)
  have "mode_ok plan (ob_BootTransition (observation\<lparr>ob_State := resolved\<rparr>))"
    using observeBoundTarget_mode [OF o assms(2)] by simp
  then show "\<exists>observation. a = new_attempt plan operation (ge_clock e 2) observation
           \<and> ob_State observation = os_ExpectedPrestate operation \<and> mode_ok plan (ob_BootTransition observation)"
    using a resolve_matches(1) [OF r] by fastforce
  show "makeHardwareAction plan operation HardwarePhaseExecute None = Inr action"
    and "authority_ok (ge_clock e 2) plan operation q config = None" and "ge_recheck e = []"
    by fact+
  show "ob_EligibleTargets raw = 1" and "ob_TargetFingerprint raw = pl_TargetFingerprint plan"
    and "ob_RPIBootSysfsPath raw = cf_RPIBootSysfsPath config" and "err = []"
    using observeBoundTarget_good [OF o'] by auto
qed

lemma new_attempt_of_plan:
  "mode_ok plan (ob_BootTransition observation) \<Longrightarrow>
     of_plan plan operation (new_attempt plan operation now observation)
     \<and> verdict_ok plan operation (new_attempt plan operation now observation)"
  by (simp add: of_plan_def verdict_ok_def new_attempt_def mode_ok_def attempt_status_defs)

text \<open>
  A call that does not stay quiet: it wrote the intent \<open>a\<close> of the plan's operation over the journal
  \<open>st\<close>, giving \<open>st1\<close>. If the write reported an error there is no hardware call; otherwise there is
  exactly one, and the file holds the intent or one recorded result \<open>b\<close> of it.
\<close>

lemma Execute_effect:
  assumes "Execute e q g s = (ans, s', events)"
  obtains (quiet) "executions events = []" and "attempts_in s' = attempts_in s"
  | (intent) plan operation carried pre a action st st1 where
      "execute_admit e q g s = Inr (plan, operation, carried, pre)"
      and "of_plan plan operation a" and "verdict_ok plan operation a" and "at_Status a = AttemptStarted"
      and "at_ObservedState a = os_ExpectedPrestate operation"
      and "at_IntentReceipt a = pl_IntentReceipt plan" and "at_IntentSequence a = pl_IntentSequence plan"
      and "makeHardwareAction plan operation HardwarePhaseExecute None = Inr action"
      and "authority_ok (ge_clock e 2) plan operation q (gd_config g) = None" and "ge_recheck e = []"
      and "js_Attempts st = attempts_in s" and "validateAttempt (le_sha256 (ge_lane e)) a = None"
      and "put_attempt (le_sha256 (ge_lane e)) a st = Inr st1"
      and "executions events = [] \<and> lane_journal_of s' = st1 \<and> (\<exists>err. ans = Answered None [err])
           \<or> executions events = [action]
             \<and> (js_Attempts (lane_journal_of s') = js_Attempts st1
                \<or> ans \<noteq> Died \<and> (\<exists>b st2. of_plan plan operation b \<and> verdict_ok plan operation b
                      \<and> js_Attempts st2 = js_Attempts st1 \<and> validateAttempt (le_sha256 (ge_lane e)) b = None
                      \<and> put_attempt (le_sha256 (ge_lane e)) b st2 = Inr (lane_journal_of s')))"
proof (cases "execute_admit e q g s")
  case (Inl x)
  then show ?thesis using assms quiet by (cases x) (auto simp: Execute_def)
next
  case (Inr x)
  obtain plan operation carried pre where x: "x = (plan, operation, carried, pre)" by (cases x)
  note ad = Inr [unfolded x]
  show ?thesis
  proof (cases "ge_pre e")
    case (Crashed ops)
    then show ?thesis using assms quiet ad by (auto simp: Execute_def)
  next
    case (Returned ops raw err)
    let ?s1 = "run_boot_ops (ge_lane e) ops s"
    show ?thesis
    proof (cases "execute_prepare e q plan operation carried pre raw err (gd_config g) ?s1")
      case (Inl errs)
      then show ?thesis using assms quiet ad Returned by (auto simp: Execute_def)
    next
      case (Inr y)
      obtain a action where y: "y = (a, action)" by (cases y)
      note prep = execute_prepare_Inr [OF Inr [unfolded y]
          makeHardwareAction_Inr(1) [OF execute_admit_Inr(8) [OF ad]]]
      obtain observation where a: "a = new_attempt plan operation (ge_clock e 2) observation"
        "ob_State observation = os_ExpectedPrestate operation" "mode_ok plan (ob_BootTransition observation)"
        using prep(1) by blast
      note op = new_attempt_of_plan [OF a(3), of operation "ge_clock e 2", folded a(1)]
      have fields: "at_Status a = AttemptStarted" "at_ObservedState a = os_ExpectedPrestate operation"
        "at_IntentReceipt a = pl_IntentReceipt plan" "at_IntentSequence a = pl_IntentSequence plan"
        using a by (simp_all add: new_attempt_def)
      note it = intent [OF ad conjunct1 [OF op] conjunct2 [OF op] fields prep(2-4) boot_ops_attempts]
      obtain r s2 where put: "Store_Put (ge_lane e) (ge_fault e 4) a ?s1 = (r, s2)" by fastforce
      show ?thesis
      proof (cases r)
        case (Some err')
        then have run: "s' = s2" "executions events = []" "ans = Answered None [err']"
          using assms ad Returned Inr y put by (auto simp: Execute_def)
        from file_journal.put_law [OF put] show ?thesis
        proof
          assume "r \<noteq> None \<and> lane_journal_of s2 = lane_journal_of ?s1"
          then show ?thesis using quiet run by simp
        next
          assume w: "validateAttempt (le_sha256 (ge_lane e)) a = None
            \<and> put_attempt (le_sha256 (ge_lane e)) a (lane_journal_of ?s1) = Inr (lane_journal_of s2)"
          show ?thesis
            by (rule it [OF conjunct1 [OF w] conjunct2 [OF w]]) (use run in blast)
        qed
      next
        case None
        note w = file_journal.put_done [OF put [unfolded None]]
        obtain events' where d: "execute_dispatch e plan operation carried a action (gd_config g) s2 = (ans, s', events')"
          and ev: "events = EvObserve pre # events'"
          using assms ad Returned Inr y put None by (auto simp: Execute_def split: prod.splits)
        note eff = execute_dispatch_effect [OF d conjunct1 [OF op] makeHardwareAction_Inr(1) [OF prep(2)]]
        show ?thesis
        proof (rule it [OF conjunct1 [OF w] conjunct2 [OF w]], rule disjI2, rule conjI)
          show "executions events = [action]" using ev eff(1) by simp
          show "attempts_in s' = attempts_in s2
             \<or> ans \<noteq> Died \<and> (\<exists>b st2. of_plan plan operation b \<and> verdict_ok plan operation b
                  \<and> js_Attempts st2 = attempts_in s2 \<and> validateAttempt (le_sha256 (ge_lane e)) b = None
                  \<and> put_attempt (le_sha256 (ge_lane e)) b st2 = Inr (lane_journal_of s'))"
            using eff(3,4) by blast
        qed
      qed
    qed
  qed
qed

section \<open>Reconciliation\<close>

definition open_attempt :: "Attempt \<Rightarrow> bool" where
  "open_attempt a \<longleftrightarrow> at_Status a = AttemptStarted \<or> at_Status a = AttemptUncertain"

lemma reconcile_admit_Inr:
  assumes "reconcile_admit e q g s = Inr (plan, operation, a, action)"
  shows "gd_plan g = Some plan" and "\<not> gd_lockedOut g"
    and "match_ReconcileRequest (gd_config g) plan q = Inr operation"
    and "map_get (attempts_in s) (AttemptJournalKey plan (os_Sequence operation)) = Some a"
    and "attemptMatchesIntent a plan operation" and "open_attempt a"
    and "makeHardwareAction plan operation HardwarePhaseReconciliation (Some (rq_Claim q)) = Inr action"
    and "reconcile_lease_ok (ge_clock e 3) q (gd_config g)" and "ge_recheck e = []"
proof -
  obtain m: "matchReconcileRequest g q = Inr (plan, operation)"
    and get: "Store_Get (ge_lane e) (ge_fault e 0) (AttemptJournalKey plan (os_Sequence operation)) s = Inr (Some a)"
    and i: "attemptMatchesIntent a plan operation" and op: "open_attempt a"
    and act: "makeHardwareAction plan operation HardwarePhaseReconciliation (Some (rq_Claim q)) = Inr action"
    and lease: "reconcile_lease_ok (ge_clock e 3) q (gd_config g)" and re: "ge_recheck e = []"
    using assms by (auto simp: reconcile_admit_def open_attempt_def split: sum.splits option.splits if_splits)
  show "gd_plan g = Some plan" and "\<not> gd_lockedOut g"
    and "match_ReconcileRequest (gd_config g) plan q = Inr operation"
    using m by (auto simp: matchReconcileRequest_def split: option.splits if_splits)
  show "map_get (attempts_in s) (AttemptJournalKey plan (os_Sequence operation)) = Some a"
    using Store_Get_Inr [OF get] by simp
  show "attemptMatchesIntent a plan operation" and "open_attempt a"
    and "makeHardwareAction plan operation HardwarePhaseReconciliation (Some (rq_Claim q)) = Inr action"
    and "reconcile_lease_ok (ge_clock e 3) q (gd_config g)" and "ge_recheck e = []"
    by fact+
qed

text \<open>A verified result of an operation: the commit's attestation is the release's, no other carries one.\<close>

lemma attestation_of_attempt:
  "validateAttempt sha b = None \<Longrightarrow> of_plan plan operation b \<Longrightarrow>
     os_Operation operation \<noteq> OperationProgramCustomerKeyAndEEPROM \<Longrightarrow>
     validateResultCommitAttestation plan operation (at_Result b) = None"
  by (auto simp: validateAttempt_def attempt_attestation_ok_def validateResultCommitAttestation_def Let_def of_plan_def)

lemma finish_verdict:
  assumes "finishObserved now a operation observation attestation = (b, errs)" and "of_plan plan operation a"
    and "validateAttempt sha b = None"
    and "os_Operation operation = OperationProgramCustomerKeyAndEEPROM \<Longrightarrow>
           ds_EEPROMHashStatus (os_ExpectedPoststate operation) = EEPROMHashCommitAttested"
    and "os_Operation operation = OperationProgramCustomerKeyAndEEPROM \<Longrightarrow> attestation \<noteq> zero_CommitAttestation \<Longrightarrow>
           validateResultCommitAttestation plan operation (at_Result a) = None"
  shows "of_plan plan operation b \<and> verdict_ok plan operation b"
  using finishObserved_facts [OF assms(1,2)] assms(3-5) attestation_of_attempt [of sha b plan operation]
  unfolding verdict_ok_def by metis

lemma chosen:
  assumes "z = (if c then x else y)" and "c \<Longrightarrow> z = x \<Longrightarrow> P" and "\<not> c \<Longrightarrow> z = y \<Longrightarrow> P"
  shows P
  using assms by (cases c) auto

lemma reconcile_judge_facts:
  assumes "reconcile_judge e plan operation a observation carried = (b, errs)" and "of_plan plan operation a"
    and "validateAttempt sha b = None"
    and "os_Operation operation = OperationProgramCustomerKeyAndEEPROM \<Longrightarrow>
           ds_EEPROMHashStatus (os_ExpectedPoststate operation) = EEPROMHashCommitAttested
           \<and> carried = zero_CommitAttestation"
  shows "of_plan plan operation b \<and> verdict_ok plan operation b"
proof -
  define attestation where "attestation =
    (if os_Operation operation = OperationProgramCustomerKeyAndEEPROM
        \<and> validateResultCommitAttestation plan operation (at_Result a) = None
     then re_CommitAttestation (at_Result a) else carried)"
  have fin: "of_plan plan operation b \<and> verdict_ok plan operation b"
    if f: "finishObserved (ge_clock e 4) a operation observation attestation = (b, errs)"
  proof (rule finish_verdict [OF f assms(2,3)])
    assume "os_Operation operation = OperationProgramCustomerKeyAndEEPROM"
    with assms(4) show "ds_EEPROMHashStatus (os_ExpectedPoststate operation) = EEPROMHashCommitAttested"
      and "attestation \<noteq> zero_CommitAttestation \<Longrightarrow> validateResultCommitAttestation plan operation (at_Result a) = None"
      by (auto simp: attestation_def split: if_splits)
  qed
  obtain x1 x2 x3 y1 y2 y3 where
    x: "resolveEEPROMProof (os_ExpectedPoststate operation) (ob_State observation) attestation = (x1, x2, x3)"
    and y: "resolveEEPROMProof (os_ExpectedPrestate operation) (ob_State observation) carried = (y1, y2, y3)"
    by (metis prod_cases3)
  have pre: "y2 \<Longrightarrow> y1 = os_ExpectedPrestate operation"
    using resolve_matches(1) [of "os_ExpectedPrestate operation" "ob_State observation" carried y1 y3] y by simp
  have eq: "(b, errs) =
    (if os_ExpectedPrestate operation = os_ExpectedPoststate operation \<and> (y2 \<or> x2)
     then (a\<lparr>at_Status := AttemptUncertain, at_ObservedState := y1, at_UpdatedAt := ge_clock e 4,
             at_Detail := ''direct state cannot distinguish whether the interrupted operation executed''\<rparr>,
           [ErrReconciliationRequired])
     else if x2 then finishObserved (ge_clock e 4) a operation observation attestation
     else if y2 \<and> ds_EEPROMHashStatus (os_ExpectedPrestate operation) = EEPROMHashUnavailable
     then (a\<lparr>at_Status := AttemptUncertain, at_ObservedState := y1, at_UpdatedAt := ge_clock e 4,
             at_Detail := ''unavailable initial EEPROM hash cannot prove that the interrupted operation did not change EEPROM''\<rparr>,
           [ErrReconciliationRequired])
     else if y2
     then if \<not> CommitAttestation_IsZero (re_CommitAttestation (at_Result a))
          then (a\<lparr>at_Status := AttemptUncertain, at_ObservedState := y1, at_UpdatedAt := ge_clock e 4,
                  at_Detail := ''direct original prestate conflicts with the durable fresh-commit attestation''\<rparr>,
                [ErrReconciliationRequired])
          else (a\<lparr>at_Status := AttemptConfirmedNotApplied, at_ObservedState := y1, at_UpdatedAt := ge_clock e 4,
                  at_Detail := ''direct original prestate confirms that the interrupted operation did not apply''\<rparr>, [])
     else if y3 \<or> x3
     then (a\<lparr>at_Status := AttemptUncertain, at_ObservedState := ob_State observation, at_UpdatedAt := ge_clock e 4,
             at_Detail := ''unavailable EEPROM readback has no exact durable commit attestation''\<rparr>,
           [ErrReconciliationRequired])
     else finishObserved (ge_clock e 4) a operation observation attestation)"
    using assms(1) [symmetric] unfolding reconcile_judge_def attestation_def [symmetric] Let_def x y prod.case .
  have other: "of_plan plan operation b \<and> verdict_ok plan operation b"
    if "(b, errs) = (a\<lparr>at_Status := AttemptUncertain, at_ObservedState := st, at_UpdatedAt := now, at_Detail := d\<rparr>, l)"
    for st now d l
    using that assms(2) by (simp add: verdict_ok_def attempt_status_defs)
  have confirmed: "of_plan plan operation b \<and> verdict_ok plan operation b"
    if "y2" "\<not> \<not> CommitAttestation_IsZero (re_CommitAttestation (at_Result a))"
      "(b, errs) = (a\<lparr>at_Status := AttemptConfirmedNotApplied, at_ObservedState := y1, at_UpdatedAt := now, at_Detail := d\<rparr>, l)"
    for now d l
    using that assms(2) pre by (simp add: verdict_ok_def attempt_status_defs CommitAttestation_IsZero_def)
  from eq show ?thesis
    by (elim chosen) ((rule other, assumption) | (rule confirmed, assumption+) | (rule fin, erule sym))+
qed

lemma reconcile_observed_Inr:
  assumes "reconcile_observed e plan operation a action raw err config s = Inr (b, errs)"
    and "of_plan plan operation a" and "open_attempt a" and "validateAttempt sha b = None"
    and "ha_PowerControlMode action = pl_PowerControlMode plan"
    and "os_Operation operation = OperationProgramCustomerKeyAndEEPROM \<Longrightarrow>
           ds_EEPROMHashStatus (os_ExpectedPoststate operation) = EEPROMHashCommitAttested
           \<and> \<not> os_Sequence operation > 1"
  shows "of_plan plan operation b \<and> verdict_ok plan operation b"
proof -
  obtain observation oerr where o: "observeBoundTarget (ge_lane e) (ge_fault e 1) config (pl_TargetFingerprint plan)
      action raw err s = (observation, oerr)" by fastforce
  define c where "c = (if ob_BootTransition observation \<noteq> zero_BootTransitionOutcome
            then a\<lparr>at_ReconciliationTransition := ob_BootTransition observation\<rparr> else a)"
  have c: "of_plan plan operation c" "open_attempt c"
    using observeBoundTarget_mode [OF o assms(5)] assms(2,3) by (auto simp: of_plan_def open_attempt_def c_def)
  note def = reconcile_observed_def [of e plan operation a action raw err config s, unfolded o prod.case,
      folded c_def, unfolded Let_def, folded c_def]
  show ?thesis
  proof (cases "oerr @ ge_cause e 2 = []")
    case True
    then obtain carried where "reconcile_judge e plan operation c observation carried = (b, errs)"
      and "\<not> os_Sequence operation > 1 \<longrightarrow> carried = zero_CommitAttestation"
      using assms(1) by (auto simp: def split: sum.splits if_splits)
    then show ?thesis using reconcile_judge_facts c(1) assms(4,6) by blast
  next
    case False
    then show ?thesis
      using assms(1) c by (auto simp: def verdict_ok_def open_attempt_def attempt_status_defs split: if_splits)
  qed
qed

lemma Reconcile_effect:
  assumes "Reconcile e q g s = (ans, s', events)"
  obtains (quiet) "executions events = []" and "attempts_in s' = attempts_in s"
  | (judged) plan operation a action b st where
      "reconcile_admit e q g s = Inr (plan, operation, a, action)" and "executions events = []" and "ans \<noteq> Died"
      and "js_Attempts st = attempts_in s" and "validateAttempt (le_sha256 (ge_lane e)) b = None"
      and "put_attempt (le_sha256 (ge_lane e)) b st = Inr (lane_journal_of s')"
      and "of_plan plan operation a \<Longrightarrow>
           (os_Operation operation = OperationProgramCustomerKeyAndEEPROM \<Longrightarrow>
              ds_EEPROMHashStatus (os_ExpectedPoststate operation) = EEPROMHashCommitAttested
              \<and> \<not> os_Sequence operation > 1) \<Longrightarrow>
           of_plan plan operation b \<and> verdict_ok plan operation b"
proof (cases "reconcile_admit e q g s")
  case (Inl x)
  then show ?thesis using assms quiet by (cases x) (auto simp: Reconcile_def)
next
  case (Inr x)
  obtain plan operation a action where x: "x = (plan, operation, a, action)" by (cases x)
  note ad = Inr [unfolded x]
  show ?thesis
  proof (cases "ge_pre e")
    case (Crashed ops)
    then show ?thesis using assms quiet ad by (auto simp: Reconcile_def)
  next
    case (Returned ops raw err)
    let ?s1 = "run_boot_ops (ge_lane e) ops s"
    show ?thesis
    proof (cases "reconcile_observed e plan operation a action raw err (gd_config g) ?s1")
      case (Inl y)
      then show ?thesis using assms quiet ad Returned by (cases y) (auto simp: Reconcile_def)
    next
      case (Inr y)
      obtain b errs where y: "y = (b, errs)" by (cases y)
      have run: "record_outcome e (ge_fault e 3) b errs ?s1 = (ans, s')" "executions events = []"
        using assms ad Returned Inr y by (auto simp: Reconcile_def split: prod.splits)
      note rec = record_outcome_effect [OF run(1)]
      note ok = reconcile_observed_Inr [OF Inr [unfolded y] _ reconcile_admit_Inr(6) [OF ad] _
          makeHardwareAction_Inr(1) [OF reconcile_admit_Inr(7) [OF ad]]]
      from rec(3) show ?thesis
      proof
        assume "attempts_in s' = attempts_in ?s1"
        then show ?thesis using quiet run(2) by simp
      next
        assume w: "validateAttempt (le_sha256 (ge_lane e)) b = None
          \<and> put_attempt (le_sha256 (ge_lane e)) b (lane_journal_of ?s1) = Inr (lane_journal_of s')"
        show ?thesis
          by (rule judged [OF ad run(2) rec(1) boot_ops_attempts conjunct1 [OF w] conjunct2 [OF w]])
            (use ok w in blast)
      qed
    qed
  qed
qed

end
