(* ===== verification/Lane_Records.thy ===== *)
theory Lane_Records
  imports Lane_Effects
begin

text \<open>
  The journal as a whole: what every attempt in it satisfies, how the attempts of a journal grow, and
  which plans a guard may hold over a journal. One lemma (\<open>record_ok\<close>) says that a checked write of an
  attempt keeps all of it; restart establishes it for the plan that is loaded.
\<close>

section \<open>Keys\<close>

lemma hex_digit_inj: "m < 10 \<Longrightarrow> n < 10 \<Longrightarrow> hex_digit m = hex_digit n \<longleftrightarrow> m = n"
  by (auto simp: hex_digit_def split: if_splits)

lemma show_nat_inj: "show_nat m = show_nat n \<longleftrightarrow> m = n"
proof (induction m arbitrary: n rule: show_nat.induct)
  case (1 m)
  have nonempty: "show_nat k \<noteq> []" for k by (subst show_nat.simps) simp
  show ?case
  proof (cases "m < 10 \<or> n < 10")
    case True
    then show ?thesis
      using nonempty nonempty [symmetric] by (subst (1 2) show_nat.simps) (auto simp: hex_digit_inj)
  next
    case False
    then have "show_nat m = show_nat n \<longleftrightarrow> m div 10 = n div 10 \<and> m mod 10 = n mod 10"
      using 1 by (subst (1 2) show_nat.simps) (simp add: hex_digit_inj)
    also have "\<dots> \<longleftrightarrow> m = n" by (metis div_mult_mod_eq)
    finally show ?thesis .
  qed
qed

lemma AttemptJournalKey_inj [simp]: "AttemptJournalKey plan m = AttemptJournalKey plan n \<longleftrightarrow> m = n"
  by (simp add: AttemptJournalKey_def show_nat_inj word_unat_eq_iff)

text \<open>The key of the attempt with the bindings of \<open>a\<close> at another place of the same plan.\<close>

abbreviation key_at :: "Attempt \<Rightarrow> uint32 \<Rightarrow> string" where
  "key_at a sequence \<equiv> attempt_key (a\<lparr>at_Sequence := sequence\<rparr>)"

lemma of_plan_key: "of_plan plan operation a \<Longrightarrow> key_at a sequence = AttemptJournalKey plan sequence"
  by (simp add: of_plan_def attempt_key_def AttemptJournalKey_def)

section \<open>Attempts of a journal\<close>

definition proved_attempt :: "hash \<Rightarrow> Attempt \<Rightarrow> bool" where
  "proved_attempt sha a \<longleftrightarrow>
     (\<exists>plan config lane i. Plan_validate sha plan config lane = None \<and> i < 7
        \<and> of_plan plan (pl_Operations plan ! i) a \<and> verdict_ok plan (pl_Operations plan ! i) a)"

text \<open>Two attempts of one plan, under one approval, on one target.\<close>

definition same_course :: "Attempt \<Rightarrow> Attempt \<Rightarrow> bool" where
  "same_course p a \<longleftrightarrow>
     at_TransactionID p = at_TransactionID a \<and> at_PlanDigest p = at_PlanDigest a
     \<and> at_FenceEpoch p = at_FenceEpoch a \<and> at_TargetFingerprint p = at_TargetFingerprint a
     \<and> at_ApprovalID p = at_ApprovalID a"

definition verified_at :: "(string, Attempt) gomap \<Rightarrow> Attempt \<Rightarrow> uint32 \<Rightarrow> bool" where
  "verified_at m a sequence \<longleftrightarrow>
     (\<exists>p. map_get m (key_at a sequence) = Some p \<and> at_Status p = AttemptVerified
          \<and> at_Sequence p = sequence \<and> same_course p a)"

definition after_verified :: "(string, Attempt) gomap \<Rightarrow> Attempt \<Rightarrow> bool" where
  "after_verified m a \<longleftrightarrow> (at_Sequence a > 1 \<longrightarrow> verified_at m a (at_Sequence a - 1))"

definition attempts_ok :: "hash \<Rightarrow> (string, Attempt) gomap \<Rightarrow> bool" where
  "attempts_ok sha m \<longleftrightarrow>
     (\<forall>k a. map_get m k = Some a \<longrightarrow>
        at_Key a = k \<and> validateAttempt sha a = None \<and> proved_attempt sha a \<and> after_verified m a)"

definition attempts_grow :: "(string, Attempt) gomap \<Rightarrow> (string, Attempt) gomap \<Rightarrow> bool" where
  "attempts_grow m m' \<longleftrightarrow> (\<forall>k a. map_get m k = Some a \<longrightarrow> (\<exists>b. map_get m' k = Some b \<and> attempt_grows a b))"

lemma attempts_grow_refl [simp]: "attempts_grow m m"
  by (simp add: attempts_grow_def)

lemma valid_status:
  "validateAttempt sha a = None \<Longrightarrow>
     at_Status a \<in> {AttemptStarted, AttemptUncertain, AttemptVerified, AttemptConfirmedNotApplied, AttemptQuarantined}"
  by (simp add: validateAttempt_def)

lemma attempts_grow_trans:
  assumes "attempts_grow m m'" and "attempts_grow m' m''" and "attempts_ok sha m" and "attempts_ok sha m'"
  shows "attempts_grow m m''"
  unfolding attempts_grow_def
proof (intro allI impI)
  fix k a assume a: "map_get m k = Some a"
  with assms(1) obtain b where b: "map_get m' k = Some b" "attempt_grows a b" by (auto simp: attempts_grow_def)
  with assms(2) obtain c where c: "map_get m'' k = Some c" "attempt_grows b c" by (auto simp: attempts_grow_def)
  have "validateAttempt sha a = None" "validateAttempt sha b = None"
    using a b(1) assms(3,4) by (auto simp: attempts_ok_def)
  then have "attempt_grows a c" using attempt_grows_trans [OF b(2) c(2)] valid_status by blast
  then show "\<exists>c. map_get m'' k = Some c \<and> attempt_grows a c" using c(1) by blast
qed

lemma verified_at_grow:
  assumes "attempts_grow m m'" and "verified_at m a sequence"
  shows "verified_at m' a sequence"
proof -
  obtain p where p: "map_get m (key_at a sequence) = Some p" "at_Status p = AttemptVerified"
    "at_Sequence p = sequence" "same_course p a"
    using assms(2) by (auto simp: verified_at_def)
  then have "map_get m' (key_at a sequence) = Some p"
    using assms(1) unfolding attempts_grow_def by (metis attempt_grows_concluded concluded_attempt_def insertI1)
  with p show ?thesis by (auto simp: verified_at_def)
qed

lemma after_verified_grow: "attempts_grow m m' \<Longrightarrow> after_verified m a \<Longrightarrow> after_verified m' a"
  using verified_at_grow by (auto simp: after_verified_def)

lemma verified_at_same:
  "same_course b a \<Longrightarrow> verified_at m b sequence \<longleftrightarrow> verified_at m a sequence"
  by (simp add: verified_at_def same_course_def attempt_key_def)

text \<open>Every earlier operation of the plan is verified.\<close>

lemma verified_below:
  assumes "attempts_ok sha m" and "map_get m k = Some a" and "0 < n" and "n < at_Sequence a"
  shows "verified_at m a n"
  using assms(2,4)
proof (induction "unat (at_Sequence a)" arbitrary: a k)
  case 0
  then show ?case by (simp add: unat_eq_0)
next
  case (Suc s)
  have gt: "at_Sequence a > 1"
    using Suc.prems(2) assms(3) by unat_arith
  then have v: "verified_at m a (at_Sequence a - 1)"
    using assms(1) Suc.prems(1) by (auto simp: attempts_ok_def after_verified_def)
  then obtain p where p: "map_get m (key_at a (at_Sequence a - 1)) = Some p" "at_Sequence p = at_Sequence a - 1"
    "same_course p a" by (auto simp: verified_at_def)
  show ?case
  proof (cases "n = at_Sequence a - 1")
    case False
    have "at_Sequence a \<noteq> 0" using gt by auto
    then have "unat (at_Sequence a - 1) = s" using Suc.hyps(2) by (simp add: unat_minus_one)
    moreover have "n < at_Sequence a - 1" using False Suc.prems(2) gt by unat_arith
    ultimately have "verified_at m p n" using Suc.hyps(1) [of p] p by simp
    then show ?thesis using verified_at_same [OF p(3)] by simp
  qed (use v in simp)
qed

text \<open>A checked write of an attempt.\<close>

lemma record_ok:
  assumes "put_attempt sha b st = Inr st'" and "validateAttempt sha b = None" and "attempts_ok sha (js_Attempts st)"
    and "proved_attempt sha b"
    and "map_get (js_Attempts st) (at_Key b) = None \<Longrightarrow> after_verified (js_Attempts st) b"
  shows "attempts_ok sha (js_Attempts st')" and "attempts_grow (js_Attempts st) (js_Attempts st')"
    and "map_get (js_Attempts st') = (map_get (js_Attempts st))(at_Key b \<mapsto> b)"
proof -
  let ?m = "js_Attempts st" and ?m' = "js_Attempts st'"
  have put: "?m' = map_put (at_Key b) b ?m" and
    old: "case map_get ?m (at_Key b) of Some existing \<Rightarrow> validAttemptTransition existing b = None
        | None \<Rightarrow> at_Status b = AttemptStarted"
    using assms(1) by (simp_all add: put_attempt_Inr)
  show upd: "map_get ?m' = (map_get ?m)(at_Key b \<mapsto> b)"
    by (auto simp: put)
  show grow: "attempts_grow ?m ?m'"
    using old validAttemptTransition_grows by (auto simp: attempts_grow_def upd)
  have "after_verified ?m b"
  proof (cases "map_get ?m (at_Key b)")
    case (Some a)
    then have g: "attempt_grows a b" using old validAttemptTransition_grows by simp
    then have "at_Sequence b = at_Sequence a" and "same_course b a"
      by (simp_all add: attempt_grows_def attempt_bindings_differ_def same_course_def)
    moreover have "after_verified ?m a" using assms(3) Some by (simp add: attempts_ok_def)
    ultimately show ?thesis using verified_at_same by (simp add: after_verified_def)
  qed (use assms(5) in simp)
  then have "after_verified ?m' b" using grow after_verified_grow by blast
  then show "attempts_ok sha ?m'"
    using assms(2-4) after_verified_grow [OF grow] by (auto simp: attempts_ok_def upd)
qed

section \<open>Plans over a journal\<close>

text \<open>A plan that validates, and whose attempts in the journal are all what it allows.\<close>

definition plan_over :: "hash \<Rightarrow> (string, Attempt) gomap \<Rightarrow> Plan \<Rightarrow> bool" where
  "plan_over sha m plan \<longleftrightarrow>
     (\<exists>config lane. Plan_validate sha plan config lane = None)
     \<and> (\<forall>i < 7. \<forall>a. map_get m (AttemptJournalKey plan (of_nat (i + 1))) = Some a \<longrightarrow>
          of_plan plan (pl_Operations plan ! i) a \<and> verdict_ok plan (pl_Operations plan ! i) a)"

lemma plan_sequence:
  "Plan_validate sha plan config lane = None \<Longrightarrow> i < 7 \<Longrightarrow> os_Sequence (pl_Operations plan ! i) = of_nat (i + 1)"
  using operation_sequence [OF plan_operation(1)] by blast

lemma sequence_inj:
  assumes "i < 7" and "j < 7" and "(of_nat (i + 1) :: uint32) = of_nat (j + 1)"
  shows "i = j"
proof -
  have "unat (of_nat (k + 1) :: uint32) = k + 1" if "k < 7" for k
    using that by (simp add: unat_of_nat take_bit_nat_eq_self del: of_nat_Suc of_nat_add)
  then show ?thesis using assms by (metis add_right_cancel)
qed

lemma plan_over_record:
  assumes "plan_over sha m plan" and "map_get m' = (map_get m)(at_Key b \<mapsto> b)" and "i < 7"
    and "of_plan plan (pl_Operations plan ! i) b" and "verdict_ok plan (pl_Operations plan ! i) b"
  shows "plan_over sha m' plan"
proof -
  obtain config lane where v: "Plan_validate sha plan config lane = None"
    using assms(1) by (auto simp: plan_over_def)
  have k: "at_Key b = AttemptJournalKey plan (of_nat (i + 1))"
    using assms(4) plan_sequence [OF v assms(3)] by (simp add: of_plan_def)
  show ?thesis
    unfolding plan_over_def
  proof (intro conjI allI impI)
    show "\<exists>config lane. Plan_validate sha plan config lane = None" using v by blast
    fix j a assume j: "j < 7" and a: "map_get m' (AttemptJournalKey plan (of_nat (j + 1))) = Some a"
    show "of_plan plan (pl_Operations plan ! j) a" and "verdict_ok plan (pl_Operations plan ! j) a"
      using a assms(1,4,5) sequence_inj [OF j assms(3)] j
      by (auto simp: assms(2) k plan_over_def split: if_splits simp del: of_nat_Suc of_nat_add)
  qed
qed

lemma plan_over_proved:
  "plan_over sha m plan \<Longrightarrow> i < 7 \<Longrightarrow> of_plan plan (pl_Operations plan ! i) b \<Longrightarrow>
     verdict_ok plan (pl_Operations plan ! i) b \<Longrightarrow> proved_attempt sha b"
  by (auto simp: plan_over_def proved_attempt_def)

section \<open>Restart\<close>

lemma later_loop_None:
  "later_loop e fault plan s later ops = None \<Longrightarrow>
     \<forall>operation \<in> set ops. map_get (attempts_in s) (AttemptJournalKey plan (os_Sequence operation)) = None"
  by (induction ops arbitrary: later) (auto split: sum.splits option.splits dest: Store_Get_Inr)

lemma restart_loop_Inr:
  "restart_loop e fault plan s index foundAttempt expected ops = Inr r \<Longrightarrow>
     \<forall>operation \<in> set ops. \<forall>a. map_get (attempts_in s) (AttemptJournalKey plan (os_Sequence operation)) = Some a
       \<longrightarrow> ValidateAttemptForPlan plan a = None"
proof (induction ops arbitrary: index foundAttempt expected)
  case (Cons operation ops)
  obtain found where f: "Store_Get e (fault index index) (AttemptJournalKey plan (os_Sequence operation)) s = Inr found"
    using Cons.prems by (auto simp only: restart_loop.simps bindE_Inr)
  note m = Store_Get_Inr [OF f]
  show ?case
  proof (cases found)
    case None
    then have "later_loop e (fault index) plan s (index + 1) ops = None"
      using Cons.prems f by simp
    with later_loop_None None m show ?thesis by fastforce
  next
    case (Some a)
    then have v: "ValidateAttemptForPlan plan a = None"
      and rest: "restart_loop e fault plan s (index + 1) True [os_ExpectedPoststate operation] ops = Inr r
          \<or> later_loop e (fault index) plan s (index + 1) ops = None"
      using Cons.prems f by (auto split: if_splits)
    from rest show ?thesis
    proof
      assume "restart_loop e fault plan s (index + 1) True [os_ExpectedPoststate operation] ops = Inr r"
      with Cons.IH v Some m show ?thesis by fastforce
    next
      assume "later_loop e (fault index) plan s (index + 1) ops = None"
      with later_loop_None v Some m show ?thesis by fastforce
    qed
  qed
qed simp

lemma restart_loop_locked:
  "restart_loop e fault plan s index foundAttempt expected ops = Inr (states, locked) \<Longrightarrow>
   \<exists>operation \<in> set ops. \<exists>a. map_get (attempts_in s) (AttemptJournalKey plan (os_Sequence operation)) = Some a
      \<and> at_Status a = AttemptQuarantined \<Longrightarrow> locked"
proof (induction ops arbitrary: index foundAttempt expected)
  case (Cons operation ops)
  obtain found where f: "Store_Get e (fault index index) (AttemptJournalKey plan (os_Sequence operation)) s = Inr found"
    using Cons.prems(1) by (auto simp only: restart_loop.simps bindE_Inr)
  note m = Store_Get_Inr [OF f]
  have rest: "restart_loop e fault plan s (index + 1) True [os_ExpectedPoststate operation] ops = Inr (states, locked)
      \<and> (\<exists>a. found = Some a \<and> at_Status a = AttemptVerified)
    \<or> later_loop e (fault index) plan s (index + 1) ops = None
      \<and> (locked \<or> (\<forall>a. found = Some a \<longrightarrow> at_Status a \<noteq> AttemptQuarantined))"
    using Cons.prems(1) f by (auto simp: attempt_status_defs split: option.splits if_splits)
  then show ?case
    using Cons.IH Cons.prems(2) m later_loop_None by (fastforce simp: attempt_status_defs)
qed simp

lemma restart_plan_over:
  assumes "restartStates e fault plan s = Inr r" and "Plan_validate sha plan config lane = None"
    and "attempts_ok sha (attempts_in s)"
  shows "plan_over sha (attempts_in s) plan"
  unfolding plan_over_def
proof (intro conjI allI impI)
  show "\<exists>config lane. Plan_validate sha plan config lane = None" using assms(2) by blast
  fix i a assume i: "i < 7" and a: "map_get (attempts_in s) (AttemptJournalKey plan (of_nat (i + 1))) = Some a"
  have "pl_Operations plan ! i \<in> set (pl_Operations plan)" using i plan_length [OF assms(2)] by simp
  then have v: "ValidateAttemptForPlan plan a = None"
    using restart_loop_Inr assms(1) a plan_sequence [OF assms(2) i] unfolding restartStates_def by metis
  have "at_Key a = AttemptJournalKey plan (of_nat (i + 1))" using assms(3) a by (auto simp: attempts_ok_def)
  then have "at_Sequence a = of_nat (i + 1)"
    using v by (auto simp: ValidateAttemptForPlan_def Let_def split: if_splits simp del: of_nat_Suc of_nat_add)
  then show "of_plan plan (pl_Operations plan ! i) a" and "verdict_ok plan (pl_Operations plan ! i) a"
    using ValidateAttemptForPlan_None [OF assms(2) i] v by blast+
qed

end
