(* ===== verification/Lane_History.thy ===== *)
theory Lane_History
  imports Lane_Records
begin

text \<open>
  Histories of one lane: calls of the guard, writes of the hardware adapter, crashes and restarts. The
  locale \<open>lane_invariant\<close> lifts what holds at the start and is kept by a step to all histories, and
  \<open>lane_order\<close> does so for how two moments of a history relate; they are interpreted for the journal
  (\<open>lane_ok\<close>), for the executions (\<open>executed_ok\<close>) and for the growth of attempts. A call that dies, and a
  write whose error made the guard give up, leave the file as some step of the call left it, so a crash
  inside a call is a step of its own followed by a restart.
\<close>

section \<open>Steps\<close>

definition first_store :: lane_store where
  "first_store = \<lparr>ls_open = True, ls_file = \<lparr>fs_path = None, fs_temp = None\<rparr>\<rparr>"

inductive lane_step :: "lane_env \<Rightarrow> Guard \<times> lane_store \<Rightarrow> hw_event list \<Rightarrow> Guard \<times> lane_store \<Rightarrow> bool" for L where
  load: "ge_lane e = L \<Longrightarrow> LoadPlan e plan g s = (r, g') \<Longrightarrow> lane_step L (g, s) [] (g', s)"
| execute: "ge_lane e = L \<Longrightarrow> Execute e q g s = (Answered a errs, s', events) \<Longrightarrow> lane_step L (g, s) events (g, s')"
| execute_died: "ge_lane e = L \<Longrightarrow> Execute e q g s = (Died, s', events) \<Longrightarrow> newGuard config False = Inr g' \<Longrightarrow>
    NewFileStore path False s' = Inr s'' \<Longrightarrow> lane_step L (g, s) events (g', s'')"
| reconcile: "ge_lane e = L \<Longrightarrow> Reconcile e r g s = (Answered a errs, s', events) \<Longrightarrow> lane_step L (g, s) events (g, s')"
| reconcile_died: "ge_lane e = L \<Longrightarrow> Reconcile e r g s = (Died, s', events) \<Longrightarrow> newGuard config False = Inr g' \<Longrightarrow>
    NewFileStore path False s' = Inr s'' \<Longrightarrow> lane_step L (g, s) events (g', s'')"
| reconcile_plan: "ge_lane e = L \<Longrightarrow> ReconcilePlan e plan r g s = (Answered a errs, g', s', events) \<Longrightarrow>
    lane_step L (g, s) events (g', s')"
| reconcile_plan_died: "ge_lane e = L \<Longrightarrow> ReconcilePlan e plan r g s = (Died, g0, s', events) \<Longrightarrow>
    newGuard config False = Inr g' \<Longrightarrow> NewFileStore path False s' = Inr s'' \<Longrightarrow> lane_step L (g, s) events (g', s'')"
| adapter: "lane_step L (g, s) [] (g, run_boot_ops L ops s)"
| close: "lane_step L (g, s) [] (g, Store_Close s)"
| restart: "newGuard config False = Inr g' \<Longrightarrow> NewFileStore path False s = Inr s' \<Longrightarrow> lane_step L (g, s) [] (g', s')"

inductive lane_steps :: "lane_env \<Rightarrow> Guard \<times> lane_store \<Rightarrow> hw_event list \<Rightarrow> Guard \<times> lane_store \<Rightarrow> bool" for L where
  now: "lane_steps L w [] w"
| then_step: "lane_steps L w events w' \<Longrightarrow> lane_step L w' events' w'' \<Longrightarrow> lane_steps L w (events @ events') w''"

text \<open>A lane from its first start on, and the hardware calls that were made.\<close>

inductive lane_reachable :: "lane_env \<Rightarrow> Guard \<times> lane_store \<Rightarrow> hw_event list \<Rightarrow> bool" for L where
  start: "newGuard config False = Inr g \<Longrightarrow> lane_reachable L (g, first_store) []"
| step: "lane_reachable L w events \<Longrightarrow> lane_step L w events' w' \<Longrightarrow> lane_reachable L w' (events @ events')"

lemma lane_reachable_steps:
  "lane_steps L w events' w' \<Longrightarrow> lane_reachable L w events \<Longrightarrow> lane_reachable L w' (events @ events')"
  by (induction rule: lane_steps.induct) (simp, metis append.assoc lane_reachable.step)

locale lane_invariant =
  fixes L :: lane_env and I :: "Guard \<times> lane_store \<Rightarrow> hw_event list \<Rightarrow> bool"
  assumes first: "newGuard config False = Inr g \<Longrightarrow> I (g, first_store) []"
    and keep: "I w events \<Longrightarrow> lane_step L w events' w' \<Longrightarrow> I w' (events @ events')"
begin

lemma always: "lane_reachable L w events \<Longrightarrow> I w events"
  by (induction rule: lane_reachable.induct) (auto intro: first keep)

end

locale lane_order = lane_invariant L I
  for L :: lane_env and I :: "Guard \<times> lane_store \<Rightarrow> hw_event list \<Rightarrow> bool" +
  fixes R :: "lane_store \<Rightarrow> lane_store \<Rightarrow> bool"
  assumes reflexive: "R s s"
    and transitive: "I (g, s) events \<Longrightarrow> I (g', s') events' \<Longrightarrow> R s s' \<Longrightarrow> R s' s'' \<Longrightarrow> R s s''"
    and one: "I (g, s) events \<Longrightarrow> lane_step L (g, s) events' (g', s') \<Longrightarrow> R s s'"
begin

lemma ordered: "lane_steps L w events' w' \<Longrightarrow> lane_reachable L w events \<Longrightarrow> R (snd w) (snd w')"
proof (induction rule: lane_steps.induct)
  case (then_step w events' w' events'' w'')
  have "lane_reachable L w' (events @ events')" using lane_reachable_steps then_step by blast
  then show ?case
    using transitive [of "fst w" "snd w" events "fst w'" "snd w'" "events @ events'" "snd w''"] then_step always
      one [of "fst w'" "snd w'" "events @ events'" events'' "fst w''" "snd w''"]
    by simp
qed (rule reflexive)

end

section \<open>What a call does\<close>

definition lane_ok :: "hash \<Rightarrow> Guard \<times> lane_store \<Rightarrow> bool" where
  "lane_ok sha w \<longleftrightarrow>
     attempts_ok sha (attempts_in (snd w))
     \<and> (\<forall>plan. gd_plan (fst w) = Some plan \<longrightarrow> plan_over sha (attempts_in (snd w)) plan)"

definition action_key :: "HardwareAction \<Rightarrow> string" where
  "action_key action =
     ha_TransactionID action @ ''/'' @ ha_PlanDigest action @ ''/'' @ show_nat (unat (ha_FenceEpoch action))
     @ ''/'' @ show_nat (unat (ha_Sequence action))"

text \<open>At most one execution, of an operation that had no attempt before and has one now.\<close>

definition effect_ok ::
  "hash \<Rightarrow> (string, Attempt) gomap \<Rightarrow> hw_event list \<Rightarrow> (string, Attempt) gomap \<Rightarrow> bool" where
  "effect_ok sha m events m' \<longleftrightarrow>
     attempts_ok sha m' \<and> attempts_grow m m'
     \<and> (executions events = []
        \<or> (\<exists>action a. executions events = [action] \<and> map_get m (action_key action) = None
             \<and> map_get m' (action_key action) = Some a \<and> attemptMatchesHardwareAction a action))"

lemma effect_quiet:
  "attempts_ok sha m \<Longrightarrow> executions events = [] \<Longrightarrow> m' = m \<Longrightarrow> effect_ok sha m events m'"
  by (simp add: effect_ok_def)

lemma match_grows:
  "attempt_grows a b \<Longrightarrow> attemptMatchesHardwareAction b action = attemptMatchesHardwareAction a action"
  by (simp add: attempt_grows_def attempt_bindings_differ_def attemptMatchesHardwareAction_def)

lemma match_key: "attemptMatchesHardwareAction a action \<Longrightarrow> action_key action = attempt_key a"
  by (simp add: attemptMatchesHardwareAction_def action_key_def attempt_key_def)

lemma execution_matches:
  assumes "makeHardwareAction plan operation phase None = Inr action" and "of_plan plan operation a"
    and "at_IntentReceipt a = pl_IntentReceipt plan" and "at_IntentSequence a = pl_IntentSequence plan"
  shows "attemptMatchesHardwareAction a action" and "action_key action = at_Key a"
proof -
  have "ha_IntentSequence action = pl_IntentSequence plan"
    using assms(1) by (auto simp: makeHardwareAction_def Let_def split: if_splits)
  then show m: "attemptMatchesHardwareAction a action"
    using assms(2-4) makeHardwareAction_Inr [OF assms(1)] by (simp add: attemptMatchesHardwareAction_def of_plan_def)
  show "action_key action = at_Key a"
    using match_key [OF m] assms(2) by (simp add: attempt_key_def of_plan_def AttemptJournalKey_def)
qed

lemma plan_matched:
  assumes "plan_over sha m plan" and "matchPlanRequest plan q = Inr operation"
  obtains i where "i < 7" and "operation = pl_Operations plan ! i" and "os_Sequence operation = of_nat (i + 1)"
    and "os_Operation operation = OperationProgramCustomerKeyAndEEPROM \<Longrightarrow>
      ds_EEPROMHashStatus (os_ExpectedPoststate operation) = EEPROMHashCommitAttested \<and> \<not> os_Sequence operation > 1"
proof -
  obtain config lane where v: "Plan_validate sha plan config lane = None"
    using assms(1) by (auto simp: plan_over_def)
  obtain i where i: "i < 7" "operation = pl_Operations plan ! i" "os_Sequence operation = of_nat (i + 1)"
    and ok: "operation_ok sha plan (os_ExpectedPrestate (pl_Operations plan ! 0)) i operation"
    using matched_operation [OF v assms(2)] by blast
  have "ds_EEPROMHashStatus (os_ExpectedPoststate operation) = EEPROMHashCommitAttested \<and> \<not> os_Sequence operation > 1"
    if "os_Operation operation = OperationProgramCustomerKeyAndEEPROM"
  proof -
    have "i = 0" using that plan_operation(2) [OF v i(1)] commit_operation_first [OF i(1)] i(2) by simp
    then show ?thesis using ok i(3) by (simp add: operation_ok_def want_states_def commitAttestedState_def)
  qed
  with i that show ?thesis by blast
qed

lemma predecessor_verified:
  assumes "plan_over sha m plan" and "i < 7" and "operation = pl_Operations plan ! i"
    and "os_Sequence operation = of_nat (i + 1)" and "of_plan plan operation a"
    and "os_Sequence operation > 1 \<Longrightarrow>
      \<exists>p. map_get m (AttemptJournalKey plan (os_Sequence operation - 1)) = Some p \<and> at_Status p = AttemptVerified"
  shows "after_verified m a"
  unfolding after_verified_def
proof
  assume gt: "at_Sequence a > 1"
  have sa: "at_Sequence a = of_nat (i + 1)" using assms(4,5) by (simp add: of_plan_def)
  with gt have "i \<noteq> 0" by (intro notI) simp
  then obtain j where j: "i = j + 1" "j < 7" using assms(2) by (metis Suc_eq_plus1 not0_implies_Suc Suc_lessD)
  have s: "os_Sequence operation - 1 = of_nat (j + 1)" using assms(4) j(1) by simp
  obtain p where p: "map_get m (AttemptJournalKey plan (of_nat (j + 1))) = Some p" "at_Status p = AttemptVerified"
    using assms(6) gt sa assms(4) s by auto
  have pj: "of_plan plan (pl_Operations plan ! j) p" using assms(1) j(2) p(1) by (auto simp: plan_over_def)
  have sj: "at_Sequence a - 1 = of_nat (j + 1)" using sa j(1) by simp
  have "os_Sequence (pl_Operations plan ! j) = of_nat (j + 1)"
    using assms(1) j(2) plan_sequence unfolding plan_over_def by blast
  with p pj assms(5) show "verified_at m a (at_Sequence a - 1)"
    unfolding sj verified_at_def of_plan_key [OF assms(5)] of_plan_def same_course_def by metis
qed

lemma Execute_ok:
  assumes "Execute e q g s = (ans, s', events)" and "lane_ok (le_sha256 (ge_lane e)) (g, s)"
  shows "effect_ok (le_sha256 (ge_lane e)) (attempts_in s) events (attempts_in s')"
    and "lane_ok (le_sha256 (ge_lane e)) (g, s')"
proof -
  let ?sha = "le_sha256 (ge_lane e)"
  have ok: "attempts_ok ?sha (attempts_in s)" using assms(2) by (simp add: lane_ok_def)
  have "effect_ok ?sha (attempts_in s) events (attempts_in s') \<and> lane_ok ?sha (g, s')"
    using assms(1)
  proof (cases rule: Execute_effect)
    case quiet
    then show ?thesis using assms(2) ok by (simp add: effect_quiet lane_ok_def)
  next
    case (intent plan operation carried pre a action st st1)
    note ad = execute_admit_Inr [OF intent(1)]
    have over: "plan_over ?sha (attempts_in s) plan" using assms(2) ad(1) by (simp add: lane_ok_def)
    obtain i where i: "i < 7" "operation = pl_Operations plan ! i" "os_Sequence operation = of_nat (i + 1)"
      using plan_matched [OF over ad(4)] by blast
    have key: "at_Key a = AttemptJournalKey plan (os_Sequence operation)" using intent(2) by (simp add: of_plan_def)
    have after: "after_verified (attempts_in s) a"
      by (rule predecessor_verified [OF over i intent(2)]) (use ad(6) in blast)
    have st: "attempts_ok ?sha (js_Attempts st)" using ok intent(11) by simp
    note first = record_ok [OF intent(13,12) st plan_over_proved [OF over i(1) intent(2,3) [unfolded i(2)]]]
    have w1: "attempts_ok ?sha (js_Attempts st1)" "attempts_grow (attempts_in s) (js_Attempts st1)"
      "map_get (js_Attempts st1) = (map_get (attempts_in s))(at_Key a \<mapsto> a)"
      using first after intent(11) by auto
    have over1: "plan_over ?sha (js_Attempts st1) plan"
      using plan_over_record [OF over w1(3) i(1)] intent(2,3) i(2) by blast
    note m = execution_matches [OF intent(8,2,6,7)]
    have absent: "map_get (attempts_in s) (action_key action) = None" using ad(5) key m(2) by simp
    have stop: ?thesis if "attempts_in s' = js_Attempts st1" "executions events = [] \<or> executions events = [action]"
      using that w1 m absent over1 ad(1) by (auto simp: effect_ok_def lane_ok_def)
    have go: ?thesis if ev: "executions events = [action]"
      and b: "of_plan plan operation b" "verdict_ok plan operation b" "js_Attempts st2 = js_Attempts st1"
        "validateAttempt ?sha b = None" "put_attempt ?sha b st2 = Inr (lane_journal_of s')" for b st2
    proof -
      have kb: "at_Key b = at_Key a" using b(1) key by (simp add: of_plan_def)
      have st2: "attempts_ok ?sha (js_Attempts st2)" using w1(1) b(3) by simp
      note second = record_ok [OF b(5,4) st2 plan_over_proved [OF over i(1) b(1,2) [unfolded i(2)]]]
      have w2: "attempts_ok ?sha (attempts_in s')" "attempts_grow (js_Attempts st1) (attempts_in s')"
        "map_get (attempts_in s') = (map_get (js_Attempts st1))(at_Key b \<mapsto> b)"
        using second w1(3) kb b(3) by auto
      have "attempts_grow (attempts_in s) (attempts_in s')"
        using attempts_grow_trans [OF w1(2) w2(2) ok w1(1)] .
      moreover have "attempt_grows a b"
        using w2(2,3) w1(3) kb by (auto simp: attempts_grow_def split: if_splits)
      moreover have "plan_over ?sha (attempts_in s') plan"
        using plan_over_record [OF over1 w2(3) i(1)] b(1,2) i(2) by blast
      ultimately show ?thesis
        using w2 ev absent m match_grows kb ad(1) by (auto simp: effect_ok_def lane_ok_def)
    qed
    from intent(14) show ?thesis
      using stop go by blast
  qed
  then show "effect_ok ?sha (attempts_in s) events (attempts_in s')" and "lane_ok ?sha (g, s')" by auto
qed

lemma Reconcile_ok:
  assumes "Reconcile e q g s = (ans, s', events)" and "lane_ok (le_sha256 (ge_lane e)) (g, s)"
  shows "effect_ok (le_sha256 (ge_lane e)) (attempts_in s) events (attempts_in s')" and "executions events = []"
    and "lane_ok (le_sha256 (ge_lane e)) (g, s')"
proof -
  let ?sha = "le_sha256 (ge_lane e)"
  have ok: "attempts_ok ?sha (attempts_in s)" using assms(2) by (simp add: lane_ok_def)
  have "effect_ok ?sha (attempts_in s) events (attempts_in s') \<and> executions events = [] \<and> lane_ok ?sha (g, s')"
    using assms(1)
  proof (cases rule: Reconcile_effect)
    case quiet
    then show ?thesis using assms(2) ok by (simp add: effect_quiet lane_ok_def)
  next
    case (judged plan operation a action b st)
    note ad = reconcile_admit_Inr [OF judged(1)]
    have over: "plan_over ?sha (attempts_in s) plan" using assms(2) ad(1) by (simp add: lane_ok_def)
    obtain i where i: "i < 7" "operation = pl_Operations plan ! i" "os_Sequence operation = of_nat (i + 1)"
      and first: "os_Operation operation = OperationProgramCustomerKeyAndEEPROM \<Longrightarrow>
        ds_EEPROMHashStatus (os_ExpectedPoststate operation) = EEPROMHashCommitAttested \<and> \<not> os_Sequence operation > 1"
      using plan_matched [OF over conjunct1 [OF match_ReconcileRequest_Inr [OF ad(3)]]] by blast
    have "of_plan plan operation a" using over i ad(4) by (simp add: plan_over_def del: of_nat_Suc of_nat_add)
    then have b: "of_plan plan operation b" "verdict_ok plan operation b" using judged(7) first by blast+
    have kb: "map_get (js_Attempts st) (at_Key b) \<noteq> None"
      using b(1) ad(4) judged(4) by (simp add: of_plan_def)
    have st: "attempts_ok ?sha (js_Attempts st)" using ok judged(4) by simp
    note w = record_ok [OF judged(6,5) st plan_over_proved [OF over i(1) b [unfolded i(2)]]]
    have w1: "attempts_ok ?sha (attempts_in s')" "attempts_grow (attempts_in s) (attempts_in s')"
      "map_get (attempts_in s') = (map_get (attempts_in s))(at_Key b \<mapsto> b)"
      using w kb judged(4) by auto
    have "plan_over ?sha (attempts_in s') plan"
      using plan_over_record [OF over w1(3) i(1)] b i(2) by blast
    then show ?thesis using w1 judged(2) ad(1) by (auto simp: effect_ok_def lane_ok_def)
  qed
  then show "effect_ok ?sha (attempts_in s) events (attempts_in s')" and "executions events = []"
    and "lane_ok ?sha (g, s')" by auto
qed

lemma loaded_ok_plan:
  assumes "restartStates e fault plan s = Inr r" and "Plan_validate sha plan config lane = None" and "lane_ok sha (g, s)"
  shows "lane_ok sha (g\<lparr>gd_plan := Some plan, gd_lockedOut := lockedOut\<rparr>, s)"
  using restart_plan_over [OF assms(1,2)] assms(3) by (simp add: lane_ok_def)

lemma LoadPlan_ok:
  "LoadPlan e plan g s = (r, g') \<Longrightarrow> lane_ok (le_sha256 (ge_lane e)) (g, s) \<Longrightarrow> lane_ok (le_sha256 (ge_lane e)) (g', s)"
  using loaded_ok_plan [of "ge_lane e" "ge_restart e" plan s]
  by (fastforce simp: LoadPlan_def Plan_Validate_def split: option.splits sum.splits)

text \<open>Reconciling a plan is reconciling under a guard that was disarmed, with the plan loaded first if
  there was none, or a refusal.\<close>

lemma ReconcilePlan_effect:
  assumes "ReconcilePlan e plan q g s = (ans, g', s', events)"
  obtains (refused) "g' = g" and "s' = s" and "events = []" and "ans \<noteq> Died"
  | (reconciled) "Reconcile e q g' s = (ans, s', events)" and "gd_reconciliationOnly g'" and "gd_config g' = gd_config g"
      and "gd_plan g' = Some plan"
      and "lane_ok (le_sha256 (ge_lane e)) (g, s) \<Longrightarrow> lane_ok (le_sha256 (ge_lane e)) (g', s)"
proof -
  let ?sha = "le_sha256 (ge_lane e)"
  have disarm: "lane_ok ?sha (h, s) \<Longrightarrow> lane_ok ?sha (h\<lparr>gd_reconciliationOnly := True\<rparr>, s)" for h
    by (simp add: lane_ok_def)
  show ?thesis
  proof (cases "ValidateReconcileRequest ?sha (gd_config g) plan q = None
      \<and> reconcile_lease_ok (ge_clock e 0) q (gd_config g)")
    case False
    then show ?thesis using assms refused by (auto simp: ReconcilePlan_def Let_def split: option.splits)
  next
    case True
    then have v: "Plan_validate ?sha plan (gd_config g) False = None"
      by (auto simp: ValidateReconcileRequest_def ValidateReconciliationPlan_def)
    show ?thesis
    proof (cases "gd_plan g")
      case (Some loaded)
      show ?thesis
      proof (cases "loaded = plan")
        case same: True
        show ?thesis
          by (rule reconciled) (use assms True Some same disarm [of g] in
              \<open>auto simp: ReconcilePlan_def Let_def split: prod.splits\<close>)
      qed (use assms True Some refused in \<open>auto simp: ReconcilePlan_def Let_def\<close>)
    next
      case None
      show ?thesis
      proof (cases "restartStates (ge_lane e) (ge_restart e) plan s")
        case (Inl err)
        then show ?thesis using assms True None refused by (auto simp: ReconcilePlan_def Let_def)
      next
        case (Inr r)
        obtain states lockedOut where r: "r = (states, lockedOut)" by fastforce
        note loaded = loaded_ok_plan [OF Inr [unfolded r] v]
        show ?thesis
          by (rule reconciled) (use assms True None Inr r loaded disarm in
              \<open>auto simp: ReconcilePlan_def Let_def split: prod.splits\<close>)
      qed
    qed
  qed
qed

lemma ReconcilePlan_ok:
  assumes "ReconcilePlan e plan q g s = (ans, g', s', events)" and "lane_ok (le_sha256 (ge_lane e)) (g, s)"
  shows "effect_ok (le_sha256 (ge_lane e)) (attempts_in s) events (attempts_in s')" and "executions events = []"
    and "lane_ok (le_sha256 (ge_lane e)) (g', s')"
proof -
  let ?sha = "le_sha256 (ge_lane e)"
  have "effect_ok ?sha (attempts_in s) events (attempts_in s') \<and> executions events = [] \<and> lane_ok ?sha (g', s')"
    using assms(1)
  proof (cases rule: ReconcilePlan_effect)
    case refused
    then show ?thesis using assms(2) by (simp add: effect_ok_def lane_ok_def)
  next
    case reconciled
    then show ?thesis using Reconcile_ok [OF reconciled(1)] assms(2) by blast
  qed
  then show "effect_ok ?sha (attempts_in s) events (attempts_in s')" and "executions events = []"
    and "lane_ok ?sha (g', s')" by auto
qed

section \<open>What a step does\<close>

lemma newGuard_plan: "newGuard config b = Inr g \<Longrightarrow> gd_plan g = None"
  by (auto simp: newGuard_def split: if_splits)

lemma reopened_journal [simp]:
  "NewFileStore path b s = Inr s' \<Longrightarrow> lane_journal_of s' = lane_journal_of s"
  "lane_journal_of (Store_Close s) = lane_journal_of s"
  by (auto simp: NewFileStore_def Store_Close_def lane_journal_of_def split: if_splits)

lemma fresh_guard_ok:
  "newGuard config b = Inr g' \<Longrightarrow> lane_ok sha (g, s) \<Longrightarrow> lane_journal_of s' = lane_journal_of s \<Longrightarrow> lane_ok sha (g', s')"
  by (simp add: lane_ok_def newGuard_plan)

lemma died_ok:
  assumes "newGuard config b = Inr g'" and "NewFileStore path c s' = Inr s''"
    and "effect_ok sha m events (attempts_in s')" and "lane_ok sha (g, s')"
  shows "effect_ok sha m events (attempts_in s'') \<and> lane_ok sha (g', s'')"
  using assms(3) fresh_guard_ok [OF assms(1,4) reopened_journal(1) [OF assms(2)]] reopened_journal(1) [OF assms(2)]
  by simp

lemma lane_step_ok:
  assumes "lane_step L w events w'" and "lane_ok (le_sha256 L) w"
  shows "effect_ok (le_sha256 L) (attempts_in (snd w)) events (attempts_in (snd w')) \<and> lane_ok (le_sha256 L) w'"
  using assms
proof (induction rule: lane_step.induct)
  case (load e plan g s r g')
  note ok = load(3) [folded load(1)]
  show ?case
    using LoadPlan_ok [OF load(2) ok] load(1) ok by (simp add: lane_ok_def effect_quiet)
next
  case (execute e q g s a errs s' events)
  show ?case
    using Execute_ok [OF execute(2) execute(3) [folded execute(1)]] execute(1) by simp
next
  case (execute_died e q g s s' events config g' path s'')
  show ?case
    using died_ok [OF execute_died(3,4) Execute_ok [OF execute_died(2) execute_died(5) [folded execute_died(1)]]]
      execute_died(1) by simp
next
  case (reconcile e r g s a errs s' events)
  show ?case
    using Reconcile_ok(1,3) [OF reconcile(2) reconcile(3) [folded reconcile(1)]] reconcile(1) by simp
next
  case (reconcile_died e r g s s' events config g' path s'')
  show ?case
    using died_ok [OF reconcile_died(3,4) Reconcile_ok(1,3) [OF reconcile_died(2)
          reconcile_died(5) [folded reconcile_died(1)]]] reconcile_died(1) by simp
next
  case (reconcile_plan e plan r g s a errs g' s' events)
  show ?case
    using ReconcilePlan_ok(1,3) [OF reconcile_plan(2) reconcile_plan(3) [folded reconcile_plan(1)]]
      reconcile_plan(1) by simp
next
  case (reconcile_plan_died e plan r g s g0 s' events config g' path s'')
  show ?case
    using died_ok [OF reconcile_plan_died(3,4) ReconcilePlan_ok(1,3) [OF reconcile_plan_died(2)
          reconcile_plan_died(5) [folded reconcile_plan_died(1)]]] reconcile_plan_died(1) by simp
next
  case (restart config g' path s s' g)
  have "effect_ok (le_sha256 L) (attempts_in s) [] (attempts_in s)"
    using restart(3) by (simp add: lane_ok_def effect_quiet)
  then show ?case using died_ok [OF restart(1,2) _ restart(3)] by simp
qed (simp_all add: effect_quiet lane_ok_def)

section \<open>What all histories satisfy\<close>

lemma first_lane_ok: "newGuard config False = Inr g \<Longrightarrow> lane_ok sha (g, first_store)"
  by (simp add: lane_ok_def newGuard_plan first_store_def lane_journal_of_def newJournalState_def attempts_ok_def)

interpretation lane: lane_invariant L "\<lambda>w events. lane_ok (le_sha256 L) w"
  using first_lane_ok lane_step_ok by unfold_locales blast+

interpretation growth: lane_order L "\<lambda>w events. lane_ok (le_sha256 L) w" "\<lambda>s s'. attempts_grow (attempts_in s) (attempts_in s')"
proof
  show "attempts_grow (attempts_in s) (attempts_in s'')"
    if "lane_ok (le_sha256 L) (g, s)" "lane_ok (le_sha256 L) (g', s')" "attempts_grow (attempts_in s) (attempts_in s')"
      "attempts_grow (attempts_in s') (attempts_in s'')" for g s g' s' s''
    using that attempts_grow_trans by (auto simp: lane_ok_def)
  show "attempts_grow (attempts_in s) (attempts_in s')"
    if "lane_ok (le_sha256 L) (g, s)" "lane_step L (g, s) events' (g', s')" for g s events' g' s'
    using lane_step_ok that by (fastforce simp: effect_ok_def)
qed simp

text \<open>Executions of one transaction's plan under one epoch.\<close>

definition same_plan_run :: "HardwareAction \<Rightarrow> HardwareAction \<Rightarrow> bool" where
  "same_plan_run a b \<longleftrightarrow>
     ha_TransactionID a = ha_TransactionID b \<and> ha_PlanDigest a = ha_PlanDigest b \<and> ha_FenceEpoch a = ha_FenceEpoch b"

definition runs_forward :: "HardwareAction \<Rightarrow> HardwareAction \<Rightarrow> bool" where
  "runs_forward a b \<longleftrightarrow> (same_plan_run a b \<longrightarrow> ha_Sequence a < ha_Sequence b)"

definition executed_ok :: "(string, Attempt) gomap \<Rightarrow> hw_event list \<Rightarrow> bool" where
  "executed_ok m events \<longleftrightarrow>
     (\<forall>action \<in> set (executions events).
        \<exists>a. map_get m (action_key action) = Some a \<and> attemptMatchesHardwareAction a action)
     \<and> sorted_wrt runs_forward (executions events)"

lemma next_execution_forward:
  assumes "attempts_ok sha m" and "map_get m (action_key old) = Some a" and "attemptMatchesHardwareAction a old"
    and "map_get m (action_key new) = None" and "ha_Sequence new \<noteq> 0"
  shows "runs_forward old new"
  unfolding runs_forward_def
proof
  assume same: "same_plan_run old new"
  have seq: "at_Sequence a = ha_Sequence old" using assms(3) by (simp add: attemptMatchesHardwareAction_def)
  have key: "action_key new = key_at a (ha_Sequence new)"
    using same assms(3) by (simp add: same_plan_run_def attemptMatchesHardwareAction_def action_key_def attempt_key_def)
  show "ha_Sequence old < ha_Sequence new"
  proof (rule ccontr)
    assume "\<not> ha_Sequence old < ha_Sequence new"
    then consider "ha_Sequence new < at_Sequence a" | "ha_Sequence new = ha_Sequence old"
      using seq by (metis linorder_less_linear)
    then show False
    proof cases
      case 1
      have "verified_at m a (ha_Sequence new)"
        by (rule verified_below [OF assms(1,2) _ 1]) (use assms(5) in \<open>simp add: word_gt_0\<close>)
      then show False using assms(4) key by (simp add: verified_at_def)
    next
      case 2
      then have "action_key new = action_key old" using same by (simp add: action_key_def same_plan_run_def)
      then show False using assms(2,4) by simp
    qed
  qed
qed

lemma distinct_by_order:
  "sorted_wrt (\<lambda>a b. f a \<noteq> f b) xs \<Longrightarrow> distinct (map f xs)"
  by (induction xs) auto

lemma executed_ok_step:
  assumes "executed_ok m events" and "effect_ok sha m events' m'" and "attempts_ok sha m"
  shows "executed_ok m' (events @ events')"
proof -
  have old: "\<exists>b. map_get m' (action_key action) = Some b \<and> attemptMatchesHardwareAction b action"
    if "action \<in> set (executions events)" for action
  proof -
    obtain a where a: "map_get m (action_key action) = Some a" "attemptMatchesHardwareAction a action"
      using assms(1) \<open>action \<in> _\<close> by (auto simp: executed_ok_def)
    then show ?thesis using assms(2) match_grows by (fastforce simp: effect_ok_def attempts_grow_def)
  qed
  show ?thesis
  proof (cases "executions events' = []")
    case True
    then show ?thesis using assms(1) old by (simp add: executed_ok_def)
  next
    case False
    then obtain new a where n: "executions events' = [new]" "map_get m (action_key new) = None"
      "map_get m' (action_key new) = Some a" "attemptMatchesHardwareAction a new"
      using assms(2) by (auto simp: effect_ok_def)
    have "validateAttempt sha a = None" using assms(2) n(3) by (auto simp: effect_ok_def attempts_ok_def)
    then have "ha_Sequence new \<noteq> 0" using n(4) by (auto simp: validateAttempt_def attemptMatchesHardwareAction_def)
    then have "\<forall>action \<in> set (executions events). runs_forward action new"
      using assms(1,3) n(2) next_execution_forward by (auto simp: executed_ok_def)
    then show ?thesis using assms(1) old n by (auto simp: executed_ok_def sorted_wrt_append)
  qed
qed

interpretation executed: lane_invariant L
  "\<lambda>w events. lane_ok (le_sha256 L) w \<and> executed_ok (attempts_in (snd w)) events"
proof
  show "lane_ok (le_sha256 L) (g, first_store) \<and> executed_ok (attempts_in (snd (g, first_store))) []"
    if "newGuard config False = Inr g" for config g
    using first_lane_ok [OF that] by (simp add: executed_ok_def)
  show "lane_ok (le_sha256 L) w' \<and> executed_ok (attempts_in (snd w')) (events @ events')"
    if "lane_ok (le_sha256 L) w \<and> executed_ok (attempts_in (snd w)) events" "lane_step L w events' w'"
    for w events events' w'
    using lane_step_ok [OF that(2)] executed_ok_step that(1) by (auto simp: lane_ok_def)
qed

end
