(* ===== verification/Lane_Boot_Facts.thy ===== *)
theory Lane_Boot_Facts
  imports Lane_History
begin

text \<open>
  Boot transitions: what a completed one has recorded and in which order, that every terminal one has
  an outcome that the guard accepts, that updates only add, that a new transition gets a key of its own,
  and what merging locally observed progress gives. At the end, that the journal which a write leaves
  passes the checks of the next read, and from it the file store against the memory store, call by call.
\<close>

section \<open>Validated transitions\<close>

lemma foldl_latest:
  "(start :: instant) \<le> foldl (\<lambda>bound observed. if observed > bound then observed else bound) start observations"
proof (induction observations arbitrary: start)
  case (Cons x xs)
  have "start \<le> (if x > start then x else start)" by simp
  also have "\<dots> \<le> foldl (\<lambda>bound observed. if observed > bound then observed else bound)
      (if x > start then x else start) xs" by (rule Cons.IH)
  finally show ?case by simp
qed simp

lemma proof_not_before:
  "OperatorPowerProof_validate p later = None \<Longrightarrow> earlier \<le> later \<Longrightarrow> OperatorPowerProof_validate p earlier = None"
  by (auto simp: OperatorPowerProof_validate_def)

lemma transition_validated:
  assumes "BootTransition_Validate sha t = None"
  shows "HardwareAction_Validate (bt_Action t) = None" and "bt_Generation t \<noteq> 0"
    and "bt_Key t = BootTransitionKey (bt_Action t) (bt_Generation t)" and "bt_Key t \<noteq> []"
    and "validatePowerControlEvidence t = None" and "validateBootTransitionProgress sha t = None"
    and "bt_StartedAt t \<le> bt_PowerOffObservedAt t" and "bt_PowerOffObservedAt t \<le> bt_USBAbsentObservedAt t"
    and "bt_USBAbsentObservedAt t \<le> bt_ColdIntervalEndsAt t" and "bt_StartedAt t \<noteq> 0"
  using assms by (auto simp: BootTransition_Validate_def not_less)

lemma rank_active: "snd (bootTransitionRank s) \<Longrightarrow> \<not> terminal_status s"
  by (auto simp: bootTransitionRank_def terminal_status_def transition_status_defs split: if_splits)

lemma progress_completed:
  assumes "validateBootTransitionProgress sha t = None" and "bt_Status t = BootTransitionCompleted"
  shows "completed_progress_ok sha t = None" and "progress_times_ok t = None"
proof -
  have "\<not> snd (bootTransitionRank (bt_Status t))"
    using rank_active [of "bt_Status t"] assms(2) by (auto simp: terminal_status_def)
  then show "completed_progress_ok sha t = None" and "progress_times_ok t = None"
    using assms by (auto simp: validateBootTransitionProgress_def split: prod.splits)
qed

lemma progress_failed:
  assumes "validateBootTransitionProgress sha t = None" and "IsTerminal t" and "bt_Status t \<noteq> BootTransitionCompleted"
  shows "failed_progress_ok t = None"
proof -
  have "\<not> snd (bootTransitionRank (bt_Status t))"
    using rank_active [of "bt_Status t"] assms(2) by (auto simp: IsTerminal_def)
  then show ?thesis
    using assms by (auto simp: validateBootTransitionProgress_def split: prod.splits)
qed

section \<open>Outcomes\<close>

lemma initial_proof_ok:
  assumes "validatePowerControlEvidence t = None" and "bt_PowerControlMode t \<noteq> PowerControlRelay" and "0 \<le> bt_StartedAt t"
  shows "OperatorPowerProof_validate (bt_InitialPowerOffProof t) 0 = None" and "final_power_proof_ok t = None"
proof -
  have "OperatorPowerProof_validate (bt_InitialPowerOffProof t) (bt_StartedAt t) = None \<and> final_power_proof_ok t = None"
    using assms(1,2) by (auto simp: validatePowerControlEvidence_def split: prod.splits if_splits)
  then show "OperatorPowerProof_validate (bt_InitialPowerOffProof t) 0 = None" and "final_power_proof_ok t = None"
    using proof_not_before assms(3) by blast+
qed

lemma final_proof_ok:
  assumes "final_power_proof_ok t = None" and "\<not> OperatorPowerProof_isZero (bt_FinalSafeOffProof t)"
  shows "OperatorPowerProof_validate (bt_FinalSafeOffProof t) (pp_AcknowledgedAt (bt_InitialPowerOffProof t)) = None"
    and "bt_SafeOffObservedAt t \<noteq> 0 \<Longrightarrow> pp_AcknowledgedAt (bt_FinalSafeOffProof t) \<le> bt_SafeOffObservedAt t"
proof -
  show "OperatorPowerProof_validate (bt_FinalSafeOffProof t) (pp_AcknowledgedAt (bt_InitialPowerOffProof t)) = None"
    using assms proof_not_before foldl_latest unfolding final_power_proof_ok_def Let_def
    by (simp only: if_False first_err_Cons_None) blast
  show "pp_AcknowledgedAt (bt_FinalSafeOffProof t) \<le> bt_SafeOffObservedAt t" if "bt_SafeOffObservedAt t \<noteq> 0"
    using assms that unfolding final_power_proof_ok_def Let_def
    by (simp only: if_False first_err_Cons_None fail_if_None) auto
qed

lemma completed_digest:
  assumes "completed_progress_ok sha t = None"
  obtains ev where "Evidence t = Inr ev" and "Evidence_Validate ev = None"
    and "Evidence_Digest sha ev = Inr (bt_EvidenceDigest t)"
  using assms by (auto simp: completed_progress_ok_def Evidence_Digest_def Let_def split: sum.splits)

lemma terminal_reference:
  assumes "\<forall>m. length (sha m) = 32" and "BootTransition_Validate sha t = None" and "IsTerminal t" and "0 \<le> bt_StartedAt t"
  shows "Reference sha t = Inr (make_reference t)"
proof -
  note v = transition_validated [OF assms(2)]
  have mode: "bt_PowerEstablishmentBasis t = fst (powerEstablishmentBasis (bt_PowerControlMode t))"
    "snd (powerEstablishmentBasis (bt_PowerControlMode t))"
    "bt_PowerControlMode t = PowerControlRelay \<Longrightarrow>
       OperatorPowerProof_isZero (bt_InitialPowerOffProof t) \<and> OperatorPowerProof_isZero (bt_FinalSafeOffProof t)"
    using v(5) by (auto simp: validatePowerControlEvidence_def split: prod.splits)
  have safe: "safe_terminal (bt_Status t) \<longleftrightarrow> bt_Status t \<noteq> BootTransitionQuarantined"
    using assms(3) by (auto simp: IsTerminal_def terminal_status_def safe_terminal_def transition_status_defs)
  have failed: "bt_Status t = BootTransitionQuarantined \<Longrightarrow> bt_SafeOffObservedAt t = 0"
    "bt_Status t \<noteq> BootTransitionCompleted \<Longrightarrow>
       knownBootTransitionFailure (bt_Failure t) \<and> bt_Failure t \<noteq> BootTransitionFailureNone \<and> bt_EvidenceDigest t = []"
    "bt_Status t \<noteq> BootTransitionQuarantined \<Longrightarrow> bt_SafeOffObservedAt t \<noteq> 0"
    "bt_Status t = BootTransitionCompleted \<Longrightarrow> bt_Failure t = BootTransitionFailureNone"
    using progress_failed [OF v(6) assms(3)] progress_completed [OF v(6)]
    by (auto simp: failed_progress_ok_def completed_progress_ok_def Let_def transition_status_defs split: if_splits)
  have digest: "digestPattern (bt_EvidenceDigest t)" if c: "bt_Status t = BootTransitionCompleted"
    using completed_digest [OF progress_completed(1) [OF v(6) c]] digestPattern_derive [OF assms(1)]
    by (metis Evidence_Digest_def Inr_inject orFail_Inr)
  have final: "bt_Status t \<noteq> BootTransitionQuarantined \<Longrightarrow> \<not> OperatorPowerProof_isZero (bt_FinalSafeOffProof t)"
    if "final_power_proof_ok t = None"
    using that safe by (auto simp: final_power_proof_ok_def safe_terminal_def split: if_splits)
  have "Reference_Validate (make_reference t) = None"
  proof (cases "bt_PowerControlMode t = PowerControlRelay")
    case True
    then show ?thesis
      using mode failed digest safe v(4) assms(3)
      by (auto simp: Reference_Validate_def make_reference_def IsTerminal_def power_mode_defs split: prod.splits)
  next
    case False
    then have manual: "bt_PowerControlMode t = PowerControlManual"
      using mode(2) by (auto simp: powerEstablishmentBasis_def split: if_splits)
    note ini = initial_proof_ok [OF v(5) False assms(4)]
    show ?thesis
      using mode failed digest safe v(4) assms(3) ini final [OF ini(2)] final_proof_ok [OF ini(2)] manual False
      by (auto simp: Reference_Validate_def make_reference_def IsTerminal_def split: prod.splits)
  qed
  then show ?thesis using assms(2,3) by (simp add: Reference_def)
qed

lemma terminal_outcome:
  assumes "\<forall>m. length (sha m) = 32" and "BootTransition_Validate sha t = None" and "IsTerminal t" and "0 \<le> bt_StartedAt t"
  obtains outcome where "Outcome sha t = Inr outcome" and "ValidateForAction sha outcome (bt_Action t) = None"
    and "br_Status (bo_Reference outcome) = bt_Status t"
proof -
  note v = transition_validated [OF assms(2)]
  note ref = terminal_reference [OF assms]
  have rv: "Reference_Validate (make_reference t) = None" using ref by (auto simp: Reference_def split: if_splits)
  have pm: "bt_PowerControlMode t = ha_PowerControlMode (bt_Action t)"
    using v(5) by (auto simp: validatePowerControlEvidence_def split: prod.splits)
  define base where "base = \<lparr>bo_SchemaVersion = BootTransitionOutcomeSchemaVersion, bo_Action = bt_Action t,
     bo_Generation = bt_Generation t, bo_Reference = make_reference t, bo_Evidence = zero_BootTransitionEvidence\<rparr>"
  show ?thesis
  proof (cases "bt_Status t = BootTransitionCompleted")
    case True
    obtain ev where ev: "Evidence t = Inr ev" "Evidence_Validate ev = None"
      "Evidence_Digest sha ev = Inr (bt_EvidenceDigest t)"
      using completed_digest [OF progress_completed(1) [OF v(6) True]] by blast
    have "ValidateForAction sha (base\<lparr>bo_Evidence := ev\<rparr>) (bt_Action t) = None"
      using ev v(1-3) rv pm True
      by (auto simp: ValidateForAction_def base_def make_reference_def Evidence_def Let_def)
    then show ?thesis
      using that [of "base\<lparr>bo_Evidence := ev\<rparr>"] ref ev(1) True
      by (simp add: Outcome_def Let_def base_def make_reference_def)
  next
    case False
    have "ValidateForAction sha base (bt_Action t) = None"
      using v(1-3) rv pm False by (auto simp: ValidateForAction_def base_def make_reference_def Let_def)
    then show ?thesis
      using that [of base] ref False by (simp add: Outcome_def Let_def base_def make_reference_def)
  qed
qed

section \<open>Order\<close>

definition recorded_times :: "BootTransition \<Rightarrow> instant list" where
  "recorded_times t =
     [bt_StartedAt t, bt_PowerOffObservedAt t, bt_USBAbsentObservedAt t, bt_ColdIntervalEndsAt t,
      bt_OperatorAcknowledgedAt t, bt_PowerEstablishedAt t, bt_ModeObservedAt t]
     @ (if ha_RequestedBootMode (bt_Action t) = BootModeRPIBoot then [bt_OperatorReleasedAt t] else [])
     @ [bt_SafeOffObservedAt t, bt_CompletedAt t]"

lemma completed_ordered:
  assumes "BootTransition_Validate sha t = None" and "bt_Status t = BootTransitionCompleted"
  shows "sorted (recorded_times t)" and "bt_ObservedMode t = ha_RequestedBootMode (bt_Action t)"
proof -
  note v = transition_validated [OF assms(1)]
  note p = progress_completed [OF v(6) assms(2)]
  have nz: "bt_OperatorAcknowledgedAt t \<noteq> 0" "bt_PowerEstablishedAt t \<noteq> 0" "bt_ModeObservedAt t \<noteq> 0"
    "bt_SafeOffObservedAt t \<noteq> 0" "bt_CompletedAt t \<noteq> 0"
    and mode: "bt_ObservedMode t = ha_RequestedBootMode (bt_Action t)"
    and rel: "ha_RequestedBootMode (bt_Action t) = BootModeRPIBoot \<Longrightarrow> bt_OperatorReleasedAt t \<noteq> 0"
    using p(1) by (auto simp: completed_progress_ok_def validateObservedBootMode_def Let_def)
  have "bt_ColdIntervalEndsAt t \<le> bt_OperatorAcknowledgedAt t" "bt_OperatorAcknowledgedAt t \<le> bt_PowerEstablishedAt t"
    "bt_PowerEstablishedAt t \<le> bt_ModeObservedAt t" "bt_SafeOffObservedAt t \<le> bt_CompletedAt t"
    "bt_OperatorReleasedAt t \<noteq> 0 \<Longrightarrow>
       bt_ModeObservedAt t \<le> bt_OperatorReleasedAt t \<and> bt_OperatorReleasedAt t \<le> bt_SafeOffObservedAt t"
    "bt_OperatorReleasedAt t = 0 \<Longrightarrow> bt_ModeObservedAt t \<le> bt_SafeOffObservedAt t"
    using p(2) nz by (auto simp: progress_times_ok_def Let_def)
  then show "sorted (recorded_times t)"
    using v(7-9) rel unfolding recorded_times_def by (cases "bt_OperatorReleasedAt t = 0") auto
  show "bt_ObservedMode t = ha_RequestedBootMode (bt_Action t)" by (fact mode)
qed

section \<open>Updates\<close>

text \<open>A later value of the transition under one key: nothing recorded is changed, a terminal value is
  final, and the status does not go back.\<close>

definition transition_advances :: "BootTransition \<Rightarrow> BootTransition \<Rightarrow> bool" where
  "transition_advances a b \<longleftrightarrow>
     \<not> transition_bindings_differ a b \<and> bootTransitionProgressIsPrefix a b \<and> bt_UpdatedAt a \<le> bt_UpdatedAt b
     \<and> (IsTerminal a \<longrightarrow> b = a)
     \<and> (IsTerminal b \<or> fst (bootTransitionRank (bt_Status b)) \<in> {fst (bootTransitionRank (bt_Status a)),
          fst (bootTransitionRank (bt_Status a)) + 1})"

lemma transition_advances_refl: "transition_advances t t"
  by (simp add: transition_advances_def transition_bindings_differ_def bootTransitionProgressIsPrefix_def)

lemma update_advances: "validBootTransitionUpdate sha a b = None \<Longrightarrow> transition_advances a b"
  by (auto simp: validBootTransitionUpdate_def transition_advances_def Let_def split: option.splits if_splits)

lemma put_transition_advances:
  assumes "put_transition sha new st = Inr st'" and "map_get (js_BootTransitions st) k = Some t"
  shows "\<exists>t'. map_get (js_BootTransitions st') k = Some t' \<and> transition_advances t t'"
  using assms update_advances transition_advances_refl
  by (auto simp: put_transition_def split: option.splits if_splits)

section \<open>Keys of transitions\<close>

lemma slash_split:
  assumes "CHR ''/'' \<notin> set a" and "CHR ''/'' \<notin> set a'" and "a @ CHR ''/'' # b = a' @ CHR ''/'' # b'"
  shows "a = a' \<and> b = b'"
  using assms
proof (induction a arbitrary: a')
  case Nil
  then show ?case by (cases a') auto
next
  case (Cons x xs)
  then show ?case by (cases a') auto
qed

lemma show_nat_no_slash: "CHR ''/'' \<notin> set (show_nat n)"
proof (induction n rule: show_nat.induct)
  case (1 n)
  have "hex_digit d \<noteq> CHR ''/''" if "d < 10" for d
  proof
    assume "hex_digit d = CHR ''/''"
    then have "(of_char (char_of (48 + d) :: char) :: nat) = of_char (CHR ''/'')" using that by (simp add: hex_digit_def)
    then show False using that by simp
  qed
  note d = this this [symmetric]
  then show ?case using 1 by (subst show_nat.simps) auto
qed

lemma action_texts:
  assumes "HardwareAction_Validate action = None"
  shows "CHR ''/'' \<notin> set (ha_TransactionID action)" and "CHR ''/'' \<notin> set (ha_PlanDigest action)"
    and "CHR ''/'' \<notin> set (ha_Phase action)"
proof -
  have "identifierPattern (ha_TransactionID action)" "digestPattern (ha_PlanDigest action)"
    "ha_Phase action \<in> {HardwarePhaseExecute, HardwarePhasePreObservation, HardwarePhasePostObservation,
       HardwarePhaseReconciliation}"
    using assms by (auto simp: HardwareAction_Validate_def split: prod.splits if_splits)
  then show "CHR ''/'' \<notin> set (ha_TransactionID action)" and "CHR ''/'' \<notin> set (ha_PlanDigest action)"
    and "CHR ''/'' \<notin> set (ha_Phase action)"
    using identifierPattern_no_slash digest_no_slash digestPattern_validDigest by (auto simp: phase_defs)
qed

text \<open>What the key of a transition is made of, beside the generation.\<close>

definition same_key_scope :: "HardwareAction \<Rightarrow> HardwareAction \<Rightarrow> bool" where
  "same_key_scope a b \<longleftrightarrow>
     ha_TransactionID a = ha_TransactionID b \<and> ha_PlanDigest a = ha_PlanDigest b
     \<and> ha_FenceEpoch a = ha_FenceEpoch b \<and> ha_Sequence a = ha_Sequence b \<and> ha_Phase a = ha_Phase b"

lemma BootTransitionKey_inj:
  assumes "HardwareAction_Validate a = None" and "HardwareAction_Validate b = None"
    and "BootTransitionKey a m = BootTransitionKey b n"
  shows "same_key_scope a b \<and> m = n"
proof -
  note no = action_texts [OF assms(1)] action_texts [OF assms(2)] show_nat_no_slash
  have tx: "ha_TransactionID a = ha_TransactionID b" and r1: "ha_PlanDigest a @ CHR ''/'' # show_nat (unat (ha_FenceEpoch a))
      @ CHR ''/'' # show_nat (unat (ha_Sequence a)) @ CHR ''/'' # ha_Phase a @ CHR ''/'' # show_nat (unat m)
    = ha_PlanDigest b @ CHR ''/'' # show_nat (unat (ha_FenceEpoch b))
      @ CHR ''/'' # show_nat (unat (ha_Sequence b)) @ CHR ''/'' # ha_Phase b @ CHR ''/'' # show_nat (unat n)"
    using slash_split [OF no(1,4)] assms(3) by (auto simp: BootTransitionKey_def)
  note r2 = slash_split [OF no(2,5) r1]
  note r3 = slash_split [OF no(7,7) conjunct2 [OF r2]]
  note r4 = slash_split [OF no(7,7) conjunct2 [OF r3]]
  note r5 = slash_split [OF no(3,6) conjunct2 [OF r4]]
  show ?thesis
    using tx r2 r3 r4 r5 by (simp add: same_key_scope_def show_nat_inj word_unat_eq_iff)
qed

lemma generation_loop_Inr:
  "generation_loop action start transitions = Inr hi \<Longrightarrow> start \<le> hi
     \<and> (\<forall>(k, t) \<in> set transitions. sameBootTransitionScope (bt_Action t) action \<longrightarrow> bt_Generation t \<le> hi)"
  by (induction action start transitions rule: generation_loop.induct) (fastforce split: if_splits)+

definition scopes_agree :: "(string, BootTransition) gomap \<Rightarrow> HardwareAction \<Rightarrow> bool" where
  "scopes_agree transitions action \<longleftrightarrow>
     (\<forall>(k, t) \<in> set transitions. same_key_scope (bt_Action t) action \<longrightarrow> sameBootTransitionScope (bt_Action t) action)"

lemma begin_is_fresh:
  assumes "loaded_ok sha st = None" and "begin_transition sha (js_BootTransitions st) q = Inr t"
    and "scopes_agree (js_BootTransitions st) (bb_Action q)"
  shows "map_get (js_BootTransitions st) (bt_Key t) = None"
proof (rule ccontr)
  assume "map_get (js_BootTransitions st) (bt_Key t) \<noteq> None"
  then obtain old where "map_get (js_BootTransitions st) (bt_Key t) = Some old" by blast
  note mem = map_get_mem [OF this]
  obtain hi where hi: "generation_loop (bb_Action q) 0 (js_BootTransitions st) = Inr hi" "hi \<noteq> - 1"
    and v: "HardwareAction_Validate (bb_Action q) = None" and rq: "request_transition sha q (hi + 1) = Inr t"
    using assms(2) by (auto simp: begin_transition_def split: if_splits)
  have t: "bt_Key t = BootTransitionKey (bb_Action q) (hi + 1)"
    using rq by (auto simp: request_transition_def Let_def)
  have old: "bt_Key old = bt_Key t" "BootTransition_Validate sha old = None"
    using assms(1) mem by (auto simp: loaded_ok_def)
  have eq: "same_key_scope (bt_Action old) (bb_Action q) \<and> bt_Generation old = hi + 1"
    using BootTransitionKey_inj [OF transition_validated(1) [OF old(2)] v]
      transition_validated(3) [OF old(2), symmetric] old(1) t by metis
  then have "sameBootTransitionScope (bt_Action old) (bb_Action q)"
    using assms(3) mem by (auto simp: scopes_agree_def)
  then have "bt_Generation old \<le> hi" using generation_loop_Inr [OF hi(1)] mem by auto
  moreover have "hi < hi + 1"
    using hi(2) unatSuc [of hi] by (simp add: word_less_nat_alt eq_neg_iff_add_eq_0 add.commute)
  ultimately show False using eq by simp
qed

text \<open>A write of the hardware adapter only advances transitions, where actions that share a key scope are
  of one scope.\<close>

lemma run_boot_op_forward:
  assumes "map_get (js_BootTransitions (lane_journal_of s)) k = Some t"
    and "\<forall>fault q. op = BeginOp fault q \<longrightarrow> scopes_agree (js_BootTransitions (lane_journal_of s)) (bb_Action q)"
  shows "\<exists>t'. map_get (js_BootTransitions (lane_journal_of (run_boot_op e op s))) k = Some t' \<and> transition_advances t t'"
proof (cases op)
  case (BeginOp fault q)
  obtain b s' where b: "Store_BeginBootTransition e fault q s = (b, s')" by fastforce
  show ?thesis
  proof (cases "lane_journal_of s' = lane_journal_of s")
    case True
    then show ?thesis using assms(1) b transition_advances_refl by (auto simp: BeginOp)
  next
    case False
    then obtain new where new: "add_transition (le_sha256 e) q (lane_journal_of s) = Inr (new, lane_journal_of s')"
      using file_journal.beginBoot_law [OF b] by blast
    have "Store_load e fault s = Inr (lane_journal_of s)"
      using b False Store_load_Inr [of e fault s]
      by (auto simp: Store_BeginBootTransition_def split: sum.splits)
    then have "loaded_ok (le_sha256 e) (lane_journal_of s) = None"
      using assms(1) by (auto simp: Store_load_def lane_journal_of_def newJournalState_def split: if_splits option.splits)
    moreover have "begin_transition (le_sha256 e) (js_BootTransitions (lane_journal_of s)) q = Inr new"
      and "js_BootTransitions (lane_journal_of s') = map_put (bt_Key new) new (js_BootTransitions (lane_journal_of s))"
      using new unfolding add_transition_def by (auto dest!: arg_cong [where f = js_BootTransitions])
    ultimately show ?thesis
      using begin_is_fresh [of "le_sha256 e" "lane_journal_of s" q new] assms b transition_advances_refl
      by (auto simp: BeginOp)
  qed
next
  case (PutOp fault new)
  obtain r s' where r: "Store_PutBootTransition e fault new s = (r, s')" by fastforce
  then show ?thesis
    using file_journal.putBoot_law [OF r] put_transition_advances assms(1) transition_advances_refl
    by (auto simp: PutOp)
qed

section \<open>Merging\<close>

lemma project_progress_active: "\<not> IsTerminal (project_progress durable local)"
  by (simp add: project_progress_def Let_def IsTerminal_def terminal_status_def transition_status_defs)

lemma merge_advances:
  assumes "MergeBootTransitionProgress sha durable local = Inr merged"
  shows "\<not> IsTerminal merged" and "transition_advances durable merged" and "BootTransition_Validate sha merged = None"
  using assms project_progress_active update_advances
  by (auto simp: MergeBootTransitionProgress_def IsTerminal_def split: if_splits)

section \<open>Reading back what was written\<close>

lemma loaded_ok_None:
  "loaded_ok sha st = None \<longleftrightarrow>
     (\<forall>(k, a) \<in> set (js_Attempts st). k = at_Key a \<and> validateAttempt sha a = None
        \<and> validateAttemptJournalBindings sha a (js_BootTransitions st) = None)
     \<and> (\<forall>(k, t) \<in> set (js_BootTransitions st). k = bt_Key t \<and> BootTransition_Validate sha t = None)"
  by (simp add: loaded_ok_def first_err_None case_prod_beta ball_conj_distrib ball_Un) blast

lemma bindings_None:
  "validateAttemptJournalBindings sha a m = None \<longleftrightarrow>
     (\<forall>outcome \<in> {at_PreObservationTransition a, at_ExecutionTransition a, at_PostObservationTransition a,
        at_ReconciliationTransition a}. outcome_binding_ok sha m outcome = None)"
  by (auto simp: validateAttemptJournalBindings_def)

lemma map_put_subset: "x \<in> set (map_put k v m) \<Longrightarrow> x = (k, v) \<or> x \<in> set m"
  unfolding map_put_def by (induction m) (auto split: if_splits)

text \<open>An outcome that an attempt refers to belongs to a terminal transition, so a write that changes no
  terminal transition keeps the reference.\<close>

lemma binding_kept:
  assumes "outcome_binding_ok sha m outcome = None"
    and "\<And>t. map_get m k = Some t \<Longrightarrow> IsTerminal t \<Longrightarrow> new = t"
  shows "outcome_binding_ok sha (map_put k new m) outcome = None"
proof -
  have terminal: "IsTerminal t" if "Outcome sha t = Inr x" for t x
    using that by (auto simp: Outcome_def Reference_def split: if_splits)
  show ?thesis
    using assms terminal by (fastforce simp: outcome_binding_ok_def split: if_splits option.splits sum.splits)
qed

lemma transition_put_loads:
  assumes ok: "loaded_ok sha st = None" and v: "BootTransition_Validate sha new = None"
    and kept: "\<And>t. map_get (js_BootTransitions st) (bt_Key new) = Some t \<Longrightarrow> IsTerminal t \<Longrightarrow> new = t"
  shows "loaded_ok sha (st\<lparr>js_BootTransitions := map_put (bt_Key new) new (js_BootTransitions st)\<rparr>) = None"
  using ok v binding_kept [OF _ kept] map_put_subset [of _ "bt_Key new" new "js_BootTransitions st"]
  unfolding loaded_ok_None bindings_None by fastforce

lemma request_transition_valid: "request_transition sha q g = Inr t \<Longrightarrow> BootTransition_Validate sha t = None"
  by (auto simp: request_transition_def Let_def)

lemma writes_load_back:
  assumes ok: "loaded_ok sha st = None"
  shows "validateAttempt sha a = None \<Longrightarrow> put_attempt sha a st = Inr st' \<Longrightarrow> loaded_ok sha st' = None"
    and "BootTransition_Validate sha t = None \<Longrightarrow> put_transition sha t st = Inr st' \<Longrightarrow> loaded_ok sha st' = None"
    and "add_transition sha q st = Inr (t, st') \<Longrightarrow> scopes_agree (js_BootTransitions st) (bb_Action q) \<Longrightarrow> loaded_ok sha st' = None"
proof -
  show "loaded_ok sha st' = None" if "validateAttempt sha a = None" "put_attempt sha a st = Inr st'"
    using ok that map_put_subset [of _ "at_Key a" a "js_Attempts st"]
    unfolding loaded_ok_None put_attempt_Inr by fastforce
  show "loaded_ok sha st' = None" if v: "BootTransition_Validate sha t = None" and p: "put_transition sha t st = Inr st'"
  proof -
    obtain old where old: "map_get (js_BootTransitions st) (bt_Key t) = Some old" "validBootTransitionUpdate sha old t = None"
      and st': "st' = st\<lparr>js_BootTransitions := map_put (bt_Key t) t (js_BootTransitions st)\<rparr>"
      using p by (auto simp: put_transition_def split: option.splits)
    show ?thesis
      unfolding st' using update_advances [OF old(2)] old(1)
      by (intro transition_put_loads [OF ok v]) (auto simp: transition_advances_def)
  qed
  show "loaded_ok sha st' = None"
    if p: "add_transition sha q st = Inr (t, st')" and scope: "scopes_agree (js_BootTransitions st) (bb_Action q)"
  proof -
    have b: "begin_transition sha (js_BootTransitions st) q = Inr t"
      and st': "st' = st\<lparr>js_BootTransitions := map_put (bt_Key t) t (js_BootTransitions st)\<rparr>"
      using p by (auto simp: add_transition_def)
    have "BootTransition_Validate sha t = None"
      using b by (auto simp: begin_transition_def request_transition_valid split: if_splits)
    then show ?thesis
      unfolding st' using begin_is_fresh [OF ok b scope] by (intro transition_put_loads [OF ok]) auto
  qed
qed

section \<open>The stores call by call\<close>

text \<open>What a sequence of calls needs so that the file store can follow the memory store: every journal on
  the way can be encoded and stays within the size limit, and a new boot transition does not share its key
  with one of another scope.\<close>

fun calls_fit :: "lane_env \<Rightarrow> journal_call list \<Rightarrow> MemoryStore \<Rightarrow> bool" where
  "calls_fit e [] m \<longleftrightarrow> True"
| "calls_fit e (c # cs) m \<longleftrightarrow>
     (let m' = snd (memory_call (le_sha256 e) c m) in
      (case c of CallBeginBootTransition q \<Rightarrow> scopes_agree (ms_bootTransitions m) (bb_Action q) | _ \<Rightarrow> True)
      \<and> journal_encodes (memory_journal_of m') \<and> le_size e (memory_journal_of m') \<le> maximumLaneJournalBytes
      \<and> calls_fit e cs m')"

definition stores_agree :: "lane_env \<Rightarrow> lane_store \<Rightarrow> MemoryStore \<Rightarrow> bool" where
  "stores_agree e s m \<longleftrightarrow> ls_open s \<and> Store_load e None s = Inr (memory_journal_of m)"

lemma stores_agree_facts:
  assumes "stores_agree e s m"
  shows "requireOpen s = None" and "Store_load e None s = Inr (memory_journal_of m)"
    and "loaded_ok (le_sha256 e) (memory_journal_of m) = None"
proof -
  have "loaded_ok (le_sha256 e) newJournalState = None" by (simp add: loaded_ok_def newJournalState_def)
  then show "requireOpen s = None" "Store_load e None s = Inr (memory_journal_of m)"
    "loaded_ok (le_sha256 e) (memory_journal_of m) = None"
    using assms by (auto simp: stores_agree_def requireOpen_def Store_load_def split: option.splits if_splits)
qed

lemma Store_save_path:
  "Store_save f st s = (r, s') \<Longrightarrow> fs_path (ls_file s') = fs_path (ls_file s) \<or> fs_path (ls_file s') \<noteq> None"
  using FileStore_Save_path [of "encode_fault st f" st "ls_file s"] by (auto simp: Store_save_def split: prod.splits)

lemma save_agrees:
  assumes "ls_open s" and "loaded_ok (le_sha256 e) st = None" and "journal_encodes st"
    and "le_size e st \<le> maximumLaneJournalBytes" and "st = memory_journal_of m"
  obtains s' where "Store_save None st s = (None, s')" and "stores_agree e s' m"
  using assms
  by (auto simp: Store_save_def FileStore_Save_def save_steps_def encode_fault_def stores_agree_def Store_load_def fail_if_def)

definition memory_of :: "journalState \<Rightarrow> MemoryStore" where
  "memory_of st = \<lparr>ms_attempts = js_Attempts st, ms_bootTransitions = js_BootTransitions st\<rparr>"

lemma memory_journal_inverse [simp]: "memory_journal_of (memory_of st) = st"
  by (simp add: memory_of_def memory_journal_of_def)

text \<open>The bodies of the two stores, one against the other.\<close>

lemma Memory_Put_writes:
  "Memory_Put sha a m = (case orFail (validateAttempt sha a) (put_attempt sha a (memory_journal_of m)) of
     Inl err \<Rightarrow> (Some err, m) | Inr st \<Rightarrow> (None, memory_of st))"
  by (simp add: Memory_Put_def put_attempt_def memory_journal_of_def memory_of_def fail_if_def orFail_def Let_def
      split: option.split)

lemma Memory_PutBootTransition_writes:
  "Memory_PutBootTransition sha t m =
     (case orFail (BootTransition_Validate sha t) (put_transition sha t (memory_journal_of m)) of
        Inl err \<Rightarrow> (Some err, m) | Inr st \<Rightarrow> (None, memory_of st))"
  by (simp add: Memory_PutBootTransition_def put_transition_def memory_journal_of_def memory_of_def orFail_def
      split: option.split)

lemma Memory_BeginBootTransition_writes:
  "Memory_BeginBootTransition sha q m = (case add_transition sha q (memory_journal_of m) of
     Inl err \<Rightarrow> (Inl err, m) | Inr (t, st) \<Rightarrow> (Inr t, memory_of st))"
  by (simp add: Memory_BeginBootTransition_def add_transition_def memory_journal_of_def memory_of_def split: sum.split)

lemma file_call_agrees:
  assumes agree: "stores_agree e s m" and "calls_fit e (c # cs) m"
    and call: "memory_call (le_sha256 e) c m = (r, m')"
  shows "\<exists>s'. file_call e None c s = (r, s') \<and> stores_agree e s' m'"
proof -
  note f = stores_agree_facts [OF agree]
  have opened: "ls_open s" using agree by (simp add: stores_agree_def)
  have fits: "journal_encodes (memory_journal_of m')" "le_size e (memory_journal_of m') \<le> maximumLaneJournalBytes"
    and scope: "\<And>q. c = CallBeginBootTransition q \<Longrightarrow> scopes_agree (ms_bootTransitions m) (bb_Action q)"
    using assms(2) call by (auto simp: Let_def)
  note save = save_agrees [OF opened _ fits refl]
  note boot = memory_journal_of_def
  show ?thesis
  proof (cases c)
    case (CallPut a)
    show ?thesis
    proof (cases "orFail (validateAttempt (le_sha256 e) a) (put_attempt (le_sha256 e) a (memory_journal_of m))")
      case (Inl err)
      then show ?thesis
        using CallPut call f agree by (auto simp: Memory_Put_writes Store_Put_def orFail_def split: option.splits)
    next
      case (Inr st)
      have m': "memory_journal_of m' = st" "r = write_answer None" using Inr CallPut call by (auto simp: Memory_Put_writes)
      have p: "validateAttempt (le_sha256 e) a = None" "put_attempt (le_sha256 e) a (memory_journal_of m) = Inr st"
        using Inr by (auto simp: orFail_def split: option.splits)
      obtain s' where "Store_save None st s = (None, s')" "stores_agree e s' m'"
        using save writes_load_back(1) [OF f(3) p] m'(1) by metis
      then show ?thesis using CallPut m'(2) p f by (simp add: Store_Put_def)
    qed
  next
    case (CallPutBootTransition t)
    show ?thesis
    proof (cases "orFail (BootTransition_Validate (le_sha256 e) t) (put_transition (le_sha256 e) t (memory_journal_of m))")
      case (Inl err)
      then show ?thesis using CallPutBootTransition call f agree
        by (auto simp: Memory_PutBootTransition_writes Store_PutBootTransition_def orFail_def split: option.splits)
    next
      case (Inr st)
      have m': "memory_journal_of m' = st" "r = write_answer None"
        using Inr CallPutBootTransition call by (auto simp: Memory_PutBootTransition_writes)
      have p: "BootTransition_Validate (le_sha256 e) t = None" "put_transition (le_sha256 e) t (memory_journal_of m) = Inr st"
        using Inr by (auto simp: orFail_def split: option.splits)
      obtain s' where "Store_save None st s = (None, s')" "stores_agree e s' m'"
        using save writes_load_back(2) [OF f(3) p] m'(1) by metis
      then show ?thesis using CallPutBootTransition m'(2) p f by (simp add: Store_PutBootTransition_def)
    qed
  next
    case (CallBeginBootTransition q)
    show ?thesis
    proof (cases "add_transition (le_sha256 e) q (memory_journal_of m)")
      case (Inl err)
      then show ?thesis using CallBeginBootTransition call f agree
        by (auto simp: Memory_BeginBootTransition_writes Store_BeginBootTransition_def)
    next
      case (Inr begun)
      obtain t st where t: "begun = (t, st)" by fastforce
      have m': "memory_journal_of m' = st" "r = read_answer Begun (Inr t)"
        using Inr t CallBeginBootTransition call by (auto simp: Memory_BeginBootTransition_writes)
      have "scopes_agree (js_BootTransitions (memory_journal_of m)) (bb_Action q)"
        using scope [OF CallBeginBootTransition] by (simp add: boot)
      then obtain s' where "Store_save None st s = (None, s')" "stores_agree e s' m'"
        using save writes_load_back(3) [OF f(3) Inr [unfolded t]] m'(1) by metis
      then show ?thesis using CallBeginBootTransition m'(2) Inr t f by (simp add: Store_BeginBootTransition_def)
    qed
  qed (use call f agree in \<open>auto simp: Store_Get_def Memory_Get_def Store_GetBootTransition_def Memory_GetBootTransition_def
      Store_IncompleteBootTransitions_def Memory_IncompleteBootTransitions_def Store_HasQuarantinedBootTransition_def
      Memory_HasQuarantinedBootTransition_def boot\<close>)
qed

lemma file_calls_agree:
  assumes "stores_agree e s m" and "calls_fit e cs m" and "memory_calls (le_sha256 e) cs m = (rs, m')"
  shows "\<exists>s'. file_calls e cs s = (rs, s') \<and> stores_agree e s' m'"
  using assms
proof (induction cs arbitrary: s m rs)
  case (Cons c cs)
  obtain r m1 where call: "memory_call (le_sha256 e) c m = (r, m1)" by fastforce
  obtain s1 where s1: "file_call e None c s = (r, s1)" "stores_agree e s1 m1"
    using file_call_agrees [OF Cons.prems(1,2) call] by blast
  obtain rs1 where "memory_calls (le_sha256 e) cs m1 = (rs1, m')" and rs: "rs = r # rs1"
    using Cons.prems(3) call by (cases "memory_calls (le_sha256 e) cs m1") auto
  moreover have "calls_fit e cs m1" using Cons.prems(2) call by (simp add: Let_def)
  ultimately obtain s2 where "file_calls e cs s1 = (rs1, s2)" "stores_agree e s2 m'"
    using Cons.IH [OF s1(2)] by blast
  then show ?case using s1(1) rs by simp
qed auto

end
