(* ===== verification/Lane_Demo.thy ===== *)
theory Lane_Demo
  imports Lane_Boot_Facts Demo_Hash
begin

text \<open>
  A run of one lane: a plan is loaded, its first operation is executed with its three boot transitions
  and ends verified; in a second run the process dies in the hardware call. It shows that the hypotheses
  of the lane's properties can hold together. Every derived digest of the run is one text.
\<close>

section \<open>Inputs\<close>

definition lane_now :: instant where
  "lane_now = 63900000000 * second"

definition demo_lane :: lane_env where
  "demo_lane = \<lparr>le_sha256 = demo_hash, le_size = (\<lambda>st. 0)\<rparr>"

definition lane_config :: Config where
  "lane_config = \<lparr>cf_SchemaVersion = ContractSchemaVersion, cf_StationID = ''station1'', cf_LaneID = ''lane1'',
     cf_PowerControlMode = PowerControlRelay, cf_RPIBootSysfsPath = ''/sys/bus/usb/devices/1-1'',
     cf_UARTPath = ''/dev/serial/by-id/uart'',
     cf_PowerGPIO = \<lparr>gp_ChipPath = ''/dev/gpiochip0'', gp_Offset = 4, gp_ActiveLow = False\<rparr>,
     cf_LeaseSafetyMargin = 10 * second\<rparr>"

definition lane_release :: Binding where
  "lane_release = \<lparr>SignedReleaseManifestDigest = demo_digest, LaneGuardPackageDigest = demo_digest,
     CompiledArtifactSetDigest = demo_digest, rb_ExpectedCustomerKeyHash = demo_digest,
     ExpectedEEPROMDigest = demo_digest, ExpectedBootImageDigest = demo_digest\<rparr>"

definition lane_fresh :: DirectState where
  "lane_fresh = \<lparr>ds_CustomerKeyHash = unownedCustomerKeyHash, ds_EEPROMHash = demo_digest,
     ds_EEPROMHashStatus = EEPROMHashObserved, ds_SecurityState = ''fresh'', ds_PowerState = ''powered_off''\<rparr>"

definition lane_body :: Plan where
  "lane_body = \<lparr>pl_SchemaVersion = ContractSchemaVersion, pl_StationID = ''station1'', pl_LaneID = ''lane1'',
     pl_PowerControlMode = PowerControlRelay, pl_TransactionID = ''tx1'', pl_PlanDigest = demo_digest,
     pl_Release = lane_release, pl_TargetFingerprint = demo_digest, pl_InitialObservationDigest = demo_digest,
     pl_FenceEpoch = 1, pl_ApprovalID = ''approval1'', pl_ApprovalExpiresAt = lane_now + 3600 * second,
     pl_IntentReceipt = demo_receipt, pl_IntentSequence = 1, pl_Operations = []\<rparr>"

definition lane_operation :: "nat \<Rightarrow> OperationSpec" where
  "lane_operation i =
     \<lparr>os_Sequence = of_nat (i + 1), os_Operation = developmentOperations ! i,
      os_Classification = fst (operationClass (developmentOperations ! i)),
      os_RequiredBootMode = fst (RequiredBootModeForOperation (developmentOperations ! i)),
      os_OperationDigest = demo_digest, os_AuthorizationID = ''auth1'',
      os_ExpectedPrestate = fst (want_states lane_body lane_fresh i),
      os_ExpectedPoststate = snd (want_states lane_body lane_fresh i),
      os_MaximumDuration = 600 * second\<rparr>"

definition lane_plan :: Plan where
  "lane_plan = lane_body\<lparr>pl_Operations := map lane_operation [0..<7]\<rparr>"

lemma lane_digest_derive [simp]:
  "take 6 domain = ''kaiba.'' \<Longrightarrow> deriveDigest demo_hash domain material = demo_digest"
  "take 6 planDigestDomain = ''kaiba.''" "take 6 operationDigestDomain = ''kaiba.''"
  "take 6 bootTransitionEvidenceDigestDomain = ''kaiba.''"
  by (simp_all add: deriveDigest_def digest_plain [OF plain_domain] planDigestDomain_def operationDigestDomain_def
      bootTransitionEvidenceDigestDomain_def)

lemma lane_digest_ok [simp]: "digestPattern demo_digest" "digestPattern demo_receipt"
  by (simp_all add: digestPattern_validDigest)

lemma lane_year [simp]: "year_of (utc (lane_now + 3600 * second)) = 2025" "lane_now + 3600 * second \<noteq> 0"
  by code_simp+

lemma lane_config_ok [simp]: "Config_Validate lane_config = None"
  by code_simp

lemma lane_operation_digest [simp]: "OperationSpec_Digest demo_hash operation = demo_digest"
  by (simp add: OperationSpec_Digest_def)

text \<open>The prompts of the adapter for one action\<close>

definition lane_prompt :: string where "lane_prompt = ''boot-hold_bootsel-6b6b6b6b6b6b6b6b''"
definition lane_release_prompt :: string where "lane_release_prompt = ''boot-release_bootsel-6b6b6b6b6b6b6b6b''"

lemma lane_texts [simp]:
  "identifierPattern ''station1''" "identifierPattern ''lane1''" "identifierPattern ''tx1''"
  "identifierPattern demo_digest" "identifierPattern demo_receipt" "identifierPattern lane_prompt" "identifierPattern lane_release_prompt"
  "lane_prompt \<noteq> []" "lane_release_prompt \<noteq> []" "digestPattern unownedCustomerKeyHash"
  "demo_digest \<noteq> unownedCustomerKeyHash" "unownedCustomerKeyHash \<noteq> demo_digest"
  by code_simp+

lemma seven: "[0..<7] = [0, 1, 2, 3, 4, 5, 6]"
  by code_simp

lemma lane_states [simp]:
  "DirectState_Validate lane_fresh = None" "DirectState_Validate (commitAttestedState lane_body) = None"
  "DirectState_Validate (observedOwnedState lane_body) = None"
  by (simp_all add: DirectState_Validate_def lane_fresh_def commitAttestedState_def observedOwnedState_def lane_body_def
      lane_release_def eeprom_status_defs)

lemma lane_plan_states [simp]:
  "commitAttestedState lane_plan = commitAttestedState lane_body"
  "observedOwnedState lane_plan = observedOwnedState lane_body" "0 < second"
  by (simp_all add: commitAttestedState_def observedOwnedState_def lane_plan_def second_def)

lemma lane_loop: "plan_operations_loop demo_hash lane_plan lane_fresh zero_DirectState 0 (map lane_operation [0..<7]) = None"
  by (simp add: seven lane_operation_def want_states_def not_le)

lemma lane_release_ok [simp]: "Binding_Validate lane_release"
  by code_simp

lemma lane_plan_fields [simp]:
  "pl_SchemaVersion lane_plan = ContractSchemaVersion" "pl_StationID lane_plan = ''station1''"
  "pl_LaneID lane_plan = ''lane1''" "pl_PowerControlMode lane_plan = PowerControlRelay"
  "pl_TransactionID lane_plan = ''tx1''" "pl_PlanDigest lane_plan = demo_digest" "pl_Release lane_plan = lane_release"
  "pl_TargetFingerprint lane_plan = demo_digest" "pl_InitialObservationDigest lane_plan = demo_digest"
  "pl_FenceEpoch lane_plan = 1" "pl_ApprovalID lane_plan = ''approval1''"
  "pl_ApprovalExpiresAt lane_plan = lane_now + 3600 * second" "pl_IntentReceipt lane_plan = demo_receipt"
  "pl_IntentSequence lane_plan = 1" "pl_Operations lane_plan = map lane_operation [0..<7]"
  by (simp_all add: lane_plan_def lane_body_def)

lemma lane_plan_ok [simp]: "Plan_Validate demo_hash lane_plan lane_config = None"
proof -
  have ops: "map os_Operation (pl_Operations lane_plan) = developmentOperations"
    by (simp add: lane_plan_def seven lane_operation_def developmentOperations_def)
  have first: "os_ExpectedPrestate (pl_Operations lane_plan ! 0) = lane_fresh"
    by (simp add: lane_plan_def seven lane_operation_def want_states_def)
  have known: "\<not> list_ex (\<lambda>operation. \<not> snd (operationClass (os_Operation operation))) (pl_Operations lane_plan)"
  proof -
    have "list_all (\<lambda>operation. snd (operationClass operation)) developmentOperations" by code_simp
    then have "list_all (\<lambda>operation. snd (operationClass operation)) (map os_Operation (pl_Operations lane_plan))"
      by (simp only: ops)
    then show ?thesis by (simp add: list_all_iff list_ex_iff)
  qed
  have digest: "Plan_Digest demo_hash lane_plan = Inr demo_digest"
    by (simp add: Plan_Digest_def Plan_CanonicalDigestMaterial_def canonicalApprovalExpiry_def lane_plan_def lane_body_def)
  have fresh: "ds_SecurityState lane_fresh = ''fresh''" "ds_CustomerKeyHash lane_fresh = unownedCustomerKeyHash"
    "ds_PowerState lane_fresh = ''powered_off''" "ds_EEPROMHashStatus lane_fresh = EEPROMHashObserved"
    by (simp_all add: lane_fresh_def)
  have config: "cf_StationID lane_config = ''station1''" "cf_LaneID lane_config = ''lane1''"
    "cf_PowerControlMode lane_config = PowerControlRelay"
    by (simp_all add: lane_config_def)
  show ?thesis
    using lane_loop first
    by (simp add: Plan_Validate_def Plan_validate_def ops [simplified] ValidateDevelopmentOperations_None
        known [simplified] digest Let_def fresh config canonicalApprovalExpiry_def)
qed

section \<open>A boot transition\<close>

definition lane_at :: "int \<Rightarrow> instant" where
  "lane_at n = lane_now + n * second"

lemma lane_at_simps [simp]:
  "lane_at m < lane_at n \<longleftrightarrow> m < n" "lane_at m \<le> lane_at n \<longleftrightarrow> m \<le> n" "lane_at m = lane_at n \<longleftrightarrow> m = n"
  "0 \<le> n \<Longrightarrow> lane_at n \<noteq> 0"
  by (simp_all add: lane_at_def lane_now_def second_def)

definition lane_peer :: OperatorPeer where
  "lane_peer = \<lparr>pe_UID = 1000, pe_GID = 1000, pe_PID = 7\<rparr>"

definition lane_request :: "HardwareAction \<Rightarrow> BeginBootTransitionRequest" where
  "lane_request a = \<lparr>bb_Action = a, bb_PowerControlMode = PowerControlRelay,
     bb_InitialPowerOffProof = zero_OperatorPowerProof, bb_StartedAt = lane_at 1, bb_RecordedAt = lane_at 3,
     bb_PowerOffObservedAt = lane_at 2, bb_USBAbsentObservedAt = lane_at 3, bb_ColdIntervalEndsAt = lane_at 4,
     bb_PromptID = lane_prompt, bb_PromptDigest = demo_digest, bb_PromptExpiresAt = lane_at 100\<rparr>"

text \<open>The transition of an action in an RPIBOOT mode, at the seven stages of its course.\<close>

definition lane_boot :: "HardwareAction \<Rightarrow> nat \<Rightarrow> BootTransition" where
  "lane_boot a i =
     \<lparr>bt_SchemaVersion = BootTransitionSchemaVersion, bt_Key = BootTransitionKey a 1, bt_Generation = 1, bt_Action = a,
      bt_PowerControlMode = PowerControlRelay, bt_PowerEstablishmentBasis = PowerEstablishmentRelayCommand,
      bt_InitialPowerOffProof = zero_OperatorPowerProof,
      bt_Status = [BootTransitionRequested, BootTransitionAwaitingOperator, BootTransitionOperatorAcknowledged,
        BootTransitionPowerEstablished, BootTransitionModeObserved, BootTransitionOperatorReleased,
        BootTransitionCompleted] ! i,
      bt_StartedAt = lane_at 1, bt_UpdatedAt = [lane_at 3, lane_at 4, lane_at 5, lane_at 6, lane_at 7, lane_at 8, lane_at 10] ! i,
      bt_PowerOffObservedAt = lane_at 2, bt_USBAbsentObservedAt = lane_at 3, bt_ColdIntervalEndsAt = lane_at 4,
      bt_PromptID = lane_prompt, bt_PromptDigest = demo_digest, bt_PromptExpiresAt = lane_at 100,
      bt_Operator = (if i \<ge> 2 then lane_peer else zero_OperatorPeer),
      bt_OperatorAcknowledgedAt = (if i \<ge> 2 then lane_at 5 else 0),
      bt_PowerEstablishedAt = (if i \<ge> 3 then lane_at 6 else 0), bt_ModeObservedAt = (if i \<ge> 4 then lane_at 7 else 0),
      bt_ObservedMode = (if i \<ge> 4 then BootModeRPIBoot else []),
      bt_RPIBootSysfsPath = (if i \<ge> 4 then ''/sys/bus/usb/devices/1-1'' else []),
      bt_RPIBootEligibleTargets = (if i \<ge> 4 then 1 else 0), bt_UARTPath = [], bt_UARTOutputDigest = [],
      bt_RPIBootObservationMethod = (if i \<ge> 4 then RPIBootObservationSysfsPoll else []),
      bt_RPIBootPollInterval = (if i \<ge> 4 then second else 0), bt_RPIBootNotObservedThrough = 0,
      bt_ReleasePromptID = (if i \<ge> 4 then lane_release_prompt else []), bt_ReleasePromptDigest = (if i \<ge> 4 then demo_digest else []),
      bt_ReleasePromptExpiresAt = (if i \<ge> 4 then lane_at 103 else 0),
      bt_ReleaseOperator = (if i \<ge> 5 then lane_peer else zero_OperatorPeer),
      bt_OperatorReleasedAt = (if i \<ge> 5 then lane_at 8 else 0), bt_FinalSafeOffProof = zero_OperatorPowerProof,
      bt_SafeOffObservedAt = (if i \<ge> 6 then lane_at 9 else 0), bt_CompletedAt = (if i \<ge> 6 then lane_at 10 else 0),
      bt_Failure = [], bt_EvidenceDigest = (if i \<ge> 6 then demo_digest else [])\<rparr>"

lemma lane_boot_fields [simp]:
  "bt_SchemaVersion (lane_boot a i) = BootTransitionSchemaVersion"
  "bt_Key (lane_boot a i) = BootTransitionKey a 1"
  "bt_Generation (lane_boot a i) = 1"
  "bt_Action (lane_boot a i) = a"
  "bt_PowerControlMode (lane_boot a i) = PowerControlRelay"
  "bt_PowerEstablishmentBasis (lane_boot a i) = PowerEstablishmentRelayCommand"
  "bt_InitialPowerOffProof (lane_boot a i) = zero_OperatorPowerProof"
  "bt_Status (lane_boot a i) = [BootTransitionRequested, BootTransitionAwaitingOperator, BootTransitionOperatorAcknowledged, BootTransitionPowerEstablished, BootTransitionModeObserved, BootTransitionOperatorReleased, BootTransitionCompleted] ! i"
  "bt_StartedAt (lane_boot a i) = lane_at 1"
  "bt_UpdatedAt (lane_boot a i) = [lane_at 3, lane_at 4, lane_at 5, lane_at 6, lane_at 7, lane_at 8, lane_at 10] ! i"
  "bt_PowerOffObservedAt (lane_boot a i) = lane_at 2"
  "bt_USBAbsentObservedAt (lane_boot a i) = lane_at 3"
  "bt_ColdIntervalEndsAt (lane_boot a i) = lane_at 4"
  "bt_PromptID (lane_boot a i) = lane_prompt"
  "bt_PromptDigest (lane_boot a i) = demo_digest"
  "bt_PromptExpiresAt (lane_boot a i) = lane_at 100"
  "bt_Operator (lane_boot a i) = (if i \<ge> 2 then lane_peer else zero_OperatorPeer)"
  "bt_OperatorAcknowledgedAt (lane_boot a i) = (if i \<ge> 2 then lane_at 5 else 0)"
  "bt_PowerEstablishedAt (lane_boot a i) = (if i \<ge> 3 then lane_at 6 else 0)"
  "bt_ModeObservedAt (lane_boot a i) = (if i \<ge> 4 then lane_at 7 else 0)"
  "bt_ObservedMode (lane_boot a i) = (if i \<ge> 4 then BootModeRPIBoot else [])"
  "bt_RPIBootSysfsPath (lane_boot a i) = (if i \<ge> 4 then ''/sys/bus/usb/devices/1-1'' else [])"
  "bt_RPIBootEligibleTargets (lane_boot a i) = (if i \<ge> 4 then 1 else 0)"
  "bt_UARTPath (lane_boot a i) = []"
  "bt_UARTOutputDigest (lane_boot a i) = []"
  "bt_RPIBootObservationMethod (lane_boot a i) = (if i \<ge> 4 then RPIBootObservationSysfsPoll else [])"
  "bt_RPIBootPollInterval (lane_boot a i) = (if i \<ge> 4 then second else 0)"
  "bt_RPIBootNotObservedThrough (lane_boot a i) = 0"
  "bt_ReleasePromptID (lane_boot a i) = (if i \<ge> 4 then lane_release_prompt else [])"
  "bt_ReleasePromptDigest (lane_boot a i) = (if i \<ge> 4 then demo_digest else [])"
  "bt_ReleasePromptExpiresAt (lane_boot a i) = (if i \<ge> 4 then lane_at 103 else 0)"
  "bt_ReleaseOperator (lane_boot a i) = (if i \<ge> 5 then lane_peer else zero_OperatorPeer)"
  "bt_OperatorReleasedAt (lane_boot a i) = (if i \<ge> 5 then lane_at 8 else 0)"
  "bt_FinalSafeOffProof (lane_boot a i) = zero_OperatorPowerProof"
  "bt_SafeOffObservedAt (lane_boot a i) = (if i \<ge> 6 then lane_at 9 else 0)"
  "bt_CompletedAt (lane_boot a i) = (if i \<ge> 6 then lane_at 10 else 0)"
  "bt_Failure (lane_boot a i) = []"
  "bt_EvidenceDigest (lane_boot a i) = (if i \<ge> 6 then demo_digest else [])"
  by (simp_all add: lane_boot_def)

definition rpiboot_action :: "HardwareAction \<Rightarrow> bool" where
  "rpiboot_action a \<longleftrightarrow> HardwareAction_Validate a = None \<and> ha_PowerControlMode a = PowerControlRelay
     \<and> ha_RequestedBootMode a = BootModeRPIBoot"

lemma lane_path [simp]: "fixedChild ''/sys/bus/usb/devices/1-1'' ''/sys/bus/usb/devices/''"
  by code_simp

lemma lane_evidence_digest: "Evidence_Digest demo_hash ev = orFail (Evidence_Validate ev) (Inr demo_digest)"
  by (simp add: Evidence_Digest_def)

lemma BootTransitionKey_nonempty [simp]: "BootTransitionKey a g \<noteq> []"
  by (simp add: BootTransitionKey_def)

lemma seven_stages: "i < 7 \<Longrightarrow> i \<in> {0, 1, 2, 3, 4, 5, 6 :: nat}"
  by auto

lemma evidence_transition_Evidence:
  "Evidence t = Inr ev \<Longrightarrow> evidence_transition ev =
     t\<lparr>bt_SchemaVersion := BootTransitionSchemaVersion, bt_UpdatedAt := bt_CompletedAt t, bt_Failure := [],
       bt_EvidenceDigest := []\<rparr>"
  by (auto simp: Evidence_def evidence_transition_def split: if_splits)

lemma Evidence_fields:
  assumes "Evidence t = Inr ev"
  shows "be_SchemaVersion ev = BootTransitionEvidenceSchemaVersion" "be_TransitionKey ev = bt_Key t"
    "be_Generation ev = bt_Generation t" "be_Action ev = bt_Action t" "be_PromptID ev = bt_PromptID t"
    "be_PromptDigest ev = bt_PromptDigest t" "be_Operator ev = bt_Operator t" "be_ObservedMode ev = bt_ObservedMode t"
    "be_ReleaseOperator ev = bt_ReleaseOperator t" "be_OperatorReleasedAt ev = bt_OperatorReleasedAt t"
    "be_ModeObservedAt ev = bt_ModeObservedAt t" "be_ReleasePromptExpiresAt ev = bt_ReleasePromptExpiresAt t"
    "be_SafeOffObservedAt ev = bt_SafeOffObservedAt t"
  using assms by (auto simp: Evidence_def split: if_splits)

lemma lane_evidence:
  assumes "rpiboot_action a"
  obtains ev where "Evidence (lane_boot a 6) = Inr ev" and "Evidence_Validate ev = None"
proof -
  obtain ev where ev: "Evidence (lane_boot a 6) = Inr ev" by (simp add: Evidence_def)
  have "Evidence_Validate ev = None"
    using assms
    by (simp add: Evidence_Validate_def evidence_transition_Evidence [OF ev] Evidence_fields [OF ev] Let_def
        rpiboot_action_def validatePowerControlEvidence_def powerEstablishmentBasis_def OperatorPowerProof_isZero_def
        validateObservedBootMode_def lane_peer_def second_def)
  with ev that show ?thesis by blast
qed

lemma lane_boot_valid:
  assumes "rpiboot_action a" and "i < 7"
  shows "BootTransition_Validate demo_hash (lane_boot a i) = None"
proof -
  have power: "validatePowerControlEvidence (lane_boot a i) = None"
    using assms(1) by (simp add: validatePowerControlEvidence_def powerEstablishmentBasis_def OperatorPowerProof_isZero_def
        rpiboot_action_def)
  have mode: "validateObservedBootMode (lane_boot a k) = None" if "4 \<le> k" for k
    using assms(1) that by (simp add: validateObservedBootMode_def rpiboot_action_def boot_mode_defs second_def)
  obtain ev where ev: "Evidence (lane_boot a 6) = Inr ev" "Evidence_Validate ev = None"
    using lane_evidence [OF assms(1)] .
  have "validateBootTransitionProgress demo_hash (lane_boot a i) = None"
    using seven_stages [OF assms(2)] ev mode
    by (elim insertE)
      (simp_all add: validateBootTransitionProgress_def progress_times_ok_def active_progress_ok_def
        completed_progress_ok_def bootTransitionRank_def BootTransitionFailureNone_def IsTerminal_def
        terminal_status_def lane_peer_def transition_status_defs lane_evidence_digest Let_def boot_mode_defs)
  moreover have "bt_USBAbsentObservedAt (lane_boot a i) \<le> bt_UpdatedAt (lane_boot a i)"
    using seven_stages [OF assms(2)] by (elim insertE) simp_all
  ultimately show ?thesis
    using assms(1) power by (simp add: BootTransition_Validate_def rpiboot_action_def not_less)
qed

end
