(* ===== verification/Lane_Demo_Run.thy ===== *)
theory Lane_Demo_Run
  imports Lane_Demo
begin

text \<open>The demonstration run: the stages of a boot transition through the file store, and one executed
  operation.\<close>

section \<open>The store\<close>

definition good_journal :: "journalState \<Rightarrow> bool" where
  "good_journal st \<longleftrightarrow> loaded_ok demo_hash st = None \<and> journal_encodes st"

definition holds :: "lane_store \<Rightarrow> journalState \<Rightarrow> bool" where
  "holds s st \<longleftrightarrow> ls_open s \<and> lane_journal_of s = st \<and> good_journal st"

lemma new_journal_good [simp]: "good_journal newJournalState"
  by (simp add: good_journal_def newJournalState_def loaded_ok_def journal_encodes_def)

lemma first_holds: "holds first_store newJournalState"
  by (simp add: holds_def first_store_def lane_journal_of_def)

lemma holds_load: "holds s st \<Longrightarrow> Store_load demo_lane None s = Inr st"
  by (auto simp: holds_def Store_load_def lane_journal_of_def good_journal_def demo_lane_def split: option.splits)

lemma holds_save:
  assumes "holds s st" and "good_journal st'"
  obtains s' where "Store_save None st' s = (None, s')" and "holds s' st'"
  using assms
  by (auto simp: Store_save_def FileStore_Save_def save_steps_def encode_fault_def good_journal_def holds_def
      lane_journal_of_def)

lemma holds_open: "holds s st \<Longrightarrow> requireOpen s = None"
  by (simp add: holds_def requireOpen_def)

section \<open>Boot transitions in the store\<close>

definition with_boot :: "journalState \<Rightarrow> BootTransition \<Rightarrow> journalState" where
  "with_boot st t = st\<lparr>js_BootTransitions := js_BootTransitions st @ [(bt_Key t, t)]\<rparr>"

lemma update_new: "k \<notin> fst ` set m \<Longrightarrow> map_put k v m = m @ [(k, v)]"
  by (induction m) (auto simp: map_put_def)

lemma update_last: "k \<notin> fst ` set m \<Longrightarrow> map_put k v (m @ [(k, w)]) = m @ [(k, v)]"
  by (induction m) (auto simp: map_put_def)

lemma get_last: "k \<notin> fst ` set m \<Longrightarrow> map_get (m @ [(k, v)]) k = Some v"
  by (induction m) (auto simp: map_get_def)

lemma get_append: "map_get m k = Some v \<Longrightarrow> map_get (m @ m') k = Some v"
  by (simp add: map_get_def map_add_def)

lemma binding_append:
  "outcome_binding_ok sha m outcome = None \<Longrightarrow> outcome_binding_ok sha (m @ m') outcome = None"
  by (auto simp: outcome_binding_ok_def get_append split: if_splits option.splits)

lemma with_boot_good:
  assumes "good_journal st" and "BootTransition_Validate demo_hash t = None"
    and "list_all (\<lambda>x. time_marshals (utc x)) (transition_times t)"
  shows "good_journal (with_boot st t)"
  using assms binding_append
  by (fastforce simp: good_journal_def with_boot_def loaded_ok_def journal_encodes_def validateAttemptJournalBindings_def)

lemma lane_years: "list_all (\<lambda>x. time_marshals (utc x))
    [0, lane_at 0, lane_at 1, lane_at 2, lane_at 3, lane_at 4, lane_at 5, lane_at 6, lane_at 7, lane_at 8, lane_at 9,
     lane_at 10, lane_at 100, lane_at 103]"
  by code_simp

lemma lane_boot_times: "list_all (\<lambda>x. time_marshals (utc x)) (transition_times (lane_boot a i))" if "i < 7"
  using lane_years seven_stages [OF that]
  by (auto simp: transition_times_def proof_times_def zero_OperatorPowerProof_def)

lemma lane_boot_good: "good_journal st \<Longrightarrow> rpiboot_action a \<Longrightarrow> i < 7 \<Longrightarrow> good_journal (with_boot st (lane_boot a i))"
  by (intro with_boot_good lane_boot_valid lane_boot_times)

lemma lane_boot_update:
  assumes "rpiboot_action a" and "i < 6"
  shows "validBootTransitionUpdate demo_hash (lane_boot a i) (lane_boot a (i + 1)) = None"
proof -
  have v: "BootTransition_Validate demo_hash (lane_boot a i) = None" "BootTransition_Validate demo_hash (lane_boot a (i + 1)) = None"
    using lane_boot_valid assms by simp_all
  have "i \<in> {0, 1, 2, 3, 4, 5}" using assms(2) by auto
  then show ?thesis
    using v assms(1)
    by (elim insertE) (simp_all add: validBootTransitionUpdate_def transition_bindings_differ_def
      bootTransitionProgressIsPrefix_def OperatorPowerProof_isZero_def BootTransitionFailureNone_def IsTerminal_def
      terminal_status_def bootTransitionRank_def transition_status_defs rpiboot_action_def boot_mode_defs Let_def)
qed

lemma lane_boot_stored:
  assumes "rpiboot_action a" and "i < 6" and "holds s (with_boot st (lane_boot a i))" and "good_journal st"
    and "BootTransitionKey a 1 \<notin> fst ` set (js_BootTransitions st)"
  obtains s' where "Store_PutBootTransition demo_lane None (lane_boot a (i + 1)) s = (None, s')"
    and "holds s' (with_boot st (lane_boot a (i + 1)))"
proof -
  have new: "good_journal (with_boot st (lane_boot a (i + 1)))" using lane_boot_good assms by simp
  have "put_transition demo_hash (lane_boot a (i + 1)) (with_boot st (lane_boot a i)) = Inr (with_boot st (lane_boot a (i + 1)))"
    using lane_boot_update [OF assms(1,2)] get_last [OF assms(5)] update_last [OF assms(5)]
    by (simp add: put_transition_def with_boot_def)
  moreover obtain s' where s': "Store_save None (with_boot st (lane_boot a (i + 1))) s = (None, s')"
    "holds s' (with_boot st (lane_boot a (i + 1)))"
    using holds_save [OF assms(3) new] .
  ultimately have "Store_PutBootTransition demo_lane None (lane_boot a (i + 1)) s = (None, s')"
    using lane_boot_valid [OF assms(1), of "i + 1"] assms(2) holds_load [OF assms(3)] holds_open [OF assms(3)]
    by (simp add: Store_PutBootTransition_def demo_lane_def)
  then show ?thesis using that s'(2) by blast
qed

lemma lane_boot_put:
  assumes "rpiboot_action a" and "i < 6" and "holds s (with_boot st (lane_boot a i))" and "good_journal st"
    and "BootTransitionKey a 1 \<notin> fst ` set (js_BootTransitions st)"
  shows "holds (run_boot_op demo_lane (PutOp None (lane_boot a (i + 1))) s) (with_boot st (lane_boot a (i + 1)))"
  using lane_boot_stored [OF assms] by (metis run_boot_op.simps(2) snd_conv)

lemma lane_request_transition:
  assumes "rpiboot_action a"
  shows "request_transition demo_hash (lane_request a) 1 = Inr (lane_boot a 0)"
proof -
  have t: "lane_boot a 0 = \<lparr>bt_SchemaVersion = BootTransitionSchemaVersion, bt_Key = BootTransitionKey a 1, bt_Generation = 1, bt_Action = a,
    bt_PowerControlMode = PowerControlRelay, bt_PowerEstablishmentBasis = PowerEstablishmentRelayCommand,
    bt_InitialPowerOffProof = zero_OperatorPowerProof, bt_Status = BootTransitionRequested,
    bt_StartedAt = lane_at 1, bt_UpdatedAt = lane_at 3,
    bt_PowerOffObservedAt = lane_at 2, bt_USBAbsentObservedAt = lane_at 3, bt_ColdIntervalEndsAt = lane_at 4,
    bt_PromptID = lane_prompt, bt_PromptDigest = demo_digest, bt_PromptExpiresAt = lane_at 100,
    bt_Operator = zero_OperatorPeer, bt_OperatorAcknowledgedAt = 0, bt_PowerEstablishedAt = 0,
    bt_ModeObservedAt = 0, bt_ObservedMode = [], bt_RPIBootSysfsPath = [], bt_RPIBootEligibleTargets = 0,
    bt_UARTPath = [], bt_UARTOutputDigest = [], bt_RPIBootObservationMethod = [],
    bt_RPIBootPollInterval = 0, bt_RPIBootNotObservedThrough = 0, bt_ReleasePromptID = [],
    bt_ReleasePromptDigest = [], bt_ReleasePromptExpiresAt = 0, bt_ReleaseOperator = zero_OperatorPeer,
    bt_OperatorReleasedAt = 0, bt_FinalSafeOffProof = zero_OperatorPowerProof, bt_SafeOffObservedAt = 0,
    bt_CompletedAt = 0, bt_Failure = [], bt_EvidenceDigest = []\<rparr>"
    by (simp add: lane_boot_def)
  show ?thesis
    using lane_boot_valid [OF assms, of 0]
    by (simp add: request_transition_def Let_def lane_request_def powerEstablishmentBasis_def t)
qed

lemma lane_boot_begun:
  assumes "rpiboot_action a" and "holds s st" and "generation_loop a 0 (js_BootTransitions st) = Inr 0"
    and "BootTransitionKey a 1 \<notin> fst ` set (js_BootTransitions st)"
  obtains s' where "Store_BeginBootTransition demo_lane None (lane_request a) s = (Inr (lane_boot a 0), s')"
    and "holds s' (with_boot st (lane_boot a 0))"
proof -
  have g: "good_journal st" using assms(2) by (simp add: holds_def)
  have "request_transition demo_hash (lane_request a) 1 = Inr (lane_boot a 0)"
    using lane_request_transition [OF assms(1)] .
  then have add: "add_transition demo_hash (lane_request a) st = Inr (lane_boot a 0, with_boot st (lane_boot a 0))"
    using assms(1,3) update_new [OF assms(4)]
    by (simp add: add_transition_def begin_transition_def with_boot_def rpiboot_action_def lane_request_def)
  obtain s' where s': "Store_save None (with_boot st (lane_boot a 0)) s = (None, s')" "holds s' (with_boot st (lane_boot a 0))"
    using holds_save [OF assms(2) lane_boot_good [OF g assms(1), of 0]] by auto
  then have "Store_BeginBootTransition demo_lane None (lane_request a) s = (Inr (lane_boot a 0), s')"
    using add holds_load [OF assms(2)] holds_open [OF assms(2)]
    by (simp add: Store_BeginBootTransition_def demo_lane_def)
  then show ?thesis using that s'(2) by blast
qed

lemma lane_boot_begin:
  assumes "rpiboot_action a" and "holds s st" and "generation_loop a 0 (js_BootTransitions st) = Inr 0"
    and "BootTransitionKey a 1 \<notin> fst ` set (js_BootTransitions st)"
  shows "holds (run_boot_op demo_lane (BeginOp None (lane_request a)) s) (with_boot st (lane_boot a 0))"
  using lane_boot_begun [OF assms] by (metis run_boot_op.simps(1) snd_conv)

definition lane_ops :: "HardwareAction \<Rightarrow> boot_op list" where
  "lane_ops a = BeginOp None (lane_request a) # map (\<lambda>i. PutOp None (lane_boot a (i + 1))) [0..<6]"

lemma lane_ops_run:
  assumes "rpiboot_action a" and "holds s st" and "generation_loop a 0 (js_BootTransitions st) = Inr 0"
    and "BootTransitionKey a 1 \<notin> fst ` set (js_BootTransitions st)"
  shows "holds (run_boot_ops demo_lane (lane_ops a) s) (with_boot st (lane_boot a 6))"
proof -
  have g: "good_journal st" using assms(2) by (simp add: holds_def)
  have "holds (run_boot_ops demo_lane (BeginOp None (lane_request a) # map (\<lambda>i. PutOp None (lane_boot a (i + 1))) [0..<n]) s)
      (with_boot st (lane_boot a n))" if "n \<le> 6" for n
    using that
  proof (induction n)
    case 0
    then show ?case using lane_boot_begin [OF assms] by (simp add: run_boot_ops_def)
  next
    case (Suc n)
    then show ?case
      using lane_boot_put [OF assms(1) _ _ g assms(4), of n] by (simp add: run_boot_ops_def del: run_boot_op.simps)
  qed
  then show ?thesis by (simp add: lane_ops_def)
qed

section \<open>Actions and outcomes\<close>

definition lane_action :: "HardwarePhase \<Rightarrow> HardwareAction" where
  "lane_action phase = \<lparr>ha_SchemaVersion = BootTransitionActionSchemaVersion, ha_StationID = ''station1'',
     ha_LaneID = ''lane1'', ha_PowerControlMode = PowerControlRelay, ha_TransactionID = ''tx1'',
     ha_PlanDigest = demo_digest, ha_TargetFingerprint = demo_digest, ha_FenceEpoch = 1, ha_ApprovalID = ''approval1'',
     ha_IntentReceipt = demo_receipt, ha_IntentSequence = 1, ha_Sequence = 1,
     ha_Operation = OperationProgramCustomerKeyAndEEPROM, ha_OperationDigest = demo_digest,
     ha_AuthorizationID = ''auth1'', ha_Phase = phase, ha_OperationRequiredBootMode = BootModeRPIBoot,
     ha_RequestedBootMode = BootModeRPIBoot, ha_ReconciliationClaimID = [], ha_ReconciliationFenceEpoch = 0\<rparr>"

lemma lane_action_fields [simp]:
  "ha_PowerControlMode (lane_action phase) = PowerControlRelay" "ha_TransactionID (lane_action phase) = ''tx1''"
  "ha_PlanDigest (lane_action phase) = demo_digest" "ha_TargetFingerprint (lane_action phase) = demo_digest"
  "ha_FenceEpoch (lane_action phase) = 1" "ha_ApprovalID (lane_action phase) = ''approval1''"
  "ha_IntentReceipt (lane_action phase) = demo_receipt" "ha_IntentSequence (lane_action phase) = 1"
  "ha_Sequence (lane_action phase) = 1" "ha_Operation (lane_action phase) = OperationProgramCustomerKeyAndEEPROM"
  "ha_OperationDigest (lane_action phase) = demo_digest" "ha_Phase (lane_action phase) = phase"
  "ha_RequestedBootMode (lane_action phase) = BootModeRPIBoot"
  "ha_OperationRequiredBootMode (lane_action phase) = BootModeRPIBoot"
  by (simp_all add: lane_action_def)

abbreviation "lane_phases \<equiv> {HardwarePhasePreObservation, HardwarePhaseExecute, HardwarePhasePostObservation}"

lemma lane_operation_fields [simp]:
  "os_Sequence (lane_operation 0) = 1" "os_Operation (lane_operation 0) = OperationProgramCustomerKeyAndEEPROM"
  "os_RequiredBootMode (lane_operation 0) = BootModeRPIBoot" "os_OperationDigest (lane_operation 0) = demo_digest"
  "os_AuthorizationID (lane_operation 0) = ''auth1''" "os_ExpectedPrestate (lane_operation 0) = lane_fresh"
  "os_ExpectedPoststate (lane_operation 0) = commitAttestedState lane_body"
  "os_MaximumDuration (lane_operation 0) = 600 * second"
  by (simp_all add: lane_operation_def developmentOperations_def want_states_def RequiredBootModeForOperation_def
      OperationProgramCustomerKeyAndEEPROM_def OperationColdPowerCycle_def)

lemma lane_action_made:
  assumes "phase \<in> lane_phases"
  shows "makeHardwareAction lane_plan (lane_operation 0) phase None = Inr (lane_action phase)"
    and "rpiboot_action (lane_action phase)"
proof -
  have v: "HardwareAction_Validate (lane_action phase) = None"
    using assms by (auto simp: HardwareAction_Validate_def lane_action_def RequiredBootModeForOperation_def
        operation_defs phase_defs)
  show "makeHardwareAction lane_plan (lane_operation 0) phase None = Inr (lane_action phase)"
    using v assms by (auto simp: makeHardwareAction_def lane_action_def phase_defs)
  show "rpiboot_action (lane_action phase)" using v by (simp add: rpiboot_action_def)
qed

definition lane_outcome :: "HardwareAction \<Rightarrow> BootTransitionOutcome" where
  "lane_outcome a = (case Outcome demo_hash (lane_boot a 6) of Inr outcome \<Rightarrow> outcome | Inl err \<Rightarrow> zero_BootTransitionOutcome)"

lemma lane_outcome_facts:
  assumes "rpiboot_action a"
  shows "Outcome demo_hash (lane_boot a 6) = Inr (lane_outcome a)"
    and "ValidateForAction demo_hash (lane_outcome a) a = None"
    and "bo_Action (lane_outcome a) = a" and "bo_Reference (lane_outcome a) = make_reference (lane_boot a 6)"
    and "lane_outcome a \<noteq> zero_BootTransitionOutcome"
    and "list_all (\<lambda>x. time_marshals (utc x)) (outcome_times (lane_outcome a))"
proof -
  have v: "BootTransition_Validate demo_hash (lane_boot a 6) = None" using lane_boot_valid [OF assms] by simp
  have final: "IsTerminal (lane_boot a 6)" by (simp add: IsTerminal_def terminal_status_def)
  have pos: "0 \<le> bt_StartedAt (lane_boot a 6)" by (simp add: lane_at_def lane_now_def second_def)
  have len: "\<forall>m. length (demo_hash m) = 32" by (rule demo_hash_length)
  show o: "Outcome demo_hash (lane_boot a 6) = Inr (lane_outcome a)"
    using terminal_outcome [OF len v final pos] unfolding lane_outcome_def by (metis sum.simps(6))
  show va: "ValidateForAction demo_hash (lane_outcome a) a = None"
    using terminal_outcome [OF len v final pos] o by (metis Inr_inject lane_boot_fields(4))
  show "bo_Action (lane_outcome a) = a" using ValidateForAction_None [OF va] by simp
  obtain ev where ev: "Evidence (lane_boot a 6) = Inr ev" using lane_evidence [OF assms] by blast
  have rec: "lane_outcome a = \<lparr>bo_SchemaVersion = BootTransitionOutcomeSchemaVersion, bo_Action = a, bo_Generation = 1,
      bo_Reference = make_reference (lane_boot a 6), bo_Evidence = ev\<rparr>"
    using o ev terminal_reference [OF len v final pos] by (simp add: Outcome_def Let_def split: if_splits)
  then show r: "bo_Reference (lane_outcome a) = make_reference (lane_boot a 6)" by simp
  show "lane_outcome a \<noteq> zero_BootTransitionOutcome"
    using va by (auto simp: ValidateForAction_def zero_BootTransitionOutcome_def Let_def)
  have e: "bo_Evidence (lane_outcome a) = ev" by (simp add: rec)
  have "ev = projr (Evidence (lane_boot a 6))" by (simp add: ev)
  then show "list_all (\<lambda>x. time_marshals (utc x)) (outcome_times (lane_outcome a))"
    using lane_years
    by (simp add: outcome_times_def r e make_reference_def proof_times_def zero_OperatorPowerProof_def Evidence_def Let_def)
qed

lemma lane_outcome_accepted:
  assumes "rpiboot_action a" and "holds s st" and "map_get (js_BootTransitions st) (BootTransitionKey a 1) = Some (lane_boot a 6)"
  shows "validateBootTransitionOutcome demo_lane None lane_config a (lane_outcome a) True s = None"
  using lane_outcome_facts [OF assms(1)] holds_load [OF assms(2)] holds_open [OF assms(2)] assms(3)
  by (simp add: validateBootTransitionOutcome_def Store_GetBootTransition_def make_reference_def lane_config_def demo_lane_def)

end
