(* ===== verification/Lane_Demo_Execute.thy ===== *)
theory Lane_Demo_Execute
  imports Lane_Demo_Run
begin

text \<open>The executed operation of the demonstration run, and the histories that the witnesses use.\<close>

section \<open>Inputs\<close>

definition lane_xr :: ExecuteRequest where
  "lane_xr = \<lparr>xr_SchemaVersion = ContractSchemaVersion, xr_StationID = ''station1'', xr_LaneID = ''lane1'',
     xr_TransactionID = ''tx1'', xr_PlanDigest = demo_digest, xr_Release = lane_release,
     xr_TargetFingerprint = demo_digest, xr_InitialObservationDigest = demo_digest, xr_FenceEpoch = 1,
     xr_ApprovalID = ''approval1'', xr_ApprovalExpiresAt = lane_now + 3600 * second, xr_IntentReceipt = demo_receipt,
     xr_Sequence = 1, xr_OperationDigest = demo_digest, xr_AuthorizationID = ''auth1'',
     xr_RequiredBootMode = BootModeRPIBoot, xr_ExpectedPrestate = lane_fresh, xr_ClaimExpiresAt = lane_at 3600\<rparr>"

definition lane_rq :: ReconcileRequest where
  "lane_rq = \<lparr>rq_SchemaVersion = ReconcileRequestSchemaVersion, rq_OriginalRequest = lane_xr,
     rq_Claim = \<lparr>rl_StationID = ''station1'', rl_LaneID = ''lane1'', rl_TransactionID = ''tx1'',
       rl_TargetFingerprint = demo_digest, rl_ClaimID = ''lane1'', rl_FenceEpoch = 2,
       rl_ExpiresAt = lane_now + 3600 * second\<rparr>\<rparr>"

definition lane_seen :: "HardwarePhase \<Rightarrow> DirectState \<Rightarrow> Observation" where
  "lane_seen phase state = \<lparr>ob_EligibleTargets = 1, ob_RPIBootSysfsPath = ''/sys/bus/usb/devices/1-1'',
     ob_TargetFingerprint = demo_digest, ob_State = state, ob_BootTransition = lane_outcome (lane_action phase)\<rparr>"

definition lane_result :: OperationResult where
  "lane_result = \<lparr>re_OutputDigest = demo_digest, re_BindingDigest = [], re_Detail = [],
     re_CommitAttestation = expectedCommitAttestation lane_plan,
     re_BootTransition = lane_outcome (lane_action HardwarePhaseExecute)\<rparr>"

definition lane_call :: "OperationResult hw_reply \<Rightarrow> guard_env" where
  "lane_call reply = \<lparr>ge_lane = demo_lane, ge_clock = (\<lambda>i. lane_at 0), ge_cause = (\<lambda>i. []), ge_fault = (\<lambda>i. None),
     ge_restart = (\<lambda>i j. None), ge_recheck = [],
     ge_pre = Returned (lane_ops (lane_action HardwarePhasePreObservation)) (lane_seen HardwarePhasePreObservation lane_fresh) [],
     ge_exec = reply,
     ge_post = Returned (lane_ops (lane_action HardwarePhasePostObservation))
       (lane_seen HardwarePhasePostObservation (observedOwnedState lane_body)) []\<rparr>"

definition lane_guard :: Guard where
  "lane_guard = \<lparr>gd_config = lane_config, gd_plan = None, gd_reconciliationOnly = False, gd_lockedOut = False\<rparr>"

definition lane_armed :: Guard where
  "lane_armed = lane_guard\<lparr>gd_plan := Some lane_plan\<rparr>"

definition lane_intent :: Attempt where
  "lane_intent = new_attempt lane_plan (lane_operation 0) (lane_at 0) (lane_seen HardwarePhasePreObservation lane_fresh)"

definition lane_done :: Attempt where
  "lane_done = lane_intent\<lparr>at_ExecutionTransition := lane_outcome (lane_action HardwarePhaseExecute),
     at_Result := bindOperationResult demo_hash lane_plan (lane_operation 0) lane_result,
     at_PostObservationTransition := lane_outcome (lane_action HardwarePhasePostObservation),
     at_ObservedState := commitAttestedState lane_body, at_UpdatedAt := lane_at 0,
     at_Status := AttemptVerified, at_Detail := ''evidence-backed postcondition verified''\<rparr>"

definition with_attempt :: "journalState \<Rightarrow> Attempt \<Rightarrow> journalState" where
  "with_attempt st a = st\<lparr>js_Attempts := [(at_Key a, a)]\<rparr>"

text \<open>An attempt that was quarantined.\<close>

definition lane_bad :: Attempt where
  "lane_bad = lane_intent\<lparr>at_Status := AttemptQuarantined\<rparr>"

abbreviation "lane_pre \<equiv> lane_action HardwarePhasePreObservation"
abbreviation "lane_exec \<equiv> lane_action HardwarePhaseExecute"
abbreviation "lane_post \<equiv> lane_action HardwarePhasePostObservation"

definition lane_J1 :: journalState where "lane_J1 = with_boot newJournalState (lane_boot lane_pre 6)"
definition lane_J2 :: journalState where "lane_J2 = with_attempt lane_J1 lane_intent"
definition lane_J3 :: journalState where "lane_J3 = with_boot lane_J2 (lane_boot lane_exec 6)"
definition lane_J4 :: journalState where "lane_J4 = with_boot lane_J3 (lane_boot lane_post 6)"
definition lane_J5 :: journalState where "lane_J5 = with_attempt lane_J4 lane_done"

definition lane_JQ :: journalState where "lane_JQ = with_attempt lane_J1 lane_bad"

section \<open>The attempts\<close>

lemma phases_distinct [simp]:
  "HardwarePhasePreObservation \<noteq> HardwarePhaseExecute" "HardwarePhasePreObservation \<noteq> HardwarePhasePostObservation"
  "HardwarePhaseExecute \<noteq> HardwarePhasePostObservation" "HardwarePhaseExecute \<noteq> HardwarePhasePreObservation"
  "HardwarePhasePostObservation \<noteq> HardwarePhasePreObservation" "HardwarePhasePostObservation \<noteq> HardwarePhaseExecute"
  "HardwarePhasePostObservation \<noteq> HardwarePhaseReconciliation" "HardwarePhaseExecute \<noteq> HardwarePhaseReconciliation"
  by (simp_all add: phase_defs)

lemma lane_phase_action:
  "phase_action lane_pre outcome HardwarePhaseExecute = lane_exec"
  "phase_action lane_pre outcome HardwarePhasePostObservation = lane_post"
  by (simp_all add: phase_action_def lane_action_def Let_def)

lemma lane_outcomes [simp]:
  "phase \<in> lane_phases \<Longrightarrow> ValidateForAction demo_hash (lane_outcome (lane_action phase)) (lane_action phase) = None"
  "phase \<in> lane_phases \<Longrightarrow> bo_Action (lane_outcome (lane_action phase)) = lane_action phase"
  "phase \<in> lane_phases \<Longrightarrow> lane_outcome (lane_action phase) \<noteq> zero_BootTransitionOutcome"
  "phase \<in> lane_phases \<Longrightarrow> br_Status (bo_Reference (lane_outcome (lane_action phase))) = BootTransitionCompleted"
  "phase \<in> lane_phases \<Longrightarrow> br_TransitionKey (bo_Reference (lane_outcome (lane_action phase))) = BootTransitionKey (lane_action phase) 1"
  "phase \<in> lane_phases \<Longrightarrow> Outcome demo_hash (lane_boot (lane_action phase) 6) = Inr (lane_outcome (lane_action phase))"
  using lane_outcome_facts [OF lane_action_made(2), of phase] by (simp_all add: make_reference_def)

lemma lane_intent_fields [simp]:
  "at_Key lane_intent = AttemptJournalKey lane_plan 1" "at_Status lane_intent = AttemptStarted"
  "at_PreObservationTransition lane_intent = lane_outcome lane_pre"
  "at_ExecutionTransition lane_intent = zero_BootTransitionOutcome"
  "at_PostObservationTransition lane_intent = zero_BootTransitionOutcome"
  "at_ReconciliationTransition lane_intent = zero_BootTransitionOutcome"
  "at_Result lane_intent = zero_OperationResult"
  by (simp_all add: lane_intent_def new_attempt_def lane_seen_def)

lemma lane_matches: "attemptMatchesHardwareAction lane_intent lane_pre"
  by (simp add: attemptMatchesHardwareAction_def lane_intent_def new_attempt_def)

lemma lane_key: "attempt_key lane_intent = AttemptJournalKey lane_plan 1"
  by (simp add: attempt_key_def AttemptJournalKey_def lane_intent_def new_attempt_def)

lemma key_nonempty [simp]: "AttemptJournalKey plan n \<noteq> []"
  by (simp add: AttemptJournalKey_def)

lemma zero_status [simp]: "br_Status (bo_Reference zero_BootTransitionOutcome) \<noteq> BootTransitionCompleted"
  by (simp add: zero_BootTransitionOutcome_def zero_BootTransitionReference_def BootTransitionCompleted_def)

lemma lane_intent_valid: "validateAttempt demo_hash lane_intent = None"
proof -
  have "validateAttemptBootTransitionOutcomes demo_hash lane_intent = None"
    using lane_matches by (simp add: validateAttemptBootTransitionOutcomes_def validatePhase_def Let_def)
  moreover have "attempt_attestation_ok lane_intent = None"
    by (simp add: attempt_attestation_ok_def zero_OperationResult_def CommitAttestation_IsZero_def Let_def attempt_status_defs)
  ultimately show ?thesis
    using lane_key
    by (simp add: validateAttempt_def) (simp add: lane_intent_def new_attempt_def operationClass_def)
qed

lemma lane_attestation_ok: "CommitAttestation_Validate (expectedCommitAttestation lane_plan) = None"
  by (simp add: CommitAttestation_Validate_def expectedCommitAttestation_def lane_release_def)

lemma lane_bound [simp]:
  "re_CommitAttestation (bindOperationResult sha plan operation result) = re_CommitAttestation result"
  "re_BootTransition (bindOperationResult sha plan operation result) = re_BootTransition result"
  by (simp_all add: bindOperationResult_def Let_def)

lemma lane_result_ok: "validateResultCommitAttestation lane_plan (lane_operation 0)
    (bindOperationResult demo_hash lane_plan (lane_operation 0) lane_result) = None"
  using lane_attestation_ok
  by (simp add: validateResultCommitAttestation_def lane_result_def Let_def)
    (simp add: expectedCommitAttestation_def commitAttestedState_def lane_body_def)

lemma attestation_nonzero: "expectedCommitAttestation plan \<noteq> zero_CommitAttestation"
  by (simp add: expectedCommitAttestation_def zero_CommitAttestation_def)

lemma lane_done_valid: "validateAttempt demo_hash lane_done = None"
proof -
  have m: "attemptMatchesHardwareAction lane_done lane_pre"
    using lane_matches by (simp add: attemptMatchesHardwareAction_def lane_done_def)
  have nz: "bindOperationResult demo_hash lane_plan (lane_operation 0) lane_result \<noteq> zero_OperationResult"
  proof
    assume "bindOperationResult demo_hash lane_plan (lane_operation 0) lane_result = zero_OperationResult"
    from arg_cong [OF this, of re_CommitAttestation] show False
      using attestation_nonzero [of lane_plan] by (simp add: lane_result_def zero_OperationResult_def)
  qed
  have "validateAttemptBootTransitionOutcomes demo_hash lane_done = None"
    using m nz
    by (simp add: validateAttemptBootTransitionOutcomes_def validatePhase_def Let_def lane_done_def lane_phase_action)
      (simp add: lane_result_def)
  moreover have "attempt_attestation_ok lane_done = None"
    using lane_attestation_ok attestation_nonzero
    by (simp add: attempt_attestation_ok_def lane_done_def lane_result_def CommitAttestation_IsZero_def Let_def attempt_status_defs)
      (simp add: expectedCommitAttestation_def lane_intent_def new_attempt_def)
  moreover have "attempt_key lane_done = AttemptJournalKey lane_plan 1"
    using lane_key by (simp add: attempt_key_def lane_done_def)
  ultimately show ?thesis
    using lane_intent_valid lane_key by (simp add: validateAttempt_def) (simp add: lane_done_def validateAttempt_def)
qed

section \<open>The journals\<close>

lemma lane_keys_distinct:
  "p \<in> lane_phases \<Longrightarrow> q \<in> lane_phases \<Longrightarrow> p \<noteq> q \<Longrightarrow> BootTransitionKey (lane_action p) 1 \<noteq> BootTransitionKey (lane_action q) 1"
  using BootTransitionKey_inj [of "lane_action p" "lane_action q" 1 1] lane_action_made(2) [of p] lane_action_made(2) [of q]
  by (auto simp: rpiboot_action_def same_key_scope_def)

lemma lane_scopes: "p \<noteq> q \<Longrightarrow> \<not> sameBootTransitionScope (lane_action p) (lane_action q)"
  by (simp add: sameBootTransitionScope_def)

lemma lane_journal_fields [simp]:
  "js_Attempts lane_J1 = []" "js_BootTransitions lane_J1 = [(BootTransitionKey lane_pre 1, lane_boot lane_pre 6)]"
  "js_Attempts lane_J2 = [(AttemptJournalKey lane_plan 1, lane_intent)]"
  "js_BootTransitions lane_J2 = [(BootTransitionKey lane_pre 1, lane_boot lane_pre 6)]"
  "js_Attempts lane_J3 = [(AttemptJournalKey lane_plan 1, lane_intent)]"
  "js_BootTransitions lane_J3 = [(BootTransitionKey lane_pre 1, lane_boot lane_pre 6),
     (BootTransitionKey lane_exec 1, lane_boot lane_exec 6)]"
  "js_Attempts lane_J4 = [(AttemptJournalKey lane_plan 1, lane_intent)]"
  "js_BootTransitions lane_J4 = [(BootTransitionKey lane_pre 1, lane_boot lane_pre 6),
     (BootTransitionKey lane_exec 1, lane_boot lane_exec 6), (BootTransitionKey lane_post 1, lane_boot lane_post 6)]"
  "js_Attempts lane_J5 = [(AttemptJournalKey lane_plan 1, lane_done)]"
  "js_BootTransitions lane_J5 = js_BootTransitions lane_J4"
  by (simp_all add: lane_J1_def lane_J2_def lane_J3_def lane_J4_def lane_J5_def with_boot_def with_attempt_def
      newJournalState_def lane_done_def)

lemma zero_times [simp]: "list_all (\<lambda>x. time_marshals (utc x)) (outcome_times zero_BootTransitionOutcome)"
  using lane_years
  by (simp add: outcome_times_def zero_BootTransitionOutcome_def zero_BootTransitionReference_def
      zero_BootTransitionEvidence_def proof_times_def zero_OperatorPowerProof_def)

lemma lane_times [simp]:
  "phase \<in> lane_phases \<Longrightarrow> list_all (\<lambda>x. time_marshals (utc x)) (outcome_times (lane_outcome (lane_action phase)))"
  using lane_outcome_facts(6) [OF lane_action_made(2)] by blast

lemma lane_attempt_times:
  "list_all (\<lambda>x. time_marshals (utc x)) (attempt_times lane_intent)"
  "list_all (\<lambda>x. time_marshals (utc x)) (attempt_times lane_done)"
  using lane_years
  by (simp_all add: attempt_times_def lane_done_def lane_result_def zero_OperationResult_def)
    (simp_all add: lane_intent_def new_attempt_def)

lemma lane_bindings:
  "validateAttemptJournalBindings demo_hash lane_intent (js_BootTransitions lane_J1) = None"
  "validateAttemptJournalBindings demo_hash lane_done (js_BootTransitions lane_J4) = None"
  using lane_keys_distinct
  by (simp_all add: validateAttemptJournalBindings_def outcome_binding_ok_def map_get_def lane_done_def)

lemma lane_journals_good:
  "good_journal lane_J1" "good_journal lane_J2" "good_journal lane_J3" "good_journal lane_J4" "good_journal lane_J5"
proof -
  note boot = lane_boot_good [OF _ lane_action_made(2)]
  show 1: "good_journal lane_J1" unfolding lane_J1_def by (rule boot) simp_all
  show 2: "good_journal lane_J2"
    using 1 lane_intent_valid lane_bindings(1) lane_attempt_times(1)
    by (simp add: good_journal_def loaded_ok_def journal_encodes_def)
  show 3: "good_journal lane_J3" unfolding lane_J3_def by (rule boot [OF 2]) simp_all
  show 4: "good_journal lane_J4" unfolding lane_J4_def by (rule boot [OF 3]) simp_all
  have "at_Key lane_done = AttemptJournalKey lane_plan 1" by (simp add: lane_done_def)
  then show "good_journal lane_J5"
    using 4 lane_done_valid lane_bindings(2) lane_attempt_times(2)
    by (simp add: good_journal_def loaded_ok_def journal_encodes_def)
qed

lemma lane_put_intent:
  assumes "holds s lane_J1"
  obtains s' where "Store_Put demo_lane None lane_intent s = (None, s')" and "holds s' lane_J2"
proof -
  have "put_attempt demo_hash lane_intent lane_J1 = Inr lane_J2"
    using lane_bindings(1) by (simp add: put_attempt_def map_put_def lane_J2_def with_attempt_def)
  moreover obtain s' where "Store_save None lane_J2 s = (None, s')" "holds s' lane_J2"
    using holds_save [OF assms lane_journals_good(2)] .
  ultimately show ?thesis
    using that holds_load [OF assms] holds_open [OF assms] lane_intent_valid
    by (simp add: Store_Put_def demo_lane_def)
qed

lemma lane_put_done:
  assumes "holds s lane_J4"
  obtains s' where "Store_Put demo_lane None lane_done s = (None, s')" and "holds s' lane_J5"
proof -
  have k: "at_Key lane_done = AttemptJournalKey lane_plan 1" by (simp add: lane_done_def)
  have "validAttemptTransition lane_intent lane_done = None"
    by (simp add: validAttemptTransition_def attempt_bindings_differ_def lane_done_def attempt_status_defs)
  then have "put_attempt demo_hash lane_done lane_J4 = Inr lane_J5"
    using lane_bindings(2) k by (simp add: put_attempt_def map_put_def map_get_def lane_J5_def with_attempt_def)
  moreover obtain s' where "Store_save None lane_J5 s = (None, s')" "holds s' lane_J5"
    using holds_save [OF assms lane_journals_good(5)] .
  ultimately show ?thesis
    using that holds_load [OF assms] holds_open [OF assms] lane_done_valid
    by (simp add: Store_Put_def demo_lane_def)
qed

lemma lane_runs:
  "holds s newJournalState \<Longrightarrow> holds (run_boot_ops demo_lane (lane_ops lane_pre) s) lane_J1"
  "holds s lane_J2 \<Longrightarrow> holds (run_boot_ops demo_lane (lane_ops lane_exec) s) lane_J3"
  "holds s lane_J3 \<Longrightarrow> holds (run_boot_ops demo_lane (lane_ops lane_post) s) lane_J4"
proof -
  note run = lane_ops_run [OF lane_action_made(2)]
  show "holds (run_boot_ops demo_lane (lane_ops lane_pre) s) lane_J1" if "holds s newJournalState"
    unfolding lane_J1_def by (rule run [OF _ that]) (simp_all add: newJournalState_def)
  show "holds (run_boot_ops demo_lane (lane_ops lane_exec) s) lane_J3" if "holds s lane_J2"
    unfolding lane_J3_def
    by (rule run [OF _ that]) (use lane_keys_distinct in \<open>simp_all add: lane_scopes\<close>)
  show "holds (run_boot_ops demo_lane (lane_ops lane_post) s) lane_J4" if "holds s lane_J3"
    unfolding lane_J4_def
    by (rule run [OF _ that]) (use lane_keys_distinct in \<open>simp_all add: lane_scopes\<close>)
qed

section \<open>The calls\<close>

lemma lane_call_fields [simp]:
  "ge_lane (lane_call r) = demo_lane" "ge_clock (lane_call r) i = lane_at 0" "ge_cause (lane_call r) i = []"
  "ge_fault (lane_call r) i = None" "ge_restart (lane_call r) = (\<lambda>i j. None)" "ge_recheck (lane_call r) = []"
  "ge_pre (lane_call r) = Returned (lane_ops lane_pre) (lane_seen HardwarePhasePreObservation lane_fresh) []"
  "ge_exec (lane_call r) = r"
  "ge_post (lane_call r) = Returned (lane_ops lane_post) (lane_seen HardwarePhasePostObservation (observedOwnedState lane_body)) []"
  "le_sha256 demo_lane = demo_hash"
  by (simp_all add: lane_call_def demo_lane_def)

lemma lane_first_operation: "map lane_operation [0..<7] ! 0 = lane_operation 0"
  by (simp add: seven)

lemma lane_matched: "matchPlanRequest lane_plan lane_xr = Inr (lane_operation 0)"
  by (simp add: matchPlanRequest_def lane_xr_def lane_first_operation)

lemma lane_authority: "authority_ok (lane_at 0) lane_plan (lane_operation 0) lane_xr lane_config = None"
  by (simp add: authority_ok_def lane_xr_def lane_config_def lease_exact)
    (simp add: lane_at_def lane_now_def second_def)

lemma lane_get: "holds s st \<Longrightarrow> Store_Get demo_lane None key s = Inr (map_get (js_Attempts st) key)"
  by (simp add: Store_Get_def holds_load holds_open)

lemma lane_admit:
  assumes "holds s newJournalState"
  shows "execute_admit (lane_call r) lane_xr lane_armed s
    = Inr (lane_plan, lane_operation 0, zero_CommitAttestation, lane_pre)"
  using lane_get [OF assms] lane_matched lane_authority lane_action_made(1)
  by (simp add: execute_admit_def matchRequest_def lane_armed_def lane_guard_def preceding_ok_def newJournalState_def)

lemma lane_observed:
  assumes "phase \<in> lane_phases" and "holds s st"
    and "map_get (js_BootTransitions st) (BootTransitionKey (lane_action phase) 1) = Some (lane_boot (lane_action phase) 6)"
  shows "observeBoundTarget demo_lane None lane_config demo_digest (lane_action phase) (lane_seen phase state) [] s
    = (lane_seen phase state, [])"
  using lane_outcome_accepted [OF lane_action_made(2) [OF assms(1)] assms(2,3)]
  by (simp add: observeBoundTarget_def lane_seen_def lane_config_def)

lemma lane_prepare:
  assumes "holds s lane_J1"
  shows "execute_prepare (lane_call r) lane_xr lane_plan (lane_operation 0) zero_CommitAttestation lane_pre
      (lane_seen HardwarePhasePreObservation lane_fresh) [] lane_config s = Inr (lane_intent, lane_exec)"
proof -
  have "resolveEEPROMProof lane_fresh lane_fresh attestation = (lane_fresh, True, False)" for attestation
    by (simp add: resolveEEPROMProof_def lane_fresh_def eeprom_status_defs)
  then show ?thesis
    using lane_observed [OF _ assms] lane_authority lane_action_made(1)
    by (simp add: execute_prepare_def map_get_def lane_intent_def) (simp add: lane_seen_def)
qed

lemma lane_crashed:
  assumes "holds s newJournalState"
  obtains s' where "Execute (lane_call (Crashed [])) lane_xr lane_armed s
      = (Died, s', [EvObserve lane_pre, EvExecute lane_exec])" and "holds s' lane_J2"
proof -
  obtain s' where "Store_Put demo_lane None lane_intent (run_boot_ops demo_lane (lane_ops lane_pre) s) = (None, s')"
    "holds s' lane_J2"
    using lane_put_intent [OF lane_runs(1) [OF assms]] .
  then show ?thesis
    using that lane_admit [OF assms] lane_prepare [OF lane_runs(1) [OF assms]]
    by (simp add: Execute_def execute_dispatch_def run_boot_ops_def lane_armed_def lane_guard_def Let_def)
qed

lemma lane_concluded:
  assumes "holds s lane_J3"
  shows "execute_conclude (lane_call r) lane_plan (lane_operation 0) lane_intent lane_exec lane_result [] lane_config s
    = Observe (lane_intent\<lparr>at_ExecutionTransition := lane_outcome lane_exec,
        at_Result := bindOperationResult demo_hash lane_plan (lane_operation 0) lane_result\<rparr>) lane_post"
proof -
  have "validateBootTransitionOutcome demo_lane None lane_config lane_exec (re_BootTransition lane_result) True s = None"
    using lane_outcome_accepted [OF lane_action_made(2) assms] lane_keys_distinct
    by (simp add: lane_result_def map_get_def)
  then show ?thesis
    using lane_result_ok lane_action_made(1)
    by (simp add: execute_conclude_def Let_def) (simp add: lane_result_def)
qed

lemma lane_finished:
  assumes "holds s lane_J4"
  shows "execute_finish (lane_call r) lane_plan (lane_operation 0) zero_CommitAttestation
      (lane_intent\<lparr>at_ExecutionTransition := lane_outcome lane_exec,
        at_Result := bindOperationResult demo_hash lane_plan (lane_operation 0) lane_result\<rparr>) lane_post
      (lane_seen HardwarePhasePostObservation (observedOwnedState lane_body)) [] lane_config s = (lane_done, [])"
proof -
  let ?a = "expectedCommitAttestation lane_plan"
  have "resolveEEPROMProof (commitAttestedState lane_body) (observedOwnedState lane_body) ?a
      = (commitAttestedState lane_body, True, False)"
    using lane_attestation_ok attestation_nonzero [of lane_plan]
    by (simp add: resolveEEPROMProof_def observedOwnedState_def CommitAttestation_IsZero_def Let_def)
      (simp add: commitAttestedState_def expectedCommitAttestation_def lane_body_def eeprom_status_defs)
  then show ?thesis
    using lane_observed [OF _ assms] lane_keys_distinct lane_result_ok
    by (simp add: execute_finish_def map_get_def lane_seen_def finishObserved_def Let_def lane_done_def)
      (simp add: lane_result_def)
qed

lemma lane_executed:
  assumes "holds s newJournalState"
  obtains s' where "Execute (lane_call (Returned (lane_ops lane_exec) lane_result [])) lane_xr lane_armed s
      = (Answered (Some lane_done) [], s', [EvObserve lane_pre, EvExecute lane_exec, EvObserve lane_post])"
    and "holds s' lane_J5"
proof -
  obtain s2 where s2: "Store_Put demo_lane None lane_intent (run_boot_ops demo_lane (lane_ops lane_pre) s) = (None, s2)"
    "holds s2 lane_J2"
    using lane_put_intent [OF lane_runs(1) [OF assms]] .
  note s3 = lane_runs(2) [OF s2(2)]
  note s4 = lane_runs(3) [OF s3]
  obtain s5 where s5: "Store_Put demo_lane None lane_done
      (run_boot_ops demo_lane (lane_ops lane_post) (run_boot_ops demo_lane (lane_ops lane_exec) s2)) = (None, s5)"
    "holds s5 lane_J5"
    using lane_put_done [OF s4] .
  show ?thesis
    using that [OF _ s5(2)] lane_admit [OF assms] lane_prepare [OF lane_runs(1) [OF assms]] s2(1) s5(1)
      lane_concluded [OF s3] lane_finished [OF s4]
    by (simp add: Execute_def execute_dispatch_def record_outcome_def lane_armed_def lane_guard_def Let_def)
qed

section \<open>The histories\<close>

lemma lane_new_guard: "newGuard lane_config False = Inr lane_guard"
  by (simp add: newGuard_def lane_guard_def lane_config_def [symmetric]) (simp add: lane_config_def)

lemma lane_load:
  assumes "holds s newJournalState"
  shows "LoadPlan (lane_call r) lane_plan lane_guard s = (None, lane_armed)"
proof -
  have none: "Store_Get demo_lane None key s = Inr None" for key
    using lane_get [OF assms] by (simp add: newJournalState_def)
  have "later_loop demo_lane (\<lambda>j. None) lane_plan s later ops = None" for later ops
    by (induction ops arbitrary: later) (simp_all add: none)
  then have "restartStates demo_lane (\<lambda>i j. None) lane_plan s = Inr ([os_ExpectedPrestate (lane_operation 0)], False)"
    by (simp add: restartStates_def seven none)
  then show ?thesis by (simp add: LoadPlan_def lane_guard_def lane_armed_def)
qed

lemma lane_armed_reachable: "lane_reachable demo_lane (lane_armed, first_store) []"
  using lane_reachable.step [OF lane_reachable.start [OF lane_new_guard] lane_step.load [OF _ lane_load [OF first_holds]]]
  by simp

text \<open>A lane on which the operation is verified.\<close>

lemma lane_verified_reachable:
  obtains s where "lane_reachable demo_lane (lane_armed, s) [EvObserve lane_pre, EvExecute lane_exec, EvObserve lane_post]"
    and "lane_journal_of s = lane_J5"
proof -
  obtain s where s: "Execute (lane_call (Returned (lane_ops lane_exec) lane_result [])) lane_xr lane_armed first_store
      = (Answered (Some lane_done) [], s, [EvObserve lane_pre, EvExecute lane_exec, EvObserve lane_post])" "holds s lane_J5"
    using lane_executed [OF first_holds] .
  show ?thesis
    using that lane_reachable.step [OF lane_armed_reachable lane_step.execute [OF _ s(1)]] s(2) by (simp add: holds_def)
qed

text \<open>A lane whose process died in the hardware call and was started again.\<close>

lemma lane_path_ok: "NewFileStore ''/var/lib/lane.json'' False s = Inr (s\<lparr>ls_open := True\<rparr>)"
proof -
  have "path_Clean ''/var/lib/lane.json'' = ''/var/lib/lane.json''" by code_simp
  then show ?thesis by (simp add: NewFileStore_def hasPrefix_def)
qed

lemma lane_crashed_reachable:
  obtains s where "lane_reachable demo_lane (lane_guard, s) [EvObserve lane_pre, EvExecute lane_exec]"
    and "lane_journal_of s = lane_J2"
proof -
  obtain s where s: "Execute (lane_call (Crashed [])) lane_xr lane_armed first_store
      = (Died, s, [EvObserve lane_pre, EvExecute lane_exec])" "holds s lane_J2"
    using lane_crashed [OF first_holds] .
  show ?thesis
    using that lane_reachable.step [OF lane_armed_reachable lane_step.execute_died [OF _ s(1) lane_new_guard lane_path_ok]]
      s(2) by (simp add: holds_def lane_journal_of_def)
qed

section \<open>A quarantined lane\<close>

lemma lane_bad_fields [simp]:
  "js_Attempts lane_JQ = [(AttemptJournalKey lane_plan 1, lane_bad)]" "js_BootTransitions lane_JQ = js_BootTransitions lane_J1"
  "at_Key lane_bad = AttemptJournalKey lane_plan 1"
  by (simp_all add: lane_JQ_def with_attempt_def lane_bad_def)

lemma lane_bad_valid: "validateAttempt demo_hash lane_bad = None"
proof -
  have "validateAttemptBootTransitionOutcomes demo_hash lane_bad = None"
    using lane_matches
    by (simp add: validateAttemptBootTransitionOutcomes_def validatePhase_def Let_def lane_bad_def attemptMatchesHardwareAction_def)
  moreover have "attempt_attestation_ok lane_bad = None"
    by (simp add: attempt_attestation_ok_def zero_OperationResult_def CommitAttestation_IsZero_def Let_def lane_bad_def
        attempt_status_defs)
  moreover have "attempt_key lane_bad = AttemptJournalKey lane_plan 1"
    using lane_key by (simp add: attempt_key_def lane_bad_def)
  ultimately show ?thesis
    using lane_intent_valid lane_key by (simp add: validateAttempt_def) (simp add: lane_bad_def validateAttempt_def)
qed

lemma lane_JQ_good: "good_journal lane_JQ"
proof -
  have "validateAttemptJournalBindings demo_hash lane_bad (js_BootTransitions lane_J1) = None"
    using lane_bindings(1) by (simp add: validateAttemptJournalBindings_def lane_bad_def)
  moreover have "list_all (\<lambda>x. time_marshals (utc x)) (attempt_times lane_bad)"
    using lane_attempt_times(1) by (simp add: attempt_times_def lane_bad_def)
  ultimately show ?thesis
    using lane_bad_valid lane_journals_good(1)
    by (simp add: good_journal_def loaded_ok_def journal_encodes_def)
qed

lemma lane_bad_of_plan: "ValidateAttemptForPlan lane_plan lane_bad = None"
proof -
  have "mode_ok lane_plan (lane_outcome lane_pre)"
    by (rule validated_mode_ok [of demo_hash _ lane_pre]) simp_all
  then have "of_plan lane_plan (lane_operation 0) lane_intent"
    using new_attempt_of_plan [of lane_plan "lane_seen HardwarePhasePreObservation lane_fresh" "lane_operation 0" "lane_at 0"]
    by (simp add: lane_intent_def lane_seen_def)
  then have "of_plan lane_plan (lane_operation 0) lane_bad" "verdict_ok lane_plan (lane_operation 0) lane_bad"
    by (simp_all add: lane_bad_def verdict_ok_def attempt_status_defs)
  moreover have "at_Sequence lane_bad = of_nat (0 + 1)" by (simp add: lane_bad_def lane_intent_def new_attempt_def)
  ultimately show ?thesis
    using ValidateAttemptForPlan_None [OF lane_plan_ok [unfolded Plan_Validate_def], of 0 lane_bad]
    by (simp add: lane_first_operation)
qed

lemma lane_bad_load:
  "\<exists>g'. LoadPlan (lane_call r) lane_plan lane_guard \<lparr>ls_open = True, ls_file = \<lparr>fs_path = Some lane_JQ, fs_temp = None\<rparr>\<rparr>
     = (None, g')"
proof -
  let ?s = "\<lparr>ls_open = True, ls_file = \<lparr>fs_path = Some lane_JQ, fs_temp = None\<rparr>\<rparr>"
  have s: "holds ?s lane_JQ" using lane_JQ_good by (simp add: holds_def lane_journal_of_def)
  note get = lane_get [OF s]
  have none: "map_get (js_Attempts lane_JQ) (AttemptJournalKey lane_plan (os_Sequence (lane_operation i))) = None" if "0 < i" "i < 7" for i
  proof -
    have "os_Sequence (lane_operation i) \<noteq> 1"
    proof
      assume "os_Sequence (lane_operation i) = 1"
      then have "(of_nat (i + 1) :: uint32) = of_nat (0 + 1)" by (simp add: lane_operation_def)
      then show False using sequence_inj [of i 0] that by simp
    qed
    then show ?thesis by (simp add: map_get_def)
  qed
  have empty: "later_loop demo_lane (\<lambda>j. None) lane_plan ?s n (map lane_operation is) = None" if "set is \<subseteq> {0 <..< 7}" for n "is"
    using that none by (induction "is" arbitrary: n) (simp_all add: get)
  have later: "later_loop demo_lane (\<lambda>j. None) lane_plan ?s 1 (map lane_operation [1, 2, 3, 4, 5, 6]) = None"
    by (rule empty) simp
  have first: "Store_Get demo_lane None (AttemptJournalKey lane_plan 1) ?s = Inr (Some lane_bad)"
    by (simp add: get map_get_def)
  have ops: "map lane_operation [0..<7] = lane_operation 0 # map lane_operation [1, 2, 3, 4, 5, 6]" by (simp add: seven)
  have bad: "attemptMatchesIntent lane_bad lane_plan (lane_operation 0)" "at_Status lane_bad = AttemptQuarantined"
    by (simp_all add: attemptMatchesIntent_def lane_bad_def lane_intent_def new_attempt_def)
  have "\<exists>states. restartStates demo_lane (\<lambda>i j. None) lane_plan ?s = Inr (states, True)"
    unfolding restartStates_def lane_plan_fields ops
    using lane_bad_of_plan first later bad
    by (simp del: list.map later_loop.simps add: attempt_status_defs)
  then show ?thesis by (auto simp: LoadPlan_def lane_guard_def)
qed

end
