(* ===== verification/Lane_Properties.thy ===== *)
theory Lane_Properties
  imports Lane_Demo_Execute
begin

text \<open>
  The properties of the lane guard, over every history of its calls, of the hardware adapter's writes,
  of crashes inside a call and of restarts, from an empty journal.
\<close>

section \<open>Executions\<close>

text \<open>Property C1. Execute once: over the whole life of a lane, through crashes in the middle of hardware
  calls and through restarts, the hardware is told at most once to execute one operation of one approved
  plan under one fence epoch.\<close>

theorem execute_once:
  assumes "lane_reachable L w events"
  shows "distinct (map (\<lambda>a. (ha_TransactionID a, ha_PlanDigest a, ha_FenceEpoch a, ha_Sequence a)) (executions events))"
proof (rule distinct_by_order)
  have "sorted_wrt runs_forward (executions events)"
    using executed.always [OF assms] by (simp add: executed_ok_def)
  then show "sorted_wrt (\<lambda>a b. (ha_TransactionID a, ha_PlanDigest a, ha_FenceEpoch a, ha_Sequence a)
      \<noteq> (ha_TransactionID b, ha_PlanDigest b, ha_FenceEpoch b, ha_Sequence b)) (executions events)"
    by (rule sorted_wrt_mono_rel [rotated]) (auto simp: runs_forward_def same_plan_run_def)
qed

theorem execute_once_witness:
  "\<exists>s. lane_reachable demo_lane (lane_armed, s) [EvObserve lane_pre, EvExecute lane_exec, EvObserve lane_post]
     \<and> distinct (map (\<lambda>a. (ha_TransactionID a, ha_PlanDigest a, ha_FenceEpoch a, ha_Sequence a))
         (executions [EvObserve lane_pre, EvExecute lane_exec, EvObserve lane_post]))"
proof -
  obtain s where s: "lane_reachable demo_lane (lane_armed, s) [EvObserve lane_pre, EvExecute lane_exec, EvObserve lane_post]"
    using lane_verified_reachable by metis
  show ?thesis using execute_once [OF s] s by (intro exI conjI) auto
qed

text \<open>Property C6. The plan runs forward: the executions of one plan under one epoch have strictly
  increasing sequence numbers, and when an operation was executed, every earlier operation of its plan
  stands in the journal as verified, on the same target and under the same approval.\<close>

theorem executions_in_order:
  assumes "lane_reachable L (g, s) events"
  shows "sorted_wrt runs_forward (executions events)
    \<and> (\<forall>action \<in> set (executions events). \<forall>n. 0 < n \<and> n < ha_Sequence action \<longrightarrow>
        (\<exists>p. map_get (attempts_in s) (action_key (action\<lparr>ha_Sequence := n\<rparr>)) = Some p \<and> at_Status p = AttemptVerified
           \<and> at_Sequence p = n \<and> at_TargetFingerprint p = ha_TargetFingerprint action
           \<and> at_ApprovalID p = ha_ApprovalID action))"
proof (intro conjI ballI allI impI)
  note inv = executed.always [OF assms, simplified]
  show "sorted_wrt runs_forward (executions events)" using inv by (simp add: executed_ok_def)
  fix action n assume a: "action \<in> set (executions events)" and n: "0 < n \<and> n < ha_Sequence action"
  obtain b where b: "map_get (attempts_in s) (action_key action) = Some b" "attemptMatchesHardwareAction b action"
    using inv a by (auto simp: executed_ok_def)
  have "verified_at (attempts_in s) b n"
    using verified_below [of "le_sha256 L" "attempts_in s" "action_key action" b n] inv b n
    by (simp add: lane_ok_def attemptMatchesHardwareAction_def)
  moreover have "key_at b n = action_key (action\<lparr>ha_Sequence := n\<rparr>)"
    using b(2) by (simp add: attempt_key_def action_key_def attemptMatchesHardwareAction_def)
  ultimately show "\<exists>p. map_get (attempts_in s) (action_key (action\<lparr>ha_Sequence := n\<rparr>)) = Some p
      \<and> at_Status p = AttemptVerified \<and> at_Sequence p = n \<and> at_TargetFingerprint p = ha_TargetFingerprint action
      \<and> at_ApprovalID p = ha_ApprovalID action"
    using b(2) by (auto simp: verified_at_def same_course_def attemptMatchesHardwareAction_def)
qed

theorem executions_in_order_witness:
  "\<exists>s. lane_reachable demo_lane (lane_armed, s) [EvObserve lane_pre, EvExecute lane_exec, EvObserve lane_post]
     \<and> sorted_wrt runs_forward (executions [EvObserve lane_pre, EvExecute lane_exec, EvObserve lane_post])"
proof -
  obtain s where s: "lane_reachable demo_lane (lane_armed, s) [EvObserve lane_pre, EvExecute lane_exec, EvObserve lane_post]"
    using lane_verified_reachable by metis
  show ?thesis using executions_in_order [OF s] s by (intro exI conjI) auto
qed

text \<open>Property C24. The journal never forgets: at any later time an attempt is still there with the same
  bindings; a verified, confirmed-not-applied or quarantined one is unchanged; and recorded evidence of
  the execution stays as it was.\<close>

theorem attempts_are_kept:
  assumes "lane_reachable L (g, s) events" and "lane_steps L (g, s) events' (g', s')"
    and "map_get (attempts_in s) key = Some a"
  shows "\<exists>b. map_get (attempts_in s') key = Some b \<and> attempt_grows a b"
  using growth.ordered [OF assms(2,1)] assms(3) by (simp add: attempts_grow_def)

theorem attempts_are_kept_witness:
  "\<exists>s. lane_reachable demo_lane (lane_armed, s) [EvObserve lane_pre, EvExecute lane_exec, EvObserve lane_post]
     \<and> lane_steps demo_lane (lane_armed, s) [] (lane_armed, Store_Close s)
     \<and> map_get (attempts_in s) (AttemptJournalKey lane_plan 1) = Some lane_done
     \<and> (\<exists>b. map_get (attempts_in (Store_Close s)) (AttemptJournalKey lane_plan 1) = Some b \<and> attempt_grows lane_done b)"
proof -
  obtain s where s: "lane_reachable demo_lane (lane_armed, s) [EvObserve lane_pre, EvExecute lane_exec, EvObserve lane_post]"
    "lane_journal_of s = lane_J5"
    using lane_verified_reachable .
  have step: "lane_steps demo_lane (lane_armed, s) [] (lane_armed, Store_Close s)"
    using lane_steps.then_step [OF lane_steps.now lane_step.close] by fastforce
  have key: "map_get (attempts_in s) (AttemptJournalKey lane_plan 1) = Some lane_done"
    using s(2) by (simp add: map_get_def)
  show ?thesis using attempts_are_kept [OF s(1) step key] s(1) step key by blast
qed

text \<open>Property C9. The intent is durable before the hardware acts: if the process dies in a call that
  had told the hardware to execute, the journal holds the attempt of exactly that action, as started; and
  until then there was none.\<close>

theorem crash_leaves_intent:
  assumes "Execute e q g s = (Died, s', events)" and "action \<in> set (executions events)"
  shows "map_get (attempts_in s) (action_key action) = None
    \<and> (\<exists>a. map_get (attempts_in s') (action_key action) = Some a \<and> at_Status a = AttemptStarted
          \<and> attemptMatchesHardwareAction a action)"
  using assms(1)
proof (cases rule: Execute_effect)
  case quiet
  then show ?thesis using assms(2) by simp
next
  case (intent plan operation carried pre a act st st1)
  have act: "action = act" and same: "attempts_in s' = js_Attempts st1"
    using intent(14) assms(2) by auto
  note m = execution_matches [OF intent(8,2,6,7)]
  have "map_get (attempts_in s) (at_Key a) = None"
    using execute_admit_Inr(5) [OF intent(1)] intent(2) by (simp add: of_plan_def)
  moreover have "map_get (js_Attempts st1) (at_Key a) = Some a"
    using intent(13) by (auto simp: put_attempt_Inr)
  ultimately show ?thesis using act same m intent(4) by simp
qed

theorem crash_leaves_intent_witness:
  "\<exists>s'. Execute (lane_call (Crashed [])) lane_xr lane_armed first_store = (Died, s', [EvObserve lane_pre, EvExecute lane_exec])
     \<and> map_get (attempts_in first_store) (action_key lane_exec) = None
     \<and> (\<exists>a. map_get (attempts_in s') (action_key lane_exec) = Some a \<and> at_Status a = AttemptStarted
          \<and> attemptMatchesHardwareAction a lane_exec)"
proof -
  obtain s' where s: "Execute (lane_call (Crashed [])) lane_xr lane_armed first_store
      = (Died, s', [EvObserve lane_pre, EvExecute lane_exec])"
    using lane_crashed [OF first_holds] by blast
  show ?thesis using crash_leaves_intent [OF s, of lane_exec] s by auto
qed

text \<open>Property C7. Nothing is executed without authority: when a call executes, the guard was armed with a
  plan that the request matches; at the last reading of the clock the approval had not expired and the
  lease covered the operation and the safety margin; the dispatch authority agreed; and exactly one target
  was seen, at the lane's port and with the approved fingerprint.\<close>

theorem execution_authorised:
  assumes "Execute e q g s = (ans, s', events)" and "action \<in> set (executions events)"
  shows "\<exists>plan operation ops raw.
      gd_plan g = Some plan \<and> \<not> gd_reconciliationOnly g \<and> \<not> gd_lockedOut g
      \<and> matchPlanRequest plan q = Inr operation
      \<and> makeHardwareAction plan operation HardwarePhaseExecute None = Inr action
      \<and> ge_clock e 2 < pl_ApprovalExpiresAt plan
      \<and> ge_clock e 2 + os_MaximumDuration operation + cf_LeaseSafetyMargin (gd_config g) \<le> xr_ClaimExpiresAt q
      \<and> ge_recheck e = []
      \<and> ge_pre e = Returned ops raw [] \<and> ob_EligibleTargets raw = 1
      \<and> ob_RPIBootSysfsPath raw = cf_RPIBootSysfsPath (gd_config g)
      \<and> ob_TargetFingerprint raw = pl_TargetFingerprint plan"
proof -
  obtain plan operation carried pre ops raw err a act events' where
    ad: "execute_admit e q g s = Inr (plan, operation, carried, pre)" and pre: "ge_pre e = Returned ops raw err"
    and prep: "execute_prepare e q plan operation carried pre raw err (gd_config g) (run_boot_ops (ge_lane e) ops s) = Inr (a, act)"
    using assms by (auto simp: Execute_def Let_def split: sum.splits prod.splits hw_reply.splits)
  note p = execute_prepare_Inr [OF prep makeHardwareAction_Inr(1) [OF execute_admit_Inr(8) [OF ad]]]
  have "action = act"
    using assms(1)
  proof (cases rule: Execute_effect)
    case quiet
    then show ?thesis using assms(2) by simp
  next
    case (intent plan' operation' carried' pre' a' act' st st1)
    then show ?thesis using assms(2) ad p(2) by auto
  qed
  moreover have "ge_clock e 2 < pl_ApprovalExpiresAt plan"
    and "ge_clock e 2 + os_MaximumDuration operation + cf_LeaseSafetyMargin (gd_config g) \<le> xr_ClaimExpiresAt q"
    using p(3) by (auto simp: authority_ok_def lease_exact)
  ultimately show ?thesis using execute_admit_Inr [OF ad] p pre by blast
qed

theorem execution_authorised_witness:
  "\<exists>s' events. Execute (lane_call (Crashed [])) lane_xr lane_armed first_store = (Died, s', events)
     \<and> lane_exec \<in> set (executions events)
     \<and> (\<exists>plan operation. gd_plan lane_armed = Some plan \<and> matchPlanRequest plan lane_xr = Inr operation
          \<and> lane_at 0 < pl_ApprovalExpiresAt plan)"
proof -
  obtain s' where s: "Execute (lane_call (Crashed [])) lane_xr lane_armed first_store
      = (Died, s', [EvObserve lane_pre, EvExecute lane_exec])"
    using lane_crashed [OF first_holds] by blast
  show ?thesis using execution_authorised [OF s, of lane_exec] s by auto
qed

section \<open>Results\<close>

text \<open>Property C8. Verified means proved: every attempt in the journal belongs to an operation of a plan
  that validates. If it is verified, the target was seen in the state the plan expects after the
  operation, and for the programming of key and EEPROM the fresh-commit attestation is exactly the one of
  the plan's release and target. If it is confirmed not applied, the target was seen in the state the plan
  expects before it, and there is no attestation.\<close>

theorem verified_is_proved:
  assumes "lane_reachable L (g, s) events" and "map_get (attempts_in s) key = Some a"
  shows "\<exists>plan config lane i. Plan_validate (le_sha256 L) plan config lane = None \<and> i < length (pl_Operations plan)
      \<and> at_PlanDigest a = pl_PlanDigest plan \<and> at_Operation a = os_Operation (pl_Operations plan ! i)
      \<and> at_OperationDigest a = os_OperationDigest (pl_Operations plan ! i)
      \<and> at_TargetFingerprint a = pl_TargetFingerprint plan
      \<and> (at_Status a = AttemptVerified \<longrightarrow>
           at_ObservedState a = os_ExpectedPoststate (pl_Operations plan ! i)
           \<and> (at_Operation a = OperationProgramCustomerKeyAndEEPROM \<longrightarrow>
                 re_CommitAttestation (at_Result a) = expectedCommitAttestation plan))
      \<and> (at_Status a = AttemptConfirmedNotApplied \<longrightarrow>
           at_ObservedState a = os_ExpectedPrestate (pl_Operations plan ! i)
           \<and> re_CommitAttestation (at_Result a) = zero_CommitAttestation)"
proof -
  have "attempts_ok (le_sha256 L) (attempts_in s)"
    using lane.always [OF assms(1)] by (simp add: lane_ok_def)
  then have "proved_attempt (le_sha256 L) a" using assms(2) by (auto simp: attempts_ok_def)
  then obtain plan config lane i where p: "Plan_validate (le_sha256 L) plan config lane = None" "i < 7"
    "of_plan plan (pl_Operations plan ! i) a" "verdict_ok plan (pl_Operations plan ! i) a"
    by (auto simp: proved_attempt_def)
  have "re_CommitAttestation (at_Result a) = expectedCommitAttestation plan"
    if "at_Status a = AttemptVerified" "at_Operation a = OperationProgramCustomerKeyAndEEPROM"
    using that p(3,4) by (auto simp: verdict_ok_def of_plan_def validateResultCommitAttestation_def Let_def split: if_splits)
  then show ?thesis
    using p plan_length [OF p(1)] unfolding of_plan_def verdict_ok_def by metis
qed

theorem verified_is_proved_witness:
  "\<exists>s. lane_reachable demo_lane (lane_armed, s) [EvObserve lane_pre, EvExecute lane_exec, EvObserve lane_post]
     \<and> map_get (attempts_in s) (AttemptJournalKey lane_plan 1) = Some lane_done \<and> at_Status lane_done = AttemptVerified
     \<and> (\<exists>plan. at_PlanDigest lane_done = pl_PlanDigest plan
          \<and> re_CommitAttestation (at_Result lane_done) = expectedCommitAttestation plan)"
proof -
  obtain s where s: "lane_reachable demo_lane (lane_armed, s) [EvObserve lane_pre, EvExecute lane_exec, EvObserve lane_post]"
    "lane_journal_of s = lane_J5"
    using lane_verified_reachable .
  have key: "map_get (attempts_in s) (AttemptJournalKey lane_plan 1) = Some lane_done"
    using s(2) by (simp add: map_get_def)
  have fin: "at_Status lane_done = AttemptVerified" "at_Operation lane_done = OperationProgramCustomerKeyAndEEPROM"
    by (simp_all add: lane_done_def lane_intent_def new_attempt_def)
  show ?thesis using verified_is_proved [OF s(1) key] s(1) key fin by blast
qed

text \<open>Reconciliation never executes: reconciling makes no execution call, and once a plan was
  taken for reconciliation the guard is disarmed: every later request to execute is refused for lack of
  authority, without touching the hardware or the journal.\<close>

theorem reconciliation_disarms:
  assumes "ReconcilePlan e plan q g s = (ans, g', s', events)"
  shows "executions events = []
    \<and> (g' = g \<and> s' = s \<and> events = []
       \<or> (\<forall>e' q' t. Execute e' q' g' t = (Answered None [ErrReconciliationAuthority], t, [])))"
  using assms
proof (cases rule: ReconcilePlan_effect)
  case refused
  then show ?thesis by simp
next
  case reconciled
  have "executions events = []" using reconciled(1) by (cases rule: Reconcile_effect) auto
  moreover have "Execute e' q' g' t = (Answered None [ErrReconciliationAuthority], t, [])" for e' q' t
    using reconciled(2,4) by (simp add: Execute_def execute_admit_def matchRequest_def)
  ultimately show ?thesis by blast
qed

theorem reconciliation_disarms_witness:
  "\<exists>ans s' events. ReconcilePlan (lane_call (Crashed [])) lane_plan lane_rq lane_armed first_store
       = (ans, lane_armed\<lparr>gd_reconciliationOnly := True\<rparr>, s', events)
     \<and> executions events = []
     \<and> (\<forall>e q t. Execute e q (lane_armed\<lparr>gd_reconciliationOnly := True\<rparr>) t
          = (Answered None [ErrReconciliationAuthority], t, []))"
proof -
  have two: "\<not> (2 :: uint64) \<le> 1" by code_simp
  have "Plan_validate sha p c True = None \<Longrightarrow> Plan_validate sha p c False = None" for sha p c
    unfolding Plan_validate_def first_err_Cons_None fail_if_None by blast
  then have "Plan_validate demo_hash lane_plan lane_config False = None"
    using lane_plan_ok unfolding Plan_Validate_def by blast
  moreover have "match_ReconcileRequest lane_config lane_plan lane_rq = Inr (lane_operation 0)"
    using lane_matched two
    by (simp add: match_ReconcileRequest_def lane_rq_def lane_config_def canonicalApprovalExpiry_def Let_def)
  moreover have "reconcile_lease_ok (lane_at 0) lane_rq lane_config"
    by (simp add: reconcile_lease_ok_def lane_rq_def lane_config_def lease_exact ReconciliationObservationBudget_def)
      (simp add: lane_at_def lane_now_def second_def)
  ultimately obtain ans s' events where r: "ReconcilePlan (lane_call (Crashed [])) lane_plan lane_rq lane_armed first_store
      = (ans, lane_armed\<lparr>gd_reconciliationOnly := True\<rparr>, s', events)"
    by (cases "Reconcile (lane_call (Crashed [])) lane_rq (lane_armed\<lparr>gd_reconciliationOnly := True\<rparr>) first_store")
      (simp add: ReconcilePlan_def ValidateReconcileRequest_def ValidateReconciliationPlan_def lane_armed_def lane_guard_def)
  have "lane_armed\<lparr>gd_reconciliationOnly := True\<rparr> \<noteq> lane_armed" by (simp add: lane_armed_def lane_guard_def)
  with r reconciliation_disarms [OF r] show ?thesis by blast
qed

text \<open>Property C23. Quarantine locks the lane: if an attempt of the plan is quarantined, a guard that
  loads the plan is locked out, and refuses to execute and to reconcile.\<close>

theorem quarantine_locks:
  assumes "LoadPlan e plan g s = (None, g')" and "gd_plan g = None" and "operation \<in> set (pl_Operations plan)"
    and "map_get (attempts_in s) (AttemptJournalKey plan (os_Sequence operation)) = Some a"
    and "at_Status a = AttemptQuarantined" and "\<not> gd_reconciliationOnly g"
  shows "Execute e' q g' t = (Answered None [ErrQuarantined], t, [])
    \<and> Reconcile e' r g' t = (Answered None [ErrQuarantined], t, [])"
proof -
  obtain states locked where "restartStates (ge_lane e) (ge_restart e) plan s = Inr (states, locked)"
    and g': "g' = g\<lparr>gd_plan := Some plan, gd_lockedOut := locked\<rparr>"
    using assms(1,2) by (auto simp: LoadPlan_def split: option.splits sum.splits)
  then have locked using restart_loop_locked assms(3-5) unfolding restartStates_def by blast
  then show ?thesis
    using assms(6) g' by (simp add: Execute_def execute_admit_def matchRequest_def Reconcile_def reconcile_admit_def
        matchReconcileRequest_def)
qed

theorem quarantine_locks_witness:
  "\<exists>s g'. map_get (attempts_in s) (AttemptJournalKey lane_plan (os_Sequence (lane_operation 0))) = Some lane_bad
     \<and> at_Status lane_bad = AttemptQuarantined
     \<and> LoadPlan (lane_call (Crashed [])) lane_plan lane_guard s = (None, g')
     \<and> Execute (lane_call (Crashed [])) lane_xr g' s = (Answered None [ErrQuarantined], s, [])
     \<and> Reconcile (lane_call (Crashed [])) lane_rq g' s = (Answered None [ErrQuarantined], s, [])"
proof -
  let ?s = "\<lparr>ls_open = True, ls_file = \<lparr>fs_path = Some lane_JQ, fs_temp = None\<rparr>\<rparr>"
  have bad: "map_get (attempts_in ?s) (AttemptJournalKey lane_plan (os_Sequence (lane_operation 0))) = Some lane_bad"
    "at_Status lane_bad = AttemptQuarantined"
    by (simp_all add: lane_journal_of_def lane_JQ_def with_attempt_def lane_bad_def map_get_def)
  obtain g' where load: "LoadPlan (lane_call (Crashed [])) lane_plan lane_guard ?s = (None, g')"
    using lane_bad_load by blast
  have "gd_plan lane_guard = None" "\<not> gd_reconciliationOnly lane_guard" "lane_operation 0 \<in> set (pl_Operations lane_plan)"
    by (simp_all add: lane_guard_def seven)
  with quarantine_locks [OF load _ _ bad] bad load show ?thesis by blast
qed

section \<open>Plans and leases\<close>

text \<open>A lease covers an operation exactly when the clock is running, the operation has a
  positive length, the margin is not negative, both together fit 63 bits, and the operation with the margin
  ends no later than the lease; the saturating subtraction of Go's clock makes no difference.\<close>

theorem lease_is_exact:
  "LeaseCoversOperation now expiresAt maximumDuration safetyMargin \<longleftrightarrow>
     now \<noteq> 0 \<and> 0 < maximumDuration \<and> 0 \<le> safetyMargin \<and> maximumDuration + safetyMargin < 2 ^ 63
     \<and> now + maximumDuration + safetyMargin \<le> expiresAt"
  by (rule lease_exact)

text \<open>Deriving digests is a fixed point: the plan it gives carries the digest of each of its
  operations and its own, which the validation of plans recomputes, and deriving again changes nothing.\<close>

theorem derived_digests_are_stable:
  assumes "WithDerivedDigests sha plan = Inr plan'"
  shows "WithDerivedDigests sha plan' = Inr plan' \<and> Plan_Digest sha plan' = Inr (pl_PlanDigest plan')
    \<and> (\<forall>operation \<in> set (pl_Operations plan'). os_OperationDigest operation = OperationSpec_Digest sha operation)"
proof -
  have op: "OperationSpec_Digest sha (operation\<lparr>os_OperationDigest := d\<rparr>) = OperationSpec_Digest sha operation" for operation d
    by (simp add: OperationSpec_Digest_def operationDigestMaterial_def)
  have pd: "Plan_Digest sha (p\<lparr>pl_PlanDigest := d\<rparr>) = Plan_Digest sha p" for p d
    by (simp add: Plan_Digest_def Plan_CanonicalDigestMaterial_def planDigestMaterial_def)
  have ops: "pl_Operations (p\<lparr>pl_PlanDigest := d\<rparr>) = pl_Operations p" for p :: Plan and d by simp
  obtain digest where d: "Plan_Digest sha (plan\<lparr>pl_Operations :=
        map (\<lambda>operation. operation\<lparr>os_OperationDigest := OperationSpec_Digest sha operation\<rparr>) (pl_Operations plan)\<rparr>) = Inr digest"
    and plan': "plan' = plan\<lparr>pl_Operations :=
        map (\<lambda>operation. operation\<lparr>os_OperationDigest := OperationSpec_Digest sha operation\<rparr>) (pl_Operations plan),
        pl_PlanDigest := digest\<rparr>"
    using assms by (auto simp: WithDerivedDigests_def Let_def)
  have digests: "\<forall>operation \<in> set (pl_Operations plan'). os_OperationDigest operation = OperationSpec_Digest sha operation"
    by (auto simp: plan' op)
  have "map (\<lambda>operation. operation\<lparr>os_OperationDigest := OperationSpec_Digest sha operation\<rparr>) (pl_Operations plan') = pl_Operations plan'"
    by (simp add: plan' op)
  then have "plan'\<lparr>pl_Operations := map (\<lambda>operation. operation\<lparr>os_OperationDigest := OperationSpec_Digest sha operation\<rparr>)
      (pl_Operations plan')\<rparr> = plan'" by simp
  moreover have "Plan_Digest sha plan' = Inr (pl_PlanDigest plan')" using d pd by (simp add: plan')
  ultimately show ?thesis using digests by (simp add: WithDerivedDigests_def Let_def)
qed

theorem derived_digests_are_stable_witness:
  "WithDerivedDigests demo_hash lane_plan = Inr lane_plan \<and> Plan_Digest demo_hash lane_plan = Inr (pl_PlanDigest lane_plan)"
proof -
  have "map (\<lambda>operation. operation\<lparr>os_OperationDigest := OperationSpec_Digest demo_hash operation\<rparr>) (pl_Operations lane_plan)
      = pl_Operations lane_plan"
    by (simp add: lane_operation_def)
  then have "WithDerivedDigests demo_hash lane_plan = Inr lane_plan"
    by (simp add: WithDerivedDigests_def Plan_Digest_def Plan_CanonicalDigestMaterial_def canonicalApprovalExpiry_def Let_def)
  with derived_digests_are_stable [OF this] show ?thesis by blast
qed

section \<open>Boot transitions\<close>

text \<open>A terminal transition can always be reported: every transition that passes its
  validation and has ended has an outcome, with its action and its status, that the guard accepts for
  that action. A completed one was observed in the requested mode, and its times are in the order of the
  procedure: power off, USB gone, cold interval over, operator, power, mode, release, safe off, completed.\<close>

theorem terminal_transition_reported:
  assumes "\<forall>m. length (sha m) = 32" and "BootTransition_Validate sha t = None" and "IsTerminal t" and "0 \<le> bt_StartedAt t"
  shows "(\<exists>outcome. Outcome sha t = Inr outcome \<and> ValidateForAction sha outcome (bt_Action t) = None
      \<and> br_Status (bo_Reference outcome) = bt_Status t)
    \<and> (bt_Status t = BootTransitionCompleted \<longrightarrow>
        sorted (recorded_times t) \<and> bt_ObservedMode t = ha_RequestedBootMode (bt_Action t))"
  using terminal_outcome [OF assms] completed_ordered [OF assms(2)] by metis

theorem terminal_transition_reported_witness:
  "IsTerminal (lane_boot lane_pre 6) \<and> (\<exists>outcome. Outcome demo_hash (lane_boot lane_pre 6) = Inr outcome)
   \<and> sorted (recorded_times (lane_boot lane_pre 6))"
proof -
  have v: "BootTransition_Validate demo_hash (lane_boot lane_pre 6) = None"
    using lane_boot_valid [OF lane_action_made(2)] by simp
  have final: "IsTerminal (lane_boot lane_pre 6)" by (simp add: IsTerminal_def terminal_status_def)
  have pos: "0 \<le> bt_StartedAt (lane_boot lane_pre 6)" by (simp add: lane_at_def lane_now_def second_def)
  have len: "\<forall>m. length (demo_hash m) = 32" by (simp add: demo_hash_length)
  show ?thesis using terminal_transition_reported [OF len v final pos] final by auto
qed

text \<open>Property C26. The hardware adapter only moves forward: after any of its writes, failed or not, every
  transition of the journal is still there, with all it had recorded, unchanged if it had ended, and at the
  same or the next status or ended; a new transition gets a key of its own. (The generation of a new
  transition is counted per station, lane, target and operation, which its key does not contain, so this
  needs that transitions with the same transaction, plan, epoch, sequence and phase agree in those.)\<close>

theorem adapter_moves_forward:
  assumes "map_get (js_BootTransitions (lane_journal_of s)) key = Some t"
    and "\<forall>fault q. op = BeginOp fault q \<longrightarrow> scopes_agree (js_BootTransitions (lane_journal_of s)) (bb_Action q)"
  shows "\<exists>t'. map_get (js_BootTransitions (lane_journal_of (run_boot_op e op s))) key = Some t' \<and> transition_advances t t'"
  by (rule run_boot_op_forward [OF assms])

theorem adapter_moves_forward_witness:
  "\<exists>s. map_get (js_BootTransitions (lane_journal_of s)) (BootTransitionKey lane_pre 1) = Some (lane_boot lane_pre 6)
     \<and> scopes_agree (js_BootTransitions (lane_journal_of s)) lane_exec
     \<and> (\<exists>t'. map_get (js_BootTransitions (lane_journal_of (run_boot_op demo_lane (BeginOp None (lane_request lane_exec)) s)))
          (BootTransitionKey lane_pre 1) = Some t' \<and> transition_advances (lane_boot lane_pre 6) t')"
proof -
  obtain s where s: "lane_journal_of s = lane_J2" using lane_crashed_reachable by blast
  have key: "map_get (js_BootTransitions (lane_journal_of s)) (BootTransitionKey lane_pre 1) = Some (lane_boot lane_pre 6)"
    using s by (simp add: map_get_def)
  have agree: "scopes_agree (js_BootTransitions (lane_journal_of s)) lane_exec"
    using s by (simp add: scopes_agree_def same_key_scope_def)
  have "\<forall>fault q. BeginOp None (lane_request lane_exec) = BeginOp fault q \<longrightarrow>
      scopes_agree (js_BootTransitions (lane_journal_of s)) (bb_Action q)"
    using agree by (simp add: lane_request_def)
  from adapter_moves_forward [OF key this, of demo_lane] key agree show ?thesis by blast
qed

section \<open>The journal\<close>

text \<open>Property C25. The file store implements the memory store: for every sequence of calls of the journal
  interface, all seven operations included, the file store answers without faults exactly what the memory
  store answers, errors included, and ends with a file that reads back as the memory store's contents; so
  everything that a write lets through passes the checks of every later read. The calls have to fit: each
  journal on the way can be encoded and stays within the size limit of a read, and no new boot transition
  shares its key with an older one of another scope.\<close>

theorem file_store_refines_memory:
  assumes "ls_open s" and "Store_load e None s = Inr (memory_journal_of m)" and "calls_fit e calls m"
    and "memory_calls (le_sha256 e) calls m = (answers, m')"
  shows "\<exists>s'. file_calls e calls s = (answers, s') \<and> ls_open s' \<and> Store_load e None s' = Inr (memory_journal_of m')"
  using file_calls_agree [of e s m calls answers m'] assms by (auto simp: stores_agree_def)

theorem file_store_refines_memory_witness:
  "\<exists>s'. file_calls demo_lane
       [CallBeginBootTransition (lane_request lane_pre), CallPutBootTransition (lane_boot lane_pre 1),
        CallPut lane_intent, CallIncompleteBootTransitions] first_store
     = ([Begun (lane_boot lane_pre 0), Stored, Failed ErrPlain, GotIncomplete [lane_boot lane_pre 1]], s')
   \<and> Store_load demo_lane None s' = Inr (with_boot newJournalState (lane_boot lane_pre 1))"
proof -
  let ?calls = "[CallBeginBootTransition (lane_request lane_pre), CallPutBootTransition (lane_boot lane_pre 1),
      CallPut lane_intent, CallIncompleteBootTransitions]"
  let ?J = "\<lambda>i. with_boot newJournalState (lane_boot lane_pre i)"
  have env: "le_sha256 demo_lane = demo_hash" "le_size demo_lane st \<le> maximumLaneJournalBytes" for st
    by (simp_all add: demo_lane_def)
  have start: "NewMemoryStore = memory_of newJournalState" by (simp add: NewMemoryStore_def memory_of_def newJournalState_def)
  have opened: "ls_open first_store" by (simp add: first_store_def)
  have load: "Store_load demo_lane None first_store = Inr (memory_journal_of NewMemoryStore)"
    using holds_load [OF first_holds] by (simp add: start)
  have "add_transition demo_hash (lane_request lane_pre) newJournalState = Inr (lane_boot lane_pre 0, ?J 0)"
    using lane_request_transition [OF lane_action_made(2)] lane_action_made(2) [of HardwarePhasePreObservation]
    by (simp add: add_transition_def begin_transition_def newJournalState_def with_boot_def map_put_def rpiboot_action_def
        lane_request_def)
  then have begun: "Memory_BeginBootTransition demo_hash (lane_request lane_pre) (memory_of newJournalState)
      = (Inr (lane_boot lane_pre 0), memory_of (?J 0))"
    by (simp add: Memory_BeginBootTransition_writes)
  have moved: "Memory_PutBootTransition demo_hash (lane_boot lane_pre 1) (memory_of (?J 0)) = (None, memory_of (?J 1))"
    using lane_boot_update [OF lane_action_made(2), of HardwarePhasePreObservation 0]
      lane_boot_valid [OF lane_action_made(2), of HardwarePhasePreObservation 1]
    by (simp add: Memory_PutBootTransition_writes put_transition_def with_boot_def newJournalState_def map_get_def map_put_def)
  have refused: "Memory_Put demo_hash lane_intent (memory_of (?J 1)) = (Some ErrPlain, memory_of (?J 1))"
    using lane_intent_valid lane_boot_valid [OF lane_action_made(2), of HardwarePhasePreObservation 1]
    by (simp add: Memory_Put_writes put_attempt_def validateAttemptJournalBindings_def outcome_binding_ok_def with_boot_def
        newJournalState_def map_get_def Outcome_def Reference_def IsTerminal_def terminal_status_def transition_status_defs)
  have open1: "Memory_IncompleteBootTransitions (memory_of (?J 1)) = Inr [lane_boot lane_pre 1]"
    by (simp add: Memory_IncompleteBootTransitions_def memory_of_def with_boot_def newJournalState_def
        incompleteBootTransitions_def IsTerminal_def terminal_status_def transition_status_defs)
  have enc: "journal_encodes (?J i)" if "i < 7" for i
    using lane_boot_good [OF new_journal_good lane_action_made(2) that] by (simp add: good_journal_def)
  have scope: "scopes_agree (ms_bootTransitions (memory_of newJournalState)) action" for action
    by (simp add: scopes_agree_def memory_of_def newJournalState_def)
  have fits: "calls_fit demo_lane ?calls NewMemoryStore"
    by (simp add: start env begun moved refused enc scope Let_def del: One_nat_def)
  have answers: "memory_calls (le_sha256 demo_lane) ?calls NewMemoryStore
      = ([Begun (lane_boot lane_pre 0), Stored, Failed ErrPlain, GotIncomplete [lane_boot lane_pre 1]], memory_of (?J 1))"
    by (simp add: start env begun moved refused open1 read_answer_def write_answer_def del: One_nat_def)
  show ?thesis
    using file_store_refines_memory [OF opened load fits answers] unfolding memory_journal_inverse by blast
qed

section \<open>Where the guard falls short\<close>

text \<open>Property C38. A late success is not recorded: when the hardware reported a completed execution but
  the operation's deadline has passed, the guard answers with an attempt that is uncertain and carries the
  completed boot transition, and tries to store it; the store always refuses it, because an attempt with a
  completed execution transition must carry the result. The journal keeps the bare intent.\<close>

theorem late_result_unrecorded:
  assumes "ge_exec e = Returned ops result []" and "ge_cause e 4 \<noteq> []" and "at_Result a = zero_OperationResult"
    and "validateBootTransitionOutcome (ge_lane e) (ge_fault e 5) config action (re_BootTransition result) True
      (run_boot_ops (ge_lane e) ops s) = None"
  shows "\<exists>b errs. execute_dispatch e plan operation carried a action config s
      = (Answered (Some b) errs, run_boot_ops (ge_lane e) ops s, [EvExecute action])
    \<and> at_Status b = AttemptUncertain \<and> at_ExecutionTransition b = re_BootTransition result \<and> errs \<noteq> []"
proof -
  define b where "b = a\<lparr>at_ExecutionTransition := re_BootTransition result, at_Status := AttemptUncertain,
    at_UpdatedAt := ge_clock e 3, at_Detail := ''hardware call returned without an authoritative postcondition''\<rparr>"
  have "br_Status (bo_Reference (re_BootTransition result)) = BootTransitionCompleted"
    using validateBootTransitionOutcome_None [OF assms(4)] by simp
  then have "validateAttemptBootTransitionOutcomes sha b \<noteq> None" for sha
    using assms(3) by (simp add: validateAttemptBootTransitionOutcomes_def b_def Let_def)
  then have "validateAttempt sha b \<noteq> None" for sha by (simp add: validateAttempt_def)
  then obtain err where err: "validateAttempt (le_sha256 (ge_lane e)) b = Some err" by fast
  have "execute_conclude e plan operation a action result [] config (run_boot_ops (ge_lane e) ops s)
      = Record b (ErrReconciliationRequired # ge_cause e 4)"
    using assms(2,4) by (simp add: execute_conclude_def b_def Let_def)
  then have "execute_dispatch e plan operation carried a action config s
      = (Answered (Some b) (ErrReconciliationRequired # ge_cause e 4 @ [err]), run_boot_ops (ge_lane e) ops s, [EvExecute action])"
    using assms(1) err by (simp add: execute_dispatch_def record_outcome_def Store_Put_def)
  then show ?thesis by (auto simp: b_def)
qed

theorem late_result_unrecorded_witness:
  "\<exists>s s' b errs. lane_journal_of s = lane_J2
     \<and> execute_dispatch ((lane_call (Returned (lane_ops lane_exec) lane_result []))\<lparr>ge_cause := (\<lambda>i. [ErrOperationDeadline])\<rparr>)
         lane_plan (lane_operation 0) zero_CommitAttestation lane_intent lane_exec lane_config s
       = (Answered (Some b) errs, s', [EvExecute lane_exec])
     \<and> attempts_in s' = [(AttemptJournalKey lane_plan 1, lane_intent)] \<and> at_Status b = AttemptUncertain"
proof -
  let ?e = "(lane_call (Returned (lane_ops lane_exec) lane_result []))\<lparr>ge_cause := (\<lambda>i. [ErrOperationDeadline])\<rparr>"
  obtain s where s: "holds s lane_J2" using lane_crashed [OF first_holds] by blast
  have "validateBootTransitionOutcome demo_lane None lane_config lane_exec (re_BootTransition lane_result) True
      (run_boot_ops demo_lane (lane_ops lane_exec) s) = None"
    using lane_outcome_accepted [OF lane_action_made(2) lane_runs(2) [OF s]] lane_keys_distinct
    by (simp add: lane_result_def map_get_def)
  then obtain b errs where "execute_dispatch ?e lane_plan (lane_operation 0) zero_CommitAttestation lane_intent lane_exec lane_config s
      = (Answered (Some b) errs, run_boot_ops demo_lane (lane_ops lane_exec) s, [EvExecute lane_exec])"
    "at_Status b = AttemptUncertain"
    using late_result_unrecorded [of ?e "lane_ops lane_exec" lane_result lane_intent lane_config lane_exec s lane_plan
        "lane_operation 0" zero_CommitAttestation] by auto
  moreover have "attempts_in (run_boot_ops demo_lane (lane_ops lane_exec) s) = [(AttemptJournalKey lane_plan 1, lane_intent)]"
    using lane_runs(2) [OF s] by (simp add: holds_def)
  ultimately show ?thesis using s unfolding holds_def by blast
qed

text \<open>Property C39. A journal can outgrow its reader: a write does not check the size limit that reading
  has, so after a call that changed the journal and left it above the limit, each of the seven operations
  of the store fails, whatever its arguments, and changes nothing.\<close>

theorem oversized_journal_unreadable:
  assumes "file_call e fault c s = (r, s')" and "lane_journal_of s' \<noteq> lane_journal_of s"
    and "maximumLaneJournalBytes < le_size e (lane_journal_of s')"
  shows "\<exists>err. file_call e fault' c' s' = (Failed err, s')"
proof -
  have "fs_path (ls_file s') = fs_path (ls_file s) \<or> fs_path (ls_file s') \<noteq> None"
    using assms(1) Store_save_path by (cases c) (auto simp: Store_Put_def Store_PutBootTransition_def Store_BeginBootTransition_def
        apfst_def map_prod_def split: sum.splits prod.splits option.splits)
  then have "fs_path (ls_file s') = Some (lane_journal_of s')"
    using assms(2) by (auto simp: lane_journal_of_def split: option.splits)
  then have load: "Store_load e fault' s' = Inl ErrPlain" using assms(3) by (simp add: Store_load_def)
  show ?thesis
    by (cases c') (auto simp: Store_Get_def Store_Put_def Store_PutBootTransition_def Store_BeginBootTransition_def
        Store_GetBootTransition_def Store_IncompleteBootTransitions_def Store_HasQuarantinedBootTransition_def load
        requireOpen_def orFail_def fail_if_def read_answer_def write_answer_def split: option.splits)
qed

text \<open>In the witness each record takes five million bytes: the journal with one boot transition is read
  back, and the intent that is then stored passes the limit.\<close>

theorem oversized_journal_unreadable_witness:
  "\<exists>s s'. Store_load (demo_lane\<lparr>le_size := \<lambda>st. 5000000 * (length (js_Attempts st) + length (js_BootTransitions st))\<rparr>) None s
       = Inr lane_J1
   \<and> file_call (demo_lane\<lparr>le_size := \<lambda>st. 5000000 * (length (js_Attempts st) + length (js_BootTransitions st))\<rparr>) None
       (CallPut lane_intent) s = (Stored, s')
   \<and> (\<exists>err. file_call (demo_lane\<lparr>le_size := \<lambda>st. 5000000 * (length (js_Attempts st) + length (js_BootTransitions st))\<rparr>) None
       CallIncompleteBootTransitions s' = (Failed err, s'))"
proof -
  let ?e = "demo_lane\<lparr>le_size := \<lambda>st. 5000000 * (length (js_Attempts st) + length (js_BootTransitions st))\<rparr>"
  obtain s where s: "holds s lane_J1" using lane_runs(1) [OF first_holds] by blast
  obtain s' where s': "Store_save None lane_J2 s = (None, s')" "holds s' lane_J2"
    using holds_save [OF s lane_journals_good(2)] .
  have "fs_path (ls_file s) = Some lane_J1" "loaded_ok demo_hash lane_J1 = None"
    using s by (auto simp: holds_def lane_journal_of_def newJournalState_def good_journal_def lane_J1_def with_boot_def split: option.splits)
  then have load: "Store_load ?e None s = Inr lane_J1"
    by (simp add: Store_load_def demo_lane_def maximumLaneJournalBytes_def)
  have "put_attempt demo_hash lane_intent lane_J1 = Inr lane_J2"
    using lane_bindings(1) by (simp add: put_attempt_def map_put_def lane_J2_def with_attempt_def)
  then have put: "file_call ?e None (CallPut lane_intent) s = (Stored, s')"
    using load holds_open [OF s] lane_intent_valid s'(1) by (simp add: Store_Put_def demo_lane_def write_answer_def)
  have "lane_journal_of s' \<noteq> lane_journal_of s"
    using s s'(2) by (simp add: holds_def lane_J2_def with_attempt_def lane_J1_def with_boot_def newJournalState_def)
  moreover have "maximumLaneJournalBytes < le_size ?e (lane_journal_of s')"
    using s'(2) by (simp add: holds_def maximumLaneJournalBytes_def)
  ultimately show ?thesis
    using oversized_journal_unreadable [OF put, of None CallIncompleteBootTransitions] load put by blast
qed

end
