(* ===== verification/Plan_Compiler.thy ===== *)
theory Plan_Compiler
  imports Lane_Plan_Facts
begin

text \<open>
  The compiler of lane plans (\<^verbatim>\<open>plancompiler/compiler.go\<close>): the fixed operations with their classes and
  boot modes, the draft that is built from what is known before approval, its restoration from a
  snapshot, and the digests of prestates. A Go array of seven is a function from the index. A plan holds
  its approval's expiry as an instant; Go's \<open>==\<close> on times also compares their zones, which the
  restoration of a snapshot takes as a flag.
\<close>

section \<open>Data\<close>

text \<open>The package's errors; \<open>PlanPanic\<close> is the panic of a failed \<^verbatim>\<open>json.Marshal\<close>.\<close>

datatype plan_error =
    PlanInvalidDraft | PlanAuthorityMismatch | PlanApprovalExpired | PlanStaleClaim
  | PlanInvalidAuditIntent | PlanInvalidReconciliation | PlanNoGuard | PlanPanic

definition prestateDigestDomain :: string where
  "prestateDigestDomain = ''kaiba.provisioning.plan-compiler.prestate.v1alpha2''"
definition ZeroCustomerKeyHash :: string where
  "ZeroCustomerKeyHash = ''sha256:0000000000000000000000000000000000000000000000000000000000000000''"

record DraftInput =
  di_StationID :: string
  di_LaneID :: string
  di_PowerControlMode :: PowerControlMode
  di_TransactionID :: string
  di_Release :: Binding
  di_TargetFingerprint :: string
  di_InitialObservationDigest :: string
  di_FenceEpoch :: uint64
  di_ApprovalExpiresAt :: instant
  di_InitialState :: DirectState
  di_AuthorizationIDs :: "nat \<Rightarrow> string"
  di_MaximumDurations :: "nat \<Rightarrow> duration"

record Draft =
  dr_plan :: Plan

definition policyOperations :: "(Operation \<times> OperationClass \<times> BootMode) list" where
  "policyOperations =
     [(OperationProgramCustomerKeyAndEEPROM, ClassIrreversible, BootModeRPIBoot),
      (OperationColdPowerCycle, ClassReversible, BootModeNormal),
      (OperationOwnedReadback, ClassReadOnly, BootModeRPIBoot),
      (OperationTestOwnedRecovery, ClassReversible, BootModeRPIBoot),
      (OperationPostRecoveryReadback, ClassReadOnly, BootModeRPIBoot),
      (OperationTestNegativeBoot, ClassReversible, BootModeRPIBoot),
      (OperationTestRootIntegrity, ClassReversible, BootModeRPIBoot)]"

definition plan_validDigest :: "string \<Rightarrow> bool" where
  "plan_validDigest value =
     (\<not> (length value \<noteq> length ''sha256:'' + 32 * 2
         \<or> take (length ''sha256:'') value \<noteq> ''sha256:''
         \<or> value \<noteq> map to_lower value)
      \<and> (case hex_decode (drop (length ''sha256:'') value) of
           None \<Rightarrow> False | Some decoded \<Rightarrow> length decoded = 32))"

section \<open>Building a draft\<close>

definition draft_validateState :: "DirectState \<Rightarrow> plan_error option" where
  "draft_validateState state = (case DirectState_Validate state of Some _ \<Rightarrow> Some PlanInvalidDraft | None \<Rightarrow> None)"

definition draft_commitAttestedState :: "Binding \<Rightarrow> DirectState" where
  "draft_commitAttestedState release =
     \<lparr>ds_CustomerKeyHash = rb_ExpectedCustomerKeyHash release, ds_EEPROMHash = ExpectedEEPROMDigest release,
      ds_EEPROMHashStatus = EEPROMHashCommitAttested, ds_SecurityState = ''owned'',
      ds_PowerState = ''powered_off''\<rparr>"

definition draft_observedOwnedState :: "Binding \<Rightarrow> DirectState" where
  "draft_observedOwnedState release =
     (draft_commitAttestedState release)\<lparr>ds_EEPROMHashStatus := EEPROMHashObserved\<rparr>"

text \<open>The loop over the policy; the result is the filled slice.\<close>

fun draft_loop ::
  "DraftInput \<Rightarrow> nat \<Rightarrow> DirectState \<Rightarrow> (Operation \<times> OperationClass \<times> BootMode) list
     \<Rightarrow> plan_error + OperationSpec list" where
  "draft_loop input index prestate [] = Inr []"
| "draft_loop input index prestate ((operation, classification, requiredBootMode) # rest) =
     orFail (first_err
       [fail_if (\<not> identifierPattern (di_AuthorizationIDs input index)) PlanInvalidDraft,
        fail_if (di_MaximumDurations input index \<le> 0) PlanInvalidDraft])
     (let poststate = (if index < 2 then draft_commitAttestedState (di_Release input)
                       else draft_observedOwnedState (di_Release input))
      in bindE (draft_loop input (index + 1) poststate rest) (\<lambda>operations.
        Inr (\<lparr>os_Sequence = of_nat (index + 1), os_Operation = operation, os_Classification = classification,
              os_RequiredBootMode = requiredBootMode, os_OperationDigest = [],
              os_AuthorizationID = di_AuthorizationIDs input index, os_ExpectedPrestate = prestate,
              os_ExpectedPoststate = poststate, os_MaximumDuration = di_MaximumDurations input index\<rparr>
             # operations)))"

definition draft_input_ok :: "DraftInput \<Rightarrow> plan_error option" where
  "draft_input_ok input =
     first_err
       [fail_if (\<not> identifierPattern (di_StationID input) \<or> \<not> identifierPattern (di_LaneID input)
                 \<or> \<not> identifierPattern (di_TransactionID input)) PlanInvalidDraft,
        fail_if (di_PowerControlMode input \<noteq> PowerControlRelay
                 \<and> di_PowerControlMode input \<noteq> PowerControlManual) PlanInvalidDraft,
        fail_if (\<not> plan_validDigest (di_TargetFingerprint input)
                 \<or> \<not> plan_validDigest (di_InitialObservationDigest input) \<or> di_FenceEpoch input = 0) PlanInvalidDraft,
        fail_if (\<not> Binding_Validate (di_Release input)) PlanInvalidDraft,
        fail_if (rb_ExpectedCustomerKeyHash (di_Release input) = ZeroCustomerKeyHash) PlanInvalidDraft,
        fail_if (di_ApprovalExpiresAt input = 0) PlanInvalidDraft,
        draft_validateState (di_InitialState input),
        fail_if (ds_CustomerKeyHash (di_InitialState input) \<noteq> ZeroCustomerKeyHash
                 \<or> ds_SecurityState (di_InitialState input) \<noteq> ''fresh''
                 \<or> ds_PowerState (di_InitialState input) \<noteq> ''powered_off'') PlanInvalidDraft]"

definition draft_header :: "DraftInput \<Rightarrow> Plan" where
  "draft_header input =
     \<lparr>pl_SchemaVersion = ContractSchemaVersion, pl_StationID = di_StationID input, pl_LaneID = di_LaneID input,
      pl_PowerControlMode = di_PowerControlMode input, pl_TransactionID = di_TransactionID input,
      pl_PlanDigest = [], pl_Release = di_Release input, pl_TargetFingerprint = di_TargetFingerprint input,
      pl_InitialObservationDigest = di_InitialObservationDigest input, pl_FenceEpoch = di_FenceEpoch input,
      pl_ApprovalID = [], pl_ApprovalExpiresAt = di_ApprovalExpiresAt input, pl_IntentReceipt = [],
      pl_IntentSequence = 0, pl_Operations = []\<rparr>"

definition BuildDraft :: "hash \<Rightarrow> DraftInput \<Rightarrow> plan_error + Draft" where
  "BuildDraft sha256 input =
     orFail (draft_input_ok input)
     (bindE (draft_loop input 0 (di_InitialState input) policyOperations) (\<lambda>operations.
       (case WithDerivedDigests sha256 ((draft_header input)\<lparr>pl_Operations := operations\<rparr>) of
          Inl _ \<Rightarrow> Inl PlanInvalidDraft
        | Inr derived \<Rightarrow> Inr \<lparr>dr_plan = derived\<rparr>)))"

section \<open>Restoring a draft\<close>

definition sameDraftSnapshot :: "bool \<Rightarrow> Plan \<Rightarrow> Plan \<Rightarrow> bool" where
  "sameDraftSnapshot same_zone left right =
     (\<not> (pl_SchemaVersion left \<noteq> pl_SchemaVersion right \<or> pl_StationID left \<noteq> pl_StationID right
         \<or> pl_LaneID left \<noteq> pl_LaneID right \<or> pl_PowerControlMode left \<noteq> pl_PowerControlMode right
         \<or> pl_TransactionID left \<noteq> pl_TransactionID right \<or> pl_PlanDigest left \<noteq> pl_PlanDigest right
         \<or> pl_Release left \<noteq> pl_Release right \<or> pl_TargetFingerprint left \<noteq> pl_TargetFingerprint right
         \<or> pl_InitialObservationDigest left \<noteq> pl_InitialObservationDigest right
         \<or> pl_FenceEpoch left \<noteq> pl_FenceEpoch right
         \<or> \<not> (same_zone \<and> pl_ApprovalExpiresAt left = pl_ApprovalExpiresAt right)
         \<or> pl_ApprovalID left \<noteq> pl_ApprovalID right \<or> pl_IntentReceipt left \<noteq> pl_IntentReceipt right
         \<or> pl_IntentSequence left \<noteq> pl_IntentSequence right
         \<or> length (pl_Operations left) \<noteq> length (pl_Operations right))
      \<and> list_all2 (=) (pl_Operations left) (pl_Operations right))"

definition snapshot_input :: "Plan \<Rightarrow> DraftInput" where
  "snapshot_input snapshot =
     \<lparr>di_StationID = pl_StationID snapshot, di_LaneID = pl_LaneID snapshot,
      di_PowerControlMode = pl_PowerControlMode snapshot, di_TransactionID = pl_TransactionID snapshot,
      di_Release = pl_Release snapshot, di_TargetFingerprint = pl_TargetFingerprint snapshot,
      di_InitialObservationDigest = pl_InitialObservationDigest snapshot,
      di_FenceEpoch = pl_FenceEpoch snapshot, di_ApprovalExpiresAt = pl_ApprovalExpiresAt snapshot,
      di_InitialState = os_ExpectedPrestate (pl_Operations snapshot ! 0),
      di_AuthorizationIDs = (\<lambda>index. os_AuthorizationID (pl_Operations snapshot ! index)),
      di_MaximumDurations = (\<lambda>index. os_MaximumDuration (pl_Operations snapshot ! index))\<rparr>"

text \<open>\<open>utc_expiry\<close>: the snapshot's expiry is in UTC, as a draft's always is.\<close>

definition DraftFromSnapshot :: "hash \<Rightarrow> bool \<Rightarrow> Plan \<Rightarrow> plan_error + Draft" where
  "DraftFromSnapshot sha256 utc_expiry snapshot =
     orFail (first_err
       [fail_if (pl_ApprovalID snapshot \<noteq> [] \<or> pl_IntentReceipt snapshot \<noteq> [] \<or> pl_IntentSequence snapshot \<noteq> 0)
          PlanInvalidDraft,
        fail_if (length (pl_Operations snapshot) \<noteq> length policyOperations) PlanInvalidDraft])
     (bindE (BuildDraft sha256 (snapshot_input snapshot)) (\<lambda>restored.
       orFail (fail_if (\<not> sameDraftSnapshot utc_expiry snapshot (dr_plan restored)) PlanInvalidDraft)
         (Inr restored)))"

definition Snapshot :: "Draft \<Rightarrow> Plan" where
  "Snapshot draft = dr_plan draft"

section \<open>Digests of a draft\<close>

definition prestateDigest :: "hash \<Rightarrow> DirectState \<Rightarrow> string" where
  "prestateDigest sha256 state =
     digestBytes sha256 (prestateDigestDomain @ [char_of (0 :: nat)] @ render (json_of_DirectState state))"

definition draft_PlanDigest :: "Draft \<Rightarrow> string" where
  "draft_PlanDigest draft = pl_PlanDigest (dr_plan draft)"

definition InitialPrestateDigest :: "hash \<Rightarrow> Draft \<Rightarrow> string" where
  "InitialPrestateDigest sha256 draft =
     (if length (pl_Operations (dr_plan draft)) = 0 then []
      else prestateDigest sha256 (os_ExpectedPrestate (pl_Operations (dr_plan draft) ! 0)))"

definition PrestateDigest :: "hash \<Rightarrow> Draft \<Rightarrow> uint32 \<Rightarrow> plan_error + string" where
  "PrestateDigest sha256 draft sequence =
     (if sequence = 0 \<or> unat sequence > length (pl_Operations (dr_plan draft)) then Inl PlanInvalidDraft
      else Inr (prestateDigest sha256 (os_ExpectedPrestate (pl_Operations (dr_plan draft) ! unat (sequence - 1)))))"

text \<open>The loop over the policy and the loop over the digests of \<^verbatim>\<open>validateDraft\<close>; the reads are in range
  because the length was checked.\<close>

definition draft_policy_ok :: "Plan \<Rightarrow> nat \<Rightarrow> plan_error option" where
  "draft_policy_ok plan index =
     (let operation = pl_Operations plan ! index;
          (policy_operation, classification, requiredBootMode) = policyOperations ! index
      in first_err
           [fail_if (os_Sequence operation \<noteq> of_nat (index + 1) \<or> os_Operation operation \<noteq> policy_operation
                     \<or> os_Classification operation \<noteq> classification
                     \<or> os_RequiredBootMode operation \<noteq> requiredBootMode) PlanInvalidDraft,
            fail_if (index > 0 \<and> os_ExpectedPrestate operation
                       \<noteq> os_ExpectedPoststate (pl_Operations plan ! (index - 1))) PlanInvalidDraft])"

definition validateDraft :: "hash \<Rightarrow> Draft \<Rightarrow> plan_error option" where
  "validateDraft sha256 draft =
     (let plan = dr_plan draft in
      if pl_ApprovalID plan \<noteq> [] \<or> pl_IntentReceipt plan \<noteq> [] \<or> pl_IntentSequence plan \<noteq> 0
         \<or> length (pl_Operations plan) \<noteq> length policyOperations
      then Some PlanInvalidDraft
      else (case first_err (map (draft_policy_ok plan) [0 ..< length policyOperations]) of
              Some err \<Rightarrow> Some err
            | None \<Rightarrow>
                (case WithDerivedDigests sha256 plan of
                   Inl _ \<Rightarrow> Some PlanInvalidDraft
                 | Inr derived \<Rightarrow>
                     first_err (fail_if (pl_PlanDigest derived \<noteq> pl_PlanDigest plan) PlanInvalidDraft
                       # map (\<lambda>index. fail_if (os_OperationDigest (pl_Operations derived ! index)
                                               \<noteq> os_OperationDigest (pl_Operations plan ! index)) PlanInvalidDraft)
                           [0 ..< length (pl_Operations plan)]))))"

end
