(* ===== verification/Plan_Authority.thy ===== *)
theory Plan_Authority
  imports Plan_Compiler Control_Service Audit_Log Lane_Guard
begin

text \<open>
  Binding a draft to its authority (\<^verbatim>\<open>plancompiler/authority.go\<close>, \<^verbatim>\<open>plancompiler/reconciliation.go\<close>): from
  one snapshot of the control plane's transaction and of two audit records, either the plan of exactly one
  pending operation with its request, or the plan of one unresolved operation with a request to observe.
  The package recomputes the digests of both services itself. The plan of a \<open>BoundPlan\<close> cannot be reached
  but through its methods.
\<close>

section \<open>Data\<close>

definition ResultIntentRecorded :: string where "ResultIntentRecorded = ''intent_recorded''"
definition DefaultPolicyVersion :: string where "DefaultPolicyVersion = ''provisioning-audit-policy/v1alpha1''"

record Authority =
  ay_Transaction :: Transaction
  ay_ApprovalReceipt :: Receipt
  ay_ApprovalRecord :: Record
  ay_IntentReceipt :: Receipt
  ay_IntentRecord :: Record
  ay_Now :: instant
  ay_LeaseSafetyMargin :: duration

record BoundPlan =
  bp_plan :: Plan
  bp_claimExpiresAt :: instant
  bp_operationIndex :: int

record RehearsalAuthoritySummary =
  rs_TransactionID :: string
  rs_ResourceVersion :: uint64
  rs_FenceEpoch :: uint64
  rs_PlanDigest :: string
  rs_ApprovalID :: string
  rs_IntentReceipt :: string
  rs_PlanOperationCount :: int
  rs_ValidatedIntentCount :: int
  rs_ExecutableRequestCount :: int
  rs_PendingSequence :: uint32
  rs_InitialCustomerKeyHash :: string
  rs_OwnedCustomerKeyHash :: string

record actorPolicy =
  approvalRole :: string
  intentRole :: string

definition productionActors :: actorPolicy where
  "productionActors = \<lparr>approvalRole = ''approver'', intentRole = ''provisioning_station''\<rparr>"
definition rehearsalActors :: actorPolicy where
  "rehearsalActors = \<lparr>approvalRole = ''software_rehearsal_approver'', intentRole = ''software_rehearsal''\<rparr>"

section \<open>Digests of the services, recomputed\<close>

definition plan_transactionDigest :: "hash \<Rightarrow> Transaction \<Rightarrow> string option" where
  "plan_transactionDigest sha256 t = digestJSON sha256 (JObj
     [(''id'', JStr (tx_ID t)), (''asset_id'', JStr (tx_AssetID t)),
      (''intended_logical_id'', JStr (tx_IntendedLogicalID t)), (''profile_id'', JStr (tx_ProfileID t)),
      (''bundle_digest'', JStr (tx_BundleDigest t)), (''policy_digest'', JStr (tx_PolicyDigest t)),
      (''expected_prestate_customer_key_hash'', JStr (tx_ExpectedPrestateCustomerKeyHash t)),
      (''expected_customer_key_hash'', JStr (tx_ExpectedCustomerKeyHash t))])"

definition auditEventHash :: "hash \<Rightarrow> Record \<Rightarrow> string option" where
  "auditEventHash sha256 r = digestJSON sha256 (JObj (
     [(''sequence'', juint64 (rd_Sequence r))]
     @ omit_empty ''previous_event_hash'' (rd_PreviousEventHash r)
     @ [(''request_digest'', JStr (rd_RequestDigest r)), (''recorded_at'', JTime (utc (rd_RecordedAt r))),
        (''event'', json_of_Event (rd_Event r))]))"

definition auditReceiptID :: "hash \<Rightarrow> string \<Rightarrow> string" where
  "auditReceiptID sha256 eventHash =
     ''sha256:'' @ hex_encode (sha256 (''kaiba-audit-receipt'' @ [char_of (0 :: nat)] @ eventHash))"

section \<open>Audit records\<close>

definition validateAuditReceipt ::
  "hash \<Rightarrow> Receipt \<Rightarrow> Record \<Rightarrow> string \<Rightarrow> instant \<Rightarrow> plan_error option" where
  "validateAuditReceipt sha256 receipt record expectedReceiptID now =
     (if rc_SchemaVersion receipt \<noteq> ReceiptSchemaVersion \<or> rc_Sequence receipt = 0
         \<or> rc_Sequence receipt \<noteq> rd_Sequence record
         \<or> rc_PreviousEventHash receipt \<noteq> rd_PreviousEventHash record
         \<or> rc_EventHash receipt \<noteq> rd_EventHash record \<or> rc_RecordedAt receipt \<noteq> rd_RecordedAt record
         \<or> rc_ReceiptID receipt \<noteq> auditReceiptID sha256 (rd_EventHash record)
         \<or> rc_ReceiptID receipt \<noteq> expectedReceiptID
      then Some PlanInvalidAuditIntent
      else if \<not> plan_validDigest (rd_RequestDigest record) \<or> \<not> plan_validDigest (rd_EventHash record)
      then Some PlanInvalidAuditIntent
      else (case auditEventHash sha256 record of
              None \<Rightarrow> Some PlanPanic
            | Some hash \<Rightarrow>
                fail_if (rd_EventHash record \<noteq> hash \<or> rd_RecordedAt record = 0 \<or> rd_RecordedAt record > now)
                  PlanInvalidAuditIntent))"

text \<open>What the events of an approval and of an intent must say; the actor is read after its number was
  checked.\<close>

definition event_binds ::
  "Plan \<Rightarrow> Event \<Rightarrow> string \<Rightarrow> string \<Rightarrow> string \<Rightarrow> string \<Rightarrow> bool" where
  "event_binds plan event eventID stage actor role =
     (\<not> (ev_SchemaVersion event \<noteq> EventSchemaVersion \<or> ev_PolicyVersion event \<noteq> DefaultPolicyVersion
         \<or> ev_EventID event \<noteq> eventID \<or> ev_TransactionID event \<noteq> pl_TransactionID plan
         \<or> ev_StationID event \<noteq> pl_StationID plan \<or> ev_LaneID event \<noteq> pl_LaneID plan
         \<or> ev_Stage event \<noteq> stage \<or> ev_FenceEpoch event \<noteq> pl_FenceEpoch plan
         \<or> ev_InputDigest event \<noteq> pl_PlanDigest plan \<or> ev_OutputDigest event \<noteq> []
         \<or> ev_Result event \<noteq> ResultIntentRecorded \<or> length (ev_Actors event) \<noteq> 1
         \<or> actor_ID (ev_Actors event ! 0) \<noteq> actor \<or> actor_Role (ev_Actors event ! 0) \<noteq> role))"

definition validateAuditApproval ::
  "hash \<Rightarrow> Plan \<Rightarrow> Approval \<Rightarrow> Receipt \<Rightarrow> Record \<Rightarrow> instant \<Rightarrow> string \<Rightarrow> plan_error option" where
  "validateAuditApproval sha256 plan approval receipt record now expectedRole =
     first_err
       [validateAuditReceipt sha256 receipt record (ap_AuditReceiptID approval) now,
        fail_if (ap_ApprovedAt approval < rd_RecordedAt record) PlanInvalidAuditIntent,
        fail_if (\<not> event_binds plan (rd_Event record) (ap_ID approval) ''plan_approval''
                     (ap_ApproverID approval) expectedRole) PlanInvalidAuditIntent]"

definition validateAuditIntent ::
  "hash \<Rightarrow> Plan \<Rightarrow> OperationSpec \<Rightarrow> OperationRecord \<Rightarrow> Receipt \<Rightarrow> Record \<Rightarrow> instant \<Rightarrow> string
     \<Rightarrow> plan_error option" where
  "validateAuditIntent sha256 plan operation intent receipt record now expectedRole =
     first_err
       [validateAuditReceipt sha256 receipt record (op_IntentAuditReceiptID intent) now,
        fail_if (op_IntentAt intent < rd_RecordedAt record) PlanInvalidAuditIntent,
        fail_if (\<not> event_binds plan (rd_Event record) (op_ID intent) (os_Operation operation)
                     (pl_StationID plan) expectedRole) PlanInvalidAuditIntent]"

definition containsExactCampaign :: "string list \<Rightarrow> bool" where
  "containsExactCampaign values =
     (if length values \<noteq> length developmentOperations then False
      else list_all (\<lambda>index. values ! index = developmentOperations ! index) [0 ..< length developmentOperations])"

section \<open>The operations of the control plane\<close>

text \<open>What every record of the transaction must share with its operation of the plan.\<close>

definition record_bound :: "hash \<Rightarrow> Plan \<Rightarrow> OperationSpec \<Rightarrow> instant \<Rightarrow> OperationRecord \<Rightarrow> bool" where
  "record_bound sha256 plan operation now record =
     (\<not> (op_ID record = [] \<or> op_Operation record \<noteq> os_Operation operation
         \<or> op_PlanDigest record \<noteq> pl_PlanDigest plan \<or> op_Release record \<noteq> pl_Release plan
         \<or> op_ApprovalExpiresAt record \<noteq> pl_ApprovalExpiresAt plan
         \<or> op_InputDigest record \<noteq> pl_PlanDigest plan
         \<or> op_PrestateDigest record \<noteq> prestateDigest sha256 (os_ExpectedPrestate operation)
         \<or> \<not> plan_validDigest (op_IntentAuditReceiptID record)
         \<or> op_IntentFenceEpoch record \<noteq> pl_FenceEpoch plan \<or> op_IntentAt record = 0
         \<or> op_IntentAt record > now))"

definition clean_intent :: "OperationRecord \<Rightarrow> bool" where
  "clean_intent record =
     (\<not> (op_OutputDigest record \<noteq> [] \<or> op_ObservationDigest record \<noteq> []
         \<or> op_EvidenceAuditReceiptID record \<noteq> [] \<or> op_EvidenceAt record \<noteq> None
         \<or> op_ReconciliationAuditReceiptID record \<noteq> []))"

text \<open>The common part of the evidence of an operation that is over: digests and times.\<close>

definition evidence_ok :: "instant \<Rightarrow> OperationRecord \<Rightarrow> bool" where
  "evidence_ok now record =
     (\<not> (\<not> plan_validDigest (op_OutputDigest record) \<or> \<not> plan_validDigest (op_ObservationDigest record)
         \<or> (case op_EvidenceAt record of None \<Rightarrow> True
            | Some evidenceAt \<Rightarrow> evidenceAt < op_IntentAt record \<or> evidenceAt > now)))"

definition intent_follows :: "OperationRecord \<Rightarrow> OperationRecord \<Rightarrow> bool" where
  "intent_follows record next =
     (case op_EvidenceAt record of None \<Rightarrow> True | Some evidenceAt \<Rightarrow> \<not> op_IntentAt next < evidenceAt)"

text \<open>The loop of \<^verbatim>\<open>validateControlOperations\<close>; \<open>seen\<close> are the identifiers of the records before.\<close>

fun control_operations_loop ::
  "hash \<Rightarrow> Plan \<Rightarrow> instant \<Rightarrow> nat \<Rightarrow> string list \<Rightarrow> OperationRecord list
     \<Rightarrow> plan_error + (nat \<times> OperationRecord)" where
  "control_operations_loop sha256 plan now index seen [] = Inl PlanAuthorityMismatch"
| "control_operations_loop sha256 plan now index seen (record # rest) =
     (if \<not> record_bound sha256 plan (pl_Operations plan ! index) now record then Inl PlanAuthorityMismatch
      else if op_ID record \<in> set seen then Inl PlanAuthorityMismatch
      else (case rest of
              [] \<Rightarrow>
                if op_Status record \<noteq> OperationIntentRecorded \<or> \<not> clean_intent record
                then Inl PlanAuthorityMismatch
                else Inr (index, record)
            | next # _ \<Rightarrow>
                orFail (first_err
                  [fail_if (op_Status record \<noteq> OperationSucceeded \<and> op_Status record \<noteq> OperationConfirmedApplied)
                     PlanAuthorityMismatch,
                   fail_if (\<not> evidence_ok now record) PlanAuthorityMismatch,
                   fail_if (op_Status record = OperationSucceeded
                            \<and> \<not> plan_validDigest (op_EvidenceAuditReceiptID record)) PlanAuthorityMismatch,
                   fail_if (op_Status record = OperationConfirmedApplied
                            \<and> \<not> plan_validDigest (op_ReconciliationAuditReceiptID record)) PlanAuthorityMismatch,
                   fail_if (\<not> intent_follows record next) PlanAuthorityMismatch])
                (control_operations_loop sha256 plan now (index + 1) (op_ID record # seen) rest)))"

definition validateControlOperations ::
  "hash \<Rightarrow> Plan \<Rightarrow> OperationRecord list \<Rightarrow> instant \<Rightarrow> plan_error + (nat \<times> OperationRecord)" where
  "validateControlOperations sha256 plan records now =
     (if length records = 0 \<or> length records > length (pl_Operations plan) then Inl PlanAuthorityMismatch
      else control_operations_loop sha256 plan now 0 [] records)"

section \<open>Bind\<close>

definition bind_transaction_ok :: "hash \<Rightarrow> Plan \<Rightarrow> Transaction \<Rightarrow> plan_error option" where
  "bind_transaction_ok sha256 plan transaction =
     first_err
       [fail_if (tx_SchemaVersion transaction \<noteq> TransactionSchemaVersion \<or> tx_ResourceVersion transaction = 0
                 \<or> tx_ID transaction \<noteq> pl_TransactionID plan
                 \<or> tx_Status transaction \<noteq> StatusMutationInProgress
                 \<or> tx_Quarantine transaction \<noteq> None \<or> tx_SecurityApplied transaction \<noteq> None
                 \<or> tx_Abort transaction \<noteq> None) PlanAuthorityMismatch,
        (case plan_transactionDigest sha256 transaction of
           None \<Rightarrow> Some PlanPanic
         | Some digest \<Rightarrow> fail_if (tx_TransactionDigest transaction \<noteq> digest) PlanAuthorityMismatch),
        fail_if (tx_BundleDigest transaction \<noteq> SignedReleaseManifestDigest (pl_Release plan)
                 \<or> tx_ExpectedCustomerKeyHash transaction \<noteq> rb_ExpectedCustomerKeyHash (pl_Release plan))
          PlanAuthorityMismatch]"

definition bind_claim_ok :: "Plan \<Rightarrow> Transaction \<Rightarrow> instant \<Rightarrow> Claim \<Rightarrow> plan_error option" where
  "bind_claim_ok plan transaction now claim =
     first_err
       [fail_if (cl_ID claim = [] \<or> cl_Status claim \<noteq> ClaimActive \<or> cl_Mode claim \<noteq> ClaimModeMutation
                 \<or> cl_ClosedAt claim \<noteq> None \<or> cl_StationID claim \<noteq> pl_StationID plan
                 \<or> cl_LaneID claim \<noteq> pl_LaneID plan \<or> cl_AssetID claim \<noteq> tx_AssetID transaction
                 \<or> cl_FenceEpoch claim \<noteq> pl_FenceEpoch plan
                 \<or> tx_FenceEpoch transaction \<noteq> pl_FenceEpoch plan
                 \<or> cl_AcquiredAt claim = 0 \<or> cl_AcquiredAt claim > now
                 \<or> \<not> cl_ExpiresAt claim > cl_AcquiredAt claim) PlanStaleClaim,
        fail_if (\<not> containsExactCampaign (cl_AllowedStages claim)) PlanStaleClaim]"

definition bind_target_ok :: "Plan \<Rightarrow> Transaction \<Rightarrow> instant \<Rightarrow> TargetBinding \<Rightarrow> bool" where
  "bind_target_ok plan transaction now target =
     (\<not> (tb_Fingerprint target \<noteq> pl_TargetFingerprint plan \<or> tb_FenceEpoch target \<noteq> pl_FenceEpoch plan
         \<or> tb_CustomerKeyHash target \<noteq> tx_ExpectedPrestateCustomerKeyHash transaction
         \<or> tb_CustomerKeyHash target \<noteq> ds_CustomerKeyHash (os_ExpectedPrestate (pl_Operations plan ! 0))
         \<or> tb_ObservationDigest target \<noteq> pl_InitialObservationDigest plan
         \<or> \<not> plan_validDigest (tb_ObservationDigest target)
         \<or> tb_BoundAt target = 0 \<or> tb_BoundAt target > now))"

definition approval_bound :: "Plan \<Rightarrow> Transaction \<Rightarrow> instant \<Rightarrow> Approval \<Rightarrow> bool" where
  "approval_bound plan transaction now approval =
     (\<not> (ap_ID approval = [] \<or> ap_ApproverID approval = []
         \<or> ap_TransactionDigest approval \<noteq> tx_TransactionDigest transaction
         \<or> ap_PlanDigest approval \<noteq> pl_PlanDigest plan
         \<or> ap_StationID approval \<noteq> pl_StationID plan \<or> ap_LaneID approval \<noteq> pl_LaneID plan
         \<or> ap_FenceEpoch approval \<noteq> pl_FenceEpoch plan
         \<or> ap_TargetFingerprint approval \<noteq> pl_TargetFingerprint plan
         \<or> ap_Release approval \<noteq> pl_Release plan
         \<or> \<not> containsExactCampaign (ap_AllowedOperations approval)
         \<or> \<not> plan_validDigest (ap_AuditReceiptID approval)
         \<or> ap_ApprovedAt approval = 0 \<or> ap_ApprovedAt approval > now
         \<or> ap_ExpiresAt approval \<noteq> pl_ApprovalExpiresAt plan
         \<or> \<not> ap_ExpiresAt approval > ap_ApprovedAt approval
         \<or> time_Sub (ap_ExpiresAt approval) (ap_ApprovedAt approval) > 24 * 60 * 60 * second))"

text \<open>The order of the two audit records and of the approval.\<close>

definition records_ordered :: "Approval \<Rightarrow> Authority \<Rightarrow> plan_error option" where
  "records_ordered approval authority =
     fail_if (rd_Sequence (ay_ApprovalRecord authority) \<ge> rd_Sequence (ay_IntentRecord authority)
              \<or> ap_ApprovedAt approval > rd_RecordedAt (ay_IntentRecord authority)) PlanInvalidAuditIntent"

definition bind_plan :: "Plan \<Rightarrow> Approval \<Rightarrow> Authority \<Rightarrow> OperationSpec \<Rightarrow> Plan" where
  "bind_plan plan approval authority operation =
     plan\<lparr>pl_ApprovalID := ap_ID approval, pl_IntentReceipt := rc_ReceiptID (ay_IntentReceipt authority),
          pl_IntentSequence := os_Sequence operation\<rparr>"

definition bindWithActorPolicy :: "hash \<Rightarrow> Draft \<Rightarrow> Authority \<Rightarrow> actorPolicy \<Rightarrow> plan_error + BoundPlan" where
  "bindWithActorPolicy sha256 draft authority actors =
     orFail (first_err
       [validateDraft sha256 draft,
        fail_if (ay_Now authority = 0 \<or> ay_LeaseSafetyMargin authority < 0) PlanAuthorityMismatch])
     (let now = ay_Now authority; transaction = ay_Transaction authority; plan = dr_plan draft in
      orFail (bind_transaction_ok sha256 plan transaction)
      (case tx_ActiveClaim transaction of None \<Rightarrow> Inl PlanStaleClaim | Some claim \<Rightarrow>
      orFail (bind_claim_ok plan transaction now claim)
      (case tx_Target transaction of None \<Rightarrow> Inl PlanAuthorityMismatch | Some target \<Rightarrow>
      orFail (fail_if (\<not> bind_target_ok plan transaction now target) PlanAuthorityMismatch)
      (case tx_Approval transaction of None \<Rightarrow> Inl PlanAuthorityMismatch | Some approval \<Rightarrow>
      orFail (first_err
        [fail_if (\<not> approval_bound plan transaction now approval) PlanAuthorityMismatch,
         fail_if (\<not> now < ap_ExpiresAt approval) PlanApprovalExpired,
         validateAuditApproval sha256 plan approval (ay_ApprovalReceipt authority) (ay_ApprovalRecord authority)
           now (approvalRole actors)])
      (bindE (validateControlOperations sha256 plan (tx_Operations transaction) now) (\<lambda>(operationIndex, intent).
       let operation = pl_Operations plan ! operationIndex in
       orFail (first_err
         [fail_if (\<not> LeaseCoversOperation now (cl_ExpiresAt claim) (os_MaximumDuration operation)
                       (ay_LeaseSafetyMargin authority)) PlanStaleClaim,
          validateAuditIntent sha256 plan operation intent (ay_IntentReceipt authority) (ay_IntentRecord authority)
            now (intentRole actors),
          records_ordered approval authority])
       (Inr \<lparr>bp_plan = bind_plan plan approval authority operation, bp_claimExpiresAt = cl_ExpiresAt claim,
             bp_operationIndex = int operationIndex\<rparr>)))))))"

definition Bind :: "hash \<Rightarrow> Draft \<Rightarrow> Authority \<Rightarrow> plan_error + BoundPlan" where
  "Bind sha256 draft authority = bindWithActorPolicy sha256 draft authority productionActors"

definition VerifySoftwareRehearsalAuthority ::
  "hash \<Rightarrow> Draft \<Rightarrow> Authority \<Rightarrow> plan_error + RehearsalAuthoritySummary" where
  "VerifySoftwareRehearsalAuthority sha256 draft authority =
     bindE (bindWithActorPolicy sha256 draft authority rehearsalActors) (\<lambda>bound.
       let plan = bp_plan bound in
       Inr \<lparr>rs_TransactionID = tx_ID (ay_Transaction authority),
            rs_ResourceVersion = tx_ResourceVersion (ay_Transaction authority),
            rs_FenceEpoch = pl_FenceEpoch plan, rs_PlanDigest = pl_PlanDigest plan,
            rs_ApprovalID = pl_ApprovalID plan, rs_IntentReceipt = pl_IntentReceipt plan,
            rs_PlanOperationCount = int (length (pl_Operations plan)), rs_ValidatedIntentCount = 1,
            rs_ExecutableRequestCount = 0,
            rs_PendingSequence = os_Sequence (pl_Operations plan ! nat (bp_operationIndex bound)),
            rs_InitialCustomerKeyHash = ds_CustomerKeyHash (os_ExpectedPrestate (pl_Operations plan ! 0)),
            rs_OwnedCustomerKeyHash = ds_CustomerKeyHash (os_ExpectedPoststate (pl_Operations plan ! 0))\<rparr>)"

text \<open>\<^verbatim>\<open>BoundPlan.Load\<close>; \<open>None\<close> is a nil guard.\<close>

definition BoundPlan_Load ::
  "guard_env \<Rightarrow> BoundPlan \<Rightarrow> Guard option \<Rightarrow> lane_store \<Rightarrow> (plan_error + guard_error option) \<times> Guard option" where
  "BoundPlan_Load e bound guard s =
     (case guard of
        None \<Rightarrow> (Inl PlanNoGuard, None)
      | Some g \<Rightarrow> (case LoadPlan e (bp_plan bound) g s of (err, g') \<Rightarrow> (Inr err, Some g')))"

definition request_of :: "Plan \<Rightarrow> OperationSpec \<Rightarrow> instant \<Rightarrow> ExecuteRequest" where
  "request_of plan operation claimExpiresAt =
     \<lparr>xr_SchemaVersion = ContractSchemaVersion, xr_StationID = pl_StationID plan, xr_LaneID = pl_LaneID plan,
      xr_TransactionID = pl_TransactionID plan, xr_PlanDigest = pl_PlanDigest plan, xr_Release = pl_Release plan,
      xr_TargetFingerprint = pl_TargetFingerprint plan,
      xr_InitialObservationDigest = pl_InitialObservationDigest plan, xr_FenceEpoch = pl_FenceEpoch plan,
      xr_ApprovalID = pl_ApprovalID plan, xr_ApprovalExpiresAt = pl_ApprovalExpiresAt plan,
      xr_IntentReceipt = pl_IntentReceipt plan, xr_Sequence = os_Sequence operation,
      xr_OperationDigest = os_OperationDigest operation, xr_AuthorizationID = os_AuthorizationID operation,
      xr_RequiredBootMode = os_RequiredBootMode operation, xr_ExpectedPrestate = os_ExpectedPrestate operation,
      xr_ClaimExpiresAt = claimExpiresAt\<rparr>"

definition BoundPlan_ExecuteRequest :: "BoundPlan \<Rightarrow> plan_error + ExecuteRequest" where
  "BoundPlan_ExecuteRequest bound =
     (if bp_operationIndex bound < 0 \<or> bp_operationIndex bound \<ge> int (length (pl_Operations (bp_plan bound)))
      then Inl PlanAuthorityMismatch
      else Inr (request_of (bp_plan bound) (pl_Operations (bp_plan bound) ! nat (bp_operationIndex bound))
                  (bp_claimExpiresAt bound)))"

definition Execution :: "BoundPlan \<Rightarrow> plan_error + (Plan \<times> ExecuteRequest)" where
  "Execution bound = bindE (BoundPlan_ExecuteRequest bound) (\<lambda>request. Inr (bp_plan bound, request))"

section \<open>Reconciliation\<close>

record BoundReconciliation =
  br_plan :: Plan
  br_request :: ReconcileRequest

text \<open>The loop of \<^verbatim>\<open>validateReconciliationOperations\<close>.\<close>

fun reconciliation_operations_loop ::
  "hash \<Rightarrow> Plan \<Rightarrow> instant \<Rightarrow> nat \<Rightarrow> string list \<Rightarrow> OperationRecord list
     \<Rightarrow> plan_error + (nat \<times> OperationRecord)" where
  "reconciliation_operations_loop sha256 plan now index seen [] = Inl PlanInvalidReconciliation"
| "reconciliation_operations_loop sha256 plan now index seen (record # rest) =
     (if \<not> record_bound sha256 plan (pl_Operations plan ! index) now record then Inl PlanInvalidReconciliation
      else if op_ID record \<in> set seen then Inl PlanInvalidReconciliation
      else (case rest of
              [] \<Rightarrow>
                orFail (case op_Status record of
                          OperationIntentRecorded \<Rightarrow> fail_if (\<not> clean_intent record) PlanInvalidReconciliation
                        | OperationUncertain \<Rightarrow>
                            fail_if (\<not> evidence_ok now record
                                     \<or> \<not> plan_validDigest (op_EvidenceAuditReceiptID record)
                                     \<or> op_ReconciliationAuditReceiptID record \<noteq> []) PlanInvalidReconciliation
                        | _ \<Rightarrow> Some PlanInvalidReconciliation)
                  (Inr (index, record))
            | next # _ \<Rightarrow>
                orFail (first_err
                  [fail_if (op_Status record \<noteq> OperationSucceeded \<and> op_Status record \<noteq> OperationConfirmedApplied)
                     PlanInvalidReconciliation,
                   fail_if (\<not> evidence_ok now record) PlanInvalidReconciliation,
                   (case op_Status record of
                      OperationSucceeded \<Rightarrow>
                        fail_if (\<not> plan_validDigest (op_EvidenceAuditReceiptID record)
                                 \<or> op_ReconciliationAuditReceiptID record \<noteq> []) PlanInvalidReconciliation
                    | OperationConfirmedApplied \<Rightarrow>
                        fail_if (\<not> plan_validDigest (op_ReconciliationAuditReceiptID record)
                                 \<or> op_EvidenceAuditReceiptID record \<noteq> []
                                    \<and> \<not> plan_validDigest (op_EvidenceAuditReceiptID record)) PlanInvalidReconciliation
                    | _ \<Rightarrow> None),
                   fail_if (\<not> intent_follows record next) PlanInvalidReconciliation])
                (reconciliation_operations_loop sha256 plan now (index + 1) (op_ID record # seen) rest)))"

definition validateReconciliationOperations ::
  "hash \<Rightarrow> Plan \<Rightarrow> OperationRecord list \<Rightarrow> instant \<Rightarrow> plan_error + (nat \<times> OperationRecord)" where
  "validateReconciliationOperations sha256 plan records now =
     (if length records = 0 \<or> length records > length (pl_Operations plan) then Inl PlanInvalidReconciliation
      else reconciliation_operations_loop sha256 plan now 0 [] records)"

definition validateReconciliationApproval ::
  "Plan \<Rightarrow> Transaction \<Rightarrow> OperationRecord \<Rightarrow> Approval \<Rightarrow> instant \<Rightarrow> plan_error option" where
  "validateReconciliationApproval plan transaction intent approval now =
     fail_if (\<not> approval_bound plan transaction now approval
              \<or> op_IntentAt intent < ap_ApprovedAt approval
              \<or> op_ApprovalExpiresAt intent \<noteq> ap_ExpiresAt approval) PlanInvalidReconciliation"

text \<open>The loop selects the last claim of the epoch and counts them.\<close>

definition originalMutationClaim ::
  "Transaction \<Rightarrow> Plan \<Rightarrow> OperationRecord \<Rightarrow> Claim \<Rightarrow> plan_error + Claim" where
  "originalMutationClaim transaction plan intent currentClaim =
     (case filter (\<lambda>claim. cl_FenceEpoch claim = pl_FenceEpoch plan) (tx_ClaimHistory transaction) of
        [selected] \<Rightarrow>
          if cl_ID selected = []
             \<or> cl_Status selected \<noteq> ClaimTransferred \<and> cl_Status selected \<noteq> ClaimExpired
             \<or> (case cl_ClosedAt selected of None \<Rightarrow> True
                | Some closedAt \<Rightarrow> closedAt < cl_AcquiredAt selected \<or> closedAt < op_IntentAt intent
                    \<or> closedAt > cl_AcquiredAt currentClaim)
             \<or> cl_Mode selected \<noteq> ClaimModeMutation
             \<or> cl_StationID selected \<noteq> pl_StationID plan \<or> cl_LaneID selected \<noteq> pl_LaneID plan
             \<or> cl_AssetID selected \<noteq> tx_AssetID transaction \<or> cl_AcquiredAt selected = 0
             \<or> \<not> cl_ExpiresAt selected > cl_AcquiredAt selected
             \<or> op_IntentAt intent < cl_AcquiredAt selected
             \<or> \<not> cl_ExpiresAt selected > op_IntentAt intent
             \<or> \<not> containsExactCampaign (cl_AllowedStages selected)
          then Inl PlanInvalidReconciliation
          else Inr selected
      | _ \<Rightarrow> Inl PlanInvalidReconciliation)"

definition reconciliation_transaction_ok :: "hash \<Rightarrow> Plan \<Rightarrow> Transaction \<Rightarrow> plan_error option" where
  "reconciliation_transaction_ok sha256 plan transaction =
     first_err
       [fail_if (tx_SchemaVersion transaction \<noteq> TransactionSchemaVersion \<or> tx_ResourceVersion transaction = 0
                 \<or> tx_ID transaction \<noteq> pl_TransactionID plan
                 \<or> tx_Status transaction \<noteq> StatusReconciliationRequired \<or> tx_Approval transaction \<noteq> None
                 \<or> tx_Quarantine transaction \<noteq> None \<or> tx_SecurityApplied transaction \<noteq> None
                 \<or> tx_Abort transaction \<noteq> None) PlanInvalidReconciliation,
        (case plan_transactionDigest sha256 transaction of
           None \<Rightarrow> Some PlanPanic
         | Some digest \<Rightarrow> fail_if (tx_TransactionDigest transaction \<noteq> digest) PlanInvalidReconciliation),
        fail_if (tx_BundleDigest transaction \<noteq> SignedReleaseManifestDigest (pl_Release plan)
                 \<or> tx_ExpectedCustomerKeyHash transaction \<noteq> rb_ExpectedCustomerKeyHash (pl_Release plan))
          PlanInvalidReconciliation]"

definition reconciliation_claim_ok :: "Plan \<Rightarrow> Transaction \<Rightarrow> instant \<Rightarrow> Claim \<Rightarrow> bool" where
  "reconciliation_claim_ok plan transaction now claim =
     (\<not> (cl_ID claim = [] \<or> cl_Status claim \<noteq> ClaimActive \<or> cl_Mode claim \<noteq> ClaimModeReconciliation
         \<or> cl_ClosedAt claim \<noteq> None \<or> cl_AssetID claim \<noteq> tx_AssetID transaction
         \<or> cl_FenceEpoch claim \<noteq> tx_FenceEpoch transaction \<or> cl_FenceEpoch claim \<le> pl_FenceEpoch plan
         \<or> cl_AcquiredAt claim = 0 \<or> cl_AcquiredAt claim > now
         \<or> \<not> cl_ExpiresAt claim > cl_AcquiredAt claim \<or> \<not> cl_ExpiresAt claim > now
         \<or> length (cl_AllowedStages claim) \<noteq> 1 \<or> cl_AllowedStages claim ! 0 \<noteq> ''reconciliation''))"

definition BindReconciliation :: "hash \<Rightarrow> Draft \<Rightarrow> Authority \<Rightarrow> plan_error + BoundReconciliation" where
  "BindReconciliation sha256 draft authority =
     orFail (first_err
       [validateDraft sha256 draft,
        fail_if (ay_Now authority = 0 \<or> ay_LeaseSafetyMargin authority < 0) PlanInvalidReconciliation])
     (let now = ay_Now authority; transaction = ay_Transaction authority; plan = dr_plan draft in
      orFail (reconciliation_transaction_ok sha256 plan transaction)
      (case tx_ActiveClaim transaction of None \<Rightarrow> Inl PlanInvalidReconciliation | Some claim \<Rightarrow>
      orFail (fail_if (\<not> reconciliation_claim_ok plan transaction now claim) PlanInvalidReconciliation)
      (case tx_Target transaction of None \<Rightarrow> Inl PlanInvalidReconciliation | Some target \<Rightarrow>
      orFail (fail_if (\<not> bind_target_ok plan transaction now target) PlanInvalidReconciliation)
      (bindE (validateReconciliationOperations sha256 plan (tx_Operations transaction) now)
        (\<lambda>(operationIndex, intent).
       let operation = pl_Operations plan ! operationIndex; approval = op_Approval intent in
       orFail (first_err
         [validateReconciliationApproval plan transaction intent approval now,
          fail_if (\<not> LeaseCoversOperation now (cl_ExpiresAt claim) ReconciliationObservationBudget
                       (ay_LeaseSafetyMargin authority)) PlanInvalidReconciliation])
       (bindE (originalMutationClaim transaction plan intent claim) (\<lambda>originalClaim.
        orFail (first_err
          [validateAuditApproval sha256 plan approval (ay_ApprovalReceipt authority) (ay_ApprovalRecord authority)
             now (approvalRole productionActors),
           validateAuditIntent sha256 plan operation intent (ay_IntentReceipt authority) (ay_IntentRecord authority)
             now (intentRole productionActors),
           records_ordered approval authority])
        (let boundPlan = bind_plan plan approval authority operation in
         Inr \<lparr>br_plan = boundPlan,
              br_request =
                \<lparr>rq_SchemaVersion = ReconcileRequestSchemaVersion,
                 rq_OriginalRequest = request_of boundPlan operation (cl_ExpiresAt originalClaim),
                 rq_Claim =
                   \<lparr>rl_StationID = cl_StationID claim, rl_LaneID = cl_LaneID claim,
                    rl_TransactionID = tx_ID transaction, rl_TargetFingerprint = pl_TargetFingerprint plan,
                    rl_ClaimID = cl_ID claim, rl_FenceEpoch = cl_FenceEpoch claim,
                    rl_ExpiresAt = cl_ExpiresAt claim\<rparr>\<rparr>\<rparr>))))))))"

definition Reconciliation :: "BoundReconciliation \<Rightarrow> plan_error + (Plan \<times> ReconcileRequest)" where
  "Reconciliation bound =
     (if rq_SchemaVersion (br_request bound) \<noteq> ReconcileRequestSchemaVersion \<or> pl_PlanDigest (br_plan bound) = []
      then Inl PlanInvalidReconciliation
      else Inr (br_plan bound, br_request bound))"

end
