(* ===== verification/Plan_Facts.thy ===== *)
theory Plan_Facts
  imports Plan_Authority Lane_Execute
begin

text \<open>
  The plan compiler in closed form: what a draft is, that a draft with authority is a plan the lane guard
  accepts, and that the package's own copies of digest checks, state literals and service digests agree
  with the originals.
\<close>

section \<open>Copies agree\<close>

lemma plan_validDigest [simp]: "plan_validDigest = validDigest"
  by (rule ext) (auto simp: plan_validDigest_def validDigest_def digest_prefix_def)

lemma containsExactCampaign [simp]: "containsExactCampaign values \<longleftrightarrow> values = developmentOperations"
  by (auto simp: containsExactCampaign_def list_all_iff intro: nth_equalityI)

lemma plan_transactionDigest [simp]: "plan_transactionDigest = transactionDigest"
  by (intro ext) (simp add: plan_transactionDigest_def transactionDigest_def transactionDigestMaterial_def)

lemma auditEventHash [simp]: "auditEventHash sha r = digestJSON sha (recordHashMaterial r)"
  by (simp add: auditEventHash_def recordHashMaterial_def)

lemma auditReceiptID [simp]: "auditReceiptID sha (rd_EventHash r) = rc_ReceiptID (receiptFor sha r)"
  by (simp add: auditReceiptID_def receiptFor_def digestBytes_def digest_prefix_def)

lemma zero_key_hash [simp]: "ZeroCustomerKeyHash = unownedCustomerKeyHash"
  by (simp add: ZeroCustomerKeyHash_def unownedCustomerKeyHash_def)

lemma draft_states [simp]:
  "draft_commitAttestedState (pl_Release plan) = commitAttestedState plan"
  "draft_observedOwnedState (pl_Release plan) = observedOwnedState plan"
  by (simp_all add: draft_commitAttestedState_def draft_observedOwnedState_def commitAttestedState_def
      observedOwnedState_def)

section \<open>Drafts\<close>

lemma length_policyOperations [simp]: "length policyOperations = 7"
  by (simp add: policyOperations_def)

text \<open>The operation at an index of a draft, before its digest is derived.\<close>

definition draft_post :: "DraftInput \<Rightarrow> nat \<Rightarrow> DirectState" where
  "draft_post input i = (if i < 2 then draft_commitAttestedState (di_Release input)
     else draft_observedOwnedState (di_Release input))"

definition draft_spec :: "DraftInput \<Rightarrow> nat \<Rightarrow> OperationSpec" where
  "draft_spec input i =
     \<lparr>os_Sequence = of_nat (i + 1), os_Operation = fst (policyOperations ! i),
      os_Classification = fst (snd (policyOperations ! i)), os_RequiredBootMode = snd (snd (policyOperations ! i)),
      os_OperationDigest = [], os_AuthorizationID = di_AuthorizationIDs input i,
      os_ExpectedPrestate = (if i = 0 then di_InitialState input else draft_post input (i - 1)),
      os_ExpectedPoststate = draft_post input i, os_MaximumDuration = di_MaximumDurations input i\<rparr>"

definition draft_op :: "hash \<Rightarrow> DraftInput \<Rightarrow> nat \<Rightarrow> OperationSpec" where
  "draft_op sha input i = (draft_spec input i)\<lparr>os_OperationDigest := OperationSpec_Digest sha (draft_spec input i)\<rparr>"

definition draft_rows_ok :: "DraftInput \<Rightarrow> bool" where
  "draft_rows_ok input \<longleftrightarrow>
     (\<forall>i < 7. identifierPattern (di_AuthorizationIDs input i) \<and> 0 < di_MaximumDurations input i)"

lemma draft_loop_Inr:
  assumes "\<And>i. i < length ps \<Longrightarrow> policyOperations ! (n + i) = ps ! i" and "n + length ps \<le> 7"
  shows "draft_loop input n (if n = 0 then di_InitialState input else draft_post input (n - 1)) ps = Inr ops \<longleftrightarrow>
     (\<forall>i. n \<le> i \<and> i < n + length ps \<longrightarrow> identifierPattern (di_AuthorizationIDs input i) \<and> 0 < di_MaximumDurations input i)
     \<and> ops = map (draft_spec input) [n ..< n + length ps]"
  using assms
proof (induction ps arbitrary: n ops)
  case Nil
  then show ?case by auto
next
  case (Cons p ps)
  obtain operation classification mode where p: "p = (operation, classification, mode)" by (cases p)
  have nth: "policyOperations ! n = p" using Cons.prems(1) [of 0] by simp
  have IH: "draft_loop input (Suc n) (draft_post input n) ps = Inr ops' \<longleftrightarrow>
     (\<forall>i. Suc n \<le> i \<and> i < Suc n + length ps \<longrightarrow> identifierPattern (di_AuthorizationIDs input i) \<and> 0 < di_MaximumDurations input i)
     \<and> ops' = map (draft_spec input) [Suc n ..< Suc n + length ps]" for ops'
    using Cons.IH [of "Suc n" ops'] Cons.prems(1) [of "Suc i" for i] Cons.prems(2) by simp
  have split: "(\<forall>i. n \<le> i \<and> i < n + length (p # ps) \<longrightarrow> Q i) \<longleftrightarrow> Q n \<and> (\<forall>i. Suc n \<le> i \<and> i < Suc n + length ps \<longrightarrow> Q i)" for Q
    by (metis (no_types, lifting) Suc_leD Suc_leI add_Suc_right add_Suc_shift le_eq_less_or_eq length_Cons
        less_add_Suc1)
  have range: "[n ..< n + length (p # ps)] = n # [Suc n ..< Suc n + length ps]"
    using upt_conv_Cons [of n "n + length (p # ps)"] by simp
  have step: "draft_loop input n (if n = 0 then di_InitialState input else draft_post input (n - 1)) (p # ps) =
     (if identifierPattern (di_AuthorizationIDs input n) \<and> 0 < di_MaximumDurations input n
      then bindE (draft_loop input (Suc n) (draft_post input n) ps) (\<lambda>ops'. Inr (draft_spec input n # ops'))
      else Inl PlanInvalidDraft)"
    unfolding p draft_loop.simps Let_def draft_post_def [of input n, symmetric]
    by (simp add: draft_spec_def nth p fail_if_def orFail_def not_le del: of_nat_Suc of_nat_add)
  show ?case
    unfolding split range step by (simp add: IH del: upt_Suc) blast
qed

lemma policy_operation:
  "map fst policyOperations = developmentOperations"
  "i < 7 \<Longrightarrow> fst (policyOperations ! i) = developmentOperations ! i"
  "\<forall>(operation, classification, mode) \<in> set policyOperations.
     operationClass operation = (classification, True) \<and> RequiredBootModeForOperation operation = (mode, True)"
proof -
  show 1: "map fst policyOperations = developmentOperations"
    by (simp add: policyOperations_def developmentOperations_def)
  show "i < 7 \<Longrightarrow> fst (policyOperations ! i) = developmentOperations ! i"
    using 1 by (metis length_policyOperations nth_map)
  show "\<forall>(operation, classification, mode) \<in> set policyOperations.
     operationClass operation = (classification, True) \<and> RequiredBootModeForOperation operation = (mode, True)"
    by (simp add: policyOperations_def operationClass_def RequiredBootModeForOperation_def operation_defs)
qed

text \<open>The plan of a draft.\<close>

definition draft_plan :: "hash \<Rightarrow> DraftInput \<Rightarrow> Plan" where
  "draft_plan sha input =
     (let plan = (draft_header input)\<lparr>pl_Operations := map (draft_op sha input) [0 ..< 7]\<rparr>
      in plan\<lparr>pl_PlanDigest := (case Plan_Digest sha plan of Inr digest \<Rightarrow> digest | Inl _ \<Rightarrow> [])\<rparr>)"

definition year_ok :: "instant \<Rightarrow> bool" where
  "year_ok t \<longleftrightarrow> t \<noteq> 0 \<and> 0 \<le> year_of (utc t) \<and> year_of (utc t) \<le> 9999"

lemma canonicalApprovalExpiry_Inr: "canonicalApprovalExpiry t = Inr v \<longleftrightarrow> year_ok t \<and> v = format_time (utc t)"
  by (auto simp: canonicalApprovalExpiry_def year_ok_def)

lemma Plan_Digest_Inr:
  "Plan_Digest sha plan = Inr d \<longleftrightarrow> year_ok (pl_ApprovalExpiresAt plan)
     \<and> d = deriveDigest sha planDigestDomain (render (planDigestMaterial sha plan (format_time (utc (pl_ApprovalExpiresAt plan)))))"
  by (auto simp: Plan_Digest_def Plan_CanonicalDigestMaterial_def canonicalApprovalExpiry_Inr)

lemma BuildDraft_Inr:
  "BuildDraft sha input = Inr draft \<longleftrightarrow>
     draft_input_ok input = None \<and> draft_rows_ok input \<and> year_ok (di_ApprovalExpiresAt input)
     \<and> draft = \<lparr>dr_plan = draft_plan sha input\<rparr>"
proof -
  have loop: "draft_loop input 0 (di_InitialState input) policyOperations = Inr ops \<longleftrightarrow>
      draft_rows_ok input \<and> ops = map (draft_spec input) [0 ..< 7]" for ops
    using draft_loop_Inr [of policyOperations 0 input ops] by (simp add: draft_rows_ok_def)
  define plan where "plan = (draft_header input)\<lparr>pl_Operations := map (draft_op sha input) [0 ..< 7]\<rparr>"
  have expiry: "pl_ApprovalExpiresAt plan = di_ApprovalExpiresAt input"
    by (simp add: plan_def draft_header_def)
  have derive: "WithDerivedDigests sha ((draft_header input)\<lparr>pl_Operations := map (draft_spec input) [0 ..< 7]\<rparr>)
      = bindE (Plan_Digest sha plan) (\<lambda>digest. Inr (plan\<lparr>pl_PlanDigest := digest\<rparr>))"
    by (simp add: WithDerivedDigests_def draft_op_def [abs_def] plan_def comp_def Let_def)
  have final: "draft_plan sha input = plan\<lparr>pl_PlanDigest := (case Plan_Digest sha plan of Inr digest \<Rightarrow> digest | Inl _ \<Rightarrow> [])\<rparr>"
    by (simp add: draft_plan_def plan_def Let_def)
  have build: "BuildDraft sha input = Inr draft \<longleftrightarrow> draft_input_ok input = None \<and> draft_rows_ok input
      \<and> (\<exists>digest. Plan_Digest sha plan = Inr digest \<and> draft = \<lparr>dr_plan = plan\<lparr>pl_PlanDigest := digest\<rparr>\<rparr>)"
    unfolding BuildDraft_def
    by (cases "Plan_Digest sha plan"; cases "draft_loop input 0 (di_InitialState input) policyOperations")
      (use loop in \<open>auto simp: derive\<close>)
  show ?thesis
  proof (cases "Plan_Digest sha plan")
    case (Inl err)
    then have "\<not> year_ok (di_ApprovalExpiresAt input)"
      using Plan_Digest_Inr [of sha plan] expiry by (metis sum.distinct(1))
    then show ?thesis using Inl by (simp add: build)
  next
    case (Inr digest)
    then have "year_ok (di_ApprovalExpiresAt input)" using Plan_Digest_Inr [of sha plan] expiry by metis
    then show ?thesis using Inr by (auto simp: build final)
  qed
qed

section \<open>Restoring a snapshot\<close>

lemma draft_plan_fields [simp]:
  "pl_SchemaVersion (draft_plan sha input) = ContractSchemaVersion"
  "pl_StationID (draft_plan sha input) = di_StationID input" "pl_LaneID (draft_plan sha input) = di_LaneID input"
  "pl_PowerControlMode (draft_plan sha input) = di_PowerControlMode input"
  "pl_TransactionID (draft_plan sha input) = di_TransactionID input"
  "pl_Release (draft_plan sha input) = di_Release input"
  "pl_TargetFingerprint (draft_plan sha input) = di_TargetFingerprint input"
  "pl_InitialObservationDigest (draft_plan sha input) = di_InitialObservationDigest input"
  "pl_FenceEpoch (draft_plan sha input) = di_FenceEpoch input"
  "pl_ApprovalExpiresAt (draft_plan sha input) = di_ApprovalExpiresAt input"
  "pl_ApprovalID (draft_plan sha input) = []" "pl_IntentReceipt (draft_plan sha input) = []"
  "pl_IntentSequence (draft_plan sha input) = 0"
  "pl_Operations (draft_plan sha input) = map (draft_op sha input) [0 ..< 7]"
  by (simp_all add: draft_plan_def draft_header_def Let_def)

lemma sameDraftSnapshot [simp]: "sameDraftSnapshot zone left right \<longleftrightarrow> zone \<and> left = right"
  by (auto simp: sameDraftSnapshot_def list.rel_eq intro: Plan.equality)

lemma draft_plan_cong:
  assumes "\<And>i. i < 7 \<Longrightarrow> di_AuthorizationIDs a i = di_AuthorizationIDs b i \<and> di_MaximumDurations a i = di_MaximumDurations b i"
    and "a\<lparr>di_AuthorizationIDs := f, di_MaximumDurations := g\<rparr> = b\<lparr>di_AuthorizationIDs := f, di_MaximumDurations := g\<rparr>"
  shows "draft_plan sha a = draft_plan sha b" and "draft_rows_ok a = draft_rows_ok b"
    and "draft_input_ok a = draft_input_ok b"
proof -
  have b: "b = a\<lparr>di_AuthorizationIDs := di_AuthorizationIDs b, di_MaximumDurations := di_MaximumDurations b\<rparr>"
    using arg_cong [OF assms(2), of "\<lambda>x. x\<lparr>di_AuthorizationIDs := di_AuthorizationIDs b, di_MaximumDurations := di_MaximumDurations b\<rparr>"]
    by simp
  have header: "di_StationID a = di_StationID b" "di_LaneID a = di_LaneID b" "di_PowerControlMode a = di_PowerControlMode b"
    "di_TransactionID a = di_TransactionID b" "di_Release a = di_Release b" "di_TargetFingerprint a = di_TargetFingerprint b"
    "di_InitialObservationDigest a = di_InitialObservationDigest b" "di_FenceEpoch a = di_FenceEpoch b"
    "di_ApprovalExpiresAt a = di_ApprovalExpiresAt b" "di_InitialState a = di_InitialState b"
    by (subst b, simp)+
  have op: "draft_op sha a i = draft_op sha b i" if "i < 7" for i
    using assms(1) [OF that] by (simp add: draft_op_def draft_spec_def draft_post_def header)
  then have "map (draft_op sha a) [0 ..< 7] = map (draft_op sha b) [0 ..< 7]" by simp
  moreover have "draft_header a = draft_header b" by (simp add: draft_header_def header)
  ultimately show "draft_plan sha a = draft_plan sha b" unfolding draft_plan_def by (simp only:)
  show "draft_rows_ok a = draft_rows_ok b" using assms(1) by (simp add: draft_rows_ok_def)
  show "draft_input_ok a = draft_input_ok b" by (simp add: draft_input_ok_def header)
qed

lemma snapshot_of_draft:
  assumes "BuildDraft sha input = Inr draft"
  shows "BuildDraft sha (snapshot_input (dr_plan draft)) = Inr draft"
proof -
  have same: "di_AuthorizationIDs (snapshot_input (draft_plan sha input)) i = di_AuthorizationIDs input i \<and>
      di_MaximumDurations (snapshot_input (draft_plan sha input)) i = di_MaximumDurations input i" if "i < 7" for i
    using that by (simp add: snapshot_input_def draft_op_def draft_spec_def)
  have rest: "(snapshot_input (draft_plan sha input))\<lparr>di_AuthorizationIDs := f, di_MaximumDurations := g\<rparr>
      = input\<lparr>di_AuthorizationIDs := f, di_MaximumDurations := g\<rparr>" for f g
    by (cases input) (simp add: snapshot_input_def draft_op_def draft_spec_def)
  have cong: "draft_plan sha (snapshot_input (draft_plan sha input)) = draft_plan sha input"
    "draft_rows_ok (snapshot_input (draft_plan sha input)) = draft_rows_ok input"
    "draft_input_ok (snapshot_input (draft_plan sha input)) = draft_input_ok input"
    using draft_plan_cong [OF same rest] by blast+
  have "di_ApprovalExpiresAt (snapshot_input (draft_plan sha input)) = di_ApprovalExpiresAt input"
    by (simp add: snapshot_input_def)
  then show ?thesis using assms cong by (auto simp: BuildDraft_Inr)
qed

lemma DraftFromSnapshot_Inr:
  "DraftFromSnapshot sha utc_expiry snapshot = Inr draft \<longleftrightarrow>
     utc_expiry \<and> dr_plan draft = snapshot \<and> (\<exists>input. BuildDraft sha input = Inr draft)"
proof
  assume "DraftFromSnapshot sha utc_expiry snapshot = Inr draft"
  then show "utc_expiry \<and> dr_plan draft = snapshot \<and> (\<exists>input. BuildDraft sha input = Inr draft)"
    by (auto simp: DraftFromSnapshot_def)
next
  assume a: "utc_expiry \<and> dr_plan draft = snapshot \<and> (\<exists>input. BuildDraft sha input = Inr draft)"
  then obtain input where b: "BuildDraft sha input = Inr draft" by blast
  have "snapshot = draft_plan sha input" using a b by (auto simp: BuildDraft_Inr)
  then show "DraftFromSnapshot sha utc_expiry snapshot = Inr draft"
    using a snapshot_of_draft [OF b] by (simp add: DraftFromSnapshot_def)
qed

section \<open>The guard accepts a bound draft\<close>

lemma plan_operations_loop_intro:
  assumes "\<And>i. i < length ops \<Longrightarrow> operation_ok sha plan initial (index + i) (ops ! i)"
    and "\<And>i. i < length ops \<Longrightarrow> index + i > 0 \<Longrightarrow>
      os_ExpectedPrestate (ops ! i) = (if i = 0 then previous else os_ExpectedPoststate (ops ! (i - 1)))"
  shows "plan_operations_loop sha plan initial previous index ops = None"
  using assms
proof (induction ops arbitrary: previous index)
  case (Cons op ops)
  have "plan_operations_loop sha plan initial (os_ExpectedPoststate op) (index + 1) ops = None"
  proof (rule Cons.IH)
    fix i assume i: "i < length ops"
    show "operation_ok sha plan initial (index + 1 + i) (ops ! i)" using Cons.prems(1) [of "Suc i"] i by simp
    show "os_ExpectedPrestate (ops ! i) = (if i = 0 then os_ExpectedPoststate op else os_ExpectedPoststate (ops ! (i - 1)))"
      using Cons.prems(2) [of "Suc i"] i by (cases i) auto
  qed
  then show ?case
    using Cons.prems(1) [of 0] Cons.prems(2) [of 0]
    by (auto simp: operation_ok_def not_le simp del: of_nat_Suc of_nat_add)
qed simp

lemma ParseDigest_pattern: "ParseDigest v \<noteq> None \<Longrightarrow> digestPattern v"
  using ParseDigest_validDigest by (simp only: digestPattern_validDigest)

lemma digest_identifier: "validDigest v \<Longrightarrow> identifierPattern v"
proof -
  assume "validDigest v"
  then obtain h where h: "v = digest_prefix @ h" "length h = 64" "list_all lower_hex_char h" by (auto simp: validDigest_alt)
  have "is_alnum c" if "c \<in> set h" for c
    using that h(3) by (auto simp: list_all_iff lower_hex_char_def is_alnum_def is_lower_def)
  then show ?thesis
    using h by (simp add: identifierPattern_def digest_prefix_def list_all_iff)
      (simp add: is_alnum_def is_lower_def is_digit_def is_upper_def byte_def)
qed

lemma owned_states_valid:
  assumes "Binding_Validate (pl_Release plan)" and "rb_ExpectedCustomerKeyHash (pl_Release plan) \<noteq> unownedCustomerKeyHash"
  shows "DirectState_Validate (commitAttestedState plan) = None" and "DirectState_Validate (observedOwnedState plan) = None"
proof -
  have "digestPattern (rb_ExpectedCustomerKeyHash (pl_Release plan))" "digestPattern (ExpectedEEPROMDigest (pl_Release plan))"
    using assms(1) ParseDigest_pattern by (simp_all add: Binding_Validate_def)
  then show "DirectState_Validate (commitAttestedState plan) = None" "DirectState_Validate (observedOwnedState plan) = None"
    using assms(2)
    by (simp_all add: DirectState_Validate_def commitAttestedState_def observedOwnedState_def eeprom_status_defs)
qed

lemma draft_operation:
  assumes "BuildDraft sha input = Inr draft" and "\<forall>m. length (sha m) = 32" and "i < 7"
    and "pl_Release plan = di_Release input"
  shows "operation_ok sha plan (di_InitialState input) i (draft_op sha input i)"
proof -
  have in_ok: "draft_input_ok input = None" and rows: "draft_rows_ok input" using assms(1) by (auto simp: BuildDraft_Inr)
  obtain operation classification mode where p: "policyOperations ! i = (operation, classification, mode)" by (cases "policyOperations ! i")
  then have "(operation, classification, mode) \<in> set policyOperations"
    using nth_mem [of i policyOperations] assms(3) by simp
  then have kind: "operationClass operation = (classification, True)" "RequiredBootModeForOperation operation = (mode, True)"
    using policy_operation(3) by auto
  have release: "draft_commitAttestedState (di_Release input) = commitAttestedState plan"
    "draft_observedOwnedState (di_Release input) = observedOwnedState plan"
    using draft_states [of plan] assms(4) by simp_all
  have valid: "DirectState_Validate (commitAttestedState plan) = None" "DirectState_Validate (observedOwnedState plan) = None"
    "DirectState_Validate (di_InitialState input) = None"
    using owned_states_valid [of plan] assms(4) in_ok by (simp_all add: draft_input_ok_def draft_validateState_def split: option.splits)
  have ids: "di_AuthorizationIDs input i \<noteq> []" "0 < di_MaximumDurations input i"
    using rows assms(3) by (auto simp: draft_rows_ok_def identifierPattern_def split: list.splits)
  have digest: "OperationSpec_Digest sha (draft_op sha input i) = OperationSpec_Digest sha (draft_spec input i)"
    by (simp add: draft_op_def OperationSpec_Digest_def operationDigestMaterial_def)
  have states: "(os_ExpectedPrestate (draft_op sha input i), os_ExpectedPoststate (draft_op sha input i))
      = want_states plan (di_InitialState input) i"
    using release by (auto simp: draft_op_def draft_spec_def draft_post_def want_states_def)
  have both: "DirectState_Validate (os_ExpectedPrestate (draft_op sha input i)) = None"
    "DirectState_Validate (os_ExpectedPoststate (draft_op sha input i)) = None"
    using valid release by (auto simp: draft_op_def draft_spec_def draft_post_def)
  show ?thesis
    unfolding operation_ok_def digest states
    using both kind ids assms(2) digestPattern_derive
    by (simp add: draft_op_def draft_spec_def p OperationSpec_Digest_def)
qed

definition with_authority :: "Plan \<Rightarrow> string \<Rightarrow> string \<Rightarrow> uint32 \<Rightarrow> Plan" where
  "with_authority plan approvalID receipt n = plan\<lparr>pl_ApprovalID := approvalID, pl_IntentReceipt := receipt, pl_IntentSequence := n\<rparr>"

lemma Plan_Digest_authority [simp]: "Plan_Digest sha (with_authority plan a r n) = Plan_Digest sha plan"
  by (simp add: Plan_Digest_def Plan_CanonicalDigestMaterial_def planDigestMaterial_def with_authority_def)

lemma draft_digest:
  assumes "BuildDraft sha input = Inr draft"
  shows "Plan_Digest sha (dr_plan draft) = Inr (pl_PlanDigest (dr_plan draft))"
proof -
  let ?plan = "(draft_header input)\<lparr>pl_Operations := map (draft_op sha input) [0 ..< 7]\<rparr>"
  have "year_ok (pl_ApprovalExpiresAt ?plan)" using assms by (simp add: BuildDraft_Inr draft_header_def)
  then obtain d where d: "Plan_Digest sha ?plan = Inr d" by (simp add: Plan_Digest_Inr)
  have "Plan_Digest sha (?plan\<lparr>pl_PlanDigest := d\<rparr>) = Plan_Digest sha ?plan"
    by (simp add: Plan_Digest_def Plan_CanonicalDigestMaterial_def planDigestMaterial_def)
  moreover have "dr_plan draft = ?plan\<lparr>pl_PlanDigest := d\<rparr>" using assms d by (simp add: BuildDraft_Inr draft_plan_def Let_def)
  ultimately show ?thesis using d by simp
qed

lemma initial_state_draft:
  assumes "draft_input_ok input = None"
  shows "initial_state_ok (di_InitialState input)"
proof -
  have "DirectState_Validate (di_InitialState input) = None" "ds_SecurityState (di_InitialState input) = ''fresh''"
    "ds_CustomerKeyHash (di_InitialState input) = unownedCustomerKeyHash" "ds_PowerState (di_InitialState input) = ''powered_off''"
    using assms by (auto simp: draft_input_ok_def draft_validateState_def split: option.splits)
  then show ?thesis by (auto simp: DirectState_Validate_def initial_state_ok_def split: if_splits)
qed

lemma draft_accepted:
  assumes build: "BuildDraft sha input = Inr draft" and len: "\<forall>m. length (sha m) = 32"
    and config: "Config_Validate config = None" "cf_PowerControlMode config = pl_PowerControlMode (dr_plan draft)"
    and lane: "lane \<Longrightarrow> cf_StationID config = pl_StationID (dr_plan draft) \<and> cf_LaneID config = pl_LaneID (dr_plan draft)"
    and authority: "a \<noteq> []" "r \<noteq> []" "n \<noteq> 0" "unat n \<le> 7"
  shows "Plan_validate sha (with_authority (dr_plan draft) a r n) config lane = None"
proof -
  define plan where "plan = with_authority (dr_plan draft) a r n"
  have d: "draft_input_ok input = None" "draft_rows_ok input" "year_ok (di_ApprovalExpiresAt input)" "dr_plan draft = draft_plan sha input"
    using build by (auto simp: BuildDraft_Inr)
  have i: "identifierPattern (di_StationID input)" "identifierPattern (di_LaneID input)" "identifierPattern (di_TransactionID input)"
    "di_PowerControlMode input = PowerControlRelay \<or> di_PowerControlMode input = PowerControlManual"
    "validDigest (di_TargetFingerprint input)" "validDigest (di_InitialObservationDigest input)" "di_FenceEpoch input \<noteq> 0"
    "Binding_Validate (di_Release input)"
    using d(1) by (auto simp: draft_input_ok_def)
  have fields: "pl_Release plan = di_Release input" "pl_Operations plan = map (draft_op sha input) [0 ..< 7]"
    by (simp_all add: plan_def with_authority_def d)
  have names: "map os_Operation (pl_Operations plan) = developmentOperations"
  proof (rule nth_equalityI)
    show "map os_Operation (pl_Operations plan) ! k = developmentOperations ! k" if "k < length (map os_Operation (pl_Operations plan))" for k
      using that policy_operation(2) [of k] by (simp add: fields draft_op_def draft_spec_def)
  qed (simp add: fields)
  have known: "\<forall>operation \<in> set (pl_Operations plan). snd (operationClass (os_Operation operation))"
  proof
    fix operation assume "operation \<in> set (pl_Operations plan)"
    then have "os_Operation operation \<in> set developmentOperations" using names by (metis image_eqI set_map)
    then show "snd (operationClass (os_Operation operation))"
      by (auto simp: developmentOperations_def operationClass_def operation_defs)
  qed
  have first: "os_ExpectedPrestate (pl_Operations plan ! 0) = di_InitialState input"
    by (simp add: fields draft_op_def draft_spec_def)
  have loop: "plan_operations_loop sha plan (di_InitialState input) zero_DirectState 0 (pl_Operations plan) = None"
  proof (rule plan_operations_loop_intro)
    fix k assume k: "k < length (pl_Operations plan)"
    then show "operation_ok sha plan (di_InitialState input) (0 + k) (pl_Operations plan ! k)"
      using draft_operation [OF build len _ fields(1), of k] by (simp add: fields)
    show "os_ExpectedPrestate (pl_Operations plan ! k) = (if k = 0 then zero_DirectState else os_ExpectedPoststate (pl_Operations plan ! (k - 1)))"
      if "0 + k > 0" using that k by (simp add: fields draft_op_def draft_spec_def)
  qed
  have digest: "Plan_Digest sha plan = Inr (pl_PlanDigest plan)" using draft_digest [OF build] by (simp add: plan_def, simp add: with_authority_def)
  have pattern: "digestPattern (pl_PlanDigest plan)" using digest len digestPattern_derive by (simp add: Plan_Digest_Inr)
  have header: "pl_SchemaVersion plan = ContractSchemaVersion" "pl_StationID plan = di_StationID input" "pl_LaneID plan = di_LaneID input"
    "pl_PowerControlMode plan = di_PowerControlMode input" "pl_TransactionID plan = di_TransactionID input"
    "pl_TargetFingerprint plan = di_TargetFingerprint input" "pl_InitialObservationDigest plan = di_InitialObservationDigest input"
    "pl_FenceEpoch plan = di_FenceEpoch input" "pl_ApprovalID plan = a" "pl_IntentReceipt plan = r" "pl_IntentSequence plan = n"
    "canonicalApprovalExpiry (pl_ApprovalExpiresAt plan) = Inr (format_time (utc (di_ApprovalExpiresAt input)))"
    using d(3) by (simp_all add: plan_def with_authority_def d(4) canonicalApprovalExpiry_Inr)
  have known': "\<not> list_ex (\<lambda>operation. \<not> snd (operationClass (os_Operation operation))) (pl_Operations plan)"
    using known by (simp add: list_ex_iff)
  have "length (pl_Operations plan) = 7" by (simp add: fields)
  then have "Plan_validate sha plan config lane = None"
    using config lane authority d(4) i known' names loop digest pattern initial_state_draft [OF d(1)] digest_identifier [OF i(5)]
    unfolding Plan_validate_def first header fields(1) Let_def
    by (auto simp: ValidateDevelopmentOperations_None initial_state_ok_def digestPattern_validDigest)
  then show ?thesis by (simp add: plan_def)
qed

end
