(* ===== verification/Plan_Binding.thy ===== *)
theory Plan_Binding
  imports Plan_Facts
begin

text \<open>
  What a bound plan and a bound reconciliation establish: the checks of both loops over the control
  plane's operations in closed form (they are instances of one loop), the conjunction of all checks, and
  that the lane guard accepts what comes out.
\<close>

section \<open>The loops over the operations\<close>

text \<open>The common shape: \<open>bound\<close> for every record, \<open>final\<close> for the last one, \<open>prior\<close> for a record and the
  one after it.\<close>

fun op_loop ::
  "(nat \<Rightarrow> OperationRecord \<Rightarrow> bool) \<Rightarrow> (OperationRecord \<Rightarrow> bool) \<Rightarrow> (OperationRecord \<Rightarrow> OperationRecord \<Rightarrow> bool)
     \<Rightarrow> nat \<Rightarrow> string list \<Rightarrow> OperationRecord list \<Rightarrow> (nat \<times> OperationRecord) option" where
  "op_loop bound final prior index seen [] = None"
| "op_loop bound final prior index seen [r] =
     (if bound index r \<and> op_ID r \<notin> set seen \<and> final r then Some (index, r) else None)"
| "op_loop bound final prior index seen (r # next # rest) =
     (if bound index r \<and> op_ID r \<notin> set seen \<and> prior r next
      then op_loop bound final prior (index + 1) (op_ID r # seen) (next # rest) else None)"

lemma op_loop_Some:
  "op_loop bound final prior index seen rs = Some (j, r) \<longleftrightarrow>
     rs \<noteq> [] \<and> j = index + length rs - 1 \<and> r = last rs \<and> final r
     \<and> (\<forall>i < length rs. bound (index + i) (rs ! i)) \<and> distinct (map op_ID rs) \<and> set seen \<inter> op_ID ` set rs = {}
     \<and> (\<forall>i. Suc i < length rs \<longrightarrow> prior (rs ! i) (rs ! Suc i))"
proof (induction bound final prior index seen rs rule: op_loop.induct)
  case (3 bound final prior index seen r q rest)
  have all: "(\<forall>i < length (r # q # rest). bound (index + i) ((r # q # rest) ! i)) \<longleftrightarrow>
      bound index r \<and> (\<forall>i < length (q # rest). bound (index + 1 + i) ((q # rest) ! i))"
    by (simp add: All_less_Suc2)
  have pairs: "(\<forall>i. Suc i < length (r # q # rest) \<longrightarrow> prior ((r # q # rest) ! i) ((r # q # rest) ! Suc i)) \<longleftrightarrow>
      prior r q \<and> (\<forall>i. Suc i < length (q # rest) \<longrightarrow> prior ((q # rest) ! i) ((q # rest) ! Suc i))"
    by (simp add: All_less_Suc2)
  show ?case
    unfolding all pairs op_loop.simps using "3.IH" by auto
qed auto

definition closed_ok :: "instant \<Rightarrow> OperationRecord \<Rightarrow> bool" where
  "closed_ok now r \<longleftrightarrow> evidence_ok now r \<and>
     (op_Status r = OperationSucceeded \<and> validDigest (op_EvidenceAuditReceiptID r)
      \<or> op_Status r = OperationConfirmedApplied \<and> validDigest (op_ReconciliationAuditReceiptID r))"

lemma prior_evidence:
  assumes "closed_ok now r" and "intent_follows r next"
  shows "validDigest (op_OutputDigest r) \<and> validDigest (op_ObservationDigest r)
    \<and> (op_Status r = OperationSucceeded \<and> validDigest (op_EvidenceAuditReceiptID r)
       \<or> op_Status r = OperationConfirmedApplied \<and> validDigest (op_ReconciliationAuditReceiptID r))
    \<and> (\<exists>seen. op_EvidenceAt r = Some seen \<and> op_IntentAt r \<le> seen \<and> seen \<le> op_IntentAt next)"
  using assms by (auto simp: closed_ok_def evidence_ok_def intent_follows_def not_less split: option.splits)

lemma control_operations_loop_op:
  "control_operations_loop sha plan now index seen rs = Inr x \<longleftrightarrow>
     op_loop (\<lambda>i. record_bound sha plan (pl_Operations plan ! i) now)
       (\<lambda>r. op_Status r = OperationIntentRecorded \<and> clean_intent r)
       (\<lambda>r next. closed_ok now r \<and> intent_follows r next) index seen rs = Some x"
proof (induction rs arbitrary: index seen)
  case (Cons r rs)
  then show ?case by (cases rs) (auto simp: closed_ok_def)
qed simp

lemma validateControlOperations_Inr:
  "validateControlOperations sha plan rs now = Inr (j, r) \<longleftrightarrow>
     rs \<noteq> [] \<and> length rs \<le> length (pl_Operations plan) \<and> j = length rs - 1 \<and> r = last rs
     \<and> op_Status r = OperationIntentRecorded \<and> clean_intent r
     \<and> (\<forall>i < length rs. record_bound sha plan (pl_Operations plan ! i) now (rs ! i)) \<and> distinct (map op_ID rs)
     \<and> (\<forall>i. Suc i < length rs \<longrightarrow> closed_ok now (rs ! i) \<and> intent_follows (rs ! i) (rs ! Suc i))"
  unfolding validateControlOperations_def control_operations_loop_op by (auto simp: op_loop_Some control_operations_loop_op)

definition reconciled_ok :: "instant \<Rightarrow> OperationRecord \<Rightarrow> bool" where
  "reconciled_ok now r \<longleftrightarrow> evidence_ok now r \<and>
     (op_Status r = OperationSucceeded \<and> validDigest (op_EvidenceAuditReceiptID r) \<and> op_ReconciliationAuditReceiptID r = []
      \<or> op_Status r = OperationConfirmedApplied \<and> validDigest (op_ReconciliationAuditReceiptID r)
         \<and> (op_EvidenceAuditReceiptID r = [] \<or> validDigest (op_EvidenceAuditReceiptID r)))"

definition unresolved_ok :: "instant \<Rightarrow> OperationRecord \<Rightarrow> bool" where
  "unresolved_ok now r \<longleftrightarrow>
     op_Status r = OperationIntentRecorded \<and> clean_intent r
     \<or> op_Status r = OperationUncertain \<and> evidence_ok now r \<and> validDigest (op_EvidenceAuditReceiptID r)
        \<and> op_ReconciliationAuditReceiptID r = []"

lemma reconciliation_operations_loop_op:
  "reconciliation_operations_loop sha plan now index seen rs = Inr x \<longleftrightarrow>
     op_loop (\<lambda>i. record_bound sha plan (pl_Operations plan ! i) now) (unresolved_ok now)
       (\<lambda>r next. reconciled_ok now r \<and> intent_follows r next) index seen rs = Some x"
proof (induction rs arbitrary: index seen)
  case (Cons r rs)
  show ?case
  proof (cases rs)
    case Nil
    then show ?thesis by (auto simp: unresolved_ok_def split: OperationStatus.splits)
  next
    case (Cons r' rs')
    then show ?thesis using Cons.IH by (auto simp: reconciled_ok_def split: OperationStatus.splits)
  qed
qed simp

lemma validateReconciliationOperations_Inr:
  "validateReconciliationOperations sha plan rs now = Inr (j, r) \<longleftrightarrow>
     rs \<noteq> [] \<and> length rs \<le> length (pl_Operations plan) \<and> j = length rs - 1 \<and> r = last rs \<and> unresolved_ok now r
     \<and> (\<forall>i < length rs. record_bound sha plan (pl_Operations plan ! i) now (rs ! i)) \<and> distinct (map op_ID rs)
     \<and> (\<forall>i. Suc i < length rs \<longrightarrow> reconciled_ok now (rs ! i) \<and> intent_follows (rs ! i) (rs ! Suc i))"
  unfolding validateReconciliationOperations_def by (auto simp: op_loop_Some reconciliation_operations_loop_op)

section \<open>Bound plans\<close>

text \<open>Everything \<open>bindWithActorPolicy\<close> checks, of the records it finds.\<close>

definition binds ::
  "hash \<Rightarrow> Plan \<Rightarrow> Authority \<Rightarrow> actorPolicy \<Rightarrow> Claim \<Rightarrow> TargetBinding \<Rightarrow> Approval \<Rightarrow> OperationRecord \<Rightarrow> nat \<Rightarrow> bool" where
  "binds sha plan authority actors claim target approval intent i \<longleftrightarrow>
     (let t = ay_Transaction authority; now = ay_Now authority in
      ay_Now authority \<noteq> 0 \<and> 0 \<le> ay_LeaseSafetyMargin authority
      \<and> bind_transaction_ok sha plan t = None
      \<and> tx_ActiveClaim t = Some claim \<and> bind_claim_ok plan t now claim = None
      \<and> tx_Target t = Some target \<and> bind_target_ok plan t now target
      \<and> tx_Approval t = Some approval \<and> approval_bound plan t now approval \<and> now < ap_ExpiresAt approval
      \<and> validateAuditApproval sha plan approval (ay_ApprovalReceipt authority) (ay_ApprovalRecord authority) now
          (approvalRole actors) = None
      \<and> validateControlOperations sha plan (tx_Operations t) now = Inr (i, intent)
      \<and> LeaseCoversOperation now (cl_ExpiresAt claim) (os_MaximumDuration (pl_Operations plan ! i))
          (ay_LeaseSafetyMargin authority)
      \<and> validateAuditIntent sha plan (pl_Operations plan ! i) intent (ay_IntentReceipt authority)
          (ay_IntentRecord authority) now (intentRole actors) = None
      \<and> records_ordered approval authority = None)"

lemma bindWithActorPolicy_Inr:
  "bindWithActorPolicy sha draft authority actors = Inr bound \<longleftrightarrow>
     validateDraft sha draft = None
     \<and> (\<exists>claim target approval intent i.
          binds sha (dr_plan draft) authority actors claim target approval intent i
          \<and> bound = \<lparr>bp_plan = bind_plan (dr_plan draft) approval authority (pl_Operations (dr_plan draft) ! i),
                    bp_claimExpiresAt = cl_ExpiresAt claim, bp_operationIndex = int i\<rparr>)"
  unfolding bindWithActorPolicy_def binds_def Let_def orFail_Inr bindE_Inr
  by (cases "tx_ActiveClaim (ay_Transaction authority)"; cases "tx_Target (ay_Transaction authority)";
      cases "tx_Approval (ay_Transaction authority)")
    (auto simp: not_less split: prod.splits)

lemma Bind_Inr:
  assumes "Bind sha draft authority = Inr bound"
  obtains claim target approval intent i where "validateDraft sha draft = None"
    and "binds sha (dr_plan draft) authority productionActors claim target approval intent i"
    and "bp_plan bound = bind_plan (dr_plan draft) approval authority (pl_Operations (dr_plan draft) ! i)"
    and "bp_claimExpiresAt bound = cl_ExpiresAt claim" and "bp_operationIndex bound = int i"
  using assms unfolding Bind_def bindWithActorPolicy_Inr by auto

text \<open>What the checks say of the transaction.\<close>

lemma binds_facts:
  assumes "binds sha plan authority actors claim target approval intent i"
  shows "tx_ID (ay_Transaction authority) = pl_TransactionID plan"
    and "tx_Status (ay_Transaction authority) = StatusMutationInProgress"
    and "tx_ActiveClaim (ay_Transaction authority) = Some claim" "cl_Mode claim = ClaimModeMutation"
    and "cl_StationID claim = pl_StationID plan" "cl_LaneID claim = pl_LaneID plan"
    and "cl_FenceEpoch claim = pl_FenceEpoch plan" "tx_FenceEpoch (ay_Transaction authority) = pl_FenceEpoch plan"
    and "tx_Target (ay_Transaction authority) = Some target" "tb_Fingerprint target = pl_TargetFingerprint plan"
    and "tx_Approval (ay_Transaction authority) = Some approval" "ap_PlanDigest approval = pl_PlanDigest plan"
    and "ap_ExpiresAt approval = pl_ApprovalExpiresAt plan" "ay_Now authority < pl_ApprovalExpiresAt plan"
    and "ap_ID approval \<noteq> []" "ap_Release approval = pl_Release plan"
    and "tx_Operations (ay_Transaction authority) \<noteq> []" "i = length (tx_Operations (ay_Transaction authority)) - 1"
    and "i < length (pl_Operations plan)" "intent = last (tx_Operations (ay_Transaction authority))"
    and "op_Status intent = OperationIntentRecorded"
    and "\<And>j. j < length (tx_Operations (ay_Transaction authority)) \<Longrightarrow>
      record_bound sha plan (pl_Operations plan ! j) (ay_Now authority) (tx_Operations (ay_Transaction authority) ! j)"
    and "\<And>j. j < i \<Longrightarrow> closed_ok (ay_Now authority) (tx_Operations (ay_Transaction authority) ! j)"
    and "rc_ReceiptID (ay_IntentReceipt authority) = op_IntentAuditReceiptID intent"
    and "ay_IntentReceipt authority = receiptFor sha (ay_IntentRecord authority)"
    and "event_binds plan (rd_Event (ay_IntentRecord authority)) (op_ID intent) (os_Operation (pl_Operations plan ! i))
      (pl_StationID plan) (intentRole actors)"
    and "event_binds plan (rd_Event (ay_ApprovalRecord authority)) (ap_ID approval) ''plan_approval''
      (ap_ApproverID approval) (approvalRole actors)"
    and "rd_Sequence (ay_ApprovalRecord authority) < rd_Sequence (ay_IntentRecord authority)"
    and "LeaseCoversOperation (ay_Now authority) (cl_ExpiresAt claim) (os_MaximumDuration (pl_Operations plan ! i))
      (ay_LeaseSafetyMargin authority)"
    and "auditEventHash sha (ay_IntentRecord authority) = Some (rd_EventHash (ay_IntentRecord authority))"
    and "\<And>j. j < i \<Longrightarrow> intent_follows (tx_Operations (ay_Transaction authority) ! j) (tx_Operations (ay_Transaction authority) ! Suc j)"
proof -
  note b = assms [unfolded binds_def Let_def]
  show "tx_ID (ay_Transaction authority) = pl_TransactionID plan"
    "tx_Status (ay_Transaction authority) = StatusMutationInProgress"
    using b by (auto simp: bind_transaction_ok_def)
  show "tx_ActiveClaim (ay_Transaction authority) = Some claim" "tx_Target (ay_Transaction authority) = Some target"
    "tx_Approval (ay_Transaction authority) = Some approval"
    "LeaseCoversOperation (ay_Now authority) (cl_ExpiresAt claim) (os_MaximumDuration (pl_Operations plan ! i))
      (ay_LeaseSafetyMargin authority)"
    using b by auto
  show "cl_Mode claim = ClaimModeMutation" "cl_StationID claim = pl_StationID plan" "cl_LaneID claim = pl_LaneID plan"
    "cl_FenceEpoch claim = pl_FenceEpoch plan" "tx_FenceEpoch (ay_Transaction authority) = pl_FenceEpoch plan"
    using b by (auto simp: bind_claim_ok_def)
  show "tb_Fingerprint target = pl_TargetFingerprint plan" using b by (auto simp: bind_target_ok_def)
  show "ap_PlanDigest approval = pl_PlanDigest plan" "ap_ExpiresAt approval = pl_ApprovalExpiresAt plan"
    "ay_Now authority < pl_ApprovalExpiresAt plan" "ap_ID approval \<noteq> []" "ap_Release approval = pl_Release plan"
    using b by (auto simp: approval_bound_def)
  have ops: "validateControlOperations sha plan (tx_Operations (ay_Transaction authority)) (ay_Now authority) = Inr (i, intent)"
    using b by blast
  note o = ops [unfolded validateControlOperations_Inr]
  show "i < length (pl_Operations plan)" using o by (cases "tx_Operations (ay_Transaction authority)") auto
  show "tx_Operations (ay_Transaction authority) \<noteq> []" "i = length (tx_Operations (ay_Transaction authority)) - 1"
    "intent = last (tx_Operations (ay_Transaction authority))"
    "op_Status intent = OperationIntentRecorded"
    "\<And>j. j < length (tx_Operations (ay_Transaction authority)) \<Longrightarrow>
      record_bound sha plan (pl_Operations plan ! j) (ay_Now authority) (tx_Operations (ay_Transaction authority) ! j)"
    "\<And>j. j < i \<Longrightarrow> closed_ok (ay_Now authority) (tx_Operations (ay_Transaction authority) ! j)"
    "\<And>j. j < i \<Longrightarrow> intent_follows (tx_Operations (ay_Transaction authority) ! j) (tx_Operations (ay_Transaction authority) ! Suc j)"
    using o by auto
  show "auditEventHash sha (ay_IntentRecord authority) = Some (rd_EventHash (ay_IntentRecord authority))"
    using b by (auto simp: validateAuditIntent_def validateAuditReceipt_def split: if_splits option.splits)
  show "rc_ReceiptID (ay_IntentReceipt authority) = op_IntentAuditReceiptID intent"
    "ay_IntentReceipt authority = receiptFor sha (ay_IntentRecord authority)"
    using b by (auto simp: validateAuditIntent_def validateAuditReceipt_def receiptFor_def split: if_splits intro: Receipt.equality)
  show "event_binds plan (rd_Event (ay_IntentRecord authority)) (op_ID intent) (os_Operation (pl_Operations plan ! i))
      (pl_StationID plan) (intentRole actors)"
    "event_binds plan (rd_Event (ay_ApprovalRecord authority)) (ap_ID approval) ''plan_approval''
      (ap_ApproverID approval) (approvalRole actors)"
    "rd_Sequence (ay_ApprovalRecord authority) < rd_Sequence (ay_IntentRecord authority)"
    using b by (auto simp: validateAuditIntent_def validateAuditApproval_def records_ordered_def)
qed

lemma bind_plan_authority:
  "bind_plan plan approval authority operation
     = with_authority plan (ap_ID approval) (rc_ReceiptID (ay_IntentReceipt authority)) (os_Sequence operation)"
  by (simp add: bind_plan_def with_authority_def)

text \<open>A request made for an operation of a plan matches it.\<close>

lemma request_of_matches:
  assumes "Plan_validate sha plan config lane = None" and "i < 7" and "pl_IntentSequence plan = of_nat (i + 1)"
  shows "matchPlanRequest plan (request_of plan (pl_Operations plan ! i) expiry) = Inr (pl_Operations plan ! i)"
proof -
  have s: "os_Sequence (pl_Operations plan ! i) = pl_IntentSequence plan" "unat (pl_IntentSequence plan) = i + 1"
    using operation_sequence [OF plan_operation(1) [OF assms(1,2)] assms(2)] assms(3) by auto
  have "pl_IntentSequence plan \<noteq> 0" using s(2) by auto
  then have "unat (pl_IntentSequence plan - 1) = i" using s(2) by (simp add: unat_minus_one)
  then show ?thesis
    using s \<open>pl_IntentSequence plan \<noteq> 0\<close> plan_length [OF assms(1)] assms(2)
    by (simp add: matchPlanRequest_def request_of_def Let_def)
qed

section \<open>Bound reconciliations\<close>

definition reconciles ::
  "hash \<Rightarrow> Plan \<Rightarrow> Authority \<Rightarrow> Claim \<Rightarrow> TargetBinding \<Rightarrow> Claim \<Rightarrow> OperationRecord \<Rightarrow> nat \<Rightarrow> bool" where
  "reconciles sha plan authority claim target original intent i \<longleftrightarrow>
     (let t = ay_Transaction authority; now = ay_Now authority in
      now \<noteq> 0 \<and> 0 \<le> ay_LeaseSafetyMargin authority
      \<and> reconciliation_transaction_ok sha plan t = None
      \<and> tx_ActiveClaim t = Some claim \<and> reconciliation_claim_ok plan t now claim
      \<and> tx_Target t = Some target \<and> bind_target_ok plan t now target
      \<and> validateReconciliationOperations sha plan (tx_Operations t) now = Inr (i, intent)
      \<and> validateReconciliationApproval plan t intent (op_Approval intent) now = None
      \<and> LeaseCoversOperation now (cl_ExpiresAt claim) ReconciliationObservationBudget (ay_LeaseSafetyMargin authority)
      \<and> originalMutationClaim t plan intent claim = Inr original
      \<and> validateAuditApproval sha plan (op_Approval intent) (ay_ApprovalReceipt authority) (ay_ApprovalRecord authority) now
          (approvalRole productionActors) = None
      \<and> validateAuditIntent sha plan (pl_Operations plan ! i) intent (ay_IntentReceipt authority)
          (ay_IntentRecord authority) now (intentRole productionActors) = None
      \<and> records_ordered (op_Approval intent) authority = None)"

definition reconciliation_request :: "Plan \<Rightarrow> OperationSpec \<Rightarrow> Transaction \<Rightarrow> Claim \<Rightarrow> Claim \<Rightarrow> ReconcileRequest" where
  "reconciliation_request plan operation t original claim =
     \<lparr>rq_SchemaVersion = ReconcileRequestSchemaVersion,
      rq_OriginalRequest = request_of plan operation (cl_ExpiresAt original),
      rq_Claim = \<lparr>rl_StationID = cl_StationID claim, rl_LaneID = cl_LaneID claim, rl_TransactionID = tx_ID t,
        rl_TargetFingerprint = pl_TargetFingerprint plan, rl_ClaimID = cl_ID claim,
        rl_FenceEpoch = cl_FenceEpoch claim, rl_ExpiresAt = cl_ExpiresAt claim\<rparr>\<rparr>"

lemma BindReconciliation_Inr:
  assumes "BindReconciliation sha draft authority = Inr bound"
  obtains claim target original intent i where "validateDraft sha draft = None"
    and "reconciles sha (dr_plan draft) authority claim target original intent i"
    and "br_plan bound = bind_plan (dr_plan draft) (op_Approval intent) authority (pl_Operations (dr_plan draft) ! i)"
    and "br_request bound = reconciliation_request (br_plan bound) (pl_Operations (dr_plan draft) ! i)
      (ay_Transaction authority) original claim"
proof -
  obtain claim target where c: "tx_ActiveClaim (ay_Transaction authority) = Some claim"
    "tx_Target (ay_Transaction authority) = Some target"
    using assms unfolding BindReconciliation_def Let_def by (auto split: option.splits)
  then obtain i intent original where
    ops: "validateReconciliationOperations sha (dr_plan draft) (tx_Operations (ay_Transaction authority)) (ay_Now authority) = Inr (i, intent)"
    and orig: "originalMutationClaim (ay_Transaction authority) (dr_plan draft) intent claim = Inr original"
    using assms unfolding BindReconciliation_def Let_def by (auto split: prod.splits)
  show ?thesis
  proof (rule that)
    show "validateDraft sha draft = None" using assms unfolding BindReconciliation_def by simp
    show "reconciles sha (dr_plan draft) authority claim target original intent i"
      using assms c ops orig unfolding BindReconciliation_def reconciles_def Let_def by (simp add: c)
    show plan: "br_plan bound = bind_plan (dr_plan draft) (op_Approval intent) authority (pl_Operations (dr_plan draft) ! i)"
      using assms c ops orig unfolding BindReconciliation_def Let_def by (auto simp: c)
    show "br_request bound = reconciliation_request (br_plan bound) (pl_Operations (dr_plan draft) ! i)
      (ay_Transaction authority) original claim"
      using assms c ops orig plan unfolding BindReconciliation_def Let_def
      by (auto simp: c reconciliation_request_def bind_plan_def)
  qed
qed

lemma randomID_identifier:
  assumes "randomID ''claim'' (Some bytes) = Some v" and "length bytes = 16"
  shows "identifierPattern v"
proof -
  have "list_all (\<lambda>c. is_alnum c \<or> c \<in> set ''._:-'') (hex_encode bytes)"
    using hex_encode_lower [of bytes] by (auto simp: list_all_iff lower_hex_char_def is_alnum_def is_lower_def)
  moreover have "list_all (\<lambda>c. is_alnum c \<or> c \<in> set ''._:-'') ''laim-''" "is_alnum (CHR ''c'')" by code_simp+
  ultimately show ?thesis using assms by (auto simp: randomID_def identifierPattern_def)
qed

lemma fetched_claim_year:
  assumes "GetTransaction service tid = Inr t" and "tx_ActiveClaim t = Some claim" and "0 < cl_ExpiresAt claim"
  shows "year_ok (cl_ExpiresAt claim)"
proof -
  have "transaction_encodes t"
    using assms(1) by (simp add: GetTransaction_def cloneTransaction_def split: option.splits if_splits)
  moreover have "cl_ExpiresAt claim \<in> set (transaction_times t)" using assms(2) by (simp add: transaction_times_def claim_times_def)
  ultimately have "time_marshals (utc (cl_ExpiresAt claim))" by (simp add: transaction_encodes_def list_all_iff)
  then show ?thesis using assms(3) unfolding time_marshals_def year_ok_def by simp
qed

lemma reconciles_facts:
  assumes "reconciles sha plan authority claim target original intent i"
  shows "tx_ID (ay_Transaction authority) = pl_TransactionID plan" "pl_FenceEpoch plan < cl_FenceEpoch claim"
    and "cl_Mode claim = ClaimModeReconciliation" "tx_ActiveClaim (ay_Transaction authority) = Some claim"
    and "i < length (pl_Operations plan)" "ap_ID (op_Approval intent) \<noteq> []"
    and "validDigest (rc_ReceiptID (ay_IntentReceipt authority))"
    and "LeaseCoversOperation (ay_Now authority) (cl_ExpiresAt claim) ReconciliationObservationBudget (ay_LeaseSafetyMargin authority)"
    and "intent = last (tx_Operations (ay_Transaction authority))" "unresolved_ok (ay_Now authority) intent"
    and "i = length (tx_Operations (ay_Transaction authority)) - 1" "tx_Operations (ay_Transaction authority) \<noteq> []"
    and "op_Operation intent = os_Operation (pl_Operations plan ! i)" "op_IntentFenceEpoch intent = pl_FenceEpoch plan"
    and "ay_Now authority < cl_ExpiresAt claim"
proof -
  note r = assms [unfolded reconciles_def Let_def]
  show "ay_Now authority < cl_ExpiresAt claim" using r by (auto simp: reconciliation_claim_ok_def)
  have ops: "validateReconciliationOperations sha plan (tx_Operations (ay_Transaction authority)) (ay_Now authority) = Inr (i, intent)"
    using r by blast
  note o = ops [unfolded validateReconciliationOperations_Inr]
  show "tx_ID (ay_Transaction authority) = pl_TransactionID plan" using r by (auto simp: reconciliation_transaction_ok_def)
  show "pl_FenceEpoch plan < cl_FenceEpoch claim" "cl_Mode claim = ClaimModeReconciliation"
    "tx_ActiveClaim (ay_Transaction authority) = Some claim"
    using r by (auto simp: reconciliation_claim_ok_def not_le)
  show "i < length (pl_Operations plan)" using o by (cases "tx_Operations (ay_Transaction authority)") auto
  show "ap_ID (op_Approval intent) \<noteq> []" using r by (auto simp: validateReconciliationApproval_def approval_bound_def)
  show "LeaseCoversOperation (ay_Now authority) (cl_ExpiresAt claim) ReconciliationObservationBudget (ay_LeaseSafetyMargin authority)"
    using r by blast
  show "intent = last (tx_Operations (ay_Transaction authority))" "unresolved_ok (ay_Now authority) intent"
    "i = length (tx_Operations (ay_Transaction authority)) - 1" "tx_Operations (ay_Transaction authority) \<noteq> []"
    using o by auto
  have "record_bound sha plan (pl_Operations plan ! i) (ay_Now authority) intent"
    using o by (auto simp: last_conv_nth)
  then show "op_Operation intent = os_Operation (pl_Operations plan ! i)" "op_IntentFenceEpoch intent = pl_FenceEpoch plan"
    and "validDigest (rc_ReceiptID (ay_IntentReceipt authority))"
    using r by (auto simp: record_bound_def validateAuditIntent_def validateAuditReceipt_def split: if_splits)
qed

section \<open>What a draft's validation says\<close>

lemma validateDraft_None:
  assumes "validateDraft sha draft = None"
  shows "length (pl_Operations (dr_plan draft)) = 7"
    and "i < 7 \<Longrightarrow> os_Sequence (pl_Operations (dr_plan draft) ! i) = of_nat (i + 1)"
    and "i < 7 \<Longrightarrow> os_Operation (pl_Operations (dr_plan draft) ! i) = developmentOperations ! i"
proof -
  have len: "length (pl_Operations (dr_plan draft)) = 7"
    using assms by (auto simp: validateDraft_def Let_def split: if_splits)
  have "first_err (map (draft_policy_ok (dr_plan draft)) [0 ..< 7]) = None"
    using assms by (auto simp: validateDraft_def Let_def split: if_splits option.splits)
  then have ok: "i < 7 \<Longrightarrow> draft_policy_ok (dr_plan draft) i = None" by simp
  show "length (pl_Operations (dr_plan draft)) = 7" by (rule len)
  show "i < 7 \<Longrightarrow> os_Sequence (pl_Operations (dr_plan draft) ! i) = of_nat (i + 1)"
    "i < 7 \<Longrightarrow> os_Operation (pl_Operations (dr_plan draft) ! i) = developmentOperations ! i"
    using ok policy_operation(2) [of i]
    by (cases "policyOperations ! i"; simp add: draft_policy_ok_def Let_def del: of_nat_Suc of_nat_add)+
qed

lemma draft_validates:
  assumes "BuildDraft sha input = Inr draft"
  shows "validateDraft sha draft = None"
proof -
  have d: "dr_plan draft = draft_plan sha input" using assms by (simp add: BuildDraft_Inr)
  have op: "OperationSpec_Digest sha (operation\<lparr>os_OperationDigest := x\<rparr>) = OperationSpec_Digest sha operation" for operation x
    by (simp add: OperationSpec_Digest_def operationDigestMaterial_def)
  have derived: "os_OperationDigest (draft_op sha input i) = OperationSpec_Digest sha (draft_op sha input i)" for i
    by (simp add: draft_op_def op)
  have same: "map (\<lambda>operation. operation\<lparr>os_OperationDigest := OperationSpec_Digest sha operation\<rparr>) (pl_Operations (dr_plan draft))
      = pl_Operations (dr_plan draft)"
    unfolding d draft_plan_fields map_map comp_def by (simp add: derived [symmetric])
  then have w: "WithDerivedDigests sha (dr_plan draft) = Inr (dr_plan draft)"
    using draft_digest [OF assms] by (simp add: WithDerivedDigests_def Let_def)
  have "draft_policy_ok (dr_plan draft) i = None" if "i < 7" for i
    using that by (cases "policyOperations ! i")
      (simp add: d draft_policy_ok_def draft_op_def draft_spec_def del: of_nat_Suc of_nat_add)
  then have policy: "first_err (map (draft_policy_ok (dr_plan draft)) [0 ..< 7]) = None" by simp
  have head: "pl_ApprovalID (dr_plan draft) = []" "pl_IntentReceipt (dr_plan draft) = []" "pl_IntentSequence (dr_plan draft) = 0"
    "length (pl_Operations (dr_plan draft)) = 7" "length policyOperations = 7"
    by (simp_all add: d policyOperations_def)
  show ?thesis
    unfolding validateDraft_def Let_def head policy w by simp
qed

end
