(* ===== verification/Plan_Demo.thy ===== *)
theory Plan_Demo
  imports Plan_Binding Lane_Demo_Execute Control_Demo
begin

text \<open>
  A transaction of the control plane, the two records of the audit log and the draft whose bound plan is the
  plan of the lane's demonstration run; and the same transaction after its claim was transferred for
  reconciliation. They show that the hypotheses of the plan compiler's properties can hold together.
\<close>

section \<open>Inputs\<close>

definition plan_input :: DraftInput where
  "plan_input = \<lparr>di_StationID = ''station1'', di_LaneID = ''lane1'', di_PowerControlMode = PowerControlRelay,
     di_TransactionID = ''tx1'', di_Release = lane_release, di_TargetFingerprint = demo_digest,
     di_InitialObservationDigest = demo_digest, di_FenceEpoch = 1, di_ApprovalExpiresAt = lane_at 3600,
     di_InitialState = lane_fresh, di_AuthorizationIDs = (\<lambda>i. ''auth1''), di_MaximumDurations = (\<lambda>i. 600 * second)\<rparr>"

definition plan_draft :: Draft where
  "plan_draft = \<lparr>dr_plan = lane_plan\<lparr>pl_ApprovalID := [], pl_IntentReceipt := [], pl_IntentSequence := 0\<rparr>\<rparr>"

definition plan_claim :: Claim where
  "plan_claim = \<lparr>cl_ID = ''claim1'', cl_Mode = ClaimModeMutation, cl_Status = ClaimActive, cl_StationID = ''station1'',
     cl_LaneID = ''lane1'', cl_AssetID = ''asset1'', cl_FenceEpoch = 1, cl_AllowedStages = developmentOperations,
     cl_AcquiredAt = lane_at 0, cl_ExpiresAt = lane_at 3600, cl_ClosedAt = None\<rparr>"

definition plan_target :: TargetBinding where
  "plan_target = \<lparr>tb_Fingerprint = demo_digest, tb_ObservationDigest = demo_digest,
     tb_CustomerKeyHash = unownedCustomerKeyHash, tb_BoundAt = lane_at 0, tb_FenceEpoch = 1\<rparr>"

definition plan_approval :: Approval where
  "plan_approval = \<lparr>ap_ID = ''approval1'', ap_ApproverID = ''approver1'', ap_TransactionDigest = demo_digest,
     ap_PlanDigest = demo_digest, ap_StationID = ''station1'', ap_LaneID = ''lane1'', ap_FenceEpoch = 1,
     ap_TargetFingerprint = demo_digest, ap_Release = lane_release, ap_AllowedOperations = developmentOperations,
     ap_AuditReceiptID = demo_digest, ap_ApprovedAt = lane_at 0, ap_ExpiresAt = lane_at 3600\<rparr>"

definition plan_intent :: OperationRecord where
  "plan_intent = \<lparr>op_ID = developmentOperations ! 0, op_Operation = developmentOperations ! 0, op_Status = OperationIntentRecorded,
     op_PlanDigest = demo_digest, op_Release = lane_release, op_ApprovalExpiresAt = lane_at 3600,
     op_Approval = plan_approval, op_InputDigest = demo_digest, op_PrestateDigest = demo_digest,
     op_IntentAuditReceiptID = demo_receipt, op_IntentAt = lane_at 0, op_IntentFenceEpoch = 1,
     op_OutputDigest = [], op_ObservationDigest = [], op_EvidenceAuditReceiptID = [], op_EvidenceAt = None,
     op_ReconciliationAuditReceiptID = []\<rparr>"

definition plan_transaction :: Transaction where
  "plan_transaction = \<lparr>tx_SchemaVersion = TransactionSchemaVersion, tx_ID = ''tx1'', tx_ResourceVersion = 5,
     tx_Status = StatusMutationInProgress, tx_AssetID = ''asset1'', tx_IntendedLogicalID = ''node1'',
     tx_ProfileID = ''rpi5'', tx_BundleDigest = demo_digest, tx_PolicyDigest = demo_digest,
     tx_ExpectedPrestateCustomerKeyHash = unownedCustomerKeyHash, tx_ExpectedCustomerKeyHash = demo_digest,
     tx_TransactionDigest = demo_digest, tx_FenceEpoch = 1, tx_ActiveClaim = Some plan_claim, tx_ClaimHistory = [],
     tx_Target = Some plan_target, tx_Approval = Some plan_approval, tx_Operations = [plan_intent],
     tx_Quarantine = None, tx_SecurityApplied = None, tx_Abort = None,
     tx_CreatedAt = lane_at 0, tx_UpdatedAt = lane_at 0\<rparr>"

definition plan_event :: "string \<Rightarrow> string \<Rightarrow> string \<Rightarrow> string \<Rightarrow> Event" where
  "plan_event eventID stage actor role = \<lparr>ev_SchemaVersion = EventSchemaVersion, ev_PolicyVersion = DefaultPolicyVersion,
     ev_EventID = eventID, ev_TransactionID = ''tx1'', ev_StationID = ''station1'', ev_LaneID = ''lane1'',
     ev_Stage = stage, ev_FenceEpoch = 1, ev_InputDigest = demo_digest, ev_OutputDigest = [],
     ev_Result = ResultIntentRecorded, ev_Actors = [\<lparr>actor_ID = actor, actor_Role = role\<rparr>],
     ev_TimeEvidence = \<lparr>te_StationTime = utc (lane_at 0), te_ClockStatus = ''unsynchronized''\<rparr>,
     ev_ObservationReferences = []\<rparr>"

definition plan_record :: "uint64 \<Rightarrow> string \<Rightarrow> string \<Rightarrow> instant \<Rightarrow> Event \<Rightarrow> Record" where
  "plan_record n previous eventHash at event = \<lparr>rd_Sequence = n, rd_PreviousEventHash = previous,
     rd_EventHash = eventHash, rd_RequestDigest = demo_digest, rd_RecordedAt = at, rd_Event = event\<rparr>"

definition plan_record1 :: Record where
  "plan_record1 = plan_record 1 [] demo_digest (lane_at 0) (plan_event ''approval1'' ''plan_approval'' ''approver1'' ''approver'')"
definition plan_record2 :: Record where
  "plan_record2 = plan_record 2 demo_digest demo_receipt (lane_at 0)
     (plan_event (developmentOperations ! 0) (developmentOperations ! 0) ''station1'' ''provisioning_station'')"

definition plan_authority :: "Transaction \<Rightarrow> Authority" where
  "plan_authority t = \<lparr>ay_Transaction = t,
     ay_ApprovalReceipt = receiptFor demo_hash plan_record1, ay_ApprovalRecord = plan_record1,
     ay_IntentReceipt = receiptFor demo_hash plan_record2, ay_IntentRecord = plan_record2,
     ay_Now = lane_at 0, ay_LeaseSafetyMargin = 10 * second\<rparr>"

definition plan_bound :: BoundPlan where
  "plan_bound = \<lparr>bp_plan = lane_plan, bp_claimExpiresAt = lane_at 3600, bp_operationIndex = 0\<rparr>"

text \<open>After the transfer: the first claim is closed, a second one observes.\<close>

definition plan_claim2 :: Claim where
  "plan_claim2 = plan_claim\<lparr>cl_ID := ''claim-00000000000000000000000000000002'',
     cl_Mode := ClaimModeReconciliation, cl_FenceEpoch := 2,
     cl_AllowedStages := [''reconciliation''], cl_AcquiredAt := lane_at 0\<rparr>"

definition plan_transferred :: Transaction where
  "plan_transferred = plan_transaction\<lparr>tx_Status := StatusReconciliationRequired, tx_FenceEpoch := 2,
     tx_ActiveClaim := Some plan_claim2,
     tx_ClaimHistory := [plan_claim\<lparr>cl_Status := ClaimTransferred, cl_ClosedAt := Some (lane_at 0)\<rparr>],
     tx_Approval := None\<rparr>"

text \<open>The transaction is the one that the control plane's run holds when its first operation is under way.\<close>

lemma plan_transaction_reached: "demo_open 0 = plan_transaction"
proof -
  have now: "demo_now = lane_at 0" "demo_expiry = lane_at 3600" "demo_transaction_digest = demo_digest"
    "UnownedCustomerKeyHash = unownedCustomerKeyHash"
    by (simp_all add: demo_now_def demo_expiry_def lane_at_def lane_now_def unownedCustomerKeyHash_def
        UnownedCustomerKeyHash_def demo_transaction_digest)
  have claim: "demo_claim = plan_claim"
    using demo_lease_end by (simp add: demo_claim_def new_claim_def plan_claim_def now)
  have approval: "demo_approval = plan_approval"
    by (simp add: demo_approval_def approval_of_def demo_approve_def claim now plan_approval_def demo_release_def lane_release_def)
      (simp add: plan_claim_def)
  have intent: "demo_started 0 = plan_intent"
    by (simp add: demo_started_def intent_record_def demo_intent_def claim approval now plan_intent_def)
      (simp add: plan_claim_def plan_approval_def)
  show ?thesis
    by (simp add: demo_tx_defs claim approval intent now plan_transaction_def plan_target_def demo_version_def)
qed

section \<open>The draft\<close>

lemma plan_times [simp]: "lane_at m < lane_at n \<longleftrightarrow> m < n" "lane_at m \<le> lane_at n \<longleftrightarrow> m \<le> n" "lane_at m = lane_at n \<longleftrightarrow> m = n"
  by (simp_all add: lane_at_def second_def)

lemma plan_drafted: "BuildDraft demo_hash plan_input = Inr plan_draft"
proof -
  have "identifierPattern ''auth1''" by code_simp
  then have rows: "draft_rows_ok plan_input" by (simp add: draft_rows_ok_def plan_input_def second_def)
  have year: "year_ok (lane_at 3600)" by code_simp
  have input: "draft_input_ok plan_input = None"
    by (simp add: draft_input_ok_def plan_input_def draft_validateState_def) (simp add: lane_fresh_def lane_release_def lane_at_def)
  have op: "draft_op demo_hash plan_input i = lane_operation i" if "i \<in> {0, 1, 2, 3, 4, 5, 6}" for i
    using that by (elim insertE emptyE)
      (simp_all add: draft_op_def draft_spec_def draft_post_def lane_operation_def want_states_def plan_input_def policyOperations_def
        developmentOperations_def operation_defs operationClass_def RequiredBootModeForOperation_def
        commitAttestedState_def observedOwnedState_def draft_commitAttestedState_def draft_observedOwnedState_def lane_body_def)
  have "map (draft_op demo_hash plan_input) [0..<7] = map lane_operation [0..<7]" using op by (simp add: seven)
  moreover define plan where "plan = (draft_header plan_input)\<lparr>pl_Operations := map (draft_op demo_hash plan_input) [0..<7]\<rparr>"
  moreover have "pl_ApprovalExpiresAt plan = lane_at 3600" by (simp add: plan_def draft_header_def plan_input_def)
  moreover from this have "Plan_Digest demo_hash plan = Inr demo_digest" using year by (simp add: Plan_Digest_Inr)
  ultimately have "draft_plan demo_hash plan_input = dr_plan plan_draft"
    by (simp add: draft_plan_def Let_def) (simp add: draft_header_def plan_input_def plan_draft_def lane_plan_def lane_body_def lane_at_def)
  then show ?thesis using rows year input by (simp add: BuildDraft_Inr) (simp add: plan_input_def)
qed

section \<open>Binding it\<close>

lemma plan_draft_fields [simp]:
  "pl_StationID (dr_plan plan_draft) = ''station1''" "pl_LaneID (dr_plan plan_draft) = ''lane1''"
  "pl_TransactionID (dr_plan plan_draft) = ''tx1''" "pl_PlanDigest (dr_plan plan_draft) = demo_digest"
  "pl_Release (dr_plan plan_draft) = lane_release" "pl_TargetFingerprint (dr_plan plan_draft) = demo_digest"
  "pl_InitialObservationDigest (dr_plan plan_draft) = demo_digest" "pl_FenceEpoch (dr_plan plan_draft) = 1"
  "pl_ApprovalExpiresAt (dr_plan plan_draft) = lane_at 3600" "pl_Operations (dr_plan plan_draft) = map lane_operation [0..<7]"
  "pl_PowerControlMode (dr_plan plan_draft) = PowerControlRelay"
  by (simp_all add: plan_draft_def lane_at_def)

lemma plan_instants [simp]: "lane_at 0 \<noteq> 0" "time_marshals (utc (lane_at 0))"
  by code_simp+

lemma record_prefix:
  "rd_Sequence r = n \<Longrightarrow> show_nat (unat n) = [c] \<Longrightarrow>
     take 13 (render (recordHashMaterial r)) = [CHR 0x7B, CHR 0x22] @ ''sequence'' @ [CHR 0x22, CHR '':'', c]"
proof -
  assume n: "rd_Sequence r = n" "show_nat (unat n) = [c]"
  have q: "quote_string ''sequence'' = CHR 0x22 # ''sequence'' @ [CHR 0x22]" by code_simp
  obtain m ms where "recordHashMaterial r = JObj ((''sequence'', juint64 n) # m # ms)"
    using n by (cases "rd_PreviousEventHash r") (auto simp: recordHashMaterial_def omit_empty_def)
  then show ?thesis using n q by (cases m) (simp add: juint64_def)
qed

lemma plan_digests: "transactionDigest demo_hash t = Some demo_digest"
  "prestateDigest demo_hash state = demo_digest"
  "digestJSON demo_hash (recordHashMaterial plan_record1) = Some demo_digest"
  "digestJSON demo_hash (recordHashMaterial plan_record2) = Some demo_receipt"
proof -
  show "transactionDigest demo_hash t = Some demo_digest"
    using demo_digestJSON [of "transactionDigestMaterial t"]
    by (simp add: transactionDigest_def demo_transaction_digest) (simp add: transactionDigestMaterial_def)
  have "take 6 prestateDigestDomain = ''kaiba.''" by (simp add: prestateDigestDomain_def)
  from digest_plain [OF plain_domain [OF this]] show "prestateDigest demo_hash state = demo_digest"
    by (simp only: prestateDigest_def)
  have m: "marshals (recordHashMaterial plan_record1)" "marshals (recordHashMaterial plan_record2)"
    by (simp_all add: recordHashMaterial_def json_of_Event_def plan_record1_def plan_record2_def plan_record_def plan_event_def
        juint64_def omit_empty_def json_of_Actor_def json_of_TimeEvidence_def)
  have n: "show_nat (unat (1 :: uint64)) = ''1''" "show_nat (unat (2 :: uint64)) = ''2''" by code_simp+
  have p: "take 13 (render (recordHashMaterial plan_record1)) \<noteq> second_record"
    "take 13 (render (recordHashMaterial plan_record2)) = second_record"
    using record_prefix [OF _ n(1), of plan_record1] record_prefix [OF _ n(2), of plan_record2]
    by (simp_all add: plan_record1_def plan_record2_def plan_record_def second_record_def)
  have "render (recordHashMaterial plan_record1) \<noteq> receipt_text x" for x
    by (simp add: receipt_text_def recordHashMaterial_def)
  then show "digestJSON demo_hash (recordHashMaterial plan_record1) = Some demo_digest"
    "digestJSON demo_hash (recordHashMaterial plan_record2) = Some demo_receipt"
    using m p hash_texts by (simp_all add: digestJSON_def digestBytes_def demo_hash_def)
qed

lemma plan_receipts:
  "rc_ReceiptID (receiptFor demo_hash plan_record1) = demo_digest" "rc_ReceiptID (receiptFor demo_hash plan_record2) = demo_receipt"
  using digest_receipt by (simp_all add: receiptFor_def plan_record1_def plan_record2_def plan_record_def receipt_text_def)

lemma plan_plan: "bind_plan (dr_plan plan_draft) plan_approval (plan_authority t) (lane_operation 0) = lane_plan"
  by (simp add: bind_plan_def plan_draft_def plan_approval_def plan_authority_def plan_receipts)

lemma plan_records_ok:
  "validateAuditApproval demo_hash (dr_plan plan_draft) plan_approval (receiptFor demo_hash plan_record1) plan_record1 (lane_at 0)
     ''approver'' = None"
  "validateAuditIntent demo_hash (dr_plan plan_draft) (lane_operation 0) plan_intent (receiptFor demo_hash plan_record2)
     plan_record2 (lane_at 0) ''provisioning_station'' = None"
  "records_ordered plan_approval (plan_authority t) = None"
  by (simp_all add: validateAuditApproval_def validateAuditIntent_def validateAuditReceipt_def plan_digests plan_receipts records_ordered_def
      plan_authority_def)
    (simp_all add: receiptFor_def plan_record1_def plan_record2_def plan_record_def plan_event_def plan_approval_def plan_intent_def
      event_binds_def developmentOperations_def word_le_nat_alt)

lemma plan_operation_ok:
  "record_bound demo_hash (dr_plan plan_draft) (lane_operation 0) (lane_at 0) plan_intent" "clean_intent plan_intent"
  by (simp_all add: record_bound_def clean_intent_def plan_digests) (simp_all add: plan_intent_def developmentOperations_def operation_defs)

lemma plan_binds:
  "binds demo_hash (dr_plan plan_draft) (plan_authority plan_transaction) productionActors plan_claim plan_target plan_approval
     plan_intent 0"
proof -
  have target: "bind_target_ok (dr_plan plan_draft) plan_transaction (lane_at 0) plan_target"
    by (simp add: bind_target_ok_def plan_target_def plan_transaction_def lane_first_operation) (simp add: lane_fresh_def)
  have ops: "validateControlOperations demo_hash (dr_plan plan_draft) [plan_intent] (lane_at 0) = Inr (0, plan_intent)"
    using plan_operation_ok by (simp add: validateControlOperations_Inr lane_first_operation) (simp add: plan_intent_def)
  have transaction: "bind_transaction_ok demo_hash (dr_plan plan_draft) plan_transaction = None"
    by (simp add: bind_transaction_ok_def plan_digests) (simp add: plan_transaction_def lane_release_def)
  have claim: "bind_claim_ok (dr_plan plan_draft) plan_transaction (lane_at 0) plan_claim = None"
    by (simp add: bind_claim_ok_def plan_claim_def plan_transaction_def)
  have approval: "approval_bound (dr_plan plan_draft) plan_transaction (lane_at 0) plan_approval"
    by (simp add: approval_bound_def plan_approval_def plan_transaction_def) (simp add: lane_at_def time_Sub_def second_def)
  have lease: "LeaseCoversOperation (lane_at 0) (cl_ExpiresAt plan_claim) (os_MaximumDuration (lane_operation 0)) (10 * second)"
    by (simp add: plan_claim_def lease_exact) (simp add: lane_at_def second_def)
  have parts: "tx_ActiveClaim plan_transaction = Some plan_claim" "tx_Target plan_transaction = Some plan_target"
    "tx_Approval plan_transaction = Some plan_approval" "tx_Operations plan_transaction = [plan_intent]"
    "lane_at 0 < ap_ExpiresAt plan_approval" "0 \<le> 10 * second"
    by (simp_all add: plan_transaction_def plan_approval_def second_def)
  show ?thesis
    using target ops plan_records_ok(1,2) plan_records_ok(3) [of plan_transaction] transaction claim approval lease parts
    unfolding binds_def Let_def by (simp add: plan_authority_def lane_first_operation productionActors_def)
qed

lemma plan_binding: "Bind demo_hash plan_draft (plan_authority plan_transaction) = Inr plan_bound"
  using plan_binds draft_validates [OF plan_drafted] plan_plan [of plan_transaction]
  unfolding Bind_def bindWithActorPolicy_Inr
  by (intro conjI exI) (assumption | simp add: plan_bound_def lane_first_operation plan_claim_def)+

section \<open>Reconciling it\<close>

lemma plan_reconciles:
  "reconciles demo_hash (dr_plan plan_draft) (plan_authority plan_transferred) plan_claim2 plan_target
     (plan_claim\<lparr>cl_Status := ClaimTransferred, cl_ClosedAt := Some (lane_at 0)\<rparr>) plan_intent 0"
proof -
  have target: "bind_target_ok (dr_plan plan_draft) plan_transferred (lane_at 0) plan_target"
    by (simp add: bind_target_ok_def plan_target_def plan_transferred_def plan_transaction_def lane_first_operation)
      (simp add: lane_fresh_def)
  have ops: "validateReconciliationOperations demo_hash (dr_plan plan_draft) [plan_intent] (lane_at 0) = Inr (0, plan_intent)"
    using plan_operation_ok
    by (simp add: validateReconciliationOperations_Inr lane_first_operation unresolved_ok_def) (simp add: plan_intent_def)
  have transaction: "reconciliation_transaction_ok demo_hash (dr_plan plan_draft) plan_transferred = None"
    by (simp add: reconciliation_transaction_ok_def plan_digests)
      (simp add: plan_transferred_def plan_transaction_def lane_release_def)
  have claim: "reconciliation_claim_ok (dr_plan plan_draft) plan_transferred (lane_at 0) plan_claim2"
    by (simp add: reconciliation_claim_ok_def plan_claim2_def plan_claim_def plan_transferred_def plan_transaction_def
        word_le_nat_alt)
  have approval: "validateReconciliationApproval (dr_plan plan_draft) plan_transferred plan_intent plan_approval (lane_at 0) = None"
    by (simp add: validateReconciliationApproval_def approval_bound_def plan_approval_def plan_transferred_def plan_transaction_def
        plan_intent_def) (simp add: lane_at_def time_Sub_def second_def)
  have original: "originalMutationClaim plan_transferred (dr_plan plan_draft) plan_intent plan_claim2
      = Inr (plan_claim\<lparr>cl_Status := ClaimTransferred, cl_ClosedAt := Some (lane_at 0)\<rparr>)"
    by (simp add: originalMutationClaim_def plan_transferred_def plan_claim_def plan_transaction_def plan_intent_def plan_claim2_def)
  have lease: "LeaseCoversOperation (lane_at 0) (cl_ExpiresAt plan_claim2) ReconciliationObservationBudget (10 * second)"
    by (simp add: plan_claim2_def plan_claim_def lease_exact ReconciliationObservationBudget_def) (simp add: lane_at_def second_def)
  have parts: "tx_ActiveClaim plan_transferred = Some plan_claim2" "tx_Target plan_transferred = Some plan_target"
    "tx_Operations plan_transferred = [plan_intent]" "op_Approval plan_intent = plan_approval" "0 \<le> 10 * second"
    by (simp_all add: plan_transferred_def plan_transaction_def plan_intent_def second_def)
  show ?thesis
    using target ops plan_records_ok(1,2) plan_records_ok(3) [of plan_transferred] transaction claim approval original lease parts
    unfolding reconciles_def Let_def by (simp add: plan_authority_def lane_first_operation productionActors_def)
qed

lemma plan_reconciliation:
  "\<exists>bound. BindReconciliation demo_hash plan_draft (plan_authority plan_transferred) = Inr bound"
proof -
  note r = plan_reconciles [unfolded reconciles_def Let_def]
  show ?thesis
    using r draft_validates [OF plan_drafted] unfolding BindReconciliation_def Let_def by (simp add: plan_authority_def)
qed

end
