(* ===== verification/Plan_Properties.thy ===== *)
theory Plan_Properties
  imports Plan_Demo Lane_Effects Audit_Properties
begin

text \<open>
  The properties of the plan compiler: what it binds is accepted by the lane guard and traces every
  execution back to the control plane's intent and the audit log's records.
\<close>

section \<open>Bound plans and the lane guard\<close>

lemma sequence_number:
  "i < 7 \<Longrightarrow> unat (of_nat (i + 1) :: uint32) = i + 1" "i < 7 \<Longrightarrow> (of_nat (i + 1) :: uint32) \<noteq> 0"
proof -
  show n: "i < 7 \<Longrightarrow> unat (of_nat (i + 1) :: uint32) = i + 1"
    by (simp add: unat_of_nat take_bit_nat_eq_self del: of_nat_Suc of_nat_add)
  show "i < 7 \<Longrightarrow> (of_nat (i + 1) :: uint32) \<noteq> 0" using n by (metis add_is_0 one_neq_zero unat_0)
qed

lemma bound_execution:
  assumes "BuildDraft sha input = Inr draft" and "Bind sha draft authority = Inr bound"
    and len: "\<forall>m. length (sha m) = 32"
    and config: "Config_Validate config = None" "cf_PowerControlMode config = pl_PowerControlMode (dr_plan draft)"
      "cf_StationID config = pl_StationID (dr_plan draft)" "cf_LaneID config = pl_LaneID (dr_plan draft)"
  obtains i where "i < 7" and "i = length (tx_Operations (ay_Transaction authority)) - 1"
    and "bp_operationIndex bound = int i" and "Plan_Validate sha (bp_plan bound) config = None"
    and "pl_IntentSequence (bp_plan bound) = of_nat (i + 1)" and "pl_Operations (bp_plan bound) = pl_Operations (dr_plan draft)"
    and "pl_ApprovalExpiresAt (bp_plan bound) = pl_ApprovalExpiresAt (dr_plan draft)"
    and "ay_Now authority < pl_ApprovalExpiresAt (dr_plan draft)"
    and "LeaseCoversOperation (ay_Now authority) (bp_claimExpiresAt bound) (os_MaximumDuration (pl_Operations (dr_plan draft) ! i))
      (ay_LeaseSafetyMargin authority)"
proof -
  obtain claim target approval intent i where v: "validateDraft sha draft = None"
    and b: "binds sha (dr_plan draft) authority productionActors claim target approval intent i"
    and plan: "bp_plan bound = bind_plan (dr_plan draft) approval authority (pl_Operations (dr_plan draft) ! i)"
    and rest: "bp_claimExpiresAt bound = cl_ExpiresAt claim" "bp_operationIndex bound = int i"
    using assms(2) by (rule Bind_Inr)
  note f = binds_facts [OF b] and d = validateDraft_None [OF v]
  have i: "i < 7" using f(19) d(1) by simp
  have receipt: "rc_ReceiptID (ay_IntentReceipt authority) \<noteq> []"
    using f(25) by (simp add: receiptFor_def digestBytes_def digest_prefix_def)
  have seq: "os_Sequence (pl_Operations (dr_plan draft) ! i) = of_nat (i + 1)" by (rule d(2) [OF i])
  note n = sequence_number [OF i]
  have "Plan_Validate sha (bp_plan bound) config = None"
    unfolding Plan_Validate_def plan bind_plan_authority seq
    by (rule draft_accepted [OF assms(1) len config(1,2)]) (use config f(15) receipt n i in auto)
  then show ?thesis
    using that [OF i f(18) rest(2)] f(14,29) rest seq by (simp add: plan bind_plan_def)
qed

text \<open>Property C21. What is bound is accepted: when a draft binds, its plan and its request pass the lane
  guard's validation under every valid configuration of the same lane and mode, the request selects the
  operation the transaction is waiting for, and at the moment of binding neither the approval nor, with a
  safety margin no larger than the binding's, the lease stands in the way.\<close>

theorem bound_plan_accepted:
  assumes "BuildDraft sha input = Inr draft" and "Bind sha draft authority = Inr bound"
    and "\<forall>m. length (sha m) = 32" and "Config_Validate config = None"
    and "cf_PowerControlMode config = pl_PowerControlMode (dr_plan draft)"
    and "cf_StationID config = pl_StationID (dr_plan draft)" and "cf_LaneID config = pl_LaneID (dr_plan draft)"
    and "cf_LeaseSafetyMargin config \<le> ay_LeaseSafetyMargin authority"
  shows "\<exists>plan request operation. Execution bound = Inr (plan, request)
    \<and> ValidatePlanRequest sha config plan request = None \<and> matchPlanRequest plan request = Inr operation
    \<and> operation = pl_Operations plan ! (length (tx_Operations (ay_Transaction authority)) - 1)
    \<and> authority_ok (ay_Now authority) plan operation request config = None"
  using assms(1-7)
proof (rule bound_execution)
  fix i assume i: "i < 7" "i = length (tx_Operations (ay_Transaction authority)) - 1" "bp_operationIndex bound = int i"
    and valid: "Plan_Validate sha (bp_plan bound) config = None" and seq: "pl_IntentSequence (bp_plan bound) = of_nat (i + 1)"
    and same: "pl_Operations (bp_plan bound) = pl_Operations (dr_plan draft)"
      "pl_ApprovalExpiresAt (bp_plan bound) = pl_ApprovalExpiresAt (dr_plan draft)"
    and now: "ay_Now authority < pl_ApprovalExpiresAt (dr_plan draft)"
    and lease: "LeaseCoversOperation (ay_Now authority) (bp_claimExpiresAt bound)
      (os_MaximumDuration (pl_Operations (dr_plan draft) ! i)) (ay_LeaseSafetyMargin authority)"
  let ?request = "request_of (bp_plan bound) (pl_Operations (bp_plan bound) ! i) (bp_claimExpiresAt bound)"
  note valid' = valid [unfolded Plan_Validate_def]
  have run: "Execution bound = Inr (bp_plan bound, ?request)"
    using i plan_length [OF valid'] by (simp add: Execution_def BoundPlan_ExecuteRequest_def)
  have matched: "matchPlanRequest (bp_plan bound) ?request = Inr (pl_Operations (bp_plan bound) ! i)"
    by (rule request_of_matches [OF valid' i(1) seq])
  have "0 \<le> cf_LeaseSafetyMargin config" using assms(4) by (auto simp: Config_Validate_def)
  then have "authority_ok (ay_Now authority) (bp_plan bound) (pl_Operations (bp_plan bound) ! i) ?request config = None"
    using now lease assms(8) by (auto simp: authority_ok_def lease_exact same request_of_def)
  then show ?thesis
    using run matched valid i(2) by (intro exI conjI) (assumption | simp add: ValidatePlanRequest_def)+
qed

theorem bound_plan_accepted_witness:
  "BuildDraft demo_hash plan_input = Inr plan_draft
   \<and> Bind demo_hash plan_draft (plan_authority plan_transaction) = Inr plan_bound
   \<and> (\<exists>plan request operation. Execution plan_bound = Inr (plan, request)
        \<and> ValidatePlanRequest demo_hash lane_config plan request = None)"
proof -
  have "cf_LeaseSafetyMargin lane_config \<le> ay_LeaseSafetyMargin (plan_authority plan_transaction)"
    "cf_PowerControlMode lane_config = pl_PowerControlMode (dr_plan plan_draft)"
    "cf_StationID lane_config = pl_StationID (dr_plan plan_draft)" "cf_LaneID lane_config = pl_LaneID (dr_plan plan_draft)"
    by (simp_all add: lane_config_def plan_authority_def)
  then show ?thesis
    using bound_plan_accepted [OF plan_drafted plan_binding, of lane_config] demo_hash_length lane_config_ok plan_drafted plan_binding
    by blast
qed

section \<open>Executions and the control plane\<close>

text \<open>Property C14. Every execution was intended: when the guard of a lane holds a plan that came from a
  binding, and then tells the hardware to execute, the action is the operation of the transaction's last
  and only pending intent, under the epoch of its active mutation claim, on the bound target, with the
  approval of exactly this plan. Its receipt is the one that the audit log makes for the record of this
  intent, whose hash is the hash of the event naming this operation and plan. Every operation before it
  was completed with evidence: valid digests of output and observation, a valid receipt of the evidence or
  of the reconciliation that confirmed it, and a time of evidence between its own intent and the next.\<close>

theorem executed_was_intended:
  assumes bound: "Bind sha draft authority = Inr bound"
    and load: "BoundPlan_Load e bound (Some g) s = (Inr None, Some g')"
    and run: "Execute e' q g' s' = (ans, s'', events)" and action: "action \<in> set (executions events)"
  shows "\<exists>claim target approval.
    tx_ActiveClaim (ay_Transaction authority) = Some claim \<and> cl_Mode claim = ClaimModeMutation
    \<and> tx_Target (ay_Transaction authority) = Some target \<and> tx_Approval (ay_Transaction authority) = Some approval
    \<and> ha_TransactionID action = tx_ID (ay_Transaction authority) \<and> ha_FenceEpoch action = cl_FenceEpoch claim
    \<and> ha_TargetFingerprint action = tb_Fingerprint target
    \<and> ha_ApprovalID action = ap_ID approval \<and> ha_PlanDigest action = ap_PlanDigest approval
    \<and> (let ops = tx_Operations (ay_Transaction authority); intent = last ops; event = rd_Event (ay_IntentRecord authority)
       in ops \<noteq> [] \<and> unat (ha_Sequence action) = length ops
          \<and> op_Status intent = OperationIntentRecorded \<and> op_Operation intent = ha_Operation action
          \<and> op_IntentFenceEpoch intent = ha_FenceEpoch action \<and> op_IntentAuditReceiptID intent = ha_IntentReceipt action
          \<and> ev_EventID event = op_ID intent \<and> ev_Stage event = ha_Operation action \<and> ev_InputDigest event = ha_PlanDigest action
          \<and> ha_IntentReceipt action = rc_ReceiptID (receiptFor sha (ay_IntentRecord authority))
          \<and> auditEventHash sha (ay_IntentRecord authority) = Some (rd_EventHash (ay_IntentRecord authority))
          \<and> (\<forall>j < length ops - 1. op_Operation (ops ! j) = developmentOperations ! j
               \<and> validDigest (op_OutputDigest (ops ! j)) \<and> validDigest (op_ObservationDigest (ops ! j))
               \<and> (op_Status (ops ! j) = OperationSucceeded \<and> validDigest (op_EvidenceAuditReceiptID (ops ! j))
                  \<or> op_Status (ops ! j) = OperationConfirmedApplied \<and> validDigest (op_ReconciliationAuditReceiptID (ops ! j)))
               \<and> (\<exists>seen. op_EvidenceAt (ops ! j) = Some seen \<and> op_IntentAt (ops ! j) \<le> seen \<and> seen \<le> op_IntentAt (ops ! Suc j))))"
proof -
  obtain claim target approval intent i where v: "validateDraft sha draft = None"
    and b: "binds sha (dr_plan draft) authority productionActors claim target approval intent i"
    and plan: "bp_plan bound = bind_plan (dr_plan draft) approval authority (pl_Operations (dr_plan draft) ! i)"
    using bound by (rule Bind_Inr)
  note f = binds_facts [OF b] and d = validateDraft_None [OF v]
  have loaded: "gd_plan g' = Some (bp_plan bound)"
    using load by (auto simp: BoundPlan_Load_def LoadPlan_def split: prod.splits option.splits sum.splits if_splits)
  from run show ?thesis
  proof (cases rule: Execute_effect)
    case quiet
    then show ?thesis using action by simp
  next
    case (intent p operation carried pre a act st st1)
    note adm = execute_admit_Inr [OF intent(1)]
    have p: "p = bp_plan bound" using adm(1) loaded by simp
    have act: "action = act" using intent(14) action by auto
    note made = makeHardwareAction_Inr [OF intent(8), folded act, unfolded p]
    have i: "i < 7" using f(19) d(1) by simp
    note n = sequence_number [OF i]
    have "unat (of_nat (i + 1) - 1 :: uint32) = i" using n unat_minus_one [of "of_nat (i + 1) :: uint32"] by simp
    then have op: "operation = pl_Operations (dr_plan draft) ! i"
      using adm(4) unfolding p plan matchPlanRequest_def Let_def by (auto simp: bind_plan_def d(2) [OF i] simp del: of_nat_Suc of_nat_add split: if_splits)
    have len: "length (tx_Operations (ay_Transaction authority)) = i + 1" using f(17,18) by (cases "tx_Operations (ay_Transaction authority)") auto
    have bound_records: "record_bound sha (dr_plan draft) (pl_Operations (dr_plan draft) ! j) (ay_Now authority)
        (tx_Operations (ay_Transaction authority) ! j)" if "j \<le> i" for j
      using f(22) [of j] that len by simp
    have last: "last (tx_Operations (ay_Transaction authority)) = tx_Operations (ay_Transaction authority) ! i"
      using f(17) len by (simp add: last_conv_nth)
    have earlier: "op_Operation (tx_Operations (ay_Transaction authority) ! j) = developmentOperations ! j" if "j < i" for j
      using bound_records [of j] d(3) [of j] that i by (auto simp: record_bound_def)
    note evidence = prior_evidence [OF f(23) f(31)]
    have fields: "ha_TransactionID action = tx_ID (ay_Transaction authority)" "ha_FenceEpoch action = cl_FenceEpoch claim"
      "ha_TargetFingerprint action = tb_Fingerprint target" "ha_ApprovalID action = ap_ID approval"
      "ha_PlanDigest action = ap_PlanDigest approval" "ha_Sequence action = of_nat (i + 1)"
      "ha_Operation action = os_Operation (pl_Operations (dr_plan draft) ! i)"
      using made f(1,7,10,12) op d(2) [OF i] by (simp_all add: plan bind_plan_def)
    have receipt: "op_IntentAuditReceiptID (last (tx_Operations (ay_Transaction authority))) = ha_IntentReceipt action"
      "ha_IntentReceipt action = rc_ReceiptID (receiptFor sha (ay_IntentRecord authority))"
      using made(12) f(20,24,25) by (simp_all add: plan bind_plan_def)
    have intent_fields: "op_Operation (last (tx_Operations (ay_Transaction authority))) = ha_Operation action"
      "op_IntentFenceEpoch (last (tx_Operations (ay_Transaction authority))) = ha_FenceEpoch action"
      using bound_records [of i] fields f(7) by (simp_all add: last record_bound_def)
    have event: "ev_EventID (rd_Event (ay_IntentRecord authority)) = op_ID (last (tx_Operations (ay_Transaction authority)))"
      "ev_Stage (rd_Event (ay_IntentRecord authority)) = ha_Operation action"
      "ev_InputDigest (rd_Event (ay_IntentRecord authority)) = ha_PlanDigest action"
      using f(12,20,26) fields by (auto simp: event_binds_def)
    show ?thesis
      using f(3,4,9,11,17,20,21,30) fields n len earlier evidence receipt intent_fields event
      by (intro exI conjI) (auto simp: Let_def)
  qed
qed

theorem executed_was_intended_witness:
  "\<exists>s''. Bind demo_hash plan_draft (plan_authority plan_transaction) = Inr plan_bound
     \<and> BoundPlan_Load (lane_call (Crashed [])) plan_bound (Some lane_guard) first_store = (Inr None, Some lane_armed)
     \<and> Execute (lane_call (Crashed [])) lane_xr lane_armed first_store = (Died, s'', [EvObserve lane_pre, EvExecute lane_exec])
     \<and> ha_TransactionID lane_exec = tx_ID plan_transaction"
proof -
  obtain s'' where run: "Execute (lane_call (Crashed [])) lane_xr lane_armed first_store
      = (Died, s'', [EvObserve lane_pre, EvExecute lane_exec])"
    using lane_crashed [OF first_holds] .
  have load: "BoundPlan_Load (lane_call (Crashed [])) plan_bound (Some lane_guard) first_store = (Inr None, Some lane_armed)"
    using lane_load [OF first_holds] by (simp add: BoundPlan_Load_def plan_bound_def)
  have "lane_exec \<in> set (executions [EvObserve lane_pre, EvExecute lane_exec])" by simp
  then show ?thesis
    using executed_was_intended [OF plan_binding load run] run load plan_binding by (auto simp: plan_authority_def)
qed

section \<open>Reconciliation\<close>

text \<open>Property C22. A bound reconciliation is accepted: when a draft of a lost operation binds to the
  reconciliation claim of a transaction that the control plane returned, the guard of the claim's lane
  accepts its plan and request, the observation fits into the lease, and the request names the
  transaction's last, unresolved operation, under an epoch older than the claim's. The guard's
  configuration has to be valid, of the claim's station and lane, of the draft's power control mode and
  with a safety margin within the one of the binding; the claim's identifier is one that the control
  plane's generator makes, and the binding's clock is past the zero time. The binding itself checks
  neither the form of the identifier nor the year of the expiry, as the guard does.\<close>

theorem reconciliation_accepted:
  assumes build: "BuildDraft sha input = Inr draft" and bind: "BindReconciliation sha draft authority = Inr bound"
    and len: "\<forall>m. length (sha m) = 32"
    and read: "GetTransaction service tid = Inr (ay_Transaction authority)" "0 < ay_Now authority"
    and claim: "tx_ActiveClaim (ay_Transaction authority) = Some claim" "randomID ''claim'' (Some bytes) = Some (cl_ID claim)"
      "length bytes = 16"
    and config: "Config_Validate config = None" "cf_PowerControlMode config = pl_PowerControlMode (dr_plan draft)"
      "cf_StationID config = cl_StationID claim" "cf_LaneID config = cl_LaneID claim"
      "cf_LeaseSafetyMargin config \<le> ay_LeaseSafetyMargin authority"
  shows "\<exists>plan request. Reconciliation bound = Inr (plan, request) \<and> ValidateReconcileRequest sha config plan request = None
    \<and> reconcile_lease_ok (ay_Now authority) request config
    \<and> (let ops = tx_Operations (ay_Transaction authority)
       in unat (pl_IntentSequence plan) = length ops \<and> op_Operation (last ops) = developmentOperations ! (length ops - 1)
          \<and> op_Status (last ops) \<in> {OperationIntentRecorded, OperationUncertain}
          \<and> op_IntentFenceEpoch (last ops) = pl_FenceEpoch plan \<and> pl_FenceEpoch plan < cl_FenceEpoch claim)"
proof -
  obtain c target original intent i where v: "validateDraft sha draft = None"
    and r: "reconciles sha (dr_plan draft) authority c target original intent i"
    and plan: "br_plan bound = bind_plan (dr_plan draft) (op_Approval intent) authority (pl_Operations (dr_plan draft) ! i)"
    and request: "br_request bound = reconciliation_request (br_plan bound) (pl_Operations (dr_plan draft) ! i)
      (ay_Transaction authority) original c"
    using bind by (rule BindReconciliation_Inr)
  note f = reconciles_facts [OF r] and d = validateDraft_None [OF v]
  have c: "c = claim" using f(4) claim(1) by simp
  have id: "identifierPattern (cl_ID claim)" using randomID_identifier [OF claim(2,3)] .
  have year: "year_ok (cl_ExpiresAt claim)" using fetched_claim_year [OF read(1) claim(1)] f(15) read(2) c by simp
  have i: "i < 7" using f(5) d(1) by simp
  have ops: "length (tx_Operations (ay_Transaction authority)) = i + 1"
    using f(11,12) by (cases "tx_Operations (ay_Transaction authority)") auto
  have receipt: "rc_ReceiptID (ay_IntentReceipt authority) \<noteq> []" using f(7) by (auto simp: validDigest_def)
  note n = sequence_number [OF i]
  have valid: "Plan_validate sha (br_plan bound) config False = None"
    unfolding plan bind_plan_authority d(2) [OF i]
    by (rule draft_accepted [OF build len config(1,2)]) (use f(6) receipt n i in auto)
  have seq: "pl_IntentSequence (br_plan bound) = of_nat (i + 1)" and same: "pl_Operations (br_plan bound) = pl_Operations (dr_plan draft)"
    and epoch: "pl_FenceEpoch (br_plan bound) = pl_FenceEpoch (dr_plan draft)"
    and fields: "pl_TransactionID (br_plan bound) = pl_TransactionID (dr_plan draft)"
      "pl_TargetFingerprint (br_plan bound) = pl_TargetFingerprint (dr_plan draft)"
    using d(2) [OF i] by (simp_all add: plan bind_plan_def)
  have matched: "matchPlanRequest (br_plan bound) (rq_OriginalRequest (br_request bound)) = Inr (pl_Operations (dr_plan draft) ! i)"
    using request_of_matches [OF valid i seq] by (simp add: request reconciliation_request_def same)
  have "\<not> cl_FenceEpoch claim \<le> pl_FenceEpoch (dr_plan draft)" using f(2) c by simp
  moreover have "canonicalApprovalExpiry (cl_ExpiresAt claim) = Inr (format_time (utc (cl_ExpiresAt claim)))"
    using year by (simp add: canonicalApprovalExpiry_Inr)
  ultimately have "match_ReconcileRequest config (br_plan bound) (br_request bound) = Inr (pl_Operations (dr_plan draft) ! i)"
    using matched id year config(3,4) f(1)
    by (simp add: match_ReconcileRequest_def Let_def request reconciliation_request_def c epoch fields year_ok_def)
  then have accepted: "ValidateReconcileRequest sha config (br_plan bound) (br_request bound) = None"
    using valid by (simp add: ValidateReconcileRequest_def ValidateReconciliationPlan_def)
  have "0 \<le> cf_LeaseSafetyMargin config" using config(1) by (auto simp: Config_Validate_def)
  then have lease: "reconcile_lease_ok (ay_Now authority) (br_request bound) config"
    using f(8) config(5) by (auto simp: reconcile_lease_ok_def lease_exact request reconciliation_request_def c)
  have "pl_PlanDigest (br_plan bound) \<noteq> []"
    using Plan_validate_None [OF valid] by (auto simp: digestPattern_validDigest validDigest_def)
  then have got: "Reconciliation bound = Inr (br_plan bound, br_request bound)"
    by (simp add: Reconciliation_def request reconciliation_request_def)
  have "op_Operation (last (tx_Operations (ay_Transaction authority))) = developmentOperations ! i"
    using f(9,13) d(3) [OF i] by simp
  moreover have "op_Status (last (tx_Operations (ay_Transaction authority))) \<in> {OperationIntentRecorded, OperationUncertain}"
    using f(9,10) by (auto simp: unresolved_ok_def)
  ultimately show ?thesis
    using got accepted lease n(1) f(2,9,14) c by (intro exI conjI) (assumption | simp add: Let_def seq ops epoch)+
qed

theorem reconciliation_accepted_witness:
  "\<exists>bound plan request. BindReconciliation demo_hash plan_draft (plan_authority plan_transferred) = Inr bound
     \<and> Reconciliation bound = Inr (plan, request) \<and> ValidateReconcileRequest demo_hash lane_config plan request = None"
proof -
  obtain bound where bound: "BindReconciliation demo_hash plan_draft (plan_authority plan_transferred) = Inr bound"
    using plan_reconciliation by blast
  have claim: "tx_ActiveClaim (ay_Transaction (plan_authority plan_transferred)) = Some plan_claim2"
    by (simp add: plan_authority_def plan_transferred_def)
  have "randomID ''claim'' (Some (replicate 15 (char_of (0 :: nat)) @ [char_of (2 :: nat)])) = Some (cl_ID plan_claim2)"
    unfolding plan_claim2_def by code_simp
  note id = claim this
  let ?service = "first_service\<lparr>svc_state := initial_state\<lparr>ps_Transactions := [(''tx1'', plan_transferred)]\<rparr>\<rparr>"
  have "transaction_encodes plan_transaction" using demo_encodes(5) [of 0] by (simp add: plan_transaction_reached)
  then have "transaction_encodes plan_transferred"
    by (auto simp: plan_transferred_def transaction_encodes_def transaction_times_def claim_times_def plan_claim2_def
        plan_transaction_def plan_claim_def)
  then have read: "GetTransaction ?service ''tx1'' = Inr (ay_Transaction (plan_authority plan_transferred))"
    by (simp add: GetTransaction_def map_get_def cloneTransaction_def plan_authority_def)
  have now: "0 < ay_Now (plan_authority plan_transferred)" by (simp add: plan_authority_def lane_at_def lane_now_def second_def)
  have "cf_PowerControlMode lane_config = pl_PowerControlMode (dr_plan plan_draft)" "cf_StationID lane_config = cl_StationID plan_claim2"
    "cf_LaneID lane_config = cl_LaneID plan_claim2"
    "cf_LeaseSafetyMargin lane_config \<le> ay_LeaseSafetyMargin (plan_authority plan_transferred)"
    by (simp_all add: lane_config_def plan_claim2_def plan_claim_def plan_authority_def)
  then have "\<exists>plan request. Reconciliation bound = Inr (plan, request) \<and> ValidateReconcileRequest demo_hash lane_config plan request = None"
    using reconciliation_accepted [OF plan_drafted bound _ read now id _ lane_config_ok] demo_hash_length by fastforce
  then show ?thesis using bound by blast
qed

section \<open>Snapshots and receipts\<close>

text \<open>A draft is restored exactly: a snapshot is accepted if and only if its expiry is in UTC
  and it is, field by field, the plan of a draft that the compiler can build; and then that draft comes
  back.\<close>

theorem snapshot_exact:
  "DraftFromSnapshot sha utc_expiry snapshot = Inr draft \<longleftrightarrow>
     utc_expiry \<and> Snapshot draft = snapshot \<and> (\<exists>input. BuildDraft sha input = Inr draft)"
  by (simp add: DraftFromSnapshot_Inr Snapshot_def)

text \<open>The compiler's own reading of audit receipts is the service's: for a record of a reachable
  log that is not from the future, a receipt passes if and only if it is the one that the audit service
  issues for this record and carries the expected identifier.\<close>

theorem receipts_recognised_exactly:
  assumes "audit_reachable sha url s" and "record \<in> set (au_Records (as_state s))" and "length (au_Records (as_state s)) < 2 ^ 64"
    and "rd_RecordedAt record \<le> now" and "\<forall>m. length (sha m) = 32"
  shows "validateAuditReceipt sha receipt record expected now = None \<longleftrightarrow>
    receipt = receiptFor sha record \<and> expected = rc_ReceiptID receipt"
proof -
  obtain i where i: "i < length (au_Records (as_state s))" "record = au_Records (as_state s) ! i"
    using assms(2) by (metis in_set_conv_nth)
  have chain: "chain_ok sha url (au_Idempotency (as_state s)) (au_Records (as_state s))"
    using audit_ok [OF assms(1)] by (simp add: log_ok_def validateState_None)
  then have fits: "record_fits sha url (key_of (au_Idempotency (as_state s)) (of_nat (i + 1))) (previous_hash [] (au_Records (as_state s)) i) i record"
    using i by (simp add: chain_ok_def)
  have "unat (rd_Sequence record) \<noteq> 0" using chain_position [OF chain i(1) assms(3)] i(2) by simp
  then have "rd_Sequence record \<noteq> 0" by auto
  moreover have "validDigest (rd_EventHash record)"
    using fits validDigest_digestBytes [of sha "render (recordHashMaterial record)"] assms(5)
    by (simp add: record_fits_def digestJSON_def split: if_splits)
  ultimately show ?thesis
    using fits assms(4)
    by (auto simp: validateAuditReceipt_def record_fits_def receiptFor_def intro!: Receipt.equality split: if_splits)
qed

theorem receipts_recognised_exactly_witness:
  "\<exists>x. au_Records (as_state log_service) = [x]
     \<and> validateAuditReceipt log_hash (receiptFor log_hash x) x (rc_ReceiptID (receiptFor log_hash x)) (rd_RecordedAt x) = None"
proof -
  obtain x where x: "au_Records (as_state log_service) = [x]" using log_records by blast
  then show ?thesis
    using receipts_recognised_exactly [OF log_reachable, of x "rd_RecordedAt x" "receiptFor log_hash x"] log_hash_length by simp
qed

end
