(* ===== verification/Bridge_JSON.thy ===== *)
theory Bridge_JSON
  imports Plan_Authority
begin

text \<open>
  The JSON objects that the authority bridge compares and sends: a transaction of the control plane as
  \<^verbatim>\<open>json.Marshal\<close> writes it, and the plan and requests of the lane guard. Stored times are in UTC. A list
  that was never set and an empty list are not told apart.
\<close>

section \<open>Enumerations\<close>

fun TransactionStatus_string :: "TransactionStatus \<Rightarrow> string" where
  "TransactionStatus_string StatusCreated = ''created''"
| "TransactionStatus_string StatusClaimed = ''claimed''"
| "TransactionStatus_string StatusTargetBound = ''target_bound''"
| "TransactionStatus_string StatusCommitApproved = ''commit_approved''"
| "TransactionStatus_string StatusMutationInProgress = ''mutation_in_progress''"
| "TransactionStatus_string StatusReconciliationRequired = ''reconciliation_required''"
| "TransactionStatus_string StatusReconciled = ''reconciled''"
| "TransactionStatus_string StatusSecurityApplied = ''security_applied''"
| "TransactionStatus_string StatusAborted = ''aborted''"
| "TransactionStatus_string StatusQuarantined = ''quarantined''"
| "TransactionStatus_string (StatusOther s) = s"

fun ClaimStatus_string :: "ClaimStatus \<Rightarrow> string" where
  "ClaimStatus_string ClaimActive = ''active''"
| "ClaimStatus_string ClaimReleased = ''released''"
| "ClaimStatus_string ClaimTransferred = ''transferred''"
| "ClaimStatus_string ClaimExpired = ''expired''"
| "ClaimStatus_string (ClaimStatusOther s) = s"

fun OperationStatus_string :: "OperationStatus \<Rightarrow> string" where
  "OperationStatus_string OperationIntentRecorded = ''intent_recorded''"
| "OperationStatus_string OperationSucceeded = ''succeeded''"
| "OperationStatus_string OperationFailed = ''failed''"
| "OperationStatus_string OperationUncertain = ''uncertain''"
| "OperationStatus_string OperationConfirmedApplied = ''confirmed_applied''"
| "OperationStatus_string OperationConfirmedNotApplied = ''confirmed_not_applied''"
| "OperationStatus_string (OperationStatusOther s) = s"

section \<open>Transactions\<close>

definition jinstant :: "instant \<Rightarrow> json" where
  "jinstant t = JTime (utc t)"

definition omit_none :: "string \<Rightarrow> ('a \<Rightarrow> json) \<Rightarrow> 'a option \<Rightarrow> (string \<times> json) list" where
  "omit_none key f v = (case v of None \<Rightarrow> [] | Some x \<Rightarrow> [(key, f x)])"

definition json_of_TargetBinding :: "TargetBinding \<Rightarrow> json" where
  "json_of_TargetBinding t = JObj
     [(''fingerprint'', JStr (tb_Fingerprint t)), (''observation_digest'', JStr (tb_ObservationDigest t)),
      (''customer_key_hash'', JStr (tb_CustomerKeyHash t)), (''bound_at'', jinstant (tb_BoundAt t)),
      (''fence_epoch'', juint64 (tb_FenceEpoch t))]"

definition json_of_Claim :: "Claim \<Rightarrow> json" where
  "json_of_Claim c = JObj (
     [(''id'', JStr (cl_ID c)), (''mode'', JStr (ClaimMode_string (cl_Mode c))),
      (''status'', JStr (ClaimStatus_string (cl_Status c))), (''station_id'', JStr (cl_StationID c)),
      (''lane_id'', JStr (cl_LaneID c)), (''asset_id'', JStr (cl_AssetID c)),
      (''fence_epoch'', juint64 (cl_FenceEpoch c)), (''allowed_stages'', jstrings (cl_AllowedStages c)),
      (''acquired_at'', jinstant (cl_AcquiredAt c)), (''expires_at'', jinstant (cl_ExpiresAt c))]
     @ omit_none ''closed_at'' jinstant (cl_ClosedAt c))"

definition json_of_Approval :: "Approval \<Rightarrow> json" where
  "json_of_Approval a = JObj
     [(''id'', JStr (ap_ID a)), (''approver_id'', JStr (ap_ApproverID a)),
      (''transaction_digest'', JStr (ap_TransactionDigest a)), (''plan_digest'', JStr (ap_PlanDigest a)),
      (''station_id'', JStr (ap_StationID a)), (''lane_id'', JStr (ap_LaneID a)),
      (''fence_epoch'', juint64 (ap_FenceEpoch a)), (''target_fingerprint'', JStr (ap_TargetFingerprint a)),
      (''release'', json_of_Binding (ap_Release a)), (''allowed_operations'', jstrings (ap_AllowedOperations a)),
      (''audit_receipt_id'', JStr (ap_AuditReceiptID a)), (''approved_at'', jinstant (ap_ApprovedAt a)),
      (''expires_at'', jinstant (ap_ExpiresAt a))]"

definition json_of_OperationRecord :: "OperationRecord \<Rightarrow> json" where
  "json_of_OperationRecord r = JObj (
     [(''id'', JStr (op_ID r)), (''operation'', JStr (op_Operation r)),
      (''status'', JStr (OperationStatus_string (op_Status r))), (''plan_digest'', JStr (op_PlanDigest r)),
      (''release'', json_of_Binding (op_Release r)), (''approval_expires_at'', jinstant (op_ApprovalExpiresAt r)),
      (''approval'', json_of_Approval (op_Approval r)), (''input_digest'', JStr (op_InputDigest r)),
      (''prestate_digest'', JStr (op_PrestateDigest r)),
      (''intent_audit_receipt_id'', JStr (op_IntentAuditReceiptID r)), (''intent_at'', jinstant (op_IntentAt r)),
      (''intent_fence_epoch'', juint64 (op_IntentFenceEpoch r))]
     @ omit_empty ''output_digest'' (op_OutputDigest r) @ omit_empty ''observation_digest'' (op_ObservationDigest r)
     @ omit_empty ''evidence_audit_receipt_id'' (op_EvidenceAuditReceiptID r)
     @ omit_none ''evidence_at'' jinstant (op_EvidenceAt r)
     @ omit_empty ''reconciliation_audit_receipt_id'' (op_ReconciliationAuditReceiptID r))"

definition json_of_QuarantineRecord :: "QuarantineRecord \<Rightarrow> json" where
  "json_of_QuarantineRecord q = JObj
     [(''reason_code'', JStr (qr_ReasonCode q)), (''observation_digest'', JStr (qr_ObservationDigest q)),
      (''audit_receipt_id'', JStr (qr_AuditReceiptID q)), (''fence_epoch'', juint64 (qr_FenceEpoch q)),
      (''recorded_at'', jinstant (qr_RecordedAt q))]"

definition json_of_SecurityAppliedRecord :: "SecurityAppliedRecord \<Rightarrow> json" where
  "json_of_SecurityAppliedRecord s = JObj
     [(''evidence_digest'', JStr (sa_EvidenceDigest s)), (''audit_receipt_id'', JStr (sa_AuditReceiptID s)),
      (''rollback_status'', JStr (sa_RollbackStatus s)),
      (''release_classification'', JStr (sa_ReleaseClassification s)), (''recorded_at'', jinstant (sa_RecordedAt s))]"

definition json_of_AbortRecord :: "AbortRecord \<Rightarrow> json" where
  "json_of_AbortRecord a = JObj
     [(''reusable_baseline_digest'', JStr (ab_ReusableBaselineDigest a)),
      (''audit_receipt_id'', JStr (ab_AuditReceiptID a)), (''recorded_at'', jinstant (ab_RecordedAt a))]"

definition json_of_Transaction :: "Transaction \<Rightarrow> json" where
  "json_of_Transaction t = JObj (
     [(''schema_version'', JStr (tx_SchemaVersion t)), (''id'', JStr (tx_ID t)),
      (''resource_version'', juint64 (tx_ResourceVersion t)),
      (''status'', JStr (TransactionStatus_string (tx_Status t))), (''asset_id'', JStr (tx_AssetID t)),
      (''intended_logical_id'', JStr (tx_IntendedLogicalID t)), (''profile_id'', JStr (tx_ProfileID t)),
      (''bundle_digest'', JStr (tx_BundleDigest t)), (''policy_digest'', JStr (tx_PolicyDigest t)),
      (''expected_prestate_customer_key_hash'', JStr (tx_ExpectedPrestateCustomerKeyHash t)),
      (''expected_customer_key_hash'', JStr (tx_ExpectedCustomerKeyHash t)),
      (''transaction_digest'', JStr (tx_TransactionDigest t)), (''fence_epoch'', juint64 (tx_FenceEpoch t))]
     @ omit_none ''active_claim'' json_of_Claim (tx_ActiveClaim t)
     @ [(''claim_history'', JList (map json_of_Claim (tx_ClaimHistory t)))]
     @ omit_none ''target'' json_of_TargetBinding (tx_Target t)
     @ omit_none ''approval'' json_of_Approval (tx_Approval t)
     @ [(''operations'', JList (map json_of_OperationRecord (tx_Operations t)))]
     @ omit_none ''quarantine'' json_of_QuarantineRecord (tx_Quarantine t)
     @ omit_none ''security_applied'' json_of_SecurityAppliedRecord (tx_SecurityApplied t)
     @ omit_none ''abort'' json_of_AbortRecord (tx_Abort t)
     @ [(''created_at'', jinstant (tx_CreatedAt t)), (''updated_at'', jinstant (tx_UpdatedAt t))])"

text \<open>\<^verbatim>\<open>json.Marshal\<close>: \<open>None\<close> when a time cannot be written.\<close>

definition json_Marshal :: "json \<Rightarrow> string option" where
  "json_Marshal value = (if marshals value then Some (render value) else None)"

section \<open>Plans and requests\<close>

definition json_of_OperationSpec :: "OperationSpec \<Rightarrow> json" where
  "json_of_OperationSpec spec = JObj
     [(''sequence'', juint32 (os_Sequence spec)), (''operation'', JStr (os_Operation spec)),
      (''classification'', JStr (os_Classification spec)), (''required_boot_mode'', JStr (os_RequiredBootMode spec)),
      (''operation_digest'', JStr (os_OperationDigest spec)), (''authorization_id'', JStr (os_AuthorizationID spec)),
      (''expected_prestate'', json_of_DirectState (os_ExpectedPrestate spec)),
      (''expected_poststate'', json_of_DirectState (os_ExpectedPoststate spec)),
      (''maximum_duration'', JInt (os_MaximumDuration spec))]"

definition json_of_Plan :: "gtime \<Rightarrow> Plan \<Rightarrow> json" where
  "json_of_Plan expiry p = JObj
     [(''schema_version'', JStr (pl_SchemaVersion p)), (''station_id'', JStr (pl_StationID p)),
      (''lane_id'', JStr (pl_LaneID p)), (''power_control_mode'', JStr (pl_PowerControlMode p)),
      (''transaction_id'', JStr (pl_TransactionID p)), (''plan_digest'', JStr (pl_PlanDigest p)),
      (''release'', json_of_Binding (pl_Release p)), (''target_fingerprint'', JStr (pl_TargetFingerprint p)),
      (''initial_observation_digest'', JStr (pl_InitialObservationDigest p)),
      (''fence_epoch'', juint64 (pl_FenceEpoch p)), (''approval_id'', JStr (pl_ApprovalID p)),
      (''approval_expires_at'', JTime expiry), (''intent_receipt'', JStr (pl_IntentReceipt p)),
      (''intent_sequence'', juint32 (pl_IntentSequence p)),
      (''operations'', JList (map json_of_OperationSpec (pl_Operations p)))]"

definition json_of_ExecuteRequest :: "ExecuteRequest \<Rightarrow> json" where
  "json_of_ExecuteRequest r = JObj
     [(''schema_version'', JStr (xr_SchemaVersion r)), (''station_id'', JStr (xr_StationID r)),
      (''lane_id'', JStr (xr_LaneID r)), (''transaction_id'', JStr (xr_TransactionID r)),
      (''plan_digest'', JStr (xr_PlanDigest r)), (''release'', json_of_Binding (xr_Release r)),
      (''target_fingerprint'', JStr (xr_TargetFingerprint r)),
      (''initial_observation_digest'', JStr (xr_InitialObservationDigest r)),
      (''fence_epoch'', juint64 (xr_FenceEpoch r)), (''approval_id'', JStr (xr_ApprovalID r)),
      (''approval_expires_at'', jinstant (xr_ApprovalExpiresAt r)), (''intent_receipt'', JStr (xr_IntentReceipt r)),
      (''sequence'', juint32 (xr_Sequence r)), (''operation_digest'', JStr (xr_OperationDigest r)),
      (''authorization_id'', JStr (xr_AuthorizationID r)), (''required_boot_mode'', JStr (xr_RequiredBootMode r)),
      (''expected_prestate'', json_of_DirectState (xr_ExpectedPrestate r)),
      (''claim_expires_at'', jinstant (xr_ClaimExpiresAt r))]"

definition json_of_ReconciliationClaim :: "ReconciliationClaim \<Rightarrow> json" where
  "json_of_ReconciliationClaim c = JObj
     [(''station_id'', JStr (rl_StationID c)), (''lane_id'', JStr (rl_LaneID c)),
      (''transaction_id'', JStr (ReconciliationClaim.rl_TransactionID c)),
      (''target_fingerprint'', JStr (rl_TargetFingerprint c)), (''claim_id'', JStr (ReconciliationClaim.rl_ClaimID c)),
      (''fence_epoch'', juint64 (ReconciliationClaim.rl_FenceEpoch c)), (''expires_at'', jinstant (rl_ExpiresAt c))]"

definition json_of_ReconcileRequest :: "ReconcileRequest \<Rightarrow> json" where
  "json_of_ReconcileRequest r = JObj
     [(''schema_version'', JStr (rq_SchemaVersion r)),
      (''original_request'', json_of_ExecuteRequest (rq_OriginalRequest r)),
      (''claim'', json_of_ReconciliationClaim (rq_Claim r))]"

end
