(* ===== verification/Bridge.thy ===== *)
theory Bridge
  imports Bridge_JSON
begin

text \<open>
  The authority bridge (\<^verbatim>\<open>authoritybridge/bridge.go\<close>): it restores an authority-free draft, reads the control
  plane, the audit log and the control plane again, asks the control plane to check the claim against
  its own clock, and gives the plan and the one request that the lane guard accepts. The readers are
  arguments: what each read returns, \<open>None\<close> for an error.
\<close>

section \<open>Data\<close>

definition BridgeRequestSchemaVersion :: string where
  "BridgeRequestSchemaVersion = ''provisioning.kaiba.network/authority-bridge-request/v1alpha4''"
definition BridgeResponseSchemaVersion :: string where
  "BridgeResponseSchemaVersion = ''provisioning.kaiba.network/authority-bridge-response/v1alpha4''"

text \<open>The classes of errors; \<open>BridgePanic\<close> is the panic of the plan compiler on a record that cannot be
  encoded.\<close>

datatype bridge_error =
    BridgeInvalidRequest | BridgeSource | BridgeChanged | BridgeRecordMissing | BridgeRecordDuplicate
  | BridgeRecordUnexpected | BridgeRejected | BridgePanic

datatype Mode = ModeExecute | ModeReconcile | ModeOther string

text \<open>The expiry of a snapshot also has a zone: its offset, and whether it is Go's UTC.\<close>

record BridgeRequest =
  bq_SchemaVersion :: string
  bq_Mode :: Mode
  bq_TransactionID :: string
  bq_DraftSnapshot :: Plan
  bq_offset :: int
  bq_utc :: bool

record BoundRequest =
  bn_Plan :: Plan
  bn_utc :: bool
  bn_ExecuteRequest :: "ExecuteRequest option"
  bn_ReconcileRequest :: "ReconcileRequest option"

text \<open>The first argument of \<open>cr_GetTransaction\<close> counts the reads of one binding.\<close>

record ControlReader =
  cr_GetTransaction :: "nat \<Rightarrow> string \<Rightarrow> Transaction option"
  cr_PreflightCurrentClaim :: "CurrentClaimPreflightRequest \<Rightarrow> Transaction option"

type_synonym AuditReader = "string \<Rightarrow> string list \<Rightarrow> Record list option"

record Binder =
  bi_Control :: "ControlReader option"
  bi_Audit :: "AuditReader option"
  bi_Now :: instant
  bi_LeaseSafetyMargin :: duration

section \<open>Requests and receipts\<close>

definition validateBridgeRequest :: "BridgeRequest \<Rightarrow> bridge_error option" where
  "validateBridgeRequest request =
     (if bq_SchemaVersion request \<noteq> BridgeRequestSchemaVersion \<or> bq_TransactionID request = []
         \<or> bq_TransactionID request \<noteq> pl_TransactionID (bq_DraftSnapshot request)
      then Some BridgeInvalidRequest
      else (case bq_Mode request of ModeExecute \<Rightarrow> None | ModeReconcile \<Rightarrow> None
            | ModeOther _ \<Rightarrow> Some BridgeInvalidRequest))"

definition authorityReceiptIDs :: "Transaction \<Rightarrow> Mode \<Rightarrow> bridge_error + string list" where
  "authorityReceiptIDs transaction mode =
     (if length (tx_Operations transaction) = 0 then Inl BridgeRecordMissing
      else let operation = tx_Operations transaction ! (length (tx_Operations transaction) - 1) in
        if op_IntentAuditReceiptID operation = [] then Inl BridgeRecordMissing
        else let approvalReceiptID =
               (case mode of
                  ModeExecute \<Rightarrow> (case tx_Approval transaction of None \<Rightarrow> [] | Some approval \<Rightarrow> ap_AuditReceiptID approval)
                | ModeReconcile \<Rightarrow> ap_AuditReceiptID (op_Approval operation)
                | ModeOther _ \<Rightarrow> [])
             in if approvalReceiptID = [] then Inl BridgeRecordMissing
                else Inr [approvalReceiptID, op_IntentAuditReceiptID operation])"

definition receiptFromRecord :: "hash \<Rightarrow> Record \<Rightarrow> Receipt" where
  "receiptFromRecord sha256 record =
     \<lparr>rc_SchemaVersion = ReceiptSchemaVersion,
      rc_ReceiptID = ''sha256:'' @ hex_encode (sha256 (''kaiba-audit-receipt'' @ [char_of (0 :: nat)] @ rd_EventHash record)),
      rc_Sequence = rd_Sequence record, rc_PreviousEventHash = rd_PreviousEventHash record,
      rc_EventHash = rd_EventHash record, rc_RecordedAt = rd_RecordedAt record\<rparr>"

definition selectUniqueRecord :: "hash \<Rightarrow> Record list \<Rightarrow> string \<Rightarrow> bridge_error + (Record \<times> Receipt)" where
  "selectUniqueRecord sha256 records receiptID =
     (case filter (\<lambda>record. rc_ReceiptID (receiptFromRecord sha256 record) = receiptID) records of
        [] \<Rightarrow> Inl BridgeRecordMissing
      | [selected] \<Rightarrow> Inr (selected, receiptFromRecord sha256 selected)
      | _ \<Rightarrow> Inl BridgeRecordDuplicate)"

section \<open>The preflight\<close>

text \<open>The loop of \<^verbatim>\<open>ceilDurationSeconds\<close>; a \<^verbatim>\<open>time.Duration\<close> has 63 bits and a sign.\<close>

fun duration_total :: "duration \<Rightarrow> duration list \<Rightarrow> duration option" where
  "duration_total sofar [] = Some sofar"
| "duration_total sofar (value # rest) =
     (if value < 0 \<or> value > 2 ^ 63 - 1 - sofar then None else duration_total (sofar + value) rest)"

definition ceilDurationSeconds :: "duration list \<Rightarrow> uint32 option" where
  "ceilDurationSeconds values =
     (case duration_total 0 values of
        None \<Rightarrow> None
      | Some sofar \<Rightarrow>
          let seconds = (if sofar mod second \<noteq> 0 then sofar div second + 1 else sofar div second)
          in if seconds > 2 ^ 32 - 1 then None else Some (word_of_int seconds))"

definition execute_preflight ::
  "BridgeRequest \<Rightarrow> Transaction \<Rightarrow> duration \<Rightarrow> CurrentClaimPreflightRequest \<Rightarrow> bridge_error + CurrentClaimPreflightRequest" where
  "execute_preflight request transaction leaseSafetyMargin preflight =
     (case tx_Approval transaction of
        None \<Rightarrow> Inl BridgeRejected
      | Some approval \<Rightarrow>
          let operationIndex = int (length (tx_Operations transaction)) - 1 in
          if operationIndex < 0 \<or> operationIndex \<ge> int (length (pl_Operations (bq_DraftSnapshot request)))
          then Inl BridgeRejected
          else let record = tx_Operations transaction ! nat operationIndex;
                   operation = pl_Operations (bq_DraftSnapshot request) ! nat operationIndex in
            if op_Operation record \<noteq> os_Operation operation
               \<or> op_PlanDigest record \<noteq> pl_PlanDigest (bq_DraftSnapshot request)
            then Inl BridgeRejected
            else (case ceilDurationSeconds [os_MaximumDuration operation, leaseSafetyMargin] of
                    None \<Rightarrow> Inl BridgeRejected
                  | Some minimumClaim \<Rightarrow>
                      if minimumClaim = 0 then Inl BridgeRejected
                      else (case ceilDurationSeconds [leaseSafetyMargin] of
                              None \<Rightarrow> Inl BridgeRejected
                            | Some minimumApproval \<Rightarrow>
                                Inr (preflight\<lparr>cp_ApprovalID := ap_ID approval,
                                  cp_PlanDigest := pl_PlanDigest (bq_DraftSnapshot request),
                                  cp_MinimumClaimRemainingSeconds := minimumClaim,
                                  cp_MinimumApprovalRemainingSeconds :=
                                    (if minimumApproval = 0 then 1 else minimumApproval)\<rparr>))))"

definition reconcile_preflight ::
  "duration \<Rightarrow> CurrentClaimPreflightRequest \<Rightarrow> bridge_error + CurrentClaimPreflightRequest" where
  "reconcile_preflight leaseSafetyMargin preflight =
     (case ceilDurationSeconds [ReconciliationObservationBudget, leaseSafetyMargin] of
        None \<Rightarrow> Inl BridgeRejected
      | Some minimumClaim \<Rightarrow>
          if minimumClaim = 0 then Inl BridgeRejected
          else Inr (preflight\<lparr>cp_MinimumClaimRemainingSeconds := minimumClaim\<rparr>))"

definition currentClaimPreflightRequest ::
  "BridgeRequest \<Rightarrow> Transaction \<Rightarrow> duration \<Rightarrow> bridge_error + CurrentClaimPreflightRequest" where
  "currentClaimPreflightRequest request transaction leaseSafetyMargin =
     (case tx_ActiveClaim transaction of
        None \<Rightarrow> Inl BridgeRejected
      | Some claim \<Rightarrow>
          if leaseSafetyMargin < 0 then Inl BridgeRejected
          else let preflight =
                 \<lparr>cp_SchemaVersion = CurrentClaimPreflightRequestSchemaVersion,
                  cp_MutationContext =
                    \<lparr>mc_TransactionID = tx_ID transaction, mc_ExpectedResourceVersion = tx_ResourceVersion transaction,
                     mc_ClaimID = cl_ID claim, mc_FenceEpoch = tx_FenceEpoch transaction\<rparr>,
                  cp_ApprovalID = [], cp_PlanDigest = [], cp_MinimumClaimRemainingSeconds = 0,
                  cp_MinimumApprovalRemainingSeconds = 0\<rparr>
               in (case bq_Mode request of
                     ModeExecute \<Rightarrow> execute_preflight request transaction leaseSafetyMargin preflight
                   | ModeReconcile \<Rightarrow> reconcile_preflight leaseSafetyMargin preflight
                   | ModeOther _ \<Rightarrow> Inl BridgeInvalidRequest))"

section \<open>The bound request\<close>

definition validationConfig :: "string \<Rightarrow> string \<Rightarrow> PowerControlMode \<Rightarrow> Config" where
  "validationConfig stationID laneID powerControlMode =
     \<lparr>cf_SchemaVersion = ContractSchemaVersion, cf_StationID = stationID, cf_LaneID = laneID,
      cf_PowerControlMode = powerControlMode,
      cf_RPIBootSysfsPath = ''/sys/bus/usb/devices/authority-bridge-validation'',
      cf_UARTPath = ''/dev/serial/by-id/authority-bridge-validation'',
      cf_PowerGPIO = \<lparr>gp_ChipPath = ''/dev/gpiochip0'', gp_Offset = 0, gp_ActiveLow = False\<rparr>,
      cf_LeaseSafetyMargin = 0\<rparr>"

definition authorityFree :: "Plan \<Rightarrow> Plan" where
  "authorityFree plan = plan\<lparr>pl_ApprovalID := [], pl_IntentReceipt := [], pl_IntentSequence := 0\<rparr>"

definition validateBoundRequest :: "hash \<Rightarrow> BoundRequest \<Rightarrow> BridgeRequest \<Rightarrow> bool" where
  "validateBoundRequest sha256 binding source =
     (let plan = bn_Plan binding in
      \<not> (pl_TransactionID plan \<noteq> bq_TransactionID source
          \<or> pl_PlanDigest plan \<noteq> pl_PlanDigest (bq_DraftSnapshot source))
      \<and> (case DraftFromSnapshot sha256 (bn_utc binding) (authorityFree plan) of Inl _ \<Rightarrow> False | Inr _ \<Rightarrow> True)
      \<and> (authorityFree plan = bq_DraftSnapshot source \<and> bn_utc binding = bq_utc source)
      \<and> (case bq_Mode source of
           ModeExecute \<Rightarrow>
             (case (bn_ExecuteRequest binding, bn_ReconcileRequest binding) of
                (Some request, None) \<Rightarrow>
                  xr_TransactionID request = bq_TransactionID source
                  \<and> ValidatePlanRequest sha256
                      (validationConfig (pl_StationID plan) (pl_LaneID plan) (pl_PowerControlMode plan)) plan request = None
              | _ \<Rightarrow> False)
         | ModeReconcile \<Rightarrow>
             (case (bn_ExecuteRequest binding, bn_ReconcileRequest binding) of
                (None, Some request) \<Rightarrow>
                  xr_TransactionID (rq_OriginalRequest request) = bq_TransactionID source
                  \<and> ValidateReconcileRequest sha256
                      (validationConfig (rl_StationID (rq_Claim request)) (rl_LaneID (rq_Claim request))
                        (pl_PowerControlMode plan)) plan request = None
              | _ \<Rightarrow> False)
         | ModeOther _ \<Rightarrow> False))"

section \<open>Bind\<close>

definition from_source :: "'a option \<Rightarrow> bridge_error + 'a" where
  "from_source value = (case value of None \<Rightarrow> Inl BridgeSource | Some x \<Rightarrow> Inr x)"

definition plan_rejected :: "plan_error + 'a \<Rightarrow> bridge_error + 'a" where
  "plan_rejected value =
     (case value of Inr x \<Rightarrow> Inr x | Inl err \<Rightarrow> Inl (if err = PlanPanic then BridgePanic else BridgeRejected))"

definition marshal_transaction :: "Transaction \<Rightarrow> string option" where
  "marshal_transaction t = json_Marshal (json_of_Transaction t)"

text \<open>The choice of the two records and the compilation of the bound request, after the reads.\<close>

definition bind_mode :: "hash \<Rightarrow> BridgeRequest \<Rightarrow> Draft \<Rightarrow> Authority \<Rightarrow> bridge_error + BoundRequest" where
  "bind_mode sha256 request draft authority =
     (case bq_Mode request of
        ModeExecute \<Rightarrow>
          bindE (plan_rejected (bindE (Bind sha256 draft authority) Execution)) (\<lambda>(plan, executeRequest).
            Inr \<lparr>bn_Plan = plan, bn_utc = True, bn_ExecuteRequest = Some executeRequest, bn_ReconcileRequest = None\<rparr>)
      | ModeReconcile \<Rightarrow>
          bindE (plan_rejected (bindE (BindReconciliation sha256 draft authority) Reconciliation)) (\<lambda>(plan, reconcileRequest).
            Inr \<lparr>bn_Plan = plan, bn_utc = True, bn_ExecuteRequest = None, bn_ReconcileRequest = Some reconcileRequest\<rparr>)
      | ModeOther _ \<Rightarrow> Inl BridgeRejected)"

definition bind_records ::
  "hash \<Rightarrow> Binder \<Rightarrow> BridgeRequest \<Rightarrow> Draft \<Rightarrow> Transaction \<Rightarrow> string list \<Rightarrow> Record list \<Rightarrow> bridge_error + BoundRequest" where
  "bind_records sha256 bridge request draft transaction receiptIDs records =
     bindE (selectUniqueRecord sha256 records (receiptIDs ! 0)) (\<lambda>(approvalRecord, approvalReceipt).
     bindE (selectUniqueRecord sha256 records (receiptIDs ! 1)) (\<lambda>(intentRecord, intentReceipt).
     if length records \<noteq> length receiptIDs then Inl BridgeRecordUnexpected
     else bindE (bind_mode sha256 request draft
            \<lparr>ay_Transaction = transaction, ay_ApprovalReceipt = approvalReceipt, ay_ApprovalRecord = approvalRecord,
             ay_IntentReceipt = intentReceipt, ay_IntentRecord = intentRecord, ay_Now = bi_Now bridge,
             ay_LeaseSafetyMargin = bi_LeaseSafetyMargin bridge\<rparr>) (\<lambda>result.
       if \<not> validateBoundRequest sha256 result request then Inl BridgeRejected else Inr result)))"

definition Binder_Bind :: "hash \<Rightarrow> Binder \<Rightarrow> BridgeRequest \<Rightarrow> bridge_error + BoundRequest" where
  "Binder_Bind sha256 bridge request =
     orFail (validateBridgeRequest request)
     (case (bi_Control bridge, bi_Audit bridge) of
        (Some control, Some audit) \<Rightarrow>
          if bi_LeaseSafetyMargin bridge < 0 then Inl BridgeSource
          else (case DraftFromSnapshot sha256 (bq_utc request) (bq_DraftSnapshot request) of
            Inl _ \<Rightarrow> Inl BridgeInvalidRequest
          | Inr draft \<Rightarrow>
              bindE (from_source (cr_GetTransaction control 0 (bq_TransactionID request))) (\<lambda>first.
              bindE (from_source (marshal_transaction first)) (\<lambda>firstSnapshot.
              bindE (authorityReceiptIDs first (bq_Mode request)) (\<lambda>receiptIDs.
              bindE (from_source (audit (bq_TransactionID request) receiptIDs)) (\<lambda>records.
              bindE (from_source (cr_GetTransaction control 1 (bq_TransactionID request))) (\<lambda>again.
              bindE (from_source (marshal_transaction again)) (\<lambda>secondSnapshot.
              if firstSnapshot \<noteq> secondSnapshot then Inl BridgeChanged
              else bindE (currentClaimPreflightRequest request again (bi_LeaseSafetyMargin bridge)) (\<lambda>preflightRequest.
              bindE (from_source (cr_PreflightCurrentClaim control preflightRequest)) (\<lambda>preflighted.
              bindE (from_source (marshal_transaction preflighted)) (\<lambda>preflightSnapshot.
              if secondSnapshot \<noteq> preflightSnapshot then Inl BridgeChanged
              else bind_records sha256 bridge request draft again receiptIDs records))))))))))
      | _ \<Rightarrow> Inl BridgeSource)"

end
