(* ===== verification/Bridge_Wire.thy ===== *)
theory Bridge_Wire
  imports Bridge StrictJSON
begin

text \<open>
  The wire of the authority bridge (\<^verbatim>\<open>authoritybridge/wire.go\<close>): one bounded request and one bounded response
  per Unix-socket connection, and the client, which checks the response against what it asked for. A
  connection is the bytes that arrive, \<open>None\<close> when reading fails. \<open>parse\<close>, \<open>into\<close> are the standard
  library's decoding, as for the services.
\<close>

section \<open>Data\<close>

definition maxWireRequestBytes :: nat where "maxWireRequestBytes = 2 ^ 20"
definition maxWireResponseBytes :: nat where "maxWireResponseBytes = 2 ^ 20"
definition responseStatusOK :: string where "responseStatusOK = ''ok''"
definition responseStatusError :: string where "responseStatusError = ''error''"
definition ErrorCodeInvalidRequest :: string where "ErrorCodeInvalidRequest = ''invalid_request''"
definition ErrorCodeAuthorityUnavailable :: string where "ErrorCodeAuthorityUnavailable = ''authority_unavailable''"
definition ErrorCodeAuthorityChanged :: string where "ErrorCodeAuthorityChanged = ''authority_changed''"
definition ErrorCodeAuthorityRecordMissing :: string where
  "ErrorCodeAuthorityRecordMissing = ''authority_record_missing''"
definition ErrorCodeAuthorityRecordDuplicate :: string where
  "ErrorCodeAuthorityRecordDuplicate = ''authority_record_duplicate''"
definition ErrorCodeAuthorityRejected :: string where "ErrorCodeAuthorityRejected = ''authority_rejected''"
definition ErrorCodeInternal :: string where "ErrorCodeInternal = ''internal''"

lemmas error_code_defs = ErrorCodeInvalidRequest_def ErrorCodeAuthorityUnavailable_def ErrorCodeAuthorityChanged_def
  ErrorCodeAuthorityRecordMissing_def ErrorCodeAuthorityRecordDuplicate_def ErrorCodeAuthorityRejected_def
  ErrorCodeInternal_def

text \<open>A response; the plan comes with its expiry's offset and whether it is in UTC.\<close>

record BridgeResponse =
  rp_SchemaVersion :: string
  rp_Status :: string
  rp_Plan :: "(Plan \<times> int \<times> bool) option"
  rp_ExecuteRequest :: "ExecuteRequest option"
  rp_ReconcileRequest :: "ReconcileRequest option"
  rp_ErrorCode :: string

definition plan_json :: "Plan \<times> int \<times> bool \<Rightarrow> json" where
  "plan_json p = (case p of (plan, offset, is_utc) \<Rightarrow>
     json_of_Plan \<lparr>gt_instant = pl_ApprovalExpiresAt plan, gt_offset = offset\<rparr> plan)"

definition json_of_BridgeResponse :: "BridgeResponse \<Rightarrow> json" where
  "json_of_BridgeResponse r = JObj (
     [(''schema_version'', JStr (rp_SchemaVersion r)), (''status'', JStr (rp_Status r))]
     @ omit_none ''plan'' plan_json (rp_Plan r)
     @ omit_none ''execute_request'' json_of_ExecuteRequest (rp_ExecuteRequest r)
     @ omit_none ''reconcile_request'' json_of_ReconcileRequest (rp_ReconcileRequest r)
     @ omit_empty ''error_code'' (rp_ErrorCode r))"

fun Mode_string :: "Mode \<Rightarrow> string" where
  "Mode_string ModeExecute = ''execute''"
| "Mode_string ModeReconcile = ''reconcile''"
| "Mode_string (ModeOther s) = s"

definition json_of_BridgeRequest :: "BridgeRequest \<Rightarrow> json" where
  "json_of_BridgeRequest r = JObj
     [(''schema_version'', JStr (bq_SchemaVersion r)), (''mode'', JStr (Mode_string (bq_Mode r))),
      (''transaction_id'', JStr (bq_TransactionID r)),
      (''draft_snapshot'', plan_json (bq_DraftSnapshot r, bq_offset r, bq_utc r))]"

section \<open>The server\<close>

text \<open>What the client of one connection sees: bytes, or the connection closed without any. A panic ends the
  process.\<close>

datatype wire_output = Wrote string | Silent | Panicked

definition errorResponse :: "string \<Rightarrow> BridgeResponse" where
  "errorResponse code = \<lparr>rp_SchemaVersion = BridgeResponseSchemaVersion, rp_Status = responseStatusError, rp_Plan = None,
     rp_ExecuteRequest = None, rp_ReconcileRequest = None, rp_ErrorCode = code\<rparr>"

fun errorCode :: "bridge_error \<Rightarrow> string" where
  "errorCode BridgeInvalidRequest = ErrorCodeInvalidRequest"
| "errorCode BridgeChanged = ErrorCodeAuthorityChanged"
| "errorCode BridgeRecordMissing = ErrorCodeAuthorityRecordMissing"
| "errorCode BridgeRecordDuplicate = ErrorCodeAuthorityRecordDuplicate"
| "errorCode BridgeSource = ErrorCodeAuthorityUnavailable"
| "errorCode BridgeRejected = ErrorCodeAuthorityRejected"
| "errorCode _ = ErrorCodeInternal"

definition writeResponse :: "BridgeResponse \<Rightarrow> wire_output" where
  "writeResponse response =
     (case json_Marshal (json_of_BridgeResponse response) of
        None \<Rightarrow> Silent
      | Some text \<Rightarrow>
          let encoded = text @ [char_of (10 :: nat)]
          in if length encoded > maxWireResponseBytes then Silent else Wrote encoded)"

definition success_response :: "BoundRequest \<Rightarrow> BridgeResponse" where
  "success_response binding =
     \<lparr>rp_SchemaVersion = BridgeResponseSchemaVersion, rp_Status = responseStatusOK,
      rp_Plan = Some (bn_Plan binding, 0, bn_utc binding), rp_ExecuteRequest = bn_ExecuteRequest binding,
      rp_ReconcileRequest = bn_ReconcileRequest binding, rp_ErrorCode = []\<rparr>"

definition handleConnection ::
  "hash \<Rightarrow> (string \<Rightarrow> jvalue option) \<Rightarrow> (jvalue \<Rightarrow> BridgeRequest option) \<Rightarrow> Binder \<Rightarrow> string option \<Rightarrow> wire_output" where
  "handleConnection sha256 parse into bridge connection =
     (case connection of
        None \<Rightarrow> writeResponse (errorResponse ErrorCodeInvalidRequest)
      | Some stream \<Rightarrow>
          let requestBytes = take (maxWireRequestBytes + 1) stream in
          if length requestBytes = 0 \<or> length requestBytes > maxWireRequestBytes
          then writeResponse (errorResponse ErrorCodeInvalidRequest)
          else (case DecodeStrict parse into requestBytes of
                  Inl _ \<Rightarrow> writeResponse (errorResponse ErrorCodeInvalidRequest)
                | Inr request \<Rightarrow>
                    (case Binder_Bind sha256 bridge request of
                       Inl err \<Rightarrow> if err = BridgePanic then Panicked else writeResponse (errorResponse (errorCode err))
                     | Inr binding \<Rightarrow> writeResponse (success_response binding))))"

section \<open>The client\<close>

text \<open>\<open>Denied\<close> is the \<^verbatim>\<open>BridgeError\<close> with its code; the other errors have no class.\<close>

datatype client_error = Denied string | ClientInvalidRequest | ClientFailed

definition knownErrorCode :: "string \<Rightarrow> bool" where
  "knownErrorCode code =
     (code \<in> {ErrorCodeInvalidRequest, ErrorCodeAuthorityUnavailable, ErrorCodeAuthorityChanged,
              ErrorCodeAuthorityRecordMissing, ErrorCodeAuthorityRecordDuplicate, ErrorCodeAuthorityRejected,
              ErrorCodeInternal})"

definition validateResponse :: "hash \<Rightarrow> BridgeResponse \<Rightarrow> BridgeRequest \<Rightarrow> client_error + BoundRequest" where
  "validateResponse sha256 response source =
     (if rp_SchemaVersion response \<noteq> BridgeResponseSchemaVersion then Inl ClientFailed
      else if rp_Status response = responseStatusError
      then (if rp_Plan response \<noteq> None \<or> rp_ExecuteRequest response \<noteq> None \<or> rp_ReconcileRequest response \<noteq> None
               \<or> \<not> knownErrorCode (rp_ErrorCode response)
            then Inl ClientFailed else Inl (Denied (rp_ErrorCode response)))
      else if rp_Status response = responseStatusOK
      then (case rp_Plan response of
              None \<Rightarrow> Inl ClientFailed
            | Some (plan, offset, is_utc) \<Rightarrow>
                if rp_ErrorCode response \<noteq> []
                   \<or> (rp_ExecuteRequest response = None) = (rp_ReconcileRequest response = None)
                then Inl ClientFailed
                else let binding = \<lparr>bn_Plan = plan, bn_utc = is_utc, bn_ExecuteRequest = rp_ExecuteRequest response,
                                   bn_ReconcileRequest = rp_ReconcileRequest response\<rparr>
                     in if \<not> validateBoundRequest sha256 binding source then Inl ClientFailed else Inr binding)
      else Inl ClientFailed)"

definition validateSocketPath :: "string \<Rightarrow> bool" where
  "validateSocketPath path =
     (\<not> (path = [] \<or> \<not> hasPrefix path ''/'' \<or> path_Clean path \<noteq> path \<or> length path > 100
         \<or> char_of (0 :: nat) \<in> set path))"

text \<open>\<open>exchange\<close> is the connection: the bytes the server answers to the bytes sent, \<open>None\<close> when connecting,
  sending or reading fails.\<close>

definition bridge_Request ::
  "hash \<Rightarrow> (string \<Rightarrow> jvalue option) \<Rightarrow> (jvalue \<Rightarrow> BridgeResponse option) \<Rightarrow> (string \<Rightarrow> string option)
     \<Rightarrow> string \<Rightarrow> BridgeRequest \<Rightarrow> client_error + BoundRequest" where
  "bridge_Request sha256 parse into exchange socketPath request =
     (if \<not> validateSocketPath socketPath then Inl ClientFailed
      else (case validateBridgeRequest request of
              Some _ \<Rightarrow> Inl ClientInvalidRequest
            | None \<Rightarrow>
                (case json_Marshal (json_of_BridgeRequest request) of
                   None \<Rightarrow> Inl ClientFailed
                 | Some encoded \<Rightarrow>
                     if length encoded = 0 \<or> length encoded > maxWireRequestBytes then Inl ClientInvalidRequest
                     else (case exchange encoded of
                             None \<Rightarrow> Inl ClientFailed
                           | Some stream \<Rightarrow>
                               let responseBytes = take (maxWireResponseBytes + 1) stream in
                               if length responseBytes = 0 \<or> length responseBytes > maxWireResponseBytes
                               then Inl ClientFailed
                               else (case DecodeStrict parse into responseBytes of
                                       Inl _ \<Rightarrow> Inl ClientFailed
                                     | Inr response \<Rightarrow> validateResponse sha256 response request)))))"

section \<open>The socket\<close>

text \<open>What \<^verbatim>\<open>os.Lstat\<close> tells of a path; \<open>None\<close> as owner when the system gives no \<^verbatim>\<open>Stat_t\<close>.\<close>

record socket_info =
  sk_symlink :: bool
  sk_dir :: bool
  sk_socket :: bool
  sk_perm :: uint32
  sk_owner :: "(uint32 \<times> uint32) option"

unbundle bit_operations_syntax

definition mode_Perm :: "uint32 \<Rightarrow> uint32" where
  "mode_Perm mode = mode AND 511"

definition validateSocketModes :: "uint32 \<Rightarrow> uint32 \<Rightarrow> bool" where
  "validateSocketModes directoryMode socketMode =
     (\<not> (directoryMode \<noteq> mode_Perm directoryMode \<or> socketMode \<noteq> mode_Perm socketMode)
      \<and> (directoryMode = 448 \<and> socketMode = 384 \<or> directoryMode = 488 \<and> socketMode = 432))"

definition validateSocketDirectory :: "socket_info option \<Rightarrow> uint32 \<Rightarrow> uint32 \<Rightarrow> uint32 \<Rightarrow> bool" where
  "validateSocketDirectory info ownerUID ownerGID expectedMode =
     (case info of
        None \<Rightarrow> False
      | Some i \<Rightarrow> \<not> (sk_symlink i \<or> \<not> sk_dir i \<or> sk_perm i \<noteq> expectedMode) \<and> sk_owner i = Some (ownerUID, ownerGID))"

definition validateCreatedSocket :: "socket_info option \<Rightarrow> uint32 \<Rightarrow> uint32 \<Rightarrow> uint32 \<Rightarrow> bool" where
  "validateCreatedSocket info ownerUID ownerGID expectedMode =
     (case info of
        None \<Rightarrow> False
      | Some i \<Rightarrow> \<not> (\<not> sk_socket i \<or> sk_perm i \<noteq> expectedMode) \<and> sk_owner i = Some (ownerUID, ownerGID))"

end
