(* ===== verification/Bridge_Facts.thy ===== *)
theory Bridge_Facts
  imports Bridge_Wire Plan_Binding Control_Calls Audit_HTTP
begin

text \<open>
  The bridge's checks in closed form, what the control plane's preflight establishes, and that the resource
  version of a transaction identifies its state, and how long a JSON text can be.
\<close>

section \<open>Durations\<close>

lemma duration_total_Some:
  "0 \<le> start \<Longrightarrow> duration_total start ds = Some t \<longleftrightarrow>
     (\<forall>v \<in> set ds. 0 \<le> v) \<and> t = start + sum_list ds \<and> (ds \<noteq> [] \<longrightarrow> t < 2 ^ 63)"
proof (induction ds arbitrary: start)
  case (Cons v vs)
  have nonneg: "\<forall>x \<in> set vs. 0 \<le> x \<Longrightarrow> 0 \<le> sum_list vs" by (auto intro: sum_list_nonneg)
  show ?case
  proof (cases "v < 0 \<or> v > 2 ^ 63 - 1 - start")
    case True
    then show ?thesis using nonneg by auto
  next
    case False
    then have "duration_total start (v # vs) = Some t \<longleftrightarrow>
        (\<forall>x \<in> set vs. 0 \<le> x) \<and> t = start + v + sum_list vs \<and> (vs \<noteq> [] \<longrightarrow> t < 2 ^ 63)"
      using Cons.IH [of "start + v"] Cons.prems by simp
    then show ?thesis using False by (cases vs) auto
  qed
qed auto

text \<open>\<open>n\<close> is the least number of seconds that covers \<open>d\<close>.\<close>

definition covers :: "int \<Rightarrow> duration \<Rightarrow> bool" where
  "covers n d \<longleftrightarrow> (n - 1) * second < d \<and> d \<le> n * second"

lemma covers_unique: "covers n d \<Longrightarrow> covers m d \<Longrightarrow> n = m"
proof -
  have pos: "0 < second" by (simp add: second_def)
  assume "covers n d" "covers m d"
  then have "(n - 1) * second < m * second" "(m - 1) * second < n * second" by (auto simp: covers_def)
  then have "n - 1 < m" "m - 1 < n" using mult_less_cancel_right_pos [OF pos] by blast+
  then show "n = m" by simp
qed

lemma ceil_covers: "covers n d \<longleftrightarrow> n = (if d mod second \<noteq> 0 then d div second + 1 else d div second)"
proof -
  have pos: "0 < second" by (simp add: second_def)
  have d: "d = d div second * second + d mod second" "0 \<le> d mod second" "d mod second < second"
    using pos by (simp_all only: div_mult_mod_eq pos_mod_sign pos_mod_bound)
  have "covers (if d mod second \<noteq> 0 then d div second + 1 else d div second) d"
  proof (cases "d mod second = 0")
    case True
    then show ?thesis using d(1) pos unfolding covers_def left_diff_distrib by simp
  next
    case False
    then have "(d div second + 1) * second = d div second * second + second" by (simp add: distrib_right)
    moreover have "d div second * second < d" "d \<le> d div second * second + second" using d False by linarith+
    ultimately show ?thesis using False by (simp add: covers_def)
  qed
  from covers_unique [OF _ this, of n] this show ?thesis by (intro iffI) (assumption | simp only:)+
qed

lemma uint_word_of_int_bound:
  fixes n :: uint32
  assumes "0 \<le> c"
  shows "uint n = c \<longleftrightarrow> c \<le> 2 ^ 32 - 1 \<and> word_of_int c = n"
proof
  assume c: "uint n = c"
  have "uint n < 2 ^ 32" using unsigned_less [of n] by simp
  then have "c \<le> 2 ^ 32 - 1" using c by linarith
  moreover have "word_of_int c = n" by (simp add: c [symmetric])
  ultimately show "c \<le> 2 ^ 32 - 1 \<and> word_of_int c = n" by blast
next
  assume a: "c \<le> 2 ^ 32 - 1 \<and> word_of_int c = n"
  then have "take_bit 32 c = c" using assms by (intro take_bit_int_eq_self) auto
  moreover have "uint (word_of_int c :: uint32) = take_bit 32 c" by (simp add: uint_word_of_int take_bit_eq_mod)
  ultimately show "uint n = c" using a by metis
qed

lemma ceilDurationSeconds_Some:
  assumes "ds \<noteq> []"
  shows "ceilDurationSeconds ds = Some n \<longleftrightarrow>
     (\<forall>v \<in> set ds. 0 \<le> v) \<and> sum_list ds < 2 ^ 63 \<and> covers (uint n) (sum_list ds)"
proof (cases "(\<forall>v \<in> set ds. 0 \<le> v) \<and> sum_list ds < 2 ^ 63")
  case False
  then have "duration_total 0 ds = None"
    using duration_total_Some [of 0 ds] assms by (cases "duration_total 0 ds") auto
  then show ?thesis using False by (auto simp: ceilDurationSeconds_def)
next
  case True
  let ?d = "sum_list ds"
  have d: "0 \<le> ?d" using True by (auto intro: sum_list_nonneg)
  define c where "c = (if ?d mod second \<noteq> 0 then ?d div second + 1 else ?d div second)"
  have c: "0 \<le> c" using d by (auto simp: c_def second_def pos_imp_zdiv_nonneg_iff)
  have "duration_total 0 ds = Some ?d" using duration_total_Some [of 0 ds ?d] True by simp
  then have "ceilDurationSeconds ds = (if c > 2 ^ 32 - 1 then None else Some (word_of_int c))"
    by (simp add: ceilDurationSeconds_def Let_def c_def)
  then show ?thesis
    using True ceil_covers [of "uint n" ?d] uint_word_of_int_bound [OF c, of n] by (auto simp: c_def [symmetric])
qed

lemma second_nonneg: "0 \<le> second" by (simp add: second_def)

lemma covers_least: "covers n d \<longleftrightarrow> d \<le> n * second \<and> (\<forall>m. d \<le> m * second \<longrightarrow> n \<le> m)"
proof -
  have pos: "0 < second" by (simp add: second_def)
  have "n \<le> m" if "covers n d" "d \<le> m * second" for m
  proof -
    have "(n - 1) * second < m * second" using that by (simp add: covers_def)
    then show ?thesis using mult_less_cancel_right_pos [OF pos] by fastforce
  qed
  moreover have "(n - 1) * second < d" if "\<forall>m. d \<le> m * second \<longrightarrow> n \<le> m"
    using that [rule_format, of "n - 1"] by force
  ultimately show ?thesis by (auto simp: covers_def)
qed

lemma ceilDurationSeconds_None:
  assumes "ds \<noteq> []"
  shows "ceilDurationSeconds ds = None \<longleftrightarrow>
     (\<exists>v \<in> set ds. v < 0) \<or> 2 ^ 63 \<le> sum_list ds \<or> (2 ^ 32 - 1) * second < sum_list ds"
proof (cases "(\<forall>v \<in> set ds. 0 \<le> v) \<and> sum_list ds < 2 ^ 63")
  case False
  then have "ceilDurationSeconds ds = None"
    using ceilDurationSeconds_Some [OF assms] by (cases "ceilDurationSeconds ds") blast+
  then show ?thesis using False by (auto simp: not_le not_less)
next
  case True
  let ?d = "sum_list ds"
  define c where "c = (if ?d mod second \<noteq> 0 then ?d div second + 1 else ?d div second)"
  have c: "covers c ?d" by (simp add: ceil_covers c_def)
  have d: "0 \<le> ?d" using True by (auto intro: sum_list_nonneg)
  have pos: "0 \<le> c" using d by (auto simp: c_def second_def pos_imp_zdiv_nonneg_iff)
  have "covers x ?d \<longleftrightarrow> x = c" for x using covers_unique c by blast
  then have some: "ceilDurationSeconds ds = Some n \<longleftrightarrow> uint n = c" for n
    using ceilDurationSeconds_Some [OF assms, of n] True by blast
  have "ceilDurationSeconds ds = None \<longleftrightarrow> (\<nexists>n. ceilDurationSeconds ds = Some n)" by (cases "ceilDurationSeconds ds") simp_all
  also have "\<dots> \<longleftrightarrow> \<not> c \<le> 2 ^ 32 - 1" using uint_word_of_int_bound [OF pos] some by blast
  also have "c \<le> 2 ^ 32 - 1 \<longleftrightarrow> ?d \<le> (2 ^ 32 - 1) * second"
  proof
    assume "c \<le> 2 ^ 32 - 1"
    then have "c * second \<le> (2 ^ 32 - 1) * second" by (rule mult_right_mono [OF _ second_nonneg])
    then show "?d \<le> (2 ^ 32 - 1) * second" using c unfolding covers_def by (blast intro: order_trans)
  qed (use covers_least [of c ?d] c in blast)
  finally show ?thesis using True unfolding not_le by (meson not_le)
qed

section \<open>Binding\<close>

lemma receiptFromRecord [simp]: "receiptFromRecord sha record = receiptFor sha record"
  by (simp add: receiptFromRecord_def receiptFor_def digestBytes_def digest_prefix_def)

lemma selectUniqueRecord_Inr:
  "selectUniqueRecord sha records receiptID = Inr (record, receipt) \<Longrightarrow>
     record \<in> set records \<and> receipt = receiptFor sha record \<and> rc_ReceiptID receipt = receiptID"
proof -
  let ?found = "filter (\<lambda>record. rc_ReceiptID (receiptFromRecord sha record) = receiptID) records"
  assume s: "selectUniqueRecord sha records receiptID = Inr (record, receipt)"
  then have found: "?found = [record]" and receipt: "receipt = receiptFor sha record"
    by (auto simp: selectUniqueRecord_def split: list.splits)
  have "record \<in> set ?found" unfolding found by simp
  then show ?thesis using receipt by simp
qed

lemma plan_rejected_Inr [simp]: "plan_rejected v = Inr x \<longleftrightarrow> v = Inr x"
  by (auto simp: plan_rejected_def split: sum.splits)

lemma from_source_Inr [simp]: "from_source v = Inr x \<longleftrightarrow> v = Some x"
  by (auto simp: from_source_def split: option.splits)

lemma authorityReceiptIDs_Inr:
  "authorityReceiptIDs t mode = Inr ids \<Longrightarrow>
     tx_Operations t \<noteq> [] \<and> length ids = 2 \<and> ids ! 1 = op_IntentAuditReceiptID (last (tx_Operations t))
     \<and> (mode = ModeExecute \<longrightarrow> (\<exists>approval. tx_Approval t = Some approval \<and> ids ! 0 = ap_AuditReceiptID approval))
     \<and> (mode = ModeReconcile \<longrightarrow> ids ! 0 = ap_AuditReceiptID (op_Approval (last (tx_Operations t))))"
  by (auto simp: authorityReceiptIDs_def Let_def last_conv_nth split: if_splits Mode.splits option.splits)

text \<open>What a binding is made of.\<close>

lemma Binder_Bind_Inr:
  assumes "Binder_Bind sha bridge request = Inr bound"
  obtains control audit draft t ids records authority where
    "validateBridgeRequest request = None" and "bi_Control bridge = Some control" and "bi_Audit bridge = Some audit"
    and "DraftFromSnapshot sha (bq_utc request) (bq_DraftSnapshot request) = Inr draft"
    and "cr_GetTransaction control 1 (bq_TransactionID request) = Some t"
    and "audit (bq_TransactionID request) ids = Some records"
    and "\<exists>preflight t'. currentClaimPreflightRequest request t (bi_LeaseSafetyMargin bridge) = Inr preflight
      \<and> cr_PreflightCurrentClaim control preflight = Some t'"
    and "ay_Transaction authority = t" and "ay_LeaseSafetyMargin authority = bi_LeaseSafetyMargin bridge"
    and "ay_ApprovalRecord authority \<in> set records" and "ay_IntentRecord authority \<in> set records"
    and "ay_ApprovalReceipt authority = receiptFor sha (ay_ApprovalRecord authority)"
    and "bind_mode sha request draft authority = Inr bound" and "validateBoundRequest sha bound request"
proof -
  obtain control audit draft t0 ids records t pre t' where r:
    "validateBridgeRequest request = None" "bi_Control bridge = Some control" "bi_Audit bridge = Some audit"
    "DraftFromSnapshot sha (bq_utc request) (bq_DraftSnapshot request) = Inr draft"
    "cr_GetTransaction control 1 (bq_TransactionID request) = Some t"
    "audit (bq_TransactionID request) ids = Some records"
    "currentClaimPreflightRequest request t (bi_LeaseSafetyMargin bridge) = Inr pre"
    "cr_PreflightCurrentClaim control pre = Some t'"
    "bind_records sha bridge request draft t ids records = Inr bound"
    using assms unfolding Binder_Bind_def by (auto split: option.splits sum.splits if_splits)
  obtain record1 receipt1 record2 receipt2 where s:
    "selectUniqueRecord sha records (ids ! 0) = Inr (record1, receipt1)"
    "selectUniqueRecord sha records (ids ! 1) = Inr (record2, receipt2)"
    "bind_mode sha request draft
       \<lparr>ay_Transaction = t, ay_ApprovalReceipt = receipt1, ay_ApprovalRecord = record1, ay_IntentReceipt = receipt2,
        ay_IntentRecord = record2, ay_Now = bi_Now bridge, ay_LeaseSafetyMargin = bi_LeaseSafetyMargin bridge\<rparr> = Inr bound"
    "validateBoundRequest sha bound request"
    using r(9) unfolding bind_records_def by (auto split: if_splits)
  show ?thesis
    by (rule that [OF r(1-6) _ _ _ _ _ _ s(3,4)])
      (use r(7,8) selectUniqueRecord_Inr [OF s(1)] selectUniqueRecord_Inr [OF s(2)] in auto)
qed

section \<open>The preflight\<close>

lemma PreflightCurrentClaim_Inr:
  assumes "PreflightCurrentClaim e q s = Inr t"
  obtains claim where "map_get (ps_Transactions (svc_state s)) (mc_TransactionID (cp_MutationContext q)) = Some t"
    and "tx_ResourceVersion t = mc_ExpectedResourceVersion (cp_MutationContext q)" and "tx_ActiveClaim t = Some claim"
    and "env_now e + seconds (cp_MinimumClaimRemainingSeconds q) \<le> cl_ExpiresAt claim" and "env_now e < cl_ExpiresAt claim"
    and "cp_ApprovalID q \<noteq> [] \<Longrightarrow> \<exists>approval. tx_Approval t = Some approval \<and> env_now e < ap_ExpiresAt approval
      \<and> env_now e + seconds (cp_MinimumApprovalRemainingSeconds q) \<le> ap_ExpiresAt approval"
proof -
  obtain t1 where t1: "map_get (ps_Transactions (svc_state s)) (mc_TransactionID (cp_MutationContext q)) = Some t1"
    "tx_ResourceVersion t1 = mc_ExpectedResourceVersion (cp_MutationContext q)"
    using assms by (auto simp: PreflightCurrentClaim_def Let_def split: option.splits if_splits)
  obtain claim where claim: "requireCurrentClaim t1 (mc_ClaimID (cp_MutationContext q)) (mc_FenceEpoch (cp_MutationContext q)) (env_now e) None
      = Inr claim"
    and lease: "\<not> (seconds (cp_MinimumClaimRemainingSeconds q) > 0
      \<and> cl_ExpiresAt claim - env_now e < seconds (cp_MinimumClaimRemainingSeconds q))"
    and rest: "(if cp_ApprovalID q \<noteq> []
        then bindE (requireCurrentApproval t1 claim (cp_ApprovalID q) (cp_PlanDigest q) (env_now e)) (\<lambda>a.
          if seconds (cp_MinimumApprovalRemainingSeconds q) > 0
             \<and> ap_ExpiresAt a - env_now e < seconds (cp_MinimumApprovalRemainingSeconds q) then Inl ErrIllegalTransition
          else cloneTransaction t1)
        else cloneTransaction t1) = Inr t"
    using assms t1 by (auto simp: PreflightCurrentClaim_def Let_def split: if_splits)
  have same: "t = t1" using rest by (auto dest: clone_id split: if_splits)
  show ?thesis
  proof (rule that [of claim])
    show "tx_ActiveClaim t = Some claim" "env_now e < cl_ExpiresAt claim"
      using claim same by (simp_all add: requireCurrentClaim_Inr)
    then show "env_now e + seconds (cp_MinimumClaimRemainingSeconds q) \<le> cl_ExpiresAt claim"
      using lease seconds_nonneg [of "cp_MinimumClaimRemainingSeconds q"] by linarith
    show "\<exists>approval. tx_Approval t = Some approval \<and> env_now e < ap_ExpiresAt approval
      \<and> env_now e + seconds (cp_MinimumApprovalRemainingSeconds q) \<le> ap_ExpiresAt approval" if ne: "cp_ApprovalID q \<noteq> []"
    proof -
      obtain a where a: "requireCurrentApproval t1 claim (cp_ApprovalID q) (cp_PlanDigest q) (env_now e) = Inr a"
        "\<not> (seconds (cp_MinimumApprovalRemainingSeconds q) > 0
          \<and> ap_ExpiresAt a - env_now e < seconds (cp_MinimumApprovalRemainingSeconds q))"
        using rest ne by (auto split: if_splits)
      then have "tx_Approval t1 = Some a" "env_now e < ap_ExpiresAt a" by (auto simp: requireCurrentApproval_Inr)
      then show ?thesis using a(2) same seconds_nonneg [of "cp_MinimumApprovalRemainingSeconds q"] by auto
    qed
  qed (use t1 same in simp_all)
qed

lemma execute_preflight_Inr:
  assumes "execute_preflight request t margin preflight = Inr q" and "0 \<le> margin"
  obtains approval where "tx_Approval t = Some approval" "cp_ApprovalID q = ap_ID approval"
    and "cp_MutationContext q = cp_MutationContext preflight" and "tx_Operations t \<noteq> []"
    and "0 \<le> os_MaximumDuration (pl_Operations (bq_DraftSnapshot request) ! (length (tx_Operations t) - 1))"
    and "os_MaximumDuration (pl_Operations (bq_DraftSnapshot request) ! (length (tx_Operations t) - 1)) + margin
      \<le> seconds (cp_MinimumClaimRemainingSeconds q)"
    and "margin \<le> seconds (cp_MinimumApprovalRemainingSeconds q)"
proof -
  let ?i = "length (tx_Operations t) - 1"
  let ?op = "pl_Operations (bq_DraftSnapshot request) ! ?i"
  have index: "nat (int (length (tx_Operations t)) - 1) = ?i" by linarith
  obtain approval n m where a: "tx_Approval t = Some approval" "tx_Operations t \<noteq> []"
    "ceilDurationSeconds [os_MaximumDuration ?op, margin] = Some n" "ceilDurationSeconds [margin] = Some m"
    "q = preflight\<lparr>cp_ApprovalID := ap_ID approval, cp_PlanDigest := pl_PlanDigest (bq_DraftSnapshot request),
        cp_MinimumClaimRemainingSeconds := n, cp_MinimumApprovalRemainingSeconds := (if m = 0 then 1 else m)\<rparr>"
    using assms(1) by (auto simp: execute_preflight_def Let_def index split: option.splits if_splits)
  note c = ceilDurationSeconds_Some [of "[os_MaximumDuration ?op, margin]" n] ceilDurationSeconds_Some [of "[margin]" m]
  have "margin \<le> seconds (if m = 0 then 1 else m)"
  proof (cases "m = 0")
    case True
    then have "margin \<le> 0" using c(2) a(4) by (simp add: covers_def)
    then show ?thesis using seconds_nonneg [of "if m = 0 then 1 else m"] by linarith
  next
    case False
    then show ?thesis using c(2) a(4) by (simp add: covers_def seconds_def)
  qed
  then show ?thesis
    using that [of approval] a c(1) by (simp add: covers_def seconds_def)
qed

section \<open>Versions\<close>

text \<open>Every change of a transaction increases its version.\<close>

definition version_order :: "Transaction \<Rightarrow> Transaction \<Rightarrow> bool" where
  "version_order t t' \<longleftrightarrow> t = t' \<or> tx_ResourceVersion t < tx_ResourceVersion t'"

interpretation versions: transaction_order sha version_order for sha
proof unfold_locales
  show "version_order t (bump now t')"
    if "cmd_handler e c now st t = Inr (st', t')" "validateTransaction sha (bump now t') (ps_FenceEpochs st') = None" for e c now st t st' t'
    using version_of_valid [OF that(2)] cmd_handler_frame(2) [OF that(1)] word_succ_gt [of "tx_ResourceVersion t"]
    by (simp add: version_order_def)
qed (auto simp: version_order_def)

section \<open>Texts\<close>

text \<open>How long a JSON text can be.\<close>

fun text_bound :: "json \<Rightarrow> nat" where
  "text_bound (JStr s) = 6 * length s + 2"
| "text_bound (JUInt n) = length (show_nat n)"
| "text_bound (JInt i) = 1 + length (show_nat (nat \<bar>i\<bar>))"
| "text_bound (JTime t) = length (format_time t) + 2"
| "text_bound (JList xs) = 2 + sum_list (map (\<lambda>x. text_bound x + 1) xs)"
| "text_bound (JObj ms) = 2 + sum_list (map (\<lambda>(k, v). 6 * length k + text_bound v + 4) ms)"

lemma escape_string_bound: "length (escape_string s) \<le> 6 * length s"
proof (induction s rule: escape_string.induct)
  case (2 c cs)
  have a: "length (escape_ascii c) \<le> 6" by (simp add: escape_ascii_def Let_def)
  have "length (take n cs) + 6 * length (drop n cs) \<le> 6 * length cs" for n by (cases "n \<le> length cs") auto
  note t = this [of "rune_width (c # cs) - 1"]
  show ?case using 2 a t by (auto simp: Let_def simp del: length_take length_drop)
qed simp

lemma quote_string_bound: "length (quote_string s) \<le> 6 * length s + 2"
  using escape_string_bound [of s] by (simp add: quote_string_def)

lemma render_bound:
  "length (render j) \<le> text_bound j"
  "length (render_elements xs) \<le> sum_list (map (\<lambda>x. text_bound x + 1) xs)"
  "length (render_members ms) \<le> sum_list (map (\<lambda>(k, v). 6 * length k + text_bound v + 4) ms)"
proof (induction j and xs and ms rule: render_render_elements_render_members.induct)
  case (1 s)
  then show ?case using quote_string_bound [of s] by simp
next
  case (11 k v)
  then show ?case using quote_string_bound [of k] by simp
next
  case (12 k v m ms)
  then show ?case using quote_string_bound [of k] by (simp split: prod.splits)
qed auto


lemma digits_bound: "0 < k \<Longrightarrow> n < 10 ^ k \<Longrightarrow> length (show_nat n) \<le> k"
proof (induction k arbitrary: n)
  case (Suc k)
  then show ?case by (cases k) (auto simp: show_nat.simps [of n] div_less_iff_less_mult intro!: Suc.IH)
qed simp

end
