(* ===== verification/Bridge_Demo.thy ===== *)
theory Bridge_Demo
  imports Bridge_Facts Plan_Properties
begin

text \<open>
  The bridge on the run of the control plane whose first operation is pending, and the sizes of the texts
  it exchanges there. It shows that the hypotheses of the bridge's properties can hold together.
\<close>

section \<open>The binding\<close>

text \<open>What a reader gives when the service answers.\<close>

definition fetched :: "'e + 'a \<Rightarrow> 'a option" where
  "fetched answer = (case answer of Inl err \<Rightarrow> None | Inr x \<Rightarrow> Some x)"

lemma fetched_Some [simp]: "fetched answer = Some x \<longleftrightarrow> answer = Inr x"
  by (simp add: fetched_def split: sum.splits)

text \<open>The run of the control plane whose first operation is pending, and a bridge that reads it and the two
  records of the audit log.\<close>

definition bridge_commands :: "command list" where
  "bridge_commands = demo_start @ demo_operations 0 @ [CmdIntent (demo_intent 0)]"

definition bridge_control :: ControlReader where
  "bridge_control = \<lparr>cr_GetTransaction = (\<lambda>n id. fetched (GetTransaction (demo_service bridge_commands) id)),
     cr_PreflightCurrentClaim = (\<lambda>q. fetched (PreflightCurrentClaim demo_env q (demo_service bridge_commands)))\<rparr>"

definition demo_bridge :: Binder where
  "demo_bridge = \<lparr>bi_Control = Some bridge_control, bi_Audit = Some (\<lambda>id ids. Some [plan_record1, plan_record2]),
     bi_Now = lane_at 0, bi_LeaseSafetyMargin = 10 * second\<rparr>"

definition bridge_request :: BridgeRequest where
  "bridge_request = \<lparr>bq_SchemaVersion = BridgeRequestSchemaVersion, bq_Mode = ModeExecute, bq_TransactionID = ''tx1'',
     bq_DraftSnapshot = dr_plan plan_draft, bq_offset = 0, bq_utc = True\<rparr>"

definition bridge_preflight :: CurrentClaimPreflightRequest where
  "bridge_preflight = \<lparr>cp_SchemaVersion = CurrentClaimPreflightRequestSchemaVersion,
     cp_MutationContext = demo_context 5, cp_ApprovalID = ''approval1'', cp_PlanDigest = demo_digest,
     cp_MinimumClaimRemainingSeconds = 610, cp_MinimumApprovalRemainingSeconds = 10\<rparr>"

lemma bridge_stored: "map_get (ps_Transactions (svc_state (demo_service bridge_commands))) ''tx1'' = Some plan_transaction"
  "transaction_encodes plan_transaction"
  using demo_at_reachable [OF demo_during [of 0]] demo_encodes(5) [of 0]
  by (simp_all add: bridge_commands_def plan_transaction_reached)

lemma bridge_preflight_made: "currentClaimPreflightRequest bridge_request plan_transaction (10 * second) = Inr bridge_preflight"
proof -
  have seconds: "ceilDurationSeconds [600 * second, 10 * second] = Some 610" "ceilDurationSeconds [10 * second] = Some 10"
    by (simp_all add: ceilDurationSeconds_Some covers_def second_def)
  show ?thesis
    by (simp add: currentClaimPreflightRequest_def execute_preflight_def bridge_request_def Let_def seconds lane_first_operation
        plan_transaction_def)
      (simp add: plan_intent_def plan_claim_def plan_approval_def bridge_preflight_def demo_context_def second_def lane_operation_def seconds
        developmentOperations_def)
qed

lemma bridge_reads: "cr_GetTransaction bridge_control n ''tx1'' = Some plan_transaction"
  "cr_PreflightCurrentClaim bridge_control bridge_preflight = Some plan_transaction"
proof -
  show "cr_GetTransaction bridge_control n ''tx1'' = Some plan_transaction"
    using bridge_stored by (simp add: bridge_control_def GetTransaction_def cloneTransaction_def)
  have valid: "validateCurrentClaimPreflightRequest bridge_preflight = None"
    by (simp add: validateCurrentClaimPreflightRequest_def bridge_preflight_def demo_request_checks)
  have claim: "requireCurrentClaim plan_transaction ''claim1'' 1 demo_now None = Inr plan_claim"
    "requireCurrentApproval plan_transaction plan_claim ''approval1'' demo_digest demo_now = Inr plan_approval"
    by (simp_all add: requireCurrentClaim_Inr requireCurrentApproval_Inr)
      (simp_all add: plan_transaction_def plan_claim_def plan_approval_def plan_target_def lane_release_def demo_now_def lane_at_def
        lane_now_def second_def)
  have version: "tx_ResourceVersion plan_transaction = 5" by (simp add: plan_transaction_def)
  have times: "cl_ExpiresAt plan_claim - demo_now = 3600 * second" "ap_ExpiresAt plan_approval - demo_now = 3600 * second"
    by (simp_all add: plan_claim_def plan_approval_def lane_at_def lane_now_def demo_now_def)
  show "cr_PreflightCurrentClaim bridge_control bridge_preflight = Some plan_transaction"
    using bridge_stored valid claim version times
    by (simp add: bridge_control_def PreflightCurrentClaim_def Let_def cloneTransaction_def demo_env_def)
      (simp add: bridge_preflight_def demo_context_def seconds_def second_def cloneTransaction_def)
qed

lemma bridge_marshals: "\<exists>written. marshal_transaction plan_transaction = Some written"
proof -
  have release: "marshals (json_of_Binding r)" for r by (simp add: json_of_Binding_def)
  have times: "time_marshals (utc (lane_at 0))" "time_marshals (utc (lane_at 3600))" by code_simp+
  have parts: "marshals (json_of_Claim plan_claim)" "marshals (json_of_TargetBinding plan_target)" "marshals (json_of_Approval plan_approval)"
    using release times
    by (simp_all add: json_of_Claim_def json_of_TargetBinding_def json_of_Approval_def plan_claim_def plan_target_def plan_approval_def
        jinstant_def juint64_def jstrings_def omit_none_def list_all_iff)
  have "marshals (json_of_OperationRecord plan_intent)"
    using release times parts(3)
    by (simp add: json_of_OperationRecord_def plan_intent_def jinstant_def juint64_def omit_none_def omit_empty_def list_all_iff)
  then have "marshals (json_of_Transaction plan_transaction)"
    using parts times
    by (simp add: json_of_Transaction_def plan_transaction_def jinstant_def juint64_def omit_none_def list_all_iff)
  then show ?thesis by (simp add: marshal_transaction_def json_Marshal_def)
qed

definition bridge_bound :: BoundRequest where
  "bridge_bound = \<lparr>bn_Plan = lane_plan, bn_utc = True,
     bn_ExecuteRequest = Some (request_of lane_plan (lane_operation 0) (lane_at 3600)), bn_ReconcileRequest = None\<rparr>"

lemma bridge_mode: "bind_mode demo_hash bridge_request plan_draft (plan_authority plan_transaction) = Inr bridge_bound"
proof -
  have "Execution plan_bound = Inr (lane_plan, request_of lane_plan (lane_operation 0) (lane_at 3600))"
    by (simp add: Execution_def BoundPlan_ExecuteRequest_def plan_bound_def seven)
  then show ?thesis
    by (simp add: bind_mode_def bridge_request_def plan_binding plan_rejected_def bridge_bound_def)
qed

lemma bridge_validates: "validateBoundRequest demo_hash bridge_bound bridge_request"
proof -
  let ?config = "validationConfig ''station1'' ''lane1'' PowerControlRelay"
  have free: "authorityFree lane_plan = dr_plan plan_draft" by (simp add: authorityFree_def plan_draft_def)
  have restored: "DraftFromSnapshot demo_hash True (dr_plan plan_draft) = Inr plan_draft"
    using plan_drafted by (auto simp: DraftFromSnapshot_Inr)
  have config: "Config_Validate ?config = None" by code_simp
  have fields: "cf_PowerControlMode ?config = pl_PowerControlMode (dr_plan plan_draft)"
    "cf_StationID ?config = pl_StationID (dr_plan plan_draft)" "cf_LaneID ?config = pl_LaneID (dr_plan plan_draft)"
    by (simp_all add: validationConfig_def)
  have valid: "Plan_Validate demo_hash lane_plan ?config = None"
    using bound_execution [OF plan_drafted plan_binding demo_hash_length config fields] by (simp add: plan_bound_def)
  have "ValidatePlanRequest demo_hash ?config lane_plan (request_of lane_plan (lane_operation 0) (lane_at 3600)) = None"
    using valid request_of_matches [OF valid [unfolded Plan_Validate_def], of 0 "lane_at 3600"]
    by (simp add: ValidatePlanRequest_def seven) 
  then show ?thesis
    using free restored by (simp add: validateBoundRequest_def bridge_bound_def bridge_request_def request_of_def)
qed

lemma bridge_binds: "Binder_Bind demo_hash demo_bridge bridge_request = Inr bridge_bound"
proof -
  obtain written where written: "marshal_transaction plan_transaction = Some written" using bridge_marshals by blast
  have fields: "bq_SchemaVersion bridge_request = BridgeRequestSchemaVersion" "bq_Mode bridge_request = ModeExecute"
    "bq_TransactionID bridge_request = ''tx1''" "bq_DraftSnapshot bridge_request = dr_plan plan_draft" "bq_utc bridge_request"
    by (simp_all add: bridge_request_def)
  have ids: "authorityReceiptIDs plan_transaction ModeExecute = Inr [demo_digest, demo_receipt]"
    by (simp add: authorityReceiptIDs_def plan_transaction_def plan_intent_def plan_approval_def)
  have records: "bind_records demo_hash demo_bridge bridge_request plan_draft plan_transaction [demo_digest, demo_receipt]
      [plan_record1, plan_record2] = Inr bridge_bound"
    using bridge_mode bridge_validates
    by (simp add: bind_records_def selectUniqueRecord_def plan_receipts demo_bridge_def plan_authority_def)
  have restored: "DraftFromSnapshot demo_hash True (dr_plan plan_draft) = Inr plan_draft"
    using plan_drafted by (auto simp: DraftFromSnapshot_Inr)
  have "bi_Control demo_bridge = Some bridge_control" "bi_LeaseSafetyMargin demo_bridge = 10 * second"
    "bi_Audit demo_bridge = Some (\<lambda>id ids. Some [plan_record1, plan_record2])" "\<not> 10 * second < 0"
    by (simp_all add: demo_bridge_def second_def)
  then show ?thesis
    using written fields ids records restored bridge_reads bridge_preflight_made
    by (simp add: Binder_Bind_def validateBridgeRequest_def from_source_def)
qed

section \<open>The texts\<close>

lemma demo_lengths: "length demo_digest = 71" "length demo_receipt = 71" "length unownedCustomerKeyHash = 71"
  "length (format_time (utc (lane_at 3600))) = 20" "length ContractSchemaVersion \<le> 100" "length PowerControlRelay \<le> 10" "length BootModeRPIBoot \<le> 20"
  by code_simp+

lemma demo_json_bounds: "text_bound (json_of_Binding lane_release) \<le> 5000" "text_bound (json_of_DirectState lane_fresh) \<le> 2000"
  "text_bound (json_of_DirectState (commitAttestedState lane_body)) \<le> 2000" 
  "text_bound (json_of_DirectState (observedOwnedState lane_body)) \<le> 2000"
  by (simp_all add: json_of_Binding_def json_of_DirectState_def lane_release_def lane_fresh_def commitAttestedState_def
      observedOwnedState_def lane_body_def eeprom_status_defs demo_lengths)

lemma demo_operation_bound: "i < 7 \<Longrightarrow> text_bound (json_of_OperationSpec (lane_operation i)) \<le> 8000"
proof -
  have want: "text_bound (json_of_DirectState (fst (want_states lane_body lane_fresh i))) \<le> 2000"
    "text_bound (json_of_DirectState (snd (want_states lane_body lane_fresh i))) \<le> 2000"
    using demo_json_bounds(2-4) by (simp_all add: want_states_def)
  assume "i < 7"
  moreover have "list_all (\<lambda>x. length x \<le> 100 \<and> length (fst (operationClass x)) \<le> 100
      \<and> length (fst (RequiredBootModeForOperation x)) \<le> 100) developmentOperations" by code_simp
  ultimately have names: "length (developmentOperations ! i) \<le> 100" "length (fst (operationClass (developmentOperations ! i))) \<le> 100"
    "length (fst (RequiredBootModeForOperation (developmentOperations ! i))) \<le> 100"
    by (auto simp: list_all_length)
  have "unat (os_Sequence (lane_operation i)) < 2 ^ 32" using unsigned_less [of "os_Sequence (lane_operation i)"] by simp
  then have sequence: "length (show_nat (unat (os_Sequence (lane_operation i)))) \<le> 10" by (intro digits_bound) simp_all
  have duration: "length (show_nat (nat \<bar>600 * second\<bar>)) \<le> 20" by (rule digits_bound) (simp_all add: second_def)
  show ?thesis
    using want names sequence duration
    by (simp add: json_of_OperationSpec_def juint32_def demo_lengths lane_operation_def)
qed

lemma demo_plan_bound: "plan = lane_plan \<or> plan = dr_plan plan_draft \<Longrightarrow> text_bound (plan_json (plan, 0, b)) \<le> 70000"
proof -
  assume p: "plan = lane_plan \<or> plan = dr_plan plan_draft"
  have ops: "pl_Operations plan = map lane_operation [0..<7]" using p by auto
  have "sum_list (map (\<lambda>x. text_bound x + 1) (map json_of_OperationSpec (pl_Operations plan))) \<le> 56007"
    using demo_operation_bound [of 0] demo_operation_bound [of 1] demo_operation_bound [of 2] demo_operation_bound [of 3]
      demo_operation_bound [of 4] demo_operation_bound [of 5] demo_operation_bound [of 6] by (simp add: ops seven)
  moreover have "utc (lane_at 3600) = \<lparr>gt_instant = lane_at 3600, gt_offset = 0\<rparr>" by (simp add: utc_def)
  ultimately show ?thesis
    using p demo_json_bounds(1) demo_lengths show_nat.simps [of 0] show_nat.simps [of 1]
    by (auto simp: plan_json_def json_of_Plan_def juint64_def juint32_def lane_at_def [of 3600] plan_draft_def)
qed

lemma bridge_texts: "length (render (json_of_BridgeRequest bridge_request)) \<le> maxWireRequestBytes"
  "length (render (json_of_BridgeResponse (success_response bridge_bound))) < maxWireResponseBytes"
proof -
  have "length BridgeRequestSchemaVersion \<le> 100" "length BridgeResponseSchemaVersion \<le> 100" "length responseStatusOK \<le> 10" by code_simp+
  note l = this demo_lengths
  have "text_bound (json_of_BridgeRequest bridge_request) \<le> 80000"
    using demo_plan_bound [of "dr_plan plan_draft" True] l by (simp add: json_of_BridgeRequest_def bridge_request_def)
  then show "length (render (json_of_BridgeRequest bridge_request)) \<le> maxWireRequestBytes"
    using render_bound(1) [of "json_of_BridgeRequest bridge_request"] by (simp add: maxWireRequestBytes_def)
  have "text_bound (json_of_ExecuteRequest (request_of lane_plan (lane_operation 0) (lane_at 3600))) \<le> 20000"
    using demo_json_bounds l show_nat.simps [of 0] show_nat.simps [of 1]
    by (simp add: json_of_ExecuteRequest_def request_of_def juint64_def juint32_def jinstant_def lane_operation_def want_states_def
        developmentOperations_def RequiredBootModeForOperation_def operation_defs lane_at_def)
  then have "text_bound (json_of_BridgeResponse (success_response bridge_bound)) \<le> 100000"
    using demo_plan_bound [of lane_plan True] l
    by (simp add: json_of_BridgeResponse_def success_response_def bridge_bound_def omit_none_def omit_empty_def)
  then show "length (render (json_of_BridgeResponse (success_response bridge_bound))) < maxWireResponseBytes"
    using render_bound(1) [of "json_of_BridgeResponse (success_response bridge_bound)"] by (simp add: maxWireResponseBytes_def)
qed

lemma bridge_encodes: "marshals (json_of_BridgeRequest bridge_request)" "marshals (json_of_BridgeResponse (success_response bridge_bound))"
proof -
  have expiry: "time_marshals \<lparr>gt_instant = lane_at 3600, gt_offset = 0\<rparr>" "time_marshals (utc (lane_at 3600))" by code_simp+
  have states: "marshals (json_of_DirectState st)" "marshals (json_of_Binding r)" for st r
    by (simp_all add: json_of_DirectState_def json_of_Binding_def)
  then have "marshals (json_of_OperationSpec spec)" for spec by (simp add: json_of_OperationSpec_def juint32_def)
  then have plan: "pl_ApprovalExpiresAt plan = lane_at 3600 \<Longrightarrow> marshals (plan_json (plan, 0, b))" for plan b
    using states expiry by (simp add: plan_json_def json_of_Plan_def juint32_def juint64_def list_all_iff)
  have at: "pl_ApprovalExpiresAt lane_plan = lane_at 3600" by (simp add: lane_at_def)
  show "marshals (json_of_BridgeRequest bridge_request)"
    using plan [of "dr_plan plan_draft" True] by (simp add: json_of_BridgeRequest_def bridge_request_def)
  show "marshals (json_of_BridgeResponse (success_response bridge_bound))"
    using plan [OF at, of True] expiry states at
    by (simp add: json_of_BridgeResponse_def success_response_def bridge_bound_def omit_none_def omit_empty_def
        json_of_ExecuteRequest_def request_of_def juint64_def juint32_def jinstant_def)
qed

end
