(* ===== verification/Bridge_Properties.thy ===== *)
theory Bridge_Properties
  imports Bridge_Demo
begin

text \<open>
  The properties of the authority bridge: what it hands out is current on the control plane's own clock,
  and its client gets exactly what it bound.
\<close>

section \<open>Bindings are current\<close>

lemma execute_binding:
  assumes bind: "Binder_Bind sha bridge request = Inr bound" and mode: "bq_Mode request = ModeExecute"
    and control: "bi_Control bridge = Some control"
  obtains t claim approval preflight t' xr where
    "cr_GetTransaction control 1 (bq_TransactionID request) = Some t"
    and "currentClaimPreflightRequest request t (bi_LeaseSafetyMargin bridge) = Inr preflight"
    and "cr_PreflightCurrentClaim control preflight = Some t'" and "tx_ID t = bq_TransactionID request"
    and "0 \<le> bi_LeaseSafetyMargin bridge"
    and "tx_Status t = StatusMutationInProgress" and "tx_ActiveClaim t = Some claim" and "cl_Mode claim = ClaimModeMutation"
    and "tx_Approval t = Some approval" and "bn_ExecuteRequest bound = Some xr" and "bn_ReconcileRequest bound = None"
    and "authorityFree (bn_Plan bound) = bq_DraftSnapshot request"
    and "ValidatePlanRequest sha (validationConfig (cl_StationID claim) (cl_LaneID claim) (pl_PowerControlMode (bn_Plan bound)))
      (bn_Plan bound) xr = None"
    and "xr_FenceEpoch xr = cl_FenceEpoch claim" and "xr_ApprovalID xr = ap_ID approval"
    and "unat (xr_Sequence xr) = length (tx_Operations t)" and "op_Status (last (tx_Operations t)) = OperationIntentRecorded"
    and "xr_IntentReceipt xr = op_IntentAuditReceiptID (last (tx_Operations t))"
proof -
  obtain audit draft t ids records authority where b:
    "validateBridgeRequest request = None" "DraftFromSnapshot sha (bq_utc request) (bq_DraftSnapshot request) = Inr draft"
    "cr_GetTransaction control 1 (bq_TransactionID request) = Some t"
    "\<exists>preflight t'. currentClaimPreflightRequest request t (bi_LeaseSafetyMargin bridge) = Inr preflight
      \<and> cr_PreflightCurrentClaim control preflight = Some t'"
    "ay_Transaction authority = t" "ay_LeaseSafetyMargin authority = bi_LeaseSafetyMargin bridge"
    "bind_mode sha request draft authority = Inr bound" "validateBoundRequest sha bound request"
    using Binder_Bind_Inr [OF bind] control by (metis option.inject)
  obtain preflight t' where pre: "currentClaimPreflightRequest request t (bi_LeaseSafetyMargin bridge) = Inr preflight"
    "cr_PreflightCurrentClaim control preflight = Some t'" using b(4) by blast
  obtain bp xr where run: "Bind sha draft authority = Inr bp" "Execution bp = Inr (bn_Plan bound, xr)"
    and bound: "bn_ExecuteRequest bound = Some xr" "bn_ReconcileRequest bound = None"
    using b(7) mode by (auto simp: bind_mode_def split: prod.splits)
  obtain claim target approval intent i where v: "validateDraft sha draft = None"
    and bi: "binds sha (dr_plan draft) authority productionActors claim target approval intent i"
    and plan: "bp_plan bp = bind_plan (dr_plan draft) approval authority (pl_Operations (dr_plan draft) ! i)"
    and rest: "bp_claimExpiresAt bp = cl_ExpiresAt claim" "bp_operationIndex bp = int i"
    using run(1) by (rule Bind_Inr)
  note f = binds_facts [OF bi, unfolded b(5)] and d = validateDraft_None [OF v]
  have i: "i < 7" using f(19) d(1) by simp
  have len: "length (tx_Operations t) = i + 1" using f(17,18) by (cases "tx_Operations t") auto
  have xr: "xr = request_of (bp_plan bp) (pl_Operations (bp_plan bp) ! i) (bp_claimExpiresAt bp)" "bn_Plan bound = bp_plan bp"
    using run(2) rest by (auto simp: Execution_def BoundPlan_ExecuteRequest_def split: if_splits)
  have tid: "bq_TransactionID request = pl_TransactionID (bq_DraftSnapshot request)"
    using b(1) by (simp add: validateBridgeRequest_def split: if_splits)
  have draft: "dr_plan draft = bq_DraftSnapshot request" using b(2) by (simp add: DraftFromSnapshot_Inr)
  have "unat (of_nat (i + 1) :: uint32) = i + 1"
    using i by (simp add: unat_of_nat take_bit_nat_eq_self del: of_nat_Suc of_nat_add)
  then have fields: "xr_FenceEpoch xr = cl_FenceEpoch claim" "xr_ApprovalID xr = ap_ID approval"
    "xr_IntentReceipt xr = op_IntentAuditReceiptID (last (tx_Operations t))" "unat (xr_Sequence xr) = length (tx_Operations t)"
    using f(7,20,24) d(2) [OF i] len by (simp_all add: xr(1) request_of_def plan bind_plan_def)
  have lane: "pl_StationID (bn_Plan bound) = cl_StationID claim" "pl_LaneID (bn_Plan bound) = cl_LaneID claim"
    using f(5,6) by (simp_all add: xr(2) plan bind_plan_def)
  have ok: "authorityFree (bn_Plan bound) = bq_DraftSnapshot request"
    "ValidatePlanRequest sha (validationConfig (cl_StationID claim) (cl_LaneID claim) (pl_PowerControlMode (bn_Plan bound)))
      (bn_Plan bound) xr = None"
    using b(8) mode bound lane by (simp_all add: validateBoundRequest_def Let_def)
  have margin: "0 \<le> bi_LeaseSafetyMargin bridge"
    using pre(1) by (auto simp: currentClaimPreflightRequest_def split: option.splits if_splits)
  show ?thesis
    using f(1,2,3,4,11,20,21) that [OF b(3) pre _ margin _ _ _ _ bound ok fields(1,2,4) _ fields(3)] tid draft by simp
qed

text \<open>Property C15. What the bridge hands out is current: let the second read of a binding see a reachable
  control plane, and let the preflight be answered later, after any calls and restarts in between. If the
  binding succeeds, then at the preflight the transaction is still the same and in mutation; its last
  operation is the pending intent that the request executes, under the epoch of the active claim, with the
  current approval; the guard of the claim's lane accepts the plan and the request; and on the control
  plane's own clock the lease covers the operation and the margin, and the approval covers the margin.\<close>

theorem bridge_binding_is_current:
  assumes reach: "reachable sha T s" "control_steps sha (T, s) (T', s')"
    and bind: "Binder_Bind sha bridge request = Inr bound" and mode: "bq_Mode request = ModeExecute"
    and control: "bi_Control bridge = Some control"
      "\<forall>id. cr_GetTransaction control 1 id = fetched (GetTransaction s id)"
      "\<forall>q. cr_PreflightCurrentClaim control q = fetched (PreflightCurrentClaim e q s')"
  shows "\<exists>t claim approval xr.
    map_get (ps_Transactions (svc_state s')) (bq_TransactionID request) = Some t
    \<and> tx_Status t = StatusMutationInProgress \<and> tx_ActiveClaim t = Some claim \<and> cl_Mode claim = ClaimModeMutation
    \<and> tx_Approval t = Some approval \<and> bn_ExecuteRequest bound = Some xr \<and> bn_ReconcileRequest bound = None
    \<and> authorityFree (bn_Plan bound) = bq_DraftSnapshot request
    \<and> ValidatePlanRequest sha (validationConfig (cl_StationID claim) (cl_LaneID claim) (pl_PowerControlMode (bn_Plan bound)))
        (bn_Plan bound) xr = None
    \<and> xr_FenceEpoch xr = cl_FenceEpoch claim \<and> xr_ApprovalID xr = ap_ID approval
    \<and> unat (xr_Sequence xr) = length (tx_Operations t) \<and> op_Status (last (tx_Operations t)) = OperationIntentRecorded
    \<and> xr_IntentReceipt xr = op_IntentAuditReceiptID (last (tx_Operations t))
    \<and> env_now e + os_MaximumDuration (pl_Operations (bn_Plan bound) ! (length (tx_Operations t) - 1))
        + bi_LeaseSafetyMargin bridge \<le> cl_ExpiresAt claim
    \<and> env_now e < ap_ExpiresAt approval \<and> env_now e + bi_LeaseSafetyMargin bridge \<le> ap_ExpiresAt approval"
proof -
  obtain t claim approval preflight t' xr where x:
    "cr_GetTransaction control 1 (bq_TransactionID request) = Some t"
    "currentClaimPreflightRequest request t (bi_LeaseSafetyMargin bridge) = Inr preflight"
    "cr_PreflightCurrentClaim control preflight = Some t'" "tx_ID t = bq_TransactionID request"
    "0 \<le> bi_LeaseSafetyMargin bridge" "tx_ActiveClaim t = Some claim" "tx_Approval t = Some approval"
    "authorityFree (bn_Plan bound) = bq_DraftSnapshot request" and y:
    "tx_Status t = StatusMutationInProgress" "cl_Mode claim = ClaimModeMutation"
    "bn_ExecuteRequest bound = Some xr" "bn_ReconcileRequest bound = None"
    "ValidatePlanRequest sha (validationConfig (cl_StationID claim) (cl_LaneID claim) (pl_PowerControlMode (bn_Plan bound)))
      (bn_Plan bound) xr = None"
    "xr_FenceEpoch xr = cl_FenceEpoch claim" "xr_ApprovalID xr = ap_ID approval"
    "unat (xr_Sequence xr) = length (tx_Operations t)" "op_Status (last (tx_Operations t)) = OperationIntentRecorded"
    "xr_IntentReceipt xr = op_IntentAuditReceiptID (last (tx_Operations t))"
    using bind mode control(1) by (rule execute_binding)
  obtain pre0 where pre0: "execute_preflight request t (bi_LeaseSafetyMargin bridge) pre0 = Inr preflight"
    "mc_TransactionID (cp_MutationContext pre0) = tx_ID t" "mc_ExpectedResourceVersion (cp_MutationContext pre0) = tx_ResourceVersion t"
    using x(2,6) mode by (auto simp: currentClaimPreflightRequest_def Let_def split: if_splits)
  obtain a where a: "tx_Approval t = Some a" "cp_ApprovalID preflight = ap_ID a"
    "cp_MutationContext preflight = cp_MutationContext pre0"
    "os_MaximumDuration (pl_Operations (bq_DraftSnapshot request) ! (length (tx_Operations t) - 1)) + bi_LeaseSafetyMargin bridge
      \<le> seconds (cp_MinimumClaimRemainingSeconds preflight)"
    "bi_LeaseSafetyMargin bridge \<le> seconds (cp_MinimumApprovalRemainingSeconds preflight)"
    using execute_preflight_Inr [OF pre0(1) x(5)] by metis
  have got: "map_get (ps_Transactions (svc_state s)) (bq_TransactionID request) = Some t"
    using x(1) control(2) by (auto simp: GetTransaction_def cloneTransaction_def split: option.splits if_splits)
  have "PreflightCurrentClaim e preflight s' = Inr t'" using x(3) control(3) by simp
  then obtain claim' where p: "map_get (ps_Transactions (svc_state s')) (tx_ID t) = Some t'"
    "tx_ResourceVersion t' = tx_ResourceVersion t" "tx_ActiveClaim t' = Some claim'"
    "env_now e + seconds (cp_MinimumClaimRemainingSeconds preflight) \<le> cl_ExpiresAt claim'"
    "cp_ApprovalID preflight \<noteq> [] \<Longrightarrow> \<exists>approval. tx_Approval t' = Some approval \<and> env_now e < ap_ExpiresAt approval
      \<and> env_now e + seconds (cp_MinimumApprovalRemainingSeconds preflight) \<le> ap_ExpiresAt approval"
    using PreflightCurrentClaim_Inr [of e preflight s' t'] a(3) pre0(2,3) by metis
  obtain t2 where "map_get (ps_Transactions (svc_state s')) (bq_TransactionID request) = Some t2" "version_order t t2"
    using versions.along [OF reach got] by blast
  then have same: "t' = t" using p(1,2) x(4) by (auto simp: version_order_def)
  have ops: "pl_Operations (bn_Plan bound) = pl_Operations (bq_DraftSnapshot request)"
    using x(8) by (metis Plan.select_convs(15) Plan.surjective Plan.update_convs(11,13,14) authorityFree_def)
  have named: "ap_ID approval \<noteq> []"
    using y(5,7) by (auto simp: ValidatePlanRequest_def matchPlanRequest_def dest: Plan_validate_None(12)
        simp: Plan_Validate_def split: sum.splits if_splits)
  show ?thesis
    using p(1,3-5) x(4,6,7,8) y a same named by (intro exI conjI) (auto simp: ops)
qed

theorem bridge_binding_is_current_witness:
  "Binder_Bind demo_hash demo_bridge bridge_request = Inr bridge_bound
   \<and> (\<exists>claim. tx_ActiveClaim plan_transaction = Some claim \<and> env_now demo_env + 610 * second \<le> cl_ExpiresAt claim)"
proof -
  let ?s = "demo_service bridge_commands"
  have control: "bi_Control demo_bridge = Some bridge_control" "bq_Mode bridge_request = ModeExecute"
    "\<forall>id. cr_GetTransaction bridge_control 1 id = fetched (GetTransaction ?s id)"
    "\<forall>q. cr_PreflightCurrentClaim bridge_control q = fetched (PreflightCurrentClaim demo_env q ?s)"
    by (simp_all add: demo_bridge_def bridge_control_def bridge_request_def)
  have steps: "control_steps demo_hash (demo_now, ?s) (demo_now, ?s)" by (rule control_steps.none_yet)
  have fields: "bq_TransactionID bridge_request = ''tx1''" "bi_LeaseSafetyMargin demo_bridge = 10 * second"
    "length (tx_Operations plan_transaction) = 1" "os_MaximumDuration (pl_Operations (bn_Plan bridge_bound) ! 0) = 600 * second"
    by (simp_all add: bridge_request_def demo_bridge_def plan_transaction_def bridge_bound_def seven lane_operation_def)
  show ?thesis
    using bridge_binding_is_current [OF demo_reachable steps bridge_binds control(2,1,3,4)] bridge_binds bridge_stored(1) fields
    by (auto simp: algebra_simps)
qed

section \<open>The client\<close>

text \<open>What the client receives from a server that handles its connection; a server that says nothing closes it.\<close>

definition served :: "wire_output \<Rightarrow> string option" where
  "served out = (case out of Wrote sent \<Rightarrow> Some sent | Silent \<Rightarrow> Some [] | Panicked \<Rightarrow> None)"

lemma Binder_Bind_one_request:
  "Binder_Bind sha bridge request = Inr bound \<Longrightarrow>
     validateBoundRequest sha bound request \<and> (bn_ExecuteRequest bound = None) \<noteq> (bn_ReconcileRequest bound = None)"
  by (erule Binder_Bind_Inr) (auto simp: validateBoundRequest_def Let_def split: Mode.splits option.splits)

lemma errorCode_known [simp]: "knownErrorCode (errorCode err)"
  by (cases err) (simp_all add: knownErrorCode_def)

text \<open>Property C32. The wire is transparent: when both ends decode what the other end encodes and neither text is
  over the limit, a valid request gets at the client exactly what the bridge bound on the server, or the
  code of the error that the bridge met.\<close>

theorem client_gets_binding:
  assumes request: "validateBridgeRequest request = None" "validateSocketPath path" "Binder_Bind sha bridge request \<noteq> Inl BridgePanic"
    and sent: "json_Marshal (json_of_BridgeRequest request) = Some encoded" "length encoded \<le> maxWireRequestBytes"
      "DecodeStrict parse into encoded = Inr request"
    and response: "response = (case Binder_Bind sha bridge request of Inl err \<Rightarrow> errorResponse (errorCode err)
      | Inr bound \<Rightarrow> success_response bound)"
    and received: "json_Marshal (json_of_BridgeResponse response) = Some answer" "length answer < maxWireResponseBytes"
      "DecodeStrict parse into' (answer @ [char_of (10 :: nat)]) = Inr response"
  shows "bridge_Request sha parse into' (\<lambda>m. served (handleConnection sha parse into bridge (Some m))) path request
    = (case Binder_Bind sha bridge request of Inl err \<Rightarrow> Inl (Denied (errorCode err)) | Inr bound \<Rightarrow> Inr bound)"
proof -
  have "encoded \<noteq> []" using sent(1) by (auto simp: json_Marshal_def json_of_BridgeRequest_def split: if_splits)
  moreover have written: "writeResponse response = Wrote (answer @ [char_of (10 :: nat)])"
    using received(1,2) by (simp add: writeResponse_def)
  ultimately have "served (handleConnection sha parse into bridge (Some encoded)) = Some (answer @ [char_of (10 :: nat)])"
    using sent(2,3) request(3) response
    by (auto simp: handleConnection_def served_def split: sum.splits)
  then have "bridge_Request sha parse into' (\<lambda>m. served (handleConnection sha parse into bridge (Some m))) path request
      = validateResponse sha response request"
    using request sent(1,2) received(2,3) \<open>encoded \<noteq> []\<close> by (simp add: bridge_Request_def)
  also have "\<dots> = (case Binder_Bind sha bridge request of Inl err \<Rightarrow> Inl (Denied (errorCode err)) | Inr bound \<Rightarrow> Inr bound)"
    using Binder_Bind_one_request [of sha bridge request]
    by (auto simp: response validateResponse_def errorResponse_def success_response_def responseStatusOK_def
        responseStatusError_def Let_def split: sum.splits)
  finally show ?thesis .
qed

theorem client_gets_binding_witness:
  "bridge_Request demo_hash (\<lambda>m. Some (JScalar m)) (\<lambda>v. Some (success_response bridge_bound))
     (\<lambda>m. served (handleConnection demo_hash (\<lambda>m. Some (JScalar m)) (\<lambda>v. Some bridge_request) demo_bridge (Some m)))
     ''/run/kaiba/bridge.sock'' bridge_request
   = Inr bridge_bound"
proof -
  have valid: "validateBridgeRequest bridge_request = None" by (simp add: validateBridgeRequest_def bridge_request_def)
  have path: "validateSocketPath ''/run/kaiba/bridge.sock''" by code_simp
  show ?thesis
    using client_gets_binding [OF valid path _ _ bridge_texts(1) _ _ _ bridge_texts(2), of demo_hash demo_bridge
        "\<lambda>m. Some (JScalar m)" "\<lambda>v. Some bridge_request"] bridge_binds bridge_encodes
    by (simp add: json_Marshal_def DecodeStrict_def)
qed

section \<open>Rounding\<close>

text \<open>Durations are rounded up exactly: the number of seconds asked of the control plane is the
  least that covers the sum, and it is refused exactly when a duration is negative, the sum overflows 63
  bits or the seconds overflow 32 bits.\<close>

theorem seconds_are_exact:
  assumes "ds \<noteq> []"
  shows "(ceilDurationSeconds ds = Some n \<longleftrightarrow>
      (\<forall>v \<in> set ds. 0 \<le> v) \<and> sum_list ds < 2 ^ 63 \<and> sum_list ds \<le> uint n * second \<and> (\<forall>m. sum_list ds \<le> m * second \<longrightarrow> uint n \<le> m))
    \<and> (ceilDurationSeconds ds = None \<longleftrightarrow>
      (\<exists>v \<in> set ds. v < 0) \<or> 2 ^ 63 \<le> sum_list ds \<or> (2 ^ 32 - 1) * second < sum_list ds)"
  using ceilDurationSeconds_Some [OF assms, of n] ceilDurationSeconds_None [OF assms] covers_least [of "uint n" "sum_list ds"]
  by blast

theorem seconds_are_exact_witness:
  "ceilDurationSeconds [600 * second + 1, 10 * second] = Some 611 \<and> ceilDurationSeconds [2 ^ 63] = None"
  using seconds_are_exact [of "[600 * second + 1, 10 * second]" 611] seconds_are_exact [of "[2 ^ 63]"]
  by (auto simp: second_def)

end
