(* ===== verification/GoUnicode.thy ===== *)
theory GoUnicode
  imports StrictJSON
begin

text \<open>
  Text functions of Go's standard library that look at runes: validity, white space and case folding, on
  the bytes of a string. The lead byte of an encoded rune never occurs inside another one, so an encoded
  rune is found by its bytes.
\<close>

section \<open>Validity\<close>

text \<open>\<^verbatim>\<open>utf8.ValidString\<close>\<close>

function ValidString :: "string \<Rightarrow> bool" where
  "ValidString [] = True"
| "ValidString (c # cs) =
     (if byte c < 128 then ValidString cs
      else let w = rune_width (c # cs) in w \<noteq> 0 \<and> ValidString (drop (w - 1) cs))"
  by pat_completeness auto
termination
  by (relation "measure length") auto

text \<open>\<^verbatim>\<open>unicode.IsControl\<close> of a rune: U+0000 to U+001F and U+007F to U+009F.\<close>

fun has_control :: "string \<Rightarrow> bool" where
  "has_control [] = False"
| "has_control (c # cs) =
     (byte c < 32 \<or> byte c = 127
      \<or> byte c = 194 \<and> cs \<noteq> [] \<and> 128 \<le> byte (hd cs) \<and> byte (hd cs) \<le> 159 \<or> has_control cs)"

section \<open>White space\<close>

text \<open>The runes of \<^verbatim>\<open>unicode.IsSpace\<close>.\<close>

definition space_runes :: "nat list list" where
  "space_runes = [[9], [10], [11], [12], [13], [32], [194, 133], [194, 160], [225, 154, 128],
     [226, 128, 128], [226, 128, 129], [226, 128, 130], [226, 128, 131], [226, 128, 132], [226, 128, 133],
     [226, 128, 134], [226, 128, 135], [226, 128, 136], [226, 128, 137], [226, 128, 138], [226, 128, 168],
     [226, 128, 169], [226, 128, 175], [226, 129, 159], [227, 128, 128]]"

text \<open>The width of the white space at the start, and at the end, of a text; 0 for none.\<close>

definition space_width :: "string \<Rightarrow> nat" where
  "space_width s =
     (case find (\<lambda>r. map byte (take (length r) s) = r) space_runes of None \<Rightarrow> 0 | Some r \<Rightarrow> length r)"

definition space_width_end :: "string \<Rightarrow> nat" where
  "space_width_end s =
     (case find (\<lambda>r. length r \<le> length s \<and> map byte (drop (length s - length r) s) = r) space_runes of
        None \<Rightarrow> 0 | Some r \<Rightarrow> length r)"

lemma space_width_le: "space_width s \<le> length s"
proof (cases "find (\<lambda>r. map byte (take (length r) s) = r) space_runes")
  case (Some r)
  then have "map byte (take (length r) s) = r" by (auto simp: find_Some_iff)
  then have "length (take (length r) s) = length r" by (metis length_map)
  then show ?thesis using Some by (simp add: space_width_def)
qed (simp add: space_width_def)

function trim_left :: "string \<Rightarrow> string" where
  "trim_left s = (if space_width s = 0 then s else trim_left (drop (space_width s) s))"
  by pat_completeness auto
termination
proof (relation "measure length")
  show "(drop (space_width s) s, s) \<in> measure length" if "space_width s \<noteq> 0" for s :: string
    using that space_width_le [of s] by simp
qed simp

function trim_right :: "string \<Rightarrow> string" where
  "trim_right s =
     (if space_width_end s = 0 \<or> s = [] then s else trim_right (take (length s - space_width_end s) s))"
  by pat_completeness auto
termination
  by (relation "measure length") auto

declare trim_left.simps [simp del] trim_right.simps [simp del]

definition TrimSpace :: "string \<Rightarrow> string" where
  "TrimSpace s = trim_right (trim_left s)"

text \<open>\<^verbatim>\<open>strings.Fields\<close>; \<open>field\<close> is the field being read, reversed.\<close>

function fields_loop :: "string \<Rightarrow> string \<Rightarrow> string list" where
  "fields_loop field [] = (if field = [] then [] else [rev field])"
| "fields_loop field (c # cs) =
     (let w = space_width (c # cs)
      in if w = 0 then fields_loop (c # field) cs
         else (if field = [] then [] else [rev field]) @ fields_loop [] (drop (w - 1) cs))"
  by pat_completeness auto
termination
  by (relation "measure (\<lambda>(field, s). length s)") auto

definition Fields :: "string \<Rightarrow> string list" where
  "Fields s = fields_loop [] s"

section \<open>Case folding\<close>

text \<open>\<^verbatim>\<open>strings.EqualFold\<close> with a text of ASCII letters: besides the other case, U+017F (bytes C5 BF) folds to
  s and U+212A (bytes E2 84 AA) to k.\<close>

fun fold_text :: "string \<Rightarrow> string" where
  "fold_text [] = []"
| "fold_text (c # cs) =
     (if byte c = 197 \<and> map byte (take 1 cs) = [191] then CHR ''s'' # fold_text (drop 1 cs)
      else if byte c = 226 \<and> map byte (take 2 cs) = [132, 170] then CHR ''k'' # fold_text (drop 2 cs)
      else to_lower c # fold_text cs)"

definition EqualFold :: "string \<Rightarrow> string \<Rightarrow> bool" where
  "EqualFold s ascii \<longleftrightarrow> fold_text s = map to_lower ascii"

section \<open>Lines\<close>

text \<open>\<^verbatim>\<open>strings.Split\<close> at newlines and \<^verbatim>\<open>strings.TrimSuffix\<close> of one character.\<close>

fun split_lines :: "string \<Rightarrow> string list" where
  "split_lines [] = [[]]"
| "split_lines (c # cs) =
     (if c = char_of (10 :: nat) then [] # split_lines cs
      else (case split_lines cs of [] \<Rightarrow> [[c]] | line # rest \<Rightarrow> (c # line) # rest))"

definition trim_suffix :: "char \<Rightarrow> string \<Rightarrow> string" where
  "trim_suffix c s = (if s \<noteq> [] \<and> last s = c then butlast s else s)"

end
