(* ===== verification/Operator_Prompt.thy ===== *)
theory Operator_Prompt
  imports Lane_Guard GoUnicode
begin

text \<open>
  Operator prompts (\<^verbatim>\<open>operatorprompt/prompt.go\<close>): a prompt binds one physical action of the operator to one
  hardware action of the lane, by a digest over everything it says.
\<close>

section \<open>Data\<close>

definition PromptSchemaVersion :: string where
  "PromptSchemaVersion = ''provisioning.kaiba.network/operator-prompt/v1alpha2''"
definition AcknowledgementSchemaVersion :: string where
  "AcknowledgementSchemaVersion = ''provisioning.kaiba.network/operator-acknowledgement/v1alpha1''"
definition promptDigestDomain :: string where
  "promptDigestDomain = ''kaiba.provisioning.operator-prompt.v1alpha2''"
definition maxInstructions :: nat where "maxInstructions = 2048"

datatype Kind =
    KindHoldBOOTSEL | KindReleaseBOOTSEL | KindNormalNoAction | KindDisconnectPower | KindConnectRPIBootPower
  | KindConnectNormalPower | KindOther string

fun Kind_string :: "Kind \<Rightarrow> string" where
  "Kind_string KindHoldBOOTSEL = ''hold_bootsel''"
| "Kind_string KindReleaseBOOTSEL = ''release_bootsel''"
| "Kind_string KindNormalNoAction = ''normal_no_action''"
| "Kind_string KindDisconnectPower = ''disconnect_power''"
| "Kind_string KindConnectRPIBootPower = ''connect_rpiboot_power''"
| "Kind_string KindConnectNormalPower = ''connect_normal_power''"
| "Kind_string (KindOther s) = s"

record Prompt =
  pm_SchemaVersion :: string
  pm_ID :: string
  pm_Digest :: string
  pm_Kind :: Kind
  pm_Instructions :: string
  pm_ExpiresAt :: instant
  pm_Action :: HardwareAction

record Acknowledgement =
  ak_SchemaVersion :: string
  ak_PromptID :: string
  ak_PromptDigest :: string
  ak_Peer :: OperatorPeer
  ak_AcknowledgedAt :: instant

section \<open>Validation\<close>

definition kind_ok :: "Prompt \<Rightarrow> bool" where
  "kind_ok prompt =
     (let mode = ha_RequestedBootMode (pm_Action prompt); power = ha_PowerControlMode (pm_Action prompt) in
      case pm_Kind prompt of
        KindHoldBOOTSEL \<Rightarrow> \<not> (mode \<noteq> BootModeRPIBoot \<or> power \<noteq> PowerControlRelay)
      | KindReleaseBOOTSEL \<Rightarrow> \<not> mode \<noteq> BootModeRPIBoot
      | KindNormalNoAction \<Rightarrow> \<not> (mode \<noteq> BootModeNormal \<or> power \<noteq> PowerControlRelay)
      | KindDisconnectPower \<Rightarrow>
          \<not> (mode \<noteq> BootModeRPIBoot \<and> mode \<noteq> BootModeNormal \<or> power \<noteq> PowerControlManual)
      | KindConnectRPIBootPower \<Rightarrow> \<not> (mode \<noteq> BootModeRPIBoot \<or> power \<noteq> PowerControlManual)
      | KindConnectNormalPower \<Rightarrow> \<not> (mode \<noteq> BootModeNormal \<or> power \<noteq> PowerControlManual)
      | KindOther _ \<Rightarrow> False)"

definition Prompt_validateBody :: "Prompt \<Rightarrow> guard_error option" where
  "Prompt_validateBody prompt =
     first_err
       [fail_if (pm_SchemaVersion prompt \<noteq> PromptSchemaVersion) ErrPlain,
        fail_if (\<not> identifierPattern (pm_ID prompt)) ErrPlain,
        fail_if (\<not> ValidString (pm_Instructions prompt) \<or> pm_Instructions prompt = []
                 \<or> TrimSpace (pm_Instructions prompt) \<noteq> pm_Instructions prompt \<or> length (pm_Instructions prompt) > maxInstructions
                 \<or> has_control (pm_Instructions prompt)) ErrPlain,
        fail_if (pm_ExpiresAt prompt = 0) ErrPlain,
        HardwareAction_Validate (pm_Action prompt),
        fail_if (\<not> kind_ok prompt) ErrPlain]"

definition prompt_document :: "Prompt \<Rightarrow> json" where
  "prompt_document prompt = JObj
     [(''domain'', JStr promptDigestDomain), (''schema_version'', JStr (pm_SchemaVersion prompt)),
      (''id'', JStr (pm_ID prompt)), (''kind'', JStr (Kind_string (pm_Kind prompt))),
      (''instructions'', JStr (pm_Instructions prompt)), (''expires_at'', JTime (utc (pm_ExpiresAt prompt))),
      (''action'', json_of_HardwareAction (pm_Action prompt))]"

definition Prompt_derivedDigest :: "hash \<Rightarrow> Prompt \<Rightarrow> guard_error + string" where
  "Prompt_derivedDigest sha256 prompt =
     (if marshals (prompt_document prompt) then Inr (digestBytes sha256 (render (prompt_document prompt)))
      else Inl ErrPlain)"

definition Prompt_New ::
  "hash \<Rightarrow> HardwareAction \<Rightarrow> Kind \<Rightarrow> string \<Rightarrow> string \<Rightarrow> instant \<Rightarrow> guard_error + Prompt" where
  "Prompt_New sha256 action kind promptID instructions expiresAt =
     (let prompt = \<lparr>pm_SchemaVersion = PromptSchemaVersion, pm_ID = promptID, pm_Digest = [], pm_Kind = kind,
            pm_Instructions = instructions, pm_ExpiresAt = expiresAt, pm_Action = action\<rparr>
      in orFail (Prompt_validateBody prompt)
           (bindE (Prompt_derivedDigest sha256 prompt) (\<lambda>digest. Inr (prompt\<lparr>pm_Digest := digest\<rparr>))))"

definition Prompt_Validate :: "hash \<Rightarrow> Prompt \<Rightarrow> guard_error option" where
  "Prompt_Validate sha256 prompt =
     first_err
       [Prompt_validateBody prompt,
        fail_if (\<not> digestPattern (pm_Digest prompt)) ErrPlain,
        (case Prompt_derivedDigest sha256 prompt of
           Inl err \<Rightarrow> Some err
         | Inr derived \<Rightarrow> fail_if (pm_Digest prompt \<noteq> derived) ErrPlain)]"

definition ConfirmationPhrase :: "hash \<Rightarrow> Prompt \<Rightarrow> guard_error + string" where
  "ConfirmationPhrase sha256 prompt =
     orFail (Prompt_Validate sha256 prompt)
       (Inr (''CONFIRM '' @ pm_ID prompt @ '' '' @ take 16 (drop (length ''sha256:'') (pm_Digest prompt))))"

definition Acknowledgement_validateFor :: "Acknowledgement \<Rightarrow> Prompt \<Rightarrow> guard_error option" where
  "Acknowledgement_validateFor ack prompt =
     first_err
       [fail_if (ak_SchemaVersion ack \<noteq> AcknowledgementSchemaVersion \<or> ak_PromptID ack \<noteq> pm_ID prompt
                 \<or> ak_PromptDigest ack \<noteq> pm_Digest prompt) ErrPlain,
        fail_if (pe_PID (ak_Peer ack) \<le> 0 \<or> ak_AcknowledgedAt ack = 0
                 \<or> \<not> ak_AcknowledgedAt ack < pm_ExpiresAt prompt) ErrPlain]"

end
