(* ===== verification/Board_Metadata.thy ===== *)
theory Board_Metadata
  imports GoUnicode "HOL-Library.Char_ord" "HOL-Library.List_Lexorder"
begin

text \<open>
  The metadata that \<^verbatim>\<open>rpiboot\<close> reports of a board: the one JSON object in its output
  (\<^verbatim>\<open>rpi5/live.go\<close>) and its normalization (\<^verbatim>\<open>rpi5/metadata.go\<close>). The standard library's parser is an
  argument: \<open>valid\<close> tells JSON text, \<open>scan\<close> gives the members of a text that is one JSON object, each with its
  value if that is a string.
\<close>

datatype metadata_error = ErrMetadata

section \<open>The object in the output\<close>

text \<open>\<^verbatim>\<open>matchingJSONObjectEnd\<close>: \<open>n\<close> bytes of \<open>data\<close> were read. The depth cannot be negative at a closing brace
  because the text starts with an opening one.\<close>

fun object_end :: "bool \<Rightarrow> bool \<Rightarrow> nat \<Rightarrow> nat \<Rightarrow> string \<Rightarrow> nat option" where
  "object_end inString escaped depth n [] = None"
| "object_end inString escaped depth n (c # cs) =
     (if inString then
        if escaped then object_end True False depth (n + 1) cs
        else if c = backslash then object_end True True depth (n + 1) cs
        else object_end (c \<noteq> CHR 0x22) False depth (n + 1) cs
      else if c = CHR 0x22 then object_end True escaped depth (n + 1) cs
      else if c = CHR 0x7B then object_end False escaped (depth + 1) (n + 1) cs
      else if c = CHR 0x7D then
        if depth = 1 then Some (n + 1)
        else if depth = 0 then None
        else object_end False escaped (depth - 1) (n + 1) cs
      else object_end False escaped depth (n + 1) cs)"

lemma object_end_less: "object_end inString escaped depth n cs = Some k \<Longrightarrow> n < k \<and> k \<le> n + length cs"
  by (induction inString escaped depth n cs rule: object_end.induct) (auto split: if_splits)

function extract_loop :: "(string \<Rightarrow> bool) \<Rightarrow> string \<Rightarrow> metadata_error + string list" where
  "extract_loop valid output =
     (let rest = dropWhile (\<lambda>c. c \<noteq> CHR 0x7B) output in
      if rest = [] then Inr []
      else (case object_end False False 0 0 rest of
              None \<Rightarrow> Inl ErrMetadata
            | Some n \<Rightarrow>
                let candidate = TrimSpace (take n rest) in
                if \<not> valid candidate then Inl ErrMetadata
                else bindE (extract_loop valid (drop n rest)) (\<lambda>objects. Inr (candidate # objects))))"
  by pat_completeness auto
termination
proof (relation "measure (\<lambda>(valid, output). length output)")
  fix valid :: "string \<Rightarrow> bool" and out rest n candidate
  assume rest: "rest = dropWhile (\<lambda>c. c \<noteq> CHR 0x7B) out" "rest \<noteq> []" and n: "object_end False False 0 0 rest = Some n"
  have "length rest \<le> length out" unfolding rest(1) by (rule length_dropWhile_le)
  moreover have "0 < length rest" using rest(2) by simp
  moreover have "0 < n" using object_end_less [OF n] by simp
  ultimately have "length rest - n < length out" by linarith
  then show "((valid, drop n rest), valid, out) \<in> measure (\<lambda>(valid, output). length output)" by simp
qed simp

declare extract_loop.simps [simp del]

definition ExtractMetadataObject :: "(string \<Rightarrow> bool) \<Rightarrow> string \<Rightarrow> metadata_error + string" where
  "ExtractMetadataObject valid output =
     bindE (extract_loop valid output) (\<lambda>objects.
       if length objects = 0 then Inl ErrMetadata
       else if length objects \<noteq> 1 then Inl ErrMetadata
       else Inr (objects ! 0))"

section \<open>Data\<close>

definition AdapterID :: string where "AdapterID = ''raspberrypi.rpi5.otp-metadata''"
definition MetadataAdapterVersion :: string where "MetadataAdapterVersion = ''v1alpha1''"
definition MaxMetadataSize :: nat where "MaxMetadataSize = 16 * 1024"
definition MaxMetadataFields :: nat where "MaxMetadataFields = 64"

record Revision =
  rv_Raw :: string
  rv_NewStyle :: bool
  rv_Memory :: "8 word"
  rv_Manufacturer :: "8 word"
  rv_Processor :: "8 word"
  rv_Model :: "8 word"
  rv_PCBRevision :: "8 word"

text \<open>The observation of a board; its maps are association lists in the order of the fields.\<close>

record Metadata =
  md_AdapterID :: string
  md_AdapterVersion :: string
  md_EvidenceDigest :: string
  md_TargetFingerprint :: string
  md_UserSerial :: string
  md_FactoryUUID :: string
  md_BoardRevision :: Revision
  md_BoardAttributes :: string
  md_EthernetMAC :: string
  md_WiFiMAC :: string
  md_BluetoothMAC :: string
  md_BootROM :: string
  md_EEPROMHash :: string
  md_CustomerKeyHash :: string
  md_CustomerKeyState :: string
  md_VideoCoreJTAGLocked :: bool
  md_UpstreamFields :: "(string, string) gomap"
  md_Extensions :: "(string, string) gomap"
  md_UnknownFields :: "string list"
  md_MutationSuccess :: "string list"

section \<open>Fields\<close>

definition is_hex :: "char \<Rightarrow> bool" where
  "is_hex c \<longleftrightarrow> from_hex_char c \<noteq> None"

definition hex8Pattern :: "string \<Rightarrow> bool" where
  "hex8Pattern s \<longleftrightarrow> length s = 8 \<and> list_all is_hex s"
definition hex64Pattern :: "string \<Rightarrow> bool" where
  "hex64Pattern s \<longleftrightarrow> length s = 64 \<and> list_all is_hex s"
definition hexRevisionPattern :: "string \<Rightarrow> bool" where
  "hexRevisionPattern s \<longleftrightarrow> 4 \<le> length s \<and> length s \<le> 8 \<and> list_all is_hex s"
definition factoryUUIDPattern :: "string \<Rightarrow> bool" where
  "factoryUUIDPattern s \<longleftrightarrow> 3 \<le> length s \<and> length s \<le> 33 \<and> length s mod 3 = 0 \<and> list_all is_alnum s"
definition macPattern :: "string \<Rightarrow> bool" where
  "macPattern s \<longleftrightarrow> length s = 17
     \<and> (\<forall>i \<in> set [0..<17]. if i mod 3 = 2 then s ! i = CHR '':'' else is_hex (s ! i))"

text \<open>The members with distinct keys and string values, at most \<open>maxFields\<close>.\<close>

fun string_members :: "nat \<Rightarrow> (string, string) gomap \<Rightarrow> (string \<times> string option) list \<Rightarrow> metadata_error + (string, string) gomap" where
  "string_members maxFields result [] = Inr result"
| "string_members maxFields result ((key, v) # rest) =
     (if map_get result key \<noteq> None then Inl ErrMetadata
      else if length result \<ge> maxFields then Inl ErrMetadata
      else (case v of None \<Rightarrow> Inl ErrMetadata
            | Some text' \<Rightarrow> string_members maxFields (result @ [(key, text')]) rest))"

definition parseStringObject ::
  "(string \<Rightarrow> (string \<times> string option) list option) \<Rightarrow> string \<Rightarrow> nat \<Rightarrow> nat \<Rightarrow> metadata_error + (string, string) gomap" where
  "parseStringObject scan data maxBytes maxFields =
     (if length data = 0 then Inl ErrMetadata
      else if length data > maxBytes then Inl ErrMetadata
      else (case scan data of None \<Rightarrow> Inl ErrMetadata | Some members \<Rightarrow> string_members maxFields [] members))"

text \<open>\<^verbatim>\<open>fields[name]\<close>: the empty string when there is no such field.\<close>

definition field_of :: "(string, string) gomap \<Rightarrow> string \<Rightarrow> string" where
  "field_of found name = (case map_get found name of None \<Rightarrow> [] | Some v \<Rightarrow> v)"

definition normalizeFixedHex :: "string \<Rightarrow> (string \<Rightarrow> bool) \<Rightarrow> metadata_error + string" where
  "normalizeFixedHex value pattern = (if \<not> pattern value then Inl ErrMetadata else Inr (map to_lower value))"

definition isZeroHex :: "string \<Rightarrow> bool" where
  "isZeroHex value \<longleftrightarrow> list_all (\<lambda>c. c = CHR ''0'') value \<and> value \<noteq> []"

fun hex_number :: "nat \<Rightarrow> string \<Rightarrow> nat" where
  "hex_number n [] = n"
| "hex_number n (c # cs) = hex_number (16 * n + (case from_hex_char c of None \<Rightarrow> 0 | Some d \<Rightarrow> d)) cs"

text \<open>The bytes of an address of the form of \<open>macPattern\<close>.\<close>

definition mac_bytes :: "string \<Rightarrow> nat list" where
  "mac_bytes value = map (\<lambda>i. hex_number 0 (take 2 (drop (3 * i) value))) [0..<6]"

definition normalizeMAC :: "string \<Rightarrow> metadata_error + string" where
  "normalizeMAC value =
     (if \<not> macPattern value then Inl ErrMetadata
      else if list_all (\<lambda>b. b = 0) (mac_bytes value) then Inl ErrMetadata
      else if mac_bytes value ! 0 mod 2 \<noteq> 0 then Inl ErrMetadata
      else Inr (map to_lower value))"

definition normalizeOptionalMAC :: "string \<Rightarrow> metadata_error + string" where
  "normalizeOptionalMAC value = (if value = [] then Inr [] else normalizeMAC value)"

definition validOperationResult :: "string \<Rightarrow> bool" where
  "validOperationResult value \<longleftrightarrow>
     lower_text value \<in> {''success'', ''failed'', ''failure'', ''skipped'', ''not_requested'', ''not-run'', ''disabled''}"

unbundle bit_operations_syntax

definition DecodeRevision :: "string \<Rightarrow> metadata_error + Revision" where
  "DecodeRevision raw =
     (if \<not> hexRevisionPattern raw then Inl ErrMetadata
      else let v = (of_nat (hex_number 0 raw) :: 64 word);
               newStyle = (v AND push_bit 23 1 \<noteq> 0);
               field = (\<lambda>shift mask. if newStyle then ucast (drop_bit shift v AND mask) else 0)
           in Inr \<lparr>rv_Raw = map to_lower raw, rv_NewStyle = newStyle, rv_Memory = field 20 7,
                rv_Manufacturer = field 16 15, rv_Processor = field 12 15, rv_Model = field 4 255,
                rv_PCBRevision = field 0 15\<rparr>)"

text \<open>\<^verbatim>\<open>strconv.FormatUint\<close> in base 16\<close>

fun show_hex :: "nat \<Rightarrow> string" where
  "show_hex n = (if n < 16 then [hex_digit n] else show_hex (n div 16) @ [hex_digit (n mod 16)])"

declare show_hex.simps [simp del]

definition targetFingerprint :: "hash \<Rightarrow> string \<Rightarrow> string \<Rightarrow> string \<Rightarrow> string" where
  "targetFingerprint sha256 factoryUUID serial revision =
     digestBytes sha256 (''kaiba.rpi5.target-fingerprint.v1'' @ [char_of (0 :: nat)]
       @ concat (map (\<lambda>part. part @ [char_of (0 :: nat)]) [factoryUUID, serial, show_hex (hex_number 0 revision)]))"

definition mutationSuccessFields :: "(string, string) gomap \<Rightarrow> string list" where
  "mutationSuccessFields found =
     sort (map fst (filter (\<lambda>(name, value). EqualFold (TrimSpace value) ''success'') found))"

section \<open>Normalization\<close>

definition knownFields :: "string list" where
  "knownFields = [''USER_SERIAL_NUM'', ''MAC_ADDR'', ''EEPROM_HASH'', ''CUSTOMER_KEY_HASH'', ''BOOT_ROM'', ''BOARD_ATTR'',
     ''USER_BOARDREV'', ''JTAG_LOCKED'', ''FACTORY_UUID'', ''MAC_WIFI_ADDR'', ''MAC_BT_ADDR'', ''EEPROM_UPDATE'',
     ''SECURE_BOOT_PROVISION'', ''SIGNATURE_MODE'', ''ADVANCED_BOOT'']"

definition optionalUpstreamFields :: "string list" where
  "optionalUpstreamFields = [''EEPROM_UPDATE'', ''SECURE_BOOT_PROVISION'', ''SIGNATURE_MODE'', ''ADVANCED_BOOT'']"

definition requiredFields :: "string list" where
  "requiredFields = [''USER_SERIAL_NUM'', ''MAC_ADDR'', ''CUSTOMER_KEY_HASH'', ''BOOT_ROM'', ''BOARD_ATTR'',
     ''USER_BOARDREV'', ''JTAG_LOCKED'', ''FACTORY_UUID'']"

text \<open>The checks before the fields are normalized.\<close>

definition fields_ok :: "(string, string) gomap \<Rightarrow> metadata_error option" where
  "fields_ok found =
     first_err
       (map (\<lambda>name. fail_if (field_of found name = []) ErrMetadata) requiredFields
        @ [let v = field_of found ''SIGNATURE_MODE'' in fail_if (v \<noteq> [] \<and> v \<noteq> ''0'' \<and> v \<noteq> ''1'') ErrMetadata,
           let v = field_of found ''ADVANCED_BOOT'' in fail_if (v \<noteq> [] \<and> \<not> hex8Pattern v) ErrMetadata]
        @ map (\<lambda>name. let v = field_of found name in fail_if (v \<noteq> [] \<and> \<not> validOperationResult v) ErrMetadata)
            [''EEPROM_UPDATE'', ''SECURE_BOOT_PROVISION''])"

definition distinct_macs :: "string list \<Rightarrow> bool" where
  "distinct_macs macs \<longleftrightarrow> distinct (filter (\<lambda>m. m \<noteq> []) macs)"

definition upstream_fields :: "(string, string) gomap \<Rightarrow> (string, string) gomap" where
  "upstream_fields found =
     map (\<lambda>(name, value). (name, if name = ''SIGNATURE_MODE'' then value else lower_text value))
       (filter (\<lambda>(name, value). name \<in> set optionalUpstreamFields) found)"

definition unknown_fields :: "(string, string) gomap \<Rightarrow> (string, string) gomap" where
  "unknown_fields found =
     filter (\<lambda>(name, value). name \<notin> set optionalUpstreamFields \<and> name \<notin> set knownFields) found"

definition ParseMetadata ::
  "hash \<Rightarrow> (string \<Rightarrow> (string \<times> string option) list option) \<Rightarrow> string \<Rightarrow> metadata_error + Metadata" where
  "ParseMetadata sha256 scan data =
     bindE (parseStringObject scan data MaxMetadataSize MaxMetadataFields) (\<lambda>found.
     orFail (fields_ok found)
     (bindE (normalizeFixedHex (field_of found ''USER_SERIAL_NUM'') hex8Pattern) (\<lambda>serial.
      if isZeroHex serial then Inl ErrMetadata
      else let factoryUUID = lower_text (field_of found ''FACTORY_UUID'') in
      if \<not> factoryUUIDPattern factoryUUID then Inl ErrMetadata
      else if isZeroHex factoryUUID then Inl ErrMetadata
      else bindE (DecodeRevision (field_of found ''USER_BOARDREV'')) (\<lambda>revision.
      bindE (normalizeFixedHex (field_of found ''BOARD_ATTR'') hex8Pattern) (\<lambda>boardAttr.
      bindE (normalizeFixedHex (field_of found ''BOOT_ROM'') hex8Pattern) (\<lambda>bootROM.
      bindE (if field_of found ''EEPROM_HASH'' \<noteq> [] then normalizeFixedHex (field_of found ''EEPROM_HASH'') hex64Pattern
             else Inr []) (\<lambda>eepromHash.
      bindE (normalizeFixedHex (field_of found ''CUSTOMER_KEY_HASH'') hex64Pattern) (\<lambda>keyHash.
      bindE (normalizeMAC (field_of found ''MAC_ADDR'')) (\<lambda>ethernet.
      bindE (normalizeOptionalMAC (field_of found ''MAC_WIFI_ADDR'')) (\<lambda>wifi.
      bindE (normalizeOptionalMAC (field_of found ''MAC_BT_ADDR'')) (\<lambda>bluetooth.
      if \<not> distinct_macs [ethernet, wifi, bluetooth] then Inl ErrMetadata
      else if field_of found ''JTAG_LOCKED'' \<noteq> ''0'' \<and> field_of found ''JTAG_LOCKED'' \<noteq> ''1'' then Inl ErrMetadata
      else Inr \<lparr>md_AdapterID = AdapterID, md_AdapterVersion = MetadataAdapterVersion,
             md_EvidenceDigest = digestBytes sha256 data,
             md_TargetFingerprint = targetFingerprint sha256 factoryUUID serial (rv_Raw revision),
             md_UserSerial = serial, md_FactoryUUID = factoryUUID, md_BoardRevision = revision,
             md_BoardAttributes = boardAttr, md_EthernetMAC = ethernet, md_WiFiMAC = wifi,
             md_BluetoothMAC = bluetooth, md_BootROM = bootROM, md_EEPROMHash = eepromHash,
             md_CustomerKeyHash = keyHash, md_CustomerKeyState = (if isZeroHex keyHash then ''unset'' else ''set''),
             md_VideoCoreJTAGLocked = (field_of found ''JTAG_LOCKED'' = ''1''),
             md_UpstreamFields = upstream_fields found, md_Extensions = unknown_fields found,
             md_UnknownFields = sort (map fst (unknown_fields found)),
             md_MutationSuccess = mutationSuccessFields found\<rparr>)))))))))))"

end
