(* ===== verification/Power_Lease.thy ===== *)
theory Power_Lease
  imports Prelude
begin

text \<open>
  The power lease of the Raspberry Pi 5 adapter (\<^verbatim>\<open>physicalrpi5/system.go\<close>): one \<^verbatim>\<open>gpioset\<close> process holds the relay
  line active; a release stops and reaps that process and then drives the line inactive. What the
  operating system answers is the environment of a call. Errors are lists of classes, \<open>[]\<close> for nil.
\<close>

section \<open>Data\<close>

text \<open>How the holder ended: with status 0, by a signal, or in another way.\<close>

datatype holder_wait = WaitZero | WaitTerm | WaitKill | WaitOther

text \<open>What sending a signal answers.\<close>

datatype signal_reply = SignalSent | SignalProcessDone | SignalFails

record execPowerLease =
  pl_holderStopAttempted :: bool
  pl_holderTermSignaled :: bool
  pl_holderKillSignaled :: bool
  pl_holderDone :: bool
  pl_holderErr :: bool
  pl_released :: bool

definition new_lease :: execPowerLease where
  "new_lease = \<lparr>pl_holderStopAttempted = False, pl_holderTermSignaled = False, pl_holderKillSignaled = False,
     pl_holderDone = False, pl_holderErr = False, pl_released = False\<rparr>"

text \<open>The answers during one release: the poll of the waiter, the two signals, the two bounded waits (\<open>None\<close> when
  the time runs out) and whether the inactive \<^verbatim>\<open>gpioset\<close> fails.\<close>

record release_env =
  rv_poll :: "holder_wait option"
  rv_term :: signal_reply
  rv_termWait :: "holder_wait option"
  rv_kill :: signal_reply
  rv_killWait :: "holder_wait option"
  rv_inactiveFails :: bool

section \<open>Release\<close>

definition expectedProcessDone :: "signal_reply \<Rightarrow> execPowerLease \<Rightarrow> bool" where
  "expectedProcessDone err lease \<longleftrightarrow>
     err = SignalProcessDone \<and> (pl_holderTermSignaled lease \<or> pl_holderKillSignaled lease)"

text \<open>True for an error.\<close>

definition classifyHolderWait :: "holder_wait \<Rightarrow> execPowerLease \<Rightarrow> bool" where
  "classifyHolderWait waitErr lease =
     (let normalTermination = waitErr = WaitTerm \<and> pl_holderTermSignaled lease;
          forcedTermination = waitErr = WaitKill \<and> pl_holderKillSignaled lease
      in waitErr = WaitZero \<or> waitErr = WaitOther \<or> (\<not> normalTermination \<and> \<not> forcedTermination))"

text \<open>Whether the holder is reaped, whether there is an error, and the lease.\<close>

definition stopAndReapHolder :: "release_env \<Rightarrow> execPowerLease \<Rightarrow> bool \<times> bool \<times> execPowerLease" where
  "stopAndReapHolder v lease =
     (case (if pl_holderStopAttempted lease then rv_poll v else None) of
        Some waitErr \<Rightarrow> (True, classifyHolderWait waitErr lease, lease)
      | None \<Rightarrow>
          let lease = lease\<lparr>pl_holderStopAttempted := True\<rparr>;
              early = (rv_term v \<noteq> SignalSent \<and> \<not> expectedProcessDone (rv_term v) lease);
              lease = (if rv_term v = SignalSent then lease\<lparr>pl_holderTermSignaled := True\<rparr> else lease)
          in (case rv_termWait v of
                Some waitErr \<Rightarrow> (True, early \<or> classifyHolderWait waitErr lease, lease)
              | None \<Rightarrow>
                  let lease = (if rv_kill v = SignalSent then lease\<lparr>pl_holderKillSignaled := True\<rparr> else lease)
                  in (case rv_killWait v of
                        Some waitErr \<Rightarrow> (True, True, lease)
                      | None \<Rightarrow> (False, True, lease))))"

text \<open>The error and the lease\<close>

definition Lease_Release :: "release_env \<Rightarrow> execPowerLease \<Rightarrow> bool \<times> execPowerLease" where
  "Lease_Release v lease =
     (if pl_released lease then (pl_holderErr lease, lease)
      else let lease = (if \<not> pl_holderDone lease
                        then (case stopAndReapHolder v lease of (reaped, holderErr, l) \<Rightarrow>
                                l\<lparr>pl_holderErr := pl_holderErr l \<or> holderErr, pl_holderDone := reaped\<rparr>)
                        else lease);
               inactiveErr = rv_inactiveFails v;
               lease = (if pl_holderDone lease \<and> \<not> inactiveErr then lease\<lparr>pl_released := True\<rparr> else lease)
           in (pl_holderErr lease \<or> inactiveErr, lease))"

definition cleanupPending :: "execPowerLease \<Rightarrow> bool" where
  "cleanupPending lease \<longleftrightarrow> \<not> pl_released lease"

section \<open>Acquisition\<close>

text \<open>What acquiring the line comes to: the process acknowledges it, or its acknowledgement fails, or the context ends
  first, by its deadline or because it is cancelled.\<close>

datatype acquire_reply = Acknowledged | Unacknowledged | AcquireExpired | AcquireCancelled

text \<open>Whether the process cannot be started; its reply; the answers of the cleanup.\<close>

record acquire_env =
  aq_startFails :: bool
  aq_reply :: acquire_reply
  aq_cleanup :: release_env

text \<open>The error of an acquisition, as far as its callers tell it apart: \<open>AcquireDeadline\<close> wraps \<^verbatim>\<open>context.DeadlineExceeded\<close>.\<close>

datatype acquire_error = AcquireFailed | AcquireDeadline

definition finishFailedGPIOAcquire :: "release_env \<Rightarrow> execPowerLease \<Rightarrow> execPowerLease option" where
  "finishFailedGPIOAcquire v lease =
     (let lease = snd (Lease_Release v lease) in if cleanupPending lease then Some lease else None)"

text \<open>The lease and the error\<close>

definition AcquirePower :: "acquire_env \<Rightarrow> execPowerLease option \<times> acquire_error option" where
  "AcquirePower v =
     (if aq_startFails v then (None, Some AcquireFailed)
      else (case aq_reply v of
              Acknowledged \<Rightarrow> (Some new_lease, None)
            | Unacknowledged \<Rightarrow> (finishFailedGPIOAcquire (aq_cleanup v) new_lease, Some AcquireFailed)
            | AcquireCancelled \<Rightarrow> (finishFailedGPIOAcquire (aq_cleanup v) new_lease, Some AcquireFailed)
            | AcquireExpired \<Rightarrow> (finishFailedGPIOAcquire (aq_cleanup v) new_lease, Some AcquireDeadline)))"

section \<open>Facts\<close>

text \<open>A release without an error ends with the holder reaped and the line driven inactive.\<close>

lemma Lease_ok:
  "Lease_Release v lease = (False, lease') \<Longrightarrow> pl_released lease' \<and> (\<not> pl_released lease \<longrightarrow> \<not> rv_inactiveFails v)"
  by (auto simp: Lease_Release_def Let_def stopAndReapHolder_def split: if_splits prod.splits option.splits)

text \<open>An error of the holder is never forgotten.\<close>

lemma Lease_sticky: "pl_holderErr lease \<Longrightarrow> fst (Lease_Release v lease) \<and> pl_holderErr (snd (Lease_Release v lease))"
  by (auto simp: Lease_Release_def Let_def stopAndReapHolder_def split: if_splits prod.splits option.splits)

text \<open>The first release of a lease accounts for the holder exactly when the holder took the signal and was reaped as ended
  by it; otherwise it fails and keeps the error.\<close>

lemma Lease_first_stop:
  "pl_holderErr (snd (Lease_Release v new_lease)) \<longleftrightarrow> \<not> (rv_term v = SignalSent \<and> rv_termWait v = Some WaitTerm)"
  "pl_holderErr (snd (Lease_Release v new_lease)) \<Longrightarrow> fst (Lease_Release v new_lease)"
  by (auto simp: Lease_Release_def new_lease_def stopAndReapHolder_def expectedProcessDone_def classifyHolderWait_def Let_def
      split: option.splits holder_wait.splits)

text \<open>A released lease stays as it is.\<close>

lemma Lease_released: "pl_released lease \<Longrightarrow> Lease_Release v lease = (pl_holderErr lease, lease)"
  by (simp add: Lease_Release_def)

lemma AcquirePower_ok: "AcquirePower v = (lease, None) \<Longrightarrow> lease = Some new_lease"
  by (auto simp: AcquirePower_def split: if_splits acquire_reply.splits)

end
