(* ===== verification/Adapter_Env.thy ===== *)
theory Adapter_Env
  imports Operator_Prompt Board_Metadata Power_Lease "HOL-Library.State_Monad"
begin

text \<open>
  The Raspberry Pi 5 adapter without its control flow: configuration (\<^verbatim>\<open>physicalrpi5/config.go\<close>), the state
  of the adapter, what it takes from outside, the reading of the USB topology and of the UART evidence
  (\<^verbatim>\<open>adapter.go\<close>, \<^verbatim>\<open>system.go\<close>).
\<close>

section \<open>Errors\<close>

text \<open>The classes that \<^verbatim>\<open>errors.Is\<close> can tell; an error is the list of its classes, \<open>[]\<close> for nil.\<close>

datatype adapter_error =
    ErrNoRPIBootTarget | ErrAmbiguousTargets | ErrUnexpectedTarget | ErrWrongBootMode | ErrMetadataMismatch
  | ErrBootEvidence | ErrUARTTestEvidence | ErrRestartRecovered | ErrPromptExpired | ErrDeadlineExceeded
  | ErrGuard guard_error | ErrAdapter

section \<open>Failures\<close>

definition BootTransitionFailureOperatorTimeout :: BootTransitionFailure where
  "BootTransitionFailureOperatorTimeout = ''operator_timeout''"
definition BootTransitionFailureOperatorRejected :: BootTransitionFailure where
  "BootTransitionFailureOperatorRejected = ''operator_rejected''"
definition BootTransitionFailureModeTimeout :: BootTransitionFailure where
  "BootTransitionFailureModeTimeout = ''mode_timeout''"
definition BootTransitionFailureWrongMode :: BootTransitionFailure where
  "BootTransitionFailureWrongMode = ''wrong_mode''"
definition BootTransitionFailureTargetContinuity :: BootTransitionFailure where
  "BootTransitionFailureTargetContinuity = ''target_continuity''"
definition BootTransitionFailureHardware :: BootTransitionFailure where
  "BootTransitionFailureHardware = ''hardware_error''"

section \<open>Configuration\<close>

definition ModeFresh :: string where "ModeFresh = ''fresh''"
definition ModeOwned :: string where "ModeOwned = ''owned''"
definition ModeAuto :: string where "ModeAuto = ''auto_reconcile''"

record ImmutablePaths =
  ip_RPIBootBinary :: string
  ip_GPIOSetBinary :: string
  ip_FreshReadbackBundle :: string
  ip_FreshCommitBundle :: string
  ip_OwnedReadbackBundle :: string
  ip_OwnedRecoveryBundle :: string
  ip_NegativeBootBundle :: string
  ip_RootIntegrityBundle :: string
  ip_RequireNixStorePaths :: bool

record AdapterConfig =
  ag_Paths :: ImmutablePaths
  ag_PowerControl :: string
  ag_InitialMode :: string
  ag_ExpectedCustomerKeyHash :: string
  ag_ExpectedEEPROMHash :: string
  ag_ExpectedBootImageDigest :: string
  ag_CommandTimeout :: duration
  ag_UARTTimeout :: duration
  ag_USBDisappearTimeout :: duration
  ag_USBReappearTimeout :: duration
  ag_USBPollInterval :: duration
  ag_MinimumColdInterval :: duration
  ag_OperatorPromptTimeout :: duration
  ag_CleanupTimeout :: duration
  ag_MaximumOutputBytes :: int

definition path_values :: "ImmutablePaths \<Rightarrow> string list" where
  "path_values paths =
     [ip_RPIBootBinary paths, ip_GPIOSetBinary paths, ip_FreshReadbackBundle paths, ip_FreshCommitBundle paths,
      ip_OwnedReadbackBundle paths, ip_OwnedRecoveryBundle paths, ip_NegativeBootBundle paths,
      ip_RootIntegrityBundle paths]"

text \<open>\<^verbatim>\<open>^/nix/store/[0-9abcdfghijklmnpqrsvwxyz]{32}-[^/]+(?:/.*)?$\<close>; the last dot does not match a newline.\<close>

definition nixStorePathPattern :: "string \<Rightarrow> bool" where
  "nixStorePathPattern s =
     (let prefix = ''/nix/store/''; hashed = drop (length prefix) s; named = drop 33 hashed;
          name = takeWhile (\<lambda>c. c \<noteq> CHR ''/'') named; rest = drop (length name) named in
      hasPrefix s prefix \<and> length hashed > 32
      \<and> list_all (\<lambda>c. c \<in> List.set ''0123456789abcdfghijklmnpqrsvwxyz'') (take 32 hashed)
      \<and> hashed ! 32 = CHR ''-'' \<and> name \<noteq> [] \<and> char_of (10 :: nat) \<notin> List.set (drop 1 rest))"

definition ImmutablePaths_Validate :: "ImmutablePaths \<Rightarrow> bool" where
  "ImmutablePaths_Validate paths =
     list_all (\<lambda>value. \<not> (value = [] \<or> \<not> hasPrefix value ''/'' \<or> path_Clean value \<noteq> value)
                 \<and> \<not> (ip_RequireNixStorePaths paths \<and> \<not> nixStorePathPattern value)) (path_values paths)"

definition millisecond :: duration where "millisecond = 10 ^ 6"

definition applyDefaults :: "AdapterConfig \<Rightarrow> AdapterConfig" where
  "applyDefaults config =
     (let d = (\<lambda>value default. if value = 0 then default else value);
          power = (if ag_PowerControl config = [] then PowerControlRelay else ag_PowerControl config);
          disappear = d (ag_USBDisappearTimeout config) (15 * second);
          prompt = d (ag_OperatorPromptTimeout config) (2 * 60 * second)
      in config\<lparr>ag_PowerControl := power,
           ag_CommandTimeout := d (ag_CommandTimeout config) (2 * 60 * second),
           ag_UARTTimeout := d (ag_UARTTimeout config) (90 * second),
           ag_USBDisappearTimeout := disappear,
           ag_USBReappearTimeout := d (ag_USBReappearTimeout config) (30 * second),
           ag_USBPollInterval := d (ag_USBPollInterval config) (50 * millisecond),
           ag_MinimumColdInterval := d (ag_MinimumColdInterval config) (2 * second),
           ag_OperatorPromptTimeout := prompt,
           ag_CleanupTimeout := d (ag_CleanupTimeout config)
             (if power = PowerControlManual then prompt + disappear else 30 * second),
           ag_MaximumOutputBytes := d (ag_MaximumOutputBytes config) (256 * 1024)\<rparr>)"

definition hexDigestPattern :: "string \<Rightarrow> bool" where
  "hexDigestPattern s \<longleftrightarrow> length s = 64 \<and> list_all (\<lambda>c. c \<in> List.set ''0123456789abcdef'') s"

definition AdapterConfig_Validate :: "AdapterConfig \<Rightarrow> bool" where
  "AdapterConfig_Validate config =
     (ImmutablePaths_Validate (ag_Paths config)
      \<and> \<not> (ag_InitialMode config \<noteq> ModeFresh \<and> ag_InitialMode config \<noteq> ModeOwned \<and> ag_InitialMode config \<noteq> ModeAuto)
      \<and> \<not> (ag_PowerControl config \<noteq> PowerControlRelay \<and> ag_PowerControl config \<noteq> PowerControlManual)
      \<and> list_all hexDigestPattern [ag_ExpectedCustomerKeyHash config, ag_ExpectedEEPROMHash config]
      \<and> digestPattern (ag_ExpectedBootImageDigest config)
      \<and> list_all (\<lambda>value. \<not> (value \<le> 0 \<or> value > 10 * 60 * second))
          [ag_CommandTimeout config, ag_UARTTimeout config, ag_USBDisappearTimeout config, ag_USBReappearTimeout config,
           ag_USBPollInterval config, ag_MinimumColdInterval config, ag_OperatorPromptTimeout config,
           ag_CleanupTimeout config]
      \<and> \<not> (ag_MaximumOutputBytes config < 1024 \<or> ag_MaximumOutputBytes config > 4 * 1024 * 1024))"

definition normalizeDigest :: "string \<Rightarrow> string" where
  "normalizeDigest value = (if hasPrefix value ''sha256:'' then drop (length ''sha256:'') value else value)"

section \<open>USB topology\<close>

text \<open>One entry of the sysfs directory: its name, what its two attributes read, and whether the context has
  ended when the loop comes to it.\<close>

record sysfs_entry =
  se_Name :: string
  se_Vendor :: "string option"
  se_Product :: "string option"
  se_done :: bool

record usbTopology =
  ut_expectedPresent :: bool
  ut_eligible :: "string list"

definition broadcomVendorID :: string where "broadcomVendorID = ''0a5c''"
definition bcm2712ProductID :: string where "bcm2712ProductID = ''2712''"
definition zeroCustomerKey :: string where "zeroCustomerKey = replicate 64 (CHR ''0'')"

text \<open>\<^verbatim>\<open>filepath.Dir\<close>, \<^verbatim>\<open>filepath.Base\<close> and \<^verbatim>\<open>filepath.Join\<close> of two elements\<close>

definition path_Dir :: "string \<Rightarrow> string" where
  "path_Dir path = path_Clean (rev (dropWhile (\<lambda>c. c \<noteq> CHR ''/'') (rev path)))"

definition path_Base :: "string \<Rightarrow> string" where
  "path_Base path =
     (let trimmed = rev (dropWhile (\<lambda>c. c = CHR ''/'') (rev path)) in
      if path = [] then ''.'' else if trimmed = [] then ''/''
      else rev (takeWhile (\<lambda>c. c \<noteq> CHR ''/'') (rev trimmed)))"

definition path_Join :: "string \<Rightarrow> string \<Rightarrow> string" where
  "path_Join dir name = path_Clean (dir @ ''/'' @ name)"

fun topology_loop :: "string \<Rightarrow> string \<Rightarrow> bool \<Rightarrow> usbTopology \<Rightarrow> sysfs_entry list \<Rightarrow> adapter_error list + usbTopology" where
  "topology_loop root expectedPath strict result [] = Inr (result\<lparr>ut_eligible := sort (ut_eligible result)\<rparr>)"
| "topology_loop root expectedPath strict result (entry # rest) =
     (if se_done entry then Inl [ErrAdapter]
      else let base = path_Join root (se_Name entry); expected = (base = expectedPath);
               result = (if expected then result\<lparr>ut_expectedPresent := True\<rparr> else result)
           in (case (se_Vendor entry, se_Product entry) of
                 (Some vendor, Some product) \<Rightarrow>
                   topology_loop root expectedPath strict
                     (if EqualFold (TrimSpace vendor) broadcomVendorID \<and> EqualFold (TrimSpace product) bcm2712ProductID
                      then result\<lparr>ut_eligible := ut_eligible result @ [base]\<rparr> else result) rest
               | _ \<Rightarrow> if expected \<and> strict then Inl [ErrAdapter]
                      else topology_loop root expectedPath strict result rest))"

text \<open>\<open>entries\<close> is what \<^verbatim>\<open>ReadDir\<close> returned, \<open>None\<close> for an error.\<close>

definition inspectUSBTopology ::
  "string \<Rightarrow> bool \<Rightarrow> sysfs_entry list option \<Rightarrow> adapter_error list + usbTopology" where
  "inspectUSBTopology expectedPath strict entries =
     (case entries of
        None \<Rightarrow> Inl [ErrAdapter]
      | Some es \<Rightarrow> topology_loop (path_Dir expectedPath) expectedPath strict
                    \<lparr>ut_expectedPresent = False, ut_eligible = []\<rparr> es)"

text \<open>Exactly the expected target, and no target at all.\<close>

definition exact_target :: "string \<Rightarrow> usbTopology \<Rightarrow> bool" where
  "exact_target expectedPath topology \<longleftrightarrow> ut_expectedPresent topology \<and> ut_eligible topology = [expectedPath]"

definition no_target :: "usbTopology \<Rightarrow> bool" where
  "no_target topology \<longleftrightarrow> \<not> ut_expectedPresent topology \<and> length (ut_eligible topology) = 0"

definition require_exact :: "string \<Rightarrow> usbTopology \<Rightarrow> adapter_error list" where
  "require_exact expectedPath topology =
     (if no_target topology then [ErrNoRPIBootTarget]
      else if length (ut_eligible topology) > 1 then [ErrAmbiguousTargets]
      else if \<not> exact_target expectedPath topology then [ErrUnexpectedTarget] else [])"

section \<open>Evidence on the UART\<close>

definition signedBootMarker :: string where "signedBootMarker = ''KAIBA_SECURE_BOOT_EVIDENCE=pass''"
definition negativeBootProof :: string where "negativeBootProof = ''KAIBA_NEGATIVE_BOOT_REJECTED''"
definition rootIntegrityProof :: string where "rootIntegrityProof = ''KAIBA_ROOT_INTEGRITY_REJECTED''"

definition evidence_lines :: "string \<Rightarrow> string list" where
  "evidence_lines evidence = map (trim_suffix (char_of (13 :: nat))) (split_lines evidence)"

text \<open>\<^verbatim>\<open>strings.Cut\<close> at the first equals sign\<close>

definition cut_equals :: "string \<Rightarrow> (string \<times> string) option" where
  "cut_equals field =
     (let key = takeWhile (\<lambda>c. c \<noteq> CHR ''='') field
      in if length key = length field then None else Some (key, drop (length key + 1) field))"

fun pass_fields :: "(string, string) gomap \<Rightarrow> string list \<Rightarrow> (string, string) gomap option" where
  "pass_fields values [] = Some values"
| "pass_fields values (field # rest) =
     (case cut_equals field of
        None \<Rightarrow> None
      | Some (key, value) \<Rightarrow>
          if key = [] \<or> value = [] then None
          else if map_get values key \<noteq> None then None
          else pass_fields (values @ [(key, value)]) rest)"

unbundle bit_operations_syntax

text \<open>\<^verbatim>\<open>strconv.ParseUint(signed, 16, 32)\<close> of eight characters\<close>

definition signed_value :: "string \<Rightarrow> uint32 option" where
  "signed_value digits = (if list_all is_hex digits then Some (of_nat (hex_number 0 digits)) else None)"

definition validateSignedBootEvidence :: "string \<Rightarrow> string \<Rightarrow> adapter_error list" where
  "validateSignedBootEvidence evidence expectedDigest =
     (case filter (\<lambda>line. hasPrefix line signedBootMarker) (evidence_lines evidence) of
        [] \<Rightarrow> [ErrBootEvidence]
      | [record'] \<Rightarrow>
          (let found = Fields record' in
           if length found \<noteq> 6 \<or> found ! 0 \<noteq> signedBootMarker then [ErrBootEvidence]
           else (case pass_fields [] (drop 1 found) of
                   None \<Rightarrow> [ErrBootEvidence]
                 | Some values \<Rightarrow>
                     let v = field_of values; signedText = v ''signed'' in
                     if length values \<noteq> 5 \<or> v ''boot_img_sha256'' \<noteq> expectedDigest \<or> v ''root'' \<noteq> ''/dev/mapper/root''
                        \<or> v ''rollback'' \<noteq> ''unimplemented'' \<or> v ''enrollment_ready'' \<noteq> ''false''
                     then [ErrBootEvidence]
                     else if length signedText \<noteq> 8 \<or> lower_text signedText \<noteq> signedText then [ErrBootEvidence]
                     else (case signed_value signedText of
                             None \<Rightarrow> [ErrBootEvidence]
                           | Some n \<Rightarrow> if n AND 8 \<noteq> 8 then [ErrBootEvidence] else [])))
      | _ \<Rightarrow> [ErrBootEvidence])"

definition validateExactMarkerEvidence :: "string \<Rightarrow> string \<Rightarrow> adapter_error list" where
  "validateExactMarkerEvidence evidence expected =
     (if length (filter (\<lambda>line. line = expected) (evidence_lines evidence)) \<noteq> 1 then [ErrUARTTestEvidence] else [])"

section \<open>The adapter and its environment\<close>

text \<open>A started program: what it writes to its two outputs, in chunks, and how it ends.\<close>

record run_reply =
  rn_stdout :: "string list"
  rn_stderr :: "string list"
  rn_err :: "adapter_error list"

text \<open>What the adapter does to the outside: it starts a program with arguments (the journal as it is then and what the
  program does go with the event), takes and releases the power line, shows a prompt, looks at the USB topology and changes the
  journal.\<close>

datatype adapter_event =
    EvRun string "string list" lane_store run_reply | EvPower GPIODescriptor | EvRelease | EvPrompt Prompt | EvTopology usbTopology | EvJournal boot_op

text \<open>The adapter's fields, then the world: how many answers were taken from the environment, the journal and
  the events so far.\<close>

record rig =
  ad_lane :: "Config option"
  ad_target :: "Metadata option"
  ad_directState :: DirectState
  ad_lastUART :: string
  ad_mode :: string
  ad_power :: "execPowerLease option"
  ad_usbPin :: bool
  rg_step :: nat
  rg_store :: lane_store
  rg_log :: "adapter_event list"

type_synonym 'a io = "(rig, 'a) state"

text \<open>A capture on the UART: the errors of opening, of reading and setting the line settings and of the flush, then
  the reads (the bytes, an error other than an empty line, the end of the context at the following sleep), and
  the errors of restoring and closing.\<close>

record uart_reply =
  ur_open :: "adapter_error list"
  ur_get :: "adapter_error list"
  ur_set :: "adapter_error list"
  ur_flush :: "adapter_error list"
  ur_reads :: "(string \<times> adapter_error list \<times> adapter_error list) list"
  ur_restore :: "adapter_error list"
  ur_close :: "adapter_error list"

text \<open>The environment of a call: the \<open>n\<close>th answer of each kind. \<open>ae_polls\<close> is how often a wait can sleep before
  its deadline ends it; \<open>ae_watch\<close> are the polls that the watcher makes in the background, each with the time
  it records.\<close>

record adapter_env =
  ae_config :: AdapterConfig
  ae_lane :: lane_env
  ae_valid :: "string \<Rightarrow> bool"
  ae_scan :: "string \<Rightarrow> (string \<times> string option) list option"
  ae_guarded :: bool
  ae_pinner :: bool
  ae_clock :: "nat \<Rightarrow> instant"
  ae_done :: "nat \<Rightarrow> bool"
  ae_deadline :: "nat \<Rightarrow> instant option"
  ae_sleep :: "nat \<Rightarrow> adapter_error list"
  ae_polls :: "nat \<Rightarrow> nat"
  ae_fault :: "nat \<Rightarrow> store_fault option"
  ae_present :: "nat \<Rightarrow> Prompt \<Rightarrow> adapter_error list + Acknowledgement"
  ae_sysfs :: "nat \<Rightarrow> sysfs_entry list option"
  ae_watch :: "nat \<Rightarrow> (sysfs_entry list option \<times> instant) list"
  ae_acquire :: "nat \<Rightarrow> acquire_env"
  ae_release :: "nat \<Rightarrow> release_env"
  ae_pin :: "nat \<Rightarrow> adapter_error list"
  ae_verify :: "nat \<Rightarrow> adapter_error list"
  ae_run :: "nat \<Rightarrow> run_reply"
  ae_uart :: "nat \<Rightarrow> uart_reply"

definition directState :: "Metadata \<Rightarrow> string \<Rightarrow> DirectState" where
  "directState observation powerState =
     (let state = \<lparr>ds_CustomerKeyHash = ''sha256:'' @ md_CustomerKeyHash observation, ds_EEPROMHash = [],
            ds_EEPROMHashStatus = EEPROMHashUnavailable,
            ds_SecurityState = (if md_CustomerKeyHash observation = zeroCustomerKey then ''fresh'' else ''owned''),
            ds_PowerState = powerState\<rparr>
      in if md_EEPROMHash observation \<noteq> []
         then state\<lparr>ds_EEPROMHashStatus := EEPROMHashObserved, ds_EEPROMHash := ''sha256:'' @ md_EEPROMHash observation\<rparr>
         else state)"

definition validatePromptAcknowledgement :: "Prompt \<Rightarrow> Acknowledgement \<Rightarrow> instant \<Rightarrow> adapter_error list" where
  "validatePromptAcknowledgement prompt acknowledgement notBefore =
     (if ak_SchemaVersion acknowledgement \<noteq> AcknowledgementSchemaVersion
         \<or> ak_PromptID acknowledgement \<noteq> pm_ID prompt \<or> ak_PromptDigest acknowledgement \<noteq> pm_Digest prompt
         \<or> pe_PID (ak_Peer acknowledgement) \<le> 0
         \<or> ak_AcknowledgedAt acknowledgement < notBefore
         \<or> \<not> ak_AcknowledgedAt acknowledgement < pm_ExpiresAt prompt then [ErrAdapter] else [])"

definition prompt_material :: "HardwareAction \<Rightarrow> Kind \<Rightarrow> instant \<Rightarrow> json" where
  "prompt_material action kind expiresAt = JObj
     [(''action'', json_of_HardwareAction action), (''kind'', JStr (Kind_string kind)),
      (''expires_at'', JTime (utc expiresAt))]"

definition newPrompt ::
  "hash \<Rightarrow> HardwareAction \<Rightarrow> Kind \<Rightarrow> string \<Rightarrow> instant \<Rightarrow> adapter_error list + Prompt" where
  "newPrompt sha256 action kind instructions expiresAt =
     (if \<not> marshals (prompt_material action kind expiresAt) then Inl [ErrAdapter]
      else let digest = sha256 (render (prompt_material action kind expiresAt));
               promptID = ''boot-'' @ Kind_string kind @ ''-'' @ hex_encode (take 8 digest)
           in (case Prompt_New sha256 action kind promptID instructions expiresAt of
                 Inl err \<Rightarrow> Inl [ErrGuard err] | Inr prompt \<Rightarrow> Inr prompt))"

end
