(* ===== verification/Adapter_Steps.thy ===== *)
theory Adapter_Steps
  imports Adapter_Env
begin

text \<open>
  The steps that the adapter's transitions are made of (\<^verbatim>\<open>physicalrpi5/adapter.go\<close>, \<^verbatim>\<open>system.go\<close>): the clock, the
  journal, the USB topology, power, prompts, safe-off, the UART and the start of \<^verbatim>\<open>rpiboot\<close>. The adapter's mutex
  makes a call atomic; a call is a computation over the rig. Every answer of the environment costs one
  step, so two readings never share an answer.
\<close>

section \<open>Primitive actions\<close>

definition tick :: "nat io" where
  "tick = State (\<lambda>s. (rg_step s, s\<lparr>rg_step := Suc (rg_step s)\<rparr>))"

definition ask :: "(nat \<Rightarrow> 'a) \<Rightarrow> 'a io" where
  "ask answer = do { n \<leftarrow> tick; State_Monad.return (answer n) }"

definition gets :: "(rig \<Rightarrow> 'a) \<Rightarrow> 'a io" where
  "gets f = State (\<lambda>s. (f s, s))"

definition modify :: "(rig \<Rightarrow> rig) \<Rightarrow> unit io" where
  "modify f = State (\<lambda>s. ((), f s))"

definition emit :: "adapter_event \<Rightarrow> unit io" where
  "emit event = modify (\<lambda>s. s\<lparr>rg_log := rg_log s @ [event]\<rparr>)"

definition now :: "adapter_env \<Rightarrow> instant io" where
  "now e = ask (ae_clock e)"

definition atLeast :: "adapter_env \<Rightarrow> instant list \<Rightarrow> instant io" where
  "atLeast e instants = do {
     result \<leftarrow> now e;
     State_Monad.return (foldl (\<lambda>result time. if time > result then time else result) result instants) }"

section \<open>Journal\<close>

definition of_guard :: "guard_error option \<Rightarrow> adapter_error list" where
  "of_guard err = (case err of None \<Rightarrow> [] | Some x \<Rightarrow> [ErrGuard x])"

definition journal_PutBootTransition :: "adapter_env \<Rightarrow> BootTransition \<Rightarrow> adapter_error list io" where
  "journal_PutBootTransition e transition = do {
     fault \<leftarrow> ask (ae_fault e);
     s \<leftarrow> gets rg_store;
     emit (EvJournal (PutOp fault transition));
     let (err, s') = Store_PutBootTransition (ae_lane e) fault transition s;
     modify (\<lambda>r. r\<lparr>rg_store := s'\<rparr>);
     State_Monad.return (of_guard err) }"

definition journal_BeginBootTransition ::
  "adapter_env \<Rightarrow> BeginBootTransitionRequest \<Rightarrow> (adapter_error list + BootTransition) io" where
  "journal_BeginBootTransition e request = do {
     fault \<leftarrow> ask (ae_fault e);
     s \<leftarrow> gets rg_store;
     emit (EvJournal (BeginOp fault request));
     let (begun, s') = Store_BeginBootTransition (ae_lane e) fault request s;
     modify (\<lambda>r. r\<lparr>rg_store := s'\<rparr>);
     State_Monad.return (case begun of Inl err \<Rightarrow> Inl [ErrGuard err] | Inr transition \<Rightarrow> Inr transition) }"

definition journal_read ::
  "adapter_env \<Rightarrow> (store_fault option \<Rightarrow> lane_store \<Rightarrow> guard_error + 'a) \<Rightarrow> (adapter_error list + 'a) io" where
  "journal_read e read = do {
     fault \<leftarrow> ask (ae_fault e);
     s \<leftarrow> gets rg_store;
     State_Monad.return (case read fault s of Inl err \<Rightarrow> Inl [ErrGuard err] | Inr x \<Rightarrow> Inr x) }"

definition journal_GetBootTransition ::
  "adapter_env \<Rightarrow> string \<Rightarrow> (adapter_error list + BootTransition option) io" where
  "journal_GetBootTransition e key = journal_read e (\<lambda>fault. Store_GetBootTransition (ae_lane e) fault key)"

definition journal_IncompleteBootTransitions ::
  "adapter_env \<Rightarrow> (adapter_error list + BootTransition list) io" where
  "journal_IncompleteBootTransitions e = journal_read e (Store_IncompleteBootTransitions (ae_lane e))"

definition journal_HasQuarantinedBootTransition :: "adapter_env \<Rightarrow> (adapter_error list + bool) io" where
  "journal_HasQuarantinedBootTransition e = journal_read e (Store_HasQuarantinedBootTransition (ae_lane e))"

section \<open>USB topology\<close>

definition look_at :: "string \<Rightarrow> bool \<Rightarrow> sysfs_entry list option \<Rightarrow> (adapter_error list + usbTopology) io" where
  "look_at expectedPath strict entries =
     (case inspectUSBTopology expectedPath strict entries of
        Inl err \<Rightarrow> State_Monad.return (Inl err)
      | Inr topology \<Rightarrow> do { emit (EvTopology topology); State_Monad.return (Inr topology) })"

definition look :: "adapter_env \<Rightarrow> string \<Rightarrow> bool \<Rightarrow> (adapter_error list + usbTopology) io" where
  "look e expectedPath strict = do {
     entries \<leftarrow> ask (ae_sysfs e);
     look_at expectedPath strict entries }"

text \<open>The two waits poll until the topology is decided, or until a sleep reports that the bounded context has
  ended. The polls that the bound leaves room for are the answer of the environment at the start.\<close>

definition appear_step :: "adapter_env \<Rightarrow> string \<Rightarrow> adapter_error list io \<Rightarrow> adapter_error list io" where
  "appear_step e expectedPath retry = do {
     topology \<leftarrow> look e expectedPath True;
     case topology of
       Inl err \<Rightarrow> State_Monad.return err
     | Inr topology \<Rightarrow>
         if exact_target expectedPath topology then State_Monad.return []
         else if no_target topology then do {
           err \<leftarrow> ask (ae_sleep e);
           if err \<noteq> [] then State_Monad.return (ErrNoRPIBootTarget # err) else retry }
         else if length (ut_eligible topology) > 1 then State_Monad.return [ErrAmbiguousTargets]
         else State_Monad.return [ErrUnexpectedTarget] }"

fun appear_loop :: "adapter_env \<Rightarrow> string \<Rightarrow> nat \<Rightarrow> adapter_error list io" where
  "appear_loop e expectedPath 0 =
     appear_step e expectedPath (State_Monad.return [ErrNoRPIBootTarget, ErrDeadlineExceeded])"
| "appear_loop e expectedPath (Suc k) = appear_step e expectedPath (appear_loop e expectedPath k)"

definition waitForExpectedTarget :: "adapter_env \<Rightarrow> string \<Rightarrow> adapter_error list io" where
  "waitForExpectedTarget e expectedPath = do { k \<leftarrow> ask (ae_polls e); appear_loop e expectedPath k }"

definition disappear_step :: "adapter_env \<Rightarrow> string \<Rightarrow> adapter_error list io \<Rightarrow> adapter_error list io" where
  "disappear_step e expectedPath retry = do {
     topology \<leftarrow> look e expectedPath True;
     case topology of
       Inl err \<Rightarrow> State_Monad.return (ErrAdapter # err)
     | Inr topology \<Rightarrow>
         if no_target topology then State_Monad.return []
         else if \<not> exact_target expectedPath topology then State_Monad.return [ErrUnexpectedTarget]
         else do {
           err \<leftarrow> ask (ae_sleep e);
           if err \<noteq> [] then State_Monad.return (ErrAdapter # err) else retry } }"

fun disappear_loop :: "adapter_env \<Rightarrow> string \<Rightarrow> nat \<Rightarrow> adapter_error list io" where
  "disappear_loop e expectedPath 0 =
     disappear_step e expectedPath (State_Monad.return [ErrAdapter, ErrDeadlineExceeded])"
| "disappear_loop e expectedPath (Suc k) = disappear_step e expectedPath (disappear_loop e expectedPath k)"

definition waitForDisappearance :: "adapter_env \<Rightarrow> string \<Rightarrow> adapter_error list io" where
  "waitForDisappearance e expectedPath = do { k \<leftarrow> ask (ae_polls e); disappear_loop e expectedPath k }"

definition requireExactTarget :: "adapter_env \<Rightarrow> string \<Rightarrow> adapter_error list io" where
  "requireExactTarget e expectedPath = do {
     topology \<leftarrow> look e expectedPath True;
     State_Monad.return (case topology of Inl err \<Rightarrow> err | Inr topology \<Rightarrow> require_exact expectedPath topology) }"

definition no_targets_in :: "string \<Rightarrow> sysfs_entry list option \<Rightarrow> adapter_error list io" where
  "no_targets_in expectedPath entries = do {
     topology \<leftarrow> look_at expectedPath False entries;
     State_Monad.return (case topology of
         Inl err \<Rightarrow> err
       | Inr topology \<Rightarrow> if length (ut_eligible topology) \<noteq> 0 then [ErrWrongBootMode] else []) }"

definition requireNoTargets :: "adapter_env \<Rightarrow> string \<Rightarrow> adapter_error list io" where
  "requireNoTargets e expectedPath = do { entries \<leftarrow> ask (ae_sysfs e); no_targets_in expectedPath entries }"

section \<open>Power\<close>

definition acquire_errors :: "acquire_error option \<Rightarrow> adapter_error list" where
  "acquire_errors err = (case err of None \<Rightarrow> [] | Some AcquireFailed \<Rightarrow> [ErrAdapter]
     | Some AcquireDeadline \<Rightarrow> [ErrAdapter, ErrDeadlineExceeded])"

definition ensurePower :: "adapter_env \<Rightarrow> GPIODescriptor \<Rightarrow> adapter_error list io" where
  "ensurePower e descriptor = do {
     lease \<leftarrow> gets ad_power;
     if lease \<noteq> None then State_Monad.return [ErrAdapter]
     else do {
       v \<leftarrow> ask (ae_acquire e);
       emit (EvPower descriptor);
       let (acquired, err) = AcquirePower v;
       modify (\<lambda>r. if acquired \<noteq> None then r\<lparr>ad_power := acquired\<rparr> else r);
       State_Monad.return (if err \<noteq> None then acquire_errors err else if acquired = None then [ErrAdapter] else []) } }"

definition releasePower :: "adapter_env \<Rightarrow> adapter_error list io" where
  "releasePower e = do {
     lease \<leftarrow> gets ad_power;
     case lease of
       None \<Rightarrow> State_Monad.return []
     | Some held \<Rightarrow> do {
         v \<leftarrow> ask (ae_release e);
         emit EvRelease;
         let (failed, held') = Lease_Release v held;
         modify (\<lambda>r. r\<lparr>ad_power := (if failed then Some held' else None)\<rparr>);
         State_Monad.return (if failed then [ErrAdapter] else []) } }"

definition Adapter_Close :: "adapter_env \<Rightarrow> adapter_error list io" where
  "Adapter_Close e = releasePower e"

section \<open>Prompts\<close>

definition Present :: "adapter_env \<Rightarrow> Prompt \<Rightarrow> (adapter_error list + Acknowledgement) io" where
  "Present e prompt = do { answer \<leftarrow> ask (ae_present e); emit (EvPrompt prompt); State_Monad.return (answer prompt) }"

text \<open>The failure that an unanswered prompt stands for; \<^verbatim>\<open>ctx.Err()\<close> is read up to twice.\<close>

definition prompt_failure :: "adapter_env \<Rightarrow> adapter_error list \<Rightarrow> BootTransitionFailure io" where
  "prompt_failure e err = do {
     ended \<leftarrow> ask (ae_done e);
     endedNow \<leftarrow> ask (ae_done e);
     State_Monad.return
       (if endedNow then BootTransitionFailureInterrupted
        else if ErrPromptExpired \<in> List.set err \<or> ErrDeadlineExceeded \<in> List.set err \<and> \<not> ended
        then BootTransitionFailureOperatorTimeout
        else BootTransitionFailureOperatorRejected) }"

section \<open>Safe-off\<close>

record safeOffProof =
  sp_powerOffAt :: instant
  sp_usbAbsentAt :: instant
  sp_operator :: OperatorPowerProof

definition zero_safeOffProof :: safeOffProof where
  "zero_safeOffProof = \<lparr>sp_powerOffAt = 0, sp_usbAbsentAt = 0, sp_operator = zero_OperatorPowerProof\<rparr>"

definition set_power_state :: "string \<Rightarrow> rig \<Rightarrow> rig" where
  "set_power_state powerState r = r\<lparr>ad_directState := (ad_directState r)\<lparr>ds_PowerState := powerState\<rparr>\<rparr>"

definition relaySafeOff :: "adapter_env \<Rightarrow> Config \<Rightarrow> (safeOffProof \<times> adapter_error list) io" where
  "relaySafeOff e lane = do {
     releaseErr \<leftarrow> releasePower e;
     powerOffAt \<leftarrow> now e;
     disappearanceErr \<leftarrow> waitForDisappearance e (cf_RPIBootSysfsPath lane);
     usbAbsentAt \<leftarrow> atLeast e [powerOffAt];
     modify (\<lambda>r. if releaseErr = [] \<and> disappearanceErr = [] \<and> ad_target r \<noteq> None
                 then set_power_state ''powered_off'' r else r);
     State_Monad.return
       (\<lparr>sp_powerOffAt = powerOffAt, sp_usbAbsentAt = usbAbsentAt, sp_operator = zero_OperatorPowerProof\<rparr>,
        releaseErr @ disappearanceErr) }"

definition manualDisconnectInstructions :: string where
  "manualDisconnectInstructions = ''Disconnect every target power source, including the lane USB cable and the normal Raspberry Pi power supply. Confirm the target power LED is off, then acknowledge.''"

definition manualSafeOff ::
  "adapter_env \<Rightarrow> Config \<Rightarrow> HardwareAction \<Rightarrow> (safeOffProof \<times> adapter_error list) io" where
  "manualSafeOff e lane action = do {
     promptStartedAt \<leftarrow> now e;
     deadline \<leftarrow> ask (ae_deadline e);
     let planned = promptStartedAt + ag_OperatorPromptTimeout (ae_config e);
     let promptExpiresAt = (case deadline of Some d \<Rightarrow> if d < planned then d else planned | None \<Rightarrow> planned);
     if \<not> promptExpiresAt > promptStartedAt
     then State_Monad.return (zero_safeOffProof, [ErrDeadlineExceeded])
     else case newPrompt (le_sha256 (ae_lane e)) action KindDisconnectPower manualDisconnectInstructions promptExpiresAt of
       Inl err \<Rightarrow> State_Monad.return (zero_safeOffProof, err)
     | Inr prompt \<Rightarrow> do {
         answer \<leftarrow> Present e prompt;
         case answer of
           Inl err \<Rightarrow> State_Monad.return (zero_safeOffProof, ErrAdapter # err)
         | Inr acknowledgement \<Rightarrow>
             (case validatePromptAcknowledgement prompt acknowledgement promptStartedAt of
                x # xs \<Rightarrow> State_Monad.return (zero_safeOffProof, x # xs)
              | [] \<Rightarrow> do {
                  let proof = \<lparr>sp_powerOffAt = ak_AcknowledgedAt acknowledgement, sp_usbAbsentAt = 0,
                        sp_operator = \<lparr>pp_PromptID = pm_ID prompt, pp_PromptDigest = pm_Digest prompt,
                          pp_PromptExpiresAt = pm_ExpiresAt prompt, pp_Operator = ak_Peer acknowledgement,
                          pp_AcknowledgedAt = ak_AcknowledgedAt acknowledgement\<rparr>\<rparr>;
                  err \<leftarrow> waitForDisappearance e (cf_RPIBootSysfsPath lane);
                  if err \<noteq> [] then State_Monad.return (proof, err)
                  else do {
                    usbAbsentAt \<leftarrow> atLeast e [sp_powerOffAt proof];
                    modify (\<lambda>r. if ad_target r \<noteq> None then set_power_state ''powered_off'' r else r);
                    State_Monad.return (proof\<lparr>sp_usbAbsentAt := usbAbsentAt\<rparr>, []) } }) } }"

definition establishInitialSafeOff ::
  "adapter_env \<Rightarrow> Config \<Rightarrow> HardwareAction \<Rightarrow> (safeOffProof \<times> adapter_error list) io" where
  "establishInitialSafeOff e lane action =
     (if ag_PowerControl (ae_config e) = PowerControlManual then manualSafeOff e lane action
      else relaySafeOff e lane)"

definition proveSafeOff ::
  "adapter_env \<Rightarrow> Config \<Rightarrow> HardwareAction \<Rightarrow> PowerControlMode \<Rightarrow> (safeOffProof \<times> adapter_error list) io" where
  "proveSafeOff e lane action mode =
     (if mode = PowerControlManual then manualSafeOff e lane action
      else if mode \<noteq> PowerControlRelay then State_Monad.return (zero_safeOffProof, [ErrAdapter])
      else relaySafeOff e lane)"

section \<open>UART\<close>

text \<open>\<^verbatim>\<open>bytes.Index\<close>: what follows the first occurrence\<close>

fun after_marker :: "string \<Rightarrow> string \<Rightarrow> string option" where
  "after_marker marker s =
     (if hasPrefix s marker then Some (drop (length marker) s)
      else (case s of [] \<Rightarrow> None | _ # rest \<Rightarrow> after_marker marker rest))"

declare after_marker.simps [simp del]

definition completeMarkerLine :: "string \<Rightarrow> string \<Rightarrow> bool" where
  "completeMarkerLine result marker =
     (case after_marker marker result of None \<Rightarrow> False | Some rest \<Rightarrow> char_of (10 :: nat) \<in> List.set rest)"

text \<open>The read loop; when the reads are over the context of the capture has ended.\<close>

fun capture_loop ::
  "string \<Rightarrow> int \<Rightarrow> string \<Rightarrow> (string \<times> adapter_error list \<times> adapter_error list) list \<Rightarrow> adapter_error list + string" where
  "capture_loop marker maximum result [] = Inl [ErrDeadlineExceeded]"
| "capture_loop marker maximum result ((chunk, readErr, ended) # rest) =
     (if chunk \<noteq> [] \<and> int (length result) + int (length chunk) > maximum then Inl [ErrAdapter]
      else let result = result @ chunk in
           if chunk \<noteq> [] \<and> completeMarkerLine result marker then Inr result
           else if readErr \<noteq> [] then Inl readErr
           else if ended \<noteq> [] then Inl ended
           else capture_loop marker maximum result rest)"

text \<open>\<open>trigger\<close> returns the variables it sets, which keep their values \<open>initial\<close> when it is not reached, and an error.
  What is written to the deferred result on closing is joined to the error.\<close>

definition Capture ::
  "adapter_env \<Rightarrow> string \<Rightarrow> 'v \<Rightarrow> ('v \<times> adapter_error list) io \<Rightarrow> ('v \<times> (adapter_error list + string)) io" where
  "Capture e marker initial trigger = do {
     u \<leftarrow> ask (ae_uart e);
     let failing = (\<lambda>errs. Inl (ErrAdapter # errs));
     if ag_UARTTimeout (ae_config e) \<le> 0 then State_Monad.return (initial, Inl [ErrAdapter])
     else if ur_open u \<noteq> [] then State_Monad.return (initial, failing (ur_open u))
     else if ur_get u \<noteq> [] then State_Monad.return (initial, failing (ur_get u @ ur_close u))
     else if ur_set u \<noteq> [] then State_Monad.return (initial, failing (ur_set u @ ur_restore u @ ur_close u))
     else if ur_flush u \<noteq> [] then State_Monad.return (initial, failing (ur_flush u @ ur_restore u @ ur_close u))
     else do {
       (vars, err) \<leftarrow> trigger;
       let finish = (\<lambda>errs. errs @ ur_restore u @ ur_close u);
       if err \<noteq> [] then State_Monad.return (vars, Inl (finish err))
       else State_Monad.return (vars,
         (case capture_loop marker (ag_MaximumOutputBytes (ae_config e)) [] (ur_reads u) of
            Inl errs \<Rightarrow> Inl (finish errs)
          | Inr evidence \<Rightarrow> if finish [] \<noteq> [] then Inl (finish []) else Inr evidence)) } }"

section \<open>Running \<^verbatim>\<open>rpiboot\<close>\<close>

record boundedBuffer =
  bf_bytes :: string
  bf_overflow :: bool

definition boundedBuffer_Write :: "int \<Rightarrow> string \<Rightarrow> boundedBuffer \<Rightarrow> bool \<times> boundedBuffer" where
  "boundedBuffer_Write maximum chunk buffer =
     (if int (length (bf_bytes buffer)) + int (length chunk) > maximum
      then let remaining = maximum - int (length (bf_bytes buffer)) in
           (True, buffer\<lparr>bf_bytes := (if remaining > 0 then bf_bytes buffer @ take (nat remaining) chunk else bf_bytes buffer),
                     bf_overflow := True\<rparr>)
      else (False, buffer\<lparr>bf_bytes := bf_bytes buffer @ chunk\<rparr>))"

text \<open>The copy from a process stops at the first failed write.\<close>

fun collect :: "int \<Rightarrow> boundedBuffer \<Rightarrow> string list \<Rightarrow> boundedBuffer" where
  "collect maximum buffer [] = buffer"
| "collect maximum buffer (chunk # rest) =
     (case boundedBuffer_Write maximum chunk buffer of
        (True, buffer') \<Rightarrow> buffer' | (False, buffer') \<Rightarrow> collect maximum buffer' rest)"

definition collected :: "adapter_env \<Rightarrow> string list \<Rightarrow> boundedBuffer" where
  "collected e chunks = collect (ag_MaximumOutputBytes (ae_config e)) \<lparr>bf_bytes = [], bf_overflow = False\<rparr> chunks"

definition Run :: "adapter_env \<Rightarrow> string \<Rightarrow> string list \<Rightarrow> run_reply io" where
  "Run e executable arguments = do {
     reply \<leftarrow> ask (ae_run e);
     s \<leftarrow> gets rg_store;
     emit (EvRun executable arguments s reply);
     State_Monad.return reply }"

definition no_run :: "adapter_error list \<Rightarrow> run_reply" where
  "no_run err = \<lparr>rn_stdout = [], rn_stderr = [], rn_err = err\<rparr>"

definition RunGuarded ::
  "adapter_env \<Rightarrow> string \<Rightarrow> string list \<Rightarrow> adapter_error list io \<Rightarrow> run_reply io" where
  "RunGuarded e executable arguments beforeStart = do {
     err \<leftarrow> beforeStart;
     if err \<noteq> [] then State_Monad.return (no_run err) else Run e executable arguments }"

definition pinRPIBootInstance :: "adapter_env \<Rightarrow> adapter_error list io" where
  "pinRPIBootInstance e = do {
     pinErr \<leftarrow> ask (ae_pin e);
     verifyErr \<leftarrow> ask (ae_verify e);
     State_Monad.return
       (if \<not> ae_pinner e then [ErrAdapter]
        else if pinErr \<noteq> [] then ErrGuard ErrTargetContinuity # pinErr
        else if verifyErr \<noteq> [] then ErrGuard ErrTargetContinuity # verifyErr
        else []) }"

definition start_guard :: "adapter_env \<Rightarrow> Config \<Rightarrow> adapter_error list io" where
  "start_guard e lane = do {
     err \<leftarrow> requireExactTarget e (cf_RPIBootSysfsPath lane);
     if err \<noteq> [] then State_Monad.return err
     else do {
       verifyErr \<leftarrow> ask (ae_verify e);
       State_Monad.return (if verifyErr \<noteq> [] then ErrGuard ErrTargetContinuity # verifyErr else []) } }"

definition power_ready :: "AdapterConfig \<Rightarrow> execPowerLease option \<Rightarrow> bool" where
  "power_ready config lease =
     (if ag_PowerControl config = PowerControlRelay then lease \<noteq> None
      else if ag_PowerControl config = PowerControlManual then lease = None
      else False)"

text \<open>The output, which may come with an error\<close>

definition runRPIBootPayloadLocked :: "adapter_env \<Rightarrow> Config \<Rightarrow> string \<Rightarrow> (string \<times> adapter_error list) io" where
  "runRPIBootPayloadLocked e lane bundle = do {
     lease \<leftarrow> gets ad_power;
     if \<not> power_ready (ae_config e) lease then State_Monad.return ([], [ErrAdapter])
     else do {
       err \<leftarrow> requireExactTarget e (cf_RPIBootSysfsPath lane);
       if err \<noteq> [] then State_Monad.return ([], err)
       else do {
         pinned \<leftarrow> gets ad_usbPin;
         let executable = ip_RPIBootBinary (ag_Paths (ae_config e));
         let arguments = [''-p'', path_Base (cf_RPIBootSysfsPath lane), ''-d'', bundle];
         if pinned \<and> \<not> ae_guarded e then State_Monad.return ([], [ErrAdapter])
         else do {
           reply \<leftarrow> (if pinned then RunGuarded e executable arguments (start_guard e lane)
                    else Run e executable arguments);
           let stdout = collected e (rn_stdout reply);
           let stderr = collected e (rn_stderr reply);
           State_Monad.return
             (if bf_overflow stdout \<or> bf_overflow stderr then ([], [ErrAdapter])
              else if rn_err reply \<noteq> [] then (bf_bytes stdout, ErrAdapter # rn_err reply)
              else (bf_bytes stdout, [])) } } } }"

end
