(* ===== verification/Adapter.thy ===== *)
theory Adapter
  imports Adapter_Steps
begin

text \<open>
  The payloads of the Raspberry Pi 5 adapter and the end of a boot transition (\<^verbatim>\<open>physicalrpi5/adapter.go\<close>).
  \<open>ae_sha\<close> is the hash of the lane's environment.
\<close>

abbreviation ae_sha :: "adapter_env \<Rightarrow> hash" where "ae_sha e \<equiv> le_sha256 (ae_lane e)"

type_synonym transition_reply = "OperationResult \<times> BootTransitionOutcome \<times> adapter_error list"

section \<open>Payloads\<close>

definition validateContinuity :: "Metadata option \<Rightarrow> Metadata \<Rightarrow> string \<Rightarrow> adapter_error list" where
  "validateContinuity target observation expectedFingerprint =
     (if md_TargetFingerprint observation \<noteq> expectedFingerprint then [ErrGuard ErrTargetContinuity]
      else (case target of
              Some known \<Rightarrow> if md_TargetFingerprint known \<noteq> md_TargetFingerprint observation
                             then [ErrGuard ErrTargetContinuity] else []
            | None \<Rightarrow> []))"

definition output_metadata :: "adapter_env \<Rightarrow> string \<Rightarrow> metadata_error + Metadata" where
  "output_metadata e out =
     bindE (ExtractMetadataObject (ae_valid e) out) (ParseMetadata (ae_sha e) (ae_scan e))"

definition adopt :: "Metadata \<Rightarrow> string \<Rightarrow> rig \<Rightarrow> rig" where
  "adopt observation mode r =
     r\<lparr>ad_target := Some observation, ad_mode := mode, ad_directState := directState observation ''rpiboot''\<rparr>"

definition commit_result :: "adapter_env \<Rightarrow> string \<Rightarrow> Metadata \<Rightarrow> adapter_error list \<Rightarrow> OperationResult" where
  "commit_result e out observation commandErr = zero_OperationResult
     \<lparr>re_OutputDigest := digestBytes (ae_sha e) out,
      re_Detail := (if commandErr \<noteq> []
        then ''fresh commit command reported an error, but complete authoritative metadata verified the postcondition''
        else ''fresh commit metadata and direct postcondition verified''),
      re_CommitAttestation := \<lparr>ca_SchemaVersion = CommitAttestationSchemaVersion,
        ca_TargetFingerprint = md_TargetFingerprint observation,
        ca_CustomerKeyHash = ''sha256:'' @ md_CustomerKeyHash observation,
        ca_EEPROMHash = ''sha256:'' @ md_EEPROMHash observation,
        ca_EEPROMUpdateResult = lower_text (field_of (md_UpstreamFields observation) ''EEPROM_UPDATE''),
        ca_SecureBootProvisionResult =
          lower_text (field_of (md_UpstreamFields observation) ''SECURE_BOOT_PROVISION'')\<rparr>\<rparr>"

definition commit_matches :: "AdapterConfig \<Rightarrow> Metadata \<Rightarrow> bool" where
  "commit_matches config observation \<longleftrightarrow>
     \<not> (md_CustomerKeyHash observation \<noteq> ag_ExpectedCustomerKeyHash config
        \<or> md_EEPROMHash observation \<noteq> ag_ExpectedEEPROMHash config
        \<or> lower_text (field_of (md_UpstreamFields observation) ''EEPROM_UPDATE'') \<noteq> ''success''
        \<or> lower_text (field_of (md_UpstreamFields observation) ''SECURE_BOOT_PROVISION'') \<noteq> ''success'')"

definition Adapter_commitLocked ::
  "adapter_env \<Rightarrow> Config \<Rightarrow> string \<Rightarrow> (OperationResult \<times> adapter_error list) io" where
  "Adapter_commitLocked e lane expectedFingerprint = do {
     mode \<leftarrow> gets ad_mode;
     if mode \<noteq> ModeFresh then State_Monad.return (zero_OperationResult, [ErrAdapter])
     else do {
       (out, commandErr) \<leftarrow> runRPIBootPayloadLocked e lane (ip_FreshCommitBundle (ag_Paths (ae_config e)));
       target \<leftarrow> gets ad_target;
       case output_metadata e out of
         Inl _ \<Rightarrow> State_Monad.return (zero_OperationResult, ErrAdapter #
           (case ExtractMetadataObject (ae_valid e) out of Inl _ \<Rightarrow> commandErr | Inr _ \<Rightarrow> []))
       | Inr observation \<Rightarrow>
           (let err = validateContinuity target observation expectedFingerprint in
            if err \<noteq> [] then State_Monad.return (zero_OperationResult, err)
            else if \<not> commit_matches (ae_config e) observation
            then State_Monad.return (zero_OperationResult, [ErrMetadataMismatch])
            else do {
              modify (adopt observation ModeOwned);
              State_Monad.return (commit_result e out observation commandErr, []) }) } }"

definition owned_matches :: "AdapterConfig \<Rightarrow> Metadata \<Rightarrow> bool" where
  "owned_matches config observation \<longleftrightarrow>
     \<not> (md_CustomerKeyHash observation \<noteq> ag_ExpectedCustomerKeyHash config
        \<or> (md_EEPROMHash observation \<noteq> [] \<and> md_EEPROMHash observation \<noteq> ag_ExpectedEEPROMHash config))"

definition readback_mode_error :: "AdapterConfig \<Rightarrow> string \<Rightarrow> Metadata \<Rightarrow> adapter_error list" where
  "readback_mode_error config mode observation =
     (if mode = ModeFresh then if md_CustomerKeyHash observation \<noteq> zeroCustomerKey then [ErrMetadataMismatch] else []
      else if mode = ModeOwned then if \<not> owned_matches config observation then [ErrMetadataMismatch] else []
      else [ErrAdapter])"

definition readbackLocked ::
  "adapter_env \<Rightarrow> Config \<Rightarrow> string \<Rightarrow> string \<Rightarrow> string \<Rightarrow> (OperationResult \<times> adapter_error list) io" where
  "readbackLocked e lane expectedFingerprint bundle mode = do {
     (out, commandErr) \<leftarrow> runRPIBootPayloadLocked e lane bundle;
     target \<leftarrow> gets ad_target;
     if commandErr \<noteq> [] then State_Monad.return (zero_OperationResult, commandErr)
     else case output_metadata e out of
       Inl _ \<Rightarrow> State_Monad.return (zero_OperationResult, [ErrAdapter])
     | Inr observation \<Rightarrow>
         (let err = validateContinuity target observation expectedFingerprint;
              modeErr = readback_mode_error (ae_config e) mode observation
          in if err \<noteq> [] then State_Monad.return (zero_OperationResult, err)
             else if modeErr \<noteq> [] then State_Monad.return (zero_OperationResult, modeErr)
             else do {
               modify (adopt observation mode);
               State_Monad.return (zero_OperationResult\<lparr>re_OutputDigest := digestBytes (ae_sha e) out,
                 re_Detail := mode @ '' RPIBOOT readback verified''\<rparr>, []) }) }"

definition preflight_error :: "AdapterConfig \<Rightarrow> string \<Rightarrow> Metadata \<Rightarrow> adapter_error list" where
  "preflight_error config mode observation =
     (if mode = ModeFresh \<and> md_CustomerKeyHash observation \<noteq> zeroCustomerKey then [ErrGuard ErrTargetContinuity]
      else if mode = ModeOwned \<and> \<not> owned_matches config observation then [ErrGuard ErrTargetContinuity]
      else [])"

definition preflightRPIBootIdentityLocked :: "adapter_env \<Rightarrow> Config \<Rightarrow> string \<Rightarrow> adapter_error list io" where
  "preflightRPIBootIdentityLocked e lane expectedFingerprint = do {
     mode \<leftarrow> gets ad_mode;
     if mode \<noteq> ModeOwned \<and> mode \<noteq> ModeFresh then State_Monad.return [ErrAdapter]
     else do {
       (out, err) \<leftarrow> runRPIBootPayloadLocked e lane
         (if mode = ModeOwned then ip_OwnedReadbackBundle (ag_Paths (ae_config e))
          else ip_FreshReadbackBundle (ag_Paths (ae_config e)));
       target \<leftarrow> gets ad_target;
       State_Monad.return
         (if err \<noteq> [] then err
          else (case output_metadata e out of
                  Inl _ \<Rightarrow> [ErrAdapter]
                | Inr observation \<Rightarrow>
                    let continuity = validateContinuity target observation expectedFingerprint in
                    if continuity \<noteq> [] then continuity else preflight_error (ae_config e) mode observation)) } }"

definition uartBundleTestLocked ::
  "adapter_env \<Rightarrow> Config \<Rightarrow> string \<Rightarrow> string \<Rightarrow> string \<Rightarrow> (OperationResult \<times> adapter_error list) io" where
  "uartBundleTestLocked e lane bundle marker powerState = do {
     (_, captured) \<leftarrow> Capture e marker () (do {
       (_, runErr) \<leftarrow> runRPIBootPayloadLocked e lane bundle;
       State_Monad.return ((), runErr) });
     case captured of
       Inl err \<Rightarrow> State_Monad.return (zero_OperationResult, ErrAdapter # err)
     | Inr evidence \<Rightarrow>
         if validateExactMarkerEvidence evidence marker \<noteq> []
         then State_Monad.return (zero_OperationResult, validateExactMarkerEvidence evidence marker)
         else do {
           modify (\<lambda>r. set_power_state powerState (r\<lparr>ad_lastUART := evidence\<rparr>));
           State_Monad.return (zero_OperationResult\<lparr>re_OutputDigest := digestBytes (ae_sha e) evidence,
             re_Detail := ''UART rejection evidence verified''\<rparr>, []) } }"

section \<open>Ending a transition\<close>

definition reloadDurableOutcome :: "adapter_env \<Rightarrow> string \<Rightarrow> (adapter_error list + BootTransitionOutcome) io" where
  "reloadDurableOutcome e key = do {
     stored \<leftarrow> journal_GetBootTransition e key;
     State_Monad.return (case stored of
         Inl err \<Rightarrow> Inl err
       | Inr None \<Rightarrow> Inl [ErrAdapter]
       | Inr (Some durable) \<Rightarrow>
           if bt_Key durable \<noteq> key then Inl [ErrAdapter]
           else (case Outcome (ae_sha e) durable of
                   Inl err \<Rightarrow> Inl [ErrGuard err] | Inr outcome \<Rightarrow> Inr outcome)) }"

definition no_reply :: "adapter_error list \<Rightarrow> transition_reply" where
  "no_reply err = (zero_OperationResult, zero_BootTransitionOutcome, err)"

definition outcome_reply :: "BootTransitionOutcome \<Rightarrow> adapter_error list \<Rightarrow> transition_reply" where
  "outcome_reply outcome err = (zero_OperationResult\<lparr>re_BootTransition := outcome\<rparr>, outcome, err)"

text \<open>The terminal record of a transition that did not complete; \<open>ended\<close> is \<^verbatim>\<open>ctx.Err() != nil\<close>.\<close>

definition terminal_record ::
  "BootTransition \<Rightarrow> BootTransition \<Rightarrow> instant \<Rightarrow> BootTransitionFailure \<Rightarrow> adapter_error list \<Rightarrow> bool \<Rightarrow> BootTransition" where
  "terminal_record progress transition updatedAt failure safeErr ended =
     (let terminal = progress\<lparr>bt_FinalSafeOffProof := bt_FinalSafeOffProof transition, bt_UpdatedAt := updatedAt\<rparr>
      in if safeErr \<noteq> []
         then terminal\<lparr>bt_Status := BootTransitionQuarantined, bt_Failure := BootTransitionFailureSafeOffUnproven,
                bt_SafeOffObservedAt := 0\<rparr>
         else if failure = BootTransitionFailureInterrupted \<or> ended
         then terminal\<lparr>bt_SafeOffObservedAt := updatedAt, bt_Status := BootTransitionInterruptedSafeOff,
                bt_Failure := BootTransitionFailureInterrupted\<rparr>
         else terminal\<lparr>bt_SafeOffObservedAt := updatedAt, bt_Status := BootTransitionAbortedSafeOff,
                bt_Failure := failure\<rparr>)"

definition terminalizeTransition ::
  "adapter_env \<Rightarrow> BootTransition \<Rightarrow> BootTransitionFailure \<Rightarrow> adapter_error list \<Rightarrow> instant \<Rightarrow> adapter_error list
     \<Rightarrow> transition_reply io" where
  "terminalizeTransition e transition failure cause safeOffAt safeErr = do {
     stored \<leftarrow> journal_GetBootTransition e (bt_Key transition);
     case stored of
       Inl readErr \<Rightarrow> State_Monad.return (no_reply (cause @ safeErr @ readErr))
     | Inr None \<Rightarrow> State_Monad.return (no_reply (cause @ safeErr @ [ErrAdapter]))
     | Inr (Some stored) \<Rightarrow>
         if IsTerminal stored then
           State_Monad.return (case Outcome (ae_sha e) stored of
               Inl outcomeErr \<Rightarrow> no_reply (cause @ safeErr @ [ErrGuard outcomeErr])
             | Inr outcome \<Rightarrow> outcome_reply outcome (cause @ safeErr))
         else (case MergeBootTransitionProgress (ae_sha e) stored transition of
                 Inl mergeErr \<Rightarrow> State_Monad.return (no_reply (cause @ safeErr @ [ErrGuard mergeErr]))
               | Inr progress \<Rightarrow> do {
                   updatedAt \<leftarrow> atLeast e [bt_UpdatedAt stored, bt_UpdatedAt progress, safeOffAt];
                   ended \<leftarrow> ask (ae_done e);
                   let terminal = terminal_record progress transition updatedAt failure safeErr ended;
                   persistErr \<leftarrow> journal_PutBootTransition e terminal;
                   outcome \<leftarrow> reloadDurableOutcome e (bt_Key terminal);
                   State_Monad.return (case outcome of
                       Inl reloadErr \<Rightarrow> no_reply (cause @ safeErr @ persistErr @ reloadErr)
                     | Inr outcome \<Rightarrow> outcome_reply outcome (cause @ safeErr @ persistErr)) }) }"

definition failTransition ::
  "adapter_env \<Rightarrow> Config \<Rightarrow> BootTransition \<Rightarrow> BootTransitionFailure \<Rightarrow> adapter_error list \<Rightarrow> transition_reply io" where
  "failTransition e lane transition failure cause = do {
     (proof, safeErr) \<leftarrow> proveSafeOff e lane (bt_Action transition) (bt_PowerControlMode transition);
     terminalizeTransition e (transition\<lparr>bt_FinalSafeOffProof := sp_operator proof\<rparr>) failure cause
       (sp_usbAbsentAt proof) safeErr }"

text \<open>The evidence of the completed record and its digest\<close>

definition completion_digest :: "hash \<Rightarrow> BootTransition \<Rightarrow> guard_error + string" where
  "completion_digest sha256 transition = bindE (Evidence transition) (Evidence_Digest sha256)"

definition stop_completion ::
  "adapter_env \<Rightarrow> BootTransition \<Rightarrow> adapter_error list \<Rightarrow> instant \<Rightarrow> adapter_error list
     \<Rightarrow> (BootTransitionOutcome \<times> adapter_error list) io" where
  "stop_completion e transition cause safeOffAt safeErr = do {
     (_, outcome, err) \<leftarrow> terminalizeTransition e transition BootTransitionFailureHardware cause safeOffAt safeErr;
     State_Monad.return (outcome, err) }"

definition completeTransition ::
  "adapter_env \<Rightarrow> Config \<Rightarrow> BootTransition \<Rightarrow> (BootTransitionOutcome \<times> adapter_error list) io" where
  "completeTransition e lane transition = do {
     (proof, safeErr) \<leftarrow> proveSafeOff e lane (bt_Action transition) (bt_PowerControlMode transition);
     let transition = transition\<lparr>bt_FinalSafeOffProof := sp_operator proof\<rparr>;
     if safeErr \<noteq> [] then stop_completion e transition [ErrAdapter] (sp_usbAbsentAt proof) safeErr
     else do {
       safeOffAt \<leftarrow> atLeast e [bt_UpdatedAt transition, sp_usbAbsentAt proof];
       completedAt \<leftarrow> atLeast e [safeOffAt];
       let transition = transition\<lparr>bt_Status := BootTransitionCompleted, bt_SafeOffObservedAt := safeOffAt,
             bt_CompletedAt := completedAt, bt_UpdatedAt := completedAt\<rparr>;
       case completion_digest (ae_sha e) transition of
         Inl err \<Rightarrow> stop_completion e transition [ErrGuard err] safeOffAt []
       | Inr digest \<Rightarrow> do {
           let transition = transition\<lparr>bt_EvidenceDigest := digest\<rparr>;
           err \<leftarrow> journal_PutBootTransition e transition;
           if err \<noteq> [] then stop_completion e transition err safeOffAt []
           else do {
             outcome \<leftarrow> reloadDurableOutcome e (bt_Key transition);
             State_Monad.return (case outcome of
                 Inl err \<Rightarrow> (zero_BootTransitionOutcome, err) | Inr outcome \<Rightarrow> (outcome, [])) } } } }"

end
