(* ===== verification/Adapter_Run.thy ===== *)
theory Adapter_Run
  imports Adapter
begin

text \<open>
  The two kinds of boot of the Raspberry Pi 5 adapter (\<^verbatim>\<open>physicalrpi5/adapter.go\<close>): into RPIBOOT, where the payload
  runs once the operator has released BOOTSEL, and the normal boot, watched on the USB bus and on the serial line.
\<close>

section \<open>RPIBOOT\<close>

definition acknowledgePowerPrompt ::
  "adapter_env \<Rightarrow> BootTransition \<Rightarrow> Prompt \<Rightarrow> (BootTransition \<times> BootTransitionFailure \<times> adapter_error list) io" where
  "acknowledgePowerPrompt e transition prompt = do {
     answer \<leftarrow> Present e prompt;
     case answer of
       Inl err \<Rightarrow> do {
         failure \<leftarrow> prompt_failure e err;
         State_Monad.return (transition, failure, ErrAdapter # err) }
     | Inr acknowledgement \<Rightarrow>
         (let invalid = validatePromptAcknowledgement prompt acknowledgement (bt_ColdIntervalEndsAt transition) in
          if invalid \<noteq> [] then State_Monad.return (transition, BootTransitionFailureOperatorRejected, invalid)
          else do {
            updatedAt \<leftarrow> atLeast e [ak_AcknowledgedAt acknowledgement];
            let transition = transition\<lparr>bt_Status := BootTransitionOperatorAcknowledged,
                  bt_Operator := ak_Peer acknowledgement,
                  bt_OperatorAcknowledgedAt := ak_AcknowledgedAt acknowledgement, bt_UpdatedAt := updatedAt\<rparr>;
            err \<leftarrow> journal_PutBootTransition e transition;
            State_Monad.return (transition,
              (if err \<noteq> [] then BootTransitionFailureHardware else BootTransitionFailureNone), err) }) }"

definition powerEstablishedAt :: "adapter_env \<Rightarrow> BootTransition \<Rightarrow> instant io" where
  "powerEstablishedAt e transition =
     (if bt_PowerControlMode transition = PowerControlManual
      then State_Monad.return (bt_OperatorAcknowledgedAt transition)
      else atLeast e [bt_OperatorAcknowledgedAt transition])"

definition power_established :: "adapter_env \<Rightarrow> BootTransition \<Rightarrow> BootTransition io" where
  "power_established e transition = do {
     poweredAt \<leftarrow> powerEstablishedAt e transition;
     updatedAt \<leftarrow> atLeast e [bt_UpdatedAt transition, poweredAt];
     State_Monad.return (transition\<lparr>bt_Status := BootTransitionPowerEstablished, bt_PowerEstablishedAt := poweredAt,
       bt_UpdatedAt := updatedAt\<rparr>) }"

definition releaseBOOTSELInstructions :: string where
  "releaseBOOTSELInstructions = ''Release BOOTSEL now; do not disconnect target power or the lane USB connection.''"

definition rpiboot_observed :: "adapter_env \<Rightarrow> Config \<Rightarrow> instant \<Rightarrow> Prompt \<Rightarrow> BootTransition \<Rightarrow> BootTransition" where
  "rpiboot_observed e lane modeObservedAt releasePrompt transition =
     transition\<lparr>bt_Status := BootTransitionModeObserved, bt_ModeObservedAt := modeObservedAt,
       bt_ObservedMode := BootModeRPIBoot, bt_RPIBootSysfsPath := cf_RPIBootSysfsPath lane,
       bt_RPIBootEligibleTargets := 1, bt_RPIBootObservationMethod := RPIBootObservationSysfsPoll,
       bt_RPIBootPollInterval := ag_USBPollInterval (ae_config e), bt_ReleasePromptID := pm_ID releasePrompt,
       bt_ReleasePromptDigest := pm_Digest releasePrompt, bt_ReleasePromptExpiresAt := pm_ExpiresAt releasePrompt,
       bt_UpdatedAt := modeObservedAt\<rparr>"

definition lost_target :: "adapter_error list \<Rightarrow> bool" where
  "lost_target err \<longleftrightarrow>
     ErrNoRPIBootTarget \<in> List.set err \<or> ErrUnexpectedTarget \<in> List.set err \<or> ErrAmbiguousTargets \<in> List.set err"

definition wait_failure :: "adapter_env \<Rightarrow> adapter_error list \<Rightarrow> BootTransitionFailure io" where
  "wait_failure e err = do {
     ended \<leftarrow> ask (ae_done e);
     State_Monad.return
       (if ended then BootTransitionFailureInterrupted
        else if ErrNoRPIBootTarget \<in> List.set err then BootTransitionFailureWrongMode
        else if ErrUnexpectedTarget \<in> List.set err \<or> ErrAmbiguousTargets \<in> List.set err
        then BootTransitionFailureTargetContinuity
        else BootTransitionFailureHardware) }"

definition payload_failure :: "adapter_env \<Rightarrow> adapter_error list \<Rightarrow> BootTransitionFailure io" where
  "payload_failure e err = do {
     ended \<leftarrow> ask (ae_done e);
     State_Monad.return
       (if ended then BootTransitionFailureInterrupted
        else if ErrGuard ErrTargetContinuity \<in> List.set err \<or> lost_target err
        then BootTransitionFailureTargetContinuity
        else BootTransitionFailureHardware) }"

text \<open>The payload and the end of the transition\<close>

definition run_payload ::
  "adapter_env \<Rightarrow> Config \<Rightarrow> BootTransition \<Rightarrow> (OperationResult \<times> adapter_error list) io \<Rightarrow> transition_reply io" where
  "run_payload e lane transition payload = do {
     (result, err) \<leftarrow> payload;
     if err \<noteq> [] then do {
       failure \<leftarrow> payload_failure e err;
       failTransition e lane transition failure err }
     else do {
       (outcome, err) \<leftarrow> completeTransition e lane transition;
       State_Monad.return ((if err \<noteq> [] then result else result\<lparr>re_BootTransition := outcome\<rparr>), outcome, err) } }"

definition run_preflighted ::
  "adapter_env \<Rightarrow> Config \<Rightarrow> BootTransition \<Rightarrow> (OperationResult \<times> adapter_error list) io \<Rightarrow> transition_reply io" where
  "run_preflighted e lane transition payload = do {
     preflightErr \<leftarrow> preflightRPIBootIdentityLocked e lane (ha_TargetFingerprint (bt_Action transition));
     if preflightErr \<noteq> [] then do {
       failure \<leftarrow> payload_failure e preflightErr;
       failTransition e lane transition failure preflightErr }
     else run_payload e lane transition payload }"

text \<open>An execution pins the USB instance for the preflight and the payload; the pin is dropped on return.\<close>

definition run_released ::
  "adapter_env \<Rightarrow> Config \<Rightarrow> BootTransition \<Rightarrow> (OperationResult \<times> adapter_error list) io \<Rightarrow> transition_reply io" where
  "run_released e lane transition payload = do {
     err \<leftarrow> requireExactTarget e (cf_RPIBootSysfsPath lane);
     if err \<noteq> [] then failTransition e lane transition
       (if lost_target err then BootTransitionFailureTargetContinuity else BootTransitionFailureHardware) err
     else if ha_Phase (bt_Action transition) = HardwarePhaseExecute then do {
       pinErr \<leftarrow> pinRPIBootInstance e;
       if pinErr \<noteq> [] then failTransition e lane transition BootTransitionFailureTargetContinuity pinErr
       else do {
         modify (\<lambda>r. r\<lparr>ad_usbPin := True\<rparr>);
         reply \<leftarrow> run_preflighted e lane transition payload;
         modify (\<lambda>r. r\<lparr>ad_usbPin := False\<rparr>);
         State_Monad.return reply } }
     else run_payload e lane transition payload }"

text \<open>BOOTSEL is released: the operator acknowledges, and the journal has it before the payload.\<close>

definition run_observed ::
  "adapter_env \<Rightarrow> Config \<Rightarrow> BootTransition \<Rightarrow> Prompt \<Rightarrow> (OperationResult \<times> adapter_error list) io \<Rightarrow> transition_reply io" where
  "run_observed e lane transition releasePrompt payload = do {
     answer \<leftarrow> Present e releasePrompt;
     case answer of
       Inl err \<Rightarrow> do {
         failure \<leftarrow> prompt_failure e err;
         failTransition e lane transition failure (ErrAdapter # err) }
     | Inr acknowledgement \<Rightarrow>
         (let invalid = validatePromptAcknowledgement releasePrompt acknowledgement (bt_ModeObservedAt transition) in
          if invalid \<noteq> [] then failTransition e lane transition BootTransitionFailureOperatorRejected invalid
          else do {
            updatedAt \<leftarrow> atLeast e [ak_AcknowledgedAt acknowledgement];
            let transition = transition\<lparr>bt_Status := BootTransitionOperatorReleased,
                  bt_ReleaseOperator := ak_Peer acknowledgement,
                  bt_OperatorReleasedAt := ak_AcknowledgedAt acknowledgement, bt_UpdatedAt := updatedAt\<rparr>;
            err \<leftarrow> journal_PutBootTransition e transition;
            if err \<noteq> [] then failTransition e lane transition BootTransitionFailureHardware err
            else run_released e lane transition payload }) }"

definition run_powered ::
  "adapter_env \<Rightarrow> Config \<Rightarrow> BootTransition \<Rightarrow> (OperationResult \<times> adapter_error list) io \<Rightarrow> transition_reply io" where
  "run_powered e lane transition payload = do {
     err \<leftarrow> waitForExpectedTarget e (cf_RPIBootSysfsPath lane);
     if err \<noteq> [] then do {
       failure \<leftarrow> wait_failure e err;
       failTransition e lane transition failure err }
     else do {
       modeObservedAt \<leftarrow> atLeast e [bt_PowerEstablishedAt transition];
       case newPrompt (ae_sha e) (bt_Action transition) KindReleaseBOOTSEL releaseBOOTSELInstructions
              (modeObservedAt + ag_OperatorPromptTimeout (ae_config e)) of
         Inl err \<Rightarrow> failTransition e lane transition BootTransitionFailureHardware err
       | Inr releasePrompt \<Rightarrow> do {
           let transition = rpiboot_observed e lane modeObservedAt releasePrompt transition;
           err \<leftarrow> journal_PutBootTransition e transition;
           if err \<noteq> [] then failTransition e lane transition BootTransitionFailureHardware err
           else run_observed e lane transition releasePrompt payload } } }"

definition runRPIBootTransition ::
  "adapter_env \<Rightarrow> Config \<Rightarrow> BootTransition \<Rightarrow> (OperationResult \<times> adapter_error list) io \<Rightarrow> transition_reply io" where
  "runRPIBootTransition e lane transition payload = do {
     powerErr \<leftarrow> (if ag_PowerControl (ae_config e) = PowerControlRelay then ensurePower e (cf_PowerGPIO lane)
                 else State_Monad.return []);
     if powerErr \<noteq> [] then failTransition e lane transition BootTransitionFailureHardware powerErr
     else do {
       transition \<leftarrow> power_established e transition;
       err \<leftarrow> journal_PutBootTransition e transition;
       if err \<noteq> [] then failTransition e lane transition BootTransitionFailureHardware err
       else run_powered e lane transition payload } }"

section \<open>Normal boot\<close>

text \<open>The watcher polls in the background until it is cancelled or sees a target; it only reads. Its error and
  the time up to which it saw no target are what \<^verbatim>\<open>stopAndRecheck\<close> takes from it.\<close>

fun watch_loop :: "string \<Rightarrow> instant \<Rightarrow> (sysfs_entry list option \<times> instant) list \<Rightarrow> (adapter_error list \<times> instant) io" where
  "watch_loop expectedPath through [] = State_Monad.return ([], through)"
| "watch_loop expectedPath through ((entries, at) # rest) = do {
     err \<leftarrow> no_targets_in expectedPath entries;
     if err \<noteq> [] then State_Monad.return (err, through) else watch_loop expectedPath at rest }"

definition startNormalModeWatcher :: "adapter_env \<Rightarrow> string \<Rightarrow> (adapter_error list + instant) io" where
  "startNormalModeWatcher e expectedPath = do {
     err \<leftarrow> requireNoTargets e expectedPath;
     if err \<noteq> [] then State_Monad.return (Inl (ErrWrongBootMode # err))
     else do { through \<leftarrow> now e; State_Monad.return (Inr through) } }"

definition stopAndRecheck :: "adapter_env \<Rightarrow> string \<Rightarrow> instant \<Rightarrow> (instant \<times> adapter_error list) io" where
  "stopAndRecheck e expectedPath started = do {
     polls \<leftarrow> ask (ae_watch e);
     (watchErr, through) \<leftarrow> watch_loop expectedPath started polls;
     checkErr \<leftarrow> requireNoTargets e expectedPath;
     checkedAt \<leftarrow> now e;
     let err = (if checkErr \<noteq> [] \<and> watchErr = [] then checkErr else watchErr);
     State_Monad.return ((if err = [] \<and> checkedAt > through then checkedAt else through), err) }"

text \<open>The variables that the trigger of the capture sets\<close>

record normal_vars =
  nv_watcher :: "instant option"
  nv_transition :: BootTransition
  nv_powerPromptFailure :: BootTransitionFailure
  nv_powerPromptErr :: "adapter_error list"

definition normal_powered :: "adapter_env \<Rightarrow> normal_vars \<Rightarrow> (normal_vars \<times> adapter_error list) io" where
  "normal_powered e v = do {
     transition \<leftarrow> power_established e (nv_transition v);
     err \<leftarrow> journal_PutBootTransition e transition;
     State_Monad.return (v\<lparr>nv_transition := transition\<rparr>, err) }"

definition normal_trigger ::
  "adapter_env \<Rightarrow> Config \<Rightarrow> Prompt \<Rightarrow> normal_vars \<Rightarrow> (normal_vars \<times> adapter_error list) io" where
  "normal_trigger e lane prompt v = do {
     started \<leftarrow> startNormalModeWatcher e (cf_RPIBootSysfsPath lane);
     case started of
       Inl err \<Rightarrow> State_Monad.return (v, err)
     | Inr through \<Rightarrow>
         (let v = v\<lparr>nv_watcher := Some through\<rparr> in
          if ag_PowerControl (ae_config e) = PowerControlManual then do {
            (transition, failure, err) \<leftarrow> acknowledgePowerPrompt e (nv_transition v) prompt;
            let v = v\<lparr>nv_transition := transition, nv_powerPromptFailure := failure, nv_powerPromptErr := err\<rparr>;
            if err \<noteq> [] then State_Monad.return (v, err) else normal_powered e v }
          else do {
            err \<leftarrow> ensurePower e (cf_PowerGPIO lane);
            if err \<noteq> [] then State_Monad.return (v, err) else normal_powered e v }) }"

definition normal_observed :: "adapter_env \<Rightarrow> Config \<Rightarrow> instant \<Rightarrow> string \<Rightarrow> BootTransition \<Rightarrow> BootTransition" where
  "normal_observed e lane notObservedThrough evidence transition =
     (let modeObservedAt = (if notObservedThrough < bt_PowerEstablishedAt transition
                            then bt_PowerEstablishedAt transition else notObservedThrough)
      in transition\<lparr>bt_Status := BootTransitionModeObserved, bt_ModeObservedAt := modeObservedAt,
           bt_ObservedMode := BootModeNormal, bt_RPIBootSysfsPath := cf_RPIBootSysfsPath lane,
           bt_RPIBootEligibleTargets := 0, bt_UARTPath := cf_UARTPath lane,
           bt_UARTOutputDigest := digestBytes (ae_sha e) evidence,
           bt_RPIBootObservationMethod := RPIBootObservationSysfsPoll,
           bt_RPIBootPollInterval := ag_USBPollInterval (ae_config e), bt_RPIBootNotObservedThrough := modeObservedAt,
           bt_UpdatedAt := modeObservedAt\<rparr>)"

text \<open>After the watcher is stopped: \<open>captured\<close> is the evidence or why there is none.\<close>

definition normal_finish ::
  "adapter_env \<Rightarrow> Config \<Rightarrow> normal_vars \<Rightarrow> instant \<Rightarrow> adapter_error list + string \<Rightarrow> transition_reply io" where
  "normal_finish e lane v notObservedThrough captured =
     (if nv_powerPromptErr v \<noteq> []
      then failTransition e lane (nv_transition v) (nv_powerPromptFailure v) (nv_powerPromptErr v)
      else (case captured of
              Inl err \<Rightarrow> do {
                ended \<leftarrow> ask (ae_done e);
                endedNow \<leftarrow> ask (ae_done e);
                failTransition e lane (nv_transition v)
                  (if endedNow then BootTransitionFailureInterrupted
                   else if ErrDeadlineExceeded \<in> List.set err \<and> \<not> ended then BootTransitionFailureModeTimeout
                   else BootTransitionFailureHardware) (ErrAdapter # err) }
            | Inr evidence \<Rightarrow> do {
                let transition = normal_observed e lane notObservedThrough evidence (nv_transition v);
                err \<leftarrow> journal_PutBootTransition e transition;
                if err \<noteq> [] then failTransition e lane transition BootTransitionFailureHardware err
                else do {
                  modify (\<lambda>r. set_power_state ''signed_os'' (r\<lparr>ad_lastUART := evidence\<rparr>));
                  let result = zero_OperationResult\<lparr>re_OutputDigest := digestBytes (ae_sha e) evidence,
                        re_Detail := ''minimum cold interval and signed boot UART evidence verified''\<rparr>;
                  (outcome, err) \<leftarrow> completeTransition e lane transition;
                  State_Monad.return
                    ((if err \<noteq> [] then result else result\<lparr>re_BootTransition := outcome\<rparr>), outcome, err) } }))"

definition runNormalTransition :: "adapter_env \<Rightarrow> Config \<Rightarrow> BootTransition \<Rightarrow> Prompt \<Rightarrow> transition_reply io" where
  "runNormalTransition e lane transition prompt = do {
     target \<leftarrow> gets ad_target;
     mode \<leftarrow> gets ad_mode;
     if target = None \<or> mode \<noteq> ModeOwned
     then failTransition e lane transition BootTransitionFailureHardware [ErrAdapter]
     else do {
       let initial = \<lparr>nv_watcher = None, nv_transition = transition,
             nv_powerPromptFailure = BootTransitionFailureNone, nv_powerPromptErr = []\<rparr>;
       (v, captured) \<leftarrow> Capture e signedBootMarker initial (normal_trigger e lane prompt initial);
       case nv_watcher v of
         None \<Rightarrow>
           (if nv_powerPromptErr v \<noteq> []
            then failTransition e lane (nv_transition v) (nv_powerPromptFailure v) (nv_powerPromptErr v)
            else failTransition e lane (nv_transition v)
              (if (case captured of Inl err \<Rightarrow> ErrWrongBootMode \<in> List.set err | Inr _ \<Rightarrow> False)
               then BootTransitionFailureWrongMode else BootTransitionFailureHardware)
              (case captured of Inl err \<Rightarrow> ErrAdapter # err | Inr _ \<Rightarrow> [ErrAdapter]))
       | Some started \<Rightarrow> do {
           let captured = (case captured of
                 Inl err \<Rightarrow> Inl err
               | Inr evidence \<Rightarrow>
                   (let invalid = validateSignedBootEvidence evidence (ag_ExpectedBootImageDigest (ae_config e)) in
                    if invalid \<noteq> [] then Inl invalid else Inr evidence));
           (notObservedThrough, watcherErr) \<leftarrow> stopAndRecheck e (cf_RPIBootSysfsPath lane) started;
           if watcherErr \<noteq> []
           then failTransition e lane (nv_transition v)
             (if ErrWrongBootMode \<in> List.set watcherErr then BootTransitionFailureWrongMode
              else BootTransitionFailureHardware)
             (watcherErr @ (case captured of Inl err \<Rightarrow> err | Inr _ \<Rightarrow> []))
           else normal_finish e lane v notObservedThrough captured } } }"

end
