(* ===== verification/Adapter_Calls.thy ===== *)
theory Adapter_Calls
  imports Adapter_Run
begin

text \<open>
  The calls of the Raspberry Pi 5 adapter (\<^verbatim>\<open>physicalrpi5/adapter.go\<close>): construction, the beginning of a boot transition,
  recovery, and \<^verbatim>\<open>Observe\<close> and \<^verbatim>\<open>Execute\<close>.
\<close>

section \<open>Beginning a transition\<close>

definition holdBOOTSELInstructions :: string where
  "holdBOOTSELInstructions = ''Hold BOOTSEL before target power is applied and keep holding it until a separate release prompt appears.''"
definition normalBootInstructions :: string where
  "normalBootInstructions = ''Leave BOOTSEL untouched while target power is applied.''"
definition manualRPIBootInstructions :: string where
  "manualRPIBootInstructions = ''Keep the normal Raspberry Pi power supply disconnected. Hold BOOTSEL, connect the pre-qualified intact power-capable lane USB path as the target'' @ [char_of (39 :: nat)] @ ''s sole power and data connection, keep BOOTSEL held, then acknowledge. A VBUS-cut data-only cable is not valid for this step.''"
definition manualNormalBootInstructions :: string where
  "manualNormalBootInstructions = ''Confirm the lane USB cable is disconnected. Leave BOOTSEL untouched, connect the normal Raspberry Pi power supply, then acknowledge.''"

definition power_prompt :: "AdapterConfig \<Rightarrow> HardwareAction \<Rightarrow> Kind \<times> string" where
  "power_prompt config action =
     (if ag_PowerControl config = PowerControlManual
      then if ha_RequestedBootMode action = BootModeNormal
           then (KindConnectNormalPower, manualNormalBootInstructions)
           else (KindConnectRPIBootPower, manualRPIBootInstructions)
      else if ha_RequestedBootMode action = BootModeNormal then (KindNormalNoAction, normalBootInstructions)
      else (KindHoldBOOTSEL, holdBOOTSELInstructions))"

definition begin_request ::
  "adapter_env \<Rightarrow> HardwareAction \<Rightarrow> instant \<Rightarrow> instant \<Rightarrow> safeOffProof \<Rightarrow> instant \<Rightarrow> Prompt
     \<Rightarrow> BeginBootTransitionRequest" where
  "begin_request e action startedAt recordedAt proof coldEndsAt prompt =
     \<lparr>bb_Action = action, bb_PowerControlMode = ag_PowerControl (ae_config e),
      bb_InitialPowerOffProof = sp_operator proof, bb_StartedAt = startedAt, bb_RecordedAt = recordedAt,
      bb_PowerOffObservedAt = sp_powerOffAt proof, bb_USBAbsentObservedAt = sp_usbAbsentAt proof,
      bb_ColdIntervalEndsAt = coldEndsAt, bb_PromptID = pm_ID prompt, bb_PromptDigest = pm_Digest prompt,
      bb_PromptExpiresAt = pm_ExpiresAt prompt\<rparr>"

definition run_begun ::
  "adapter_env \<Rightarrow> Config \<Rightarrow> BootTransition \<Rightarrow> Prompt \<Rightarrow> (OperationResult \<times> adapter_error list) io \<Rightarrow> transition_reply io" where
  "run_begun e lane transition prompt payload = do {
     sleepErr \<leftarrow> ask (ae_sleep e);
     if sleepErr \<noteq> []
     then failTransition e lane transition BootTransitionFailureInterrupted (ErrAdapter # sleepErr)
     else do {
       updatedAt \<leftarrow> atLeast e [bt_ColdIntervalEndsAt transition];
       let transition = transition\<lparr>bt_Status := BootTransitionAwaitingOperator, bt_UpdatedAt := updatedAt\<rparr>;
       err \<leftarrow> journal_PutBootTransition e transition;
       let normal = (ha_RequestedBootMode (bt_Action transition) = BootModeNormal);
       if err \<noteq> [] then failTransition e lane transition BootTransitionFailureHardware err
       else if ag_PowerControl (ae_config e) = PowerControlManual \<and> normal
       then runNormalTransition e lane transition prompt
       else do {
         (acknowledged, failure, promptErr) \<leftarrow> acknowledgePowerPrompt e transition prompt;
         if promptErr \<noteq> [] then failTransition e lane acknowledged failure promptErr
         else if normal then runNormalTransition e lane acknowledged prompt
         else runRPIBootTransition e lane acknowledged payload } } }"

definition runBootTransition ::
  "adapter_env \<Rightarrow> Config \<Rightarrow> HardwareAction \<Rightarrow> (OperationResult \<times> adapter_error list) io \<Rightarrow> transition_reply io" where
  "runBootTransition e lane action payload = do {
     startedAt \<leftarrow> now e;
     (proof, err) \<leftarrow> establishInitialSafeOff e lane action;
     if err \<noteq> [] then State_Monad.return (no_reply err)
     else do {
       let coldEndsAt = sp_usbAbsentAt proof + ag_MinimumColdInterval (ae_config e);
       case newPrompt (ae_sha e) action (fst (power_prompt (ae_config e) action)) (snd (power_prompt (ae_config e) action))
              (coldEndsAt + ag_OperatorPromptTimeout (ae_config e)) of
         Inl err \<Rightarrow> State_Monad.return (no_reply err)
       | Inr prompt \<Rightarrow> do {
           recordedAt \<leftarrow> atLeast e [sp_usbAbsentAt proof];
           begun \<leftarrow> journal_BeginBootTransition e
             (begin_request e action startedAt recordedAt proof coldEndsAt prompt);
           case begun of
             Inl err \<Rightarrow> State_Monad.return (no_reply err)
           | Inr transition \<Rightarrow> run_begun e lane transition prompt payload } } }"

section \<open>Recovery\<close>

definition mismatched_record :: "instant \<Rightarrow> BootTransition \<Rightarrow> BootTransition" where
  "mismatched_record updatedAt transition =
     transition\<lparr>bt_Status := BootTransitionQuarantined, bt_Failure := BootTransitionFailureSafeOffUnproven,
       bt_FinalSafeOffProof := zero_OperatorPowerProof, bt_SafeOffObservedAt := 0, bt_UpdatedAt := updatedAt\<rparr>"

definition recovered_record ::
  "OperatorPowerProof \<Rightarrow> adapter_error list \<Rightarrow> instant \<Rightarrow> BootTransition \<Rightarrow> BootTransition" where
  "recovered_record proof safeErr updatedAt transition =
     (let terminal = transition\<lparr>bt_FinalSafeOffProof := proof, bt_UpdatedAt := updatedAt\<rparr>
      in if safeErr \<noteq> []
         then terminal\<lparr>bt_Status := BootTransitionQuarantined, bt_Failure := BootTransitionFailureSafeOffUnproven,
                bt_SafeOffObservedAt := 0\<rparr>
         else terminal\<lparr>bt_Status := BootTransitionInterruptedSafeOff, bt_Failure := BootTransitionFailureInterrupted,
                bt_SafeOffObservedAt := updatedAt\<rparr>)"

fun recover_loop :: "adapter_env \<Rightarrow> Config \<Rightarrow> BootTransition list \<Rightarrow> adapter_error list io" where
  "recover_loop e lane [] = State_Monad.return []"
| "recover_loop e lane (transition # rest) =
     (if bt_PowerControlMode transition \<noteq> ag_PowerControl (ae_config e) then do {
        updatedAt \<leftarrow> atLeast e [bt_UpdatedAt transition];
        err \<leftarrow> journal_PutBootTransition e (mismatched_record updatedAt transition);
        State_Monad.return (ErrRestartRecovered # ErrAdapter # err) }
      else do {
        (proof, safeErr) \<leftarrow> proveSafeOff e lane (bt_Action transition) (bt_PowerControlMode transition);
        updatedAt \<leftarrow> atLeast e [bt_UpdatedAt transition, sp_usbAbsentAt proof];
        err \<leftarrow> journal_PutBootTransition e (recovered_record (sp_operator proof) safeErr updatedAt transition);
        if err \<noteq> [] then State_Monad.return (ErrRestartRecovered # safeErr @ err)
        else if safeErr \<noteq> [] then State_Monad.return (ErrRestartRecovered # ErrAdapter # safeErr)
        else recover_loop e lane rest })"

definition recoverIncompleteTransitions :: "adapter_env \<Rightarrow> Config \<Rightarrow> adapter_error list io" where
  "recoverIncompleteTransitions e lane = do {
     incomplete \<leftarrow> journal_IncompleteBootTransitions e;
     case incomplete of
       Inl err \<Rightarrow> State_Monad.return err
     | Inr transitions \<Rightarrow> recover_loop e lane transitions }"

definition bindLane :: "adapter_env \<Rightarrow> Config \<Rightarrow> adapter_error list io" where
  "bindLane e lane = do {
     bound \<leftarrow> gets ad_lane;
     if Config_Validate lane \<noteq> None then State_Monad.return (of_guard (Config_Validate lane))
     else if cf_PowerControlMode lane \<noteq> ag_PowerControl (ae_config e) then State_Monad.return [ErrAdapter]
     else (case bound of
             None \<Rightarrow> do { modify (\<lambda>r. r\<lparr>ad_lane := Some lane\<rparr>); State_Monad.return [] }
           | Some known \<Rightarrow> State_Monad.return (if known \<noteq> lane then [ErrAdapter] else [])) }"

definition prepareLane :: "adapter_env \<Rightarrow> Config \<Rightarrow> adapter_error list io" where
  "prepareLane e lane = do {
     bindErr \<leftarrow> bindLane e lane;
     if bindErr \<noteq> [] then State_Monad.return bindErr
     else do {
       recoverErr \<leftarrow> recoverIncompleteTransitions e lane;
       if recoverErr \<noteq> [] then State_Monad.return recoverErr
       else do {
         quarantined \<leftarrow> journal_HasQuarantinedBootTransition e;
         State_Monad.return (case quarantined of
             Inl err \<Rightarrow> err | Inr q \<Rightarrow> if q then [ErrGuard ErrQuarantined] else []) } } }"

section \<open>The calls\<close>

definition validateAction :: "AdapterConfig \<Rightarrow> Config \<Rightarrow> HardwareAction \<Rightarrow> bool \<Rightarrow> adapter_error list" where
  "validateAction config lane action execute =
     (if HardwareAction_Validate action \<noteq> None then of_guard (HardwareAction_Validate action)
      else if ha_StationID action \<noteq> cf_StationID lane \<or> ha_LaneID action \<noteq> cf_LaneID lane then [ErrAdapter]
      else if ha_PowerControlMode action \<noteq> cf_PowerControlMode lane \<or> ha_PowerControlMode action \<noteq> ag_PowerControl config
      then [ErrAdapter]
      else if execute then if ha_Phase action \<noteq> HardwarePhaseExecute then [ErrAdapter] else []
      else if ha_Phase action \<in> {HardwarePhasePreObservation, HardwarePhasePostObservation, HardwarePhaseReconciliation}
           then [] else [ErrAdapter])"

definition observe_payload :: "adapter_env \<Rightarrow> Config \<Rightarrow> HardwareAction \<Rightarrow> (OperationResult \<times> adapter_error list) io" where
  "observe_payload e lane action = do {
     mode \<leftarrow> gets ad_mode;
     let paths = ag_Paths (ae_config e);
     if mode = ModeAuto then do {
       (owned, ownedErr) \<leftarrow> readbackLocked e lane (ha_TargetFingerprint action) (ip_OwnedReadbackBundle paths) ModeOwned;
       if ownedErr = [] then State_Monad.return (owned, [])
       else do {
         (fresh, freshErr) \<leftarrow> readbackLocked e lane (ha_TargetFingerprint action) (ip_FreshReadbackBundle paths) ModeFresh;
         State_Monad.return (if freshErr \<noteq> [] then (zero_OperationResult, ErrAdapter # ownedErr @ freshErr)
                             else (fresh, [])) } }
     else readbackLocked e lane (ha_TargetFingerprint action)
       (if mode = ModeOwned then ip_OwnedReadbackBundle paths else ip_FreshReadbackBundle paths) mode }"

definition execute_payload :: "adapter_env \<Rightarrow> Config \<Rightarrow> HardwareAction \<Rightarrow> (OperationResult \<times> adapter_error list) io" where
  "execute_payload e lane action =
     (let paths = ag_Paths (ae_config e); operation = ha_Operation action;
          readback = (\<lambda>bundle. readbackLocked e lane (ha_TargetFingerprint action) bundle ModeOwned)
      in if operation = OperationProgramCustomerKeyAndEEPROM then Adapter_commitLocked e lane (ha_TargetFingerprint action)
         else if operation = OperationOwnedReadback then readback (ip_OwnedReadbackBundle paths)
         else if operation = OperationTestOwnedRecovery then readback (ip_OwnedRecoveryBundle paths)
         else if operation = OperationPostRecoveryReadback then readback (ip_OwnedReadbackBundle paths)
         else if operation = OperationTestNegativeBoot
         then uartBundleTestLocked e lane (ip_NegativeBootBundle paths) negativeBootProof ''negative_boot_rejected''
         else if operation = OperationTestRootIntegrity
         then uartBundleTestLocked e lane (ip_RootIntegrityBundle paths) rootIntegrityProof ''root_integrity_rejected''
         else State_Monad.return (zero_OperationResult, [ErrAdapter]))"

text \<open>A call returns a value and an error, or it panics on a missing target.\<close>

datatype 'r adapter_reply = Replied 'r "adapter_error list" | Panicked

definition cachedObservation :: "Config \<Rightarrow> rig \<Rightarrow> Observation option" where
  "cachedObservation lane r =
     (case ad_target r of
        None \<Rightarrow> None
      | Some target \<Rightarrow> Some \<lparr>ob_EligibleTargets = 1, ob_RPIBootSysfsPath = cf_RPIBootSysfsPath lane,
          ob_TargetFingerprint = md_TargetFingerprint target, ob_State = ad_directState r,
          ob_BootTransition = zero_BootTransitionOutcome\<rparr>)"

definition admit :: "adapter_env \<Rightarrow> Config \<Rightarrow> HardwareAction \<Rightarrow> bool \<Rightarrow> adapter_error list io" where
  "admit e lane action execute = do {
     err \<leftarrow> prepareLane e lane;
     State_Monad.return (if err \<noteq> [] then err else validateAction (ae_config e) lane action execute) }"

definition Adapter_Observe :: "adapter_env \<Rightarrow> Config \<Rightarrow> HardwareAction \<Rightarrow> Observation adapter_reply io" where
  "Adapter_Observe e lane action = do {
     admitErr \<leftarrow> admit e lane action False;
     if admitErr \<noteq> [] then State_Monad.return (Replied zero_Observation admitErr)
     else do {
       (_, outcome, err) \<leftarrow> runBootTransition e lane action (observe_payload e lane action);
       cached \<leftarrow> gets (cachedObservation lane);
       State_Monad.return
         (if err \<noteq> [] then Replied (zero_Observation\<lparr>ob_BootTransition := outcome\<rparr>) err
          else (case cached of
                  None \<Rightarrow> Panicked
                | Some result \<Rightarrow> Replied (result\<lparr>ob_BootTransition := outcome\<rparr>) [])) } }"

definition Adapter_Execute :: "adapter_env \<Rightarrow> Config \<Rightarrow> HardwareAction \<Rightarrow> OperationResult adapter_reply io" where
  "Adapter_Execute e lane action = do {
     admitErr \<leftarrow> admit e lane action True;
     if admitErr \<noteq> [] then State_Monad.return (Replied zero_OperationResult admitErr)
     else do {
       (result, outcome, err) \<leftarrow> runBootTransition e lane action (execute_payload e lane action);
       State_Monad.return (Replied (result\<lparr>re_BootTransition := outcome\<rparr>) err) } }"

definition Adapter_New :: "AdapterConfig \<Rightarrow> bool \<Rightarrow> bool \<Rightarrow> lane_store \<Rightarrow> adapter_error list + (AdapterConfig \<times> rig)" where
  "Adapter_New config journal_missing prompter_missing store =
     (let defaulted = applyDefaults config;
          config = defaulted\<lparr>ag_ExpectedCustomerKeyHash := normalizeDigest (ag_ExpectedCustomerKeyHash defaulted),
            ag_ExpectedEEPROMHash := normalizeDigest (ag_ExpectedEEPROMHash defaulted)\<rparr>
      in if \<not> AdapterConfig_Validate config then Inl [ErrAdapter]
         else if journal_missing then Inl [ErrAdapter]
         else if prompter_missing then Inl [ErrAdapter]
         else Inr (config, \<lparr>ad_lane = None, ad_target = None, ad_directState = zero_DirectState, ad_lastUART = [],
                ad_mode = ag_InitialMode config, ad_power = None, ad_usbPin = False, rg_step = 0,
                rg_store = store, rg_log = []\<rparr>))"

end
