(* ===== verification/Adapter_Orders.thy ===== *)
theory Adapter_Orders
  imports Adapter_Calls
begin

text \<open>
  What a call of the adapter does to the journal and to the log, by orders on the rig. The locales say what an
  order must allow: \<open>reading_order\<close> looking at the outside, \<open>quiet_order\<close> everything but acquiring power, a start of
  \<^verbatim>\<open>rpiboot\<close> and a write to the journal, \<open>put_order\<close> updates of the journal too, \<open>journal_order\<close> new transitions and
  power too, \<open>run_order\<close> the starts, \<open>call_order\<close> all of it. Each step of the adapter is proved once, in
  the weakest locale that allows it; the interpretations give what the properties use.
\<close>

named_theorems keeps \<open>steps that keep an order on the rig\<close>

section \<open>Control structure\<close>

lemma run_bind: "run_state (m \<bind> f) s = (case run_state m s of (x, s') \<Rightarrow> run_state (f x) s')"
  by (simp add: State_Monad.bind_def)

lemma io_if [keeps]:
  "(b \<Longrightarrow> state_io_rel R m) \<Longrightarrow> (\<not> b \<Longrightarrow> state_io_rel R n) \<Longrightarrow> state_io_rel R (if b then m else n)"
  by simp

lemma io_sum [keeps]:
  "(\<And>x. v = Inl x \<Longrightarrow> state_io_rel R (f x)) \<Longrightarrow> (\<And>y. v = Inr y \<Longrightarrow> state_io_rel R (g y))
     \<Longrightarrow> state_io_rel R (case v of Inl x \<Rightarrow> f x | Inr y \<Rightarrow> g y)"
  by (cases v) auto

lemma io_option [keeps]:
  "(v = None \<Longrightarrow> state_io_rel R m) \<Longrightarrow> (\<And>y. v = Some y \<Longrightarrow> state_io_rel R (g y))
     \<Longrightarrow> state_io_rel R (case v of None \<Rightarrow> m | Some y \<Rightarrow> g y)"
  by (cases v) auto

lemma io_list [keeps]:
  "(v = [] \<Longrightarrow> state_io_rel R m) \<Longrightarrow> (\<And>y ys. v = y # ys \<Longrightarrow> state_io_rel R (g y ys))
     \<Longrightarrow> state_io_rel R (case v of [] \<Rightarrow> m | y # ys \<Rightarrow> g y ys)"
  by (cases v) auto

lemma io_prod [keeps]: "(\<And>a b. v = (a, b) \<Longrightarrow> state_io_rel R (f a b)) \<Longrightarrow> state_io_rel R (case v of (a, b) \<Rightarrow> f a b)"
  by (cases v) auto

lemma io_let [keeps]: "(\<And>x. x = v \<Longrightarrow> state_io_rel R (f x)) \<Longrightarrow> state_io_rel R (Let v f)"
  by simp

locale rig_order =
  fixes R :: "rig \<Rightarrow> rig \<Rightarrow> bool"
  assumes same: "R s s"
    and trans: "R s s' \<Longrightarrow> R s' s'' \<Longrightarrow> R s s''"
begin

lemma keeps_return [keeps]: "state_io_rel R (State_Monad.return x)"
  by (simp add: state_io_rel_def same)

lemma keeps_bind [keeps]:
  "state_io_rel R m \<Longrightarrow> (\<And>x. state_io_rel R (f x)) \<Longrightarrow> state_io_rel R (m \<bind> f)"
  by (fastforce simp: state_io_rel_def run_bind intro: trans split: prod.splits)

lemma keeps_bind_value:
  assumes "state_io_rel R m" and "\<And>s x s'. run_state m s = (x, s') \<Longrightarrow> state_io_rel R (f x)"
  shows "state_io_rel R (m \<bind> f)"
proof
  fix x s s'' assume run: "run_state (m \<bind> f) s = (x, s'')"
  obtain y s' where m: "run_state m s = (y, s')" by fastforce
  then show "R s s''"
    using state_io_relD [OF assms(1) m] state_io_relD [OF assms(2) [OF m]] run by (auto simp: run_bind intro: trans)
qed

lemma keeps_gets [keeps]: "state_io_rel R (gets f)"
  by (simp add: state_io_rel_def gets_def same)

end

section \<open>Steps without effect on the journal\<close>

definition outside :: "adapter_event \<Rightarrow> bool" where
  "outside ev = (case ev of EvRun _ _ _ _ \<Rightarrow> False | EvPower _ \<Rightarrow> False | EvJournal _ \<Rightarrow> False | _ \<Rightarrow> True)"

locale reading_order = rig_order +
  assumes step_free: "R s (s\<lparr>rg_step := n\<rparr>)"
    and log_outside: "outside ev \<Longrightarrow> R s (s\<lparr>rg_log := rg_log s @ [ev]\<rparr>)"
begin

lemma keeps_tick [keeps]: "state_io_rel R tick"
  by (simp add: state_io_rel_def tick_def step_free)

lemma keeps_ask [keeps]: "state_io_rel R (ask f)"
  unfolding ask_def by (intro keeps)

lemma keeps_emit [keeps]: "outside ev \<Longrightarrow> state_io_rel R (emit ev)"
  by (simp add: state_io_rel_def emit_def modify_def log_outside)

lemma keeps_times [keeps]: "state_io_rel R (now e)" "state_io_rel R (atLeast e ts)"
  unfolding now_def atLeast_def by (intro keeps)+

lemma keeps_read [keeps]: "state_io_rel R (journal_read e f)"
  unfolding journal_read_def by (intro keeps)

lemma keeps_reads [keeps]:
  "state_io_rel R (journal_GetBootTransition e k)"
  "state_io_rel R (journal_IncompleteBootTransitions e)"
  "state_io_rel R (journal_HasQuarantinedBootTransition e)"
  unfolding journal_GetBootTransition_def journal_IncompleteBootTransitions_def
    journal_HasQuarantinedBootTransition_def
  by (intro keeps)+

lemma keeps_look_at [keeps]: "state_io_rel R (look_at p b es)"
  unfolding look_at_def by (intro keeps) (simp_all add: outside_def)

lemma keeps_look [keeps]: "state_io_rel R (look e p b)"
  unfolding look_def by (intro keeps)

lemma keeps_appear [keeps]: "state_io_rel R (appear_loop e p k)"
  by (induction e p k rule: appear_loop.induct) (simp_all add: appear_step_def, (intro keeps | assumption)+)

lemma keeps_disappear [keeps]: "state_io_rel R (disappear_loop e p k)"
  by (induction e p k rule: disappear_loop.induct) (simp_all add: disappear_step_def, (intro keeps | assumption)+)

lemma keeps_topology [keeps]:
  "state_io_rel R (waitForExpectedTarget e p)" "state_io_rel R (waitForDisappearance e p)"
  "state_io_rel R (requireExactTarget e p)" "state_io_rel R (no_targets_in p es)"
  "state_io_rel R (requireNoTargets e p)"
  unfolding waitForExpectedTarget_def waitForDisappearance_def requireExactTarget_def no_targets_in_def
    requireNoTargets_def
  by (intro keeps)+

lemma keeps_prompts [keeps]: "state_io_rel R (Present e p)" "state_io_rel R (prompt_failure e err)"
  unfolding Present_def prompt_failure_def by (intro keeps; simp add: outside_def)+

lemma keeps_capture [keeps]: "state_io_rel R trigger \<Longrightarrow> state_io_rel R (Capture e m v trigger)"
  unfolding Capture_def by (intro keeps)

lemma keeps_pin [keeps]: "state_io_rel R (pinRPIBootInstance e)" "state_io_rel R (start_guard e lane)"
  unfolding pinRPIBootInstance_def start_guard_def by (intro keeps)+

lemma keeps_failures [keeps]: "state_io_rel R (wait_failure e err)" "state_io_rel R (payload_failure e err)"
  unfolding wait_failure_def payload_failure_def by (intro keeps)+

lemma keeps_established [keeps]: "state_io_rel R (power_established e t)"
  unfolding power_established_def powerEstablishedAt_def by (intro keeps)

lemma keeps_reload [keeps]: "state_io_rel R (reloadDurableOutcome e k)"
  unfolding reloadDurableOutcome_def by (intro keeps)

lemma keeps_watch [keeps]: "state_io_rel R (watch_loop p t polls)"
  by (induction p t polls rule: watch_loop.induct) (simp_all, (intro keeps | assumption)+)

lemma keeps_watcher [keeps]:
  "state_io_rel R (startNormalModeWatcher e p)" "state_io_rel R (stopAndRecheck e p t)"
  unfolding startNormalModeWatcher_def stopAndRecheck_def by (intro keeps)+

end

text \<open>The relay's lease changes in two steps only, and each leaves one event.\<close>

lemma releasePower_log:
  "run_state (releasePower e) s = (x, s') \<Longrightarrow>
     rg_store s' = rg_store s \<and> (rg_log s' = rg_log s \<or> rg_log s' = rg_log s @ [EvRelease])"
  by (auto simp: releasePower_def run_bind gets_def ask_def tick_def emit_def modify_def Let_def split: option.splits prod.splits if_splits)

lemma ensurePower_log:
  "run_state (ensurePower e d) s = (x, s') \<Longrightarrow>
     rg_store s' = rg_store s \<and> (rg_log s' = rg_log s \<or> rg_log s' = rg_log s @ [EvPower d])"
  by (auto simp: ensurePower_def run_bind gets_def ask_def tick_def emit_def modify_def Let_def split: option.splits prod.splits if_splits)

locale quiet_order = reading_order +
  assumes fields_free: "rg_store s' = rg_store s \<Longrightarrow> rg_log s' = rg_log s \<Longrightarrow> ad_power s' = ad_power s \<Longrightarrow> R s s'"
    and released: "run_state (releasePower e) s = (x, s') \<Longrightarrow> R s s'"
begin

lemma keeps_modify [keeps]:
  "(\<And>s. rg_store (f s) = rg_store s \<and> rg_log (f s) = rg_log s \<and> ad_power (f s) = ad_power s) \<Longrightarrow> state_io_rel R (modify f)"
  by (simp add: state_io_rel_def modify_def fields_free)

lemma keeps_release [keeps]: "state_io_rel R (releasePower e)"
  using released by (fastforce simp: state_io_rel_def intro: prod.collapse [symmetric])

lemma set_power_state_frame [simp]:
  "rg_store (set_power_state p r) = rg_store r" "rg_log (set_power_state p r) = rg_log r"
  "ad_power (set_power_state p r) = ad_power r"
  by (simp_all add: set_power_state_def)

lemma keeps_safe_off [keeps]: "state_io_rel R (relaySafeOff e lane)" "state_io_rel R (manualSafeOff e lane a)"
  unfolding relaySafeOff_def manualSafeOff_def by (intro keeps; simp)+

lemma keeps_safe_offs [keeps]:
  "state_io_rel R (establishInitialSafeOff e lane a)" "state_io_rel R (proveSafeOff e lane a m)"
  unfolding establishInitialSafeOff_def proveSafeOff_def by (intro keeps)+

lemma keeps_bindLane [keeps]: "state_io_rel R (bindLane e lane)"
  unfolding bindLane_def by (intro keeps; simp)+

end

section \<open>Writes to the journal\<close>

lemmas primitive_defs = ask_def tick_def gets_def emit_def modify_def

lemma run_put:
  "run_state (journal_PutBootTransition e t) s =
     (of_guard (fst (Store_PutBootTransition (ae_lane e) (ae_fault e (rg_step s)) t (rg_store s))),
      (s\<lparr>rg_step := Suc (rg_step s)\<rparr>)\<lparr>
        rg_store := run_boot_op (ae_lane e) (PutOp (ae_fault e (rg_step s)) t) (rg_store s),
        rg_log := rg_log s @ [EvJournal (PutOp (ae_fault e (rg_step s)) t)]\<rparr>)"
  by (simp add: journal_PutBootTransition_def run_bind primitive_defs Let_def split: prod.splits)

lemma run_begin:
  "run_state (journal_BeginBootTransition e q) s =
     (case fst (Store_BeginBootTransition (ae_lane e) (ae_fault e (rg_step s)) q (rg_store s)) of
        Inl err \<Rightarrow> Inl [ErrGuard err] | Inr t \<Rightarrow> Inr t,
      (s\<lparr>rg_step := Suc (rg_step s)\<rparr>)\<lparr>
        rg_store := run_boot_op (ae_lane e) (BeginOp (ae_fault e (rg_step s)) q) (rg_store s),
        rg_log := rg_log s @ [EvJournal (BeginOp (ae_fault e (rg_step s)) q)]\<rparr>)"
  by (simp add: journal_BeginBootTransition_def run_bind primitive_defs Let_def split: prod.splits)

lemma admit_phase:
  "ha_Phase action \<noteq> HardwarePhaseExecute \<Longrightarrow> fst (run_state (admit e lane action True) s) \<noteq> []"
  by (auto simp: admit_def run_bind validateAction_def of_guard_def split: prod.splits option.splits)

locale put_order = quiet_order +
  fixes L :: lane_env
  assumes log_put: "R s (s\<lparr>rg_store := run_boot_op L (PutOp fault t) (rg_store s),
      rg_log := rg_log s @ [EvJournal (PutOp fault t)]\<rparr>)"
begin

lemma log_written:
  "R s (s\<lparr>rg_step := n, rg_store := run_boot_op L (PutOp fault t) (rg_store s), rg_log := rg_log s @ [EvJournal (PutOp fault t)]\<rparr>)"
  using trans [OF fields_free [of "s\<lparr>rg_step := n\<rparr>"] log_put] by simp

lemma keeps_put [keeps]: "ae_lane e = L \<Longrightarrow> state_io_rel R (journal_PutBootTransition e t)"
  by (auto simp: state_io_rel_def run_put log_written simp del: run_boot_op.simps)

lemma keeps_terminalize [keeps]:
  "ae_lane e = L \<Longrightarrow> state_io_rel R (terminalizeTransition e t failure cause at safeErr)"
  unfolding terminalizeTransition_def by (intro keeps)

lemma keeps_fail [keeps]: "ae_lane e = L \<Longrightarrow> state_io_rel R (failTransition e lane t failure cause)"
  unfolding failTransition_def by (intro keeps)

lemma keeps_complete [keeps]: "ae_lane e = L \<Longrightarrow> state_io_rel R (completeTransition e lane t)"
  unfolding completeTransition_def stop_completion_def by (intro keeps)

lemma keeps_acknowledge [keeps]: "ae_lane e = L \<Longrightarrow> state_io_rel R (acknowledgePowerPrompt e t prompt)"
  unfolding acknowledgePowerPrompt_def by (intro keeps)

lemma keeps_normal_powered [keeps]: "ae_lane e = L \<Longrightarrow> state_io_rel R (normal_powered e v)"
  unfolding normal_powered_def by (intro keeps)

lemma keeps_normal_finish [keeps]: "ae_lane e = L \<Longrightarrow> state_io_rel R (normal_finish e lane v at captured)"
  unfolding normal_finish_def by (intro keeps; simp)

lemma keeps_recover_loop [keeps]: "ae_lane e = L \<Longrightarrow> state_io_rel R (recover_loop e lane ts)"
  by (induction ts) (unfold recover_loop.simps, (intro keeps | assumption | simp)+)

lemma keeps_prepare [keeps]:
  "ae_lane e = L \<Longrightarrow> state_io_rel R (recoverIncompleteTransitions e lane)"
  "ae_lane e = L \<Longrightarrow> state_io_rel R (prepareLane e lane)"
  "ae_lane e = L \<Longrightarrow> state_io_rel R (admit e lane a b)"
  unfolding recoverIncompleteTransitions_def prepareLane_def admit_def by (intro keeps; simp)+

lemma keeps_refused:
  assumes "ha_Phase action \<noteq> HardwarePhaseExecute" and "ae_lane e = L"
  shows "state_io_rel R (Adapter_Execute e lane action)"
proof
  fix s s' r
  assume "run_state (Adapter_Execute e lane action) s = (r, s')"
  then show "R s s'"
    using admit_phase [OF assms(1), of e lane s] state_io_relD [OF keeps_prepare(3) [OF assms(2)], of lane action True s]
    by (cases "run_state (admit e lane action True) s") (simp add: Adapter_Execute_def run_bind)
qed

end

locale journal_order = put_order +
  assumes log_begin: "R s (s\<lparr>rg_store := run_boot_op L (BeginOp fault q) (rg_store s),
      rg_log := rg_log s @ [EvJournal (BeginOp fault q)]\<rparr>)"
    and powered: "run_state (ensurePower e d) s = (x, s') \<Longrightarrow> R s s'"
begin

lemma keeps_power [keeps]: "state_io_rel R (ensurePower e d)"
  using powered by (fastforce simp: state_io_rel_def intro: prod.collapse [symmetric])

lemma keeps_begin [keeps]: "ae_lane e = L \<Longrightarrow> state_io_rel R (journal_BeginBootTransition e q)"
  using trans [OF fields_free log_begin]
  by (fastforce simp: state_io_rel_def run_begin simp del: run_boot_op.simps)

lemma keeps_normal_trigger [keeps]: "ae_lane e = L \<Longrightarrow> state_io_rel R (normal_trigger e lane prompt v)"
  unfolding normal_trigger_def by (intro keeps)

lemma keeps_normal [keeps]: "ae_lane e = L \<Longrightarrow> state_io_rel R (runNormalTransition e lane t prompt)"
  unfolding runNormalTransition_def by (intro keeps)

end

section \<open>Starts of \<^verbatim>\<open>rpiboot\<close>\<close>

text \<open>\<open>allowed\<close> are the bundles that the order lets the adapter run.\<close>

definition rpiboot_arguments :: "Config \<Rightarrow> string \<Rightarrow> string list" where
  "rpiboot_arguments lane bundle = [''-p'', path_Base (cf_RPIBootSysfsPath lane), ''-d'', bundle]"

locale run_order = reading_order +
  fixes env :: adapter_env and lane :: Config and allowed :: "string \<Rightarrow> bool"
  assumes log_run: "allowed bundle \<Longrightarrow>
    R s (s\<lparr>rg_log := rg_log s @ [EvRun (ip_RPIBootBinary (ag_Paths (ae_config env)))
      (rpiboot_arguments lane bundle) (rg_store s) reply]\<rparr>)"
begin

lemma keeps_Run [keeps]:
  "allowed bundle \<Longrightarrow> state_io_rel R
     (Run env (ip_RPIBootBinary (ag_Paths (ae_config env))) (rpiboot_arguments lane bundle))"
  using trans [OF step_free log_run]
  by (fastforce simp: state_io_rel_def Run_def run_bind primitive_defs)

lemma keeps_RunGuarded [keeps]:
  "allowed bundle \<Longrightarrow> state_io_rel R check \<Longrightarrow> state_io_rel R
     (RunGuarded env (ip_RPIBootBinary (ag_Paths (ae_config env))) (rpiboot_arguments lane bundle) check)"
  unfolding RunGuarded_def by (intro keeps)

lemma keeps_runRPIBoot [keeps]: "allowed bundle \<Longrightarrow> state_io_rel R (runRPIBootPayloadLocked env lane bundle)"
  unfolding runRPIBootPayloadLocked_def Let_def
  unfolding rpiboot_arguments_def [symmetric] by (intro keeps)

lemma keeps_preflight [keeps]:
  "allowed (ip_OwnedReadbackBundle (ag_Paths (ae_config env))) \<Longrightarrow>
   allowed (ip_FreshReadbackBundle (ag_Paths (ae_config env))) \<Longrightarrow>
   state_io_rel R (preflightRPIBootIdentityLocked env lane fingerprint)"
  unfolding preflightRPIBootIdentityLocked_def Let_def by (intro keeps; simp)

end

locale payload_order = run_order + quiet_order
begin

lemma adopt_frame [simp]: "rg_store (adopt m b r) = rg_store r" "rg_log (adopt m b r) = rg_log r" "ad_power (adopt m b r) = ad_power r"
  by (simp_all add: adopt_def)

lemma keeps_commit [keeps]:
  "allowed (ip_FreshCommitBundle (ag_Paths (ae_config env))) \<Longrightarrow> state_io_rel R (Adapter_commitLocked env lane fingerprint)"
  unfolding Adapter_commitLocked_def Let_def by (intro keeps; simp)

lemma keeps_readback [keeps]:
  "allowed bundle \<Longrightarrow> state_io_rel R (readbackLocked env lane fingerprint bundle mode)"
  unfolding readbackLocked_def Let_def by (intro keeps; simp)

lemma keeps_uartTest [keeps]:
  "allowed bundle \<Longrightarrow> state_io_rel R (uartBundleTestLocked env lane bundle marker p)"
  unfolding uartBundleTestLocked_def by (intro keeps; simp)

lemma keeps_observe_payload [keeps]:
  "allowed (ip_OwnedReadbackBundle (ag_Paths (ae_config env))) \<Longrightarrow>
   allowed (ip_FreshReadbackBundle (ag_Paths (ae_config env))) \<Longrightarrow>
   state_io_rel R (observe_payload env lane action)"
  unfolding observe_payload_def Let_def by (intro keeps; simp)

end

text \<open>The bundles an action may run: the two readbacks, and an execution the one of its operation.\<close>

definition bundle_permitted :: "ImmutablePaths \<Rightarrow> HardwareAction \<Rightarrow> string \<Rightarrow> bool" where
  "bundle_permitted paths action bundle \<longleftrightarrow>
     bundle = ip_OwnedReadbackBundle paths \<or> bundle = ip_FreshReadbackBundle paths
     \<or> (ha_Phase action = HardwarePhaseExecute
        \<and> (ha_Operation action = OperationProgramCustomerKeyAndEEPROM \<and> bundle = ip_FreshCommitBundle paths
           \<or> ha_Operation action = OperationTestOwnedRecovery \<and> bundle = ip_OwnedRecoveryBundle paths
           \<or> ha_Operation action = OperationTestNegativeBoot \<and> bundle = ip_NegativeBootBundle paths
           \<or> ha_Operation action = OperationTestRootIntegrity \<and> bundle = ip_RootIntegrityBundle paths))"

locale action_order = payload_order +
  fixes action :: HardwareAction
  assumes permitted: "bundle_permitted (ag_Paths (ae_config env)) action bundle \<Longrightarrow> allowed bundle"
begin

lemma allowed_readbacks:
  "allowed (ip_OwnedReadbackBundle (ag_Paths (ae_config env)))"
  "allowed (ip_FreshReadbackBundle (ag_Paths (ae_config env)))"
  using permitted by (simp_all add: bundle_permitted_def)

lemma keeps_execute_payload [keeps]:
  "ha_Phase action = HardwarePhaseExecute \<Longrightarrow> state_io_rel R (execute_payload env lane action)"
  unfolding execute_payload_def Let_def
  by (intro keeps allowed_readbacks; (rule allowed_readbacks | rule permitted, simp add: bundle_permitted_def))

lemma keeps_action_payload:
  "state_io_rel R (observe_payload env lane action)"
  "state_io_rel R (preflightRPIBootIdentityLocked env lane fingerprint)"
  by (intro keeps allowed_readbacks)+

end

section \<open>Whole calls\<close>

locale call_order = journal_order R L + action_order R env lane allowed action
  for R L env lane allowed action +
  assumes same_lane: "ae_lane env = L"
begin

lemmas keeps_here = keeps same_lane keeps_action_payload

lemma keeps_run_payload: "state_io_rel R payload \<Longrightarrow> state_io_rel R (run_payload env lane t payload)"
  unfolding run_payload_def by (intro keeps_here)

lemma keeps_run_released: "state_io_rel R payload \<Longrightarrow> state_io_rel R (run_released env lane t payload)"
  unfolding run_released_def run_preflighted_def by (intro keeps_here keeps_run_payload; simp)

lemma keeps_run_observed: "state_io_rel R payload \<Longrightarrow> state_io_rel R (run_observed env lane t prompt payload)"
  unfolding run_observed_def by (intro keeps_here keeps_run_released)

lemma keeps_rpiboot: "state_io_rel R payload \<Longrightarrow> state_io_rel R (runRPIBootTransition env lane t payload)"
  unfolding runRPIBootTransition_def run_powered_def by (intro keeps_here keeps_run_observed)

lemma keeps_transition: "state_io_rel R payload \<Longrightarrow> state_io_rel R (runBootTransition env lane a payload)"
  unfolding runBootTransition_def run_begun_def by (intro keeps_here keeps_rpiboot)

lemma keeps_observe: "state_io_rel R (Adapter_Observe env lane action)"
  unfolding Adapter_Observe_def by (intro keeps_here keeps_transition)

lemma keeps_execute: "state_io_rel R (Adapter_Execute env lane action)"
proof (cases "ha_Phase action = HardwarePhaseExecute")
  case True
  then show ?thesis unfolding Adapter_Execute_def by (intro keeps_here keeps_transition)
next
  case False
  then show ?thesis using keeps_refused same_lane by blast
qed

end

end
