(* ===== verification/Adapter_Facts.thy ===== *)
theory Adapter_Facts
  imports Adapter_Orders Lane_Boot_Facts
begin

text \<open>
  The adapter's calls in terms of the lane guard: the journal after a call is the journal before it with the boot operations
  of the log, and \<^verbatim>\<open>rpiboot\<close> is started only while the journal holds the released transition.
\<close>

section \<open>The log\<close>

definition new_events :: "rig \<Rightarrow> rig \<Rightarrow> adapter_event list" where
  "new_events s s' = drop (length (rg_log s)) (rg_log s')"

definition events_grow :: "(adapter_event \<Rightarrow> bool) \<Rightarrow> rig \<Rightarrow> rig \<Rightarrow> bool" where
  "events_grow P s s' \<longleftrightarrow> (\<exists>l. rg_log s' = rg_log s @ l \<and> list_all P l)"

definition is_run :: "adapter_event \<Rightarrow> bool" where
  "is_run ev = (case ev of EvRun _ _ _ _ \<Rightarrow> True | _ \<Rightarrow> False)"

lemma events_grow_new: "events_grow P s s' \<Longrightarrow> list_all P (new_events s s')"
  by (auto simp: events_grow_def new_events_def)

lemma events_grow_mono: "events_grow P s s' \<Longrightarrow> (\<And>ev. P ev \<Longrightarrow> Q ev) \<Longrightarrow> events_grow Q s s'"
  unfolding events_grow_def by (metis (mono_tags, lifting) list.pred_mono_strong)

lemma events_grow_same [simp]: "rg_log s' = rg_log s \<Longrightarrow> events_grow P s s'"
  by (simp add: events_grow_def)

lemma events_grow_one [simp]:
  "events_grow P s (s\<lparr>rg_log := rg_log s @ [ev]\<rparr>) \<longleftrightarrow> P ev"
  "events_grow P s (s\<lparr>rg_store := st, rg_log := rg_log s @ [ev]\<rparr>) \<longleftrightarrow> P ev"
  by (simp_all add: events_grow_def)

lemma events_grow_event: "rg_log s' = rg_log s @ [ev] \<Longrightarrow> P ev \<Longrightarrow> events_grow P s s'"
  by (simp add: events_grow_def)

lemmas power_logs = releasePower_log ensurePower_log

lemma events_grow_trans: "events_grow P s s' \<Longrightarrow> events_grow P s' s'' \<Longrightarrow> events_grow P s s''"
  by (fastforce simp: events_grow_def)

interpretation grow: rig_order "events_grow P" for P
  by unfold_locales (auto intro: events_grow_trans)

section \<open>The journal follows the log\<close>

fun journal_op :: "adapter_event \<Rightarrow> boot_op option" where
  "journal_op (EvJournal op) = Some op"
| "journal_op _ = None"

definition journal_ops :: "adapter_event list \<Rightarrow> boot_op list" where
  "journal_ops l = List.map_filter journal_op l"

lemma journal_ops_append [simp]: "journal_ops (l @ l') = journal_ops l @ journal_ops l'"
  by (simp add: journal_ops_def map_filter_def)

lemma journal_ops_outside [simp]: "outside ev \<Longrightarrow> journal_ops [ev] = []"
  by (cases ev) (simp_all add: journal_ops_def map_filter_def outside_def)

lemma journal_ops_run [simp]:
  "journal_ops [EvRun x a st reply] = []" "journal_ops [EvPower d] = []" "journal_ops [EvJournal op] = [op]"
  by (simp_all add: journal_ops_def map_filter_def)

definition follows :: "lane_env \<Rightarrow> rig \<Rightarrow> rig \<Rightarrow> bool" where
  "follows L s s' \<longleftrightarrow>
     (\<exists>l. rg_log s' = rg_log s @ l \<and> rg_store s' = run_boot_ops L (journal_ops l) (rg_store s))"

lemma run_boot_ops_simps [simp]:
  "run_boot_ops L [] st = st" "run_boot_ops L (ops @ ops') st = run_boot_ops L ops' (run_boot_ops L ops st)"
  "run_boot_ops L [op] st = run_boot_op L op st"
  by (simp_all add: run_boot_ops_def)

lemma follows_intros:
  "follows L s s"
  "follows L s s' \<Longrightarrow> follows L s' s'' \<Longrightarrow> follows L s s''"
  "rg_store s' = rg_store s \<Longrightarrow> rg_log s' = rg_log s \<Longrightarrow> follows L s s'"
  "rg_store s' = rg_store s \<Longrightarrow> rg_log s' = rg_log s @ [ev] \<Longrightarrow> journal_ops [ev] = [] \<Longrightarrow> follows L s s'"
  "rg_store s' = run_boot_op L op (rg_store s) \<Longrightarrow> rg_log s' = rg_log s @ [EvJournal op] \<Longrightarrow> follows L s s'"
proof -
  show "follows L s s" by (simp add: follows_def journal_ops_def map_filter_def)
  show "follows L s s' \<Longrightarrow> follows L s' s'' \<Longrightarrow> follows L s s''" by (fastforce simp: follows_def)
  show "rg_store s' = rg_store s \<Longrightarrow> rg_log s' = rg_log s \<Longrightarrow> follows L s s'"
    by (simp add: follows_def journal_ops_def map_filter_def)
  show "rg_store s' = rg_store s \<Longrightarrow> rg_log s' = rg_log s @ [ev] \<Longrightarrow> journal_ops [ev] = [] \<Longrightarrow> follows L s s'"
    by (auto simp: follows_def)
  show "rg_store s' = run_boot_op L op (rg_store s) \<Longrightarrow> rg_log s' = rg_log s @ [EvJournal op] \<Longrightarrow> follows L s s'"
    by (auto simp: follows_def)
qed

interpretation follow: call_order "follows (ae_lane e)" "ae_lane e" e lane "\<lambda>_. True" action for e lane action
  by unfold_locales (auto intro: follows_intros dest!: power_logs simp: outside_def simp del: run_boot_op.simps)

section \<open>Steps that start nothing\<close>

interpretation still: journal_order "events_grow (\<lambda>ev. \<not> is_run ev)" L for L
  by unfold_locales
    (auto intro: events_grow_trans events_grow_event dest!: power_logs simp: is_run_def outside_def split: adapter_event.splits)

section \<open>Steps that leave the journal\<close>

definition run_at :: "adapter_env \<Rightarrow> Config \<Rightarrow> HardwareAction \<Rightarrow> lane_store \<Rightarrow> adapter_event \<Rightarrow> bool" where
  "run_at e lane action st ev =
     (case ev of
        EvRun executable arguments st' reply \<Rightarrow>
          executable = ip_RPIBootBinary (ag_Paths (ae_config e)) \<and> st' = st
          \<and> (\<exists>bundle. bundle_permitted (ag_Paths (ae_config e)) action bundle \<and> arguments = rpiboot_arguments lane bundle)
      | _ \<Rightarrow> True)"

definition runs_in_place :: "adapter_env \<Rightarrow> Config \<Rightarrow> HardwareAction \<Rightarrow> rig \<Rightarrow> rig \<Rightarrow> bool" where
  "runs_in_place e lane action s s' \<longleftrightarrow>
     rg_store s' = rg_store s \<and> events_grow (run_at e lane action (rg_store s)) s s'"

lemma run_at_outside [simp]: "outside ev \<Longrightarrow> run_at e lane action st ev"
  by (simp add: run_at_def outside_def split: adapter_event.splits)

lemma run_at_run:
  "run_at e lane action st (EvRun x args st' reply) \<longleftrightarrow>
     x = ip_RPIBootBinary (ag_Paths (ae_config e)) \<and> st' = st
     \<and> (\<exists>bundle. bundle_permitted (ag_Paths (ae_config e)) action bundle \<and> args = rpiboot_arguments lane bundle)"
  by (simp add: run_at_def)

lemma run_at_release: "run_at e lane action st EvRelease"
  by (simp add: run_at_def)

interpretation place: action_order "runs_in_place e lane action" e lane
  "bundle_permitted (ag_Paths (ae_config e)) action" action for e lane action
  by unfold_locales 
    (auto simp: runs_in_place_def run_at_run run_at_release intro: events_grow_trans events_grow_event dest!: power_logs)

section \<open>Starts in a released transition\<close>

definition held :: "BootTransition \<Rightarrow> lane_store \<Rightarrow> bool" where
  "held t st \<longleftrightarrow> map_get (js_BootTransitions (lane_journal_of st)) (bt_Key t) = Some t"

definition released_run :: "adapter_env \<Rightarrow> Config \<Rightarrow> HardwareAction \<Rightarrow> adapter_event \<Rightarrow> bool" where
  "released_run e lane action ev =
     (case ev of
        EvRun executable arguments st reply \<Rightarrow>
          executable = ip_RPIBootBinary (ag_Paths (ae_config e))
          \<and> (\<exists>bundle. bundle_permitted (ag_Paths (ae_config e)) action bundle \<and> arguments = rpiboot_arguments lane bundle)
          \<and> (\<exists>t. held t st \<and> bt_Action t = action \<and> bt_Status t = BootTransitionOperatorReleased)
      | _ \<Rightarrow> True)"

lemma of_guard_Nil [simp]: "of_guard r = [] \<longleftrightarrow> r = None"
  by (simp add: of_guard_def split: option.splits)

lemma put_held:
  assumes "run_state (journal_PutBootTransition e t) s = ([], s')"
  shows "held t (rg_store s')" and "BootTransition_Validate (ae_sha e) t = None"
proof -
  obtain r st where r: "Store_PutBootTransition (ae_lane e) (ae_fault e (rg_step s)) t (rg_store s) = (r, st)"
    by fastforce
  then have "r = None" "rg_store s' = st" using assms by (auto simp: run_put)
  then have "BootTransition_Validate (ae_sha e) t = None"
    and "put_transition (ae_sha e) t (lane_journal_of (rg_store s)) = Inr (lane_journal_of (rg_store s'))"
    using file_journal.putBoot_law [OF r] by auto
  then show "held t (rg_store s')" and "BootTransition_Validate (ae_sha e) t = None"
    by (auto simp: held_def put_transition_def journalState.surjective dest!: arg_cong [where f = js_BootTransitions]
        split: option.splits) (metis map_get_put)+
qed

lemma acknowledged_action:
  "run_state (acknowledgePowerPrompt e t prompt) s = ((t', failure, err), s') \<Longrightarrow> bt_Action t' = bt_Action t"
  by (auto simp: acknowledgePowerPrompt_def run_bind Let_def split: prod.splits sum.splits if_splits)

lemma established_action: "run_state (power_established e t) s = (t', s') \<Longrightarrow> bt_Action t' = bt_Action t"
  by (auto simp: power_established_def run_bind split: prod.splits)

lemma begun_action:
  assumes "run_state (journal_BeginBootTransition e q) s = (Inr t, s')"
  shows "bt_Action t = bb_Action q"
  using assms
  by (auto simp: run_begin Store_BeginBootTransition_def add_transition_def begin_transition_def request_transition_def Let_def
      split: sum.splits prod.splits option.splits if_splits)

text \<open>Whatever allows the writes and what happens once the transition is released and held by the journal
  allows the whole transition.\<close>

context journal_order
begin

lemma keeps_observed_from:
  assumes "ae_lane e = L"
    and after: "\<And>t' s x s'. bt_Action t' = bt_Action t \<Longrightarrow> bt_Status t' = BootTransitionOperatorReleased
      \<Longrightarrow> held t' (rg_store s) \<Longrightarrow> run_state (run_released e lane t' payload) s = (x, s') \<Longrightarrow> R s s'"
  shows "state_io_rel R (run_observed e lane t prompt payload)"
proof -
  have tail: "state_io_rel R (do { err \<leftarrow> journal_PutBootTransition e t';
         if err \<noteq> [] then failTransition e lane t' failure err else run_released e lane t' payload })"
    if t': "bt_Status t' = BootTransitionOperatorReleased" "bt_Action t' = bt_Action t" for t' failure
  proof
    fix x s s' assume run: "run_state (do { err \<leftarrow> journal_PutBootTransition e t';
         if err \<noteq> [] then failTransition e lane t' failure err else run_released e lane t' payload }) s = (x, s')"
    obtain err s1 where put: "run_state (journal_PutBootTransition e t') s = (err, s1)" by fastforce
    have "R s1 s'"
    proof (cases "err = []")
      case True
      then show ?thesis using run put put_held(1) [of e t' s s1] after [OF t'(2,1)] by (auto simp: run_bind)
    next
      case False
      then show ?thesis
        using run put by (intro state_io_relD [OF keeps_fail [OF assms(1)]]) (auto simp: run_bind)
    qed
    then show "R s s'" using state_io_relD [OF keeps_put [OF assms(1)] put] trans by blast
  qed
  show ?thesis
    unfolding run_observed_def Let_def
    by (intro keeps_bind io_sum io_if tail) ((intro keeps assms(1) | simp)+)
qed

lemma keeps_rpiboot_from:
  assumes "ae_lane e = L"
    and after: "\<And>t' s x s'. bt_Action t' = bt_Action t \<Longrightarrow> bt_Status t' = BootTransitionOperatorReleased
      \<Longrightarrow> held t' (rg_store s) \<Longrightarrow> run_state (run_released e lane t' payload) s = (x, s') \<Longrightarrow> R s s'"
  shows "state_io_rel R (runRPIBootTransition e lane t payload)"
proof -
  have observed: "state_io_rel R (run_observed e lane t' prompt payload)" if "bt_Action t' = bt_Action t" for t' prompt
    using keeps_observed_from [OF assms(1), of t' lane payload] after that by simp
  have powered: "state_io_rel R (run_powered e lane t' payload)" if "bt_Action t' = bt_Action t" for t'
    unfolding run_powered_def Let_def
    by (intro keeps_bind io_sum io_if observed) ((intro keeps assms(1) | simp add: that rpiboot_observed_def)+)
  show ?thesis
    unfolding runRPIBootTransition_def
    by (intro keeps_bind_value io_if powered established_action) ((intro keeps assms(1) | assumption)+)
qed

lemma keeps_released_transition:
  assumes "ae_lane e = L"
    and after: "\<And>t s x s'. bt_Action t = action \<Longrightarrow> bt_Status t = BootTransitionOperatorReleased
      \<Longrightarrow> held t (rg_store s) \<Longrightarrow> run_state (run_released e lane t payload) s = (x, s') \<Longrightarrow> R s s'"
  shows "state_io_rel R (runBootTransition e lane action payload)"
proof -
  have rpiboot: "state_io_rel R (runRPIBootTransition e lane t payload)" if "bt_Action t = action" for t
    using keeps_rpiboot_from [OF assms(1), of t lane payload] after that by simp
  have begun: "state_io_rel R (run_begun e lane t prompt payload)" if "bt_Action t = action" for t prompt
    unfolding run_begun_def Let_def
    by (intro keeps_bind_value io_if io_prod rpiboot; (intro keeps assms(1))?) (auto dest: acknowledged_action simp: that)
  show ?thesis
    unfolding runBootTransition_def Let_def
    by (intro keeps_bind_value io_if io_prod io_sum begun; (intro keeps assms(1))?)
      (auto dest: begun_action simp: begin_request_def)
qed

end

text \<open>From a state that holds \<open>t\<close>, every start is one of a released transition.\<close>

definition released_from :: "adapter_env \<Rightarrow> Config \<Rightarrow> BootTransition \<Rightarrow> rig \<Rightarrow> rig \<Rightarrow> bool" where
  "released_from e lane t s s' \<longleftrightarrow>
     (held t (rg_store s) \<longrightarrow> events_grow (released_run e lane (bt_Action t)) s s')"

lemma released_run_still: "\<not> is_run ev \<Longrightarrow> released_run e lane action ev"
  by (simp add: is_run_def released_run_def split: adapter_event.splits)

lemma still_released: "state_io_rel (events_grow (\<lambda>ev. \<not> is_run ev)) m \<Longrightarrow> state_io_rel (events_grow (released_run e lane action)) m"
  by (auto simp: state_io_rel_def intro: events_grow_mono released_run_still)

interpretation rel: journal_order "events_grow (released_run e lane action)" L for e lane action L
  by unfold_locales
    (auto intro: events_grow_trans events_grow_event dest!: power_logs simp: released_run_def outside_def split: adapter_event.splits)

lemma still_from: "state_io_rel (events_grow (\<lambda>ev. \<not> is_run ev)) m \<Longrightarrow> state_io_rel (released_from e lane t) m"
  using still_released by (fastforce simp: state_io_rel_def released_from_def)

lemma place_then_from:
  assumes "state_io_rel (runs_in_place e lane (bt_Action t)) m" and "\<And>x. state_io_rel (released_from e lane t) (f x)"
    and "bt_Status t = BootTransitionOperatorReleased"
  shows "state_io_rel (released_from e lane t) (m \<bind> f)"
proof
  fix x s s'' assume run: "run_state (m \<bind> f) s = (x, s'')"
  obtain y s' where m: "run_state m s = (y, s')" by fastforce
  have "rg_store s' = rg_store s" "events_grow (run_at e lane (bt_Action t) (rg_store s)) s s'"
    using state_io_relD [OF assms(1) m] by (auto simp: runs_in_place_def)
  moreover have "run_at e lane (bt_Action t) (rg_store s) ev \<Longrightarrow> held t (rg_store s) \<Longrightarrow> released_run e lane (bt_Action t) ev" for ev
    using assms(3) by (auto simp: run_at_def released_run_def split: adapter_event.splits)
  moreover have "released_from e lane t s' s''"
    using state_io_relD [OF assms(2)] run m by (auto simp: run_bind)
  ultimately show "released_from e lane t s s''"
    unfolding released_from_def by (metis events_grow_mono events_grow_trans)
qed

lemma from_then_still:
  assumes "state_io_rel (released_from e lane t) m" and "\<And>x. state_io_rel (events_grow (\<lambda>ev. \<not> is_run ev)) (f x)"
  shows "state_io_rel (released_from e lane t) (m \<bind> f)"
proof
  fix x s s'' assume run: "run_state (m \<bind> f) s = (x, s'')"
  obtain y s' where m: "run_state m s = (y, s')" by fastforce
  show "released_from e lane t s s''"
    using state_io_relD [OF assms(1) m] state_io_relD [OF still_released [OF assms(2)]] run m
    by (auto simp: released_from_def run_bind intro: events_grow_trans)
qed

lemma run_payload_from:
  assumes "state_io_rel (runs_in_place e lane (bt_Action t)) payload" and "bt_Status t = BootTransitionOperatorReleased"
  shows "state_io_rel (released_from e lane t) (run_payload e lane t payload)"
  unfolding run_payload_def
  by (intro place_then_from assms still_from) ((intro keeps | rule refl)+)

lemma run_released_from:
  assumes "state_io_rel (runs_in_place e lane (bt_Action t)) payload" and "bt_Status t = BootTransitionOperatorReleased"
  shows "state_io_rel (released_from e lane t) (run_released e lane t payload)"
proof -
  have fail: "state_io_rel (released_from e lane t) (failTransition e lane t failure cause)" for failure cause
    by (rule still_from) (intro keeps | rule refl)+
  have refuse: "state_io_rel (released_from e lane t)
      (do { failure \<leftarrow> payload_failure e err; failTransition e lane t failure err })" for err
    by (rule still_from) (intro keeps | rule refl)+
  show ?thesis
    unfolding run_released_def run_preflighted_def
    by (intro place_then_from io_if from_then_still run_payload_from fail refuse assms)
      (intro keeps place.keeps_action_payload; simp)+
qed

lemma released_transition:
  assumes "state_io_rel (runs_in_place e lane action) payload"
  shows "state_io_rel (events_grow (released_run e lane action)) (runBootTransition e lane action payload)"
proof (rule rel.keeps_released_transition [OF refl])
  fix t s x s'
  assume "bt_Action t = action" "bt_Status t = BootTransitionOperatorReleased" "held t (rg_store s)"
    and "run_state (run_released e lane t payload) s = (x, s')"
  then show "events_grow (released_run e lane action) s s'"
    using state_io_relD [OF run_released_from [of e lane t payload]] assms by (simp add: released_from_def)
qed

lemma released_calls:
  "state_io_rel (events_grow (released_run e lane action)) (Adapter_Observe e lane action)"
  "state_io_rel (events_grow (released_run e lane action)) (Adapter_Execute e lane action)"
proof -
  show "state_io_rel (events_grow (released_run e lane action)) (Adapter_Observe e lane action)"
    unfolding Adapter_Observe_def
    by (intro grow.keeps_bind io_if io_prod released_transition place.keeps_action_payload) ((intro keeps | rule refl)+)
  have admitted: "ha_Phase action = HardwarePhaseExecute"
    if "run_state (admit e lane action True) s = (x, s')" and "\<not> x \<noteq> []" for s x s'
    using admit_phase [of action e lane s] that by auto
  show "state_io_rel (events_grow (released_run e lane action)) (Adapter_Execute e lane action)"
    unfolding Adapter_Execute_def
    by (intro grow.keeps_bind_value io_if io_prod released_transition; (intro keeps | rule refl)?) (rule refl | erule (1) admitted)+
qed

end
