(* ===== verification/Adapter_Commit.thy ===== *)
theory Adapter_Commit
  imports Adapter_Facts
begin

text \<open>
  The irreversible step: the commit bundle is started only after a readback in the same call has shown the authorized
  board, still without a customer key.
\<close>

section \<open>What a run without error shows\<close>

definition adapter_fields :: "rig \<Rightarrow> rig \<Rightarrow> bool" where
  "adapter_fields s s' \<longleftrightarrow>
     ad_lane s' = ad_lane s \<and> ad_target s' = ad_target s \<and> ad_mode s' = ad_mode s \<and> ad_power s' = ad_power s
     \<and> ad_directState s' = ad_directState s \<and> ad_usbPin s' = ad_usbPin s \<and> rg_store s' = rg_store s"

interpretation frame: run_order adapter_fields e lane "\<lambda>_. True" for e lane
  by unfold_locales (auto simp: adapter_fields_def)

definition clean_output :: "adapter_env \<Rightarrow> run_reply \<Rightarrow> string" where
  "clean_output e reply = bf_bytes (collected e (rn_stdout reply))"

lemma reading_log: "state_io_rel (events_grow (\<lambda>_. True)) m \<Longrightarrow> run_state m s = (x, s') \<Longrightarrow> \<exists>l. rg_log s' = rg_log s @ l"
  by (auto simp: state_io_rel_def events_grow_def) (metis snd_conv)

interpretation any: reading_order "events_grow (\<lambda>_. True)"
  by unfold_locales (auto intro: events_grow_trans)

lemma Run_event:
  "run_state (Run e x args) s = (reply, s') \<Longrightarrow> rg_log s' = rg_log s @ [EvRun x args (rg_store s) reply]"
  by (auto simp: Run_def run_bind primitive_defs)

lemma RunGuarded_event:
  assumes "run_state (RunGuarded e x args check) s = (reply, s')" and "rn_err reply = []"
    and "state_io_rel (events_grow (\<lambda>_. True)) check"
  shows "\<exists>st l. rg_log s' = rg_log s @ l @ [EvRun x args st reply]"
proof -
  obtain err s1 where c: "run_state check s = (err, s1)" by fastforce
  then have "err = []" "run_state (Run e x args) s1 = (reply, s')"
    using assms(1,2) by (auto simp: RunGuarded_def run_bind no_run_def split: if_splits)
  then show ?thesis using Run_event reading_log [OF assms(3) c] by fastforce
qed

lemma rpiboot_ok:
  assumes "run_state (runRPIBootPayloadLocked e lane bundle) s = ((out, []), s')"
  shows "\<exists>st l reply. rg_log s' = rg_log s @ l
     @ [EvRun (ip_RPIBootBinary (ag_Paths (ae_config e))) (rpiboot_arguments lane bundle) st reply]
     \<and> rn_err reply = [] \<and> out = clean_output e reply"
proof -
  define path where "path = cf_RPIBootSysfsPath lane"
  obtain err s1 where exact: "run_state (requireExactTarget e path) s = (err, s1)" by fastforce
  note log1 = reading_log [OF any.keeps_topology(3) exact]
  define start where "start = (if ad_usbPin s1
     then RunGuarded e (ip_RPIBootBinary (ag_Paths (ae_config e))) (rpiboot_arguments lane bundle) (start_guard e lane)
     else Run e (ip_RPIBootBinary (ag_Paths (ae_config e))) (rpiboot_arguments lane bundle))"
  obtain reply s2 where r: "run_state start s1 = (reply, s2)" by fastforce
  have facts: "s' = s2" "rn_err reply = []" "out = clean_output e reply"
    using assms exact r
    by (auto simp: runRPIBootPayloadLocked_def run_bind gets_def Let_def path_def start_def rpiboot_arguments_def
        clean_output_def split: if_splits prod.splits)
  have "\<exists>st l. rg_log s2 = rg_log s1 @ l
      @ [EvRun (ip_RPIBootBinary (ag_Paths (ae_config e))) (rpiboot_arguments lane bundle) st reply]"
    using r RunGuarded_event [OF _ facts(2) any.keeps_pin(2)] Run_event
    by (cases "ad_usbPin s1") (fastforce simp: start_def)+
  then show ?thesis using log1 facts by fastforce
qed

section \<open>The identity read\<close>

definition identity_read :: "adapter_env \<Rightarrow> Config \<Rightarrow> HardwareAction \<Rightarrow> adapter_event \<Rightarrow> bool" where
  "identity_read e lane action ev =
     (case ev of
        EvRun executable arguments st reply \<Rightarrow>
          arguments = rpiboot_arguments lane (ip_FreshReadbackBundle (ag_Paths (ae_config e)))
          \<and> (case output_metadata e (clean_output e reply) of
                Inl _ \<Rightarrow> False
              | Inr m \<Rightarrow> md_TargetFingerprint m = ha_TargetFingerprint action \<and> md_CustomerKeyHash m = zeroCustomerKey)
      | _ \<Rightarrow> False)"

definition is_commit :: "adapter_env \<Rightarrow> Config \<Rightarrow> adapter_event \<Rightarrow> bool" where
  "is_commit e lane ev =
     (case ev of
        EvRun executable arguments st reply \<Rightarrow>
          arguments = rpiboot_arguments lane (ip_FreshCommitBundle (ag_Paths (ae_config e)))
      | _ \<Rightarrow> False)"

lemma preflight_identity:
  assumes "run_state (preflightRPIBootIdentityLocked e lane (ha_TargetFingerprint action)) s = ([], s')"
  shows "ad_mode s' = ad_mode s"
    and "ad_mode s = ModeFresh \<Longrightarrow> \<exists>l ev. rg_log s' = rg_log s @ l @ [ev] \<and> identity_read e lane action ev"
proof -
  show "ad_mode s' = ad_mode s"
    using state_io_relD [OF frame.keeps_preflight assms] by (simp add: adapter_fields_def)
  assume fresh: "ad_mode s = ModeFresh"
  obtain out err s1 where run:
    "run_state (runRPIBootPayloadLocked e lane (ip_FreshReadbackBundle (ag_Paths (ae_config e)))) s = ((out, err), s1)"
    by (metis prod.exhaust)
  have "err = []" "s' = s1"
    and read: "\<exists>m. output_metadata e out = Inr m \<and> md_TargetFingerprint m = ha_TargetFingerprint action
       \<and> md_CustomerKeyHash m = zeroCustomerKey"
    using assms run fresh
    by (auto simp: preflightRPIBootIdentityLocked_def run_bind gets_def ModeFresh_def ModeOwned_def
        validateContinuity_def preflight_error_def Let_def split: sum.splits if_splits option.splits)
  then show "\<exists>l ev. rg_log s' = rg_log s @ l @ [ev] \<and> identity_read e lane action ev"
    using rpiboot_ok [of e lane _ s out s1] run by (fastforce simp: identity_read_def)
qed

section \<open>The commit comes after it\<close>

definition commit_guarded :: "adapter_env \<Rightarrow> Config \<Rightarrow> HardwareAction \<Rightarrow> adapter_event list \<Rightarrow> bool" where
  "commit_guarded e lane action l \<longleftrightarrow>
     (\<forall>l1 ev l2. l = l1 @ ev # l2 \<longrightarrow> is_commit e lane ev \<longrightarrow> list_ex (identity_read e lane action) l1)"

definition log_guarded :: "adapter_env \<Rightarrow> Config \<Rightarrow> HardwareAction \<Rightarrow> rig \<Rightarrow> rig \<Rightarrow> bool" where
  "log_guarded e lane action s s' \<longleftrightarrow> (\<exists>l. rg_log s' = rg_log s @ l \<and> commit_guarded e lane action l)"

lemma guarded_append:
  assumes "commit_guarded e lane action l" and "commit_guarded e lane action l' \<or> list_ex (identity_read e lane action) l"
  shows "commit_guarded e lane action (l @ l')"
  using assms by (fastforce simp: commit_guarded_def append_eq_append_conv2 append_eq_Cons_conv Cons_eq_append_conv)

lemma guarded_none: "list_all (\<lambda>ev. \<not> is_commit e lane ev) l \<Longrightarrow> commit_guarded e lane action l"
  by (auto simp: commit_guarded_def)

lemma log_guarded_none: "events_grow (\<lambda>ev. \<not> is_commit e lane ev) s s' \<Longrightarrow> log_guarded e lane action s s'"
  by (auto simp: events_grow_def log_guarded_def intro: guarded_none)

lemma log_guarded_trans:
  "log_guarded e lane action s s' \<Longrightarrow> log_guarded e lane action s' s'' \<Longrightarrow> log_guarded e lane action s s''"
  by (force simp: log_guarded_def intro: guarded_append)

lemma log_guarded_read:
  assumes "log_guarded e lane action s s'" and "rg_log s' = rg_log s @ l" and "list_ex (identity_read e lane action) l"
    and "rg_log s'' = rg_log s' @ l'"
  shows "log_guarded e lane action s s''"
  using assms guarded_append by (force simp: log_guarded_def)

lemma rpiboot_arguments_inj [simp]: "rpiboot_arguments lane b = rpiboot_arguments lane b' \<longleftrightarrow> b = b'"
  by (simp add: rpiboot_arguments_def)

text \<open>Steps that do not start the commit\<close>

interpretation other: journal_order "events_grow (\<lambda>ev. \<not> is_commit e lane ev)" L for e lane L
  by unfold_locales
    (auto intro: events_grow_trans events_grow_event dest!: power_logs simp: is_commit_def outside_def split: adapter_event.splits)

interpretation others: payload_order "events_grow (\<lambda>ev. \<not> is_commit e lane ev)" e lane
  "\<lambda>b. b \<noteq> ip_FreshCommitBundle (ag_Paths (ae_config e))" for e lane
  by unfold_locales
    (auto intro: events_grow_trans events_grow_event dest!: power_logs simp: is_commit_def outside_def split: adapter_event.splits)

interpretation guarded: journal_order "log_guarded e lane action" L for e lane action L
  by unfold_locales
    (auto intro: log_guarded_trans log_guarded_none log_guarded_none [OF events_grow_event] dest!: power_logs
      simp: is_commit_def outside_def split: adapter_event.splits)

definition commit_apart :: "ImmutablePaths \<Rightarrow> bool" where
  "commit_apart paths \<longleftrightarrow>
     ip_FreshCommitBundle paths \<noteq> ip_FreshReadbackBundle paths \<and> ip_FreshCommitBundle paths \<noteq> ip_OwnedReadbackBundle paths
     \<and> ip_FreshCommitBundle paths \<noteq> ip_OwnedRecoveryBundle paths \<and> ip_FreshCommitBundle paths \<noteq> ip_NegativeBootBundle paths
     \<and> ip_FreshCommitBundle paths \<noteq> ip_RootIntegrityBundle paths"

lemma other_payload:
  assumes "commit_apart (ag_Paths (ae_config e))" and "ha_Operation action \<noteq> OperationProgramCustomerKeyAndEEPROM"
  shows "state_io_rel (events_grow (\<lambda>ev. \<not> is_commit e lane ev)) (execute_payload e lane action)"
  using assms unfolding execute_payload_def Let_def
  by (intro keeps) (auto simp: commit_apart_def)

lemma none_guarded:
  "state_io_rel (events_grow (\<lambda>ev. \<not> is_commit e lane ev)) m \<Longrightarrow> state_io_rel (log_guarded e lane action) m"
  by (auto simp: state_io_rel_def intro: log_guarded_none)

lemma owned_payload:
  assumes "commit_apart (ag_Paths (ae_config e))" and "ad_mode s \<noteq> ModeFresh"
    and "run_state (execute_payload e lane action) s = (x, s')"
  shows "events_grow (\<lambda>ev. \<not> is_commit e lane ev) s s'"
proof (cases "ha_Operation action = OperationProgramCustomerKeyAndEEPROM")
  case True
  then have "s' = s"
    using assms(2,3) by (simp add: execute_payload_def Adapter_commitLocked_def run_bind gets_def)
  then show ?thesis by simp
next
  case False
  then show ?thesis using state_io_relD [OF other_payload [OF assms(1)]] assms(3) by blast
qed

lemma grow_any: "state_io_rel (follows L) m \<Longrightarrow> run_state m s = (x, s') \<Longrightarrow> \<exists>l. rg_log s' = rg_log s @ l"
  by (auto simp: state_io_rel_def follows_def) (metis snd_conv)

lemma preflighted_payload:
  assumes "commit_apart (ag_Paths (ae_config e))" and "ha_Phase action = HardwarePhaseExecute"
  shows "state_io_rel (log_guarded e lane action)
    (do { preflightErr \<leftarrow> preflightRPIBootIdentityLocked e lane (ha_TargetFingerprint action);
          if preflightErr \<noteq> [] then do {
            failure \<leftarrow> payload_failure e preflightErr;
            failTransition e lane t failure preflightErr }
          else run_payload e lane t (execute_payload e lane action) })"
    (is "state_io_rel ?G ?m")
proof
  fix x s s''
  assume run: "run_state ?m s = (x, s'')"
  obtain err s1 where pre: "run_state (preflightRPIBootIdentityLocked e lane (ha_TargetFingerprint action)) s = (err, s1)"
    by fastforce
  have g1: "?G s s1"
    by (rule state_io_relD [OF none_guarded [OF others.keeps_preflight] pre])
      (use assms(1) in \<open>auto simp: commit_apart_def\<close>)
  show "?G s s''"
  proof (cases "err = []")
    case False
    have "state_io_rel ?G (do { failure \<leftarrow> payload_failure e err; failTransition e lane t failure err })"
      by (intro keeps | rule refl)+
    then have "?G s1 s''" using run pre False by (auto simp: run_bind intro: state_io_relD)
    then show ?thesis using g1 log_guarded_trans by blast
  next
    case True
    obtain y s2 where pay: "run_state (execute_payload e lane action) s1 = (y, s2)" by fastforce
    have payload: "run_state (run_payload e lane t (execute_payload e lane action)) s1 = (x, s'')"
      using run pre True by (simp add: run_bind)
    show ?thesis
    proof (cases "ad_mode s = ModeFresh")
      case True
      then obtain l ev where "rg_log s1 = rg_log s @ l @ [ev]" "identity_read e lane action ev"
        using preflight_identity(2) pre \<open>err = []\<close> by blast
      moreover obtain l' where "rg_log s'' = rg_log s1 @ l'"
        using grow_any [OF follow.keeps_run_payload [OF follow.keeps_execute_payload [OF assms(2)]] payload] by blast
      ultimately show ?thesis using log_guarded_read [OF g1] by auto
    next
      case False
      then have "ad_mode s1 \<noteq> ModeFresh" using preflight_identity(1) pre \<open>err = []\<close> by metis
      then have g2: "?G s1 s2" using owned_payload [OF assms(1) _ pay] log_guarded_none by blast
      have "state_io_rel ?G (case y of (result, err) \<Rightarrow> if err \<noteq> [] then do {
           failure \<leftarrow> payload_failure e err; failTransition e lane t failure err }
         else do { (outcome, err) \<leftarrow> completeTransition e lane t;
           State_Monad.return ((if err \<noteq> [] then result else result\<lparr>re_BootTransition := outcome\<rparr>), outcome, err) })"
        by (intro keeps | rule refl)+
      from state_io_relD [OF this] have "?G s2 s''"
        using payload pay by (auto simp: run_payload_def run_bind)
      then show ?thesis using g1 g2 log_guarded_trans by blast
    qed
  qed
qed

lemma guarded_released:
  assumes "commit_apart (ag_Paths (ae_config e))" and "ha_Phase action = HardwarePhaseExecute" and "bt_Action t = action"
  shows "state_io_rel (log_guarded e lane action) (run_released e lane t (execute_payload e lane action))"
proof -
  have "state_io_rel (log_guarded e lane action) (run_preflighted e lane t (execute_payload e lane action))"
    using preflighted_payload [OF assms(1,2), of lane t] assms(3) by (simp add: run_preflighted_def)
  then show ?thesis
    unfolding run_released_def using assms(2,3)
    by (intro guarded.keeps_bind io_if; (intro keeps | rule refl | simp)?) simp_all
qed

lemma guarded_execute:
  assumes "commit_apart (ag_Paths (ae_config e))"
  shows "state_io_rel (log_guarded e lane action) (Adapter_Execute e lane action)"
proof (cases "ha_Phase action = HardwarePhaseExecute")
  case True
  have "state_io_rel (log_guarded e lane action) (runBootTransition e lane action (execute_payload e lane action))"
    by (rule guarded.keeps_released_transition [OF refl])
      (rule state_io_relD [OF guarded_released [OF assms True]], assumption+)
  then show ?thesis
    unfolding Adapter_Execute_def by (intro guarded.keeps_bind io_if io_prod) ((intro keeps | rule refl | assumption)+)
next
  case False
  then show ?thesis using guarded.keeps_refused by blast
qed

end
