(* ===== verification/Adapter_Outcome.thy ===== *)
theory Adapter_Outcome
  imports Adapter_Commit
begin

text \<open>
  What a call of the adapter that returns without an error has done: the target is off, its absence was seen, and the
  journal holds the completed transition that the answer carries.
\<close>

named_theorems returning \<open>results and final states of the adapter's steps\<close>

definition returns :: "('a \<Rightarrow> rig \<Rightarrow> bool) \<Rightarrow> 'a io \<Rightarrow> bool" where
  "returns Q m \<longleftrightarrow> (\<forall>s x s'. run_state m s = (x, s') \<longrightarrow> Q x s')"

lemma returnsD: "returns Q m \<Longrightarrow> run_state m s = (x, s') \<Longrightarrow> Q x s'"
  by (simp add: returns_def)

lemma returns_weaken: "returns P m \<Longrightarrow> (\<And>x s. P x s \<Longrightarrow> Q x s) \<Longrightarrow> returns Q m"
  by (simp add: returns_def)

lemma returns_bind [returning]:
  "(\<And>s x s'. run_state m s = (x, s') \<Longrightarrow> returns Q (f x)) \<Longrightarrow> returns Q (m \<bind> f)"
  by (auto simp: returns_def run_bind split: prod.splits)

lemma returns_if [returning]: "(b \<Longrightarrow> returns Q m) \<Longrightarrow> (\<not> b \<Longrightarrow> returns Q n) \<Longrightarrow> returns Q (if b then m else n)"
  by simp

lemma returns_sum [returning]:
  "(\<And>x. v = Inl x \<Longrightarrow> returns Q (f x)) \<Longrightarrow> (\<And>y. v = Inr y \<Longrightarrow> returns Q (g y))
     \<Longrightarrow> returns Q (case v of Inl x \<Rightarrow> f x | Inr y \<Rightarrow> g y)"
  by (cases v) auto

lemma returns_option [returning]:
  "(v = None \<Longrightarrow> returns Q m) \<Longrightarrow> (\<And>y. v = Some y \<Longrightarrow> returns Q (g y))
     \<Longrightarrow> returns Q (case v of None \<Rightarrow> m | Some y \<Rightarrow> g y)"
  by (cases v) auto

lemma returns_list [returning]:
  "(v = [] \<Longrightarrow> returns Q m) \<Longrightarrow> (\<And>y ys. v = y # ys \<Longrightarrow> returns Q (g y ys))
     \<Longrightarrow> returns Q (case v of [] \<Rightarrow> m | y # ys \<Rightarrow> g y ys)"
  by (cases v) auto

lemma returns_prod [returning]:
  "(\<And>a b. v = (a, b) \<Longrightarrow> returns Q (f a b)) \<Longrightarrow> returns Q (case v of (a, b) \<Rightarrow> f a b)"
  by (cases v) auto

lemma returns_let [returning]: "(\<And>x. x = v \<Longrightarrow> returns Q (f x)) \<Longrightarrow> returns Q (Let v f)"
  by simp

lemma returns_return [simp]: "returns Q (State_Monad.return x) \<longleftrightarrow> (\<forall>s. Q x s)"
  by (auto simp: returns_def)

section \<open>Safe-off\<close>

lemma releasePower_off: "returns (\<lambda>err s. err = [] \<longrightarrow> ad_power s = None) (releasePower e)"
  by (auto simp: returns_def releasePower_def run_bind primitive_defs Let_def split: option.splits prod.splits if_splits)

definition absence_last :: "rig \<Rightarrow> bool" where
  "absence_last s \<longleftrightarrow> (\<exists>l topology. rg_log s = l @ [EvTopology topology] \<and> no_target topology)"

lemma look_logged:
  "run_state (look e p b) s = (Inr topology, s') \<Longrightarrow> rg_log s' = rg_log s @ [EvTopology topology]"
  by (auto simp: look_def look_at_def run_bind primitive_defs split: sum.splits)

lemma absent_look: "run_state (look e p b) s = (Inr topology, s') \<Longrightarrow> no_target topology \<Longrightarrow> absence_last s'"
  using look_logged by (fastforce simp: absence_last_def)

lemma disappear_absent: "returns (\<lambda>err s. err = [] \<longrightarrow> absence_last s) (disappear_loop e p k)"
  by (induction k)
    (auto simp: returns_def disappear_step_def run_bind split: sum.splits prod.splits if_splits intro: absent_look)

lemma waitForDisappearance_absent: "returns (\<lambda>err s. err = [] \<longrightarrow> absence_last s) (waitForDisappearance e p)"
  unfolding waitForDisappearance_def by (intro returning disappear_absent)

lemma set_power_state_fields [simp]:
  "rg_log (set_power_state p r) = rg_log r" "ad_power (set_power_state p r) = ad_power r"
  "ad_target (set_power_state p r) = ad_target r" "ad_mode (set_power_state p r) = ad_mode r"
  "rg_store (set_power_state p r) = rg_store r"
  by (simp_all add: set_power_state_def)

lemma fields_only: "state_io_rel adapter_fields m \<Longrightarrow> run_state m s = (x, s') \<Longrightarrow> adapter_fields s s'"
  by blast

lemma atLeast_log: "run_state (atLeast e ts) s = (x, s') \<Longrightarrow> s' = s\<lparr>rg_step := Suc (rg_step s)\<rparr>"
  by (auto simp: atLeast_def now_def run_bind primitive_defs)

lemma relaySafeOff_off:
  assumes "run_state (relaySafeOff e lane) s = ((proof, []), s')"
  shows "ad_power s' = None" and "absence_last s'"
proof -
  obtain r s1 where r: "run_state (releasePower e) s = (r, s1)" by fastforce
  obtain at s2 where n: "run_state (now e) s1 = (at, s2)" by fastforce
  obtain d s3 where d: "run_state (waitForDisappearance e (cf_RPIBootSysfsPath lane)) s2 = (d, s3)" by fastforce
  obtain u s4 where u: "run_state (atLeast e [at]) s3 = (u, s4)" by fastforce
  have ok: "r = []" "d = []" and s': "ad_power s' = ad_power s4" "rg_log s' = rg_log s4"
    using assms r n d u by (auto simp: relaySafeOff_def run_bind modify_def split: if_splits)
  have "ad_power s1 = None" "absence_last s3"
    using returnsD [OF releasePower_off r] returnsD [OF waitForDisappearance_absent d] ok by auto
  moreover have "ad_power s3 = ad_power s1"
    using fields_only [OF frame.keeps_times(1) n] fields_only [OF frame.keeps_topology(2) d]
    by (simp add: adapter_fields_def)
  ultimately show "ad_power s' = None" and "absence_last s'"
    using s' atLeast_log [OF u] by (simp_all add: absence_last_def)
qed

lemma newPrompt_Inl: "newPrompt h action kind text' at = Inl err \<Longrightarrow> err \<noteq> []"
  by (auto simp: newPrompt_def Let_def split: if_splits sum.splits)

lemma manual_tail:
  "returns (\<lambda>(proof, err) s. err = [] \<longrightarrow> absence_last s) (do {
     err \<leftarrow> waitForDisappearance e p;
     if err \<noteq> [] then State_Monad.return (proof1, err)
     else do {
       usbAbsentAt \<leftarrow> atLeast e ts;
       modify (\<lambda>r. if ad_target r \<noteq> None then set_power_state ''powered_off'' r else r);
       State_Monad.return (proof2 usbAbsentAt, []) } })"
  by (auto simp: returns_def run_bind modify_def absence_last_def split: prod.splits if_splits
      dest!: atLeast_log returnsD [OF waitForDisappearance_absent])

lemma manualSafeOff_absent: "returns (\<lambda>(proof, err) s. err = [] \<longrightarrow> absence_last s) (manualSafeOff e lane action)"
  unfolding manualSafeOff_def Let_def
  by (intro manual_tail returning) (auto simp: newPrompt_Inl)

lemma proveSafeOff_absent:
  assumes "run_state (proveSafeOff e lane action mode) s = ((proof, []), s')"
  shows "absence_last s'" and "mode = PowerControlRelay \<Longrightarrow> ad_power s' = None"
  using assms relaySafeOff_off returnsD [OF manualSafeOff_absent]
  by (auto simp: proveSafeOff_def PowerControlRelay_def PowerControlManual_def split: if_splits)

section \<open>Completion\<close>

definition completed_in :: "adapter_env \<Rightarrow> HardwareAction \<Rightarrow> BootTransitionOutcome \<Rightarrow> rig \<Rightarrow> bool" where
  "completed_in e action outcome s \<longleftrightarrow>
     (\<exists>t l topology fault.
        rg_log s = l @ [EvTopology topology, EvJournal (PutOp fault t)] \<and> no_target topology
        \<and> Store_GetBootTransition (ae_lane e) None (bt_Key t) (rg_store s) = Inr (Some t)
        \<and> bt_Status t = BootTransitionCompleted \<and> bt_Action t = action
        \<and> BootTransition_Validate (ae_sha e) t = None \<and> Outcome (ae_sha e) t = Inr outcome
        \<and> (bt_PowerControlMode t = PowerControlRelay \<longrightarrow> ad_power s = None))"

lemma terminalize_fails:
  "cause \<noteq> [] \<Longrightarrow> returns (\<lambda>(result, outcome, err) s. err \<noteq> []) (terminalizeTransition e t failure cause at safeErr)"
  unfolding terminalizeTransition_def Let_def
  by (intro returning) (auto simp: no_reply_def outcome_reply_def split: sum.splits)

lemma fail_fails: "cause \<noteq> [] \<Longrightarrow> returns (\<lambda>(result, outcome, err) s. err \<noteq> []) (failTransition e lane t failure cause)"
  unfolding failTransition_def by (intro returning terminalize_fails)

lemma stop_fails: "cause \<noteq> [] \<Longrightarrow> returns (\<lambda>(outcome, err) s. err \<noteq> []) (stop_completion e t cause at safeErr)"
  using terminalize_fails [of cause e t BootTransitionFailureHardware at safeErr]
  by (fastforce simp: stop_completion_def returns_def run_bind split: prod.splits)

lemma get_without_fault:
  "Store_GetBootTransition L fault key st = Inr x \<Longrightarrow> Store_GetBootTransition L None key st = Inr x"
  by (auto simp: Store_GetBootTransition_def Store_load_def split: option.splits if_splits)

lemma get_held:
  assumes "Store_GetBootTransition L fault (bt_Key t) st = Inr (Some t')" and "held t st"
  shows "t' = t"
  using assms Store_load_Inr by (fastforce simp: Store_GetBootTransition_def held_def)

lemma reload_done:
  assumes "run_state (reloadDurableOutcome e (bt_Key t)) s = (Inr outcome, s')" and "held t (rg_store s)"
  shows "Store_GetBootTransition (ae_lane e) None (bt_Key t) (rg_store s') = Inr (Some t)"
    and "Outcome (ae_sha e) t = Inr outcome" and "s' = s\<lparr>rg_step := Suc (rg_step s)\<rparr>"
proof -
  have "\<exists>fault t'. Store_GetBootTransition (ae_lane e) fault (bt_Key t) (rg_store s) = Inr (Some t')
      \<and> Outcome (ae_sha e) t' = Inr outcome \<and> s' = s\<lparr>rg_step := Suc (rg_step s)\<rparr>"
    using assms(1)
    by (auto simp: reloadDurableOutcome_def journal_GetBootTransition_def journal_read_def run_bind primitive_defs
        split: sum.splits option.splits if_splits)
  then show "Store_GetBootTransition (ae_lane e) None (bt_Key t) (rg_store s') = Inr (Some t)"
    and "Outcome (ae_sha e) t = Inr outcome" and "s' = s\<lparr>rg_step := Suc (rg_step s)\<rparr>"
    using get_held [OF _ assms(2)] get_without_fault by auto
qed

lemma reload_Inl: "run_state (reloadDurableOutcome e k) s = (Inl err, s') \<Longrightarrow> err \<noteq> []"
  by (auto simp: reloadDurableOutcome_def journal_GetBootTransition_def journal_read_def run_bind primitive_defs
      split: sum.splits option.splits if_splits)

lemma complete_done:
  assumes "run_state (completeTransition e lane t) s = ((outcome, []), s')"
  shows "completed_in e (bt_Action t) outcome s'"
proof -
  obtain proof' safeErr s1 where safe:
    "run_state (proveSafeOff e lane (bt_Action t) (bt_PowerControlMode t)) s = ((proof', safeErr), s1)"
    by (metis prod.exhaust)
  let ?t = "t\<lparr>bt_FinalSafeOffProof := sp_operator proof'\<rparr>"
  have safeErr: "safeErr = []"
    using assms safe returnsD [OF stop_fails [of "[ErrAdapter]" e ?t "sp_usbAbsentAt proof'" safeErr]]
    by (cases "safeErr = []") (fastforce simp: completeTransition_def run_bind Let_def)+
  note off = proveSafeOff_absent [OF safe [unfolded safeErr]]
  obtain at s2 where at: "run_state (atLeast e [bt_UpdatedAt ?t, sp_usbAbsentAt proof']) s1 = (at, s2)" by fastforce
  obtain fin s3 where fin: "run_state (atLeast e [at]) s2 = (fin, s3)" by fastforce
  let ?u = "?t\<lparr>bt_Status := BootTransitionCompleted, bt_SafeOffObservedAt := at, bt_CompletedAt := fin, bt_UpdatedAt := fin\<rparr>"
  note stop = returnsD [OF stop_fails [of _ e _ at "[]"]]
  obtain digest where digest: "completion_digest (ae_sha e) ?u = Inr digest"
    using assms safe safeErr at fin stop
    by (cases "completion_digest (ae_sha e) ?u") (fastforce simp: completeTransition_def run_bind Let_def)+
  let ?v = "?u\<lparr>bt_EvidenceDigest := digest\<rparr>"
  obtain err s4 where put: "run_state (journal_PutBootTransition e ?v) s3 = (err, s4)" by fastforce
  have err: "err = []"
    using assms safe safeErr at fin digest put stop [of err ?v s4]
    by (cases "err = []") (fastforce simp: completeTransition_def run_bind Let_def)+
  have reload: "run_state (reloadDurableOutcome e (bt_Key ?v)) s4 = (Inr outcome, s')"
    using assms safe safeErr at fin digest put err
    by (auto simp: completeTransition_def run_bind Let_def split: prod.splits sum.splits dest: reload_Inl)
  have log: "rg_log s4 = rg_log s3 @ [EvJournal (PutOp (ae_fault e (rg_step s3)) ?v)]" "ad_power s4 = ad_power s3"
    using put by (auto simp: run_put)
  note held = put_held [OF put [unfolded err]]
  note r = reload_done [OF reload held(1)]
  show ?thesis
    using off log r held(2) atLeast_log [OF at] atLeast_log [OF fin]
    unfolding completed_in_def absence_last_def by (intro exI [of _ ?v]) auto
qed

section \<open>Whole calls\<close>

text \<open>The reply of a transition: an error, or a completed transition.\<close>

definition done_reply :: "adapter_env \<Rightarrow> HardwareAction \<Rightarrow> transition_reply \<Rightarrow> rig \<Rightarrow> bool" where
  "done_reply e action reply s = (case reply of (result, outcome, err) \<Rightarrow> err = [] \<longrightarrow> completed_in e action outcome s)"

lemma done_fail: "cause \<noteq> [] \<Longrightarrow> returns (done_reply e action) (failTransition e lane t failure cause)"
  by (rule returns_weaken [OF fail_fails]) (auto simp: done_reply_def)

lemma done_no_reply: "err \<noteq> [] \<Longrightarrow> returns (done_reply e action) (State_Monad.return (no_reply err))"
  by (simp add: done_reply_def no_reply_def)

lemma done_complete:
  "bt_Action t = action \<Longrightarrow> returns (done_reply e action) (do { (outcome, err) \<leftarrow> completeTransition e lane t;
     State_Monad.return ((if err \<noteq> [] then result else result\<lparr>re_BootTransition := outcome\<rparr>), outcome, err) })"
  by (auto simp: returns_def run_bind done_reply_def split: prod.splits intro: complete_done)

lemma completed_in_pin [simp]: "completed_in e action outcome (r\<lparr>ad_usbPin := b\<rparr>) = completed_in e action outcome r"
  by (simp add: completed_in_def)

lemma done_unpin:
  "returns (done_reply e action) m \<Longrightarrow>
   returns (done_reply e action) (do { reply \<leftarrow> m; modify (\<lambda>r. r\<lparr>ad_usbPin := b\<rparr>); State_Monad.return reply })"
  by (auto simp: returns_def run_bind modify_def done_reply_def split: prod.splits)

lemmas done_rules = done_fail done_no_reply done_complete done_unpin

lemma done_payload: "bt_Action t = action \<Longrightarrow> returns (done_reply e action) (run_payload e lane t payload)"
  unfolding run_payload_def by (intro done_rules returning)

lemma done_released: "bt_Action t = action \<Longrightarrow> returns (done_reply e action) (run_released e lane t payload)"
  unfolding run_released_def run_preflighted_def by (intro done_rules done_payload returning)

lemma prompt_nonempty: "validatePromptAcknowledgement p a at = [] \<or> validatePromptAcknowledgement p a at = [ErrAdapter]"
  by (simp add: validatePromptAcknowledgement_def)

lemma done_observed: "bt_Action t = action \<Longrightarrow> returns (done_reply e action) (run_observed e lane t prompt payload)"
  unfolding run_observed_def Let_def by (intro done_rules done_released returning) simp_all

lemma done_powered: "bt_Action t = action \<Longrightarrow> returns (done_reply e action) (run_powered e lane t payload)"
  unfolding run_powered_def Let_def
  by (intro done_rules done_observed returning) (simp_all add: newPrompt_Inl rpiboot_observed_def)

lemma done_rpiboot: "bt_Action t = action \<Longrightarrow> returns (done_reply e action) (runRPIBootTransition e lane t payload)"
  unfolding runRPIBootTransition_def by (intro done_rules done_powered returning) (auto dest: established_action)

lemma Capture_vars:
  "run_state (Capture e m before trigger) s = ((v, captured), s') \<Longrightarrow>
     v = before \<or> (\<exists>s0 err s1. run_state trigger s0 = ((v, err), s1))"
  by (auto simp: Capture_def run_bind Let_def split: if_splits prod.splits)

lemma trigger_action:
  assumes "run_state (normal_trigger e lane prompt v) s = ((v', err), s')"
  shows "bt_Action (nv_transition v') = bt_Action (nv_transition v)"
  using assms
  by (auto simp: normal_trigger_def normal_powered_def run_bind Let_def split: prod.splits sum.splits if_splits
      dest!: acknowledged_action established_action)

lemma done_normal_finish:
  "bt_Action (nv_transition v) = action \<Longrightarrow> returns (done_reply e action) (normal_finish e lane v at captured)"
  unfolding normal_finish_def Let_def
  by (intro done_rules returning) (auto simp: normal_observed_def Let_def)

lemma done_normal: "bt_Action t = action \<Longrightarrow> returns (done_reply e action) (runNormalTransition e lane t prompt)"
  unfolding runNormalTransition_def
  by (intro done_rules done_normal_finish returning)
    (auto dest!: Capture_vars trigger_action split: sum.splits)

lemma begun_Inl: "run_state (journal_BeginBootTransition e q) s = (Inl err, s') \<Longrightarrow> err \<noteq> []"
  by (auto simp: run_begin split: sum.splits)

lemma done_transition: "returns (done_reply e action) (runBootTransition e lane action payload)"
proof -
  have begun: "returns (done_reply e action) (run_begun e lane t prompt payload)" if "bt_Action t = action" for t prompt
    unfolding run_begun_def Let_def
    by (intro done_rules done_normal done_rpiboot returning) (auto dest: acknowledged_action simp: that)
  show ?thesis
    unfolding runBootTransition_def Let_def
    by (intro done_rules begun returning)
      (auto simp: newPrompt_Inl begin_request_def dest: begun_action begun_Inl)
qed

definition done_call :: "adapter_env \<Rightarrow> HardwareAction \<Rightarrow> ('r \<Rightarrow> BootTransitionOutcome) \<Rightarrow> 'r adapter_reply \<Rightarrow> rig \<Rightarrow> bool" where
  "done_call e action outcome_of reply s =
     (case reply of Replied r err \<Rightarrow> err = [] \<longrightarrow> completed_in e action (outcome_of r) s | Panicked \<Rightarrow> True)"

lemma done_execute: "returns (done_call e action re_BootTransition) (Adapter_Execute e lane action)"
proof -
  have "returns (done_call e action re_BootTransition) (do {
       (result, outcome, err) \<leftarrow> runBootTransition e lane action (execute_payload e lane action);
       State_Monad.return (Replied (result\<lparr>re_BootTransition := outcome\<rparr>) err) })"
    using done_transition [of e action lane "execute_payload e lane action"]
    by (fastforce simp: returns_def run_bind done_reply_def done_call_def split: prod.splits)
  note tail = this
  show ?thesis
    unfolding Adapter_Execute_def
    by (rule returns_bind, rule returns_if) (simp_all add: done_call_def tail)
qed

lemma done_observe: "returns (done_call e action ob_BootTransition) (Adapter_Observe e lane action)"
proof -
  have "returns (done_call e action ob_BootTransition) (do {
       (_, outcome, err) \<leftarrow> runBootTransition e lane action (observe_payload e lane action);
       cached \<leftarrow> gets (cachedObservation lane);
       State_Monad.return
         (if err \<noteq> [] then Replied (zero_Observation\<lparr>ob_BootTransition := outcome\<rparr>) err
          else (case cached of
                  None \<Rightarrow> Panicked
                | Some result \<Rightarrow> Replied (result\<lparr>ob_BootTransition := outcome\<rparr>) [])) })"
    using done_transition [of e action lane "observe_payload e lane action"]
    by (fastforce simp: returns_def run_bind gets_def done_reply_def done_call_def split: prod.splits option.splits)
  note tail = this
  show ?thesis
    unfolding Adapter_Observe_def
    by (rule returns_bind, rule returns_if) (simp_all add: done_call_def tail)
qed

section \<open>The guard accepts it\<close>

lemma outcome_accepted:
  assumes "completed_in e action outcome s" and "ha_PowerControlMode action = cf_PowerControlMode config"
  shows "validateBootTransitionOutcome (ae_lane e) None config action outcome True (rg_store s) = None"
proof -
  obtain t where t: "Store_GetBootTransition (ae_lane e) None (bt_Key t) (rg_store s) = Inr (Some t)"
    "bt_Status t = BootTransitionCompleted" "bt_Action t = action" "BootTransition_Validate (ae_sha e) t = None"
    "Outcome (ae_sha e) t = Inr outcome"
    using assms(1) unfolding completed_in_def by blast
  have mode: "bt_PowerControlMode t = ha_PowerControlMode action"
    using transition_validated(5) [OF t(4)] t(3) by (auto simp: validatePowerControlEvidence_def split: prod.splits)
  have ref: "bo_Reference outcome = make_reference t" "ValidateForAction (ae_sha e) outcome action = None"
    using t(2,3,5) by (auto simp: Outcome_def Reference_def Let_def split: if_splits)
  then show ?thesis
    using t mode assms(2) by (simp add: validateBootTransitionOutcome_def make_reference_def)
qed

end
