(* ===== verification/Adapter_Result.thy ===== *)
theory Adapter_Result
  imports Adapter_Outcome
begin

text \<open>
  What a payload established is still there when the call returns without an error: the target it read and the result it
  returned. The locale \<open>payload_result\<close> carries it through the boot transition. Then recovery, and the relay holder that
  a release could not account for.
\<close>

section \<open>Steps that keep the target\<close>

definition target_kept :: "rig \<Rightarrow> rig \<Rightarrow> bool" where
  "target_kept s s' \<longleftrightarrow> ad_target s' = ad_target s \<and> ad_mode s' = ad_mode s"

interpretation kept: reading_order target_kept
  by unfold_locales (auto simp: target_kept_def)

lemma kept_modify: "(\<And>s. target_kept s (f s)) \<Longrightarrow> state_io_rel target_kept (modify f)"
  by (simp add: state_io_rel_def modify_def)

lemma kept_put [keeps]: "state_io_rel target_kept (journal_PutBootTransition e t)"
  by (simp add: state_io_rel_def run_put target_kept_def)

lemma kept_release [keeps]: "state_io_rel target_kept (releasePower e)"
  unfolding releasePower_def by (intro keeps kept_modify; simp add: target_kept_def outside_def)

lemma kept_safe_off [keeps]:
  "state_io_rel target_kept (relaySafeOff e lane)" "state_io_rel target_kept (manualSafeOff e lane a)"
  unfolding relaySafeOff_def manualSafeOff_def by (intro keeps kept_modify; simp add: target_kept_def)+

lemma kept_prove [keeps]: "state_io_rel target_kept (proveSafeOff e lane a m)"
  unfolding proveSafeOff_def by (intro keeps)

lemma kept_terminalize [keeps]: "state_io_rel target_kept (terminalizeTransition e t failure cause at safeErr)"
  unfolding terminalizeTransition_def by (intro keeps)

lemma kept_complete [keeps]: "state_io_rel target_kept (completeTransition e lane t)"
  unfolding completeTransition_def stop_completion_def by (intro keeps)

section \<open>Through the transition\<close>

locale payload_result =
  fixes e :: adapter_env and lane :: Config
    and payload :: "(OperationResult \<times> adapter_error list) io" and X :: "OperationResult \<Rightarrow> rig \<Rightarrow> bool"
  assumes payload_X: "returns (\<lambda>(r, err) s. err = [] \<longrightarrow> X r s) payload"
    and stable: "X r s \<Longrightarrow> target_kept s s' \<Longrightarrow> X (r\<lparr>re_BootTransition := outcome\<rparr>) s'"
begin

abbreviation kept_result :: "transition_reply \<Rightarrow> rig \<Rightarrow> bool" where
  "kept_result \<equiv> \<lambda>(r, outcome, err) s. err = [] \<longrightarrow> X (r\<lparr>re_BootTransition := outcome\<rparr>) s"

lemma result_fail: "cause \<noteq> [] \<Longrightarrow> returns kept_result (failTransition e lane t failure cause)"
  by (rule returns_weaken [OF fail_fails]) auto

lemma result_no_reply: "err \<noteq> [] \<Longrightarrow> returns kept_result (State_Monad.return (no_reply err))"
  by (simp add: no_reply_def)

lemma result_unpin:
  "returns kept_result m \<Longrightarrow>
   returns kept_result (do { reply \<leftarrow> m; modify (\<lambda>r. r\<lparr>ad_usbPin := b\<rparr>); State_Monad.return reply })"
  using stable by (fastforce simp: returns_def run_bind modify_def target_kept_def split: prod.splits)

lemmas result_rules = result_fail result_no_reply result_unpin

lemma result_payload: "returns kept_result (run_payload e lane t payload)"
  unfolding returns_def
proof (intro allI impI)
  fix s x s'
  assume run: "run_state (run_payload e lane t payload) s = (x, s')"
  obtain r err s1 where pay: "run_state payload s = ((r, err), s1)" by (metis prod.exhaust)
  show "kept_result x s'"
  proof (cases "err = []")
    case True
    obtain outcome err' s2 where c: "run_state (completeTransition e lane t) s1 = ((outcome, err'), s2)"
      by (metis prod.exhaust)
    have "X r s1" using returnsD [OF payload_X pay] True by simp
    then have "X (r\<lparr>re_BootTransition := outcome\<rparr>) s2" using stable state_io_relD [OF kept_complete c] by blast
    then show ?thesis using run pay c True by (auto simp: run_payload_def run_bind)
  next
    case False
    have "returns kept_result (do { failure \<leftarrow> payload_failure e err; failTransition e lane t failure err })"
      using False by (intro result_rules returning)
    then show ?thesis using run pay False by (auto simp: run_payload_def run_bind dest: returnsD)
  qed
qed

lemma result_released: "returns kept_result (run_released e lane t payload)"
  unfolding run_released_def run_preflighted_def by (intro result_rules result_payload returning)

lemma result_observed: "returns kept_result (run_observed e lane t prompt payload)"
  unfolding run_observed_def Let_def by (intro result_rules result_released returning) simp_all

lemma result_rpiboot: "returns kept_result (runRPIBootTransition e lane t payload)"
  unfolding runRPIBootTransition_def run_powered_def Let_def
  by (intro result_rules result_observed returning) (simp_all add: newPrompt_Inl)

lemma result_transition:
  assumes rpiboot: "ha_RequestedBootMode action \<noteq> BootModeNormal"
  shows "returns kept_result (runBootTransition e lane action payload)"
proof -
  have begun: "returns kept_result (run_begun e lane t prompt payload)" if "bt_Action t = action" for t prompt
    unfolding run_begun_def Let_def using rpiboot
    by (intro result_rules result_rpiboot returning) (auto simp: that)
  show ?thesis
    unfolding runBootTransition_def Let_def
    by (intro result_rules begun returning)
      (auto simp: newPrompt_Inl begin_request_def dest: begun_action begun_Inl)
qed

end

section \<open>Readbacks\<close>

definition target_read :: "string \<Rightarrow> rig \<Rightarrow> bool" where
  "target_read fingerprint s \<longleftrightarrow> (\<exists>m. ad_target s = Some m \<and> md_TargetFingerprint m = fingerprint)"

lemma continuity_ok: "validateContinuity target m fingerprint = [] \<Longrightarrow> md_TargetFingerprint m = fingerprint"
  by (auto simp: validateContinuity_def split: if_splits)

lemma readback_reads:
  "returns (\<lambda>(r, err) s. err = [] \<longrightarrow> target_read fingerprint s) (readbackLocked e lane fingerprint bundle mode)"
  by (auto simp: returns_def readbackLocked_def run_bind modify_def adopt_def target_read_def Let_def
      split: prod.splits sum.splits if_splits dest: continuity_ok)

lemma observe_reads:
  "returns (\<lambda>(r, err) s. err = [] \<longrightarrow> target_read (ha_TargetFingerprint action) s) (observe_payload e lane action)"
  using returnsD [OF readback_reads]
  by (fastforce simp: returns_def observe_payload_def run_bind gets_def Let_def split: prod.splits if_splits)

lemma target_read_kept: "target_read fingerprint s \<Longrightarrow> target_kept s s' \<Longrightarrow> target_read fingerprint s'"
  by (simp add: target_read_def target_kept_def)

interpretation observed: payload_result e lane "observe_payload e lane action"
  "\<lambda>r s. target_read (ha_TargetFingerprint action) s" for e lane action
  by unfold_locales (use observe_reads target_read_kept in auto)

section \<open>The commit\<close>

definition attested_commit :: "AdapterConfig \<Rightarrow> string \<Rightarrow> CommitAttestation" where
  "attested_commit config fingerprint =
     \<lparr>ca_SchemaVersion = CommitAttestationSchemaVersion, ca_TargetFingerprint = fingerprint,
      ca_CustomerKeyHash = ''sha256:'' @ ag_ExpectedCustomerKeyHash config,
      ca_EEPROMHash = ''sha256:'' @ ag_ExpectedEEPROMHash config,
      ca_EEPROMUpdateResult = ''success'', ca_SecureBootProvisionResult = ''success''\<rparr>"

definition commit_done :: "AdapterConfig \<Rightarrow> string \<Rightarrow> OperationResult \<Rightarrow> rig \<Rightarrow> bool" where
  "commit_done config fingerprint r s \<longleftrightarrow>
     re_CommitAttestation r = attested_commit config fingerprint \<and> target_read fingerprint s \<and> ad_mode s = ModeOwned"

lemma commit_attests:
  "returns (\<lambda>(r, err) s. err = [] \<longrightarrow> commit_done (ae_config e) fingerprint r s) (Adapter_commitLocked e lane fingerprint)"
  by (auto simp: returns_def Adapter_commitLocked_def run_bind modify_def adopt_def target_read_def Let_def commit_done_def
      attested_commit_def commit_result_def commit_matches_def
      split: prod.splits sum.splits if_splits dest: continuity_ok)

interpretation committed: payload_result e lane "Adapter_commitLocked e lane fingerprint"
  "commit_done (ae_config e) fingerprint" for e lane fingerprint
  by unfold_locales (use commit_attests in \<open>auto simp: commit_done_def target_kept_def target_read_def\<close>)

section \<open>Admission\<close>

lemma admit_ok:
  assumes "run_state (admit e lane action b) s = ([], s')"
  shows "validateAction (ae_config e) lane action b = []"
  using assms by (auto simp: admit_def run_bind split: prod.splits if_splits)

lemma admitted_action:
  assumes "validateAction config lane action b = []"
  shows "HardwareAction_Validate action = None" and "ha_PowerControlMode action = cf_PowerControlMode lane"
    and "cf_PowerControlMode lane = ag_PowerControl config" and "b \<longleftrightarrow> ha_Phase action = HardwarePhaseExecute"
proof -
  show "HardwareAction_Validate action = None" "ha_PowerControlMode action = cf_PowerControlMode lane"
    "cf_PowerControlMode lane = ag_PowerControl config" "b \<longleftrightarrow> ha_Phase action = HardwarePhaseExecute"
    using assms
    by (auto simp: validateAction_def HardwarePhaseExecute_def HardwarePhasePreObservation_def
        HardwarePhasePostObservation_def HardwarePhaseReconciliation_def split: if_splits)
qed

lemma observation_rpiboot:
  assumes "validateAction config lane action False = []"
  shows "ha_RequestedBootMode action \<noteq> BootModeNormal"
  using admitted_action [OF assms]
  by (auto simp: HardwareAction_Validate_def BootModeNormal_def BootModeRPIBoot_def split: prod.splits if_splits)

lemma program_rpiboot:
  assumes "validateAction config lane action True = []" and "ha_Operation action = OperationProgramCustomerKeyAndEEPROM"
  shows "ha_RequestedBootMode action \<noteq> BootModeNormal"
  using admitted_action [OF assms(1)] assms(2)
  by (auto simp: HardwareAction_Validate_def RequiredBootModeForOperation_def operation_defs BootModeNormal_def
      BootModeRPIBoot_def split: prod.splits if_splits)

section \<open>Recovery\<close>

text \<open>
  Recovery: before a call powers the target, begins a transition or starts \<^verbatim>\<open>rpiboot\<close>, every transition of the journal is
  ended and none is quarantined.
\<close>

definition energizes :: "adapter_event \<Rightarrow> bool" where
  "energizes ev =
     (case ev of EvRun _ _ _ _ \<Rightarrow> True | EvPower _ \<Rightarrow> True | EvJournal (BeginOp _ _) \<Rightarrow> True | _ \<Rightarrow> False)"

definition settled :: "lane_store \<Rightarrow> bool" where
  "settled st \<longleftrightarrow>
     (\<forall>k t. map_get (js_BootTransitions (lane_journal_of st)) k = Some t
        \<longrightarrow> IsTerminal t \<and> bt_Status t \<noteq> BootTransitionQuarantined)"

interpretation idle: put_order "events_grow (\<lambda>ev. \<not> energizes ev)" L for L
  by unfold_locales
    (auto intro: events_grow_trans events_grow_event dest!: power_logs simp: energizes_def outside_def split: adapter_event.splits)

interpretation store: quiet_order "\<lambda>s s'. rg_store s' = rg_store s"
  by unfold_locales (auto dest!: power_logs)

text \<open>The transitions that are still open are among the ones that are left.\<close>

definition open_among :: "BootTransition list \<Rightarrow> lane_store \<Rightarrow> bool" where
  "open_among ts st \<longleftrightarrow>
     (\<forall>k t. map_get (js_BootTransitions (lane_journal_of st)) k = Some t \<longrightarrow> IsTerminal t \<or> k \<in> bt_Key ` List.set ts)"

lemma put_ends:
  assumes "run_state (journal_PutBootTransition e t') s = ([], s')" and "IsTerminal t'" and "bt_Key t' = bt_Key t"
    and "open_among (t # ts) (rg_store s)"
  shows "open_among ts (rg_store s')"
proof -
  obtain r st where r: "Store_PutBootTransition (ae_lane e) (ae_fault e (rg_step s)) t' (rg_store s) = (r, st)"
    by fastforce
  then have "r = None" "rg_store s' = st" using assms(1) by (auto simp: run_put)
  then have "put_transition (ae_sha e) t' (lane_journal_of (rg_store s)) = Inr (lane_journal_of (rg_store s'))"
    using file_journal.putBoot_law [OF r] by auto
  then have "js_BootTransitions (lane_journal_of (rg_store s'))
      = map_put (bt_Key t') t' (js_BootTransitions (lane_journal_of (rg_store s)))"
    by (auto simp: put_transition_def dest!: arg_cong [where f = js_BootTransitions] split: option.splits)
  then show ?thesis using assms(2-4) by (auto simp: open_among_def)
qed

lemma recovered_terminal: "IsTerminal (recovered_record proof' safeErr at t)" "bt_Key (recovered_record proof' safeErr at t) = bt_Key t"
  by (auto simp: recovered_record_def Let_def IsTerminal_def terminal_status_def)

lemma recover_loop_settles:
  assumes "run_state (recover_loop e lane ts) s = ([], s')" and "open_among ts (rg_store s)"
  shows "open_among [] (rg_store s')"
  using assms
proof (induction ts arbitrary: s)
  case (Cons t ts)
  obtain proof' safeErr s1 where p:
    "run_state (proveSafeOff e lane (bt_Action t) (bt_PowerControlMode t)) s = ((proof', safeErr), s1)"
    by (metis prod.exhaust)
  obtain at s2 where at: "run_state (atLeast e [bt_UpdatedAt t, sp_usbAbsentAt proof']) s1 = (at, s2)" by fastforce
  obtain err s3 where put:
    "run_state (journal_PutBootTransition e (recovered_record (sp_operator proof') safeErr at t)) s2 = (err, s3)"
    by fastforce
  have ok: "err = []" "run_state (recover_loop e lane ts) s3 = ([], s')"
    using Cons.prems(1) p at put by (auto simp: run_bind split: if_splits prod.splits)
  have "rg_store s2 = rg_store s"
    using state_io_relD [OF store.keeps_safe_offs(2) p] atLeast_log [OF at] by simp
  then have "open_among ts (rg_store s3)"
    using put_ends [OF put [unfolded ok(1)] recovered_terminal] Cons.prems(2) by simp
  then show ?case using Cons.IH ok(2) by blast
qed simp

lemma recover_settles:
  assumes "run_state (recoverIncompleteTransitions e lane) s = ([], s')"
  shows "open_among [] (rg_store s')"
proof -
  define s1 where "s1 = s\<lparr>rg_step := Suc (rg_step s)\<rparr>"
  then have s1: "rg_store s1 = rg_store s" by simp
  obtain ts where ts: "Store_IncompleteBootTransitions (ae_lane e) (ae_fault e (rg_step s)) (rg_store s) = Inr ts"
    and loop: "run_state (recover_loop e lane ts) s1 = ([], s')"
    using assms
    by (auto simp: s1_def recoverIncompleteTransitions_def journal_IncompleteBootTransitions_def journal_read_def run_bind
        primitive_defs split: sum.splits)
  have load: "Store_load (ae_lane e) (ae_fault e (rg_step s)) (rg_store s) = Inr (lane_journal_of (rg_store s))"
    and inc: "ts = incompleteBootTransitions (js_BootTransitions (lane_journal_of (rg_store s)))"
    using ts Store_load_Inr by (auto simp: Store_IncompleteBootTransitions_def)
  have "bt_Key t = k" if "map_get (js_BootTransitions (lane_journal_of (rg_store s))) k = Some t" for k t
    using load that map_get_mem [OF that]
    by (auto simp: Store_load_def loaded_ok_def lane_journal_of_def newJournalState_def split: option.splits if_splits)
  then have "open_among ts (rg_store s1)"
    using map_get_mem inc s1 by (force simp: open_among_def incompleteBootTransitions_def)
  then show ?thesis using recover_loop_settles loop by blast
qed

lemma admit_settles:
  assumes "run_state (admit e lane action b) s = ([], s')"
  shows "settled (rg_store s')"
proof -
  obtain s1 s2 where recover: "run_state (recoverIncompleteTransitions e lane) s1 = ([], s2)"
    and q: "run_state (journal_HasQuarantinedBootTransition e) s2 = (Inr False, s')"
    using assms
    by (auto simp: admit_def prepareLane_def run_bind journal_HasQuarantinedBootTransition_def journal_read_def
        split: prod.splits if_splits sum.splits)
  have "rg_store s' = rg_store s2" and "\<not> has_quarantined (js_BootTransitions (lane_journal_of (rg_store s2)))"
    using q Store_load_Inr
    by (auto simp: journal_HasQuarantinedBootTransition_def journal_read_def Store_HasQuarantinedBootTransition_def
        run_bind primitive_defs split: sum.splits)
  then show ?thesis
    using recover_settles [OF recover] map_get_mem
    by (fastforce simp: settled_def open_among_def has_quarantined_def list_ex_iff)
qed

text \<open>The events of a call: those of the admission, then, on a settled journal, the rest.\<close>

definition recovers_first :: "lane_env \<Rightarrow> rig \<Rightarrow> rig \<Rightarrow> bool" where
  "recovers_first L s s' \<longleftrightarrow>
     (\<exists>before after. rg_log s' = rg_log s @ before @ after \<and> list_all (\<lambda>ev. \<not> energizes ev) before
        \<and> (after \<noteq> [] \<longrightarrow> settled (run_boot_ops L (journal_ops before) (rg_store s))))"

lemma recovers_first:
  assumes "state_io_rel (follows (ae_lane e)) (f [])" and "\<And>err. err \<noteq> [] \<Longrightarrow> state_io_rel (\<lambda>s s'. s' = s) (f err)"
  shows "state_io_rel (recovers_first (ae_lane e)) (admit e lane action b \<bind> f)"
proof
  fix x s s'
  assume run: "run_state (admit e lane action b \<bind> f) s = (x, s')"
  obtain err s1 where ad: "run_state (admit e lane action b) s = (err, s1)" by fastforce
  obtain before where before: "rg_log s1 = rg_log s @ before" "list_all (\<lambda>ev. \<not> energizes ev) before"
    using state_io_relD [OF idle.keeps_prepare(3) [OF refl] ad] unfolding events_grow_def by blast
  have store: "rg_store s1 = run_boot_ops (ae_lane e) (journal_ops before) (rg_store s)"
    using state_io_relD [OF follow.keeps_prepare(3) [OF refl] ad] before(1) by (auto simp: follows_def)
  show "recovers_first (ae_lane e) s s'"
  proof (cases "err = []")
    case True
    then have "run_state (f []) s1 = (x, s')" using run ad by (simp add: run_bind)
    from grow_any [OF assms(1) this] obtain l where "rg_log s' = rg_log s1 @ l" by blast
    then show ?thesis
      using before store admit_settles [OF ad [unfolded True]] by (auto simp: recovers_first_def)
  next
    case False
    then have "s' = s1" using run ad state_io_relD [OF assms(2)] by (auto simp: run_bind)
    then show ?thesis using before by (auto simp: recovers_first_def)
  qed
qed

lemma calls_recover_first:
  "state_io_rel (recovers_first (ae_lane e)) (Adapter_Execute e lane action)"
  "state_io_rel (recovers_first (ae_lane e)) (Adapter_Observe e lane action)"
proof -
  have payload: "state_io_rel (follows (ae_lane e)) (execute_payload e lane action)"
    unfolding execute_payload_def Let_def by (intro keeps TrueI)
  show "state_io_rel (recovers_first (ae_lane e)) (Adapter_Execute e lane action)"
    unfolding Adapter_Execute_def
    by (rule recovers_first)
      (simp only: not_not if_False simp_thms, (intro keeps follow.keeps_transition payload)[1], simp add: state_io_rel_def)
  show "state_io_rel (recovers_first (ae_lane e)) (Adapter_Observe e lane action)"
    unfolding Adapter_Observe_def
    by (rule recovers_first)
      (simp only: not_not if_False simp_thms, (intro keeps follow.keeps_transition follow.keeps_action_payload)[1],
       simp add: state_io_rel_def)
qed

section \<open>A holder that was not accounted for\<close>

definition powers :: "adapter_event \<Rightarrow> bool" where
  "powers ev = (case ev of EvPower _ \<Rightarrow> True | _ \<Rightarrow> False)"

definition holder_lost :: "rig \<Rightarrow> bool" where
  "holder_lost s \<longleftrightarrow> (\<exists>lease. ad_power s = Some lease \<and> pl_holderErr lease)"

definition stays_off :: "rig \<Rightarrow> rig \<Rightarrow> bool" where
  "stays_off s s' \<longleftrightarrow> (holder_lost s \<longrightarrow> holder_lost s' \<and> events_grow (\<lambda>ev. \<not> powers ev) s s')"

lemma lost_release:
  assumes "run_state (releasePower e) s = (err, s')" and "holder_lost s"
  shows "holder_lost s' \<and> err \<noteq> []"
proof -
  obtain lease where lease: "ad_power s = Some lease" "pl_holderErr lease" using assms(2) by (auto simp: holder_lost_def)
  obtain failed held where l: "Lease_Release (ae_release e (rg_step s)) lease = (failed, held)" by fastforce
  then have "failed" "pl_holderErr held" using Lease_sticky [OF lease(2), of "ae_release e (rg_step s)"] by simp_all
  then show ?thesis
    using assms(1) lease l by (auto simp: releasePower_def holder_lost_def run_bind primitive_defs Let_def)
qed

lemma lost_power: "holder_lost s \<Longrightarrow> run_state (ensurePower e d) s = ([ErrAdapter], s)"
  by (auto simp: ensurePower_def holder_lost_def run_bind primitive_defs)

lemma stays_off_event:
  "ad_power s' = ad_power s \<Longrightarrow> rg_log s' = rg_log s @ [ev] \<Longrightarrow> \<not> powers ev \<Longrightarrow> stays_off s s'"
  "ad_power s' = ad_power s \<Longrightarrow> rg_log s' = rg_log s \<Longrightarrow> stays_off s s'"
  by (auto simp: stays_off_def holder_lost_def events_grow_event)

lemma stays_off_trans: "stays_off s s' \<Longrightarrow> stays_off s' s'' \<Longrightarrow> stays_off s s''"
  using events_grow_trans by (auto simp: stays_off_def)

lemma stays_off_power:
  "run_state (releasePower e) s = (x, s') \<Longrightarrow> stays_off s s'"
  "run_state (ensurePower e d) s = (x, s') \<Longrightarrow> stays_off s s'"
proof -
  show "stays_off s s'" if run: "run_state (releasePower e) s = (x, s')"
    using lost_release [OF run] releasePower_log [OF run] by (auto simp: stays_off_def powers_def intro: events_grow_event)
  show "stays_off s s'" if "run_state (ensurePower e d) s = (x, s')"
    using that lost_power [of s e d] by (auto simp: stays_off_def)
qed

interpretation off: call_order stays_off "ae_lane e" e lane "\<lambda>_. True" action for e lane action
  by unfold_locales
    (auto intro: stays_off_event stays_off_trans stays_off_power simp: powers_def outside_def split: adapter_event.splits)

lemma call_rel: "state_io_rel R m \<Longrightarrow> R s (snd (run_state m s))"
  by (simp add: state_io_rel_def)

text \<open>The calls that the guard and the process make on one adapter.\<close>

datatype adapter_call =
    CallObserve adapter_env Config HardwareAction | CallExecute adapter_env Config HardwareAction | CallClose adapter_env

fun adapter_step :: "adapter_call \<Rightarrow> rig \<Rightarrow> rig" where
  "adapter_step (CallObserve e lane action) s = snd (run_state (Adapter_Observe e lane action) s)"
| "adapter_step (CallExecute e lane action) s = snd (run_state (Adapter_Execute e lane action) s)"
| "adapter_step (CallClose e) s = snd (run_state (Adapter_Close e) s)"

lemma step_stays_off: "stays_off s (adapter_step c s)"
  using call_rel [OF off.keeps_observe] call_rel [OF off.keeps_execute] call_rel [OF off.keeps_release]
  by (cases c) (auto simp: Adapter_Close_def)

lemma calls_stay_off: "stays_off s (fold adapter_step calls s)"
  by (induction calls arbitrary: s) (auto intro: stays_off_trans step_stays_off stays_off_event(2))

end
