(* ===== verification/Adapter_Demo.thy ===== *)
theory Adapter_Demo
  imports Adapter_Result Lane_Demo_Run
begin

text \<open>
  A run of the adapter on the demonstration lane, stage by stage: a fresh board is observed and committed. The transitions it writes are the stages of
  \<open>lane_boot\<close>, so that the lane guard's run is one with this adapter.
\<close>

section \<open>Inputs\<close>

definition demo_key :: string where "demo_key = replicate 64 (CHR ''5'')"

definition demo_paths :: ImmutablePaths where
  "demo_paths = \<lparr>ip_RPIBootBinary = ''/bin/rpiboot'', ip_GPIOSetBinary = ''/bin/gpioset'',
     ip_FreshReadbackBundle = ''/bundles/fresh'', ip_FreshCommitBundle = ''/bundles/commit'',
     ip_OwnedReadbackBundle = ''/bundles/owned'', ip_OwnedRecoveryBundle = ''/bundles/recovery'',
     ip_NegativeBootBundle = ''/bundles/negative'', ip_RootIntegrityBundle = ''/bundles/root'',
     ip_RequireNixStorePaths = False\<rparr>"

definition demo_adapter_config :: AdapterConfig where
  "demo_adapter_config = \<lparr>ag_Paths = demo_paths, ag_PowerControl = PowerControlRelay, ag_InitialMode = ModeFresh,
     ag_ExpectedCustomerKeyHash = demo_key, ag_ExpectedEEPROMHash = demo_key,
     ag_ExpectedBootImageDigest = demo_digest, ag_CommandTimeout = second, ag_UARTTimeout = second,
     ag_USBDisappearTimeout = second, ag_USBReappearTimeout = second, ag_USBPollInterval = second,
     ag_MinimumColdInterval = second, ag_OperatorPromptTimeout = 96 * second, ag_CleanupTimeout = second,
     ag_MaximumOutputBytes = 1024\<rparr>"

text \<open>What the board says before the commit, and after it\<close>

definition fresh_output :: string where "fresh_output = [CHR 0x7B, CHR 0x7D]"
definition commit_output :: string where "commit_output = [CHR 0x7B, CHR 0x20, CHR 0x7D]"

definition demo_metadata_fields :: "string \<Rightarrow> (string \<times> string option) list" where
  "demo_metadata_fields out =
     [(''USER_SERIAL_NUM'', Some ''12345678''), (''MAC_ADDR'', Some ''d8:3a:dd:01:02:03''),
      (''CUSTOMER_KEY_HASH'', Some (if out = fresh_output then zeroCustomerKey else demo_key)), (''BOOT_ROM'', Some ''0000000a''), (''BOARD_ATTR'', Some ''00000000''),
      (''USER_BOARDREV'', Some ''d04170''), (''JTAG_LOCKED'', Some ''0''),
      (''FACTORY_UUID'', Some ''001000911006186''), (''EEPROM_HASH'', Some demo_key)]
     @ (if out = fresh_output then []
        else [(''EEPROM_UPDATE'', Some ''success''), (''SECURE_BOOT_PROVISION'', Some ''success'')])"

definition demo_entry :: sysfs_entry where
  "demo_entry = \<lparr>se_Name = ''1-1'', se_Vendor = Some ''0a5c'', se_Product = Some ''2712'', se_done = False\<rparr>"

definition demo_ack :: "Prompt \<Rightarrow> Acknowledgement" where
  "demo_ack prompt = \<lparr>ak_SchemaVersion = AcknowledgementSchemaVersion, ak_PromptID = pm_ID prompt,
     ak_PromptDigest = pm_Digest prompt, ak_Peer = lane_peer,
     ak_AcknowledgedAt = lane_at (if pm_Kind prompt = KindReleaseBOOTSEL then 8 else 5)\<rparr>"

definition rig_release :: release_env where
  "rig_release = \<lparr>rv_poll = None, rv_term = SignalSent, rv_termWait = Some WaitTerm, rv_kill = SignalSent, rv_killWait = None,
     rv_inactiveFails = False\<rparr>"

text \<open>The board is on the bus from step 20 to step \<open>until\<close>; it answers as committed from step 33 on.\<close>

definition demo_clock :: "nat \<Rightarrow> nat \<Rightarrow> instant" where
  "demo_clock until n = lane_at (if n \<le> 2 then 1 else if n \<le> 3 then 2 else if n \<le> 7 then 3 else if n \<le> 10 then 4
     else if n \<le> 13 then 5 else if n \<le> 17 then 6 else if n \<le> 21 then 7 else if n \<le> 24 then 8
     else if n \<le> until + 6 then 9 else 10)"

definition demo_adapter :: "nat \<Rightarrow> adapter_env" where
  "demo_adapter until = \<lparr>ae_config = demo_adapter_config, ae_lane = demo_lane, ae_valid = (\<lambda>_. True),
     ae_scan = (\<lambda>out. Some (demo_metadata_fields out)), ae_guarded = True, ae_pinner = True, ae_clock = demo_clock until,
     ae_done = (\<lambda>_. False), ae_deadline = (\<lambda>_. None), ae_sleep = (\<lambda>_. []), ae_polls = (\<lambda>_. 0),
     ae_fault = (\<lambda>_. None), ae_present = (\<lambda>_ prompt. Inr (demo_ack prompt)),
     ae_sysfs = (\<lambda>n. Some (if 20 \<le> n \<and> n \<le> until then [demo_entry] else [])), ae_watch = (\<lambda>_. []),
     ae_acquire = (\<lambda>_. \<lparr>aq_startFails = False, aq_reply = Acknowledged, aq_cleanup = rig_release\<rparr>),
     ae_release = (\<lambda>_. rig_release), ae_pin = (\<lambda>_. []), ae_verify = (\<lambda>_. []),
     ae_run = (\<lambda>n. \<lparr>rn_stdout = [if n < 33 then fresh_output else commit_output], rn_stderr = [], rn_err = []\<rparr>),
     ae_uart = (\<lambda>_. \<lparr>ur_open = [], ur_get = [], ur_set = [], ur_flush = [], ur_reads = [], ur_restore = [], ur_close = []\<rparr>)\<rparr>"

section \<open>Prompts\<close>

lemma demo_hash_object:
  assumes "key = ''action'' \<or> key = ''domain''"
  shows "demo_hash (render (JObj ((key, v) # m # ms))) = replicate 32 (CHR ''k'')"
    and "digestBytes demo_hash (render (JObj ((key, v) # m # ms))) = demo_digest"
proof -
  have q: "quote_string ''action'' = CHR 0x22 # ''action'' @ [CHR 0x22]" "quote_string ''domain'' = CHR 0x22 # ''domain'' @ [CHR 0x22]"
    by code_simp+
  have p: "plain_text (render (JObj ((key, v) # m # ms)))"
    using assms by (cases m) (auto simp: q plain_text_def second_record_def)
  then show "digestBytes demo_hash (render (JObj ((key, v) # m # ms))) = demo_digest" by (rule digest_plain)
  have "take 13 (render (JObj ((key, v) # m # ms))) \<noteq> second_record"
    "render (JObj ((key, v) # m # ms)) \<noteq> receipt_text demo_receipt"
    using assms by (cases m; auto simp: q second_record_def receipt_text_def)+
  then show "demo_hash (render (JObj ((key, v) # m # ms))) = replicate 32 (CHR ''k'')" by (simp add: demo_hash_def)
qed

lemma lane_action_marshals: "marshals (json_of_HardwareAction (lane_action phase))"
  by (simp add: json_of_HardwareAction_def lane_action_def juint64_def juint32_def omit_empty_def)

definition demo_prompt :: "HardwareAction \<Rightarrow> Kind \<Rightarrow> string \<Rightarrow> string \<Rightarrow> instant \<Rightarrow> Prompt" where
  "demo_prompt a kind promptID instructions at = \<lparr>pm_SchemaVersion = PromptSchemaVersion, pm_ID = promptID,
     pm_Digest = demo_digest, pm_Kind = kind, pm_Instructions = instructions, pm_ExpiresAt = at, pm_Action = a\<rparr>"

lemma demo_prompt_fields [simp]:
  "pm_ID (demo_prompt a kind i x at) = i" "pm_Digest (demo_prompt a kind i x at) = demo_digest"
  "pm_ExpiresAt (demo_prompt a kind i x at) = at" "pm_Kind (demo_prompt a kind i x at) = kind"
  by (simp_all add: demo_prompt_def)

lemma instructions_ok:
  "Prompt_validateBody \<lparr>pm_SchemaVersion = PromptSchemaVersion, pm_ID = lane_prompt, pm_Digest = [], pm_Kind = KindHoldBOOTSEL,
     pm_Instructions = holdBOOTSELInstructions, pm_ExpiresAt = lane_at 100, pm_Action = a\<rparr> = None"
  "Prompt_validateBody \<lparr>pm_SchemaVersion = PromptSchemaVersion, pm_ID = lane_release_prompt, pm_Digest = [],
     pm_Kind = KindReleaseBOOTSEL, pm_Instructions = releaseBOOTSELInstructions, pm_ExpiresAt = lane_at 103, pm_Action = a\<rparr> = None"
  if "rpiboot_action a"
proof -
  have ok: "ValidString holdBOOTSELInstructions" "TrimSpace holdBOOTSELInstructions = holdBOOTSELInstructions"
    "length holdBOOTSELInstructions \<le> maxInstructions" "\<not> has_control holdBOOTSELInstructions" "holdBOOTSELInstructions \<noteq> []"
    "ValidString releaseBOOTSELInstructions" "TrimSpace releaseBOOTSELInstructions = releaseBOOTSELInstructions"
    "length releaseBOOTSELInstructions \<le> maxInstructions" "\<not> has_control releaseBOOTSELInstructions"
    "releaseBOOTSELInstructions \<noteq> []"
    by code_simp+
  show "Prompt_validateBody \<lparr>pm_SchemaVersion = PromptSchemaVersion, pm_ID = lane_prompt, pm_Digest = [], pm_Kind = KindHoldBOOTSEL,
     pm_Instructions = holdBOOTSELInstructions, pm_ExpiresAt = lane_at 100, pm_Action = a\<rparr> = None"
    "Prompt_validateBody \<lparr>pm_SchemaVersion = PromptSchemaVersion, pm_ID = lane_release_prompt, pm_Digest = [],
     pm_Kind = KindReleaseBOOTSEL, pm_Instructions = releaseBOOTSELInstructions, pm_ExpiresAt = lane_at 103, pm_Action = a\<rparr> = None"
    using that ok by (simp_all add: Prompt_validateBody_def kind_ok_def rpiboot_action_def)
qed

lemma demo_ids: "''boot-'' @ Kind_string KindHoldBOOTSEL @ ''-'' @ hex_encode (take 8 (replicate 32 (CHR ''k''))) = lane_prompt"
  "''boot-'' @ Kind_string KindReleaseBOOTSEL @ ''-'' @ hex_encode (take 8 (replicate 32 (CHR ''k''))) = lane_release_prompt"
  by code_simp+

lemma demo_newPrompt:
  assumes "phase \<in> lane_phases"
  shows "newPrompt demo_hash (lane_action phase) KindHoldBOOTSEL holdBOOTSELInstructions (lane_at 100) =
      Inr (demo_prompt (lane_action phase) KindHoldBOOTSEL lane_prompt holdBOOTSELInstructions (lane_at 100))"
    and "newPrompt demo_hash (lane_action phase) KindReleaseBOOTSEL releaseBOOTSELInstructions (lane_at 103) =
      Inr (demo_prompt (lane_action phase) KindReleaseBOOTSEL lane_release_prompt releaseBOOTSELInstructions (lane_at 103))"
proof -
  have times: "time_marshals (utc (lane_at 100))" "time_marshals (utc (lane_at 103))" using lane_years by auto
  note a = lane_action_made(2) [OF assms]
  have m: "marshals (prompt_material (lane_action phase) kind (lane_at 100))" "marshals (prompt_material (lane_action phase) kind (lane_at 103))" for kind
    using times lane_action_marshals by (simp_all add: prompt_material_def)
  have h: "demo_hash (render (prompt_material (lane_action phase) kind at)) = replicate 32 (CHR ''k'')" for kind at
    unfolding prompt_material_def by (rule demo_hash_object(1)) simp
  have d: "Prompt_derivedDigest demo_hash (demo_prompt (lane_action phase) kind i x at\<lparr>pm_Digest := []\<rparr>) = Inr demo_digest"
    if "time_marshals (utc at)" for kind i x at
    using that lane_action_marshals
    by (simp add: Prompt_derivedDigest_def prompt_document_def demo_prompt_def demo_hash_object(2) del: render.simps)
  show "newPrompt demo_hash (lane_action phase) KindHoldBOOTSEL holdBOOTSELInstructions (lane_at 100) =
      Inr (demo_prompt (lane_action phase) KindHoldBOOTSEL lane_prompt holdBOOTSELInstructions (lane_at 100))"
    using d [OF times(1), of KindHoldBOOTSEL lane_prompt holdBOOTSELInstructions] instructions_ok [OF a]
    unfolding newPrompt_def Let_def h demo_ids by (simp add: m Prompt_New_def demo_prompt_def)
  show "newPrompt demo_hash (lane_action phase) KindReleaseBOOTSEL releaseBOOTSELInstructions (lane_at 103) =
      Inr (demo_prompt (lane_action phase) KindReleaseBOOTSEL lane_release_prompt releaseBOOTSELInstructions (lane_at 103))"
    using d [OF times(2), of KindReleaseBOOTSEL lane_release_prompt releaseBOOTSELInstructions] instructions_ok [OF a]
    unfolding newPrompt_def Let_def h demo_ids by (simp add: m Prompt_New_def demo_prompt_def)
qed

section \<open>Single steps\<close>

definition rig_at ::
  "nat \<Rightarrow> execPowerLease option \<Rightarrow> string \<Rightarrow> Metadata option \<Rightarrow> bool \<Rightarrow> journalState \<Rightarrow> rig \<Rightarrow> bool" where
  "rig_at n lease mode target pin st s \<longleftrightarrow>
     rg_step s = n \<and> ad_power s = lease \<and> ad_mode s = mode \<and> ad_target s = target \<and> ad_usbPin s = pin
     \<and> holds (rg_store s) st"

lemma demo_adapter_fields [simp]:
  "ae_config (demo_adapter u) = demo_adapter_config" "ae_lane (demo_adapter u) = demo_lane"
  "ae_clock (demo_adapter u) = demo_clock u" "ae_fault (demo_adapter u) n = None" "ae_sleep (demo_adapter u) n = []"
  "ae_polls (demo_adapter u) n = 0" "ae_present (demo_adapter u) n p = Inr (demo_ack p)"
  "ae_sysfs (demo_adapter u) n = Some (if 20 \<le> n \<and> n \<le> u then [demo_entry] else [])"
  "ae_acquire (demo_adapter u) n = \<lparr>aq_startFails = False, aq_reply = Acknowledged, aq_cleanup = rig_release\<rparr>"
  "ae_release (demo_adapter u) n = rig_release" "ae_pin (demo_adapter u) n = []" "ae_verify (demo_adapter u) n = []"
  "ae_guarded (demo_adapter u)" "ae_pinner (demo_adapter u)"
  "ae_run (demo_adapter u) n = \<lparr>rn_stdout = [if n < 33 then fresh_output else commit_output], rn_stderr = [], rn_err = []\<rparr>"
  "le_sha256 demo_lane = demo_hash" "ae_done (demo_adapter u) n = False"
  by (simp_all add: demo_adapter_def demo_lane_def)

lemma demo_config_fields [simp]:
  "ag_Paths demo_adapter_config = demo_paths" "ag_PowerControl demo_adapter_config = PowerControlRelay"
  "ag_ExpectedCustomerKeyHash demo_adapter_config = demo_key" "ag_ExpectedEEPROMHash demo_adapter_config = demo_key"
  "ag_USBPollInterval demo_adapter_config = second" "ag_MinimumColdInterval demo_adapter_config = second"
  "ag_OperatorPromptTimeout demo_adapter_config = 96 * second" "ag_MaximumOutputBytes demo_adapter_config = 1024"
  by (simp_all add: demo_adapter_config_def)

lemma lane_config_fields [simp]:
  "cf_RPIBootSysfsPath lane_config = ''/sys/bus/usb/devices/1-1''" "cf_PowerControlMode lane_config = PowerControlRelay"
  by (simp_all add: lane_config_def)

lemma lane_at_add [simp]: "lane_at n + second = lane_at (n + 1)" "lane_at n + 96 * second = lane_at (n + 96)"
  by (simp_all add: lane_at_def algebra_simps)

named_theorems demo_run \<open>runs of single steps\<close>

lemma demo_primitives [demo_run]:
  "run_state (ask f) s = (f (rg_step s), s\<lparr>rg_step := Suc (rg_step s)\<rparr>)"
  "run_state (gets g) s = (g s, s)" "run_state (modify h) s = ((), h s)"
  "run_state (emit ev) s = ((), s\<lparr>rg_log := rg_log s @ [ev]\<rparr>)"
  "run_state (now e) s = (ae_clock e (rg_step s), s\<lparr>rg_step := Suc (rg_step s)\<rparr>)"
  "run_state (atLeast e ts) s =
     (foldl (\<lambda>result time. if time > result then time else result) (ae_clock e (rg_step s)) ts, s\<lparr>rg_step := Suc (rg_step s)\<rparr>)"
  by (simp_all add: primitive_defs now_def atLeast_def run_bind)

definition bus_empty :: usbTopology where "bus_empty = \<lparr>ut_expectedPresent = False, ut_eligible = []\<rparr>"
definition bus_target :: usbTopology where "bus_target = \<lparr>ut_expectedPresent = True, ut_eligible = [''/sys/bus/usb/devices/1-1'']\<rparr>"

lemma demo_inspect:
  "inspectUSBTopology ''/sys/bus/usb/devices/1-1'' b (Some []) = Inr bus_empty"
  "inspectUSBTopology ''/sys/bus/usb/devices/1-1'' b (Some [demo_entry]) = Inr bus_target"
  by (cases b; code_simp)+

lemma demo_bus [simp]:
  "no_target bus_empty" "\<not> no_target bus_target" "exact_target ''/sys/bus/usb/devices/1-1'' bus_target"
  "require_exact ''/sys/bus/usb/devices/1-1'' bus_target = []" "\<not> exact_target ''/sys/bus/usb/devices/1-1'' bus_empty"
  by code_simp+

lemma demo_look [demo_run]:
  "20 \<le> rg_step s \<Longrightarrow> rg_step s \<le> u \<Longrightarrow> run_state (look (demo_adapter u) ''/sys/bus/usb/devices/1-1'' b) s =
     (Inr bus_target, s\<lparr>rg_step := Suc (rg_step s), rg_log := rg_log s @ [EvTopology bus_target]\<rparr>)"
  "rg_step s < 20 \<or> u < rg_step s \<Longrightarrow> run_state (look (demo_adapter u) ''/sys/bus/usb/devices/1-1'' b) s =
     (Inr bus_empty, s\<lparr>rg_step := Suc (rg_step s), rg_log := rg_log s @ [EvTopology bus_empty]\<rparr>)"
  by (auto simp: look_def look_at_def run_bind demo_primitives demo_inspect split: if_splits)

lemma demo_release_lease: "Lease_Release rig_release new_lease = (False, new_lease\<lparr>pl_holderStopAttempted := True,
    pl_holderTermSignaled := True, pl_holderDone := True, pl_released := True\<rparr>)"
  by code_simp

lemma demo_acquire: "AcquirePower \<lparr>aq_startFails = False, aq_reply = Acknowledged, aq_cleanup = rig_release\<rparr> = (Some new_lease, None)"
  by (simp add: AcquirePower_def)

lemmas demo_steps = demo_run run_bind demo_clock_def demo_release_lease demo_acquire

section \<open>Journal\<close>

lemma set_power_state_more [simp]:
  "rg_step (set_power_state p r) = rg_step r" "ad_usbPin (set_power_state p r) = ad_usbPin r"
  by (simp_all add: set_power_state_def)

abbreviation (input) "hold_prompt phase \<equiv>
  demo_prompt (lane_action phase) KindHoldBOOTSEL lane_prompt holdBOOTSELInstructions (lane_at 100)"

abbreviation (input) "release_prompt phase \<equiv>
  demo_prompt (lane_action phase) KindReleaseBOOTSEL lane_release_prompt releaseBOOTSELInstructions (lane_at 103)"

text \<open>A journal that can take the transition of an action\<close>

definition boot_free :: "HardwarePhase \<Rightarrow> journalState \<Rightarrow> bool" where
  "boot_free phase st \<longleftrightarrow> phase \<in> lane_phases \<and> good_journal st
     \<and> generation_loop (lane_action phase) 0 (js_BootTransitions st) = Inr 0
     \<and> BootTransitionKey (lane_action phase) 1 \<notin> fst ` List.set (js_BootTransitions st)"

lemma demo_put:
  assumes "boot_free phase st" and "i < 6" and "j = Suc i"
    and "holds (rg_store s) (with_boot st (lane_boot (lane_action phase) i))"
  shows "\<exists>store log. run_state (journal_PutBootTransition (demo_adapter u) (lane_boot (lane_action phase) j)) s =
      ([], s\<lparr>rg_step := Suc (rg_step s), rg_store := store, rg_log := log\<rparr>)
    \<and> holds store (with_boot st (lane_boot (lane_action phase) j))"
proof -
  obtain store where "Store_PutBootTransition demo_lane None (lane_boot (lane_action phase) j) (rg_store s) = (None, store)"
    "holds store (with_boot st (lane_boot (lane_action phase) j))"
    using lane_boot_stored [OF lane_action_made(2) assms(2,4)] assms(1,3) by (auto simp: boot_free_def)
  then show ?thesis by (auto simp: run_put)
qed

section \<open>Symbolic runs\<close>

definition wp :: "'a io \<Rightarrow> ('a \<Rightarrow> rig \<Rightarrow> bool) \<Rightarrow> rig \<Rightarrow> bool" where
  "wp m P s \<longleftrightarrow> (case run_state m s of (x, s') \<Rightarrow> P x s')"

lemma wp_bind: "wp (m \<bind> f) P s = wp m (\<lambda>x. wp (f x) P) s"
  by (simp add: wp_def run_bind split: prod.splits)

lemma wp_return: "wp (State_Monad.return x) P s = P x s"
  by (simp add: wp_def State_Monad.return_def)

lemma wp_weaken: "wp m Q s \<Longrightarrow> (\<And>x s'. Q x s' \<Longrightarrow> P x s') \<Longrightarrow> wp m P s"
  by (auto simp: wp_def split: prod.splits)

named_theorems steps \<open>one step of a run\<close>

lemma step_ask [steps]:
  "rig_at n L m t p st s \<Longrightarrow> (\<And>s'. rig_at (Suc n) L m t p st s' \<Longrightarrow> P (f n) s') \<Longrightarrow> wp (ask f) P s"
  by (simp add: wp_def demo_primitives rig_at_def)

lemma step_now [steps]:
  "rig_at n L m t p st s \<Longrightarrow> (\<And>s'. rig_at (Suc n) L m t p st s' \<Longrightarrow> P (ae_clock e n) s') \<Longrightarrow> wp (now e) P s"
  by (simp add: wp_def demo_primitives rig_at_def)

lemma step_atLeast [steps]:
  "rig_at n L m t p st s \<Longrightarrow>
   (\<And>s'. rig_at (Suc n) L m t p st s' \<Longrightarrow> P (foldl (\<lambda>r x. if x > r then x else r) (ae_clock e n) ts) s') \<Longrightarrow> wp (atLeast e ts) P s"
  by (simp add: wp_def demo_primitives rig_at_def)

lemma step_emit [steps]:
  "rig_at n L m t p st s \<Longrightarrow> (\<And>s'. rig_at n L m t p st s' \<Longrightarrow> P () s') \<Longrightarrow> wp (emit ev) P s"
  by (simp add: wp_def demo_primitives rig_at_def)

lemma step_gets [steps]:
  "rig_at n L m t p st s \<Longrightarrow> (rig_at n L m t p st s \<Longrightarrow> P L s) \<Longrightarrow> wp (gets ad_power) P s"
  "rig_at n L m t p st s \<Longrightarrow> (rig_at n L m t p st s \<Longrightarrow> P1 m s) \<Longrightarrow> wp (gets ad_mode) P1 s"
  "rig_at n L m t p st s \<Longrightarrow> (rig_at n L m t p st s \<Longrightarrow> P2 t s) \<Longrightarrow> wp (gets ad_target) P2 s"
  "rig_at n L m t p st s \<Longrightarrow> (rig_at n L m t p st s \<Longrightarrow> P3 p s) \<Longrightarrow> wp (gets ad_usbPin) P3 s"
  "rig_at n L m t p st s \<Longrightarrow> (\<And>store. holds store st \<Longrightarrow> rig_at n L m t p st s \<Longrightarrow> P4 store s) \<Longrightarrow> wp (gets rg_store) P4 s"
  by (simp_all add: wp_def demo_primitives rig_at_def)

lemma step_modify [steps]:
  "rig_at n L m t p st s \<Longrightarrow> (\<And>s'. rig_at n L m t p st s' \<Longrightarrow> P () s')
    \<Longrightarrow> wp (modify (\<lambda>r. if \<exists>y. ad_target r = Some y then set_power_state x r else r)) P s"
  "rig_at n L m t p st s \<Longrightarrow> (\<And>s'. rig_at n L m t b st s' \<Longrightarrow> P () s') \<Longrightarrow> wp (modify (\<lambda>r. r\<lparr>ad_usbPin := b\<rparr>)) P s"
  "rig_at n L m t p st s \<Longrightarrow> (\<And>s'. rig_at n L m' (Some o') p st s' \<Longrightarrow> P () s') \<Longrightarrow> wp (modify (adopt o' m')) P s"
  by (simp_all add: wp_def demo_primitives rig_at_def set_power_state_def adopt_def)

lemma step_look [steps]:
  assumes "rig_at n L m t p st s"
    and "\<And>s'. rig_at (Suc n) L m t p st s' \<Longrightarrow> P (Inr (if 20 \<le> n \<and> n \<le> u then bus_target else bus_empty)) s'"
  shows "wp (look (demo_adapter u) ''/sys/bus/usb/devices/1-1'' b) P s"
  using assms by (cases "20 \<le> n \<and> n \<le> u") (auto simp: wp_def demo_look rig_at_def)

lemma step_ensure [steps]:
  assumes "rig_at n None m t p st s" and "\<And>s'. rig_at (Suc n) (Some new_lease) m t p st s' \<Longrightarrow> P [] s'"
  shows "wp (ensurePower (demo_adapter u) d) P s"
  using assms by (simp add: wp_def ensurePower_def demo_steps rig_at_def)

lemma step_release [steps]:
  "rig_at n None m t p st s \<Longrightarrow> (rig_at n None m t p st s \<Longrightarrow> P [] s) \<Longrightarrow> wp (releasePower (demo_adapter u)) P s"
  "rig_at n (Some new_lease) m t p st s \<Longrightarrow> (\<And>s'. rig_at (Suc n) None m t p st s' \<Longrightarrow> P [] s')
    \<Longrightarrow> wp (releasePower (demo_adapter u)) P s"
  by (simp_all add: wp_def releasePower_def demo_steps rig_at_def)

lemma step_put [steps]:
  assumes "rig_at n L m t p (with_boot st (lane_boot (lane_action phase) i)) s" and "boot_free phase st" and "i < 6" and "j = Suc i"
    and "\<And>s'. rig_at (Suc n) L m t p (with_boot st (lane_boot (lane_action phase) j)) s' \<Longrightarrow> P [] s'"
  shows "wp (journal_PutBootTransition (demo_adapter u) (lane_boot (lane_action phase) j)) P s"
proof -
  have "holds (rg_store s) (with_boot st (lane_boot (lane_action phase) i))" using assms(1) by (simp add: rig_at_def)
  from demo_put [OF assms(2-4) this, of u] show ?thesis
    using assms(1,5) by (auto simp: wp_def rig_at_def)
qed

lemma step_begin [steps]:
  assumes "rig_at n L m t p st s" and "boot_free phase st"
    and "\<And>s'. rig_at (Suc n) L m t p (with_boot st (lane_boot (lane_action phase) 0)) s' \<Longrightarrow> P (Inr (lane_boot (lane_action phase) 0)) s'"
  shows "wp (journal_BeginBootTransition (demo_adapter u) (lane_request (lane_action phase))) P s"
proof -
  obtain store where "Store_BeginBootTransition demo_lane None (lane_request (lane_action phase)) (rg_store s)
      = (Inr (lane_boot (lane_action phase) 0), store)" "holds store (with_boot st (lane_boot (lane_action phase) 0))"
    using lane_boot_begun [OF lane_action_made(2), of phase "rg_store s" st] assms(1,2)
    by (auto simp: boot_free_def rig_at_def)
  then show ?thesis using assms(1,3) by (simp add: wp_def run_begin rig_at_def)
qed

lemmas goes = wp_bind wp_return Let_def demo_clock_def

section \<open>Stages\<close>

lemma lane_boot_steps:
  "(lane_boot a 0)\<lparr>bt_Status := BootTransitionAwaitingOperator, bt_UpdatedAt := lane_at 4\<rparr> = lane_boot a 1"
  "(lane_boot a 1)\<lparr>bt_Status := BootTransitionOperatorAcknowledged, bt_Operator := lane_peer,
     bt_OperatorAcknowledgedAt := lane_at 5, bt_UpdatedAt := lane_at 5\<rparr> = lane_boot a 2"
  "(lane_boot a 2)\<lparr>bt_Status := BootTransitionPowerEstablished, bt_PowerEstablishedAt := lane_at 6,
     bt_UpdatedAt := lane_at 6\<rparr> = lane_boot a 3"
  "rpiboot_observed (demo_adapter u) lane_config (lane_at 7) (release_prompt phase) (lane_boot (lane_action phase) 3)
     = lane_boot (lane_action phase) 4"
  "(lane_boot a 4)\<lparr>bt_Status := BootTransitionOperatorReleased, bt_ReleaseOperator := lane_peer,
     bt_OperatorReleasedAt := lane_at 8, bt_UpdatedAt := lane_at 8\<rparr> = lane_boot a 5"
  "(lane_boot a 5)\<lparr>bt_FinalSafeOffProof := zero_OperatorPowerProof, bt_Status := BootTransitionCompleted,
     bt_SafeOffObservedAt := lane_at 9, bt_CompletedAt := lane_at 10, bt_UpdatedAt := lane_at 10,
     bt_EvidenceDigest := demo_digest\<rparr> = lane_boot a 6"
  by (simp_all add: lane_boot_def rpiboot_observed_def)

lemma demo_ack_ok:
  "validatePromptAcknowledgement (hold_prompt phase) (demo_ack (hold_prompt phase)) (lane_at 4) = []"
  "validatePromptAcknowledgement (release_prompt phase) (demo_ack (release_prompt phase)) (lane_at 7) = []"
  "ak_AcknowledgedAt (demo_ack (hold_prompt phase)) = lane_at 5"
  "ak_AcknowledgedAt (demo_ack (release_prompt phase)) = lane_at 8" "ak_Peer (demo_ack p) = lane_peer"
  by (simp_all add: validatePromptAcknowledgement_def demo_ack_def lane_peer_def)

lemma demo_first_off:
  assumes "rig_at 3 None m t p st s" and "20 \<le> u"
    and "\<And>s'. rig_at 7 None m t p st s' \<Longrightarrow>
      P (\<lparr>sp_powerOffAt = lane_at 2, sp_usbAbsentAt = lane_at 3, sp_operator = zero_OperatorPowerProof\<rparr>, []) s'"
  shows "wp (relaySafeOff (demo_adapter u) lane_config) P s"
  using assms(1,2)
  by - (rule assms(3) | simp add: relaySafeOff_def waitForDisappearance_def disappear_step_def goes del: One_nat_def | erule steps)+

lemma demo_begun:
  assumes "rig_at 2 None m t p st s" and "20 \<le> u" and "boot_free phase st"
    and "\<And>s'. rig_at 9 None m t p (with_boot st (lane_boot (lane_action phase) 0)) s' \<Longrightarrow>
      wp (run_begun (demo_adapter u) lane_config (lane_boot (lane_action phase) 0) (hold_prompt phase) payload) P s'"
  shows "wp (runBootTransition (demo_adapter u) lane_config (lane_action phase) payload) P s"
proof -
  have request: "begin_request (demo_adapter u) (lane_action phase) (lane_at 1) (lane_at 3)
      \<lparr>sp_powerOffAt = lane_at 2, sp_usbAbsentAt = lane_at 3, sp_operator = zero_OperatorPowerProof\<rparr> (lane_at 4) (hold_prompt phase)
      = lane_request (lane_action phase)"
    by (simp add: begin_request_def lane_request_def)
  have prompt: "power_prompt demo_adapter_config (lane_action phase) = (KindHoldBOOTSEL, holdBOOTSELInstructions)"
    by (simp add: power_prompt_def PowerControlRelay_def PowerControlManual_def BootModeRPIBoot_def BootModeNormal_def)
  have relay: "PowerControlRelay \<noteq> PowerControlManual" by (simp add: PowerControlRelay_def PowerControlManual_def)
  have made: "newPrompt demo_hash (lane_action phase) KindHoldBOOTSEL holdBOOTSELInstructions (lane_at 100) = Inr (hold_prompt phase)"
    using demo_newPrompt(1) assms(3) by (simp add: boot_free_def)
  show ?thesis
    unfolding runBootTransition_def wp_bind
    apply (rule step_now [OF assms(1)])
    apply (simp add: establishInitialSafeOff_def relay goes)
    apply (erule demo_first_off [OF _ assms(2)])
    apply (simp add: prompt made goes)
    apply (erule step_atLeast)
    apply (simp add: request goes)
    apply (erule step_begin [OF _ assms(3)])
    apply (simp add: goes assms(4))
    done
qed


lemma demo_acknowledged:
  assumes "rig_at 9 None m t p (with_boot st (lane_boot (lane_action phase) 0)) s" and "boot_free phase st"
    and "\<And>s'. rig_at 15 None m t p (with_boot st (lane_boot (lane_action phase) 2)) s' \<Longrightarrow>
      wp (runRPIBootTransition (demo_adapter u) lane_config (lane_boot (lane_action phase) 2) payload) P s'"
  shows "wp (run_begun (demo_adapter u) lane_config (lane_boot (lane_action phase) 0) (hold_prompt phase) payload) P s"
proof -
  have normal: "BootModeRPIBoot \<noteq> BootModeNormal" by (simp add: BootModeRPIBoot_def BootModeNormal_def)
  show ?thesis
    using assms(1,2)
    by - (rule assms(3), assumption | erule steps
      | simp add: run_begun_def acknowledgePowerPrompt_def Present_def goes lane_boot_steps demo_ack_ok normal del: One_nat_def)+
qed

lemma demo_powered:
  assumes "rig_at 15 None m t p (with_boot st (lane_boot (lane_action phase) 2)) s" and "boot_free phase st" and "26 \<le> u"
    and "\<And>s'. rig_at 26 (Some new_lease) m t p (with_boot st (lane_boot (lane_action phase) 5)) s' \<Longrightarrow>
      wp (run_released (demo_adapter u) lane_config (lane_boot (lane_action phase) 5) payload) P s'"
  shows "wp (runRPIBootTransition (demo_adapter u) lane_config (lane_boot (lane_action phase) 2) payload) P s"
proof -
  have relay: "PowerControlRelay \<noteq> PowerControlManual" by (simp add: PowerControlRelay_def PowerControlManual_def)
  have made: "newPrompt demo_hash (lane_action phase) KindReleaseBOOTSEL releaseBOOTSELInstructions (lane_at 103) = Inr (release_prompt phase)"
    using demo_newPrompt(2) assms(2) by (simp add: boot_free_def)
  show ?thesis
    using assms(1-3)
    by - (rule assms(4), assumption | erule steps
      | simp add: runRPIBootTransition_def power_established_def powerEstablishedAt_def run_powered_def run_observed_def
          waitForExpectedTarget_def appear_step_def Present_def goes lane_boot_steps demo_ack_ok relay made del: One_nat_def)+
qed

section \<open>The board's answers\<close>

definition demo_fields :: "string \<Rightarrow> (string, string) gomap" where
  "demo_fields out = map (\<lambda>(name, v). (name, the v)) (demo_metadata_fields out)"

lemma demo_read:
  "ExtractMetadataObject (\<lambda>_. True) fresh_output = Inr fresh_output"
  "ExtractMetadataObject (\<lambda>_. True) commit_output = Inr commit_output"
  "parseStringObject (\<lambda>out. Some (demo_metadata_fields out)) fresh_output MaxMetadataSize MaxMetadataFields = Inr (demo_fields fresh_output)"
  "parseStringObject (\<lambda>out. Some (demo_metadata_fields out)) commit_output MaxMetadataSize MaxMetadataFields = Inr (demo_fields commit_output)"
  "fields_ok (demo_fields fresh_output) = None" "fields_ok (demo_fields commit_output) = None"
  by code_simp+

lemma demo_field:
  "field_of (demo_fields out) ''USER_SERIAL_NUM'' = ''12345678''" "field_of (demo_fields out) ''FACTORY_UUID'' = ''001000911006186''"
  "field_of (demo_fields out) ''USER_BOARDREV'' = ''d04170''" "field_of (demo_fields out) ''BOARD_ATTR'' = ''00000000''"
  "field_of (demo_fields out) ''BOOT_ROM'' = ''0000000a''" "field_of (demo_fields out) ''EEPROM_HASH'' = demo_key"
  "field_of (demo_fields out) ''CUSTOMER_KEY_HASH'' = (if out = fresh_output then zeroCustomerKey else demo_key)"
  "field_of (demo_fields out) ''MAC_ADDR'' = ''d8:3a:dd:01:02:03''" "field_of (demo_fields out) ''MAC_WIFI_ADDR'' = []"
  "field_of (demo_fields out) ''MAC_BT_ADDR'' = []" "field_of (demo_fields out) ''JTAG_LOCKED'' = ''0''"
  by (simp_all add: field_of_def demo_fields_def demo_metadata_fields_def map_get_def)

lemma demo_normal:
  "normalizeFixedHex ''12345678'' hex8Pattern = Inr ''12345678''" "normalizeFixedHex ''00000000'' hex8Pattern = Inr ''00000000''"
  "normalizeFixedHex ''0000000a'' hex8Pattern = Inr ''0000000a''" "normalizeFixedHex demo_key hex64Pattern = Inr demo_key"
  "normalizeFixedHex zeroCustomerKey hex64Pattern = Inr zeroCustomerKey" "demo_key \<noteq> []"
  "normalizeMAC ''d8:3a:dd:01:02:03'' = Inr ''d8:3a:dd:01:02:03''" "normalizeOptionalMAC [] = Inr []"
  "lower_text ''001000911006186'' = ''001000911006186''" "\<not> isZeroHex ''12345678''" "\<not> isZeroHex ''001000911006186''"
  "factoryUUIDPattern ''001000911006186''" "distinct_macs [''d8:3a:dd:01:02:03'', [], []]" "hexRevisionPattern ''d04170''"
  by code_simp+

lemma demo_fingerprint: "targetFingerprint demo_hash factoryUUID serial revision = demo_digest"
  unfolding targetFingerprint_def by (rule digest_plain) (simp add: plain_text_def second_record_def)

lemma demo_upstream: "upstream_fields (demo_fields commit_output) = [(''EEPROM_UPDATE'', ''success''), (''SECURE_BOOT_PROVISION'', ''success'')]"
  by code_simp

lemma demo_success: "lower_text ''success'' = ''success''" "commit_output \<noteq> fresh_output"
  by code_simp+

lemma demo_parsed:
  assumes "out \<in> {fresh_output, commit_output}"
  obtains m where "output_metadata (demo_adapter u) out = Inr m" and "md_TargetFingerprint m = demo_digest"
    and "md_CustomerKeyHash m = (if out = fresh_output then zeroCustomerKey else demo_key)" and "md_EEPROMHash m = demo_key"
    and "md_UpstreamFields m = upstream_fields (demo_fields out)"
proof -
  obtain r where r: "DecodeRevision ''d04170'' = Inr r" using demo_normal(14) by (simp add: DecodeRevision_def Let_def)
  define key where "key = (if out = fresh_output then zeroCustomerKey else demo_key)"
  have key: "normalizeFixedHex key hex64Pattern = Inr key" "field_of (demo_fields out) ''CUSTOMER_KEY_HASH'' = key"
    by (simp_all add: key_def demo_normal demo_field)
  have "ExtractMetadataObject (\<lambda>_. True) out = Inr out" "fields_ok (demo_fields out) = None"
    "parseStringObject (\<lambda>out. Some (demo_metadata_fields out)) out MaxMetadataSize MaxMetadataFields = Inr (demo_fields out)"
    using assms demo_read by auto
  then have "\<exists>m. output_metadata (demo_adapter u) out = Inr m \<and> md_TargetFingerprint m = demo_digest \<and> md_CustomerKeyHash m = key
      \<and> md_EEPROMHash m = demo_key \<and> md_UpstreamFields m = upstream_fields (demo_fields out)"
    by (simp add: output_metadata_def demo_adapter_def demo_lane_def ParseMetadata_def key r demo_field(1-6,8-) demo_normal
        Let_def demo_fingerprint del: bindE_Inr lower_text.simps)
  then show ?thesis using that by (auto simp: key_def)
qed

lemma demo_fresh:
  obtains m where "output_metadata (demo_adapter u) fresh_output = Inr m" and "md_TargetFingerprint m = demo_digest"
    and "md_CustomerKeyHash m = zeroCustomerKey"
  using demo_parsed [of fresh_output u] by (auto intro: that)

lemma demo_committed:
  obtains m where "output_metadata (demo_adapter u) commit_output = Inr m" and "md_TargetFingerprint m = demo_digest"
    and "commit_matches demo_adapter_config m"
proof -
  obtain m where m: "output_metadata (demo_adapter u) commit_output = Inr m" "md_TargetFingerprint m = demo_digest"
    "md_CustomerKeyHash m = demo_key" "md_EEPROMHash m = demo_key" "md_UpstreamFields m = upstream_fields (demo_fields commit_output)"
    using demo_parsed [of commit_output u] demo_success(2) by auto
  then have "commit_matches demo_adapter_config m"
    by (simp add: commit_matches_def demo_upstream field_of_def map_get_def demo_success del: lower_text.simps)
  with m show ?thesis using that by blast
qed

lemma demo_collected: "out \<in> {fresh_output, commit_output} \<Longrightarrow> collected (demo_adapter u) [out] = \<lparr>bf_bytes = out, bf_overflow = False\<rparr>"
  "collected (demo_adapter u) [] = \<lparr>bf_bytes = [], bf_overflow = False\<rparr>"
  by (auto simp: collected_def boundedBuffer_Write_def fresh_output_def commit_output_def)

end
