(* ===== verification/Adapter_Demo_Calls.thy ===== *)
theory Adapter_Demo_Calls
  imports Adapter_Demo Lane_Demo_Execute
begin

text \<open>
  The demonstration calls of the adapter: both calls of the lane guard's interface succeed on the demonstration lane.
\<close>

section \<open>Payloads\<close>

lemma relay_not_manual [simp]: "PowerControlRelay \<noteq> PowerControlManual" "PowerControlManual \<noteq> PowerControlRelay"
  by (simp_all add: PowerControlRelay_def PowerControlManual_def)

lemma step_exact [steps]:
  assumes "rig_at n L m t p st s" and "20 \<le> n" and "n \<le> u" and "\<And>s'. rig_at (Suc n) L m t p st s' \<Longrightarrow> P [] s'"
  shows "wp (requireExactTarget (demo_adapter u) ''/sys/bus/usb/devices/1-1'') P s"
  unfolding requireExactTarget_def wp_bind
  by (rule step_look [OF assms(1)]) (use assms in \<open>simp add: goes\<close>)

lemma step_run [steps]:
  assumes "rig_at n L m t p st s"
    and "\<And>s'. rig_at (Suc n) L m t p st s' \<Longrightarrow>
      P \<lparr>rn_stdout = [if n < 33 then fresh_output else commit_output], rn_stderr = [], rn_err = []\<rparr> s'"
  shows "wp (Run (demo_adapter u) x args) P s"
  using assms by (simp add: wp_def Run_def run_bind demo_primitives rig_at_def)

lemma unpinned_payload:
  assumes "rig_at n (Some new_lease) m t False st s" and "20 \<le> n" and "n \<le> u"
    and "\<And>s'. rig_at (Suc (Suc n)) (Some new_lease) m t False st s' \<Longrightarrow> P (if n < 32 then fresh_output else commit_output, []) s'"
  shows "wp (runRPIBootPayloadLocked (demo_adapter u) lane_config bundle) P s"
  using assms(1-3)
  by - (erule steps | simp add: runRPIBootPayloadLocked_def power_ready_def demo_collected goes assms(4))+

lemma pinned_payload:
  assumes "rig_at n (Some new_lease) m t True st s" and "20 \<le> n" and "n + 1 \<le> u"
    and "\<And>s'. rig_at (Suc (Suc (Suc (Suc n)))) (Some new_lease) m t True st s' \<Longrightarrow> P (if n < 30 then fresh_output else commit_output, []) s'"
  shows "wp (runRPIBootPayloadLocked (demo_adapter u) lane_config bundle) P s"
  using assms(1-3)
  by - (erule steps | simp add: runRPIBootPayloadLocked_def power_ready_def RunGuarded_def start_guard_def demo_collected goes assms(4))+

section \<open>Completion\<close>

lemma demo_completed_digest:
  assumes "phase \<in> lane_phases"
  shows "completion_digest demo_hash ((lane_boot (lane_action phase) 5)\<lparr>bt_FinalSafeOffProof := zero_OperatorPowerProof,
    bt_Status := BootTransitionCompleted, bt_SafeOffObservedAt := lane_at 9, bt_CompletedAt := lane_at 10, bt_UpdatedAt := lane_at 10\<rparr>)
    = Inr demo_digest"
proof -
  obtain ev where ev: "Evidence (lane_boot (lane_action phase) 6) = Inr ev" "Evidence_Validate ev = None"
    using lane_evidence [OF lane_action_made(2) [OF assms]] .
  have "Evidence ((lane_boot (lane_action phase) 5)\<lparr>bt_FinalSafeOffProof := zero_OperatorPowerProof,
    bt_Status := BootTransitionCompleted, bt_SafeOffObservedAt := lane_at 9, bt_CompletedAt := lane_at 10, bt_UpdatedAt := lane_at 10\<rparr>)
    = Evidence (lane_boot (lane_action phase) 6)"
    by (simp add: Evidence_def lane_boot_def)
  with ev show ?thesis by (simp add: completion_digest_def lane_evidence_digest)
qed

lemma step_reload [steps]:
  assumes "rig_at n L m t p (with_boot st (lane_boot (lane_action phase) 6)) s" and "boot_free phase st"
    and "\<And>s'. rig_at (Suc n) L m t p (with_boot st (lane_boot (lane_action phase) 6)) s' \<Longrightarrow> P (Inr (lane_outcome (lane_action phase))) s'"
  shows "wp (reloadDurableOutcome (demo_adapter u) (BootTransitionKey (lane_action phase) 1)) P s"
proof -
  have h: "holds (rg_store s) (with_boot st (lane_boot (lane_action phase) 6))" using assms(1) by (simp add: rig_at_def)
  have "Store_GetBootTransition demo_lane None (BootTransitionKey (lane_action phase) 1) (rg_store s) = Inr (Some (lane_boot (lane_action phase) 6))"
    using get_last [of "BootTransitionKey (lane_action phase) 1" "js_BootTransitions st"] assms(2)
    by (simp add: Store_GetBootTransition_def holds_load [OF h] holds_open [OF h] with_boot_def boot_free_def)
  moreover have "Outcome demo_hash (lane_boot (lane_action phase) 6) = Inr (lane_outcome (lane_action phase))"
    using assms(2) by (simp add: boot_free_def)
  ultimately show ?thesis
    using assms(1,3)
    by (simp add: wp_def reloadDurableOutcome_def journal_GetBootTransition_def journal_read_def run_bind demo_primitives rig_at_def)
qed

lemma demo_completes:
  assumes "rig_at (Suc u) (Some new_lease) m t p (with_boot st (lane_boot (lane_action phase) 5)) s" and "boot_free phase st"
    and "28 \<le> u"
    and "\<And>s'. rig_at (Suc (Suc (Suc (Suc (Suc (Suc (Suc (Suc (Suc (Suc u)))))))))) None m t p (with_boot st (lane_boot (lane_action phase) 6)) s' \<Longrightarrow>
      P (lane_outcome (lane_action phase), []) s'"
  shows "wp (completeTransition (demo_adapter u) lane_config (lane_boot (lane_action phase) 5)) P s"
proof -
  have "phase \<in> lane_phases" using assms(2) by (simp add: boot_free_def)
  note digest = demo_completed_digest [OF this]
  show ?thesis
    using assms(1-3)
    by - (erule steps | rule assms(4), assumption | simp add: completeTransition_def proveSafeOff_def relaySafeOff_def waitForDisappearance_def disappear_step_def
      goes digest lane_boot_steps del: One_nat_def)+
qed

section \<open>The calls\<close>

lemma demo_readback:
  assumes "rig_at 27 (Some new_lease) ModeFresh None False st s" and "28 \<le> u"
    and "\<And>s' r o'. rig_at 29 (Some new_lease) ModeFresh (Some o') False st s' \<Longrightarrow> P (r, []) s'"
  shows "wp (observe_payload (demo_adapter u) lane_config (lane_action phase)) P s"
proof -
  have modes: "ModeFresh \<noteq> ModeAuto" "ModeFresh \<noteq> ModeOwned" by (simp_all add: ModeFresh_def ModeAuto_def ModeOwned_def)
  obtain o' where o': "output_metadata (demo_adapter u) fresh_output = Inr o'" "md_TargetFingerprint o' = demo_digest"
    "md_CustomerKeyHash o' = zeroCustomerKey" by (rule demo_fresh)
  show ?thesis
    unfolding observe_payload_def wp_bind
    apply (rule step_gets(2) [OF assms(1)])
    apply (simp add: modes readbackLocked_def goes)
    apply (erule unpinned_payload, simp, use assms(2) in simp)
    apply (simp add: goes o' validateContinuity_def readback_mode_error_def)
    apply (erule step_gets(3))
    apply (simp add: goes o' validateContinuity_def readback_mode_error_def)
    apply (erule step_modify(3))
    apply (simp add: goes assms(3))
    done
qed

lemma demo_admit:
  assumes "rig_at 0 None m t p newJournalState s" and "ad_lane s = None" and "phase \<in> lane_phases"
    and "execute \<longleftrightarrow> phase = HardwarePhaseExecute"
    and "\<And>s'. rig_at 2 None m t p newJournalState s' \<Longrightarrow> P [] s'"
  shows "wp (admit (demo_adapter u) lane_config (lane_action phase) execute) P s"
proof -
  have h: "holds (rg_store s) newJournalState" using assms(1) by (simp add: rig_at_def)
  have open_none: "Store_IncompleteBootTransitions demo_lane None (rg_store s) = Inr []"
    by (simp add: Store_IncompleteBootTransitions_def holds_load [OF h] holds_open [OF h] newJournalState_def incompleteBootTransitions_def)
  have quarantine: "Store_HasQuarantinedBootTransition demo_lane None (rg_store s) = Inr False"
    by (simp add: Store_HasQuarantinedBootTransition_def holds_load [OF h] holds_open [OF h] newJournalState_def has_quarantined_def)
  have valid: "validateAction demo_adapter_config lane_config (lane_action phase) execute = []"
    using assms(3,4) lane_action_made(2) [OF assms(3)]
    by (auto simp: validateAction_def rpiboot_action_def of_guard_def lane_config_def lane_action_def phase_defs)
  show ?thesis
    using assms(1,2,5)
    by (simp add: wp_def admit_def prepareLane_def bindLane_def recoverIncompleteTransitions_def journal_IncompleteBootTransitions_def
        journal_HasQuarantinedBootTransition_def journal_read_def run_bind demo_primitives open_none quarantine valid rig_at_def
        numeral_2_eq_2)
qed

lemma demo_commit:
  assumes "rig_at 33 (Some new_lease) ModeFresh None True st s" and "36 \<le> u"
    and "\<And>s' r. rig_at 37 (Some new_lease) ModeOwned (Some r) True st s' \<Longrightarrow>
      P (commit_result (demo_adapter u) commit_output r [], []) s'"
  shows "wp (execute_payload (demo_adapter u) lane_config (lane_action phase)) P s"
proof -
  obtain o' where o': "output_metadata (demo_adapter u) commit_output = Inr o'" "md_TargetFingerprint o' = demo_digest"
    "commit_matches demo_adapter_config o'" by (rule demo_committed)
  show ?thesis
    unfolding execute_payload_def Let_def
    apply (simp add: Adapter_commitLocked_def goes)
    apply (rule step_gets(2) [OF assms(1)])
    apply (simp add: goes)
    apply (erule pinned_payload, simp, use assms(2) in simp)
    apply (simp add: goes)
    apply (erule step_gets(3))
    apply (simp add: goes o' validateContinuity_def)
    apply (erule step_modify(3))
    apply (simp add: goes assms(3))
    done
qed

lemma demo_preflight:
  assumes "rig_at 29 (Some new_lease) ModeFresh None True st s" and "32 \<le> u"
    and "\<And>s'. rig_at 33 (Some new_lease) ModeFresh None True st s' \<Longrightarrow> P [] s'"
  shows "wp (preflightRPIBootIdentityLocked (demo_adapter u) lane_config demo_digest) P s"
proof -
  have modes: "ModeFresh \<noteq> ModeOwned" by (simp add: ModeFresh_def ModeOwned_def)
  obtain o' where o': "output_metadata (demo_adapter u) fresh_output = Inr o'" "md_TargetFingerprint o' = demo_digest"
    "md_CustomerKeyHash o' = zeroCustomerKey" by (rule demo_fresh)
  show ?thesis
    unfolding preflightRPIBootIdentityLocked_def wp_bind
    apply (rule step_gets(2) [OF assms(1)])
    apply (simp add: modes goes)
    apply (erule pinned_payload, simp, use assms(2) in simp)
    apply (simp add: goes)
    apply (erule step_gets(3))
    apply (simp add: goes o' validateContinuity_def preflight_error_def modes assms(3))
    done
qed

definition demo_rig :: rig where
  "demo_rig = \<lparr>ad_lane = None, ad_target = None, ad_directState = zero_DirectState, ad_lastUART = [],
     ad_mode = ModeFresh, ad_power = None, ad_usbPin = False, rg_step = 0, rg_store = first_store, rg_log = []\<rparr>"

lemma demo_rig_at: "rig_at 0 None ModeFresh None False newJournalState demo_rig" "ad_lane demo_rig = None"
  by (simp_all add: rig_at_def demo_rig_def first_holds)

lemma demo_boot_free: "phase \<in> lane_phases \<Longrightarrow> boot_free phase newJournalState"
  by (simp add: boot_free_def newJournalState_def new_journal_good [unfolded newJournalState_def])

lemma demo_transition:
  assumes "phase \<in> lane_phases" and "execute \<longleftrightarrow> phase = HardwarePhaseExecute" and "28 \<le> u"
    and "\<And>s. rig_at 26 (Some new_lease) ModeFresh None False (with_boot newJournalState (lane_boot (lane_action phase) 5)) s \<Longrightarrow>
      wp (run_released (demo_adapter u) lane_config (lane_boot (lane_action phase) 5) payload) (\<lambda>x. wp (g x) P) s"
  shows "wp (admit (demo_adapter u) lane_config (lane_action phase) execute \<bind>
      (\<lambda>err. if err \<noteq> [] then f err
             else runBootTransition (demo_adapter u) lane_config (lane_action phase) payload \<bind> g)) P demo_rig"
proof -
  note free = demo_boot_free [OF assms(1)]
  show ?thesis
    unfolding wp_bind
    apply (rule demo_admit [OF demo_rig_at assms(1,2)])
    apply (simp add: wp_bind)
    apply (erule demo_begun [OF _ _ free], use assms(3) in simp)
    apply (erule demo_acknowledged [OF _ free])
    apply (erule demo_powered [OF _ free], use assms(3) in simp)
    apply (rule assms(4), assumption)
    done
qed

lemma demo_phase: "HardwarePhasePreObservation \<noteq> HardwarePhaseExecute"
  by (simp add: phase_defs)

lemma demo_observed:
  "wp (Adapter_Observe (demo_adapter 28) lane_config (lane_action HardwarePhasePreObservation))
     (\<lambda>reply s. \<exists>ob. reply = Replied ob []) demo_rig"
  unfolding Adapter_Observe_def
  apply (rule demo_transition)
     apply (simp_all add: demo_phase)
  apply (simp add: run_released_def goes)
  apply (erule step_exact, simp, simp)
  apply (simp add: goes demo_phase run_payload_def)
  apply (erule demo_readback, simp)
  apply (simp add: goes)
  apply (rule demo_completes, simp, rule demo_boot_free, simp, simp)
  apply (simp add: goes wp_def demo_primitives rig_at_def cachedObservation_def)
  done

lemma demo_executed:
  "wp (Adapter_Execute (demo_adapter 36) lane_config (lane_action HardwarePhaseExecute))
     (\<lambda>reply s. \<exists>r. reply = Replied r []) demo_rig"
  unfolding Adapter_Execute_def
  apply (rule demo_transition)
     apply simp_all
  apply (simp add: run_released_def goes)
  apply (erule step_exact, simp, simp)
  apply (simp add: goes pinRPIBootInstance_def)
  apply (erule step_ask)
  apply (simp add: goes)
  apply (erule step_ask)
  apply (simp add: goes)
  apply (erule step_modify(2))
  apply (simp add: goes run_preflighted_def)
  apply (erule demo_preflight, simp)
  apply (simp add: goes run_payload_def)
  apply (erule demo_commit, simp)
  apply (simp add: goes)
  apply (rule demo_completes, simp, rule demo_boot_free, simp, simp)
  apply (simp add: goes wp_def demo_primitives)
  done

lemma demo_new: "Adapter_New demo_adapter_config False False first_store = Inr (demo_adapter_config, demo_rig)"
proof -
  have c: "applyDefaults demo_adapter_config = demo_adapter_config" "normalizeDigest demo_key = demo_key"
    "AdapterConfig_Validate demo_adapter_config"
    by code_simp+
  have "demo_adapter_config\<lparr>ag_ExpectedCustomerKeyHash := demo_key, ag_ExpectedEEPROMHash := demo_key\<rparr> = demo_adapter_config"
    by (simp add: demo_adapter_config_def)
  with c show ?thesis by (simp add: Adapter_New_def Let_def demo_rig_def demo_adapter_config_def)
qed

end
