(* ===== verification/Adapter_Evidence.thy ===== *)
theory Adapter_Evidence
  imports Adapter_Steps
begin

text \<open>
  Exact descriptions of what the adapter reads: the evidence line of a signed boot, the output of a program, and the
  metadata of a board.
\<close>

section \<open>Output of a program\<close>

lemma Write_fits:
  "int (length (bf_bytes b)) + int (length chunk) \<le> maximum \<Longrightarrow>
     boundedBuffer_Write maximum chunk b = (False, b\<lparr>bf_bytes := bf_bytes b @ chunk\<rparr>)"
  by (simp add: boundedBuffer_Write_def)

lemma Write_overflow:
  assumes "int (length (bf_bytes b)) \<le> maximum" and "maximum < int (length (bf_bytes b)) + int (length chunk)"
  shows "boundedBuffer_Write maximum chunk b = (True, b\<lparr>bf_bytes := take (nat maximum) (bf_bytes b @ chunk), bf_overflow := True\<rparr>)"
  using assms by (cases "maximum = int (length (bf_bytes b))") (simp_all add: boundedBuffer_Write_def Let_def nat_diff_distrib)

lemma collect_exact:
  assumes "int (length (bf_bytes b)) \<le> maximum" and "\<not> bf_overflow b"
  shows "collect maximum b chunks = \<lparr>bf_bytes = take (nat maximum) (bf_bytes b @ concat chunks),
     bf_overflow = (maximum < int (length (bf_bytes b @ concat chunks)))\<rparr>"
  using assms
proof (induction chunks arbitrary: b)
  case (Cons chunk rest)
  show ?case
  proof (cases "int (length (bf_bytes b)) + int (length chunk) \<le> maximum")
    case True
    then show ?thesis using Cons.IH [of "b\<lparr>bf_bytes := bf_bytes b @ chunk\<rparr>"] Cons.prems by (simp add: Write_fits)
  next
    case False
    then have "nat maximum - length (bf_bytes b) - length chunk = 0" by linarith
    then show ?thesis using False Cons.prems by (simp add: Write_overflow)
  qed
qed simp

section \<open>Evidence of a signed boot\<close>

definition assignment :: "string \<times> string \<Rightarrow> string" where
  "assignment kv = fst kv @ ''='' @ snd kv"

lemma cut_equals_iff: "cut_equals field = Some (k, v) \<longleftrightarrow> field = k @ ''='' @ v \<and> CHR ''='' \<notin> List.set k"
proof -
  show ?thesis
  proof
    assume cut: "cut_equals field = Some (k, v)"
    then have k: "k = takeWhile (\<lambda>c. c \<noteq> CHR ''='') field" "v = drop (length k + 1) field" "length k \<noteq> length field"
      by (auto simp: cut_equals_def Let_def split: if_splits)
    then have "length k < length field" by (metis length_takeWhile_le nat_less_le)
    then have "field ! length k = CHR ''=''" using nth_length_takeWhile [of "\<lambda>c. c \<noteq> CHR ''=''" field] k(1) by simp
    then have "field = take (length k) field @ [CHR ''=''] @ v"
      using \<open>length k < length field\<close> k(2) id_take_nth_drop [of "length k" field] by simp
    moreover have "take (length k) field = k" using k(1) by (metis takeWhile_eq_take)
    moreover have "CHR ''='' \<notin> List.set k" using k(1) by (auto dest: set_takeWhileD)
    ultimately show "field = k @ ''='' @ v \<and> CHR ''='' \<notin> List.set k" by simp
  next
    assume f: "field = k @ ''='' @ v \<and> CHR ''='' \<notin> List.set k"
    then have "takeWhile (\<lambda>c. c \<noteq> CHR ''='') field = k" by (auto simp: takeWhile_append)
    then show "cut_equals field = Some (k, v)" using f by (simp add: cut_equals_def Let_def)
  qed
qed

text \<open>The assignments that can follow those already seen\<close>

definition fresh_assignments :: "(string, string) gomap \<Rightarrow> (string, string) gomap \<Rightarrow> bool" where
  "fresh_assignments seen new \<longleftrightarrow>
     list_all (\<lambda>(k, v). k \<noteq> [] \<and> v \<noteq> [] \<and> CHR ''='' \<notin> List.set k \<and> map_get seen k = None) new \<and> distinct (map fst new)"

lemma fresh_assignments_Cons:
  "fresh_assignments seen ((k, v) # new) \<longleftrightarrow>
     k \<noteq> [] \<and> v \<noteq> [] \<and> CHR ''='' \<notin> List.set k \<and> map_get seen k = None \<and> fresh_assignments (seen @ [(k, v)]) new"
proof -
  have get: "map_get (seen @ [(k, v)]) k' = None \<longleftrightarrow> map_get seen k' = None \<and> k' \<noteq> k" for k'
    by (auto simp: map_get_def map_add_def split: option.splits)
  have keys: "k \<notin> fst ` List.set new \<longleftrightarrow> list_all (\<lambda>(k', v'). k' \<noteq> k) new" by (force simp: list_all_iff)
  show ?thesis unfolding fresh_assignments_def by (auto simp: get keys list_all_iff)
qed

lemma pass_fields_iff:
  "pass_fields seen found = Some seen' \<longleftrightarrow> (\<exists>new. seen' = seen @ new \<and> found = map assignment new \<and> fresh_assignments seen new)"
proof (induction found arbitrary: seen)
  case Nil
  show ?case by (auto simp: fresh_assignments_def)
next
  case (Cons field rest)
  have "pass_fields seen (field # rest) = Some seen' \<longleftrightarrow>
      (\<exists>k v. cut_equals field = Some (k, v) \<and> k \<noteq> [] \<and> v \<noteq> [] \<and> map_get seen k = None
         \<and> pass_fields (seen @ [(k, v)]) rest = Some seen')"
    by (cases "cut_equals field") (auto split: if_splits)
  also have "\<dots> \<longleftrightarrow> (\<exists>k v new. field = assignment (k, v) \<and> rest = map assignment new \<and> seen' = seen @ (k, v) # new
         \<and> fresh_assignments seen ((k, v) # new))"
    unfolding Cons.IH cut_equals_iff fresh_assignments_Cons by (auto simp: assignment_def)
  also have "\<dots> \<longleftrightarrow> (\<exists>new. seen' = seen @ new \<and> field # rest = map assignment new \<and> fresh_assignments seen new)"
    by (auto simp: Cons_eq_map_conv)
  finally show ?case .
qed

lemma lower_text_ascii: "list_all (\<lambda>c. byte c < 128) s \<Longrightarrow> lower_text s = map to_lower s"
  by (induction s rule: lower_text.induct) auto

definition lower_hex :: "char \<Rightarrow> bool" where
  "lower_hex c \<longleftrightarrow> is_digit c \<or> (97 \<le> byte c \<and> byte c \<le> 102)"

lemma hex_byte: "is_hex c \<Longrightarrow> byte c < 128" "is_hex c \<Longrightarrow> to_lower c = c \<longleftrightarrow> lower_hex c" "lower_hex c \<Longrightarrow> is_hex c"
proof -
  have low: "byte (char_of (byte c + 32)) = byte c + 32" if "byte c \<le> 90" using that by (simp add: byte_def)
  show "is_hex c \<Longrightarrow> byte c < 128" "lower_hex c \<Longrightarrow> is_hex c"
    by (auto simp: is_hex_def from_hex_char_def is_digit_def lower_hex_def split: if_splits)
  show "is_hex c \<Longrightarrow> to_lower c = c \<longleftrightarrow> lower_hex c"
    using low by (auto simp: is_hex_def from_hex_char_def is_digit_def is_upper_def to_lower_def lower_hex_def split: if_splits
        dest: arg_cong [where f = byte])
qed

lemma signed_digits: "list_all is_hex s \<and> lower_text s = s \<longleftrightarrow> list_all lower_hex s"
proof -
  have "lower_text s = s \<longleftrightarrow> list_all lower_hex s" if "list_all is_hex s"
  proof -
    have "lower_text s = map to_lower s" using that hex_byte(1) by (intro lower_text_ascii) (auto simp: list_all_iff)
    moreover have "map to_lower s = s \<longleftrightarrow> list_all lower_hex s" using that by (induction s) (auto simp: hex_byte(2))
    ultimately show ?thesis by simp
  qed
  then show ?thesis using hex_byte(3) by (auto simp: list_all_iff)
qed

text \<open>The five assignments of an evidence line\<close>

definition boot_assignments :: "string \<Rightarrow> string \<Rightarrow> (string \<times> string) set" where
  "boot_assignments digest signedText =
     {(''boot_img_sha256'', digest), (''root'', ''/dev/mapper/root''), (''rollback'', ''unimplemented''),
      (''enrollment_ready'', ''false''), (''signed'', signedText)}"

text \<open>A line of the evidence: the marker, then each of five assignments once; \<open>signed\<close> is a number with bit 3 set.\<close>

definition signed_boot_line :: "string \<Rightarrow> string \<Rightarrow> bool" where
  "signed_boot_line digest line \<longleftrightarrow>
     (\<exists>assigned signedText. Fields line = signedBootMarker # map assignment assigned \<and> length assigned = 5
        \<and> List.set assigned = boot_assignments digest signedText
        \<and> length signedText = 8 \<and> list_all lower_hex signedText \<and> bit (hex_number 0 signedText) 3)"

lemma mask_bit: "(w :: uint32) AND 8 = 8 \<longleftrightarrow> bit w 3"
proof
  assume "w AND 8 = 8"
  then have "bit (w AND 8) 3 = bit (8 :: uint32) 3" by simp
  then show "bit w 3" by (simp add: bit_and_iff bit_numeral_rec)
next
  assume "bit w 3"
  then have "w AND 2 ^ 3 = 2 ^ 3" by (intro bit_word_eqI) (auto simp: bit_and_iff bit_exp_iff simp del: power_numeral)
  then show "w AND 8 = 8" by simp
qed

lemma word_bit_nat: "bit (word_of_nat m :: uint32) 3 \<longleftrightarrow> bit m 3"
  by transfer (simp add: bit_take_bit_iff bit_of_nat_iff_bit)

lemma signed_value_ok:
  assumes "length s = 8"
  shows "lower_text s = s \<and> (\<exists>n. signed_value s = Some n \<and> n AND 8 = 8) \<longleftrightarrow> list_all lower_hex s \<and> bit (hex_number 0 s) 3"
  using signed_digits [of s] by (auto simp: signed_value_def mask_bit word_bit_nat)

lemma five_assignments:
  assumes "distinct (map fst found)" and "length found = 5"
    and "distinct [k1, k2, k3, k4, k5]"
  shows "map_get found k1 = Some v1 \<and> map_get found k2 = Some v2 \<and> map_get found k3 = Some v3 \<and> map_get found k4 = Some v4
      \<and> map_get found k5 = Some v5
    \<longleftrightarrow> List.set found = {(k1, v1), (k2, v2), (k3, v3), (k4, v4), (k5, v5)}" (is "?get \<longleftrightarrow> _ = ?all")
proof
  assume ?get
  then have "?all \<subseteq> List.set found" by (auto dest: map_get_mem)
  moreover have "card ?all = 5" using assms(3) by auto
  moreover have "card (List.set found) = 5" using assms(1,2) by (simp add: distinct_card distinct_map)
  ultimately show "List.set found = ?all" by (metis List.finite_set card_subset_eq)
next
  assume "List.set found = ?all"
  then show ?get using assms(1) by (auto simp: map_get_def)
qed

lemma field_of_iff: "v \<noteq> [] \<Longrightarrow> field_of found k = v \<longleftrightarrow> map_get found k = Some v"
  by (auto simp: field_of_def split: option.splits)

lemma boot_assignments_read:
  assumes "distinct (map fst found)" and "length found = 5" and "digest \<noteq> []" and "s \<noteq> []"
  shows "field_of found ''boot_img_sha256'' = digest \<and> field_of found ''root'' = ''/dev/mapper/root''
      \<and> field_of found ''rollback'' = ''unimplemented'' \<and> field_of found ''enrollment_ready'' = ''false''
      \<and> field_of found ''signed'' = s \<longleftrightarrow> List.set found = boot_assignments digest s"
  using five_assignments [OF assms(1,2), of "''boot_img_sha256''" "''root''" "''rollback''" "''enrollment_ready''" "''signed''"
      digest "''/dev/mapper/root''" "''unimplemented''" "''false''" s] assms(3,4)
  by (simp add: field_of_iff boot_assignments_def)

lemma boot_assignments_fresh:
  assumes "List.set found = boot_assignments digest s" and "length found = 5" and "digest \<noteq> []" and "s \<noteq> []"
  shows "fresh_assignments [] found"
proof -
  have "card (fst ` List.set found) = 5" using assms(1) by (simp add: boot_assignments_def)
  then have "distinct (map fst found)" using assms(2) by (intro card_distinct) simp
  moreover have "list_all (\<lambda>(k, v). k \<noteq> [] \<and> v \<noteq> [] \<and> CHR ''='' \<notin> List.set k \<and> map_get [] k = None) found"
    using assms(1,3,4) by (simp add: list_all_iff boot_assignments_def)
  ultimately show ?thesis by (simp add: fresh_assignments_def)
qed

lemma pass_fields_line:
  assumes "digest \<noteq> []" and "s \<noteq> []"
  shows "(\<exists>found. pass_fields [] rest = Some found \<and> length found = 5 \<and> field_of found ''boot_img_sha256'' = digest
        \<and> field_of found ''root'' = ''/dev/mapper/root'' \<and> field_of found ''rollback'' = ''unimplemented''
        \<and> field_of found ''enrollment_ready'' = ''false'' \<and> field_of found ''signed'' = s)
    \<longleftrightarrow> (\<exists>found. rest = map assignment found \<and> length found = 5 \<and> List.set found = boot_assignments digest s)"
    (is "(\<exists>found. ?P found) \<longleftrightarrow> (\<exists>found. ?Q found)")
proof -
  have pass: "pass_fields [] rest = Some found \<longleftrightarrow> rest = map assignment found \<and> fresh_assignments [] found" for found
    by (auto simp: pass_fields_iff)
  have "?P found \<longleftrightarrow> ?Q found" for found
  proof (cases "length found = 5 \<and> fresh_assignments [] found")
    case True
    then have "distinct (map fst found)" "length found = 5" by (simp_all add: fresh_assignments_def)
    note read = boot_assignments_read [OF this assms]
    show ?thesis unfolding pass using True by (simp only: read simp_thms)
  next
    case False
    then show ?thesis unfolding pass using boot_assignments_fresh [OF _ _ assms, of found] by blast
  qed
  then show ?thesis by simp
qed

definition evidence_line_ok :: "string \<Rightarrow> string \<Rightarrow> bool" where
  "evidence_line_ok digest line \<longleftrightarrow> length (Fields line) = 6 \<and> Fields line ! 0 = signedBootMarker
     \<and> (\<exists>found s. pass_fields [] (drop 1 (Fields line)) = Some found \<and> length found = 5 \<and> field_of found ''boot_img_sha256'' = digest
        \<and> field_of found ''root'' = ''/dev/mapper/root'' \<and> field_of found ''rollback'' = ''unimplemented''
        \<and> field_of found ''enrollment_ready'' = ''false'' \<and> field_of found ''signed'' = s
        \<and> length s = 8 \<and> lower_text s = s \<and> (\<exists>n. signed_value s = Some n \<and> n AND 8 = 8))"

lemma evidence_cases: "(xs = [] \<Longrightarrow> P) \<Longrightarrow> (\<And>x. xs = [x] \<Longrightarrow> P) \<Longrightarrow> (\<And>x y zs. xs = x # y # zs \<Longrightarrow> P) \<Longrightarrow> P"
  by (metis list.exhaust)

lemma evidence_checked:
  "validateSignedBootEvidence evidence digest = [] \<longleftrightarrow>
     (\<exists>line. filter (\<lambda>line. hasPrefix line signedBootMarker) (evidence_lines evidence) = [line] \<and> evidence_line_ok digest line)"
proof -
  define marked where "marked = filter (\<lambda>line. hasPrefix line signedBootMarker) (evidence_lines evidence)"
  show ?thesis
    unfolding validateSignedBootEvidence_def marked_def [symmetric]
    by (cases marked rule: evidence_cases) (auto simp: evidence_line_ok_def Let_def split: option.splits if_splits)
qed

lemma evidence_line_exact:
  assumes "digest \<noteq> []"
  shows "evidence_line_ok digest line \<longleftrightarrow> signed_boot_line digest line"
proof -
  let ?read = "\<lambda>rest s. \<exists>found. pass_fields [] rest = Some found \<and> length found = 5 \<and> field_of found ''boot_img_sha256'' = digest
        \<and> field_of found ''root'' = ''/dev/mapper/root'' \<and> field_of found ''rollback'' = ''unimplemented''
        \<and> field_of found ''enrollment_ready'' = ''false'' \<and> field_of found ''signed'' = s"
  let ?assigned = "\<lambda>rest s. \<exists>found. rest = map assignment found \<and> length found = 5 \<and> List.set found = boot_assignments digest s"
  let ?digits = "\<lambda>s. list_all lower_hex s \<and> bit (hex_number 0 s) 3"
  have split: "length (Fields line) = 6 \<and> Fields line ! 0 = signedBootMarker \<longleftrightarrow>
      length (drop 1 (Fields line)) = 5 \<and> Fields line = signedBootMarker # drop 1 (Fields line)"
    by (cases "Fields line") auto
  have "evidence_line_ok digest line \<longleftrightarrow> length (Fields line) = 6 \<and> Fields line ! 0 = signedBootMarker
      \<and> (\<exists>s. ?read (drop 1 (Fields line)) s \<and> length s = 8 \<and> (lower_text s = s \<and> (\<exists>n. signed_value s = Some n \<and> n AND 8 = 8)))"
    unfolding evidence_line_ok_def by blast
  also have "\<dots> \<longleftrightarrow> length (Fields line) = 6 \<and> Fields line ! 0 = signedBootMarker
      \<and> (\<exists>s. ?assigned (drop 1 (Fields line)) s \<and> length s = 8 \<and> ?digits s)"
  proof -
    have "?read rest s \<and> length s = 8 \<and> (lower_text s = s \<and> (\<exists>n. signed_value s = Some n \<and> n AND 8 = 8))
      \<longleftrightarrow> ?assigned rest s \<and> length s = 8 \<and> ?digits s" for rest s
    proof (cases "length s = 8")
      case True
      then have "s \<noteq> []" by auto
      note read = pass_fields_line [OF assms this, of rest]
      show ?thesis unfolding read signed_value_ok [OF True] ..
    qed simp
    then show ?thesis by (simp only:)
  qed
  also have "\<dots> \<longleftrightarrow> signed_boot_line digest line"
  proof
    assume l: "length (Fields line) = 6 \<and> Fields line ! 0 = signedBootMarker
      \<and> (\<exists>s. ?assigned (drop 1 (Fields line)) s \<and> length s = 8 \<and> ?digits s)"
    then have f: "Fields line = signedBootMarker # drop 1 (Fields line)" using split by blast
    obtain s found where "drop 1 (Fields line) = map assignment found" "length found = 5" "List.set found = boot_assignments digest s"
      "length s = 8" "?digits s" using l by blast
    then show "signed_boot_line digest line" unfolding signed_boot_line_def using f by metis
  qed (auto simp: signed_boot_line_def, blast)
  finally show ?thesis .
qed

section \<open>Words of a line\<close>

definition graphic :: "char \<Rightarrow> bool" where "graphic c \<longleftrightarrow> 32 < byte c \<and> byte c < 128"

fun spaced :: "string list \<Rightarrow> string" where
  "spaced [] = []"
| "spaced [w] = w"
| "spaced (w # ws) = w @ CHR '' '' # spaced ws"

lemma space_width_graphic: "graphic c \<Longrightarrow> space_width (c # cs) = 0" "space_width (CHR '' '' # cs) = 1"
  by (simp_all add: space_width_def space_runes_def graphic_def byte_def)

lemma fields_loop_word:
  "list_all graphic w \<Longrightarrow> fields_loop acc (w @ rest) = fields_loop (rev w @ acc) rest"
  by (induction w arbitrary: acc) (simp_all add: space_width_graphic Let_def)

lemma Fields_spaced: "list_all (\<lambda>w. w \<noteq> [] \<and> list_all graphic w) ws \<Longrightarrow> Fields (spaced ws) = ws"
proof (induction ws rule: spaced.induct)
  case (2 w)
  then show ?case using fields_loop_word [of w "[]" "[]"] by (simp add: Fields_def)
next
  case (3 w v vs)
  then show ?case
    using fields_loop_word [of w "[]" "CHR '' '' # spaced (v # vs)"] by (simp add: Fields_def space_width_graphic Let_def)
qed (simp add: Fields_def)

section \<open>Metadata of a board\<close>

definition lower_hex_text :: "nat \<Rightarrow> string \<Rightarrow> bool" where
  "lower_hex_text n s \<longleftrightarrow> length s = n \<and> list_all lower_hex s"

text \<open>An address in its one spelling: six pairs of lower-case digits, not all zero, and not a group address.\<close>

definition canonical_mac :: "string \<Rightarrow> bool" where
  "canonical_mac s \<longleftrightarrow>
     length s = 17 \<and> (\<forall>i < 17. if i mod 3 = 2 then s ! i = CHR '':'' else lower_hex (s ! i))
     \<and> \<not> list_all (\<lambda>b. b = 0) (mac_bytes s) \<and> even (mac_bytes s ! 0)"

definition canonical_metadata :: "hash \<Rightarrow> Metadata \<Rightarrow> bool" where
  "canonical_metadata sha256 m \<longleftrightarrow>
     lower_hex_text 8 (md_UserSerial m) \<and> \<not> isZeroHex (md_UserSerial m)
     \<and> factoryUUIDPattern (md_FactoryUUID m) \<and> list_all (\<lambda>c. is_digit c \<or> is_lower c) (md_FactoryUUID m)
     \<and> \<not> isZeroHex (md_FactoryUUID m)
     \<and> (4 \<le> length (rv_Raw (md_BoardRevision m)) \<and> length (rv_Raw (md_BoardRevision m)) \<le> 8
         \<and> list_all lower_hex (rv_Raw (md_BoardRevision m)))
     \<and> lower_hex_text 8 (md_BoardAttributes m) \<and> lower_hex_text 8 (md_BootROM m)
     \<and> (md_EEPROMHash m = [] \<or> lower_hex_text 64 (md_EEPROMHash m)) \<and> lower_hex_text 64 (md_CustomerKeyHash m)
     \<and> md_CustomerKeyState m = (if md_CustomerKeyHash m = zeroCustomerKey then ''unset'' else ''set'')
     \<and> canonical_mac (md_EthernetMAC m) \<and> (md_WiFiMAC m = [] \<or> canonical_mac (md_WiFiMAC m))
     \<and> (md_BluetoothMAC m = [] \<or> canonical_mac (md_BluetoothMAC m))
     \<and> distinct_macs [md_EthernetMAC m, md_WiFiMAC m, md_BluetoothMAC m]
     \<and> md_TargetFingerprint m = targetFingerprint sha256 (md_FactoryUUID m) (md_UserSerial m) (rv_Raw (md_BoardRevision m))"

lemma lower_of_hex: "is_hex c \<Longrightarrow> lower_hex (to_lower c)"
proof -
  have low: "byte (char_of (byte c + 32)) = byte c + 32" if "byte c \<le> 90" using that by (simp add: byte_def)
  show "is_hex c \<Longrightarrow> lower_hex (to_lower c)"
    using low by (auto simp: is_hex_def from_hex_char_def is_digit_def is_upper_def to_lower_def lower_hex_def split: if_splits)
qed

lemma lower_of_hexes: "list_all is_hex s \<Longrightarrow> list_all lower_hex (map to_lower s)"
  by (auto simp: list_all_iff lower_of_hex)

lemma zero_key:
  assumes "lower_hex_text 64 s"
  shows "isZeroHex s \<longleftrightarrow> s = zeroCustomerKey"
proof -
  have "length s = 64" "s \<noteq> []" using assms by (auto simp: lower_hex_text_def)
  then show ?thesis unfolding isZeroHex_def zeroCustomerKey_def list_all_iff
    by (metis in_set_replicate replicate_length_same)
qed

lemma normalized_hex:
  "normalizeFixedHex v hex8Pattern = Inr y \<Longrightarrow> lower_hex_text 8 y"
  "normalizeFixedHex v hex64Pattern = Inr y \<Longrightarrow> lower_hex_text 64 y"
  "DecodeRevision v = Inr r \<Longrightarrow> 4 \<le> length (rv_Raw r) \<and> length (rv_Raw r) \<le> 8 \<and> list_all lower_hex (rv_Raw r)"
  by (auto simp: normalizeFixedHex_def lower_hex_text_def hex8Pattern_def hex64Pattern_def DecodeRevision_def Let_def
      hexRevisionPattern_def lower_of_hexes split: if_splits)

lemma hex_value_lower: "from_hex_char (to_lower c) = from_hex_char c"
proof -
  have low: "byte (char_of (byte c + 32)) = byte c + 32" if "byte c \<le> 90" using that by (simp add: byte_def)
  show ?thesis using low by (auto simp: from_hex_char_def is_digit_def is_upper_def to_lower_def)
qed

lemma hex_number_lower: "hex_number n (map to_lower s) = hex_number n s"
  by (induction s arbitrary: n) (simp_all add: hex_value_lower)

lemma mac_bytes_lower: "mac_bytes (map to_lower s) = mac_bytes s"
  by (simp add: mac_bytes_def drop_map take_map hex_number_lower)

lemma normalized_mac:
  assumes "normalizeMAC v = Inr y"
  shows "canonical_mac y"
proof -
  have m: "macPattern v" "\<not> list_all (\<lambda>b. b = 0) (mac_bytes v)" "mac_bytes v ! 0 mod 2 = 0" "y = map to_lower v"
    using assms by (auto simp: normalizeMAC_def split: if_splits)
  have "to_lower (CHR '':'') = CHR '':''" by code_simp
  then show ?thesis
    using m lower_of_hex by (auto simp: canonical_mac_def macPattern_def mac_bytes_lower even_iff_mod_2_eq_zero)
qed

lemma normalized_optional_mac: "normalizeOptionalMAC v = Inr y \<Longrightarrow> y = [] \<or> canonical_mac y"
  using normalized_mac by (auto simp: normalizeOptionalMAC_def split: if_splits)

lemma lower_text_lower: "list_all (\<lambda>c. \<not> is_upper c) (lower_text s)"
proof (induction s rule: lower_text.induct)
  case (2 c cs)
  have "\<not> is_upper (to_lower c)" by (auto simp: to_lower_def is_upper_def byte_def)
  moreover have "\<not> is_upper (CHR ''i'')" "\<not> is_upper (CHR ''k'')" by code_simp+
  ultimately show ?case using 2 by simp
qed simp

lemma lower_uuid: "factoryUUIDPattern (lower_text s) \<Longrightarrow> list_all (\<lambda>c. is_digit c \<or> is_lower c) (lower_text s)"
  using lower_text_lower [of s] by (auto simp: factoryUUIDPattern_def is_alnum_def list_all_iff simp del: lower_text.simps)

lemma Inr_elims:
  "bindE v f = Inr y \<Longrightarrow> (\<And>x. v = Inr x \<Longrightarrow> f x = Inr y \<Longrightarrow> P) \<Longrightarrow> P"
  "orFail c k = Inr y \<Longrightarrow> (c = None \<Longrightarrow> k = Inr y \<Longrightarrow> P) \<Longrightarrow> P"
  "(if b then Inl err else k) = Inr y \<Longrightarrow> (\<not> b \<Longrightarrow> k = Inr y \<Longrightarrow> P) \<Longrightarrow> P"
  by (auto split: if_splits)

lemma parsed_metadata:
  assumes "ParseMetadata sha256 scan data = Inr m"
  shows "canonical_metadata sha256 m"
proof -
  have eeprom: "x = [] \<or> lower_hex_text 64 x" if "(if v \<noteq> [] then normalizeFixedHex v hex64Pattern else Inr []) = Inr x" for v x
    using that normalized_hex(2) by (auto split: if_splits)
  show ?thesis
    using assms unfolding ParseMetadata_def Let_def
    apply (elim Inr_elims)
    apply (drule normalized_hex normalized_hex(3) eeprom normalized_mac normalized_optional_mac)+
    apply (simp only: sum.inject, hypsubst)
    apply (simp add: canonical_metadata_def zero_key lower_uuid del: lower_text.simps)
    done
qed

end
