(* ===== verification/Adapter_Properties.thy ===== *)
theory Adapter_Properties
  imports Adapter_Demo_Calls Adapter_Evidence
begin

text \<open>
  The properties of the Raspberry Pi 5 adapter. \<open>new_events s s'\<close> are the events of a call: programs started, power
  acquired and released, prompts, readings of the USB topology, and journal writes.
\<close>

section \<open>Replies\<close>

lemma observe_reply:
  assumes "run_state (Adapter_Observe e lane action) s = (reply, s')"
  shows "(\<exists>ob err. reply = Replied ob err \<and> err \<noteq> [])
    \<or> (\<exists>ob. reply = Replied ob [] \<and> ob_EligibleTargets ob = 1 \<and> ob_RPIBootSysfsPath ob = cf_RPIBootSysfsPath lane
          \<and> ob_TargetFingerprint ob = ha_TargetFingerprint action \<and> ha_PowerControlMode action = cf_PowerControlMode lane)"
proof -
  obtain err s1 where ad: "run_state (admit e lane action False) s = (err, s1)" by fastforce
  show ?thesis
  proof (cases "err = []")
    case False
    then show ?thesis using assms ad by (auto simp: Adapter_Observe_def run_bind)
  next
    case True
    note valid = admit_ok [OF ad [unfolded True]]
    obtain r outcome err' s2 where t:
      "run_state (runBootTransition e lane action (observe_payload e lane action)) s1 = ((r, outcome, err'), s2)"
      by (metis prod.exhaust)
    have read: "err' = [] \<Longrightarrow> target_read (ha_TargetFingerprint action) s2"
      using returnsD [OF observed.result_transition [OF observation_rpiboot [OF valid]] t] by simp
    have "s' = s2" and reply: "reply = (if err' \<noteq> [] then Replied (zero_Observation\<lparr>ob_BootTransition := outcome\<rparr>) err'
        else (case cachedObservation lane s2 of None \<Rightarrow> Panicked
          | Some result \<Rightarrow> Replied (result\<lparr>ob_BootTransition := outcome\<rparr>) []))"
      using assms ad True t by (auto simp: Adapter_Observe_def run_bind gets_def split: option.splits)
    then show ?thesis
      using read admitted_action(2) [OF valid]
      by (cases "err' = []") (auto simp: target_read_def cachedObservation_def)
  qed
qed

lemma commit_reply:
  assumes "run_state (Adapter_Execute e lane action) s = (Replied r [], s')"
    and "ha_Operation action = OperationProgramCustomerKeyAndEEPROM"
  shows "commit_done (ae_config e) (ha_TargetFingerprint action) r s'"
proof -
  obtain err s1 where ad: "run_state (admit e lane action True) s = (err, s1)" by fastforce
  have err: "err = []" using assms(1) ad by (auto simp: Adapter_Execute_def run_bind split: if_splits)
  note valid = admit_ok [OF ad [unfolded err]]
  have payload: "execute_payload e lane action = Adapter_commitLocked e lane (ha_TargetFingerprint action)"
    by (simp add: execute_payload_def assms(2))
  obtain r' outcome err' s2 where t:
    "run_state (runBootTransition e lane action (Adapter_commitLocked e lane (ha_TargetFingerprint action))) s1 = ((r', outcome, err'), s2)"
    by (metis prod.exhaust)
  have "err' = []" "s' = s2" "r = r'\<lparr>re_BootTransition := outcome\<rparr>"
    using assms(1) ad err t payload by (auto simp: Adapter_Execute_def run_bind)
  then show ?thesis
    using returnsD [OF committed.result_transition [OF program_rpiboot [OF valid assms(2)]] t] by simp
qed

lemma log_guarded_new: "log_guarded e lane action s s' \<Longrightarrow> commit_guarded e lane action (new_events s s')"
  by (auto simp: log_guarded_def new_events_def)

lemma follows_new: "follows L s s' \<Longrightarrow> rg_store s' = run_boot_ops L (journal_ops (new_events s s')) (rg_store s)"
  by (auto simp: follows_def new_events_def)

lemma demo_execute_run:
  obtains r s' where "run_state (Adapter_Execute (demo_adapter 36) lane_config (lane_action HardwarePhaseExecute)) demo_rig = (Replied r [], s')"
  using demo_executed by (auto simp: wp_def split: prod.splits)

lemma demo_observe_run:
  obtains ob s' where "run_state (Adapter_Observe (demo_adapter 28) lane_config (lane_action HardwarePhasePreObservation)) demo_rig
    = (Replied ob [], s')"
  using demo_observed by (auto simp: wp_def split: prod.splits)

section \<open>Starting programs\<close>

text \<open>
  Property C2. Both calls of the adapter run nothing but \<^verbatim>\<open>rpiboot\<close> as a program on the target, only on the lane's own USB device and only with
  a bundle that the action permits, and only while the journal holds a boot transition of exactly that action whose
  BOOTSEL button the operator has acknowledged as released. Whatever the environment answers, no other start happens.
  The \<^verbatim>\<open>gpioset\<close> processes of the relay are events of their own.
\<close>

theorem rpiboot_only_when_released:
  "list_all (released_run e lane action) (new_events s (snd (run_state (Adapter_Observe e lane action) s)))
   \<and> list_all (released_run e lane action) (new_events s (snd (run_state (Adapter_Execute e lane action) s)))"
  using events_grow_new [OF call_rel [OF released_calls(1)]] events_grow_new [OF call_rel [OF released_calls(2)]] by blast

text \<open>
  Property C3. The irreversible commit bundle is started only after a readback in the same call has shown the board
  that the action names, still without a customer key, provided the configuration keeps the commit bundle apart from
  the bundles that only read or test.
\<close>

theorem commit_after_identity:
  assumes "commit_apart (ag_Paths (ae_config e))"
  shows "commit_guarded e lane action (new_events s (snd (run_state (Adapter_Execute e lane action) s)))"
  by (rule log_guarded_new [OF call_rel [OF guarded_execute [OF assms]]])

theorem commit_after_identity_witness:
  "commit_guarded (demo_adapter 36) lane_config (lane_action HardwarePhaseExecute)
     (new_events demo_rig (snd (run_state (Adapter_Execute (demo_adapter 36) lane_config (lane_action HardwarePhaseExecute)) demo_rig)))"
proof -
  have "commit_apart (ag_Paths (ae_config (demo_adapter 36)))" by (simp add: commit_apart_def demo_paths_def)
  then show ?thesis by (rule commit_after_identity)
qed

section \<open>The journal\<close>

text \<open>
  A call changes the lane's journal only by the boot operations it logs, in their order: the store after the
  call is the store before it under \<^verbatim>\<open>run_boot_ops\<close>, which is all that the lane guard assumes of its hardware.
\<close>

theorem calls_are_boot_ops:
  "(let s' = snd (run_state (Adapter_Observe e lane action) s)
    in rg_store s' = run_boot_ops (ae_lane e) (journal_ops (new_events s s')) (rg_store s))
   \<and> (let s' = snd (run_state (Adapter_Execute e lane action) s)
      in rg_store s' = run_boot_ops (ae_lane e) (journal_ops (new_events s s')) (rg_store s))"
  unfolding Let_def
  using follows_new [OF call_rel [OF follow.keeps_observe]] follows_new [OF call_rel [OF follow.keeps_execute]] by blast

text \<open>
  Property C10. Before a call begins a transition, powers the target through the relay or starts \<^verbatim>\<open>rpiboot\<close>, it has ended every transition
  that a crash had left open, and no transition of the journal is quarantined: a call splits into a first part that does
  none of this and, only on a journal that is settled after that part, the rest.
\<close>

theorem recovery_comes_first:
  "recovers_first (ae_lane e) s (snd (run_state (Adapter_Observe e lane action) s))
   \<and> recovers_first (ae_lane e) s (snd (run_state (Adapter_Execute e lane action) s))"
  using call_rel [OF calls_recover_first(1)] call_rel [OF calls_recover_first(2)] by blast

section \<open>Replies to the guard\<close>

text \<open>
  Property C13. An observation that the adapter returns without an error is accepted by the lane guard on the journal that
  the call leaves: one target, on the lane's own port, with the fingerprint of the action, and a completed transition
  that the journal holds.
\<close>

theorem observation_accepted:
  assumes "run_state (Adapter_Observe e lane action) s = (Replied ob [], s')"
  shows "observeBoundTarget (ae_lane e) None lane (ha_TargetFingerprint action) action ob [] (rg_store s') = (ob, [])"
proof -
  have ok: "ob_EligibleTargets ob = 1" "ob_RPIBootSysfsPath ob = cf_RPIBootSysfsPath lane"
    "ob_TargetFingerprint ob = ha_TargetFingerprint action" "ha_PowerControlMode action = cf_PowerControlMode lane"
    using observe_reply [OF assms] by auto
  have "completed_in e action (ob_BootTransition ob) s'"
    using returnsD [OF done_observe assms] by (simp add: done_call_def)
  from outcome_accepted [OF this ok(4)] show ?thesis using ok by (simp add: observeBoundTarget_def)
qed

theorem observation_accepted_witness:
  "\<exists>ob s'. run_state (Adapter_Observe (demo_adapter 28) lane_config (lane_action HardwarePhasePreObservation)) demo_rig = (Replied ob [], s')
     \<and> observeBoundTarget demo_lane None lane_config demo_digest (lane_action HardwarePhasePreObservation) ob [] (rg_store s') = (ob, [])"
proof -
  obtain ob s' where run: "run_state (Adapter_Observe (demo_adapter 28) lane_config (lane_action HardwarePhasePreObservation)) demo_rig
    = (Replied ob [], s')" by (rule demo_observe_run)
  from observation_accepted [OF run] show ?thesis using run by auto
qed

text \<open>
  An observation never panics: whenever its transition completes, the target that the answer is made
  from has been read, so the unchecked dereference in \<^verbatim>\<open>cachedObservation\<close> is safe.
\<close>

theorem observe_never_panics: "fst (run_state (Adapter_Observe e lane action) s) \<noteq> Panicked"
  using observe_reply [of e lane action s] by (metis adapter_reply.distinct(1) prod.collapse)

text \<open>
  Property C12. An execution of the programming operation that returns without an error attests exactly the customer key
  and the EEPROM of the configuration on the board that the action names, the adapter treats the board as owned from
  then on, and the guard accepts the transition that comes with the result.
\<close>

theorem commit_is_attested:
  assumes "run_state (Adapter_Execute e lane action) s = (Replied r [], s')"
    and "ha_Operation action = OperationProgramCustomerKeyAndEEPROM"
  shows "re_CommitAttestation r = attested_commit (ae_config e) (ha_TargetFingerprint action) \<and> ad_mode s' = ModeOwned
    \<and> validateBootTransitionOutcome (ae_lane e) None lane action (re_BootTransition r) True (rg_store s') = None"
proof -
  obtain err s1 where ad: "run_state (admit e lane action True) s = (err, s1)" by fastforce
  have err: "err = []" using assms(1) ad by (auto simp: Adapter_Execute_def run_bind split: if_splits)
  have "completed_in e action (re_BootTransition r) s'"
    using returnsD [OF done_execute assms(1)] by (simp add: done_call_def)
  from outcome_accepted [OF this admitted_action(2) [OF admit_ok [OF ad [unfolded err]]]] show ?thesis
    using commit_reply [OF assms] by (simp add: commit_done_def)
qed

theorem commit_is_attested_witness:
  "\<exists>r s'. run_state (Adapter_Execute (demo_adapter 36) lane_config (lane_action HardwarePhaseExecute)) demo_rig = (Replied r [], s')
     \<and> re_CommitAttestation r = attested_commit demo_adapter_config demo_digest \<and> ad_mode s' = ModeOwned"
proof -
  obtain r s' where run: "run_state (Adapter_Execute (demo_adapter 36) lane_config (lane_action HardwarePhaseExecute)) demo_rig
    = (Replied r [], s')" by (rule demo_execute_run)
  from commit_is_attested [OF run] show ?thesis using run by auto
qed

text \<open>
  Property C11. An execution that returns without an error leaves the target off: the power lease is released when the
  lane has a relay, and the last reading of the USB bus, after everything the call has started, shows no target; only the
  record of the completed transition follows it.
\<close>

theorem success_is_powered_off:
  assumes "run_state (Adapter_Execute e lane action) s = (Replied r [], s')"
  shows "(ag_PowerControl (ae_config e) = PowerControlRelay \<longrightarrow> ad_power s' = None)
    \<and> (\<exists>l topology op. rg_log s' = l @ [EvTopology topology, EvJournal op] \<and> no_target topology)"
proof -
  obtain err s1 where ad: "run_state (admit e lane action True) s = (err, s1)" by fastforce
  have err: "err = []" using assms(1) ad by (auto simp: Adapter_Execute_def run_bind split: if_splits)
  note action = admitted_action [OF admit_ok [OF ad [unfolded err]]]
  have "completed_in e action (re_BootTransition r) s'"
    using returnsD [OF done_execute assms] by (simp add: done_call_def)
  then obtain t l topology fault where t: "rg_log s' = l @ [EvTopology topology, EvJournal (PutOp fault t)]" "no_target topology"
    "bt_Action t = action" "BootTransition_Validate (ae_sha e) t = None" "bt_PowerControlMode t = PowerControlRelay \<longrightarrow> ad_power s' = None"
    unfolding completed_in_def by blast
  have "bt_PowerControlMode t = ha_PowerControlMode action"
    using transition_validated(5) [OF t(4)] t(3) by (auto simp: validatePowerControlEvidence_def split: prod.splits)
  then show ?thesis using t action by auto
qed

theorem success_is_powered_off_witness:
  "\<exists>r s' l topology op. run_state (Adapter_Execute (demo_adapter 36) lane_config (lane_action HardwarePhaseExecute)) demo_rig = (Replied r [], s')
     \<and> ad_power s' = None \<and> rg_log s' = l @ [EvTopology topology, EvJournal op] \<and> no_target topology"
proof -
  obtain r s' where run: "run_state (Adapter_Execute (demo_adapter 36) lane_config (lane_action HardwarePhaseExecute)) demo_rig
    = (Replied r [], s')" by (rule demo_execute_run)
  from success_is_powered_off [OF run] show ?thesis using run by auto
qed

section \<open>Power\<close>




section \<open>What is read\<close>

text \<open>
  Property C28. UART output is accepted as evidence of a signed boot exactly when one line starts with the marker, and that
  line is the marker followed by five assignments, in any order: the digest of the expected boot image, the verified root, no
  rollback protection, not ready for enrolment, and eight lower-case hexadecimal digits of a number with bit 3 set.
\<close>

theorem signed_evidence_exact:
  assumes "digest \<noteq> []"
  shows "validateSignedBootEvidence evidence digest = [] \<longleftrightarrow>
    (\<exists>line. filter (\<lambda>line. hasPrefix line signedBootMarker) (evidence_lines evidence) = [line] \<and> signed_boot_line digest line)"
  using evidence_checked [of evidence digest] evidence_line_exact [OF assms] by simp

definition demo_words :: "string list" where
  "demo_words = [signedBootMarker, ''signed=0000000f'', ''root=/dev/mapper/root'', ''boot_img_sha256=abc'',
     ''rollback=unimplemented'', ''enrollment_ready=false'']"

definition uart_evidence :: string where
  "uart_evidence = ''UEFI'' @ [CHR 0x0A] @ spaced demo_words @ [CHR 0x0D, CHR 0x0A]"

lemma uart_evidence_valid: "validateSignedBootEvidence uart_evidence ''abc'' = []"
proof -
  have "list_all (\<lambda>w. w \<noteq> [] \<and> list_all graphic w) demo_words" by code_simp
  then have words: "Fields (spaced demo_words) = demo_words" by (rule Fields_spaced)
  have lines: "filter (\<lambda>line. hasPrefix line signedBootMarker) (evidence_lines uart_evidence) = [spaced demo_words]" by code_simp
  have pass: "pass_fields [] (drop 1 demo_words) = Some [(''signed'', ''0000000f''), (''root'', ''/dev/mapper/root''),
      (''boot_img_sha256'', ''abc''), (''rollback'', ''unimplemented''), (''enrollment_ready'', ''false'')]"
    "length demo_words = 6" "demo_words ! 0 = signedBootMarker" by code_simp+
  have signed': "lower_text ''0000000f'' = ''0000000f''" "signed_value ''0000000f'' = Some 15" by code_simp+
  show ?thesis
    by (simp add: validateSignedBootEvidence_def lines words pass [simplified] signed' field_of_def map_get_def Let_def del: lower_text.simps)
qed

theorem signed_evidence_exact_witness:
  "\<exists>line. filter (\<lambda>line. hasPrefix line signedBootMarker) (evidence_lines uart_evidence) = [line] \<and> signed_boot_line ''abc'' line"
  using signed_evidence_exact [of "''abc''" uart_evidence] uart_evidence_valid by simp

text \<open>
  Property C29. What the adapter keeps of a program's output is its first \<^verbatim>\<open>MaximumOutputBytes\<close> bytes, however it was
  chunked, and the overflow flag is set exactly when there was more.
\<close>

theorem output_is_bounded:
  assumes "0 \<le> ag_MaximumOutputBytes (ae_config e)"
  shows "collected e chunks = \<lparr>bf_bytes = take (nat (ag_MaximumOutputBytes (ae_config e))) (concat chunks),
    bf_overflow = (ag_MaximumOutputBytes (ae_config e) < int (length (concat chunks)))\<rparr>"
  using collect_exact [of "\<lparr>bf_bytes = [], bf_overflow = False\<rparr>" _ chunks] assms by (simp add: collected_def)

theorem output_is_bounded_witness:
  "collected (demo_adapter 28 \<lparr>ae_config := demo_adapter_config\<lparr>ag_MaximumOutputBytes := 3\<rparr>\<rparr>) [''ab'', ''cd'']
     = \<lparr>bf_bytes = ''abc'', bf_overflow = True\<rparr>"
  using output_is_bounded [of "demo_adapter 28 \<lparr>ae_config := demo_adapter_config\<lparr>ag_MaximumOutputBytes := 3\<rparr>\<rparr>" "[''ab'', ''cd'']"]
  by simp

text \<open>
  Property C30. Metadata that parses is canonical: the serial number, the board attributes, the boot ROM and the two hashes
  are lower-case hexadecimal of their fixed lengths (the EEPROM hash may be absent), the revision is four to eight such
  digits, the factory identity is digits and lower-case letters in groups of three, and neither the serial nor the factory
  identity is zero. Every address present is six lower-case pairs, neither zero nor a group address, and the addresses
  differ. The key state agrees with the key, and the fingerprint is the one of these normalized fields.
\<close>

theorem metadata_is_canonical:
  assumes "ParseMetadata sha256 scan data = Inr m"
  shows "canonical_metadata sha256 m"
  by (rule parsed_metadata [OF assms])

theorem metadata_is_canonical_witness:
  "\<exists>m. ParseMetadata demo_hash (\<lambda>out. Some (demo_metadata_fields out)) fresh_output = Inr m \<and> canonical_metadata demo_hash m"
proof -
  obtain m where "output_metadata (demo_adapter 28) fresh_output = Inr m" by (rule demo_fresh)
  then have "ParseMetadata demo_hash (\<lambda>out. Some (demo_metadata_fields out)) fresh_output = Inr m"
    using demo_read(1) by (simp add: output_metadata_def demo_adapter_def demo_lane_def del: bindE_Inr)
  from metadata_is_canonical [OF this] this show ?thesis by blast
qed

end
