(* ===== verification/Spec2Isabelle.thy ===== *)
theory Spec2Isabelle
  imports Control_Properties HTTP_Properties Audit_Properties Lane_Properties Plan_Properties Bridge_Properties Adapter_Properties
begin

text \<open>
  \<^bold>\<open>Verification of the provisioning services.\<close>

  \<^emph>\<open>The program.\<close> Stations provision Raspberry Pi 5 boards through an irreversible secure-boot
  campaign. The control plane (\<^verbatim>\<open>internal/provisioning/controlplane\<close>) keeps one durable transaction
  per board: who may act on it now (claims with fence epochs), what was approved, and which of the
  campaign's operations were intended, evidenced and reconciled. The audit log
  (\<^verbatim>\<open>internal/provisioning/auditlog\<close>) keeps a hash chain of events and answers each with a receipt, whose
  identifier the control plane's records carry. Both are single-writer services behind a mutex, persist one
  JSON snapshot per change by replacing a file, and speak JSON over HTTP with client identities from
  mutual TLS (\<^verbatim>\<open>mtls/identity.go\<close>). At the station, the lane guard
  (\<^verbatim>\<open>internal/provisioning/laneguard\<close>) takes one approved plan and executes its operations on the board
  at the lane's port, each once, under the claim and fence epoch of the control plane; it journals its
  attempts and the boot transitions of the hardware adapter (\<^verbatim>\<open>internal/provisioning/physicalrpi5\<close>), which
  powers the board, has the operator hold and release its boot button, starts \<^verbatim>\<open>rpiboot\<close> on it, reads its
  metadata (\<^verbatim>\<open>rpi5\<close>) and its serial line, and proves it off again. The plan compiler
  (\<^verbatim>\<open>internal/provisioning/plancompiler\<close>) stands between them: from one snapshot of the control
  plane's transaction and of two audit records it makes the plan and the one request the guard may get. The authority bridge
  (\<^verbatim>\<open>internal/provisioning/authoritybridge\<close>) is the process that does this for a station: it reads both
  services, has the control plane check the claim against its own clock, binds, and answers over a Unix
  socket. The campaign, its release binding and the digests come from
  \<^verbatim>\<open>campaign\<close>, \<^verbatim>\<open>releasebinding\<close> and \<^verbatim>\<open>bundle/digest.go\<close>.

  \<^emph>\<open>The model.\<close> A Go function is a HOL function of the same name; a method of a service takes the
  service and returns the next one. Errors are values: \<open>'e option\<close> for a function that returns only an
  error, \<open>'e + 'a\<close> for one that returns a value too. Maps are association lists with distinct keys,
  \<^verbatim>\<open>uint64\<close> is \<open>64 word\<close>, strings are byte lists. What a call takes from outside (clock, generated
  identifiers, SHA-256, which file system step fails) is an explicit argument, \<open>env\<close> or \<open>audit_env\<close>.

  \<^item> \<open>Prelude\<close>, \<open>GoText\<close>: errors as values, maps, instants; identifiers, digests and the JSON text that
    is hashed. \<open>Campaign\<close>: the campaign's seven operations, \<^verbatim>\<open>ParseDigest\<close>, \<^verbatim>\<open>Binding.Validate\<close>.
  \<^item> \<open>Storage\<close>: \<^verbatim>\<open>storage.go\<close> as its sequence of file system steps. The locale \<open>durable_store\<close> is what
    the services rely on, interpreted on the file store and the memory store; the locale \<open>journal\<close> carries
    the argument that what holds of each saved snapshot holds after every sequence of calls and restarts.
  \<^item> \<open>Control_Types\<close>, \<open>Control_Validation\<close>, \<open>Control_Store\<close>, \<open>Control_Service\<close>: \<^verbatim>\<open>types.go\<close>,
    \<^verbatim>\<open>validation.go\<close>, \<^verbatim>\<open>store_validation.go\<close> with \<^verbatim>\<open>storage.go\<close>, and \<^verbatim>\<open>service.go\<close> with
    \<^verbatim>\<open>workflow.go\<close> of the control plane. The state is the record \<open>persistedState\<close>; each
    operation is its validation, its guards (\<open>*_apply\<close>) and the commit path (\<open>mutate\<close>, \<open>commitLocked\<close>).
  \<^item> \<open>Control_Steps\<close>, \<open>Control_Handlers\<close>: what every call shares, and what each handler keeps (locale
    \<open>control_handler\<close>). \<open>Control_Reach\<close>: the step relation of calls and restarts and the locales that
    lift invariants and orders to it. \<open>Control_Integrity\<close>, \<open>Control_Campaign\<close>, \<open>Control_Growth\<close>,
    \<open>Control_Lanes\<close>: the invariants of one transaction, of its growth and of the whole store.
    \<open>Control_Closure\<close>, \<open>Control_Progress\<close>, \<open>Control_Calls\<close>: the integrity check accepts what
    the handlers produce, so allowed calls are carried out and restarts succeed.
  \<^item> \<open>Mtls\<close>, \<open>StrictJSON\<close>, \<open>Control_HTTP\<close>, \<open>Control_Access\<close>: identities, strict decoding, the HTTP
    surface, and what it adds to the service.
  \<^item> \<open>Audit_Log\<close>, \<open>Audit_HTTP\<close>: the audit service and its surface. \<open>Audit_Chain\<close>: the integrity check
    in closed form and the hash chain. \<open>Audit_History\<close>: all histories, as a \<open>journal\<close>.
  \<^item> \<open>Lane_Types\<close>, \<open>Lane_Plan\<close>: the data of \<^verbatim>\<open>laneguard\<close>, and \<^verbatim>\<open>contracts.go\<close> with
    \<^verbatim>\<open>plan_digest.go\<close>: plans, requests, leases, canonical digests. \<open>Lane_Boot\<close>, \<open>Lane_Transition\<close>:
    \<^verbatim>\<open>boot_transition.go\<close>: the validation of a boot transition at every status, its evidence and outcome,
    its updates and generations. \<open>Lane_Journal\<close>: \<^verbatim>\<open>store.go\<close>, attempts and both stores, the file
    store over the steps of \<open>Storage\<close>. \<open>Lane_Guard\<close>, \<open>Lane_Execute\<close>: \<^verbatim>\<open>guard.go\<close>. A guard call takes
    a \<open>guard_env\<close>: the clock at each reading, the store fault of each access, what the dispatch authority
    and the cancelled contexts say, and for each hardware call either the crash of the process or the
    reply, with the writes to the journal the adapter made before it. A call returns the events it caused.
  \<^item> \<open>Lane_Writes\<close>: the locale \<open>lane_journal\<close>, the contract of an attempt store, interpreted on the file
    store and on the memory store. \<open>Lane_Plan_Facts\<close>, \<open>Lane_Calls\<close>, \<open>Lane_Effects\<close>: the checks in
    closed form and the effect of each call. \<open>Lane_Records\<close>: the invariant of the attempts of a journal.
    \<open>Lane_History\<close>: the step relation of calls, adapter writes, crashes and restarts, and the locales
    \<open>lane_invariant\<close> and \<open>lane_order\<close> that lift invariants and orders to histories. \<open>Lane_Boot_Facts\<close>:
    boot transitions, that every write can be read back, and the two stores call by call. \<open>Lane_Demo\<close>, \<open>Lane_Demo_Run\<close>, \<open>Lane_Demo_Execute\<close>: a plan executed, interrupted
    and quarantined, for the witnesses of \<open>Lane_Properties\<close>.
  \<^item> \<open>Plan_Compiler\<close>: \<^verbatim>\<open>compiler.go\<close>, drafts and snapshots. \<open>Plan_Authority\<close>: \<^verbatim>\<open>authority.go\<close> and
    \<^verbatim>\<open>reconciliation.go\<close>, binding. \<open>Plan_Facts\<close>, \<open>Plan_Binding\<close>: both in closed form over the
    definitions of the services and of the guard, which the package restates. \<open>Plan_Demo\<close>: a transaction whose
    bound plan is the plan of the lane's run. \<open>Plan_Properties\<close>: what the three parts give together.
  \<^item> \<open>Bridge_JSON\<close>: transactions, plans and requests as JSON text. \<open>Bridge\<close>: \<^verbatim>\<open>bridge.go\<close>, with what each
    read returns as an argument. \<open>Bridge_Wire\<close>: \<^verbatim>\<open>wire.go\<close>, one connection at both ends.
    \<open>Bridge_Facts\<close>: the checks in closed form and that a resource version identifies the state of a
    transaction. \<open>Bridge_Demo\<close>, \<open>Bridge_Properties\<close>: a binding on the control plane's run, the properties.
  \<^item> \<open>GoUnicode\<close>: text functions of the standard library over runes. \<open>Operator_Prompt\<close>:
    \<^verbatim>\<open>operatorprompt/prompt.go\<close>. \<open>Board_Metadata\<close>: \<^verbatim>\<open>rpi5/metadata.go\<close> and \<^verbatim>\<open>ExtractMetadataObject\<close>.
    \<open>Power_Lease\<close>: the relay line of \<^verbatim>\<open>physicalrpi5/system.go\<close>. \<open>Adapter_Env\<close>: configuration, readings and
    the fields of the adapter, a record \<open>rig\<close> that also holds the journal and the log of what the adapter does to the
    outside. \<open>Adapter_Steps\<close>, \<open>Adapter\<close>, \<open>Adapter_Run\<close>, \<open>Adapter_Calls\<close>: \<^verbatim>\<open>adapter.go\<close> in the state monad
    over the rig; every answer of the environment is numbered, so no two readings share one.
  \<^item> \<open>Adapter_Orders\<close>: a hierarchy of locales, one for each kind of step a relation on rigs may allow, which carries
    such a relation through all calls. \<open>Adapter_Facts\<close>, \<open>Adapter_Commit\<close>, \<open>Adapter_Outcome\<close>, \<open>Adapter_Result\<close>: its
    interpretations: the journal follows the log, starts happen in released transitions, commits after a readback; what a
    reply without an error shows, with the locale \<open>payload_result\<close>, recovery, and a holder that is lost. \<open>Adapter_Evidence\<close>: exact
    descriptions of what is read. \<open>Adapter_Demo\<close>, \<open>Adapter_Demo_Calls\<close>: both calls run to success on the
    demonstration lane, by weakest preconditions. \<open>Adapter_Properties\<close>: the properties.
  \<^item> \<open>Demo_Hash\<close>: the hash function of the demonstration runs.
  \<^item> \<open>Control_Demo\<close>: complete runs of one transaction, on which the witnesses evaluate.
    \<open>Control_Properties\<close>, \<open>HTTP_Properties\<close>, \<open>Audit_Properties\<close>: the properties.

  \<^emph>\<open>What is shown.\<close> Safety of the control plane over every history: a lane has one holder, an
  old fence epoch can do nothing, the campaign runs in order and under approval, security-applied means
  that all seven operations were completed, terminal states and history are final. Durability: what was
  acknowledged survives a restart, restarts succeed, failed calls are harmless, retries are replays.
  Progress: a call whose guards hold is carried out, and the integrity check refuses exactly one kind of
  request that passed them, which the same theorem names. At the surface: each command is bound to the verified identity that
  may make it, reads are scoped. For the audit log: it is append-only and gap-free, receipts are final
  and anchor everything before them, events are attributed. For the lane guard, over every history with
  crashes: an operation is executed at most once, in the order of the plan, under a live approval, lease
  and authority on the bound target; the intent is durable before the hardware acts; a verified attempt is
  proved by what was observed; attempts are never lost, reconciliation never executes, quarantine locks.
  The file journal answers every sequence of calls as the memory journal does, and boot transitions only move
  forward. For the plan
  compiler: what it binds the guard accepts, every execution of a bound plan is the pending intent of the
  control plane with its audit record, after operations that were completed with evidence, and it recognises exactly the receipts the audit log issues. For the bridge: what it binds is current on the
  control plane's clock with the lease and approval time left that the operation needs, and its client gets
  exactly what it bound. For the device adapter, whatever its environment answers: \<^verbatim>\<open>rpiboot\<close> is started only with a permitted
  bundle while the journal holds the released transition of that action, the irreversible bundle only after a readback of the
  same call has shown the right board without a key, nothing before interrupted transitions are ended and while one is
  quarantined; after a relay holder that it could not account for it never powers the relay again; what it
  returns without an error the guard accepts, and it leaves the board off.

  \<^emph>\<open>Bounds.\<close> All functions are total; the loops recurse over the data they range over and need no
  fuel, but for the two waits of the adapter for the USB bus: they poll until their deadline, and how many polls it leaves
  room for is an answer of the environment, over which the properties quantify. Counters are 64-bit words; where a property needs that one does not wrap it says so, as a bound on
  the length of the log or on the counter.

  \<^emph>\<open>Not modelled.\<close> The parser and the reflective decoder of \<^verbatim>\<open>encoding/json\<close> are parameters of the
  HTTP definitions, \<^verbatim>\<open>url.Parse\<close> one of the audit log's, SHA-256 one of everything that hashes (of
  which only the length of its result and, where stated, collision freedom on given records is used). TLS
  chain verification is the library's: a request holds its result. File permissions and the bytes of the
  stored snapshots are not represented; the lane journal's encoded size is a parameter, and the scan of its
  text for duplicate keys is left out. Locking is modelled by making a call one step. The background watcher of a normal boot is
  the list of its polls; that it cancels the capture on the serial line shows only as a capture that fails. System calls, the
  settings of the serial line and the pinning of a USB instance are answers of the environment. The operator workflow, the
  station's pages and the packages that write disks, start other processes and call signers are outside this development.
\<close>

end
